(* ===== verification/Prelude.thy ===== *)
theory Prelude
  imports
    Complex_Main
    "HOL-Library.Product_Lexorder"
    "HOL-Library.List_Lexorder"
    "HOL-Library.Char_ord"
begin

text \<open>
  Shared vocabulary of the development: the errors a handler of the backend can end with, the
  result type of a handler and its sequencing, JSON documents, the three-way value of a PATCH
  field, and tables of rows with a primary key. A table is the list of its rows in insertion
  order; the locale \<open>table\<close> states how a table sits inside a larger state and carries the
  lookup/insert/update/delete laws the components use.
\<close>

section \<open>Errors and results\<close>

type_synonym ident = string
type_synonym timestamp = int

text \<open>
  \<open>HTTPException\<close> is an error the handler raises on purpose (status code and detail);
  \<open>RevisionConflict\<close> is the structured 409 of \<open>revision_conflict\<close>. The others are
  exceptions the handler does not catch (the client sees a 500): a violated database constraint,
  \<open>scalar_one_or_none\<close> on several rows, and Python's own errors. Where a detail interpolates
  values into its text, the model keeps the fixed part.
\<close>

datatype error =
    HTTPException int string
  | RevisionConflict string ident int "int option"
  | IntegrityError
  | MultipleResultsFound
  | TypeError
  | KeyError
  | AttributeError
  | StatementError
  | ValueError
  | JSONDecodeError
  | OtherException

type_synonym 'a result = "error + 'a"

definition and_then :: "'e + 'a \<Rightarrow> ('a \<Rightarrow> 'e + 'b) \<Rightarrow> 'e + 'b" where
  "and_then m f = (case m of Inl e \<Rightarrow> Inl e | Inr x \<Rightarrow> f x)"

named_theorems result_simps

lemma and_then_Inr [result_simps]: "and_then (Inr x) f = f x"
  by (simp add: and_then_def)

lemma and_then_Inl [result_simps]: "and_then (Inl e) f = Inl e"
  by (simp add: and_then_def)

lemma and_then_eq_Inr [result_simps]: "and_then m f = Inr y \<longleftrightarrow> (\<exists>x. m = Inr x \<and> f x = Inr y)"
  by (cases m) (auto simp: and_then_def)

lemma and_then_eq_Inl:
  "and_then m f = Inl e \<longleftrightarrow> m = Inl e \<or> (\<exists>x. m = Inr x \<and> f x = Inl e)"
  by (cases m) (auto simp: and_then_def)

lemma case_sum_eq_Inr:
  "(case m of Inl e \<Rightarrow> Inl e | Inr x \<Rightarrow> f x) = Inr y \<longleftrightarrow> (\<exists>x. m = Inr x \<and> f x = Inr y)"
  by (cases m) auto

lemma if_Inl_eq_Inr [result_simps]: "(if c then Inl e else m) = Inr y \<longleftrightarrow> \<not> c \<and> m = Inr y"
  by auto

lemma option_Inl_eq_Inr [result_simps]:
  "(case x of None \<Rightarrow> Inl e | Some v \<Rightarrow> f v) = Inr y \<longleftrightarrow> (\<exists>v. x = Some v \<and> f v = Inr y)"
  by (cases x) auto

text \<open>A loop whose body can fail: stops at the first error, as the exception would.\<close>

fun fold_result :: "('a \<Rightarrow> 's \<Rightarrow> 'e + 's) \<Rightarrow> 'a list \<Rightarrow> 's \<Rightarrow> 'e + 's" where
  "fold_result f [] s = Inr s"
| "fold_result f (x # xs) s = and_then (f x s) (fold_result f xs)"

lemma fold_result_invariant:
  assumes "fold_result f xs s = Inr s'" and "I s"
    and "\<And>x s s'. x \<in> set xs \<Longrightarrow> I s \<Longrightarrow> f x s = Inr s' \<Longrightarrow> I s'"
  shows "I s'"
  using assms by (induction xs arbitrary: s) (auto simp: result_simps)

section \<open>Documents and PATCH fields\<close>

text \<open>JSON values; an object is the list of its members, in order.\<close>

datatype json =
    JNull
  | JBool bool
  | JNum rat
  | JStr string
  | JList "json list"
  | JObj "(string \<times> json) list"

text \<open>
  A field of a request body: absent (\<open>Unset\<close>, left out by \<open>exclude_unset\<close>), an explicit
  null (\<open>Assign None\<close>), or a value.
\<close>

datatype 'a field = Unset | Assign "'a option"

fun is_set :: "'a field \<Rightarrow> bool" where
  "is_set Unset = False"
| "is_set (Assign _) = True"

text \<open>
  Writing a field to a nullable column, and to a \<open>NOT NULL\<close> column. In the second case
  an explicit null is only noticed by the database, when the row is flushed.
\<close>

fun assign_nullable :: "'a field \<Rightarrow> 'a option \<Rightarrow> 'a option" where
  "assign_nullable Unset old = old"
| "assign_nullable (Assign v) old = v"

fun assign_required :: "'a field \<Rightarrow> 'a \<Rightarrow> 'a" where
  "assign_required (Assign (Some v)) old = v"
| "assign_required _ old = old"

fun is_null :: "'a field \<Rightarrow> bool" where
  "is_null (Assign None) = True"
| "is_null _ = False"

text \<open>Python's \<open>d.get(k, default)\<close> on a member read as a field, and \<open>d.get(k) or default\<close>.\<close>

fun get_default :: "'a option \<Rightarrow> 'a field \<Rightarrow> 'a option" where
  "get_default d Unset = d"
| "get_default d (Assign v) = v"

text \<open>The members \<open>model_dump(exclude_unset=True)\<close> keeps of a body.\<close>

fun member :: "string \<Rightarrow> ('a \<Rightarrow> json) \<Rightarrow> 'a field \<Rightarrow> (string \<times> json) list" where
  "member k enc Unset = []"
| "member k enc (Assign None) = [(k, JNull)]"
| "member k enc (Assign (Some v)) = [(k, enc v)]"

definition jint :: "int \<Rightarrow> json" where
  "jint i = JNum (of_int i)"

definition jopt :: "string option \<Rightarrow> json" where
  "jopt x = (case x of None \<Rightarrow> JNull | Some s \<Rightarrow> JStr s)"

definition jstrings :: "string list \<Rightarrow> json" where
  "jstrings xs = JList (map JStr xs)"

text \<open>Writing a field to a JSON column, and Python's truth value of a JSON document with \<open>x or d\<close>.\<close>

fun assign_json :: "('a \<Rightarrow> json) \<Rightarrow> 'a field \<Rightarrow> json \<Rightarrow> json" where
  "assign_json enc Unset old = old"
| "assign_json enc (Assign None) old = JNull"
| "assign_json enc (Assign (Some v)) old = enc v"

fun json_truthy :: "json \<Rightarrow> bool" where
  "json_truthy JNull = False"
| "json_truthy (JBool b) = b"
| "json_truthy (JNum r) = (r \<noteq> 0)"
| "json_truthy (JStr s) = (s \<noteq> [])"
| "json_truthy (JList xs) = (xs \<noteq> [])"
| "json_truthy (JObj ms) = (ms \<noteq> [])"

definition json_or :: "json \<Rightarrow> json \<Rightarrow> json" where
  "json_or j d = (if json_truthy j then j else d)"

text \<open>A member of an object, as \<open>payload["k"].as_string()\<close> selects it.\<close>

definition json_member :: "string \<Rightarrow> json \<Rightarrow> json option" where
  "json_member k j = (case j of JObj ms \<Rightarrow> map_of ms k | _ \<Rightarrow> None)"

text \<open>Truth of an optional string (\<open>None\<close> and the empty string are false), \<open>x or None\<close>, \<open>x or d\<close>.\<close>

definition truthy :: "string option \<Rightarrow> bool" where
  "truthy x \<longleftrightarrow> (case x of None \<Rightarrow> False | Some s \<Rightarrow> s \<noteq> [])"

definition or_none :: "string option \<Rightarrow> string option" where
  "or_none x = (if truthy x then x else None)"

definition or_default :: "'a list option \<Rightarrow> 'a list \<Rightarrow> 'a list" where
  "or_default x d = (case x of None \<Rightarrow> d | Some s \<Rightarrow> if s = [] then d else s)"

lemma truthy_Some: "truthy x \<longleftrightarrow> (\<exists>s. x = Some s \<and> s \<noteq> [])"
  by (auto simp: truthy_def split: option.splits)

lemma or_none_simps [simp]: "or_none None = None" "or_none (Some s) = (if s = [] then None else Some s)"
  by (auto simp: or_none_def truthy_def)

section \<open>Strings\<close>

text \<open>
  A Python \<open>str\<close> is the list of its characters, here the code points below 256. \<open>py_space\<close>
  is the white space \<open>str.strip\<close> removes among them.
\<close>

definition py_space :: "char \<Rightarrow> bool" where
  "py_space c \<longleftrightarrow> of_char c \<in> {9, 10, 11, 12, 13, 28, 29, 30, 31, 32, 133, 160 :: nat}"

definition strip :: "string \<Rightarrow> string" where
  "strip s = rev (dropWhile py_space (rev (dropWhile py_space s)))"

definition starts_with :: "string \<Rightarrow> string \<Rightarrow> bool" where
  "starts_with p s \<longleftrightarrow> take (length p) s = p"

lemma length_strip: "length (strip s) \<le> length s"
  by (metis length_dropWhile_le length_rev order_trans strip_def)

definition rstrip_slash :: "string \<Rightarrow> string" where
  "rstrip_slash s = rev (dropWhile (\<lambda>c. c = CHR ''/'') (rev s))"

section \<open>Tables with a primary key\<close>

definition row_get :: "('r \<Rightarrow> ident) \<Rightarrow> 'r list \<Rightarrow> ident \<Rightarrow> 'r option" where
  "row_get k rs i = find (\<lambda>r. k r = i) rs"

definition row_update :: "('r \<Rightarrow> ident) \<Rightarrow> ident \<Rightarrow> ('r \<Rightarrow> 'r) \<Rightarrow> 'r list \<Rightarrow> 'r list" where
  "row_update k i f rs = map (\<lambda>r. if k r = i then f r else r) rs"

definition row_delete :: "('r \<Rightarrow> ident) \<Rightarrow> ident \<Rightarrow> 'r list \<Rightarrow> 'r list" where
  "row_delete k i rs = filter (\<lambda>r. k r \<noteq> i) rs"

definition has_row :: "('r \<Rightarrow> ident) \<Rightarrow> 'r list \<Rightarrow> ident \<Rightarrow> bool" where
  "has_row k rs i \<longleftrightarrow> i \<in> k ` set rs"

lemma has_row_code [code]: "has_row k rs i = list_ex (\<lambda>r. k r = i) rs"
  by (auto simp: has_row_def list_ex_iff)

lemma row_get_Some: "row_get k rs i = Some r \<Longrightarrow> r \<in> set rs \<and> k r = i"
  by (auto simp: row_get_def find_Some_iff)

lemma row_get_key: "row_get k rs i = Some r \<Longrightarrow> row_get k rs (k r) = Some r"
  by (auto dest: row_get_Some)

lemma row_get_None: "row_get k rs i = None \<longleftrightarrow> i \<notin> k ` set rs"
  by (auto simp: row_get_def find_None_iff)

lemma has_row_iff_get: "has_row k rs i \<longleftrightarrow> (\<exists>r. row_get k rs i = Some r)"
  unfolding has_row_def by (metis not_None_eq row_get_None)

lemma has_row_get_not_None: "has_row k rs i \<longleftrightarrow> row_get k rs i \<noteq> None"
  by (simp add: has_row_iff_get)

lemma row_get_append:
  "row_get k (rs @ ss) i = (case row_get k rs i of None \<Rightarrow> row_get k ss i | Some r \<Rightarrow> Some r)"
  by (induction rs) (auto simp: row_get_def)

lemma row_get_single: "row_get k [r] i = (if k r = i then Some r else None)"
  by (simp add: row_get_def)

lemma row_get_unique:
  assumes "distinct (map k rs)" "r \<in> set rs"
  shows "row_get k rs (k r) = Some r"
  using assms by (induction rs) (auto simp: row_get_def)

lemma same_key: "distinct (map k rs) \<Longrightarrow> r \<in> set rs \<Longrightarrow> s \<in> set rs \<Longrightarrow> k r = k s \<Longrightarrow> r = s"
  by (simp add: distinct_map inj_on_def)

lemma length_filter_map_le:
  "(\<And>x. x \<in> set xs \<Longrightarrow> P (f x) \<Longrightarrow> P x) \<Longrightarrow> length (filter P (map f xs)) \<le> length (filter P xs)"
proof (induction xs)
  case (Cons x xs)
  then have "length (filter P (map f xs)) \<le> length (filter P xs)" "P (f x) \<longrightarrow> P x" by simp_all
  then show ?case by auto
qed simp

lemma row_update_absent: "i \<notin> k ` set rs \<Longrightarrow> row_update k i f rs = rs"
  unfolding row_update_def by (rule map_idI) auto

lemma length_filter_row_update:
  "distinct (map k rs) \<Longrightarrow> length (filter P (row_update k i f rs)) \<le> Suc (length (filter P rs))"
proof (induction rs)
  case (Cons r rs)
  then have "k r = i \<Longrightarrow> row_update k i f rs = rs" by (simp add: row_update_absent)
  then show ?case using Cons by (cases "k r = i") (simp_all add: row_update_def)
qed (simp add: row_update_def)

lemma row_get_iff:
  "distinct (map k rs) \<Longrightarrow> row_get k rs i = Some r \<longleftrightarrow> r \<in> set rs \<and> k r = i"
  by (metis row_get_Some row_get_unique)

lemma row_get_map:
  "(\<And>r. k (f r) = k r) \<Longrightarrow> row_get k (map f rs) i = map_option f (row_get k rs i)"
  by (induction rs) (auto simp: row_get_def)

lemma row_get_map_if:
  "(\<And>r. k (f r) = k r) \<Longrightarrow> row_get k (map (\<lambda>r. if P (k r) then f r else r) rs) i =
     (if P i then map_option f (row_get k rs i) else row_get k rs i)"
  by (induction rs) (auto simp: row_get_def)

lemma row_get_update:
  assumes "\<And>r. k (f r) = k r"
  shows "row_get k (row_update k i f rs) j = (if j = i then map_option f (row_get k rs j) else row_get k rs j)"
  unfolding row_update_def by (induction rs) (auto simp: row_get_def assms)

lemma row_get_filter:
  "(\<And>r. k r = i \<Longrightarrow> P r) \<Longrightarrow> row_get k (filter P rs) i = row_get k rs i"
  by (induction rs) (auto simp: row_get_def)

lemma row_get_delete: "row_get k (row_delete k i rs) j = (if j = i then None else row_get k rs j)"
  unfolding row_delete_def by (induction rs) (auto simp: row_get_def)

lemma set_row_update: "set (row_update k i f rs) = (\<lambda>r. if k r = i then f r else r) ` set rs"
  by (simp add: row_update_def)

lemma set_row_delete: "set (row_delete k i rs) = {r \<in> set rs. k r \<noteq> i}"
  by (auto simp: row_delete_def)

lemma map_key_row_update: "(\<And>r. k (f r) = k r) \<Longrightarrow> map k (row_update k i f rs) = map k rs"
  by (auto simp: row_update_def)

lemma keys_row_update: "(\<And>r. k (f r) = k r) \<Longrightarrow> k ` set (row_update k i f rs) = k ` set rs"
  by (metis list.set_map map_key_row_update)

lemma distinct_map_row_delete: "distinct (map k rs) \<Longrightarrow> distinct (map k (row_delete k i rs))"
  by (simp add: row_delete_def distinct_map_filter)

text \<open>
  The interface between a component and the store it lives in: a table is read with \<open>rows\<close>
  and changed with \<open>alter\<close>, and reading after altering gives the altered rows. What a lookup
  returns after each kind of write follows once and for all.
\<close>

locale table =
  fixes key :: "'r \<Rightarrow> ident"
    and rows :: "'d \<Rightarrow> 'r list"
    and alter :: "('r list \<Rightarrow> 'r list) \<Rightarrow> 'd \<Rightarrow> 'd"
  assumes rows_alter: "rows (alter f d) = f (rows d)"
begin

lemma get_after_insert:
  assumes "row_get key (rows d) (key r) = None"
  shows "row_get key (rows (alter (\<lambda>rs. rs @ [r]) d)) i =
    (if i = key r then Some r else row_get key (rows d) i)"
  using assms by (auto simp: rows_alter row_get_append row_get_single split: option.splits)

lemma get_after_update:
  assumes "\<And>r. key (f r) = key r"
  shows "row_get key (rows (alter (row_update key i f) d)) j =
    (if j = i then map_option f (row_get key (rows d) j) else row_get key (rows d) j)"
  by (simp add: rows_alter row_get_update assms)

lemma get_after_delete:
  "row_get key (rows (alter (row_delete key i) d)) j =
    (if j = i then None else row_get key (rows d) j)"
  by (simp add: rows_alter row_get_delete)

lemma keys_after_insert:
  assumes "distinct (map key (rows d))" and "row_get key (rows d) (key r) = None"
  shows "distinct (map key (rows (alter (\<lambda>rs. rs @ [r]) d)))"
  using assms by (auto simp: rows_alter row_get_None)

end

end
