(* ===== verification/Database.thy ===== *)
theory Database
  imports Prelude
begin

text \<open>
  The relational store of the backend: one record per mapped class of
  \<open>models/models.py\<close>, the tables as lists of rows in insertion order, and the statements the
  handlers issue. A statement checks what SQLite checks: primary keys, foreign keys (the
  connection sets \<open>PRAGMA foreign_keys=ON\<close>) with their \<open>ON DELETE\<close> actions, and the partial unique
  index and triggers of \<open>db/schema_contract.py\<close> that allow one mainline child per parent. A
  violated constraint is \<open>IntegrityError\<close>. \<open>schema_ok\<close> is what these constraints keep true; every
  statement preserves it.

  Column types: a nullable column is an option, a JSON column a \<open>json\<close> (with \<open>JNull\<close> for
  \<open>None\<close>) or a list, a float a rational, a timestamp an integer. A nullable column that every writer fills (such as the
  actor of an action log) is not an option.
\<close>

section \<open>Rows\<close>

record project =
  p_id :: ident
  p_name :: string
  p_description :: "string option"
  p_goal :: "string option"
  p_root_node_id :: "ident option"
  p_status :: string
  p_settings :: "json option"
  p_created_at :: timestamp
  p_updated_at :: timestamp
  p_revision :: int

record node =
  n_id :: ident
  n_project_id :: ident
  n_title :: string
  n_summary :: "string option"
  n_node_type :: string
  n_status :: string
  n_maturity :: string
  n_priority :: "int option"
  n_confidence :: "rat option"
  n_description :: "string option"
  n_rules_text :: "string option"
  n_constraints_text :: "string option"
  n_examples_text :: "string option"
  n_questions_text :: "string option"
  n_decision_notes :: "string option"
  n_tags :: json
  n_workflow_status :: string
  n_file_paths :: json
  n_branch_id :: "ident option"
  n_created_by :: "string option"
  n_last_edited_by :: "string option"
  n_position_x :: "rat option"
  n_position_y :: "rat option"
  n_created_at :: timestamp
  n_updated_at :: timestamp
  n_revision :: int

record edge =
  e_id :: ident
  e_project_id :: ident
  e_from_node_id :: ident
  e_to_node_id :: ident
  e_relation_type :: string
  e_weight :: "rat option"
  e_note :: "string option"
  e_is_mainline :: bool
  e_created_at :: timestamp
  e_revision :: int

record content_block =
  b_id :: ident
  b_node_id :: ident
  b_block_type :: string
  b_content :: json
  b_order_index :: int
  b_created_by :: "string option"
  b_created_at :: timestamp
  b_updated_at :: timestamp
  b_revision :: int

record suggestion =
  sg_id :: ident
  sg_project_id :: ident
  sg_target_node_id :: ident
  sg_action_type :: string
  sg_status :: string
  sg_payload :: json
  sg_provider_id :: "string option"
  sg_provider_model :: "string option"
  sg_cost_estimate :: "rat option"
  sg_created_at :: timestamp
  sg_reviewed_at :: "timestamp option"
  sg_reviewed_by :: "string option"

record action_log =
  l_id :: ident
  l_project_id :: ident
  l_node_id :: "ident option"
  l_actor_type :: string
  l_actor_id :: string
  l_action_type :: string
  l_payload :: json
  l_created_at :: timestamp

record provider_config =
  pc_id :: ident
  pc_name :: string
  pc_provider_type :: string
  pc_endpoint :: "string option"
  pc_auth_type :: "string option"
  pc_secret_env_key :: "string option"
  pc_model_name :: "string option"
  pc_capabilities :: "string list option"
  pc_cost_level :: "string option"
  pc_enabled :: "bool option"
  pc_settings :: "json option"
  pc_created_at :: timestamp
  pc_updated_at :: timestamp

record branch =
  br_id :: ident
  br_project_id :: ident
  br_name :: string
  br_description :: "string option"
  br_source_node_id :: "ident option"
  br_status :: string
  br_created_at :: timestamp
  br_revision :: int

record agent_artifact =
  a_id :: ident
  a_session_id :: ident
  a_project_id :: ident
  a_target_node_id :: ident
  a_artifact_type :: string
  a_payload :: "(string \<times> json) list"
  a_status :: string
  a_review_note :: string
  a_created_at :: timestamp
  a_reviewed_at :: "timestamp option"

record agent_session =
  s_id :: ident
  s_project_id :: ident
  s_assigned_node_id :: "ident option"
  s_assigned_branch_root_id :: "ident option"
  s_provider_id :: "ident option"
  s_objective :: string
  s_mode :: string
  s_status :: string
  s_handoff_context :: "json option"
  s_result_summary :: "string option"
  s_last_heartbeat_at :: "timestamp option"
  s_created_at :: timestamp
  s_updated_at :: timestamp

record agent_grant =
  g_id :: ident
  g_token_prefix :: string
  g_token_salt :: string
  g_token_hash :: string
  g_project_id :: ident
  g_permission :: string
  g_node_scope_id :: "ident option"
  g_branch_root_id :: "ident option"
  g_label :: string
  g_agent_identity :: string
  g_status :: string
  g_expires_at :: timestamp
  g_revoked_at :: "timestamp option"
  g_last_used_at :: "timestamp option"
  g_created_at :: timestamp

record agent_receipt =
  r_id :: ident
  r_grant_id :: ident
  r_project_id :: ident
  r_idempotency_key :: string
  r_request_digest :: string
  r_action_type :: string
  r_status :: string
  r_response :: json
  r_created_at :: timestamp

text \<open>
  The operations of the Agent Port (\<open>agent_port/schemas.py\<close>), which a proposal stores. A member that
  may be null is an option.
\<close>

record node_fields =
  nf_title :: "string option"
  nf_summary :: "string option"
  nf_description :: "string option"
  nf_rules_text :: "string option"
  nf_constraints_text :: "string option"
  nf_examples_text :: "string option"
  nf_questions_text :: "string option"
  nf_decision_notes :: "string option"
  nf_tags :: "string list option"
  nf_status :: "string option"
  nf_maturity :: "string option"
  nf_priority :: "int option"
  nf_confidence :: "rat option"
  nf_workflow_status :: "string option"
  nf_file_paths :: "string list option"

record op_create_node =
  cn_id :: "ident option"
  cn_parent_id :: "ident option"
  cn_expected_parent_revision :: "int option"
  cn_branch_id :: "ident option"
  cn_title :: string
  cn_summary :: string
  cn_node_type :: string

record op_update_node =
  un_node_id :: ident
  un_expected_revision :: int
  un_fields :: node_fields

record op_create_edge =
  ce_id :: "ident option"
  ce_from_node_id :: ident
  ce_to_node_id :: ident
  ce_expected_from_revision :: int
  ce_expected_to_revision :: int
  ce_relation_type :: string
  ce_weight :: rat
  ce_note :: string

record op_create_block =
  cb_id :: "ident option"
  cb_node_id :: ident
  cb_expected_node_revision :: int
  cb_block_type :: string
  cb_content :: "(string \<times> string) list"
  cb_order_index :: int

record op_create_branch =
  cr_id :: "ident option"
  cr_source_node_id :: ident
  cr_expected_source_revision :: int
  cr_name :: string
  cr_description :: string

datatype operation =
    CreateNode op_create_node
  | UpdateNode op_update_node
  | CreateEdge op_create_edge
  | CreateBlock op_create_block
  | CreateBranch op_create_branch

record agent_proposal =
  pr_id :: ident
  pr_grant_id :: ident
  pr_project_id :: ident
  pr_target_node_id :: "ident option"
  pr_title :: string
  pr_rationale :: string
  pr_operations :: "operation list"
  pr_expected_project_revision :: int
  pr_status :: string
  pr_review_note :: string
  pr_reviewed_at :: "timestamp option"
  pr_created_at :: timestamp

record agent_event =
  ev_id :: ident
  ev_grant_id :: ident
  ev_project_id :: ident
  ev_target_node_id :: "ident option"
  ev_event_type :: string
  ev_message :: string
  ev_payload :: json
  ev_created_at :: timestamp

record agent_readback =
  rb_id :: ident
  rb_grant_id :: ident
  rb_project_id :: ident
  rb_target_node_id :: "ident option"
  rb_commit_refs :: json
  rb_files :: json
  rb_tests :: json
  rb_decisions :: json
  rb_risks :: json
  rb_todos :: json
  rb_evidence :: json
  rb_summary :: string
  rb_created_at :: timestamp

section \<open>The database and the request environment\<close>

record db =
  projects :: "project list"
  nodes :: "node list"
  edges :: "edge list"
  content_blocks :: "content_block list"
  suggestions :: "suggestion list"
  action_logs :: "action_log list"
  provider_configs :: "provider_config list"
  branches :: "branch list"
  agent_artifacts :: "agent_artifact list"
  agent_sessions :: "agent_session list"
  agent_grants :: "agent_grant list"
  agent_receipts :: "agent_receipt list"
  agent_proposals :: "agent_proposal list"
  agent_events :: "agent_event list"
  agent_readbacks :: "agent_readback list"

text \<open>
  What one request sees of the outside: the clock (\<open>datetime.now\<close>, read as one instant), the
  identifiers \<open>uuid.uuid4\<close> returns, in the order the handler draws them, whether the process
  runs in desktop mode, the active-project limit of the current entitlement, and whether the
  process runs read-only (\<open>GROWTHMAP_DB_QUERY_ONLY\<close>).
\<close>

record env =
  now :: timestamp
  uuid :: "nat \<Rightarrow> ident"
  desktop_mode :: bool
  max_active_projects :: "int option"
  query_only :: bool

definition empty_db :: db where
  "empty_db = \<lparr>projects = [], nodes = [], edges = [], content_blocks = [], suggestions = [],
     action_logs = [], provider_configs = [], branches = [], agent_artifacts = [],
     agent_sessions = [], agent_grants = [], agent_receipts = [], agent_proposals = [],
     agent_events = [], agent_readbacks = []\<rparr>"

interpretation project_table: table p_id projects projects_update
  by unfold_locales simp

interpretation node_table: table n_id nodes nodes_update
  by unfold_locales simp

interpretation edge_table: table e_id edges edges_update
  by unfold_locales simp

interpretation block_table: table b_id content_blocks content_blocks_update
  by unfold_locales simp

interpretation branch_table: table br_id branches branches_update
  by unfold_locales simp

interpretation session_table: table s_id agent_sessions agent_sessions_update
  by unfold_locales simp

interpretation artifact_table: table a_id agent_artifacts agent_artifacts_update
  by unfold_locales simp

interpretation provider_table: table pc_id provider_configs provider_configs_update
  by unfold_locales simp

section \<open>Reading: \<open>db.get\<close> by primary key\<close>

definition get_project_row :: "db \<Rightarrow> ident \<Rightarrow> project option" where
  "get_project_row db i = row_get p_id (projects db) i"

definition get_node_row :: "db \<Rightarrow> ident \<Rightarrow> node option" where
  "get_node_row db i = row_get n_id (nodes db) i"

definition get_edge_row :: "db \<Rightarrow> ident \<Rightarrow> edge option" where
  "get_edge_row db i = row_get e_id (edges db) i"

definition get_block_row :: "db \<Rightarrow> ident \<Rightarrow> content_block option" where
  "get_block_row db i = row_get b_id (content_blocks db) i"

definition get_branch_row :: "db \<Rightarrow> ident \<Rightarrow> branch option" where
  "get_branch_row db i = row_get br_id (branches db) i"

definition get_session_row :: "db \<Rightarrow> ident \<Rightarrow> agent_session option" where
  "get_session_row db i = row_get s_id (agent_sessions db) i"

definition get_artifact_row :: "db \<Rightarrow> ident \<Rightarrow> agent_artifact option" where
  "get_artifact_row db i = row_get a_id (agent_artifacts db) i"

definition get_provider_row :: "db \<Rightarrow> ident \<Rightarrow> provider_config option" where
  "get_provider_row db i = row_get pc_id (provider_configs db) i"

lemmas get_row_defs =
  get_project_row_def get_node_row_def get_edge_row_def get_block_row_def get_branch_row_def
  get_session_row_def get_artifact_row_def get_provider_row_def

lemma get_node_row_id: "get_node_row db i = Some n \<Longrightarrow> n_id n = i"
  by (auto simp: get_node_row_def dest: row_get_Some)

definition child_of :: string where
  "child_of = ''child_of''"

definition is_child_edge :: "edge \<Rightarrow> bool" where
  "is_child_edge e \<longleftrightarrow> e_relation_type e = child_of"

text \<open>\<open>SELECT ... FROM edges WHERE from_node_id = x AND relation_type = 'child_of'\<close>, and by target.\<close>

definition child_edges :: "db \<Rightarrow> ident \<Rightarrow> edge list" where
  "child_edges db x = filter (\<lambda>e. e_from_node_id e = x \<and> is_child_edge e) (edges db)"

definition parent_edges :: "db \<Rightarrow> ident \<Rightarrow> edge list" where
  "parent_edges db x = filter (\<lambda>e. e_to_node_id e = x \<and> is_child_edge e) (edges db)"

text \<open>\<open>Result.scalar_one_or_none\<close>: none, the one row, or an exception on several.\<close>

fun scalar_one_or_none :: "'r list \<Rightarrow> 'r option result" where
  "scalar_one_or_none [] = Inr None"
| "scalar_one_or_none [r] = Inr (Some r)"
| "scalar_one_or_none (_ # _ # _) = Inl MultipleResultsFound"

lemma scalar_one_or_none_None: "scalar_one_or_none rs = Inr None \<longleftrightarrow> rs = []"
  by (cases rs rule: scalar_one_or_none.cases) auto

lemma scalar_one_or_none_Some: "scalar_one_or_none rs = Inr (Some r) \<longleftrightarrow> rs = [r]"
  by (cases rs rule: scalar_one_or_none.cases) auto

text \<open>The containment relation of the whole database.\<close>

definition child_rel :: "db \<Rightarrow> (ident \<times> ident) set" where
  "child_rel db = (\<lambda>e. (e_from_node_id e, e_to_node_id e)) ` {e \<in> set (edges db). is_child_edge e}"

lemma child_rel_iff:
  "(x, y) \<in> child_rel db \<longleftrightarrow> (\<exists>e \<in> set (edges db). is_child_edge e \<and> e_from_node_id e = x \<and> e_to_node_id e = y)"
  by (auto simp: child_rel_def)

lemma finite_child_rel: "finite (child_rel db)"
  by (simp add: child_rel_def)

section \<open>Statements\<close>

text \<open>
  An \<open>INSERT\<close> by the ORM leaves out a column that is \<open>None\<close>, so the column's default applies, also when
  the handler passed \<open>None\<close> on purpose. \<open>node_defaults\<close> are those of the nullable columns of a node.
\<close>

definition default :: "'a \<Rightarrow> 'a option \<Rightarrow> 'a option" where
  "default d x = Some (case x of None \<Rightarrow> d | Some v \<Rightarrow> v)"

definition node_defaults :: "node \<Rightarrow> node" where
  "node_defaults n =
     n\<lparr>n_summary := default [] (n_summary n), n_priority := default 0 (n_priority n),
       n_confidence := default (1 / 2) (n_confidence n), n_description := default [] (n_description n),
       n_rules_text := default [] (n_rules_text n), n_constraints_text := default [] (n_constraints_text n),
       n_examples_text := default [] (n_examples_text n), n_questions_text := default [] (n_questions_text n),
       n_decision_notes := default [] (n_decision_notes n), n_created_by := default ''human'' (n_created_by n),
       n_last_edited_by := default ''human'' (n_last_edited_by n),
       n_position_x := default 0 (n_position_x n), n_position_y := default 0 (n_position_y n)\<rparr>"

lemma node_defaults_simps [simp]:
  "n_id (node_defaults n) = n_id n" "n_project_id (node_defaults n) = n_project_id n" "n_branch_id (node_defaults n) = n_branch_id n"
  "n_revision (node_defaults n) = n_revision n" "n_title (node_defaults n) = n_title n"
  by (simp_all add: node_defaults_def)

definition opt_has :: "('r \<Rightarrow> ident) \<Rightarrow> 'r list \<Rightarrow> ident option \<Rightarrow> bool" where
  "opt_has k rs x \<longleftrightarrow> (case x of None \<Rightarrow> True | Some i \<Rightarrow> has_row k rs i)"

definition insert_project :: "project \<Rightarrow> db \<Rightarrow> db result" where
  "insert_project p db =
     (if has_row p_id (projects db) (p_id p) then Inl IntegrityError
      else Inr (projects_update (\<lambda>rs. rs @ [p]) db))"

definition insert_node :: "node \<Rightarrow> db \<Rightarrow> db result" where
  "insert_node n db =
     (if has_row n_id (nodes db) (n_id n)
         \<or> \<not> has_row p_id (projects db) (n_project_id n)
         \<or> \<not> opt_has br_id (branches db) (n_branch_id n)
      then Inl IntegrityError
      else Inr (nodes_update (\<lambda>rs. rs @ [n]) db))"

text \<open>Trigger \<open>trg_edges_normalize_null_insert\<close> and its update twin.\<close>

definition normalize_edge :: "edge \<Rightarrow> edge" where
  "normalize_edge e =
     e\<lparr>e_weight := (case e_weight e of None \<Rightarrow> Some 1 | Some w \<Rightarrow> Some w),
       e_note := (case e_note e of None \<Rightarrow> Some [] | Some s \<Rightarrow> Some s)\<rparr>"

text \<open>
  Index \<open>ux_edges_one_mainline_per_parent\<close> and trigger \<open>trg_edges_one_mainline_insert\<close>: no second
  mainline \<open>child_of\<close> edge from the same parent.
\<close>

definition mainline_edge :: "edge \<Rightarrow> bool" where
  "mainline_edge e \<longleftrightarrow> is_child_edge e \<and> e_is_mainline e"

definition mainline_taken :: "edge list \<Rightarrow> ident \<Rightarrow> bool" where
  "mainline_taken es x \<longleftrightarrow> list_ex (\<lambda>e. mainline_edge e \<and> e_from_node_id e = x) es"

definition insert_edge :: "edge \<Rightarrow> db \<Rightarrow> db result" where
  "insert_edge e db =
     (if has_row e_id (edges db) (e_id e)
         \<or> \<not> has_row p_id (projects db) (e_project_id e)
         \<or> \<not> has_row n_id (nodes db) (e_from_node_id e)
         \<or> \<not> has_row n_id (nodes db) (e_to_node_id e)
         \<or> mainline_edge e \<and> mainline_taken (edges db) (e_from_node_id e)
      then Inl IntegrityError
      else Inr (edges_update (\<lambda>rs. rs @ [normalize_edge e]) db))"

definition insert_block :: "content_block \<Rightarrow> db \<Rightarrow> db result" where
  "insert_block b db =
     (if has_row b_id (content_blocks db) (b_id b) \<or> \<not> has_row n_id (nodes db) (b_node_id b)
      then Inl IntegrityError
      else Inr (content_blocks_update (\<lambda>rs. rs @ [b]) db))"

definition insert_branch :: "branch \<Rightarrow> db \<Rightarrow> db result" where
  "insert_branch b db =
     (if has_row br_id (branches db) (br_id b)
         \<or> \<not> has_row p_id (projects db) (br_project_id b)
         \<or> \<not> opt_has n_id (nodes db) (br_source_node_id b)
      then Inl IntegrityError
      else Inr (branches_update (\<lambda>rs. rs @ [b]) db))"

definition insert_log :: "action_log \<Rightarrow> db \<Rightarrow> db result" where
  "insert_log l db =
     (if has_row l_id (action_logs db) (l_id l)
         \<or> \<not> has_row p_id (projects db) (l_project_id l)
         \<or> \<not> opt_has n_id (nodes db) (l_node_id l)
      then Inl IntegrityError
      else Inr (action_logs_update (\<lambda>rs. rs @ [l]) db))"

definition insert_provider :: "provider_config \<Rightarrow> db \<Rightarrow> db result" where
  "insert_provider p db =
     (if has_row pc_id (provider_configs db) (pc_id p) then Inl IntegrityError
      else Inr (provider_configs_update (\<lambda>rs. rs @ [p]) db))"

definition insert_session :: "agent_session \<Rightarrow> db \<Rightarrow> db result" where
  "insert_session s db =
     (if has_row s_id (agent_sessions db) (s_id s)
         \<or> \<not> has_row p_id (projects db) (s_project_id s)
         \<or> \<not> opt_has n_id (nodes db) (s_assigned_node_id s)
         \<or> \<not> opt_has n_id (nodes db) (s_assigned_branch_root_id s)
         \<or> \<not> opt_has pc_id (provider_configs db) (s_provider_id s)
      then Inl IntegrityError
      else Inr (agent_sessions_update (\<lambda>rs. rs @ [s]) db))"

definition insert_artifact :: "agent_artifact \<Rightarrow> db \<Rightarrow> db result" where
  "insert_artifact a db =
     (if has_row a_id (agent_artifacts db) (a_id a)
         \<or> \<not> has_row s_id (agent_sessions db) (a_session_id a)
         \<or> \<not> has_row p_id (projects db) (a_project_id a)
         \<or> \<not> has_row n_id (nodes db) (a_target_node_id a)
      then Inl IntegrityError
      else Inr (agent_artifacts_update (\<lambda>rs. rs @ [a]) db))"

text \<open>Setting \<open>is_mainline\<close> on an existing edge fires \<open>trg_edges_one_mainline_update\<close>.\<close>

definition set_edge_mainline :: "ident \<Rightarrow> db \<Rightarrow> db result" where
  "set_edge_mainline i db =
     (case get_edge_row db i of
        None \<Rightarrow> Inr db
      | Some e \<Rightarrow>
          if is_child_edge e \<and> mainline_taken (row_delete e_id i (edges db)) (e_from_node_id e)
          then Inl IntegrityError
          else Inr (edges_update (row_update e_id i (\<lambda>e. e\<lparr>e_is_mainline := True\<rparr>)) db))"

text \<open>
  Deleting rows runs the \<open>ON DELETE\<close> actions of the foreign keys. Deleting grants takes their
  receipts, proposals, events and readbacks along.
\<close>

definition delete_grants_where :: "(agent_grant \<Rightarrow> bool) \<Rightarrow> db \<Rightarrow> db" where
  "delete_grants_where P db =
     (let gone = map g_id (filter P (agent_grants db))
      in db\<lparr>agent_grants := filter (\<lambda>g. \<not> P g) (agent_grants db),
            agent_receipts := filter (\<lambda>r. r_grant_id r \<notin> set gone) (agent_receipts db),
            agent_proposals := filter (\<lambda>r. pr_grant_id r \<notin> set gone) (agent_proposals db),
            agent_events := filter (\<lambda>r. ev_grant_id r \<notin> set gone) (agent_events db),
            agent_readbacks := filter (\<lambda>r. rb_grant_id r \<notin> set gone) (agent_readbacks db)\<rparr>)"

definition unset_in :: "ident list \<Rightarrow> ident option \<Rightarrow> ident option" where
  "unset_in gone x = (case x of None \<Rightarrow> None | Some i \<Rightarrow> if i \<in> set gone then None else Some i)"

definition opt_in :: "ident option \<Rightarrow> ident list \<Rightarrow> bool" where
  "opt_in x gone \<longleftrightarrow> (case x of None \<Rightarrow> False | Some i \<Rightarrow> i \<in> set gone)"

text \<open>\<open>DELETE FROM nodes WHERE id IN (...)\<close>.\<close>

definition delete_nodes :: "ident list \<Rightarrow> db \<Rightarrow> db" where
  "delete_nodes gone db =
     (let db1 = delete_grants_where (\<lambda>g. opt_in (g_node_scope_id g) gone \<or> opt_in (g_branch_root_id g) gone) db
      in db1\<lparr>nodes := filter (\<lambda>n. n_id n \<notin> set gone) (nodes db1),
             edges := filter (\<lambda>e. e_from_node_id e \<notin> set gone \<and> e_to_node_id e \<notin> set gone) (edges db1),
             content_blocks := filter (\<lambda>b. b_node_id b \<notin> set gone) (content_blocks db1),
             suggestions := filter (\<lambda>s. sg_target_node_id s \<notin> set gone) (suggestions db1),
             agent_artifacts := filter (\<lambda>a. a_target_node_id a \<notin> set gone) (agent_artifacts db1),
             action_logs := map (\<lambda>l. l\<lparr>l_node_id := unset_in gone (l_node_id l)\<rparr>) (action_logs db1),
             branches := map (\<lambda>b. b\<lparr>br_source_node_id := unset_in gone (br_source_node_id b)\<rparr>) (branches db1),
             agent_sessions := map (\<lambda>s. s\<lparr>s_assigned_node_id := unset_in gone (s_assigned_node_id s),
                 s_assigned_branch_root_id := unset_in gone (s_assigned_branch_root_id s)\<rparr>) (agent_sessions db1),
             agent_proposals := map (\<lambda>r. r\<lparr>pr_target_node_id := unset_in gone (pr_target_node_id r)\<rparr>) (agent_proposals db1),
             agent_events := map (\<lambda>r. r\<lparr>ev_target_node_id := unset_in gone (ev_target_node_id r)\<rparr>) (agent_events db1),
             agent_readbacks := map (\<lambda>r. r\<lparr>rb_target_node_id := unset_in gone (rb_target_node_id r)\<rparr>) (agent_readbacks db1)\<rparr>)"

text \<open>\<open>DELETE FROM edges WHERE from_node_id IN (...) OR to_node_id IN (...)\<close>, and one edge or block by key.\<close>

definition delete_edges_touching :: "ident list \<Rightarrow> db \<Rightarrow> db" where
  "delete_edges_touching gone db =
     edges_update (filter (\<lambda>e. \<not> (e_from_node_id e \<in> set gone \<or> e_to_node_id e \<in> set gone))) db"

definition delete_edge_row :: "ident \<Rightarrow> db \<Rightarrow> db" where
  "delete_edge_row i db = edges_update (row_delete e_id i) db"

definition delete_block_row :: "ident \<Rightarrow> db \<Rightarrow> db" where
  "delete_block_row i db = content_blocks_update (row_delete b_id i) db"

text \<open>
  Deleting a project: its nodes and edges go with the ORM cascade, everything else that names
  it with \<open>ON DELETE CASCADE\<close>; a node of another project that still names one of its branches
  loses the reference (\<open>SET NULL\<close>).
\<close>

definition delete_project_row :: "ident \<Rightarrow> db \<Rightarrow> db" where
  "delete_project_row i db =
     (let db1 = delete_nodes (map n_id (filter (\<lambda>n. n_project_id n = i) (nodes db))) db;
          db2 = delete_grants_where (\<lambda>g. g_project_id g = i) db1;
          gone_branches = map br_id (filter (\<lambda>b. br_project_id b = i) (branches db2));
          gone_sessions = map s_id (filter (\<lambda>s. s_project_id s = i) (agent_sessions db2))
      in db2\<lparr>projects := row_delete p_id i (projects db2),
             edges := filter (\<lambda>e. e_project_id e \<noteq> i) (edges db2),
             nodes := map (\<lambda>n. n\<lparr>n_branch_id := unset_in gone_branches (n_branch_id n)\<rparr>) (nodes db2),
             suggestions := filter (\<lambda>s. sg_project_id s \<noteq> i) (suggestions db2),
             action_logs := filter (\<lambda>l. l_project_id l \<noteq> i) (action_logs db2),
             branches := filter (\<lambda>b. br_project_id b \<noteq> i) (branches db2),
             agent_sessions := filter (\<lambda>s. s_project_id s \<noteq> i) (agent_sessions db2),
             agent_artifacts := filter (\<lambda>a. a_project_id a \<noteq> i \<and> a_session_id a \<notin> set gone_sessions) (agent_artifacts db2),
             agent_receipts := filter (\<lambda>r. r_project_id r \<noteq> i) (agent_receipts db2),
             agent_proposals := filter (\<lambda>r. pr_project_id r \<noteq> i) (agent_proposals db2),
             agent_events := filter (\<lambda>r. ev_project_id r \<noteq> i) (agent_events db2),
             agent_readbacks := filter (\<lambda>r. rb_project_id r \<noteq> i) (agent_readbacks db2)\<rparr>)"

text \<open>\<open>agent_sessions.provider_id\<close> has no \<open>ON DELETE\<close> action: a referenced provider stays.\<close>

definition delete_provider_row :: "ident \<Rightarrow> db \<Rightarrow> db result" where
  "delete_provider_row i db =
     (if list_ex (\<lambda>s. s_provider_id s = Some i) (agent_sessions db) then Inl IntegrityError
      else Inr (provider_configs_update (row_delete pc_id i) db))"

end
