(* ===== verification/Integrity.thy ===== *)
theory Integrity
  imports Database
begin

text \<open>
  What the schema's constraints keep true of a database, and that every statement of
  \<open>Database\<close> keeps it: primary keys and unique indexes hold (\<open>keys_ok\<close>), the
  foreign keys of all fifteen tables point at existing rows (\<open>refs_ok\<close>), and no parent has two mainline
  children (\<open>mainline_unique\<close>).
  \<open>statement_Inr\<close> collects what a successful statement did; \<open>schema_intros\<close> the preservation
  lemmas the handlers' proofs chain.
\<close>

section \<open>The schema invariant\<close>

definition keys_ok :: "db \<Rightarrow> bool" where
  "keys_ok db \<longleftrightarrow>
     distinct (map p_id (projects db)) \<and> distinct (map n_id (nodes db)) \<and>
     distinct (map e_id (edges db)) \<and> distinct (map b_id (content_blocks db)) \<and>
     distinct (map l_id (action_logs db)) \<and> distinct (map pc_id (provider_configs db)) \<and>
     distinct (map br_id (branches db)) \<and> distinct (map a_id (agent_artifacts db)) \<and>
     distinct (map s_id (agent_sessions db)) \<and> distinct (map sg_id (suggestions db)) \<and>
     distinct (map g_id (agent_grants db)) \<and> distinct (map g_token_prefix (agent_grants db)) \<and>
     distinct (map r_id (agent_receipts db)) \<and>
     distinct (map (\<lambda>r. (r_grant_id r, r_idempotency_key r)) (agent_receipts db)) \<and>
     distinct (map pr_id (agent_proposals db)) \<and> distinct (map ev_id (agent_events db)) \<and>
     distinct (map rb_id (agent_readbacks db))"

definition opt_ref :: "ident option \<Rightarrow> ident set \<Rightarrow> bool" where
  "opt_ref x A \<longleftrightarrow> (case x of None \<Rightarrow> True | Some i \<Rightarrow> i \<in> A)"

abbreviation project_ids :: "db \<Rightarrow> ident set" where
  "project_ids db \<equiv> p_id ` set (projects db)"

abbreviation node_ids :: "db \<Rightarrow> ident set" where
  "node_ids db \<equiv> n_id ` set (nodes db)"

abbreviation branch_ids :: "db \<Rightarrow> ident set" where
  "branch_ids db \<equiv> br_id ` set (branches db)"

abbreviation session_ids :: "db \<Rightarrow> ident set" where
  "session_ids db \<equiv> s_id ` set (agent_sessions db)"

abbreviation provider_ids :: "db \<Rightarrow> ident set" where
  "provider_ids db \<equiv> pc_id ` set (provider_configs db)"

abbreviation grant_ids :: "db \<Rightarrow> ident set" where
  "grant_ids db \<equiv> g_id ` set (agent_grants db)"

text \<open>
  Each table's references, over the rows of the table and the keys it points at; monotone in
  the keys.
\<close>

definition node_refs_ok :: "node list \<Rightarrow> ident set \<Rightarrow> ident set \<Rightarrow> bool" where
  "node_refs_ok ns P B \<longleftrightarrow> (\<forall>n \<in> set ns. n_project_id n \<in> P \<and> opt_ref (n_branch_id n) B)"

definition edge_refs_ok :: "edge list \<Rightarrow> ident set \<Rightarrow> ident set \<Rightarrow> bool" where
  "edge_refs_ok es P N \<longleftrightarrow> (\<forall>e \<in> set es.
     e_project_id e \<in> P \<and> e_from_node_id e \<in> N \<and> e_to_node_id e \<in> N)"

definition block_refs_ok :: "content_block list \<Rightarrow> ident set \<Rightarrow> bool" where
  "block_refs_ok bs N \<longleftrightarrow> (\<forall>b \<in> set bs. b_node_id b \<in> N)"

definition branch_refs_ok :: "branch list \<Rightarrow> ident set \<Rightarrow> ident set \<Rightarrow> bool" where
  "branch_refs_ok bs P N \<longleftrightarrow> (\<forall>b \<in> set bs. br_project_id b \<in> P \<and> opt_ref (br_source_node_id b) N)"

definition log_refs_ok :: "action_log list \<Rightarrow> ident set \<Rightarrow> ident set \<Rightarrow> bool" where
  "log_refs_ok ls P N \<longleftrightarrow> (\<forall>l \<in> set ls. l_project_id l \<in> P \<and> opt_ref (l_node_id l) N)"

definition session_refs_ok :: "agent_session list \<Rightarrow> ident set \<Rightarrow> ident set \<Rightarrow> ident set \<Rightarrow> bool" where
  "session_refs_ok ss P N C \<longleftrightarrow> (\<forall>s \<in> set ss.
     s_project_id s \<in> P \<and> opt_ref (s_assigned_node_id s) N \<and>
     opt_ref (s_assigned_branch_root_id s) N \<and> opt_ref (s_provider_id s) C)"

definition artifact_refs_ok :: "agent_artifact list \<Rightarrow> ident set \<Rightarrow> ident set \<Rightarrow> ident set \<Rightarrow> bool" where
  "artifact_refs_ok as S P N \<longleftrightarrow> (\<forall>a \<in> set as.
     a_session_id a \<in> S \<and> a_project_id a \<in> P \<and> a_target_node_id a \<in> N)"

definition suggestion_refs_ok :: "suggestion list \<Rightarrow> ident set \<Rightarrow> ident set \<Rightarrow> bool" where
  "suggestion_refs_ok rs P N \<longleftrightarrow> (\<forall>r \<in> set rs. sg_project_id r \<in> P \<and> sg_target_node_id r \<in> N)"

definition grant_refs_ok :: "agent_grant list \<Rightarrow> ident set \<Rightarrow> ident set \<Rightarrow> bool" where
  "grant_refs_ok gs P N \<longleftrightarrow> (\<forall>g \<in> set gs.
     g_project_id g \<in> P \<and> opt_ref (g_node_scope_id g) N \<and> opt_ref (g_branch_root_id g) N)"

definition receipt_refs_ok :: "agent_receipt list \<Rightarrow> ident set \<Rightarrow> ident set \<Rightarrow> bool" where
  "receipt_refs_ok rs G P \<longleftrightarrow> (\<forall>r \<in> set rs. r_grant_id r \<in> G \<and> r_project_id r \<in> P)"

definition proposal_refs_ok :: "agent_proposal list \<Rightarrow> ident set \<Rightarrow> ident set \<Rightarrow> ident set \<Rightarrow> bool" where
  "proposal_refs_ok rs G P N \<longleftrightarrow> (\<forall>r \<in> set rs.
     pr_grant_id r \<in> G \<and> pr_project_id r \<in> P \<and> opt_ref (pr_target_node_id r) N)"

definition event_refs_ok :: "agent_event list \<Rightarrow> ident set \<Rightarrow> ident set \<Rightarrow> ident set \<Rightarrow> bool" where
  "event_refs_ok rs G P N \<longleftrightarrow> (\<forall>r \<in> set rs.
     ev_grant_id r \<in> G \<and> ev_project_id r \<in> P \<and> opt_ref (ev_target_node_id r) N)"

definition readback_refs_ok :: "agent_readback list \<Rightarrow> ident set \<Rightarrow> ident set \<Rightarrow> ident set \<Rightarrow> bool" where
  "readback_refs_ok rs G P N \<longleftrightarrow> (\<forall>r \<in> set rs.
     rb_grant_id r \<in> G \<and> rb_project_id r \<in> P \<and> opt_ref (rb_target_node_id r) N)"

definition refs_ok :: "db \<Rightarrow> bool" where
  "refs_ok db \<longleftrightarrow>
     node_refs_ok (nodes db) (project_ids db) (branch_ids db) \<and>
     edge_refs_ok (edges db) (project_ids db) (node_ids db) \<and>
     block_refs_ok (content_blocks db) (node_ids db) \<and>
     branch_refs_ok (branches db) (project_ids db) (node_ids db) \<and>
     log_refs_ok (action_logs db) (project_ids db) (node_ids db) \<and>
     session_refs_ok (agent_sessions db) (project_ids db) (node_ids db) (provider_ids db) \<and>
     artifact_refs_ok (agent_artifacts db) (session_ids db) (project_ids db) (node_ids db) \<and>
     suggestion_refs_ok (suggestions db) (project_ids db) (node_ids db) \<and>
     grant_refs_ok (agent_grants db) (project_ids db) (node_ids db) \<and>
     receipt_refs_ok (agent_receipts db) (grant_ids db) (project_ids db) \<and>
     proposal_refs_ok (agent_proposals db) (grant_ids db) (project_ids db) (node_ids db) \<and>
     event_refs_ok (agent_events db) (grant_ids db) (project_ids db) (node_ids db) \<and>
     readback_refs_ok (agent_readbacks db) (grant_ids db) (project_ids db) (node_ids db)"

definition mainline_unique :: "edge list \<Rightarrow> bool" where
  "mainline_unique es \<longleftrightarrow> (\<forall>e \<in> set es. \<forall>f \<in> set es.
     mainline_edge e \<and> mainline_edge f \<and> e_from_node_id e = e_from_node_id f \<longrightarrow> e_id e = e_id f)"

definition schema_ok :: "db \<Rightarrow> bool" where
  "schema_ok db \<longleftrightarrow> keys_ok db \<and> refs_ok db \<and> mainline_unique (edges db)"

lemmas schema_defs = schema_ok_def keys_ok_def refs_ok_def

lemmas row_refs_defs =
  node_refs_ok_def edge_refs_ok_def block_refs_ok_def branch_refs_ok_def
  log_refs_ok_def session_refs_ok_def artifact_refs_ok_def suggestion_refs_ok_def
  grant_refs_ok_def receipt_refs_ok_def proposal_refs_ok_def event_refs_ok_def readback_refs_ok_def

named_theorems statement_Inr
named_theorems schema_intros

lemma schema_ok_empty: "schema_ok empty_db"
  by (simp add: schema_defs row_refs_defs mainline_unique_def empty_db_def)

lemma opt_ref_mono: "opt_ref x A \<Longrightarrow> A \<subseteq> B \<Longrightarrow> opt_ref x B"
  by (auto simp: opt_ref_def split: option.splits)

lemma opt_has_ref: "opt_has k rs x \<longleftrightarrow> opt_ref x (k ` set rs)"
  by (auto simp: opt_has_def opt_ref_def has_row_def split: option.splits)

lemma opt_ref_None [simp]: "opt_ref None A"
  by (simp add: opt_ref_def)

lemma opt_ref_Some [simp]: "opt_ref (Some i) A \<longleftrightarrow> i \<in> A"
  by (simp add: opt_ref_def)

lemma opt_ref_insert: "opt_ref x A \<Longrightarrow> opt_ref x (insert i A)"
  by (auto simp: opt_ref_def split: option.splits)

lemma opt_ref_unset_in:
  "opt_ref x A \<Longrightarrow> opt_ref (unset_in gone x) (A - set gone)"
  by (auto simp: opt_ref_def unset_in_def split: option.splits)

lemma opt_ref_unset_weaken: "opt_ref x A \<Longrightarrow> opt_ref (unset_in gone x) A"
  by (auto simp: opt_ref_def unset_in_def split: option.splits)

lemma refs_append [simp]:
  "node_refs_ok (ns @ ns') P B \<longleftrightarrow> node_refs_ok ns P B \<and> node_refs_ok ns' P B"
  "edge_refs_ok (es @ es') P N \<longleftrightarrow> edge_refs_ok es P N \<and> edge_refs_ok es' P N"
  "block_refs_ok (bs @ bs') N \<longleftrightarrow> block_refs_ok bs N \<and> block_refs_ok bs' N"
  "branch_refs_ok (rs @ rs') P N \<longleftrightarrow> branch_refs_ok rs P N \<and> branch_refs_ok rs' P N"
  "log_refs_ok (ls @ ls') P N \<longleftrightarrow> log_refs_ok ls P N \<and> log_refs_ok ls' P N"
  "session_refs_ok (ss @ ss') P N C \<longleftrightarrow> session_refs_ok ss P N C \<and> session_refs_ok ss' P N C"
  "artifact_refs_ok (as @ as') S P N \<longleftrightarrow> artifact_refs_ok as S P N \<and> artifact_refs_ok as' S P N"
  "grant_refs_ok (gs @ gs') P N \<longleftrightarrow> grant_refs_ok gs P N \<and> grant_refs_ok gs' P N"
  "receipt_refs_ok (qs @ qs') G P \<longleftrightarrow> receipt_refs_ok qs G P \<and> receipt_refs_ok qs' G P"
  "proposal_refs_ok (ps @ ps') G P N \<longleftrightarrow> proposal_refs_ok ps G P N \<and> proposal_refs_ok ps' G P N"
  "event_refs_ok (vs @ vs') G P N \<longleftrightarrow> event_refs_ok vs G P N \<and> event_refs_ok vs' G P N"
  "readback_refs_ok (ks @ ks') G P N \<longleftrightarrow> readback_refs_ok ks G P N \<and> readback_refs_ok ks' G P N"
  unfolding row_refs_defs by auto

lemma refs_mono:
  "node_refs_ok ns P B \<Longrightarrow> P \<subseteq> P' \<Longrightarrow> B \<subseteq> B' \<Longrightarrow> node_refs_ok ns P' B'"
  "edge_refs_ok es P N \<Longrightarrow> P \<subseteq> P' \<Longrightarrow> N \<subseteq> N' \<Longrightarrow> edge_refs_ok es P' N'"
  "block_refs_ok bs N \<Longrightarrow> N \<subseteq> N' \<Longrightarrow> block_refs_ok bs N'"
  "branch_refs_ok rs P N \<Longrightarrow> P \<subseteq> P' \<Longrightarrow> N \<subseteq> N' \<Longrightarrow> branch_refs_ok rs P' N'"
  "log_refs_ok ls P N \<Longrightarrow> P \<subseteq> P' \<Longrightarrow> N \<subseteq> N' \<Longrightarrow> log_refs_ok ls P' N'"
  "session_refs_ok ss P N C \<Longrightarrow> P \<subseteq> P' \<Longrightarrow> N \<subseteq> N' \<Longrightarrow> C \<subseteq> C' \<Longrightarrow> session_refs_ok ss P' N' C'"
  "artifact_refs_ok as S P N \<Longrightarrow> S \<subseteq> S' \<Longrightarrow> P \<subseteq> P' \<Longrightarrow> N \<subseteq> N' \<Longrightarrow> artifact_refs_ok as S' P' N'"
  "suggestion_refs_ok sg P N \<Longrightarrow> P \<subseteq> P' \<Longrightarrow> N \<subseteq> N' \<Longrightarrow> suggestion_refs_ok sg P' N'"
  "grant_refs_ok gs P N \<Longrightarrow> P \<subseteq> P' \<Longrightarrow> N \<subseteq> N' \<Longrightarrow> grant_refs_ok gs P' N'"
  "receipt_refs_ok qs G P \<Longrightarrow> G \<subseteq> G' \<Longrightarrow> P \<subseteq> P' \<Longrightarrow> receipt_refs_ok qs G' P'"
  "proposal_refs_ok ps G P N \<Longrightarrow> G \<subseteq> G' \<Longrightarrow> P \<subseteq> P' \<Longrightarrow> N \<subseteq> N' \<Longrightarrow> proposal_refs_ok ps G' P' N'"
  "event_refs_ok vs G P N \<Longrightarrow> G \<subseteq> G' \<Longrightarrow> P \<subseteq> P' \<Longrightarrow> N \<subseteq> N' \<Longrightarrow> event_refs_ok vs G' P' N'"
  "readback_refs_ok ks G P N \<Longrightarrow> G \<subseteq> G' \<Longrightarrow> P \<subseteq> P' \<Longrightarrow> N \<subseteq> N' \<Longrightarrow> readback_refs_ok ks G' P' N'"
  unfolding row_refs_defs by (blast intro: opt_ref_mono)+

lemma refs_subset:
  "set ns' \<subseteq> set ns \<Longrightarrow> node_refs_ok ns P B \<Longrightarrow> node_refs_ok ns' P B"
  "set es' \<subseteq> set es \<Longrightarrow> edge_refs_ok es P N \<Longrightarrow> edge_refs_ok es' P N"
  "set bs' \<subseteq> set bs \<Longrightarrow> block_refs_ok bs N \<Longrightarrow> block_refs_ok bs' N"
  "set as' \<subseteq> set as \<Longrightarrow> artifact_refs_ok as S P N \<Longrightarrow> artifact_refs_ok as' S P N"
  "set ls' \<subseteq> set ls \<Longrightarrow> log_refs_ok ls P N \<Longrightarrow> log_refs_ok ls' P N"
  "set rs' \<subseteq> set rs \<Longrightarrow> branch_refs_ok rs P N \<Longrightarrow> branch_refs_ok rs' P N"
  "set ss' \<subseteq> set ss \<Longrightarrow> session_refs_ok ss P N C \<Longrightarrow> session_refs_ok ss' P N C"
  by (simp_all add: row_refs_defs subset_iff)

lemmas refs_insert =
  refs_mono(1) [OF _ subset_insertI subset_refl] refs_mono(1) [OF _ subset_refl subset_insertI]
  refs_mono(2) [OF _ subset_insertI subset_refl] refs_mono(2) [OF _ subset_refl subset_insertI]
  refs_mono(3) [OF _ subset_insertI]
  refs_mono(4) [OF _ subset_insertI subset_refl] refs_mono(4) [OF _ subset_refl subset_insertI]
  refs_mono(5) [OF _ subset_insertI subset_refl] refs_mono(5) [OF _ subset_refl subset_insertI]
  refs_mono(6) [OF _ subset_insertI subset_refl subset_refl] refs_mono(6) [OF _ subset_refl subset_insertI subset_refl]
  refs_mono(6) [OF _ subset_refl subset_refl subset_insertI]
  refs_mono(7) [OF _ subset_insertI subset_refl subset_refl] refs_mono(7) [OF _ subset_refl subset_insertI subset_refl]
  refs_mono(7) [OF _ subset_refl subset_refl subset_insertI]
  refs_mono(8,9) [OF _ subset_insertI subset_refl] refs_mono(8,9) [OF _ subset_refl subset_insertI]
  refs_mono(10) [OF _ subset_insertI subset_refl] refs_mono(10) [OF _ subset_refl subset_insertI]
  refs_mono(11-13) [OF _ subset_insertI subset_refl subset_refl] refs_mono(11-13) [OF _ subset_refl subset_insertI subset_refl]
  refs_mono(11-13) [OF _ subset_refl subset_refl subset_insertI]

lemma mainline_uniqueI:
  "(\<And>e f. e \<in> set es \<Longrightarrow> f \<in> set es \<Longrightarrow> mainline_edge e \<Longrightarrow> mainline_edge f \<Longrightarrow>
     e_from_node_id e = e_from_node_id f \<Longrightarrow> e_id e = e_id f) \<Longrightarrow> mainline_unique es"
  unfolding mainline_unique_def by blast

lemma mainline_uniqueD:
  "mainline_unique es \<Longrightarrow> e \<in> set es \<Longrightarrow> f \<in> set es \<Longrightarrow> mainline_edge e \<Longrightarrow> mainline_edge f \<Longrightarrow>
     e_from_node_id e = e_from_node_id f \<Longrightarrow> e_id e = e_id f"
  unfolding mainline_unique_def by blast

lemma mainline_unique_subset:
  "set es' \<subseteq> set es \<Longrightarrow> mainline_unique es \<Longrightarrow> mainline_unique es'"
  unfolding mainline_unique_def by blast

lemma mainline_taken_iff:
  "mainline_taken es x \<longleftrightarrow> (\<exists>e \<in> set es. mainline_edge e \<and> e_from_node_id e = x)"
  by (simp add: mainline_taken_def list_ex_iff)

lemma normalize_edge_simps [simp]:
  "e_id (normalize_edge e) = e_id e" "e_project_id (normalize_edge e) = e_project_id e"
  "e_from_node_id (normalize_edge e) = e_from_node_id e" "e_to_node_id (normalize_edge e) = e_to_node_id e"
  "e_relation_type (normalize_edge e) = e_relation_type e" "e_is_mainline (normalize_edge e) = e_is_mainline e"
  "e_revision (normalize_edge e) = e_revision e"
  "is_child_edge (normalize_edge e) = is_child_edge e" "mainline_edge (normalize_edge e) = mainline_edge e"
  by (simp_all add: normalize_edge_def is_child_edge_def mainline_edge_def)

section \<open>What a successful statement did\<close>

lemma insert_project_Inr [statement_Inr]:
  "insert_project p db = Inr db' \<longleftrightarrow>
     p_id p \<notin> project_ids db \<and> db' = projects_update (\<lambda>rs. rs @ [p]) db"
  by (auto simp: insert_project_def has_row_def)

lemma insert_node_Inr [statement_Inr]:
  "insert_node n db = Inr db' \<longleftrightarrow>
     n_id n \<notin> node_ids db \<and> n_project_id n \<in> project_ids db \<and> opt_ref (n_branch_id n) (branch_ids db) \<and>
     db' = nodes_update (\<lambda>rs. rs @ [n]) db"
  by (auto simp: insert_node_def has_row_def opt_has_ref)

lemma insert_edge_Inr [statement_Inr]:
  "insert_edge e db = Inr db' \<longleftrightarrow>
     e_id e \<notin> e_id ` set (edges db) \<and> e_project_id e \<in> project_ids db \<and>
     e_from_node_id e \<in> node_ids db \<and> e_to_node_id e \<in> node_ids db \<and>
     \<not> (mainline_edge e \<and> mainline_taken (edges db) (e_from_node_id e)) \<and>
     db' = edges_update (\<lambda>rs. rs @ [normalize_edge e]) db"
  by (auto simp: insert_edge_def has_row_def)

lemma insert_block_Inr [statement_Inr]:
  "insert_block b db = Inr db' \<longleftrightarrow>
     b_id b \<notin> b_id ` set (content_blocks db) \<and> b_node_id b \<in> node_ids db \<and>
     db' = content_blocks_update (\<lambda>rs. rs @ [b]) db"
  by (auto simp: insert_block_def has_row_def)

lemma insert_branch_Inr [statement_Inr]:
  "insert_branch b db = Inr db' \<longleftrightarrow>
     br_id b \<notin> branch_ids db \<and> br_project_id b \<in> project_ids db \<and>
     opt_ref (br_source_node_id b) (node_ids db) \<and> db' = branches_update (\<lambda>rs. rs @ [b]) db"
  by (auto simp: insert_branch_def has_row_def opt_has_ref)

lemma insert_log_Inr [statement_Inr]:
  "insert_log l db = Inr db' \<longleftrightarrow>
     l_id l \<notin> l_id ` set (action_logs db) \<and> l_project_id l \<in> project_ids db \<and>
     opt_ref (l_node_id l) (node_ids db) \<and> db' = action_logs_update (\<lambda>rs. rs @ [l]) db"
  by (auto simp: insert_log_def has_row_def opt_has_ref)

lemma insert_provider_Inr [statement_Inr]:
  "insert_provider p db = Inr db' \<longleftrightarrow>
     pc_id p \<notin> provider_ids db \<and> db' = provider_configs_update (\<lambda>rs. rs @ [p]) db"
  by (auto simp: insert_provider_def has_row_def)

lemma insert_session_Inr [statement_Inr]:
  "insert_session s db = Inr db' \<longleftrightarrow>
     s_id s \<notin> session_ids db \<and> s_project_id s \<in> project_ids db \<and>
     opt_ref (s_assigned_node_id s) (node_ids db) \<and> opt_ref (s_assigned_branch_root_id s) (node_ids db) \<and>
     opt_ref (s_provider_id s) (provider_ids db) \<and> db' = agent_sessions_update (\<lambda>rs. rs @ [s]) db"
  by (auto simp: insert_session_def has_row_def opt_has_ref)

lemma insert_artifact_Inr [statement_Inr]:
  "insert_artifact a db = Inr db' \<longleftrightarrow>
     a_id a \<notin> a_id ` set (agent_artifacts db) \<and> a_session_id a \<in> session_ids db \<and>
     a_project_id a \<in> project_ids db \<and> a_target_node_id a \<in> node_ids db \<and>
     db' = agent_artifacts_update (\<lambda>rs. rs @ [a]) db"
  by (auto simp: insert_artifact_def has_row_def)

lemma insert_edge_frame:
  assumes "insert_edge e db = Inr db'"
  shows "edges db' = edges db @ [normalize_edge e]" "projects db' = projects db" "nodes db' = nodes db"
    "branches db' = branches db" "content_blocks db' = content_blocks db" "action_logs db' = action_logs db"
    "agent_sessions db' = agent_sessions db" "agent_artifacts db' = agent_artifacts db"
  using assms by (simp_all add: insert_edge_Inr)

lemma insert_node_frame:
  assumes "insert_node n db = Inr db'"
  shows "nodes db' = nodes db @ [n]" "projects db' = projects db" "edges db' = edges db"
    "branches db' = branches db" "content_blocks db' = content_blocks db" "action_logs db' = action_logs db"
    "agent_sessions db' = agent_sessions db" "agent_artifacts db' = agent_artifacts db"
  using assms by (simp_all add: insert_node_Inr)

section \<open>Every statement keeps the schema invariant\<close>

lemma schema_insert_project [schema_intros]:
  "insert_project p db = Inr db' \<Longrightarrow> schema_ok db \<Longrightarrow> schema_ok db'"
  by (simp add: statement_Inr schema_defs refs_insert)

lemma schema_insert_node [schema_intros]:
  "insert_node n db = Inr db' \<Longrightarrow> schema_ok db \<Longrightarrow> schema_ok db'"
  by (simp add: statement_Inr schema_defs refs_insert) (simp add: node_refs_ok_def)

lemma mainline_unique_snoc:
  assumes "mainline_unique es" and "\<not> (mainline_edge e \<and> mainline_taken es (e_from_node_id e))"
  shows "mainline_unique (es @ [e])"
proof (rule mainline_uniqueI)
  fix x y
  assume "x \<in> set (es @ [e])" "y \<in> set (es @ [e])" and m: "mainline_edge x" "mainline_edge y"
    and same: "e_from_node_id x = e_from_node_id y"
  then consider "x \<in> set es" "y \<in> set es" | "x = e" "y = e" | "x \<in> set es" "y = e" | "x = e" "y \<in> set es"
    by auto
  then show "e_id x = e_id y"
  proof cases
    case 1
    then show ?thesis using assms(1) m same by (blast dest: mainline_uniqueD)
  next
    case 2
    then show ?thesis by simp
  next
    case 3
    then have "mainline_taken es (e_from_node_id e)" using m same by (auto simp: mainline_taken_iff)
    then show ?thesis using assms(2) m 3 by simp
  next
    case 4
    then have "mainline_taken es (e_from_node_id e)" using m same by (auto simp: mainline_taken_iff)
    then show ?thesis using assms(2) m 4 by simp
  qed
qed

lemma schema_insert_edge [schema_intros]:
  assumes "insert_edge e db = Inr db'" and "schema_ok db"
  shows "schema_ok db'"
  using assms mainline_unique_snoc [of "edges db" "normalize_edge e"]
  by (simp add: statement_Inr schema_defs) (simp add: edge_refs_ok_def)

lemma schema_insert_block [schema_intros]:
  "insert_block b db = Inr db' \<Longrightarrow> schema_ok db \<Longrightarrow> schema_ok db'"
  by (simp add: statement_Inr schema_defs) (simp add: block_refs_ok_def)

lemma schema_insert_branch [schema_intros]:
  "insert_branch b db = Inr db' \<Longrightarrow> schema_ok db \<Longrightarrow> schema_ok db'"
  by (simp add: statement_Inr schema_defs refs_insert)
    (simp add: branch_refs_ok_def)

lemma schema_insert_log [schema_intros]:
  "insert_log l db = Inr db' \<Longrightarrow> schema_ok db \<Longrightarrow> schema_ok db'"
  by (simp add: statement_Inr schema_defs) (simp add: log_refs_ok_def)

lemma schema_insert_provider [schema_intros]:
  "insert_provider p db = Inr db' \<Longrightarrow> schema_ok db \<Longrightarrow> schema_ok db'"
  by (simp add: statement_Inr schema_defs refs_insert)

lemma schema_insert_session [schema_intros]:
  "insert_session s db = Inr db' \<Longrightarrow> schema_ok db \<Longrightarrow> schema_ok db'"
  by (simp add: statement_Inr schema_defs refs_insert)
    (simp add: session_refs_ok_def)

lemma schema_insert_artifact [schema_intros]:
  "insert_artifact a db = Inr db' \<Longrightarrow> schema_ok db \<Longrightarrow> schema_ok db'"
  by (simp add: statement_Inr schema_defs) (simp add: artifact_refs_ok_def)

text \<open>Rewriting rows in place without touching keys or references.\<close>

lemma schema_map_projects:
  assumes "\<And>p. p_id (f p) = p_id p" and "schema_ok db"
  shows "schema_ok (projects_update (map f) db)"
  using assms by (simp add: schema_defs image_image comp_def)

lemma schema_map_nodes:
  assumes "\<And>n. n_id (f n) = n_id n" "\<And>n. n_project_id (f n) = n_project_id n"
    "\<And>n. n_branch_id (f n) = n_branch_id n \<or> n_branch_id (f n) = None" and "schema_ok db"
  shows "schema_ok (nodes_update (map f) db)"
proof -
  have "node_refs_ok (map f ns) P B" if "node_refs_ok ns P B" for ns P B
    using that assms(1-3) unfolding node_refs_ok_def by (metis (no_types, lifting) imageE list.set_map opt_ref_None)
  then show ?thesis using assms(1,4) by (simp add: schema_defs image_image comp_def)
qed

lemma schema_map_edges:
  assumes "\<And>e. e_id (f e) = e_id e" "\<And>e. e_project_id (f e) = e_project_id e"
    "\<And>e. e_from_node_id (f e) = e_from_node_id e" "\<And>e. e_to_node_id (f e) = e_to_node_id e"
    "\<And>e. mainline_edge (f e) \<Longrightarrow> mainline_edge e" and "schema_ok db"
  shows "schema_ok (edges_update (map f) db)"
proof -
  have "edge_refs_ok (map f es) P N" if "edge_refs_ok es P N" for es P N
    using that assms(2-4) by (simp add: edge_refs_ok_def)
  moreover have "mainline_unique (map f es)" if "mainline_unique es" for es
  proof (rule mainline_uniqueI)
    fix x y
    assume "x \<in> set (map f es)" "y \<in> set (map f es)" and m: "mainline_edge x" "mainline_edge y"
      and same: "e_from_node_id x = e_from_node_id y"
    then obtain x0 y0 where "x0 \<in> set es" "y0 \<in> set es" and xy: "x = f x0" "y = f y0" by auto
    then have "e_id x0 = e_id y0"
      using that m same assms(3,5) by (intro mainline_uniqueD [of es]) auto
    then show "e_id x = e_id y" using assms(1) xy by simp
  qed
  ultimately show ?thesis using assms(1,6) by (simp add: schema_defs comp_def)
qed

lemma schema_map_blocks:
  assumes "\<And>b. b_id (f b) = b_id b" "\<And>b. b_node_id (f b) = b_node_id b" and "schema_ok db"
  shows "schema_ok (content_blocks_update (map f) db)"
  using assms by (simp add: schema_defs comp_def block_refs_ok_def)

lemma schema_map_branches:
  assumes "\<And>b. br_id (f b) = br_id b" "\<And>b. br_project_id (f b) = br_project_id b"
    "\<And>b. br_source_node_id (f b) = br_source_node_id b" and "schema_ok db"
  shows "schema_ok (branches_update (map f) db)"
  using assms by (simp add: schema_defs image_image comp_def branch_refs_ok_def)

lemma schema_map_sessions:
  assumes "\<And>s. s_id (f s) = s_id s" "\<And>s. s_project_id (f s) = s_project_id s"
    "\<And>s. s_assigned_node_id (f s) = s_assigned_node_id s"
    "\<And>s. s_assigned_branch_root_id (f s) = s_assigned_branch_root_id s"
    "\<And>s. s_provider_id (f s) = s_provider_id s" and "schema_ok db"
  shows "schema_ok (agent_sessions_update (map f) db)"
  using assms by (simp add: schema_defs image_image comp_def session_refs_ok_def)

lemma schema_map_artifacts:
  assumes "\<And>a. a_id (f a) = a_id a" "\<And>a. a_session_id (f a) = a_session_id a"
    "\<And>a. a_project_id (f a) = a_project_id a" "\<And>a. a_target_node_id (f a) = a_target_node_id a"
    and "schema_ok db"
  shows "schema_ok (agent_artifacts_update (map f) db)"
  using assms by (simp add: schema_defs comp_def artifact_refs_ok_def)

lemma schema_map_grants:
  assumes "\<And>g. g_id (f g) = g_id g" "\<And>g. g_token_prefix (f g) = g_token_prefix g"
    "\<And>g. g_project_id (f g) = g_project_id g" "\<And>g. g_node_scope_id (f g) = g_node_scope_id g"
    "\<And>g. g_branch_root_id (f g) = g_branch_root_id g" and "schema_ok db"
  shows "schema_ok (agent_grants_update (map f) db)"
  using assms by (simp add: schema_defs image_image comp_def grant_refs_ok_def)

lemma schema_map_proposals:
  assumes "\<And>r. pr_id (f r) = pr_id r" "\<And>r. pr_grant_id (f r) = pr_grant_id r"
    "\<And>r. pr_project_id (f r) = pr_project_id r" "\<And>r. pr_target_node_id (f r) = pr_target_node_id r" and "schema_ok db"
  shows "schema_ok (agent_proposals_update (map f) db)"
  using assms by (simp add: schema_defs comp_def proposal_refs_ok_def)

lemma schema_map_providers:
  assumes "\<And>p. pc_id (f p) = pc_id p" and "schema_ok db"
  shows "schema_ok (provider_configs_update (map f) db)"
  using assms by (simp add: schema_defs image_image comp_def)

lemma schema_filter_edges:
  "schema_ok db \<Longrightarrow> schema_ok (edges_update (filter P) db)"
  by (simp add: schema_defs distinct_map_filter refs_subset(2) [OF filter_is_subset]
      mainline_unique_subset [OF filter_is_subset])

lemma schema_filter_blocks:
  "schema_ok db \<Longrightarrow> schema_ok (content_blocks_update (filter P) db)"
  by (simp add: schema_defs distinct_map_filter refs_subset(3) [OF filter_is_subset])

lemma schema_delete_edge_row: "schema_ok db \<Longrightarrow> schema_ok (delete_edge_row i db)"
  using schema_filter_edges [of db "\<lambda>e. e_id e \<noteq> i"]
  by (simp add: delete_edge_row_def row_delete_def [abs_def])

lemma schema_delete_block_row: "schema_ok db \<Longrightarrow> schema_ok (delete_block_row i db)"
  using schema_filter_blocks [of db "\<lambda>e. b_id e \<noteq> i"]
  by (simp add: delete_block_row_def row_delete_def [abs_def])

lemma schema_delete_edges_touching: "schema_ok db \<Longrightarrow> schema_ok (delete_edges_touching gone db)"
  by (simp add: delete_edges_touching_def schema_filter_edges)

lemma mainline_unique_set:
  assumes "distinct (map e_id es)" "mainline_unique es" "e \<in> set es"
    and "\<not> (is_child_edge e \<and> mainline_taken (row_delete e_id (e_id e) es) (e_from_node_id e))"
  shows "mainline_unique (row_update e_id (e_id e) (\<lambda>e. e\<lparr>e_is_mainline := True\<rparr>) es)"
    (is "mainline_unique (row_update _ _ ?f _)")
proof (rule mainline_uniqueI)
  have only: "x = ?f e" if "x \<in> set (row_update e_id (e_id e) ?f es)" "e_id x = e_id e" for x
    using that assms(1,3) by (auto simp: set_row_update distinct_map inj_on_def split: if_splits)
  have other: "x \<in> set es" if "x \<in> set (row_update e_id (e_id e) ?f es)" "e_id x \<noteq> e_id e" for x
    using that by (auto simp: set_row_update split: if_splits)
  have clash: False
    if "x \<in> set es" "e_id x \<noteq> e_id e" "mainline_edge x" "mainline_edge (?f e)" "e_from_node_id x = e_from_node_id e" for x
    using that assms(4) by (auto simp: mainline_taken_iff set_row_delete mainline_edge_def is_child_edge_def)
  fix x y
  assume x: "x \<in> set (row_update e_id (e_id e) ?f es)" and y: "y \<in> set (row_update e_id (e_id e) ?f es)"
    and m: "mainline_edge x" "mainline_edge y" and same: "e_from_node_id x = e_from_node_id y"
  consider "e_id x = e_id e" "e_id y = e_id e" | "e_id x = e_id e" "e_id y \<noteq> e_id e"
    | "e_id x \<noteq> e_id e" "e_id y = e_id e" | "e_id x \<noteq> e_id e" "e_id y \<noteq> e_id e" by blast
  then show "e_id x = e_id y"
  proof cases
    case 2
    with only [OF x] other [OF y] clash [of y] m same show ?thesis by simp
  next
    case 3
    with only [OF y] other [OF x] clash [of x] m same show ?thesis by simp
  next
    case 4
    with other [OF x] other [OF y] assms(2) m same show ?thesis by (blast dest: mainline_uniqueD)
  qed simp
qed

lemma schema_set_edge_mainline [schema_intros]:
  assumes "set_edge_mainline i db = Inr db'" and ok: "schema_ok db"
  shows "schema_ok db'"
proof (cases "get_edge_row db i")
  case None
  with assms show ?thesis by (simp add: set_edge_mainline_def)
next
  case (Some e)
  then have e: "e \<in> set (edges db)" "e_id e = i" by (auto simp: get_edge_row_def dest: row_get_Some)
  let ?f = "\<lambda>e. e\<lparr>e_is_mainline := True\<rparr>"
  from assms(1) Some have free: "\<not> (is_child_edge e \<and> mainline_taken (row_delete e_id i (edges db)) (e_from_node_id e))"
    and db': "db' = edges_update (row_update e_id i ?f) db"
    by (auto simp: set_edge_mainline_def split: if_splits)
  have "mainline_unique (row_update e_id i ?f (edges db))"
    using free e ok mainline_unique_set [of "edges db" e] by (simp add: schema_ok_def keys_ok_def)
  moreover have "edge_refs_ok (row_update e_id i ?f (edges db)) P N" if "edge_refs_ok (edges db) P N" for P N
    using that by (auto simp: edge_refs_ok_def set_row_update)
  ultimately show ?thesis
    using ok unfolding db' by (simp add: schema_defs map_key_row_update)
qed

lemma grants_where_frame:
  "projects (delete_grants_where P db) = projects db" "nodes (delete_grants_where P db) = nodes db"
  "edges (delete_grants_where P db) = edges db" "content_blocks (delete_grants_where P db) = content_blocks db"
  "action_logs (delete_grants_where P db) = action_logs db" "suggestions (delete_grants_where P db) = suggestions db"
  "provider_configs (delete_grants_where P db) = provider_configs db"
  "branches (delete_grants_where P db) = branches db" "agent_artifacts (delete_grants_where P db) = agent_artifacts db"
  "agent_sessions (delete_grants_where P db) = agent_sessions db"
  by (simp_all add: delete_grants_where_def Let_def)

lemma grant_exists: "list_ex (\<lambda>g. g_id g = i) gs \<longleftrightarrow> i \<in> g_id ` set gs"
  by (auto simp: list_ex_iff)

lemma grants_without:
  "i \<in> g_id ` set gs \<Longrightarrow> i \<notin> g_id ` {g \<in> set gs. P g} \<Longrightarrow> i \<in> g_id ` {g \<in> set gs. \<not> P g}"
  by blast

lemma refs_without_grants:
  "receipt_refs_ok rs (g_id ` set gs) Q \<Longrightarrow>
     receipt_refs_ok (filter (\<lambda>r. r_grant_id r \<notin> g_id ` {g \<in> set gs. P g}) rs) (g_id ` {g \<in> set gs. \<not> P g}) Q"
  "proposal_refs_ok ps (g_id ` set gs) Q N \<Longrightarrow>
     proposal_refs_ok (filter (\<lambda>r. pr_grant_id r \<notin> g_id ` {g \<in> set gs. P g}) ps) (g_id ` {g \<in> set gs. \<not> P g}) Q N"
  "event_refs_ok es (g_id ` set gs) Q N \<Longrightarrow>
     event_refs_ok (filter (\<lambda>r. ev_grant_id r \<notin> g_id ` {g \<in> set gs. P g}) es) (g_id ` {g \<in> set gs. \<not> P g}) Q N"
  "readback_refs_ok bs (g_id ` set gs) Q N \<Longrightarrow>
     readback_refs_ok (filter (\<lambda>r. rb_grant_id r \<notin> g_id ` {g \<in> set gs. P g}) bs) (g_id ` {g \<in> set gs. \<not> P g}) Q N"
  unfolding row_refs_defs by (simp_all add: grants_without)

lemma schema_delete_grants: "schema_ok db \<Longrightarrow> schema_ok (delete_grants_where P db)"
  unfolding delete_grants_where_def Let_def
  by (simp add: schema_defs distinct_map_filter refs_without_grants) (simp add: grant_refs_ok_def)

lemma delete_nodes_frame:
  "projects (delete_nodes gone db) = projects db"
  "nodes (delete_nodes gone db) = filter (\<lambda>n. n_id n \<notin> set gone) (nodes db)"
  "edges (delete_nodes gone db) = filter (\<lambda>e. e_from_node_id e \<notin> set gone \<and> e_to_node_id e \<notin> set gone) (edges db)"
  "content_blocks (delete_nodes gone db) = filter (\<lambda>b. b_node_id b \<notin> set gone) (content_blocks db)"
  "provider_configs (delete_nodes gone db) = provider_configs db"
  "agent_artifacts (delete_nodes gone db) = filter (\<lambda>a. a_target_node_id a \<notin> set gone) (agent_artifacts db)"
  "action_logs (delete_nodes gone db) = map (\<lambda>l. l\<lparr>l_node_id := unset_in gone (l_node_id l)\<rparr>) (action_logs db)"
  "branches (delete_nodes gone db) = map (\<lambda>b. b\<lparr>br_source_node_id := unset_in gone (br_source_node_id b)\<rparr>) (branches db)"
  "agent_sessions (delete_nodes gone db) = map (\<lambda>s. s\<lparr>s_assigned_node_id := unset_in gone (s_assigned_node_id s),
     s_assigned_branch_root_id := unset_in gone (s_assigned_branch_root_id s)\<rparr>) (agent_sessions db)"
  by (simp_all add: delete_nodes_def Let_def grants_where_frame)

lemma node_ids_filter: "n_id ` {n \<in> set ns. n_id n \<notin> G} = n_id ` set ns - G"
  by auto

lemma refs_without_nodes:
  "edge_refs_ok es P N \<Longrightarrow>
     edge_refs_ok (filter (\<lambda>e. e_from_node_id e \<notin> set gone \<and> e_to_node_id e \<notin> set gone) es) P (N - set gone)"
  "block_refs_ok bs N \<Longrightarrow> block_refs_ok (filter (\<lambda>b. b_node_id b \<notin> set gone) bs) (N - set gone)"
  "artifact_refs_ok as S P N \<Longrightarrow>
     artifact_refs_ok (filter (\<lambda>a. a_target_node_id a \<notin> set gone) as) S P (N - set gone)"
  "log_refs_ok ls P N \<Longrightarrow>
     log_refs_ok (map (\<lambda>l. l\<lparr>l_node_id := unset_in gone (l_node_id l)\<rparr>) ls) P (N - set gone)"
  "branch_refs_ok rs P N \<Longrightarrow>
     branch_refs_ok (map (\<lambda>b. b\<lparr>br_source_node_id := unset_in gone (br_source_node_id b)\<rparr>) rs) P (N - set gone)"
  "session_refs_ok ss P N C \<Longrightarrow>
     session_refs_ok (map (\<lambda>s. s\<lparr>s_assigned_node_id := unset_in gone (s_assigned_node_id s),
       s_assigned_branch_root_id := unset_in gone (s_assigned_branch_root_id s)\<rparr>) ss) P (N - set gone) C"
  "suggestion_refs_ok sg P N \<Longrightarrow>
     suggestion_refs_ok (filter (\<lambda>s. sg_target_node_id s \<notin> set gone) sg) P (N - set gone)"
  "proposal_refs_ok ps G P N \<Longrightarrow>
     proposal_refs_ok (map (\<lambda>r. r\<lparr>pr_target_node_id := unset_in gone (pr_target_node_id r)\<rparr>) ps) G P (N - set gone)"
  "event_refs_ok vs G P N \<Longrightarrow>
     event_refs_ok (map (\<lambda>r. r\<lparr>ev_target_node_id := unset_in gone (ev_target_node_id r)\<rparr>) vs) G P (N - set gone)"
  "readback_refs_ok ks G P N \<Longrightarrow>
     readback_refs_ok (map (\<lambda>r. r\<lparr>rb_target_node_id := unset_in gone (rb_target_node_id r)\<rparr>) ks) G P (N - set gone)"
  unfolding row_refs_defs by (simp_all add: opt_ref_unset_in)

lemma opt_ref_minus: "opt_ref x N \<Longrightarrow> \<not> opt_in x gone \<Longrightarrow> opt_ref x (N - set gone)"
  by (auto simp: opt_ref_def opt_in_def split: option.splits)

lemma grant_refs_without_nodes:
  "grant_refs_ok gs P N \<Longrightarrow> \<forall>g \<in> set gs. \<not> opt_in (g_node_scope_id g) gone \<and> \<not> opt_in (g_branch_root_id g) gone \<Longrightarrow>
     grant_refs_ok gs P (N - set gone)"
  by (simp add: grant_refs_ok_def opt_ref_minus)

lemma schema_delete_nodes:
  assumes "schema_ok db"
  shows "schema_ok (delete_nodes gone db)"
proof -
  define d where "d = delete_grants_where (\<lambda>g. opt_in (g_node_scope_id g) gone \<or> opt_in (g_branch_root_id g) gone) db"
  have ok: "schema_ok d" using assms by (simp add: d_def schema_delete_grants)
  have scopes: "\<forall>g \<in> set (agent_grants d). \<not> opt_in (g_node_scope_id g) gone \<and> \<not> opt_in (g_branch_root_id g) gone"
    by (simp add: d_def delete_grants_where_def Let_def)
  show ?thesis
    unfolding delete_nodes_def d_def [symmetric]
    using ok scopes
    by (simp add: Let_def schema_defs distinct_map_filter comp_def image_image node_ids_filter refs_without_nodes
        grant_refs_without_nodes refs_subset(1) [OF filter_is_subset] mainline_unique_subset [OF filter_is_subset])
qed

lemma schema_delete_provider [schema_intros]:
  assumes "delete_provider_row i db = Inr db'" and "schema_ok db"
  shows "schema_ok db'"
proof -
  have free: "s_provider_id s \<noteq> Some i" if "s \<in> set (agent_sessions db)" for s
    using assms(1) that by (auto simp: delete_provider_row_def list_ex_iff split: if_splits)
  have "opt_ref x (pc_id ` {p \<in> set (provider_configs db). pc_id p \<noteq> i})"
    if "opt_ref x (provider_ids db)" "x \<noteq> Some i" for x
    using that by (auto simp: opt_ref_def split: option.splits)
  moreover have "db' = provider_configs_update (row_delete pc_id i) db"
    using assms(1) by (auto simp: delete_provider_row_def split: if_splits)
  ultimately show ?thesis
    using assms(2) free
    by (simp add: schema_defs distinct_map_row_delete set_row_delete session_refs_ok_def)
qed

lemma unset_branches_ref:
  "opt_ref x (br_id ` set bs) \<Longrightarrow> distinct (map br_id bs) \<Longrightarrow>
     opt_ref (unset_in (map br_id (filter (\<lambda>b. br_project_id b = i) bs)) x)
       (br_id ` {b \<in> set bs. br_project_id b \<noteq> i})"
  by (auto simp: opt_ref_def unset_in_def split: option.splits)

lemma refs_without_project:
  "node_refs_ok ns P (br_id ` set bs) \<Longrightarrow> distinct (map br_id bs) \<Longrightarrow> \<forall>n \<in> set ns. n_project_id n \<noteq> i \<Longrightarrow>
     node_refs_ok (map (\<lambda>n. n\<lparr>n_branch_id := unset_in (map br_id (filter (\<lambda>b. br_project_id b = i) bs)) (n_branch_id n)\<rparr>) ns)
       (P - {i}) (br_id ` {b \<in> set bs. br_project_id b \<noteq> i})"
  "edge_refs_ok es P N \<Longrightarrow> edge_refs_ok (filter (\<lambda>e. e_project_id e \<noteq> i) es) (P - {i}) N"
  "log_refs_ok ls P N \<Longrightarrow> log_refs_ok (filter (\<lambda>l. l_project_id l \<noteq> i) ls) (P - {i}) N"
  "branch_refs_ok bs P N \<Longrightarrow> branch_refs_ok (filter (\<lambda>b. br_project_id b \<noteq> i) bs) (P - {i}) N"
  "session_refs_ok ss P N C \<Longrightarrow> session_refs_ok (filter (\<lambda>s. s_project_id s \<noteq> i) ss) (P - {i}) N C"
  "suggestion_refs_ok sg P N \<Longrightarrow> suggestion_refs_ok (filter (\<lambda>s. sg_project_id s \<noteq> i) sg) (P - {i}) N"
  "grant_refs_ok gs P N \<Longrightarrow> \<forall>g \<in> set gs. g_project_id g \<noteq> i \<Longrightarrow> grant_refs_ok gs (P - {i}) N"
  "receipt_refs_ok qs G P \<Longrightarrow> receipt_refs_ok (filter (\<lambda>r. r_project_id r \<noteq> i) qs) G (P - {i})"
  "proposal_refs_ok ps G P N \<Longrightarrow> proposal_refs_ok (filter (\<lambda>r. pr_project_id r \<noteq> i) ps) G (P - {i}) N"
  "event_refs_ok vs G P N \<Longrightarrow> event_refs_ok (filter (\<lambda>r. ev_project_id r \<noteq> i) vs) G (P - {i}) N"
  "readback_refs_ok ks G P N \<Longrightarrow> readback_refs_ok (filter (\<lambda>r. rb_project_id r \<noteq> i) ks) G (P - {i}) N"
  unfolding row_refs_defs by (simp_all add: unset_branches_ref)

lemma artifact_refs_without_project:
  assumes "artifact_refs_ok as (s_id ` set ss) P N"
  shows "artifact_refs_ok
     (filter (\<lambda>a. a_project_id a \<noteq> i \<and> a_session_id a \<notin> s_id ` {s \<in> set ss. s_project_id s = i}) as)
     (s_id ` {s \<in> set ss. s_project_id s \<noteq> i}) (P - {i}) N"
  using assms unfolding artifact_refs_ok_def by auto

lemma project_ids_row_delete: "p_id ` {p \<in> set ps. p_id p \<noteq> i} = p_id ` set ps - {i}"
  by auto

lemma delete_project_frame:
  "projects (delete_project_row i db) = row_delete p_id i (projects db)"
  "provider_configs (delete_project_row i db) = provider_configs db"
  "map n_id (nodes (delete_project_row i db)) =
     map n_id (nodes (delete_nodes (map n_id (filter (\<lambda>n. n_project_id n = i) (nodes db))) db))"
  by (simp_all add: delete_project_row_def Let_def delete_nodes_frame grants_where_frame comp_def)

lemma schema_delete_project:
  assumes "schema_ok db"
  shows "schema_ok (delete_project_row i db)"
proof -
  define d0 where "d0 = delete_nodes (map n_id (filter (\<lambda>n. n_project_id n = i) (nodes db))) db"
  define d where "d = delete_grants_where (\<lambda>g. g_project_id g = i) d0"
  have ok: "schema_ok d" using assms by (simp add: d_def d0_def schema_delete_nodes schema_delete_grants)
  have own: "\<forall>n \<in> set (nodes d). n_project_id n \<noteq> i"
    by (auto simp: d_def d0_def delete_nodes_frame grants_where_frame)
  have grants: "\<forall>g \<in> set (agent_grants d). g_project_id g \<noteq> i"
    by (simp add: d_def delete_grants_where_def Let_def)
  show ?thesis
    unfolding delete_project_row_def d0_def [symmetric] Let_def
    unfolding d_def [symmetric]
    using ok own grants
    by (simp add: schema_defs refs_without_project artifact_refs_without_project
        distinct_map_row_delete set_row_delete project_ids_row_delete distinct_map_filter comp_def image_image
        mainline_unique_subset [OF filter_is_subset])
qed

end
