(* ===== verification/Revisions.thy ===== *)
theory Revisions
  imports Integrity
begin

text \<open>
  Optimistic concurrency (\<open>api/revisions.py\<close>): the compare-and-swap on a project's revision,
  the revision check of one entity, and the collector that bumps every touched row once.
  The locale \<open>revisioned\<close> is the contract of a table whose rows carry a revision; \<open>cas_handler\<close>
  is the contract every mutating handler promises its clients: it succeeds only at the
  revision the client saw, and moves that project's revision by exactly one.
\<close>

section \<open>Claims and checks\<close>

text \<open>\<open>entity.revision or 1\<close>.\<close>

definition current_revision :: "int \<Rightarrow> int" where
  "current_revision r = (if r = 0 then 1 else r)"

definition project_revision :: "db \<Rightarrow> ident \<Rightarrow> int option" where
  "project_revision db pid = map_option p_revision (get_project_row db pid)"

definition claimed_project :: "env \<Rightarrow> project \<Rightarrow> project" where
  "claimed_project env p = p\<lparr>p_revision := p_revision p + 1, p_updated_at := now env\<rparr>"

definition claim_project_revision :: "env \<Rightarrow> ident \<Rightarrow> int \<Rightarrow> db \<Rightarrow> db result" where
  "claim_project_revision env pid expected db =
     (case get_project_row db pid of
        None \<Rightarrow> Inl (HTTPException 404 ''Project not found'')
      | Some p \<Rightarrow>
          if p_revision p = expected
          then Inr (projects_update (row_update p_id pid (claimed_project env)) db)
          else Inl (RevisionConflict ''project'' pid expected (Some (p_revision p))))"

definition check_entity_revision :: "string \<Rightarrow> ident \<Rightarrow> int \<Rightarrow> int \<Rightarrow> unit result" where
  "check_entity_revision kind i revision expected =
     (if expected \<noteq> current_revision revision
      then Inl (RevisionConflict kind i expected (Some (current_revision revision)))
      else Inr ())"

section \<open>Touched entities\<close>

text \<open>
  A touched row is named by its class and key, as the collector's dictionary keys it. Adding a
  row twice keeps one entry. Rows with an \<open>onupdate\<close> timestamp get the clock with the bump.
\<close>

datatype entity_ref = NodeRef ident | EdgeRef ident | BlockRef ident | BranchRef ident

type_synonym touched_entities = "entity_ref list"

definition touched_add :: "entity_ref list \<Rightarrow> touched_entities \<Rightarrow> touched_entities" where
  "touched_add refs t = fold (\<lambda>r t. if r \<in> set t then t else t @ [r]) refs t"

definition bump_node :: "env \<Rightarrow> node \<Rightarrow> node" where
  "bump_node env n = n\<lparr>n_revision := current_revision (n_revision n) + 1, n_updated_at := now env\<rparr>"

definition bump_edge :: "edge \<Rightarrow> edge" where
  "bump_edge e = e\<lparr>e_revision := current_revision (e_revision e) + 1\<rparr>"

definition bump_block :: "env \<Rightarrow> content_block \<Rightarrow> content_block" where
  "bump_block env b = b\<lparr>b_revision := current_revision (b_revision b) + 1, b_updated_at := now env\<rparr>"

definition bump_branch :: "branch \<Rightarrow> branch" where
  "bump_branch b = b\<lparr>br_revision := current_revision (br_revision b) + 1\<rparr>"

fun bump_entity :: "env \<Rightarrow> entity_ref \<Rightarrow> db \<Rightarrow> db" where
  "bump_entity env (NodeRef i) db = nodes_update (row_update n_id i (bump_node env)) db"
| "bump_entity env (EdgeRef i) db = edges_update (row_update e_id i bump_edge) db"
| "bump_entity env (BlockRef i) db = content_blocks_update (row_update b_id i (bump_block env)) db"
| "bump_entity env (BranchRef i) db = branches_update (row_update br_id i bump_branch) db"

definition touched_apply :: "env \<Rightarrow> touched_entities \<Rightarrow> db \<Rightarrow> db" where
  "touched_apply env t db = fold (bump_entity env) t db"

definition bump_existing :: "env \<Rightarrow> entity_ref list \<Rightarrow> db \<Rightarrow> db" where
  "bump_existing env refs db = touched_apply env (touched_add refs []) db"

section \<open>The contract of a revisioned table\<close>

locale revisioned = table key rows alter
  for key :: "'r \<Rightarrow> ident" and rows :: "'d \<Rightarrow> 'r list"
    and alter :: "('r list \<Rightarrow> 'r list) \<Rightarrow> 'd \<Rightarrow> 'd" +
  fixes revision :: "'r \<Rightarrow> int"
    and bump :: "'r \<Rightarrow> 'r"
  assumes key_bump: "key (bump r) = key r"
    and revision_bump: "revision (bump r) = current_revision (revision r) + 1"
begin

lemma get_bumped:
  "row_get key (rows (alter (row_update key i bump) d)) j =
    (if j = i then map_option bump (row_get key (rows d) j) else row_get key (rows d) j)"
  by (rule get_after_update) (rule key_bump)

lemma stale_after_bump:
  assumes "row_get key (rows d) i = Some r" and "0 \<le> revision r"
  shows "\<exists>r'. row_get key (rows (alter (row_update key i bump) d)) i = Some r' \<and>
    check_entity_revision kind i (revision r') (current_revision (revision r)) =
      Inl (RevisionConflict kind i (current_revision (revision r)) (Some (current_revision (revision r) + 1)))"
  using assms by (simp add: get_bumped check_entity_revision_def revision_bump current_revision_def)

end

interpretation node_rev: revisioned n_id nodes nodes_update n_revision "bump_node env" for env
  by unfold_locales (simp_all add: bump_node_def)

interpretation edge_rev: revisioned e_id edges edges_update e_revision bump_edge
  by unfold_locales (simp_all add: bump_edge_def)

interpretation block_rev: revisioned b_id content_blocks content_blocks_update b_revision "bump_block env" for env
  by unfold_locales (simp_all add: bump_block_def)

interpretation branch_rev: revisioned br_id branches branches_update br_revision bump_branch
  by unfold_locales (simp_all add: bump_branch_def)

section \<open>Claims\<close>

lemma claim_project_Inr:
  "claim_project_revision env pid expected db = Inr db' \<longleftrightarrow>
     project_revision db pid = Some expected \<and>
     db' = projects_update (row_update p_id pid (claimed_project env)) db"
  by (auto simp: claim_project_revision_def project_revision_def split: option.splits)

declare claim_project_Inr [statement_Inr]

lemma check_entity_Inr [statement_Inr]:
  "check_entity_revision kind i revision expected = Inr u \<longleftrightarrow> expected = current_revision revision"
  by (simp add: check_entity_revision_def)

lemma claimed_project_id [simp]: "p_id (claimed_project env p) = p_id p"
  by (simp add: claimed_project_def)

lemma claimed_project_simps [simp]:
  "p_root_node_id (claimed_project env p) = p_root_node_id p"
  "p_status (claimed_project env p) = p_status p"
  "p_revision (claimed_project env p) = p_revision p + 1"
  by (simp_all add: claimed_project_def)

lemma project_revision_claimed:
  "project_revision (projects_update (row_update p_id pid (claimed_project env)) db) q =
     (if q = pid then map_option (\<lambda>r. r + 1) (project_revision db q) else project_revision db q)"
  by (simp add: project_revision_def get_project_row_def row_get_update option.map_comp comp_def)

lemma schema_claim [schema_intros]:
  "claim_project_revision env pid expected db = Inr db' \<Longrightarrow> schema_ok db \<Longrightarrow> schema_ok db'"
  by (auto simp: claim_project_Inr row_update_def [abs_def] intro!: schema_map_projects)

lemma claim_frame:
  assumes "claim_project_revision env pid expected db = Inr db'"
  shows "nodes db' = nodes db" "edges db' = edges db" "content_blocks db' = content_blocks db" "branches db' = branches db"
    "action_logs db' = action_logs db" "agent_sessions db' = agent_sessions db" "agent_artifacts db' = agent_artifacts db"
    "provider_configs db' = provider_configs db" "child_rel db' = child_rel db"
  using assms by (simp_all add: claim_project_Inr child_rel_def)

lemma project_revision_cong: "projects d = projects d' \<Longrightarrow> project_revision d = project_revision d'"
  by (rule ext) (simp add: project_revision_def get_project_row_def)

text \<open>\<open>advances db pid r db'\<close>: the project stood at revision \<open>r\<close>, now stands one higher, and no other moved.\<close>

definition advances :: "db \<Rightarrow> ident \<Rightarrow> int \<Rightarrow> db \<Rightarrow> bool" where
  "advances db pid r db' \<longleftrightarrow>
     project_revision db pid = Some r \<and> project_revision db' = (project_revision db)(pid := Some (r + 1))"

lemma claim_advances:
  assumes "claim_project_revision env pid r db = Inr db1" and "projects db' = projects db1"
  shows "advances db pid r db'"
  using assms by (auto simp: advances_def claim_project_Inr fun_eq_iff project_revision_def get_project_row_def row_get_update)

lemma advancesD:
  "advances db pid r db' \<Longrightarrow> project_revision db pid = Some r"
  "advances db pid r db' \<Longrightarrow> project_revision db' pid = Some (r + 1)"
  "advances db pid r db' \<Longrightarrow> q \<noteq> pid \<Longrightarrow> project_revision db' q = project_revision db q"
  by (simp_all add: advances_def)

section \<open>The collector bumps every touched row once\<close>

lemma set_touched_add: "set (touched_add refs t) = set refs \<union> set t"
  unfolding touched_add_def by (induction refs arbitrary: t) auto

lemma distinct_touched_add: "distinct t \<Longrightarrow> distinct (touched_add refs t)"
  unfolding touched_add_def by (induction refs arbitrary: t) auto

lemma bump_row_frame [simp]:
  "n_id (bump_node env n) = n_id n" "n_project_id (bump_node env n) = n_project_id n"
  "n_branch_id (bump_node env n) = n_branch_id n" "n_maturity (bump_node env n) = n_maturity n"
  "e_id (bump_edge e) = e_id e" "e_project_id (bump_edge e) = e_project_id e"
  "e_from_node_id (bump_edge e) = e_from_node_id e" "e_to_node_id (bump_edge e) = e_to_node_id e"
  "e_relation_type (bump_edge e) = e_relation_type e" "e_is_mainline (bump_edge e) = e_is_mainline e"
  "b_id (bump_block env b) = b_id b" "b_node_id (bump_block env b) = b_node_id b"
  "b_order_index (bump_block env b) = b_order_index b"
  "br_id (bump_branch r) = br_id r" "br_project_id (bump_branch r) = br_project_id r"
  "br_source_node_id (bump_branch r) = br_source_node_id r"
  by (simp_all add: bump_node_def bump_edge_def bump_block_def bump_branch_def)

lemma bump_edge_kind [simp]:
  "is_child_edge (bump_edge e) = is_child_edge e" "mainline_edge (bump_edge e) = mainline_edge e"
  by (simp_all add: is_child_edge_def mainline_edge_def)

lemma bump_entity_frame [simp]:
  "projects (bump_entity env r db) = projects db" "action_logs (bump_entity env r db) = action_logs db"
  "agent_sessions (bump_entity env r db) = agent_sessions db"
  "agent_artifacts (bump_entity env r db) = agent_artifacts db"
  "provider_configs (bump_entity env r db) = provider_configs db"
  by (cases r; simp)+

lemma touched_apply_frame [simp]:
  "projects (touched_apply env t db) = projects db" "action_logs (touched_apply env t db) = action_logs db"
  "agent_sessions (touched_apply env t db) = agent_sessions db"
  "agent_artifacts (touched_apply env t db) = agent_artifacts db"
  "provider_configs (touched_apply env t db) = provider_configs db"
  unfolding touched_apply_def by (induction t arbitrary: db) simp_all

lemma touched_apply_simps:
  "touched_apply env [] db = db"
  "touched_apply env (r # t) db = touched_apply env t (bump_entity env r db)"
  by (simp_all add: touched_apply_def)

lemma schema_bump_entity: "schema_ok db \<Longrightarrow> schema_ok (bump_entity env r db)"
  by (cases r) (auto simp: row_update_def [abs_def] split: if_splits
      intro!: schema_map_nodes schema_map_edges schema_map_blocks schema_map_branches)

lemma schema_touched_apply: "schema_ok db \<Longrightarrow> schema_ok (touched_apply env t db)"
  by (induction t arbitrary: db) (simp_all add: touched_apply_simps schema_bump_entity)

lemma touched_apply_nodes:
  "distinct t \<Longrightarrow> nodes (touched_apply env t db) =
     map (\<lambda>n. if NodeRef (n_id n) \<in> set t then bump_node env n else n) (nodes db)"
proof (induction t arbitrary: db)
  case (Cons r t)
  then show ?case by (cases r) (auto simp: touched_apply_simps row_update_def)
qed (simp add: touched_apply_simps)

lemma touched_apply_edges:
  "distinct t \<Longrightarrow> edges (touched_apply env t db) =
     map (\<lambda>e. if EdgeRef (e_id e) \<in> set t then bump_edge e else e) (edges db)"
proof (induction t arbitrary: db)
  case (Cons r t)
  then show ?case by (cases r) (auto simp: touched_apply_simps row_update_def)
qed (simp add: touched_apply_simps)

lemma touched_apply_blocks:
  "distinct t \<Longrightarrow> content_blocks (touched_apply env t db) =
     map (\<lambda>b. if BlockRef (b_id b) \<in> set t then bump_block env b else b) (content_blocks db)"
proof (induction t arbitrary: db)
  case (Cons r t)
  then show ?case by (cases r) (auto simp: touched_apply_simps row_update_def)
qed (simp add: touched_apply_simps)

lemma touched_apply_branches:
  "distinct t \<Longrightarrow> branches (touched_apply env t db) =
     map (\<lambda>b. if BranchRef (br_id b) \<in> set t then bump_branch b else b) (branches db)"
proof (induction t arbitrary: db)
  case (Cons r t)
  then show ?case by (cases r) (auto simp: touched_apply_simps row_update_def)
qed (simp add: touched_apply_simps)

lemma entity_ref_image [simp]:
  "NodeRef i \<in> NodeRef ` S \<longleftrightarrow> i \<in> S" "EdgeRef i \<in> EdgeRef ` S \<longleftrightarrow> i \<in> S" "BlockRef i \<in> BlockRef ` S \<longleftrightarrow> i \<in> S"
  "NodeRef i \<notin> EdgeRef ` S" "NodeRef i \<notin> BlockRef ` S" "EdgeRef i \<notin> NodeRef ` S" "EdgeRef i \<notin> BlockRef ` S"
  "BlockRef i \<notin> NodeRef ` S" "BlockRef i \<notin> EdgeRef ` S" "BranchRef i \<notin> NodeRef ` S" "BranchRef i \<notin> EdgeRef ` S"
  "BranchRef i \<notin> BlockRef ` S"
  by auto

lemma bump_existing_rows:
  "nodes (bump_existing env refs db) = map (\<lambda>n. if NodeRef (n_id n) \<in> set refs then bump_node env n else n) (nodes db)"
  "edges (bump_existing env refs db) = map (\<lambda>e. if EdgeRef (e_id e) \<in> set refs then bump_edge e else e) (edges db)"
  "content_blocks (bump_existing env refs db) =
     map (\<lambda>b. if BlockRef (b_id b) \<in> set refs then bump_block env b else b) (content_blocks db)"
  "branches (bump_existing env refs db) = map (\<lambda>b. if BranchRef (br_id b) \<in> set refs then bump_branch b else b) (branches db)"
  by (simp_all add: bump_existing_def distinct_touched_add set_touched_add touched_apply_nodes touched_apply_edges
      touched_apply_blocks touched_apply_branches)

lemma bump_existing_frame [simp]:
  "projects (bump_existing env refs db) = projects db" "action_logs (bump_existing env refs db) = action_logs db"
  by (simp_all add: bump_existing_def)

lemma schema_bump_existing: "schema_ok db \<Longrightarrow> schema_ok (bump_existing env refs db)"
  by (simp add: bump_existing_def schema_touched_apply)

section \<open>The contract of a mutating handler\<close>

text \<open>
  \<open>run r\<close> is a handler called with expected project revision \<open>r\<close>, on the project \<open>target\<close> names.
  A client that calls it twice with the revision it read wins at most once, whatever ran in
  between and left the revision at least as high.
\<close>

locale cas_handler =
  fixes run :: "int \<Rightarrow> db \<Rightarrow> ('a \<times> db) result"
    and target :: "db \<Rightarrow> ident option"
  assumes claims: "run r db = Inr (x, db') \<Longrightarrow> \<exists>pid. target db = Some pid \<and> advances db pid r db'"
begin

lemma succeeds_at_revision:
  "run r db = Inr (x, db') \<Longrightarrow> target db = Some pid \<Longrightarrow> project_revision db pid = Some r"
  using claims advancesD(1) by fastforce

lemma no_lost_update:
  assumes "run r db = Inr (x, db')" and "target db = Some pid" and "target db' = Some pid"
  shows "\<nexists>y db''. run r db' = Inr (y, db'')"
proof
  assume "\<exists>y db''. run r db' = Inr (y, db'')"
  then obtain y db'' where "run r db' = Inr (y, db'')" by blast
  then have "project_revision db' pid = Some r" using assms(3) by (rule succeeds_at_revision)
  moreover have "project_revision db' pid = Some (r + 1)" using claims [OF assms(1)] assms(2) advancesD(2) by auto
  ultimately show False by simp
qed

lemma other_projects_keep_revision:
  "run r db = Inr (x, db') \<Longrightarrow> target db = Some pid \<Longrightarrow> q \<noteq> pid \<Longrightarrow>
     project_revision db' q = project_revision db q"
  using claims advancesD(3) by fastforce

end

section \<open>Properties\<close>

text \<open>
  However helpers overlap in what they add to the collector, applying it bumps a collected node
  exactly once (revision one up from \<open>revision or 1\<close>, the clock in \<open>updated_at\<close>) and leaves every
  other node alone.
\<close>

theorem touched_nodes_bumped_once:
  "get_node_row (touched_apply env (touched_add ys (touched_add xs [])) db) i =
     (if NodeRef i \<in> set xs \<union> set ys then map_option (bump_node env) (get_node_row db i) else get_node_row db i)"
proof -
  have "distinct (touched_add ys (touched_add xs []))" by (intro distinct_touched_add) simp
  then show ?thesis
    by (simp only: get_node_row_def touched_apply_nodes
        row_get_map_if [of n_id "bump_node env", OF bump_row_frame(1), where P = "\<lambda>j. NodeRef j \<in> _"])
      (auto simp: set_touched_add)
qed

end
