(* ===== verification/Ownership.thy ===== *)
theory Ownership
  imports Revisions
begin

text \<open>
  What the handlers, not the schema, have to keep: an edge and both its endpoints belong to the
  same project, a node's branch belongs to the node's project, and a project's root node is one
  of its own nodes (\<open>ownership_ok\<close>). \<open>db_ok\<close> joins it with the schema's constraints; the
  preservation lemmas for the statements are collected in \<open>ok_intros\<close>.
\<close>

section \<open>The ownership invariant\<close>

definition owner :: "node list \<Rightarrow> ident \<Rightarrow> ident option" where
  "owner ns i = map_option n_project_id (row_get n_id ns i)"

definition branch_owner :: "branch list \<Rightarrow> ident \<Rightarrow> ident option" where
  "branch_owner bs i = map_option br_project_id (row_get br_id bs i)"

definition edges_owned :: "node list \<Rightarrow> edge list \<Rightarrow> bool" where
  "edges_owned ns es \<longleftrightarrow> (\<forall>e \<in> set es.
     owner ns (e_from_node_id e) = Some (e_project_id e) \<and> owner ns (e_to_node_id e) = Some (e_project_id e))"

definition nodes_owned :: "branch list \<Rightarrow> node list \<Rightarrow> bool" where
  "nodes_owned bs ns \<longleftrightarrow> (\<forall>n \<in> set ns. \<forall>b. n_branch_id n = Some b \<longrightarrow> branch_owner bs b = Some (n_project_id n))"

definition roots_owned :: "node list \<Rightarrow> project list \<Rightarrow> bool" where
  "roots_owned ns ps \<longleftrightarrow> (\<forall>p \<in> set ps. \<forall>i. p_root_node_id p = Some i \<longrightarrow> owner ns i = Some (p_id p))"

text \<open>Branch identifiers come from \<open>uuid4\<close> and are never the empty string the handlers read as no branch.\<close>

definition branches_named :: "branch list \<Rightarrow> bool" where
  "branches_named bs \<longleftrightarrow> [] \<notin> br_id ` set bs"

definition ownership_ok :: "db \<Rightarrow> bool" where
  "ownership_ok db \<longleftrightarrow>
     edges_owned (nodes db) (edges db) \<and> nodes_owned (branches db) (nodes db) \<and>
     roots_owned (nodes db) (projects db) \<and> branches_named (branches db)"

definition db_ok :: "db \<Rightarrow> bool" where
  "db_ok db \<longleftrightarrow> schema_ok db \<and> ownership_ok db"

named_theorems ok_intros

lemma ok_schema [dest]: "db_ok db \<Longrightarrow> schema_ok db"
  by (simp add: db_ok_def)

lemma ok_empty: "db_ok empty_db"
  using schema_ok_empty by (simp add: db_ok_def ownership_ok_def edges_owned_def nodes_owned_def roots_owned_def
      branches_named_def) (simp add: empty_db_def)

lemma ok_keys:
  assumes "db_ok db"
  shows "distinct (map p_id (projects db))" "distinct (map n_id (nodes db))" "distinct (map e_id (edges db))"
    "distinct (map b_id (content_blocks db))" "distinct (map br_id (branches db))"
    "distinct (map s_id (agent_sessions db))" "distinct (map a_id (agent_artifacts db))"
    "distinct (map pc_id (provider_configs db))" "distinct (map l_id (action_logs db))"
  using assms by (simp_all add: db_ok_def schema_ok_def keys_ok_def)

lemma owner_append_fresh: "owner ns i = Some p \<Longrightarrow> owner (ns @ ms) i = Some p"
  by (auto simp: owner_def row_get_append split: option.splits)

lemma owner_snoc: "n_id n \<notin> n_id ` set ns \<Longrightarrow> owner (ns @ [n]) (n_id n) = Some (n_project_id n)"
  by (auto simp: owner_def row_get_append row_get_single row_get_None [symmetric] split: option.splits)

lemma owner_map:
  "(\<And>n. n_id (f n) = n_id n) \<Longrightarrow> (\<And>n. n_project_id (f n) = n_project_id n) \<Longrightarrow> owner (map f ns) i = owner ns i"
  by (simp add: owner_def row_get_map option.map_comp comp_def)

lemma branch_owner_map:
  "(\<And>n. br_id (f n) = br_id n) \<Longrightarrow> (\<And>n. br_project_id (f n) = br_project_id n) \<Longrightarrow>
     branch_owner (map f ns) i = branch_owner ns i"
  by (simp add: branch_owner_def row_get_map option.map_comp comp_def)

lemma owner_get: "get_node_row db i = Some n \<Longrightarrow> owner (nodes db) i = Some (n_project_id n)"
  by (simp add: owner_def get_node_row_def)

lemma branch_owner_get: "get_branch_row db i = Some b \<Longrightarrow> branch_owner (branches db) i = Some (br_project_id b)"
  by (simp add: branch_owner_def get_branch_row_def)

lemma owner_filter_out: "i \<notin> G \<Longrightarrow> owner (filter (\<lambda>n. n_id n \<notin> G) ns) i = owner ns i"
  by (simp add: owner_def row_get_filter)

lemma branch_id_not_empty: "db_ok db \<Longrightarrow> [] \<notin> branch_ids db"
  by (simp add: db_ok_def ownership_ok_def branches_named_def)

lemma edge_owner:
  "db_ok db \<Longrightarrow> e \<in> set (edges db) \<Longrightarrow> owner (nodes db) (e_from_node_id e) = Some (e_project_id e)"
  "db_ok db \<Longrightarrow> e \<in> set (edges db) \<Longrightarrow> owner (nodes db) (e_to_node_id e) = Some (e_project_id e)"
  by (simp_all add: db_ok_def ownership_ok_def edges_owned_def)

section \<open>Statements and row rewrites keep it\<close>

lemma ok_insert_project [ok_intros]:
  "insert_project p db = Inr db' \<Longrightarrow> p_root_node_id p = None \<Longrightarrow> db_ok db \<Longrightarrow> db_ok db'"
  by (auto simp: db_ok_def ownership_ok_def roots_owned_def statement_Inr intro: schema_insert_project)

lemma nodes_owned_append:
  "nodes_owned bs (ns @ ms) \<longleftrightarrow> nodes_owned bs ns \<and> nodes_owned bs ms"
  by (auto simp: nodes_owned_def)

lemma edges_owned_append:
  "edges_owned ns (es @ fs) \<longleftrightarrow> edges_owned ns es \<and> edges_owned ns fs"
  by (auto simp: edges_owned_def)

lemma edges_owned_mono: "edges_owned ns es \<Longrightarrow> edges_owned (ns @ ms) es"
  by (simp add: edges_owned_def owner_append_fresh)

lemma roots_owned_mono: "roots_owned ns es \<Longrightarrow> roots_owned (ns @ ms) es"
  by (simp add: roots_owned_def owner_append_fresh)

lemma nodes_owned_mono: "nodes_owned bs ns \<Longrightarrow> nodes_owned (bs @ cs) ns"
  by (auto simp: nodes_owned_def branch_owner_def row_get_append split: option.splits)

lemma ok_insert_node [ok_intros]:
  assumes "insert_node n db = Inr db'"
    and "\<And>b. n_branch_id n = Some b \<Longrightarrow> branch_owner (branches db) b = Some (n_project_id n)" and "db_ok db"
  shows "db_ok db'"
proof -
  have "schema_ok db'" using assms(1,3) by (auto intro: schema_insert_node)
  moreover have "ownership_ok db'"
    using assms by (auto simp: statement_Inr db_ok_def ownership_ok_def edges_owned_mono roots_owned_mono
        nodes_owned_append) (simp add: nodes_owned_def)
  ultimately show ?thesis by (simp add: db_ok_def)
qed

lemma ok_insert_edge [ok_intros]:
  assumes "insert_edge e db = Inr db'" "owner (nodes db) (e_from_node_id e) = Some (e_project_id e)"
    "owner (nodes db) (e_to_node_id e) = Some (e_project_id e)" "db_ok db"
  shows "db_ok db'"
proof -
  have "schema_ok db'" using assms(1,4) by (auto intro: schema_insert_edge)
  moreover have "ownership_ok db'"
    using assms by (simp add: statement_Inr db_ok_def ownership_ok_def edges_owned_append) (simp add: edges_owned_def)
  ultimately show ?thesis by (simp add: db_ok_def)
qed

lemma ok_frame:
  "db_ok db \<Longrightarrow> (schema_ok db \<Longrightarrow> schema_ok db') \<Longrightarrow> projects db' = projects db \<Longrightarrow> nodes db' = nodes db \<Longrightarrow> edges db' = edges db \<Longrightarrow>
     branches db' = branches db \<Longrightarrow> db_ok db'"
  by (simp add: db_ok_def ownership_ok_def)

lemma ok_insert_block [ok_intros]: "insert_block b db = Inr db' \<Longrightarrow> db_ok db \<Longrightarrow> db_ok db'"
  by (erule ok_frame, erule (1) schema_insert_block) (auto simp: statement_Inr)

lemma ok_insert_log [ok_intros]: "insert_log b db = Inr db' \<Longrightarrow> db_ok db \<Longrightarrow> db_ok db'"
  by (erule ok_frame, erule (1) schema_insert_log) (auto simp: statement_Inr)

lemma ok_insert_session [ok_intros]: "insert_session b db = Inr db' \<Longrightarrow> db_ok db \<Longrightarrow> db_ok db'"
  by (erule ok_frame, erule (1) schema_insert_session) (auto simp: statement_Inr)

lemma ok_insert_artifact [ok_intros]: "insert_artifact b db = Inr db' \<Longrightarrow> db_ok db \<Longrightarrow> db_ok db'"
  by (erule ok_frame, erule (1) schema_insert_artifact) (auto simp: statement_Inr)

lemma ok_insert_provider [ok_intros]: "insert_provider b db = Inr db' \<Longrightarrow> db_ok db \<Longrightarrow> db_ok db'"
  by (erule ok_frame, erule (1) schema_insert_provider) (auto simp: statement_Inr)

lemma ok_insert_branch [ok_intros]: "insert_branch b db = Inr db' \<Longrightarrow> br_id b \<noteq> [] \<Longrightarrow> db_ok db \<Longrightarrow> db_ok db'"
  using schema_insert_branch [of b db db']
  by (simp add: db_ok_def) (auto simp: statement_Inr ownership_ok_def nodes_owned_mono branches_named_def)

lemma ok_map_projects:
  assumes "\<And>p. p_id (f p) = p_id p" "\<And>p i. p \<in> set (projects db) \<Longrightarrow> p_root_node_id (f p) = Some i \<Longrightarrow>
      p_root_node_id p = Some i \<or> owner (nodes db) i = Some (p_id p)" "db_ok db"
  shows "db_ok (projects_update (map f) db)"
proof -
  have "owner (nodes db) i = Some (p_id p)"
    if "p \<in> set (projects db)" "p_root_node_id (f p) = Some i" for p i
    using assms(2) [OF that] assms(3) that(1) unfolding db_ok_def ownership_ok_def roots_owned_def by blast
  then have "roots_owned (nodes db) (map f (projects db))"
    by (simp add: roots_owned_def assms(1))
  then show ?thesis using assms(1,3) by (simp add: db_ok_def ownership_ok_def schema_map_projects)
qed

lemma ok_claim [ok_intros]:
  "claim_project_revision env pid expected db = Inr db' \<Longrightarrow> db_ok db \<Longrightarrow> db_ok db'"
  by (auto simp: claim_project_Inr row_update_def [abs_def] split: if_splits intro!: ok_map_projects)

lemma ok_map_nodes:
  assumes "\<And>n. n_id (f n) = n_id n" "\<And>n. n_project_id (f n) = n_project_id n"
    "\<And>n. n_branch_id (f n) = n_branch_id n \<or> n_branch_id (f n) = None" "db_ok db"
  shows "db_ok (nodes_update (map f) db)"
proof -
  have "nodes_owned bs (map f ns)" if "nodes_owned bs ns" for bs ns
    using that assms(2,3) unfolding nodes_owned_def by (simp, metis option.distinct(1))
  then show ?thesis
    using assms by (simp add: db_ok_def ownership_ok_def edges_owned_def roots_owned_def owner_map schema_map_nodes)
qed

lemma ok_map_edges:
  assumes "\<And>e. e_id (f e) = e_id e" "\<And>e. e_project_id (f e) = e_project_id e"
    "\<And>e. e_from_node_id (f e) = e_from_node_id e" "\<And>e. e_to_node_id (f e) = e_to_node_id e"
    "\<And>e. mainline_edge (f e) \<Longrightarrow> mainline_edge e" and "db_ok db"
  shows "db_ok (edges_update (map f) db)"
  using assms by (simp add: db_ok_def ownership_ok_def edges_owned_def schema_map_edges)

lemma ok_map_blocks:
  assumes "\<And>b. b_id (f b) = b_id b" "\<And>b. b_node_id (f b) = b_node_id b" and "db_ok db"
  shows "db_ok (content_blocks_update (map f) db)"
  using assms by (simp add: db_ok_def ownership_ok_def schema_map_blocks)

lemma ok_map_branches:
  assumes "\<And>b. br_id (f b) = br_id b" "\<And>b. br_project_id (f b) = br_project_id b"
    "\<And>b. br_source_node_id (f b) = br_source_node_id b" and "db_ok db"
  shows "db_ok (branches_update (map f) db)"
  using assms by (simp add: db_ok_def ownership_ok_def schema_map_branches nodes_owned_def branch_owner_map
      branches_named_def image_image)

lemma ok_update_node:
  assumes "\<And>n. n_id (f n) = n_id n" "\<And>n. n_project_id (f n) = n_project_id n"
    "\<And>n. n_branch_id (f n) = n_branch_id n \<or> n_branch_id (f n) = None" "db_ok db"
  shows "db_ok (nodes_update (row_update n_id i f) db)"
  using assms ok_map_nodes [of "\<lambda>n. if n_id n = i then f n else n" db]
  by (auto simp: row_update_def [abs_def])

lemma ok_update_edge:
  assumes "\<And>e. e_id (f e) = e_id e" "\<And>e. e_project_id (f e) = e_project_id e"
    "\<And>e. e_from_node_id (f e) = e_from_node_id e" "\<And>e. e_to_node_id (f e) = e_to_node_id e"
    "\<And>e. mainline_edge (f e) \<Longrightarrow> mainline_edge e" and "db_ok db"
  shows "db_ok (edges_update (row_update e_id i f) db)"
  using assms ok_map_edges [of "\<lambda>e. if e_id e = i then f e else e" db]
  by (auto simp: row_update_def [abs_def] split: if_splits)

lemma ok_bump_entity: "db_ok db \<Longrightarrow> db_ok (bump_entity env r db)"
  by (cases r) (auto simp: row_update_def [abs_def] split: if_splits
      intro!: ok_map_nodes ok_map_edges ok_map_blocks ok_map_branches)

lemma ok_touched_apply: "db_ok db \<Longrightarrow> db_ok (touched_apply env t db)"
  by (induction t arbitrary: db) (simp_all add: touched_apply_simps ok_bump_entity)

lemma ok_bump_existing: "db_ok db \<Longrightarrow> db_ok (bump_existing env refs db)"
  by (simp add: bump_existing_def ok_touched_apply)

lemma ok_set_edge_mainline [ok_intros]:
  assumes "set_edge_mainline i db = Inr db'" "db_ok db"
  shows "db_ok db'"
proof -
  have "schema_ok db'" using assms by (auto intro: schema_set_edge_mainline)
  moreover have "projects db' = projects db" "nodes db' = nodes db" "branches db' = branches db"
    "edges_owned (nodes db) (edges db')"
    using assms by (auto simp: set_edge_mainline_def db_ok_def ownership_ok_def edges_owned_def set_row_update
        split: option.splits if_splits)
  ultimately show ?thesis using assms(2) by (simp add: db_ok_def ownership_ok_def)
qed

lemma ok_filter_edges: "db_ok db \<Longrightarrow> db_ok (edges_update (filter P) db)"
  by (simp add: db_ok_def ownership_ok_def edges_owned_def schema_filter_edges)

lemma ok_delete_edge_row: "db_ok db \<Longrightarrow> db_ok (delete_edge_row i db)"
  using ok_filter_edges [of db "\<lambda>e. e_id e \<noteq> i"]
  by (simp add: delete_edge_row_def row_delete_def [abs_def])

lemma ok_delete_edges_touching: "db_ok db \<Longrightarrow> db_ok (delete_edges_touching gone db)"
  by (simp add: delete_edges_touching_def ok_filter_edges)

lemma ok_delete_block_row: "db_ok db \<Longrightarrow> db_ok (delete_block_row i db)"
  by (simp add: db_ok_def schema_delete_block_row) (simp add: ownership_ok_def delete_block_row_def)

lemma ok_delete_provider [ok_intros]: "delete_provider_row i db = Inr db' \<Longrightarrow> db_ok db \<Longrightarrow> db_ok db'"
  by (erule ok_frame, erule (1) schema_delete_provider) (auto simp: delete_provider_row_def split: if_splits)

lemma branch_owner_delete_nodes:
  "branch_owner (branches (delete_nodes gone db)) b = branch_owner (branches db) b"
  by (simp add: delete_nodes_frame branch_owner_map)

lemma ok_delete_nodes:
  assumes "db_ok db" and "\<And>p i. p \<in> set (projects db) \<Longrightarrow> p_root_node_id p = Some i \<Longrightarrow> i \<notin> set gone"
  shows "db_ok (delete_nodes gone db)"
proof -
  have "edges_owned (nodes (delete_nodes gone db)) (edges (delete_nodes gone db))"
    using assms(1) by (simp add: db_ok_def ownership_ok_def edges_owned_def delete_nodes_frame owner_filter_out)
  moreover have "nodes_owned (branches (delete_nodes gone db)) (nodes (delete_nodes gone db))"
    using assms(1) unfolding nodes_owned_def branch_owner_delete_nodes
    by (simp add: delete_nodes_frame db_ok_def ownership_ok_def nodes_owned_def)
  moreover have "roots_owned (nodes (delete_nodes gone db)) (projects (delete_nodes gone db))"
    using assms by (auto simp: delete_nodes_frame db_ok_def ownership_ok_def roots_owned_def owner_filter_out)
  moreover have "branches_named (branches (delete_nodes gone db))"
    using assms(1) by (simp add: delete_nodes_frame db_ok_def ownership_ok_def branches_named_def image_image)
  ultimately show ?thesis using assms(1) by (auto simp: db_ok_def ownership_ok_def schema_delete_nodes)
qed

end
