(* ===== verification/Projects.thy ===== *)
theory Projects
  imports Ownership
begin

text \<open>
  Projects (\<open>api/routes.py\<close>, the seat check and the project handlers): a project is created with
  its root node, updated and deleted under the revision claim, and in desktop mode the number of
  active projects never passes the entitlement's limit.
\<close>

section \<open>Rows with their column defaults, and the action log\<close>

text \<open>The defaults of \<open>Node\<close>; \<open>created_at\<close> and \<open>updated_at\<close> are the clock, the revision starts at 1.\<close>

definition new_node :: "env \<Rightarrow> ident \<Rightarrow> ident \<Rightarrow> string \<Rightarrow> string option \<Rightarrow> node" where
  "new_node env i pid title summary =
     \<lparr>n_id = i, n_project_id = pid, n_title = title, n_summary = summary, n_node_type = ''idea'',
      n_status = ''active'', n_maturity = ''seed'', n_priority = Some 0, n_confidence = Some (1 / 2),
      n_description = Some [], n_rules_text = Some [], n_constraints_text = Some [],
      n_examples_text = Some [], n_questions_text = Some [], n_decision_notes = Some [],
      n_tags = JList [], n_workflow_status = ''draft'', n_file_paths = JList [], n_branch_id = None,
      n_created_by = Some ''human'', n_last_edited_by = Some ''human'',
      n_position_x = Some 0, n_position_y = Some 0,
      n_created_at = now env, n_updated_at = now env, n_revision = 1\<rparr>"

definition new_edge :: "env \<Rightarrow> ident \<Rightarrow> ident \<Rightarrow> ident \<Rightarrow> ident \<Rightarrow> bool \<Rightarrow> edge" where
  "new_edge env i pid from_id to_id mainline =
     \<lparr>e_id = i, e_project_id = pid, e_from_node_id = from_id, e_to_node_id = to_id,
      e_relation_type = child_of, e_weight = Some 1, e_note = Some [], e_is_mainline = mainline,
      e_created_at = now env, e_revision = 1\<rparr>"

definition log_action ::
  "env \<Rightarrow> ident \<Rightarrow> ident \<Rightarrow> ident option \<Rightarrow> string \<Rightarrow> string \<Rightarrow> (string \<times> json) list \<Rightarrow> db \<Rightarrow> db result" where
  "log_action env i pid nid actor action payload db =
     insert_log \<lparr>l_id = i, l_project_id = pid, l_node_id = nid, l_actor_type = actor, l_actor_id = [],
       l_action_type = action, l_payload = JObj payload, l_created_at = now env\<rparr> db"

lemma new_node_simps [simp]:
  "n_id (new_node env i pid t s) = i" "n_project_id (new_node env i pid t s) = pid"
  "n_branch_id (new_node env i pid t s) = None" "n_title (new_node env i pid t s) = t"
  "n_maturity (new_node env i pid t s) = ''seed''" "n_revision (new_node env i pid t s) = 1"
  by (simp_all add: new_node_def)

lemma new_edge_simps [simp]:
  "e_id (new_edge env i pid x y m) = i" "e_project_id (new_edge env i pid x y m) = pid"
  "e_from_node_id (new_edge env i pid x y m) = x" "e_to_node_id (new_edge env i pid x y m) = y"
  "is_child_edge (new_edge env i pid x y m)" "e_is_mainline (new_edge env i pid x y m) = m"
  "mainline_edge (new_edge env i pid x y m) = m" "e_revision (new_edge env i pid x y m) = 1"
  by (simp_all add: new_edge_def is_child_edge_def mainline_edge_def)

lemma normalize_new_edge [simp]: "normalize_edge (new_edge env i pid x y m) = new_edge env i pid x y m"
  by (simp add: normalize_edge_def new_edge_def)

lemma log_action_frame:
  assumes "log_action env i pid nid actor action payload db = Inr db'"
  shows "projects db' = projects db" "nodes db' = nodes db" "edges db' = edges db"
    "content_blocks db' = content_blocks db" "branches db' = branches db"
    "agent_sessions db' = agent_sessions db" "agent_artifacts db' = agent_artifacts db"
    "provider_configs db' = provider_configs db"
  using assms by (auto simp: log_action_def statement_Inr)

lemma ok_log_action [ok_intros]:
  "log_action env i pid nid actor action payload db = Inr db' \<Longrightarrow> db_ok db \<Longrightarrow> db_ok db'"
  unfolding log_action_def by (rule ok_insert_log)

section \<open>Handlers\<close>

record project_create =
  cp_name :: string
  cp_description :: string
  cp_goal :: string
  cp_settings :: json

record project_update =
  up_expected_project_revision :: int
  up_name :: "string field"
  up_description :: "string field"
  up_goal :: "string field"
  up_status :: "string field"
  up_settings :: "json field"

definition active_projects :: "db \<Rightarrow> nat" where
  "active_projects db = length (filter (\<lambda>p. p_status p = ''active'') (projects db))"

definition require_active_project_seat :: "env \<Rightarrow> int \<Rightarrow> db \<Rightarrow> unit result" where
  "require_active_project_seat env conflict_status db =
     (case max_active_projects env of
        None \<Rightarrow> Inr ()
      | Some limit \<Rightarrow>
          if desktop_mode env \<and> int (active_projects db) \<ge> limit
          then Inl (HTTPException conflict_status ''Active project limit reached'') else Inr ())"

definition list_projects :: "env \<Rightarrow> db \<Rightarrow> project list" where
  "list_projects env db =
     (let rows = sort_key (\<lambda>p. - p_updated_at p) (projects db)
      in if query_only env
         then map (\<lambda>p. p\<lparr>p_settings := (case p_settings p of None \<Rightarrow> Some (JObj []) | Some s \<Rightarrow> Some s),
                         p_revision := 1\<rparr>) rows
         else rows)"

definition create_project_committed :: "env \<Rightarrow> project_create \<Rightarrow> db \<Rightarrow> (project \<times> db) result" where
  "create_project_committed env data db =
     (let pid = uuid env 0;
          root_id = uuid env 1;
          project = \<lparr>p_id = pid, p_name = cp_name data, p_description = Some (cp_description data),
            p_goal = Some (cp_goal data), p_root_node_id = None, p_status = ''active'',
            p_settings = Some (cp_settings data), p_created_at = now env, p_updated_at = now env, p_revision = 1\<rparr>;
          root = (new_node env root_id pid (cp_name data) (Some (cp_description data)))\<lparr>n_node_type := ''concept''\<rparr>
      in and_then (insert_project project db) (\<lambda>db.
         and_then (insert_node root db) (\<lambda>db.
           let db = projects_update (row_update p_id pid (\<lambda>p. p\<lparr>p_root_node_id := Some root_id\<rparr>)) db
           in and_then (log_action env (uuid env 2) pid None ''human'' ''create_project''
                  [(''name'', JStr (cp_name data))] db) (\<lambda>db.
              Inr (project\<lparr>p_root_node_id := Some root_id\<rparr>, db)))))"

definition create_project :: "env \<Rightarrow> project_create \<Rightarrow> db \<Rightarrow> (project \<times> db) result" where
  "create_project env data db =
     and_then (require_active_project_seat env 402 db) (\<lambda>_. create_project_committed env data db)"

definition get_project :: "ident \<Rightarrow> db \<Rightarrow> project result" where
  "get_project pid db =
     (case get_project_row db pid of None \<Rightarrow> Inl (HTTPException 404 ''Project not found'') | Some p \<Rightarrow> Inr p)"

definition apply_project_changes :: "project_update \<Rightarrow> project \<Rightarrow> project" where
  "apply_project_changes data p =
     p\<lparr>p_name := assign_required (up_name data) (p_name p),
       p_description := assign_nullable (up_description data) (p_description p),
       p_goal := assign_nullable (up_goal data) (p_goal p),
       p_status := assign_required (up_status data) (p_status p),
       p_settings := assign_nullable (up_settings data) (p_settings p)\<rparr>"

definition update_project :: "env \<Rightarrow> ident \<Rightarrow> project_update \<Rightarrow> db \<Rightarrow> (project \<times> db) result" where
  "update_project env pid data db =
     (case get_project_row db pid of
        None \<Rightarrow> Inl (HTTPException 404 ''Project not found'')
      | Some project \<Rightarrow>
          and_then (claim_project_revision env pid (up_expected_project_revision data) db) (\<lambda>db.
          and_then (if up_status data = Assign (Some ''active'') \<and> p_status project \<noteq> ''active''
                    then require_active_project_seat env 409 db else Inr ()) (\<lambda>_.
            if is_null (up_name data) \<or> is_null (up_status data) then Inl IntegrityError
            else
              let db = projects_update (row_update p_id pid (apply_project_changes data)) db
              in case get_project_row db pid of None \<Rightarrow> Inl AttributeError | Some p \<Rightarrow> Inr (p, db))))"

definition delete_project :: "env \<Rightarrow> ident \<Rightarrow> int \<Rightarrow> db \<Rightarrow> (unit \<times> db) result" where
  "delete_project env pid expected db =
     (case get_project_row db pid of
        None \<Rightarrow> Inl (HTTPException 404 ''Project not found'')
      | Some _ \<Rightarrow>
          and_then (claim_project_revision env pid expected db) (\<lambda>db.
            Inr ((), delete_project_row pid db)))"

section \<open>Invariants\<close>

lemma ok_set_project:
  assumes "db_ok db" "\<And>p. p_id (f p) = p_id p" "\<And>p. p_root_node_id (f p) = p_root_node_id p"
  shows "db_ok (projects_update (row_update p_id i f) db)"
  unfolding row_update_def [abs_def] using assms by (intro ok_map_projects) (auto split: if_splits)

lemma ok_set_root:
  assumes "db_ok db" "owner (nodes db) x = Some i"
  shows "db_ok (projects_update (row_update p_id i (\<lambda>p. p\<lparr>p_root_node_id := Some x\<rparr>)) db)"
  unfolding row_update_def [abs_def] using assms by (intro ok_map_projects) (auto split: if_splits)

lemma create_project_ok:
  assumes "create_project env data db = Inr (p, db')" "db_ok db"
  shows "db_ok db'"
proof -
  let ?pid = "uuid env 0" and ?rid = "uuid env 1"
  from assms(1) obtain db1 db2 pr root where
    1: "insert_project pr db = Inr db1" "p_root_node_id pr = None" and
    2: "insert_node root db1 = Inr db2" "n_branch_id root = None" "n_project_id root = ?pid" "n_id root = ?rid" and
    3: "log_action env (uuid env 2) ?pid None ''human'' ''create_project'' [(''name'', JStr (cp_name data))]
          (projects_update (row_update p_id ?pid (\<lambda>p. p\<lparr>p_root_node_id := Some ?rid\<rparr>)) db2) = Inr db'"
    by (auto simp: create_project_def create_project_committed_def Let_def result_simps)
  have "db_ok db2" using ok_insert_project [OF 1 assms(2)] 2(1,2) by (auto intro: ok_insert_node)
  moreover have "owner (nodes db2) ?rid = Some ?pid"
    using 2 owner_snoc [of root "nodes db1"] by (simp add: statement_Inr)
  ultimately show ?thesis by (rule ok_log_action [OF 3 ok_set_root])
qed

lemma apply_project_changes_simps [simp]:
  "p_id (apply_project_changes data p) = p_id p"
  "p_root_node_id (apply_project_changes data p) = p_root_node_id p"
  "p_revision (apply_project_changes data p) = p_revision p"
  by (simp_all add: apply_project_changes_def)

lemma update_project_Inr:
  assumes "update_project env pid data db = Inr (p, db')"
  shows "project_revision db pid = Some (up_expected_project_revision data)"
    "db' = projects_update (row_update p_id pid (\<lambda>p. apply_project_changes data (claimed_project env p))) db"
  using assms by (auto simp: update_project_def result_simps Let_def claim_project_Inr row_update_def
      intro!: arg_cong [where f = "\<lambda>g. projects_update g db"] split: if_splits)

lemma update_project_advances:
  assumes "update_project env pid data db = Inr (p, db')"
  shows "advances db pid (up_expected_project_revision data) db'"
  using update_project_Inr [OF assms]
  by (auto simp: advances_def fun_eq_iff project_revision_def get_project_row_def row_get_update option.map_comp comp_def)

lemma update_project_ok:
  "update_project env pid data db = Inr (p, db') \<Longrightarrow> db_ok db \<Longrightarrow> db_ok db'"
  by (drule update_project_Inr(2)) (auto intro: ok_set_project)

lemma delete_project_ok:
  assumes "delete_project env pid expected db = Inr (u, db')" and ok: "db_ok db"
  shows "db_ok db'"
proof -
  from assms(1) obtain db1 where claim: "claim_project_revision env pid expected db = Inr db1"
    and db': "db' = delete_project_row pid db1"
    by (auto simp: delete_project_def result_simps)
  have ok1: "db_ok db1" using claim ok by (rule ok_claim)
  define gone where "gone = map n_id (filter (\<lambda>n. n_project_id n = pid) (nodes db1))"
  have kept: "owner (filter (\<lambda>n. n_id n \<notin> set gone) (nodes db1)) j = Some q"
    if "owner (nodes db1) j = Some q" "q \<noteq> pid" for j q
  proof -
    have "j \<notin> set gone"
      using that same_key [OF ok_keys(2) [OF ok1]] by (auto simp: gone_def owner_def dest: row_get_Some)
    then show ?thesis using that(1) by (simp add: owner_filter_out)
  qed
  have own: "edges_owned (nodes db1) (edges db1)" "nodes_owned (branches db1) (nodes db1)"
    "roots_owned (nodes db1) (projects db1)"
    using ok1 by (simp_all add: db_ok_def ownership_ok_def)
  have same_owner: "owner (map (\<lambda>n. n\<lparr>n_branch_id := g (n_branch_id n)\<rparr>) ns) i = owner ns i" for g ns i
    by (rule owner_map) simp_all
  let ?bs = "map (\<lambda>b. b\<lparr>br_source_node_id := unset_in gone (br_source_node_id b)\<rparr>) (branches db1)"
  have unset: "unset_in (map br_id (filter (\<lambda>b. br_project_id b = pid) ?bs)) x = Some b \<Longrightarrow> x = Some b" for x b
    by (auto simp: unset_in_def split: option.splits if_splits)
  have branch_kept: "branch_owner (filter (\<lambda>b. br_project_id b \<noteq> pid) ?bs) b = Some q"
    if "branch_owner (branches db1) b = Some q" "q \<noteq> pid" for b q
  proof -
    have "branch_owner ?bs b = Some q" using that(1) by (simp add: branch_owner_map)
    then obtain r where r: "r \<in> set ?bs" "br_id r = b" "br_project_id r = q"
      by (auto simp: branch_owner_def dest: row_get_Some)
    have "distinct (map br_id (filter (\<lambda>b. br_project_id b \<noteq> pid) ?bs))"
      using ok_keys(5) [OF ok1] by (intro distinct_map_filter) (simp add: comp_def)
    with r that(2) show ?thesis by (auto simp: branch_owner_def row_get_iff)
  qed
  have foreign: "n_project_id n \<noteq> pid" if "n \<in> set (nodes db1)" "n_id n \<notin> set gone" for n
    using that by (auto simp: gone_def)
  have "schema_ok db'" using ok1 by (auto simp: db' intro: schema_delete_project)
  moreover have "edges_owned (nodes db') (edges db')"
    using own(1) by (simp add: db' delete_project_row_def Let_def gone_def [symmetric] delete_nodes_frame
        grants_where_frame edges_owned_def same_owner kept)
  moreover have "nodes_owned (branches db') (nodes db')"
    unfolding nodes_owned_def
  proof (intro ballI allI impI)
    fix n b assume "n \<in> set (nodes db')" "n_branch_id n = Some b"
    then obtain m where m: "m \<in> set (nodes db1)" "n_id m \<notin> set gone" "n_branch_id m = Some b"
      "n_project_id n = n_project_id m"
      by (auto simp: db' delete_project_row_def Let_def gone_def [symmetric] delete_nodes_frame
          grants_where_frame dest!: unset)
    then have "branch_owner (branches db1) b = Some (n_project_id n)" using own(2) by (simp add: nodes_owned_def)
    moreover have "branches db' = filter (\<lambda>b. br_project_id b \<noteq> pid) ?bs"
      by (simp add: db' delete_project_row_def Let_def gone_def [symmetric] delete_nodes_frame grants_where_frame)
    ultimately show "branch_owner (branches db') b = Some (n_project_id n)"
      using branch_kept foreign [OF m(1,2)] m(4) by simp
  qed
  moreover have "roots_owned (nodes db') (projects db')"
    using own(3) by (simp add: db' delete_project_row_def Let_def gone_def [symmetric] delete_nodes_frame
        grants_where_frame roots_owned_def same_owner kept set_row_delete)
  moreover have "branches_named (branches db')"
    using ok1 by (auto simp: db' delete_project_row_def Let_def delete_nodes_frame grants_where_frame db_ok_def
        ownership_ok_def branches_named_def)
  ultimately show ?thesis by (simp add: db_ok_def ownership_ok_def)
qed

section \<open>Seats, revisions and the root node\<close>

interpretation update_project_cas:
  cas_handler "\<lambda>r. update_project env pid (data\<lparr>up_expected_project_revision := r\<rparr>)" "\<lambda>_. Some pid" for env pid data
  by unfold_locales (auto dest: update_project_advances)

lemma active_projects_kept:
  assumes "\<And>p. p \<in> set (projects db) \<Longrightarrow> p_id p = pid \<Longrightarrow> p_status (f p) = ''active'' \<Longrightarrow> p_status p = ''active''"
  shows "active_projects (projects_update (row_update p_id pid f) db) \<le> active_projects db"
  using assms unfolding active_projects_def row_update_def
  by (simp, intro order_trans [OF _ length_filter_map_le [of "projects db" _ "\<lambda>p. if p_id p = pid then f p else p"]])
    (auto split: if_splits)

lemma active_projects_one_more:
  "distinct (map p_id (projects db)) \<Longrightarrow>
     active_projects (projects_update (row_update p_id pid f) db) \<le> Suc (active_projects db)"
  by (simp add: active_projects_def length_filter_row_update)

lemma seat_granted:
  "require_active_project_seat env st db = Inr u \<Longrightarrow> desktop_mode env \<Longrightarrow> max_active_projects env = Some limit \<Longrightarrow>
     int (active_projects db) < limit"
  by (auto simp: require_active_project_seat_def split: if_splits)

lemma update_project_seats:
  assumes "update_project env pid data db = Inr (p, db')" "db_ok db" "desktop_mode env"
    "max_active_projects env = Some limit" "int (active_projects db) \<le> limit"
  shows "int (active_projects db') \<le> limit"
proof -
  let ?f = "\<lambda>p. apply_project_changes data (claimed_project env p)"
  from assms(1) obtain project where row: "get_project_row db pid = Some project"
    by (auto simp: update_project_def split: option.splits)
  have db': "db' = projects_update (row_update p_id pid ?f) db" by (rule update_project_Inr) fact
  show ?thesis
  proof (cases "up_status data = Assign (Some ''active'') \<and> p_status project \<noteq> ''active''")
    case True
    then have "int (active_projects (projects_update (row_update p_id pid (claimed_project env)) db)) < limit"
      using assms(1,3,4) row by (auto simp: update_project_def result_simps claim_project_Inr intro: seat_granted)
    moreover have "active_projects (projects_update (row_update p_id pid (claimed_project env)) db) = active_projects db"
      by (simp add: active_projects_def row_update_def filter_map comp_def if_distrib cong: if_cong)
    ultimately show ?thesis
      using active_projects_one_more [OF ok_keys(1) [OF assms(2)], of pid ?f] by (simp add: db')
  next
    case False
    have "p_status q = ''active''" if "q \<in> set (projects db)" "p_id q = pid" "p_status (?f q) = ''active''" for q
    proof -
      have "q = project"
        using that row ok_keys(1) [OF assms(2)] by (auto simp: get_project_row_def row_get_iff dest: same_key)
      then show ?thesis using False that(3)
        by (cases "(up_status data, p_status project)" rule: assign_required.cases)
          (auto simp: apply_project_changes_def)
    qed
    then show ?thesis using active_projects_kept [of db pid ?f] assms(5) by (simp add: db')
  qed
qed

lemma create_project_seats:
  assumes "create_project env data db = Inr (p, db')" "desktop_mode env"
    "max_active_projects env = Some limit"
  shows "int (active_projects db') \<le> limit"
proof -
  from assms have "int (active_projects db) < limit"
    by (auto simp: create_project_def result_simps intro: seat_granted)
  moreover have "active_projects db' \<le> Suc (active_projects db)"
    using assms(1) by (auto simp: create_project_def create_project_committed_def Let_def result_simps statement_Inr
        active_projects_def row_update_def filter_map comp_def if_distrib log_action_def cong: if_cong)
  ultimately show ?thesis by linarith
qed

end
