(* ===== verification/Maturity.thy ===== *)
theory Maturity
  imports Projects
begin

text \<open>
  Automatic maturity (\<open>auto_advance_maturity\<close> of \<open>api/routes.py\<close>): the level a node reaches from
  its summary, its content blocks and its children, and the step that stores it and logs it.
\<close>

definition MATURITY_ORDER :: "string list" where
  "MATURITY_ORDER = [''seed'', ''rough'', ''developing'', ''stable'', ''finalized'']"

definition has_summary :: "node \<Rightarrow> bool" where
  "has_summary n \<longleftrightarrow> (case n_summary n of None \<Rightarrow> False | Some s \<Rightarrow> s \<noteq> [] \<and> length (strip s) > 10)"

definition block_count :: "db \<Rightarrow> ident \<Rightarrow> nat" where
  "block_count db nid = length (filter (\<lambda>b. b_node_id b = nid) (content_blocks db))"

definition child_count :: "db \<Rightarrow> ident \<Rightarrow> nat" where
  "child_count db nid = length (child_edges db nid)"

definition new_maturity :: "bool \<Rightarrow> nat \<Rightarrow> nat \<Rightarrow> string \<Rightarrow> string" where
  "new_maturity summary blocks children current =
     (let m1 = if current = ''seed'' \<and> (summary \<or> children \<ge> 1) then ''rough'' else current;
          m2 = if current \<in> {''seed'', ''rough''} \<and> blocks \<ge> 1 \<and> children \<ge> 1 then ''developing'' else m1
      in if current \<in> {''seed'', ''rough'', ''developing''} \<and> blocks \<ge> 3 \<and> summary \<and> children \<ge> 2
         then ''stable'' else m2)"

text \<open>
  The collector is passed along; a caller that has none drops what comes back.
  \<open>i\<close> is the identifier of the log row.
\<close>

definition auto_advance_maturity ::
  "env \<Rightarrow> ident \<Rightarrow> ident \<Rightarrow> touched_entities \<Rightarrow> db \<Rightarrow> (touched_entities \<times> db) result" where
  "auto_advance_maturity env i nid touched db =
     (case get_node_row db nid of
        None \<Rightarrow> Inr (touched, db)
      | Some node \<Rightarrow>
          if n_maturity node = ''finalized'' then Inr (touched, db)
          else
            let m = new_maturity (has_summary node) (block_count db nid) (child_count db nid) (n_maturity node)
            in if m = n_maturity node then Inr (touched, db)
               else
                 let db = nodes_update (row_update n_id nid (\<lambda>n. n\<lparr>n_maturity := m, n_updated_at := now env\<rparr>)) db
                 in and_then (log_action env i (n_project_id node) (Some nid) ''system'' ''maturity_advance''
                        [(''from'', JStr (n_maturity node)), (''to'', JStr m)] db) (\<lambda>db.
                    Inr (touched_add [NodeRef nid] touched, db)))"

section \<open>The level reached\<close>

fun rank :: "string \<Rightarrow> string list \<Rightarrow> nat" where
  "rank m [] = 0"
| "rank m (x # xs) = (if m = x then 0 else Suc (rank m xs))"

definition maturity_rank :: "string \<Rightarrow> nat" where
  "maturity_rank m = rank m MATURITY_ORDER"

lemma new_maturity_seed:
  "new_maturity s b c ''seed'' =
     (if 3 \<le> b \<and> s \<and> 2 \<le> c then ''stable'' else if 1 \<le> b \<and> 1 \<le> c then ''developing''
      else if s \<or> 1 \<le> c then ''rough'' else ''seed'')"
  by (simp add: new_maturity_def)

lemma new_maturity_rough:
  "new_maturity s b c ''rough'' =
     (if 3 \<le> b \<and> s \<and> 2 \<le> c then ''stable'' else if 1 \<le> b \<and> 1 \<le> c then ''developing'' else ''rough'')"
  by (simp add: new_maturity_def)

lemma new_maturity_developing:
  "new_maturity s b c ''developing'' = (if 3 \<le> b \<and> s \<and> 2 \<le> c then ''stable'' else ''developing'')"
  by (simp add: new_maturity_def)

lemma new_maturity_other:
  "m \<noteq> ''seed'' \<Longrightarrow> m \<noteq> ''rough'' \<Longrightarrow> m \<noteq> ''developing'' \<Longrightarrow> new_maturity s b c m = m"
  by (simp add: new_maturity_def)

lemmas new_maturity_eqs =
  new_maturity_seed new_maturity_rough new_maturity_developing new_maturity_other

lemma level_cases:
  obtains "m = ''seed''" | "m = ''rough''" | "m = ''developing''"
  | "m \<noteq> ''seed''" "m \<noteq> ''rough''" "m \<noteq> ''developing''"
  by blast

lemma maturity_ranks:
  "maturity_rank ''seed'' = 0" "maturity_rank ''rough'' = 1" "maturity_rank ''developing'' = 2"
  "maturity_rank ''stable'' = 3" "maturity_rank ''finalized'' = 4"
  by (simp_all add: maturity_rank_def MATURITY_ORDER_def)

lemma new_maturity_monotone: "maturity_rank m \<le> maturity_rank (new_maturity s b c m)"
  by (cases m rule: level_cases) (simp_all add: new_maturity_eqs maturity_ranks)

lemma new_maturity_idem: "new_maturity s b c (new_maturity s b c m) = new_maturity s b c m"
  by (cases m rule: level_cases) (simp_all add: new_maturity_eqs)

lemma new_maturity_finalized: "new_maturity s b c m = ''finalized'' \<longleftrightarrow> m = ''finalized''"
  by (cases m rule: level_cases) (simp_all add: new_maturity_eqs)

lemma new_maturity_mono_content:
  assumes "s \<longrightarrow> s'" "b \<le> b'" "c \<le> c'"
  shows "maturity_rank (new_maturity s b c m) \<le> maturity_rank (new_maturity s' b' c' m)"
  using assms by (cases m rule: level_cases) (simp_all add: new_maturity_eqs maturity_ranks)

section \<open>The step\<close>

lemma auto_advance_cases:
  assumes "auto_advance_maturity env i nid t db = Inr (t', db')"
  obtains (unchanged) "t' = t" "db' = db" "\<And>node. get_node_row db nid = Some node \<Longrightarrow>
      new_maturity (has_summary node) (block_count db nid) (child_count db nid) (n_maturity node) = n_maturity node"
  | (advanced) node m where "get_node_row db nid = Some node" "m \<noteq> n_maturity node" "n_maturity node \<noteq> ''finalized''"
      "m = new_maturity (has_summary node) (block_count db nid) (child_count db nid) (n_maturity node)"
      "t' = touched_add [NodeRef nid] t"
      "log_action env i (n_project_id node) (Some nid) ''system'' ''maturity_advance''
         [(''from'', JStr (n_maturity node)), (''to'', JStr m)]
         (nodes_update (row_update n_id nid (\<lambda>n. n\<lparr>n_maturity := m, n_updated_at := now env\<rparr>)) db) = Inr db'"
  using assms new_maturity_finalized
  by (auto simp: auto_advance_maturity_def Let_def result_simps split: option.splits if_splits)

lemma auto_advance_frame:
  assumes "auto_advance_maturity env i nid t db = Inr (t', db')"
  shows "projects db' = projects db" "edges db' = edges db" "content_blocks db' = content_blocks db"
    "branches db' = branches db" "agent_sessions db' = agent_sessions db" "agent_artifacts db' = agent_artifacts db"
    "map n_id (nodes db') = map n_id (nodes db)" "set t' \<subseteq> insert (NodeRef nid) (set t)"
  using assms
  by (cases rule: auto_advance_cases; simp add: log_action_frame map_key_row_update set_touched_add
      subset_insertI)+

lemma auto_advance_distinct:
  "auto_advance_maturity env i nid t db = Inr (t', db') \<Longrightarrow> distinct t \<Longrightarrow> distinct t'"
  by (erule auto_advance_cases) (simp_all add: distinct_touched_add)

lemma auto_advance_ok [ok_intros]:
  assumes "auto_advance_maturity env i nid t db = Inr (t', db')" "db_ok db"
  shows "db_ok db'"
  using assms(1)
proof (cases rule: auto_advance_cases)
  case unchanged
  then show ?thesis using assms(2) by simp
next
  case advanced
  show ?thesis by (rule ok_log_action [OF advanced(6)]) (simp add: assms(2) ok_update_node)
qed

lemma auto_advance_other_nodes:
  assumes "auto_advance_maturity env i nid t db = Inr (t', db')" "j \<noteq> nid"
  shows "get_node_row db' j = get_node_row db j"
  using assms by (cases rule: auto_advance_cases) (simp_all add: get_node_row_def log_action_frame row_get_update)

lemma auto_advance_node:
  assumes "auto_advance_maturity env i nid t db = Inr (t', db')" "get_node_row db nid = Some n"
  shows "\<exists>n'. get_node_row db' nid = Some n' \<and> n_maturity n' =
      new_maturity (has_summary n) (block_count db nid) (child_count db nid) (n_maturity n) \<and>
    n_revision n' = n_revision n \<and> n_summary n' = n_summary n \<and> n_project_id n' = n_project_id n"
  using assms(1)
proof (cases rule: auto_advance_cases)
  case unchanged
  then show ?thesis using assms(2) by simp
next
  case (advanced node m)
  then show ?thesis using assms(2) by (simp add: get_node_row_def log_action_frame row_get_update)
qed

end
