(* ===== verification/Nodes.thy ===== *)
theory Nodes
  imports Maturity
begin

text \<open>
  Nodes (\<open>list_nodes\<close>, \<open>create_node\<close>, \<open>get_node\<close>, \<open>update_node\<close>, \<open>get_children\<close> of \<open>api/routes.py\<close> and
  their bodies in \<open>models/schemas.py\<close>). Creating a node under a parent adds the containment
  edge, the mainline one for a first child, and touches the parent once.
\<close>

section \<open>Bodies\<close>

record node_create =
  nc_expected_project_revision :: int
  nc_expected_parent_revision :: "int option"
  nc_title :: string
  nc_summary :: string
  nc_node_type :: string
  nc_parent_id :: "ident option"
  nc_branch_id :: "ident option"
  nc_description :: string
  nc_tags :: "string list"

definition parent_cas_is_mandatory :: "node_create \<Rightarrow> bool" where
  "parent_cas_is_mandatory data \<longleftrightarrow>
     (nc_parent_id data \<noteq> None \<longrightarrow> nc_expected_parent_revision data \<noteq> None) \<and>
     (nc_parent_id data = None \<longrightarrow> nc_expected_parent_revision data = None)"

record node_update =
  nu_expected_project_revision :: int
  nu_expected_revision :: int
  nu_title :: "string field"
  nu_summary :: "string field"
  nu_node_type :: "string field"
  nu_status :: "string field"
  nu_maturity :: "string field"
  nu_priority :: "int field"
  nu_confidence :: "rat field"
  nu_description :: "string field"
  nu_rules_text :: "string field"
  nu_constraints_text :: "string field"
  nu_examples_text :: "string field"
  nu_questions_text :: "string field"
  nu_decision_notes :: "string field"
  nu_tags :: "string list field"
  nu_workflow_status :: "string field"
  nu_file_paths :: "string list field"
  nu_position_x :: "rat field"
  nu_position_y :: "rat field"

text \<open>\<open>data.model_dump(exclude_unset=True, exclude=...)\<close>, the payload of the log row.\<close>

definition node_changes :: "node_update \<Rightarrow> (string \<times> json) list" where
  "node_changes data =
     member ''title'' JStr (nu_title data) @ member ''summary'' JStr (nu_summary data) @
     member ''node_type'' JStr (nu_node_type data) @ member ''status'' JStr (nu_status data) @
     member ''maturity'' JStr (nu_maturity data) @ member ''priority'' jint (nu_priority data) @
     member ''confidence'' JNum (nu_confidence data) @ member ''description'' JStr (nu_description data) @
     member ''rules_text'' JStr (nu_rules_text data) @ member ''constraints_text'' JStr (nu_constraints_text data) @
     member ''examples_text'' JStr (nu_examples_text data) @ member ''questions_text'' JStr (nu_questions_text data) @
     member ''decision_notes'' JStr (nu_decision_notes data) @
     member ''tags'' jstrings (nu_tags data) @
     member ''workflow_status'' JStr (nu_workflow_status data) @
     member ''file_paths'' jstrings (nu_file_paths data) @
     member ''position_x'' JNum (nu_position_x data) @ member ''position_y'' JNum (nu_position_y data)"

definition node_update_null :: "node_update \<Rightarrow> bool" where
  "node_update_null data \<longleftrightarrow>
     is_null (nu_title data) \<or> is_null (nu_node_type data) \<or> is_null (nu_status data) \<or>
     is_null (nu_maturity data) \<or> is_null (nu_workflow_status data)"

definition apply_node_changes :: "env \<Rightarrow> node_update \<Rightarrow> node \<Rightarrow> node" where
  "apply_node_changes env data n =
     n\<lparr>n_title := assign_required (nu_title data) (n_title n),
       n_summary := assign_nullable (nu_summary data) (n_summary n),
       n_node_type := assign_required (nu_node_type data) (n_node_type n),
       n_status := assign_required (nu_status data) (n_status n),
       n_maturity := assign_required (nu_maturity data) (n_maturity n),
       n_priority := assign_nullable (nu_priority data) (n_priority n),
       n_confidence := assign_nullable (nu_confidence data) (n_confidence n),
       n_description := assign_nullable (nu_description data) (n_description n),
       n_rules_text := assign_nullable (nu_rules_text data) (n_rules_text n),
       n_constraints_text := assign_nullable (nu_constraints_text data) (n_constraints_text n),
       n_examples_text := assign_nullable (nu_examples_text data) (n_examples_text n),
       n_questions_text := assign_nullable (nu_questions_text data) (n_questions_text n),
       n_decision_notes := assign_nullable (nu_decision_notes data) (n_decision_notes n),
       n_tags := assign_json jstrings (nu_tags data) (n_tags n),
       n_workflow_status := assign_required (nu_workflow_status data) (n_workflow_status n),
       n_file_paths := assign_json jstrings (nu_file_paths data) (n_file_paths n),
       n_position_x := assign_nullable (nu_position_x data) (n_position_x n),
       n_position_y := assign_nullable (nu_position_y data) (n_position_y n),
       n_last_edited_by := Some ''human'',
       n_updated_at := now env\<rparr>"

section \<open>Handlers\<close>

definition ordinary_main_nodes :: "ident \<Rightarrow> db \<Rightarrow> node list" where
  "ordinary_main_nodes pid db = filter (\<lambda>n. n_project_id n = pid \<and> n_branch_id n = None) (nodes db)"

definition list_nodes :: "ident \<Rightarrow> db \<Rightarrow> node list" where
  "list_nodes pid db = sort_key n_created_at (ordinary_main_nodes pid db)"

definition get_node :: "ident \<Rightarrow> db \<Rightarrow> node result" where
  "get_node nid db =
     (case get_node_row db nid of None \<Rightarrow> Inl (HTTPException 404 ''Node not found'') | Some n \<Rightarrow> Inr n)"

definition get_children :: "ident \<Rightarrow> db \<Rightarrow> node list" where
  "get_children nid db = List.map_filter (\<lambda>e. get_node_row db (e_to_node_id e)) (child_edges db nid)"

text \<open>
  The parent of a new node, checked before the claim: in the project, at the revision the
  client saw, in the branch of the new node.
\<close>

definition create_node_parent :: "ident \<Rightarrow> node_create \<Rightarrow> db \<Rightarrow> node option result" where
  "create_node_parent pid data db =
     (if \<not> truthy (nc_parent_id data) then Inr None
      else case get_node_row db (the (nc_parent_id data)) of
        None \<Rightarrow> Inl (HTTPException 400 ''Invalid parent node'')
      | Some parent \<Rightarrow>
          if n_project_id parent \<noteq> pid then Inl (HTTPException 400 ''Invalid parent node'')
          else and_then (check_entity_revision ''node'' (n_id parent) (n_revision parent)
                  (the (nc_expected_parent_revision data))) (\<lambda>_.
               if or_none (n_branch_id parent) \<noteq> or_none (nc_branch_id data)
               then Inl (HTTPException 400 ''Parent and child must belong to the same branch'')
               else Inr (Some parent)))"

definition require_active_branch :: "ident \<Rightarrow> ident option \<Rightarrow> db \<Rightarrow> unit result" where
  "require_active_branch pid bid db =
     (if \<not> truthy bid then Inr ()
      else case get_branch_row db (the bid) of
        None \<Rightarrow> Inl (HTTPException 400 ''Invalid active branch'')
      | Some b \<Rightarrow>
          if br_project_id b \<noteq> pid \<or> br_status b \<noteq> ''active''
          then Inl (HTTPException 400 ''Invalid active branch'') else Inr ())"

text \<open>The response: the node, and the revisions the client needs for its next call.\<close>

record node_out =
  out_node :: node
  authoritative_project_revision :: int
  authoritative_parent_id :: "ident option"
  authoritative_parent_revision :: "int option"

definition create_node :: "env \<Rightarrow> ident \<Rightarrow> node_create \<Rightarrow> db \<Rightarrow> (node_out \<times> db) result" where
  "create_node env pid data db =
     (if \<not> parent_cas_is_mandatory data then Inl (HTTPException 422 ''expected_parent_revision'')
      else case get_project_row db pid of
        None \<Rightarrow> Inl (HTTPException 404 ''Project not found'')
      | Some _ \<Rightarrow>
          and_then (create_node_parent pid data db) (\<lambda>parent.
          and_then (claim_project_revision env pid (nc_expected_project_revision data) db) (\<lambda>db.
          and_then (require_active_branch pid (nc_branch_id data) db) (\<lambda>_.
            let nid = uuid env 0;
                node = (new_node env nid pid (nc_title data) (Some (nc_summary data)))
                  \<lparr>n_branch_id := nc_branch_id data, n_node_type := nc_node_type data,
                   n_description := Some (nc_description data), n_tags := jstrings (nc_tags data)\<rparr>
            in and_then (insert_node node db) (\<lambda>db.
               and_then (case parent of
                   None \<Rightarrow> Inr db
                 | Some p \<Rightarrow> insert_edge
                     (new_edge env (uuid env 1) pid (n_id p) nid (child_edges db (n_id p) = [])) db) (\<lambda>db.
               and_then (log_action env (uuid env 2) pid (Some nid) ''human'' ''create_node''
                   [(''title'', JStr (nc_title data)), (''parent_id'', jopt (or_none (nc_parent_id data))),
                    (''branch_id'', jopt (or_none (nc_branch_id data)))] db) (\<lambda>db.
               and_then (case parent of
                   None \<Rightarrow> Inr ([], db)
                 | Some p \<Rightarrow> auto_advance_maturity env (uuid env 3) (n_id p) (touched_add [NodeRef (n_id p)] []) db)
                 (\<lambda>(touched, db).
                 let db = touched_apply env touched db
                 in Inr (\<lparr>out_node = node,
                          authoritative_project_revision = nc_expected_project_revision data + 1,
                          authoritative_parent_id = map_option n_id parent,
                          authoritative_parent_revision =
                            Option.bind parent (\<lambda>p. map_option n_revision (get_node_row db (n_id p)))\<rparr>, db)))))))))"

definition update_node :: "env \<Rightarrow> ident \<Rightarrow> node_update \<Rightarrow> db \<Rightarrow> (node \<times> db) result" where
  "update_node env nid data db =
     (case get_node_row db nid of
        None \<Rightarrow> Inl (HTTPException 404 ''Node not found'')
      | Some node \<Rightarrow>
          and_then (claim_project_revision env (n_project_id node) (nu_expected_project_revision data) db) (\<lambda>db.
          and_then (check_entity_revision ''node'' nid (n_revision node) (nu_expected_revision data)) (\<lambda>_.
            if node_update_null data then Inl IntegrityError
            else
              let db = nodes_update (row_update n_id nid (apply_node_changes env data)) db;
                  db = bump_existing env [NodeRef nid] db
              in and_then (auto_advance_maturity env (uuid env 0) nid [] db) (\<lambda>(_, db).
                 and_then (log_action env (uuid env 1) (n_project_id node) (Some nid) ''human'' ''update_node''
                     (node_changes data) db) (\<lambda>db.
                 case get_node_row db nid of None \<Rightarrow> Inl AttributeError | Some n \<Rightarrow> Inr (n, db))))))"

section \<open>Creating a node\<close>

definition created_node :: "env \<Rightarrow> ident \<Rightarrow> node_create \<Rightarrow> node" where
  "created_node env pid data = (new_node env (uuid env 0) pid (nc_title data) (Some (nc_summary data)))
     \<lparr>n_branch_id := nc_branch_id data, n_node_type := nc_node_type data,
      n_description := Some (nc_description data), n_tags := jstrings (nc_tags data)\<rparr>"

lemma created_node_simps [simp]:
  "n_id (created_node env pid data) = uuid env 0" "n_project_id (created_node env pid data) = pid"
  "n_branch_id (created_node env pid data) = nc_branch_id data" "n_title (created_node env pid data) = nc_title data"
  by (simp_all add: created_node_def)

lemma create_node_steps:
  assumes "create_node env pid data db = Inr (out, db')"
  obtains parent db1 db2 db3 db4 touched db5 where
    "create_node_parent pid data db = Inr parent"
    "claim_project_revision env pid (nc_expected_project_revision data) db = Inr db1"
    "require_active_branch pid (nc_branch_id data) db1 = Inr ()"
    "insert_node (created_node env pid data) db1 = Inr db2"
    "(case parent of None \<Rightarrow> Inr db2
      | Some p \<Rightarrow> insert_edge (new_edge env (uuid env 1) pid (n_id p) (uuid env 0) (child_edges db2 (n_id p) = [])) db2) = Inr db3"
    "log_action env (uuid env 2) pid (Some (uuid env 0)) ''human'' ''create_node''
       [(''title'', JStr (nc_title data)), (''parent_id'', jopt (or_none (nc_parent_id data))),
        (''branch_id'', jopt (or_none (nc_branch_id data)))] db3 = Inr db4"
    "(case parent of None \<Rightarrow> Inr ([], db4)
      | Some p \<Rightarrow> auto_advance_maturity env (uuid env 3) (n_id p) (touched_add [NodeRef (n_id p)] []) db4) = Inr (touched, db5)"
    "db' = touched_apply env touched db5"
    "authoritative_project_revision out = nc_expected_project_revision data + 1"
    "out_node out = created_node env pid data"
  using assms by (auto simp: create_node_def created_node_def Let_def result_simps split: if_splits)

lemma create_node_parent_Some:
  assumes "create_node_parent pid data db = Inr (Some p)"
  shows "get_node_row db (n_id p) = Some p" "n_project_id p = pid" "or_none (n_branch_id p) = or_none (nc_branch_id data)"
    "nc_parent_id data = Some (n_id p)" "the (nc_expected_parent_revision data) = current_revision (n_revision p)"
  using assms by (auto simp: create_node_parent_def result_simps truthy_Some statement_Inr get_node_row_def
      dest: row_get_Some row_get_key split: if_splits)

lemma require_active_branch_owner:
  assumes "require_active_branch pid bid db = Inr ()" "opt_ref bid (branch_ids db)" "bid = Some b" "b \<noteq> []"
  shows "branch_owner (branches db) b = Some pid"
  using assms by (auto simp: require_active_branch_def result_simps truthy_Some get_branch_row_def branch_owner_def
      split: if_splits)

lemma create_node_parent_in_project:
  "create_node_parent pid data db = Inr (Some p) \<Longrightarrow> owner (nodes db) (n_id p) = Some pid"
  using create_node_parent_Some(1,2) owner_get by blast

lemma create_node_advances:
  assumes "create_node env pid data db = Inr (out, db')"
  shows "advances db pid (nc_expected_project_revision data) db'"
  using assms
proof (cases rule: create_node_steps)
  case (1 parent db1 db2 db3 db4 touched db5)
  have "projects db5 = projects db4" using 1(7) by (auto simp: auto_advance_frame split: option.splits)
  also have "\<dots> = projects db3" using 1(6) by (rule log_action_frame)
  also have "\<dots> = projects db2" using 1(5) by (auto simp: statement_Inr split: option.splits)
  also have "\<dots> = projects db1" using 1(4) by (simp add: statement_Inr)
  finally show ?thesis using claim_advances [OF 1(2)] by (simp add: 1(8))
qed

lemma create_node_ok:
  assumes "create_node env pid data db = Inr (out, db')" "db_ok db"
  shows "db_ok db'"
  using assms(1)
proof (cases rule: create_node_steps)
  case (1 parent db1 db2 db3 db4 touched db5)
  have ok1: "db_ok db1" by (rule ok_claim) fact+
  have bid: "opt_ref (nc_branch_id data) (branch_ids db1)" using 1(4) by (simp add: statement_Inr)
  have "branch_owner (branches db1) b = Some pid" if "nc_branch_id data = Some b" for b
    using require_active_branch_owner [OF 1(3) bid that] branch_id_not_empty [OF ok1] bid that by (cases "b = []") auto
  then have ok2: "db_ok db2" using 1(4) ok1 by (intro ok_insert_node [OF 1(4)]) auto
  have own: "owner (nodes db2) (uuid env 0) = Some pid"
    using 1(4) owner_snoc [of "created_node env pid data"] by (auto simp: statement_Inr)
  have "db_ok db3"
  proof (cases parent)
    case (Some p)
    have "owner (nodes db1) (n_id p) = Some pid"
      using create_node_parent_in_project [of pid data db p] 1(1,2) Some by (auto simp: statement_Inr)
    then have "owner (nodes db2) (n_id p) = Some pid" using 1(4) by (auto simp: statement_Inr owner_append_fresh)
    then show ?thesis using 1(5) Some own ok2 by (auto intro: ok_insert_edge)
  qed (use 1(5) ok2 in simp)
  then have "db_ok db4" using 1(6) by (auto intro: ok_log_action)
  then have "db_ok db5" using 1(7) by (auto intro: auto_advance_ok split: option.splits)
  then show ?thesis by (simp add: 1(8) ok_touched_apply)
qed

interpretation create_node_cas:
  cas_handler "\<lambda>r. create_node env pid (data\<lparr>nc_expected_project_revision := r\<rparr>)" "\<lambda>_. Some pid" for env pid data
  by unfold_locales (auto dest: create_node_advances)

section \<open>Updating a node\<close>

lemma apply_node_changes_simps [simp]:
  "n_id (apply_node_changes env data n) = n_id n" "n_project_id (apply_node_changes env data n) = n_project_id n"
  "n_branch_id (apply_node_changes env data n) = n_branch_id n"
  "n_revision (apply_node_changes env data n) = n_revision n"
  by (simp_all add: apply_node_changes_def)

lemma update_node_steps:
  assumes "update_node env nid data db = Inr (out, db')"
  obtains node db1 t db2 where
    "get_node_row db nid = Some node"
    "claim_project_revision env (n_project_id node) (nu_expected_project_revision data) db = Inr db1"
    "nu_expected_revision data = current_revision (n_revision node)"
    "\<not> node_update_null data"
    "auto_advance_maturity env (uuid env 0) nid [] (bump_existing env [NodeRef nid]
        (nodes_update (row_update n_id nid (apply_node_changes env data)) db1)) = Inr (t, db2)"
    "log_action env (uuid env 1) (n_project_id node) (Some nid) ''human'' ''update_node'' (node_changes data) db2 = Inr db'"
    "get_node_row db' nid = Some out"
  using assms by (auto simp: update_node_def Let_def result_simps statement_Inr split: if_splits)

lemma update_node_advances:
  assumes "update_node env nid data db = Inr (out, db')"
  shows "\<exists>node. get_node_row db nid = Some node \<and>
    advances db (n_project_id node) (nu_expected_project_revision data) db'"
  using assms
proof (cases rule: update_node_steps)
  case (1 node db1 t db2)
  have "projects db' = projects db1"
    using log_action_frame(1) [OF 1(6)] auto_advance_frame(1) [OF 1(5)] by simp
  with 1(1) claim_advances [OF 1(2)] show ?thesis by blast
qed

lemma update_node_ok:
  assumes "update_node env nid data db = Inr (out, db')" "db_ok db"
  shows "db_ok db'"
  using assms(1)
proof (cases rule: update_node_steps)
  case (1 node db1 t db2)
  have "db_ok db1" by (rule ok_claim) fact+
  then have "db_ok db2"
    by (intro auto_advance_ok [OF 1(5)] ok_bump_existing ok_update_node) simp_all
  then show ?thesis by (rule ok_log_action [OF 1(6)])
qed

interpretation update_node_cas:
  cas_handler "\<lambda>r. update_node env nid (data\<lparr>nu_expected_project_revision := r\<rparr>)"
    "\<lambda>db. map_option n_project_id (get_node_row db nid)" for env nid data
  by unfold_locales (auto dest: update_node_advances)

end
