(* ===== verification/Subtree_Delete.thy ===== *)
theory Subtree_Delete
  imports Nodes
begin

text \<open>
  Deleting a subtree (\<open>delete_node\<close> of \<open>api/routes.py\<close> with its inner \<open>validate_closure\<close>). The walk
  follows containment edges level by level, refuses anything that is not a tree inside one
  project and branch, then looks at every incoming edge again. What it returns is exactly the
  set of nodes reachable from the start; the handler removes exactly those.
\<close>

section \<open>The walk\<close>

record closure =
  cl_subtree :: "ident list"
  cl_incoming :: "ident list"
  cl_edges :: "ident list"
  cl_parents :: "(ident \<times> ident) list"

definition root_ids :: "db \<Rightarrow> ident list" where
  "root_ids db = List.map_filter p_root_node_id (projects db)"

definition closure_edge_bad :: "node \<Rightarrow> db \<Rightarrow> closure \<Rightarrow> edge \<Rightarrow> bool" where
  "closure_edge_bad node db cl e \<longleftrightarrow>
     e_id e \<in> set (cl_edges cl) \<or> e_to_node_id e \<in> set (cl_incoming cl) \<or> e_to_node_id e \<in> set (cl_subtree cl) \<or>
     (case get_node_row db (e_to_node_id e) of
        None \<Rightarrow> True
      | Some target \<Rightarrow> e_project_id e \<noteq> n_project_id node \<or> n_project_id target \<noteq> n_project_id node
          \<or> n_branch_id target \<noteq> n_branch_id node) \<or>
     e_to_node_id e \<in> set (root_ids db)"

definition closure_edge :: "node \<Rightarrow> db \<Rightarrow> edge \<Rightarrow> closure \<Rightarrow> closure result" where
  "closure_edge node db e cl =
     (if closure_edge_bad node db cl e
      then Inl (HTTPException 409 ''Subtree containment crosses a boundary or is not a tree'')
      else Inr (cl\<lparr>cl_edges := cl_edges cl @ [e_id e], cl_incoming := cl_incoming cl @ [e_to_node_id e],
                  cl_parents := (e_to_node_id e, e_from_node_id e) # cl_parents cl\<rparr>))"

definition frontier_edges :: "db \<Rightarrow> ident list \<Rightarrow> edge list" where
  "frontier_edges db frontier = filter (\<lambda>e. is_child_edge e \<and> e_from_node_id e \<in> set frontier) (edges db)"

definition frontier_targets :: "db \<Rightarrow> ident list \<Rightarrow> ident list" where
  "frontier_targets db frontier = remdups (map e_to_node_id (frontier_edges db frontier))"

definition frontier_bad :: "node \<Rightarrow> db \<Rightarrow> ident list \<Rightarrow> bool" where
  "frontier_bad node db frontier \<longleftrightarrow>
     (let sources = filter (\<lambda>n. n_id n \<in> set frontier) (nodes db)
      in length sources \<noteq> length frontier \<or>
         list_ex (\<lambda>n. n_project_id n \<noteq> n_project_id node \<or> n_branch_id n \<noteq> n_branch_id node) sources)"

text \<open>One turn of the \<open>while frontier\<close> loop, without the recursion.\<close>

definition closure_level :: "node \<Rightarrow> db \<Rightarrow> ident list \<Rightarrow> closure \<Rightarrow> closure result" where
  "closure_level node db frontier cl =
     (if frontier_bad node db frontier
      then Inl (HTTPException 409 ''Subtree containment boundary is invalid'')
      else and_then (fold_result (closure_edge node db) (frontier_edges db frontier) cl) (\<lambda>cl.
        Inr (cl\<lparr>cl_subtree := cl_subtree cl @ frontier_targets db frontier\<rparr>)))"

lemma fold_closure_edge:
  assumes "fold_result (closure_edge node db) es cl = Inr cl'"
  shows "cl_subtree cl' = cl_subtree cl" "\<And>e. e \<in> set es \<Longrightarrow> e_to_node_id e \<notin> set (cl_subtree cl)"
    "\<And>e. e \<in> set es \<Longrightarrow> get_node_row db (e_to_node_id e) \<noteq> None"
    "\<And>e. e \<in> set es \<Longrightarrow> e_to_node_id e \<notin> set (root_ids db)"
    "\<And>e n. e \<in> set es \<Longrightarrow> get_node_row db (e_to_node_id e) = Some n \<Longrightarrow>
       n_project_id n = n_project_id node \<and> n_branch_id n = n_branch_id node"
  using assms
  by (induction es arbitrary: cl; fastforce simp: result_simps closure_edge_def closure_edge_bad_def split: if_splits option.splits)+

lemma set_frontier_targets: "set (frontier_targets db f) = e_to_node_id ` set (frontier_edges db f)"
  by (simp add: frontier_targets_def)

lemma closure_level_grows:
  assumes "closure_level node db frontier cl = Inr cl'"
  shows "cl_subtree cl' = cl_subtree cl @ frontier_targets db frontier"
    "set (frontier_targets db frontier) \<subseteq> node_ids db" "set (frontier_targets db frontier) \<inter> set (cl_subtree cl) = {}"
proof -
  from assms obtain cl1 where f: "fold_result (closure_edge node db) (frontier_edges db frontier) cl = Inr cl1"
    and cl': "cl' = cl1\<lparr>cl_subtree := cl_subtree cl1 @ frontier_targets db frontier\<rparr>"
    by (auto simp: closure_level_def result_simps)
  show "cl_subtree cl' = cl_subtree cl @ frontier_targets db frontier"
    using fold_closure_edge(1) [OF f] by (simp add: cl')
  show "set (frontier_targets db frontier) \<subseteq> node_ids db"
    using fold_closure_edge(3) [OF f] by (auto simp: set_frontier_targets get_node_row_def row_get_None)
  show "set (frontier_targets db frontier) \<inter> set (cl_subtree cl) = {}"
    using fold_closure_edge(2) [OF f] by (auto simp: set_frontier_targets)
qed

function closure_walk :: "node \<Rightarrow> db \<Rightarrow> ident list \<Rightarrow> closure \<Rightarrow> closure result" where
  "closure_walk node db frontier cl =
     (if frontier = [] then Inr cl
      else case closure_level node db frontier cl of
        Inl e \<Rightarrow> Inl e
      | Inr cl' \<Rightarrow> closure_walk node db (frontier_targets db frontier) cl')"
  by pat_completeness auto

termination
proof (relation "measure (\<lambda>(node, db, frontier, cl).
    2 * card (node_ids db - set (cl_subtree cl)) + (if frontier = [] then 0 else 1))")
  fix node db frontier cl cl'
  assume "frontier \<noteq> []" and level: "closure_level node db frontier cl = Inr cl'"
  note g = closure_level_grows [OF level]
  show "((node, db, frontier_targets db frontier, cl'), node, db, frontier, cl) \<in> measure (\<lambda>(node, db, frontier, cl).
    2 * card (node_ids db - set (cl_subtree cl)) + (if frontier = [] then 0 else 1))"
  proof (cases "frontier_targets db frontier = []")
    case True
    then show ?thesis using \<open>frontier \<noteq> []\<close> g(1) by simp
  next
    case False
    then have "node_ids db - set (cl_subtree cl') \<subset> node_ids db - set (cl_subtree cl)"
      using g by (cases "frontier_targets db frontier") auto
    then have "card (node_ids db - set (cl_subtree cl')) < card (node_ids db - set (cl_subtree cl))"
      by (intro psubset_card_mono) simp_all
    then show ?thesis using \<open>frontier \<noteq> []\<close> by simp
  qed
qed simp

declare closure_walk.simps [simp del]

section \<open>The second look at incoming edges\<close>

definition inbound_edge_bad :: "node \<Rightarrow> db \<Rightarrow> edge \<Rightarrow> bool" where
  "inbound_edge_bad node db e \<longleftrightarrow>
     e_project_id e \<noteq> n_project_id node \<or>
     (case get_node_row db (e_from_node_id e) of
        None \<Rightarrow> True
      | Some source \<Rightarrow> n_project_id source \<noteq> n_project_id node \<or> n_branch_id source \<noteq> n_branch_id node)"

definition check_ownership :: "node \<Rightarrow> closure \<Rightarrow> edge list \<Rightarrow> ident \<Rightarrow> unit \<Rightarrow> unit result" where
  "check_ownership node cl inbound target_id u =
     (let es = filter (\<lambda>e. e_to_node_id e = target_id) inbound
      in if target_id = n_id node
         then (if length es > 1 then Inl (HTTPException 409 ''Subtree root has invalid ownership'') else Inr ())
         else (case es of
             [e] \<Rightarrow> if Some (e_from_node_id e) \<noteq> map_of (cl_parents cl) target_id
                    then Inl (HTTPException 409 ''Subtree descendant has invalid ownership'') else Inr ()
           | _ \<Rightarrow> Inl (HTTPException 409 ''Subtree descendant has invalid ownership'')))"

definition validate_closure :: "node \<Rightarrow> db \<Rightarrow> ident list result" where
  "validate_closure node db =
     and_then (closure_walk node db [n_id node]
         \<lparr>cl_subtree = [n_id node], cl_incoming = [], cl_edges = [], cl_parents = []\<rparr>) (\<lambda>cl.
       let inbound = filter (\<lambda>e. is_child_edge e \<and> e_to_node_id e \<in> set (cl_subtree cl)) (edges db)
       in if list_ex (inbound_edge_bad node db) inbound
          then Inl (HTTPException 409 ''Subtree incoming ownership boundary is invalid'')
          else and_then (fold_result (check_ownership node cl inbound) (cl_subtree cl) ()) (\<lambda>_.
               Inr (cl_subtree cl)))"

definition delete_node :: "env \<Rightarrow> ident \<Rightarrow> int \<Rightarrow> int \<Rightarrow> db \<Rightarrow> (unit \<times> db) result" where
  "delete_node env nid expected_project_revision expected_revision db =
     (case get_node_row db nid of
        None \<Rightarrow> Inl (HTTPException 404 ''Node not found'')
      | Some node \<Rightarrow>
          if (case get_project_row db (n_project_id node) of None \<Rightarrow> False | Some p \<Rightarrow> p_root_node_id p = Some nid)
          then Inl (HTTPException 409 ''Cannot delete the project root node'')
          else
            and_then (check_entity_revision ''node'' nid (n_revision node) expected_revision) (\<lambda>_.
            and_then (validate_closure node db) (\<lambda>_.
            and_then (claim_project_revision env (n_project_id node) expected_project_revision db) (\<lambda>db.
            and_then (validate_closure node db) (\<lambda>subtree_ids.
              Inr ((), delete_nodes subtree_ids (delete_edges_touching subtree_ids db)))))))"

section \<open>The walk returns the reachable nodes\<close>

lemma frontier_edges_child:
  "(x, y) \<in> child_rel db \<Longrightarrow> x \<in> set f \<Longrightarrow> y \<in> set (frontier_targets db f)"
  by (auto simp: child_rel_iff set_frontier_targets frontier_edges_def)

lemma frontier_targets_child:
  "y \<in> set (frontier_targets db f) \<Longrightarrow> \<exists>x \<in> set f. (x, y) \<in> child_rel db"
  by (auto simp: child_rel_iff set_frontier_targets frontier_edges_def)

lemma closure_walk_reachable:
  assumes "closure_walk node db frontier cl = Inr cl'" and "set frontier \<subseteq> set (cl_subtree cl)"
    and "\<And>x. x \<in> set (cl_subtree cl) \<Longrightarrow> (r, x) \<in> (child_rel db)\<^sup>*"
    and "\<And>x y. x \<in> set (cl_subtree cl) - set frontier \<Longrightarrow> (x, y) \<in> child_rel db \<Longrightarrow> y \<in> set (cl_subtree cl)"
  shows "set (cl_subtree cl) \<subseteq> set (cl_subtree cl') \<and> set (cl_subtree cl') \<subseteq> (child_rel db)\<^sup>* `` {r} \<and>
    child_rel db `` set (cl_subtree cl') \<subseteq> set (cl_subtree cl')"
  using assms
proof (induction node db frontier cl rule: closure_walk.induct)
  case (1 node db frontier cl)
  show ?case
  proof (cases "frontier = []")
    case True
    then show ?thesis using 1(2,4,5) by (auto simp: closure_walk.simps [of _ _ "[]"])
  next
    case False
    with 1(2) obtain cl1 where level: "closure_level node db frontier cl = Inr cl1"
      and rest: "closure_walk node db (frontier_targets db frontier) cl1 = Inr cl'"
      by (auto simp: closure_walk.simps [of _ _ frontier] case_sum_eq_Inr)
    note g = closure_level_grows(1) [OF level]
    have "set (cl_subtree cl1) \<subseteq> set (cl_subtree cl') \<and> set (cl_subtree cl') \<subseteq> (child_rel db)\<^sup>* `` {r} \<and>
        child_rel db `` set (cl_subtree cl') \<subseteq> set (cl_subtree cl')"
    proof (rule 1(1) [OF False level rest])
      show "set (frontier_targets db frontier) \<subseteq> set (cl_subtree cl1)" by (simp add: g)
    next
      fix x assume "x \<in> set (cl_subtree cl1)"
      then show "(r, x) \<in> (child_rel db)\<^sup>*"
        using 1(3,4) by (auto simp: g dest!: frontier_targets_child intro: rtrancl_into_rtrancl)
    next
      fix x y assume "x \<in> set (cl_subtree cl1) - set (frontier_targets db frontier)" "(x, y) \<in> child_rel db"
      then show "y \<in> set (cl_subtree cl1)" using 1(5) [of x y] frontier_edges_child [of x y db frontier] by (auto simp: g)
    qed
    then show ?thesis by (simp add: g)
  qed
qed

lemma validate_closure_reachable:
  assumes "validate_closure node db = Inr ids"
  shows "set ids = (child_rel db)\<^sup>* `` {n_id node}"
proof -
  from assms obtain cl where
    walk: "closure_walk node db [n_id node] \<lparr>cl_subtree = [n_id node], cl_incoming = [], cl_edges = [], cl_parents = []\<rparr> = Inr cl"
    and ids: "ids = cl_subtree cl"
    by (auto simp: validate_closure_def Let_def result_simps split: if_splits)
  have *: "n_id node \<in> set ids" "set ids \<subseteq> (child_rel db)\<^sup>* `` {n_id node}" "child_rel db `` set ids \<subseteq> set ids"
    using closure_walk_reachable [OF walk, of "n_id node"] by (auto simp: ids)
  have "x \<in> set ids" if "(n_id node, x) \<in> (child_rel db)\<^sup>*" for x
    using that by induction (use * in auto)
  then show ?thesis using *(2) by blast
qed

section \<open>What deletion removes\<close>

lemma closure_walk_no_roots:
  assumes "closure_walk node db frontier cl = Inr cl'"
  shows "set (cl_subtree cl') \<inter> set (root_ids db) \<subseteq> set (cl_subtree cl)"
  using assms
proof (induction node db frontier cl rule: closure_walk.induct)
  case (1 node db frontier cl)
  show ?case
  proof (cases "frontier = []")
    case True
    then show ?thesis using 1(2) by (auto simp: closure_walk.simps [of _ _ "[]"])
  next
    case False
    with 1(2) obtain cl1 where level: "closure_level node db frontier cl = Inr cl1"
      and rest: "closure_walk node db (frontier_targets db frontier) cl1 = Inr cl'"
      by (auto simp: closure_walk.simps [of _ _ frontier] case_sum_eq_Inr)
    from level obtain cl2 where "fold_result (closure_edge node db) (frontier_edges db frontier) cl = Inr cl2"
      by (auto simp: closure_level_def result_simps)
    then have "set (frontier_targets db frontier) \<inter> set (root_ids db) = {}"
      by (auto simp: set_frontier_targets dest: fold_closure_edge(4))
    then show ?thesis using 1(1) [OF False level rest] by (auto simp: closure_level_grows(1) [OF level])
  qed
qed

lemma validate_closure_no_roots:
  "validate_closure node db = Inr ids \<Longrightarrow> set ids \<inter> set (root_ids db) \<subseteq> {n_id node}"
  by (auto simp: validate_closure_def Let_def result_simps dest!: closure_walk_no_roots split: if_splits)

lemma root_ids_iff: "i \<in> set (root_ids db) \<longleftrightarrow> (\<exists>p \<in> set (projects db). p_root_node_id p = Some i)"
  by (force simp: root_ids_def map_filter_def image_iff)

lemma delete_node_steps:
  assumes "delete_node env nid pr er db = Inr (u, db')"
  obtains node db1 ids where
    "get_node_row db nid = Some node"
    "\<And>p. get_project_row db (n_project_id node) = Some p \<Longrightarrow> p_root_node_id p \<noteq> Some nid"
    "er = current_revision (n_revision node)"
    "claim_project_revision env (n_project_id node) pr db = Inr db1"
    "validate_closure node db1 = Inr ids"
    "db' = delete_nodes ids (delete_edges_touching ids db1)"
  using assms by (auto simp: delete_node_def result_simps statement_Inr split: option.splits if_splits)

lemma delete_edges_touching_frame [simp]:
  "projects (delete_edges_touching g db) = projects db" "nodes (delete_edges_touching g db) = nodes db"
  "edges (delete_edges_touching g db) = filter (\<lambda>e. \<not> (e_from_node_id e \<in> set g \<or> e_to_node_id e \<in> set g)) (edges db)"
  "branches (delete_edges_touching g db) = branches db" "content_blocks (delete_edges_touching g db) = content_blocks db"
  by (simp_all add: delete_edges_touching_def)

lemma delete_node_advances:
  assumes "delete_node env nid pr er db = Inr (u, db')"
  shows "\<exists>node. get_node_row db nid = Some node \<and> advances db (n_project_id node) pr db'"
  using assms
proof (cases rule: delete_node_steps)
  case (1 node db1 ids)
  then show ?thesis using claim_advances [OF 1(4)] by (simp add: delete_nodes_frame)
qed

lemma delete_node_ok:
  assumes "delete_node env nid pr er db = Inr (u, db')" "db_ok db"
  shows "db_ok db'"
  using assms(1)
proof (cases rule: delete_node_steps)
  case (1 node db1 ids)
  have ok1: "db_ok db1" by (rule ok_claim) fact+
  have nid: "n_id node = nid" using 1(1) by (rule get_node_row_id)
  have "i \<notin> set ids" if p: "p \<in> set (projects db1)" "p_root_node_id p = Some i" for p i
  proof
    assume "i \<in> set ids"
    then have "i = nid" using validate_closure_no_roots [OF 1(5)] root_ids_iff [of i db1] p by (auto simp: nid)
    moreover have "nodes db1 = nodes db" using 1(4) by (auto simp: statement_Inr)
    ultimately have "p_id p = n_project_id node"
      using ok1 p 1(1) by (auto simp: db_ok_def ownership_ok_def roots_owned_def owner_def get_node_row_def)
    moreover obtain p0 where "p0 \<in> set (projects db)" "p_id p0 = p_id p" "p_root_node_id p0 = Some nid"
      using 1(4) p \<open>i = nid\<close> by (auto simp: statement_Inr set_row_update split: if_splits)
    ultimately show False
      using 1(2) [of p0] ok_keys(1) [OF assms(2)] by (simp add: get_project_row_def row_get_iff)
  qed
  then show ?thesis unfolding 1(6) by (intro ok_delete_nodes ok_delete_edges_touching ok1) auto
qed

lemma delete_node_removes:
  assumes "delete_node env nid pr er db = Inr (u, db')"
  shows "nodes db' = filter (\<lambda>n. (nid, n_id n) \<notin> (child_rel db)\<^sup>*) (nodes db)"
    and "edges db' = filter (\<lambda>e. (nid, e_from_node_id e) \<notin> (child_rel db)\<^sup>* \<and>
      (nid, e_to_node_id e) \<notin> (child_rel db)\<^sup>*) (edges db)"
    and "content_blocks db' = filter (\<lambda>b. (nid, b_node_id b) \<notin> (child_rel db)\<^sup>*) (content_blocks db)"
proof -
  from assms obtain node db1 ids where 1: "get_node_row db nid = Some node"
    "claim_project_revision env (n_project_id node) pr db = Inr db1" "validate_closure node db1 = Inr ids"
    "db' = delete_nodes ids (delete_edges_touching ids db1)"
    by (rule delete_node_steps)
  have same: "nodes db1 = nodes db" "edges db1 = edges db" "content_blocks db1 = content_blocks db"
    using 1(2) by (auto simp: statement_Inr)
  then have "child_rel db1 = child_rel db" by (simp add: child_rel_def)
  then have in_ids: "x \<in> set ids \<longleftrightarrow> (nid, x) \<in> (child_rel db)\<^sup>*" for x
    using validate_closure_reachable [OF 1(3)] get_node_row_id [OF 1(1)] by auto
  show "nodes db' = filter (\<lambda>n. (nid, n_id n) \<notin> (child_rel db)\<^sup>*) (nodes db)"
    and "edges db' = filter (\<lambda>e. (nid, e_from_node_id e) \<notin> (child_rel db)\<^sup>* \<and>
      (nid, e_to_node_id e) \<notin> (child_rel db)\<^sup>*) (edges db)"
    and "content_blocks db' = filter (\<lambda>b. (nid, b_node_id b) \<notin> (child_rel db)\<^sup>*) (content_blocks db)"
    by (simp_all add: 1(4) delete_nodes_frame same in_ids cong: filter_cong)
qed

interpretation delete_node_cas:
  cas_handler "\<lambda>r. delete_node env nid r er" "\<lambda>db. map_option n_project_id (get_node_row db nid)" for env nid er
  by unfold_locales (auto dest: delete_node_advances)

end
