(* ===== verification/Samples.thy ===== *)
theory Samples
  imports Projects
begin

text \<open>
  A small concrete database and environment, on which the properties are exercised: one project
  with a root, a mainline child \<open>a\<close> with a child \<open>c\<close>, a side child \<open>b\<close>, a branch off \<open>a\<close> with its
  own copy, content blocks, a provider, an active session and a pending artifact.
\<close>

definition sample_env :: env where
  "sample_env = \<lparr>now = 100, uuid = (\<lambda>k. ''u'' @ replicate k (CHR ''1'')), desktop_mode = True,
     max_active_projects = Some 3, query_only = False\<rparr>"

definition sample_node :: "ident \<Rightarrow> node" where
  "sample_node i = new_node (sample_env\<lparr>now := 1\<rparr>) i ''p'' i (Some [])"

definition sample_edge :: "ident \<Rightarrow> ident \<Rightarrow> ident \<Rightarrow> bool \<Rightarrow> edge" where
  "sample_edge i x y m = new_edge (sample_env\<lparr>now := 1\<rparr>) i ''p'' x y m"

definition sample_block :: "ident \<Rightarrow> ident \<Rightarrow> int \<Rightarrow> content_block" where
  "sample_block i x k = \<lparr>b_id = i, b_node_id = x, b_block_type = ''paragraph'', b_content = JStr i, b_order_index = k,
     b_created_by = Some ''human'', b_created_at = 1, b_updated_at = 1, b_revision = 1\<rparr>"

definition sample_project :: project where
  "sample_project = \<lparr>p_id = ''p'', p_name = ''P'', p_description = Some [], p_goal = Some [],
     p_root_node_id = Some ''r'', p_status = ''active'', p_settings = Some (JObj []),
     p_created_at = 1, p_updated_at = 1, p_revision = 5\<rparr>"

definition sample_branch :: branch where
  "sample_branch = \<lparr>br_id = ''v'', br_project_id = ''p'', br_name = ''V'', br_description = Some [],
     br_source_node_id = Some ''a'', br_status = ''active'', br_created_at = 1, br_revision = 1\<rparr>"

definition sample_provider :: provider_config where
  "sample_provider = \<lparr>pc_id = ''m'', pc_name = ''M'', pc_provider_type = ''openai'', pc_endpoint = Some [],
     pc_auth_type = Some ''env'', pc_secret_env_key = Some ''GROWTHMAP_LLM_KEY_A'', pc_model_name = Some [], pc_capabilities = Some [],
     pc_cost_level = Some ''low'', pc_enabled = Some True, pc_settings = Some (JObj []), pc_created_at = 1, pc_updated_at = 1\<rparr>"

definition sample_session :: agent_session where
  "sample_session = \<lparr>s_id = ''s'', s_project_id = ''p'', s_assigned_node_id = Some ''a'', s_assigned_branch_root_id = None,
     s_provider_id = Some ''m'', s_objective = ''do'', s_mode = ''one_shot'', s_status = ''active'', s_handoff_context = Some (JObj []),
     s_result_summary = Some [], s_last_heartbeat_at = None, s_created_at = 1, s_updated_at = 1\<rparr>"

definition sample_artifact :: agent_artifact where
  "sample_artifact = \<lparr>a_id = ''t'', a_session_id = ''s'', a_project_id = ''p'', a_target_node_id = ''a'',
     a_artifact_type = ''create_child'', a_payload = [(''title'', JStr '' T '')], a_status = ''pending'', a_review_note = [],
     a_created_at = 1, a_reviewed_at = None\<rparr>"

definition sample_db :: db where
  "sample_db = empty_db
     \<lparr>projects := [sample_project],
      nodes := [sample_node ''r'', sample_node ''a'', sample_node ''b'', sample_node ''c'',
                (sample_node ''x'')\<lparr>n_branch_id := Some ''v''\<rparr>],
      edges := [sample_edge ''e1'' ''r'' ''a'' True, sample_edge ''e2'' ''r'' ''b'' False,
                sample_edge ''e3'' ''a'' ''c'' True],
      content_blocks := [sample_block ''b1'' ''a'' 0, sample_block ''b2'' ''a'' 1],
      branches := [sample_branch],
      provider_configs := [sample_provider],
      agent_sessions := [sample_session],
      agent_artifacts := [sample_artifact]\<rparr>"

named_theorems sample_simps

lemma sample_row_simps [sample_simps]:
  "n_id (sample_node i) = i" "n_project_id (sample_node i) = ''p''" "n_branch_id (sample_node i) = None"
  "n_revision (sample_node i) = 1" "n_maturity (sample_node i) = ''seed''" "n_summary (sample_node i) = Some []"
  "e_id (sample_edge i x y m) = i" "e_project_id (sample_edge i x y m) = ''p''" "e_from_node_id (sample_edge i x y m) = x"
  "e_to_node_id (sample_edge i x y m) = y" "e_is_mainline (sample_edge i x y m) = m" "e_revision (sample_edge i x y m) = 1"
  "is_child_edge (sample_edge i x y m)" "mainline_edge (sample_edge i x y m) = m"
  "p_id sample_project = ''p''" "p_root_node_id sample_project = Some ''r''" "p_revision sample_project = 5"
  "p_status sample_project = ''active''"
  "br_id sample_branch = ''v''" "br_project_id sample_branch = ''p''" "br_source_node_id sample_branch = Some ''a''"
  "br_status sample_branch = ''active''" "br_revision sample_branch = 1"
  "b_id (sample_block i x k) = i" "b_node_id (sample_block i x k) = x" "b_order_index (sample_block i x k) = k"
  "b_revision (sample_block i x k) = 1" "b_created_at (sample_block i x k) = 1"
  by (simp_all add: sample_node_def sample_edge_def sample_project_def sample_branch_def sample_block_def new_node_def new_edge_def
      is_child_edge_def mainline_edge_def)

lemma sample_tables [sample_simps]:
  "projects sample_db = [sample_project]"
  "nodes sample_db = [sample_node ''r'', sample_node ''a'', sample_node ''b'', sample_node ''c'',
     (sample_node ''x'')\<lparr>n_branch_id := Some ''v''\<rparr>]"
  "edges sample_db = [sample_edge ''e1'' ''r'' ''a'' True, sample_edge ''e2'' ''r'' ''b'' False, sample_edge ''e3'' ''a'' ''c'' True]"
  "content_blocks sample_db = [sample_block ''b1'' ''a'' 0, sample_block ''b2'' ''a'' 1]"
  "branches sample_db = [sample_branch]" "provider_configs sample_db = [sample_provider]"
  "agent_sessions sample_db = [sample_session]" "agent_artifacts sample_db = [sample_artifact]" "action_logs sample_db = []"
  "suggestions sample_db = []" "agent_grants sample_db = []" "agent_receipts sample_db = []" "agent_proposals sample_db = []"
  "agent_events sample_db = []" "agent_readbacks sample_db = []"
  by (simp_all add: sample_db_def empty_db_def)

lemma sample_env_simps [sample_simps]:
  "now sample_env = 100" "uuid sample_env k = ''u'' @ replicate k (CHR ''1'')" "desktop_mode sample_env"
  "max_active_projects sample_env = Some 3" "query_only sample_env = False"
  by (simp_all add: sample_env_def)

lemma sample_keys: "keys_ok sample_db"
  by (simp add: keys_ok_def sample_simps sample_provider_def sample_session_def sample_artifact_def)

lemma sample_refs: "refs_ok sample_db"
  by (simp add: refs_ok_def row_refs_defs sample_simps sample_provider_def sample_session_def sample_artifact_def)

lemma sample_ok: "db_ok sample_db"
proof -
  have "mainline_unique (edges sample_db)"
    unfolding mainline_unique_def by (simp add: sample_simps)
  moreover have "ownership_ok sample_db"
    by (simp add: ownership_ok_def edges_owned_def nodes_owned_def roots_owned_def branches_named_def owner_def
        branch_owner_def row_get_def sample_simps)
  ultimately show ?thesis by (simp add: db_ok_def schema_ok_def sample_keys sample_refs)
qed

end
