(* ===== verification/Subtree_Owned.thy ===== *)
theory Subtree_Owned
  imports Subtree_Delete Samples
begin

text \<open>
  What \<open>validate_closure\<close> accepts, without the walk: \<open>owned_tree\<close> says that the nodes reachable
  from the start form a tree inside one project and one branch, with no other way in. The check
  is sound and complete for it.
\<close>

abbreviation reach :: "db \<Rightarrow> ident \<Rightarrow> ident set" where
  "reach db x \<equiv> (child_rel db)\<^sup>* `` {x}"

definition same_place :: "node \<Rightarrow> db \<Rightarrow> ident \<Rightarrow> bool" where
  "same_place node db x \<longleftrightarrow>
     (\<exists>n. get_node_row db x = Some n \<and> n_project_id n = n_project_id node \<and> n_branch_id n = n_branch_id node)"

definition owned_tree :: "node \<Rightarrow> db \<Rightarrow> bool" where
  "owned_tree node db \<longleftrightarrow>
     (\<forall>x \<in> reach db (n_id node). same_place node db x) \<and>
     (\<forall>e \<in> set (edges db). is_child_edge e \<and> e_to_node_id e \<in> reach db (n_id node) \<longrightarrow>
        e_project_id e = n_project_id node \<and> same_place node db (e_from_node_id e)) \<and>
     (\<forall>x \<in> reach db (n_id node). x \<noteq> n_id node \<longrightarrow> length (parent_edges db x) = 1 \<and> x \<notin> set (root_ids db)) \<and>
     length (parent_edges db (n_id node)) \<le> 1 \<and>
     (\<forall>x \<in> reach db (n_id node). (x, n_id node) \<notin> child_rel db)"

lemma owned_treeD:
  assumes "owned_tree node db"
  shows "x \<in> reach db (n_id node) \<Longrightarrow> same_place node db x"
    "e \<in> set (edges db) \<Longrightarrow> is_child_edge e \<Longrightarrow> e_to_node_id e \<in> reach db (n_id node) \<Longrightarrow>
       e_project_id e = n_project_id node \<and> same_place node db (e_from_node_id e)"
    "x \<in> reach db (n_id node) \<Longrightarrow> x \<noteq> n_id node \<Longrightarrow> length (parent_edges db x) = 1 \<and> x \<notin> set (root_ids db)"
    "length (parent_edges db (n_id node)) \<le> 1"
    "x \<in> reach db (n_id node) \<Longrightarrow> (x, n_id node) \<notin> child_rel db"
  using assms unfolding owned_tree_def by blast+

lemma closure_edge_good:
  "\<not> closure_edge_bad node db cl e \<longleftrightarrow>
     e_id e \<notin> set (cl_edges cl) \<and> e_to_node_id e \<notin> set (cl_incoming cl) \<and> e_to_node_id e \<notin> set (cl_subtree cl) \<and>
     e_project_id e = n_project_id node \<and> same_place node db (e_to_node_id e) \<and> e_to_node_id e \<notin> set (root_ids db)"
  by (auto simp: closure_edge_bad_def same_place_def split: option.splits)

lemma inbound_edge_good:
  "\<not> inbound_edge_bad node db e \<longleftrightarrow> e_project_id e = n_project_id node \<and> same_place node db (e_from_node_id e)"
  by (auto simp: inbound_edge_bad_def same_place_def split: option.splits)

section \<open>Soundness\<close>

lemma closure_walk_sound:
  assumes "closure_walk node db frontier cl = Inr cl'"
    and "set frontier \<subseteq> set (cl_subtree cl)" "r \<in> set (cl_subtree cl)"
    and "\<And>x. x \<in> set (cl_subtree cl) - set frontier \<Longrightarrow> (x, r) \<notin> child_rel db"
    and "\<And>x. x \<in> set (cl_subtree cl) \<Longrightarrow> x \<noteq> r \<Longrightarrow> same_place node db x \<and> x \<notin> set (root_ids db)"
  shows "(\<forall>x \<in> set (cl_subtree cl'). (x, r) \<notin> child_rel db) \<and>
    (\<forall>x \<in> set (cl_subtree cl'). x \<noteq> r \<longrightarrow> same_place node db x \<and> x \<notin> set (root_ids db))"
  using assms
proof (induction node db frontier cl rule: closure_walk.induct)
  case (1 node db frontier cl)
  show ?case
  proof (cases "frontier = []")
    case True
    then show ?thesis using 1(2,5,6) by (auto simp: closure_walk.simps [of _ _ "[]"])
  next
    case False
    with 1(2) obtain cl1 where level: "closure_level node db frontier cl = Inr cl1"
      and rest: "closure_walk node db (frontier_targets db frontier) cl1 = Inr cl'"
      by (auto simp: closure_walk.simps [of _ _ frontier] case_sum_eq_Inr)
    from level obtain cl2 where f: "fold_result (closure_edge node db) (frontier_edges db frontier) cl = Inr cl2"
      by (auto simp: closure_level_def result_simps)
    have targets: "x \<notin> set (cl_subtree cl) \<and> same_place node db x \<and> x \<notin> set (root_ids db)"
      if "x \<in> set (frontier_targets db frontier)" for x
      using that fold_closure_edge(2-5) [OF f] by (fastforce simp: set_frontier_targets same_place_def)
    note g = closure_level_grows(1) [OF level]
    show ?thesis
    proof (rule 1(1) [OF False level rest])
      show "set (frontier_targets db frontier) \<subseteq> set (cl_subtree cl1)" "r \<in> set (cl_subtree cl1)"
        using 1(4) by (simp_all add: g)
    next
      fix x assume "x \<in> set (cl_subtree cl1) - set (frontier_targets db frontier)"
      then show "(x, r) \<notin> child_rel db"
        using 1(4) 1(5) [of x] targets [of r] frontier_edges_child [of x r db frontier] by (auto simp: g)
    next
      fix x assume "x \<in> set (cl_subtree cl1)" "x \<noteq> r"
      then show "same_place node db x \<and> x \<notin> set (root_ids db)" using 1(6) targets by (auto simp: g)
    qed
  qed
qed

lemma fold_check_ownership:
  "fold_result (check_ownership node cl inbound) xs () = Inr u \<longleftrightarrow>
     (\<forall>x \<in> set xs. check_ownership node cl inbound x () = Inr ())"
  by (induction xs) (auto simp: result_simps and_then_def split: sum.splits)

lemma inbound_filter:
  "x \<in> S \<Longrightarrow> filter (\<lambda>e. e_to_node_id e = x) (filter (\<lambda>e. is_child_edge e \<and> e_to_node_id e \<in> S) es) =
     filter (\<lambda>e. e_to_node_id e = x \<and> is_child_edge e) es"
  by (induction es) auto

lemma check_ownership_iff:
  assumes "x \<in> S"
  shows "check_ownership node cl (filter (\<lambda>e. is_child_edge e \<and> e_to_node_id e \<in> S) (edges db)) x () = Inr () \<longleftrightarrow>
    (if x = n_id node then length (parent_edges db x) \<le> 1
     else \<exists>e. parent_edges db x = [e] \<and> map_of (cl_parents cl) x = Some (e_from_node_id e))"
  unfolding check_ownership_def inbound_filter [OF assms] parent_edges_def [symmetric] Let_def
  by (auto split: list.splits)

lemma validate_closure_sound:
  assumes "validate_closure node db = Inr ids" and "get_node_row db (n_id node) = Some node"
  shows "owned_tree node db"
proof -
  let ?r = "n_id node"
  from assms(1) obtain cl where
    walk: "closure_walk node db [?r] \<lparr>cl_subtree = [?r], cl_incoming = [], cl_edges = [], cl_parents = []\<rparr> = Inr cl"
    and ids: "ids = cl_subtree cl"
    and inbound: "\<forall>e \<in> set (edges db). is_child_edge e \<and> e_to_node_id e \<in> set ids \<longrightarrow> \<not> inbound_edge_bad node db e"
    and own: "\<forall>x \<in> set ids. check_ownership node cl
        (filter (\<lambda>e. is_child_edge e \<and> e_to_node_id e \<in> set ids) (edges db)) x () = Inr ()"
    by (auto simp: validate_closure_def Let_def result_simps fold_check_ownership list_ex_iff split: if_splits)
  have R: "set ids = reach db ?r" using assms(1) by (rule validate_closure_reachable)
  have s: "(\<forall>x \<in> set ids. (x, ?r) \<notin> child_rel db) \<and>
      (\<forall>x \<in> set ids. x \<noteq> ?r \<longrightarrow> same_place node db x \<and> x \<notin> set (root_ids db))"
    unfolding ids by (rule closure_walk_sound [OF walk]) simp_all
  have "length (parent_edges db x) = 1" if "x \<in> set ids" "x \<noteq> ?r" for x
    using own that check_ownership_iff [OF that(1), of node cl db] by auto
  moreover have "length (parent_edges db ?r) \<le> 1"
    using own R check_ownership_iff [of ?r "set ids" node cl db] by auto
  moreover have "same_place node db ?r" using assms(2) by (simp add: same_place_def)
  ultimately have place: "\<And>x. x \<in> set ids \<Longrightarrow> same_place node db x"
    and single: "\<And>x. x \<in> set ids \<Longrightarrow> x \<noteq> ?r \<Longrightarrow> length (parent_edges db x) = 1 \<and> x \<notin> set (root_ids db)"
    and top: "length (parent_edges db ?r) \<le> 1" using s by metis+
  show ?thesis
    unfolding owned_tree_def R [symmetric] using place single top s inbound [unfolded inbound_edge_good] by simp
qed

section \<open>Completeness\<close>

lemma fold_closure_edge_accepts:
  assumes "distinct (map e_id es)" "distinct (map e_to_node_id es)"
    and "\<And>e. e \<in> set es \<Longrightarrow> \<not> closure_edge_bad node db cl e"
  shows "fold_result (closure_edge node db) es cl =
    Inr (cl\<lparr>cl_edges := cl_edges cl @ map e_id es, cl_incoming := cl_incoming cl @ map e_to_node_id es,
      cl_parents := rev (map (\<lambda>e. (e_to_node_id e, e_from_node_id e)) es) @ cl_parents cl\<rparr>)"
  using assms
proof (induction es arbitrary: cl)
  case (Cons e es)
  let ?cl = "cl\<lparr>cl_edges := cl_edges cl @ [e_id e], cl_incoming := cl_incoming cl @ [e_to_node_id e],
    cl_parents := (e_to_node_id e, e_from_node_id e) # cl_parents cl\<rparr>"
  have "\<not> closure_edge_bad node db ?cl f" if "f \<in> set es" for f
  proof -
    have "e_id e \<notin> e_id ` set es" "e_to_node_id e \<notin> e_to_node_id ` set es" using Cons.prems(1,2) by simp_all
    then have "\<not> closure_edge_bad node db cl f" "e_id f \<noteq> e_id e" "e_to_node_id f \<noteq> e_to_node_id e"
      using Cons.prems(3) [of f] that by (auto simp del: image_iff, metis image_eqI, metis image_eqI)
    then show ?thesis unfolding closure_edge_good by simp
  qed
  then have "fold_result (closure_edge node db) es ?cl =
    Inr (?cl\<lparr>cl_edges := cl_edges ?cl @ map e_id es, cl_incoming := cl_incoming ?cl @ map e_to_node_id es,
      cl_parents := rev (map (\<lambda>e. (e_to_node_id e, e_from_node_id e)) es) @ cl_parents ?cl\<rparr>)"
    using Cons.prems by (intro Cons.IH) auto
  moreover have "closure_edge node db e cl = Inr ?cl" using Cons.prems(3) [of e] by (simp add: closure_edge_def)
  ultimately show ?case by (simp add: result_simps)
qed simp

text \<open>What the walk has established when it is about to look at \<open>frontier\<close>.\<close>

definition walk_state :: "node \<Rightarrow> db \<Rightarrow> ident list \<Rightarrow> closure \<Rightarrow> bool" where
  "walk_state node db frontier cl \<longleftrightarrow>
     set (cl_subtree cl) \<subseteq> reach db (n_id node) \<and> n_id node \<in> set (cl_subtree cl) \<and>
     set frontier \<subseteq> set (cl_subtree cl) \<and> distinct frontier \<and>
     set (cl_incoming cl) = set (cl_subtree cl) - {n_id node} \<and>
     set (cl_edges cl) = e_id ` {e \<in> set (edges db). is_child_edge e \<and> e_from_node_id e \<in> set (cl_subtree cl) - set frontier} \<and>
     (\<forall>x \<in> set (cl_subtree cl) - {n_id node}. \<exists>e \<in> set (edges db). is_child_edge e \<and> e_to_node_id e = x \<and>
        e_from_node_id e \<in> set (cl_subtree cl) - set frontier \<and> map_of (cl_parents cl) x = Some (e_from_node_id e))"

lemma only_parent_edge:
  assumes "length (parent_edges db x) = 1" "e \<in> set (edges db)" "is_child_edge e" "e_to_node_id e = x"
    "f \<in> set (edges db)" "is_child_edge f" "e_to_node_id f = x"
  shows "e = f"
proof -
  from assms(1) obtain g where "parent_edges db x = [g]" by (auto simp: length_Suc_conv)
  then have "set (parent_edges db x) = {g}" by simp
  then have "h = g" if "h \<in> set (edges db)" "is_child_edge h" "e_to_node_id h = x" for h
    using that by (auto simp: parent_edges_def)
  then show ?thesis using assms by metis
qed

lemma frontier_good:
  assumes "distinct (map n_id (nodes db))" "distinct f" "\<And>x. x \<in> set f \<Longrightarrow> same_place node db x"
  shows "\<not> frontier_bad node db f"
proof -
  let ?src = "filter (\<lambda>n. n_id n \<in> set f) (nodes db)"
  have "set (map n_id ?src) = set f"
    using assms(3) by (auto simp: same_place_def get_node_row_def dest!: row_get_Some)
  moreover have "distinct (map n_id ?src)" using assms(1) by (rule distinct_map_filter)
  ultimately have "length ?src = length f"
    using assms(2) by (metis distinct_card length_map)
  moreover have "n_project_id n = n_project_id node \<and> n_branch_id n = n_branch_id node" if "n \<in> set ?src" for n
    using that assms(1) assms(3) [of "n_id n"] by (auto simp: same_place_def get_node_row_def row_get_iff dest: same_key)
  ultimately show ?thesis by (auto simp: frontier_bad_def Let_def list_ex_iff)
qed

lemma frontier_edge_target:
  assumes tree: "owned_tree node db" and st: "walk_state node db f cl" and e: "e \<in> set (frontier_edges db f)"
  shows "e_to_node_id e \<in> reach db (n_id node)" "e_to_node_id e \<noteq> n_id node" "e_to_node_id e \<notin> set (cl_subtree cl)"
    "\<And>e'. e' \<in> set (edges db) \<Longrightarrow> is_child_edge e' \<Longrightarrow> e_to_node_id e' = e_to_node_id e \<Longrightarrow> e' = e"
proof -
  let ?R = "reach db (n_id node)"
  have "(e_from_node_id e, e_to_node_id e) \<in> child_rel db" "e_from_node_id e \<in> ?R"
    using e st by (auto simp: frontier_edges_def child_rel_iff walk_state_def)
  then show target: "e_to_node_id e \<in> ?R" "e_to_node_id e \<noteq> n_id node"
    using owned_treeD(5) [OF tree, of "e_from_node_id e"] by (auto intro: rtrancl_into_rtrancl)
  show single: "e' = e" if "e' \<in> set (edges db)" "is_child_edge e'" "e_to_node_id e' = e_to_node_id e" for e'
    using that e target owned_treeD(3) [OF tree, of "e_to_node_id e"]
    by (intro only_parent_edge [of db "e_to_node_id e"]) (auto simp: frontier_edges_def)
  show "e_to_node_id e \<notin> set (cl_subtree cl)"
  proof
    assume "e_to_node_id e \<in> set (cl_subtree cl)"
    then have "e_to_node_id e \<in> set (cl_subtree cl) - {n_id node}" using target by simp
    then obtain e' where "e' \<in> set (edges db)" "is_child_edge e'" "e_to_node_id e' = e_to_node_id e" "e_from_node_id e' \<notin> set f"
      using st unfolding walk_state_def by blast
    then show False using single e by (auto simp: frontier_edges_def)
  qed
qed

lemma frontier_edge_accepted:
  assumes tree: "owned_tree node db" and keys: "distinct (map e_id (edges db))"
    and st: "walk_state node db f cl" and e: "e \<in> set (frontier_edges db f)"
  shows "\<not> closure_edge_bad node db cl e"
proof -
  note t = frontier_edge_target [OF tree st e]
  have "e_id e \<notin> set (cl_edges cl)"
    using st e same_key [OF keys] by (auto simp: walk_state_def frontier_edges_def)
  moreover have "e_to_node_id e \<notin> set (cl_incoming cl)" using st t(3) by (simp add: walk_state_def)
  moreover have "e \<in> set (edges db)" "is_child_edge e" using e by (simp_all add: frontier_edges_def)
  ultimately show ?thesis
    using t(1-3) owned_treeD(1,3) [OF tree, of "e_to_node_id e"] owned_treeD(2) [OF tree, of e]
    unfolding closure_edge_good by blast
qed

lemma map_of_parents:
  assumes "distinct (map e_to_node_id es)"
  shows "e \<in> set es \<Longrightarrow> map_of (rev (map (\<lambda>e. (e_to_node_id e, e_from_node_id e)) es) @ ps) (e_to_node_id e) =
      Some (e_from_node_id e)"
    and "x \<notin> e_to_node_id ` set es \<Longrightarrow>
      map_of (rev (map (\<lambda>e. (e_to_node_id e, e_from_node_id e)) es) @ ps) x = map_of ps x"
proof -
  let ?new = "rev (map (\<lambda>e. (e_to_node_id e, e_from_node_id e)) es)"
  show "map_of (?new @ ps) (e_to_node_id e) = Some (e_from_node_id e)" if "e \<in> set es"
  proof -
    have "map_of ?new (e_to_node_id e) = Some (e_from_node_id e)"
      using assms that by (intro map_of_is_SomeI) (simp_all add: comp_def rev_map [symmetric])
    then show ?thesis by (simp add: map_add_find_right)
  qed
  show "map_of (?new @ ps) x = map_of ps x" if "x \<notin> e_to_node_id ` set es"
  proof -
    have "map_of ?new x = None" using that by (auto simp: map_of_eq_None_iff)
    then show ?thesis by (simp add: map_add_def)
  qed
qed

lemma walk_state_next:
  assumes tree: "owned_tree node db" and st: "walk_state node db f cl"
    and dto: "distinct (map e_to_node_id (frontier_edges db f))"
  shows "walk_state node db (frontier_targets db f) (cl\<lparr>cl_edges := cl_edges cl @ map e_id (frontier_edges db f),
      cl_incoming := cl_incoming cl @ map e_to_node_id (frontier_edges db f),
      cl_parents := rev (map (\<lambda>e. (e_to_node_id e, e_from_node_id e)) (frontier_edges db f)) @ cl_parents cl,
      cl_subtree := cl_subtree cl @ frontier_targets db f\<rparr>)" (is "walk_state node db _ ?cl'")
proof -
  let ?S = "set (cl_subtree cl)" and ?es = "frontier_edges db f"
  note t = frontier_edge_target [OF tree st]
  have S: "?S \<subseteq> reach db (n_id node)" "set f \<subseteq> ?S" "n_id node \<in> ?S"
    and inc: "set (cl_incoming cl) = ?S - {n_id node}"
    and edg: "set (cl_edges cl) = e_id ` {e \<in> set (edges db). is_child_edge e \<and> e_from_node_id e \<in> ?S - set f}"
    using st unfolding walk_state_def by blast+
  have T: "set (frontier_targets db f) = e_to_node_id ` set ?es" by (rule set_frontier_targets)
  have rest: "set (cl_subtree ?cl') - set (frontier_targets db f) = ?S" using t(3) by (auto simp: T)
  show ?thesis
    unfolding walk_state_def rest
  proof (intro conjI ballI)
    show "set (cl_subtree ?cl') \<subseteq> reach db (n_id node)" using S(1) t(1) by (auto simp: T)
    show "set (cl_incoming ?cl') = set (cl_subtree ?cl') - {n_id node}"
    proof -
      have "n_id node \<notin> e_to_node_id ` set ?es" using t(2) by force
      then show ?thesis by (auto simp: inc T)
    qed
    have "set ?es = {e \<in> set (edges db). is_child_edge e \<and> e_from_node_id e \<in> set f}"
      by (auto simp: frontier_edges_def)
    then show "set (cl_edges ?cl') = e_id ` {e \<in> set (edges db). is_child_edge e \<and> e_from_node_id e \<in> ?S}"
      using S(2) by (auto simp: edg)
  next
    fix x assume x: "x \<in> set (cl_subtree ?cl') - {n_id node}"
    show "\<exists>e \<in> set (edges db). is_child_edge e \<and> e_to_node_id e = x \<and> e_from_node_id e \<in> ?S \<and>
        map_of (cl_parents ?cl') x = Some (e_from_node_id e)"
    proof (cases "x \<in> ?S")
      case True
      then obtain e where "e \<in> set (edges db)" "is_child_edge e" "e_to_node_id e = x" "e_from_node_id e \<in> ?S"
        "map_of (cl_parents cl) x = Some (e_from_node_id e)"
        using x st unfolding walk_state_def by blast
      moreover have "x \<notin> e_to_node_id ` set ?es" using True t(3) by auto
      ultimately show ?thesis using map_of_parents(2) [OF dto] by auto
    next
      case False
      then obtain e where "e \<in> set ?es" "x = e_to_node_id e" using x by (auto simp: T)
      then show ?thesis using map_of_parents(1) [OF dto] S(2) by (auto simp: frontier_edges_def)
    qed
  qed (use S(3) in \<open>simp_all add: frontier_targets_def\<close>)
qed

lemma closure_level_accepts:
  assumes tree: "owned_tree node db" and keys: "distinct (map n_id (nodes db))" "distinct (map e_id (edges db))"
    and st: "walk_state node db f cl"
  shows "\<exists>cl'. closure_level node db f cl = Inr cl' \<and> walk_state node db (frontier_targets db f) cl'"
proof -
  let ?es = "frontier_edges db f"
  have dto: "distinct (map e_to_node_id ?es)"
    using keys(2) frontier_edge_target(4) [OF tree st] by (auto simp: distinct_map inj_on_def frontier_edges_def)
  have "distinct (map e_id ?es)" using keys(2) by (simp add: frontier_edges_def distinct_map_filter)
  note fold = fold_closure_edge_accepts [OF this dto frontier_edge_accepted [OF tree keys(2) st]]
  have "\<not> frontier_bad node db f"
    using st owned_treeD(1) [OF tree] by (intro frontier_good keys) (auto simp: walk_state_def)
  then show ?thesis using fold walk_state_next [OF tree st dto] by (simp add: closure_level_def result_simps)
qed

lemma closure_walk_accepts:
  assumes "owned_tree node db" "distinct (map n_id (nodes db))" "distinct (map e_id (edges db))"
    and "walk_state node db f cl"
  shows "\<exists>cl'. closure_walk node db f cl = Inr cl' \<and> walk_state node db [] cl'"
  using assms
proof (induction node db f cl rule: closure_walk.induct)
  case (1 node db f cl)
  show ?case
  proof (cases "f = []")
    case True
    then show ?thesis using 1(5) by (simp add: closure_walk.simps [of _ _ "[]"])
  next
    case False
    obtain cl1 where "closure_level node db f cl = Inr cl1" "walk_state node db (frontier_targets db f) cl1"
      using closure_level_accepts [OF 1(2-5)] by blast
    then show ?thesis using 1(1) [OF False] 1(2-4) False by (auto simp: closure_walk.simps [of _ _ f])
  qed
qed

lemma validate_closure_complete:
  assumes tree: "owned_tree node db" and keys: "distinct (map n_id (nodes db))" "distinct (map e_id (edges db))"
  shows "\<exists>ids. validate_closure node db = Inr ids"
proof -
  let ?cl0 = "\<lparr>cl_subtree = [n_id node], cl_incoming = [], cl_edges = [], cl_parents = []\<rparr>"
  have "walk_state node db [n_id node] ?cl0" by (simp add: walk_state_def)
  then obtain cl where walk: "closure_walk node db [n_id node] ?cl0 = Inr cl" and st: "walk_state node db [] cl"
    using closure_walk_accepts [OF tree keys] by blast
  let ?S = "set (cl_subtree cl)"
  have S: "?S \<subseteq> reach db (n_id node)" using st by (simp add: walk_state_def)
  have "\<not> inbound_edge_bad node db e" if "e \<in> set (edges db)" "is_child_edge e" "e_to_node_id e \<in> ?S" for e
    using that S tree unfolding inbound_edge_good owned_tree_def by blast
  moreover have "check_ownership node cl (filter (\<lambda>e. is_child_edge e \<and> e_to_node_id e \<in> ?S) (edges db)) x () = Inr ()"
    if x: "x \<in> ?S" for x
  proof (cases "x = n_id node")
    case True
    then show ?thesis using owned_treeD(4) [OF tree] check_ownership_iff [OF x, of node cl db] by simp
  next
    case False
    then obtain e where e: "e \<in> set (edges db)" "is_child_edge e" "e_to_node_id e = x" "map_of (cl_parents cl) x = Some (e_from_node_id e)"
      using st x unfolding walk_state_def by blast
    have "length (parent_edges db x) = 1" using tree x S False unfolding owned_tree_def by blast
    then obtain g where "parent_edges db x = [g]" by (auto simp: length_Suc_conv)
    moreover have "e \<in> set (parent_edges db x)" using e by (simp add: parent_edges_def)
    ultimately show ?thesis using False e(4) by (simp add: check_ownership_iff [OF x])
  qed
  ultimately show ?thesis
    using walk by (auto simp: validate_closure_def Let_def result_simps list_ex_iff fold_check_ownership)
qed

section \<open>Properties\<close>

text \<open>
  C3: Deleting a node is refused exactly when what hangs below it is not a tree owned by its
  project and branch: on a well-formed database the walk with its second look at incoming edges
  succeeds iff every reachable node is in place, has one parent edge, is no project's root, and
  nothing leads back to the start.
\<close>

theorem validate_closure_decides:
  assumes "db_ok db" and "get_node_row db (n_id node) = Some node"
  shows "(\<exists>ids. validate_closure node db = Inr ids) \<longleftrightarrow> owned_tree node db"
  using assms validate_closure_sound validate_closure_complete [OF _ ok_keys(2,3) [OF assms(1)]] by blast

theorem validate_closure_decides_witness:
  "validate_closure (sample_node ''a'') sample_db = Inr [''a'', ''c''] \<and> owned_tree (sample_node ''a'') sample_db"
proof -
  have v: "validate_closure (sample_node ''a'') sample_db = Inr [''a'', ''c'']"
    by (simp add: validate_closure_def closure_walk.simps closure_level_def frontier_bad_def frontier_edges_def
        frontier_targets_def closure_edge_def closure_edge_bad_def root_ids_def map_filter_def get_node_row_def
        row_get_def inbound_edge_bad_def check_ownership_def result_simps sample_simps)
  have "get_node_row sample_db (n_id (sample_node ''a'')) = Some (sample_node ''a'')"
    by (simp add: get_node_row_def row_get_def sample_simps)
  then show ?thesis using validate_closure_decides [OF sample_ok] v by blast
qed

text \<open>
  C7: When deletion succeeds, the nodes that go are exactly those reachable from the deleted node
  over containment edges, with the edges touching them and their content blocks; every other
  row of the three tables stays, in order.
\<close>

theorem delete_node_removes_exactly_the_subtree:
  assumes "delete_node env nid pr er db = Inr (u, db')"
  shows "nodes db' = filter (\<lambda>n. n_id n \<notin> reach db nid) (nodes db) \<and>
    edges db' = filter (\<lambda>e. e_from_node_id e \<notin> reach db nid \<and> e_to_node_id e \<notin> reach db nid) (edges db) \<and>
    content_blocks db' = filter (\<lambda>b. b_node_id b \<notin> reach db nid) (content_blocks db)"
  using delete_node_removes [OF assms] by simp

theorem delete_node_removes_exactly_the_subtree_witness:
  "\<exists>db'. delete_node sample_env ''a'' 5 1 sample_db = Inr ((), db') \<and>
     nodes db' = filter (\<lambda>n. n_id n \<notin> reach sample_db ''a'') (nodes sample_db)"
proof -
  have "\<exists>db'. delete_node sample_env ''a'' 5 1 sample_db = Inr ((), db')"
    by (simp add: delete_node_def validate_closure_def closure_walk.simps closure_level_def frontier_bad_def
        frontier_edges_def frontier_targets_def closure_edge_def closure_edge_bad_def root_ids_def map_filter_def
        get_row_defs row_get_def inbound_edge_bad_def check_ownership_def check_entity_revision_def
        current_revision_def claim_project_revision_def row_update_def result_simps sample_simps)
  then show ?thesis using delete_node_removes_exactly_the_subtree by blast
qed

end
