(* ===== verification/Edges.thy ===== *)
theory Edges
  imports Subtree_Delete Samples
begin

text \<open>
  Relations between nodes (the edge handlers of \<open>api/routes.py\<close>): graph relations are created,
  edited and deleted freely, containment edges can only be created and promoted. A parent has
  one mainline child; promotion demotes the others first, so that the unique index of the schema
  is never violated.
\<close>

section \<open>Bodies\<close>

record edge_create =
  ec_expected_project_revision :: int
  ec_from_node_id :: ident
  ec_to_node_id :: ident
  ec_relation_type :: string
  ec_weight :: rat
  ec_note :: string
  ec_is_mainline :: bool

record edge_update =
  eu_expected_project_revision :: int
  eu_expected_revision :: int
  eu_weight :: "rat field"
  eu_note :: "string field"

definition GRAPH_RELATION_TYPES :: "string list" where
  "GRAPH_RELATION_TYPES =
     [''depends_on'', ''contradicts'', ''references'', ''supports'', ''blocks'', ''relates_to'',
      ''decomposes'', ''interfaces_with'', ''supersedes'', ''validates'']"

section \<open>Handlers\<close>

definition mainline_siblings :: "ident \<Rightarrow> ident option \<Rightarrow> db \<Rightarrow> edge list" where
  "mainline_siblings parent except_edge db =
     filter (\<lambda>e. e_from_node_id e = parent \<and> mainline_edge e \<and> (truthy except_edge \<longrightarrow> e_id e \<noteq> the except_edge)) (edges db)"

definition demote_mainline_siblings :: "env \<Rightarrow> ident \<Rightarrow> ident option \<Rightarrow> db \<Rightarrow> db" where
  "demote_mainline_siblings env parent except_edge db =
     (let ids = map e_id (mainline_siblings parent except_edge db);
          db = edges_update (map (\<lambda>e. if e_id e \<in> set ids then e\<lparr>e_is_mainline := False\<rparr> else e)) db
      in bump_existing env (map EdgeRef ids) db)"

definition list_project_edges :: "env \<Rightarrow> ident \<Rightarrow> string option \<Rightarrow> db \<Rightarrow> edge list result" where
  "list_project_edges env pid relation_type db =
     (let rows = sort_key e_created_at
            (filter (\<lambda>e. e_project_id e = pid \<and> (truthy relation_type \<longrightarrow> e_relation_type e = the relation_type)) (edges db))
      in if query_only env then Inr (map (\<lambda>e. e\<lparr>e_revision := 1\<rparr>) rows)
         else case get_project_row db pid of
             None \<Rightarrow> Inl (HTTPException 404 ''Project not found'')
           | Some _ \<Rightarrow> Inr rows)"

definition create_edge :: "env \<Rightarrow> edge_create \<Rightarrow> db \<Rightarrow> (edge \<times> db) result" where
  "create_edge env data db =
     (case (get_node_row db (ec_from_node_id data), get_node_row db (ec_to_node_id data)) of
        (Some from_node, Some to_node) \<Rightarrow>
          if n_project_id from_node \<noteq> n_project_id to_node then Inl (HTTPException 400 ''Nodes must be in same project'')
          else if ec_from_node_id data = ec_to_node_id data then Inl (HTTPException 400 ''Cannot create a self-relation'')
          else if ec_relation_type data \<noteq> child_of \<and> ec_relation_type data \<notin> set GRAPH_RELATION_TYPES
          then Inl (HTTPException 400 ''Unsupported graph relation type'')
          else and_then (scalar_one_or_none (filter (\<lambda>e. e_from_node_id e = ec_from_node_id data \<and>
                 e_to_node_id e = ec_to_node_id data \<and> e_relation_type e = ec_relation_type data) (edges db))) (\<lambda>duplicate.
            if duplicate \<noteq> None then Inl (HTTPException 409 ''Duplicate relation'')
            else and_then (claim_project_revision env (n_project_id from_node) (ec_expected_project_revision data) db) (\<lambda>db.
              let db = if ec_is_mainline data \<and> ec_relation_type data = child_of
                       then demote_mainline_siblings env (ec_from_node_id data) None db else db;
                  edge = \<lparr>e_id = uuid env 0, e_project_id = n_project_id from_node,
                    e_from_node_id = ec_from_node_id data, e_to_node_id = ec_to_node_id data,
                    e_relation_type = ec_relation_type data, e_weight = Some (ec_weight data),
                    e_note = Some (ec_note data), e_is_mainline = ec_is_mainline data,
                    e_created_at = now env, e_revision = 1\<rparr>
              in and_then (insert_edge edge db) (\<lambda>db. Inr (edge, db))))
      | _ \<Rightarrow> Inl (HTTPException 400 ''Invalid node id''))"

text \<open>The value checks of \<open>update_edge\<close>; comparing or measuring an explicit null is Python's \<open>TypeError\<close>.\<close>

definition check_edge_values :: "edge_update \<Rightarrow> unit result" where
  "check_edge_values data =
     (if \<not> is_set (eu_weight data) \<and> \<not> is_set (eu_note data) then Inl (HTTPException 400 ''No edge fields provided'')
      else and_then (case eu_weight data of
          Unset \<Rightarrow> Inr ()
        | Assign None \<Rightarrow> Inl TypeError
        | Assign (Some w) \<Rightarrow> if 0 \<le> w \<and> w \<le> 1 then Inr () else Inl (HTTPException 400 ''Weight must be between 0 and 1'')) (\<lambda>_.
      case eu_note data of
          Unset \<Rightarrow> Inr ()
        | Assign None \<Rightarrow> Inl TypeError
        | Assign (Some s) \<Rightarrow> if length s > 2000 then Inl (HTTPException 400 ''Note is too long'') else Inr ()))"

definition apply_edge_changes :: "edge_update \<Rightarrow> edge \<Rightarrow> edge" where
  "apply_edge_changes data e =
     e\<lparr>e_weight := assign_nullable (eu_weight data) (e_weight e), e_note := assign_nullable (eu_note data) (e_note e)\<rparr>"

definition update_edge :: "env \<Rightarrow> ident \<Rightarrow> edge_update \<Rightarrow> db \<Rightarrow> (edge \<times> db) result" where
  "update_edge env eid data db =
     (case get_edge_row db eid of
        None \<Rightarrow> Inl (HTTPException 404 ''Edge not found'')
      | Some edge \<Rightarrow>
          if is_child_edge edge then Inl (HTTPException 400 ''Tree parent relations cannot be edited as graph relations'')
          else and_then (claim_project_revision env (e_project_id edge) (eu_expected_project_revision data) db) (\<lambda>db.
            and_then (check_entity_revision ''edge'' eid (e_revision edge) (eu_expected_revision data)) (\<lambda>_.
            and_then (check_edge_values data) (\<lambda>_.
              let db = edges_update (row_update e_id eid (apply_edge_changes data)) db;
                  db = bump_existing env [EdgeRef eid] db
              in and_then (log_action env (uuid env 0) (e_project_id edge) (Some (e_from_node_id edge)) ''human''
                     ''graph_relation_updated'' [(''edge_id'', JStr eid),
                       (''changes'', JObj (member ''weight'' JNum (eu_weight data) @ member ''note'' JStr (eu_note data)))] db) (\<lambda>db.
                 case get_edge_row db eid of None \<Rightarrow> Inl AttributeError | Some e \<Rightarrow> Inr (e, db))))))"

text \<open>The common tail of both promotions.\<close>

definition promote_edge :: "env \<Rightarrow> edge \<Rightarrow> int \<Rightarrow> int \<Rightarrow> db \<Rightarrow> db result" where
  "promote_edge env edge expected_project_revision expected_revision db =
     and_then (claim_project_revision env (e_project_id edge) expected_project_revision db) (\<lambda>db.
     and_then (check_entity_revision ''edge'' (e_id edge) (e_revision edge) expected_revision) (\<lambda>_.
     and_then (set_edge_mainline (e_id edge) (demote_mainline_siblings env (e_from_node_id edge) (Some (e_id edge)) db)) (\<lambda>db.
       Inr (bump_existing env [EdgeRef (e_id edge)] db))))"

definition promote_mainline :: "env \<Rightarrow> ident \<Rightarrow> int \<Rightarrow> int \<Rightarrow> db \<Rightarrow> (edge \<times> db) result" where
  "promote_mainline env eid expected_project_revision expected_revision db =
     (case get_edge_row db eid of
        None \<Rightarrow> Inl (HTTPException 404 ''Edge not found'')
      | Some edge \<Rightarrow>
          if \<not> is_child_edge edge then Inl (HTTPException 400 ''Only child_of edges can be promoted'')
          else and_then (promote_edge env edge expected_project_revision expected_revision db) (\<lambda>db.
            case get_edge_row db eid of None \<Rightarrow> Inl AttributeError | Some e \<Rightarrow> Inr (e, db)))"

definition promote_child_mainline :: "env \<Rightarrow> ident \<Rightarrow> ident \<Rightarrow> int \<Rightarrow> int \<Rightarrow> db \<Rightarrow> (unit \<times> db) result" where
  "promote_child_mainline env parent_id child_id expected_project_revision expected_revision db =
     and_then (scalar_one_or_none (filter (\<lambda>e. e_from_node_id e = parent_id \<and> e_to_node_id e = child_id \<and> is_child_edge e)
         (edges db))) (\<lambda>found.
       case found of
         None \<Rightarrow> Inl (HTTPException 404 ''Edge not found'')
       | Some edge \<Rightarrow> and_then (promote_edge env edge expected_project_revision expected_revision db) (\<lambda>db. Inr ((), db)))"

definition delete_edge :: "env \<Rightarrow> ident \<Rightarrow> int \<Rightarrow> int \<Rightarrow> db \<Rightarrow> (unit \<times> db) result" where
  "delete_edge env eid expected_project_revision expected_revision db =
     (case get_edge_row db eid of
        None \<Rightarrow> Inl (HTTPException 404 ''Edge not found'')
      | Some edge \<Rightarrow>
          if is_child_edge edge
          then Inl (HTTPException 400 ''Tree parent relations must be changed through node move actions'')
          else and_then (claim_project_revision env (e_project_id edge) expected_project_revision db) (\<lambda>db.
            and_then (check_entity_revision ''edge'' eid (e_revision edge) expected_revision) (\<lambda>_.
              Inr ((), delete_edge_row eid db))))"

section \<open>Demotion\<close>

definition demoted_edge :: "ident \<Rightarrow> ident option \<Rightarrow> edge \<Rightarrow> edge" where
  "demoted_edge parent except_edge e =
     (if e_from_node_id e = parent \<and> mainline_edge e \<and> (truthy except_edge \<longrightarrow> e_id e \<noteq> the except_edge)
      then bump_edge (e\<lparr>e_is_mainline := False\<rparr>) else e)"

lemma demoted_edge_simps [simp]:
  "e_id (demoted_edge p x e) = e_id e" "e_project_id (demoted_edge p x e) = e_project_id e"
  "e_from_node_id (demoted_edge p x e) = e_from_node_id e" "e_to_node_id (demoted_edge p x e) = e_to_node_id e"
  "e_relation_type (demoted_edge p x e) = e_relation_type e" "is_child_edge (demoted_edge p x e) = is_child_edge e"
  by (simp_all add: demoted_edge_def is_child_edge_def)

lemma mainline_demoted:
  "mainline_edge (demoted_edge p x e) \<longleftrightarrow> mainline_edge e \<and> \<not> (e_from_node_id e = p \<and> (truthy x \<longrightarrow> e_id e \<noteq> the x))"
  by (auto simp: demoted_edge_def mainline_edge_def is_child_edge_def)

lemma bump_demoted:
  "edges (bump_existing env (map EdgeRef ids) (edges_update (map (\<lambda>e. if e_id e \<in> set ids then e\<lparr>e_is_mainline := False\<rparr> else e)) db)) =
     map (\<lambda>e. if e_id e \<in> set ids then bump_edge (e\<lparr>e_is_mainline := False\<rparr>) else e) (edges db)"
  by (auto simp: bump_existing_rows)

lemma bump_edges_frame:
  "nodes (bump_existing env (map EdgeRef ids) db) = nodes db"
  "branches (bump_existing env (map EdgeRef ids) db) = branches db"
  "content_blocks (bump_existing env (map EdgeRef ids) db) = content_blocks db"
  by (simp_all add: bump_existing_rows)

lemma demote_edges:
  assumes "distinct (map e_id (edges db))"
  shows "edges (demote_mainline_siblings env p x db) = map (demoted_edge p x) (edges db)"
proof -
  have sib: "e_id e \<in> e_id ` set (mainline_siblings p x db) \<longleftrightarrow>
      e_from_node_id e = p \<and> mainline_edge e \<and> (truthy x \<longrightarrow> e_id e \<noteq> the x)" if "e \<in> set (edges db)" for e
    using that same_key [OF assms] by (fastforce simp: mainline_siblings_def)
  show ?thesis
    unfolding demote_mainline_siblings_def Let_def bump_demoted
    by (intro map_cong refl) (simp only: demoted_edge_def set_map sib)
qed

lemma demote_frame [simp]:
  "projects (demote_mainline_siblings env p x db) = projects db"
  "nodes (demote_mainline_siblings env p x db) = nodes db"
  "branches (demote_mainline_siblings env p x db) = branches db"
  "content_blocks (demote_mainline_siblings env p x db) = content_blocks db"
  "action_logs (demote_mainline_siblings env p x db) = action_logs db"
  unfolding demote_mainline_siblings_def Let_def bump_edges_frame bump_existing_frame by simp_all

lemma demote_ok: "db_ok db \<Longrightarrow> db_ok (demote_mainline_siblings env p x db)"
  unfolding demote_mainline_siblings_def Let_def
  by (intro ok_bump_existing ok_map_edges) (auto simp: mainline_edge_def is_child_edge_def split: if_splits)

lemma demote_child_rel:
  "distinct (map e_id (edges db)) \<Longrightarrow> child_rel (demote_mainline_siblings env p x db) = child_rel db"
  by (auto simp: child_rel_iff demote_edges)

section \<open>Promotion\<close>

definition promoted_edge :: "ident \<Rightarrow> ident \<Rightarrow> edge \<Rightarrow> edge" where
  "promoted_edge eid parent e =
     (if e_id e = eid then bump_edge ((demoted_edge parent (Some eid) e)\<lparr>e_is_mainline := True\<rparr>)
      else demoted_edge parent (Some eid) e)"

lemma get_edge_row_id: "get_edge_row db i = Some e \<Longrightarrow> e_id e = i \<and> e \<in> set (edges db)"
  by (auto simp: get_edge_row_def dest: row_get_Some)

lemma no_mainline_left:
  assumes "distinct (map e_id (edges db))"
  shows "\<not> mainline_taken (row_delete e_id i (edges (demote_mainline_siblings env p (Some i) db))) p"
  by (auto simp: mainline_taken_iff set_row_delete demote_edges [OF assms] mainline_demoted)

lemma set_mainline_after_demote:
  assumes "distinct (map e_id (edges db))" "get_edge_row db i = Some edge"
  shows "set_edge_mainline i (demote_mainline_siblings env (e_from_node_id edge) (Some i) db) =
    Inr (edges_update (row_update e_id i (\<lambda>e. e\<lparr>e_is_mainline := True\<rparr>))
      (demote_mainline_siblings env (e_from_node_id edge) (Some i) db))"
proof -
  let ?d = "demote_mainline_siblings env (e_from_node_id edge) (Some i) db"
  have "get_edge_row ?d i = Some (demoted_edge (e_from_node_id edge) (Some i) edge)"
    using assms(2) by (simp add: get_edge_row_def demote_edges [OF assms(1)] row_get_map)
  then show ?thesis using no_mainline_left [OF assms(1)] by (simp add: set_edge_mainline_def)
qed

lemma promote_edge_Inr:
  assumes ok: "db_ok db" and row: "get_edge_row db (e_id edge) = Some edge"
  shows "promote_edge env edge pr er db = Inr db' \<longleftrightarrow>
    project_revision db (e_project_id edge) = Some pr \<and> er = current_revision (e_revision edge) \<and>
    db' = bump_existing env [EdgeRef (e_id edge)]
      (edges_update (row_update e_id (e_id edge) (\<lambda>e. e\<lparr>e_is_mainline := True\<rparr>))
        (demote_mainline_siblings env (e_from_node_id edge) (Some (e_id edge))
          (projects_update (row_update p_id (e_project_id edge) (claimed_project env)) db)))"
proof -
  let ?db1 = "projects_update (row_update p_id (e_project_id edge) (claimed_project env)) db"
  have "get_edge_row ?db1 (e_id edge) = Some edge" using row by (simp add: get_edge_row_def)
  moreover have "distinct (map e_id (edges ?db1))" using ok_keys(3) [OF ok] by simp
  ultimately show ?thesis
    using set_mainline_after_demote by (auto simp: promote_edge_def result_simps statement_Inr)
qed

lemma promote_edge_edges:
  assumes "db_ok db" "get_edge_row db (e_id edge) = Some edge" "promote_edge env edge pr er db = Inr db'"
  shows "edges db' = map (promoted_edge (e_id edge) (e_from_node_id edge)) (edges db)"
  using assms(3) ok_keys(3) [OF assms(1)]
  by (auto simp: promote_edge_Inr [OF assms(1,2)] bump_existing_rows demote_edges row_update_def promoted_edge_def)

lemma promote_edge_advances:
  "promote_edge env edge pr er db = Inr db' \<Longrightarrow> advances db (e_project_id edge) pr db'"
  by (auto simp: promote_edge_def result_simps set_edge_mainline_def split: option.splits if_splits
      intro!: claim_advances)

lemma promote_edge_ok:
  assumes "promote_edge env edge pr er db = Inr db'" "db_ok db"
  shows "db_ok db'"
proof -
  from assms(1) obtain db1 db2 where 1: "claim_project_revision env (e_project_id edge) pr db = Inr db1"
    and 2: "set_edge_mainline (e_id edge) (demote_mainline_siblings env (e_from_node_id edge) (Some (e_id edge)) db1) = Inr db2"
    and db': "db' = bump_existing env [EdgeRef (e_id edge)] db2"
    by (auto simp: promote_edge_def result_simps)
  have "db_ok db1" using 1 assms(2) by (rule ok_claim)
  then have "db_ok db2" by (intro ok_set_edge_mainline [OF 2] demote_ok)
  then show ?thesis by (simp add: db' ok_bump_existing)
qed

lemma promote_mainline_Inr:
  "promote_mainline env eid pr er db = Inr (out, db') \<Longrightarrow>
     \<exists>edge. get_edge_row db eid = Some edge \<and> is_child_edge edge \<and> promote_edge env edge pr er db = Inr db' \<and>
       get_edge_row db' eid = Some out"
  by (auto simp: promote_mainline_def result_simps split: if_splits)

lemma scalar_filter_Some: "scalar_one_or_none (filter P xs) = Inr (Some r) \<Longrightarrow> r \<in> set xs \<and> P r"
  by (auto simp: scalar_one_or_none_Some filter_eq_Cons_iff)

lemma promote_child_mainline_Inr:
  "promote_child_mainline env x y pr er db = Inr (u, db') \<Longrightarrow>
     \<exists>edge. edge \<in> set (edges db) \<and> e_from_node_id edge = x \<and> e_to_node_id edge = y \<and> is_child_edge edge \<and>
       promote_edge env edge pr er db = Inr db'"
  unfolding promote_child_mainline_def and_then_eq_Inr option_Inl_eq_Inr by (blast dest: scalar_filter_Some)

lemma promoted_edge_mainline:
  assumes "edge \<in> set es" "is_child_edge edge" "distinct (map e_id es)"
    and f: "f \<in> set (map (promoted_edge (e_id edge) (e_from_node_id edge)) es)"
    "is_child_edge f" "e_from_node_id f = e_from_node_id edge"
  shows "e_is_mainline f \<longleftrightarrow> e_id f = e_id edge"
proof -
  obtain g where g: "g \<in> set es" "f = promoted_edge (e_id edge) (e_from_node_id edge) g" using f(1) by auto
  then have same: "e_id f = e_id g" "e_from_node_id g = e_from_node_id edge" "is_child_edge g"
    using f(2,3) by (auto simp: promoted_edge_def is_child_edge_def split: if_splits)
  show ?thesis
  proof (cases "e_id g = e_id edge")
    case True
    then show ?thesis using g(2) same(1) by (simp add: promoted_edge_def)
  next
    case False
    then have "\<not> mainline_edge f"
      using g(2) same(2) by (auto simp: promoted_edge_def mainline_demoted)
    then show ?thesis using False f(2) same(1) by (simp add: mainline_edge_def)
  qed
qed

section \<open>Creation, edits and deletion\<close>

definition created_edge :: "env \<Rightarrow> edge_create \<Rightarrow> ident \<Rightarrow> edge" where
  "created_edge env data pid = \<lparr>e_id = uuid env 0, e_project_id = pid,
     e_from_node_id = ec_from_node_id data, e_to_node_id = ec_to_node_id data,
     e_relation_type = ec_relation_type data, e_weight = Some (ec_weight data),
     e_note = Some (ec_note data), e_is_mainline = ec_is_mainline data, e_created_at = now env, e_revision = 1\<rparr>"

lemma create_edge_steps:
  assumes "create_edge env data db = Inr (out, db')"
  obtains x y db1 where
    "get_node_row db (ec_from_node_id data) = Some x" "get_node_row db (ec_to_node_id data) = Some y"
    "n_project_id y = n_project_id x" "ec_from_node_id data \<noteq> ec_to_node_id data"
    "ec_relation_type data = child_of \<or> ec_relation_type data \<in> set GRAPH_RELATION_TYPES"
    "claim_project_revision env (n_project_id x) (ec_expected_project_revision data) db = Inr db1"
    "insert_edge (created_edge env data (n_project_id x))
       (if ec_is_mainline data \<and> ec_relation_type data = child_of
        then demote_mainline_siblings env (ec_from_node_id data) None db1 else db1) = Inr db'"
    "out = created_edge env data (n_project_id x)"
  using assms by (auto simp: create_edge_def created_edge_def Let_def result_simps split: option.splits if_splits)

lemma create_edge_advances:
  assumes "create_edge env data db = Inr (out, db')"
  shows "\<exists>x. get_node_row db (ec_from_node_id data) = Some x \<and>
    advances db (n_project_id x) (ec_expected_project_revision data) db'"
  using assms
proof (cases rule: create_edge_steps)
  case (1 x y db1)
  have "projects db' = projects db1" using 1(7) by (auto simp: statement_Inr split: if_splits)
  then show ?thesis using 1(1) claim_advances [OF 1(6)] by blast
qed

lemma create_edge_ok:
  assumes "create_edge env data db = Inr (out, db')" "db_ok db"
  shows "db_ok db'"
  using assms(1)
proof (cases rule: create_edge_steps)
  case (1 x y db1)
  let ?d = "if ec_is_mainline data \<and> ec_relation_type data = child_of
        then demote_mainline_siblings env (ec_from_node_id data) None db1 else db1"
  have "db_ok db1" by (rule ok_claim) fact+
  then have "db_ok ?d" by (simp add: demote_ok)
  moreover have "nodes ?d = nodes db" using 1(6) by (auto simp: statement_Inr)
  ultimately show ?thesis
    using owner_get [OF 1(1)] owner_get [OF 1(2)] 1(3) by (intro ok_insert_edge [OF 1(7)]) (simp_all add: created_edge_def)
qed

lemma update_edge_steps:
  assumes "update_edge env eid data db = Inr (out, db')"
  obtains edge db1 where
    "get_edge_row db eid = Some edge" "\<not> is_child_edge edge"
    "claim_project_revision env (e_project_id edge) (eu_expected_project_revision data) db = Inr db1"
    "eu_expected_revision data = current_revision (e_revision edge)" "check_edge_values data = Inr ()"
    "log_action env (uuid env 0) (e_project_id edge) (Some (e_from_node_id edge)) ''human''
       ''graph_relation_updated'' [(''edge_id'', JStr eid),
         (''changes'', JObj (member ''weight'' JNum (eu_weight data) @ member ''note'' JStr (eu_note data)))]
       (bump_existing env [EdgeRef eid] (edges_update (row_update e_id eid (apply_edge_changes data)) db1)) = Inr db'"
    "get_edge_row db' eid = Some out"
  using assms by (auto simp: update_edge_def Let_def result_simps statement_Inr split: if_splits)

lemma apply_edge_changes_simps [simp]:
  "e_id (apply_edge_changes data e) = e_id e" "e_project_id (apply_edge_changes data e) = e_project_id e"
  "e_from_node_id (apply_edge_changes data e) = e_from_node_id e" "e_to_node_id (apply_edge_changes data e) = e_to_node_id e"
  "mainline_edge (apply_edge_changes data e) = mainline_edge e" "is_child_edge (apply_edge_changes data e) = is_child_edge e"
  "e_revision (apply_edge_changes data e) = e_revision e"
  by (simp_all add: apply_edge_changes_def mainline_edge_def is_child_edge_def)

lemma update_edge_advances:
  assumes "update_edge env eid data db = Inr (out, db')"
  shows "\<exists>edge. get_edge_row db eid = Some edge \<and> advances db (e_project_id edge) (eu_expected_project_revision data) db'"
  using assms
proof (cases rule: update_edge_steps)
  case (1 edge db1)
  then show ?thesis using claim_advances [OF 1(3)] log_action_frame(1) [OF 1(6)] by simp
qed

lemma update_edge_ok:
  assumes "update_edge env eid data db = Inr (out, db')" "db_ok db"
  shows "db_ok db'"
  using assms(1)
proof (cases rule: update_edge_steps)
  case (1 edge db1)
  have "db_ok db1" by (rule ok_claim) fact+
  then show ?thesis by (intro ok_log_action [OF 1(6)] ok_bump_existing ok_update_edge) simp_all
qed

lemma delete_edge_steps:
  assumes "delete_edge env eid pr er db = Inr (u, db')"
  obtains edge db1 where "get_edge_row db eid = Some edge" "\<not> is_child_edge edge"
    "claim_project_revision env (e_project_id edge) pr db = Inr db1" "er = current_revision (e_revision edge)"
    "db' = delete_edge_row eid db1"
  using assms by (auto simp: delete_edge_def result_simps statement_Inr split: if_splits)

lemma delete_edge_advances:
  assumes "delete_edge env eid pr er db = Inr (u, db')"
  shows "\<exists>edge. get_edge_row db eid = Some edge \<and> advances db (e_project_id edge) pr db'"
  using assms
proof (cases rule: delete_edge_steps)
  case (1 edge db1)
  then show ?thesis using claim_advances [OF 1(3)] by (simp add: delete_edge_row_def)
qed

lemma delete_edge_ok: "delete_edge env eid pr er db = Inr (u, db') \<Longrightarrow> db_ok db \<Longrightarrow> db_ok db'"
  by (elim delete_edge_steps) (auto intro: ok_delete_edge_row ok_claim)

interpretation create_edge_cas:
  cas_handler "\<lambda>r. create_edge env (data\<lparr>ec_expected_project_revision := r\<rparr>)"
    "\<lambda>db. map_option n_project_id (get_node_row db (ec_from_node_id data))" for env data
  by unfold_locales (fastforce dest: create_edge_advances)

interpretation update_edge_cas:
  cas_handler "\<lambda>r. update_edge env eid (data\<lparr>eu_expected_project_revision := r\<rparr>)"
    "\<lambda>db. map_option e_project_id (get_edge_row db eid)" for env eid data
  by unfold_locales (fastforce dest: update_edge_advances)

interpretation promote_mainline_cas:
  cas_handler "\<lambda>r. promote_mainline env eid r er" "\<lambda>db. map_option e_project_id (get_edge_row db eid)" for env eid er
  by unfold_locales (fastforce dest: promote_mainline_Inr promote_edge_advances)

interpretation delete_edge_cas:
  cas_handler "\<lambda>r. delete_edge env eid r er" "\<lambda>db. map_option e_project_id (get_edge_row db eid)" for env eid er
  by unfold_locales (fastforce dest: delete_edge_advances)

end
