(* ===== verification/Governance.thy ===== *)
theory Governance
  imports Edges
begin

text \<open>
  Moving nodes and reading the tree (\<open>move_node\<close>, \<open>reparent_node\<close>, \<open>get_ancestors\<close>,
  \<open>get_mainline_path\<close>, \<open>get_branch_roots\<close> of \<open>api/routes.py\<close>). Both moves collect the descendants of
  the node with a work list to keep the containment relation free of cycles; walking up keeps a
  visited set; following the mainline down keeps none and may not return.
\<close>

section \<open>Descendants\<close>

text \<open>
  The loop \<open>while queue: current = queue.pop() ...\<close>; the list \<open>queue\<close> is kept with its end first,
  \<open>push_new\<close> is the inner loop over the child edges.
\<close>

fun push_new :: "edge list \<Rightarrow> ident list \<Rightarrow> ident list \<Rightarrow> ident list \<times> ident list" where
  "push_new [] descendants queue = (descendants, queue)"
| "push_new (e # es) descendants queue =
     (if e_to_node_id e \<in> set descendants then push_new es descendants queue
      else push_new es (descendants @ [e_to_node_id e]) (e_to_node_id e # queue))"

definition edge_targets :: "db \<Rightarrow> ident set" where
  "edge_targets db = e_to_node_id ` set (edges db)"

lemma finite_edge_targets [simp]: "finite (edge_targets db)"
  by (simp add: edge_targets_def)

lemma push_new_sets:
  assumes "push_new es d q = (d', q')"
  shows "set d' = set d \<union> e_to_node_id ` set es" "set q \<subseteq> set q'" "set q' \<subseteq> set q \<union> set d'"
    "set d' - set d \<subseteq> set q'"
  using assms by (induction es d q rule: push_new.induct) (auto split: if_splits)

lemma push_new_measure:
  assumes "push_new es d q = (d', q')" "e_to_node_id ` set es \<subseteq> T" "finite T"
  shows "2 * card (T - set d') + length q' \<le> 2 * card (T - set d) + length q"
  using assms
proof (induction es d q rule: push_new.induct)
  case (2 e es d q)
  show ?case
  proof (cases "e_to_node_id e \<in> set d")
    case False
    then have "card (T - set (d @ [e_to_node_id e])) < card (T - set d)"
      using 2(4,5) by (intro psubset_card_mono) auto
    moreover have "2 * card (T - set d') + length q' \<le>
        2 * card (T - set (d @ [e_to_node_id e])) + length (e_to_node_id e # q)"
      using 2 False by simp
    ultimately show ?thesis by simp
  qed (use 2 in simp)
qed simp

function walk_descendants :: "db \<Rightarrow> ident list \<Rightarrow> ident list \<Rightarrow> ident list" where
  "walk_descendants db queue descendants =
     (case queue of
        [] \<Rightarrow> descendants
      | current # rest \<Rightarrow>
          (case push_new (child_edges db current) descendants rest of
             (d, q) \<Rightarrow> walk_descendants db q d))"
  by pat_completeness auto

termination
proof (relation "measure (\<lambda>(db, queue, descendants).
    2 * card (edge_targets db - set descendants) + length queue)")
  fix db and queue descendants rest :: "ident list" and current d q
  assume "queue = current # rest" "(d, q) = push_new (child_edges db current) descendants rest"
  moreover have "e_to_node_id ` set (child_edges db current) \<subseteq> edge_targets db"
    by (auto simp: child_edges_def edge_targets_def)
  ultimately show "((db, q, d), db, queue, descendants) \<in> measure (\<lambda>(db, queue, descendants).
    2 * card (edge_targets db - set descendants) + length queue)"
    using push_new_measure [of "child_edges db current" descendants rest d q "edge_targets db"] by simp
qed simp

declare walk_descendants.simps [simp del]

definition descendants_of :: "db \<Rightarrow> ident \<Rightarrow> ident list" where
  "descendants_of db x = walk_descendants db [x] []"

lemma child_edges_targets: "e_to_node_id ` set (child_edges db x) = child_rel db `` {x}"
  by (auto simp: child_edges_def child_rel_def)

lemma walk_descendants_trancl:
  assumes "set queue \<subseteq> insert x (set d)" "set d \<subseteq> (child_rel db)\<^sup>+ `` {x}"
    and "child_rel db `` (insert x (set d) - set queue) \<subseteq> set d"
  shows "set (walk_descendants db queue d) = (child_rel db)\<^sup>+ `` {x}"
  using assms
proof (induction db queue d rule: walk_descendants.induct)
  case (1 db queue d)
  show ?case
  proof (cases queue)
    case Nil
    have "y \<in> set d" if "(x, y) \<in> (child_rel db)\<^sup>+" for y
      using that by induction (use 1(4) Nil in auto)
    then show ?thesis using 1(3) Nil by (auto simp: walk_descendants.simps [of _ "[]"])
  next
    case (Cons current rest)
    obtain d' q' where p: "push_new (child_edges db current) d rest = (d', q')" by fastforce
    note s = push_new_sets [OF p, unfolded child_edges_targets]
    have current: "current \<in> insert x (set d)" using 1(2) Cons by simp
    have step: "child_rel db `` {current} \<subseteq> (child_rel db)\<^sup>+ `` {x}"
      using current 1(3) by (auto intro: trancl_into_trancl)
    have "set (walk_descendants db q' d') = (child_rel db)\<^sup>+ `` {x}"
    proof (rule 1(1) [OF Cons p [symmetric]])
      show "set q' \<subseteq> insert x (set d')" using s 1(2) Cons by auto
      show "set d' \<subseteq> (child_rel db)\<^sup>+ `` {x}" using s(1) step 1(3) by auto
      show "child_rel db `` (insert x (set d') - set q') \<subseteq> set d'"
      proof
        fix z assume "z \<in> child_rel db `` (insert x (set d') - set q')"
        then obtain y where y: "y \<in> insert x (set d')" "y \<notin> set q'" "(y, z) \<in> child_rel db" by auto
        show "z \<in> set d'"
        proof (cases "y = current")
          case True
          then show ?thesis using y(3) s(1) by auto
        next
          case False
          then have "y \<in> insert x (set d) - set queue" using y(1,2) s(2,4) Cons by auto
          then show ?thesis using 1(4) y(3) s(1) by auto
        qed
      qed
    qed
    then show ?thesis by (simp add: walk_descendants.simps [of _ "current # rest"] Cons p)
  qed
qed

lemma set_descendants_of: "set (descendants_of db x) = (child_rel db)\<^sup>+ `` {x}"
  unfolding descendants_of_def by (rule walk_descendants_trancl) auto

section \<open>Moves\<close>

record node_move_request =
  mv_new_parent_id :: ident
  mv_expected_project_revision :: int
  mv_expected_revision :: int
  mv_expected_new_parent_revision :: int
  mv_expected_old_parent_revision :: "int option"

record move_out =
  mo_is_mainline :: bool
  mo_project_revision :: int
  mo_node_revision :: "int option"
  mo_old_parent_revision :: "int option"
  mo_new_parent_revision :: "int option"

definition is_root_of_project :: "db \<Rightarrow> node \<Rightarrow> bool" where
  "is_root_of_project db node \<longleftrightarrow>
     (case get_project_row db (n_project_id node) of None \<Rightarrow> False | Some p \<Rightarrow> p_root_node_id p = Some (n_id node))"

definition old_parent_of :: "db \<Rightarrow> edge option \<Rightarrow> node option" where
  "old_parent_of db old_edge = Option.bind old_edge (\<lambda>e. get_node_row db (e_from_node_id e))"

definition check_move_revisions :: "node \<Rightarrow> node \<Rightarrow> node option \<Rightarrow> node_move_request \<Rightarrow> unit result" where
  "check_move_revisions node new_parent old_parent body =
     and_then (check_entity_revision ''node'' (n_id node) (n_revision node) (mv_expected_revision body)) (\<lambda>_.
     and_then (check_entity_revision ''node'' (n_id new_parent) (n_revision new_parent) (mv_expected_new_parent_revision body)) (\<lambda>_.
       case old_parent of
         None \<Rightarrow> Inr ()
       | Some p \<Rightarrow>
           (case mv_expected_old_parent_revision body of
              None \<Rightarrow> Inl (HTTPException 422 ''expected_old_parent_revision is required'')
            | Some r \<Rightarrow> check_entity_revision ''node'' (n_id p) (n_revision p) r)))"

definition remove_old_edge :: "edge option \<Rightarrow> db \<Rightarrow> db" where
  "remove_old_edge old_edge db = (case old_edge of None \<Rightarrow> db | Some e \<Rightarrow> delete_edge_row (e_id e) db)"

definition touch_moved :: "env \<Rightarrow> node \<Rightarrow> node option \<Rightarrow> node \<Rightarrow> db \<Rightarrow> db" where
  "touch_moved env node old_parent new_parent db =
     touched_apply env (touched_add ([NodeRef (n_id node)] @ (case old_parent of None \<Rightarrow> [] | Some p \<Rightarrow> [NodeRef (n_id p)]) @
       [NodeRef (n_id new_parent)]) []) db"

definition move_response :: "node_move_request \<Rightarrow> node \<Rightarrow> node option \<Rightarrow> node \<Rightarrow> bool \<Rightarrow> db \<Rightarrow> move_out" where
  "move_response body node old_parent new_parent mainline db =
     \<lparr>mo_is_mainline = mainline, mo_project_revision = mv_expected_project_revision body + 1,
      mo_node_revision = map_option n_revision (get_node_row db (n_id node)),
      mo_old_parent_revision = Option.bind old_parent (\<lambda>p. map_option n_revision (get_node_row db (n_id p))),
      mo_new_parent_revision = map_option n_revision (get_node_row db (n_id new_parent))\<rparr>"

definition move_node :: "env \<Rightarrow> ident \<Rightarrow> node_move_request \<Rightarrow> db \<Rightarrow> (move_out \<times> db) result" where
  "move_node env nid body db =
     (case get_node_row db nid of
        None \<Rightarrow> Inl (HTTPException 404 ''Node not found'')
      | Some node \<Rightarrow>
          if is_root_of_project db node then Inl (HTTPException 400 ''Cannot move root node'')
          else case get_node_row db (mv_new_parent_id body) of
            None \<Rightarrow> Inl (HTTPException 404 ''New parent not found'')
          | Some new_parent \<Rightarrow>
              if n_project_id new_parent \<noteq> n_project_id node
              then Inl (HTTPException 400 ''Cannot move node to a different project'')
              else and_then (scalar_one_or_none (parent_edges db nid)) (\<lambda>old_edge.
                let old_parent = old_parent_of db old_edge in
                and_then (check_move_revisions node new_parent old_parent body) (\<lambda>_.
                and_then (claim_project_revision env (n_project_id node) (mv_expected_project_revision body) db) (\<lambda>db.
                  if mv_new_parent_id body \<in> set (descendants_of db nid)
                  then Inl (HTTPException 400 ''Cannot move node under its own descendant (would create cycle)'')
                  else
                    let db = remove_old_edge old_edge db;
                        mainline = (child_edges db (mv_new_parent_id body) = [])
                    in and_then (insert_edge (new_edge env (uuid env 0) (n_project_id node) (mv_new_parent_id body) nid mainline) db) (\<lambda>db.
                       and_then (log_action env (uuid env 1) (n_project_id node) (Some nid) ''human'' ''move''
                           [(''from_parent'', jopt (map_option e_from_node_id old_edge)),
                            (''to_parent'', JStr (mv_new_parent_id body))] db) (\<lambda>db.
                         let db = touch_moved env node old_parent new_parent db
                         in Inr (move_response body node old_parent new_parent mainline db, db)))))))"

definition reparent_node :: "env \<Rightarrow> ident \<Rightarrow> node_move_request \<Rightarrow> db \<Rightarrow> (move_out \<times> db) result" where
  "reparent_node env nid body db =
     (case get_node_row db nid of
        None \<Rightarrow> Inl (HTTPException 404 ''Node not found'')
      | Some node \<Rightarrow>
          if is_root_of_project db node then Inl (HTTPException 400 ''Cannot reparent root node'')
          else case get_node_row db (mv_new_parent_id body) of
            None \<Rightarrow> Inl (HTTPException 400 ''Invalid new parent'')
          | Some new_parent \<Rightarrow>
              if n_project_id new_parent \<noteq> n_project_id node then Inl (HTTPException 400 ''Invalid new parent'')
              else and_then (scalar_one_or_none (parent_edges db nid)) (\<lambda>old_edge.
                let old_parent = old_parent_of db old_edge in
                and_then (check_move_revisions node new_parent old_parent body) (\<lambda>_.
                and_then (claim_project_revision env (n_project_id node) (mv_expected_project_revision body) db) (\<lambda>db.
                  if mv_new_parent_id body \<in> set (descendants_of db nid) \<or> mv_new_parent_id body = nid
                  then Inl (HTTPException 400 ''Cannot reparent under descendant (cycle)'')
                  else
                    let db = remove_old_edge old_edge db;
                        mainline = (child_edges db (mv_new_parent_id body) = [])
                    in and_then (insert_edge (new_edge env (uuid env 0) (n_project_id node) (mv_new_parent_id body) nid mainline) db) (\<lambda>db.
                       let db = touch_moved env node old_parent new_parent db
                       in Inr (move_response body node old_parent new_parent mainline db, db))))))"

text \<open>What both moves do to the containment edges, between the claim and the bumps.\<close>

definition relocated :: "env \<Rightarrow> ident \<Rightarrow> node_move_request \<Rightarrow> db \<Rightarrow> node \<Rightarrow> db \<Rightarrow> bool" where
  "relocated env nid body db node db2 \<longleftrightarrow>
     (\<exists>new_parent old_edge db1. get_node_row db nid = Some node \<and>
        get_node_row db (mv_new_parent_id body) = Some new_parent \<and> n_project_id new_parent = n_project_id node \<and>
        scalar_one_or_none (parent_edges db nid) = Inr old_edge \<and>
        claim_project_revision env (n_project_id node) (mv_expected_project_revision body) db = Inr db1 \<and>
        mv_new_parent_id body \<notin> set (descendants_of db1 nid) \<and>
        insert_edge (new_edge env (uuid env 0) (n_project_id node) (mv_new_parent_id body) nid
          (child_edges (remove_old_edge old_edge db1) (mv_new_parent_id body) = [])) (remove_old_edge old_edge db1) = Inr db2)"

lemma touch_moved_frame [simp]:
  "projects (touch_moved env n op np db) = projects db" "edges (touch_moved env n op np db) = edges db"
  "branches (touch_moved env n op np db) = branches db" "content_blocks (touch_moved env n op np db) = content_blocks db"
proof -
  let ?refs = "[NodeRef (n_id n)] @ (case op of None \<Rightarrow> [] | Some p \<Rightarrow> [NodeRef (n_id p)]) @ [NodeRef (n_id np)]"
  have "touch_moved env n op np db = bump_existing env ?refs db" by (simp add: touch_moved_def bump_existing_def)
  moreover have "EdgeRef i \<notin> set ?refs" "BlockRef i \<notin> set ?refs" "BranchRef i \<notin> set ?refs" for i
    by (cases op; simp)+
  ultimately show "projects (touch_moved env n op np db) = projects db" "edges (touch_moved env n op np db) = edges db"
    "branches (touch_moved env n op np db) = branches db" "content_blocks (touch_moved env n op np db) = content_blocks db"
    by (simp_all add: bump_existing_rows del: set_append)
qed

lemma touch_moved_ok: "db_ok db \<Longrightarrow> db_ok (touch_moved env n op np db)"
  by (simp add: touch_moved_def ok_touched_apply)

lemma move_node_relocates:
  assumes "move_node env nid body db = Inr (out, db')"
  obtains node np old_parent db2 db3 where "relocated env nid body db node db2"
    "log_action env (uuid env 1) (n_project_id node) (Some nid) ''human'' ''move''
       [(''from_parent'', jopt (map_option e_from_node_id (hd (map Some (parent_edges db nid) @ [None])))),
        (''to_parent'', JStr (mv_new_parent_id body))] db2 = Inr db3"
    "db' = touch_moved env node old_parent np db3"
proof -
  from assms obtain node np old_edge db1 db2 db3 where
    1: "get_node_row db nid = Some node" "get_node_row db (mv_new_parent_id body) = Some np"
    "n_project_id np = n_project_id node" "scalar_one_or_none (parent_edges db nid) = Inr old_edge"
    "claim_project_revision env (n_project_id node) (mv_expected_project_revision body) db = Inr db1"
    "mv_new_parent_id body \<notin> set (descendants_of db1 nid)"
    "insert_edge (new_edge env (uuid env 0) (n_project_id node) (mv_new_parent_id body) nid
       (child_edges (remove_old_edge old_edge db1) (mv_new_parent_id body) = [])) (remove_old_edge old_edge db1) = Inr db2"
    and log: "log_action env (uuid env 1) (n_project_id node) (Some nid) ''human'' ''move''
       [(''from_parent'', jopt (map_option e_from_node_id old_edge)), (''to_parent'', JStr (mv_new_parent_id body))] db2 = Inr db3"
    and db': "db' = touch_moved env node (old_parent_of db old_edge) np db3"
    by (auto simp: move_node_def result_simps Let_def split: if_splits)
  have "old_edge = hd (map Some (parent_edges db nid) @ [None])"
    using 1(4) by (cases old_edge) (auto simp: scalar_one_or_none_None scalar_one_or_none_Some)
  then show ?thesis using that [of node db2 db3 "old_parent_of db old_edge" np] 1 log db' unfolding relocated_def by blast
qed

lemma reparent_node_relocates:
  assumes "reparent_node env nid body db = Inr (out, db')"
  obtains node np old_parent db2 where "relocated env nid body db node db2" "mv_new_parent_id body \<noteq> nid"
    "db' = touch_moved env node old_parent np db2"
  using assms by (auto simp: reparent_node_def relocated_def result_simps Let_def split: if_splits)

lemma remove_old_edge_frame [simp]:
  "projects (remove_old_edge oe db) = projects db" "nodes (remove_old_edge oe db) = nodes db"
  "branches (remove_old_edge oe db) = branches db" "content_blocks (remove_old_edge oe db) = content_blocks db"
  by (cases oe; simp add: remove_old_edge_def delete_edge_row_def)+

lemma remove_old_edge_ok: "db_ok db \<Longrightarrow> db_ok (remove_old_edge oe db)"
  by (cases oe) (simp_all add: remove_old_edge_def ok_delete_edge_row)

lemma remove_old_edge_parents:
  assumes "scalar_one_or_none (parent_edges db nid) = Inr oe" "distinct (map e_id (edges db))"
  shows "set (edges (remove_old_edge oe db)) = {e \<in> set (edges db). \<not> (is_child_edge e \<and> e_to_node_id e = nid)}"
proof (cases oe)
  case None
  then have "parent_edges db nid = []" using assms(1) by (simp add: scalar_one_or_none_None)
  then show ?thesis using None by (auto simp: remove_old_edge_def parent_edges_def filter_empty_conv)
next
  case (Some f)
  then have "parent_edges db nid = [f]" using assms(1) by (simp add: scalar_one_or_none_Some)
  then have "set (parent_edges db nid) = {f}" by simp
  then have "e_id e = e_id f \<longleftrightarrow> is_child_edge e \<and> e_to_node_id e = nid" if "e \<in> set (edges db)" for e
    using that same_key [OF assms(2) that, of f] unfolding parent_edges_def by fastforce
  then show ?thesis by (auto simp: Some remove_old_edge_def delete_edge_row_def set_row_delete)
qed

lemma relocated_child_rel:
  assumes "relocated env nid body db node db2" "db_ok db"
  shows "child_rel db2 = insert (mv_new_parent_id body, nid) {(x, y) \<in> child_rel db. y \<noteq> nid}"
proof -
  from assms(1) obtain oe db1 m where scalar: "scalar_one_or_none (parent_edges db nid) = Inr oe"
    and claim: "claim_project_revision env (n_project_id node) (mv_expected_project_revision body) db = Inr db1"
    and ins: "insert_edge (new_edge env (uuid env 0) (n_project_id node) (mv_new_parent_id body) nid m) (remove_old_edge oe db1) = Inr db2"
    unfolding relocated_def by blast
  have same: "edges db1 = edges db" using claim by (rule claim_frame)
  then have "parent_edges db1 nid = parent_edges db nid" by (simp add: parent_edges_def)
  then have "set (edges (remove_old_edge oe db1)) = {e \<in> set (edges db). \<not> (is_child_edge e \<and> e_to_node_id e = nid)}"
    using remove_old_edge_parents [of db1 nid oe] scalar same ok_keys(3) [OF assms(2)] by simp
  then have "{e \<in> set (edges db2). is_child_edge e} =
      insert (new_edge env (uuid env 0) (n_project_id node) (mv_new_parent_id body) nid m)
        {e \<in> set (edges db). is_child_edge e \<and> e_to_node_id e \<noteq> nid}"
    by (auto simp: insert_edge_frame(1) [OF ins])
  then show ?thesis by (auto simp: child_rel_def)
qed

lemma relocated_not_descendant:
  assumes "relocated env nid body db node db2"
  shows "(nid, mv_new_parent_id body) \<notin> (child_rel db)\<^sup>+"
proof -
  from assms obtain db1 where "child_rel db1 = child_rel db" "mv_new_parent_id body \<notin> set (descendants_of db1 nid)"
    unfolding relocated_def by (blast dest: claim_frame(9))
  then show ?thesis by (simp add: set_descendants_of)
qed

lemma relocated_acyclic:
  assumes "relocated env nid body db node db2" "db_ok db" "mv_new_parent_id body \<noteq> nid" "acyclic (child_rel db)"
  shows "acyclic (child_rel db2)"
proof -
  let ?r = "{(x, y) \<in> child_rel db. y \<noteq> nid}"
  have sub: "?r \<subseteq> child_rel db" by auto
  have "(nid, mv_new_parent_id body) \<notin> ?r\<^sup>*"
  proof
    assume "(nid, mv_new_parent_id body) \<in> ?r\<^sup>*"
    then have "(nid, mv_new_parent_id body) \<in> (child_rel db)\<^sup>*" using rtrancl_mono [OF sub] by blast
    then show False using assms(3) relocated_not_descendant [OF assms(1)] by (simp add: rtrancl_eq_or_trancl)
  qed
  then show ?thesis
    using acyclic_subset [OF assms(4) sub] by (simp add: relocated_child_rel [OF assms(1,2)])
qed

lemma relocated_ok:
  assumes "relocated env nid body db node db2" "db_ok db"
  shows "db_ok db2"
proof -
  from assms(1) obtain np oe db1 where rows: "get_node_row db nid = Some node"
    "get_node_row db (mv_new_parent_id body) = Some np" "n_project_id np = n_project_id node"
    and claim: "claim_project_revision env (n_project_id node) (mv_expected_project_revision body) db = Inr db1"
    and ins: "insert_edge (new_edge env (uuid env 0) (n_project_id node) (mv_new_parent_id body) nid
          (child_edges (remove_old_edge oe db1) (mv_new_parent_id body) = [])) (remove_old_edge oe db1) = Inr db2"
    by (auto simp: relocated_def)
  have "nodes db1 = nodes db" using claim by (rule claim_frame)
  then show ?thesis
    using ok_claim [OF claim assms(2)] owner_get [OF rows(1)] owner_get [OF rows(2)] rows(3)
    by (intro ok_insert_edge [OF ins] remove_old_edge_ok) simp_all
qed

lemma relocated_advances:
  assumes "relocated env nid body db node db2" "projects db' = projects db2"
  shows "get_node_row db nid = Some node \<and> advances db (n_project_id node) (mv_expected_project_revision body) db'"
  using assms unfolding relocated_def by (auto dest: insert_edge_frame(2) intro!: claim_advances)

lemma move_node_ok: "move_node env nid body db = Inr (out, db') \<Longrightarrow> db_ok db \<Longrightarrow> db_ok db'"
  by (elim move_node_relocates) (auto intro: touch_moved_ok ok_log_action relocated_ok)

lemma reparent_node_ok: "reparent_node env nid body db = Inr (out, db') \<Longrightarrow> db_ok db \<Longrightarrow> db_ok db'"
  by (elim reparent_node_relocates) (auto intro: touch_moved_ok relocated_ok)

lemma move_node_advances:
  "move_node env nid body db = Inr (out, db') \<Longrightarrow>
     \<exists>node. get_node_row db nid = Some node \<and> advances db (n_project_id node) (mv_expected_project_revision body) db'"
  by (elim move_node_relocates, rule exI, erule relocated_advances) (simp add: log_action_frame)

lemma reparent_node_advances:
  "reparent_node env nid body db = Inr (out, db') \<Longrightarrow>
     \<exists>node. get_node_row db nid = Some node \<and> advances db (n_project_id node) (mv_expected_project_revision body) db'"
  by (elim reparent_node_relocates, rule exI, erule relocated_advances) simp

interpretation move_node_cas:
  cas_handler "\<lambda>r. move_node env nid (body\<lparr>mv_expected_project_revision := r\<rparr>)"
    "\<lambda>db. map_option n_project_id (get_node_row db nid)" for env nid body
  by unfold_locales (fastforce dest: move_node_advances)

interpretation reparent_node_cas:
  cas_handler "\<lambda>r. reparent_node env nid (body\<lparr>mv_expected_project_revision := r\<rparr>)"
    "\<lambda>db. map_option n_project_id (get_node_row db nid)" for env nid body
  by unfold_locales (fastforce dest: reparent_node_advances)

lemma move_child_rel:
  assumes "db_ok db"
  shows "move_node env nid body db = Inr (out, db') \<Longrightarrow>
      child_rel db' = insert (mv_new_parent_id body, nid) {(x, y) \<in> child_rel db. y \<noteq> nid}"
    and "reparent_node env nid body db = Inr (out, db') \<Longrightarrow>
      child_rel db' = insert (mv_new_parent_id body, nid) {(x, y) \<in> child_rel db. y \<noteq> nid}"
proof -
  have cong: "edges d = edges d' \<Longrightarrow> child_rel d = child_rel d'" for d d' by (simp add: child_rel_def)
  show "child_rel db' = insert (mv_new_parent_id body, nid) {(x, y) \<in> child_rel db. y \<noteq> nid}"
    if "move_node env nid body db = Inr (out, db')"
    using that
  proof (cases rule: move_node_relocates)
    case (1 node np op db2 db3)
    then show ?thesis using relocated_child_rel [OF 1(1) assms] cong [of db' db2] log_action_frame(3) [OF 1(2)] by simp
  qed
  show "child_rel db' = insert (mv_new_parent_id body, nid) {(x, y) \<in> child_rel db. y \<noteq> nid}"
    if "reparent_node env nid body db = Inr (out, db')"
    using that
  proof (cases rule: reparent_node_relocates)
    case (1 node np op db2)
    then show ?thesis using relocated_child_rel [OF 1(1) assms] cong [of db' db2] by simp
  qed
qed

section \<open>Reading the tree\<close>

record ancestor_node =
  an_id :: ident
  an_title :: string
  an_node_type :: string
  an_maturity :: string
  an_is_mainline :: bool

definition ancestor_entry :: "node \<Rightarrow> bool \<Rightarrow> ancestor_node" where
  "ancestor_entry n mainline =
     \<lparr>an_id = n_id n, an_title = n_title n, an_node_type = n_node_type n, an_maturity = n_maturity n,
      an_is_mainline = mainline\<rparr>"

text \<open>
  The loop of \<open>get_ancestors\<close>; the list is built root first, which is what appending and reversing
  at the end gives.
\<close>

function ancestor_walk :: "db \<Rightarrow> ident \<Rightarrow> ident list \<Rightarrow> ancestor_node list \<Rightarrow> ancestor_node list result" where
  "ancestor_walk db current visited acc =
     (case scalar_one_or_none (parent_edges db current) of
        Inl err \<Rightarrow> Inl err
      | Inr None \<Rightarrow> Inr acc
      | Inr (Some edge) \<Rightarrow>
          (case get_node_row db (e_from_node_id edge) of
             None \<Rightarrow> Inr acc
           | Some parent \<Rightarrow>
               if n_id parent \<in> set visited then Inr acc
               else ancestor_walk db (n_id parent) (n_id parent # visited)
                      (ancestor_entry parent (e_is_mainline edge) # acc)))"
  by pat_completeness auto

termination
proof (relation "measure (\<lambda>(db, current, visited, acc). card (node_ids db - set visited))")
  fix db current and visited :: "ident list" and acc :: "ancestor_node list" and x edge parent
  assume "get_node_row db (e_from_node_id edge) = Some parent" "n_id parent \<notin> set visited"
  then have "n_id parent \<in> node_ids db - set visited" by (auto simp: get_node_row_def dest: row_get_Some)
  then have "card (node_ids db - set (n_id parent # visited)) < card (node_ids db - set visited)"
    by (intro psubset_card_mono) auto
  then show "((db, n_id parent, n_id parent # visited, ancestor_entry parent (e_is_mainline edge) # acc), db, current, visited, acc)
      \<in> measure (\<lambda>(db, current, visited, acc). card (node_ids db - set visited))" by simp
qed simp

declare ancestor_walk.simps [simp del]

definition get_ancestors :: "ident \<Rightarrow> db \<Rightarrow> ancestor_node list result" where
  "get_ancestors nid db =
     (case get_node_row db nid of
        None \<Rightarrow> Inl (HTTPException 404 ''Node not found'')
      | Some _ \<Rightarrow> ancestor_walk db nid [nid] [])"

text \<open>
  The loop of \<open>get_mainline_path\<close>. It has no visited set: \<open>None\<close> is the loop that never returns. The
  order by creation time and key picks the first mainline edge.
\<close>

definition entry_is_mainline :: "db \<Rightarrow> ident \<Rightarrow> ancestor_node list \<Rightarrow> bool result" where
  "entry_is_mainline db current path =
     (if path = [] then Inr True
      else and_then (scalar_one_or_none (parent_edges db current)) (\<lambda>edge.
        Inr (case edge of None \<Rightarrow> False | Some e \<Rightarrow> e_is_mainline e)))"

definition next_mainline :: "db \<Rightarrow> ident \<Rightarrow> ident option" where
  "next_mainline db current =
     (case sort_key (\<lambda>e. (e_created_at e, e_id e)) (filter (\<lambda>e. e_from_node_id e = current \<and> mainline_edge e) (edges db)) of
        [] \<Rightarrow> None | e # _ \<Rightarrow> Some (e_to_node_id e))"

partial_function (option) mainline_walk ::
  "db \<Rightarrow> ident option \<Rightarrow> ancestor_node list \<Rightarrow> ancestor_node list result option" where
  "mainline_walk db current path =
     (if \<not> truthy current then Some (Inr path)
      else case get_node_row db (the current) of
        None \<Rightarrow> Some (Inr path)
      | Some node \<Rightarrow>
          (case entry_is_mainline db (the current) path of
             Inl err \<Rightarrow> Some (Inl err)
           | Inr m \<Rightarrow> mainline_walk db (next_mainline db (the current)) (path @ [ancestor_entry node m])))"

definition get_mainline_path :: "ident \<Rightarrow> db \<Rightarrow> ancestor_node list result option" where
  "get_mainline_path pid db =
     (case get_project_row db pid of
        None \<Rightarrow> Some (Inl (HTTPException 404 ''Project not found''))
      | Some project \<Rightarrow> if \<not> truthy (p_root_node_id project) then Some (Inr []) else mainline_walk db (p_root_node_id project) [])"

record branch_info =
  bi_node_id :: ident
  bi_title :: string
  bi_mainline_child_id :: "ident option"
  bi_branch_child_ids :: "ident list"
  bi_total_children :: nat

text \<open>The groups of \<open>GROUP BY from_node_id HAVING count(*) > 1\<close>, then one entry per group whose node exists.\<close>

definition branch_parents :: "ident \<Rightarrow> db \<Rightarrow> ident list" where
  "branch_parents pid db =
     (let froms = map e_from_node_id (filter (\<lambda>e. e_project_id e = pid \<and> is_child_edge e) (edges db))
      in filter (\<lambda>x. count_list froms x > 1) (remdups froms))"

definition branch_entry :: "db \<Rightarrow> node \<Rightarrow> branch_info" where
  "branch_entry db parent =
     (let es = child_edges db (n_id parent)
      in \<lparr>bi_node_id = n_id parent, bi_title = n_title parent,
          bi_mainline_child_id = fold (\<lambda>e m. if e_is_mainline e then Some (e_to_node_id e) else m) es None,
          bi_branch_child_ids = map e_to_node_id (filter (\<lambda>e. \<not> e_is_mainline e) es),
          bi_total_children = length es\<rparr>)"

definition get_branch_roots :: "ident \<Rightarrow> db \<Rightarrow> branch_info list result" where
  "get_branch_roots pid db =
     (case get_project_row db pid of
        None \<Rightarrow> Inl (HTTPException 404 ''Project not found'')
      | Some _ \<Rightarrow> Inr (map (branch_entry db) (List.map_filter (get_node_row db) (branch_parents pid db))))"

section \<open>What the walks return\<close>

lemma next_mainline_child:
  assumes "next_mainline db x = Some y"
  shows "(x, y) \<in> child_rel db"
proof -
  let ?es = "sort_key (\<lambda>e. (e_created_at e, e_id e)) (filter (\<lambda>e. e_from_node_id e = x \<and> mainline_edge e) (edges db))"
  from assms obtain e rest where "?es = e # rest" "y = e_to_node_id e"
    by (auto simp: next_mainline_def split: list.splits)
  moreover from this(1) have "set ?es = set (e # rest)" by (rule arg_cong)
  then have "e \<in> {e \<in> set (edges db). e_from_node_id e = x \<and> mainline_edge e}" by auto
  ultimately show ?thesis by (auto simp: child_rel_iff mainline_edge_def)
qed

lemma mainline_walk_returns:
  assumes "acyclic (child_rel db)"
  shows "\<exists>res. mainline_walk db current path = Some res"
proof -
  have wf: "wf ((child_rel db)\<inverse>)" using assms by (simp add: finite_acyclic_wf_converse finite_child_rel)
  have step: "\<exists>res. mainline_walk db (Some i) path = Some res" for i path
    using wf
  proof (induction i arbitrary: path)
    case (less i)
    have "\<exists>res. mainline_walk db (next_mainline db i) p = Some res" for p
    proof (cases "next_mainline db i")
      case None
      then show ?thesis by (simp add: mainline_walk.simps truthy_def)
    next
      case (Some j)
      then show ?thesis using less next_mainline_child [OF Some] by simp
    qed
    then show ?case
      by (subst mainline_walk.simps) (auto split: option.splits sum.splits)
  qed
  show ?thesis by (cases current) (simp_all add: step mainline_walk.simps [of _ None] truthy_def)
qed

lemma insert_move_edge:
  assumes "db_ok db" "owner (nodes db) x = Some pid" "owner (nodes db) y = Some pid" "i \<notin> e_id ` set (edges db)"
  shows "\<exists>db'. insert_edge (new_edge env i pid x y (child_edges db x = [])) db = Inr db'"
proof -
  obtain n m where nm: "n \<in> set (nodes db)" "n_id n = x" "n_project_id n = pid" "m \<in> set (nodes db)" "n_id m = y"
    using assms(2,3) by (auto simp: owner_def dest: row_get_Some)
  then have "pid \<in> project_ids db"
    using assms(1) by (auto simp: db_ok_def schema_ok_def refs_ok_def node_refs_ok_def)
  moreover have "\<not> mainline_taken (edges db) x" if "child_edges db x = []"
    using that by (auto simp: mainline_taken_iff child_edges_def filter_empty_conv mainline_edge_def)
  ultimately show ?thesis using nm assms(4) by (auto simp: insert_edge_def has_row_def)
qed

lemma reparent_node_succeeds:
  assumes ok: "db_ok db" and node: "get_node_row db nid = Some node" and root: "\<not> is_root_of_project db node"
    and np: "get_node_row db (mv_new_parent_id body) = Some new_parent" "n_project_id new_parent = n_project_id node"
    and oe: "scalar_one_or_none (parent_edges db nid) = Inr old_edge"
    and rev: "check_move_revisions node new_parent (old_parent_of db old_edge) body = Inr ()"
      "project_revision db (n_project_id node) = Some (mv_expected_project_revision body)"
    and fresh: "uuid env 0 \<notin> e_id ` set (edges db)"
    and free: "(nid, mv_new_parent_id body) \<notin> (child_rel db)\<^sup>*"
  shows "\<exists>out db'. reparent_node env nid body db = Inr (out, db')"
proof -
  obtain db1 where claim: "claim_project_revision env (n_project_id node) (mv_expected_project_revision body) db = Inr db1"
    using rev(2) by (simp add: claim_project_Inr)
  note f = claim_frame [OF claim]
  have "mv_new_parent_id body \<notin> set (descendants_of db1 nid)" "mv_new_parent_id body \<noteq> nid"
    using free by (auto simp: set_descendants_of f(9) dest: trancl_into_rtrancl)
  moreover have "uuid env 0 \<notin> e_id ` set (edges (remove_old_edge old_edge db1))"
    using fresh f(2) by (cases old_edge) (auto simp: remove_old_edge_def delete_edge_row_def set_row_delete)
  then have "\<exists>db2. insert_edge (new_edge env (uuid env 0) (n_project_id node) (mv_new_parent_id body) nid
      (child_edges (remove_old_edge old_edge db1) (mv_new_parent_id body) = [])) (remove_old_edge old_edge db1) = Inr db2"
    using ok_claim [OF claim ok] owner_get [OF node] owner_get [OF np(1)] np(2) f(1)
    by (intro insert_move_edge remove_old_edge_ok) simp_all
  ultimately show ?thesis
    using node root np oe rev(1) claim by (auto simp: reparent_node_def Let_def result_simps)
qed

lemma log_action_succeeds:
  assumes "db_ok db" "get_node_row db i = Some n" "n_project_id n = pid" "k \<notin> l_id ` set (action_logs db)"
  shows "\<exists>db'. log_action env k pid (Some i) actor action payload db = Inr db'"
proof -
  have "n \<in> set (nodes db)" "n_id n = i" using assms(2) by (auto simp: get_node_row_def dest: row_get_Some)
  then have "pid \<in> project_ids db" "i \<in> node_ids db"
    using assms(1,3) by (auto simp: db_ok_def schema_defs node_refs_ok_def)
  then show ?thesis using assms(4) by (simp add: log_action_def insert_log_Inr)
qed

lemma move_node_succeeds:
  assumes ok: "db_ok db" and node: "get_node_row db nid = Some node" and top: "\<not> is_root_of_project db node"
    and np: "get_node_row db (mv_new_parent_id body) = Some new_parent" "n_project_id new_parent = n_project_id node"
    and oe: "scalar_one_or_none (parent_edges db nid) = Inr old_edge"
    and rev: "check_move_revisions node new_parent (old_parent_of db old_edge) body = Inr ()"
      "project_revision db (n_project_id node) = Some (mv_expected_project_revision body)"
    and fresh: "uuid env 0 \<notin> e_id ` set (edges db)" "uuid env 1 \<notin> l_id ` set (action_logs db)"
    and free: "(nid, mv_new_parent_id body) \<notin> (child_rel db)\<^sup>+"
  shows "\<exists>out db'. move_node env nid body db = Inr (out, db')"
proof -
  obtain db1 where claim: "claim_project_revision env (n_project_id node) (mv_expected_project_revision body) db = Inr db1"
    using rev(2) by (simp add: claim_project_Inr)
  note f = claim_frame [OF claim]
  have free1: "mv_new_parent_id body \<notin> set (descendants_of db1 nid)" using free by (simp add: set_descendants_of f(9))
  have ok1: "db_ok (remove_old_edge old_edge db1)" using ok_claim [OF claim ok] by (rule remove_old_edge_ok)
  have "uuid env 0 \<notin> e_id ` set (edges (remove_old_edge old_edge db1))"
    using fresh(1) f(2) by (cases old_edge) (auto simp: remove_old_edge_def delete_edge_row_def set_row_delete)
  then obtain db2 where ins: "insert_edge (new_edge env (uuid env 0) (n_project_id node) (mv_new_parent_id body) nid
      (child_edges (remove_old_edge old_edge db1) (mv_new_parent_id body) = [])) (remove_old_edge old_edge db1) = Inr db2"
    using insert_move_edge [OF ok1] owner_get [OF node] owner_get [OF np(1)] np(2) f(1) by fastforce
  have "db_ok db2" using owner_get [OF node] owner_get [OF np(1)] np(2) f(1) ok1 by (intro ok_insert_edge [OF ins]) simp_all
  moreover have "get_node_row db2 nid = Some node" using node insert_edge_frame(3) [OF ins] f(1) by (simp add: get_node_row_def)
  moreover have "action_logs db2 = action_logs db"
    using insert_edge_frame(6) [OF ins] f(5) by (cases old_edge) (simp_all add: remove_old_edge_def delete_edge_row_def)
  ultimately obtain db3 where "log_action env (uuid env 1) (n_project_id node) (Some nid) ''human'' ''move''
      [(''from_parent'', jopt (map_option e_from_node_id old_edge)), (''to_parent'', JStr (mv_new_parent_id body))] db2 = Inr db3"
    using log_action_succeeds [of db2 nid node] fresh(2) by metis
  then show ?thesis
    using node top np oe rev(1) claim free1 ins by (auto simp: move_node_def Let_def result_simps)
qed

section \<open>Properties\<close>

definition parents_in :: "db \<Rightarrow> ident \<Rightarrow> ident set" where
  "parents_in db x = {p. (p, x) \<in> child_rel db}"

text \<open>
  C8: The work list of both moves computes exactly the nodes strictly below the start, whatever the
  shape of the graph, cycles and shared children included.
\<close>

theorem descendants_are_transitive_closure:
  "set (descendants_of db x) = {y. (x, y) \<in> (child_rel db)\<^sup>+}"
  using set_descendants_of [of db x] by auto

text \<open>
  C4: A successful reparent moves one node and nothing else: the containment relation loses every
  edge into the node and gains the one from the new parent, so the node has that one parent;
  if the relation had no cycle it still has none.
\<close>

theorem reparent_node_keeps_tree:
  assumes "reparent_node env nid body db = Inr (out, db')" and "db_ok db"
  shows "child_rel db' = insert (mv_new_parent_id body, nid) {(x, y) \<in> child_rel db. y \<noteq> nid} \<and>
    parents_in db' nid = {mv_new_parent_id body} \<and> (acyclic (child_rel db) \<longrightarrow> acyclic (child_rel db'))"
proof -
  have rel: "child_rel db' = insert (mv_new_parent_id body, nid) {(x, y) \<in> child_rel db. y \<noteq> nid}"
    using assms by (intro move_child_rel)
  from assms(1) obtain node np op db2 where r: "relocated env nid body db node db2" "mv_new_parent_id body \<noteq> nid"
    "db' = touch_moved env node op np db2"
    by (rule reparent_node_relocates)
  then have "child_rel db' = child_rel db2" by (simp add: child_rel_def)
  then show ?thesis using rel relocated_acyclic [OF r(1) assms(2) r(2)] by (auto simp: parents_in_def)
qed

definition sample_move :: "ident \<Rightarrow> node_move_request" where
  "sample_move p = \<lparr>mv_new_parent_id = p, mv_expected_project_revision = 5, mv_expected_revision = 1,
     mv_expected_new_parent_revision = 1, mv_expected_old_parent_revision = Some 1\<rparr>"

lemmas sample_move_eval =
  sample_move_def is_root_of_project_def get_row_defs row_get_def parent_edges_def old_parent_of_def
  check_move_revisions_def check_entity_revision_def current_revision_def claim_project_revision_def
  descendants_of_def walk_descendants.simps child_edges_def remove_old_edge_def delete_edge_row_def row_delete_def
  insert_edge_def has_row_code mainline_taken_def row_update_def log_action_def insert_log_def opt_has_def
  result_simps sample_simps Let_def

theorem reparent_node_keeps_tree_witness:
  "\<exists>out db'. reparent_node sample_env ''c'' (sample_move ''b'') sample_db = Inr (out, db') \<and>
     parents_in db' ''c'' = {''b''}"
proof -
  have "\<exists>out db'. reparent_node sample_env ''c'' (sample_move ''b'') sample_db = Inr (out, db')"
    by (simp add: reparent_node_def sample_move_eval)
  then show ?thesis using reparent_node_keeps_tree [OF _ sample_ok] by (fastforce simp: sample_move_def)
qed

text \<open>
  The cycle check of reparenting is exact. With every other precondition met (not the root, the
  new parent in the project, the revisions as the client saw them, a fresh identifier), the
  request succeeds exactly when the new parent is neither the node nor below it.
\<close>

theorem reparent_node_refuses_only_cycles:
  assumes "db_ok db" "get_node_row db nid = Some node" "\<not> is_root_of_project db node"
    "get_node_row db (mv_new_parent_id body) = Some new_parent" "n_project_id new_parent = n_project_id node"
    "scalar_one_or_none (parent_edges db nid) = Inr old_edge"
    "check_move_revisions node new_parent (old_parent_of db old_edge) body = Inr ()"
    "project_revision db (n_project_id node) = Some (mv_expected_project_revision body)"
    "uuid env 0 \<notin> e_id ` set (edges db)"
  shows "(\<exists>out db'. reparent_node env nid body db = Inr (out, db')) \<longleftrightarrow>
    (nid, mv_new_parent_id body) \<notin> (child_rel db)\<^sup>*"
proof
  assume "\<exists>out db'. reparent_node env nid body db = Inr (out, db')"
  then obtain out db' where "reparent_node env nid body db = Inr (out, db')" by blast
  then show "(nid, mv_new_parent_id body) \<notin> (child_rel db)\<^sup>*"
    by (cases rule: reparent_node_relocates) (auto simp: rtrancl_eq_or_trancl dest: relocated_not_descendant)
qed (use reparent_node_succeeds [OF assms] in blast)

theorem reparent_node_refuses_only_cycles_witness:
  "(\<exists>out db'. reparent_node sample_env ''c'' (sample_move ''b'') sample_db = Inr (out, db')) \<longleftrightarrow>
     (''c'', ''b'') \<notin> (child_rel sample_db)\<^sup>*"
  using reparent_node_refuses_only_cycles [of sample_db "''c''" "sample_node ''c''" "sample_move ''b''" "sample_node ''b''"
      "Some (sample_edge ''e3'' ''a'' ''c'' True)" sample_env] sample_ok
  by (simp add: sample_move_eval project_revision_def)

lemma sample_acyclic: "acyclic (child_rel sample_db)"
proof (rule acyclicI_order [where f = "\<lambda>x. if x = ''r'' then 2 else if x = ''a'' then 1 else (0 :: nat)"])
  fix x y assume "(x, y) \<in> child_rel sample_db"
  then show "(if y = ''r'' then 2 else if y = ''a'' then 1 else (0 :: nat)) <
      (if x = ''r'' then 2 else if x = ''a'' then 1 else 0)"
    by (auto simp: child_rel_iff sample_simps)
qed



text \<open>
  Following the mainline from a project's root returns, with a path or an error, on every
  database whose containment relation has no cycle.
\<close>

theorem get_mainline_path_returns:
  assumes "acyclic (child_rel db)"
  shows "\<exists>res. get_mainline_path pid db = Some res"
  using mainline_walk_returns [OF assms] by (simp add: get_mainline_path_def split: option.splits)

theorem get_mainline_path_returns_witness:
  "acyclic (child_rel sample_db) \<and> (\<exists>res. get_mainline_path ''p'' sample_db = Some res)"
  using get_mainline_path_returns [OF sample_acyclic] sample_acyclic by blast

text \<open>
  What a walk that returned a path has seen: each node follows the one before on the mainline, exists, and
  has at most one parent edge (the check is skipped for the first node of a path).
\<close>

primrec walked :: "db \<Rightarrow> ident option \<Rightarrow> bool \<Rightarrow> ancestor_node list \<Rightarrow> bool" where
  "walked db current later [] \<longleftrightarrow> True"
| "walked db current later (n # ns) \<longleftrightarrow>
     current = Some (an_id n) \<and> truthy current \<and> get_node_row db (an_id n) \<noteq> None \<and>
     (later \<longrightarrow> (\<exists>e. scalar_one_or_none (parent_edges db (an_id n)) = Inr e)) \<and>
     walked db (next_mainline db (an_id n)) True ns"

lemma mainline_walk_path:
  assumes "mainline_walk db current acc = Some (Inr path)"
  shows "\<exists>ns. path = acc @ ns \<and> walked db current (acc \<noteq> []) ns"
proof -
  have "\<forall>path. res = Inr path \<longrightarrow> (\<exists>ns. path = acc @ ns \<and> walked db current (acc \<noteq> []) ns)"
    if w: "mainline_walk db current acc = Some res" for db current acc res
  proof (rule mainline_walk.raw_induct [where P = "\<lambda>db current acc res. \<forall>path. res = Inr path \<longrightarrow>
      (\<exists>ns. path = acc @ ns \<and> walked db current (acc \<noteq> []) ns)", OF _ w], goal_cases)
    case (1 walk db current acc res)
    show ?case
    proof (cases "truthy current \<and> get_node_row db (the current) \<noteq> None")
      case False
      then have "res = Inr acc" using 1(2) by (auto split: if_splits option.splits)
      then show ?thesis by (auto intro: exI [of _ "[]"])
    next
      case True
      then obtain i node where i: "current = Some i" "get_node_row db i = Some node" by (auto simp: truthy_def split: option.splits)
      show ?thesis
      proof (intro allI impI)
        fix path assume path: "res = Inr path"
        then obtain m where m: "entry_is_mainline db i acc = Inr m"
          and next_: "walk db (next_mainline db i) (acc @ [ancestor_entry node m]) = Some res"
          using 1(2) i True by (auto split: sum.splits)
        then obtain ns where ns: "path = (acc @ [ancestor_entry node m]) @ ns"
          "walked db (next_mainline db i) True ns" using 1(1) [OF next_] path by auto
        have "an_id (ancestor_entry node m) = i" using get_node_row_id [OF i(2)] by (simp add: ancestor_entry_def)
        moreover have "acc \<noteq> [] \<longrightarrow> (\<exists>e. scalar_one_or_none (parent_edges db i) = Inr e)"
          using m by (auto simp: entry_is_mainline_def and_then_eq_Inr)
        ultimately have "walked db current (acc \<noteq> []) (ancestor_entry node m # ns)" using ns(2) i True by simp
        then show "\<exists>ns. path = acc @ ns \<and> walked db current (acc \<noteq> []) ns" using ns(1) by auto
      qed
    qed
  qed
  then show ?thesis using assms by blast
qed

lemma walked_nodes:
  assumes "walked db current later ns" "n \<in> set ns"
  shows "truthy (Some (an_id n)) \<and> get_node_row db (an_id n) \<noteq> None \<and>
    (later \<or> current \<noteq> Some (an_id n) \<longrightarrow> (\<exists>e. scalar_one_or_none (parent_edges db (an_id n)) = Inr e))"
  using assms by (induction ns arbitrary: current later) auto

lemma walked_successor:
  assumes "walked db current later (ys @ [n])" "y \<in> an_id ` set ys"
  shows "\<exists>z \<in> an_id ` set (ys @ [n]). next_mainline db y = Some z"
  using assms
proof (induction ys arbitrary: current later)
  case (Cons m ys)
  then show ?case by (cases ys) auto
qed simp

lemma walked_prefix: "walked db current later (ys @ zs) \<Longrightarrow> walked db current later ys"
  by (induction ys arbitrary: current later) auto

lemma walked_reaches:
  "walked db (Some i) later ns \<Longrightarrow> n \<in> set ns \<Longrightarrow> (i, an_id n) \<in> (child_rel db)\<^sup>*"
proof (induction ns arbitrary: i later)
  case (Cons m ms)
  show ?case
  proof (cases "n \<in> set ms")
    case True
    then have "ms \<noteq> []" by auto
    then obtain j where j: "next_mainline db i = Some j" using Cons.prems(1) by (cases ms) auto
    then show ?thesis using Cons True next_mainline_child [OF j] by (auto intro: converse_rtrancl_into_rtrancl)
  qed (use Cons.prems in auto)
qed simp

lemma below_owned:
  assumes "db_ok db" "(i, j) \<in> (child_rel db)\<^sup>*" "owner (nodes db) i = Some pid"
  shows "owner (nodes db) j = Some pid"
  using assms(2) by induction (use assms(1,3) edge_owner in \<open>fastforce simp: child_rel_iff\<close>)+

lemma mainline_walk_diverges:
  assumes "\<And>y. y \<in> S \<Longrightarrow> truthy (Some y) \<and> get_node_row db y \<noteq> None \<and> (\<forall>path. \<exists>m. entry_is_mainline db y path = Inr m) \<and>
      (\<exists>z \<in> S. next_mainline db y = Some z)" and "i \<in> S"
  shows "mainline_walk db (Some i) path = None"
proof -
  have "d = db \<longrightarrow> current \<notin> Some ` S" if w: "mainline_walk d current p = Some res" for d current p res
  proof (rule mainline_walk.raw_induct [where P = "\<lambda>d current p res. d = db \<longrightarrow> current \<notin> Some ` S", OF _ w], goal_cases)
    case (1 walk d current path res)
    show ?case
    proof (intro impI notI)
      assume d: "d = db" and c: "current \<in> Some ` S"
      then obtain y z where y: "current = Some y" "y \<in> S" and z: "z \<in> S" "next_mainline db y = Some z" using assms(1) by blast
      then obtain p where "walk d (Some z) p = Some res"
        using 1(2) assms(1) [OF y(2)] by (auto simp: d split: sum.splits) (metis sum.distinct(1))
      then have "Some z \<notin> Some ` S" using 1(1) d by blast
      then show False using z(1) by blast
    qed
  qed
  then show ?thesis using assms(2) by (cases "mainline_walk db (Some i) path") blast+
qed

lemma create_mainline_edge:
  assumes ok: "db_ok db" and rows: "owner (nodes db) (ec_from_node_id data) = Some pid" "owner (nodes db) (ec_to_node_id data) = Some pid"
    "ec_from_node_id data \<noteq> ec_to_node_id data"
    and kind: "ec_relation_type data = child_of" "ec_is_mainline data"
    and new: "(ec_from_node_id data, ec_to_node_id data) \<notin> child_rel db"
    and rev: "project_revision db pid = Some (ec_expected_project_revision data)" and fresh: "uuid env 0 \<notin> e_id ` set (edges db)"
  shows "\<exists>db'. create_edge env data db = Inr (created_edge env data pid, db') \<and> nodes db' = nodes db \<and>
    projects db' = row_update p_id pid (claimed_project env) (projects db) \<and>
    edges db' = map (demoted_edge (ec_from_node_id data) None) (edges db) @ [created_edge env data pid]"
proof -
  let ?x = "ec_from_node_id data" and ?y = "ec_to_node_id data"
  let ?db1 = "projects_update (row_update p_id pid (claimed_project env)) db"
  let ?db2 = "demote_mainline_siblings env ?x None ?db1"
  obtain n m where nm: "get_node_row db ?x = Some n" "n_project_id n = pid" "get_node_row db ?y = Some m" "n_project_id m = pid"
    using rows(1,2) by (auto simp: owner_def get_node_row_def)
  have keys: "distinct (map e_id (edges ?db1))" using ok_keys(3) [OF ok] by simp
  have edges: "edges ?db2 = map (demoted_edge ?x None) (edges db)" using demote_edges [OF keys] by simp
  have "filter (\<lambda>e. e_from_node_id e = ?x \<and> e_to_node_id e = ?y \<and> e_relation_type e = child_of) (edges db) = []"
    using new by (auto simp: filter_empty_conv child_rel_iff is_child_edge_def)
  then have none: "scalar_one_or_none (filter (\<lambda>e. e_from_node_id e = ?x \<and> e_to_node_id e = ?y \<and>
      e_relation_type e = ec_relation_type data) (edges db)) = Inr None" by (simp add: kind(1))
  have "pid \<in> project_ids ?db1" using nm(1,2) ok
    by (auto simp: db_ok_def schema_defs node_refs_ok_def get_node_row_def keys_row_update dest!: row_get_Some)
  moreover have "?x \<in> node_ids db" "?y \<in> node_ids db" 
    using nm(1,3) row_get_Some [of n_id "nodes db"] unfolding get_node_row_def by (metis image_eqI)+
  moreover have "\<not> mainline_taken (edges ?db2) ?x" by (auto simp: edges mainline_taken_iff mainline_demoted truthy_def)
  moreover have "uuid env 0 \<notin> e_id ` set (edges ?db2)" using fresh by (simp add: edges image_image)
  ultimately have ins: "insert_edge (created_edge env data pid) ?db2 = Inr (edges_update (\<lambda>es. es @ [created_edge env data pid]) ?db2)"
    by (simp add: insert_edge_Inr created_edge_def normalize_edge_def)
  have claim: "claim_project_revision env (n_project_id n) (ec_expected_project_revision data) db = Inr ?db1"
    using rev nm(2) by (simp add: claim_project_Inr)
  have "create_edge env data db = Inr (created_edge env data pid, edges_update (\<lambda>es. es @ [created_edge env data pid]) ?db2)"
    using nm rows(3) kind none claim ins by (simp add: create_edge_def Let_def created_edge_def and_then_def)
  then show ?thesis by (intro exI [of _ "edges_update (\<lambda>es. es @ [created_edge env data pid]) ?db2"]) (simp add: edges)
qed

lemma demoted_elsewhere: "e_from_node_id e \<noteq> x \<Longrightarrow> demoted_edge x None e = e"
  by (simp add: demoted_edge_def)

lemma next_after_redirect:
  assumes "edges db' = map (demoted_edge x None) (edges db) @ [e]" "e_from_node_id e = x" "mainline_edge e"
  shows "next_mainline db' x = Some (e_to_node_id e)" "y \<noteq> x \<Longrightarrow> next_mainline db' y = next_mainline db y"
proof -
  have "filter (\<lambda>e. e_from_node_id e = x \<and> mainline_edge e) (map (demoted_edge x None) (edges db)) = []"
    by (auto simp: filter_empty_conv mainline_demoted truthy_def)
  then show "next_mainline db' x = Some (e_to_node_id e)" using assms by (simp add: next_mainline_def)
  assume "y \<noteq> x"
  then have "filter (\<lambda>e. e_from_node_id e = y \<and> mainline_edge e) (map (demoted_edge x None) es) =
      filter (\<lambda>e. e_from_node_id e = y \<and> mainline_edge e) es" for es
    by (induction es) (auto simp: demoted_elsewhere)
  then show "next_mainline db' y = next_mainline db y" using assms \<open>y \<noteq> x\<close> by (simp add: next_mainline_def)
qed

lemma parents_after_redirect:
  assumes "edges db' = map (demoted_edge x None) (edges db) @ [e]" "is_child_edge e"
  shows "parent_edges db' y = map (demoted_edge x None) (parent_edges db y) @ (if e_to_node_id e = y then [e] else [])"
  using assms by (simp add: parent_edges_def filter_map comp_def)

lemma scalar_map: "scalar_one_or_none rs = Inr e \<Longrightarrow> \<exists>d. scalar_one_or_none (map f rs) = Inr d"
  by (cases rs rule: scalar_one_or_none.cases) auto

text \<open>
  The mainline bent back from one of its nodes to the root: nothing on it lets the walk stop.
\<close>

lemma redirected_mainline_diverges:
  assumes walked: "walked db (Some rt) False path" and x: "x \<in> an_id ` set path" "x \<noteq> rt" and "parent_edges db rt = []"
    and db': "edges db' = map (demoted_edge x None) (edges db) @ [e]" "nodes db' = nodes db"
    and e: "e_from_node_id e = x" "e_to_node_id e = rt" "mainline_edge e"
  shows "mainline_walk db' (Some rt) [] = None"
proof -
  have "\<exists>n \<in> set path. an_id n = x" using x(1) by auto
  then obtain ys n zs where split: "path = ys @ n # zs" "an_id n = x" "\<forall>y \<in> set ys. an_id y \<noteq> x"
    using split_list_first_prop [of path "\<lambda>n. an_id n = x"] by blast
  define S where "S = an_id ` set (ys @ [n])"
  have w: "walked db (Some rt) False (ys @ [n])" using walked walked_prefix [of db _ _ "ys @ [n]" zs] by (simp add: split(1))
  have ys: "ys \<noteq> []" using w split(2) x(2) by (cases ys) auto
  then have rt: "rt \<in> S" using w by (cases ys) (auto simp: S_def)
  have child: "is_child_edge e" using e(3) by (simp add: mainline_edge_def)
  have "truthy (Some y) \<and> get_node_row db' y \<noteq> None \<and> (\<forall>path. \<exists>m. entry_is_mainline db' y path = Inr m) \<and>
      (\<exists>z \<in> S. next_mainline db' y = Some z)" if y: "y \<in> S" for y
  proof (intro conjI allI)
    obtain k where k: "k \<in> set (ys @ [n])" "an_id k = y" using y unfolding S_def by blast
    note seen = walked_nodes [OF w k(1), unfolded k(2)]
    show "truthy (Some y)" "get_node_row db' y \<noteq> None" using seen db'(2) by (simp_all add: get_node_row_def)
    have "\<exists>d. scalar_one_or_none (parent_edges db' y) = Inr d"
    proof (cases "y = rt")
      case True
      then show ?thesis using parents_after_redirect [OF db'(1) child] assms(4) e(2) by simp
    next
      case False
      then show ?thesis using parents_after_redirect [OF db'(1) child] e(2) seen scalar_map by fastforce
    qed
    then show "\<exists>m. entry_is_mainline db' y path = Inr m" for path
      by (auto simp: entry_is_mainline_def and_then_def)
    show "\<exists>z \<in> S. next_mainline db' y = Some z"
    proof (cases "y = x")
      case True
      then show ?thesis using next_after_redirect(1) [OF db'(1) e(1,3)] e(2) rt by simp
    next
      case False
      then have "y \<in> an_id ` set ys" using k split(2) by auto
      then have "\<exists>z \<in> S. next_mainline db y = Some z" unfolding S_def by (rule walked_successor [OF w])
      then show ?thesis using next_after_redirect(2) [OF db'(1) e(1,3) False] by simp
    qed
  qed
  then show ?thesis using rt by (rule mainline_walk_diverges)
qed

text \<open>
  C12: Creating a containment edge checks neither for cycles nor for a second parent. Take any project whose
  mainline path can be read and whose root has no parent, and any later node of that path: the request for a
  mainline edge from that node back to the root is accepted (with the current revision and a fresh
  identifier), the containment relation then has a cycle through the root, and from then on reading the
  project's mainline path never returns.
\<close>

theorem create_edge_can_hang_mainline_path:
  assumes "db_ok db" "get_project_row db pid = Some project" "p_root_node_id project = Some rt" "parent_edges db rt = []"
    "get_mainline_path pid db = Some (Inr path)" "x \<in> an_id ` set path" "x \<noteq> rt"
    "ec_from_node_id data = x" "ec_to_node_id data = rt" "ec_relation_type data = child_of" "ec_is_mainline data"
    "ec_expected_project_revision data = p_revision project" "uuid env 0 \<notin> e_id ` set (edges db)"
  shows "\<exists>edge db'. create_edge env data db = Inr (edge, db') \<and> (rt, rt) \<in> (child_rel db')\<^sup>+ \<and>
    get_mainline_path pid db' = None"
proof -
  have rt: "truthy (Some rt)" and run: "mainline_walk db (Some rt) [] = Some (Inr path)"
    using assms(2,3,5,6) by (auto simp: get_mainline_path_def split: if_splits)
  have w: "walked db (Some rt) False path" using mainline_walk_path [OF run] by simp
  have down: "(rt, x) \<in> (child_rel db)\<^sup>*" using walked_reaches [OF w] assms(6) by blast
  have p: "project \<in> set (projects db)" "p_id project = pid" using assms(2) by (auto simp: get_project_row_def dest: row_get_Some)
  have own: "owner (nodes db) rt = Some pid" using assms(1,3) p by (auto simp: db_ok_def ownership_ok_def roots_owned_def)
  have "(x, rt) \<notin> child_rel db" using assms(4) by (auto simp: child_rel_iff parent_edges_def filter_empty_conv)
  then obtain db' where c: "create_edge env data db = Inr (created_edge env data pid, db')" and db': "nodes db' = nodes db"
    "projects db' = row_update p_id pid (claimed_project env) (projects db)"
    "edges db' = map (demoted_edge x None) (edges db) @ [created_edge env data pid]"
    using create_mainline_edge [of db data pid env] assms below_owned [OF assms(1) down own] own
    by (auto simp: project_revision_def)
  have e: "e_from_node_id (created_edge env data pid) = x" "e_to_node_id (created_edge env data pid) = rt"
    "mainline_edge (created_edge env data pid)"
    using assms(8-11) by (simp_all add: created_edge_def mainline_edge_def is_child_edge_def)
  have "child_rel db' = insert (x, rt) (child_rel db)"
    using e by (fastforce simp: set_eq_iff child_rel_iff db'(3) mainline_edge_def)
  then have "(rt, rt) \<in> (child_rel db')\<^sup>+" using down rtrancl_mono [of "child_rel db" "child_rel db'"] by (auto intro: rtrancl_into_trancl1)
  moreover have "mainline_walk db' (Some rt) [] = None"
    by (rule redirected_mainline_diverges [OF w assms(6,7,4) db'(3,1) e])
  then have "get_mainline_path pid db' = None"
    using assms(2,3) rt by (simp add: get_mainline_path_def get_project_row_def db'(2) row_get_update claimed_project_def)
  ultimately show ?thesis using c by blast
qed

definition sample_cycle_edge :: edge_create where
  "sample_cycle_edge = \<lparr>ec_expected_project_revision = 5, ec_from_node_id = ''c'', ec_to_node_id = ''r'',
     ec_relation_type = child_of, ec_weight = 1, ec_note = [], ec_is_mainline = True\<rparr>"

theorem create_edge_can_hang_mainline_path_witness:
  "\<exists>edge db'. create_edge sample_env sample_cycle_edge sample_db = Inr (edge, db') \<and> (''r'', ''r'') \<in> (child_rel db')\<^sup>+ \<and>
     get_mainline_path ''p'' db' = None"
proof -
  have "case get_mainline_path ''p'' sample_db of Some (Inr path) \<Rightarrow> ''c'' \<in> an_id ` set path | _ \<Rightarrow> False" 
    by (simp add: get_mainline_path_def get_row_defs row_get_def truthy_def mainline_walk.simps entry_is_mainline_def parent_edges_def
        next_mainline_def ancestor_entry_def result_simps sample_simps)
  then obtain path where path: "get_mainline_path ''p'' sample_db = Some (Inr path)" "''c'' \<in> an_id ` set path"
    by (auto split: option.splits sum.splits)
  show ?thesis
    by (rule create_edge_can_hang_mainline_path [OF sample_ok _ _ _ path, of sample_project])
      (simp_all add: get_row_defs row_get_def parent_edges_def sample_cycle_edge_def sample_simps)
qed

end
