(* ===== verification/Branching.thy ===== *)
theory Branching
  imports Governance
begin

text \<open>
  Branch creation by deep copy (\<open>api/branching.py\<close>): the containment subtree of a node is walked in
  pre-order, every node gets a copy with a fresh identifier inside the new branch, every content
  block and every containment edge between copied nodes is copied along. The rows copied from
  are never written.
\<close>

section \<open>The subtree to copy\<close>

definition children_in :: "db \<Rightarrow> ident \<Rightarrow> ident \<Rightarrow> ident list" where
  "children_in db pid x =
     map e_to_node_id (filter (\<lambda>e. e_project_id e = pid \<and> is_child_edge e \<and> e_from_node_id e = x) (edges db))"

lemma children_in_targets: "set (children_in db pid x) \<subseteq> edge_targets db"
  by (auto simp: children_in_def edge_targets_def)

text \<open>The loop \<open>while stack\<close>; the list is kept with the end of the Python stack first.\<close>

function copy_walk :: "db \<Rightarrow> ident \<Rightarrow> ident list \<Rightarrow> ident list \<Rightarrow> ident list" where
  "copy_walk db pid stack seen =
     (case stack of
        [] \<Rightarrow> seen
      | x # rest \<Rightarrow>
          if x \<in> set seen then copy_walk db pid rest seen
          else copy_walk db pid (children_in db pid x @ rest) (seen @ [x]))"
  by pat_completeness auto

termination
proof (relation "measures [\<lambda>(db, pid, stack, seen). card ((set stack \<union> edge_targets db) - set seen),
    \<lambda>(db, pid, stack, seen). length stack]")
  fix db and pid x :: ident and stack rest seen :: "ident list"
  assume s: "stack = x # rest"
  let ?m = "measures [\<lambda>(db, pid, stack, seen). card ((set stack \<union> edge_targets db) - set seen),
    \<lambda>(db, pid, stack, seen). length stack]"
  {
    assume "x \<in> set seen"
    then have "(set stack \<union> edge_targets db) - set seen = (set rest \<union> edge_targets db) - set seen" using s by auto
    then show "((db, pid, rest, seen), db, pid, stack, seen) \<in> ?m" using s by simp
  next
    assume "x \<notin> set seen"
    then have "(set (children_in db pid x @ rest) \<union> edge_targets db) - set (seen @ [x]) \<subset> (set stack \<union> edge_targets db) - set seen"
      using s children_in_targets [of db pid x] by auto
    then have "card ((set (children_in db pid x @ rest) \<union> edge_targets db) - set (seen @ [x])) <
        card ((set stack \<union> edge_targets db) - set seen)"
      by (intro psubset_card_mono) simp_all
    then show "((db, pid, children_in db pid x @ rest, seen @ [x]), db, pid, stack, seen) \<in> ?m" by simp
  }
qed simp

declare copy_walk.simps [simp del]

definition copied_subtree :: "db \<Rightarrow> ident \<Rightarrow> ident \<Rightarrow> ident list" where
  "copied_subtree db pid source = copy_walk db pid [source] []"

section \<open>The copies\<close>

definition copy_node :: "env \<Rightarrow> ident \<Rightarrow> ident \<Rightarrow> string \<Rightarrow> ident \<Rightarrow> node \<Rightarrow> node" where
  "copy_node env pid bid actor i old =
     node_defaults (old\<lparr>n_id := i, n_project_id := pid, n_tags := json_or (n_tags old) (JList []), n_file_paths := json_or (n_file_paths old) (JList []),
         n_branch_id := Some bid, n_created_by := Some actor,
         n_last_edited_by := Some (or_default (n_last_edited_by old) actor),
         n_created_at := now env, n_updated_at := now env, n_revision := 1\<rparr>)"

definition copy_block :: "env \<Rightarrow> string \<Rightarrow> ident \<Rightarrow> ident \<Rightarrow> content_block \<Rightarrow> content_block" where
  "copy_block env actor i nid old =
     \<lparr>b_id = i, b_node_id = nid, b_block_type = b_block_type old, b_content = b_content old,
      b_order_index = b_order_index old, b_created_by = Some actor, b_created_at = now env, b_updated_at = now env,
      b_revision = 1\<rparr>"

definition copy_edge :: "env \<Rightarrow> ident \<Rightarrow> (ident \<Rightarrow> ident) \<Rightarrow> ident \<Rightarrow> edge \<Rightarrow> edge" where
  "copy_edge env pid m i old =
     \<lparr>e_id = i, e_project_id = pid, e_from_node_id = m (e_from_node_id old), e_to_node_id = m (e_to_node_id old),
      e_relation_type = child_of, e_weight = e_weight old, e_note = e_note old, e_is_mainline = e_is_mainline old,
      e_created_at = now env, e_revision = 1\<rparr>"

fun position :: "'a \<Rightarrow> 'a list \<Rightarrow> nat" where
  "position x [] = 0"
| "position x (y # ys) = (if x = y then 0 else Suc (position x ys))"

text \<open>\<open>id_map\<close>: identifier 0 is the branch, then one per node of the subtree.\<close>

definition id_map :: "env \<Rightarrow> ident list \<Rightarrow> ident \<Rightarrow> ident" where
  "id_map env subtree x = uuid env (1 + position x subtree)"

definition subtree_blocks :: "db \<Rightarrow> ident list \<Rightarrow> content_block list" where
  "subtree_blocks db subtree =
     concat (map (\<lambda>x. sort_key (\<lambda>b. (b_order_index b, b_id b)) (filter (\<lambda>b. b_node_id b = x) (content_blocks db))) subtree)"

definition subtree_edges :: "db \<Rightarrow> ident \<Rightarrow> ident list \<Rightarrow> edge list" where
  "subtree_edges db pid subtree =
     filter (\<lambda>e. e_project_id e = pid \<and> is_child_edge e \<and> e_from_node_id e \<in> set subtree \<and> e_to_node_id e \<in> set subtree)
       (edges db)"

definition deep_copy_branch ::
  "env \<Rightarrow> ident \<Rightarrow> ident \<Rightarrow> string \<Rightarrow> string \<Rightarrow> string \<Rightarrow> db \<Rightarrow> (branch \<times> nat \<times> db) result" where
  "deep_copy_branch env pid source name description actor db =
     (case get_node_row db source of
        None \<Rightarrow> Inl (HTTPException 422 ''INVALID_SOURCE'')
      | Some src \<Rightarrow>
          if n_project_id src \<noteq> pid then Inl (HTTPException 422 ''INVALID_SOURCE'')
          else
            let bid = uuid env 0;
                branch = \<lparr>br_id = bid, br_project_id = pid, br_name = name, br_description = Some description,
                  br_source_node_id = Some source, br_status = ''active'', br_created_at = now env, br_revision = 1\<rparr>;
                subtree = copied_subtree db pid source;
                olds = filter (\<lambda>n. n_project_id n = pid \<and> n_id n \<in> set subtree) (nodes db);
                m = id_map env subtree;
                blocks = subtree_blocks db subtree;
                es = subtree_edges db pid subtree;
                k = 1 + length subtree
            in if length olds \<noteq> length subtree then Inl (HTTPException 422 ''INVALID_SUBTREE'')
               else
                 and_then (insert_branch branch db) (\<lambda>db1.
                 and_then (fold_result (\<lambda>x db'. case get_node_row db x of
                     None \<Rightarrow> Inl KeyError
                   | Some old \<Rightarrow> insert_node (copy_node env pid bid actor (m x) old) db') subtree db1) (\<lambda>db2.
                 and_then (fold_result (\<lambda>(j, b). insert_block (copy_block env actor (uuid env (k + j)) (m (b_node_id b)) b))
                     (List.enumerate 0 blocks) db2) (\<lambda>db3.
                 and_then (fold_result (\<lambda>(j, e). insert_edge (copy_edge env pid m (uuid env (k + length blocks + j)) e))
                     (List.enumerate 0 es) db3) (\<lambda>db4.
                   Inr (branch, k + length blocks + length es, db4))))))"

section \<open>What the walk collects\<close>

definition child_rel_in :: "db \<Rightarrow> ident \<Rightarrow> (ident \<times> ident) set" where
  "child_rel_in db pid = {(x, y). y \<in> set (children_in db pid x)}"

lemma copy_walk_reachable:
  assumes "set seen \<subseteq> (child_rel_in db pid)\<^sup>* `` {r}" "set stack \<subseteq> (child_rel_in db pid)\<^sup>* `` {r}"
    "child_rel_in db pid `` set seen \<subseteq> set seen \<union> set stack" "r \<in> set seen \<union> set stack"
  shows "set (copy_walk db pid stack seen) = (child_rel_in db pid)\<^sup>* `` {r}"
  using assms
proof (induction db pid stack seen rule: copy_walk.induct)
  case (1 db pid stack seen)
  show ?case
  proof (cases stack)
    case Nil
    have "y \<in> set seen" if "(r, y) \<in> (child_rel_in db pid)\<^sup>*" for y
      using that by induction (use 1(5,6) Nil in auto)
    then show ?thesis using 1(3) Nil by (auto simp: copy_walk.simps [of _ _ "[]"])
  next
    case (Cons x rest)
    show ?thesis
    proof (cases "x \<in> set seen")
      case True
      then show ?thesis using 1(1) [OF Cons True] 1(3-6) Cons by (auto simp: copy_walk.simps [of _ _ "x # rest"])
    next
      case False
      have x: "(r, x) \<in> (child_rel_in db pid)\<^sup>*" using 1(4) Cons by auto
      then have "set (children_in db pid x) \<subseteq> (child_rel_in db pid)\<^sup>* `` {r}"
        by (auto simp: child_rel_in_def intro: rtrancl_into_rtrancl)
      then show ?thesis
        using 1(2) [OF Cons False] 1(3-6) Cons False x by (auto simp: copy_walk.simps [of _ _ "x # rest"] child_rel_in_def)
    qed
  qed
qed

lemma distinct_copy_walk: "distinct seen \<Longrightarrow> distinct (copy_walk db pid stack seen)"
proof (induction db pid stack seen rule: copy_walk.induct)
  case (1 db pid stack seen)
  then show ?case by (subst copy_walk.simps) (auto split: list.splits)
qed

lemma distinct_copied_subtree: "distinct (copied_subtree db pid x)"
  by (simp add: copied_subtree_def distinct_copy_walk)

lemma set_copied_subtree: "set (copied_subtree db pid x) = (child_rel_in db pid)\<^sup>* `` {x}"
  unfolding copied_subtree_def by (rule copy_walk_reachable) auto

lemma child_rel_in_project:
  assumes "db_ok db" "owner (nodes db) x = Some pid"
  shows "(x, y) \<in> child_rel_in db pid \<longleftrightarrow> (x, y) \<in> child_rel db"
    and "(x, y) \<in> child_rel db \<Longrightarrow> owner (nodes db) y = Some pid"
proof -
  have "e_project_id e = pid" if "e \<in> set (edges db)" "e_from_node_id e = x" for e
    using edge_owner(1) [OF assms(1) that(1)] assms(2) that(2) by simp
  then show "(x, y) \<in> child_rel_in db pid \<longleftrightarrow> (x, y) \<in> child_rel db"
    by (auto simp: child_rel_in_def children_in_def child_rel_iff)
  show "owner (nodes db) y = Some pid" if "(x, y) \<in> child_rel db"
    using that edge_owner [OF assms(1)] assms(2) by (fastforce simp: child_rel_iff)
qed

lemma copied_subtree_reach:
  assumes "db_ok db" "owner (nodes db) x = Some pid"
  shows "set (copied_subtree db pid x) = (child_rel db)\<^sup>* `` {x}" "y \<in> set (copied_subtree db pid x) \<Longrightarrow> owner (nodes db) y = Some pid"
proof -
  have 1: "(x, y) \<in> (child_rel db)\<^sup>* \<and> owner (nodes db) y = Some pid" if "(x, y) \<in> (child_rel_in db pid)\<^sup>*" for y
    using that
  proof induction
    case (step y z)
    then show ?case using child_rel_in_project [OF assms(1), of y pid z] by (auto intro: rtrancl_into_rtrancl)
  qed (use assms(2) in simp)
  have 2: "(x, y) \<in> (child_rel_in db pid)\<^sup>*" if "(x, y) \<in> (child_rel db)\<^sup>*" for y
    using that
  proof induction
    case (step y z)
    then show ?case using 1 [of y] child_rel_in_project(1) [OF assms(1), of y pid z] by (auto intro: rtrancl_into_rtrancl)
  qed simp
  show "set (copied_subtree db pid x) = (child_rel db)\<^sup>* `` {x}" using 1 2 by (auto simp: set_copied_subtree)
  show "owner (nodes db) y = Some pid" if "y \<in> set (copied_subtree db pid x)" using that 1 by (auto simp: set_copied_subtree)
qed

section \<open>What the copy adds\<close>

lemma fold_insert_nodes:
  "fold_result (\<lambda>x db'. case g x of None \<Rightarrow> Inl KeyError | Some old \<Rightarrow> insert_node (f x old) db') xs db = Inr db' \<Longrightarrow>
     db' = nodes_update (\<lambda>rs. rs @ map (\<lambda>x. f x (the (g x))) xs) db"
proof (induction xs arbitrary: db)
  case (Cons x xs)
  then obtain old db1 where 1: "g x = Some old" "insert_node (f x old) db = Inr db1"
    "fold_result (\<lambda>x db'. case g x of None \<Rightarrow> Inl KeyError | Some old \<Rightarrow> insert_node (f x old) db') xs db1 = Inr db'"
    by (auto simp: result_simps)
  have "db1 = nodes_update (\<lambda>rs. rs @ [f x old]) db" using 1(2) by (simp add: insert_node_Inr)
  then show ?case using Cons.IH [OF 1(3)] 1(1) by (simp add: comp_def)
qed simp

lemma fold_insert_blocks:
  "fold_result (\<lambda>(j, b). insert_block (f j b)) xs db = Inr db' \<Longrightarrow>
     db' = content_blocks_update (\<lambda>rs. rs @ map (\<lambda>(j, b). f j b) xs) db"
proof (induction xs arbitrary: db)
  case (Cons x xs)
  obtain j b where x: "x = (j, b)" by fastforce
  with Cons.prems obtain db1 where 1: "insert_block (f j b) db = Inr db1"
    "fold_result (\<lambda>(j, b). insert_block (f j b)) xs db1 = Inr db'" by (auto simp: result_simps)
  have "db1 = content_blocks_update (\<lambda>rs. rs @ [f j b]) db" using 1(1) by (simp add: insert_block_Inr)
  then show ?case using Cons.IH [OF 1(2)] by (simp add: x comp_def)
qed simp

lemma fold_insert_edges:
  "fold_result (\<lambda>(j, b). insert_edge (f j b)) xs db = Inr db' \<Longrightarrow>
     db' = edges_update (\<lambda>rs. rs @ map (\<lambda>(j, b). normalize_edge (f j b)) xs) db"
proof (induction xs arbitrary: db)
  case (Cons x xs)
  obtain j b where x: "x = (j, b)" by fastforce
  with Cons.prems obtain db1 where 1: "insert_edge (f j b) db = Inr db1"
    "fold_result (\<lambda>(j, b). insert_edge (f j b)) xs db1 = Inr db'" by (auto simp: result_simps)
  have "db1 = edges_update (\<lambda>rs. rs @ [normalize_edge (f j b)]) db" using 1(1) by (simp add: insert_edge_Inr)
  then show ?case using Cons.IH [OF 1(2)] by (simp add: x comp_def)
qed simp

lemma deep_copy_steps:
  assumes "deep_copy_branch env pid source name description actor db = Inr (branch, k, db')"
  obtains src db1 db2 db3 where
    "get_node_row db source = Some src" "n_project_id src = pid"
    "length (filter (\<lambda>n. n_project_id n = pid \<and> n_id n \<in> set (copied_subtree db pid source)) (nodes db)) =
       length (copied_subtree db pid source)"
    "branch = \<lparr>br_id = uuid env 0, br_project_id = pid, br_name = name, br_description = Some description,
       br_source_node_id = Some source, br_status = ''active'', br_created_at = now env, br_revision = 1\<rparr>"
    "insert_branch branch db = Inr db1"
    "fold_result (\<lambda>x db'. case get_node_row db x of None \<Rightarrow> Inl KeyError
       | Some old \<Rightarrow> insert_node (copy_node env pid (uuid env 0) actor (id_map env (copied_subtree db pid source) x) old) db')
       (copied_subtree db pid source) db1 = Inr db2"
    "fold_result (\<lambda>(j, b). insert_block (copy_block env actor (uuid env (1 + length (copied_subtree db pid source) + j))
         (id_map env (copied_subtree db pid source) (b_node_id b)) b))
       (List.enumerate 0 (subtree_blocks db (copied_subtree db pid source))) db2 = Inr db3"
    "fold_result (\<lambda>(j, e). insert_edge (copy_edge env pid (id_map env (copied_subtree db pid source))
         (uuid env (1 + length (copied_subtree db pid source) + length (subtree_blocks db (copied_subtree db pid source)) + j)) e))
       (List.enumerate 0 (subtree_edges db pid (copied_subtree db pid source))) db3 = Inr db'"
  using assms by (auto simp: deep_copy_branch_def Let_def result_simps split: if_splits)

lemma deep_copy_appends:
  assumes "deep_copy_branch env pid source name description actor db = Inr (branch, k, db')"
  defines "subtree \<equiv> copied_subtree db pid source"
  shows "nodes db' = nodes db @ map (\<lambda>x. copy_node env pid (uuid env 0) actor (id_map env subtree x) (the (get_node_row db x))) subtree"
    "content_blocks db' = content_blocks db @ map (\<lambda>(j, b). copy_block env actor (uuid env (1 + length subtree + j))
       (id_map env subtree (b_node_id b)) b) (List.enumerate 0 (subtree_blocks db subtree))"
    "edges db' = edges db @ map (\<lambda>(j, e). normalize_edge (copy_edge env pid (id_map env subtree)
       (uuid env (1 + length subtree + length (subtree_blocks db subtree) + j)) e)) (List.enumerate 0 (subtree_edges db pid subtree))"
    "branches db' = branches db @ [branch]" "projects db' = projects db" "action_logs db' = action_logs db"
proof -
  from assms(1) obtain db1 db2 db3 where 1: "insert_branch branch db = Inr db1"
    and 2: "fold_result (\<lambda>x db'. case get_node_row db x of None \<Rightarrow> Inl KeyError
       | Some old \<Rightarrow> insert_node (copy_node env pid (uuid env 0) actor (id_map env subtree x) old) db') subtree db1 = Inr db2"
    and 3: "fold_result (\<lambda>(j, b). insert_block (copy_block env actor (uuid env (1 + length subtree + j))
         (id_map env subtree (b_node_id b)) b)) (List.enumerate 0 (subtree_blocks db subtree)) db2 = Inr db3"
    and 4: "fold_result (\<lambda>(j, e). insert_edge (copy_edge env pid (id_map env subtree)
         (uuid env (1 + length subtree + length (subtree_blocks db subtree) + j)) e))
       (List.enumerate 0 (subtree_edges db pid subtree)) db3 = Inr db'"
    unfolding subtree_def by (rule deep_copy_steps)
  note eqs = fold_insert_edges [OF 4] fold_insert_blocks [OF 3] fold_insert_nodes [OF 2]
  show "nodes db' = nodes db @ map (\<lambda>x. copy_node env pid (uuid env 0) actor (id_map env subtree x) (the (get_node_row db x))) subtree"
    "content_blocks db' = content_blocks db @ map (\<lambda>(j, b). copy_block env actor (uuid env (1 + length subtree + j))
       (id_map env subtree (b_node_id b)) b) (List.enumerate 0 (subtree_blocks db subtree))"
    "edges db' = edges db @ map (\<lambda>(j, e). normalize_edge (copy_edge env pid (id_map env subtree)
       (uuid env (1 + length subtree + length (subtree_blocks db subtree) + j)) e)) (List.enumerate 0 (subtree_edges db pid subtree))"
    "branches db' = branches db @ [branch]" "projects db' = projects db" "action_logs db' = action_logs db"
    using 1 by (simp_all add: eqs insert_branch_Inr)
qed

lemma copy_simps [simp]:
  "n_id (copy_node env pid bid actor i old) = i" "n_project_id (copy_node env pid bid actor i old) = pid"
  "n_branch_id (copy_node env pid bid actor i old) = Some bid" "n_revision (copy_node env pid bid actor i old) = 1"
  "b_id (copy_block env actor i nid b) = i" "b_node_id (copy_block env actor i nid b) = nid"
  "e_id (copy_edge env pid m i e) = i" "e_project_id (copy_edge env pid m i e) = pid"
  "e_from_node_id (copy_edge env pid m i e) = m (e_from_node_id e)" "e_to_node_id (copy_edge env pid m i e) = m (e_to_node_id e)"
  "is_child_edge (copy_edge env pid m i e)" "mainline_edge (copy_edge env pid m i e) = e_is_mainline e"
  by (simp_all add: copy_node_def copy_block_def copy_edge_def is_child_edge_def mainline_edge_def)

lemma deep_copy_ok:
  assumes "deep_copy_branch env pid source name description actor db = Inr (branch, k, db')" "db_ok db" "uuid env 0 \<noteq> []"
  shows "db_ok db'"
  using assms(1)
proof (cases rule: deep_copy_steps)
  case (1 src db1 db2 db3)
  let ?s = "copied_subtree db pid source"
  have br: "br_id branch = uuid env 0" "br_project_id branch = pid" by (simp_all add: 1(4))
  have "db_ok db1 \<and> branch_owner (branches db1) (uuid env 0) = Some pid"
    using 1(5) ok_insert_branch [OF 1(5) _ assms(2)] assms(3) br
    by (auto simp: insert_branch_Inr branch_owner_def row_get_append row_get_single row_get_None [symmetric] split: option.splits)
  then have "db_ok db2 \<and> branch_owner (branches db2) (uuid env 0) = Some pid"
    by (rule fold_result_invariant [OF 1(6)]) (auto intro: ok_insert_node simp: insert_node_frame split: option.splits)
  then have "db_ok db3"
    by (intro fold_result_invariant [OF 1(7), where I = db_ok]) (auto intro: ok_insert_block)
  moreover have "nodes db3 = nodes db @ map (\<lambda>x. copy_node env pid (uuid env 0) actor (id_map env ?s x) (the (get_node_row db x))) ?s"
    using deep_copy_appends(1) [OF assms(1)] fold_insert_edges [OF 1(8)] by simp
  then have copies: "\<exists>n \<in> set (nodes db3). n_id n = id_map env ?s x \<and> n_project_id n = pid" if "x \<in> set ?s" for x
    using that by force
  ultimately have "db_ok db' \<and> nodes db' = nodes db3"
  proof (intro fold_result_invariant [OF 1(8), where I = "\<lambda>d. db_ok d \<and> nodes d = nodes db3"])
    fix je d d'
    assume je: "je \<in> set (List.enumerate 0 (subtree_edges db pid ?s))" and d: "db_ok d \<and> nodes d = nodes db3"
      and ins: "(case je of (j, e) \<Rightarrow> insert_edge (copy_edge env pid (id_map env ?s)
         (uuid env (1 + length ?s + length (subtree_blocks db ?s) + j)) e)) d = Inr d'"
    obtain j e where "je = (j, e)" by fastforce
    with je have e: "e_from_node_id e \<in> set ?s" "e_to_node_id e \<in> set ?s"
      by (auto simp: in_set_enumerate_eq subtree_edges_def dest: nth_mem)
    have own: "owner (nodes d) (id_map env ?s x) = Some pid" if "x \<in> set ?s" for x
      using copies [OF that] d ok_keys(2) [of d] by (auto simp: owner_def) (metis row_get_unique)
    show "db_ok d' \<and> nodes d' = nodes db3"
      using ins d own [OF e(1)] own [OF e(2)] \<open>je = (j, e)\<close> by (auto intro: ok_insert_edge simp: insert_edge_frame(3))
  qed simp
  then show ?thesis by simp
qed

lemma map_enumerate_snd: "map (\<lambda>x. G (snd x)) (List.enumerate n xs) = map G xs"
  by (induction xs arbitrary: n) auto

lemma child_rel_append:
  assumes "edges db' = edges db @ es" "\<And>e. e \<in> set es \<Longrightarrow> is_child_edge e"
  shows "child_rel db' = child_rel db \<union> set (map (\<lambda>e. (e_from_node_id e, e_to_node_id e)) es)"
  using assms by (auto simp: child_rel_def)

lemma deep_copy_child_rel:
  assumes "deep_copy_branch env pid source name description actor db = Inr (branch, k, db')" "db_ok db"
  defines "m \<equiv> id_map env (copied_subtree db pid source)"
  shows "child_rel db' = child_rel db \<union> {(m x, m y) |x y. (x, y) \<in> child_rel db \<and> (source, x) \<in> (child_rel db)\<^sup>*}"
proof -
  let ?s = "copied_subtree db pid source"
  from assms(1) obtain src where "get_node_row db source = Some src" "n_project_id src = pid" by (rule deep_copy_steps)
  then have own: "owner (nodes db) source = Some pid" by (simp add: owner_get)
  note s = copied_subtree_reach [OF assms(2) own]
  have es: "e \<in> set (subtree_edges db pid ?s) \<longleftrightarrow> e \<in> set (edges db) \<and> is_child_edge e \<and> (source, e_from_node_id e) \<in> (child_rel db)\<^sup>*" for e
  proof -
    have "e_to_node_id e \<in> set ?s" if "e \<in> set (edges db)" "is_child_edge e" "e_from_node_id e \<in> set ?s"
    proof -
      have "(e_from_node_id e, e_to_node_id e) \<in> child_rel db" using that by (auto simp: child_rel_iff)
      then show ?thesis using that(3) by (auto simp: s(1) intro: rtrancl_into_rtrancl)
    qed
    moreover have "e_project_id e = pid" if "e \<in> set (edges db)" "e_from_node_id e \<in> set ?s"
      using edge_owner(1) [OF assms(2) that(1)] s(2) [OF that(2)] by simp
    ultimately show ?thesis by (auto simp: subtree_edges_def s(1))
  qed
  let ?new = "map (\<lambda>(j, e). normalize_edge (copy_edge env pid m (uuid env (1 + length ?s + length (subtree_blocks db ?s) + j)) e))
      (List.enumerate 0 (subtree_edges db pid ?s))"
  have "edges db' = edges db @ ?new" unfolding m_def by (rule deep_copy_appends(3) [OF assms(1)])
  moreover have "is_child_edge e" if "e \<in> set ?new" for e using that by auto
  ultimately have "child_rel db' = child_rel db \<union> set (map (\<lambda>e. (e_from_node_id e, e_to_node_id e)) ?new)"
    by (rule child_rel_append)
  also have "map (\<lambda>e. (e_from_node_id e, e_to_node_id e)) ?new =
      map (\<lambda>e. (m (e_from_node_id e), m (e_to_node_id e))) (subtree_edges db pid ?s)"
    using map_enumerate_snd [of "\<lambda>e. (m (e_from_node_id e), m (e_to_node_id e))" 0 "subtree_edges db pid ?s"]
    by (simp add: comp_def case_prod_unfold)
  also have "set (map (\<lambda>e. (m (e_from_node_id e), m (e_to_node_id e))) (subtree_edges db pid ?s)) =
      (\<lambda>e. (m (e_from_node_id e), m (e_to_node_id e))) ` set (subtree_edges db pid ?s)" by simp
  also have "(\<lambda>e. (m (e_from_node_id e), m (e_to_node_id e))) ` set (subtree_edges db pid ?s) =
      {(m x, m y) |x y. (x, y) \<in> child_rel db \<and> (source, x) \<in> (child_rel db)\<^sup>*}"
  proof -
    have "set (subtree_edges db pid ?s) = {e \<in> set (edges db). is_child_edge e \<and> (source, e_from_node_id e) \<in> (child_rel db)\<^sup>*}"
      using es by blast
    then show ?thesis unfolding child_rel_iff by blast
  qed
  finally show ?thesis .
qed


section \<open>The copy is faithful and fresh\<close>

lemma copy_walk_cong: "edges d = edges db \<Longrightarrow> copy_walk d pid stack seen = copy_walk db pid stack seen"
proof (induction d pid stack seen rule: copy_walk.induct)
  case (1 d pid stack seen)
  have same: "children_in d pid x = children_in db pid x" for x using 1(3) by (simp add: children_in_def)
  show ?case
  proof (cases stack)
    case (Cons x rest)
    show ?thesis
      using 1(1) [OF Cons _ 1(3)] 1(2) [OF Cons _ 1(3)] unfolding Cons copy_walk.simps [of _ _ "x # rest"] list.case same
      by presburger
  qed (simp add: copy_walk.simps [of _ _ "[]"])
qed

lemma copied_subtree_cong: "edges d = edges db \<Longrightarrow> copied_subtree d pid x = copied_subtree db pid x"
  unfolding copied_subtree_def by (rule copy_walk_cong)

lemma deep_copy_schema:
  assumes "deep_copy_branch env pid source name description actor db = Inr (branch, k, db')" "schema_ok db"
  shows "schema_ok db'"
  using assms(1)
proof (cases rule: deep_copy_steps)
  case (1 src db1 db2 db3)
  have "schema_ok db1" using 1(5) assms(2) by (rule schema_insert_branch)
  then have "schema_ok db2"
    by (rule fold_result_invariant [OF 1(6)]) (auto intro: schema_insert_node split: option.splits)
  then have "schema_ok db3"
    by (rule fold_result_invariant [OF 1(7)]) (auto intro: schema_insert_block)
  then show ?thesis
    by (rule fold_result_invariant [OF 1(8)]) (auto intro: schema_insert_edge)
qed

lemma deep_copy_fresh:
  assumes "deep_copy_branch env pid source name description actor db = Inr (branch, k, db')" "schema_ok db"
  defines "subtree \<equiv> copied_subtree db pid source"
  shows "inj_on (id_map env subtree) (set subtree)" "id_map env subtree ` set subtree \<inter> node_ids db = {}"
proof -
  have "distinct (map n_id (nodes db'))"
    using deep_copy_schema [OF assms(1,2)] by (simp add: schema_ok_def keys_ok_def)
  moreover have "map n_id (nodes db') = map n_id (nodes db) @ map (id_map env subtree) subtree"
    unfolding subtree_def by (simp add: deep_copy_appends(1) [OF assms(1)] comp_def)
  ultimately have "distinct (map (id_map env subtree) subtree)" "set (map n_id (nodes db)) \<inter> set (map (id_map env subtree) subtree) = {}"
    by simp_all
  then show "inj_on (id_map env subtree) (set subtree)" "id_map env subtree ` set subtree \<inter> node_ids db = {}"
    by (auto simp: distinct_map)
qed

lemma deep_copy_node:
  assumes "deep_copy_branch env pid source name description actor db = Inr (branch, k, db')" "schema_ok db"
    "x \<in> set (copied_subtree db pid source)"
  shows "get_node_row db' (id_map env (copied_subtree db pid source) x) =
    Some (copy_node env pid (br_id branch) actor (id_map env (copied_subtree db pid source) x) (the (get_node_row db x)))"
proof -
  have "br_id branch = uuid env 0" using assms(1) by (rule deep_copy_steps) simp
  moreover have "distinct (map n_id (nodes db'))"
    using deep_copy_schema [OF assms(1,2)] by (simp add: schema_ok_def keys_ok_def)
  ultimately show ?thesis
    using assms(3) by (auto simp: get_node_row_def row_get_iff deep_copy_appends(1) [OF assms(1)] )
qed

lemma filter_concat_distinct:
  "distinct xs \<Longrightarrow> x \<in> set xs \<Longrightarrow> (\<And>y b. b \<in> set (f y) \<Longrightarrow> key b = y) \<Longrightarrow>
     filter (\<lambda>b. key b = x) (concat (map f xs)) = f x"
proof (induction xs)
  case (Cons y ys)
  have *: "filter (\<lambda>b. key b = x) (f z) = (if z = x then f x else [])" for z
    using Cons.prems(3) by (auto simp: filter_id_conv filter_empty_conv)
  have "filter (\<lambda>b. key b = x) (concat (map f zs)) = []" if "x \<notin> set zs" for zs
    using that by (induction zs) (auto simp: *)
  then show ?case using Cons by (auto simp: *)
qed simp

lemma subtree_blocks_of:
  assumes "distinct subtree" "x \<in> set subtree"
  shows "filter (\<lambda>b. b_node_id b = x) (subtree_blocks db subtree) =
    sort_key (\<lambda>b. (b_order_index b, b_id b)) (filter (\<lambda>b. b_node_id b = x) (content_blocks db))"
  unfolding subtree_blocks_def by (rule filter_concat_distinct [OF assms]) auto

text \<open>What of a block a copy keeps.\<close>

definition block_text :: "content_block \<Rightarrow> string \<times> json \<times> int" where
  "block_text b = (b_block_type b, b_content b, b_order_index b)"

lemma block_text_copy [simp]: "block_text (copy_block env actor i nid b) = block_text b"
  by (simp add: block_text_def copy_block_def)

lemma filter_map_enumerate:
  "(\<And>j b. b \<in> set bs \<Longrightarrow> Q (g (j, b)) \<longleftrightarrow> P b) \<Longrightarrow> (\<And>j b. h (g (j, b)) = h' b) \<Longrightarrow>
     map h (filter Q (map g (List.enumerate n bs))) = map h' (filter P bs)"
  by (induction bs arbitrary: n) auto

lemma deep_copy_blocks:
  assumes "deep_copy_branch env pid source name description actor db = Inr (branch, k, db')" "schema_ok db"
    "x \<in> set (copied_subtree db pid source)"
  defines "m \<equiv> id_map env (copied_subtree db pid source)"
  shows "map block_text (filter (\<lambda>b. b_node_id b = m x) (content_blocks db')) =
    map block_text (sort_key (\<lambda>b. (b_order_index b, b_id b)) (filter (\<lambda>b. b_node_id b = x) (content_blocks db)))"
proof -
  let ?s = "copied_subtree db pid source"
  note fresh = deep_copy_fresh [OF assms(1,2), folded m_def]
  have "b_node_id b \<in> node_ids db" if "b \<in> set (content_blocks db)" for b
    using that assms(2) by (auto simp: schema_ok_def refs_ok_def block_refs_ok_def)
  then have old: "filter (\<lambda>b. b_node_id b = m x) (content_blocks db) = []"
    using fresh(2) assms(3) by (fastforce simp: filter_empty_conv)
  have in_s: "b_node_id b \<in> set ?s" if "b \<in> set (subtree_blocks db ?s)" for b
    using that by (auto simp: subtree_blocks_def)
  have "map block_text (filter (\<lambda>b. b_node_id b = m x) (content_blocks db')) =
      map block_text (filter (\<lambda>b. b_node_id b = x) (subtree_blocks db ?s))"
    unfolding deep_copy_appends(2) [OF assms(1)] filter_append old append_Nil
    using inj_on_eq_iff [OF fresh(1)] in_s assms(3)
    by (intro filter_map_enumerate) (auto simp: m_def)
  then show ?thesis by (simp add: subtree_blocks_of [OF distinct_copied_subtree assms(3)])
qed

end
