(* ===== verification/Blocks.thy ===== *)
theory Blocks
  imports Nodes Samples
begin

text \<open>
  Content blocks (\<open>_ordered_blocks\<close>, \<open>_rewrite_block_order\<close> and the block handlers of
  \<open>api/routes.py\<close>). Each write leaves the node's blocks numbered 0, 1, 2, ... in the order the
  client asked for, whatever gaps or duplicates were there before, and bumps exactly the rows
  it changed.
\<close>

section \<open>Bodies\<close>

record block_create =
  bc_expected_project_revision :: int
  bc_expected_node_revision :: int
  bc_block_type :: string
  bc_content :: json

record block_update =
  bu_expected_project_revision :: int
  bu_expected_node_revision :: int
  bu_expected_revision :: int
  bu_block_type :: "string field"
  bu_content :: "json field"
  bu_order_index :: "int field"

section \<open>Order\<close>

definition block_key :: "content_block \<Rightarrow> int \<times> int \<times> string" where
  "block_key b = (b_order_index b, b_created_at b, b_id b)"

definition node_blocks :: "db \<Rightarrow> ident \<Rightarrow> content_block list" where
  "node_blocks db nid = filter (\<lambda>b. b_node_id b = nid) (content_blocks db)"

definition ordered_blocks :: "db \<Rightarrow> ident \<Rightarrow> content_block list" where
  "ordered_blocks db nid = sort_key block_key (node_blocks db nid)"

definition renumber :: "env \<Rightarrow> ident option \<Rightarrow> int \<Rightarrow> content_block \<Rightarrow> content_block" where
  "renumber env always_bump_id index b =
     (if b_order_index b \<noteq> index \<or> Some (b_id b) = always_bump_id
      then bump_block env (b\<lparr>b_order_index := index\<rparr>) else b)"

fun rewrite_from :: "env \<Rightarrow> ident option \<Rightarrow> int \<Rightarrow> content_block list \<Rightarrow> content_block list" where
  "rewrite_from env always i [] = []"
| "rewrite_from env always i (b # bs) = renumber env always i b # rewrite_from env always (i + 1) bs"

definition rewrite_block_order :: "env \<Rightarrow> ident option \<Rightarrow> content_block list \<Rightarrow> content_block list" where
  "rewrite_block_order env always_bump_id blocks = rewrite_from env always_bump_id 0 blocks"

text \<open>The objects of the list are rows of the session: writing them writes the rows with their keys.\<close>

definition put_blocks :: "content_block list \<Rightarrow> db \<Rightarrow> db" where
  "put_blocks bs db =
     content_blocks_update (map (\<lambda>b. case row_get b_id bs (b_id b) of None \<Rightarrow> b | Some c \<Rightarrow> c)) db"

section \<open>Handlers\<close>

definition list_blocks :: "env \<Rightarrow> ident \<Rightarrow> db \<Rightarrow> content_block list" where
  "list_blocks env nid db =
     (let rows = sort_key b_order_index (node_blocks db nid)
      in if query_only env then map (\<lambda>b. b\<lparr>b_revision := 1\<rparr>) rows else rows)"

definition create_block :: "env \<Rightarrow> ident \<Rightarrow> block_create \<Rightarrow> db \<Rightarrow> (content_block \<times> db) result" where
  "create_block env nid data db =
     (case get_node_row db nid of
        None \<Rightarrow> Inl (HTTPException 404 ''Node not found'')
      | Some node \<Rightarrow>
          and_then (claim_project_revision env (n_project_id node) (bc_expected_project_revision data) db) (\<lambda>db.
          and_then (check_entity_revision ''node'' nid (n_revision node) (bc_expected_node_revision data)) (\<lambda>_.
            let existing = ordered_blocks db nid;
                db = put_blocks (rewrite_block_order env None existing) db;
                block = \<lparr>b_id = uuid env 0, b_node_id = nid, b_block_type = bc_block_type data, b_content = bc_content data,
                  b_order_index = int (length existing), b_created_by = Some ''human'', b_created_at = now env,
                  b_updated_at = now env, b_revision = 1\<rparr>
            in and_then (insert_block block db) (\<lambda>db.
               and_then (auto_advance_maturity env (uuid env 1) nid [] (bump_existing env [NodeRef nid] db)) (\<lambda>(_, db).
                 Inr (block, db))))))"

definition apply_block_changes :: "block_update \<Rightarrow> content_block \<Rightarrow> content_block" where
  "apply_block_changes data b =
     b\<lparr>b_block_type := assign_required (bu_block_type data) (b_block_type b),
       b_content := (case bu_content data of Unset \<Rightarrow> b_content b | Assign None \<Rightarrow> JNull | Assign (Some v) \<Rightarrow> v)\<rparr>"

definition insert_at :: "nat \<Rightarrow> 'a \<Rightarrow> 'a list \<Rightarrow> 'a list" where
  "insert_at k x xs = take k xs @ [x] @ drop k xs"

definition target_index :: "int field \<Rightarrow> nat \<Rightarrow> nat \<Rightarrow> nat" where
  "target_index requested original len =
     (case get_default None requested of None \<Rightarrow> original | Some i \<Rightarrow> nat (max 0 (min i (int len))))"

text \<open>The new sequence of rows of \<open>update_block\<close>: the moving row taken out and put back.\<close>

definition moved_blocks :: "block_update \<Rightarrow> ident \<Rightarrow> content_block list \<Rightarrow> content_block list" where
  "moved_blocks data bid ordered =
     (case row_get b_id ordered bid of
        None \<Rightarrow> ordered
      | Some moving \<Rightarrow>
          let original = length (takeWhile (\<lambda>b. b_id b \<noteq> bid) ordered);
              rest = row_delete b_id bid ordered
          in insert_at (target_index (bu_order_index data) original (length rest)) (apply_block_changes data moving) rest)"

definition update_block :: "env \<Rightarrow> ident \<Rightarrow> block_update \<Rightarrow> db \<Rightarrow> (content_block \<times> db) result" where
  "update_block env bid data db =
     (case get_block_row db bid of
        None \<Rightarrow> Inl (HTTPException 404 ''Block not found'')
      | Some block \<Rightarrow> (case get_node_row db (b_node_id block) of
          None \<Rightarrow> Inl (HTTPException 404 ''Node not found'')
        | Some node \<Rightarrow>
            and_then (claim_project_revision env (n_project_id node) (bu_expected_project_revision data) db) (\<lambda>db.
            and_then (check_entity_revision ''block'' bid (b_revision block) (bu_expected_revision data)) (\<lambda>_.
            and_then (check_entity_revision ''node'' (n_id node) (n_revision node) (bu_expected_node_revision data)) (\<lambda>_.
              if is_null (bu_block_type data) then Inl IntegrityError
              else
                let rows = rewrite_block_order env (Some bid) (moved_blocks data bid (ordered_blocks db (n_id node)));
                    db = bump_existing env [NodeRef (n_id node)] (put_blocks rows db)
                in case get_block_row db bid of None \<Rightarrow> Inl AttributeError | Some b \<Rightarrow> Inr (b, db))))))"

definition delete_block :: "env \<Rightarrow> ident \<Rightarrow> int \<Rightarrow> int \<Rightarrow> int \<Rightarrow> db \<Rightarrow> (unit \<times> db) result" where
  "delete_block env bid expected_project_revision expected_node_revision expected_revision db =
     (case get_block_row db bid of
        None \<Rightarrow> Inl (HTTPException 404 ''Block not found'')
      | Some block \<Rightarrow> (case get_node_row db (b_node_id block) of
          None \<Rightarrow> Inl (HTTPException 404 ''Node not found'')
        | Some node \<Rightarrow>
            and_then (claim_project_revision env (n_project_id node) expected_project_revision db) (\<lambda>db.
            and_then (check_entity_revision ''block'' bid (b_revision block) expected_revision) (\<lambda>_.
            and_then (check_entity_revision ''node'' (n_id node) (n_revision node) expected_node_revision) (\<lambda>_.
              let survivors = row_delete b_id bid (ordered_blocks db (n_id node));
                  db = bump_existing env [NodeRef (n_id node)] (put_blocks (rewrite_block_order env None survivors) db)
              in Inr ((), delete_block_row bid db))))))"

section \<open>Rewriting the order\<close>

lemma renumber_simps [simp]:
  "b_id (renumber env a i b) = b_id b" "b_node_id (renumber env a i b) = b_node_id b"
  "b_order_index (renumber env a i b) = i" "b_created_at (renumber env a i b) = b_created_at b"
  by (auto simp: renumber_def bump_block_def)

lemma length_rewrite_from [simp]: "length (rewrite_from env a i bs) = length bs"
  by (induction bs arbitrary: i) auto

lemma rewrite_from_nth: "k < length bs \<Longrightarrow> rewrite_from env a i bs ! k = renumber env a (i + int k) (bs ! k)"
proof (induction bs arbitrary: i k)
  case (Cons b bs)
  then show ?case by (cases k) (auto simp: add.assoc)
qed simp

lemma rewrite_ids [simp]: "map b_id (rewrite_from env a i bs) = map b_id bs"
  "map b_node_id (rewrite_from env a i bs) = map b_node_id bs"
  by (induction bs arbitrary: i) auto

lemma rewrite_indices: "map b_order_index (rewrite_from env a i bs) = map (\<lambda>k. i + int k) [0..<length bs]"
  by (intro nth_equalityI) (simp_all add: rewrite_from_nth)

lemma block_order_unique:
  assumes "map b_order_index bs = map int [0..<length bs]"
  shows "distinct (map block_key bs) \<and> sorted (map block_key bs)"
proof -
  have idx: "b_order_index (bs ! k) = int k" if "k < length bs" for k
    using arg_cong [OF assms, where f = "\<lambda>xs. xs ! k"] that by simp
  have less: "block_key (bs ! i) < block_key (bs ! j)" if "i < j" "j < length bs" for i j
    using that idx [of i] idx [of j] by (simp add: block_key_def less_prod_def)
  then have "sorted (map block_key bs)" by (simp add: sorted_iff_nth_mono_less less_imp_le)
  moreover have "distinct (map block_key bs)"
    unfolding distinct_conv_nth using less by (auto simp: neq_iff)
  ultimately show ?thesis by simp
qed

lemma sort_key_unique:
  assumes "distinct (map f ys)" "sorted (map f ys)" "set xs = set ys" "distinct xs"
  shows "sort_key f xs = (ys :: 'a list)"
proof -
  have inj: "inj_on f (set ys)" using assms(1) by (simp add: distinct_map)
  have "map f (sort_key f xs) = map f ys"
    using assms inj by (intro sorted_distinct_set_unique) (simp_all add: distinct_map)
  then show ?thesis using inj assms(3) by (intro map_inj_on [of f]) simp_all
qed

lemma put_blocks_frame [simp]:
  "projects (put_blocks bs db) = projects db" "nodes (put_blocks bs db) = nodes db" "edges (put_blocks bs db) = edges db"
  "branches (put_blocks bs db) = branches db" "action_logs (put_blocks bs db) = action_logs db"
  by (simp_all add: put_blocks_def)

lemma put_block_key:
  "b_id (case row_get b_id bs (b_id b) of None \<Rightarrow> b | Some c \<Rightarrow> c) = b_id b"
  by (auto split: option.splits dest: row_get_Some)

lemma put_blocks_ids: "map b_id (content_blocks (put_blocks bs db)) = map b_id (content_blocks db)"
  by (simp add: put_blocks_def put_block_key)

lemma distinct_node_blocks: "distinct (map b_id (content_blocks db)) \<Longrightarrow> distinct (map b_id (node_blocks db nid))"
  by (simp add: node_blocks_def distinct_map_filter)

lemma put_blocks_node:
  assumes keys: "distinct (map b_id (content_blocks db))" "distinct (map b_id bs)"
    and sub: "b_id ` set bs \<subseteq> b_id ` set (node_blocks db nid)" and own: "\<And>b. b \<in> set bs \<Longrightarrow> b_node_id b = nid"
  shows "set (node_blocks (put_blocks bs db) nid) = set bs \<union> {b \<in> set (node_blocks db nid). b_id b \<notin> b_id ` set bs}"
    (is "?L = ?R")
proof (intro set_eqI iffI)
  fix c assume "c \<in> ?L"
  then obtain b where b: "b \<in> set (content_blocks db)" "b_node_id c = nid"
    "c = (case row_get b_id bs (b_id b) of None \<Rightarrow> b | Some c \<Rightarrow> c)"
    by (auto simp: node_blocks_def put_blocks_def)
  then show "c \<in> ?R"
    by (cases "row_get b_id bs (b_id b)") (auto simp: row_get_None node_blocks_def dest: row_get_Some)
next
  fix c assume "c \<in> ?R"
  then show "c \<in> ?L"
  proof
    assume c: "c \<in> set bs"
    with sub have "b_id c \<in> b_id ` set (node_blocks db nid)" by blast
    then obtain b where "b \<in> set (node_blocks db nid)" "b_id c = b_id b" by (rule imageE) simp
    then have "b \<in> set (content_blocks db)" "b_id b = b_id c" by (simp_all add: node_blocks_def)
    moreover have "row_get b_id bs (b_id c) = Some c" using c keys(2) by (simp add: row_get_iff)
    ultimately have "c \<in> set (content_blocks (put_blocks bs db))"
      unfolding put_blocks_def by (auto intro!: image_eqI [of _ _ b])
    then show ?thesis using own [OF c] by (simp add: node_blocks_def)
  next
    assume "c \<in> {b \<in> set (node_blocks db nid). b_id b \<notin> b_id ` set bs}"
    then have "row_get b_id bs (b_id c) = None" "c \<in> set (content_blocks db)" "b_node_id c = nid"
      by (auto simp: row_get_None node_blocks_def)
    then have "c \<in> set (content_blocks (put_blocks bs db))"
      unfolding put_blocks_def by (auto intro!: image_eqI [of _ _ c])
    then show ?thesis using \<open>b_node_id c = nid\<close> by (simp add: node_blocks_def)
  qed
qed

lemma set_ordered_blocks [simp]: "set (ordered_blocks db nid) = set (node_blocks db nid)"
  by (simp add: ordered_blocks_def)

lemma ordered_blocks_keys:
  assumes "distinct (map b_id (content_blocks db))"
  shows "distinct (map b_id (ordered_blocks db nid))"
  using distinct_node_blocks [OF assms, of nid] by (simp add: ordered_blocks_def distinct_map)

lemma ordered_blocks_node: "b \<in> set (node_blocks db nid) \<Longrightarrow> b_node_id b = nid"
  by (simp add: node_blocks_def)

text \<open>What is listed after a write: the written rows, in the order they were given.\<close>

lemma ordered_blocks_eqI:
  assumes "distinct (map b_id (content_blocks db))" "set (node_blocks db nid) = set bs"
    "map b_order_index bs = map int [0..<length bs]"
  shows "ordered_blocks db nid = bs"
  unfolding ordered_blocks_def
  using block_order_unique [OF assms(3)] assms(2) distinct_node_blocks [OF assms(1), of nid]
  by (intro sort_key_unique) (simp_all add: distinct_map)

lemma bump_node_blocks [simp]: "content_blocks (bump_existing env [NodeRef i] db) = content_blocks db"
  "edges (bump_existing env [NodeRef i] db) = edges db" "branches (bump_existing env [NodeRef i] db) = branches db"
  by (simp_all add: bump_existing_rows)

lemma node_blocks_cong: "content_blocks db = content_blocks db' \<Longrightarrow> node_blocks db nid = node_blocks db' nid"
  by (simp add: node_blocks_def)

section \<open>Creating a block\<close>

lemma create_block_steps:
  assumes "create_block env nid data db = Inr (out, db')"
  obtains node db1 db2 t where "get_node_row db nid = Some node"
    "claim_project_revision env (n_project_id node) (bc_expected_project_revision data) db = Inr db1"
    "bc_expected_node_revision data = current_revision (n_revision node)"
    "insert_block out (put_blocks (rewrite_block_order env None (ordered_blocks db1 nid)) db1) = Inr db2"
    "auto_advance_maturity env (uuid env 1) nid [] (bump_existing env [NodeRef nid] db2) = Inr (t, db')"
    "out = \<lparr>b_id = uuid env 0, b_node_id = nid, b_block_type = bc_block_type data, b_content = bc_content data,
       b_order_index = int (length (ordered_blocks db1 nid)), b_created_by = Some ''human'', b_created_at = now env,
       b_updated_at = now env, b_revision = 1\<rparr>"
  using assms by (auto simp: create_block_def Let_def result_simps statement_Inr)

lemma put_blocks_ok:
  assumes "\<And>b. b \<in> set bs \<Longrightarrow> b_node_id b = nid" "b_id ` set bs \<subseteq> b_id ` set (node_blocks db nid)" "db_ok db"
  shows "db_ok (put_blocks bs db)"
proof -
  let ?f = "\<lambda>b. case row_get b_id bs (b_id b) of None \<Rightarrow> b | Some c \<Rightarrow> c"
  have node: "b_node_id (?f b) = b_node_id b" if b: "b \<in> set (content_blocks db)" for b
  proof (cases "row_get b_id bs (b_id b)")
    case (Some c)
    then have c: "c \<in> set bs" "b_id c = b_id b" by (auto dest: row_get_Some)
    with assms(2) have "b_id b \<in> b_id ` set (node_blocks db nid)" by (metis imageI subsetD)
    then obtain d where "d \<in> set (node_blocks db nid)" "b_id b = b_id d" by (rule imageE) simp
    then have "d \<in> set (content_blocks db)" "b_node_id d = nid" "b_id d = b_id b" by (simp_all add: node_blocks_def)
    then have "d = b" using b same_key [OF ok_keys(4) [OF assms(3)]] by blast
    then show ?thesis using Some \<open>b_node_id d = nid\<close> assms(1) c by simp
  qed simp
  then have refs: "block_refs_ok (map ?f (content_blocks db)) N" if "block_refs_ok (content_blocks db) N" for N
    using that by (simp add: block_refs_ok_def)
  have "schema_ok (put_blocks bs db)"
    using assms(3) refs put_blocks_ids [of bs db]
    by (simp add: db_ok_def schema_ok_def keys_ok_def refs_ok_def) (simp add: put_blocks_def)
  then show ?thesis using assms(3) by (auto intro: ok_frame)
qed

lemma rewritten_blocks:
  "b_id ` set (rewrite_block_order env a bs) = b_id ` set bs"
  "(\<And>b. b \<in> set bs \<Longrightarrow> b_node_id b = nid) \<Longrightarrow> b \<in> set (rewrite_block_order env a bs) \<Longrightarrow> b_node_id b = nid"
proof -
  show "b_id ` set (rewrite_block_order env a bs) = b_id ` set bs"
    by (metis list.set_map rewrite_block_order_def rewrite_ids(1))
  have "b_node_id ` set (rewrite_block_order env a bs) = b_node_id ` set bs"
    by (metis list.set_map rewrite_block_order_def rewrite_ids(2))
  then show "b_node_id b = nid"
    if "\<And>b. b \<in> set bs \<Longrightarrow> b_node_id b = nid" "b \<in> set (rewrite_block_order env a bs)"
    using that by (metis (no_types, lifting) imageE imageI)
qed

lemma create_block_order:
  assumes "create_block env nid data db = Inr (out, db')" "db_ok db"
  shows "ordered_blocks db' nid = rewrite_block_order env None (ordered_blocks db nid) @ [out]"
  using assms(1)
proof (cases rule: create_block_steps)
  case (1 node db1 db2 t)
  let ?rw = "rewrite_block_order env None (ordered_blocks db nid)"
  note f = claim_frame [OF 1(2)]
  have o: "ordered_blocks db1 nid = ordered_blocks db nid" by (simp add: ordered_blocks_def node_blocks_def f(3))
  have keys: "distinct (map b_id (content_blocks db1))" using ok_keys(4) [OF assms(2)] by (simp add: f(3))
  have "content_blocks db' = content_blocks (put_blocks ?rw db1) @ [out]"
    using auto_advance_frame(3) [OF 1(5)] 1(4) by (simp add: statement_Inr o)
  moreover have "b_id out \<notin> set (map b_id (content_blocks (put_blocks ?rw db1)))" using 1(4) by (simp add: statement_Inr o)
  then have "distinct (map b_id (content_blocks (put_blocks ?rw db1) @ [out]))"
    using keys unfolding map_append put_blocks_ids by simp
  ultimately have keys': "distinct (map b_id (content_blocks db'))"
    and nodes': "set (node_blocks db' nid) = insert out (set (node_blocks (put_blocks ?rw db1) nid))"
    using 1(6) by (simp_all add: node_blocks_def)
  have rw: "b_id ` set ?rw = b_id ` set (node_blocks db1 nid)" "distinct (map b_id ?rw)"
    "\<And>b. b \<in> set ?rw \<Longrightarrow> b_node_id b = nid"
    using rewritten_blocks(1) [of env None "ordered_blocks db nid"] rewritten_blocks(2) [of "ordered_blocks db nid" nid _ env None]
      ordered_blocks_keys [OF keys, of nid]
    by (simp_all add: o [symmetric] rewrite_block_order_def ordered_blocks_node)
  have "set (node_blocks (put_blocks ?rw db1) nid) = set ?rw"
    using put_blocks_node [OF keys rw(2) _ rw(3)] rw(1) by auto
  then have "set (node_blocks db' nid) = set (?rw @ [out])" using nodes' by simp
  moreover have "map b_order_index (?rw @ [out]) = map int [0..<length (?rw @ [out])]"
    using 1(6) by (simp add: rewrite_block_order_def rewrite_indices o)
  ultimately show ?thesis using keys' by (intro ordered_blocks_eqI)
qed

lemma create_block_advances:
  assumes "create_block env nid data db = Inr (out, db')"
  shows "\<exists>node. get_node_row db nid = Some node \<and> advances db (n_project_id node) (bc_expected_project_revision data) db'"
  using assms
proof (cases rule: create_block_steps)
  case (1 node db1 db2 t)
  have "projects db' = projects db1"
    using auto_advance_frame(1) [OF 1(5)] 1(4) by (simp add: statement_Inr)
  then show ?thesis using 1(1) claim_advances [OF 1(2)] by blast
qed

lemma ordered_blocks_rewritten:
  "b_id ` set (rewrite_block_order env a (ordered_blocks db nid)) = b_id ` set (node_blocks db nid)"
  "b \<in> set (rewrite_block_order env a (ordered_blocks db nid)) \<Longrightarrow> b_node_id b = nid"
  using rewritten_blocks(1) [of env a "ordered_blocks db nid"] rewritten_blocks(2) [of "ordered_blocks db nid" nid b env a]
  by (simp_all add: ordered_blocks_node)

lemma create_block_ok:
  assumes "create_block env nid data db = Inr (out, db')" "db_ok db"
  shows "db_ok db'"
  using assms(1)
proof (cases rule: create_block_steps)
  case (1 node db1 db2 t)
  have "db_ok db1" using 1(2) assms(2) by (rule ok_claim)
  then have "db_ok (put_blocks (rewrite_block_order env None (ordered_blocks db1 nid)) db1)"
    by (intro put_blocks_ok [of _ nid]) (simp_all add: ordered_blocks_rewritten)
  then have "db_ok db2" by (rule ok_insert_block [OF 1(4)])
  then show ?thesis by (intro auto_advance_ok [OF 1(5)] ok_bump_existing)
qed

section \<open>Updating and deleting a block\<close>

lemma insert_at_set: "set (insert_at k x xs) = insert x (set xs)"
  by (auto simp: insert_at_def dest: in_set_takeD in_set_dropD) (metis Un_iff append_take_drop_id set_append)

lemma insert_at_map: "map f (insert_at k x xs) = insert_at k (f x) (map f xs)"
  by (simp add: insert_at_def take_map drop_map)

lemma insert_at_distinct: "distinct xs \<Longrightarrow> x \<notin> set xs \<Longrightarrow> distinct (insert_at k x xs)"
  using set_take_disj_set_drop_if_distinct [of xs k k]
  by (auto simp: insert_at_def dest: in_set_takeD in_set_dropD)

lemma length_row_delete:
  assumes "distinct (map k rs)" "i \<in> k ` set rs"
  shows "length (row_delete k i rs) = length rs - 1"
proof -
  have "map k (row_delete k i rs) = removeAll i (map k rs)"
    by (simp add: row_delete_def removeAll_filter_not_eq filter_map comp_def eq_commute)
  also have "\<dots> = remove1 i (map k rs)" using assms(1) by (simp add: distinct_remove1_removeAll)
  finally have "length (map k (row_delete k i rs)) = length (remove1 i (map k rs))" by simp
  then show ?thesis using assms(2) by (simp add: length_remove1)
qed

lemma apply_block_changes_simps [simp]:
  "b_id (apply_block_changes data b) = b_id b" "b_node_id (apply_block_changes data b) = b_node_id b"
  by (simp_all add: apply_block_changes_def)

lemma get_block_row_in:
  "get_block_row db bid = Some b \<Longrightarrow> b \<in> set (content_blocks db) \<and> b_id b = bid \<and> b \<in> set (node_blocks db (b_node_id b))"
  by (auto simp: get_block_row_def node_blocks_def dest: row_get_Some)

lemma moved_blocks_ids:
  assumes "distinct (map b_id bs)" "bid \<in> b_id ` set bs"
  shows "map b_id (moved_blocks data bid bs) =
    insert_at (target_index (bu_order_index data) (length (takeWhile (\<lambda>i. i \<noteq> bid) (map b_id bs))) (length bs - 1)) bid
      (filter (\<lambda>i. i \<noteq> bid) (map b_id bs))"
proof -
  obtain m where m: "row_get b_id bs bid = Some m" using assms(2) row_get_None [of b_id bs bid] by (cases "row_get b_id bs bid") auto
  then have "m \<in> set bs" "b_id m = bid" by (auto dest: row_get_Some)
  moreover have "length (row_delete b_id bid bs) = length bs - 1" using assms by (rule length_row_delete)
  ultimately show ?thesis
    using m by (simp add: moved_blocks_def Let_def insert_at_map takeWhile_map comp_def row_delete_def filter_map)
qed

lemma moved_blocks_keys:
  assumes "distinct (map b_id bs)" "bid \<in> b_id ` set bs"
  shows "distinct (map b_id (moved_blocks data bid bs))" "b_id ` set (moved_blocks data bid bs) = b_id ` set bs"
proof -
  note ids = moved_blocks_ids [OF assms, of data]
  show "distinct (map b_id (moved_blocks data bid bs))"
    unfolding ids using assms(1) by (intro insert_at_distinct) simp_all
  have "set (map b_id (moved_blocks data bid bs)) = insert bid {i \<in> set (map b_id bs). i \<noteq> bid}"
    unfolding ids insert_at_set by simp
  then show "b_id ` set (moved_blocks data bid bs) = b_id ` set bs" using assms(2) by auto
qed

lemma moved_blocks_node:
  assumes "\<And>b. b \<in> set bs \<Longrightarrow> b_node_id b = nid" "b \<in> set (moved_blocks data bid bs)"
  shows "b_node_id b = nid"
  using assms by (auto simp: moved_blocks_def Let_def insert_at_set set_row_delete split: option.splits dest: row_get_Some)

lemma put_all_blocks:
  assumes keys: "distinct (map b_id (content_blocks db))"
    and bs: "distinct (map b_id bs)" "b_id ` set bs = b_id ` set (node_blocks db nid)" "\<And>b. b \<in> set bs \<Longrightarrow> b_node_id b = nid"
  shows "ordered_blocks (put_blocks (rewrite_block_order env a bs) db) nid = rewrite_block_order env a bs"
proof (rule ordered_blocks_eqI)
  let ?rw = "rewrite_block_order env a bs"
  show "distinct (map b_id (content_blocks (put_blocks ?rw db)))" by (simp only: put_blocks_ids keys)
  show "set (node_blocks (put_blocks ?rw db) nid) = set ?rw"
    using put_blocks_node [OF keys, of ?rw nid] rewritten_blocks(1) [of env a bs] rewritten_blocks(2) [of bs nid _ env a] bs
    by (auto simp: rewrite_block_order_def)
  show "map b_order_index ?rw = map int [0..<length ?rw]" by (simp add: rewrite_block_order_def rewrite_indices)
qed

lemma update_block_steps:
  assumes "update_block env bid data db = Inr (out, db')"
  obtains block node db1 where "get_block_row db bid = Some block" "get_node_row db (b_node_id block) = Some node"
    "claim_project_revision env (n_project_id node) (bu_expected_project_revision data) db = Inr db1"
    "bu_expected_revision data = current_revision (b_revision block)"
    "bu_expected_node_revision data = current_revision (n_revision node)" "\<not> is_null (bu_block_type data)"
    "db' = bump_existing env [NodeRef (n_id node)] (put_blocks (rewrite_block_order env (Some bid)
        (moved_blocks data bid (ordered_blocks db1 (n_id node)))) db1)"
    "get_block_row db' bid = Some out"
  using assms by (auto simp: update_block_def Let_def result_simps statement_Inr split: if_splits)

lemma delete_block_steps:
  assumes "delete_block env bid pr nr er db = Inr (u, db')"
  obtains block node db1 where "get_block_row db bid = Some block" "get_node_row db (b_node_id block) = Some node"
    "claim_project_revision env (n_project_id node) pr db = Inr db1"
    "er = current_revision (b_revision block)" "nr = current_revision (n_revision node)"
    "db' = delete_block_row bid (bump_existing env [NodeRef (n_id node)] (put_blocks (rewrite_block_order env None
        (row_delete b_id bid (ordered_blocks db1 (n_id node)))) db1))"
  using assms by (auto simp: delete_block_def Let_def result_simps statement_Inr)

lemma block_among_ordered:
  assumes "get_block_row db bid = Some block" "get_node_row db (b_node_id block) = Some node"
    "claim_project_revision env pid r db = Inr db1" "db_ok db"
  shows "n_id node = b_node_id block" "ordered_blocks db1 = ordered_blocks db" "node_blocks db1 = node_blocks db"
    "distinct (map b_id (content_blocks db1))" "distinct (map b_id (ordered_blocks db (n_id node)))"
    "bid \<in> b_id ` set (ordered_blocks db (n_id node))"
proof -
  note f = claim_frame(3) [OF assms(3)]
  show nid: "n_id node = b_node_id block" using assms(2) by (rule get_node_row_id)
  show "ordered_blocks db1 = ordered_blocks db" "node_blocks db1 = node_blocks db"
    by (simp_all add: fun_eq_iff ordered_blocks_def node_blocks_def f)
  show "distinct (map b_id (content_blocks db1))" using ok_keys(4) [OF assms(4)] by (simp add: f)
  show "distinct (map b_id (ordered_blocks db (n_id node)))" by (rule ordered_blocks_keys [OF ok_keys(4) [OF assms(4)]])
  show "bid \<in> b_id ` set (ordered_blocks db (n_id node))"
    using get_block_row_in [OF assms(1)] by (auto simp: nid)
qed

lemma ordered_blocks_bumped: "ordered_blocks (bump_existing env [NodeRef i] db) = ordered_blocks db"
  by (simp add: fun_eq_iff ordered_blocks_def node_blocks_def)

lemma update_block_order:
  assumes "update_block env bid data db = Inr (out, db')" "db_ok db" "get_block_row db bid = Some block"
  shows "ordered_blocks db' (b_node_id block) =
    rewrite_block_order env (Some bid) (moved_blocks data bid (ordered_blocks db (b_node_id block)))"
  using assms(1)
proof (cases rule: update_block_steps)
  case (1 block' node db1)
  have b: "block' = block" using 1(1) assms(3) by simp
  note o = block_among_ordered [OF 1(1-3) assms(2)]
  have nid: "n_id node = b_node_id block" using o(1) b by simp
  let ?o = "ordered_blocks db (b_node_id block)"
  have "ordered_blocks (put_blocks (rewrite_block_order env (Some bid) (moved_blocks data bid ?o)) db1) (b_node_id block) =
      rewrite_block_order env (Some bid) (moved_blocks data bid ?o)"
  proof (rule put_all_blocks [OF o(4)])
    show "distinct (map b_id (moved_blocks data bid ?o))"
      using moved_blocks_keys(1) [of ?o bid data] o(5,6) by (simp only: nid)
    show "b_id ` set (moved_blocks data bid ?o) = b_id ` set (node_blocks db1 (b_node_id block))"
      using moved_blocks_keys(2) [of ?o bid data] o(5,6) by (simp only: nid o(3) set_ordered_blocks)
    show "b_node_id x = b_node_id block" if "x \<in> set (moved_blocks data bid ?o)" for x
      using that by (rule moved_blocks_node [rotated]) (simp add: ordered_blocks_node)
  qed
  then show ?thesis unfolding 1(7) ordered_blocks_bumped o(2) nid .
qed

lemma update_block_ok:
  assumes "update_block env bid data db = Inr (out, db')" "db_ok db"
  shows "db_ok db'"
  using assms(1)
proof (cases rule: update_block_steps)
  case (1 block node db1)
  note o = block_among_ordered [OF 1(1-3) assms(2)]
  let ?bs = "moved_blocks data bid (ordered_blocks db (n_id node))"
  have "db_ok db1" using 1(3) assms(2) by (rule ok_claim)
  then have "db_ok (put_blocks (rewrite_block_order env (Some bid) ?bs) db1)"
    using moved_blocks_keys(2) [OF o(5,6), of data] moved_blocks_node [of "ordered_blocks db (n_id node)" "n_id node" _ data bid]
      rewritten_blocks(1) [of env "Some bid" ?bs] rewritten_blocks(2) [of ?bs "n_id node" _ env "Some bid"]
    by (intro put_blocks_ok [of _ "n_id node"]) (auto simp: o(3) ordered_blocks_node)
  then show ?thesis by (simp add: 1(7) o(2) ok_bump_existing)
qed

lemma delete_block_order:
  assumes "delete_block env bid pr nr er db = Inr (u, db')" "db_ok db" "get_block_row db bid = Some block"
  shows "ordered_blocks db' (b_node_id block) =
    rewrite_block_order env None (row_delete b_id bid (ordered_blocks db (b_node_id block)))"
  using assms(1)
proof (cases rule: delete_block_steps)
  case (1 block' node db1)
  note o = block_among_ordered [OF 1(1-3) assms(2)]
  define nid where "nid = b_node_id block"
  have nid: "n_id node = nid" using o(1) 1(1) assms(3) by (simp add: nid_def)
  let ?bs = "row_delete b_id bid (ordered_blocks db nid)"
  let ?rw = "rewrite_block_order env None ?bs"
  have ids: "b_id ` set ?rw = b_id ` set (node_blocks db nid) - {bid}"
    unfolding rewritten_blocks(1) set_row_delete by auto
  have "distinct (map b_id ?rw)"
    using distinct_map_row_delete [OF o(5), of bid] by (simp add: rewrite_block_order_def nid)
  moreover have "b_node_id b = nid" if "b \<in> set ?rw" for b
    by (rule rewritten_blocks(2) [OF _ that]) (auto simp: set_row_delete ordered_blocks_node)
  ultimately have put: "set (node_blocks (put_blocks ?rw db1) nid) = set ?rw \<union> {b \<in> set (node_blocks db nid). b_id b \<notin> b_id ` set ?rw}"
    using put_blocks_node [OF o(4), of ?rw nid] ids by (auto simp: o(3))
  have "b_id b \<noteq> bid \<longleftrightarrow> b \<in> set ?rw" if "b \<in> set (node_blocks (put_blocks ?rw db1) nid)" for b
    using that ids unfolding put by blast
  moreover have "set ?rw \<subseteq> set (node_blocks (put_blocks ?rw db1) nid)" unfolding put by blast
  moreover have "set (node_blocks db' nid) = {b \<in> set (node_blocks (put_blocks ?rw db1) nid). b_id b \<noteq> bid}"
    unfolding 1(6) nid o(2) by (auto simp: node_blocks_def delete_block_row_def set_row_delete)
  ultimately have "set (node_blocks db' nid) = set ?rw" by blast
  moreover have "distinct (map b_id (content_blocks db'))"
    unfolding 1(6) by (simp add: delete_block_row_def distinct_map_row_delete put_blocks_ids o(4))
  ultimately have "ordered_blocks db' nid = ?rw"
    by (intro ordered_blocks_eqI) (simp_all add: rewrite_block_order_def rewrite_indices)
  then show ?thesis by (simp add: nid_def)
qed

lemma delete_block_ok:
  assumes "delete_block env bid pr nr er db = Inr (u, db')" "db_ok db"
  shows "db_ok db'"
  using assms(1)
proof (cases rule: delete_block_steps)
  case (1 block node db1)
  let ?bs = "row_delete b_id bid (ordered_blocks db1 (n_id node))"
  have "b_node_id b = n_id node" if "b \<in> set (rewrite_block_order env None ?bs)" for b
    by (rule rewritten_blocks(2) [OF _ that]) (auto simp: set_row_delete ordered_blocks_node)
  moreover have "b_id ` set (rewrite_block_order env None ?bs) \<subseteq> b_id ` set (node_blocks db1 (n_id node))"
    unfolding rewritten_blocks(1) set_row_delete by auto
  moreover have "db_ok db1" using 1(3) assms(2) by (rule ok_claim)
  ultimately have "db_ok (put_blocks (rewrite_block_order env None ?bs) db1)"
    by (rule put_blocks_ok)
  then show ?thesis unfolding 1(6) by (intro ok_delete_block_row ok_bump_existing)
qed

lemma update_block_advances:
  assumes "update_block env bid data db = Inr (out, db')"
  shows "\<exists>block node. get_block_row db bid = Some block \<and> get_node_row db (b_node_id block) = Some node \<and>
    advances db (n_project_id node) (bu_expected_project_revision data) db'"
  using assms
proof (cases rule: update_block_steps)
  case (1 block node db1)
  then show ?thesis using claim_advances [OF 1(3)] by simp
qed

lemma delete_block_advances:
  assumes "delete_block env bid pr nr er db = Inr (u, db')"
  shows "\<exists>block node. get_block_row db bid = Some block \<and> get_node_row db (b_node_id block) = Some node \<and>
    advances db (n_project_id node) pr db'"
  using assms
proof (cases rule: delete_block_steps)
  case (1 block node db1)
  then show ?thesis using claim_advances [OF 1(3)] by (simp add: delete_block_row_def)
qed

definition block_project :: "ident \<Rightarrow> db \<Rightarrow> ident option" where
  "block_project bid db = Option.bind (get_block_row db bid) (\<lambda>b. map_option n_project_id (get_node_row db (b_node_id b)))"

interpretation create_block_cas:
  cas_handler "\<lambda>r. create_block env nid (data\<lparr>bc_expected_project_revision := r\<rparr>)"
    "\<lambda>db. map_option n_project_id (get_node_row db nid)" for env nid data
  by unfold_locales (fastforce dest: create_block_advances)

interpretation update_block_cas:
  cas_handler "\<lambda>r. update_block env bid (data\<lparr>bu_expected_project_revision := r\<rparr>)" "block_project bid" for env bid data
  by unfold_locales (fastforce dest: update_block_advances simp: block_project_def)

interpretation delete_block_cas:
  cas_handler "\<lambda>r. delete_block env bid r nr er" "block_project bid" for env bid nr er
  by unfold_locales (fastforce dest: delete_block_advances simp: block_project_def)

section \<open>Properties\<close>

text \<open>
  C6: After a block is moved or edited, the node's blocks read back in the requested order: the other
  blocks keep their sequence, the block stands at the requested position clamped to the list
  (its old one when none is given), and the stored indices are exactly 0, 1, ..., n - 1.
\<close>

theorem update_block_reorders:
  assumes "update_block env bid data db = Inr (out, db')" "db_ok db" "get_block_row db bid = Some block"
  shows "let before = map b_id (ordered_blocks db (b_node_id block));
             after = ordered_blocks db' (b_node_id block)
         in map b_id after = insert_at (target_index (bu_order_index data) (length (takeWhile (\<lambda>i. i \<noteq> bid) before))
                (length before - 1)) bid (filter (\<lambda>i. i \<noteq> bid) before) \<and>
            map b_order_index after = map int [0..<length before]"
proof -
  from assms(1) obtain block' node db1 where 1: "get_block_row db bid = Some block'"
    "get_node_row db (b_node_id block') = Some node"
    "claim_project_revision env (n_project_id node) (bu_expected_project_revision data) db = Inr db1"
    by (rule update_block_steps)
  note o = block_among_ordered [OF 1 assms(2)]
  have nid: "n_id node = b_node_id block" using o(1) 1(1) assms(3) by simp
  note ids = moved_blocks_ids [OF o(5,6), of data, unfolded nid]
  have "length (moved_blocks data bid (ordered_blocks db (b_node_id block))) = length (ordered_blocks db (b_node_id block))"
    using moved_blocks_keys [OF o(5,6), of data, unfolded nid] o(5) [unfolded nid]
    by (metis distinct_card length_map list.set_map)
  then show ?thesis
    unfolding Let_def update_block_order [OF assms] by (simp add: rewrite_block_order_def rewrite_indices ids)
qed

definition sample_block_move :: block_update where
  "sample_block_move = \<lparr>bu_expected_project_revision = 5, bu_expected_node_revision = 1, bu_expected_revision = 1,
     bu_block_type = Unset, bu_content = Assign None, bu_order_index = Assign (Some 7)\<rparr>"

theorem update_block_reorders_witness:
  "\<exists>out db'. update_block sample_env ''b1'' sample_block_move sample_db = Inr (out, db') \<and>
     map b_order_index (ordered_blocks db' ''a'') = map int [0..<length (ordered_blocks sample_db ''a'')]"
proof -
  have "\<exists>out db'. update_block sample_env ''b1'' sample_block_move sample_db = Inr (out, db')"
    by (simp add: update_block_def sample_block_move_def get_row_defs row_get_def claim_project_revision_def
        check_entity_revision_def current_revision_def ordered_blocks_def node_blocks_def block_key_def
        moved_blocks_def row_delete_def insert_at_def target_index_def rewrite_block_order_def put_blocks_def
        renumber_def bump_existing_rows apply_block_changes_def bump_block_def row_update_def result_simps sample_simps)
  moreover have "get_block_row sample_db ''b1'' = Some (sample_block ''b1'' ''a'' 0)"
    by (simp add: get_block_row_def row_get_def sample_simps)
  ultimately show ?thesis
    using update_block_reorders [OF _ sample_ok] by (fastforce simp: Let_def sample_simps)
qed

text \<open>
  Creating a block repairs the order of the existing ones and appends: the blocks read back are the
  old ones in their old sequence followed by the new one, numbered 0, 1, ..., n; an old row whose
  number was already right keeps its revision.
\<close>

theorem create_block_appends:
  assumes "create_block env nid data db = Inr (out, db')" "db_ok db"
  shows "map b_id (ordered_blocks db' nid) = map b_id (ordered_blocks db nid) @ [b_id out] \<and>
    map b_order_index (ordered_blocks db' nid) = map int [0..<length (ordered_blocks db nid) + 1] \<and>
    (\<forall>k < length (ordered_blocks db nid). b_order_index (ordered_blocks db nid ! k) = int k \<longrightarrow>
       ordered_blocks db' nid ! k = ordered_blocks db nid ! k)"
proof -
  have "b_order_index out = int (length (ordered_blocks db nid))"
    using assms(1)
  proof (cases rule: create_block_steps)
    case (1 node db1 db2 t)
    then show ?thesis by (simp add: ordered_blocks_def node_blocks_def claim_frame(3) [OF 1(2)])
  qed
  moreover have "b_order_index b = k \<longrightarrow> renumber env None k b = b" for k b by (simp add: renumber_def)
  ultimately show ?thesis
    unfolding create_block_order [OF assms]
    by (simp add: rewrite_block_order_def rewrite_indices nth_append rewrite_from_nth)
qed

definition sample_block_create :: block_create where
  "sample_block_create = \<lparr>bc_expected_project_revision = 5, bc_expected_node_revision = 1,
     bc_block_type = ''note'', bc_content = JNull\<rparr>"

theorem create_block_appends_witness:
  "\<exists>out db'. create_block sample_env ''a'' sample_block_create sample_db = Inr (out, db') \<and>
     map b_id (ordered_blocks db' ''a'') = map b_id (ordered_blocks sample_db ''a'') @ [b_id out]"
proof -
  have "\<exists>out db'. create_block sample_env ''a'' sample_block_create sample_db = Inr (out, db')"
    by (simp add: create_block_def sample_block_create_def get_row_defs row_get_def claim_project_revision_def
        check_entity_revision_def current_revision_def insert_block_def has_row_code put_blocks_def
        auto_advance_maturity_def bump_existing_rows bump_node_def new_maturity_def has_summary_def block_count_def
        child_count_def child_edges_def log_action_def insert_log_def opt_has_def row_update_def ordered_blocks_def
        node_blocks_def block_key_def rewrite_block_order_def renumber_def result_simps sample_simps sample_node_def
        new_node_def Let_def)
  then show ?thesis using create_block_appends [OF _ sample_ok] by blast
qed

text \<open>
  Deleting a block leaves the node's other blocks in their sequence, numbered without a gap.
\<close>

theorem delete_block_closes_gap:
  assumes "delete_block env bid pr nr er db = Inr (u, db')" "db_ok db" "get_block_row db bid = Some block"
  shows "map b_id (ordered_blocks db' (b_node_id block)) =
      filter (\<lambda>i. i \<noteq> bid) (map b_id (ordered_blocks db (b_node_id block))) \<and>
    map b_order_index (ordered_blocks db' (b_node_id block)) =
      map int [0..<length (ordered_blocks db' (b_node_id block))]"
  unfolding delete_block_order [OF assms]
  by (simp add: rewrite_block_order_def rewrite_indices row_delete_def filter_map comp_def)

theorem delete_block_closes_gap_witness:
  "\<exists>db'. delete_block sample_env ''b1'' 5 1 1 sample_db = Inr ((), db') \<and>
     map b_order_index (ordered_blocks db' ''a'') = map int [0..<length (ordered_blocks db' ''a'')]"
proof -
  have "\<exists>db'. delete_block sample_env ''b1'' 5 1 1 sample_db = Inr ((), db')"
    by (simp add: delete_block_def get_row_defs row_get_def claim_project_revision_def check_entity_revision_def
        current_revision_def result_simps sample_simps)
  moreover have "get_block_row sample_db ''b1'' = Some (sample_block ''b1'' ''a'' 0)"
    by (simp add: get_block_row_def row_get_def sample_simps)
  ultimately show ?thesis using delete_block_closes_gap [OF _ sample_ok] by (fastforce simp: sample_simps)
qed

end
