(* ===== verification/Branches.thy ===== *)
theory Branches
  imports Branching Blocks
begin

text \<open>
  Branches of a project (the branch handlers of \<open>api/routes.py\<close>): creation by deep copy, listing,
  comparison and ranking, merging back under a mainline node, archiving. A branch is active, merged
  or archived; only an active one can be merged or archived.
\<close>

section \<open>Handlers\<close>

record branch_create =
  brc_expected_project_revision :: int
  brc_source_node_id :: ident
  brc_name :: string
  brc_description :: string

record branch_merge_request =
  bm_expected_project_revision :: int
  bm_expected_revision :: int
  bm_target_node_id :: ident
  bm_expected_target_revision :: int

definition create_branch :: "env \<Rightarrow> ident \<Rightarrow> branch_create \<Rightarrow> db \<Rightarrow> (branch \<times> db) result" where
  "create_branch env pid data db =
     (case get_project_row db pid of
        None \<Rightarrow> Inl (HTTPException 404 ''Project not found'')
      | Some _ \<Rightarrow> (case get_node_row db (brc_source_node_id data) of
          None \<Rightarrow> Inl (HTTPException 400 ''Invalid source node'')
        | Some source_node \<Rightarrow>
            if n_project_id source_node \<noteq> pid then Inl (HTTPException 400 ''Invalid source node'')
            else and_then (claim_project_revision env pid (brc_expected_project_revision data) db) (\<lambda>db.
              and_then (deep_copy_branch env pid (brc_source_node_id data) (brc_name data) (brc_description data) ''branch'' db)
                (\<lambda>(branch, k, db).
              and_then (log_action env (uuid env k) pid None ''human'' ''create_branch''
                  [(''branch_name'', JStr (brc_name data)), (''source_node_id'', JStr (brc_source_node_id data))] db) (\<lambda>db.
                Inr (branch, db))))))"

definition list_branches :: "env \<Rightarrow> ident \<Rightarrow> bool \<Rightarrow> db \<Rightarrow> branch list result" where
  "list_branches env pid include_inactive db =
     (let rows = sort_key (\<lambda>b. - br_created_at b)
            (filter (\<lambda>b. br_project_id b = pid \<and> (include_inactive \<or> br_status b = ''active'')) (branches db))
      in if query_only env then Inr (map (\<lambda>b. b\<lparr>br_revision := 1\<rparr>) rows)
         else case get_project_row db pid of
             None \<Rightarrow> Inl (HTTPException 404 ''Project not found'')
           | Some _ \<Rightarrow> Inr rows)"

definition get_branch :: "ident \<Rightarrow> db \<Rightarrow> branch result" where
  "get_branch bid db =
     (case get_branch_row db bid of None \<Rightarrow> Inl (HTTPException 404 ''Branch not found'') | Some b \<Rightarrow> Inr b)"

text \<open>The nodes of a branch, what is below them, and the first node that is below none.\<close>

definition branch_nodes :: "ident \<Rightarrow> db \<Rightarrow> node list" where
  "branch_nodes bid db = filter (\<lambda>n. n_branch_id n = Some bid) (nodes db)"

definition child_ids_of :: "ident list \<Rightarrow> db \<Rightarrow> ident list" where
  "child_ids_of ids db = map e_to_node_id (filter (\<lambda>e. e_from_node_id e \<in> set ids \<and> is_child_edge e) (edges db))"

definition branch_root :: "node list \<Rightarrow> ident list \<Rightarrow> node option" where
  "branch_root ns child_ids = find (\<lambda>n. n_id n \<notin> set child_ids) ns"

text \<open>The response row of a node with the handler's defaults filled in.\<close>

definition view_node :: "node \<Rightarrow> node" where
  "view_node n =
     n\<lparr>n_priority := Some (case n_priority n of None \<Rightarrow> 0 | Some p \<Rightarrow> p),
       n_confidence := Some (case n_confidence n of None \<Rightarrow> 1 / 2 | Some c \<Rightarrow> c),
       n_description := Some (or_default (n_description n) []), n_rules_text := Some (or_default (n_rules_text n) []),
       n_constraints_text := Some (or_default (n_constraints_text n) []), n_examples_text := Some (or_default (n_examples_text n) []),
       n_questions_text := Some (or_default (n_questions_text n) []), n_decision_notes := Some (or_default (n_decision_notes n) []),
       n_workflow_status := (if n_workflow_status n = [] then ''draft'' else n_workflow_status n),
       n_tags := json_or (n_tags n) (JList []), n_file_paths := json_or (n_file_paths n) (JList []),
       n_created_by := Some (or_default (n_created_by n) []), n_last_edited_by := Some (or_default (n_last_edited_by n) []),
       n_position_x := Some (case n_position_x n of None \<Rightarrow> 0 | Some x \<Rightarrow> x),
       n_position_y := Some (case n_position_y n of None \<Rightarrow> 0 | Some y \<Rightarrow> y),
       n_revision := current_revision (n_revision n)\<rparr>"

datatype branch_tree = BranchTree node "branch_tree list"

text \<open>
  \<open>build_tree\<close> recurses without a bound; \<open>fuel\<close> is the recursion depth the interpreter grants, and
  \<open>None\<close> its \<open>RecursionError\<close>. The node always exists: the root is a branch node and children outside
  the branch are skipped.
\<close>

fun build_branch_tree :: "nat \<Rightarrow> node list \<Rightarrow> (ident \<Rightarrow> ident list) \<Rightarrow> node \<Rightarrow> branch_tree option" where
  "build_branch_tree 0 ns children n = None"
| "build_branch_tree (Suc fuel) ns children n =
     map_option (BranchTree (view_node n))
       (those (map (build_branch_tree fuel ns children) (List.map_filter (row_get n_id ns) (children (n_id n)))))"

datatype branch_subtree = NoNodes ident string | BranchSubtree branch "branch_tree option"

definition get_branch_subtree :: "nat \<Rightarrow> ident \<Rightarrow> db \<Rightarrow> branch_subtree option result" where
  "get_branch_subtree fuel bid db =
     (case get_branch_row db bid of
        None \<Rightarrow> Inl (HTTPException 404 ''Branch not found'')
      | Some branch \<Rightarrow>
          let ns = filter (\<lambda>n. n_project_id n = br_project_id branch) (branch_nodes bid db);
              es = filter (\<lambda>e. e_project_id e = br_project_id branch \<and> e_from_node_id e \<in> n_id ` set ns \<and> is_child_edge e) (edges db);
              children = (\<lambda>x. map e_to_node_id (filter (\<lambda>e. e_from_node_id e = x) es))
          in if ns = [] then Inr (Some (NoNodes bid (br_name branch)))
             else case branch_root ns (map e_to_node_id es) of
               None \<Rightarrow> Inr (Some (BranchSubtree branch None))
             | Some root_node \<Rightarrow> Inr (map_option (\<lambda>t. BranchSubtree branch (Some t)) (build_branch_tree fuel ns children root_node)))"

definition get_branch_history :: "ident \<Rightarrow> nat \<Rightarrow> db \<Rightarrow> action_log list result" where
  "get_branch_history bid limit db =
     (case get_branch_row db bid of
        None \<Rightarrow> Inl (HTTPException 404 ''Branch not found'')
      | Some branch \<Rightarrow> Inr (take limit (sort_key (\<lambda>l. - l_created_at l)
          (filter (\<lambda>l. l_project_id l = br_project_id branch \<and>
             (json_member ''branch_id'' (l_payload l) = Some (JStr bid) \<or>
              json_member ''branch_name'' (l_payload l) = Some (JStr (br_name branch)))) (action_logs db)))))"

record branch_diff =
  bd_branch :: branch
  bd_source :: node
  bd_branch_root :: "node option"
  bd_title_changed :: bool
  bd_summary_changed :: bool
  bd_maturity_changed :: bool
  bd_source_block_count :: nat
  bd_branch_block_count :: nat
  bd_branch_node_count :: nat

definition compare_branch :: "ident \<Rightarrow> db \<Rightarrow> branch_diff result" where
  "compare_branch bid db =
     (case get_branch_row db bid of
        None \<Rightarrow> Inl (HTTPException 404 ''Branch not found'')
      | Some branch \<Rightarrow> (case Option.bind (br_source_node_id branch) (get_node_row db) of
          None \<Rightarrow> Inl (HTTPException 404 ''Branch source node not found'')
        | Some source \<Rightarrow>
            let ns = filter (\<lambda>n. n_project_id n = br_project_id branch) (branch_nodes bid db);
                es = filter (\<lambda>e. e_project_id e = br_project_id branch \<and> e_from_node_id e \<in> n_id ` set ns \<and> is_child_edge e) (edges db);
                root_node = branch_root ns (map e_to_node_id es);
                differs = (\<lambda>P. case root_node of None \<Rightarrow> False | Some r \<Rightarrow> P r)
            in Inr \<lparr>bd_branch = branch, bd_source = source, bd_branch_root = root_node,
                 bd_title_changed = differs (\<lambda>r. n_title r \<noteq> n_title source),
                 bd_summary_changed = differs (\<lambda>r. or_default (n_summary r) [] \<noteq> or_default (n_summary source) []),
                 bd_maturity_changed = differs (\<lambda>r. n_maturity r \<noteq> n_maturity source),
                 bd_source_block_count = block_count db (n_id source),
                 bd_branch_block_count = (case root_node of None \<Rightarrow> 0 | Some r \<Rightarrow> block_count db (n_id r)),
                 bd_branch_node_count = length ns\<rparr>))"

record branch_score =
  bs_branch :: branch
  bs_node_count :: nat
  bs_block_count :: nat
  bs_score :: nat

definition score_branch :: "db \<Rightarrow> branch \<Rightarrow> branch_score" where
  "score_branch db branch =
     (let ns = branch_nodes (br_id branch) db;
          blocks = length (filter (\<lambda>b. b_node_id b \<in> n_id ` set ns) (content_blocks db))
      in \<lparr>bs_branch = branch, bs_node_count = length ns, bs_block_count = blocks, bs_score = length ns * 10 + blocks\<rparr>)"

definition rank_branches :: "ident \<Rightarrow> db \<Rightarrow> branch_score list result" where
  "rank_branches pid db =
     (case get_project_row db pid of
        None \<Rightarrow> Inl (HTTPException 404 ''Project not found'')
      | Some _ \<Rightarrow> Inr (sort_key (\<lambda>s. (- int (bs_score s), br_created_at (bs_branch s)))
          (map (score_branch db) (sort_key (\<lambda>b. - br_created_at b)
            (filter (\<lambda>b. br_project_id b = pid \<and> br_status b = ''active'') (branches db))))))"

definition set_branch_status :: "ident \<Rightarrow> string \<Rightarrow> db \<Rightarrow> db" where
  "set_branch_status bid status db = branches_update (row_update br_id bid (\<lambda>b. b\<lparr>br_status := status\<rparr>)) db"

text \<open>\<open>for n in branch_nodes: n.branch_id = None\<close>; the bump that follows sets the update time.\<close>

definition clear_branch :: "ident list \<Rightarrow> db \<Rightarrow> db" where
  "clear_branch ids db = nodes_update (map (\<lambda>n. if n_id n \<in> set ids then n\<lparr>n_branch_id := None\<rparr> else n)) db"

definition merge_branch :: "env \<Rightarrow> ident \<Rightarrow> branch_merge_request \<Rightarrow> db \<Rightarrow> (unit \<times> db) result" where
  "merge_branch env bid body db =
     (case get_branch_row db bid of
        None \<Rightarrow> Inl (HTTPException 404 ''Branch not found'')
      | Some branch \<Rightarrow>
          if br_status branch \<noteq> ''active'' then Inl (HTTPException 400 ''Only active branches can be merged'')
          else and_then (claim_project_revision env (br_project_id branch) (bm_expected_project_revision body) db) (\<lambda>db.
            and_then (check_entity_revision ''branch'' bid (br_revision branch) (bm_expected_revision body)) (\<lambda>_.
            case get_node_row db (bm_target_node_id body) of
              None \<Rightarrow> Inl (HTTPException 400 ''Target node must be on this project mainline'')
            | Some target \<Rightarrow>
                if n_project_id target \<noteq> br_project_id branch \<or> truthy (n_branch_id target)
                then Inl (HTTPException 400 ''Target node must be on this project mainline'')
                else and_then (check_entity_revision ''node'' (n_id target) (n_revision target) (bm_expected_target_revision body)) (\<lambda>_.
                  let ids = map n_id (branch_nodes bid db)
                  in case branch_root (branch_nodes bid db) (child_ids_of ids db) of
                    None \<Rightarrow> Inl (HTTPException 400 ''Cannot find branch root'')
                  | Some root_node \<Rightarrow>
                      if bm_target_node_id body \<in> set ids then Inl (HTTPException 400 ''Cannot merge a branch into itself'')
                      else
                        and_then (scalar_one_or_none (parent_edges db (n_id root_node))) (\<lambda>old_edge.
                          let db = remove_old_edge old_edge (clear_branch ids db);
                              mainline = (child_edges db (bm_target_node_id body) = [])
                          in and_then (insert_edge (new_edge env (uuid env 0) (br_project_id branch) (bm_target_node_id body)
                                 (n_id root_node) mainline) db) (\<lambda>db.
                             let db = bump_existing env ([BranchRef bid, NodeRef (n_id target)] @ map NodeRef ids)
                                   (set_branch_status bid ''merged'' db)
                             in and_then (log_action env (uuid env 1) (br_project_id branch) None ''human'' ''merge_branch''
                                  [(''branch_id'', JStr bid), (''target_node_id'', JStr (bm_target_node_id body))] db) (\<lambda>db.
                                Inr ((), db))))))))"

definition archive_branch :: "env \<Rightarrow> ident \<Rightarrow> int \<Rightarrow> int \<Rightarrow> db \<Rightarrow> (unit \<times> db) result" where
  "archive_branch env bid expected_project_revision expected_revision db =
     (case get_branch_row db bid of
        None \<Rightarrow> Inl (HTTPException 404 ''Branch not found'')
      | Some branch \<Rightarrow>
          if br_status branch \<noteq> ''active'' then Inl (HTTPException 400 ''Only active branches can be archived'')
          else and_then (claim_project_revision env (br_project_id branch) expected_project_revision db) (\<lambda>db.
            and_then (check_entity_revision ''branch'' bid (br_revision branch) expected_revision) (\<lambda>_.
              let db = bump_existing env [BranchRef bid] (set_branch_status bid ''archived'' db)
              in and_then (log_action env (uuid env 0) (br_project_id branch) None ''human'' ''archive_branch''
                     [(''branch_id'', JStr bid)] db) (\<lambda>db. Inr ((), db)))))"


section \<open>Creating a branch\<close>

lemma create_branch_steps:
  assumes "create_branch env pid data db = Inr (branch, db')"
  obtains db1 k db2 where
    "claim_project_revision env pid (brc_expected_project_revision data) db = Inr db1"
    "deep_copy_branch env pid (brc_source_node_id data) (brc_name data) (brc_description data) ''branch'' db1 = Inr (branch, k, db2)"
    "log_action env (uuid env k) pid None ''human'' ''create_branch''
       [(''branch_name'', JStr (brc_name data)), (''source_node_id'', JStr (brc_source_node_id data))] db2 = Inr db'"
  using assms by (auto simp: create_branch_def result_simps split: if_splits)

lemma create_branch_advances:
  assumes "create_branch env pid data db = Inr (branch, db')"
  shows "advances db pid (brc_expected_project_revision data) db'"
  using assms
proof (cases rule: create_branch_steps)
  case (1 db1 k db2)
  have "projects db' = projects db1" using log_action_frame(1) [OF 1(3)] deep_copy_appends(5) [OF 1(2)] by simp
  then show ?thesis by (rule claim_advances [OF 1(1)])
qed

lemma create_branch_ok:
  assumes "create_branch env pid data db = Inr (branch, db')" "db_ok db" "uuid env 0 \<noteq> []"
  shows "db_ok db'"
  using assms(1)
proof (cases rule: create_branch_steps)
  case (1 db1 k db2)
  have "db_ok db1" by (rule ok_claim) fact+
  then show ?thesis using ok_log_action [OF 1(3)] deep_copy_ok [OF 1(2) _ assms(3)] by blast
qed

interpretation create_branch_cas:
  cas_handler "\<lambda>r. create_branch env pid (data\<lparr>brc_expected_project_revision := r\<rparr>)" "\<lambda>_. Some pid" for env pid data
  by unfold_locales (auto dest: create_branch_advances)

section \<open>Archiving a branch\<close>

lemma archive_branch_steps:
  assumes "archive_branch env bid pr er db = Inr (u, db')"
  obtains branch db1 where "get_branch_row db bid = Some branch" "br_status branch = ''active''"
    "claim_project_revision env (br_project_id branch) pr db = Inr db1" "er = current_revision (br_revision branch)"
    "log_action env (uuid env 0) (br_project_id branch) None ''human'' ''archive_branch'' [(''branch_id'', JStr bid)]
       (bump_existing env [BranchRef bid] (set_branch_status bid ''archived'' db1)) = Inr db'"
  using assms by (auto simp: archive_branch_def result_simps Let_def check_entity_Inr split: if_splits)

lemma set_branch_status_frame [simp]:
  "projects (set_branch_status bid st db) = projects db" "nodes (set_branch_status bid st db) = nodes db"
  "edges (set_branch_status bid st db) = edges db" "content_blocks (set_branch_status bid st db) = content_blocks db"
  "branches (set_branch_status bid st db) = row_update br_id bid (\<lambda>b. b\<lparr>br_status := st\<rparr>) (branches db)"
  by (simp_all add: set_branch_status_def)

lemma set_branch_status_ok: "db_ok db \<Longrightarrow> db_ok (set_branch_status bid st db)"
  using ok_map_branches [of "\<lambda>b. if br_id b = bid then b\<lparr>br_status := st\<rparr> else b" db]
  by (simp add: set_branch_status_def row_update_def [abs_def])

lemma archive_branch_advances:
  assumes "archive_branch env bid pr er db = Inr (u, db')"
  shows "\<exists>branch. get_branch_row db bid = Some branch \<and> advances db (br_project_id branch) pr db'"
  using assms
proof (cases rule: archive_branch_steps)
  case (1 branch db1)
  have "projects db' = projects db1" using log_action_frame(1) [OF 1(5)] by simp
  then show ?thesis using 1(1) claim_advances [OF 1(3)] by blast
qed

lemma archive_branch_ok:
  assumes "archive_branch env bid pr er db = Inr (u, db')" "db_ok db"
  shows "db_ok db'"
  using assms(1)
proof (cases rule: archive_branch_steps)
  case (1 branch db1)
  have "db_ok db1" by (rule ok_claim) fact+
  then show ?thesis by (intro ok_log_action [OF 1(5)] ok_bump_existing set_branch_status_ok)
qed

interpretation archive_branch_cas:
  cas_handler "\<lambda>r. archive_branch env bid r er" "\<lambda>db. map_option br_project_id (get_branch_row db bid)" for env bid er
  by unfold_locales (auto dest: archive_branch_advances)

section \<open>Merging a branch\<close>

lemma merge_branch_steps:
  assumes "merge_branch env bid body db = Inr (u, db')"
  obtains branch db1 target root_node old_edge db2 where "get_branch_row db bid = Some branch" "br_status branch = ''active''"
    "claim_project_revision env (br_project_id branch) (bm_expected_project_revision body) db = Inr db1"
    "bm_expected_revision body = current_revision (br_revision branch)"
    "get_node_row db (bm_target_node_id body) = Some target" "n_project_id target = br_project_id branch" "\<not> truthy (n_branch_id target)"
    "bm_expected_target_revision body = current_revision (n_revision target)"
    "branch_root (branch_nodes bid db) (child_ids_of (map n_id (branch_nodes bid db)) db) = Some root_node"
    "bm_target_node_id body \<notin> n_id ` set (branch_nodes bid db)"
    "scalar_one_or_none (parent_edges db (n_id root_node)) = Inr old_edge"
    "insert_edge (new_edge env (uuid env 0) (br_project_id branch) (bm_target_node_id body) (n_id root_node)
        (child_edges (remove_old_edge old_edge (clear_branch (map n_id (branch_nodes bid db)) db1)) (bm_target_node_id body) = []))
       (remove_old_edge old_edge (clear_branch (map n_id (branch_nodes bid db)) db1)) = Inr db2"
    "log_action env (uuid env 1) (br_project_id branch) None ''human'' ''merge_branch''
        [(''branch_id'', JStr bid), (''target_node_id'', JStr (bm_target_node_id body))]
        (bump_existing env ([BranchRef bid, NodeRef (n_id target)] @ map NodeRef (map n_id (branch_nodes bid db)))
          (set_branch_status bid ''merged'' db2)) = Inr db'"
proof -
  from assms obtain branch db1 where 1: "get_branch_row db bid = Some branch" "br_status branch = ''active''"
    "claim_project_revision env (br_project_id branch) (bm_expected_project_revision body) db = Inr db1"
    by (auto simp: merge_branch_def result_simps)
  note f = claim_frame [OF 1(3)]
  have g: "get_node_row db1 = get_node_row db" "branch_nodes bid db1 = branch_nodes bid db"
    "child_ids_of ids db1 = child_ids_of ids db" "parent_edges db1 x = parent_edges db x" for ids x
    by (simp_all add: fun_eq_iff get_node_row_def branch_nodes_def child_ids_of_def parent_edges_def f)
  show ?thesis
    using assms 1 that
    by (auto simp: merge_branch_def result_simps Let_def check_entity_Inr g(1,2,3) g(4) list.set_map
        simp del: map_map list.map_comp split: if_splits)
qed

lemma clear_branch_frame [simp]:
  "projects (clear_branch ids db) = projects db" "edges (clear_branch ids db) = edges db"
  "branches (clear_branch ids db) = branches db" "content_blocks (clear_branch ids db) = content_blocks db"
  by (simp_all add: clear_branch_def)

lemma clear_branch_ok: "db_ok db \<Longrightarrow> db_ok (clear_branch ids db)"
  unfolding clear_branch_def by (rule ok_map_nodes) auto

lemma clear_branch_owner [simp]: "owner (nodes (clear_branch ids db)) x = owner (nodes db) x"
  by (simp add: clear_branch_def owner_map)

lemma merge_branch_advances:
  assumes "merge_branch env bid body db = Inr (u, db')"
  shows "\<exists>branch. get_branch_row db bid = Some branch \<and> advances db (br_project_id branch) (bm_expected_project_revision body) db'"
  using assms
proof (cases rule: merge_branch_steps)
  case (1 branch db1 target root_node old_edge db2)
  have "projects db' = projects db1" using log_action_frame(1) [OF 1(13)] insert_edge_frame(2) [OF 1(12)] by simp
  then show ?thesis using 1(1) claim_advances [OF 1(3)] by blast
qed

lemma branch_root_in:
  "branch_root ns cs = Some n \<Longrightarrow> n \<in> set ns \<and> n_id n \<notin> set cs"
  by (auto simp: branch_root_def find_Some_iff)

lemma branch_node_owner:
  assumes "db_ok db" "n \<in> set (branch_nodes bid db)" "get_branch_row db bid = Some branch"
  shows "owner (nodes db) (n_id n) = Some (br_project_id branch)"
proof -
  have n: "n \<in> set (nodes db)" "n_branch_id n = Some bid" using assms(2) by (simp_all add: branch_nodes_def)
  then have "owner (nodes db) (n_id n) = Some (n_project_id n)"
    using row_get_unique [OF ok_keys(2) [OF assms(1)] n(1)] by (simp add: owner_def)
  moreover have "branch_owner (branches db) bid = Some (n_project_id n)"
    using assms(1) n by (simp add: db_ok_def ownership_ok_def nodes_owned_def)
  ultimately show ?thesis using branch_owner_get [OF assms(3)] by simp
qed

lemma merge_branch_ok:
  assumes "merge_branch env bid body db = Inr (u, db')" "db_ok db"
  shows "db_ok db'"
  using assms(1)
proof (cases rule: merge_branch_steps)
  case (1 branch db1 target root_node old_edge db2)
  have ok1: "db_ok db1" by (rule ok_claim) fact+
  note f = claim_frame [OF 1(3)]
  have "owner (nodes db) (n_id root_node) = Some (br_project_id branch)"
    using branch_node_owner [OF assms(2) _ 1(1)] branch_root_in [OF 1(9)] by blast
  moreover have "owner (nodes db) (bm_target_node_id body) = Some (br_project_id branch)"
    using owner_get [OF 1(5)] 1(6) by simp
  ultimately have "db_ok db2"
    by (intro ok_insert_edge [OF 1(12)] remove_old_edge_ok clear_branch_ok ok1) (simp_all add: f)
  then show ?thesis by (intro ok_log_action [OF 1(13)] ok_bump_existing set_branch_status_ok)
qed

interpretation merge_branch_cas:
  cas_handler "\<lambda>r. merge_branch env bid (body\<lparr>bm_expected_project_revision := r\<rparr>)"
    "\<lambda>db. map_option br_project_id (get_branch_row db bid)" for env bid body
  by unfold_locales (auto dest: merge_branch_advances)


section \<open>What a merge leaves behind\<close>

lemma merge_child_rel:
  assumes "merge_branch env bid body db = Inr (u, db')" "db_ok db"
    "branch_root (branch_nodes bid db) (child_ids_of (map n_id (branch_nodes bid db)) db) = Some root_node"
  shows "child_rel db' = insert (bm_target_node_id body, n_id root_node) {(x, y) \<in> child_rel db. y \<noteq> n_id root_node}"
  using assms(1)
proof (cases rule: merge_branch_steps)
  case (1 branch db1 target root' old_edge db2)
  have r: "root' = root_node" using 1(9) assms(3) by simp
  let ?db = "clear_branch (map n_id (branch_nodes bid db)) db1"
  have same: "edges ?db = edges db" using claim_frame(2) [OF 1(3)] by simp
  then have "parent_edges ?db (n_id root_node) = parent_edges db (n_id root_node)" by (simp add: parent_edges_def)
  then have "set (edges (remove_old_edge old_edge ?db)) = {e \<in> set (edges db). \<not> (is_child_edge e \<and> e_to_node_id e = n_id root_node)}"
    using remove_old_edge_parents [of ?db "n_id root_node" old_edge] 1(11) same ok_keys(3) [OF assms(2)] r by simp
  moreover have "edges db' = edges db2"
    using log_action_frame(3) [OF 1(13)] by (simp add: bump_existing_rows image_iff)
  ultimately have "{e \<in> set (edges db'). is_child_edge e} =
      insert (new_edge env (uuid env 0) (br_project_id branch) (bm_target_node_id body) (n_id root_node)
        (child_edges (remove_old_edge old_edge ?db) (bm_target_node_id body) = []))
        {e \<in> set (edges db). is_child_edge e \<and> e_to_node_id e \<noteq> n_id root_node}"
    using r by (auto simp: insert_edge_frame(1) [OF 1(12)])
  then show ?thesis by (auto simp: child_rel_def)
qed

lemma merge_branch_nodes:
  assumes "merge_branch env bid body db = Inr (u, db')" and keys: "distinct (map n_id (nodes db))"
  shows "nodes db' = map (\<lambda>n. if n_branch_id n = Some bid then bump_node env (n\<lparr>n_branch_id := None\<rparr>)
      else if n_id n = bm_target_node_id body then bump_node env n else n) (nodes db)"
  using assms(1)
proof (cases rule: merge_branch_steps)
  case (1 branch db1 target root_node old_edge db2)
  let ?ids = "n_id ` set (branch_nodes bid db)"
  have t: "n_id target = bm_target_node_id body" using 1(5) by (rule get_node_row_id)
  have "nodes db2 = map (\<lambda>n. if n_id n \<in> ?ids then n\<lparr>n_branch_id := None\<rparr> else n) (nodes db)"
    using insert_edge_frame(3) [OF 1(12)] claim_frame(1) [OF 1(3)] by (simp add: clear_branch_def)
  then have "nodes db' = map (\<lambda>n. if n_id n = bm_target_node_id body \<or> n_id n \<in> ?ids
        then bump_node env (if n_id n \<in> ?ids then n\<lparr>n_branch_id := None\<rparr> else n) else n) (nodes db)"
    using log_action_frame(2) [OF 1(13)] by (auto simp: bump_existing_rows t)
  moreover have "n_id n \<in> ?ids \<longleftrightarrow> n_branch_id n = Some bid" if n: "n \<in> set (nodes db)" for n
  proof
    assume "n_id n \<in> ?ids"
    then obtain m where "m \<in> set (branch_nodes bid db)" "n_id n = n_id m" by (rule imageE)
    then show "n_branch_id n = Some bid"
      using same_key [OF keys n, of m] by (auto simp: branch_nodes_def)
  qed (use n in \<open>simp add: branch_nodes_def\<close>)
  ultimately show ?thesis using 1(10) by (auto intro!: map_cong)
qed

lemma merge_branch_row:
  assumes "merge_branch env bid body db = Inr (u, db')"
  shows "get_branch_row db' bid = map_option (\<lambda>b. bump_branch (b\<lparr>br_status := ''merged''\<rparr>)) (get_branch_row db bid)"
  using assms
proof (cases rule: merge_branch_steps)
  case (1 branch db1 target root_node old_edge db2)
  have "branches db' = map (\<lambda>b. if br_id b = bid then bump_branch b else b) (row_update br_id bid (\<lambda>b. b\<lparr>br_status := ''merged''\<rparr>) (branches db))"
    using log_action_frame(5) [OF 1(13)] insert_edge_frame(4) [OF 1(12)] claim_frame(4) [OF 1(3)]
    by (simp add: bump_existing_rows image_iff)
  then show ?thesis
    using row_get_update [of br_id bump_branch bid "row_update br_id bid (\<lambda>b. b\<lparr>br_status := ''merged''\<rparr>) (branches db)" bid]
    by (simp add: get_branch_row_def row_update_def [symmetric] row_get_update option.map_comp comp_def)
qed

lemma archive_branch_row:
  assumes "archive_branch env bid pr er db = Inr (u, db')"
  shows "get_branch_row db' bid = map_option (\<lambda>b. bump_branch (b\<lparr>br_status := ''archived''\<rparr>)) (get_branch_row db bid)"
  using assms
proof (cases rule: archive_branch_steps)
  case (1 branch db1)
  have "branches db' = map (\<lambda>b. if br_id b = bid then bump_branch b else b) (row_update br_id bid (\<lambda>b. b\<lparr>br_status := ''archived''\<rparr>) (branches db))"
    using log_action_frame(5) [OF 1(5)] claim_frame(4) [OF 1(3)]
    by (simp add: bump_existing_rows image_iff)
  then show ?thesis
    using row_get_update [of br_id bump_branch bid "row_update br_id bid (\<lambda>b. b\<lparr>br_status := ''archived''\<rparr>) (branches db)" bid]
    by (simp add: get_branch_row_def row_update_def [symmetric] row_get_update option.map_comp comp_def)
qed

lemma closed_branch_refused:
  assumes "get_branch_row db bid = Some b" "br_status b \<noteq> ''active''"
  shows "merge_branch env bid body db = Inl (HTTPException 400 ''Only active branches can be merged'')"
    "archive_branch env bid pr er db = Inl (HTTPException 400 ''Only active branches can be archived'')"
  using assms by (simp_all add: merge_branch_def archive_branch_def)


section \<open>The branch tree\<close>

fun branch_tree_ids :: "branch_tree \<Rightarrow> ident set" where
  "branch_tree_ids (BranchTree n ts) = insert (n_id n) (\<Union> (set (map branch_tree_ids ts)))"

text \<open>One step of the tree: to a child that is a node of the branch.\<close>

definition tree_rel :: "node list \<Rightarrow> (ident \<Rightarrow> ident list) \<Rightarrow> (ident \<times> ident) set" where
  "tree_rel ns children = {(x, y). y \<in> set (children x) \<and> y \<in> n_id ` set ns}"

lemma tree_children:
  "set (List.map_filter (row_get n_id ns) (children x)) =
     {m. \<exists>y \<in> tree_rel ns children `` {x}. row_get n_id ns y = Some m}"
proof -
  have "set (List.map_filter f xs) = {m. \<exists>y \<in> set xs. f y = Some m}" for f :: "ident \<Rightarrow> node option" and xs
    by (induction xs) (auto simp: map_filter_simps split: option.splits)
  moreover have "y \<in> n_id ` set ns" if "row_get n_id ns y = Some m" for y m
    using that by (metis option.distinct(1) row_get_None)
  ultimately show ?thesis unfolding tree_rel_def by auto
qed

lemma those_Some: "those xs = Some ys \<longleftrightarrow> xs = map Some ys"
  by (induction xs arbitrary: ys) (auto split: option.splits)

lemma those_total: "(\<And>x. x \<in> set xs \<Longrightarrow> \<exists>y. f x = Some y) \<Longrightarrow> \<exists>ys. those (map f xs) = Some ys"
  by (induction xs) fastforce+

lemma tree_row_ex: "y \<in> n_id ` set ns \<Longrightarrow> \<exists>m. row_get n_id ns y = Some m"
  by (metis has_row_def has_row_iff_get)

lemma branch_tree_ids_reachable:
  "build_branch_tree fuel ns children n = Some t \<Longrightarrow> branch_tree_ids t = (tree_rel ns children)\<^sup>* `` {n_id n}"
proof (induction fuel arbitrary: n t)
  case (Suc fuel)
  let ?R = "tree_rel ns children"
  let ?ms = "List.map_filter (row_get n_id ns) (children (n_id n))"
  from Suc.prems obtain ts where t: "t = BranchTree (view_node n) ts"
    and "those (map (build_branch_tree fuel ns children) ?ms) = Some ts" by auto
  then have ts: "map (build_branch_tree fuel ns children) ?ms = map Some ts" by (simp add: those_Some)
  have "list_all2 (\<lambda>m t. f m = Some t) xs ys" if "map f xs = map Some ys" for f :: "node \<Rightarrow> branch_tree option" and xs ys
    using that by (induction xs arbitrary: ys) (auto simp: Cons_eq_map_conv)
  from this [OF ts] have "list_all2 (\<lambda>m t. build_branch_tree fuel ns children m = Some t) ?ms ts" .
  then have "list_all2 (\<lambda>m t. branch_tree_ids t = ?R\<^sup>* `` {n_id m}) ?ms ts"
    by (rule list_all2_mono) (rule Suc.IH)
  then have "map branch_tree_ids ts = map (\<lambda>m. ?R\<^sup>* `` {n_id m}) ?ms"
    by (auto simp: list_all2_conv_all_nth intro: nth_equalityI)
  then have "branch_tree_ids t = insert (n_id n) (\<Union>m \<in> set ?ms. ?R\<^sup>* `` {n_id m})"
    unfolding t by (simp add: view_node_def)
  also have "(\<Union>m \<in> set ?ms. ?R\<^sup>* `` {n_id m}) = (\<Union>y \<in> ?R `` {n_id n}. ?R\<^sup>* `` {y})"
  proof -
    have "\<exists>m. row_get n_id ns y = Some m" if "(n_id n, y) \<in> ?R" for y
      using that by (intro tree_row_ex) (simp add: tree_rel_def)
    then have "n_id ` set ?ms = ?R `` {n_id n}" unfolding tree_children by (force dest: row_get_Some)
    then show ?thesis by (metis (no_types, lifting) SUP_cong image_image)
  qed
  also have "insert (n_id n) (\<Union>y \<in> ?R `` {n_id n}. ?R\<^sup>* `` {y}) = ?R\<^sup>* `` {n_id n}"
    by (auto intro: converse_rtrancl_into_rtrancl elim: converse_rtranclE)
  finally show ?case .
qed simp

lemma build_branch_tree_returns:
  assumes "acyclic (tree_rel ns children)"
  shows "card ((tree_rel ns children)\<^sup>* `` {n_id n}) \<le> fuel \<Longrightarrow> \<exists>t. build_branch_tree fuel ns children n = Some t"
proof (induction fuel arbitrary: n)
  case 0
  have "finite ((tree_rel ns children)\<^sup>* `` {x})" for x
    by (rule finite_subset [of _ "insert x (n_id ` set ns)"]) (auto simp: tree_rel_def elim: rtranclE)
  then show ?case using 0 by (simp, blast)
next
  case (Suc fuel)
  let ?R = "tree_rel ns children"
  have fin: "finite (?R\<^sup>* `` {x})" for x
    by (rule finite_subset [of _ "insert x (n_id ` set ns)"]) (auto simp: tree_rel_def elim: rtranclE)
  have "\<exists>t. build_branch_tree fuel ns children m = Some t"
    if m: "m \<in> set (List.map_filter (row_get n_id ns) (children (n_id n)))" for m
  proof -
    have step: "(n_id n, n_id m) \<in> ?R" using m unfolding tree_children by (auto dest: row_get_Some)
    then have "n_id n \<notin> ?R\<^sup>* `` {n_id m}" using assms by (auto simp: acyclic_def dest: rtrancl_into_trancl2)
    then have "?R\<^sup>* `` {n_id m} \<subset> ?R\<^sup>* `` {n_id n}"
      using step by (auto intro: converse_rtrancl_into_rtrancl)
    then have "card (?R\<^sup>* `` {n_id m}) < card (?R\<^sup>* `` {n_id n})" by (rule psubset_card_mono [OF fin])
    then show ?thesis using Suc by simp
  qed
  then have "\<exists>ts. those (map (build_branch_tree fuel ns children) (List.map_filter (row_get n_id ns) (children (n_id n)))) = Some ts"
    by (rule those_total)
  then show ?case by auto
qed

section \<open>Properties\<close>

lemma create_branch_copy:
  assumes "create_branch env pid data db = Inr (branch, db')" "db_ok db"
  obtains db1 k db2 where "db_ok db1" "nodes db1 = nodes db" "edges db1 = edges db" "content_blocks db1 = content_blocks db"
    "branches db1 = branches db" "owner (nodes db) (brc_source_node_id data) = Some pid"
    "deep_copy_branch env pid (brc_source_node_id data) (brc_name data) (brc_description data) ''branch'' db1 = Inr (branch, k, db2)"
    "nodes db' = nodes db2" "edges db' = edges db2" "content_blocks db' = content_blocks db2" "branches db' = branches db2"
  using assms(1)
proof (cases rule: create_branch_steps)
  case (1 db1 k db2)
  note f = claim_frame [OF 1(1)] and g = log_action_frame [OF 1(3)]
  from 1(2) obtain src where "get_node_row db1 (brc_source_node_id data) = Some src" "n_project_id src = pid"
    by (rule deep_copy_steps)
  then have "owner (nodes db) (brc_source_node_id data) = Some pid" using owner_get f(1) by fastforce
  then show ?thesis using that [of db1 k db2] ok_claim [OF 1(1) assms(2)] 1(2) f g by simp
qed

text \<open>
  C5: Creating a branch copies the whole subtree of its source. There is a renaming of the
  nodes at and below the source to identifiers no row had before, under which every such node
  has a copy in the new branch with its texts, and the copy's content blocks are the original's in display
  order; the containment relation grows by exactly the image of the subtree's.
\<close>

theorem create_branch_copies_subtree:
  assumes "create_branch env pid data db = Inr (branch, db')" and "db_ok db"
    and "S = (child_rel db)\<^sup>* `` {brc_source_node_id data}"
  shows "\<exists>m. inj_on m S \<and> m ` S \<inter> node_ids db = {} \<and>
    (\<forall>x \<in> S. \<exists>n. get_node_row db x = Some n \<and>
       get_node_row db' (m x) = Some (copy_node env pid (br_id branch) ''branch'' (m x) n) \<and>
       map block_text (filter (\<lambda>b. b_node_id b = m x) (content_blocks db')) =
       map block_text (sort_key (\<lambda>b. (b_order_index b, b_id b)) (filter (\<lambda>b. b_node_id b = x) (content_blocks db)))) \<and>
    child_rel db' = child_rel db \<union> {(m x, m y) |x y. (x, y) \<in> child_rel db \<and> x \<in> S}"
  using assms(1,2)
proof (cases rule: create_branch_copy)
  case (1 db1 k db2)
  let ?t = "copied_subtree db1 pid (brc_source_node_id data)"
  let ?m = "id_map env ?t"
  have rel: "child_rel db1 = child_rel db" "child_rel db' = child_rel db2" by (simp_all add: child_rel_def 1)
  have row: "get_node_row db1 = get_node_row db" "get_node_row db' = get_node_row db2" by (simp_all add: get_node_row_def fun_eq_iff 1)
  have own: "owner (nodes db1) (brc_source_node_id data) = Some pid" using 1(6) by (simp add: 1(2))
  note reach = copied_subtree_reach [OF 1(1) own]
  have S: "set ?t = S" using reach(1) by (simp add: rel assms(3))
  have ex: "\<exists>n. get_node_row db x = Some n" if "x \<in> S" for x
    using reach(2) [of x] that S by (auto simp: owner_def get_node_row_def 1(2))
  show ?thesis
  proof (intro exI [of _ ?m] conjI ballI)
    show "inj_on ?m S" "?m ` S \<inter> node_ids db = {}"
      using deep_copy_fresh [OF 1(7) ok_schema [OF 1(1)]] by (simp_all add: S 1(2))
    show "\<exists>n. get_node_row db x = Some n \<and>
       get_node_row db' (?m x) = Some (copy_node env pid (br_id branch) ''branch'' (?m x) n) \<and>
       map block_text (filter (\<lambda>b. b_node_id b = ?m x) (content_blocks db')) =
       map block_text (sort_key (\<lambda>b. (b_order_index b, b_id b)) (filter (\<lambda>b. b_node_id b = x) (content_blocks db)))"
      if "x \<in> S" for x
      using deep_copy_node [OF 1(7) ok_schema [OF 1(1)], of x] deep_copy_blocks [OF 1(7) ok_schema [OF 1(1)], of x] ex [OF that] that
      by (auto simp: S row 1(4,10))
    have "{(?m x, ?m y) |x y. (x, y) \<in> child_rel db \<and> (brc_source_node_id data, x) \<in> (child_rel db)\<^sup>*} =
        {(?m x, ?m y) |x y. (x, y) \<in> child_rel db \<and> x \<in> S}" by (simp add: assms(3))
    then show "child_rel db' = child_rel db \<union> {(?m x, ?m y) |x y. (x, y) \<in> child_rel db \<and> x \<in> S}"
      using deep_copy_child_rel [OF 1(7,1)] by (simp add: rel)
  qed
qed

definition sample_branch_create :: branch_create where
  "sample_branch_create = \<lparr>brc_expected_project_revision = 5, brc_source_node_id = ''a'', brc_name = ''B'', brc_description = []\<rparr>"

lemma sample_branch_created: "\<exists>branch db'. create_branch sample_env ''p'' sample_branch_create sample_db = Inr (branch, db')"
  by (simp add: create_branch_def sample_branch_create_def deep_copy_branch_def copied_subtree_def copy_walk.simps children_in_def
      subtree_blocks_def subtree_edges_def id_map_def insert_branch_def insert_node_def insert_block_def sample_move_eval)


theorem create_branch_copies_subtree_witness:
  "\<exists>branch db' m. create_branch sample_env ''p'' sample_branch_create sample_db = Inr (branch, db') \<and>
     m ` ((child_rel sample_db)\<^sup>* `` {''a''}) \<inter> node_ids sample_db = {}"
proof -
  obtain branch db' where c: "create_branch sample_env ''p'' sample_branch_create sample_db = Inr (branch, db')"
    using sample_branch_created by blast
  then show ?thesis
    using create_branch_copies_subtree [OF c sample_ok refl] by (auto simp: sample_branch_create_def)
qed

text \<open>
  Creating a branch never writes to a row that was there: the tables of nodes, edges, content
  blocks and branches keep their rows unchanged and in order, and the new branch is the only one added.
\<close>

theorem create_branch_keeps_rows:
  assumes "create_branch env pid data db = Inr (branch, db')" and "db_ok db"
  shows "take (length (nodes db)) (nodes db') = nodes db \<and> take (length (edges db)) (edges db') = edges db \<and>
    take (length (content_blocks db)) (content_blocks db') = content_blocks db \<and> branches db' = branches db @ [branch]"
  using assms
proof (cases rule: create_branch_copy)
  case (1 db1 k db2)
  then show ?thesis by (simp add: deep_copy_appends [OF 1(7)])
qed

theorem create_branch_keeps_rows_witness:
  "\<exists>branch db'. create_branch sample_env ''p'' sample_branch_create sample_db = Inr (branch, db') \<and>
     branches db' = [sample_branch, branch]"
proof -
  obtain branch db' where c: "create_branch sample_env ''p'' sample_branch_create sample_db = Inr (branch, db')"
    using sample_branch_created by blast
  then show ?thesis
    using create_branch_keeps_rows [OF c sample_ok] by (auto simp: sample_simps)
qed


definition sample_merge :: "ident \<Rightarrow> int \<Rightarrow> int \<Rightarrow> branch_merge_request" where
  "sample_merge target pr tr = \<lparr>bm_expected_project_revision = pr, bm_expected_revision = 1, bm_target_node_id = target,
     bm_expected_target_revision = tr\<rparr>"

lemmas sample_merge_eval =
  merge_branch_def sample_merge_def branch_nodes_def branch_root_def child_ids_of_def clear_branch_def truthy_def
  set_branch_status_def bump_existing_def touched_add_def touched_apply_def sample_move_eval

lemma sample_merged: "\<exists>u db'. merge_branch sample_env ''v'' (sample_merge ''b'' 5 1) sample_db = Inr (u, db')"
  by (simp add: sample_merge_eval)



definition sample_env2 :: env where
  "sample_env2 = sample_env\<lparr>uuid := \<lambda>k. ''w'' @ replicate k (CHR ''1'')\<rparr>"

lemma sample_merge_below:
  "\<exists>out db1 u db2. reparent_node sample_env ''c'' (sample_move ''x'') sample_db = Inr (out, db1) \<and>
     merge_branch sample_env2 ''v'' (sample_merge ''c'' 6 2) db1 = Inr (u, db2)"
proof -
  have "case reparent_node sample_env ''c'' (sample_move ''x'') sample_db of
      Inl _ \<Rightarrow> False | Inr (out, db1) \<Rightarrow> \<not> isl (merge_branch sample_env2 ''v'' (sample_merge ''c'' 6 2) db1)"
    by code_simp
  then obtain out db1 where r: "reparent_node sample_env ''c'' (sample_move ''x'') sample_db = Inr (out, db1)"
    and m: "\<not> isl (merge_branch sample_env2 ''v'' (sample_merge ''c'' 6 2) db1)"
    by (cases "reparent_node sample_env ''c'' (sample_move ''x'') sample_db") auto
  from m obtain u db2 where "merge_branch sample_env2 ''v'' (sample_merge ''c'' 6 2) db1 = Inr (u, db2)"
    by (cases "merge_branch sample_env2 ''v'' (sample_merge ''c'' 6 2) db1") auto
  with r show ?thesis by blast
qed

lemma reparent_node_branch_nodes:
  assumes "reparent_node env nid body db = Inr (out, db')"
  shows "n_id ` set (branch_nodes bid db') = n_id ` set (branch_nodes bid db)"
  using assms
proof (cases rule: reparent_node_relocates)
  case (1 node np old_parent db2)
  from 1(1) obtain oe db1 m where
    claim: "claim_project_revision env (n_project_id node) (mv_expected_project_revision body) db = Inr db1"
    and ins: "insert_edge (new_edge env (uuid env 0) (n_project_id node) (mv_new_parent_id body) nid m) (remove_old_edge oe db1) = Inr db2"
    unfolding relocated_def by blast
  have same: "nodes db2 = nodes db" using insert_edge_frame(3) [OF ins] claim_frame(1) [OF claim] by simp
  obtain refs where "db' = bump_existing env refs db2" using 1(3) by (simp add: touch_moved_def bump_existing_def [symmetric])
  then have "nodes db' = map (\<lambda>n. if NodeRef (n_id n) \<in> set refs then bump_node env n else n) (nodes db)"
    by (simp add: bump_existing_rows same)
  then have "map n_id (branch_nodes bid db') = map n_id (branch_nodes bid db)"
    by (simp add: branch_nodes_def filter_map comp_def if_distrib [of n_branch_id] if_distrib [of n_id] cong: if_cong)
  then show ?thesis by (metis list.set_map)
qed

text \<open>
  Merging only refuses targets inside the branch, not targets below it: after a mainline node is
  reparented under a node of the branch, the branch can be merged into that node, and the containment
  relation has a cycle that no root reaches.
\<close>

theorem merge_branch_can_create_cycle:
  "\<exists>out db1 u db2. reparent_node sample_env ''c'' (sample_move ''x'') sample_db = Inr (out, db1) \<and>
     merge_branch sample_env2 ''v'' (sample_merge ''c'' 6 2) db1 = Inr (u, db2) \<and>
     acyclic (child_rel db1) \<and> \<not> acyclic (child_rel db2)"
proof -
  from sample_merge_below obtain out db1 u db2 where r: "reparent_node sample_env ''c'' (sample_move ''x'') sample_db = Inr (out, db1)"
    and m: "merge_branch sample_env2 ''v'' (sample_merge ''c'' 6 2) db1 = Inr (u, db2)" by blast
  have ok: "db_ok db1" using reparent_node_ok [OF r sample_ok] .
  have rel: "child_rel db1 = insert (''x'', ''c'') {(x, y) \<in> child_rel sample_db. y \<noteq> ''c''}"
    using move_child_rel(2) [OF sample_ok r] by (simp add: sample_move_def)
  from m obtain root_node where
    root: "branch_root (branch_nodes ''v'' db1) (child_ids_of (map n_id (branch_nodes ''v'' db1)) db1) = Some root_node"
    by (rule merge_branch_steps)
  have "n_id root_node \<in> n_id ` set (branch_nodes ''v'' sample_db)"
    using branch_root_in [OF root] reparent_node_branch_nodes [OF r, of "''v''"] by blast
  then have "n_id root_node = ''x''" by (simp add: branch_nodes_def sample_simps)
  then have "child_rel db2 = insert (''c'', ''x'') {(x, y) \<in> child_rel db1. y \<noteq> ''x''}"
    using merge_child_rel [OF m ok root] by (simp add: sample_merge_def)
  then have "(''x'', ''c'') \<in> child_rel db2" "(''c'', ''x'') \<in> child_rel db2" using rel by auto
  then have "\<not> acyclic (child_rel db2)" unfolding acyclic_def by (meson r_into_trancl trancl_trans)
  moreover from r have "acyclic (child_rel db1)"
  proof (cases rule: reparent_node_relocates)
    case (1 node np old_parent db3)
    then have "child_rel db1 = child_rel db3" by (simp add: child_rel_def)
    then show ?thesis using relocated_acyclic [OF 1(1) sample_ok 1(2) sample_acyclic] by simp
  qed
  ultimately show ?thesis using r m by blast
qed


definition branch_rel :: "ident \<Rightarrow> db \<Rightarrow> (ident \<times> ident) set" where
  "branch_rel bid db = {(x, y) \<in> child_rel db. x \<in> n_id ` set (branch_nodes bid db) \<and> y \<in> n_id ` set (branch_nodes bid db)}"

lemma branch_root_exists:
  assumes "acyclic R" "finite R" "ns \<noteq> []" "\<And>n. n \<in> set ns \<Longrightarrow> n_id n \<in> set cs \<Longrightarrow> \<exists>m \<in> set ns. (n_id m, n_id n) \<in> R"
  shows "\<exists>n. branch_root ns cs = Some n"
proof (rule ccontr)
  assume "\<nexists>n. branch_root ns cs = Some n"
  then have "\<exists>y \<in> n_id ` set ns. (y, x) \<in> R" if "x \<in> n_id ` set ns" for x
    using that assms(4) by (force simp: branch_root_def find_None_iff)
  moreover have "n_id (hd ns) \<in> n_id ` set ns" using assms(3) by simp
  moreover have "wf R" using assms(2,1) by (rule finite_acyclic_wf)
  ultimately show False by (metis wfE_min)
qed

text \<open>
  C10: On a containment relation without cycles, showing a branch that has nodes always answers
  with a tree, a recursion as deep as the branch has nodes being enough: its root is a node of the
  branch with no parent in the branch, and its nodes are exactly those reached from the root inside the
  branch.
\<close>

theorem get_branch_subtree_complete:
  assumes "db_ok db" "acyclic (child_rel db)" "get_branch_row db bid = Some branch" "branch_nodes bid db \<noteq> []"
    "length (branch_nodes bid db) \<le> fuel"
  shows "\<exists>t. \<exists>r \<in> n_id ` set (branch_nodes bid db). get_branch_subtree fuel bid db = Inr (Some (BranchSubtree branch (Some t))) \<and>
    (\<nexists>x. (x, r) \<in> branch_rel bid db) \<and> branch_tree_ids t = (branch_rel bid db)\<^sup>* `` {r}"
proof -
  let ?ns = "branch_nodes bid db"
  let ?es = "filter (\<lambda>e. e_project_id e = br_project_id branch \<and> e_from_node_id e \<in> n_id ` set ?ns \<and> is_child_edge e) (edges db)"
  let ?ch = "\<lambda>x. map e_to_node_id (filter (\<lambda>e. e_from_node_id e = x) ?es)"
  have own: "owner (nodes db) (n_id n) = Some (br_project_id branch)" if "n \<in> set ?ns" for n
    using branch_node_owner [OF assms(1) that assms(3)] .
  have "n_project_id n = br_project_id branch" if "n \<in> set ?ns" for n
    using own [OF that] that row_get_unique [OF ok_keys(2) [OF assms(1)], of n] by (auto simp: owner_def branch_nodes_def)
  then have ns: "filter (\<lambda>n. n_project_id n = br_project_id branch) ?ns = ?ns" by (simp add: filter_id_conv)
  have proj: "e_project_id e = br_project_id branch" if "e \<in> set (edges db)" "e_from_node_id e \<in> n_id ` set ?ns" for e
    using own edge_owner(1) [OF assms(1) that(1)] that(2) by auto
  have rel: "tree_rel ?ns ?ch = branch_rel bid db"
  proof (rule set_eqI, clarify)
    fix x y
    have "y \<in> set (?ch x) \<longleftrightarrow> x \<in> n_id ` set ?ns \<and> (x, y) \<in> child_rel db"
      unfolding child_rel_iff set_map set_filter using proj by blast
    then show "(x, y) \<in> tree_rel ?ns ?ch \<longleftrightarrow> (x, y) \<in> branch_rel bid db" by (auto simp: tree_rel_def branch_rel_def)
  qed
  have acyc: "acyclic (branch_rel bid db)" by (rule acyclic_subset [OF assms(2)]) (auto simp: branch_rel_def)
  have inc: "\<exists>m \<in> set ?ns. (n_id m, n_id n) \<in> branch_rel bid db" if "n \<in> set ?ns" "n_id n \<in> set (map e_to_node_id ?es)" for n
    using that unfolding branch_rel_def child_rel_iff by auto blast
  have "finite (branch_rel bid db)" by (rule finite_subset [OF _ finite_child_rel [of db]]) (auto simp: branch_rel_def)
  then obtain n where root: "branch_root ?ns (map e_to_node_id ?es) = Some n"
    using branch_root_exists [OF acyc _ assms(4) inc] by blast
  then have n: "n \<in> set ?ns" "n_id n \<notin> set (map e_to_node_id ?es)" using branch_root_in by blast+
  have "(branch_rel bid db)\<^sup>* `` {n_id n} \<subseteq> n_id ` set ?ns" using n(1) by (auto simp: branch_rel_def elim: rtranclE)
  then have "card ((branch_rel bid db)\<^sup>* `` {n_id n}) \<le> length ?ns"
    by (metis card_length card_mono finite_imageI finite_set length_map list.set_map order_trans)
  then obtain t where t: "build_branch_tree fuel ?ns ?ch n = Some t"
    using build_branch_tree_returns [of ?ns ?ch n fuel] rel acyc assms(5) by auto
  have "get_branch_subtree fuel bid db = Inr (Some (BranchSubtree branch (Some t)))"
    using assms(3,4) root t by (simp add: get_branch_subtree_def Let_def ns)
  moreover have "(x, n_id n) \<notin> branch_rel bid db" for x
  proof
    assume "(x, n_id n) \<in> branch_rel bid db"
    then obtain e where "e \<in> set (edges db)" "is_child_edge e" "e_from_node_id e \<in> n_id ` set ?ns" "e_to_node_id e = n_id n"
      by (auto simp: branch_rel_def child_rel_iff)
    then have "e \<in> set ?es" "n_id n = e_to_node_id e" using proj [of e] by simp_all
    then show False using n(2) unfolding set_map by blast
  qed
  ultimately show ?thesis using n(1) branch_tree_ids_reachable [OF t] rel by auto
qed

theorem get_branch_subtree_complete_witness:
  "\<exists>t. get_branch_subtree 1 ''v'' sample_db = Inr (Some (BranchSubtree sample_branch (Some t)))"
  using get_branch_subtree_complete [OF sample_ok sample_acyclic, of "''v''" sample_branch 1]
  by (auto simp: get_branch_row_def row_get_def branch_nodes_def sample_simps)

end
