(* ===== verification/Agents.thy ===== *)
theory Agents
  imports Branches
begin

text \<open>
  Agent sessions and their artifacts (\<open>api/routes.py\<close>, the manual agent workflow). A session moves
  through \<open>idle\<close>, \<open>active\<close>, \<open>waiting_review\<close>, \<open>completed\<close> and \<open>cancelled\<close> along a fixed table; an artifact
  proposed in a session is reviewed once, and approving it writes a child node, node fields or a
  content block under the revisions the reviewer saw.
\<close>

section \<open>Sessions\<close>

record session_create =
  sc_project_id :: ident
  sc_assigned_node_id :: "ident option"
  sc_assigned_branch_root_id :: "ident option"
  sc_provider_id :: "ident option"
  sc_objective :: string
  sc_mode :: string
  sc_handoff_context :: json

record session_update =
  su_status :: "string field"
  su_result_summary :: "string field"
  su_handoff_context :: "json field"

definition AGENT_SESSION_STATUSES :: "string list" where
  "AGENT_SESSION_STATUSES = [''idle'', ''active'', ''waiting_review'', ''completed'', ''cancelled'']"

definition AGENT_SESSION_TRANSITIONS :: "(string \<times> string list) list" where
  "AGENT_SESSION_TRANSITIONS =
     [(''idle'', [''active'', ''cancelled'']),
      (''active'', [''waiting_review'', ''completed'', ''cancelled'']),
      (''waiting_review'', [''active'', ''completed'', ''cancelled'']),
      (''completed'', []),
      (''cancelled'', [])]"

definition list_agent_sessions :: "ident \<Rightarrow> string option \<Rightarrow> db \<Rightarrow> agent_session list result" where
  "list_agent_sessions pid status db =
     (let rows = filter (\<lambda>s. s_project_id s = pid) (agent_sessions db);
          newest = sort_key (\<lambda>s. - s_updated_at s)
      in if truthy status
         then if the status \<notin> set AGENT_SESSION_STATUSES then Inl (HTTPException 400 ''Invalid agent session status'')
              else Inr (newest (filter (\<lambda>s. s_status s = the status) rows))
         else Inr (newest rows))"

definition check_assigned_node :: "ident \<Rightarrow> ident option \<Rightarrow> db \<Rightarrow> unit result" where
  "check_assigned_node pid assigned db =
     (if \<not> truthy assigned then Inr ()
      else case get_node_row db (the assigned) of
        None \<Rightarrow> Inl (HTTPException 400 ''Assigned node must belong to the project'')
      | Some node \<Rightarrow>
          if n_project_id node \<noteq> pid then Inl (HTTPException 400 ''Assigned node must belong to the project'') else Inr ())"

definition check_assigned_branch_root :: "ident \<Rightarrow> ident option \<Rightarrow> db \<Rightarrow> unit result" where
  "check_assigned_branch_root pid assigned db =
     (let refused = Inl (HTTPException 400 ''Assigned branch root must belong to an active branch'')
      in if \<not> truthy assigned then Inr ()
         else case get_node_row db (the assigned) of
           None \<Rightarrow> refused
         | Some node \<Rightarrow>
             (case (if truthy (n_branch_id node) then get_branch_row db (the (n_branch_id node)) else None) of
                None \<Rightarrow> refused
              | Some branch \<Rightarrow>
                  if n_project_id node \<noteq> pid \<or> br_status branch \<noteq> ''active'' then refused else Inr ()))"

definition check_session_provider :: "ident option \<Rightarrow> db \<Rightarrow> unit result" where
  "check_session_provider provider db =
     (if \<not> truthy provider then Inr ()
      else case get_provider_row db (the provider) of
        None \<Rightarrow> Inl (HTTPException 400 ''Selected provider is unavailable'')
      | Some p \<Rightarrow>
          if pc_enabled p \<noteq> Some True then Inl (HTTPException 400 ''Selected provider is unavailable'') else Inr ())"

text \<open>\<open>session.assigned_node_id or session.assigned_branch_root_id\<close>.\<close>

definition session_scope :: "ident option \<Rightarrow> ident option \<Rightarrow> ident option" where
  "session_scope assigned_node root_id = (if truthy assigned_node then assigned_node else root_id)"

definition new_session :: "env \<Rightarrow> session_create \<Rightarrow> agent_session" where
  "new_session env data =
     \<lparr>s_id = uuid env 0, s_project_id = sc_project_id data, s_assigned_node_id = sc_assigned_node_id data,
      s_assigned_branch_root_id = sc_assigned_branch_root_id data, s_provider_id = sc_provider_id data,
      s_objective = sc_objective data, s_mode = sc_mode data, s_status = ''idle'',
      s_handoff_context = Some (sc_handoff_context data), s_result_summary = Some [], s_last_heartbeat_at = None,
      s_created_at = now env, s_updated_at = now env\<rparr>"

definition create_agent_session :: "env \<Rightarrow> session_create \<Rightarrow> db \<Rightarrow> (agent_session \<times> db) result" where
  "create_agent_session env data db =
     (case get_project_row db (sc_project_id data) of
        None \<Rightarrow> Inl (HTTPException 404 ''Project not found'')
      | Some project \<Rightarrow>
          if strip (sc_objective data) = [] then Inl (HTTPException 400 ''Objective is required'')
          else if sc_mode data \<notin> {''one_shot'', ''collab'', ''background''} then Inl (HTTPException 400 ''Invalid agent session mode'')
          else if truthy (sc_assigned_node_id data) = truthy (sc_assigned_branch_root_id data)
          then Inl (HTTPException 400 ''Assign exactly one node or branch root'')
          else and_then (check_assigned_node (p_id project) (sc_assigned_node_id data) db) (\<lambda>_.
            and_then (check_assigned_branch_root (p_id project) (sc_assigned_branch_root_id data) db) (\<lambda>_.
            and_then (check_session_provider (sc_provider_id data) db) (\<lambda>_.
            let session = new_session env data
            in and_then (insert_session session db) (\<lambda>db.
               and_then (log_action env (uuid env 1) (p_id project)
                   (session_scope (sc_assigned_node_id data) (sc_assigned_branch_root_id data)) ''human'' ''agent_session_created''
                   [(''session_id'', JStr (s_id session)), (''mode'', JStr (s_mode session)),
                    (''provider_id'', jopt (s_provider_id session))] db) (\<lambda>db.
                 Inr (session, db)))))))"

definition get_agent_session_history :: "ident \<Rightarrow> db \<Rightarrow> action_log list result" where
  "get_agent_session_history sid db =
     (case get_session_row db sid of
        None \<Rightarrow> Inl (HTTPException 404 ''Agent session not found'')
      | Some session \<Rightarrow> Inr (sort_key (\<lambda>l. - l_created_at l)
          (filter (\<lambda>l. l_project_id l = s_project_id session \<and> json_member ''session_id'' (l_payload l) = Some (JStr sid))
            (action_logs db))))"

text \<open>The status step of the update, then the other fields; a row that did not change keeps its time of update.\<close>

definition step_session_status :: "env \<Rightarrow> string field \<Rightarrow> agent_session \<Rightarrow> agent_session result" where
  "step_session_status env status session =
     (case get_default None status of
        None \<Rightarrow> Inr session
      | Some new_status \<Rightarrow>
          if new_status = [] then Inr session
          else if new_status \<notin> set AGENT_SESSION_STATUSES then Inl (HTTPException 400 ''Invalid agent session status'')
          else and_then
            (if new_status = s_status session then Inr ()
             else case map_of AGENT_SESSION_TRANSITIONS (s_status session) of
               None \<Rightarrow> Inl KeyError
             | Some allowed \<Rightarrow> if new_status \<notin> set allowed then Inl (HTTPException 400 ''Cannot transition'') else Inr ())
            (\<lambda>_. Inr (session\<lparr>s_status := new_status,
               s_last_heartbeat_at := (if new_status = ''active'' then Some (now env) else s_last_heartbeat_at session)\<rparr>)))"

definition stamp_session :: "env \<Rightarrow> agent_session \<Rightarrow> agent_session \<Rightarrow> agent_session" where
  "stamp_session env old s = (if s = old then s else s\<lparr>s_updated_at := now env\<rparr>)"

definition apply_session_update :: "env \<Rightarrow> session_update \<Rightarrow> agent_session \<Rightarrow> agent_session result" where
  "apply_session_update env data session =
     and_then (step_session_status env (su_status data) session) (\<lambda>s.
       if is_set (su_result_summary data) \<and> s_status s \<notin> {''waiting_review'', ''completed'', ''cancelled''}
       then Inl (HTTPException 400 ''Result summary requires review or terminal status'')
       else
         Inr (stamp_session env session
           (s\<lparr>s_result_summary := assign_nullable (su_result_summary data) (s_result_summary s),
              s_handoff_context := assign_nullable (su_handoff_context data) (s_handoff_context s)\<rparr>)))"

definition update_agent_session :: "env \<Rightarrow> ident \<Rightarrow> session_update \<Rightarrow> db \<Rightarrow> (agent_session \<times> db) result" where
  "update_agent_session env sid data db =
     (case get_session_row db sid of
        None \<Rightarrow> Inl (HTTPException 404 ''Agent session not found'')
      | Some session \<Rightarrow>
          and_then (apply_session_update env data session) (\<lambda>s.
          and_then (log_action env (uuid env 0) (s_project_id s) (session_scope (s_assigned_node_id s) (s_assigned_branch_root_id s))
              ''human'' ''agent_session_updated''
              [(''session_id'', JStr (s_id s)), (''status'', JStr (s_status s)),
               (''has_result_summary'', JBool (truthy (s_result_summary s)))]
              (agent_sessions_update (row_update s_id sid (\<lambda>_. s)) db)) (\<lambda>db.
            Inr (s, db))))"

section \<open>Artifacts\<close>

record artifact_create =
  ac_target_node_id :: ident
  ac_artifact_type :: string
  ac_payload :: "(string \<times> json) list"

record artifact_review =
  ar_review_note :: string
  ar_expected_project_revision :: "int option"
  ar_expected_node_revision :: "int option"

definition ARTIFACT_TYPES :: "string list" where
  "ARTIFACT_TYPES = [''create_child'', ''update_node'', ''create_block'']"

definition ARTIFACT_NODE_FIELDS :: "string list" where
  "ARTIFACT_NODE_FIELDS = [''title'', ''summary'', ''description'', ''maturity'', ''tags'']"

definition valid_artifact_payload :: "string \<Rightarrow> (string \<times> json) list \<Rightarrow> bool" where
  "valid_artifact_payload artifact_type payload =
     (if artifact_type = ''create_child''
      then (case map_of payload ''title'' of Some (JStr t) \<Rightarrow> strip t \<noteq> [] | _ \<Rightarrow> False)
      else if artifact_type = ''update_node'' then list_ex (\<lambda>k. map_of payload k \<noteq> None) ARTIFACT_NODE_FIELDS
      else if artifact_type = ''create_block''
      then (case map_of payload ''block_type'' of Some (JStr _) \<Rightarrow> True | _ \<Rightarrow> False) \<and>
           (case map_of payload ''content'' of Some (JObj _) \<Rightarrow> True | _ \<Rightarrow> False)
      else False)"

definition list_agent_artifacts :: "ident \<Rightarrow> string option \<Rightarrow> db \<Rightarrow> agent_artifact list result" where
  "list_agent_artifacts sid status db =
     (case get_session_row db sid of
        None \<Rightarrow> Inl (HTTPException 404 ''Agent session not found'')
      | Some _ \<Rightarrow>
          let rows = filter (\<lambda>a. a_session_id a = sid) (agent_artifacts db);
              newest = sort_key (\<lambda>a. - a_created_at a)
          in if truthy status
             then if the status \<notin> {''pending'', ''applied'', ''rejected''} then Inl (HTTPException 400 ''Invalid artifact status'')
                  else Inr (newest (filter (\<lambda>a. a_status a = the status) rows))
             else Inr (newest rows))"

definition check_artifact_scope :: "agent_session \<Rightarrow> ident \<Rightarrow> db \<Rightarrow> unit result" where
  "check_artifact_scope session target_id db =
     (case get_node_row db target_id of
        None \<Rightarrow> Inl (HTTPException 400 ''Target node must belong to the session project'')
      | Some target \<Rightarrow>
          if n_project_id target \<noteq> s_project_id session
          then Inl (HTTPException 400 ''Target node must belong to the session project'')
          else if truthy (s_assigned_node_id session) \<and> Some target_id \<noteq> s_assigned_node_id session
          then Inl (HTTPException 400 ''Node-scoped session can only write back to its assigned node'')
          else if truthy (s_assigned_branch_root_id session)
          then (case get_node_row db (the (s_assigned_branch_root_id session)) of
                  None \<Rightarrow> Inl AttributeError
                | Some branch_root_node \<Rightarrow>
                    if n_branch_id target \<noteq> n_branch_id branch_root_node
                    then Inl (HTTPException 400 ''Branch-scoped session target must belong to the assigned branch'')
                    else Inr ())
          else Inr ())"

definition new_artifact :: "env \<Rightarrow> agent_session \<Rightarrow> artifact_create \<Rightarrow> agent_artifact" where
  "new_artifact env session data =
     \<lparr>a_id = uuid env 0, a_session_id = s_id session, a_project_id = s_project_id session,
      a_target_node_id = ac_target_node_id data, a_artifact_type = ac_artifact_type data, a_payload = ac_payload data,
      a_status = ''pending'', a_review_note = [], a_created_at = now env, a_reviewed_at = None\<rparr>"

definition create_agent_artifact :: "env \<Rightarrow> ident \<Rightarrow> artifact_create \<Rightarrow> db \<Rightarrow> (agent_artifact \<times> db) result" where
  "create_agent_artifact env sid data db =
     (case get_session_row db sid of
        None \<Rightarrow> Inl (HTTPException 404 ''Agent session not found'')
      | Some session \<Rightarrow>
          if s_status session \<notin> {''active'', ''waiting_review''}
          then Inl (HTTPException 400 ''Artifacts require an active or review session'')
          else if ac_artifact_type data \<notin> set ARTIFACT_TYPES \<or> \<not> valid_artifact_payload (ac_artifact_type data) (ac_payload data)
          then Inl (HTTPException 400 ''Invalid artifact payload'')
          else and_then (check_artifact_scope session (ac_target_node_id data) db) (\<lambda>_.
            let artifact = new_artifact env session data
            in and_then (insert_artifact artifact db) (\<lambda>db.
               and_then (log_action env (uuid env 1) (s_project_id session) (Some (ac_target_node_id data)) ''human'' ''agent_artifact_created''
                   [(''session_id'', JStr sid), (''artifact_id'', JStr (a_id artifact)),
                    (''artifact_type'', JStr (a_artifact_type artifact))] db) (\<lambda>db.
                 Inr (artifact, db)))))"

text \<open>
  A payload value bound to a text column: a string or null as it is, a number or boolean in SQLite's own
  text form (the argument \<open>db_text\<close>), an array or object refused by the driver.
\<close>

definition compound :: "json \<Rightarrow> bool" where
  "compound j = (case j of JList _ \<Rightarrow> True | JObj _ \<Rightarrow> True | _ \<Rightarrow> False)"

definition text_value :: "(json \<Rightarrow> string) \<Rightarrow> json \<Rightarrow> string option" where
  "text_value db_text j = (case j of JNull \<Rightarrow> None | JStr s \<Rightarrow> Some s | _ \<Rightarrow> Some (db_text j))"

definition bind_text :: "json list \<Rightarrow> json list \<Rightarrow> unit result" where
  "bind_text required optional =
     (if list_ex compound (required @ optional) then Inl StatementError
      else if JNull \<in> set required then Inl IntegrityError
      else Inr ())"

definition payload_get :: "(string \<times> json) list \<Rightarrow> string \<Rightarrow> json \<Rightarrow> json" where
  "payload_get payload k d = (case map_of payload k of None \<Rightarrow> d | Some v \<Rightarrow> v)"

definition text_or_old :: "(json \<Rightarrow> string) \<Rightarrow> (string \<times> json) list \<Rightarrow> string \<Rightarrow> string option \<Rightarrow> string option" where
  "text_or_old db_text payload k old = (case map_of payload k of None \<Rightarrow> old | Some v \<Rightarrow> text_value db_text v)"

definition apply_create_child :: "(json \<Rightarrow> string) \<Rightarrow> env \<Rightarrow> (string \<times> json) list \<Rightarrow> node \<Rightarrow> db \<Rightarrow> db result" where
  "apply_create_child db_text env payload target db =
     (let summary = payload_get payload ''summary'' (JStr []);
          node_type = payload_get payload ''node_type'' (JStr ''idea'')
      in case map_of payload ''title'' of
        None \<Rightarrow> Inl KeyError
      | Some (JStr title) \<Rightarrow>
          and_then (bind_text [] [node_type, summary]) (\<lambda>_.
          and_then (insert_node ((new_node env (uuid env 0) (n_project_id target) (strip title) (default [] (text_value db_text summary)))
              \<lparr>n_branch_id := n_branch_id target, n_node_type := the (default ''idea'' (text_value db_text node_type)),
               n_created_by := Some ''agent''\<rparr>) db)
            (\<lambda>db. insert_edge (new_edge env (uuid env 1) (n_project_id target) (n_id target) (uuid env 0)
                (child_edges db (n_id target) = [])) db))
      | Some _ \<Rightarrow> Inl AttributeError)"

definition apply_update_node :: "(json \<Rightarrow> string) \<Rightarrow> (string \<times> json) list \<Rightarrow> node \<Rightarrow> db \<Rightarrow> db result" where
  "apply_update_node db_text payload target db =
     and_then (bind_text (List.map_filter (map_of payload) [''title'', ''maturity''])
         (List.map_filter (map_of payload) [''summary'', ''description''])) (\<lambda>_.
       Inr (nodes_update (row_update n_id (n_id target) (\<lambda>n.
         n\<lparr>n_title := the (text_or_old db_text payload ''title'' (Some (n_title n))),
           n_summary := text_or_old db_text payload ''summary'' (n_summary n),
           n_description := text_or_old db_text payload ''description'' (n_description n),
           n_maturity := the (text_or_old db_text payload ''maturity'' (Some (n_maturity n))),
           n_tags := payload_get payload ''tags'' (n_tags n),
           n_last_edited_by := Some ''agent''\<rparr>)) db))"

definition apply_create_block :: "(json \<Rightarrow> string) \<Rightarrow> env \<Rightarrow> (string \<times> json) list \<Rightarrow> node \<Rightarrow> db \<Rightarrow> db result" where
  "apply_create_block db_text env payload target db =
     (case (map_of payload ''block_type'', map_of payload ''content'') of
        (Some block_type, Some content) \<Rightarrow>
          and_then (bind_text [] [block_type]) (\<lambda>_.
            insert_block \<lparr>b_id = uuid env 0, b_node_id = n_id target, b_block_type = the (default ''paragraph'' (text_value db_text block_type)),
              b_content = content, b_order_index = int (block_count db (n_id target)), b_created_by = Some ''agent'',
              b_created_at = now env, b_updated_at = now env, b_revision = 1\<rparr> db)
      | _ \<Rightarrow> Inl KeyError)"

definition apply_artifact :: "(json \<Rightarrow> string) \<Rightarrow> env \<Rightarrow> agent_artifact \<Rightarrow> node \<Rightarrow> db \<Rightarrow> db result" where
  "apply_artifact db_text env artifact target db =
     (if a_artifact_type artifact = ''create_child'' then apply_create_child db_text env (a_payload artifact) target db
      else if a_artifact_type artifact = ''update_node'' then apply_update_node db_text (a_payload artifact) target db
      else apply_create_block db_text env (a_payload artifact) target db)"

definition reviewed :: "env \<Rightarrow> string \<Rightarrow> string \<Rightarrow> agent_artifact \<Rightarrow> agent_artifact" where
  "reviewed env status note a = a\<lparr>a_status := status, a_review_note := note, a_reviewed_at := Some (now env)\<rparr>"

definition set_artifact :: "agent_artifact \<Rightarrow> db \<Rightarrow> db" where
  "set_artifact a db = agent_artifacts_update (row_update a_id (a_id a) (\<lambda>_. a)) db"

text \<open>The log row takes the third identifier, whichever of the first two the artifact used.\<close>

definition approve_agent_artifact ::
  "(json \<Rightarrow> string) \<Rightarrow> env \<Rightarrow> ident \<Rightarrow> artifact_review \<Rightarrow> db \<Rightarrow> (agent_artifact \<times> db) result" where
  "approve_agent_artifact db_text env aid data db =
     (case get_artifact_row db aid of
        None \<Rightarrow> Inl (HTTPException 404 ''Agent artifact not found'')
      | Some artifact \<Rightarrow>
          if a_status artifact \<noteq> ''pending'' then Inl (HTTPException 400 ''Artifact has already been reviewed'')
          else case (get_session_row db (a_session_id artifact), get_node_row db (a_target_node_id artifact)) of
            (Some session, Some target) \<Rightarrow>
              (case (ar_expected_project_revision data, ar_expected_node_revision data) of
                 (Some pr, Some nr) \<Rightarrow>
                   and_then (claim_project_revision env (a_project_id artifact) pr db) (\<lambda>db.
                   and_then (check_entity_revision ''node'' (n_id target) (n_revision target) nr) (\<lambda>_.
                   and_then (apply_artifact db_text env artifact target db) (\<lambda>db.
                     let artifact' = reviewed env ''applied'' (ar_review_note data) artifact
                     in and_then (log_action env (uuid env 2) (a_project_id artifact) (Some (n_id target)) ''human'' ''agent_artifact_applied''
                            [(''session_id'', JStr (s_id session)), (''artifact_id'', JStr aid),
                             (''artifact_type'', JStr (a_artifact_type artifact)), (''review_note'', JStr (ar_review_note data))]
                            (bump_existing env [NodeRef (n_id target)] (set_artifact artifact' db))) (\<lambda>db.
                          Inr (artifact', db)))))
               | _ \<Rightarrow> Inl (HTTPException 422 ''Artifact approval requires expected project and node revisions''))
          | _ \<Rightarrow> Inl (HTTPException 400 ''Artifact target is unavailable''))"

definition reject_agent_artifact :: "env \<Rightarrow> ident \<Rightarrow> artifact_review \<Rightarrow> db \<Rightarrow> (agent_artifact \<times> db) result" where
  "reject_agent_artifact env aid data db =
     (case get_artifact_row db aid of
        None \<Rightarrow> Inl (HTTPException 404 ''Agent artifact not found'')
      | Some artifact \<Rightarrow>
          if a_status artifact \<noteq> ''pending'' then Inl (HTTPException 400 ''Artifact has already been reviewed'')
          else
            let artifact' = reviewed env ''rejected'' (ar_review_note data) artifact
            in and_then (log_action env (uuid env 0) (a_project_id artifact) (Some (a_target_node_id artifact)) ''human''
                   ''agent_artifact_rejected''
                   [(''session_id'', JStr (a_session_id artifact)), (''artifact_id'', JStr aid),
                    (''review_note'', JStr (ar_review_note data))] (set_artifact artifact' db)) (\<lambda>db.
                 Inr (artifact', db)))"


section \<open>Sessions keep the invariant and follow the table\<close>

lemma ok_update_session:
  assumes "db_ok db" "get_session_row db sid = Some s0" "s_id s = s_id s0" "s_project_id s = s_project_id s0"
    "s_assigned_node_id s = s_assigned_node_id s0" "s_assigned_branch_root_id s = s_assigned_branch_root_id s0"
    "s_provider_id s = s_provider_id s0"
  shows "db_ok (agent_sessions_update (row_update s_id sid (\<lambda>_. s)) db)"
proof -
  let ?f = "\<lambda>r. r\<lparr>s_objective := s_objective s, s_mode := s_mode s, s_status := s_status s, s_handoff_context := s_handoff_context s,
    s_result_summary := s_result_summary s, s_last_heartbeat_at := s_last_heartbeat_at s, s_created_at := s_created_at s,
    s_updated_at := s_updated_at s\<rparr>"
  have s0: "s0 \<in> set (agent_sessions db)" "s_id s0 = sid" using assms(2) by (auto simp: get_session_row_def dest: row_get_Some)
  have "row_update s_id sid (\<lambda>_. s) (agent_sessions db) = map (\<lambda>r. if s_id r = sid then ?f r else r) (agent_sessions db)"
    unfolding row_update_def
  proof (rule map_cong [OF refl])
    fix r assume "r \<in> set (agent_sessions db)"
    then have "s_id r = sid \<Longrightarrow> r = s0" using same_key [OF ok_keys(6) [OF assms(1)]] s0 by blast
    then show "(if s_id r = sid then s else r) = (if s_id r = sid then ?f r else r)" using assms(3-7) by auto
  qed
  then have "agent_sessions_update (row_update s_id sid (\<lambda>_. s)) db =
      agent_sessions_update (map (\<lambda>r. if s_id r = sid then ?f r else r)) db" by (cases db) simp
  then show ?thesis
    using assms(1) schema_map_sessions [of "\<lambda>r. if s_id r = sid then ?f r else r" db]
    by (simp add: db_ok_def ownership_ok_def)
qed

lemma stamp_session_simps [simp]:
  "s_id (stamp_session env old s) = s_id s" "s_project_id (stamp_session env old s) = s_project_id s"
  "s_assigned_node_id (stamp_session env old s) = s_assigned_node_id s"
  "s_assigned_branch_root_id (stamp_session env old s) = s_assigned_branch_root_id s"
  "s_provider_id (stamp_session env old s) = s_provider_id s" "s_status (stamp_session env old s) = s_status s"
  "s_result_summary (stamp_session env old s) = s_result_summary s"
  by (simp_all add: stamp_session_def)

lemma step_session_status_Inr:
  assumes "step_session_status env status s = Inr s'"
  shows "s' = s\<lparr>s_status := s_status s', s_last_heartbeat_at := s_last_heartbeat_at s'\<rparr>"
    "s_status s' = s_status s \<or> (\<exists>allowed. map_of AGENT_SESSION_TRANSITIONS (s_status s) = Some allowed \<and> s_status s' \<in> set allowed)"
  using assms by (auto simp: step_session_status_def result_simps split: option.splits if_splits)

lemma apply_session_update_steps:
  assumes "apply_session_update env data s = Inr s'"
  obtains s1 where "step_session_status env (su_status data) s = Inr s1"
    "is_set (su_result_summary data) \<Longrightarrow> s_status s1 \<in> {''waiting_review'', ''completed'', ''cancelled''}"
    "s' = stamp_session env s (s1\<lparr>s_result_summary := assign_nullable (su_result_summary data) (s_result_summary s1),
       s_handoff_context := assign_nullable (su_handoff_context data) (s_handoff_context s1)\<rparr>)"
  using assms by (auto simp: apply_session_update_def result_simps split: if_splits)

lemma apply_session_update_frame:
  assumes "apply_session_update env data s = Inr s'"
  shows "s_id s' = s_id s" "s_project_id s' = s_project_id s" "s_assigned_node_id s' = s_assigned_node_id s"
    "s_assigned_branch_root_id s' = s_assigned_branch_root_id s" "s_provider_id s' = s_provider_id s"
    "s_status s' = s_status s \<or> (\<exists>allowed. map_of AGENT_SESSION_TRANSITIONS (s_status s) = Some allowed \<and> s_status s' \<in> set allowed)"
proof -
  from assms obtain s1 where 1: "step_session_status env (su_status data) s = Inr s1"
    and 2: "s' = stamp_session env s (s1\<lparr>s_result_summary := assign_nullable (su_result_summary data) (s_result_summary s1),
       s_handoff_context := assign_nullable (su_handoff_context data) (s_handoff_context s1)\<rparr>)"
    by (rule apply_session_update_steps)
  have "s_id s1 = s_id s" "s_project_id s1 = s_project_id s" "s_assigned_node_id s1 = s_assigned_node_id s"
    "s_assigned_branch_root_id s1 = s_assigned_branch_root_id s" "s_provider_id s1 = s_provider_id s"
    by (subst step_session_status_Inr(1) [OF 1], simp)+
  then show "s_id s' = s_id s" "s_project_id s' = s_project_id s" "s_assigned_node_id s' = s_assigned_node_id s"
    "s_assigned_branch_root_id s' = s_assigned_branch_root_id s" "s_provider_id s' = s_provider_id s"
    "s_status s' = s_status s \<or> (\<exists>allowed. map_of AGENT_SESSION_TRANSITIONS (s_status s) = Some allowed \<and> s_status s' \<in> set allowed)"
    using step_session_status_Inr(2) [OF 1] by (simp_all add: 2)
qed

lemma update_agent_session_steps:
  assumes "update_agent_session env sid data db = Inr (s', db')"
  obtains s where "get_session_row db sid = Some s" "apply_session_update env data s = Inr s'"
    "log_action env (uuid env 0) (s_project_id s') (session_scope (s_assigned_node_id s') (s_assigned_branch_root_id s'))
       ''human'' ''agent_session_updated'' [(''session_id'', JStr (s_id s')), (''status'', JStr (s_status s')),
        (''has_result_summary'', JBool (truthy (s_result_summary s')))]
       (agent_sessions_update (row_update s_id sid (\<lambda>_. s')) db) = Inr db'"
  using assms by (auto simp: update_agent_session_def result_simps)

lemma update_agent_session_ok:
  assumes "update_agent_session env sid data db = Inr (s', db')" "db_ok db"
  shows "db_ok db'"
  using assms(1)
proof (cases rule: update_agent_session_steps)
  case (1 s)
  show ?thesis
    by (rule ok_log_action [OF 1(3)], rule ok_update_session [OF assms(2) 1(1)])
      (rule apply_session_update_frame [OF 1(2)])+
qed

lemma create_agent_session_steps:
  assumes "create_agent_session env data db = Inr (session, db')"
  obtains db1 where "session = new_session env data" "insert_session session db = Inr db1"
    "log_action env (uuid env 1) (sc_project_id data)
       (session_scope (sc_assigned_node_id data) (sc_assigned_branch_root_id data)) ''human'' ''agent_session_created''
       [(''session_id'', JStr (s_id session)), (''mode'', JStr (s_mode session)), (''provider_id'', jopt (s_provider_id session))] db1 = Inr db'"
proof -
  from assms obtain p where p: "get_project_row db (sc_project_id data) = Some p"
    by (auto simp: create_agent_session_def result_simps)
  then have "p_id p = sc_project_id data" by (auto simp: get_project_row_def dest: row_get_Some)
  with p assms that show ?thesis
    by (auto simp: create_agent_session_def result_simps Let_def split: if_splits)
qed

lemma create_agent_session_ok:
  assumes "create_agent_session env data db = Inr (session, db')" "db_ok db"
  shows "db_ok db'"
  using assms(1) by (cases rule: create_agent_session_steps) (use assms(2) in \<open>blast intro: ok_log_action ok_insert_session\<close>)

text \<open>One successful update of a session's row, and the sessions that updates reach from a new one.\<close>

inductive session_step :: "agent_session \<Rightarrow> agent_session \<Rightarrow> bool" where
  "apply_session_update env data s = Inr s' \<Longrightarrow> session_step s s'"

inductive_cases session_stepE: "session_step s s'"

inductive session_reachable :: "agent_session \<Rightarrow> bool" where
  created: "session_reachable (new_session env data)"
| updated: "session_reachable s \<Longrightarrow> session_step s s' \<Longrightarrow> session_reachable s'"

lemma session_step_status:
  assumes "session_step s s'"
  shows "s_status s' = s_status s \<or> (\<exists>allowed. map_of AGENT_SESSION_TRANSITIONS (s_status s) = Some allowed \<and> s_status s' \<in> set allowed)"
  using assms by cases (rule apply_session_update_frame)

lemma session_reachable_status: "session_reachable s \<Longrightarrow> s_status s \<in> set AGENT_SESSION_STATUSES"
proof (induction rule: session_reachable.induct)
  case (created env data)
  then show ?case by (simp add: new_session_def AGENT_SESSION_STATUSES_def)
next
  case (updated s s')
  then show ?case using session_step_status [OF updated(2)]
    by (auto simp: AGENT_SESSION_TRANSITIONS_def AGENT_SESSION_STATUSES_def split: if_splits)
qed

lemma session_final:
  assumes "session_step\<^sup>*\<^sup>* s s'" "s_status s \<in> {''completed'', ''cancelled''}"
  shows "s_status s' = s_status s"
  using assms(1)
proof induction
  case (step s1 s2)
  then show ?case using assms(2) session_step_status [OF step(2)] by (auto simp: AGENT_SESSION_TRANSITIONS_def)
qed simp

section \<open>Artifacts keep the invariant\<close>

lemma ok_set_artifact:
  assumes "db_ok db" "get_artifact_row db (a_id a) = Some a0" "a_session_id a = a_session_id a0" "a_project_id a = a_project_id a0"
    "a_target_node_id a = a_target_node_id a0"
  shows "db_ok (set_artifact a db)"
proof -
  let ?f = "\<lambda>r. r\<lparr>a_artifact_type := a_artifact_type a, a_payload := a_payload a, a_status := a_status a, a_review_note := a_review_note a,
    a_created_at := a_created_at a, a_reviewed_at := a_reviewed_at a\<rparr>"
  have a0: "a0 \<in> set (agent_artifacts db)" "a_id a0 = a_id a" using assms(2) by (auto simp: get_artifact_row_def dest: row_get_Some)
  have "row_update a_id (a_id a) (\<lambda>_. a) (agent_artifacts db) = map (\<lambda>r. if a_id r = a_id a then ?f r else r) (agent_artifacts db)"
    unfolding row_update_def
  proof (rule map_cong [OF refl])
    fix r assume "r \<in> set (agent_artifacts db)"
    then have "a_id r = a_id a \<Longrightarrow> r = a0" using same_key [OF ok_keys(7) [OF assms(1)]] a0 by metis
    then show "(if a_id r = a_id a then a else r) = (if a_id r = a_id a then ?f r else r)" using assms(3-5) by auto
  qed
  then have "set_artifact a db = agent_artifacts_update (map (\<lambda>r. if a_id r = a_id a then ?f r else r)) db"
    by (cases db) (simp add: set_artifact_def)
  then show ?thesis
    using assms(1) schema_map_artifacts [of "\<lambda>r. if a_id r = a_id a then ?f r else r" db]
    by (simp add: db_ok_def ownership_ok_def)
qed

lemma reviewed_simps [simp]:
  "a_id (reviewed env st note a) = a_id a" "a_session_id (reviewed env st note a) = a_session_id a"
  "a_project_id (reviewed env st note a) = a_project_id a" "a_target_node_id (reviewed env st note a) = a_target_node_id a"
  "a_status (reviewed env st note a) = st"
  by (simp_all add: reviewed_def)

lemma create_agent_artifact_steps:
  assumes "create_agent_artifact env sid data db = Inr (artifact, db')"
  obtains session db1 where "get_session_row db sid = Some session" "s_status session \<in> {''active'', ''waiting_review''}"
    "ac_artifact_type data \<in> set ARTIFACT_TYPES" "valid_artifact_payload (ac_artifact_type data) (ac_payload data)"
    "check_artifact_scope session (ac_target_node_id data) db = Inr ()"
    "artifact = new_artifact env session data" "insert_artifact artifact db = Inr db1"
    "log_action env (uuid env 1) (s_project_id session) (Some (ac_target_node_id data)) ''human'' ''agent_artifact_created''
       [(''session_id'', JStr sid), (''artifact_id'', JStr (a_id artifact)), (''artifact_type'', JStr (a_artifact_type artifact))] db1 = Inr db'"
  using assms by (auto simp: create_agent_artifact_def result_simps Let_def split: if_splits)

lemma create_agent_artifact_ok:
  assumes "create_agent_artifact env sid data db = Inr (artifact, db')" "db_ok db"
  shows "db_ok db'"
  using assms(1) by (cases rule: create_agent_artifact_steps) (use assms(2) in \<open>blast intro: ok_log_action ok_insert_artifact\<close>)

lemma approve_agent_artifact_steps:
  assumes "approve_agent_artifact db_text env aid data db = Inr (a', db')"
  obtains artifact session target pr nr db1 db2 where "get_artifact_row db aid = Some artifact" "a_status artifact = ''pending''"
    "get_session_row db (a_session_id artifact) = Some session" "get_node_row db (a_target_node_id artifact) = Some target"
    "ar_expected_project_revision data = Some pr" "ar_expected_node_revision data = Some nr"
    "claim_project_revision env (a_project_id artifact) pr db = Inr db1" "nr = current_revision (n_revision target)"
    "apply_artifact db_text env artifact target db1 = Inr db2" "a' = reviewed env ''applied'' (ar_review_note data) artifact"
    "log_action env (uuid env 2) (a_project_id artifact) (Some (n_id target)) ''human'' ''agent_artifact_applied''
       [(''session_id'', JStr (s_id session)), (''artifact_id'', JStr aid), (''artifact_type'', JStr (a_artifact_type artifact)),
        (''review_note'', JStr (ar_review_note data))] (bump_existing env [NodeRef (n_id target)] (set_artifact a' db2)) = Inr db'"
  using assms
  by (auto simp: approve_agent_artifact_def result_simps Let_def check_entity_Inr split: if_splits option.splits)

lemma reject_agent_artifact_steps:
  assumes "reject_agent_artifact env aid data db = Inr (a', db')"
  obtains artifact where "get_artifact_row db aid = Some artifact" "a_status artifact = ''pending''"
    "a' = reviewed env ''rejected'' (ar_review_note data) artifact"
    "log_action env (uuid env 0) (a_project_id artifact) (Some (a_target_node_id artifact)) ''human'' ''agent_artifact_rejected''
       [(''session_id'', JStr (a_session_id artifact)), (''artifact_id'', JStr aid), (''review_note'', JStr (ar_review_note data))]
       (set_artifact a' db) = Inr db'"
  using assms by (auto simp: reject_agent_artifact_def result_simps Let_def split: if_splits)

lemma get_artifact_row_id: "get_artifact_row db i = Some a \<Longrightarrow> a_id a = i"
  by (auto simp: get_artifact_row_def dest: row_get_Some)

lemma reject_agent_artifact_ok:
  assumes "reject_agent_artifact env aid data db = Inr (a', db')" "db_ok db"
  shows "db_ok db'"
  using assms(1)
proof (cases rule: reject_agent_artifact_steps)
  case (1 artifact)
  show ?thesis
    using ok_set_artifact [OF assms(2), of a' artifact] 1(1,3) get_artifact_row_id [OF 1(1)] by (intro ok_log_action [OF 1(4)]) simp
qed


lemma apply_create_child_steps:
  assumes "apply_create_child db_text env payload target db = Inr db'"
  obtains title child db1 where "map_of payload ''title'' = Some (JStr title)"
    "child = (new_node env (uuid env 0) (n_project_id target) (strip title)
         (default [] (text_value db_text (payload_get payload ''summary'' (JStr [])))))
       \<lparr>n_branch_id := n_branch_id target,
        n_node_type := the (default ''idea'' (text_value db_text (payload_get payload ''node_type'' (JStr ''idea'')))),
        n_created_by := Some ''agent''\<rparr>"
    "insert_node child db = Inr db1"
    "insert_edge (new_edge env (uuid env 1) (n_project_id target) (n_id target) (uuid env 0)
       (child_edges db1 (n_id target) = [])) db1 = Inr db'"
proof -
  from assms obtain v where v: "map_of payload ''title'' = Some v" by (auto simp: apply_create_child_def Let_def result_simps)
  then show ?thesis
    using assms that by (cases v) (auto simp: apply_create_child_def result_simps Let_def)
qed

lemma apply_create_block_steps:
  assumes "apply_create_block db_text env payload target db = Inr db'"
  obtains block_type content where "map_of payload ''block_type'' = Some block_type" "map_of payload ''content'' = Some content"
    "insert_block \<lparr>b_id = uuid env 0, b_node_id = n_id target, b_block_type = the (default ''paragraph'' (text_value db_text block_type)),
       b_content = content, b_order_index = int (block_count db (n_id target)), b_created_by = Some ''agent'',
       b_created_at = now env, b_updated_at = now env, b_revision = 1\<rparr> db = Inr db'"
  using assms by (auto simp: apply_create_block_def result_simps split: option.splits)

definition apply_payload :: "(json \<Rightarrow> string) \<Rightarrow> (string \<times> json) list \<Rightarrow> node \<Rightarrow> node" where
  "apply_payload db_text payload n =
     n\<lparr>n_title := the (text_or_old db_text payload ''title'' (Some (n_title n))),
       n_summary := text_or_old db_text payload ''summary'' (n_summary n),
       n_description := text_or_old db_text payload ''description'' (n_description n),
       n_maturity := the (text_or_old db_text payload ''maturity'' (Some (n_maturity n))),
       n_tags := payload_get payload ''tags'' (n_tags n),
       n_last_edited_by := Some ''agent''\<rparr>"

lemma apply_payload_simps [simp]:
  "n_id (apply_payload db_text payload n) = n_id n" "n_project_id (apply_payload db_text payload n) = n_project_id n"
  "n_branch_id (apply_payload db_text payload n) = n_branch_id n" "n_revision (apply_payload db_text payload n) = n_revision n"
  by (simp_all add: apply_payload_def)

lemma apply_update_node_Inr:
  assumes "apply_update_node db_text payload target db = Inr db'"
  shows "db' = nodes_update (row_update n_id (n_id target) (apply_payload db_text payload)) db"
  using assms by (simp add: apply_update_node_def result_simps apply_payload_def [abs_def])

lemma apply_artifact_frame:
  assumes "apply_artifact db_text env artifact target db = Inr db'"
  shows "projects db' = projects db" "agent_artifacts db' = agent_artifacts db" "agent_sessions db' = agent_sessions db"
    "branches db' = branches db"
proof -
  have "projects db' = projects db \<and> agent_artifacts db' = agent_artifacts db \<and> agent_sessions db' = agent_sessions db \<and> branches db' = branches db"
  proof (cases "a_artifact_type artifact = ''create_child''")
    case True
    then have "apply_create_child db_text env (a_payload artifact) target db = Inr db'" using assms by (simp add: apply_artifact_def)
    then show ?thesis
      by (cases rule: apply_create_child_steps) (simp add: insert_edge_frame insert_node_frame)
  next
    case not_child: False
    show ?thesis
    proof (cases "a_artifact_type artifact = ''update_node''")
      case True
      then show ?thesis using assms not_child by (auto simp: apply_artifact_def dest: apply_update_node_Inr)
    next
      case False
      then have "apply_create_block db_text env (a_payload artifact) target db = Inr db'"
        using assms not_child by (simp add: apply_artifact_def)
      then show ?thesis by (cases rule: apply_create_block_steps) (simp add: insert_block_Inr)
    qed
  qed
  then show "projects db' = projects db" "agent_artifacts db' = agent_artifacts db" "agent_sessions db' = agent_sessions db"
    "branches db' = branches db" by simp_all
qed

lemma node_branch_owner:
  assumes "db_ok db" "get_node_row db i = Some n" "n_branch_id n = Some b"
  shows "branch_owner (branches db) b = Some (n_project_id n)"
  using assms by (auto simp: db_ok_def ownership_ok_def nodes_owned_def get_node_row_def dest!: row_get_Some)

lemma apply_create_child_ok:
  assumes "apply_create_child db_text env payload target db = Inr db'" "db_ok db" "get_node_row db (n_id target) = Some target"
  shows "db_ok db'"
  using assms(1)
proof (cases rule: apply_create_child_steps)
  case (1 title child db1)
  have child: "n_id child = uuid env 0" "n_project_id child = n_project_id target" "n_branch_id child = n_branch_id target"
    by (simp_all add: 1(2))
  have ok1: "db_ok db1"
    using node_branch_owner [OF assms(2,3)] child by (intro ok_insert_node [OF 1(3) _ assms(2)]) simp
  have "owner (nodes db1) (uuid env 0) = Some (n_project_id target)"
    using owner_snoc [of child "nodes db"] 1(3) child by (auto simp: insert_node_Inr)
  moreover have "owner (nodes db1) (n_id target) = Some (n_project_id target)"
    using owner_get [OF assms(3)] insert_node_frame(1) [OF 1(3)] by (simp add: owner_append_fresh)
  ultimately show ?thesis by (intro ok_insert_edge [OF 1(4) _ _ ok1]) simp_all
qed

lemma apply_artifact_ok:
  assumes "apply_artifact db_text env artifact target db = Inr db'" "db_ok db" "get_node_row db (n_id target) = Some target"
  shows "db_ok db'"
proof (cases "a_artifact_type artifact = ''create_child''")
  case True
  then show ?thesis using assms apply_create_child_ok by (simp add: apply_artifact_def)
next
  case not_child: False
  show ?thesis
  proof (cases "a_artifact_type artifact = ''update_node''")
    case True
    then have "db' = nodes_update (row_update n_id (n_id target) (apply_payload db_text (a_payload artifact))) db"
      using assms not_child by (intro apply_update_node_Inr) (simp add: apply_artifact_def)
    then show ?thesis using assms(2) by (simp add: ok_update_node)
  next
    case False
    then have "apply_create_block db_text env (a_payload artifact) target db = Inr db'"
      using assms not_child by (simp add: apply_artifact_def)
    then show ?thesis by (cases rule: apply_create_block_steps) (use assms(2) in \<open>blast intro: ok_insert_block\<close>)
  qed
qed

lemma set_artifact_frame [simp]:
  "projects (set_artifact a db) = projects db" "nodes (set_artifact a db) = nodes db" "edges (set_artifact a db) = edges db"
  "branches (set_artifact a db) = branches db" "content_blocks (set_artifact a db) = content_blocks db"
  by (simp_all add: set_artifact_def)

lemma approve_agent_artifact_advances:
  assumes "approve_agent_artifact db_text env aid data db = Inr (a', db')"
  shows "\<exists>artifact pr. get_artifact_row db aid = Some artifact \<and> ar_expected_project_revision data = Some pr \<and>
    advances db (a_project_id artifact) pr db'"
  using assms
proof (cases rule: approve_agent_artifact_steps)
  case (1 artifact session target pr nr db1 db2)
  have "projects db' = projects db1" using log_action_frame(1) [OF 1(11)] apply_artifact_frame(1) [OF 1(9)] by simp
  then show ?thesis using 1(1,5) claim_advances [OF 1(7)] by blast
qed

interpretation approve_agent_artifact_cas:
  cas_handler "\<lambda>r. approve_agent_artifact db_text env aid (data\<lparr>ar_expected_project_revision := Some r\<rparr>)"
    "\<lambda>db. map_option a_project_id (get_artifact_row db aid)" for db_text env aid data
  by unfold_locales (auto dest: approve_agent_artifact_advances)

lemma approve_agent_artifact_ok:
  assumes "approve_agent_artifact db_text env aid data db = Inr (a', db')" "db_ok db"
  shows "db_ok db'"
  using assms(1)
proof (cases rule: approve_agent_artifact_steps)
  case (1 artifact session target pr nr db1 db2)
  note f = claim_frame [OF 1(7)] and g = apply_artifact_frame [OF 1(9)]
  have "get_node_row db1 (n_id target) = Some target"
    using 1(4) get_node_row_id [OF 1(4)] by (simp add: get_node_row_def f)
  then have "db_ok db2" using apply_artifact_ok [OF 1(9) ok_claim [OF 1(7) assms(2)]] by blast
  moreover have "get_artifact_row db2 (a_id a') = Some artifact"
    using 1(1,10) get_artifact_row_id [OF 1(1)] by (simp add: get_artifact_row_def f g)
  ultimately show ?thesis
    using 1(10) by (intro ok_log_action [OF 1(11)] ok_bump_existing) (simp add: ok_set_artifact)
qed


lemma reviewed_row:
  assumes "get_artifact_row db aid = Some a" "a_id a' = aid" "agent_artifacts db' = agent_artifacts db"
  shows "get_artifact_row (set_artifact a' db') aid = Some a'"
proof -
  have "row_get a_id (row_update a_id aid (\<lambda>_. a') rs) aid = Some a'" if "row_get a_id rs aid = Some a" for rs
    using that assms(2) by (induction rs) (auto simp: row_get_def row_update_def)
  then show ?thesis using assms by (simp add: get_artifact_row_def set_artifact_def)
qed

section \<open>Properties\<close>

text \<open>
  C11: Every session the API can produce has one of the five statuses, updating it never fails on the
  transition table itself, and a session that is completed or cancelled keeps that status through
  every later update.
\<close>

theorem agent_session_lifecycle:
  assumes "session_reachable s"
  shows "s_status s \<in> set AGENT_SESSION_STATUSES \<and> apply_session_update env data s \<noteq> Inl KeyError \<and>
    (s_status s \<in> {''completed'', ''cancelled''} \<and> session_step\<^sup>*\<^sup>* s s' \<longrightarrow> s_status s' = s_status s)"
proof -
  have st: "s_status s \<in> set AGENT_SESSION_STATUSES" using assms by (rule session_reachable_status)
  then obtain allowed where "map_of AGENT_SESSION_TRANSITIONS (s_status s) = Some allowed"
    by (auto simp: AGENT_SESSION_STATUSES_def AGENT_SESSION_TRANSITIONS_def)
  then have "apply_session_update env data s \<noteq> Inl KeyError"
    by (auto simp: apply_session_update_def step_session_status_def and_then_eq_Inl split: option.splits if_splits)
  then show ?thesis using st session_final by blast
qed


definition sample_session_create :: session_create where
  "sample_session_create = \<lparr>sc_project_id = ''p'', sc_assigned_node_id = Some ''a'', sc_assigned_branch_root_id = None,
     sc_provider_id = Some ''m'', sc_objective = ''do'', sc_mode = ''collab'', sc_handoff_context = JObj []\<rparr>"

definition sample_status :: "string \<Rightarrow> session_update" where
  "sample_status st = \<lparr>su_status = Assign (Some st), su_result_summary = Unset, su_handoff_context = Unset\<rparr>"

definition sample_run :: "string list \<Rightarrow> agent_session result" where
  "sample_run sts = fold_result (\<lambda>st. apply_session_update sample_env (sample_status st)) sts (new_session sample_env sample_session_create)"

lemma sample_run_reachable: "sample_run sts = Inr s \<Longrightarrow> session_reachable s"
  unfolding sample_run_def
  by (erule fold_result_invariant) (auto intro: session_reachable.intros session_step.intros)

theorem agent_session_lifecycle_witness:
  "\<exists>s. sample_run [''active'', ''waiting_review'', ''completed''] = Inr s \<and> s_status s = ''completed'' \<and>
     s_status s \<in> set AGENT_SESSION_STATUSES \<and> apply_session_update sample_env (sample_status ''active'') s \<noteq> Inl KeyError"
proof -
  have "\<exists>s. sample_run [''active'', ''waiting_review'', ''completed''] = Inr s \<and> s_status s = ''completed''"
    by (simp add: sample_run_def apply_session_update_def step_session_status_def sample_status_def new_session_def result_simps
        AGENT_SESSION_STATUSES_def AGENT_SESSION_TRANSITIONS_def)
  then obtain s where s: "sample_run [''active'', ''waiting_review'', ''completed''] = Inr s" "s_status s = ''completed''" by blast
  then show ?thesis
    using agent_session_lifecycle [OF sample_run_reachable [OF s(1)], of sample_env "sample_status ''active''" s] by blast
qed

lemma approved_row:
  assumes "approve_agent_artifact db_text env aid data db = Inr (a', db')"
  shows "get_artifact_row db' aid = Some a'" "a_status a' = ''applied''"
proof -
  from assms have "get_artifact_row db' aid = Some a' \<and> a_status a' = ''applied''"
  proof (cases rule: approve_agent_artifact_steps)
    case (1 artifact session target pr nr db1 db2)
    have "agent_artifacts db2 = agent_artifacts db" using apply_artifact_frame(2) [OF 1(9)] claim_frame(7) [OF 1(7)] by simp
    then have "get_artifact_row (set_artifact a' db2) aid = Some a'"
      using reviewed_row [OF 1(1)] 1(10) get_artifact_row_id [OF 1(1)] by simp
    then show ?thesis
      using log_action_frame(7) [OF 1(11)] 1(10) by (simp add: get_artifact_row_def bump_existing_def)
  qed
  then show "get_artifact_row db' aid = Some a'" "a_status a' = ''applied''" by simp_all
qed

lemma rejected_row:
  assumes "reject_agent_artifact env aid data db = Inr (a', db')"
  shows "get_artifact_row db' aid = Some a'" "a_status a' = ''rejected''"
proof -
  from assms have "get_artifact_row db' aid = Some a' \<and> a_status a' = ''rejected''"
  proof (cases rule: reject_agent_artifact_steps)
    case (1 artifact)
    then have "get_artifact_row (set_artifact a' db) aid = Some a'"
      using reviewed_row [OF 1(1)] get_artifact_row_id [OF 1(1)] by simp
    then show ?thesis using log_action_frame(7) [OF 1(4)] 1(3) by (simp add: get_artifact_row_def)
  qed
  then show "get_artifact_row db' aid = Some a'" "a_status a' = ''rejected''" by simp_all
qed

lemma reviewed_refused:
  assumes "get_artifact_row db aid = Some a" "a_status a \<noteq> ''pending''"
  shows "approve_agent_artifact db_text env aid data db = Inl (HTTPException 400 ''Artifact has already been reviewed'')"
    "reject_agent_artifact env aid data db = Inl (HTTPException 400 ''Artifact has already been reviewed'')"
  using assms by (simp_all add: approve_agent_artifact_def reject_agent_artifact_def)

text \<open>
  An artifact is reviewed at most once: after a successful approval or rejection, every further
  approval and rejection of it is refused.
\<close>

theorem artifact_reviewed_once:
  assumes "approve_agent_artifact db_text env aid data db = Inr (a', db') \<or> reject_agent_artifact env aid data db = Inr (a', db')"
  shows "approve_agent_artifact db_text' env' aid data' db' = Inl (HTTPException 400 ''Artifact has already been reviewed'') \<and>
    reject_agent_artifact env' aid data' db' = Inl (HTTPException 400 ''Artifact has already been reviewed'')"
proof -
  have "get_artifact_row db' aid = Some a' \<and> a_status a' \<noteq> ''pending''"
    using assms approved_row [of db_text env aid data db a' db'] rejected_row [of env aid data db a' db'] by auto
  then show ?thesis using reviewed_refused by blast
qed

definition sample_review :: artifact_review where
  "sample_review = \<lparr>ar_review_note = ''ok'', ar_expected_project_revision = Some 5, ar_expected_node_revision = Some 1\<rparr>"

lemma sample_approved: "\<exists>a' db'. approve_agent_artifact (\<lambda>_. []) sample_env ''t'' sample_review sample_db = Inr (a', db')"
  by (simp add: approve_agent_artifact_def apply_artifact_def apply_create_child_def bind_text_def compound_def payload_get_def
      text_value_def insert_node_def set_artifact_def reviewed_def sample_review_def sample_artifact_def sample_session_def
      bump_existing_def touched_add_def touched_apply_def sample_move_eval)

theorem artifact_reviewed_once_witness:
  "\<exists>a' db'. approve_agent_artifact (\<lambda>_. []) sample_env ''t'' sample_review sample_db = Inr (a', db') \<and>
     reject_agent_artifact sample_env ''t'' sample_review db' = Inl (HTTPException 400 ''Artifact has already been reviewed'')"
proof -
  obtain a' db' where a: "approve_agent_artifact (\<lambda>_. []) sample_env ''t'' sample_review sample_db = Inr (a', db')"
    using sample_approved by blast
  then show ?thesis using artifact_reviewed_once [OF disjI1 [OF a]] by blast
qed


lemma approve_child_steps:
  assumes "approve_agent_artifact db_text env aid data db = Inr (a', db')" "a_artifact_type a' = ''create_child''"
  obtains target title m where "get_node_row db (a_target_node_id a') = Some target"
    "map_of (a_payload a') ''title'' = Some (JStr title)" "n_title m = strip title" "n_id m \<notin> node_ids db"
    "n_branch_id m = n_branch_id target" "n_project_id m = n_project_id target"
    "nodes db' = map (\<lambda>n. if n_id n = n_id target then bump_node env n else n) (nodes db @ [m])"
    "child_rel db' = insert (n_id target, n_id m) (child_rel db)"
  using assms(1)
proof (cases rule: approve_agent_artifact_steps)
  case (1 artifact session target pr nr db1 db2)
  note f = claim_frame [OF 1(7)]
  have same: "a_target_node_id a' = a_target_node_id artifact" "a_payload a' = a_payload artifact" "a_artifact_type a' = a_artifact_type artifact"
    by (simp_all add: 1(10) reviewed_def)
  have "apply_create_child db_text env (a_payload artifact) target db1 = Inr db2"
    using 1(9) assms(2) same by (simp add: apply_artifact_def)
  then show ?thesis
  proof (cases rule: apply_create_child_steps)
    case (1 title child db3)
    note ins = insert_node_frame [OF 1(3)] and edge = insert_edge_frame [OF 1(4)]
    have "nodes db' = map (\<lambda>n. if n_id n = n_id target then bump_node env n else n) (nodes db @ [child])"
      using log_action_frame(2) [OF \<open>log_action env (uuid env 2) _ _ _ _ _ _ = Inr db'\<close>]
      by (simp add: bump_existing_rows edge ins f)
    moreover have "edges db' = edges db @ [new_edge env (uuid env 1) (n_project_id target) (n_id target) (uuid env 0)
        (child_edges db3 (n_id target) = [])]"
      using log_action_frame(3) [OF \<open>log_action env (uuid env 2) _ _ _ _ _ _ = Inr db'\<close>]
      by (simp add: bump_existing_rows edge ins f)
    from child_rel_append [OF this] have "child_rel db' = insert (n_id target, uuid env 0) (child_rel db)" by simp
    moreover have "uuid env 0 \<notin> node_ids db" using 1(2,3) f(1) by (simp add: insert_node_Inr)
    ultimately show ?thesis
      using that [of target title child] 1(1,2) \<open>get_node_row db (a_target_node_id artifact) = Some target\<close> same by simp
  qed
qed

text \<open>
  Approving a child artifact adds exactly one node, fresh, titled with the stripped title, in the
  target's project and branch, and exactly one containment edge to it from the target; the target is
  bumped once and no other node changes.
\<close>

theorem approve_adds_one_child:
  assumes "approve_agent_artifact db_text env aid data db = Inr (a', db')" and "a_artifact_type a' = ''create_child''"
  shows "\<exists>target title m. get_node_row db (a_target_node_id a') = Some target \<and>
    map_of (a_payload a') ''title'' = Some (JStr title) \<and> n_title m = strip title \<and> n_id m \<notin> node_ids db \<and>
    n_branch_id m = n_branch_id target \<and> n_project_id m = n_project_id target \<and>
    nodes db' = map (\<lambda>n. if n_id n = n_id target then bump_node env n else n) (nodes db @ [m]) \<and>
    child_rel db' = insert (n_id target, n_id m) (child_rel db)"
  using assms by (cases rule: approve_child_steps) blast

theorem approve_adds_one_child_witness:
  "\<exists>a' db' (m :: node). approve_agent_artifact (\<lambda>_. []) sample_env ''t'' sample_review sample_db = Inr (a', db') \<and>
     child_rel db' = insert (''a'', n_id m) (child_rel sample_db) \<and> n_title m = ''T''"
proof -
  obtain a' db' where a: "approve_agent_artifact (\<lambda>_. []) sample_env ''t'' sample_review sample_db = Inr (a', db')"
    using sample_approved by blast
  then have "a' = reviewed sample_env ''applied'' ''ok'' sample_artifact"
    by (cases rule: approve_agent_artifact_steps)
      (simp add: get_artifact_row_def row_get_def sample_simps sample_artifact_def sample_review_def split: if_splits)
  then have a': "a_artifact_type a' = ''create_child''" "a_target_node_id a' = ''a''" "a_payload a' = [(''title'', JStr '' T '')]"
    by (simp_all add: reviewed_def sample_artifact_def)
  have "strip '' T '' = ''T''" by (simp add: strip_def py_space_def of_char_def)
  moreover from approve_adds_one_child [OF a a'(1)] obtain target title and m :: node where
    "get_node_row sample_db (a_target_node_id a') = Some target" "map_of (a_payload a') ''title'' = Some (JStr title)"
    "n_title m = strip title" "child_rel db' = insert (n_id target, n_id m) (child_rel sample_db)"
    by blast
  ultimately have "get_node_row sample_db ''a'' = Some target" "n_title m = ''T''"
    "child_rel db' = insert (n_id target, n_id m) (child_rel sample_db)" using a' by simp_all
  then show ?thesis using a get_node_row_id [of sample_db "''a''" target] by auto
qed

text \<open>
  What the creation check accepts the review can apply: with a valid payload the approval of an
  artifact never ends in a missing key or a missing method, whatever else the payload holds.
\<close>

theorem valid_payload_applies:
  assumes "valid_artifact_payload (a_artifact_type artifact) (a_payload artifact)"
  shows "apply_artifact db_text env artifact target db \<notin> {Inl KeyError, Inl AttributeError}"
proof -
  have stmt: "insert_node n d \<notin> {Inl KeyError, Inl AttributeError}" "insert_edge e d \<notin> {Inl KeyError, Inl AttributeError}"
    "insert_block b d \<notin> {Inl KeyError, Inl AttributeError}" "bind_text xs ys \<notin> {Inl KeyError, Inl AttributeError}" for n e b d xs ys
    by (simp_all add: insert_node_def insert_edge_def insert_block_def bind_text_def)
  show ?thesis
    using assms stmt
    by (auto simp: valid_artifact_payload_def apply_artifact_def apply_create_child_def apply_update_node_def apply_create_block_def
        and_then_eq_Inl Let_def split: if_splits option.splits json.splits)
qed

theorem valid_payload_applies_witness:
  "apply_artifact (\<lambda>_. []) sample_env sample_artifact (sample_node ''a'') sample_db \<notin> {Inl KeyError, Inl AttributeError}"
  using valid_payload_applies [of sample_artifact]
  by (simp add: valid_artifact_payload_def sample_artifact_def strip_def py_space_def of_char_def)


definition sample_artifact_create :: artifact_create where
  "sample_artifact_create = \<lparr>ac_target_node_id = ''b'', ac_artifact_type = ''create_child'', ac_payload = [(''title'', JStr ''T'')]\<rparr>"

lemma delete_node_session:
  assumes "delete_node env nid pr er db = Inr (u, db1)" "get_session_row db sid = Some session"
    "s_assigned_node_id session = Some i" "(nid, i) \<in> (child_rel db)\<^sup>*"
  shows "\<exists>r. get_session_row db1 sid = Some r \<and> s_assigned_node_id r = None \<and> s_id r = sid \<and>
    s_project_id r = s_project_id session \<and> s_status r = s_status session \<and>
    (truthy (s_assigned_branch_root_id r) \<longrightarrow> truthy (s_assigned_branch_root_id session))"
proof -
  from assms(1) obtain node d ids where 1: "get_node_row db nid = Some node" "claim_project_revision env (n_project_id node) pr db = Inr d"
    "validate_closure node d = Inr ids" "db1 = delete_nodes ids (delete_edges_touching ids d)"
    by (rule delete_node_steps)
  note f = claim_frame [OF 1(2)]
  have "i \<in> set ids" using validate_closure_reachable [OF 1(3)] get_node_row_id [OF 1(1)] assms(4) f(9) by auto
  moreover have "agent_sessions db1 = map (\<lambda>s. s\<lparr>s_assigned_node_id := unset_in ids (s_assigned_node_id s),
      s_assigned_branch_root_id := unset_in ids (s_assigned_branch_root_id s)\<rparr>) (agent_sessions db)"
    by (simp add: 1(4) delete_nodes_frame delete_edges_touching_def f(6))
  moreover have "s_id session = sid" using assms(2) by (auto simp: get_session_row_def dest: row_get_Some)
  ultimately show ?thesis using assms(2,3) by (auto simp: get_session_row_def row_get_map unset_in_def truthy_def split: option.splits)
qed

lemma delete_node_frame:
  assumes "delete_node env nid pr er db = Inr (u, db1)"
  shows "get_node_row db1 t = Some n \<Longrightarrow> get_node_row db t = Some n \<and> (nid, t) \<notin> (child_rel db)\<^sup>*"
    and "set (agent_artifacts db1) \<subseteq> set (agent_artifacts db)" "l_id ` set (action_logs db1) = l_id ` set (action_logs db)"
proof -
  show "get_node_row db t = Some n \<and> (nid, t) \<notin> (child_rel db)\<^sup>*" if row: "get_node_row db1 t = Some n"
  proof
    have "n \<in> set (nodes db1)" "n_id n = t" using row by (auto simp: get_node_row_def dest: row_get_Some)
    then show out: "(nid, t) \<notin> (child_rel db)\<^sup>*" by (auto simp: delete_node_removes [OF assms])
    show "get_node_row db t = Some n"
      using row out by (simp add: get_node_row_def delete_node_removes(1) [OF assms] row_get_filter)
  qed
  from assms obtain node d ids where 1: "get_node_row db nid = Some node"
    "claim_project_revision env (n_project_id node) pr db = Inr d" "db1 = delete_nodes ids (delete_edges_touching ids d)"
    by (rule delete_node_steps)
  note f = claim_frame [OF 1(2)]
  show "set (agent_artifacts db1) \<subseteq> set (agent_artifacts db)" "l_id ` set (action_logs db1) = l_id ` set (action_logs db)"
    by (auto simp: 1(3) delete_nodes_frame delete_edges_touching_def f image_image)
qed

lemma artifact_accepted:
  assumes "db_ok db" "get_session_row db sid = Some session" "s_status session \<in> {''active'', ''waiting_review''}"
    "ac_artifact_type data \<in> set ARTIFACT_TYPES" "valid_artifact_payload (ac_artifact_type data) (ac_payload data)"
    "get_node_row db (ac_target_node_id data) = Some target" "n_project_id target = s_project_id session"
    "\<not> truthy (s_assigned_node_id session)" "\<not> truthy (s_assigned_branch_root_id session)"
    "uuid env 0 \<notin> a_id ` set (agent_artifacts db)" "uuid env 1 \<notin> l_id ` set (action_logs db)"
  shows "\<exists>db'. create_agent_artifact env sid data db = Inr (new_artifact env session data, db')"
proof -
  have row: "session \<in> set (agent_sessions db)" "s_id session = sid" using assms(2) by (auto simp: get_session_row_def dest: row_get_Some)
  have "target \<in> set (nodes db)" "n_id target = ac_target_node_id data" using assms(6) by (auto simp: get_node_row_def dest: row_get_Some)
  moreover have "session_refs_ok (agent_sessions db) (project_ids db) (node_ids db) (provider_ids db)"
    using assms(1) by (simp add: db_ok_def schema_ok_def refs_ok_def)
  ultimately have "ac_target_node_id data \<in> node_ids db" "s_project_id session \<in> project_ids db" "sid \<in> session_ids db"
    using row by (force simp: session_refs_ok_def)+
  then have ins: "insert_artifact (new_artifact env session data) db = Inr (agent_artifacts_update (\<lambda>rs. rs @ [new_artifact env session data]) db)"
    using assms(10) row(2) by (simp add: insert_artifact_Inr new_artifact_def)
  have "\<exists>db'. log_action env (uuid env 1) (s_project_id session) (Some (ac_target_node_id data)) ''human'' ''agent_artifact_created''
      [(''session_id'', JStr sid), (''artifact_id'', JStr (uuid env 0)), (''artifact_type'', JStr (ac_artifact_type data))]
      (agent_artifacts_update (\<lambda>rs. rs @ [new_artifact env session data]) db) = Inr db'"
    using ok_insert_artifact [OF ins assms(1)] assms(6,7,11) by (intro log_action_succeeds) (simp_all add: get_node_row_def)
  then show ?thesis
    using assms(2-9) ins by (auto simp: create_agent_artifact_def check_artifact_scope_def Let_def result_simps new_artifact_def)
qed

text \<open>
  C14: A session assigned to one node is confined to it only while that node exists. Take any active or reviewing session
  that is assigned to a node, delete the node or a node above it, and take any valid artifact for any node of the
  session's project that remains. Before the deletion the artifact is refused as out of scope; afterwards,
  since the deletion cleared the assignment (\<open>ON DELETE SET NULL\<close>), it is accepted.
\<close>

theorem deleting_assigned_node_widens_session:
  assumes "db_ok db" "get_session_row db sid = Some session" "s_status session \<in> {''active'', ''waiting_review''}"
    "s_assigned_node_id session = Some i" "truthy (Some i)" "\<not> truthy (s_assigned_branch_root_id session)"
    "delete_node env nid pr er db = Inr (u, db1)" "(nid, i) \<in> (child_rel db)\<^sup>*"
    "get_node_row db1 (ac_target_node_id data) = Some target" "n_project_id target = s_project_id session"
    "ac_artifact_type data \<in> set ARTIFACT_TYPES" "valid_artifact_payload (ac_artifact_type data) (ac_payload data)"
    "uuid env' 0 \<notin> a_id ` set (agent_artifacts db)" "uuid env' 1 \<notin> l_id ` set (action_logs db)"
  shows "create_agent_artifact env' sid data db =
      Inl (HTTPException 400 ''Node-scoped session can only write back to its assigned node'') \<and>
    (\<exists>artifact db2. create_agent_artifact env' sid data db1 = Inr (artifact, db2) \<and> a_session_id artifact = sid \<and>
      a_target_node_id artifact = ac_target_node_id data)"
proof
  note gone = delete_node_frame [OF assms(7)]
  have row: "get_node_row db (ac_target_node_id data) = Some target" "ac_target_node_id data \<noteq> i"
    using gone(1) [OF assms(9)] assms(8) by auto
  then show "create_agent_artifact env' sid data db =
      Inl (HTTPException 400 ''Node-scoped session can only write back to its assigned node'')"
    using assms(2-5,10-12) by (auto simp: create_agent_artifact_def check_artifact_scope_def and_then_def)
  obtain r where r: "get_session_row db1 sid = Some r" "s_assigned_node_id r = None" "s_id r = sid" "s_project_id r = s_project_id session"
    "s_status r = s_status session" "\<not> truthy (s_assigned_branch_root_id r)"
    using delete_node_session [OF assms(7,2,4,8)] assms(6) by blast
  have "\<exists>db2. create_agent_artifact env' sid data db1 = Inr (new_artifact env' r data, db2)"
    using delete_node_ok [OF assms(7,1)] r assms gone(2,3) by (intro artifact_accepted) (auto simp: truthy_def)
  then show "\<exists>artifact db2. create_agent_artifact env' sid data db1 = Inr (artifact, db2) \<and> a_session_id artifact = sid \<and>
      a_target_node_id artifact = ac_target_node_id data"
    using r(3) by (auto simp: new_artifact_def)
qed

theorem deleting_assigned_node_widens_session_witness:
  "\<exists>db1 artifact db2. delete_node sample_env ''a'' 5 1 sample_db = Inr ((), db1) \<and>
     create_agent_artifact sample_env ''s'' sample_artifact_create sample_db =
       Inl (HTTPException 400 ''Node-scoped session can only write back to its assigned node'') \<and>
     create_agent_artifact sample_env ''s'' sample_artifact_create db1 = Inr (artifact, db2)"
proof -
  have "case delete_node sample_env ''a'' 5 1 sample_db of
      Inl _ \<Rightarrow> False | Inr (_, db1) \<Rightarrow> map_option n_project_id (get_node_row db1 ''b'') = Some ''p''"
    by code_simp
  then obtain db1 target where d: "delete_node sample_env ''a'' 5 1 sample_db = Inr ((), db1)"
    and t: "get_node_row db1 ''b'' = Some target" "n_project_id target = ''p''"
    by (cases "delete_node sample_env ''a'' 5 1 sample_db") auto
  have "create_agent_artifact sample_env ''s'' sample_artifact_create sample_db =
      Inl (HTTPException 400 ''Node-scoped session can only write back to its assigned node'') \<and>
    (\<exists>artifact db2. create_agent_artifact sample_env ''s'' sample_artifact_create db1 = Inr (artifact, db2) \<and> a_session_id artifact = ''s'' \<and>
      a_target_node_id artifact = ac_target_node_id sample_artifact_create)"
    by (rule deleting_assigned_node_widens_session [OF sample_ok _ _ _ _ _ d, of "''s''" sample_session "''a''" sample_artifact_create target])
      (use t in \<open>simp_all add: get_row_defs row_get_def sample_session_def sample_artifact_def sample_artifact_create_def truthy_def
        ARTIFACT_TYPES_def valid_artifact_payload_def strip_def py_space_def of_char_def sample_simps\<close>)
  then show ?thesis using d by blast
qed

text \<open>
  While its assignment stands, a session writes where it was assigned: every artifact it is
  accepted with has a valid payload and targets a node of the session's project, the assigned node itself
  when there is one, and a node of the assigned root's branch when there is a root.
\<close>

theorem create_agent_artifact_in_scope:
  assumes "create_agent_artifact env sid data db = Inr (artifact, db')"
  shows "\<exists>session target. get_session_row db sid = Some session \<and> get_node_row db (a_target_node_id artifact) = Some target \<and>
    n_project_id target = s_project_id session \<and> valid_artifact_payload (a_artifact_type artifact) (a_payload artifact) \<and>
    (truthy (s_assigned_node_id session) \<longrightarrow> s_assigned_node_id session = Some (a_target_node_id artifact)) \<and>
    (truthy (s_assigned_branch_root_id session) \<longrightarrow>
      (\<exists>r. get_node_row db (the (s_assigned_branch_root_id session)) = Some r \<and> n_branch_id target = n_branch_id r))"
  using assms
proof (cases rule: create_agent_artifact_steps)
  case (1 session db1)
  then have "a_target_node_id artifact = ac_target_node_id data" "a_artifact_type artifact = ac_artifact_type data"
    "a_payload artifact = ac_payload data" by (simp_all add: new_artifact_def)
  then show ?thesis
    using 1(1,4,5) by (auto simp: check_artifact_scope_def result_simps split: if_splits option.splits)
qed

theorem create_agent_artifact_in_scope_witness:
  "\<exists>artifact db' session target. create_agent_artifact sample_env ''s'' (sample_artifact_create\<lparr>ac_target_node_id := ''a''\<rparr>) sample_db = Inr (artifact, db') \<and>
     get_session_row sample_db ''s'' = Some session \<and> get_node_row sample_db (a_target_node_id artifact) = Some target \<and>
     n_project_id target = s_project_id session"
proof -
  have "\<exists>artifact db'. create_agent_artifact sample_env ''s'' (sample_artifact_create\<lparr>ac_target_node_id := ''a''\<rparr>) sample_db = Inr (artifact, db')"
    by (simp add: create_agent_artifact_def check_artifact_scope_def sample_artifact_create_def ARTIFACT_TYPES_def truthy_def insert_artifact_def
        new_artifact_def log_action_def insert_log_def opt_has_def has_row_code sample_artifact_def
        valid_artifact_payload_def get_row_defs row_get_def result_simps sample_simps sample_session_def strip_def py_space_def of_char_def Let_def)
  then show ?thesis using create_agent_artifact_in_scope by blast
qed

end
