(* ===== verification/Json_Transfer.thy ===== *)
theory Json_Transfer
  imports Branches Samples
begin

text \<open>
  Exporting a project as one JSON document and importing such a document as a new project
  (\<open>export_project_json\<close>, \<open>import_project_json\<close> and \<open>_import_project_json_committed\<close> of \<open>api/routes.py\<close>).
  A member of an imported document may be missing, null or present (\<open>'a field\<close>); documents whose
  members have other JSON types than the columns they fill are outside the model.
\<close>

section \<open>Documents\<close>

record doc_project =
  dp_id :: "ident field"
  dp_name :: "string field"
  dp_description :: "string field"
  dp_goal :: "string field"
  dp_root_node_id :: "ident field"
  dp_status :: "string field"
  dp_settings :: "json field"
  dp_created_at :: "timestamp field"
  dp_updated_at :: "timestamp field"

record doc_node =
  dn_id :: "ident field"
  dn_title :: "string field"
  dn_summary :: "string field"
  dn_node_type :: "string field"
  dn_status :: "string field"
  dn_maturity :: "string field"
  dn_priority :: "int field"
  dn_confidence :: "rat field"
  dn_tags :: "json field"
  dn_description :: "string field"
  dn_rules_text :: "string field"
  dn_constraints_text :: "string field"
  dn_examples_text :: "string field"
  dn_questions_text :: "string field"
  dn_decision_notes :: "string field"
  dn_workflow_status :: "string field"
  dn_file_paths :: "json field"
  dn_created_by :: "string field"
  dn_last_edited_by :: "string field"
  dn_position_x :: "rat field"
  dn_position_y :: "rat field"
  dn_created_at :: "timestamp field"
  dn_updated_at :: "timestamp field"

record doc_edge =
  de_id :: "ident field"
  de_from_node_id :: "ident field"
  de_to_node_id :: "ident field"
  de_relation_type :: "string field"
  de_weight :: "rat field"
  de_note :: "string field"
  de_is_mainline :: "bool field"

record doc_block =
  db_id :: "ident field"
  db_node_id :: "ident field"
  db_block_type :: "string field"
  db_content :: "json field"
  db_order_index :: "int field"

record document =
  dc_exported_at :: timestamp
  dc_project :: doc_project
  dc_nodes :: "doc_node list"
  dc_edges :: "doc_edge list"
  dc_content_blocks :: "doc_block list"
  dc_action_logs :: "action_log list"

section \<open>Export\<close>

definition present :: "'a \<Rightarrow> 'a field" where
  "present x = Assign (Some x)"

definition export_node :: "node \<Rightarrow> doc_node" where
  "export_node n =
     \<lparr>dn_id = present (n_id n), dn_title = present (n_title n), dn_summary = Assign (n_summary n),
      dn_node_type = present (n_node_type n), dn_status = present (n_status n), dn_maturity = present (n_maturity n),
      dn_priority = Assign (n_priority n), dn_confidence = Assign (n_confidence n),
      dn_tags = present (json_or (n_tags n) (JList [])), dn_description = present (or_default (n_description n) []),
      dn_rules_text = present (or_default (n_rules_text n) []), dn_constraints_text = present (or_default (n_constraints_text n) []),
      dn_examples_text = present (or_default (n_examples_text n) []), dn_questions_text = present (or_default (n_questions_text n) []),
      dn_decision_notes = present (or_default (n_decision_notes n) []),
      dn_workflow_status = present (if n_workflow_status n = [] then ''draft'' else n_workflow_status n),
      dn_file_paths = present (json_or (n_file_paths n) (JList [])), dn_created_by = present (or_default (n_created_by n) ''human''),
      dn_last_edited_by = present (or_default (n_last_edited_by n) ''human''),
      dn_position_x = Assign (default 0 (n_position_x n)), dn_position_y = Assign (default 0 (n_position_y n)),
      dn_created_at = present (n_created_at n), dn_updated_at = present (n_updated_at n)\<rparr>"

definition export_edge :: "edge \<Rightarrow> doc_edge" where
  "export_edge e =
     \<lparr>de_id = present (e_id e), de_from_node_id = present (e_from_node_id e), de_to_node_id = present (e_to_node_id e),
      de_relation_type = present (e_relation_type e), de_weight = Assign (default 1 (e_weight e)),
      de_note = Assign (default [] (e_note e)), de_is_mainline = present (e_is_mainline e)\<rparr>"

definition export_block :: "content_block \<Rightarrow> doc_block" where
  "export_block b =
     \<lparr>db_id = present (b_id b), db_node_id = present (b_node_id b), db_block_type = present (b_block_type b),
      db_content = present (b_content b), db_order_index = present (b_order_index b)\<rparr>"

definition export_project_row :: "project \<Rightarrow> doc_project" where
  "export_project_row p =
     \<lparr>dp_id = present (p_id p), dp_name = present (p_name p), dp_description = Assign (p_description p),
      dp_goal = Assign (p_goal p), dp_root_node_id = Assign (or_none (p_root_node_id p)), dp_status = present (p_status p),
      dp_settings = Assign (p_settings p), dp_created_at = present (p_created_at p), dp_updated_at = present (p_updated_at p)\<rparr>"

definition main_edges :: "ident \<Rightarrow> db \<Rightarrow> edge list" where
  "main_edges pid db =
     (let ids = n_id ` set (ordinary_main_nodes pid db)
      in filter (\<lambda>e. e_project_id e = pid \<and> e_from_node_id e \<in> ids \<and> e_to_node_id e \<in> ids) (edges db))"

definition main_blocks :: "ident \<Rightarrow> db \<Rightarrow> content_block list" where
  "main_blocks pid db = filter (\<lambda>b. b_node_id b \<in> n_id ` set (ordinary_main_nodes pid db)) (content_blocks db)"

definition export_project_json :: "env \<Rightarrow> ident \<Rightarrow> db \<Rightarrow> document result" where
  "export_project_json env pid db =
     (case get_project_row db pid of
        None \<Rightarrow> Inl (HTTPException 404 ''Project not found'')
      | Some project \<Rightarrow>
          Inr \<lparr>dc_exported_at = now env, dc_project = export_project_row project,
            dc_nodes = map export_node (ordinary_main_nodes pid db),
            dc_edges = map export_edge (main_edges pid db),
            dc_content_blocks = map export_block (main_blocks pid db),
            dc_action_logs = take 200 (sort_key (\<lambda>l. - l_created_at l)
              (filter (\<lambda>l. l_project_id l = pid \<and> (case l_node_id l of None \<Rightarrow> False | Some i \<Rightarrow> i \<in> n_id ` set (ordinary_main_nodes pid db)))
                (action_logs db)))\<rparr>)"

section \<open>Import\<close>

text \<open>The default name of the source, as its UTF-8 bytes.\<close>

definition default_project_name :: string where
  "default_project_name =
     map char_of [0xE5, 0x8C, 0xAF, 0xE5, 0x85, 0xA5, 0xE7, 0x9A, 0x84, 0xE5, 0xB0, 0x88, 0xE6, 0xA1, 0x88 :: nat]"

text \<open>A member read with \<open>get(k, d)\<close> and inserted into a column with default \<open>d'\<close>: null counts as not set.\<close>

definition column_value :: "'a \<Rightarrow> 'a \<Rightarrow> 'a field \<Rightarrow> 'a" where
  "column_value d d' f = (case get_default (Some d) f of None \<Rightarrow> d' | Some v \<Rightarrow> v)"

definition json_field :: "json field \<Rightarrow> json" where
  "json_field f = (case get_default None f of None \<Rightarrow> JNull | Some j \<Rightarrow> j)"

definition imported_node :: "env \<Rightarrow> ident \<Rightarrow> ident \<Rightarrow> doc_node \<Rightarrow> node" where
  "imported_node env pid i n =
     \<lparr>n_id = i, n_project_id = pid, n_title = the (get_default (Some []) (dn_title n)),
      n_summary = default [] (get_default None (dn_summary n)), n_node_type = column_value ''idea'' ''idea'' (dn_node_type n),
      n_status = column_value ''active'' ''active'' (dn_status n), n_maturity = column_value ''seed'' ''seed'' (dn_maturity n),
      n_priority = Some (column_value 0 0 (dn_priority n)), n_confidence = Some (column_value (1 / 2) (1 / 2) (dn_confidence n)),
      n_description = Some (or_default (get_default None (dn_description n)) []),
      n_rules_text = Some (or_default (get_default None (dn_rules_text n)) []),
      n_constraints_text = Some (or_default (get_default None (dn_constraints_text n)) []),
      n_examples_text = Some (or_default (get_default None (dn_examples_text n)) []),
      n_questions_text = Some (or_default (get_default None (dn_questions_text n)) []),
      n_decision_notes = Some (or_default (get_default None (dn_decision_notes n)) []),
      n_tags = json_or (json_field (dn_tags n)) (JList []),
      n_workflow_status = or_default (get_default None (dn_workflow_status n)) ''draft'',
      n_file_paths = json_or (json_field (dn_file_paths n)) (JList []), n_branch_id = None,
      n_created_by = Some (or_default (get_default None (dn_created_by n)) ''import''),
      n_last_edited_by = Some (or_default (get_default None (dn_last_edited_by n)) ''import''),
      n_position_x = default 0 (get_default None (dn_position_x n)), n_position_y = default 0 (get_default None (dn_position_y n)),
      n_created_at = now env, n_updated_at = now env, n_revision = 1\<rparr>"

text \<open>
  The node loop; \<open>k\<close> counts the identifiers drawn, and the map from old to new identifiers has its newest
  entry first. \<open>n["id"]\<close> may be null, but not missing.
\<close>

type_synonym import_map = "(ident option \<times> ident) list"

fun import_nodes :: "env \<Rightarrow> ident \<Rightarrow> nat \<Rightarrow> doc_node list \<Rightarrow> import_map \<Rightarrow> db \<Rightarrow> (import_map \<times> db) result" where
  "import_nodes env pid k [] m db = Inr (m, db)"
| "import_nodes env pid k (n # ns) m db =
     (if get_default (Some []) (dn_title n) = None then Inl IntegrityError
      else and_then (insert_node (imported_node env pid (uuid env k) n) db) (\<lambda>db.
        case dn_id n of
          Unset \<Rightarrow> Inl KeyError
        | Assign old \<Rightarrow> import_nodes env pid (Suc k) ns ((old, uuid env k) # m) db))"

definition mapped_id :: "import_map \<Rightarrow> ident field \<Rightarrow> ident option" where
  "mapped_id m f = map_of m (get_default (Some []) f)"

definition wants_mainline :: "doc_edge \<Rightarrow> bool" where
  "wants_mainline e \<longleftrightarrow> get_default (Some False) (de_is_mainline e) = Some True \<and>
     get_default (Some child_of) (de_relation_type e) = Some child_of"

definition imported_edge :: "env \<Rightarrow> ident \<Rightarrow> ident \<Rightarrow> ident \<Rightarrow> ident \<Rightarrow> bool \<Rightarrow> doc_edge \<Rightarrow> edge" where
  "imported_edge env pid i from_id to_id mainline e =
     \<lparr>e_id = i, e_project_id = pid, e_from_node_id = from_id, e_to_node_id = to_id,
      e_relation_type = column_value child_of child_of (de_relation_type e),
      e_weight = default 1 (get_default None (de_weight e)), e_note = default [] (get_default None (de_note e)),
      e_is_mainline = mainline, e_created_at = now env, e_revision = 1\<rparr>"

fun import_edges :: "env \<Rightarrow> ident \<Rightarrow> import_map \<Rightarrow> nat \<Rightarrow> ident list \<Rightarrow> doc_edge list \<Rightarrow> edge list" where
  "import_edges env pid m k mainline_parents [] = []"
| "import_edges env pid m k mainline_parents (e # es) =
     (let from_id = mapped_id m (de_from_node_id e);
          to_id = mapped_id m (de_to_node_id e)
      in if \<not> truthy from_id \<or> \<not> truthy to_id then import_edges env pid m k mainline_parents es
         else
           let mainline = (wants_mainline e \<and> the from_id \<notin> set mainline_parents)
           in imported_edge env pid (uuid env k) (the from_id) (the to_id) mainline e
              # import_edges env pid m (Suc k) (if mainline then the from_id # mainline_parents else mainline_parents) es)"

fun import_blocks :: "env \<Rightarrow> import_map \<Rightarrow> nat \<Rightarrow> doc_block list \<Rightarrow> content_block list" where
  "import_blocks env m k [] = []"
| "import_blocks env m k (b # bs) =
     (let node_id = mapped_id m (db_node_id b)
      in if \<not> truthy node_id then import_blocks env m k bs
         else \<lparr>b_id = uuid env k, b_node_id = the node_id, b_block_type = column_value ''note'' ''paragraph'' (db_block_type b),
               b_content = (case get_default (Some (JObj [])) (db_content b) of None \<Rightarrow> JNull | Some j \<Rightarrow> j),
               b_order_index = column_value 0 0 (db_order_index b), b_created_by = Some ''human'',
               b_created_at = now env, b_updated_at = now env, b_revision = 1\<rparr>
              # import_blocks env m (Suc k) bs)"

definition imported_project :: "env \<Rightarrow> doc_project \<Rightarrow> string \<Rightarrow> project" where
  "imported_project env d name =
     \<lparr>p_id = uuid env 0, p_name = name, p_description = default [] (get_default None (dp_description d)),
      p_goal = default [] (get_default None (dp_goal d)), p_root_node_id = None,
      p_status = column_value ''active'' ''active'' (dp_status d),
      p_settings = get_default (Some (JObj [])) (dp_settings d), p_created_at = now env, p_updated_at = now env, p_revision = 1\<rparr>"

definition imported_root :: "doc_project \<Rightarrow> import_map \<Rightarrow> ident option" where
  "imported_root d m =
     (let old_root_id = get_default None (dp_root_node_id d)
      in if truthy old_root_id then map_of m old_root_id else None)"

definition set_root :: "ident \<Rightarrow> ident option \<Rightarrow> db \<Rightarrow> db" where
  "set_root pid r db =
     (case r of None \<Rightarrow> db | Some i \<Rightarrow> projects_update (row_update p_id pid (\<lambda>p. p\<lparr>p_root_node_id := Some i\<rparr>)) db)"

record import_out =
  io_id :: ident
  io_name :: string
  io_root_node_id :: "ident option"

definition import_project_json_committed :: "env \<Rightarrow> document \<Rightarrow> db \<Rightarrow> (import_out \<times> db) result" where
  "import_project_json_committed env data db =
     (let d = dc_project data; pid = uuid env 0
      in case get_default (Some default_project_name) (dp_name d) of
        None \<Rightarrow> Inl IntegrityError
      | Some name \<Rightarrow>
          and_then (insert_project (imported_project env d name) db) (\<lambda>db.
          and_then (import_nodes env pid 1 (dc_nodes data) [] db) (\<lambda>(m, db).
            let db = set_root pid (imported_root d m) db;
                k = 1 + length (dc_nodes data);
                es = import_edges env pid m k [] (dc_edges data);
                bs = import_blocks env m (k + length es) (dc_content_blocks data)
            in and_then (fold_result insert_edge es db) (\<lambda>db.
               and_then (fold_result insert_block bs db) (\<lambda>db.
               and_then (log_action env (uuid env (k + length es + length bs)) pid None ''human'' ''import_project''
                   [(''original_name'', jopt (get_default None (dp_name d)))] db) (\<lambda>db.
                 Inr (\<lparr>io_id = pid, io_name = name, io_root_node_id = imported_root d m\<rparr>, db)))))))"

definition import_project_json :: "env \<Rightarrow> document \<Rightarrow> db \<Rightarrow> (import_out \<times> db) result" where
  "import_project_json env data db =
     (if get_default (Some ''active'') (dp_status (dc_project data)) \<noteq> Some ''active''
      then import_project_json_committed env data db
      else and_then (require_active_project_seat env 402 db) (\<lambda>_. import_project_json_committed env data db))"

section \<open>Steps of an import\<close>

lemma import_steps:
  assumes "import_project_json_committed env data db = Inr (out, db')"
  obtains name db1 m db2 db3 db4 i where "get_default (Some default_project_name) (dp_name (dc_project data)) = Some name"
    "insert_project (imported_project env (dc_project data) name) db = Inr db1"
    "import_nodes env (uuid env 0) (Suc 0) (dc_nodes data) [] db1 = Inr (m, db2)"
    "fold_result insert_edge (import_edges env (uuid env 0) m (Suc (length (dc_nodes data))) [] (dc_edges data))
       (set_root (uuid env 0) (imported_root (dc_project data) m) db2) = Inr db3"
    "fold_result insert_block (import_blocks env m (Suc (length (dc_nodes data) +
       length (import_edges env (uuid env 0) m (Suc (length (dc_nodes data))) [] (dc_edges data)))) (dc_content_blocks data)) db3 = Inr db4"
    "log_action env i (uuid env 0) None ''human'' ''import_project''
       [(''original_name'', jopt (get_default None (dp_name (dc_project data))))] db4 = Inr db'"
    "out = \<lparr>io_id = uuid env 0, io_name = name, io_root_node_id = imported_root (dc_project data) m\<rparr>"
  using assms unfolding import_project_json_committed_def Let_def
  by (clarsimp simp: result_simps)

lemma import_nodes_Cons:
  assumes "import_nodes env pid k (n # ns) m db = Inr (m', db')"
  obtains db1 old where "insert_node (imported_node env pid (uuid env k) n) db = Inr db1" "dn_id n = Assign old"
    "import_nodes env pid (Suc k) ns ((old, uuid env k) # m) db1 = Inr (m', db')"
  using assms by (cases "dn_id n") (auto simp: result_simps)

lemma import_nodes_Inr:
  "import_nodes env pid k ns m db = Inr (m', db') \<Longrightarrow>
     db' = nodes_update (\<lambda>rs. rs @ map (\<lambda>(j, n). imported_node env pid (uuid env j) n) (List.enumerate k ns)) db \<and>
     m' = rev (map (\<lambda>(j, n). (get_default None (dn_id n), uuid env j)) (List.enumerate k ns)) @ m"
proof (induction ns arbitrary: k m db)
  case (Cons n ns)
  from Cons.prems obtain db1 old where 1: "insert_node (imported_node env pid (uuid env k) n) db = Inr db1" "dn_id n = Assign old"
    "import_nodes env pid (Suc k) ns ((old, uuid env k) # m) db1 = Inr (m', db')"
    by (rule import_nodes_Cons)
  have "db1 = nodes_update (\<lambda>rs. rs @ [imported_node env pid (uuid env k) n]) db" using 1(1) by (simp add: insert_node_Inr)
  then show ?case using Cons.IH [OF 1(3)] 1(2) by (simp add: comp_def)
qed simp

lemma set_root_frame [simp]:
  "nodes (set_root pid r db) = nodes db" "edges (set_root pid r db) = edges db" "branches (set_root pid r db) = branches db"
  "content_blocks (set_root pid r db) = content_blocks db"
  by (cases r; simp add: set_root_def)+

lemma fold_insert_edge_list: "fold_result insert_edge es db = Inr db' \<Longrightarrow> db' = edges_update (\<lambda>rs. rs @ map normalize_edge es) db"
proof (induction es arbitrary: db)
  case (Cons e es)
  then obtain db1 where 1: "insert_edge e db = Inr db1" "fold_result insert_edge es db1 = Inr db'" by (auto simp: result_simps)
  have "db1 = edges_update (\<lambda>rs. rs @ [normalize_edge e]) db" using 1(1) by (simp add: insert_edge_Inr)
  then show ?case using Cons.IH [OF 1(2)] by (simp add: comp_def)
qed simp

lemma fold_insert_block_list: "fold_result insert_block bs db = Inr db' \<Longrightarrow> db' = content_blocks_update (\<lambda>rs. rs @ bs) db"
proof (induction bs arbitrary: db)
  case (Cons b bs)
  then obtain db1 where 1: "insert_block b db = Inr db1" "fold_result insert_block bs db1 = Inr db'" by (auto simp: result_simps)
  have "db1 = content_blocks_update (\<lambda>rs. rs @ [b]) db" using 1(1) by (simp add: insert_block_Inr)
  then show ?case using Cons.IH [OF 1(2)] by (simp add: comp_def)
qed simp

section \<open>An import keeps the invariants\<close>

lemma import_nodes_ok:
  assumes "import_nodes env pid k ns m db = Inr (m', db')" "db_ok db"
    "\<forall>u \<in> snd ` set m. owner (nodes db) u = Some pid"
  shows "db_ok db' \<and> (\<forall>u \<in> snd ` set m'. owner (nodes db') u = Some pid)"
  using assms
proof (induction ns arbitrary: k m db)
  case (Cons n ns)
  let ?n = "imported_node env pid (uuid env k) n"
  from Cons.prems(1) obtain db1 old where 1: "insert_node ?n db = Inr db1" "dn_id n = Assign old"
    "import_nodes env pid (Suc k) ns ((old, uuid env k) # m) db1 = Inr (m', db')"
    by (rule import_nodes_Cons)
  have n: "n_id ?n = uuid env k" "n_project_id ?n = pid" "n_branch_id ?n = None" by (simp_all add: imported_node_def)
  have "db_ok db1" using ok_insert_node [OF 1(1)] n(3) Cons.prems(2) by simp
  moreover have "owner (nodes db1) (uuid env k) = Some pid"
    using 1(1) owner_snoc [of ?n "nodes db"] n by (simp add: insert_node_Inr)
  moreover have "owner (nodes db1) u = Some pid" if "u \<in> snd ` set m" for u
    using that Cons.prems(3) insert_node_frame(1) [OF 1(1)] by (auto intro: owner_append_fresh)
  ultimately show ?case using Cons.IH [OF 1(3)] by auto
qed simp

lemma mapped_id_in: "mapped_id m f = Some u \<Longrightarrow> u \<in> snd ` set m"
  unfolding mapped_id_def by (metis imageI map_of_SomeD snd_conv)

lemma import_edges_refs:
  "e \<in> set (import_edges env pid m k ps es) \<Longrightarrow>
     e_project_id e = pid \<and> e_from_node_id e \<in> snd ` set m \<and> e_to_node_id e \<in> snd ` set m"
proof (induction es arbitrary: k ps)
  case (Cons d es)
  show ?case
  proof (cases "truthy (mapped_id m (de_from_node_id d)) \<and> truthy (mapped_id m (de_to_node_id d))")
    case True
    then obtain x y where xy: "mapped_id m (de_from_node_id d) = Some x" "mapped_id m (de_to_node_id d) = Some y"
      unfolding truthy_Some by blast
    from Cons.prems True consider i ml where "e = imported_edge env pid i x y ml d"
      | j qs where "e \<in> set (import_edges env pid m j qs es)"
      unfolding import_edges.simps Let_def xy option.sel by auto
    then show ?thesis
      using Cons.IH mapped_id_in [OF xy(1)] mapped_id_in [OF xy(2)] by cases (simp_all add: imported_edge_def)
  next
    case False
    then show ?thesis using Cons by (simp add: Let_def split: if_splits)
  qed
qed simp

lemma set_root_ok: "db_ok db \<Longrightarrow> \<forall>x. r = Some x \<longrightarrow> owner (nodes db) x = Some pid \<Longrightarrow> db_ok (set_root pid r db)"
  by (cases r) (simp_all add: set_root_def ok_set_root)

lemma imported_root_in: "imported_root d m = Some x \<Longrightarrow> x \<in> snd ` set m"
  by (auto simp: imported_root_def Let_def split: if_splits dest!: map_of_SomeD) force

lemma import_committed_ok:
  assumes "import_project_json_committed env data db = Inr (out, db')" "db_ok db"
  shows "db_ok db'"
proof -
  let ?pid = "uuid env 0"
  from assms(1) obtain name db1 m db2 db3 db4 i where
    1: "insert_project (imported_project env (dc_project data) name) db = Inr db1" and
    2: "import_nodes env ?pid (Suc 0) (dc_nodes data) [] db1 = Inr (m, db2)" and
    3: "fold_result insert_edge (import_edges env ?pid m (Suc (length (dc_nodes data))) [] (dc_edges data))
       (set_root ?pid (imported_root (dc_project data) m) db2) = Inr db3" and
    4: "fold_result insert_block (import_blocks env m (Suc (length (dc_nodes data) +
       length (import_edges env ?pid m (Suc (length (dc_nodes data))) [] (dc_edges data)))) (dc_content_blocks data)) db3 = Inr db4" and
    5: "log_action env i ?pid None ''human'' ''import_project''
       [(''original_name'', jopt (get_default None (dp_name (dc_project data))))] db4 = Inr db'"
    by (rule import_steps)
  have "db_ok db1" using ok_insert_project [OF 1] assms(2) by (simp add: imported_project_def)
  then have ok2: "db_ok db2" and own: "\<And>u. u \<in> snd ` set m \<Longrightarrow> owner (nodes db2) u = Some ?pid"
    using import_nodes_ok [OF 2] by auto
  let ?I = "\<lambda>d. db_ok d \<and> nodes d = nodes db2"
  have "?I db3"
  proof (rule fold_result_invariant [OF 3])
    show "?I (set_root ?pid (imported_root (dc_project data) m) db2)"
      using set_root_ok [OF ok2] own imported_root_in by simp
  next
    fix e d d'
    assume e: "e \<in> set (import_edges env ?pid m (Suc (length (dc_nodes data))) [] (dc_edges data))"
      and d: "?I d" and ins: "insert_edge e d = Inr d'"
    show "?I d'" using ok_insert_edge [OF ins] insert_edge_frame(3) [OF ins] import_edges_refs [OF e] d own by simp
  qed
  then have "db_ok db4" using fold_result_invariant [OF 4, of db_ok] ok_insert_block by blast
  then show ?thesis by (rule ok_log_action [OF 5])
qed

lemma import_ok: "import_project_json env data db = Inr (out, db') \<Longrightarrow> db_ok db \<Longrightarrow> db_ok db'"
  unfolding import_project_json_def by (auto simp: result_simps intro: import_committed_ok split: if_splits)

section \<open>Seats\<close>

lemma row_update_snoc: "row_update k i f (rs @ [r]) = row_update k i f rs @ [if k r = i then f r else r]"
  by (simp add: row_update_def)

lemma import_projects:
  assumes "import_project_json_committed env data db = Inr (out, db')"
  shows "projects db' = projects db @ [(imported_project env (dc_project data) (io_name out))\<lparr>p_root_node_id := io_root_node_id out\<rparr>]"
proof -
  let ?pid = "uuid env 0"
  from assms obtain name db1 m db2 db3 db4 i where
    1: "insert_project (imported_project env (dc_project data) name) db = Inr db1" and
    2: "import_nodes env ?pid (Suc 0) (dc_nodes data) [] db1 = Inr (m, db2)" and
    3: "fold_result insert_edge (import_edges env ?pid m (Suc (length (dc_nodes data))) [] (dc_edges data))
       (set_root ?pid (imported_root (dc_project data) m) db2) = Inr db3" and
    4: "fold_result insert_block (import_blocks env m (Suc (length (dc_nodes data) +
       length (import_edges env ?pid m (Suc (length (dc_nodes data))) [] (dc_edges data)))) (dc_content_blocks data)) db3 = Inr db4" and
    5: "log_action env i ?pid None ''human'' ''import_project''
       [(''original_name'', jopt (get_default None (dp_name (dc_project data))))] db4 = Inr db'" and
    out: "out = \<lparr>io_id = ?pid, io_name = name, io_root_node_id = imported_root (dc_project data) m\<rparr>"
    by (rule import_steps)
  let ?p = "imported_project env (dc_project data) name"
  have "projects db1 = projects db @ [?p]" "?pid \<notin> project_ids db" "p_id ?p = ?pid"
    using 1 by (simp_all add: insert_project_Inr imported_project_def)
  moreover have "projects db2 = projects db1" using import_nodes_Inr [OF 2] by simp
  moreover have "projects db' = projects (set_root ?pid (imported_root (dc_project data) m) db2)"
    using log_action_frame(1) [OF 5] fold_insert_block_list [OF 4] fold_insert_edge_list [OF 3] by simp
  ultimately have "projects db' = projects db @
      [case imported_root (dc_project data) m of None \<Rightarrow> ?p | Some x \<Rightarrow> ?p\<lparr>p_root_node_id := Some x\<rparr>]"
    by (cases "imported_root (dc_project data) m") (simp_all add: set_root_def row_update_snoc row_update_absent)
  then show ?thesis
    by (cases "imported_root (dc_project data) m") (simp_all add: out imported_project_def)
qed

lemma import_seats:
  assumes "import_project_json env data db = Inr (out, db')" "dp_status (dc_project data) \<noteq> Assign None"
    "desktop_mode env" "max_active_projects env = Some limit" "int (active_projects db) \<le> limit"
  shows "int (active_projects db') \<le> limit"
proof (cases "get_default (Some ''active'') (dp_status (dc_project data)) = Some ''active''")
  case True
  then obtain u where "require_active_project_seat env 402 db = Inr u" and c: "import_project_json_committed env data db = Inr (out, db')"
    using assms(1) by (auto simp: import_project_json_def result_simps)
  then have "int (active_projects db) < limit" using seat_granted assms(3,4) by blast
  then show ?thesis using import_projects [OF c] by (simp add: active_projects_def)
next
  case False
  then have c: "import_project_json_committed env data db = Inr (out, db')"
    using assms(1) by (simp add: import_project_json_def)
  have "column_value ''active'' ''active'' (dp_status (dc_project data)) \<noteq> ''active''"
    using False assms(2) by (cases "dp_status (dc_project data)") (auto simp: column_value_def split: option.splits)
  then show ?thesis using import_projects [OF c] assms(5) by (simp add: active_projects_def imported_project_def)
qed

section \<open>The round trip\<close>

text \<open>
  What a node becomes: the same text and state, with the columns an export fills when they are empty.
\<close>

definition transferred_node :: "env \<Rightarrow> ident \<Rightarrow> ident \<Rightarrow> node \<Rightarrow> node" where
  "transferred_node env pid i n =
     (node_defaults n)\<lparr>n_id := i, n_project_id := pid, n_branch_id := None,
       n_tags := json_or (n_tags n) (JList []), n_file_paths := json_or (n_file_paths n) (JList []),
       n_workflow_status := (if n_workflow_status n = [] then ''draft'' else n_workflow_status n),
       n_created_by := Some (or_default (n_created_by n) ''human''),
       n_last_edited_by := Some (or_default (n_last_edited_by n) ''human''),
       n_created_at := now env, n_updated_at := now env, n_revision := 1\<rparr>"

lemma or_default_twice [simp]:
  "or_default (Some (or_default x d)) d = or_default x d" "d \<noteq> [] \<Longrightarrow> or_default (Some (or_default x d)) d' = or_default x d"
  by (auto simp: or_default_def split: option.splits)

lemma or_default_empty: "Some (or_default x []) = default [] x"
  by (auto simp: or_default_def default_def split: option.splits)

lemma json_or_twice [simp]: "json_or (json_or j (JList [])) (JList []) = json_or j (JList [])"
  by (simp add: json_or_def)

lemma imported_exported_node: "imported_node env pid i (export_node n) = transferred_node env pid i n"
  by (simp add: imported_node_def export_node_def transferred_node_def present_def json_field_def column_value_def
      node_defaults_def or_default_empty [symmetric]) (auto simp: default_def or_default_def split: option.splits)

definition edge_shape :: "edge \<Rightarrow> ident \<times> ident \<times> string \<times> rat option \<times> string option \<times> bool" where
  "edge_shape e = (e_from_node_id e, e_to_node_id e, e_relation_type e, e_weight e, e_note e, e_is_mainline e)"

definition transferred_edge :: "(ident \<Rightarrow> ident) \<Rightarrow> edge \<Rightarrow> ident \<times> ident \<times> string \<times> rat option \<times> string option \<times> bool" where
  "transferred_edge f e =
     (f (e_from_node_id e), f (e_to_node_id e), e_relation_type e, default 1 (e_weight e), default [] (e_note e), mainline_edge e)"

definition block_shape :: "content_block \<Rightarrow> ident \<times> string \<times> json \<times> int" where
  "block_shape b = (b_node_id b, b_block_type b, b_content b, b_order_index b)"

definition transferred_block :: "(ident \<Rightarrow> ident) \<Rightarrow> content_block \<Rightarrow> ident \<times> string \<times> json \<times> int" where
  "transferred_block f b = (f (b_node_id b), b_block_type b, b_content b, b_order_index b)"

text \<open>The map of an import agrees with \<open>f\<close> on the exported identifiers.\<close>

definition maps_ids :: "import_map \<Rightarrow> (ident \<Rightarrow> ident) \<Rightarrow> ident set \<Rightarrow> bool" where
  "maps_ids m f A \<longleftrightarrow> inj_on f A \<and> (\<forall>x \<in> A. map_of m (Some x) = Some (f x) \<and> f x \<noteq> [])"

lemma mapped_present: "maps_ids m f A \<Longrightarrow> x \<in> A \<Longrightarrow> mapped_id m (present x) = Some (f x)"
  by (simp add: maps_ids_def mapped_id_def present_def)

lemma maps_truthy: "maps_ids m f A \<Longrightarrow> x \<in> A \<Longrightarrow> truthy (Some (f x))"
  by (simp add: maps_ids_def truthy_def)

lemma wants_mainline_exported [simp]: "wants_mainline (export_edge e) = mainline_edge e"
  by (auto simp: wants_mainline_def export_edge_def present_def mainline_edge_def is_child_edge_def)

lemma edge_shape_imported:
  "edge_shape (imported_edge env pid i x y ml (export_edge e)) =
     (x, y, e_relation_type e, default 1 (e_weight e), default [] (e_note e), ml)"
  by (simp add: edge_shape_def imported_edge_def export_edge_def present_def column_value_def default_def)

lemma head_key_neq: "distinct (map k (x # xs)) \<Longrightarrow> y \<in> set xs \<Longrightarrow> k y \<noteq> k x"
  by (metis distinct.simps(2) image_eqI list.set_map list.simps(9))

lemma import_edges_exported:
  assumes "maps_ids m f A" "\<forall>e \<in> set es. e_from_node_id e \<in> A \<and> e_to_node_id e \<in> A" "set ps \<subseteq> f ` A"
    "distinct (map e_id es)" "mainline_unique es" "\<forall>e \<in> set es. mainline_edge e \<longrightarrow> f (e_from_node_id e) \<notin> set ps"
  shows "map edge_shape (import_edges env pid m k ps (map export_edge es)) = map (transferred_edge f) es \<and>
    map e_id (import_edges env pid m k ps (map export_edge es)) = map (uuid env) [k..<k + length es]"
  using assms
proof (induction es arbitrary: k ps)
  case (Cons e es)
  let ?x = "f (e_from_node_id e)" and ?y = "f (e_to_node_id e)"
  have ends: "e_from_node_id e \<in> A" "e_to_node_id e \<in> A" using Cons.prems(2) by simp_all
  have mapped: "mapped_id m (de_from_node_id (export_edge e)) = Some ?x" "mapped_id m (de_to_node_id (export_edge e)) = Some ?y"
    using mapped_present [OF Cons.prems(1)] ends by (simp_all add: export_edge_def)
  have truthy: "truthy (Some ?x)" "truthy (Some ?y)" using maps_truthy [OF Cons.prems(1)] ends by simp_all
  have ml: "(mainline_edge e \<and> ?x \<notin> set ps) = mainline_edge e" using Cons.prems(6) by auto
  let ?ps = "if mainline_edge e then ?x # ps else ps"
  have step: "import_edges env pid m k ps (map export_edge (e # es)) =
      imported_edge env pid (uuid env k) ?x ?y (mainline_edge e) (export_edge e) #
      import_edges env pid m (Suc k) ?ps (map export_edge es)"
    by (simp only: list.map import_edges.simps Let_def mapped truthy option.sel wants_mainline_exported ml) simp
  have fresh: "f (e_from_node_id d) \<notin> set ?ps" if d: "d \<in> set es" "mainline_edge d" for d
  proof -
    have "f (e_from_node_id d) \<noteq> ?x" if e: "mainline_edge e"
    proof
      assume "f (e_from_node_id d) = ?x"
      then have "e_from_node_id d = e_from_node_id e"
        using Cons.prems(1,2) ends(1) d(1) by (auto simp: maps_ids_def inj_on_def)
      then have "e_id d = e_id e" using mainline_uniqueD [OF Cons.prems(5), of d e] d e by simp
      then show False using head_key_neq [OF Cons.prems(4) d(1)] by contradiction
    qed
    then show ?thesis using Cons.prems(6) d by auto
  qed
  have "map edge_shape (import_edges env pid m (Suc k) ?ps (map export_edge es)) = map (transferred_edge f) es \<and>
    map e_id (import_edges env pid m (Suc k) ?ps (map export_edge es)) = map (uuid env) [Suc k..<Suc k + length es]"
  proof (rule Cons.IH)
    show "mainline_unique es" using Cons.prems(5) by (auto intro: mainline_unique_subset [of es "e # es"])
    show "\<forall>d \<in> set es. mainline_edge d \<longrightarrow> f (e_from_node_id d) \<notin> set ?ps" using fresh by blast
  qed (use Cons.prems ends in \<open>auto\<close>)
  moreover have "e_id (imported_edge env pid (uuid env k) ?x ?y (mainline_edge e) (export_edge e)) = uuid env k"
    by (simp add: imported_edge_def)
  ultimately show ?case unfolding step
    by (simp add: edge_shape_imported transferred_edge_def upt_conv_Cons del: upt_Suc)
qed simp

lemma import_blocks_exported:
  assumes "maps_ids m f A" "\<forall>b \<in> set bs. b_node_id b \<in> A"
  shows "map block_shape (import_blocks env m k (map export_block bs)) = map (transferred_block f) bs \<and>
    map b_id (import_blocks env m k (map export_block bs)) = map (uuid env) [k..<k + length bs]"
  using assms(2)
proof (induction bs arbitrary: k)
  case (Cons b bs)
  then have "mapped_id m (db_node_id (export_block b)) = Some (f (b_node_id b))" "truthy (Some (f (b_node_id b)))"
    using mapped_present [OF assms(1)] maps_truthy [OF assms(1)] by (simp_all add: export_block_def)
  then show ?case using Cons
    by (simp add: Let_def block_shape_def transferred_block_def export_block_def present_def column_value_def
        upt_conv_Cons del: upt_Suc)
qed simp

lemma import_edges_normal: "map normalize_edge (import_edges env pid m k ps es) = import_edges env pid m k ps es"
proof (induction es arbitrary: k ps)
  case (Cons e es)
  have "normalize_edge (imported_edge env pid i x y ml e) = imported_edge env pid i x y ml e" for i x y ml
    by (simp add: normalize_edge_def imported_edge_def default_def)
  then show ?case by (simp add: Let_def Cons.IH)
qed simp

section \<open>An exported project can be imported\<close>

text \<open>\<open>uuid4\<close> draws identifiers that are new to the database the document is imported into.\<close>

definition fresh_ids :: "env \<Rightarrow> db \<Rightarrow> bool" where
  "fresh_ids env db \<longleftrightarrow> inj (uuid env) \<and> (\<forall>k. uuid env k \<noteq> [] \<and> uuid env k \<notin> project_ids db \<and> uuid env k \<notin> node_ids db \<and>
     uuid env k \<notin> e_id ` set (edges db) \<and> uuid env k \<notin> b_id ` set (content_blocks db) \<and> uuid env k \<notin> l_id ` set (action_logs db))"

lemma import_nodes_runs:
  assumes "inj (uuid env)" "\<forall>j \<ge> k. uuid env j \<notin> node_ids db" "pid \<in> project_ids db"
  shows "\<exists>r. import_nodes env pid k (map export_node ns) m db = Inr r"
  using assms(2,3)
proof (induction ns arbitrary: k m db)
  case (Cons n ns)
  let ?n = "imported_node env pid (uuid env k) (export_node n)"
  have n: "n_id ?n = uuid env k" "n_project_id ?n = pid" "n_branch_id ?n = None" by (simp_all add: imported_node_def)
  then have ins: "insert_node ?n db = Inr (nodes_update (\<lambda>rs. rs @ [?n]) db)" using Cons.prems by (simp add: insert_node_Inr)
  have title: "get_default (Some []) (dn_title (export_node n)) \<noteq> None" "dn_id (export_node n) = Assign (Some (n_id n))"
    by (simp_all add: export_node_def present_def)
  have "\<exists>r. import_nodes env pid (Suc k) (map export_node ns) ((Some (n_id n), uuid env k) # m) (nodes_update (\<lambda>rs. rs @ [?n]) db) = Inr r"
  proof (rule Cons.IH)
    show "\<forall>j \<ge> Suc k. uuid env j \<notin> node_ids (nodes_update (\<lambda>rs. rs @ [?n]) db)"
      using Cons.prems(1) n(1) by (auto simp: inj_eq [OF assms(1)])
  qed (use Cons.prems in simp)
  then show ?case using title by (simp add: ins result_simps)
qed simp

lemma mainline_taken_snoc:
  "mainline_taken (es @ [e]) x \<longleftrightarrow> mainline_taken es x \<or> mainline_edge e \<and> e_from_node_id e = x"
  by (auto simp: mainline_taken_iff)

lemma fold_insert_edge_runs:
  assumes "distinct (map e_id es)" "e_id ` set es \<inter> e_id ` set (edges db) = {}"
    "\<forall>e \<in> set es. e_project_id e \<in> project_ids db \<and> e_from_node_id e \<in> node_ids db \<and> e_to_node_id e \<in> node_ids db"
    "mainline_unique es" "\<forall>e \<in> set es. mainline_edge e \<longrightarrow> \<not> mainline_taken (edges db) (e_from_node_id e)"
  shows "\<exists>db'. fold_result insert_edge es db = Inr db'"
  using assms
proof (induction es arbitrary: db)
  case (Cons e es)
  let ?db = "edges_update (\<lambda>rs. rs @ [normalize_edge e]) db"
  have ins: "insert_edge e db = Inr ?db" using Cons.prems by (auto simp: insert_edge_Inr)
  have "\<exists>db'. fold_result insert_edge es ?db = Inr db'"
  proof (rule Cons.IH)
    show "e_id ` set es \<inter> e_id ` set (edges ?db) = {}" using Cons.prems(1,2) by auto
    show "mainline_unique es" using Cons.prems(4) by (auto intro: mainline_unique_subset [of es "e # es"])
    have "e_from_node_id e \<noteq> e_from_node_id d" if "d \<in> set es" "mainline_edge d" "mainline_edge e" for d
      using mainline_uniqueD [OF Cons.prems(4), of d e] head_key_neq [OF Cons.prems(1)] that by fastforce
    then show "\<forall>d \<in> set es. mainline_edge d \<longrightarrow> \<not> mainline_taken (edges ?db) (e_from_node_id d)"
      using Cons.prems(5) by (auto simp: mainline_taken_snoc)
  qed (use Cons.prems in simp_all)
  then show ?case by (simp add: ins result_simps)
qed simp

lemma fold_insert_block_runs:
  assumes "distinct (map b_id bs)" "b_id ` set bs \<inter> b_id ` set (content_blocks db) = {}" "\<forall>b \<in> set bs. b_node_id b \<in> node_ids db"
  shows "\<exists>db'. fold_result insert_block bs db = Inr db'"
  using assms
proof (induction bs arbitrary: db)
  case (Cons b bs)
  let ?db = "content_blocks_update (\<lambda>rs. rs @ [b]) db"
  have ins: "insert_block b db = Inr ?db" using Cons.prems by (auto simp: insert_block_Inr)
  have "\<exists>db'. fold_result insert_block bs ?db = Inr db'" by (rule Cons.IH) (use Cons.prems in auto)
  then show ?case by (simp add: ins result_simps)
qed simp

lemma mainline_unique_transferred:
  assumes "map edge_shape es' = map (transferred_edge f) es" "distinct (map e_id es)" "mainline_unique es"
    "inj_on f A" "\<forall>e \<in> set es. e_from_node_id e \<in> A"
  shows "mainline_unique es'"
proof (rule mainline_uniqueI)
  fix x y
  assume xy: "x \<in> set es'" "y \<in> set es'" "mainline_edge x" "mainline_edge y" "e_from_node_id x = e_from_node_id y"
  then obtain i j where ij: "i < length es'" "x = es' ! i" "j < length es'" "y = es' ! j" by (auto simp: in_set_conv_nth)
  have len: "length es' = length es" using assms(1) by (rule map_eq_imp_length_eq)
  have shape: "edge_shape (es' ! l) = transferred_edge f (es ! l)" if "l < length es'" for l
    using arg_cong [OF assms(1), of "\<lambda>l'. l' ! l"] that len by simp
  have from_ij: "f (e_from_node_id (es ! i)) = f (e_from_node_id (es ! j))" "mainline_edge (es ! i)" "mainline_edge (es ! j)"
    using shape [OF ij(1)] shape [OF ij(3)] xy(3-5) ij(2,4)
    by (auto simp: edge_shape_def transferred_edge_def mainline_edge_def)
  then have "e_from_node_id (es ! i) = e_from_node_id (es ! j)"
    using assms(4,5) ij len by (simp add: inj_on_def)
  then have "e_id (es ! i) = e_id (es ! j)" using mainline_uniqueD [OF assms(3)] from_ij ij len by simp
  then have "i = j" using assms(2) ij len by (simp add: distinct_conv_nth nth_map) (metis nth_map)
  then show "e_id x = e_id y" using ij by simp
qed

lemma position_nth: "distinct xs \<Longrightarrow> j < length xs \<Longrightarrow> position (xs ! j) xs = j"
  by (induction xs arbitrary: j) (auto simp: nth_Cons split: nat.splits)

lemma map_enumerate_position:
  assumes "distinct (map key ns)"
  shows "map (\<lambda>(j, n). g j n) (List.enumerate k ns) = map (\<lambda>n. g (k + position (key n) (map key ns)) n) ns"
proof (rule nth_equalityI)
  fix i assume "i < length (map (\<lambda>(j, n). g j n) (List.enumerate k ns))"
  then have i: "i < length ns" by simp
  then have "position (key (ns ! i)) (map key ns) = i" using position_nth [OF assms, of i] by simp
  then show "map (\<lambda>(j, n). g j n) (List.enumerate k ns) ! i = map (\<lambda>n. g (k + position (key n) (map key ns)) n) ns ! i"
    using i by (simp add: nth_enumerate_eq)
qed simp

lemma enumerate_map: "List.enumerate k (map h ns) = map (\<lambda>(j, n). (j, h n)) (List.enumerate k ns)"
  by (induction ns arbitrary: k) simp_all

lemma import_nodes_exported:
  assumes "import_nodes env pid (Suc 0) (map export_node ns) [] db = Inr (m, db')" "distinct (map n_id ns)"
  shows "db' = nodes_update (\<lambda>rs. rs @ map (\<lambda>n. transferred_node env pid (id_map env (map n_id ns) (n_id n)) n) ns) db"
    "m = rev (map (\<lambda>n. (Some (n_id n), id_map env (map n_id ns) (n_id n))) ns)"
proof -
  have id: "dn_id (export_node n) = Assign (Some (n_id n))" for n by (simp add: export_node_def present_def)
  have "map (\<lambda>(j, n). imported_node env pid (uuid env j) n) (List.enumerate (Suc 0) (map export_node ns)) =
      map (\<lambda>n. transferred_node env pid (id_map env (map n_id ns) (n_id n)) n) ns"
    using map_enumerate_position [OF assms(2), of "\<lambda>j n. imported_node env pid (uuid env j) (export_node n)" "Suc 0"]
    by (simp add: enumerate_map case_prod_unfold comp_def id_map_def imported_exported_node)
  moreover have "map (\<lambda>(j, n). (get_default None (dn_id n), uuid env j)) (List.enumerate (Suc 0) (map export_node ns)) =
      map (\<lambda>n. (Some (n_id n), id_map env (map n_id ns) (n_id n))) ns"
    using map_enumerate_position [OF assms(2), of "\<lambda>j n. (Some (n_id n), uuid env j)" "Suc 0"]
    by (simp add: enumerate_map case_prod_unfold comp_def id_map_def id)
  ultimately show "db' = nodes_update (\<lambda>rs. rs @ map (\<lambda>n. transferred_node env pid (id_map env (map n_id ns) (n_id n)) n) ns) db"
    "m = rev (map (\<lambda>n. (Some (n_id n), id_map env (map n_id ns) (n_id n))) ns)"
    using import_nodes_Inr [OF assms(1)] by simp_all
qed

lemma map_of_rev_keyed:
  assumes "distinct (map key ns)"
  shows "map_of (rev (map (\<lambda>n. (Some (key n), F n)) ns)) (Some i) = map_option F (row_get key ns i)"
proof (cases "row_get key ns i")
  case None
  then have "map_of (rev (map (\<lambda>n. (Some (key n), F n)) ns)) (Some i) = None"
    unfolding row_get_None map_of_eq_None_iff by auto
  then show ?thesis using None by simp
next
  case (Some n)
  then have n: "n \<in> set ns" "key n = i" by (auto dest: row_get_Some)
  have "distinct (map fst (rev (map (\<lambda>n. (Some (key n), F n)) ns)))"
    using assms by (simp add: rev_map comp_def distinct_map inj_on_def)
  then have "map_of (rev (map (\<lambda>n. (Some (key n), F n)) ns)) (Some i) = Some (F n)"
    by (rule map_of_is_SomeI) (use n in auto)
  then show ?thesis using Some by simp
qed

lemma position_less: "x \<in> set xs \<Longrightarrow> position x xs < length xs \<and> xs ! position x xs = x"
  by (induction xs) auto

lemma id_map_inj: "inj (uuid env) \<Longrightarrow> inj_on (id_map env ids) (set ids)"
proof (rule inj_onI)
  fix x y
  assume uuid: "inj (uuid env)" and xy: "x \<in> set ids" "y \<in> set ids" and eq: "id_map env ids x = id_map env ids y"
  have "Suc (position x ids) = Suc (position y ids)" using injD [OF uuid eq [unfolded id_map_def]] by simp
  then show "x = y" using position_less [OF xy(1)] position_less [OF xy(2)] by (metis nat.inject)
qed

lemma maps_ids_exported:
  assumes "distinct (map n_id ns)" "inj (uuid env)" "\<forall>k. uuid env k \<noteq> []"
  shows "maps_ids (rev (map (\<lambda>n. (Some (n_id n), id_map env (map n_id ns) (n_id n))) ns)) (id_map env (map n_id ns)) (n_id ` set ns)"
  using assms id_map_inj [of env "map n_id ns"] by (simp add: maps_ids_def map_of_rev_keyed row_get_unique) (simp add: id_map_def)

lemma main_rows:
  assumes "db_ok db"
  shows "distinct (map n_id (ordinary_main_nodes pid db))" "distinct (map e_id (main_edges pid db))" "mainline_unique (main_edges pid db)"
    "\<forall>e \<in> set (main_edges pid db). e_from_node_id e \<in> n_id ` set (ordinary_main_nodes pid db) \<and>
       e_to_node_id e \<in> n_id ` set (ordinary_main_nodes pid db)"
    "\<forall>b \<in> set (main_blocks pid db). b_node_id b \<in> n_id ` set (ordinary_main_nodes pid db)"
proof -
  have "mainline_unique (edges db)" using assms by (simp add: db_ok_def schema_ok_def)
  then show "mainline_unique (main_edges pid db)"
    by (rule mainline_unique_subset [rotated]) (auto simp: main_edges_def Let_def)
qed (use ok_keys(2,3) [OF assms] in \<open>auto simp: ordinary_main_nodes_def main_edges_def main_blocks_def Let_def distinct_map_filter\<close>)

text \<open>The exported document, imported: the new rows, with \<open>f\<close> renaming the exported nodes.\<close>

definition transferred :: "env \<Rightarrow> ident \<Rightarrow> (ident \<Rightarrow> ident) \<Rightarrow> project \<Rightarrow> db \<Rightarrow> db \<Rightarrow> db \<Rightarrow> bool" where
  "transferred env new_id f p db old new \<longleftrightarrow>
     (let ns = ordinary_main_nodes (p_id p) db; ids = n_id ` set ns
      in inj_on f ids \<and> f ` ids \<inter> node_ids old = {} \<and>
       nodes new = nodes old @ map (\<lambda>n. transferred_node env new_id (f (n_id n)) n) ns \<and>
       (\<exists>es. edges new = edges old @ es \<and> map edge_shape es = map (transferred_edge f) (main_edges (p_id p) db)) \<and>
       (\<exists>bs. content_blocks new = content_blocks old @ bs \<and> map block_shape bs = map (transferred_block f) (main_blocks (p_id p) db)) \<and>
       projects new = projects old @ [\<lparr>p_id = new_id, p_name = p_name p, p_description = default [] (p_description p),
         p_goal = default [] (p_goal p), p_root_node_id = (case or_none (p_root_node_id p) of None \<Rightarrow> None | Some r \<Rightarrow>
           if r \<in> ids then Some (f r) else None), p_status = p_status p, p_settings = p_settings p,
         p_created_at = now env, p_updated_at = now env, p_revision = 1\<rparr>])"

lemma import_exported_root:
  assumes "distinct (map n_id ns)"
  shows "imported_root (export_project_row p) (rev (map (\<lambda>n. (Some (n_id n), f (n_id n))) ns)) =
    (case or_none (p_root_node_id p) of None \<Rightarrow> None | Some r \<Rightarrow> if r \<in> n_id ` set ns then Some (f r) else None)"
proof -
  have get: "map_of (rev (map (\<lambda>n. (Some (n_id n), f (n_id n))) ns)) (Some r) = (if r \<in> n_id ` set ns then Some (f r) else None)" for r
    using map_of_rev_keyed [OF assms, of "\<lambda>n. f (n_id n)" r]
    by (cases "row_get n_id ns r") (auto simp: row_get_None dest: row_get_Some)
  show ?thesis
    by (cases "p_root_node_id p") (auto simp: imported_root_def export_project_row_def Let_def truthy_def get)
qed

lemma disjoint_range: "A \<subseteq> range u \<Longrightarrow> \<forall>j. u j \<notin> B \<Longrightarrow> A \<inter> B = {}"
  by blast

lemma exported_edges_run:
  assumes "maps_ids m f A" "\<forall>e \<in> set es. e_from_node_id e \<in> A \<and> e_to_node_id e \<in> A" "distinct (map e_id es)" "mainline_unique es"
    "inj (uuid env)" "\<forall>j. uuid env j \<notin> e_id ` set (edges d)" "pid \<in> project_ids d" "snd ` set m \<subseteq> node_ids d"
    "\<forall>e \<in> set (edges d). e_from_node_id e \<notin> snd ` set m"
  shows "\<exists>d'. fold_result insert_edge (import_edges env pid m k [] (map export_edge es)) d = Inr d'"
proof (rule fold_insert_edge_runs)
  let ?es = "import_edges env pid m k [] (map export_edge es)"
  note shape = import_edges_exported [OF assms(1,2) _ assms(3,4), of "[]" env pid k, simplified]
  show "distinct (map e_id ?es)" using shape inj_on_subset [OF assms(5)] by (simp add: distinct_map)
  have "e_id ` set ?es \<subseteq> range (uuid env)" using shape by (metis image_subset_iff list.set_map rangeI)
  then show "e_id ` set ?es \<inter> e_id ` set (edges d) = {}" using assms(6) by (rule disjoint_range)
  show "mainline_unique ?es"
    using mainline_unique_transferred [OF conjunct1 [OF shape] assms(3,4), of A] assms(1,2) by (simp add: maps_ids_def)
  show "\<forall>e \<in> set ?es. e_project_id e \<in> project_ids d \<and> e_from_node_id e \<in> node_ids d \<and> e_to_node_id e \<in> node_ids d"
    using import_edges_refs [of _ env pid m k "[]" "map export_edge es"] assms(7,8) by blast
  show "\<forall>e \<in> set ?es. mainline_edge e \<longrightarrow> \<not> mainline_taken (edges d) (e_from_node_id e)"
    using import_edges_refs [of _ env pid m k "[]" "map export_edge es"] assms(9) unfolding mainline_taken_iff by metis
qed

lemma exported_blocks_run:
  assumes "maps_ids m f A" "\<forall>b \<in> set bs. b_node_id b \<in> A" "inj (uuid env)" "\<forall>j. uuid env j \<notin> b_id ` set (content_blocks d)"
    "f ` A \<subseteq> node_ids d"
  shows "\<exists>d'. fold_result insert_block (import_blocks env m k (map export_block bs)) d = Inr d'"
proof (rule fold_insert_block_runs)
  let ?bs = "import_blocks env m k (map export_block bs)"
  note shape = import_blocks_exported [OF assms(1,2), of env k]
  show "distinct (map b_id ?bs)" using shape inj_on_subset [OF assms(3)] by (simp add: distinct_map)
  have "b_id ` set ?bs \<subseteq> range (uuid env)" using shape by (metis image_subset_iff list.set_map rangeI)
  then show "b_id ` set ?bs \<inter> b_id ` set (content_blocks d) = {}" using assms(4) by (rule disjoint_range)
  have "map fst (map block_shape ?bs) = map fst (map (transferred_block f) bs)" using shape by simp
  then have "map b_node_id ?bs = map (\<lambda>b. f (b_node_id b)) bs" by (simp add: comp_def block_shape_def transferred_block_def)
  then have "b_node_id ` set ?bs = (\<lambda>b. f (b_node_id b)) ` set bs" by (metis list.set_map)
  then show "\<forall>b \<in> set ?bs. b_node_id b \<in> node_ids d" using assms(2,5) by blast
qed

lemma export_documents:
  assumes "export_project_json env pid db = Inr doc"
  obtains p where "get_project_row db pid = Some p" "p_id p = pid" "dc_project doc = export_project_row p"
    "dc_nodes doc = map export_node (ordinary_main_nodes pid db)" "dc_edges doc = map export_edge (main_edges pid db)"
    "dc_content_blocks doc = map export_block (main_blocks pid db)"
  using assms by (auto simp: export_project_json_def get_project_row_def dest: row_get_Some split: option.splits)

lemma exported_name: "get_default d (dp_name (export_project_row p)) = Some (p_name p)"
  by (simp add: export_project_row_def present_def)

lemma export_import_runs:
  assumes "db_ok db" "export_project_json env0 pid db = Inr doc" "fresh_ids env old" "db_ok old"
  shows "\<exists>out new. import_project_json_committed env doc old = Inr (out, new)"
proof -
  let ?ns = "ordinary_main_nodes pid db" and ?es = "main_edges pid db" and ?bs = "main_blocks pid db" and ?pid = "uuid env 0"
  define f where "f = id_map env (map n_id ?ns)"
  note rows = main_rows [OF assms(1), of pid]
  from assms(2) obtain p where doc: "dc_project doc = export_project_row p" "dc_nodes doc = map export_node ?ns"
    "dc_edges doc = map export_edge ?es" "dc_content_blocks doc = map export_block ?bs" by (rule export_documents)
  have uuid: "inj (uuid env)" "\<forall>k. uuid env k \<noteq> []" and
    fresh: "\<And>k. uuid env k \<notin> project_ids old" "\<And>k. uuid env k \<notin> node_ids old" "\<forall>k. uuid env k \<notin> e_id ` set (edges old)"
      "\<forall>k. uuid env k \<notin> b_id ` set (content_blocks old)" "\<And>k. uuid env k \<notin> l_id ` set (action_logs old)"
    using assms(3) by (simp_all add: fresh_ids_def)
  define d1 where "d1 = projects_update (\<lambda>rs. rs @ [imported_project env (export_project_row p) (p_name p)]) old"
  have 1: "insert_project (imported_project env (export_project_row p) (p_name p)) old = Inr d1"
    using fresh(1) by (simp add: d1_def insert_project_Inr imported_project_def)
  have "\<exists>r. import_nodes env ?pid (Suc 0) (map export_node ?ns) [] d1 = Inr r"
    using uuid(1) fresh(2) by (intro import_nodes_runs) (simp_all add: d1_def imported_project_def)
  then obtain m d2 where 2: "import_nodes env ?pid (Suc 0) (map export_node ?ns) [] d1 = Inr (m, d2)" by auto
  note nodes = import_nodes_exported [OF 2 rows(1), folded f_def]
  have maps: "maps_ids m f (n_id ` set ?ns)" using maps_ids_exported [OF rows(1) uuid] by (simp add: nodes f_def)
  have snd_m: "snd ` set m = f ` n_id ` set ?ns" by (simp add: nodes image_image)
  define d3 where "d3 = set_root ?pid (imported_root (export_project_row p) m) d2"
  have "n_id (transferred_node env ?pid i n) = i" for i n by (simp add: transferred_node_def)
  then have d3: "node_ids d3 = node_ids old \<union> f ` n_id ` set ?ns" "edges d3 = edges old" "content_blocks d3 = content_blocks old"
    "?pid \<in> project_ids d3" "action_logs d3 = action_logs old"
    by (cases "imported_root (export_project_row p) m";
        simp add: d3_def nodes(1) d1_def set_root_def row_update_snoc imported_project_def image_Un image_image)+
  have "e_from_node_id e \<in> node_ids old" if "e \<in> set (edges old)" for e
    using ok_schema [OF assms(4)] that by (simp add: schema_defs edge_refs_ok_def)
  moreover have "snd ` set m \<inter> node_ids old = {}"
    using fresh(2) by (intro disjoint_range [of _ "uuid env"]) (auto simp: snd_m f_def id_map_def)
  ultimately have "\<forall>e \<in> set (edges d3). e_from_node_id e \<notin> snd ` set m" unfolding d3(2) by blast
  then obtain d4 where 3: "fold_result insert_edge (import_edges env ?pid m (Suc (length ?ns)) [] (map export_edge ?es)) d3 = Inr d4"
    using exported_edges_run [OF maps rows(4,2,3) uuid(1), of d3 ?pid "Suc (length ?ns)"] fresh(3) by (auto simp: d3 snd_m)
  note frame = fold_insert_edge_list [OF 3]
  let ?k = "Suc (length ?ns + length (import_edges env ?pid m (Suc (length ?ns)) [] (map export_edge ?es)))"
  obtain d5 where 4: "fold_result insert_block (import_blocks env m ?k (map export_block ?bs)) d4 = Inr d5"
    using exported_blocks_run [OF maps rows(5) uuid(1), of d4 ?k] fresh(4) by (auto simp: frame d3)
  have "\<exists>d6. log_action env (uuid env j) ?pid None ''human'' ''import_project'' ms d5 = Inr d6" for j ms
    using fresh(5) by (simp add: log_action_def insert_log_Inr fold_insert_block_list [OF 4] frame d3)
  then show ?thesis using 1 2 3 4
    by (simp add: import_project_json_committed_def Let_def doc exported_name result_simps d3_def)
qed

lemma export_import_shape:
  assumes "db_ok db" "get_project_row db pid = Some p" "export_project_json env0 pid db = Inr doc" "fresh_ids env old"
    and run: "import_project_json_committed env doc old = Inr (out, new)"
  shows "io_id out = uuid env 0 \<and> io_name out = p_name p \<and>
    transferred env (uuid env 0) (id_map env (map n_id (ordinary_main_nodes pid db))) p db old new"
proof -
  let ?ns = "ordinary_main_nodes pid db" and ?es = "main_edges pid db" and ?bs = "main_blocks pid db" and ?pid = "uuid env 0"
  define f where "f = id_map env (map n_id ?ns)"
  note rows = main_rows [OF assms(1), of pid]
  from assms(3) obtain q where "get_project_row db pid = Some q" "p_id q = pid" "dc_project doc = export_project_row q"
    and doc: "dc_nodes doc = map export_node ?ns" "dc_edges doc = map export_edge ?es" "dc_content_blocks doc = map export_block ?bs"
    by (rule export_documents)
  then have p: "p_id p = pid" "dc_project doc = export_project_row p" using assms(2) by simp_all
  have uuid: "inj (uuid env)" "\<forall>k. uuid env k \<noteq> []" and fresh: "?pid \<notin> project_ids old" "\<forall>k. uuid env k \<notin> node_ids old"
    using assms(4) by (simp_all add: fresh_ids_def)
  let ?k = "Suc (length ?ns)"
  from run obtain name d1 m d2 d3 d4 i where name: "get_default (Some default_project_name) (dp_name (dc_project doc)) = Some name" and
    1: "insert_project (imported_project env (dc_project doc) name) old = Inr d1" and
    2: "import_nodes env ?pid (Suc 0) (dc_nodes doc) [] d1 = Inr (m, d2)" and
    3: "fold_result insert_edge (import_edges env ?pid m (Suc (length (dc_nodes doc))) [] (dc_edges doc))
       (set_root ?pid (imported_root (dc_project doc) m) d2) = Inr d3" and
    4: "fold_result insert_block (import_blocks env m (Suc (length (dc_nodes doc) +
       length (import_edges env ?pid m (Suc (length (dc_nodes doc))) [] (dc_edges doc)))) (dc_content_blocks doc)) d3 = Inr d4" and
    5: "log_action env i ?pid None ''human'' ''import_project''
       [(''original_name'', jopt (get_default None (dp_name (dc_project doc))))] d4 = Inr new" and
    out: "out = \<lparr>io_id = ?pid, io_name = name, io_root_node_id = imported_root (dc_project doc) m\<rparr>"
    by (rule import_steps)
  have name': "name = p_name p" using name by (simp add: p exported_name)
  note nodes = import_nodes_exported [OF 2 [unfolded doc] rows(1), folded f_def]
  have maps: "maps_ids m f (n_id ` set ?ns)" using maps_ids_exported [OF rows(1) uuid] by (simp add: nodes f_def)
  note es = import_edges_exported [OF maps rows(4) _ rows(2,3), of "[]" env ?pid ?k, simplified]
  note bs = import_blocks_exported [OF maps rows(5)]
  have disjoint: "f ` n_id ` set ?ns \<inter> node_ids old = {}"
    using fresh(2) by (intro disjoint_range [of _ "uuid env"]) (auto simp: f_def id_map_def)
  have d1: "nodes d1 = nodes old" "edges d1 = edges old" "content_blocks d1 = content_blocks old" using 1 by (simp_all add: insert_project_Inr)
  have "nodes new = nodes old @ map (\<lambda>n. transferred_node env ?pid (f (n_id n)) n) ?ns"
    "edges new = edges old @ import_edges env ?pid m ?k [] (map export_edge ?es)"
    "\<exists>j. content_blocks new = content_blocks old @ import_blocks env m j (map export_block ?bs)"
    using log_action_frame(2-4) [OF 5] fold_insert_block_list [OF 4] fold_insert_edge_list [OF 3]
    by (auto simp: doc nodes(1) import_edges_normal d1)
  moreover have "imported_root (dc_project doc) m = (case or_none (p_root_node_id p) of None \<Rightarrow> None | Some r \<Rightarrow>
      if r \<in> n_id ` set ?ns then Some (f r) else None)"
    by (simp add: p nodes(2) import_exported_root [OF rows(1)])
  ultimately show ?thesis
    using import_projects [OF run] es bs maps disjoint unfolding transferred_def Let_def p(1) f_def [symmetric]
    by (auto simp: out name' p maps_ids_def imported_project_def export_project_row_def present_def column_value_def)
qed

section \<open>Properties\<close>

text \<open>
  C16: Exporting a project and importing the document, into the same database or another, succeeds whenever
  a project seat is free, and rebuilds the project: its main nodes under fresh identifiers with their texts
  and states, its edges between them with their types, weights, notes and mainline flags, its blocks, and its root.
\<close>

theorem export_import_roundtrip:
  assumes "db_ok db" "get_project_row db pid = Some p" "export_project_json env0 pid db = Inr doc" "fresh_ids env old" "db_ok old"
    "p_status p = ''active'' \<longrightarrow> require_active_project_seat env 402 old = Inr ()"
  shows "\<exists>out new f. import_project_json env doc old = Inr (out, new) \<and> transferred env (io_id out) f p db old new"
proof -
  from export_import_runs [OF assms(1,3,4,5)] obtain out new where run: "import_project_json_committed env doc old = Inr (out, new)"
    by blast
  have "dp_status (dc_project doc) = Assign (Some (p_status p))"
    using assms(2,3) by (auto simp: export_project_json_def export_project_row_def present_def)
  then have "import_project_json env doc old = Inr (out, new)"
    using assms(6) run by (simp add: import_project_json_def result_simps)
  then show ?thesis using export_import_shape [OF assms(1,2,3,4) run] by auto
qed

lemma sample_fresh: "fresh_ids sample_env sample_db"
  unfolding fresh_ids_def
proof (intro conjI allI)
  show "inj (uuid sample_env)" by (auto simp: inj_def sample_simps)
qed (auto simp: sample_simps)

theorem export_import_roundtrip_witness:
  "\<exists>doc out new f. export_project_json sample_env ''p'' sample_db = Inr doc \<and>
     import_project_json sample_env doc sample_db = Inr (out, new) \<and>
     transferred sample_env (io_id out) f sample_project sample_db sample_db new"
proof -
  have row: "get_project_row sample_db ''p'' = Some sample_project"
    by (simp add: get_project_row_def row_get_def sample_simps)
  then obtain doc where doc: "export_project_json sample_env ''p'' sample_db = Inr doc" by (simp add: export_project_json_def)
  have "require_active_project_seat sample_env 402 sample_db = Inr ()"
    by (simp add: require_active_project_seat_def active_projects_def sample_simps)
  then show ?thesis using export_import_roundtrip [OF sample_ok row doc sample_fresh sample_ok] doc by blast
qed

text \<open>
  An import that names its status, or leaves it out, never lets the number of active projects pass the
  limit of the entitlement.
\<close>

theorem import_respects_seats:
  assumes "import_project_json env data db = Inr (out, db')" "dp_status (dc_project data) \<noteq> Assign None"
    "desktop_mode env" "max_active_projects env = Some limit" "int (active_projects db) \<le> limit"
  shows "int (active_projects db') \<le> limit"
  by (rule import_seats [OF assms])

definition empty_document :: "string field \<Rightarrow> document" where
  "empty_document status = \<lparr>dc_exported_at = 0, dc_project = \<lparr>dp_id = Unset, dp_name = Unset, dp_description = Unset, dp_goal = Unset,
     dp_root_node_id = Unset, dp_status = status, dp_settings = Unset, dp_created_at = Unset, dp_updated_at = Unset\<rparr>,
     dc_nodes = [], dc_edges = [], dc_content_blocks = [], dc_action_logs = []\<rparr>"

theorem import_respects_seats_witness:
  "\<exists>out db'. import_project_json sample_env (empty_document Unset) sample_db = Inr (out, db') \<and> int (active_projects db') \<le> 3"
proof -
  have "\<not> isl (import_project_json sample_env (empty_document Unset) sample_db)" by code_simp
  then obtain out db' where run: "import_project_json sample_env (empty_document Unset) sample_db = Inr (out, db')"
    by (cases "import_project_json sample_env (empty_document Unset) sample_db") auto
  have "int (active_projects db') \<le> 3"
    by (rule import_respects_seats [OF run]) (simp_all add: empty_document_def sample_simps active_projects_def)
  then show ?thesis using run by blast
qed

text \<open>
  An explicit null status skips the seat check, and the column's default then makes the project
  active: the limit is passed.
\<close>

theorem import_null_status_passes_limit:
  "case import_project_json (sample_env\<lparr>max_active_projects := Some 1\<rparr>) (empty_document (Assign None)) sample_db of
     Inl _ \<Rightarrow> False | Inr (out, db') \<Rightarrow> active_projects sample_db = 1 \<and> active_projects db' = 2"
  by code_simp

end
