(* ===== verification/Agent_Scope.thy ===== *)
theory Agent_Scope
  imports Subtree_Owned
begin

text \<open>
  What a grant of the Agent Port may touch (\<open>validated_scoped_graph\<close>, \<open>allowed_nodes\<close> and
  \<open>validate_scope\<close> of \<open>agent_port/service.py\<close>). The walk is a sibling of the one that guards subtree
  deletion, over the same \<open>closure\<close> state, with a bound on the size of a scope. A scope it accepts is
  the set of nodes reachable from the grant's root, all in the project and branch of the root, each
  with its one parent inside. In an error, the model keeps the code of the detail.
\<close>

section \<open>The walk\<close>

definition scope_edge_bad :: "node \<Rightarrow> db \<Rightarrow> closure \<Rightarrow> edge \<Rightarrow> bool" where
  "scope_edge_bad base db cl e \<longleftrightarrow>
     e_id e \<in> set (cl_edges cl) \<or> e_to_node_id e \<in> set (cl_incoming cl) \<or> e_to_node_id e \<in> set (cl_subtree cl) \<or>
     e_project_id e \<noteq> n_project_id base \<or>
     (case get_node_row db (e_to_node_id e) of
        None \<Rightarrow> True
      | Some target \<Rightarrow> n_project_id target \<noteq> n_project_id base \<or> n_branch_id target \<noteq> n_branch_id base)"

definition scope_edge :: "node \<Rightarrow> db \<Rightarrow> edge \<Rightarrow> closure \<Rightarrow> closure result" where
  "scope_edge base db e cl =
     (if scope_edge_bad base db cl e then Inl (HTTPException 409 ''MALFORMED_SCOPE'')
      else Inr (cl\<lparr>cl_edges := cl_edges cl @ [e_id e], cl_incoming := cl_incoming cl @ [e_to_node_id e],
                  cl_parents := (e_to_node_id e, e_from_node_id e) # cl_parents cl\<rparr>))"

text \<open>One turn of the \<open>while frontier\<close> loop, without the recursion.\<close>

definition scope_level :: "nat \<Rightarrow> node \<Rightarrow> db \<Rightarrow> ident list \<Rightarrow> closure \<Rightarrow> closure result" where
  "scope_level limit base db frontier cl =
     (if frontier_bad base db frontier then Inl (HTTPException 409 ''MALFORMED_SCOPE'')
      else and_then (fold_result (scope_edge base db) (frontier_edges db frontier) cl) (\<lambda>cl.
        let cl = cl\<lparr>cl_subtree := cl_subtree cl @ frontier_targets db frontier\<rparr>
        in if length (cl_subtree cl) > limit then Inl (HTTPException 413 ''SCOPE_TOO_LARGE'') else Inr cl))"

lemma fold_scope_edge:
  assumes "fold_result (scope_edge base db) es cl = Inr cl'"
  shows "cl_subtree cl' = cl_subtree cl" "\<And>e. e \<in> set es \<Longrightarrow> e_to_node_id e \<notin> set (cl_subtree cl)"
    "\<And>e. e \<in> set es \<Longrightarrow> same_place base db (e_to_node_id e)"
  using assms
  by (induction es arbitrary: cl;
      fastforce simp: result_simps scope_edge_def scope_edge_bad_def same_place_def split: if_splits option.splits)+

lemma scope_level_grows:
  assumes "scope_level limit base db frontier cl = Inr cl'"
  shows "cl_subtree cl' = cl_subtree cl @ frontier_targets db frontier"
    "set (frontier_targets db frontier) \<subseteq> node_ids db" "set (frontier_targets db frontier) \<inter> set (cl_subtree cl) = {}"
    "\<And>x. x \<in> set (frontier_targets db frontier) \<Longrightarrow> same_place base db x" "length (cl_subtree cl') \<le> limit"
proof -
  from assms obtain cl1 where f: "fold_result (scope_edge base db) (frontier_edges db frontier) cl = Inr cl1"
    and cl': "cl' = cl1\<lparr>cl_subtree := cl_subtree cl1 @ frontier_targets db frontier\<rparr>" and limit: "length (cl_subtree cl') \<le> limit"
    by (auto simp: scope_level_def Let_def result_simps)
  show "cl_subtree cl' = cl_subtree cl @ frontier_targets db frontier" "length (cl_subtree cl') \<le> limit"
    using fold_scope_edge(1) [OF f] limit by (simp_all add: cl')
  show "set (frontier_targets db frontier) \<inter> set (cl_subtree cl) = {}"
    using fold_scope_edge(2) [OF f] by (auto simp: set_frontier_targets)
  show place: "same_place base db x" if "x \<in> set (frontier_targets db frontier)" for x
    using that fold_scope_edge(3) [OF f] by (auto simp: set_frontier_targets)
  show "set (frontier_targets db frontier) \<subseteq> node_ids db"
    using place by (auto simp: same_place_def get_node_row_def dest: row_get_Some)
qed

function scope_walk :: "nat \<Rightarrow> node \<Rightarrow> db \<Rightarrow> ident list \<Rightarrow> closure \<Rightarrow> closure result" where
  "scope_walk limit base db frontier cl =
     (if frontier = [] then Inr cl
      else case scope_level limit base db frontier cl of
        Inl e \<Rightarrow> Inl e
      | Inr cl' \<Rightarrow> scope_walk limit base db (frontier_targets db frontier) cl')"
  by pat_completeness auto

termination
proof (relation "measures [\<lambda>(limit, base, db, frontier, cl). Suc limit - length (cl_subtree cl),
    \<lambda>(limit, base, db, frontier, cl). length frontier]")
  fix limit base db frontier cl cl'
  assume "frontier \<noteq> []" and level: "scope_level limit base db frontier cl = Inr cl'"
  note g = scope_level_grows [OF level]
  show "((limit, base, db, frontier_targets db frontier, cl'), limit, base, db, frontier, cl) \<in>
      measures [\<lambda>(limit, base, db, frontier, cl). Suc limit - length (cl_subtree cl),
        \<lambda>(limit, base, db, frontier, cl). length frontier]"
    using \<open>frontier \<noteq> []\<close> g(1,5) by (cases "frontier_targets db frontier") (simp_all, arith)
qed simp

declare scope_walk.simps [simp del]

section \<open>The second look, and what a grant may touch\<close>

definition check_scope_owner :: "bool \<Rightarrow> node \<Rightarrow> closure \<Rightarrow> edge list \<Rightarrow> ident \<Rightarrow> unit \<Rightarrow> unit result" where
  "check_scope_owner allow_external_root_parent base cl inbound target_id u =
     (let es = filter (\<lambda>e. e_to_node_id e = target_id) inbound
      in if target_id = n_id base
         then (if \<not> allow_external_root_parent \<and> es \<noteq> [] \<or> length es > 1 then Inl (HTTPException 409 ''MALFORMED_SCOPE'') else Inr ())
         else (case es of
             [e] \<Rightarrow> if Some (e_from_node_id e) \<noteq> map_of (cl_parents cl) target_id
                    then Inl (HTTPException 409 ''MALFORMED_SCOPE'') else Inr ()
           | _ \<Rightarrow> Inl (HTTPException 409 ''MALFORMED_SCOPE'')))"

definition scope_branch_ok :: "node \<Rightarrow> db \<Rightarrow> bool" where
  "scope_branch_ok base db \<longleftrightarrow>
     (case n_branch_id base of
        None \<Rightarrow> True
      | Some b \<Rightarrow> (case get_branch_row db b of None \<Rightarrow> False | Some branch \<Rightarrow> br_project_id branch = n_project_id base))"

definition validated_scoped_graph :: "nat \<Rightarrow> bool \<Rightarrow> ident \<Rightarrow> ident \<Rightarrow> db \<Rightarrow> ident list result" where
  "validated_scoped_graph limit allow_external_root_parent project_id root_id db =
     (case get_node_row db root_id of
        None \<Rightarrow> Inl (HTTPException 409 ''MALFORMED_SCOPE'')
      | Some base \<Rightarrow>
          if n_project_id base \<noteq> project_id \<or> \<not> scope_branch_ok base db then Inl (HTTPException 409 ''MALFORMED_SCOPE'')
          else and_then (scope_walk limit base db [root_id]
                 \<lparr>cl_subtree = [root_id], cl_incoming = [], cl_edges = [], cl_parents = []\<rparr>) (\<lambda>cl.
            let inbound = filter (\<lambda>e. is_child_edge e \<and> e_to_node_id e \<in> set (cl_subtree cl)) (edges db)
            in if list_ex (inbound_edge_bad base db) inbound then Inl (HTTPException 409 ''MALFORMED_SCOPE'')
               else and_then (fold_result (check_scope_owner allow_external_root_parent base cl inbound) (cl_subtree cl) ()) (\<lambda>_.
                    Inr (cl_subtree cl))))"

definition allowed_nodes :: "agent_grant \<Rightarrow> db \<Rightarrow> ident list result" where
  "allowed_nodes grant db =
     (if truthy (g_node_scope_id grant)
      then and_then (validated_scoped_graph 5000 True (g_project_id grant) (the (g_node_scope_id grant)) db) (\<lambda>_.
             Inr [the (g_node_scope_id grant)])
      else if truthy (g_branch_root_id grant)
      then validated_scoped_graph 5000 False (g_project_id grant) (the (g_branch_root_id grant)) db
      else
        let ids = take 5001 (map n_id (filter (\<lambda>n. n_project_id n = g_project_id grant \<and> n_branch_id n = None) (nodes db)))
        in if length ids > 5000 then Inl (HTTPException 413 ''SCOPE_TOO_LARGE'') else Inr ids)"

definition validate_scope :: "agent_grant \<Rightarrow> ident option list \<Rightarrow> db \<Rightarrow> unit result" where
  "validate_scope grant ids db =
     and_then (allowed_nodes grant db) (\<lambda>allowed.
       if list_ex (\<lambda>x. truthy x \<and> the x \<notin> set allowed) ids then Inl (HTTPException 403 ''SCOPE_DENIED'') else Inr ())"

section \<open>An accepted scope\<close>

text \<open>What the walk has established when it is about to look at \<open>frontier\<close>.\<close>

definition scope_state :: "nat \<Rightarrow> node \<Rightarrow> db \<Rightarrow> ident list \<Rightarrow> closure \<Rightarrow> bool" where
  "scope_state limit base db frontier cl \<longleftrightarrow>
     n_id base \<in> set (cl_subtree cl) \<and> set frontier \<subseteq> set (cl_subtree cl) \<and>
     (\<forall>x \<in> set (cl_subtree cl). (n_id base, x) \<in> (child_rel db)\<^sup>* \<and> same_place base db x) \<and>
     (\<forall>x \<in> set (cl_subtree cl) - set frontier. child_rel db `` {x} \<subseteq> set (cl_subtree cl) - {n_id base}) \<and>
     length (cl_subtree cl) \<le> limit \<and> distinct (cl_subtree cl)"

lemma scope_level_state:
  assumes "scope_level limit base db frontier cl = Inr cl'" "scope_state limit base db frontier cl"
  shows "scope_state limit base db (frontier_targets db frontier) cl'"
proof -
  note g = scope_level_grows [OF assms(1)]
  have st: "n_id base \<in> set (cl_subtree cl)" "set frontier \<subseteq> set (cl_subtree cl)" "distinct (cl_subtree cl)"
    and reach: "\<And>x. x \<in> set (cl_subtree cl) \<Longrightarrow> (n_id base, x) \<in> (child_rel db)\<^sup>* \<and> same_place base db x"
    and closed: "\<And>x. x \<in> set (cl_subtree cl) - set frontier \<Longrightarrow> child_rel db `` {x} \<subseteq> set (cl_subtree cl) - {n_id base}"
    using assms(2) unfolding scope_state_def by blast+
  have "(n_id base, x) \<in> (child_rel db)\<^sup>*" if "x \<in> set (frontier_targets db frontier)" for x
    using frontier_targets_child [OF that] st(2) reach by (blast intro: rtrancl_into_rtrancl)
  moreover have "child_rel db `` {x} \<subseteq> set (cl_subtree cl') - {n_id base}"
    if "x \<in> set (cl_subtree cl') - set (frontier_targets db frontier)" for x
  proof (cases "x \<in> set frontier")
    case True
    then have "child_rel db `` {x} \<subseteq> set (frontier_targets db frontier)" using frontier_edges_child by blast
    then show ?thesis using g(3) st(1) by (auto simp: g(1))
  next
    case False
    then show ?thesis using that closed [of x] by (auto simp: g(1))
  qed
  moreover have "distinct (cl_subtree cl')" using st(3) g(3) by (auto simp: g(1) frontier_targets_def)
  ultimately show ?thesis unfolding scope_state_def using st(1) reach g(4,5) by (auto simp: g(1))
qed

lemma scope_walk_state:
  "scope_walk limit base db frontier cl = Inr cl' \<Longrightarrow> scope_state limit base db frontier cl \<Longrightarrow> scope_state limit base db [] cl'"
proof (induction limit base db frontier cl rule: scope_walk.induct)
  case (1 limit base db frontier cl)
  show ?case
  proof (cases "frontier = []")
    case True
    then show ?thesis using 1(2,3) by (simp add: scope_walk.simps [of _ _ _ "[]"])
  next
    case False
    with 1(2) obtain cl1 where level: "scope_level limit base db frontier cl = Inr cl1"
      and rest: "scope_walk limit base db (frontier_targets db frontier) cl1 = Inr cl'"
      by (auto simp: scope_walk.simps [of _ _ _ frontier] case_sum_eq_Inr)
    show ?thesis by (rule 1(1) [OF False level rest scope_level_state [OF level 1(3)]])
  qed
qed

text \<open>
  \<open>tree_scope\<close>: the nodes \<open>ids\<close> below \<open>base\<close> are a tree of one project and branch that nothing outside
  enters, except one edge into \<open>base\<close> where that is allowed.
\<close>

definition tree_scope :: "bool \<Rightarrow> node \<Rightarrow> db \<Rightarrow> ident set \<Rightarrow> bool" where
  "tree_scope external base db ids \<longleftrightarrow>
     ids = reach db (n_id base) \<and>
     (\<forall>x \<in> ids. same_place base db x \<and> (x, n_id base) \<notin> child_rel db) \<and>
     (\<forall>x \<in> ids. x \<noteq> n_id base \<longrightarrow> (\<exists>e. parent_edges db x = [e] \<and> e_project_id e = n_project_id base \<and> e_from_node_id e \<in> ids)) \<and>
     length (parent_edges db (n_id base)) \<le> (if external then 1 else 0)"

lemma fold_check_scope_owner:
  "fold_result (check_scope_owner ext base cl inbound) xs () = Inr u \<longleftrightarrow>
     (\<forall>x \<in> set xs. check_scope_owner ext base cl inbound x () = Inr ())"
  by (induction xs) (auto simp: result_simps and_then_def split: sum.splits)

lemma check_scope_owner_iff:
  assumes "x \<in> S"
  shows "check_scope_owner ext base cl (filter (\<lambda>e. is_child_edge e \<and> e_to_node_id e \<in> S) (edges db)) x () = Inr () \<longleftrightarrow>
    (if x = n_id base then length (parent_edges db x) \<le> (if ext then 1 else 0)
     else \<exists>e. parent_edges db x = [e] \<and> map_of (cl_parents cl) x = Some (e_from_node_id e))"
  unfolding check_scope_owner_def inbound_filter [OF assms] parent_edges_def [symmetric] Let_def
  by (auto split: list.splits)

lemma scoped_graph_steps:
  assumes "validated_scoped_graph limit ext pid root_id db = Inr ids"
  obtains base cl where "get_node_row db root_id = Some base" "n_project_id base = pid"
    "scope_walk limit base db [root_id] \<lparr>cl_subtree = [root_id], cl_incoming = [], cl_edges = [], cl_parents = []\<rparr> = Inr cl"
    "ids = cl_subtree cl" "\<forall>e \<in> set (edges db). is_child_edge e \<and> e_to_node_id e \<in> set ids \<longrightarrow> \<not> inbound_edge_bad base db e"
    "\<forall>x \<in> set ids. check_scope_owner ext base cl (filter (\<lambda>e. is_child_edge e \<and> e_to_node_id e \<in> set ids) (edges db)) x () = Inr ()"
  using assms
  by (auto simp: validated_scoped_graph_def Let_def result_simps fold_check_scope_owner list_ex_iff split: option.splits if_splits)

lemma scoped_graph_tree:
  assumes "validated_scoped_graph limit ext pid root_id db = Inr ids" "1 \<le> limit"
  shows "\<exists>base. get_node_row db root_id = Some base \<and> n_project_id base = pid \<and> tree_scope ext base db (set ids) \<and>
    distinct ids \<and> length ids \<le> limit"
proof -
  from assms(1) obtain base cl where base: "get_node_row db root_id = Some base" "n_project_id base = pid" and
    walk: "scope_walk limit base db [root_id] \<lparr>cl_subtree = [root_id], cl_incoming = [], cl_edges = [], cl_parents = []\<rparr> = Inr cl" and
    ids: "ids = cl_subtree cl" and
    inbound: "\<forall>e \<in> set (edges db). is_child_edge e \<and> e_to_node_id e \<in> set ids \<longrightarrow> \<not> inbound_edge_bad base db e" and
    own: "\<forall>x \<in> set ids. check_scope_owner ext base cl
      (filter (\<lambda>e. is_child_edge e \<and> e_to_node_id e \<in> set ids) (edges db)) x () = Inr ()"
    by (rule scoped_graph_steps)
  have id: "n_id base = root_id" using base(1) by (rule get_node_row_id)
  have "scope_state limit base db [] cl"
    by (rule scope_walk_state [OF walk]) (use base assms(2) in \<open>auto simp: scope_state_def same_place_def id\<close>)
  then have st: "root_id \<in> set ids" "\<And>x. x \<in> set ids \<Longrightarrow> (root_id, x) \<in> (child_rel db)\<^sup>* \<and> same_place base db x"
    and closed: "\<And>x. x \<in> set ids \<Longrightarrow> child_rel db `` {x} \<subseteq> set ids - {root_id}"
    and size: "length ids \<le> limit" "distinct ids"
    by (auto simp: scope_state_def ids id)
  have "x \<in> set ids" if "(root_id, x) \<in> (child_rel db)\<^sup>*" for x
    using that by induction (use st(1) closed in auto)
  then have R: "set ids = reach db root_id" using st(2) by blast
  have owner: "\<exists>e. parent_edges db x = [e] \<and> e_project_id e = n_project_id base \<and> e_from_node_id e \<in> set ids"
    if x: "x \<in> set ids" "x \<noteq> root_id" for x
  proof -
    from own x obtain e where e: "parent_edges db x = [e]"
      using check_scope_owner_iff [OF x(1), of ext base cl db] by (auto simp: id)
    then have "e \<in> set (parent_edges db x)" by simp
    then have e': "e \<in> set (edges db)" "is_child_edge e" "e_to_node_id e = x" by (auto simp: parent_edges_def)
    from st(2) [OF x(1)] x(2) obtain y where y: "(root_id, y) \<in> (child_rel db)\<^sup>*" "(y, x) \<in> child_rel db" by (metis rtranclE)
    then obtain d where "d \<in> set (parent_edges db x)" "e_from_node_id d = y" by (auto simp: child_rel_iff parent_edges_def)
    then have "e_from_node_id e = y" using e by simp
    then show ?thesis using e e' y(1) R inbound x(1) by (auto simp: inbound_edge_good)
  qed
  moreover have "length (parent_edges db root_id) \<le> (if ext then 1 else 0)"
    using own st(1) check_scope_owner_iff [OF st(1), of ext base cl db] by (simp add: id)
  ultimately have "tree_scope ext base db (set ids)"
    using st(2) closed unfolding tree_scope_def id R [symmetric] by (intro conjI ballI impI refl) blast+
  then show ?thesis using base size by blast
qed

lemma allowed_nodes_scope:
  assumes "allowed_nodes grant db = Inr ids" "db_ok db"
  shows "(\<forall>x \<in> set ids. owner (nodes db) x = Some (g_project_id grant)) \<and> distinct ids \<and> length ids \<le> 5000 \<and>
    (if truthy (g_node_scope_id grant) then g_node_scope_id grant = Some (hd ids) \<and> length ids = 1
     else if truthy (g_branch_root_id grant)
     then \<exists>base. get_node_row db (the (g_branch_root_id grant)) = Some base \<and> tree_scope False base db (set ids)
     else set ids = {n_id n |n. n \<in> set (nodes db) \<and> n_project_id n = g_project_id grant \<and> n_branch_id n = None})"
proof -
  have placed: "owner (nodes db) x = Some (n_project_id base)" if "same_place base db x" for base x
    using that by (auto simp: same_place_def dest: owner_get)
  show ?thesis
  proof (cases "truthy (g_node_scope_id grant)")
    case True
    then obtain i out where i: "g_node_scope_id grant = Some i" "validated_scoped_graph 5000 True (g_project_id grant) i db = Inr out" "ids = [i]"
      using assms(1) by (auto simp: allowed_nodes_def result_simps truthy_Some)
    then show ?thesis using scoped_graph_tree [OF i(2)] True by (auto dest: owner_get)
  next
    case False
    show ?thesis
    proof (cases "truthy (g_branch_root_id grant)")
      case True
      then have "validated_scoped_graph 5000 False (g_project_id grant) (the (g_branch_root_id grant)) db = Inr ids"
        using assms(1) False by (simp add: allowed_nodes_def)
      from scoped_graph_tree [OF this] show ?thesis using True False placed by (auto simp: tree_scope_def)
    next
      case outside: False
      let ?main = "map n_id (filter (\<lambda>n. n_project_id n = g_project_id grant \<and> n_branch_id n = None) (nodes db))"
      have ids: "ids = ?main" and len: "length ids \<le> 5000"
        using assms(1) False outside by (auto simp: allowed_nodes_def Let_def split: if_splits)
      have "owner (nodes db) (n_id n) = Some (n_project_id n)" if "n \<in> set (nodes db)" for n
        using row_get_unique [OF ok_keys(2) [OF assms(2)] that] by (simp add: owner_def)
      moreover have "distinct ids" using ok_keys(2) [OF assms(2)] by (simp add: ids distinct_map_filter)
      ultimately show ?thesis using False outside len by (auto simp: ids)
    qed
  qed
qed

section \<open>Properties\<close>

text \<open>
  C17: What a grant may touch lies in its project and is bounded: a node grant reaches its node only; a branch
  grant reaches exactly the tree below its root, inside one branch and with no edge into it from outside;
  any other grant reaches the nodes of its project outside every branch.
\<close>

theorem allowed_nodes_within_grant:
  assumes "allowed_nodes grant db = Inr ids" "db_ok db"
  shows "(\<forall>x \<in> set ids. owner (nodes db) x = Some (g_project_id grant)) \<and> distinct ids \<and> length ids \<le> 5000 \<and>
    (if truthy (g_node_scope_id grant) then g_node_scope_id grant = Some (hd ids) \<and> length ids = 1
     else if truthy (g_branch_root_id grant)
     then \<exists>base. get_node_row db (the (g_branch_root_id grant)) = Some base \<and> tree_scope False base db (set ids)
     else set ids = {n_id n |n. n \<in> set (nodes db) \<and> n_project_id n = g_project_id grant \<and> n_branch_id n = None})"
  by (rule allowed_nodes_scope [OF assms])

definition sample_grant :: agent_grant where
  "sample_grant = \<lparr>g_id = ''g'', g_token_prefix = ''0123456789ab'', g_token_salt = ''00'', g_token_hash = ''h'', g_project_id = ''p'',
     g_permission = ''write'', g_node_scope_id = None, g_branch_root_id = None, g_label = ''L'', g_agent_identity = ''bot'',
     g_status = ''active'', g_expires_at = 1000, g_revoked_at = None, g_last_used_at = None, g_created_at = 1\<rparr>"

theorem allowed_nodes_within_grant_witness:
  "\<exists>ids. allowed_nodes (sample_grant\<lparr>g_branch_root_id := Some ''x''\<rparr>) sample_db = Inr ids \<and> ids = [''x''] \<and>
     (\<exists>base. get_node_row sample_db ''x'' = Some base \<and> tree_scope False base sample_db (set ids))"
proof -
  let ?g = "sample_grant\<lparr>g_branch_root_id := Some ''x''\<rparr>"
  have run: "allowed_nodes ?g sample_db = Inr [''x'']" by code_simp
  from allowed_nodes_within_grant [OF run sample_ok]
  have "\<exists>base. get_node_row sample_db ''x'' = Some base \<and> tree_scope False base sample_db (set [''x''])"
    by (simp add: sample_grant_def truthy_def)
  with run show ?thesis by blast
qed

end
