(* ===== verification/Agent_Batch.thy ===== *)
theory Agent_Batch
  imports Agent_Scope Branches "HOL-Library.AList"
begin

text \<open>
  The canonical mutation service of the Agent Port (\<open>agent_port/service.py\<close>): validation of a list of
  operations against the scope of a grant, the dependency order in which creates are executed, and the
  atomic, idempotent application of a batch. \<open>dg\<close> is the digest of a request body (SHA-256 of its canonical
  JSON), a parameter. Details that carry a code are kept as that code.

  The session's unit of work is explicit: rows added and not yet flushed are a list of \<open>pending_row\<close>; a flush
  inserts them in order. Only the last flush sits inside the \<open>try\<close> that turns an integrity error into
  \<open>CANONICAL_WRITE_CONFLICT\<close>.
\<close>

section \<open>Requests\<close>

record batch_body =
  bt_expected_project_revision :: int
  bt_idempotency_key :: string
  bt_operations :: "operation list"

record proposal_body =
  pb_batch :: batch_body
  pb_target_node_id :: "ident option"
  pb_title :: string
  pb_rationale :: string

record event_body =
  eb_idempotency_key :: string
  eb_target_node_id :: "ident option"
  eb_event_type :: string
  eb_message :: string
  eb_payload :: "(string \<times> string) list"

record record_item =
  ri_name :: string
  ri_status :: string
  ri_detail :: string

record readback_body =
  rk_idempotency_key :: string
  rk_target_node_id :: "ident option"
  rk_summary :: string
  rk_commit_refs :: "string list"
  rk_files :: "string list"
  rk_tests :: "record_item list"
  rk_decisions :: "string list"
  rk_risks :: "string list"
  rk_todos :: "string list"
  rk_evidence :: "record_item list"

text \<open>The bodies a digest is taken of.\<close>

datatype payload =
    BatchPayload batch_body
  | ProposalPayload proposal_body
  | EventPayload event_body
  | ReadbackPayload readback_body

type_synonym digest = "payload \<Rightarrow> string"

section \<open>Validation\<close>

fun created_id :: "operation \<Rightarrow> ident option" where
  "created_id (CreateNode c) = cn_id c"
| "created_id (UpdateNode u) = None"
| "created_id (CreateEdge c) = ce_id c"
| "created_id (CreateBlock c) = cb_id c"
| "created_id (CreateBranch c) = cr_id c"

fun is_create :: "operation \<Rightarrow> bool" where
  "is_create (UpdateNode u) = False"
| "is_create _ = True"

fun set_created_id :: "ident \<Rightarrow> operation \<Rightarrow> operation" where
  "set_created_id i (CreateNode c) = CreateNode (c\<lparr>cn_id := Some i\<rparr>)"
| "set_created_id i (UpdateNode u) = UpdateNode u"
| "set_created_id i (CreateEdge c) = CreateEdge (c\<lparr>ce_id := Some i\<rparr>)"
| "set_created_id i (CreateBlock c) = CreateBlock (c\<lparr>cb_id := Some i\<rparr>)"
| "set_created_id i (CreateBranch c) = CreateBranch (c\<lparr>cr_id := Some i\<rparr>)"

text \<open>
  \<open>uuid.UUID(oid)\<close> on the strings the schema's pattern admits (hexadecimal digits and dashes): 32 digits
  are left once the dashes are removed.
\<close>

definition is_hex :: "char \<Rightarrow> bool" where
  "is_hex c \<longleftrightarrow> c \<in> set ''0123456789abcdefABCDEF''"

definition valid_uuid :: "string \<Rightarrow> bool" where
  "valid_uuid s \<longleftrightarrow> (let t = filter (\<lambda>c. c \<noteq> CHR ''-'') s in length t = 32 \<and> list_all is_hex t)"

text \<open>First pass: every create gets its identifier, given or drawn; \<open>k\<close> counts the draws.\<close>

fun reserve_ids :: "env \<Rightarrow> nat \<Rightarrow> ident list \<Rightarrow> operation list \<Rightarrow> (operation list \<times> nat) result" where
  "reserve_ids env k used [] = Inr ([], k)"
| "reserve_ids env k used (op # ops) =
     (if \<not> is_create op then and_then (reserve_ids env k used ops) (\<lambda>(ops', k'). Inr (op # ops', k'))
      else
        let given = created_id op;
            oid = (if truthy given then the given else uuid env k);
            k = (if truthy given then k else Suc k)
        in if \<not> valid_uuid oid then Inl (HTTPException 422 ''Invalid generated/provided id'')
           else if oid \<in> set used then Inl (HTTPException 409 ''ID_CONFLICT'')
           else and_then (reserve_ids env k (oid # used) ops) (\<lambda>(ops', k'). Inr (set_created_id oid op # ops', k')))"

text \<open>A reference is a node of the project or a node created in the batch.\<close>

datatype node_ref = Known node | Fresh op_create_node

definition lookup_ref :: "node list \<Rightarrow> (ident \<times> op_create_node) list \<Rightarrow> ident \<Rightarrow> node_ref result" where
  "lookup_ref known new_nodes nid =
     (case row_get n_id known nid of
        Some n \<Rightarrow> Inr (Known n)
      | None \<Rightarrow> (case map_of new_nodes nid of
            Some c \<Rightarrow> Inr (Fresh c)
          | None \<Rightarrow> Inl (HTTPException 422 ''INVALID_REFERENCE'')))"

fun ref_branch :: "node_ref \<Rightarrow> ident option" where
  "ref_branch (Known n) = n_branch_id n"
| "ref_branch (Fresh c) = cn_branch_id c"

fun ref_revision :: "node_ref \<Rightarrow> int" where
  "ref_revision (Known n) = n_revision n"
| "ref_revision (Fresh c) = 1"

definition check_ref_revision :: "node_ref \<Rightarrow> int option \<Rightarrow> unit result" where
  "check_ref_revision r expected =
     (if expected \<noteq> Some (ref_revision r) then Inl (HTTPException 409 ''REVISION_CONFLICT'') else Inr ())"

text \<open>What validation carries along: the allowed identifiers and the nodes created so far, with inherited branches.\<close>

record validation =
  vl_allowed :: "ident list"
  vl_new_nodes :: "(ident \<times> op_create_node) list"

definition inherit_branch :: "node_ref \<Rightarrow> op_create_node \<Rightarrow> op_create_node result" where
  "inherit_branch parent c =
     (let inherited = ref_branch parent
      in if cn_branch_id c = None \<and> truthy inherited then Inr (c\<lparr>cn_branch_id := inherited\<rparr>)
         else if truthy inherited \<and> cn_branch_id c \<noteq> inherited then Inl (HTTPException 422 ''BRANCH_MISMATCH'')
         else Inr c)"

definition check_new_branch :: "agent_grant \<Rightarrow> node list \<Rightarrow> branch list \<Rightarrow> ident list \<Rightarrow> ident option \<Rightarrow> unit result" where
  "check_new_branch grant known bs new_branches bid =
     (if \<not> truthy bid then Inr ()
      else and_then (case row_get br_id bs (the bid) of
             Some b \<Rightarrow> if br_status b \<noteq> ''active'' then Inl (HTTPException 422 ''INACTIVE_BRANCH'') else Inr ()
           | None \<Rightarrow> if the bid \<in> set new_branches then Inr () else Inl (HTTPException 422 ''INVALID_BRANCH'')) (\<lambda>_.
        if truthy (g_branch_root_id grant) \<and>
           bid \<noteq> (case row_get n_id known (the (g_branch_root_id grant)) of None \<Rightarrow> None | Some n \<Rightarrow> n_branch_id n)
        then Inl (HTTPException 403 ''SCOPE_DENIED'') else Inr ()))"

definition no_fields :: node_fields where
  "no_fields = \<lparr>nf_title = None, nf_summary = None, nf_description = None, nf_rules_text = None, nf_constraints_text = None,
     nf_examples_text = None, nf_questions_text = None, nf_decision_notes = None, nf_tags = None, nf_status = None,
     nf_maturity = None, nf_priority = None, nf_confidence = None, nf_workflow_status = None, nf_file_paths = None\<rparr>"

text \<open>
  Validation of one operation; it returns the operation, with the branch a new node inherits, its references and
  the new state. \<open>models\<close> says whether the operations are the request's models, whose dump leaves out null
  members, or dictionaries, in which \<open>fields\<close> always has its members and so is never empty.
\<close>

fun validate_op :: "bool \<Rightarrow> agent_grant \<Rightarrow> node list \<Rightarrow> branch list \<Rightarrow> ident list \<Rightarrow> operation \<Rightarrow> validation \<Rightarrow>
    (operation \<times> ident list \<times> validation) result" where
  "validate_op models grant known bs new_branches (CreateNode c) vl =
     (let parent = cn_parent_id c; oid = the (cn_id c)
      in if (truthy (g_node_scope_id grant) \<or> truthy (g_branch_root_id grant)) \<and> \<not> truthy parent
         then Inl (HTTPException 403 ''SCOPE_DENIED'')
         else and_then
           (if truthy parent
            then and_then (lookup_ref known (vl_new_nodes vl) (the parent)) (\<lambda>pn.
                 and_then (check_ref_revision pn (cn_expected_parent_revision c)) (\<lambda>_.
                   inherit_branch pn c))
            else Inr c) (\<lambda>c'.
         and_then (check_new_branch grant known bs new_branches (cn_branch_id c')) (\<lambda>_.
           let vl = vl\<lparr>vl_new_nodes := AList.update oid c' (vl_new_nodes vl)\<rparr>;
               vl = (if truthy parent \<and> (the parent \<in> set (vl_allowed vl) \<or> the parent \<in> fst ` set (vl_new_nodes vl))
                     then vl\<lparr>vl_allowed := oid # vl_allowed vl\<rparr> else vl)
           in Inr (CreateNode c', if truthy parent then [the parent] else [], vl))))"
| "validate_op models grant known bs new_branches (UpdateNode u) vl =
     and_then (lookup_ref known (vl_new_nodes vl) (un_node_id u)) (\<lambda>r.
       case r of
         Fresh c \<Rightarrow> Inl (HTTPException 422 ''Cannot update a not-yet-created node'')
       | Known n \<Rightarrow>
           if un_expected_revision u \<noteq> n_revision n then Inl (HTTPException 409 ''REVISION_CONFLICT'')
           else if models \<and> un_fields u = no_fields then Inl (HTTPException 422 ''update_node fields cannot be empty'')
           else Inr (UpdateNode u, [un_node_id u], vl))"
| "validate_op models grant known bs new_branches (CreateEdge c) vl =
     and_then (lookup_ref known (vl_new_nodes vl) (ce_from_node_id c)) (\<lambda>a.
     and_then (lookup_ref known (vl_new_nodes vl) (ce_to_node_id c)) (\<lambda>b.
     and_then (check_ref_revision a (Some (ce_expected_from_revision c))) (\<lambda>_.
     and_then (check_ref_revision b (Some (ce_expected_to_revision c))) (\<lambda>_.
       if ce_relation_type c = child_of \<and> ref_branch a \<noteq> ref_branch b then Inl (HTTPException 422 ''BRANCH_MISMATCH'')
       else Inr (CreateEdge c, [ce_from_node_id c, ce_to_node_id c], vl)))))"
| "validate_op models grant known bs new_branches (CreateBlock c) vl =
     and_then (lookup_ref known (vl_new_nodes vl) (cb_node_id c)) (\<lambda>n.
     and_then (check_ref_revision n (Some (cb_expected_node_revision c))) (\<lambda>_.
       Inr (CreateBlock c, [cb_node_id c], vl)))"
| "validate_op models grant known bs new_branches (CreateBranch c) vl =
     and_then (lookup_ref known (vl_new_nodes vl) (cr_source_node_id c)) (\<lambda>n.
     and_then (check_ref_revision n (Some (cr_expected_source_revision c))) (\<lambda>_.
       if truthy (g_node_scope_id grant) then Inl (HTTPException 403 ''SCOPE_DENIED'')
       else Inr (CreateBranch c, [cr_source_node_id c], vl)))"

fun validate_ops :: "bool \<Rightarrow> agent_grant \<Rightarrow> node list \<Rightarrow> branch list \<Rightarrow> ident list \<Rightarrow> operation list \<Rightarrow> validation \<Rightarrow>
    operation list result" where
  "validate_ops models grant known bs new_branches [] vl = Inr []"
| "validate_ops models grant known bs new_branches (op # ops) vl =
     and_then (validate_op models grant known bs new_branches op vl) (\<lambda>(op', refs, vl').
       if list_ex (\<lambda>r. r \<notin> set (vl_allowed vl')) refs then Inl (HTTPException 403 ''SCOPE_DENIED'')
       else and_then (validate_ops models grant known bs new_branches ops vl') (\<lambda>ops'. Inr (op' # ops')))"

fun new_node_entries :: "operation list \<Rightarrow> (ident \<times> op_create_node) list" where
  "new_node_entries [] = []"
| "new_node_entries (CreateNode c # ops) = (the (cn_id c), c) # new_node_entries ops"
| "new_node_entries (_ # ops) = new_node_entries ops"

fun new_branch_ids :: "operation list \<Rightarrow> ident list" where
  "new_branch_ids [] = []"
| "new_branch_ids (CreateBranch c # ops) = the (cr_id c) # new_branch_ids ops"
| "new_branch_ids (_ # ops) = new_branch_ids ops"

definition validate_operations :: "env \<Rightarrow> bool \<Rightarrow> agent_grant \<Rightarrow> operation list \<Rightarrow> db \<Rightarrow> (operation list \<times> nat) result" where
  "validate_operations env models grant operations db =
     and_then (allowed_nodes grant db) (\<lambda>allowed.
       let known = filter (\<lambda>n. n_project_id n = g_project_id grant) (nodes db);
           bs = filter (\<lambda>b. br_project_id b = g_project_id grant) (branches db)
       in and_then (reserve_ids env 0 (map n_id known @ map br_id bs) operations) (\<lambda>(ops, k).
          and_then (validate_ops models grant known bs (new_branch_ids ops) ops
              \<lparr>vl_allowed = allowed, vl_new_nodes = new_node_entries ops\<rparr>) (\<lambda>ops'.
            Inr (ops', k))))"

section \<open>Expectations and execution order\<close>

fun op_expectations :: "operation \<Rightarrow> (ident \<times> int option) list" where
  "op_expectations (UpdateNode u) = [(un_node_id u, Some (un_expected_revision u))]"
| "op_expectations (CreateNode c) =
     (if truthy (cn_parent_id c) then [(the (cn_parent_id c), cn_expected_parent_revision c)] else [])"
| "op_expectations (CreateEdge c) =
     [(ce_from_node_id c, Some (ce_expected_from_revision c)), (ce_to_node_id c, Some (ce_expected_to_revision c))]"
| "op_expectations (CreateBlock c) = [(cb_node_id c, Some (cb_expected_node_revision c))]"
| "op_expectations (CreateBranch c) = [(cr_source_node_id c, Some (cr_expected_source_revision c))]"

definition remember :: "ident \<times> int option \<Rightarrow> (ident \<times> int option) list \<Rightarrow> (ident \<times> int option) list result" where
  "remember x expectations =
     (case map_of expectations (fst x) of
        None \<Rightarrow> Inr (x # expectations)
      | Some prior \<Rightarrow> if prior \<noteq> snd x then Inl (HTTPException 409 ''REVISION_CONFLICT'') else Inr expectations)"

fun op_depends :: "operation \<Rightarrow> ident option list" where
  "op_depends (CreateNode c) = [cn_parent_id c, cn_branch_id c]"
| "op_depends (UpdateNode u) = []"
| "op_depends (CreateEdge c) = [Some (ce_from_node_id c), Some (ce_to_node_id c)]"
| "op_depends (CreateBlock c) = [Some (cb_node_id c)]"
| "op_depends (CreateBranch c) = [Some (cr_source_node_id c)]"

definition producers :: "operation list \<Rightarrow> (ident \<times> nat) list" where
  "producers ops = rev (map (\<lambda>(i, op). (the (created_id op), i)) (filter (\<lambda>(i, op). is_create op) (List.enumerate 0 ops)))"

definition dependencies :: "operation list \<Rightarrow> nat list list" where
  "dependencies ops = map (\<lambda>op. List.map_filter (\<lambda>r. case r of None \<Rightarrow> None | Some i \<Rightarrow> map_of (producers ops) i) (op_depends op)) ops"

definition ready :: "nat list list \<Rightarrow> nat list \<Rightarrow> nat list" where
  "ready deps pending = filter (\<lambda>i. list_all (\<lambda>d. d \<notin> set pending) (deps ! i)) pending"

function execution_order :: "nat list list \<Rightarrow> nat list \<Rightarrow> nat list \<Rightarrow> nat list result" where
  "execution_order deps pending order =
     (if pending = [] then Inr order
      else if ready deps pending = [] then Inl (HTTPException 422 ''CYCLIC_BATCH_DEPENDENCY'')
      else execution_order deps (filter (\<lambda>i. i \<notin> set (ready deps pending)) pending) (order @ ready deps pending))"
  by pat_completeness auto

termination
proof (relation "measure (\<lambda>(deps, pending, order). length pending)")
  fix deps :: "nat list list" and pending order :: "nat list"
  assume "ready deps pending \<noteq> []"
  then obtain i where "i \<in> set (ready deps pending)" by (metis list.set_intros(1) neq_Nil_conv)
  then show "((deps, filter (\<lambda>i. i \<notin> set (ready deps pending)) pending, order @ ready deps pending), deps, pending, order) \<in>
      measure (\<lambda>(deps, pending, order). length pending)"
    by (auto simp: ready_def intro!: length_filter_less [of i])
qed simp

declare execution_order.simps [simp del]

section \<open>Execution\<close>

datatype pending_row = PendingEdge edge | PendingBlock content_block

fun insert_row :: "pending_row \<Rightarrow> db \<Rightarrow> db result" where
  "insert_row (PendingEdge e) db = insert_edge e db"
| "insert_row (PendingBlock b) db = insert_block b db"

record work =
  wk_db :: db
  wk_pending :: "pending_row list"
  wk_draws :: nat
  wk_results :: "(nat \<times> json) list"

definition flush :: "work \<Rightarrow> work result" where
  "flush wk = and_then (fold_result insert_row (wk_pending wk) (wk_db wk)) (\<lambda>db. Inr (wk\<lparr>wk_db := db, wk_pending := []\<rparr>))"

definition op_result :: "string \<Rightarrow> ident \<Rightarrow> int \<Rightarrow> json" where
  "op_result kind i r = JObj [(''op'', JStr kind), (''id'', JStr i), (''revision'', jint r)]"

definition keep_or :: "'a option \<Rightarrow> 'a \<Rightarrow> 'a" where
  "keep_or new old = (case new of None \<Rightarrow> old | Some v \<Rightarrow> v)"

definition keep_or_opt :: "'a option \<Rightarrow> 'a option \<Rightarrow> 'a option" where
  "keep_or_opt new old = (case new of None \<Rightarrow> old | Some v \<Rightarrow> Some v)"

definition apply_node_fields :: "string \<Rightarrow> node_fields \<Rightarrow> node \<Rightarrow> node" where
  "apply_node_fields actor f n =
     n\<lparr>n_title := keep_or (nf_title f) (n_title n), n_summary := keep_or_opt (nf_summary f) (n_summary n),
       n_description := keep_or_opt (nf_description f) (n_description n), n_rules_text := keep_or_opt (nf_rules_text f) (n_rules_text n),
       n_constraints_text := keep_or_opt (nf_constraints_text f) (n_constraints_text n),
       n_examples_text := keep_or_opt (nf_examples_text f) (n_examples_text n),
       n_questions_text := keep_or_opt (nf_questions_text f) (n_questions_text n),
       n_decision_notes := keep_or_opt (nf_decision_notes f) (n_decision_notes n),
       n_tags := keep_or (map_option jstrings (nf_tags f)) (n_tags n), n_status := keep_or (nf_status f) (n_status n),
       n_maturity := keep_or (nf_maturity f) (n_maturity n), n_priority := keep_or_opt (nf_priority f) (n_priority n),
       n_confidence := keep_or_opt (nf_confidence f) (n_confidence n),
       n_workflow_status := keep_or (nf_workflow_status f) (n_workflow_status n),
       n_file_paths := keep_or (map_option jstrings (nf_file_paths f)) (n_file_paths n), n_last_edited_by := Some actor\<rparr>"

definition batch_node :: "env \<Rightarrow> ident \<Rightarrow> string \<Rightarrow> op_create_node \<Rightarrow> node" where
  "batch_node env pid actor c =
     (new_node env (the (cn_id c)) pid (strip (cn_title c)) (Some (cn_summary c)))
       \<lparr>n_node_type := cn_node_type c, n_branch_id := cn_branch_id c, n_created_by := Some actor, n_last_edited_by := Some actor\<rparr>"

definition batch_edge :: "env \<Rightarrow> ident \<Rightarrow> op_create_edge \<Rightarrow> edge" where
  "batch_edge env pid c =
     \<lparr>e_id = the (ce_id c), e_project_id = pid, e_from_node_id = ce_from_node_id c, e_to_node_id = ce_to_node_id c,
      e_relation_type = ce_relation_type c, e_weight = Some (ce_weight c), e_note = Some (ce_note c), e_is_mainline = False,
      e_created_at = now env, e_revision = 1\<rparr>"

definition batch_block :: "env \<Rightarrow> string \<Rightarrow> op_create_block \<Rightarrow> content_block" where
  "batch_block env actor c =
     \<lparr>b_id = the (cb_id c), b_node_id = cb_node_id c, b_block_type = cb_block_type c,
      b_content = JObj (map (\<lambda>(k, v). (k, JStr v)) (cb_content c)), b_order_index = cb_order_index c, b_created_by = Some actor,
      b_created_at = now env, b_updated_at = now env, b_revision = 1\<rparr>"

text \<open>The draws of a deep copy inside a batch: the branch has its reserved identifier, the rows take the next ones.\<close>

definition branch_env :: "env \<Rightarrow> ident \<Rightarrow> nat \<Rightarrow> env" where
  "branch_env env bid k = env\<lparr>uuid := (\<lambda>j. if j = 0 then bid else uuid env (k + j))\<rparr>"

fun exec_op :: "env \<Rightarrow> ident \<Rightarrow> string \<Rightarrow> nat \<Rightarrow> operation \<Rightarrow> work \<Rightarrow> work result" where
  "exec_op env pid actor i (CreateNode c) wk =
     and_then (flush wk) (\<lambda>wk.
     and_then (insert_node (batch_node env pid actor c) (wk_db wk)) (\<lambda>db.
       let wk = wk\<lparr>wk_db := db, wk_results := (i, op_result ''create_node'' (the (cn_id c)) 1) # wk_results wk\<rparr>
       in Inr (if truthy (cn_parent_id c)
               then wk\<lparr>wk_pending := [PendingEdge (new_edge env (uuid env (wk_draws wk)) pid (the (cn_parent_id c)) (the (cn_id c)) False)],
                       wk_draws := Suc (wk_draws wk)\<rparr>
               else wk)))"
| "exec_op env pid actor i (UpdateNode u) wk =
     (case get_node_row (wk_db wk) (un_node_id u) of
        None \<Rightarrow> Inl AttributeError
      | Some n \<Rightarrow> Inr (wk\<lparr>wk_db := nodes_update (row_update n_id (un_node_id u) (apply_node_fields actor (un_fields u))) (wk_db wk),
          wk_results := (i, op_result ''update_node'' (un_node_id u) (n_revision n + 1)) # wk_results wk\<rparr>))"
| "exec_op env pid actor i (CreateEdge c) wk =
     Inr (wk\<lparr>wk_pending := wk_pending wk @ [PendingEdge (batch_edge env pid c)],
        wk_results := (i, op_result ''create_edge'' (the (ce_id c)) 1) # wk_results wk\<rparr>)"
| "exec_op env pid actor i (CreateBlock c) wk =
     Inr (wk\<lparr>wk_pending := wk_pending wk @ [PendingBlock (batch_block env actor c)],
        wk_results := (i, op_result ''create_content_block'' (the (cb_id c)) 1) # wk_results wk\<rparr>)"
| "exec_op env pid actor i (CreateBranch c) wk =
     and_then (flush wk) (\<lambda>wk.
     and_then (deep_copy_branch (branch_env env (the (cr_id c)) (wk_draws wk)) pid (cr_source_node_id c)
         (strip (cr_name c)) (cr_description c) actor (wk_db wk)) (\<lambda>(branch, k, db).
       Inr (wk\<lparr>wk_db := db, wk_draws := wk_draws wk + k,
          wk_results := (i, op_result ''create_branch'' (br_id branch) 1) # wk_results wk\<rparr>)))"

fun op_touches :: "operation \<Rightarrow> ident list" where
  "op_touches (CreateNode c) = (if truthy (cn_parent_id c) then [the (cn_parent_id c)] else [])"
| "op_touches (UpdateNode u) = [un_node_id u]"
| "op_touches (CreateEdge c) = [ce_from_node_id c, ce_to_node_id c]"
| "op_touches (CreateBlock c) = [cb_node_id c]"
| "op_touches (CreateBranch c) = []"

definition touched_existing :: "ident \<Rightarrow> operation list \<Rightarrow> db \<Rightarrow> ident list" where
  "touched_existing pid ops db =
     filter (\<lambda>i. list_ex (\<lambda>n. n_id n = i \<and> n_project_id n = pid) (nodes db)) (remdups (concat (map op_touches ops)))"

definition bump_touched :: "env \<Rightarrow> ident list \<Rightarrow> db \<Rightarrow> db" where
  "bump_touched env ids db = nodes_update (map (\<lambda>n. if n_id n \<in> set ids then bump_node env n else n)) db"

section \<open>Receipts and the batch\<close>

definition insert_receipt :: "agent_receipt \<Rightarrow> db \<Rightarrow> db result" where
  "insert_receipt r db =
     (if list_ex (\<lambda>q. r_id q = r_id r \<or> r_grant_id q = r_grant_id r \<and> r_idempotency_key q = r_idempotency_key r) (agent_receipts db)
         \<or> \<not> list_ex (\<lambda>g. g_id g = r_grant_id r) (agent_grants db) \<or> \<not> has_row p_id (projects db) (r_project_id r)
      then Inl IntegrityError
      else Inr (agent_receipts_update (\<lambda>rs. rs @ [r]) db))"

definition find_receipt :: "ident \<Rightarrow> string \<Rightarrow> db \<Rightarrow> agent_receipt option result" where
  "find_receipt grant_id key db =
     scalar_one_or_none (filter (\<lambda>r. r_grant_id r = grant_id \<and> r_idempotency_key r = key) (agent_receipts db))"

definition settle_proposal :: "env \<Rightarrow> (ident \<times> string) option \<Rightarrow> db \<Rightarrow> db" where
  "settle_proposal env proposal db =
     (case proposal of
        None \<Rightarrow> db
      | Some (i, note) \<Rightarrow> agent_proposals_update
          (row_update pr_id i (\<lambda>p. p\<lparr>pr_status := ''approved'', pr_review_note := note, pr_reviewed_at := Some (now env)\<rparr>)) db)"

definition batch_response :: "ident \<Rightarrow> ident \<Rightarrow> int \<Rightarrow> json list \<Rightarrow> string \<Rightarrow> json" where
  "batch_response receipt_id pid revision results req_digest =
     JObj [(''receipt_id'', JStr receipt_id), (''project_id'', JStr pid), (''project_revision'', jint revision),
       (''results'', JList results), (''request_digest'', JStr req_digest)]"

text \<open>The last flush and the commit, with the \<open>except\<close> clause: nothing can have won the key in between.\<close>

definition commit_batch :: "work \<Rightarrow> agent_receipt \<Rightarrow> action_log \<Rightarrow> db result" where
  "commit_batch wk receipt entry =
     (case and_then (flush wk) (\<lambda>wk. and_then (insert_receipt receipt (wk_db wk)) (insert_log entry)) of
        Inl IntegrityError \<Rightarrow> Inl (HTTPException 409 ''CANONICAL_WRITE_CONFLICT'')
      | r \<Rightarrow> r)"

definition run_operations :: "env \<Rightarrow> ident \<Rightarrow> string \<Rightarrow> operation list \<Rightarrow> nat list \<Rightarrow> nat \<Rightarrow> db \<Rightarrow> work result" where
  "run_operations env pid actor ops order k db =
     fold_result (\<lambda>i. exec_op env pid actor i (ops ! i)) order \<lparr>wk_db = db, wk_pending = [], wk_draws = k, wk_results = []\<rparr>"

definition apply_batch_serialized ::
  "env \<Rightarrow> digest \<Rightarrow> agent_grant \<Rightarrow> batch_body \<Rightarrow> string option \<Rightarrow> (ident \<times> string) option \<Rightarrow> db \<Rightarrow> (json \<times> db) result" where
  "apply_batch_serialized env dg grant body actor proposal db =
     (let key = bt_idempotency_key body; req = dg (BatchPayload body); pid = g_project_id grant;
          expected = bt_expected_project_revision body;
          who = or_default actor (g_agent_identity grant)
      in and_then (find_receipt (g_id grant) key db) (\<lambda>prior.
         case prior of
           Some r \<Rightarrow> if r_request_digest r \<noteq> req then Inl (HTTPException 409 ''IDEMPOTENCY_MISMATCH'') else Inr (r_response r, db)
         | None \<Rightarrow>
             (case get_project_row db pid of
                None \<Rightarrow> Inl (HTTPException 404 ''Project not found'')
              | Some project \<Rightarrow>
                  if expected \<noteq> p_revision project then Inl (HTTPException 409 ''REVISION_CONFLICT'')
                  else
                    and_then (validate_operations env False grant (bt_operations body) db) (\<lambda>(ops, k).
                    and_then (fold_result remember (concat (map op_expectations ops)) []) (\<lambda>_.
                    and_then (execution_order (dependencies ops) [0..<length ops] []) (\<lambda>order.
                    and_then (claim_project_revision env pid expected db) (\<lambda>db.
                    and_then (run_operations env pid who ops order (Suc (Suc k)) db) (\<lambda>wk.
                      let wk = wk\<lparr>wk_db := settle_proposal env proposal (bump_touched env (touched_existing pid ops db) (wk_db wk))\<rparr>;
                          rid = uuid env k;
                          response = batch_response rid pid (expected + 1)
                            (map (\<lambda>i. case map_of (wk_results wk) i of None \<Rightarrow> JNull | Some j \<Rightarrow> j) [0..<length ops]) req;
                          receipt = \<lparr>r_id = rid, r_grant_id = g_id grant, r_project_id = pid, r_idempotency_key = key,
                            r_request_digest = req, r_action_type = ''batch'', r_status = ''applied'', r_response = response,
                            r_created_at = now env\<rparr>;
                          entry = \<lparr>l_id = uuid env (Suc k), l_project_id = pid, l_node_id = None,
                            l_actor_type = (if truthy actor then ''human'' else ''agent''), l_actor_id = who,
                            l_action_type = ''agent_batch_applied'',
                            l_payload = JObj [(''receipt_id'', JStr rid), (''operation_count'', jint (int (length ops))), (''request_digest'', JStr req)],
                            l_created_at = now env\<rparr>
                      in and_then (commit_batch wk receipt entry) (\<lambda>db. Inr (response, db))))))))))"

end
