(* ===== verification/Agent_Safety.thy ===== *)
theory Agent_Safety
  imports Agent_Batch
begin

text \<open>
  What the batches of the Agent Port keep: creates run after what they refer to, a batch moves the
  project's revision by one or is a replay, and it changes nothing outside the scope of its grant.
\<close>

section \<open>Execution order\<close>

definition dep_rel :: "nat list list \<Rightarrow> nat set \<Rightarrow> (nat \<times> nat) set" where
  "dep_rel deps S = {(d, i). i \<in> S \<and> d \<in> S \<and> d \<in> set (deps ! i)}"

definition depends_first :: "nat list list \<Rightarrow> nat set \<Rightarrow> nat list \<Rightarrow> bool" where
  "depends_first deps S order \<longleftrightarrow> (\<forall>us i vs. order = us @ i # vs \<longrightarrow> set (deps ! i) \<inter> S \<subseteq> set us)"

lemma set_ready: "set (ready deps pending) = {i \<in> set pending. set (deps ! i) \<inter> set pending = {}}"
  by (auto simp: ready_def list_all_iff)

lemma depends_first_append:
  assumes "depends_first deps S order" "\<And>i. i \<in> set new \<Longrightarrow> set (deps ! i) \<inter> S \<subseteq> set order"
  shows "depends_first deps S (order @ new)"
  unfolding depends_first_def
proof (intro allI impI)
  fix us i vs
  assume "order @ new = us @ i # vs"
  then consider us' where "order = us @ us'" "us' @ new = i # vs" | us' where "us = order @ us'" "new = us' @ i # vs"
    by (auto simp: append_eq_append_conv2)
  then show "set (deps ! i) \<inter> S \<subseteq> set us"
  proof cases
    case (1 us')
    show ?thesis
    proof (cases us')
      case Nil
      then show ?thesis using 1 assms(2) [of i] by simp
    next
      case (Cons j js)
      then show ?thesis using 1 assms(1) unfolding depends_first_def by auto
    qed
  next
    case (2 us')
    then show ?thesis using assms(2) [of i] by auto
  qed
qed

lemma execution_order_Inr:
  assumes "execution_order deps pending order = Inr order'" "distinct (order @ pending)"
    "depends_first deps (set order \<union> set pending) order"
  shows "distinct order' \<and> set order' = set order \<union> set pending \<and> depends_first deps (set order \<union> set pending) order'"
  using assms
proof (induction deps pending order rule: execution_order.induct)
  case (1 deps pending order)
  show ?case
  proof (cases "pending = []")
    case True
    then show ?thesis using 1(2-4) by (simp add: execution_order.simps [of _ "[]"])
  next
    case False
    let ?r = "ready deps pending" and ?rest = "filter (\<lambda>i. i \<notin> set (ready deps pending)) pending"
    have run: "?r \<noteq> []" "execution_order deps ?rest (order @ ?r) = Inr order'"
      using 1(2) False by (auto simp: execution_order.simps [of _ pending] split: if_splits)
    have sets: "set (order @ ?r) \<union> set ?rest = set order \<union> set pending" by (auto simp: set_ready)
    have "distinct ?r" using 1(3) by (simp add: ready_def)
    then have "distinct ((order @ ?r) @ ?rest)" using 1(3) by (auto simp: set_ready)
    moreover have "depends_first deps (set order \<union> set pending) (order @ ?r)"
      using 1(4) by (rule depends_first_append) (auto simp: set_ready)
    ultimately show ?thesis using 1(1) [OF False run(1,2)] by (simp only: sets)
  qed
qed

lemma execution_order_Inl:
  assumes "execution_order deps pending order = Inl e"
  shows "e = HTTPException 422 ''CYCLIC_BATCH_DEPENDENCY'' \<and>
    (\<exists>P. P \<noteq> {} \<and> P \<subseteq> set pending \<and> (\<forall>i \<in> P. \<exists>d \<in> P. d \<in> set (deps ! i)))"
  using assms
proof (induction deps pending order rule: execution_order.induct)
  case (1 deps pending order)
  have False: "pending \<noteq> []" using 1(2) by (auto simp: execution_order.simps [of _ "[]"])
  show ?case
  proof (cases "ready deps pending = []")
    case True
    then have "e = HTTPException 422 ''CYCLIC_BATCH_DEPENDENCY''" "\<forall>i \<in> set pending. \<exists>d \<in> set pending. d \<in> set (deps ! i)"
      using 1(2) False set_ready [of deps pending] by (auto simp: execution_order.simps [of _ pending])
    then show ?thesis using False by (intro conjI exI [of _ "set pending"]) auto
  next
    case ready: False
    then have rest: "execution_order deps (filter (\<lambda>i. i \<notin> set (ready deps pending)) pending) (order @ ready deps pending) = Inl e"
      using 1(2) False by (simp add: execution_order.simps [of _ pending])
    from 1(1) [OF False ready rest] obtain P where P: "e = HTTPException 422 ''CYCLIC_BATCH_DEPENDENCY''" "P \<noteq> {}"
      "P \<subseteq> set (filter (\<lambda>i. i \<notin> set (ready deps pending)) pending)" "\<forall>i \<in> P. \<exists>d \<in> P. d \<in> set (deps ! i)" by blast
    then have "P \<subseteq> set pending" by auto
    with P show ?thesis by blast
  qed
qed

lemma depends_first_acyclic:
  assumes "depends_first deps S order" "set order = S" "distinct order"
  shows "acyclic (dep_rel deps S)"
proof -
  have "position d order < position i order" if "(d, i) \<in> dep_rel deps S" for d i
  proof -
    have i: "i \<in> set order" "d \<in> set (deps ! i)" "d \<in> S" using that assms(2) by (auto simp: dep_rel_def)
    then obtain us vs where split: "order = us @ i # vs" by (meson split_list)
    then have "d \<in> set us" using assms(1) i unfolding depends_first_def by blast
    then have "position d order < length us" unfolding split by (induction us) auto
    moreover have "position i order = length us" using assms(3) unfolding split by (induction us) auto
    ultimately show ?thesis by simp
  qed
  then have "dep_rel deps S \<subseteq> measure (\<lambda>i. position i order)" by auto
  then show ?thesis by (meson wf_measure wf_subset wf_acyclic)
qed

text \<open>
  C18: The order in which a batch is executed contains every operation once, each after the creates it
  refers to; it exists exactly when these references have no cycle, and a cyclic batch is refused with its code.
\<close>

theorem execution_order_topological:
  "case execution_order deps [0..<n] [] of
     Inr order \<Rightarrow> distinct order \<and> set order = {0..<n} \<and> depends_first deps {0..<n} order \<and> acyclic (dep_rel deps {0..<n})
   | Inl e \<Rightarrow> e = HTTPException 422 ''CYCLIC_BATCH_DEPENDENCY'' \<and> \<not> acyclic (dep_rel deps {0..<n})"
proof (cases "execution_order deps [0..<n] []")
  case (Inl e)
  from execution_order_Inl [OF Inl] obtain P where e: "e = HTTPException 422 ''CYCLIC_BATCH_DEPENDENCY''" and
    P: "P \<noteq> {}" "P \<subseteq> {0..<n}" "\<forall>i \<in> P. \<exists>d \<in> P. d \<in> set (deps ! i)" by auto
  have "\<not> wf (dep_rel deps {0..<n})"
  proof
    assume "wf (dep_rel deps {0..<n})"
    moreover obtain p where "p \<in> P" using P(1) by blast
    ultimately obtain i where i: "i \<in> P" "\<And>d. (d, i) \<in> dep_rel deps {0..<n} \<Longrightarrow> d \<notin> P" by (rule wfE_min) blast
    from P(3) i(1) obtain d where "d \<in> P" "d \<in> set (deps ! i)" by blast
    then have "(d, i) \<in> dep_rel deps {0..<n}" using P(2) i(1) unfolding dep_rel_def by blast
    then show False using i(2) \<open>d \<in> P\<close> by blast
  qed
  moreover have "finite (dep_rel deps {0..<n})"
    by (rule finite_subset [of _ "{0..<n} \<times> {0..<n}"]) (auto simp: dep_rel_def)
  ultimately show ?thesis using e Inl finite_acyclic_wf by auto
next
  case (Inr order)
  have "distinct order \<and> set order = {0..<n} \<and> depends_first deps {0..<n} order"
    using execution_order_Inr [OF Inr] by (simp add: depends_first_def)
  then show ?thesis using depends_first_acyclic [of deps "{0..<n}" order] Inr by auto
qed

section \<open>Steps of a batch\<close>

lemma commit_batch_Inr:
  assumes "commit_batch wk receipt entry = Inr db'"
  obtains wk1 db1 where "flush wk = Inr wk1" "insert_receipt receipt (wk_db wk1) = Inr db1" "insert_log entry db1 = Inr db'"
proof -
  have "and_then (flush wk) (\<lambda>wk. and_then (insert_receipt receipt (wk_db wk)) (insert_log entry)) = Inr db'"
    using assms unfolding commit_batch_def by (auto split: sum.splits error.splits)
  then show ?thesis using that by (auto simp: result_simps)
qed

lemma find_receipt_None: "find_receipt gid key db = Inr None \<longleftrightarrow> \<not> (\<exists>r \<in> set (agent_receipts db). r_grant_id r = gid \<and> r_idempotency_key r = key)"
  by (auto simp: find_receipt_def scalar_one_or_none_None filter_empty_conv)

text \<open>What a batch did that was not a replay.\<close>

lemma apply_batch_steps:
  assumes "apply_batch_serialized env dg grant body actor proposal db = Inr (response, db')"
    "find_receipt (g_id grant) (bt_idempotency_key body) db = Inr None"
  obtains ops k order db1 wk wk1 db2 receipt entry where
    "validate_operations env False grant (bt_operations body) db = Inr (ops, k)"
    "execution_order (dependencies ops) [0..<length ops] [] = Inr order"
    "claim_project_revision env (g_project_id grant) (bt_expected_project_revision body) db = Inr db1"
    "run_operations env (g_project_id grant) (or_default actor (g_agent_identity grant)) ops order (Suc (Suc k)) db1 = Inr wk"
    "flush (wk\<lparr>wk_db := settle_proposal env proposal (bump_touched env (touched_existing (g_project_id grant) ops db1) (wk_db wk))\<rparr>) = Inr wk1"
    "insert_receipt receipt (wk_db wk1) = Inr db2" "insert_log entry db2 = Inr db'"
    "r_grant_id receipt = g_id grant" "r_idempotency_key receipt = bt_idempotency_key body"
    "r_request_digest receipt = dg (BatchPayload body)" "r_response receipt = response" "r_project_id receipt = g_project_id grant"
  using assms unfolding apply_batch_serialized_def Let_def
  by (auto simp: result_simps elim!: commit_batch_Inr)

lemma insert_receipt_Inr:
  "insert_receipt r db = Inr db' \<Longrightarrow> db' = agent_receipts_update (\<lambda>rs. rs @ [r]) db"
  by (auto simp: insert_receipt_def split: if_splits)

lemma schema_insert_receipt [schema_intros]:
  assumes "insert_receipt r db = Inr db'" "schema_ok db"
  shows "schema_ok db'"
proof -
  have "r_id r \<notin> r_id ` set (agent_receipts db)" "r_grant_id r \<in> grant_ids db" "r_project_id r \<in> project_ids db"
    "(r_grant_id r, r_idempotency_key r) \<notin> (\<lambda>q. (r_grant_id q, r_idempotency_key q)) ` set (agent_receipts db)"
    using assms(1) unfolding insert_receipt_def grant_exists by (auto simp: list_ex_iff has_row_def split: if_splits)
  then show ?thesis
    using assms(2) insert_receipt_Inr [OF assms(1)] by (simp add: schema_defs) (simp add: receipt_refs_ok_def)
qed

section \<open>The effect of a step\<close>

text \<open>
  How the database moves while a batch runs in project \<open>pid\<close>: nodes keep their project, the nodes of \<open>F\<close> keep everything,
  rows are only added, new edges belong to the project and end in \<open>R\<close> or at nodes of the project, never in \<open>F\<close>, and a
  node's branch is one it had, one of \<open>B\<close>, or a branch of the project.
\<close>

definition new_edge_fits :: "ident \<Rightarrow> ident set \<Rightarrow> ident set \<Rightarrow> node list \<Rightarrow> edge \<Rightarrow> bool" where
  "new_edge_fits pid R F ns e \<longleftrightarrow> e_project_id e = pid \<and>
     (\<forall>x \<in> {e_from_node_id e, e_to_node_id e}. x \<notin> F \<and> (x \<in> R \<or> owner ns x = Some pid))"

definition branch_fits :: "ident \<Rightarrow> ident set \<Rightarrow> db \<Rightarrow> db \<Rightarrow> node \<Rightarrow> bool" where
  "branch_fits pid B db db' n \<longleftrightarrow> (\<forall>b. n_branch_id n = Some b \<longrightarrow>
     (\<exists>m \<in> set (nodes db). n_branch_id m = Some b \<and> n_project_id m = n_project_id n) \<or>
     n_project_id n = pid \<and> (b \<in> B \<or> branch_owner (branches db') b = Some pid))"

definition effect :: "ident \<Rightarrow> ident set \<Rightarrow> ident set \<Rightarrow> ident set \<Rightarrow> db \<Rightarrow> db \<Rightarrow> bool" where
  "effect pid R B F db db' \<longleftrightarrow>
     projects db' = projects db \<and>
     (\<forall>i p. owner (nodes db) i = Some p \<longrightarrow> owner (nodes db') i = Some p) \<and>
     (\<forall>b p. branch_owner (branches db) b = Some p \<longrightarrow> branch_owner (branches db') b = Some p) \<and>
     (\<forall>i \<in> F. get_node_row db' i = get_node_row db i) \<and>
     (\<exists>es. edges db' = edges db @ es \<and> (\<forall>e \<in> set es. new_edge_fits pid R F (nodes db') e)) \<and>
     (\<exists>bs. content_blocks db' = content_blocks db @ bs \<and> (\<forall>b \<in> set bs. b_node_id b \<notin> F)) \<and>
     (\<forall>n \<in> set (nodes db'). branch_fits pid B db db' n) \<and>
     (\<exists>rs. branches db' = branches db @ rs \<and> [] \<notin> br_id ` set rs)"

lemma effect_refl: "effect pid R B F db db"
  by (auto simp: effect_def branch_fits_def)

lemma effectD:
  assumes "effect pid R B F db db'"
  shows "projects db' = projects db" "owner (nodes db) i = Some p \<Longrightarrow> owner (nodes db') i = Some p"
    "branch_owner (branches db) b = Some p \<Longrightarrow> branch_owner (branches db') b = Some p"
    "i \<in> F \<Longrightarrow> get_node_row db' i = get_node_row db i" "n \<in> set (nodes db') \<Longrightarrow> branch_fits pid B db db' n"
  using assms by (simp_all add: effect_def)

lemma effect_adds:
  assumes "effect pid R B F db db'"
  obtains es bs rs where "edges db' = edges db @ es" "\<And>e. e \<in> set es \<Longrightarrow> new_edge_fits pid R F (nodes db') e"
    "content_blocks db' = content_blocks db @ bs" "\<And>b. b \<in> set bs \<Longrightarrow> b_node_id b \<notin> F"
    "branches db' = branches db @ rs" "[] \<notin> br_id ` set rs"
  using assms unfolding effect_def by (elim conjE exE) (rule that, auto)

lemma effectI:
  assumes "projects db' = projects db" "\<And>i p. owner (nodes db) i = Some p \<Longrightarrow> owner (nodes db') i = Some p"
    "\<And>b p. branch_owner (branches db) b = Some p \<Longrightarrow> branch_owner (branches db') b = Some p"
    "\<And>i. i \<in> F \<Longrightarrow> get_node_row db' i = get_node_row db i"
    "edges db' = edges db @ es" "\<And>e. e \<in> set es \<Longrightarrow> new_edge_fits pid R F (nodes db') e"
    "content_blocks db' = content_blocks db @ bs" "\<And>b. b \<in> set bs \<Longrightarrow> b_node_id b \<notin> F"
    "\<And>n. n \<in> set (nodes db') \<Longrightarrow> branch_fits pid B db db' n" "branches db' = branches db @ rs" "[] \<notin> br_id ` set rs"
  shows "effect pid R B F db db'"
  unfolding effect_def using assms by (intro conjI allI impI ballI exI) assumption+

lemma effect_trans:
  assumes 1: "effect pid R B F db1 db2" and 2: "effect pid R B F db2 db3"
  shows "effect pid R B F db1 db3"
proof -
  from 1 obtain es1 bs1 rs1 where a: "edges db2 = edges db1 @ es1" "\<And>e. e \<in> set es1 \<Longrightarrow> new_edge_fits pid R F (nodes db2) e"
    "content_blocks db2 = content_blocks db1 @ bs1" "\<And>b. b \<in> set bs1 \<Longrightarrow> b_node_id b \<notin> F"
    "branches db2 = branches db1 @ rs1" "[] \<notin> br_id ` set rs1" by (rule effect_adds) blast
  from 2 obtain es2 bs2 rs2 where b: "edges db3 = edges db2 @ es2" "\<And>e. e \<in> set es2 \<Longrightarrow> new_edge_fits pid R F (nodes db3) e"
    "content_blocks db3 = content_blocks db2 @ bs2" "\<And>b. b \<in> set bs2 \<Longrightarrow> b_node_id b \<notin> F"
    "branches db3 = branches db2 @ rs2" "[] \<notin> br_id ` set rs2" by (rule effect_adds) blast
  have fits: "new_edge_fits pid R F (nodes db2) e \<Longrightarrow> new_edge_fits pid R F (nodes db3) e" for e
    using effectD(2) [OF 2] unfolding new_edge_fits_def by blast
  have branch: "branch_fits pid B db1 db3 n" if n: "n \<in> set (nodes db3)" for n
    unfolding branch_fits_def
  proof (intro allI impI)
    fix b assume nb: "n_branch_id n = Some b"
    from effectD(5) [OF 2 n] nb consider m where "m \<in> set (nodes db2)" "n_branch_id m = Some b" "n_project_id m = n_project_id n"
      | "n_project_id n = pid" "b \<in> B \<or> branch_owner (branches db3) b = Some pid" unfolding branch_fits_def by blast
    then show "(\<exists>m \<in> set (nodes db1). n_branch_id m = Some b \<and> n_project_id m = n_project_id n) \<or>
        n_project_id n = pid \<and> (b \<in> B \<or> branch_owner (branches db3) b = Some pid)"
    proof cases
      case 1
      then show ?thesis using effectD(5) [OF assms(1) 1(1)] effectD(3) [OF 2] unfolding branch_fits_def by metis
    qed simp
  qed
  show ?thesis
    by (rule effectI [where es = "es1 @ es2" and bs = "bs1 @ bs2" and rs = "rs1 @ rs2"])
      (use a b fits branch effectD(1-4) [OF 1] effectD(1-4) [OF 2] in \<open>auto\<close>)
qed

text \<open>Nodes added at the end.\<close>

lemma branch_fits_append:
  "n \<in> set (nodes db) \<Longrightarrow> branch_fits pid B db db' n"
  by (auto simp: branch_fits_def)

lemma effect_insert_node:
  assumes "insert_node n db = Inr db'" "F \<subseteq> node_ids db" "n_project_id n = pid" "\<And>b. n_branch_id n = Some b \<Longrightarrow> b \<in> B"
  shows "effect pid R B F db db'" "owner (nodes db') (n_id n) = Some pid" "n_id n \<notin> node_ids db" "node_ids db \<subseteq> node_ids db'"
proof -
  have db': "db' = nodes_update (\<lambda>rs. rs @ [n]) db" and new: "n_id n \<notin> node_ids db" using assms(1) by (simp_all add: insert_node_Inr)
  show "owner (nodes db') (n_id n) = Some pid" using owner_snoc [OF new] assms(3) by (simp add: db')
  show "n_id n \<notin> node_ids db" "node_ids db \<subseteq> node_ids db'" using new by (auto simp: db')
  have "get_node_row db' i = get_node_row db i" if "i \<in> F" for i
    using that assms(2) new by (auto simp: db' get_node_row_def row_get_append row_get_single split: option.splits)
  then show "effect pid R B F db db'"
    using assms(3,4) by (auto simp: effect_def db' owner_append_fresh branch_fits_def)
qed

lemma effect_update_node:
  assumes "\<And>n. n_id (f n) = n_id n" "\<And>n. n_project_id (f n) = n_project_id n" "\<And>n. n_branch_id (f n) = n_branch_id n"
    "G \<inter> F = {}"
  shows "effect pid R B F db (nodes_update (map (\<lambda>n. if n_id n \<in> G then f n else n)) db)"
proof -
  define g where "g = (\<lambda>n. if n_id n \<in> G then f n else n)"
  have "owner (map g ns) i = owner ns i" for ns i by (rule owner_map) (simp_all add: assms g_def)
  moreover have "get_node_row (nodes_update (map g) db) i = get_node_row db i" if "i \<in> F" for i
    using row_get_map_if [of n_id f "\<lambda>i. i \<in> G", OF assms(1)] that assms(4) by (auto simp: get_node_row_def g_def)
  moreover have "branch_fits pid B db (nodes_update (map g) db) (g m)" if "m \<in> set (nodes db)" for m
    using that assms by (auto simp: branch_fits_def g_def)
  ultimately have "effect pid R B F db (nodes_update (map g) db)" by (auto simp: effect_def)
  then show ?thesis by (simp add: g_def)
qed

lemma effect_insert_edge:
  assumes "insert_edge e db = Inr db'" "e_project_id e = pid" "e_from_node_id e \<in> R" "e_to_node_id e \<in> R" "R \<inter> F = {}"
  shows "effect pid R B F db db'"
  using assms insert_edge_frame [OF assms(1)]
  by (auto simp: effect_def branch_fits_append get_node_row_def new_edge_fits_def)

lemma effect_insert_block:
  assumes "insert_block b db = Inr db'" "b_node_id b \<in> R" "R \<inter> F = {}"
  shows "effect pid R B F db db'"
  using assms by (auto simp: effect_def branch_fits_append get_node_row_def insert_block_Inr)

lemma effect_deep_copy:
  assumes copy: "deep_copy_branch env pid source name description actor db = Inr (branch, k, db')"
    and "schema_ok db" "uuid env 0 \<noteq> []" "F \<subseteq> node_ids db"
  shows "effect pid R B F db db'" "branch_owner (branches db') (uuid env 0) = Some pid" "node_ids db \<subseteq> node_ids db'"
proof -
  define subtree where "subtree = copied_subtree db pid source"
  define m where "m = id_map env subtree"
  note app = deep_copy_appends [OF copy, folded subtree_def, folded m_def]
  note fresh = deep_copy_fresh [OF copy assms(2), folded subtree_def, folded m_def]
  from copy obtain db1 where br: "branch = \<lparr>br_id = uuid env 0, br_project_id = pid, br_name = name, br_description = Some description,
     br_source_node_id = Some source, br_status = ''active'', br_created_at = now env, br_revision = 1\<rparr>"
    and "insert_branch branch db = Inr db1" by (rule deep_copy_steps)
  then have new: "br_id branch \<notin> branch_ids db" by (simp add: insert_branch_Inr)
  show bown: "branch_owner (branches db') (uuid env 0) = Some pid"
    using new by (auto simp: app(4) br branch_owner_def row_get_append row_get_single row_get_None [symmetric] split: option.splits)
  show "node_ids db \<subseteq> node_ids db'" by (auto simp: app(1))
  have outside: "m x \<notin> F" "m x \<notin> node_ids db" if "x \<in> set subtree" for x using fresh(2) that assms(4) by blast+
  have own: "owner (nodes db') (m x) = Some pid" if "x \<in> set subtree" for x
    using owner_get [OF deep_copy_node [OF copy assms(2), of x]] that by (simp add: subtree_def m_def copy_node_def)
  have "distinct (map n_id (nodes db))" using assms(2) by (simp add: schema_ok_def keys_ok_def)
  show "effect pid R B F db db'"
  proof (rule effectI [OF app(5)])
    show "owner (nodes db) i = Some p \<Longrightarrow> owner (nodes db') i = Some p" for i p by (simp add: app(1) owner_append_fresh)
    show "branch_owner (branches db) b = Some p \<Longrightarrow> branch_owner (branches db') b = Some p" for b p
      by (auto simp: app(4) branch_owner_def row_get_append split: option.splits)
    show "get_node_row db' i = get_node_row db i" if "i \<in> F" for i
      using that assms(4) by (auto simp: get_node_row_def app(1) row_get_append row_get_None split: option.splits)
    show "new_edge_fits pid R F (nodes db') e" if "e \<in> set (map (\<lambda>(j, e). normalize_edge (copy_edge env pid m
       (uuid env (1 + length subtree + length (subtree_blocks db subtree) + j)) e)) (List.enumerate 0 (subtree_edges db pid subtree)))" for e
      using that outside own by (auto simp: new_edge_fits_def copy_edge_def subtree_edges_def in_set_enumerate_eq dest!: nth_mem)
    show "b_node_id b \<notin> F" if "b \<in> set (map (\<lambda>(j, b). copy_block env actor (uuid env (1 + length subtree + j))
       (m (b_node_id b)) b) (List.enumerate 0 (subtree_blocks db subtree)))" for b
      using that outside by (auto simp: copy_block_def subtree_blocks_def in_set_enumerate_eq dest!: nth_mem)
    show "branch_fits pid B db db' n" if "n \<in> set (nodes db')" for n
      using that bown by (auto simp: app(1) branch_fits_def copy_node_def)
    show "[] \<notin> br_id ` set [branch]" using assms(3) by (simp add: br)
  qed (use app in simp_all)
qed

section \<open>The effect of a batch\<close>

text \<open>\<open>op_fits\<close>: the references of an operation lie in \<open>R\<close>, its branch in \<open>B\<close>, and what it creates is named.\<close>

fun op_fits :: "ident set \<Rightarrow> ident set \<Rightarrow> operation \<Rightarrow> bool" where
  "op_fits R B (CreateNode c) \<longleftrightarrow> (\<exists>i. cn_id c = Some i \<and> i \<in> R) \<and>
     (truthy (cn_parent_id c) \<longrightarrow> the (cn_parent_id c) \<in> R) \<and> (\<forall>b. cn_branch_id c = Some b \<longrightarrow> b \<in> B)"
| "op_fits R B (UpdateNode u) \<longleftrightarrow> un_node_id u \<in> R"
| "op_fits R B (CreateEdge c) \<longleftrightarrow> ce_from_node_id c \<in> R \<and> ce_to_node_id c \<in> R"
| "op_fits R B (CreateBlock c) \<longleftrightarrow> cb_node_id c \<in> R"
| "op_fits R B (CreateBranch c) \<longleftrightarrow> (\<exists>i. cr_id c = Some i \<and> i \<noteq> [])"

fun row_fits :: "ident \<Rightarrow> ident set \<Rightarrow> pending_row \<Rightarrow> bool" where
  "row_fits pid R (PendingEdge e) \<longleftrightarrow> e_project_id e = pid \<and> e_from_node_id e \<in> R \<and> e_to_node_id e \<in> R"
| "row_fits pid R (PendingBlock b) \<longleftrightarrow> b_node_id b \<in> R"

text \<open>What an executed operation has left behind.\<close>

fun op_done :: "ident \<Rightarrow> db \<Rightarrow> operation \<Rightarrow> bool" where
  "op_done pid db (CreateNode c) \<longleftrightarrow> owner (nodes db) (the (cn_id c)) = Some pid"
| "op_done pid db (CreateBranch c) \<longleftrightarrow> branch_owner (branches db) (the (cr_id c)) = Some pid"
| "op_done pid db _ \<longleftrightarrow> True"

lemma op_done_effect: "op_done pid db op \<Longrightarrow> effect pid R B F db db' \<Longrightarrow> op_done pid db' op"
  by (cases op) (auto dest: effectD(2,3))

text \<open>The state of the loop, relative to the database \<open>db0\<close> it started from.\<close>

definition work_ok :: "ident \<Rightarrow> ident set \<Rightarrow> ident set \<Rightarrow> ident set \<Rightarrow> db \<Rightarrow> work \<Rightarrow> bool" where
  "work_ok pid R B F db0 wk \<longleftrightarrow>
     schema_ok (wk_db wk) \<and> effect pid R B F db0 (wk_db wk) \<and> node_ids db0 \<subseteq> node_ids (wk_db wk) \<and>
     (\<forall>r \<in> set (wk_pending wk). row_fits pid R r)"

lemma insert_row_ok:
  assumes "insert_row r db = Inr db'" "row_fits pid R r" "R \<inter> F = {}" "schema_ok db"
  shows "schema_ok db' \<and> effect pid R B F db db' \<and> nodes db' = nodes db"
proof (cases r)
  case (PendingEdge e)
  then have ins: "insert_edge e db = Inr db'" using assms(1) by simp
  show ?thesis
    using effect_insert_edge [OF ins, of pid R F] schema_insert_edge [OF ins] insert_edge_frame [OF ins] assms PendingEdge by simp
next
  case (PendingBlock b)
  then have ins: "insert_block b db = Inr db'" using assms(1) by simp
  show ?thesis using effect_insert_block [OF ins, of R F] schema_insert_block [OF ins] assms PendingBlock
    by (simp add: insert_block_Inr)
qed

lemma flush_ok:
  assumes "flush wk = Inr wk'" "work_ok pid R B F db0 wk" "R \<inter> F = {}"
  shows "work_ok pid R B F db0 wk'" "wk_pending wk' = []" "wk_draws wk' = wk_draws wk" "nodes (wk_db wk') = nodes (wk_db wk)"
    "effect pid R B F (wk_db wk) (wk_db wk')"
proof -
  from assms(1) obtain db where run: "fold_result insert_row (wk_pending wk) (wk_db wk) = Inr db"
    and wk': "wk' = wk\<lparr>wk_db := db, wk_pending := []\<rparr>" by (auto simp: flush_def result_simps)
  have "schema_ok db \<and> effect pid R B F (wk_db wk) db \<and> nodes db = nodes (wk_db wk)"
  proof (rule fold_result_invariant [OF run])
    show "schema_ok (wk_db wk) \<and> effect pid R B F (wk_db wk) (wk_db wk) \<and> nodes (wk_db wk) = nodes (wk_db wk)"
      using assms(2) by (simp add: work_ok_def effect_refl)
  next
    fix r d d'
    assume r: "r \<in> set (wk_pending wk)" and d: "schema_ok d \<and> effect pid R B F (wk_db wk) d \<and> nodes d = nodes (wk_db wk)"
      and ins: "insert_row r d = Inr d'"
    have "row_fits pid R r" using r assms(2) by (simp add: work_ok_def)
    from insert_row_ok [OF ins this assms(3)] d show "schema_ok d' \<and> effect pid R B F (wk_db wk) d' \<and> nodes d' = nodes (wk_db wk)"
      by (auto intro: effect_trans)
  qed
  then show "work_ok pid R B F db0 wk'" "wk_pending wk' = []" "wk_draws wk' = wk_draws wk" "nodes (wk_db wk') = nodes (wk_db wk)"
    "effect pid R B F (wk_db wk) (wk_db wk')"
    using assms(2) by (auto simp: wk' work_ok_def intro: effect_trans)
qed

fun op_new :: "db \<Rightarrow> operation \<Rightarrow> bool" where
  "op_new db (CreateNode c) \<longleftrightarrow> the (cn_id c) \<notin> node_ids db"
| "op_new db _ \<longleftrightarrow> True"

lemma work_ok_step:
  assumes "work_ok pid R B F db0 wk" "schema_ok (wk_db wk')" "effect pid R B F (wk_db wk) (wk_db wk')"
    "node_ids (wk_db wk) \<subseteq> node_ids (wk_db wk')" "\<And>r. r \<in> set (wk_pending wk') \<Longrightarrow> row_fits pid R r"
  shows "work_ok pid R B F db0 wk'"
proof -
  have "node_ids db0 \<subseteq> node_ids (wk_db wk')" using assms(1,4) unfolding work_ok_def by (meson order_trans)
  then show ?thesis using assms(1,2,5) effect_trans [OF _ assms(3)] unfolding work_ok_def by simp
qed

lemma work_ok_base: "work_ok pid R B F db0 wk \<Longrightarrow> F \<subseteq> node_ids db0 \<Longrightarrow> F \<subseteq> node_ids (wk_db wk)"
  by (auto simp: work_ok_def)

lemma exec_create_node:
  assumes "exec_op env pid actor i (CreateNode c) wk = Inr wk'" "work_ok pid R B F db0 wk" "op_fits R B (CreateNode c)"
    "R \<inter> F = {}" "F \<subseteq> node_ids db0"
  shows "work_ok pid R B F db0 wk' \<and> effect pid R B F (wk_db wk) (wk_db wk') \<and> op_done pid (wk_db wk') (CreateNode c) \<and> op_new db0 (CreateNode c)"
proof -
  let ?n = "batch_node env pid actor c"
  from assms(1) obtain wk1 db where fl: "flush wk = Inr wk1" and ins: "insert_node ?n (wk_db wk1) = Inr db"
    and wk': "wk_db wk' = db" "set (wk_pending wk') \<subseteq> set (wk_pending wk1) \<union>
      (if truthy (cn_parent_id c) then {PendingEdge (new_edge env (uuid env (wk_draws wk1)) pid (the (cn_parent_id c)) (the (cn_id c)) False)} else {})"
    by (auto simp: result_simps Let_def split: if_splits)
  note f = flush_ok [OF fl assms(2,4)]
  have n: "n_project_id ?n = pid" "n_id ?n = the (cn_id c)" "n_branch_id ?n = cn_branch_id c" by (simp_all add: batch_node_def)
  have B: "\<And>b. n_branch_id ?n = Some b \<Longrightarrow> b \<in> B" using assms(3) by (simp add: n)
  note eff = effect_insert_node(1) [OF ins work_ok_base [OF f(1) assms(5)] n(1) B, where R = R]
  note e = effect_insert_node(2-4) [OF ins work_ok_base [OF f(1) assms(5)] n(1) B]
  have fits: "row_fits pid R r" if "r \<in> set (wk_pending wk')" for r
    using that wk'(2) f(2) assms(3) by (auto split: if_splits)
  have "work_ok pid R B F db0 wk'"
    using f(1) schema_insert_node [OF ins] eff e(3) fits
    by (intro work_ok_step [OF f(1)]) (simp_all add: wk'(1) work_ok_def)
  moreover have "effect pid R B F (wk_db wk) (wk_db wk')" using effect_trans [OF f(5) eff] by (simp add: wk'(1))
  moreover have "the (cn_id c) \<notin> node_ids db0" using e(2) f(1) by (auto simp: work_ok_def n)
  ultimately show ?thesis using e(1) by (simp add: n wk'(1))
qed

lemma exec_create_branch:
  assumes "exec_op env pid actor i (CreateBranch c) wk = Inr wk'" "work_ok pid R B F db0 wk" "op_fits R B (CreateBranch c)"
    "R \<inter> F = {}" "F \<subseteq> node_ids db0"
  shows "work_ok pid R B F db0 wk' \<and> effect pid R B F (wk_db wk) (wk_db wk') \<and> op_done pid (wk_db wk') (CreateBranch c)"
proof -
  from assms(1) obtain wk1 branch k where fl: "flush wk = Inr wk1" and
    copy: "deep_copy_branch (branch_env env (the (cr_id c)) (wk_draws wk1)) pid (cr_source_node_id c)
       (strip (cr_name c)) (cr_description c) actor (wk_db wk1) = Inr (branch, k, wk_db wk')" and pend: "wk_pending wk' = wk_pending wk1"
    by (auto simp: result_simps)
  note f = flush_ok [OF fl assms(2,4)]
  have bid: "uuid (branch_env env (the (cr_id c)) (wk_draws wk1)) 0 = the (cr_id c)" by (simp add: branch_env_def)
  have ok: "schema_ok (wk_db wk1)" using f(1) by (simp add: work_ok_def)
  have named: "uuid (branch_env env (the (cr_id c)) (wk_draws wk1)) 0 \<noteq> []" using assms(3) by (auto simp: bid)
  note copy' = copy ok named work_ok_base [OF f(1) assms(5)]
  note eff = effect_deep_copy(1) [OF copy', where R = R and B = B]
  note e = effect_deep_copy(2,3) [OF copy', unfolded bid]
  have "work_ok pid R B F db0 wk'"
    using deep_copy_schema [OF copy ok] eff e(2) f(2) by (intro work_ok_step [OF f(1)]) (simp_all add: pend)
  then show ?thesis using effect_trans [OF f(5) eff] e(1) by simp
qed

lemma exec_op_ok:
  assumes "exec_op env pid actor i op wk = Inr wk'" "work_ok pid R B F db0 wk" "op_fits R B op" "R \<inter> F = {}" "F \<subseteq> node_ids db0"
  shows "work_ok pid R B F db0 wk' \<and> effect pid R B F (wk_db wk) (wk_db wk') \<and> op_done pid (wk_db wk') op \<and> op_new db0 op"
proof (cases op)
  case (CreateNode c)
  then show ?thesis using exec_create_node assms by blast
next
  case (CreateBranch c)
  then show ?thesis using exec_create_branch [of env pid actor i c wk wk'] assms by simp
next
  case (UpdateNode u)
  let ?f = "apply_node_fields actor (un_fields u)"
  have wk': "wk_db wk' = nodes_update (map (\<lambda>n. if n_id n \<in> {un_node_id u} then ?f n else n)) (wk_db wk)" "wk_pending wk' = wk_pending wk"
    using assms(1) UpdateNode by (auto simp: row_update_def [abs_def] split: option.splits)
  have f: "n_id (?f n) = n_id n" "n_project_id (?f n) = n_project_id n" "n_branch_id (?f n) = n_branch_id n" for n
    by (simp_all add: apply_node_fields_def)
  have eff: "effect pid R B F (wk_db wk) (wk_db wk')" unfolding wk'(1)
    using assms(3,4) UpdateNode by (intro effect_update_node) (auto simp: f)
  have schema: "schema_ok (wk_db wk')" unfolding wk'(1)
    using assms(2) by (intro schema_map_nodes) (simp_all add: f work_ok_def)
  have "map n_id (nodes (wk_db wk')) = map n_id (nodes (wk_db wk))" by (simp add: wk'(1) f)
  then have "node_ids (wk_db wk) \<subseteq> node_ids (wk_db wk')" by (metis list.set_map order_refl)
  then have "work_ok pid R B F db0 wk'"
    using assms(2) by (intro work_ok_step [OF assms(2) schema eff]) (simp_all add: wk'(2) work_ok_def)
  then show ?thesis using eff UpdateNode by simp
next
  case (CreateEdge c)
  then have "wk_db wk' = wk_db wk" "wk_pending wk' = wk_pending wk @ [PendingEdge (batch_edge env pid c)]" using assms(1) by auto
  then show ?thesis using assms(2,3) CreateEdge by (auto simp: work_ok_def effect_refl batch_edge_def)
next
  case (CreateBlock c)
  then have "wk_db wk' = wk_db wk" "wk_pending wk' = wk_pending wk @ [PendingBlock (batch_block env actor c)]" using assms(1) by auto
  then show ?thesis using assms(2,3) CreateBlock by (auto simp: work_ok_def effect_refl batch_block_def)
qed

lemma run_operations_ok:
  assumes "fold_result (\<lambda>i. exec_op env pid actor i (ops ! i)) order wk = Inr wk'" "work_ok pid R B F db0 wk"
    "\<And>i. i \<in> set order \<Longrightarrow> op_fits R B (ops ! i)" "R \<inter> F = {}" "F \<subseteq> node_ids db0"
  shows "work_ok pid R B F db0 wk' \<and> effect pid R B F (wk_db wk) (wk_db wk') \<and>
    (\<forall>i \<in> set order. op_done pid (wk_db wk') (ops ! i) \<and> op_new db0 (ops ! i))"
  using assms(1-3)
proof (induction order arbitrary: wk)
  case (Cons i order)
  from Cons.prems(1) obtain wk1 where 1: "exec_op env pid actor i (ops ! i) wk = Inr wk1"
    and 2: "fold_result (\<lambda>i. exec_op env pid actor i (ops ! i)) order wk1 = Inr wk'" by (auto simp: result_simps)
  have a: "work_ok pid R B F db0 wk1 \<and> effect pid R B F (wk_db wk) (wk_db wk1) \<and> op_done pid (wk_db wk1) (ops ! i) \<and> op_new db0 (ops ! i)"
    by (rule exec_op_ok [OF 1 Cons.prems(2)]) (use Cons.prems(3) assms(4,5) in auto)
  then have b: "work_ok pid R B F db0 wk' \<and> effect pid R B F (wk_db wk1) (wk_db wk') \<and>
      (\<forall>i \<in> set order. op_done pid (wk_db wk') (ops ! i) \<and> op_new db0 (ops ! i))"
    by (intro Cons.IH [OF 2]) (use Cons.prems(3) in auto)
  show ?case using a b effect_trans op_done_effect by (auto 0 4)
qed (simp add: effect_refl)

section \<open>What validation establishes\<close>

definition created_nodes :: "operation list \<Rightarrow> ident set" where
  "created_nodes ops = {i. \<exists>c. CreateNode c \<in> set ops \<and> cn_id c = Some i}"

definition created_branches :: "operation list \<Rightarrow> ident set" where
  "created_branches ops = {i. \<exists>c. CreateBranch c \<in> set ops \<and> cr_id c = Some i}"

lemma valid_uuid_not_empty: "valid_uuid i \<Longrightarrow> i \<noteq> []"
  by (auto simp: valid_uuid_def)

lemma reserve_ids_named:
  "reserve_ids env k used ops = Inr (ops', k') \<Longrightarrow> op \<in> set ops' \<Longrightarrow> is_create op \<Longrightarrow> \<exists>i. created_id op = Some i \<and> i \<noteq> []"
proof (induction ops arbitrary: k used ops')
  case (Cons a ops)
  have set_id: "is_create a \<Longrightarrow> created_id (set_created_id i a) = Some i" for i by (cases a) simp_all
  show ?case
  proof (cases "is_create a")
    case True
    then obtain oid k1 ops1 where "valid_uuid oid" "reserve_ids env k1 (oid # used) ops = Inr (ops1, k')" "ops' = set_created_id oid a # ops1"
      using Cons.prems(1) by (auto simp: Let_def result_simps split: if_splits)
    then show ?thesis using Cons.IH [of k1 "oid # used" ops1] Cons.prems(2,3) set_id [OF True] valid_uuid_not_empty by auto
  next
    case False
    then obtain ops1 where "reserve_ids env k used ops = Inr (ops1, k')" "ops' = a # ops1"
      using Cons.prems(1) by (auto simp: result_simps)
    then show ?thesis using Cons.IH [of k used ops1] Cons.prems(2,3) False by auto
  qed
qed simp

fun same_create :: "operation \<Rightarrow> operation \<Rightarrow> bool" where
  "same_create (CreateNode c) op' \<longleftrightarrow> (\<exists>c'. op' = CreateNode c' \<and> cn_id c' = cn_id c)"
| "same_create op op' \<longleftrightarrow> op' = op"

fun new_ids :: "operation \<Rightarrow> ident set" where
  "new_ids (CreateNode c) = {the (cn_id c)}"
| "new_ids _ = {}"

lemma inherit_branch_frame:
  "inherit_branch pn c = Inr c' \<Longrightarrow> cn_id c' = cn_id c \<and> cn_parent_id c' = cn_parent_id c"
  by (auto simp: inherit_branch_def Let_def split: if_splits)

lemma check_new_branch_in:
  "check_new_branch grant known bs nb bid = Inr u \<Longrightarrow> bid = Some b \<Longrightarrow> b \<in> br_id ` set bs \<union> set nb \<union> {[]}"
  by (auto simp: check_new_branch_def result_simps truthy_def split: if_splits option.splits dest!: row_get_Some)

lemma validate_create_node:
  assumes "validate_op models grant known bs nb (CreateNode c) vl = Inr (op', refs, vl')" "cn_id c = Some i"
  shows "same_create (CreateNode c) op'" "set (vl_allowed vl') \<subseteq> set (vl_allowed vl) \<union> {i}"
    "set refs \<subseteq> R \<Longrightarrow> i \<in> R \<Longrightarrow> op_fits R (br_id ` set bs \<union> set nb \<union> {[]}) op'"
proof -
  from assms obtain c' where c': "cn_id c' = cn_id c \<and> cn_parent_id c' = cn_parent_id c"
    and br: "check_new_branch grant known bs nb (cn_branch_id c') = Inr ()"
    and out: "op' = CreateNode c'" "refs = (if truthy (cn_parent_id c) then [the (cn_parent_id c)] else [])"
      "set (vl_allowed vl') \<subseteq> set (vl_allowed vl) \<union> {i}"
    by (auto simp: result_simps Let_def subset_insertI dest!: inherit_branch_frame split: if_splits)
  show "same_create (CreateNode c) op'" "set (vl_allowed vl') \<subseteq> set (vl_allowed vl) \<union> {i}" using c' out by simp_all
  show "set refs \<subseteq> R \<Longrightarrow> i \<in> R \<Longrightarrow> op_fits R (br_id ` set bs \<union> set nb \<union> {[]}) op'"
    using c' out(1,2) assms(2) check_new_branch_in [OF br] by (auto split: if_splits)
qed

lemma validate_op_fits:
  assumes "validate_op models grant known bs nb op vl = Inr (op', refs, vl')" "is_create op \<Longrightarrow> \<exists>i. created_id op = Some i \<and> i \<noteq> []"
  shows "same_create op op' \<and> set (vl_allowed vl') \<subseteq> set (vl_allowed vl) \<union> new_ids op \<and>
    (set refs \<subseteq> R \<longrightarrow> new_ids op \<subseteq> R \<longrightarrow> op_fits R (br_id ` set bs \<union> set nb \<union> {[]}) op')"
proof (cases op)
  case (CreateNode c)
  then obtain i where i: "cn_id c = Some i" using assms(2) by auto
  from assms(1) have v: "validate_op models grant known bs nb (CreateNode c) vl = Inr (op', refs, vl')" by (simp only: CreateNode)
  show ?thesis unfolding CreateNode
    using validate_create_node(1,2) [OF v i] validate_create_node(3) [OF v i, of R] i by (simp del: op_fits.simps)
next
  case (UpdateNode u)
  then have "op' = op \<and> refs = [un_node_id u] \<and> vl' = vl"
    using assms(1) by (auto simp: result_simps split: node_ref.split_asm if_splits; metis node_ref.exhaust)
  then show ?thesis using UpdateNode by simp
next
  case (CreateEdge c)
  then have "op' = op \<and> refs = [ce_from_node_id c, ce_to_node_id c] \<and> vl' = vl"
    using assms(1) by (auto simp: result_simps split: if_splits)
  then show ?thesis using CreateEdge by simp
next
  case (CreateBlock c)
  then have "op' = op \<and> refs = [cb_node_id c] \<and> vl' = vl" using assms(1) by (auto simp: result_simps)
  then show ?thesis using CreateBlock by simp
next
  case (CreateBranch c)
  then have "op' = op \<and> vl' = vl" using assms(1) by (auto simp: result_simps split: if_splits)
  then show ?thesis using CreateBranch assms(2) by simp
qed

lemma validate_ops_fit:
  assumes "validate_ops models grant known bs nb ops vl = Inr ops'" "\<And>op. op \<in> set ops \<Longrightarrow> is_create op \<Longrightarrow> \<exists>i. created_id op = Some i \<and> i \<noteq> []"
    "set (vl_allowed vl) \<subseteq> R" "\<Union>(new_ids ` set ops) \<subseteq> R"
  shows "list_all2 same_create ops ops' \<and> (\<forall>op \<in> set ops'. op_fits R (br_id ` set bs \<union> set nb \<union> {[]}) op)"
  using assms
proof (induction ops arbitrary: vl ops')
  case (Cons op ops)
  from Cons.prems(1) obtain op' refs vl' ops1 where 1: "validate_op models grant known bs nb op vl = Inr (op', refs, vl')"
    "\<forall>r \<in> set refs. r \<in> set (vl_allowed vl')" "validate_ops models grant known bs nb ops vl' = Inr ops1" "ops' = op' # ops1"
    by (auto simp: result_simps list_ex_iff split: if_splits)
  have fits: "same_create op op' \<and> set (vl_allowed vl') \<subseteq> set (vl_allowed vl) \<union> new_ids op \<and>
    (set refs \<subseteq> R \<longrightarrow> new_ids op \<subseteq> R \<longrightarrow> op_fits R (br_id ` set bs \<union> set nb \<union> {[]}) op')"
    by (rule validate_op_fits [OF 1(1)]) (use Cons.prems(2) in auto)
  then have allowed: "set (vl_allowed vl') \<subseteq> R" using Cons.prems(3,4) by auto
  have "list_all2 same_create ops ops1 \<and> (\<forall>op \<in> set ops1. op_fits R (br_id ` set bs \<union> set nb \<union> {[]}) op)"
    by (rule Cons.IH [OF 1(3)]) (use Cons.prems allowed in auto)
  then show ?case using fits 1(2,4) allowed Cons.prems(4) by auto
qed simp

lemma same_create_sets:
  assumes "list_all2 same_create ops ops'" "\<And>op. op \<in> set ops \<Longrightarrow> is_create op \<Longrightarrow> \<exists>i. created_id op = Some i \<and> i \<noteq> []"
  shows "\<Union>(new_ids ` set ops) = created_nodes ops'" "set (new_branch_ids ops) = created_branches ops'"
  using assms
proof (induction rule: list_all2_induct)
  case (Cons op ops op' ops')
  {
    case 1
    then have IH: "\<Union>(new_ids ` set ops) = created_nodes ops'" using Cons.IH(1) by auto
    have "created_nodes (op' # ops') = new_ids op \<union> created_nodes ops'"
      using Cons.hyps(1) 1 [of op] by (cases op) (auto simp: created_nodes_def)
    then show ?case using IH by simp
  next
    case 2
    then have IH: "set (new_branch_ids ops) = created_branches ops'" using Cons.IH(2) by auto
    show ?case using Cons.hyps(1) IH 2 [of op] by (cases op) (auto simp: created_branches_def)
  }
qed (simp_all add: created_nodes_def created_branches_def)

lemma validate_operations_fit:
  assumes "validate_operations env models grant operations db = Inr (ops, k)"
  obtains allowed where "allowed_nodes grant db = Inr allowed"
    "\<And>op. op \<in> set ops \<Longrightarrow> op_fits (set allowed \<union> created_nodes ops)
       (br_id ` {b \<in> set (branches db). br_project_id b = g_project_id grant} \<union> created_branches ops \<union> {[]}) op"
proof -
  let ?known = "filter (\<lambda>n. n_project_id n = g_project_id grant) (nodes db)"
  let ?bs = "filter (\<lambda>b. br_project_id b = g_project_id grant) (branches db)"
  from assms obtain allowed ops0 where allowed: "allowed_nodes grant db = Inr allowed"
    and res: "reserve_ids env 0 (map n_id ?known @ map br_id ?bs) operations = Inr (ops0, k)"
    and val: "validate_ops models grant ?known ?bs (new_branch_ids ops0) ops0
        \<lparr>vl_allowed = allowed, vl_new_nodes = new_node_entries ops0\<rparr> = Inr ops"
    by (auto simp: validate_operations_def Let_def result_simps)
  note named = reserve_ids_named [OF res]
  let ?R = "set allowed \<union> \<Union>(new_ids ` set ops0)"
  have fit: "list_all2 same_create ops0 ops \<and> (\<forall>op \<in> set ops. op_fits ?R (br_id ` set ?bs \<union> set (new_branch_ids ops0) \<union> {[]}) op)"
    by (rule validate_ops_fit [OF val]) (use named in auto)
  note sets = same_create_sets [OF conjunct1 [OF fit] named]
  show ?thesis by (rule that [OF allowed]) (use fit in \<open>simp add: sets\<close>)
qed

lemma effect_frame:
  "projects db' = projects db \<Longrightarrow> nodes db' = nodes db \<Longrightarrow> edges db' = edges db \<Longrightarrow> content_blocks db' = content_blocks db \<Longrightarrow>
     branches db' = branches db \<Longrightarrow> effect pid R B F db db'"
  by (rule effectI [where es = "[]" and bs = "[]" and rs = "[]"]) (simp_all add: get_node_row_def branch_fits_append)

lemma settle_proposal_frame [simp]:
  "projects (settle_proposal env p db) = projects db" "nodes (settle_proposal env p db) = nodes db"
  "edges (settle_proposal env p db) = edges db" "content_blocks (settle_proposal env p db) = content_blocks db"
  "branches (settle_proposal env p db) = branches db" "agent_receipts (settle_proposal env p db) = agent_receipts db"
  "agent_grants (settle_proposal env p db) = agent_grants db"
  by (auto simp: settle_proposal_def split: option.splits prod.splits)

lemma schema_settle: "schema_ok db \<Longrightarrow> schema_ok (settle_proposal env p db)"
  by (auto simp: settle_proposal_def row_update_def [abs_def] split: option.splits prod.splits intro!: schema_map_proposals)

lemma settle_ok:
  assumes "work_ok pid R B F db0 wk" "set ids \<subseteq> R" "R \<inter> F = {}"
    and wk'_def: "wk' = wk\<lparr>wk_db := settle_proposal env proposal (bump_touched env ids (wk_db wk))\<rparr>"
  shows "work_ok pid R B F db0 wk'" "effect pid R B F (wk_db wk) (wk_db wk')"
proof -
  have "effect pid R B F (wk_db wk) (bump_touched env ids (wk_db wk))"
    using assms(2,3) unfolding bump_touched_def by (intro effect_update_node) auto
  then show eff: "effect pid R B F (wk_db wk) (wk_db wk')"
    using effect_trans effect_frame [of "wk_db wk'" "bump_touched env ids (wk_db wk)"] by (simp add: wk'_def)
  have "schema_ok (bump_touched env ids (wk_db wk))"
    unfolding bump_touched_def using assms(1) by (intro schema_map_nodes) (simp_all add: work_ok_def)
  then have schema: "schema_ok (wk_db wk')" by (simp add: wk'_def schema_settle)
  have "map n_id (nodes (wk_db wk')) = map n_id (nodes (wk_db wk))" by (simp add: wk'_def bump_touched_def)
  then have "node_ids (wk_db wk) \<subseteq> node_ids (wk_db wk')" by (metis list.set_map order_refl)
  then show "work_ok pid R B F db0 wk'"
    using assms(1) by (intro work_ok_step [OF assms(1) schema eff]) (simp_all add: wk'_def work_ok_def)
qed

lemma op_touches_fit: "op_fits R B op \<Longrightarrow> set (op_touches op) \<subseteq> R"
  by (cases op) (auto split: if_splits)

text \<open>A fresh batch, from the claimed project to the committed rows.\<close>

lemma batch_effect:
  assumes "apply_batch_serialized env dg grant body actor proposal db = Inr (response, db')"
    "find_receipt (g_id grant) (bt_idempotency_key body) db = Inr None" "db_ok db"
  obtains db1 ops allowed where "claim_project_revision env (g_project_id grant) (bt_expected_project_revision body) db = Inr db1"
    "allowed_nodes grant db = Inr allowed" "schema_ok db'" "created_nodes ops \<inter> node_ids db = {}"
    "\<And>i. i \<in> created_nodes ops \<Longrightarrow> owner (nodes db') i = Some (g_project_id grant)"
    "\<And>i. i \<in> created_branches ops \<Longrightarrow> branch_owner (branches db') i = Some (g_project_id grant)"
    "effect (g_project_id grant) (set allowed \<union> created_nodes ops)
       (br_id ` {b \<in> set (branches db). br_project_id b = g_project_id grant} \<union> created_branches ops \<union> {[]})
       (node_ids db - set allowed) db1 db'"
proof -
  let ?pid = "g_project_id grant" and ?who = "or_default actor (g_agent_identity grant)"
  from assms(1,2) obtain ops k order db1 wk wk1 db2 receipt entry where
    val: "validate_operations env False grant (bt_operations body) db = Inr (ops, k)" and
    order: "execution_order (dependencies ops) [0..<length ops] [] = Inr order" and
    claim: "claim_project_revision env ?pid (bt_expected_project_revision body) db = Inr db1" and
    run: "run_operations env ?pid ?who ops order (Suc (Suc k)) db1 = Inr wk" and
    fl: "flush (wk\<lparr>wk_db := settle_proposal env proposal (bump_touched env (touched_existing ?pid ops db1) (wk_db wk))\<rparr>) = Inr wk1" and
    fin: "insert_receipt receipt (wk_db wk1) = Inr db2" "insert_log entry db2 = Inr db'"
    by (rule apply_batch_steps)
  from val obtain allowed where allowed: "allowed_nodes grant db = Inr allowed" and
    fits: "\<And>op. op \<in> set ops \<Longrightarrow> op_fits (set allowed \<union> created_nodes ops)
       (br_id ` {b \<in> set (branches db). br_project_id b = ?pid} \<union> created_branches ops \<union> {[]}) op"
    by (rule validate_operations_fit) blast
  define R where "R = set allowed \<union> created_nodes ops"
  define B where "B = br_id ` {b \<in> set (branches db). br_project_id b = ?pid} \<union> created_branches ops \<union> {[]}"
  define F where "F = node_ids db - R"
  have same: "nodes db1 = nodes db" by (rule claim_frame [OF claim])
  have ok1: "schema_ok db1" using schema_claim [OF claim] assms(3) by auto
  have idx: "set order = {0..<length ops}" using execution_order_Inr [OF order] by (simp add: depends_first_def)
  have RF: "R \<inter> F = {}" "F \<subseteq> node_ids db1" by (auto simp: F_def same)
  let ?wk0 = "\<lparr>wk_db = db1, wk_pending = [], wk_draws = Suc (Suc k), wk_results = []\<rparr>"
  have start: "work_ok ?pid R B F db1 ?wk0" using ok1 by (simp add: work_ok_def effect_refl)
  have steps: "work_ok ?pid R B F db1 wk \<and> (\<forall>i \<in> set order. op_done ?pid (wk_db wk) (ops ! i) \<and> op_new db1 (ops ! i))"
    using run_operations_ok [OF run [unfolded run_operations_def] start _ RF] fits idx by (simp add: R_def B_def)
  then have executed: "op_done ?pid (wk_db wk) op \<and> op_new db1 op" if "op \<in> set ops" for op
    using that idx by (auto simp: in_set_conv_nth)
  have new: "created_nodes ops \<inter> node_ids db = {}" using executed by (force simp: created_nodes_def same)
  then have F: "F = node_ids db - set allowed" by (auto simp: F_def R_def)
  have "set (touched_existing ?pid ops db1) \<subseteq> R" using fits op_touches_fit unfolding touched_existing_def R_def by fastforce
  note settle = settle_ok [OF conjunct1 [OF steps] this RF(1) refl, of env proposal]
  note f = flush_ok [OF fl settle(1) RF(1)]
  have "effect ?pid R B F (wk_db wk1) db'"
    using insert_receipt_Inr [OF fin(1)] fin(2) by (intro effect_frame) (simp_all add: insert_log_Inr)
  then have to_end: "effect ?pid R B F (wk_db wk) db'" by (rule effect_trans [OF settle(2) effect_trans [OF f(5)]])
  have "effect ?pid R B F db1 (wk_db wk)" using steps by (simp add: work_ok_def)
  then have whole: "effect ?pid R B F db1 db'" using to_end by (rule effect_trans)
  have "schema_ok db2" using f(1) schema_insert_receipt [OF fin(1)] by (simp add: work_ok_def)
  then have "schema_ok db'" using schema_insert_log [OF fin(2)] by simp
  moreover have finished: "op_done ?pid db' op" if "op \<in> set ops" for op
    by (rule op_done_effect [OF conjunct1 [OF executed [OF that]] to_end])
  have "owner (nodes db') i = Some ?pid" if "i \<in> created_nodes ops" for i
    using that finished unfolding created_nodes_def by fastforce
  moreover have "branch_owner (branches db') i = Some ?pid" if "i \<in> created_branches ops" for i
    using that finished unfolding created_branches_def by fastforce
  ultimately show ?thesis using that [OF claim allowed _ new] whole unfolding F R_def B_def by blast
qed

section \<open>A batch keeps the invariants and claims one revision\<close>

lemma batch_replayed:
  assumes "apply_batch_serialized env dg grant body actor proposal db = Inr (response, db')"
    "find_receipt (g_id grant) (bt_idempotency_key body) db \<noteq> Inr None"
  shows "db' = db"
  using assms by (auto simp: apply_batch_serialized_def Let_def result_simps split: option.splits if_splits)

lemma batch_fresh_ok:
  assumes "apply_batch_serialized env dg grant body actor proposal db = Inr (response, db')"
    "find_receipt (g_id grant) (bt_idempotency_key body) db = Inr None" "db_ok db"
  shows "db_ok db'"
proof -
  let ?pid = "g_project_id grant"
  from assms obtain db1 ops allowed where
    claim: "claim_project_revision env ?pid (bt_expected_project_revision body) db = Inr db1" and
    allowed: "allowed_nodes grant db = Inr allowed" and schema: "schema_ok db'" and
    new: "\<And>i. i \<in> created_nodes ops \<Longrightarrow> owner (nodes db') i = Some ?pid"
      "\<And>i. i \<in> created_branches ops \<Longrightarrow> branch_owner (branches db') i = Some ?pid" and
    eff: "effect ?pid (set allowed \<union> created_nodes ops)
       (br_id ` {b \<in> set (branches db). br_project_id b = ?pid} \<union> created_branches ops \<union> {[]}) (node_ids db - set allowed) db1 db'"
    by (rule batch_effect) blast
  have ok1: "db_ok db1" using claim assms(3) by (rule ok_claim)
  note same = claim_frame [OF claim]
  have R: "owner (nodes db') x = Some ?pid" if "x \<in> set allowed \<union> created_nodes ops" for x
    using that new(1) allowed_nodes_scope [OF allowed assms(3)] effectD(2) [OF eff] by (auto simp: same(1))
  from eff obtain es rs where es: "edges db' = edges db1 @ es" "\<And>e. e \<in> set es \<Longrightarrow> new_edge_fits ?pid (set allowed \<union> created_nodes ops) (node_ids db - set allowed) (nodes db') e"
    and rs: "branches db' = branches db1 @ rs" "[] \<notin> br_id ` set rs" by (rule effect_adds) blast
  have "edges_owned (nodes db') (edges db1)"
    by (simp add: edges_owned_def effectD(2) [OF eff edge_owner(1) [OF ok1]] effectD(2) [OF eff edge_owner(2) [OF ok1]])
  moreover have "owner (nodes db') (e_from_node_id e) = Some (e_project_id e) \<and> owner (nodes db') (e_to_node_id e) = Some (e_project_id e)"
    if "e \<in> set es" for e
    using es(2) [OF that] R [of "e_from_node_id e"] R [of "e_to_node_id e"] by (auto simp: new_edge_fits_def)
  then have "edges_owned (nodes db') es" by (simp add: edges_owned_def)
  ultimately have edges: "edges_owned (nodes db') (edges db')" by (simp add: es(1) edges_owned_append)
  have named: "branches_named (branches db')" using ok1 rs by (auto simp: db_ok_def ownership_ok_def branches_named_def)
  have B: "branch_owner (branches db') b = Some ?pid"
    if "n \<in> set (nodes db')" "n_branch_id n = Some b" "b \<in> br_id ` {b \<in> set (branches db). br_project_id b = ?pid} \<union> created_branches ops \<union> {[]}" for n b
  proof -
    have "b \<in> branch_ids db'" using schema that(1,2) by (force simp: schema_defs node_refs_ok_def)
    then have "b \<noteq> []" using named unfolding branches_named_def by metis
    moreover have "branch_owner (branches db') (br_id r) = Some ?pid" if "r \<in> set (branches db)" "br_project_id r = ?pid" for r
      using that row_get_unique [OF ok_keys(5) [OF assms(3)] that(1)] effectD(3) [OF eff] by (simp add: branch_owner_def same(4))
    ultimately show ?thesis using that(3) new(2) by blast
  qed
  have "nodes_owned (branches db') (nodes db')"
    unfolding nodes_owned_def
  proof (intro ballI allI impI)
    fix n b assume n: "n \<in> set (nodes db')" "n_branch_id n = Some b"
    from effectD(5) [OF eff n(1)] n(2) consider m where "m \<in> set (nodes db1)" "n_branch_id m = Some b" "n_project_id m = n_project_id n"
      | "n_project_id n = ?pid" "branch_owner (branches db') b = Some ?pid" using B [OF n] unfolding branch_fits_def by blast
    then show "branch_owner (branches db') b = Some (n_project_id n)"
    proof cases
      case 1
      then have "branch_owner (branches db1) b = Some (n_project_id n)" using ok1 by (auto simp: db_ok_def ownership_ok_def nodes_owned_def)
      then show ?thesis by (rule effectD(3) [OF eff])
    qed simp
  qed
  moreover have "roots_owned (nodes db') (projects db')"
    using ok1 effectD(1,2) [OF eff] by (simp add: db_ok_def ownership_ok_def roots_owned_def)
  ultimately show ?thesis using schema edges named by (simp add: db_ok_def ownership_ok_def)
qed

lemma apply_batch_ok:
  "apply_batch_serialized env dg grant body actor proposal db = Inr (response, db') \<Longrightarrow> db_ok db \<Longrightarrow> db_ok db'"
  using batch_fresh_ok batch_replayed by metis

lemma batch_claims:
  assumes "apply_batch_serialized env dg grant body actor proposal db = Inr (response, db')"
    "find_receipt (g_id grant) (bt_idempotency_key body) db = Inr None" "db_ok db"
  obtains db1 allowed R B where "claim_project_revision env (g_project_id grant) (bt_expected_project_revision body) db = Inr db1"
    "allowed_nodes grant db = Inr allowed" "effect (g_project_id grant) R B (node_ids db - set allowed) db1 db'"
  by (rule batch_effect [OF assms]) (rule that)

lemma apply_batch_advances:
  assumes "apply_batch_serialized env dg grant body actor proposal db = Inr (response, db')" "db_ok db"
    "find_receipt (g_id grant) (bt_idempotency_key body) db = Inr None"
  shows "advances db (g_project_id grant) (bt_expected_project_revision body) db'"
proof -
  obtain db1 allowed R B where
    claim: "claim_project_revision env (g_project_id grant) (bt_expected_project_revision body) db = Inr db1" and
    eff: "effect (g_project_id grant) R B (node_ids db - set allowed) db1 db'" by (rule batch_claims [OF assms(1,3,2)])
  show ?thesis by (rule claim_advances [OF claim effectD(1) [OF eff]])
qed

text \<open>
  C19: A batch that is not a replay moves its project's revision from the expected one to the next, and
  changes nothing outside the scope of its grant: every other node keeps its row, no edge or block that existed changes, and
  no new edge or block touches a node outside the scope.
\<close>

theorem batch_confined_to_scope:
  assumes "apply_batch_serialized env dg grant body actor proposal db = Inr (response, db')" "db_ok db"
  shows "db' = db \<or> (\<exists>allowed es bs rs. allowed_nodes grant db = Inr allowed \<and>
    advances db (g_project_id grant) (bt_expected_project_revision body) db' \<and>
    (\<forall>i \<in> node_ids db - set allowed. get_node_row db' i = get_node_row db i) \<and>
    edges db' = edges db @ es \<and> content_blocks db' = content_blocks db @ bs \<and> branches db' = branches db @ rs \<and>
    (\<forall>e \<in> set es. e_from_node_id e \<notin> node_ids db - set allowed \<and> e_to_node_id e \<notin> node_ids db - set allowed) \<and>
    (\<forall>b \<in> set bs. b_node_id b \<notin> node_ids db - set allowed))"
proof (cases "find_receipt (g_id grant) (bt_idempotency_key body) db = Inr None")
  case True
  obtain db1 allowed R B where
    claim: "claim_project_revision env (g_project_id grant) (bt_expected_project_revision body) db = Inr db1" and
    allowed: "allowed_nodes grant db = Inr allowed" and eff: "effect (g_project_id grant) R B (node_ids db - set allowed) db1 db'"
    by (rule batch_claims [OF assms(1) True assms(2)])
  note same = claim_frame [OF claim]
  from eff obtain es bs rs where "edges db' = edges db1 @ es" "\<And>e. e \<in> set es \<Longrightarrow> new_edge_fits (g_project_id grant) R (node_ids db - set allowed) (nodes db') e"
    "content_blocks db' = content_blocks db1 @ bs" "\<And>b. b \<in> set bs \<Longrightarrow> b_node_id b \<notin> node_ids db - set allowed"
    "branches db' = branches db1 @ rs" by (rule effect_adds) blast
  moreover have "get_node_row db' i = get_node_row db i" if "i \<in> node_ids db - set allowed" for i
    using effectD(4) [OF eff that] by (simp add: get_node_row_def same(1))
  ultimately show ?thesis
    using allowed apply_batch_advances [OF assms True] unfolding same new_edge_fits_def by (intro disjI2) blast
next
  case False
  then show ?thesis using batch_replayed [OF assms(1)] by blast
qed

section \<open>The tables of the port\<close>

text \<open>Running operations touches neither receipts nor proposals nor grants.\<close>

definition port_tables :: "db \<Rightarrow> agent_receipt list \<times> agent_proposal list \<times> agent_grant list" where
  "port_tables db = (agent_receipts db, agent_proposals db, agent_grants db)"

lemma deep_copy_port:
  assumes "deep_copy_branch env pid source name description actor db = Inr (branch, k, db')"
  shows "port_tables db' = port_tables db"
  using assms
proof (cases rule: deep_copy_steps)
  case (1 src db1 db2 db3)
  let ?I = "\<lambda>d. port_tables d = port_tables db"
  have "?I db1" using 1(5) by (simp add: insert_branch_Inr port_tables_def)
  then have "?I db2" by (rule fold_result_invariant [OF 1(6)]) (auto simp: insert_node_Inr port_tables_def split: option.splits)
  then have "?I db3" by (rule fold_result_invariant [OF 1(7)]) (auto simp: insert_block_Inr port_tables_def)
  then show ?thesis by (rule fold_result_invariant [OF 1(8)]) (auto simp: insert_edge_Inr port_tables_def)
qed

lemma flush_port:
  assumes "flush wk = Inr wk'"
  shows "port_tables (wk_db wk') = port_tables (wk_db wk)"
proof -
  from assms obtain db where run: "fold_result insert_row (wk_pending wk) (wk_db wk) = Inr db" and wk': "wk_db wk' = db"
    by (auto simp: flush_def result_simps)
  have step: "port_tables d' = port_tables (wk_db wk)"
    if "port_tables d = port_tables (wk_db wk)" "insert_row r d = Inr d'" for r d d'
    using that by (cases r) (auto simp: insert_edge_Inr insert_block_Inr port_tables_def)
  have "port_tables db = port_tables (wk_db wk)"
    by (rule fold_result_invariant [OF run, where I = "\<lambda>d. port_tables d = port_tables (wk_db wk)"]) (rule refl, erule (1) step)
  then show ?thesis by (simp add: wk')
qed

lemma exec_op_port:
  assumes "exec_op env pid actor i op wk = Inr wk'"
  shows "port_tables (wk_db wk') = port_tables (wk_db wk)"
proof (cases op)
  case (CreateNode c)
  then obtain wk1 db where fl: "flush wk = Inr wk1" and ins: "insert_node (batch_node env pid actor c) (wk_db wk1) = Inr db" and "wk_db wk' = db"
    using assms by (auto simp: result_simps Let_def split: if_splits)
  then show ?thesis using flush_port [OF fl] ins by (auto simp: insert_node_Inr port_tables_def)
next
  case (CreateBranch c)
  then obtain wk1 branch k where fl: "flush wk = Inr wk1" and
    copy: "deep_copy_branch (branch_env env (the (cr_id c)) (wk_draws wk1)) pid (cr_source_node_id c)
       (strip (cr_name c)) (cr_description c) actor (wk_db wk1) = Inr (branch, k, wk_db wk')"
    using assms by (auto simp: result_simps)
  show ?thesis using flush_port [OF fl] deep_copy_port [OF copy] by simp
qed (use assms in \<open>auto simp: port_tables_def split: option.splits\<close>)

lemma batch_port:
  assumes "apply_batch_serialized env dg grant body actor proposal db = Inr (response, db')"
    "find_receipt (g_id grant) (bt_idempotency_key body) db = Inr None"
  obtains receipt where "agent_receipts db' = agent_receipts db @ [receipt]" "r_grant_id receipt = g_id grant"
    "r_idempotency_key receipt = bt_idempotency_key body" "r_request_digest receipt = dg (BatchPayload body)" "r_response receipt = response"
    "agent_proposals db' = agent_proposals (settle_proposal env proposal db)" "agent_grants db' = agent_grants db"
proof -
  let ?pid = "g_project_id grant"
  from assms obtain ops k order db1 wk wk1 db2 receipt entry where
    claim: "claim_project_revision env ?pid (bt_expected_project_revision body) db = Inr db1" and
    run: "run_operations env ?pid (or_default actor (g_agent_identity grant)) ops order (Suc (Suc k)) db1 = Inr wk" and
    fl: "flush (wk\<lparr>wk_db := settle_proposal env proposal (bump_touched env (touched_existing ?pid ops db1) (wk_db wk))\<rparr>) = Inr wk1" and
    fin: "insert_receipt receipt (wk_db wk1) = Inr db2" "insert_log entry db2 = Inr db'" and
    receipt: "r_grant_id receipt = g_id grant" "r_idempotency_key receipt = bt_idempotency_key body"
      "r_request_digest receipt = dg (BatchPayload body)" "r_response receipt = response"
    by (rule apply_batch_steps)
  have "port_tables (wk_db wk) = port_tables db1"
    by (rule fold_result_invariant [OF run [unfolded run_operations_def]]) (simp_all add: exec_op_port)
  moreover have "port_tables db1 = port_tables db" using claim by (simp add: claim_project_Inr port_tables_def)
  ultimately have same: "agent_receipts (wk_db wk) = agent_receipts db" "agent_proposals (wk_db wk) = agent_proposals db" "agent_grants (wk_db wk) = agent_grants db"
    by (simp_all add: port_tables_def)
  have "agent_proposals (settle_proposal env proposal (bump_touched env ids (wk_db wk))) = agent_proposals (settle_proposal env proposal db)" for ids
    using same by (auto simp: settle_proposal_def bump_touched_def split: option.splits)
  then have "agent_receipts db' = agent_receipts db @ [receipt] \<and> agent_proposals db' = agent_proposals (settle_proposal env proposal db) \<and>
      agent_grants db' = agent_grants db"
    using flush_port [OF fl] insert_receipt_Inr [OF fin(1)] fin(2) same by (auto simp: bump_touched_def insert_log_Inr port_tables_def)
  then show ?thesis using that receipt by blast
qed

text \<open>
  Applying a batch is idempotent: sent again after it was applied, in any later environment and by any actor, it gives the
  recorded response and changes nothing; another body under the same key is refused.
\<close>

theorem batch_replay:
  assumes "apply_batch_serialized env dg grant body actor proposal db = Inr (response, db')"
  shows "apply_batch_serialized env' dg grant body actor' proposal' db' = Inr (response, db') \<and>
    (\<forall>other. bt_idempotency_key other = bt_idempotency_key body \<and> dg (BatchPayload other) \<noteq> dg (BatchPayload body) \<longrightarrow>
       apply_batch_serialized env' dg grant other actor' proposal' db' = Inl (HTTPException 409 ''IDEMPOTENCY_MISMATCH''))"
proof -
  have "\<exists>r. find_receipt (g_id grant) (bt_idempotency_key body) db' = Inr (Some r) \<and>
      r_request_digest r = dg (BatchPayload body) \<and> r_response r = response"
  proof (cases "find_receipt (g_id grant) (bt_idempotency_key body) db = Inr None")
    case True
    from assms True obtain receipt where "agent_receipts db' = agent_receipts db @ [receipt]" "r_grant_id receipt = g_id grant"
      "r_idempotency_key receipt = bt_idempotency_key body" "r_request_digest receipt = dg (BatchPayload body)" "r_response receipt = response"
      by (rule batch_port)
    then show ?thesis using True by (simp add: find_receipt_def scalar_one_or_none_None)
  next
    case False
    then show ?thesis using assms batch_replayed [OF assms False]
      by (auto simp: apply_batch_serialized_def Let_def result_simps split: option.splits if_splits)
  qed
  then show ?thesis by (auto simp: apply_batch_serialized_def Let_def result_simps)
qed

section \<open>Witnesses\<close>

definition port_env :: env where
  "port_env = sample_env\<lparr>uuid := (\<lambda>k. replicate (31 - k) (CHR ''0'') @ replicate (Suc k) (CHR ''1''))\<rparr>"

definition port_db :: db where
  "port_db = sample_db\<lparr>agent_grants := [sample_grant]\<rparr>"

definition sample_create :: op_create_node where
  "sample_create = \<lparr>cn_id = None, cn_parent_id = Some ''a'', cn_expected_parent_revision = Some 1, cn_branch_id = None,
     cn_title = '' T '', cn_summary = [], cn_node_type = ''idea''\<rparr>"

definition sample_batch :: batch_body where
  "sample_batch = \<lparr>bt_expected_project_revision = 5, bt_idempotency_key = ''key-0001'', bt_operations =
     [CreateNode sample_create,
      CreateBlock \<lparr>cb_id = None, cb_node_id = ''a'', cb_expected_node_revision = 1, cb_block_type = ''paragraph'', cb_content = [], cb_order_index = 0\<rparr>]\<rparr>"

definition sample_digest :: digest where
  "sample_digest p = (case p of BatchPayload b \<Rightarrow> bt_idempotency_key b | _ \<Rightarrow> [])"

lemma port_ok: "db_ok port_db"
  using sample_ok
  by (simp add: port_db_def db_ok_def schema_defs ownership_ok_def) (simp add: row_refs_defs sample_grant_def sample_simps)

lemma sample_batch_run:
  obtains response db' where "apply_batch_serialized port_env sample_digest sample_grant sample_batch None None port_db = Inr (response, db')"
    "project_revision db' ''p'' = Some 6"
proof -
  have "case apply_batch_serialized port_env sample_digest sample_grant sample_batch None None port_db of
      Inl _ \<Rightarrow> False | Inr (response, db') \<Rightarrow> project_revision db' ''p'' = Some 6" by code_simp
  then show ?thesis using that
    by (cases "apply_batch_serialized port_env sample_digest sample_grant sample_batch None None port_db") auto
qed

theorem batch_confined_to_scope_witness:
  "\<exists>response db'. apply_batch_serialized port_env sample_digest sample_grant sample_batch None None port_db = Inr (response, db') \<and>
     advances port_db ''p'' 5 db' \<and> get_node_row db' ''x'' = get_node_row port_db ''x''"
proof -
  obtain response db' where run: "apply_batch_serialized port_env sample_digest sample_grant sample_batch None None port_db = Inr (response, db')"
    and rev6: "project_revision db' ''p'' = Some 6" by (rule sample_batch_run)
  have "project_revision port_db ''p'' = Some 5" "allowed_nodes sample_grant port_db = Inr [''r'', ''a'', ''b'', ''c'']"
    "''x'' \<in> node_ids port_db" by code_simp+
  moreover have "g_project_id sample_grant = ''p''" "bt_expected_project_revision sample_batch = 5"
    by (simp_all add: sample_grant_def sample_batch_def)
  ultimately show ?thesis using batch_confined_to_scope [OF run port_ok] run rev6 by auto
qed

theorem batch_replay_witness:
  "\<exists>response db'. apply_batch_serialized port_env sample_digest sample_grant sample_batch None None port_db = Inr (response, db') \<and>
     apply_batch_serialized sample_env sample_digest sample_grant sample_batch (Some ''human'') None db' = Inr (response, db')"
proof -
  obtain response db' where run: "apply_batch_serialized port_env sample_digest sample_grant sample_batch None None port_db = Inr (response, db')"
    by (rule sample_batch_run)
  show ?thesis using batch_replay [OF run, of sample_env "Some ''human''" None] run by blast
qed

end
