(* ===== verification/Agent_Port.thy ===== *)
theory Agent_Port
  imports Agent_Safety
begin

text \<open>
  The HTTP surface of the Agent Port (\<open>agent_port/routes.py\<close>): the bearer tokens of agents with their rate
  limit, the human control plane that grants and revokes them, the proposals, events and readbacks an
  agent records once per idempotency key, and the review that turns a proposal into a batch.
  Parameters: \<open>hash_secret\<close> (scrypt), \<open>dg\<close> (the digest of a body), \<open>size_of\<close> (the length of its canonical JSON).
  A response that shows some columns of a row is modelled by the row.
\<close>

section \<open>Requests and identifiers\<close>

record port_request =
  rq_client_host :: string
  rq_query_token :: bool
  rq_content_length :: int
  rq_authorization :: "string option"
  rq_origin :: "string option"
  rq_base_url :: string

text \<open>
  \<open>str(uuid.UUID(value))\<close> for values made of hexadecimal digits and dashes: the digits in lower case, with the
  dashes of the canonical form. Other spellings \<open>uuid.UUID\<close> knows (\<open>urn:uuid:\<close>, braces) are refused here.
\<close>

definition lower_hex :: "char \<Rightarrow> char" where
  "lower_hex c = (if c \<in> set ''ABCDEF'' then char_of (of_char c + 32 :: nat) else c)"

definition uuid_value :: "string \<Rightarrow> string \<Rightarrow> ident result" where
  "uuid_value name v =
     (if valid_uuid v
      then let h = map lower_hex (filter (\<lambda>c. c \<noteq> CHR ''-'') v)
           in Inr (take 8 h @ ''-'' @ take 4 (drop 8 h) @ ''-'' @ take 4 (drop 12 h) @ ''-'' @ take 4 (drop 16 h) @ ''-'' @ drop 20 h)
      else Inl (HTTPException 422 (''Invalid '' @ name)))"

fun permission_rank :: "string \<Rightarrow> int option" where
  "permission_rank p =
     (if p = ''read'' then Some 0 else if p = ''propose'' then Some 1 else if p = ''write'' then Some 2 else None)"

definition require_permission :: "agent_grant \<Rightarrow> string \<Rightarrow> unit result" where
  "require_permission grant permission =
     (case (permission_rank (g_permission grant), permission_rank permission) of
        (Some level, Some need) \<Rightarrow> if level < need then Inl (HTTPException 403 ''PERMISSION_DENIED'') else Inr ()
      | _ \<Rightarrow> Inl KeyError)"

definition human_control :: "string option \<Rightarrow> port_request \<Rightarrow> unit result" where
  "human_control token req =
     (if \<not> truthy token then Inl (HTTPException 403 ''HUMAN_CONTROL_DISABLED'')
      else if rq_authorization req \<noteq> Some (''Bearer '' @ the token) then Inl (HTTPException 401 ''HUMAN_AUTH_REQUIRED'')
      else if truthy (rq_origin req) \<and> rstrip_slash (the (rq_origin req)) \<notin>
          {''http://127.0.0.1:3000'', ''http://localhost:3000'', rstrip_slash (rq_base_url req)}
      then Inl (HTTPException 403 ''ORIGIN_DENIED'') else Inr ())"

definition local_limit :: "port_request \<Rightarrow> unit result" where
  "local_limit req =
     (if rq_client_host req \<notin> {''127.0.0.1'', ''::1'', ''localhost'', ''testclient''} then Inl (HTTPException 403 ''LOCALHOST_ONLY'')
      else if rq_query_token req then Inl (HTTPException 400 ''TOKEN_QUERY_FORBIDDEN'')
      else if rq_content_length req > 1048576 then Inl (HTTPException 413 ''Agent Port request exceeds 1 MiB'') else Inr ())"

section \<open>Authentication and the rate limit\<close>

text \<open>\<open>raw.split(".", 2)\<close>.\<close>

definition split_token :: "string \<Rightarrow> (string \<times> string \<times> string) option" where
  "split_token raw =
     (let version = takeWhile (\<lambda>c. c \<noteq> CHR ''.'') raw; rest = dropWhile (\<lambda>c. c \<noteq> CHR ''.'') raw
      in case rest of
           [] \<Rightarrow> None
         | _ # rest1 \<Rightarrow>
             (case dropWhile (\<lambda>c. c \<noteq> CHR ''.'') rest1 of
                [] \<Rightarrow> None
              | _ # secret \<Rightarrow> Some (version, takeWhile (\<lambda>c. c \<noteq> CHR ''.'') rest1, secret)))"

text \<open>\<open>_hits\<close>: the instants of the accepted requests of each grant, in the order the dictionary has them.\<close>

type_synonym hits = "(ident \<times> rat list) list"

definition prune_hits :: "rat \<Rightarrow> hits \<Rightarrow> hits" where
  "prune_hits instant hits =
     (if length hits > 10000
      then filter (\<lambda>(g, b). \<not> (b = [] \<or> last b < instant - 60)) (take 1000 hits) @ drop 1000 hits
      else hits)"

definition bucket :: "hits \<Rightarrow> ident \<Rightarrow> rat list" where
  "bucket hits g = (case map_of hits g of None \<Rightarrow> [] | Some b \<Rightarrow> b)"

definition set_bucket :: "ident \<Rightarrow> rat list \<Rightarrow> hits \<Rightarrow> hits" where
  "set_bucket g b hits = AList.update g b hits"

definition rate_limit :: "ident \<Rightarrow> rat \<Rightarrow> hits \<Rightarrow> bool \<times> hits" where
  "rate_limit g instant hits =
     (let hits = prune_hits instant hits;
          b = dropWhile (\<lambda>t. t < instant - 60) (bucket hits g)
      in if length b \<ge> 120 then (False, set_bucket g b hits) else (True, set_bucket g (b @ [instant]) hits))"

definition grant_live :: "env \<Rightarrow> agent_grant \<Rightarrow> bool" where
  "grant_live env g \<longleftrightarrow> g_status g = ''active'' \<and> g_revoked_at g = None \<and> now env < g_expires_at g"

definition find_grant :: "string \<Rightarrow> db \<Rightarrow> agent_grant option result" where
  "find_grant prefix db = scalar_one_or_none (filter (\<lambda>g. g_token_prefix g = prefix) (agent_grants db))"

definition check_token :: "env \<Rightarrow> (string \<Rightarrow> string \<Rightarrow> string) \<Rightarrow> port_request \<Rightarrow> db \<Rightarrow> agent_grant result" where
  "check_token env hash_secret req db =
     and_then (local_limit req) (\<lambda>_.
       case rq_authorization req of
         None \<Rightarrow> Inl (HTTPException 401 ''AUTH_REQUIRED'')
       | Some a \<Rightarrow>
           if \<not> starts_with ''Bearer '' a then Inl (HTTPException 401 ''AUTH_REQUIRED'')
           else (case split_token (drop 7 a) of
             None \<Rightarrow> Inl (HTTPException 401 ''INVALID_TOKEN'')
           | Some (version, prefix, secret) \<Rightarrow>
               if version \<noteq> ''gm1'' \<or> length prefix \<noteq> 12 \<or> length secret < 32 then Inl (HTTPException 401 ''INVALID_TOKEN'')
               else and_then (find_grant prefix db) (\<lambda>found.
                 case found of
                   None \<Rightarrow> if hash_secret secret (replicate 32 (CHR ''0'')) \<noteq> replicate 64 (CHR ''0'')
                           then Inl (HTTPException 401 ''INVALID_TOKEN'') else Inl AttributeError
                 | Some grant \<Rightarrow>
                     if hash_secret secret (g_token_salt grant) \<noteq> g_token_hash grant then Inl (HTTPException 401 ''INVALID_TOKEN'')
                     else if \<not> grant_live env grant then Inl (HTTPException 401 ''GRANT_INACTIVE'')
                     else Inr grant)))"

definition use_grant :: "env \<Rightarrow> agent_grant \<Rightarrow> db \<Rightarrow> db" where
  "use_grant env grant db = agent_grants_update (row_update g_id (g_id grant) (\<lambda>g. g\<lparr>g_last_used_at := Some (now env)\<rparr>)) db"

text \<open>The hits live in the process, outside the transaction: they change also when the request is refused.\<close>

definition auth ::
  "env \<Rightarrow> rat \<Rightarrow> (string \<Rightarrow> string \<Rightarrow> string) \<Rightarrow> port_request \<Rightarrow> hits \<Rightarrow> db \<Rightarrow> hits \<times> (agent_grant \<times> db) result" where
  "auth env instant hash_secret req hits db =
     (case check_token env hash_secret req db of
        Inl e \<Rightarrow> (hits, Inl e)
      | Inr grant \<Rightarrow>
          (case rate_limit (g_id grant) instant hits of
             (False, hits') \<Rightarrow> (hits', Inl (HTTPException 429 ''RATE_LIMITED''))
           | (True, hits') \<Rightarrow> (hits', Inr (grant\<lparr>g_last_used_at := Some (now env)\<rparr>, use_grant env grant db))))"

section \<open>Reading\<close>

definition project_read :: "agent_grant \<Rightarrow> db \<Rightarrow> project result" where
  "project_read grant db = (case get_project_row db (g_project_id grant) of None \<Rightarrow> Inl AttributeError | Some p \<Rightarrow> Inr p)"

record graph_view =
  gv_nodes :: "node list"
  gv_edges :: "edge list"
  gv_blocks :: "content_block list"

definition graph_data :: "agent_grant \<Rightarrow> db \<Rightarrow> graph_view result" where
  "graph_data grant db =
     and_then (allowed_nodes grant db) (\<lambda>ids.
       Inr \<lparr>gv_nodes = sort_key n_created_at (filter (\<lambda>n. n_id n \<in> set ids \<and> n_project_id n = g_project_id grant) (nodes db)),
            gv_edges = filter (\<lambda>e. e_project_id e = g_project_id grant \<and> e_from_node_id e \<in> set ids \<and> e_to_node_id e \<in> set ids) (edges db),
            gv_blocks = filter (\<lambda>b. b_node_id b \<in> set ids) (content_blocks db)\<rparr>)"

text \<open>
  The ancestors of a context: the loop follows the last parent of each node in the projected graph and
  does not remember where it has been; \<open>None\<close> is a loop that never ends.
\<close>

definition graph_parent :: "graph_view \<Rightarrow> ident \<Rightarrow> node option" where
  "graph_parent gv x =
     (case filter (\<lambda>e. is_child_edge e \<and> e_to_node_id e = x) (gv_edges gv) of
        [] \<Rightarrow> None
      | es \<Rightarrow> row_get n_id (gv_nodes gv) (e_from_node_id (last es)))"

partial_function (option) ancestors_walk :: "graph_view \<Rightarrow> ident \<Rightarrow> node list \<Rightarrow> node list option" where
  "ancestors_walk gv cur acc =
     (case graph_parent gv cur of None \<Rightarrow> Some acc | Some p \<Rightarrow> ancestors_walk gv (n_id p) (acc @ [p]))"

record context_packet =
  cx_objective :: string
  cx_project :: project
  cx_target :: node
  cx_ancestors :: "node list"
  cx_children :: "node list"
  cx_relevant :: "node list"
  cx_relations :: "edge list"

definition context_of :: "agent_grant \<Rightarrow> ident \<Rightarrow> string \<Rightarrow> db \<Rightarrow> context_packet option result" where
  "context_of grant target objective db =
     and_then (uuid_value ''id'' target) (\<lambda>target.
     and_then (validate_scope grant [Some target] db) (\<lambda>_.
       case get_node_row db target of
         None \<Rightarrow> Inl (HTTPException 404 ''Node not found'')
       | Some n \<Rightarrow>
           if n_project_id n \<noteq> g_project_id grant then Inl (HTTPException 404 ''Node not found'')
           else and_then (graph_data grant db) (\<lambda>gv.
                and_then (project_read grant db) (\<lambda>p.
                  case row_get n_id (gv_nodes gv) target of
                    None \<Rightarrow> Inl KeyError
                  | Some t \<Rightarrow> Inr (map_option (\<lambda>ancestors.
                      \<lparr>cx_objective = take 2000 objective, cx_project = p, cx_target = t, cx_ancestors = ancestors,
                       cx_children = take 500 (List.map_filter (\<lambda>e. if e_from_node_id e = target then row_get n_id (gv_nodes gv) (e_to_node_id e) else None)
                         (gv_edges gv)),
                       cx_relevant = take 200 (filter (\<lambda>m. n_id m \<noteq> target \<and> (n_node_type m \<in> {''decision'', ''risk''} \<or>
                         truthy (n_constraints_text m) \<or> truthy (n_decision_notes m))) (gv_nodes gv)),
                       cx_relations = take 2000 (gv_edges gv)\<rparr>) (ancestors_walk gv target []))))))"

section \<open>Recording once per key\<close>

definition insert_proposal :: "agent_proposal \<Rightarrow> db \<Rightarrow> db result" where
  "insert_proposal r db =
     (if has_row pr_id (agent_proposals db) (pr_id r) \<or> \<not> list_ex (\<lambda>g. g_id g = pr_grant_id r) (agent_grants db)
         \<or> \<not> has_row p_id (projects db) (pr_project_id r) \<or> \<not> opt_has n_id (nodes db) (pr_target_node_id r)
      then Inl IntegrityError else Inr (agent_proposals_update (\<lambda>rs. rs @ [r]) db))"

definition insert_event :: "agent_event \<Rightarrow> db \<Rightarrow> db result" where
  "insert_event r db =
     (if has_row ev_id (agent_events db) (ev_id r) \<or> \<not> list_ex (\<lambda>g. g_id g = ev_grant_id r) (agent_grants db)
         \<or> \<not> has_row p_id (projects db) (ev_project_id r) \<or> \<not> opt_has n_id (nodes db) (ev_target_node_id r)
      then Inl IntegrityError else Inr (agent_events_update (\<lambda>rs. rs @ [r]) db))"

definition insert_readback :: "agent_readback \<Rightarrow> db \<Rightarrow> db result" where
  "insert_readback r db =
     (if has_row rb_id (agent_readbacks db) (rb_id r) \<or> \<not> list_ex (\<lambda>g. g_id g = rb_grant_id r) (agent_grants db)
         \<or> \<not> has_row p_id (projects db) (rb_project_id r) \<or> \<not> opt_has n_id (nodes db) (rb_target_node_id r)
      then Inl IntegrityError else Inr (agent_readbacks_update (\<lambda>rs. rs @ [r]) db))"

text \<open>\<open>rid\<close> is the identifier the receipt draws.\<close>

definition store_once ::
  "env \<Rightarrow> ident \<Rightarrow> agent_grant \<Rightarrow> string \<Rightarrow> string \<Rightarrow> string \<Rightarrow> (db \<Rightarrow> (json \<times> db) result) \<Rightarrow> db \<Rightarrow> (json \<times> db) result" where
  "store_once env rid grant key req kind create db =
     and_then (find_receipt (g_id grant) key db) (\<lambda>prior.
       case prior of
         Some r \<Rightarrow> if r_request_digest r \<noteq> req then Inl (HTTPException 409 ''IDEMPOTENCY_MISMATCH'') else Inr (r_response r, db)
       | None \<Rightarrow>
           and_then (create db) (\<lambda>(response, db).
           and_then (insert_receipt \<lparr>r_id = rid, r_grant_id = g_id grant, r_project_id = g_project_id grant, r_idempotency_key = key,
               r_request_digest = req, r_action_type = kind, r_status = ''recorded'', r_response = response, r_created_at = now env\<rparr> db) (\<lambda>db.
             Inr (response, db))))"

definition propose :: "env \<Rightarrow> digest \<Rightarrow> agent_grant \<Rightarrow> proposal_body \<Rightarrow> db \<Rightarrow> (json \<times> db) result" where
  "propose env dg grant data db =
     and_then (require_permission grant ''propose'') (\<lambda>_.
     and_then (validate_scope grant [pb_target_node_id data] db) (\<lambda>_.
     and_then (validate_operations env True grant (bt_operations (pb_batch data)) db) (\<lambda>(_, k).
       store_once env (uuid env (Suc k)) grant (bt_idempotency_key (pb_batch data)) (dg (ProposalPayload data)) ''proposal'' (\<lambda>db.
         case get_project_row db (g_project_id grant) of
           None \<Rightarrow> Inl AttributeError
         | Some p \<Rightarrow>
             if bt_expected_project_revision (pb_batch data) \<noteq> p_revision p then Inl (HTTPException 409 ''REVISION_CONFLICT'')
             else and_then (insert_proposal \<lparr>pr_id = uuid env k, pr_grant_id = g_id grant, pr_project_id = g_project_id grant,
                 pr_target_node_id = pb_target_node_id data, pr_title = pb_title data, pr_rationale = pb_rationale data,
                 pr_operations = bt_operations (pb_batch data), pr_expected_project_revision = bt_expected_project_revision (pb_batch data),
                 pr_status = ''pending'', pr_review_note = [], pr_reviewed_at = None, pr_created_at = now env\<rparr> db) (\<lambda>db.
               Inr (JObj [(''proposal_id'', JStr (uuid env k)), (''status'', JStr ''pending''), (''project_revision'', jint (p_revision p)),
                 (''canonical_changed'', JBool False)], db))) db)))"

definition batch :: "env \<Rightarrow> digest \<Rightarrow> agent_grant \<Rightarrow> batch_body \<Rightarrow> db \<Rightarrow> (json \<times> db) result" where
  "batch env dg grant data db =
     and_then (require_permission grant ''write'') (\<lambda>_. apply_batch_serialized env dg grant data None None db)"

definition event :: "env \<Rightarrow> digest \<Rightarrow> agent_grant \<Rightarrow> event_body \<Rightarrow> db \<Rightarrow> (json \<times> db) result" where
  "event env dg grant data db =
     and_then (require_permission grant ''propose'') (\<lambda>_.
     and_then (validate_scope grant [eb_target_node_id data] db) (\<lambda>_.
       store_once env (uuid env 1) grant (eb_idempotency_key data) (dg (EventPayload data)) ''event'' (\<lambda>db.
         and_then (insert_event \<lparr>ev_id = uuid env 0, ev_grant_id = g_id grant, ev_project_id = g_project_id grant,
             ev_target_node_id = eb_target_node_id data, ev_event_type = eb_event_type data, ev_message = eb_message data,
             ev_payload = JObj (map (\<lambda>(k, v). (k, JStr v)) (eb_payload data)), ev_created_at = now env\<rparr> db) (\<lambda>db.
           Inr (JObj [(''event_id'', JStr (uuid env 0)), (''status'', JStr ''recorded'')], db))) db))"

definition record_json :: "record_item \<Rightarrow> json" where
  "record_json r = JObj [(''name'', JStr (ri_name r)), (''status'', JStr (ri_status r)), (''detail'', JStr (ri_detail r))]"

definition readback :: "env \<Rightarrow> digest \<Rightarrow> (payload \<Rightarrow> nat) \<Rightarrow> agent_grant \<Rightarrow> readback_body \<Rightarrow> db \<Rightarrow> (json \<times> db) result" where
  "readback env dg size_of grant data db =
     and_then (require_permission grant ''propose'') (\<lambda>_.
     and_then (validate_scope grant [rk_target_node_id data] db) (\<lambda>_.
       if size_of (ReadbackPayload data) > 262144 then Inl (HTTPException 413 ''Readback exceeds 256 KiB'')
       else store_once env (uuid env 2) grant (rk_idempotency_key data) (dg (ReadbackPayload data)) ''readback'' (\<lambda>db.
         and_then (insert_readback \<lparr>rb_id = uuid env 0, rb_grant_id = g_id grant, rb_project_id = g_project_id grant,
             rb_target_node_id = rk_target_node_id data, rb_commit_refs = jstrings (rk_commit_refs data), rb_files = jstrings (rk_files data),
             rb_tests = JList (map record_json (rk_tests data)), rb_decisions = jstrings (rk_decisions data),
             rb_risks = jstrings (rk_risks data), rb_todos = jstrings (rk_todos data),
             rb_evidence = JList (map record_json (rk_evidence data)), rb_summary = rk_summary data, rb_created_at = now env\<rparr> db) (\<lambda>db.
         and_then (insert_log \<lparr>l_id = uuid env 1, l_project_id = g_project_id grant, l_node_id = rk_target_node_id data,
             l_actor_type = ''agent'', l_actor_id = g_agent_identity grant, l_action_type = ''agent_readback'',
             l_payload = JObj [(''readback_id'', JStr (uuid env 0)), (''summary'', JStr (take 500 (rk_summary data)))], l_created_at = now env\<rparr> db) (\<lambda>db.
           Inr (JObj [(''readback_id'', JStr (uuid env 0)), (''status'', JStr ''recorded'')], db)))) db))"

section \<open>The human control plane\<close>

record grant_create =
  gc_project_id :: string
  gc_permission :: string
  gc_node_scope_id :: "string option"
  gc_branch_root_id :: "string option"
  gc_expires_at :: timestamp
  gc_label :: string
  gc_agent_identity :: string

text \<open>The validator of \<open>GrantCreate\<close>; the clock counts seconds.\<close>

definition grant_scope_valid :: "env \<Rightarrow> grant_create \<Rightarrow> bool" where
  "grant_scope_valid env data \<longleftrightarrow>
     \<not> (truthy (gc_node_scope_id data) \<and> truthy (gc_branch_root_id data)) \<and>
     now env + 60 < gc_expires_at data \<and> gc_expires_at data \<le> now env + 90 * 86400"

definition check_grant_scope :: "ident \<Rightarrow> string option \<Rightarrow> string \<Rightarrow> db \<Rightarrow> unit result" where
  "check_grant_scope pid v name db =
     (if \<not> truthy v then Inr ()
      else and_then (uuid_value name (the v)) (\<lambda>i.
        case get_node_row db i of
          None \<Rightarrow> Inl (HTTPException 422 ''Scope must belong to project'')
        | Some n \<Rightarrow> if n_project_id n \<noteq> pid then Inl (HTTPException 422 ''Scope must belong to project'') else Inr ()))"

text \<open>What \<open>secrets\<close> returns: the eight candidate prefixes, the secret and the salt.\<close>

record entropy =
  en_prefixes :: "string list"
  en_secret :: string
  en_salt :: string

definition insert_grant :: "agent_grant \<Rightarrow> db \<Rightarrow> db result" where
  "insert_grant g db =
     (if list_ex (\<lambda>h. g_id h = g_id g \<or> g_token_prefix h = g_token_prefix g) (agent_grants db)
         \<or> \<not> has_row p_id (projects db) (g_project_id g) \<or> \<not> opt_has n_id (nodes db) (g_node_scope_id g)
         \<or> \<not> opt_has n_id (nodes db) (g_branch_root_id g)
      then Inl IntegrityError else Inr (agent_grants_update (\<lambda>rs. rs @ [g]) db))"

definition create_grant ::
  "env \<Rightarrow> entropy \<Rightarrow> (string \<Rightarrow> string \<Rightarrow> string) \<Rightarrow> grant_create \<Rightarrow> db \<Rightarrow> ((agent_grant \<times> string) \<times> db) result" where
  "create_grant env en hash_secret data db =
     and_then (uuid_value ''project_id'' (gc_project_id data)) (\<lambda>pid.
       case get_project_row db pid of
         None \<Rightarrow> Inl (HTTPException 404 ''Project not found'')
       | Some p \<Rightarrow>
           and_then (check_grant_scope pid (gc_node_scope_id data) ''node_scope_id'' db) (\<lambda>_.
           and_then (check_grant_scope pid (gc_branch_root_id data) ''branch_root_id'' db) (\<lambda>_.
             case find (\<lambda>c. \<not> list_ex (\<lambda>g. g_token_prefix g = c) (agent_grants db)) (take 8 (en_prefixes en)) of
               None \<Rightarrow> Inl (HTTPException 503 ''Unable to allocate token prefix'')
             | Some prefix \<Rightarrow>
                 let g = \<lparr>g_id = uuid env 0, g_token_prefix = prefix, g_token_salt = en_salt en,
                       g_token_hash = hash_secret (en_secret en) (en_salt en), g_project_id = pid, g_permission = gc_permission data,
                       g_node_scope_id = gc_node_scope_id data, g_branch_root_id = gc_branch_root_id data, g_label = gc_label data,
                       g_agent_identity = gc_agent_identity data, g_status = ''active'', g_expires_at = gc_expires_at data,
                       g_revoked_at = None, g_last_used_at = None, g_created_at = now env\<rparr>
                 in and_then (insert_grant g db) (\<lambda>db. Inr ((g, ''gm1.'' @ prefix @ ''.'' @ en_secret en), db)))))"

definition list_grants :: "string \<Rightarrow> db \<Rightarrow> agent_grant list result" where
  "list_grants project_id db =
     and_then (uuid_value ''project_id'' project_id) (\<lambda>pid.
       Inr (sort_key (\<lambda>g. - g_created_at g) (filter (\<lambda>g. g_project_id g = pid) (agent_grants db))))"

definition revoked :: "env \<Rightarrow> agent_grant \<Rightarrow> agent_grant" where
  "revoked env g = (if g_revoked_at g = None then g\<lparr>g_revoked_at := Some (now env), g_status := ''revoked''\<rparr> else g)"

definition revoke :: "env \<Rightarrow> string \<Rightarrow> db \<Rightarrow> (agent_grant \<times> db) result" where
  "revoke env grant_id db =
     and_then (uuid_value ''id'' grant_id) (\<lambda>i.
       case row_get g_id (agent_grants db) i of
         None \<Rightarrow> Inl (HTTPException 404 ''Grant not found'')
       | Some g \<Rightarrow> Inr (revoked env g, agent_grants_update (row_update g_id i (revoked env)) db))"

record activity_view =
  av_proposals :: "agent_proposal list"
  av_events :: "agent_event list"
  av_readbacks :: "(agent_readback \<times> agent_grant option) list"

definition activity :: "string \<Rightarrow> string option \<Rightarrow> db \<Rightarrow> activity_view result" where
  "activity project_id target_node_id db =
     and_then (uuid_value ''project_id'' project_id) (\<lambda>pid.
     and_then (case target_node_id of
         None \<Rightarrow> Inr None
       | Some v \<Rightarrow> and_then (uuid_value ''target_node_id'' v) (\<lambda>t.
           case get_node_row db t of
             None \<Rightarrow> Inl (HTTPException 404 ''Node not found'')
           | Some n \<Rightarrow> if n_project_id n \<noteq> pid then Inl (HTTPException 404 ''Node not found'') else Inr (Some t))) (\<lambda>target.
       let hit = (\<lambda>x. truthy target \<longrightarrow> x = target)
       in Inr \<lparr>av_proposals = sort_key (\<lambda>r. - pr_created_at r)
                 (filter (\<lambda>r. pr_project_id r = pid \<and> hit (pr_target_node_id r)) (agent_proposals db)),
               av_events = take 100 (sort_key (\<lambda>r. - ev_created_at r)
                 (filter (\<lambda>r. ev_project_id r = pid \<and> hit (ev_target_node_id r)) (agent_events db))),
               av_readbacks = map (\<lambda>r. (r, row_get g_id (agent_grants db) (rb_grant_id r)))
                 (take 100 (sort_key (\<lambda>r. - rb_created_at r)
                   (filter (\<lambda>r. rb_project_id r = pid \<and> hit (rb_target_node_id r)) (agent_readbacks db))))\<rparr>))"

datatype decision = Approve | Reject

definition reject_proposal :: "env \<Rightarrow> string \<Rightarrow> agent_proposal \<Rightarrow> agent_proposal" where
  "reject_proposal env note r = r\<lparr>pr_status := ''rejected'', pr_review_note := note, pr_reviewed_at := Some (now env)\<rparr>"

definition proposal_key :: "ident \<Rightarrow> string" where
  "proposal_key i = ''proposal:'' @ i"

definition may_propose :: "agent_grant \<Rightarrow> bool" where
  "may_propose g \<longleftrightarrow> (case permission_rank (g_permission g) of None \<Rightarrow> False | Some r \<Rightarrow> r \<ge> 1)"

definition review :: "env \<Rightarrow> digest \<Rightarrow> string \<Rightarrow> string \<Rightarrow> decision \<Rightarrow> string \<Rightarrow> db \<Rightarrow> (string \<times> db) result" where
  "review env dg reviewer proposal_id decision note db =
     and_then (uuid_value ''id'' proposal_id) (\<lambda>i.
       case row_get pr_id (agent_proposals db) i of
         None \<Rightarrow> Inl (HTTPException 404 ''Proposal not found'')
       | Some row \<Rightarrow>
           if pr_status row \<noteq> ''pending'' then Inr (pr_status row, db)
           else (case decision of
             Reject \<Rightarrow> Inr (''rejected'', agent_proposals_update (row_update pr_id i (reject_proposal env note)) db)
           | Approve \<Rightarrow>
               (case row_get g_id (agent_grants db) (pr_grant_id row) of
                  None \<Rightarrow> Inl (HTTPException 409 ''GRANT_INACTIVE'')
                | Some grant \<Rightarrow>
                    if \<not> grant_live env grant \<or> \<not> may_propose grant then Inl (HTTPException 409 ''GRANT_INACTIVE'')
                    else and_then (apply_batch_serialized env dg grant
                        \<lparr>bt_expected_project_revision = pr_expected_project_revision row, bt_idempotency_key = proposal_key i,
                         bt_operations = pr_operations row\<rparr> (Some reviewer) (Some (i, note)) db) (\<lambda>(_, db).
                      Inr (''approved'', db)))))"

end
