(* ===== verification/Agent_Control.thy ===== *)
theory Agent_Control
  imports Agent_Port
begin

text \<open>
  What the Agent Port guarantees to the human who grants access: only the holder of the secret of a live grant
  gets in, a revoked grant is out for good whatever requests follow, a proposal changes nothing until it is
  approved and is decided once.
\<close>

section \<open>Tokens\<close>

lemma split_token_Some:
  assumes "split_token raw = Some (version, prefix, secret)"
  shows "raw = version @ ''.'' @ prefix @ ''.'' @ secret"
proof -
  let ?P = "\<lambda>c. c \<noteq> CHR ''.''"
  obtain d rest where r: "dropWhile ?P raw = d # rest" using assms by (auto simp: split_token_def Let_def split: list.splits)
  obtain d2 where r2: "dropWhile ?P rest = d2 # secret" and v: "version = takeWhile ?P raw" "prefix = takeWhile ?P rest"
    using assms r by (auto simp: split_token_def Let_def split: list.splits)
  have "d = CHR ''.''" "d2 = CHR ''.''" using r r2 hd_dropWhile [of ?P] by (metis list.distinct(1) list.sel(1))+
  then show ?thesis using takeWhile_dropWhile_id [of ?P raw] takeWhile_dropWhile_id [of ?P rest] r r2 v by simp
qed

lemma check_token_Inr:
  assumes "check_token env hash_secret req db = Inr grant"
  obtains prefix secret where "rq_authorization req = Some (''Bearer gm1.'' @ prefix @ ''.'' @ secret)" "length prefix = 12"
    "32 \<le> length secret" "grant \<in> set (agent_grants db)" "g_token_prefix grant = prefix"
    "hash_secret secret (g_token_salt grant) = g_token_hash grant" "grant_live env grant" "local_limit req = Inr ()"
proof -
  from assms obtain a version prefix secret where a: "rq_authorization req = Some a" "starts_with ''Bearer '' a"
    "split_token (drop 7 a) = Some (version, prefix, secret)" "version = ''gm1''" "length prefix = 12" "\<not> length secret < 32"
    and g: "find_grant prefix db = Inr (Some grant)" "hash_secret secret (g_token_salt grant) = g_token_hash grant" "grant_live env grant"
    and l: "local_limit req = Inr ()"
    by (auto simp: check_token_def result_simps split: option.splits prod.splits if_splits)
  have "a = take 7 a @ drop 7 a" by simp
  also have "take 7 a = ''Bearer ''" using a(2) by (simp add: starts_with_def eval_nat_numeral)
  finally have "rq_authorization req = Some (''Bearer gm1.'' @ prefix @ ''.'' @ secret)"
    using split_token_Some [OF a(3)] a(1,4) by simp
  moreover have "grant \<in> set (agent_grants db)" "g_token_prefix grant = prefix"
    using g(1) by (auto simp: find_grant_def scalar_one_or_none_Some filter_eq_Cons_iff)
  ultimately show ?thesis using that a(5,6) g(2,3) l by simp
qed

text \<open>
  A request to the port is authenticated only with the token \<open>gm1.<prefix>.<secret>\<close> of a grant that exists, is active,
  unrevoked and unexpired, where the salted hash of the secret is the stored one, and only from the local machine; all it changes is
  when the grant was last used.
\<close>

theorem auth_needs_live_grant:
  assumes "auth env instant hash_secret req hits db = (hits', Inr (grant, db'))"
  shows "\<exists>prefix secret row. rq_authorization req = Some (''Bearer gm1.'' @ prefix @ ''.'' @ secret) \<and> length prefix = 12 \<and> 32 \<le> length secret \<and>
    row \<in> set (agent_grants db) \<and> g_token_prefix row = prefix \<and> hash_secret secret (g_token_salt row) = g_token_hash row \<and>
    g_status row = ''active'' \<and> g_revoked_at row = None \<and> now env < g_expires_at row \<and> local_limit req = Inr () \<and>
    grant = row\<lparr>g_last_used_at := Some (now env)\<rparr> \<and> db' = use_grant env row db"
proof -
  from assms obtain row where row: "check_token env hash_secret req db = Inr row" and
    eqs: "grant = row\<lparr>g_last_used_at := Some (now env)\<rparr>" "db' = use_grant env row db"
    by (auto simp: auth_def split: sum.splits prod.splits bool.splits)
  show ?thesis by (rule check_token_Inr [OF row]) (use eqs in \<open>auto simp: grant_live_def\<close>)
qed

section \<open>Steps of the port\<close>

text \<open>Everything the routes of the port can do to the database, in any environment, with any body.\<close>

inductive port_step :: "(string \<Rightarrow> string \<Rightarrow> string) \<Rightarrow> digest \<Rightarrow> db \<Rightarrow> db \<Rightarrow> bool"
  for hash_secret dg where
  step_auth: "auth env instant hash_secret req hits db = (hits', Inr (grant, db')) \<Longrightarrow> port_step hash_secret dg db db'"
| step_propose: "propose env dg grant body db = Inr (response, db') \<Longrightarrow> port_step hash_secret dg db db'"
| step_batch: "batch env dg grant data db = Inr (response, db') \<Longrightarrow> port_step hash_secret dg db db'"
| step_event: "event env dg grant ev db = Inr (response, db') \<Longrightarrow> port_step hash_secret dg db db'"
| step_readback: "readback env dg size_of grant rb db = Inr (response, db') \<Longrightarrow> port_step hash_secret dg db db'"
| step_create_grant: "create_grant env en hash_secret gc db = Inr (out, db') \<Longrightarrow> port_step hash_secret dg db db'"
| step_revoke: "revoke env i db = Inr (g, db') \<Longrightarrow> port_step hash_secret dg db db'"
| step_review: "review env dg reviewer i decision remark db = Inr (status, db') \<Longrightarrow> port_step hash_secret dg db db'"

text \<open>A grant that is out: it exists and no row of its identifier is unrevoked.\<close>

definition out_of_use :: "ident \<Rightarrow> db \<Rightarrow> bool" where
  "out_of_use i db \<longleftrightarrow> i \<in> g_id ` set (agent_grants db) \<and> (\<forall>g \<in> set (agent_grants db). g_id g = i \<longrightarrow> g_revoked_at g \<noteq> None)"

lemma out_of_use_same: "agent_grants db' = agent_grants db \<Longrightarrow> out_of_use i db \<Longrightarrow> out_of_use i db'"
  by (simp add: out_of_use_def)

lemma out_of_use_update:
  assumes "agent_grants db' = row_update g_id j f (agent_grants db)" "\<And>g. g_id (f g) = g_id g"
    "\<And>g. g_revoked_at g \<noteq> None \<Longrightarrow> g_revoked_at (f g) \<noteq> None" "out_of_use i db"
  shows "out_of_use i db'"
proof -
  have "g_id ` set (agent_grants db') = g_id ` set (agent_grants db)" using assms(1,2) by (simp add: keys_row_update)
  then show ?thesis using assms by (auto simp: out_of_use_def set_row_update)
qed

lemma store_once_frame:
  assumes "store_once env rid grant key req kind create db = Inr (response, db')"
    "\<And>r d. create db = Inr (r, d) \<Longrightarrow> f d = f db" "\<And>r d d'. insert_receipt r d = Inr d' \<Longrightarrow> f d' = f d"
  shows "f db' = f db"
  using assms by (auto simp: store_once_def result_simps split: option.splits if_splits)

lemma receipt_grants: "insert_receipt r d = Inr d' \<Longrightarrow> agent_grants d' = agent_grants d"
  by (drule insert_receipt_Inr) simp

lemma propose_grants: "propose env dg grant body db = Inr (response, db') \<Longrightarrow> agent_grants db' = agent_grants db"
  by (auto simp: propose_def result_simps insert_proposal_def split: prod.splits if_splits
      elim!: store_once_frame [where f = agent_grants] dest: receipt_grants)

lemma event_grants: "event env dg grant body db = Inr (response, db') \<Longrightarrow> agent_grants db' = agent_grants db"
  by (auto simp: event_def result_simps insert_event_def split: prod.splits if_splits
      elim!: store_once_frame [where f = agent_grants] dest: receipt_grants)

lemma readback_grants: "readback env dg size_of grant body db = Inr (response, db') \<Longrightarrow> agent_grants db' = agent_grants db"
  by (auto simp: readback_def result_simps insert_readback_def insert_log_Inr split: prod.splits if_splits
      elim!: store_once_frame [where f = agent_grants] dest: receipt_grants)

lemma apply_batch_grants:
  assumes "apply_batch_serialized env dg grant body actor proposal db = Inr (response, db')"
  shows "agent_grants db' = agent_grants db"
proof (cases "find_receipt (g_id grant) (bt_idempotency_key body) db = Inr None")
  case True
  show ?thesis by (rule batch_port [OF assms True]) simp
qed (simp add: batch_replayed [OF assms])

lemma review_grants: "review env dg reviewer i decision remark db = Inr (status, db') \<Longrightarrow> agent_grants db' = agent_grants db"
  by (auto simp: review_def result_simps split: option.splits if_splits decision.splits dest: apply_batch_grants)

lemma port_step_out:
  assumes "port_step hash_secret dg db db'" "out_of_use i db"
  shows "out_of_use i db'"
  using assms
proof (cases rule: port_step.cases)
  case (step_auth env instant req hits hits' grant)
  then obtain g where "db' = use_grant env g db" by (auto simp: auth_def split: sum.splits prod.splits bool.splits)
  then have rows: "agent_grants db' = row_update g_id (g_id g) (\<lambda>g. g\<lparr>g_last_used_at := Some (now env)\<rparr>) (agent_grants db)"
    by (simp add: use_grant_def)
  show ?thesis by (rule out_of_use_update [OF rows _ _ assms(2)]) simp_all
next
  case (step_create_grant env en gc out)
  then obtain g where "insert_grant g db = Inr db'" by (auto simp: create_grant_def result_simps Let_def split: option.splits)
  then have "agent_grants db' = agent_grants db @ [g]" "g_id g \<notin> g_id ` set (agent_grants db)"
    by (auto simp: insert_grant_def list_ex_iff image_iff split: if_splits)
  then show ?thesis using assms(2) by (auto simp: out_of_use_def simp del: not_None_eq)
next
  case (step_revoke env j g)
  then obtain j' where "db' = agent_grants_update (row_update g_id j' (revoked env)) db" by (auto simp: revoke_def result_simps)
  then have rows: "agent_grants db' = row_update g_id j' (revoked env) (agent_grants db)" by simp
  show ?thesis by (rule out_of_use_update [OF rows _ _ assms(2)]) (simp_all add: revoked_def)
qed (use assms(2) in \<open>auto simp: batch_def result_simps intro: out_of_use_same
    dest: propose_grants event_grants readback_grants apply_batch_grants review_grants\<close>)

lemma port_run_out: "(port_step hash_secret dg)\<^sup>*\<^sup>* db db' \<Longrightarrow> out_of_use i db \<Longrightarrow> out_of_use i db'"
  by (induction rule: rtranclp_induct) (auto intro: port_step_out)

lemma revoke_out:
  assumes "revoke env j db = Inr (g, db')"
  shows "out_of_use (g_id g) db'"
proof -
  from assms obtain i h where h: "row_get g_id (agent_grants db) i = Some h" "g = revoked env h"
    "db' = agent_grants_update (row_update g_id i (revoked env)) db" by (auto simp: revoke_def result_simps)
  have id: "g_id (revoked env k) = g_id k" "g_revoked_at (revoked env k) \<noteq> None" for k by (auto simp: revoked_def)
  have "g_id g = i" "i \<in> g_id ` set (agent_grants db)" using row_get_Some [OF h(1)] by (auto simp: h(2) id)
  moreover have "g_id ` set (agent_grants db') = g_id ` set (agent_grants db)" by (simp add: h(3) keys_row_update id(1))
  moreover have "\<forall>k \<in> set (agent_grants db'). g_id k = i \<longrightarrow> g_revoked_at k \<noteq> None"
    using id(2) by (auto simp: h(3) set_row_update simp del: not_None_eq)
  ultimately show ?thesis by (simp add: out_of_use_def)
qed

text \<open>
  C21: Revoking a grant is final: whatever sequence of requests to the port follows, no token ever authenticates as that
  grant again, and no proposal made under it can be approved.
\<close>

theorem revocation_is_final:
  assumes "revoke env j db = Inr (g, db1)" "(port_step hash_secret dg)\<^sup>*\<^sup>* db1 db2"
  shows "(\<forall>env2 req grant. check_token env2 hash_secret req db2 = Inr grant \<longrightarrow> g_id grant \<noteq> g_id g) \<and>
    (\<forall>env2 reviewer pid remark i row. uuid_value ''id'' pid = Inr i \<and> row_get pr_id (agent_proposals db2) i = Some row \<and>
       pr_status row = ''pending'' \<and> pr_grant_id row = g_id g \<longrightarrow>
       review env2 dg reviewer pid Approve remark db2 = Inl (HTTPException 409 ''GRANT_INACTIVE''))"
proof -
  have out: "out_of_use (g_id g) db2" using port_run_out [OF assms(2) revoke_out [OF assms(1)]] .
  have "g_id grant \<noteq> g_id g" if "check_token env2 hash_secret req db2 = Inr grant" for env2 req grant
    by (rule check_token_Inr [OF that]) (use out in \<open>auto simp: out_of_use_def grant_live_def\<close>)
  moreover have "review env2 dg reviewer pid Approve remark db2 = Inl (HTTPException 409 ''GRANT_INACTIVE'')"
    if "uuid_value ''id'' pid = Inr i" "row_get pr_id (agent_proposals db2) i = Some row" "pr_status row = ''pending''"
      "pr_grant_id row = g_id g" for env2 reviewer pid remark i row
    using that out by (auto simp: review_def result_simps out_of_use_def grant_live_def split: option.splits dest!: row_get_Some)
  ultimately show ?thesis by blast
qed

section \<open>Proposals\<close>

definition canonical_tables :: "db \<Rightarrow> project list \<times> node list \<times> edge list \<times> content_block list \<times> branch list" where
  "canonical_tables db = (projects db, nodes db, edges db, content_blocks db, branches db)"

lemma receipt_canonical: "insert_receipt r d = Inr d' \<Longrightarrow> canonical_tables d' = canonical_tables d"
  by (drule insert_receipt_Inr) (simp add: canonical_tables_def)

lemma proposal_canonical: "insert_proposal r d = Inr d' \<Longrightarrow> canonical_tables d' = canonical_tables d"
  by (auto simp: insert_proposal_def canonical_tables_def split: if_splits)

lemma propose_canonical: "propose env dg grant body db = Inr (response, db') \<Longrightarrow> canonical_tables db' = canonical_tables db"
  by (auto simp: propose_def result_simps split: prod.splits if_splits
      elim!: store_once_frame [where f = canonical_tables] dest: receipt_canonical proposal_canonical)

lemma review_approved:
  assumes "review env dg reviewer pid Approve remark db = Inr (status, db')" "uuid_value ''id'' pid = Inr i"
    "row_get pr_id (agent_proposals db) i = Some row" "pr_status row = ''pending''"
    "find_receipt (pr_grant_id row) (proposal_key i) db = Inr None"
  obtains row' where "status = ''approved''" "row_get pr_id (agent_proposals db') i = Some row'" "pr_status row' = ''approved''"
proof -
  from assms(1-4) obtain grant body response where g: "row_get g_id (agent_grants db) (pr_grant_id row) = Some grant" and
    run: "apply_batch_serialized env dg grant body (Some reviewer) (Some (i, remark)) db = Inr (response, db')" and
    key: "bt_idempotency_key body = proposal_key i" and status: "status = ''approved''"
    by (auto simp: review_def result_simps split: option.splits if_splits)
  have new: "find_receipt (g_id grant) (bt_idempotency_key body) db = Inr None"
    using row_get_Some [OF g] assms(5) key by simp
  show ?thesis
  proof (rule batch_port [OF run new], goal_cases)
    case (1 receipt)
    then show ?thesis using that assms(3) status by (simp add: settle_proposal_def row_get_update)
  qed
qed

lemma review_decides:
  assumes "review env dg reviewer pid decision remark db = Inr (status, db')"
    "\<And>i row. uuid_value ''id'' pid = Inr i \<Longrightarrow> row_get pr_id (agent_proposals db) i = Some row \<Longrightarrow>
       find_receipt (pr_grant_id row) (proposal_key i) db = Inr None"
  obtains i row' where "uuid_value ''id'' pid = Inr i" "row_get pr_id (agent_proposals db') i = Some row'" "pr_status row' = status"
    "status \<noteq> ''pending''"
proof -
  from assms(1) obtain i row where i: "uuid_value ''id'' pid = Inr i" "row_get pr_id (agent_proposals db) i = Some row"
    by (auto simp: review_def result_simps)
  show ?thesis
  proof (cases "pr_status row = ''pending''")
    case True
    show ?thesis
    proof (cases decision)
      case Approve
      show ?thesis by (rule review_approved [OF assms(1) [unfolded Approve] i True assms(2) [OF i]]) (use that i in simp)
    next
      case Reject
      then show ?thesis using assms(1) i True that
        by (auto simp: review_def result_simps row_get_update reject_proposal_def)
    qed
  qed (use assms(1) i that in \<open>auto simp: review_def result_simps\<close>)
qed

text \<open>
  A proposal is decided once: after a successful review its row carries the decision, and every later review, of any kind and in
  any environment, only reports it; a rejection, like the proposal itself, changes no project, node, edge, block or branch. The
  hypothesis says that no receipt of the proposing grant uses the key reserved for the approval.
\<close>

theorem proposal_decided_once:
  assumes "review env dg reviewer pid decision remark db = Inr (status, db')"
    "\<And>i row. uuid_value ''id'' pid = Inr i \<Longrightarrow> row_get pr_id (agent_proposals db) i = Some row \<Longrightarrow>
       find_receipt (pr_grant_id row) (proposal_key i) db = Inr None"
  shows "status \<noteq> ''pending'' \<and> (\<forall>env2 reviewer2 decision2 remark2.
      review env2 dg reviewer2 pid decision2 remark2 db' = Inr (status, db')) \<and>
    (decision = Reject \<longrightarrow> canonical_tables db' = canonical_tables db) \<and>
    (\<forall>env0 grant body response db0. propose env0 dg grant body db0 = Inr (response, db) \<longrightarrow> canonical_tables db = canonical_tables db0)"
proof -
  obtain i row' where i: "uuid_value ''id'' pid = Inr i" "row_get pr_id (agent_proposals db') i = Some row'" "pr_status row' = status"
    "status \<noteq> ''pending''" by (rule review_decides [OF assms])
  have again: "review env2 dg reviewer2 pid decision2 remark2 db' = Inr (status, db')" for env2 reviewer2 decision2 remark2
    using i by (simp add: review_def result_simps)
  have "canonical_tables db' = canonical_tables db" if "decision = Reject"
    using assms(1) that by (auto simp: review_def result_simps canonical_tables_def split: if_splits)
  then show ?thesis using again i(4) propose_canonical by blast
qed

section \<open>Witnesses\<close>

definition control_env :: env where
  "control_env = sample_env\<lparr>uuid := (\<lambda>k. ''00000000-0000-0000-0000-'' @ replicate (11 - k) (CHR ''0'') @ replicate (Suc k) (CHR ''1''))\<rparr>"

definition control_grant :: agent_grant where
  "control_grant = sample_grant\<lparr>g_id := ''00000000-0000-0000-0000-00000000000a'', g_token_hash := ''hash''\<rparr>"

definition control_db :: db where
  "control_db = sample_db\<lparr>agent_grants := [control_grant]\<rparr>"

definition sample_proposal :: proposal_body where
  "sample_proposal = \<lparr>pb_batch = sample_batch, pb_target_node_id = Some ''a'', pb_title = ''T'', pb_rationale = []\<rparr>"

definition sample_request :: port_request where
  "sample_request = \<lparr>rq_client_host = ''127.0.0.1'', rq_query_token = False, rq_content_length = 0,
     rq_authorization = Some (''Bearer gm1.0123456789ab.'' @ replicate 32 (CHR ''s'')), rq_origin = None, rq_base_url = []\<rparr>"

definition sample_hash :: "string \<Rightarrow> string \<Rightarrow> string" where
  "sample_hash secret salt = (if secret = replicate 32 (CHR ''s'') then ''hash'' else [])"

theorem auth_needs_live_grant_witness:
  "\<exists>hits' grant db'. auth control_env 7 sample_hash sample_request [] control_db = (hits', Inr (grant, db')) \<and>
     (\<exists>row \<in> set (agent_grants control_db). g_revoked_at row = None \<and> db' = use_grant control_env row control_db)"
proof -
  have "case auth control_env 7 sample_hash sample_request [] control_db of (_, Inl _) \<Rightarrow> False | (_, Inr _) \<Rightarrow> True" by code_simp
  then obtain hits' grant db' where run: "auth control_env 7 sample_hash sample_request [] control_db = (hits', Inr (grant, db'))"
    by (auto split: prod.splits sum.splits)
  show ?thesis using auth_needs_live_grant [OF run] run by blast
qed

theorem revocation_is_final_witness:
  "\<exists>g db1. revoke control_env ''00000000-0000-0000-0000-00000000000a'' control_db = Inr (g, db1) \<and>
     check_token control_env sample_hash sample_request control_db = Inr control_grant \<and>
     (\<nexists>grant. check_token control_env sample_hash sample_request db1 = Inr grant \<and> g_id grant = g_id g)"
proof -
  have "case revoke control_env ''00000000-0000-0000-0000-00000000000a'' control_db of Inl _ \<Rightarrow> False | Inr _ \<Rightarrow> True"
    "check_token control_env sample_hash sample_request control_db = Inr control_grant" by code_simp+
  moreover from this(1) obtain g db1 where run: "revoke control_env ''00000000-0000-0000-0000-00000000000a'' control_db = Inr (g, db1)"
    by (auto split: sum.splits)
  ultimately show ?thesis using revocation_is_final [OF run rtranclp.rtrancl_refl, of sample_hash sample_digest] by blast
qed

text \<open>The proposal of the sample batch, its identifier, and an event of the same agent under the key of its approval.\<close>

definition sample_pid :: ident where
  "sample_pid = uuid control_env 2"

definition proposed_db :: "db" where
  "proposed_db = (case propose control_env sample_digest control_grant sample_proposal control_db of Inr (_, db) \<Rightarrow> db | Inl _ \<Rightarrow> control_db)"

definition sample_event :: event_body where
  "sample_event = \<lparr>eb_idempotency_key = proposal_key sample_pid, eb_target_node_id = None, eb_event_type = ''progress'',
     eb_message = ''m'', eb_payload = []\<rparr>"

theorem proposal_decided_once_witness:
  "\<exists>db'. review control_env sample_digest ''h'' sample_pid Approve [] proposed_db = Inr (''approved'', db') \<and>
     review sample_env sample_digest ''h'' sample_pid Reject ''no'' db' = Inr (''approved'', db')"
proof -
  have *: "case review control_env sample_digest ''h'' sample_pid Approve [] proposed_db of Inl _ \<Rightarrow> False | Inr (s, _) \<Rightarrow> s = ''approved''"
    "uuid_value ''id'' sample_pid = Inr sample_pid"
    "map_option (\<lambda>row. find_receipt (pr_grant_id row) (proposal_key sample_pid) proposed_db) (row_get pr_id (agent_proposals proposed_db) sample_pid)
       = Some (Inr None)" by code_simp+
  then obtain db' where run: "review control_env sample_digest ''h'' sample_pid Approve [] proposed_db = Inr (''approved'', db')"
    by (auto split: sum.splits)
  have free: "find_receipt (pr_grant_id row) (proposal_key i) proposed_db = Inr None"
    if "uuid_value ''id'' sample_pid = Inr i" "row_get pr_id (agent_proposals proposed_db) i = Some row" for i row
    using *(2,3) that by auto
  have "review sample_env sample_digest ''h'' sample_pid Reject ''no'' db' = Inr (''approved'', db')"
    using proposal_decided_once [OF run free] by blast
  then show ?thesis using run by blast
qed

text \<open>
  The keys of approvals share the name space of the agent's own idempotency keys: an agent that records an event under the
  key of a pending proposal makes that proposal impossible to approve, which it was possible to do before.
\<close>

theorem event_key_blocks_approval:
  "case event control_env sample_digest control_grant sample_event proposed_db of
     Inl _ \<Rightarrow> False
   | Inr (_, db') \<Rightarrow>
       (case review control_env sample_digest ''h'' sample_pid Approve [] proposed_db of Inl _ \<Rightarrow> False | Inr (s, _) \<Rightarrow> s = ''approved'') \<and>
       (case review control_env sample_digest ''h'' sample_pid Approve [] db' of
          Inl e \<Rightarrow> e = HTTPException 409 ''IDEMPOTENCY_MISMATCH'' | Inr _ \<Rightarrow> False)"
  by code_simp

end
