(* ===== verification/Providers.thy ===== *)
theory Providers
  imports Samples
begin

text \<open>
  Provider profiles and their secrets (\<open>api/routes.py\<close>, \<open>desktop/secrets.py\<close>, the provider schemas): a profile names
  the variable of its API key, which must lie in the application's own namespace; the key itself goes to the
  process memory in desktop mode and to the \<open>.env\<close> file otherwise. The file is its text (\<open>None\<close>: there is no file);
  failures of the file system are not modelled.
\<close>

section \<open>Text\<close>

text \<open>
  \<open>str.splitlines\<close> on the code points below 256: a carriage return with a line feed is one break (the file is
  also read with universal newlines). Then \<open>"\n".join\<close> and \<open>str.rstrip\<close>.
\<close>

fun universal_newlines :: "string \<Rightarrow> string" where
  "universal_newlines [] = []"
| "universal_newlines [c] = [if c = CHR 0x0D then CHR 0x0A else c]"
| "universal_newlines (c # d # s) =
     (if c = CHR 0x0D then if d = CHR 0x0A then CHR 0x0A # universal_newlines s else CHR 0x0A # universal_newlines (d # s)
      else c # universal_newlines (d # s))"

definition line_break :: "char \<Rightarrow> bool" where
  "line_break c \<longleftrightarrow> of_char c \<in> {10, 11, 12, 13, 28, 29, 30, 133 :: nat}"

fun lines_from :: "string \<Rightarrow> string \<Rightarrow> string list" where
  "lines_from cur [] = (if cur = [] then [] else [rev cur])"
| "lines_from cur (c # s) = (if line_break c then rev cur # lines_from [] s else lines_from (c # cur) s)"

definition splitlines :: "string \<Rightarrow> string list" where
  "splitlines s = lines_from [] (universal_newlines s)"

fun join_lines :: "string list \<Rightarrow> string" where
  "join_lines [] = []"
| "join_lines [l] = l"
| "join_lines (l # ls) = l @ CHR 0x0A # join_lines ls"

definition rstrip :: "string \<Rightarrow> string" where
  "rstrip s = rev (dropWhile py_space (rev s))"

text \<open>\<open>json.dumps\<close> of a string, with \<open>ensure_ascii\<close>.\<close>

definition hex_digit :: "nat \<Rightarrow> char" where
  "hex_digit n = ''0123456789abcdef'' ! n"

definition escape_char :: "char \<Rightarrow> string" where
  "escape_char c =
     (let n = of_char c :: nat
      in if c = CHR 0x22 then [CHR 0x5C, CHR 0x22]
         else if c = CHR 0x5C then [CHR 0x5C, CHR 0x5C]
         else if n = 10 then [CHR 0x5C, CHR ''n'']
         else if n = 13 then [CHR 0x5C, CHR ''r'']
         else if n = 9 then [CHR 0x5C, CHR ''t'']
         else if n = 12 then [CHR 0x5C, CHR ''f'']
         else if n = 8 then [CHR 0x5C, CHR ''b'']
         else if 32 \<le> n \<and> n \<le> 126 then [c]
         else [CHR 0x5C, CHR ''u'', CHR ''0'', CHR ''0'', hex_digit (n div 16), hex_digit (n mod 16)])"

definition json_dumps :: "string \<Rightarrow> string" where
  "json_dumps s = CHR 0x22 # concat (map escape_char s) @ [CHR 0x22]"

section \<open>Secrets\<close>

record secret_store =
  ss_env_file :: "string option"
  ss_environ :: "string \<Rightarrow> string option"
  ss_memory :: "ident \<Rightarrow> string option"

definition app_secret_prefix :: string where
  "app_secret_prefix = ''GROWTHMAP_LLM_KEY_''"

definition env_key_char :: "char \<Rightarrow> bool" where
  "env_key_char c \<longleftrightarrow> c \<in> set ''ABCDEFGHIJKLMNOPQRSTUVWXYZ0123456789_''"

text \<open>\<open>APP_SECRET_ENV_PATTERN.fullmatch(value)\<close>.\<close>

definition valid_app_secret_env_key :: "string \<Rightarrow> bool" where
  "valid_app_secret_env_key v \<longleftrightarrow> starts_with app_secret_prefix v \<and>
     (let rest = drop (length app_secret_prefix) v in 1 \<le> length rest \<and> length rest \<le> 96 \<and> list_all env_key_char rest)"

definition out_of_namespace :: error where
  "out_of_namespace = HTTPException 400 ''secret_env_key is outside the GrowthMap namespace''"

text \<open>\<open>re.match(rf"^\s*(?:export\s+)?{key}\s*=", line)\<close>.\<close>

definition skip_space :: "string \<Rightarrow> string" where
  "skip_space s = dropWhile py_space s"

definition key_equals :: "string \<Rightarrow> string \<Rightarrow> bool" where
  "key_equals key s \<longleftrightarrow> starts_with key s \<and> starts_with ''='' (skip_space (drop (length key) s))"

definition assigns :: "string \<Rightarrow> string \<Rightarrow> bool" where
  "assigns key line \<longleftrightarrow>
     (let s = skip_space line
      in key_equals key s \<or> starts_with ''export'' s \<and>
         (case drop 6 s of c # t \<Rightarrow> py_space c \<and> key_equals key (skip_space t) | [] \<Rightarrow> False))"

definition usable_secret :: "string \<Rightarrow> bool" where
  "usable_secret s \<longleftrightarrow> s \<noteq> [] \<and> CHR 0x00 \<notin> set s"

definition env_lines :: "secret_store \<Rightarrow> string list" where
  "env_lines st = (case ss_env_file st of None \<Rightarrow> [] | Some t \<Rightarrow> splitlines t)"

definition assignment :: "string \<Rightarrow> string \<Rightarrow> string" where
  "assignment key secret = key @ ''='' @ json_dumps secret"

definition replace_line :: "string \<Rightarrow> string \<Rightarrow> string list \<Rightarrow> string list" where
  "replace_line key line ls =
     (let updated = map (\<lambda>l. if assigns key l then line else l) ls
      in if list_ex (assigns key) ls then updated else updated @ [line])"

definition write_env_value :: "env \<Rightarrow> string \<Rightarrow> string \<Rightarrow> secret_store \<Rightarrow> secret_store result" where
  "write_env_value env key secret st =
     (if desktop_mode env then Inl (HTTPException 403 ''Desktop mode forbids env-file secret writes; use secure desktop storage'')
      else if \<not> valid_app_secret_env_key key then Inl out_of_namespace
      else if \<not> usable_secret secret then Inl (HTTPException 400 ''API key is required'')
      else Inr (st\<lparr>ss_env_file := Some (rstrip (join_lines (replace_line key (assignment key secret) (env_lines st))) @ [CHR 0x0A]),
                   ss_environ := (ss_environ st)(key \<mapsto> secret)\<rparr>))"

text \<open>\<open>desktop/secrets.py\<close>.\<close>

definition put_memory_secret :: "ident \<Rightarrow> string \<Rightarrow> secret_store \<Rightarrow> secret_store result" where
  "put_memory_secret i secret st =
     (if \<not> usable_secret secret then Inl (HTTPException 400 ''API key is required'')
      else Inr (st\<lparr>ss_memory := (ss_memory st)(i \<mapsto> secret)\<rparr>))"

definition delete_memory_secret :: "ident \<Rightarrow> secret_store \<Rightarrow> secret_store" where
  "delete_memory_secret i st = st\<lparr>ss_memory := (ss_memory st)(i := None)\<rparr>"

definition get_memory_secret :: "ident \<Rightarrow> secret_store \<Rightarrow> string option" where
  "get_memory_secret i st = ss_memory st i"

section \<open>Profiles\<close>

record provider_create =
  cv_name :: string
  cv_provider_type :: string
  cv_endpoint :: string
  cv_secret_env_key :: string
  cv_model_name :: string
  cv_capabilities :: "string list"
  cv_cost_level :: string
  cv_enabled :: bool

record provider_update =
  uv_name :: "string field"
  uv_provider_type :: "string field"
  uv_endpoint :: "string field"
  uv_secret_env_key :: "string field"
  uv_model_name :: "string field"
  uv_capabilities :: "string list field"
  uv_cost_level :: "string field"
  uv_enabled :: "bool field"

text \<open>The validators of the two bodies; a body they refuse is a 422 before the handler runs.\<close>

definition provider_create_valid :: "provider_create \<Rightarrow> bool" where
  "provider_create_valid data \<longleftrightarrow> valid_app_secret_env_key (cv_secret_env_key data)"

definition provider_update_valid :: "provider_update \<Rightarrow> bool" where
  "provider_update_valid data \<longleftrightarrow> (case uv_secret_env_key data of Assign (Some v) \<Rightarrow> valid_app_secret_env_key v | _ \<Rightarrow> True)"

definition list_providers :: "db \<Rightarrow> provider_config list" where
  "list_providers db = sort_key (\<lambda>p. - pc_created_at p) (provider_configs db)"

definition create_provider :: "env \<Rightarrow> provider_create \<Rightarrow> db \<Rightarrow> (provider_config \<times> db) result" where
  "create_provider env data db =
     (let provider = \<lparr>pc_id = uuid env 0, pc_name = cv_name data, pc_provider_type = cv_provider_type data,
            pc_endpoint = Some (cv_endpoint data), pc_auth_type = Some ''env'', pc_secret_env_key = Some (cv_secret_env_key data),
            pc_model_name = Some (cv_model_name data), pc_capabilities = Some (cv_capabilities data),
            pc_cost_level = Some (cv_cost_level data), pc_enabled = Some (cv_enabled data), pc_settings = Some (JObj []),
            pc_created_at = now env, pc_updated_at = now env\<rparr>
      in and_then (insert_provider provider db) (\<lambda>db. Inr (provider, db)))"

definition is_local_client :: "string \<Rightarrow> bool" where
  "is_local_client host \<longleftrightarrow> host \<in> {''127.0.0.1'', ''localhost'', ''testclient''}"

definition write_provider_secret :: "env \<Rightarrow> ident \<Rightarrow> string \<Rightarrow> string \<Rightarrow> db \<Rightarrow> secret_store \<Rightarrow> secret_store result" where
  "write_provider_secret env provider_id api_key client_host db st =
     (if \<not> is_local_client client_host then Inl (HTTPException 403 ''Provider secrets can only be configured from localhost'')
      else case get_provider_row db provider_id of
        None \<Rightarrow> Inl (HTTPException 404 ''Provider not found'')
      | Some provider \<Rightarrow>
          (case pc_secret_env_key provider of
             None \<Rightarrow> Inl TypeError
           | Some key \<Rightarrow>
               if \<not> valid_app_secret_env_key key then Inl out_of_namespace
               else if pc_provider_type provider = ''mock'' then Inl (HTTPException 400 ''Mock provider does not use an API key'')
               else if desktop_mode env then put_memory_secret (pc_id provider) api_key st
               else write_env_value env key api_key st))"

definition apply_provider_update :: "env \<Rightarrow> provider_update \<Rightarrow> provider_config \<Rightarrow> provider_config" where
  "apply_provider_update env data p =
     p\<lparr>pc_name := assign_required (uv_name data) (pc_name p),
       pc_provider_type := assign_required (uv_provider_type data) (pc_provider_type p),
       pc_endpoint := assign_nullable (uv_endpoint data) (pc_endpoint p),
       pc_auth_type := Some ''env'',
       pc_secret_env_key := assign_nullable (uv_secret_env_key data) (pc_secret_env_key p),
       pc_model_name := assign_nullable (uv_model_name data) (pc_model_name p),
       pc_capabilities := assign_nullable (uv_capabilities data) (pc_capabilities p),
       pc_cost_level := assign_nullable (uv_cost_level data) (pc_cost_level p),
       pc_enabled := assign_nullable (uv_enabled data) (pc_enabled p)\<rparr>"

text \<open>\<open>onupdate\<close> runs only when a column has changed.\<close>

definition stamp_provider :: "env \<Rightarrow> provider_config \<Rightarrow> provider_config \<Rightarrow> provider_config" where
  "stamp_provider env old p = (if p = old then p else p\<lparr>pc_updated_at := now env\<rparr>)"

definition update_provider :: "env \<Rightarrow> ident \<Rightarrow> provider_update \<Rightarrow> db \<Rightarrow> (provider_config \<times> db) result" where
  "update_provider env provider_id data db =
     (case get_provider_row db provider_id of
        None \<Rightarrow> Inl (HTTPException 404 ''Provider not found'')
      | Some provider \<Rightarrow>
          if is_null (uv_name data) \<or> is_null (uv_provider_type data) then Inl IntegrityError
          else let provider' = stamp_provider env provider (apply_provider_update env data provider)
               in Inr (provider', provider_configs_update (row_update pc_id provider_id (\<lambda>_. provider')) db))"

definition delete_provider :: "ident \<Rightarrow> db \<Rightarrow> (unit \<times> db) result" where
  "delete_provider provider_id db =
     (case get_provider_row db provider_id of
        None \<Rightarrow> Inl (HTTPException 404 ''Provider not found'')
      | Some provider \<Rightarrow> and_then (delete_provider_row provider_id db) (\<lambda>db. Inr ((), db)))"

section \<open>Invariant\<close>

lemma create_provider_ok: "create_provider env data db = Inr (p, db') \<Longrightarrow> db_ok db \<Longrightarrow> db_ok db'"
  by (auto simp: create_provider_def Let_def result_simps intro: ok_insert_provider)

lemma update_provider_ok:
  assumes "update_provider env i data db = Inr (p, db')" "db_ok db"
  shows "db_ok db'"
proof -
  from assms(1) obtain old where old: "get_provider_row db i = Some old" and p: "p = stamp_provider env old (apply_provider_update env data old)"
    and db': "db' = provider_configs_update (row_update pc_id i (\<lambda>_. p)) db"
    by (auto simp: update_provider_def result_simps Let_def)
  have "pc_id p = i" using row_get_Some [of pc_id _ i old] old by (auto simp: p stamp_provider_def apply_provider_update_def get_provider_row_def)
  then have "pc_id (if pc_id q = i then p else q) = pc_id q" for q by simp
  then have "schema_ok (provider_configs_update (map (\<lambda>q. if pc_id q = i then p else q)) db)"
    using assms(2) by (intro schema_map_providers) (simp_all add: db_ok_def)
  then show ?thesis using assms(2) by (simp add: db' row_update_def [abs_def] db_ok_def ownership_ok_def)
qed

lemma delete_provider_ok: "delete_provider i db = Inr (u, db') \<Longrightarrow> db_ok db \<Longrightarrow> db_ok db'"
  by (auto simp: delete_provider_def result_simps db_ok_def ownership_ok_def delete_provider_row_def split: if_splits
      intro: schema_delete_provider [unfolded delete_provider_row_def])

section \<open>The file after a write\<close>

definition blank :: "string \<Rightarrow> bool" where
  "blank s \<longleftrightarrow> list_all py_space s"

definition one_line :: "string \<Rightarrow> bool" where
  "one_line s \<longleftrightarrow> (\<forall>c \<in> set s. \<not> line_break c)"

lemma breaks_are_spaces: "line_break c \<Longrightarrow> py_space c"
  by (auto simp: line_break_def py_space_def)

lemma newline_simps [simp]: "line_break (CHR 0x0A)" "py_space (CHR 0x0A)"
  by (simp_all add: line_break_def py_space_def)

lemma lines_from_line: "one_line l \<Longrightarrow> lines_from cur (l @ CHR 0x0A # s) = (rev cur @ l) # lines_from [] s"
proof (induction l arbitrary: cur)
qed (simp_all add: one_line_def)

lemma universal_newlines_id: "CHR 0x0D \<notin> set s \<Longrightarrow> universal_newlines s = s"
  by (induction s rule: universal_newlines.induct) auto

lemma splitlines_join:
  assumes "\<forall>l \<in> set ls. one_line l" "ls \<noteq> []"
  shows "splitlines (join_lines ls @ [CHR 0x0A]) = ls"
proof -
  have "CHR 0x0D \<notin> set l" if "one_line l" for l using that by (auto simp: one_line_def line_break_def)
  then have "CHR 0x0D \<notin> set (join_lines ls @ [CHR 0x0A])"
    using assms(1) by (induction ls rule: join_lines.induct) auto
  moreover have "lines_from [] (join_lines ls @ [CHR 0x0A]) = ls"
    using assms by (induction ls rule: join_lines.induct) (simp_all add: lines_from_line)
  ultimately show ?thesis by (simp add: splitlines_def universal_newlines_id)
qed

lemma lines_from_one_line: "one_line cur \<Longrightarrow> list_all one_line (lines_from cur s)"
proof (induction s arbitrary: cur)
  case (Cons c s)
  have "one_line []" "one_line (rev cur)" "\<not> line_break c \<Longrightarrow> one_line (c # cur)" using Cons.prems by (simp_all add: one_line_def)
  then show ?case using Cons.IH by simp
qed (simp add: one_line_def)

lemma splitlines_one_line: "l \<in> set (splitlines s) \<Longrightarrow> one_line l"
  using lines_from_one_line [of "[]"] by (simp add: splitlines_def list_all_iff one_line_def)

lemma rstrip_append: "rstrip (s @ t) = (if blank t then rstrip s else s @ rstrip t)"
proof -
  have "blank t \<longleftrightarrow> (\<forall>c \<in> set (rev t). py_space c)" by (simp add: blank_def list_all_iff)
  then show ?thesis unfolding rstrip_def by (simp add: dropWhile_append)
qed

lemma rstrip_parts: "\<exists>w. s = rstrip s @ w \<and> blank w"
proof -
  have "s = rstrip s @ rev (takeWhile py_space (rev s))"
    unfolding rstrip_def by (metis rev_append rev_rev_ident takeWhile_dropWhile_id)
  moreover have "blank (rev (takeWhile py_space (rev s)))" by (auto simp: blank_def list_all_iff dest: set_takeWhileD)
  ultimately show ?thesis by blast
qed

lemma one_line_rstrip: "one_line l \<Longrightarrow> one_line (rstrip l)"
  using set_dropWhileD by (fastforce simp: one_line_def rstrip_def)

lemma join_snoc: "join_lines (ls @ [l]) = (if ls = [] then l else join_lines ls @ CHR 0x0A # l)"
  by (induction ls rule: join_lines.induct) simp_all

text \<open>What the final \<open>rstrip\<close> does to lines of which one is not blank.\<close>

lemma rstrip_join:
  assumes "\<exists>l \<in> set ls. \<not> blank l"
  obtains pre l post where "ls = pre @ l # post" "\<not> blank l" "\<forall>b \<in> set post. blank b"
    "rstrip (join_lines ls) = join_lines (pre @ [rstrip l])"
proof -
  have "\<exists>pre l post. ls = pre @ l # post \<and> \<not> blank l \<and> (\<forall>b \<in> set post. blank b) \<and>
      rstrip (join_lines ls) = join_lines (pre @ [rstrip l])"
    using assms
  proof (induction ls rule: rev_induct)
    case (snoc x ls)
    show ?case
    proof (cases "blank x")
      case True
      then obtain pre l post where parts: "ls = pre @ l # post" "\<not> blank l" "\<forall>b \<in> set post. blank b"
        "rstrip (join_lines ls) = join_lines (pre @ [rstrip l])" using snoc by auto
      have "blank (CHR 0x0A # x)" using True by (simp add: blank_def)
      moreover have "ls \<noteq> []" using parts(1) by simp
      ultimately have "rstrip (join_lines (ls @ [x])) = rstrip (join_lines ls)" by (simp add: join_snoc rstrip_append)
      then show ?thesis using parts True by (intro exI [of _ pre] exI [of _ l] exI [of _ "post @ [x]"]) auto
    next
      case False
      have "rstrip (join_lines ls @ [CHR 0x0A] @ x) = (join_lines ls @ [CHR 0x0A]) @ rstrip x"
        using False rstrip_append [of "join_lines ls @ [CHR 0x0A]" x] by simp
      then have "rstrip (join_lines (ls @ [x])) = join_lines (ls @ [rstrip x])" by (simp add: join_snoc)
      then show ?thesis using False by (intro exI [of _ ls] exI [of _ x] exI [of _ "[]"]) simp
    qed
  qed simp
  then show ?thesis using that by blast
qed

section \<open>Which lines assign the key\<close>

definition spaceless :: "string \<Rightarrow> bool" where
  "spaceless s \<longleftrightarrow> s \<noteq> [] \<and> list_all (\<lambda>c. \<not> py_space c) s"

lemma starts_with_blank:
  assumes "spaceless p" "blank w"
  shows "starts_with p (s @ w) = starts_with p s"
proof (cases "length p \<le> length s")
  case False
  then have "take (length p) (s @ w) \<noteq> p"
  proof -
    have "drop (length s) p \<noteq> []" "set (drop (length s) p) \<subseteq> set p" using False by (auto dest: in_set_dropD)
    moreover have "drop (length s) p = take (length p - length s) w" if "take (length p) (s @ w) = p"
    proof -
      have "s @ take (length p - length s) w = p" using that False by simp
      then show ?thesis by (metis append_eq_conv_conj)
    qed
    moreover have "c \<in> set (take k w) \<Longrightarrow> py_space c" for c k using assms(2) by (auto simp: blank_def list_all_iff dest: in_set_takeD)
    ultimately show ?thesis using assms(1) unfolding spaceless_def list_all_iff
      by (metis last_in_set subset_iff)
  qed
  then show ?thesis using False by (auto simp: starts_with_def)
qed (simp add: starts_with_def)

lemma skip_space_append: "blank w \<Longrightarrow> skip_space (s @ w) = (if blank s then [] else skip_space s @ w)"
  by (induction s) (auto simp: skip_space_def blank_def list_all_iff dropWhile_eq_Nil_conv)

lemma skip_space_blank: "blank s \<Longrightarrow> skip_space s = []"
  by (auto simp: skip_space_def blank_def list_all_iff dropWhile_eq_Nil_conv)

lemma starts_with_Nil: "spaceless p \<Longrightarrow> \<not> starts_with p []"
  by (auto simp: starts_with_def spaceless_def)

lemma spaceless_literals: "spaceless ''=''" "spaceless ''export''"
  by (simp_all add: spaceless_def py_space_def)

lemma key_equals_blank:
  assumes "spaceless key" "blank w"
  shows "key_equals key (s @ w) = key_equals key s"
proof (cases "starts_with key s")
  case True
  then have len: "length key \<le> length s" by (metis nat_le_linear starts_with_def take_all)
  have "starts_with ''='' (skip_space (drop (length key) s @ w)) = starts_with ''='' (skip_space (drop (length key) s))"
    using starts_with_blank [OF spaceless_literals(1) assms(2)] starts_with_Nil [OF spaceless_literals(1)]
    by (simp add: skip_space_append [OF assms(2)] skip_space_blank)
  then show ?thesis using len starts_with_blank [OF assms] by (simp add: key_equals_def)
next
  case False
  then show ?thesis using starts_with_blank [OF assms] by (simp add: key_equals_def)
qed

lemma key_equals_Nil: "spaceless key \<Longrightarrow> \<not> key_equals key []"
  by (simp add: key_equals_def starts_with_Nil)

lemma assigns_blank:
  assumes "spaceless key" "blank w"
  shows "assigns key (s @ w) = assigns key s"
proof (cases "blank s")
  case True
  then show ?thesis by (simp add: assigns_def skip_space_append [OF assms(2)] skip_space_blank)
next
  case False
  let ?s = "skip_space s"
  have "starts_with ''export'' (?s @ w) \<and> (case drop 6 (?s @ w) of c # t \<Rightarrow> py_space c \<and> key_equals key (skip_space t) | [] \<Rightarrow> False) \<longleftrightarrow>
    starts_with ''export'' ?s \<and> (case drop 6 ?s of c # t \<Rightarrow> py_space c \<and> key_equals key (skip_space t) | [] \<Rightarrow> False)"
  proof (cases "starts_with ''export'' ?s")
    case True
    then have len: "6 \<le> length ?s" using arg_cong [of _ _ length] by (fastforce simp: starts_with_def)
    have tl: "blank (tl w)" using assms(2) by (cases w) (simp_all add: blank_def)
    show ?thesis
    proof (cases "drop 6 ?s")
      case Nil
      then have "drop 6 (?s @ w) = w" using len by simp
      then show ?thesis using Nil tl key_equals_Nil [OF assms(1)] by (cases w) (simp_all add: skip_space_blank)
    next
      case (Cons c t)
      then have "drop 6 (?s @ w) = c # t @ w" using len by simp
      moreover have "key_equals key (skip_space (t @ w)) = key_equals key (skip_space t)"
        using key_equals_blank [OF assms] by (simp add: skip_space_append [OF assms(2)] skip_space_blank)
      ultimately show ?thesis using Cons True starts_with_blank [OF spaceless_literals(2) assms(2)] by simp
    qed
  next
    case False
    then show ?thesis using starts_with_blank [OF spaceless_literals(2) assms(2)] by simp
  qed
  moreover have "skip_space (s @ w) = ?s @ w" using False by (simp add: skip_space_append [OF assms(2)])
  ultimately show ?thesis unfolding assigns_def Let_def by (simp only: key_equals_blank [OF assms])
qed

lemma assigns_rstrip: "spaceless key \<Longrightarrow> assigns key (rstrip l) = assigns key l"
  using rstrip_parts [of l] assigns_blank by metis

section \<open>Properties\<close>

lemma env_key_char_solid: "env_key_char c \<Longrightarrow> \<not> py_space c \<and> \<not> line_break c"
  by (auto simp: env_key_char_def py_space_def line_break_def)

lemma valid_key_chars:
  assumes "valid_app_secret_env_key key"
  shows "list_all env_key_char key" "key \<noteq> []"
proof -
  let ?p = app_secret_prefix
  have "key = ?p @ drop (length ?p) key"
    using assms append_take_drop_id [of "length ?p" key] by (auto simp: valid_app_secret_env_key_def starts_with_def Let_def)
  moreover have "list_all env_key_char ?p" by (simp add: app_secret_prefix_def env_key_char_def)
  moreover have "list_all env_key_char (drop (length ?p) key)" "drop (length ?p) key \<noteq> []"
    using assms by (auto simp: valid_app_secret_env_key_def Let_def)
  ultimately show "list_all env_key_char key" "key \<noteq> []" by (metis list_all_append, auto)
qed

lemma valid_key_spaceless: "valid_app_secret_env_key key \<Longrightarrow> spaceless key"
  using valid_key_chars env_key_char_solid by (auto simp: spaceless_def list_all_iff)

definition printable :: "char \<Rightarrow> bool" where
  "printable c \<longleftrightarrow> 32 \<le> (of_char c :: nat) \<and> (of_char c :: nat) \<le> 126"

lemma printable_one_line: "list_all printable s \<Longrightarrow> one_line s"
  by (auto simp: list_all_iff printable_def one_line_def line_break_def)

lemma hex_printable: "n < 16 \<Longrightarrow> printable (hex_digit n)"
proof -
  assume "n < 16"
  then have "hex_digit n \<in> set ''0123456789abcdef''" unfolding hex_digit_def by (intro nth_mem) simp
  then show ?thesis by (auto simp: printable_def)
qed

lemma escape_printable: "list_all printable (escape_char c)"
proof -
  have "(of_char c :: nat) < 16 * 16" by (cases c) simp
  then have "(of_char c :: nat) div 16 < 16" by (rule less_mult_imp_div_less)
  then have "printable (hex_digit (of_char c div 16))" "printable (hex_digit (of_char c mod 16))"
    by (auto intro!: hex_printable)
  then show ?thesis by (auto simp: escape_char_def Let_def printable_def)
qed

lemma dumps_printable: "list_all printable (json_dumps s)"
  using escape_printable by (auto simp: json_dumps_def list_all_iff printable_def)

lemma assignment_one_line: "valid_app_secret_env_key key \<Longrightarrow> one_line (assignment key secret)"
  using valid_key_chars(1) env_key_char_solid printable_one_line [OF dumps_printable]
  by (auto simp: assignment_def one_line_def list_all_iff line_break_def)

lemma assignment_solid: "\<not> blank (assignment key secret)" "rstrip (assignment key secret) = assignment key secret"
  by (auto simp: assignment_def json_dumps_def blank_def rstrip_def py_space_def)

lemma assignment_assigns:
  assumes "valid_app_secret_env_key key"
  shows "assigns key (assignment key secret)"
proof -
  obtain c t where key: "key = c # t" "\<not> py_space c"
    using valid_key_spaceless [OF assms] by (cases key) (auto simp: spaceless_def)
  have "skip_space (assignment key secret) = assignment key secret" using key by (simp add: assignment_def skip_space_def)
  then show ?thesis
    by (simp add: assigns_def key_equals_def assignment_def starts_with_def skip_space_def py_space_def)
qed

text \<open>The other lines of a file, up to blank ones and trailing space.\<close>

definition other_lines :: "string \<Rightarrow> string list \<Rightarrow> string list" where
  "other_lines key ls = map rstrip (filter (\<lambda>l. \<not> assigns key l \<and> \<not> blank l) ls)"

lemma rstrip_solid: "blank (rstrip l) = blank l" "rstrip (rstrip l) = rstrip l"
proof -
  obtain w where w: "l = rstrip l @ w" "blank w" using rstrip_parts by blast
  then show "blank (rstrip l) = blank l" by (metis blank_def list_all_append)
  show "rstrip (rstrip l) = rstrip l" using w by (metis rstrip_append)
qed

lemma write_env_lines:
  assumes "write_env_value env key secret st = Inr st'"
  obtains pre l post where "replace_line key (assignment key secret) (env_lines st) = pre @ l # post" "\<forall>b \<in> set post. blank b"
    "env_lines st' = pre @ [rstrip l]" "valid_app_secret_env_key key" "ss_environ st' = (ss_environ st)(key \<mapsto> secret)"
proof -
  let ?ls = "replace_line key (assignment key secret) (env_lines st)"
  have key: "valid_app_secret_env_key key" and written: "ss_env_file st' = Some (rstrip (join_lines ?ls) @ [CHR 0x0A])"
    and environ: "ss_environ st' = (ss_environ st)(key \<mapsto> secret)"
    using assms by (auto simp: write_env_value_def split: if_splits)
  have "assignment key secret \<in> set ?ls" by (auto simp: replace_line_def Let_def list_ex_iff)
  then obtain pre l post where parts: "?ls = pre @ l # post" "\<forall>b \<in> set post. blank b"
    "rstrip (join_lines ?ls) = join_lines (pre @ [rstrip l])"
    using assignment_solid(1) by (metis rstrip_join)
  have "\<forall>x \<in> set (env_lines st). one_line x" by (auto simp: env_lines_def splitlines_one_line split: option.splits)
  then have "\<forall>x \<in> set ?ls. one_line x" using assignment_one_line [OF key] by (auto simp: replace_line_def Let_def)
  then have "splitlines (join_lines (pre @ [rstrip l]) @ [CHR 0x0A]) = pre @ [rstrip l]"
    using parts(1) by (intro splitlines_join) (auto intro: one_line_rstrip)
  then show ?thesis using that parts key environ written by (simp add: env_lines_def)
qed

lemma other_lines_tail:
  assumes "spaceless key" "\<forall>b \<in> set post. blank b"
  shows "other_lines key (pre @ l # post) = other_lines key (pre @ [rstrip l])"
  using assms by (auto simp: other_lines_def assigns_rstrip rstrip_solid filter_empty_conv)

lemma other_lines_replace:
  "assigns key line \<Longrightarrow> other_lines key (replace_line key line ls) = other_lines key ls"
proof -
  assume hit: "assigns key line"
  have "filter (\<lambda>l. \<not> assigns key l \<and> \<not> blank l) (map (\<lambda>l. if assigns key l then line else l) ls) =
      filter (\<lambda>l. \<not> assigns key l \<and> \<not> blank l) ls"
    using hit by (induction ls) auto
  then show ?thesis using hit by (simp add: other_lines_def replace_line_def Let_def)
qed

text \<open>
  Writing a provider's secret outside desktop mode leaves an environment file in which the lines assigning the variable,
  at least one, all hold exactly the JSON text of the new secret on a single line, whatever characters the secret has, and in which the
  other lines are as before, in order, up to blank lines and trailing space; the process sees the secret at once.
\<close>

theorem write_env_value_sets_one_key:
  assumes "write_env_value env key secret st = Inr st'"
  shows "filter (assigns key) (env_lines st') \<noteq> [] \<and>
    (\<forall>l \<in> set (filter (assigns key) (env_lines st')). l = key @ ''='' @ json_dumps secret) \<and>
    other_lines key (env_lines st') = other_lines key (env_lines st) \<and> ss_environ st' = (ss_environ st)(key \<mapsto> secret)"
proof -
  let ?a = "assignment key secret"
  obtain pre l post where parts: "replace_line key ?a (env_lines st) = pre @ l # post" "\<forall>b \<in> set post. blank b"
    "env_lines st' = pre @ [rstrip l]" "valid_app_secret_env_key key" "ss_environ st' = (ss_environ st)(key \<mapsto> secret)"
    by (rule write_env_lines [OF assms])
  have solid: "spaceless key" and hit: "assigns key ?a" using parts(4) by (simp_all add: valid_key_spaceless assignment_assigns)
  have "other_lines key (env_lines st') = other_lines key (env_lines st)"
    using other_lines_tail [OF solid parts(2), of pre l] other_lines_replace [OF hit, of "env_lines st"] by (simp add: parts(1,3))
  moreover have only: "\<forall>x \<in> set (pre @ l # post). assigns key x \<longrightarrow> x = ?a"
    unfolding parts(1) [symmetric] by (auto simp: replace_line_def Let_def list_ex_iff split: if_splits)
  then have "\<forall>x \<in> set (env_lines st'). assigns key x \<longrightarrow> x = ?a"
    using assignment_solid(2) [of key secret] by (auto simp: parts(3) assigns_rstrip [OF solid])
  moreover have "?a \<in> set (pre @ l # post)" unfolding parts(1) [symmetric] by (auto simp: replace_line_def Let_def list_ex_iff)
  then have "?a \<in> set (env_lines st')" using parts(2) assignment_solid [of key secret] by (auto simp: parts(3))
  then have "filter (assigns key) (env_lines st') \<noteq> []" using hit by (auto simp only: filter_empty_conv)
  ultimately show ?thesis using parts(5) by (simp add: assignment_def)
qed

definition sample_store :: secret_store where
  "sample_store = \<lparr>ss_env_file = Some (''A=1'' @ [CHR 0x0A] @ '' export GROWTHMAP_LLM_KEY_A = old'' @ [CHR 0x0D, CHR 0x0A, CHR 0x0A] @ ''B=2 ''),
     ss_environ = Map.empty, ss_memory = Map.empty\<rparr>"

theorem write_env_value_sets_one_key_witness:
  "\<exists>st'. write_env_value (sample_env\<lparr>desktop_mode := False\<rparr>) ''GROWTHMAP_LLM_KEY_A'' [CHR ''k'', CHR 0x0A, CHR 0x22] sample_store = Inr st' \<and>
     env_lines sample_store = [''A=1'', '' export GROWTHMAP_LLM_KEY_A = old'', [], ''B=2 ''] \<and>
     other_lines ''GROWTHMAP_LLM_KEY_A'' (env_lines st') = [''A=1'', ''B=2'']"
proof -
  let ?st = "write_env_value (sample_env\<lparr>desktop_mode := False\<rparr>) ''GROWTHMAP_LLM_KEY_A'' [CHR ''k'', CHR 0x0A, CHR 0x22] sample_store"
  have *: "case ?st of Inl _ \<Rightarrow> False | Inr _ \<Rightarrow> True"
    "env_lines sample_store = [''A=1'', '' export GROWTHMAP_LLM_KEY_A = old'', [], ''B=2 '']"
    "other_lines ''GROWTHMAP_LLM_KEY_A'' (env_lines sample_store) = [''A=1'', ''B=2'']" by code_simp+
  then obtain st' where run: "?st = Inr st'" by (cases ?st) auto
  show ?thesis using write_env_value_sets_one_key [OF run] run * by simp
qed

end
