(* ===== verification/Ai_Growth.thy ===== *)
theory Ai_Growth
  imports Providers
begin

text \<open>
  The AI routes (\<open>ai/routes.py\<close>), the context they assemble (\<open>ai/context.py\<close>) and the choice of client and its
  request loop (\<open>ai/providers\<close>). Prompts are kept as the data they are built from. What the language model answers is a parameter
  (\<open>answer\<close>), as are the HTTP transport (\<open>http\<close>) and \<open>json.loads\<close> (\<open>loads\<close>, \<open>None\<close> for invalid text); texts of exceptions are not kept.
\<close>

section \<open>The context of a node\<close>

definition parent_ids :: "db \<Rightarrow> ident \<Rightarrow> ident list" where
  "parent_ids db x = map e_from_node_id (filter (\<lambda>e. e_to_node_id e = x \<and> is_child_edge e) (edges db))"

text \<open>The rows of the recursive query at one depth; \<open>UNION ALL\<close> keeps duplicates.\<close>

primrec ancestor_level :: "db \<Rightarrow> ident \<Rightarrow> nat \<Rightarrow> ident list" where
  "ancestor_level db x 0 = [x]"
| "ancestor_level db x (Suc d) = concat (map (parent_ids db) (ancestor_level db x d))"

definition blocks_in_order :: "ident \<Rightarrow> db \<Rightarrow> content_block list" where
  "blocks_in_order x db = sort_key b_order_index (filter (\<lambda>b. b_node_id b = x) (content_blocks db))"

definition load_ancestor_path :: "ident \<Rightarrow> db \<Rightarrow> (node \<times> content_block list) list \<times> ident option" where
  "load_ancestor_path nid db =
     (let rows = concat (map (\<lambda>d. List.map_filter (get_node_row db) (ancestor_level db nid d)) [5, 4, 3, 2, 1])
      in (map (\<lambda>n. (n, blocks_in_order (n_id n) db)) rows, if rows = [] then None else Some (n_id (last rows))))"

record ai_context =
  ax_project :: project
  ax_ancestors :: "(node \<times> content_block list) list"
  ax_node :: node
  ax_siblings :: "node list"
  ax_children :: "node list"
  ax_blocks :: "content_block list"
  ax_history :: "action_log list"

definition build_node_context :: "ident \<Rightarrow> db \<Rightarrow> ai_context result" where
  "build_node_context nid db =
     (case get_node_row db nid of
        None \<Rightarrow> Inl ValueError
      | Some n \<Rightarrow>
          (case get_project_row db (n_project_id n) of
             None \<Rightarrow> Inl ValueError
           | Some p \<Rightarrow>
               let (ancestors, parent_id) = load_ancestor_path nid db;
                   sources = nid # (if truthy parent_id then [the parent_id] else []);
                   rows = filter (\<lambda>e. is_child_edge e \<and> e_from_node_id e \<in> set sources) (edges db)
               in Inr \<lparr>ax_project = p, ax_ancestors = ancestors, ax_node = n,
                    ax_siblings = List.map_filter (\<lambda>e. case get_node_row db (e_to_node_id e) of
                        None \<Rightarrow> None
                      | Some m \<Rightarrow> if e_from_node_id e \<noteq> nid \<and> truthy parent_id \<and> Some (e_from_node_id e) = parent_id \<and> n_id m \<noteq> nid then Some m else None) rows,
                    ax_children = List.map_filter (\<lambda>e. if e_from_node_id e = nid then get_node_row db (e_to_node_id e) else None) rows,
                    ax_blocks = blocks_in_order nid db,
                    ax_history = take 10 (sort_key (\<lambda>l. - l_created_at l) (filter (\<lambda>l. l_node_id l = Some nid) (action_logs db)))\<rparr>))"

section \<open>Provider profiles and clients\<close>

record llm_config =
  lc_provider :: string
  lc_api_key :: "string option"
  lc_base_url :: "string option"
  lc_model :: "string option"

definition to_llm_config :: "env \<Rightarrow> secret_store \<Rightarrow> ident \<Rightarrow> db \<Rightarrow> (llm_config \<times> ident) result" where
  "to_llm_config env st provider_id db =
     (case get_provider_row db provider_id of
        None \<Rightarrow> Inl ValueError
      | Some pc \<Rightarrow>
          if pc_enabled pc \<noteq> Some True then Inl ValueError
          else (case pc_secret_env_key pc of
             None \<Rightarrow> Inl TypeError
           | Some key \<Rightarrow>
               if \<not> valid_app_secret_env_key key then Inl ValueError
               else let api_key = (if desktop_mode env then get_memory_secret (pc_id pc) st else ss_environ st key)
                    in if pc_provider_type pc \<noteq> ''mock'' \<and> \<not> truthy api_key then Inl ValueError
                       else Inr (\<lparr>lc_provider = pc_provider_type pc, lc_api_key = api_key, lc_base_url = or_none (pc_endpoint pc),
                              lc_model = or_none (pc_model_name pc)\<rparr>, pc_id pc)))"

text \<open>The defaults the module reads from the environment when it is loaded.\<close>

record llm_defaults =
  ld_base_url :: string
  ld_api_key :: string
  ld_model :: string

datatype llm_client = MockClient | OpenAIClient string string string

definition py_lower :: "string \<Rightarrow> string" where
  "py_lower s = map (\<lambda>c. if 65 \<le> (of_char c :: nat) \<and> (of_char c :: nat) \<le> 90 then char_of (of_char c + 32 :: nat) else c) s"

definition openai_client :: "llm_defaults \<Rightarrow> string option \<Rightarrow> string option \<Rightarrow> string option \<Rightarrow> llm_client" where
  "openai_client d base_url api_key model =
     OpenAIClient (rstrip_slash (or_default base_url (ld_base_url d))) (or_default api_key (ld_api_key d)) (or_default model (ld_model d))"

definition get_provider :: "llm_defaults \<Rightarrow> llm_config \<Rightarrow> llm_client" where
  "get_provider d config =
     (let provider_val = py_lower (lc_provider config)
      in if provider_val = ''mock'' then MockClient
         else if provider_val \<in> {''openai_compatible'', ''custom'', ''openai''}
         then if provider_val = ''openai'' \<and> \<not> truthy (lc_base_url config)
              then openai_client d None (lc_api_key config) (Some (or_default (lc_model config) ''gpt-4o''))
              else openai_client d (lc_base_url config) (lc_api_key config) (lc_model config)
         else openai_client d None None None)"

text \<open>
  The request loop of \<open>OpenAICompatibleProvider.complete\<close>. \<open>http k\<close> is what the \<open>k\<close>-th request meets: a response with its status
  and body (\<open>None\<close>: not JSON), a time-out, or another failure of the transport. The result counts the requests.
\<close>

datatype http_outcome = Response int "json option" | Timeout | TransportFailure

definition retryable :: "int \<Rightarrow> bool" where
  "retryable status \<longleftrightarrow> status \<in> {429, 500, 502, 503}"

text \<open>One pass through the loop body: go round again, or leave it with data or an exception.\<close>

datatype attempt = Again | Leave "json result"

definition try_request :: "nat \<Rightarrow> http_outcome \<Rightarrow> attempt" where
  "try_request k outcome =
     (case outcome of
        Response status body \<Rightarrow>
          if retryable status \<and> k = 0 then Again
          else if \<not> (200 \<le> status \<and> status < 300) then Leave (Inl OtherException)
          else (case body of None \<Rightarrow> Leave (Inl JSONDecodeError) | Some j \<Rightarrow> Leave (Inr j))
      | Timeout \<Rightarrow> if k = 0 then Again else Leave (Inl OtherException)
      | TransportFailure \<Rightarrow> Leave (Inl OtherException))"

fun request_loop :: "(nat \<Rightarrow> http_outcome) \<Rightarrow> nat list \<Rightarrow> nat \<Rightarrow> nat \<times> json option result" where
  "request_loop http [] sent = (sent, Inr None)"
| "request_loop http (k # ks) sent =
     (case try_request k (http k) of
        Again \<Rightarrow> request_loop http ks (Suc sent)
      | Leave (Inl e) \<Rightarrow> (Suc sent, Inl e)
      | Leave (Inr j) \<Rightarrow> (Suc sent, Inr (Some j)))"

text \<open>\<open>data["choices"][0]["message"]["content"]\<close>, or \<open>data["content"]\<close>.\<close>

definition item :: "string \<Rightarrow> json \<Rightarrow> json result" where
  "item k j = (case j of JObj ms \<Rightarrow> (case map_of ms k of None \<Rightarrow> Inl KeyError | Some v \<Rightarrow> Inr v) | _ \<Rightarrow> Inl TypeError)"

definition first_item :: "json \<Rightarrow> json result" where
  "first_item j = (case j of JList (x # _) \<Rightarrow> Inr x | JObj _ \<Rightarrow> Inl KeyError | _ \<Rightarrow> Inl TypeError)"

definition has_substring :: "string \<Rightarrow> string \<Rightarrow> bool" where
  "has_substring p s \<longleftrightarrow> list_ex (\<lambda>k. starts_with p (drop k s)) [0..<length s]"

text \<open>\<open>k in data\<close>, with the exception it raises on a value that holds nothing.\<close>

definition contains :: "string \<Rightarrow> json \<Rightarrow> bool result" where
  "contains k data =
     (case data of
        JObj ms \<Rightarrow> Inr (map_of ms k \<noteq> None)
      | JList xs \<Rightarrow> Inr (list_ex (\<lambda>x. x = JStr k) xs)
      | JStr s \<Rightarrow> Inr (has_substring k s)
      | _ \<Rightarrow> Inl TypeError)"

definition reply_content :: "json \<Rightarrow> json result" where
  "reply_content data =
     (if data = JNull then Inl OtherException
      else and_then (contains ''choices'' data) (\<lambda>has_choices.
           and_then (if has_choices then and_then (item ''choices'' data) (\<lambda>c. Inr (json_truthy c)) else Inr False) (\<lambda>use_choices.
             if use_choices
             then and_then (item ''choices'' data) (\<lambda>choices. and_then (first_item choices) (\<lambda>c. and_then (item ''message'' c) (item ''content'')))
             else and_then (contains ''content'' data) (\<lambda>has_content.
               if has_content then item ''content'' data
               else (case data of JObj _ \<Rightarrow> Inl ValueError | _ \<Rightarrow> Inl AttributeError)))))"

definition openai_complete :: "(nat \<Rightarrow> http_outcome) \<Rightarrow> llm_client \<Rightarrow> string option \<Rightarrow> nat \<times> json result" where
  "openai_complete http client model =
     (case client of
        MockClient \<Rightarrow> (0, Inl AttributeError)
      | OpenAIClient base_url api_key default_model \<Rightarrow>
          if api_key = [] \<or> strip (or_default model default_model) = [] then (0, Inl ValueError)
          else (case request_loop http [0, 1] 0 of
            (sent, Inl e) \<Rightarrow> (sent, Inl e)
          | (sent, Inr None) \<Rightarrow> (sent, Inl OtherException)
          | (sent, Inr (Some data)) \<Rightarrow> (sent, reply_content data)))"

section \<open>The routes\<close>

text \<open>Prompts, as the data they are rendered from.\<close>

datatype prompt =
    ExpandPrompt ai_context string int "string list" "string list" "string option"
  | DeepenPrompt ai_context "string option"
  | ChatPrompt ai_context "(string \<times> string) list" string

type_synonym llm = "llm_client \<Rightarrow> prompt \<Rightarrow> string option \<Rightarrow> string result"

record expand_request =
  xr_node_id :: ident
  xr_instruction :: "string option"
  xr_count :: int
  xr_mode :: string
  xr_provider_id :: ident

record deepen_request =
  dr_node_id :: ident
  dr_instruction :: "string option"
  dr_provider_id :: ident

record chat_request =
  hr_node_id :: ident
  hr_message :: string
  hr_history :: "(string \<times> string) list"
  hr_provider_id :: ident

text \<open>\<open>parse_json_response\<close>: the fences of a code block are dropped before decoding.\<close>

fun split_at_newlines :: "string \<Rightarrow> string \<Rightarrow> string list" where
  "split_at_newlines cur [] = [rev cur]"
| "split_at_newlines cur (c # s) = (if c = CHR 0x0A then rev cur # split_at_newlines [] s else split_at_newlines (c # cur) s)"

definition unfence :: "string \<Rightarrow> string" where
  "unfence text =
     (let t = strip text
      in if starts_with ''```'' t
         then join_lines (filter (\<lambda>l. \<not> starts_with ''```'' (strip l)) (split_at_newlines [] t))
         else t)"

definition parse_json_response :: "(string \<Rightarrow> json option) \<Rightarrow> string \<Rightarrow> json result" where
  "parse_json_response loads text = (case loads (unfence text) of None \<Rightarrow> Inl JSONDecodeError | Some j \<Rightarrow> Inr j)"

text \<open>The structure both answers are checked for.\<close>

fun json_string :: "json \<Rightarrow> string result" where
  "json_string (JStr s) = Inr s"
| "json_string _ = Inl ValueError"

definition check_suggestion :: "json \<Rightarrow> (string \<times> string \<times> string) result" where
  "check_suggestion s =
     (case s of
        JObj ms \<Rightarrow>
          and_then (item ''title'' s) (\<lambda>t. and_then (item ''summary'' s) (\<lambda>m. and_then (item ''node_type'' s) (\<lambda>n.
          and_then (json_string t) (\<lambda>t. and_then (json_string m) (\<lambda>m. and_then (json_string n) (\<lambda>n. Inr (t, m, n)))))))
      | _ \<Rightarrow> Inl TypeError)"

fun check_all :: "('a \<Rightarrow> 'b result) \<Rightarrow> 'a list \<Rightarrow> 'b list result" where
  "check_all f [] = Inr []"
| "check_all f (x # xs) = and_then (f x) (\<lambda>y. and_then (check_all f xs) (\<lambda>ys. Inr (y # ys)))"

definition check_expansion :: "json \<Rightarrow> (string \<times> string \<times> string) list result" where
  "check_expansion j = (case j of JList xs \<Rightarrow> check_all check_suggestion xs | _ \<Rightarrow> Inl ValueError)"

definition check_block :: "json \<Rightarrow> json result" where
  "check_block b = (if json_member ''title'' b = None \<or> json_member ''body'' b = None then Inl TypeError else Inr b)"

definition check_deepening :: "json \<Rightarrow> (string \<times> json list) result" where
  "check_deepening j =
     (case j of
        JObj ms \<Rightarrow>
          and_then (item ''enriched_summary'' j) (\<lambda>s.
            let blocks = (case map_of ms ''content_blocks'' of None \<Rightarrow> JList [] | Some b \<Rightarrow> b)
            in case s of
                 JStr summary \<Rightarrow> (case blocks of JList bs \<Rightarrow> and_then (check_all check_block bs) (\<lambda>bs. Inr (summary, bs)) | _ \<Rightarrow> Inl TypeError)
               | _ \<Rightarrow> Inl TypeError)
      | _ \<Rightarrow> Inl ValueError)"

definition ai_error :: "string \<Rightarrow> error \<Rightarrow> error" where
  "ai_error what e =
     (case e of
        JSONDecodeError \<Rightarrow> HTTPException 500 (''LLM returned invalid JSON for '' @ what)
      | KeyError \<Rightarrow> HTTPException 500 (''LLM returned incomplete '' @ what @ '' payload'')
      | TypeError \<Rightarrow> HTTPException 500 (''LLM returned malformed '' @ what @ '' payload'')
      | _ \<Rightarrow> HTTPException 500 ''LLM error'')"

definition or_error :: "(error \<Rightarrow> error) \<Rightarrow> 'a result \<Rightarrow> 'a result" where
  "or_error f m = (case m of Inl e \<Rightarrow> Inl (f e) | Inr x \<Rightarrow> Inr x)"

text \<open>The context again, the node of the request and the log entry that every route ends with.\<close>

definition log_ai :: "env \<Rightarrow> ident \<Rightarrow> string \<Rightarrow> (string \<times> json) list \<Rightarrow> db \<Rightarrow> db result" where
  "log_ai env nid action payload db =
     (case get_node_row db nid of None \<Rightarrow> Inr db | Some n \<Rightarrow> log_action env (uuid env 0) (n_project_id n) (Some nid) ''ai'' action payload db)"

definition expand_node ::
  "env \<Rightarrow> llm_defaults \<Rightarrow> llm \<Rightarrow> (string \<Rightarrow> json option) \<Rightarrow> secret_store \<Rightarrow> expand_request \<Rightarrow> db \<Rightarrow> ((string \<times> string \<times> string) list \<times> db) result" where
  "expand_node env d answer loads st req db =
     and_then (or_error (\<lambda>_. HTTPException 404 ''Node not found'') (build_node_context (xr_node_id req) db)) (\<lambda>ctx.
       or_error (ai_error ''expand'')
         (and_then (to_llm_config env st (xr_provider_id req) db) (\<lambda>(cfg, provider_id).
          and_then (answer (get_provider d cfg) (ExpandPrompt ctx (xr_mode req) (xr_count req) (map n_title (ax_children ctx))
              (map n_title (ax_siblings ctx)) (xr_instruction req)) (lc_model cfg)) (\<lambda>raw.
          and_then (parse_json_response loads raw) (\<lambda>j.
          and_then (check_expansion j) (\<lambda>suggestions.
          and_then (log_ai env (xr_node_id req) ''ai_expand''
              [(''count'', jint (int (length suggestions))), (''instruction'', jopt (xr_instruction req)), (''mode'', JStr (xr_mode req)),
               (''provider_id'', JStr provider_id), (''model'', jopt (lc_model cfg)), (''outcome'', JStr ''success'')] db) (\<lambda>db.
            Inr (suggestions, db))))))))"

definition deepen_node ::
  "env \<Rightarrow> llm_defaults \<Rightarrow> llm \<Rightarrow> (string \<Rightarrow> json option) \<Rightarrow> secret_store \<Rightarrow> deepen_request \<Rightarrow> db \<Rightarrow> ((string \<times> json list) \<times> db) result" where
  "deepen_node env d answer loads st req db =
     and_then (or_error (\<lambda>_. HTTPException 404 ''Node not found'') (build_node_context (dr_node_id req) db)) (\<lambda>ctx.
       or_error (ai_error ''deepen'')
         (and_then (to_llm_config env st (dr_provider_id req) db) (\<lambda>(cfg, provider_id).
          and_then (answer (get_provider d cfg) (DeepenPrompt ctx (dr_instruction req)) (lc_model cfg)) (\<lambda>raw.
          and_then (parse_json_response loads raw) (\<lambda>j.
          and_then (check_deepening j) (\<lambda>(summary, bs).
          and_then (log_ai env (dr_node_id req) ''ai_deepen''
              [(''instruction'', jopt (dr_instruction req)), (''blocks_generated'', jint (int (length bs))), (''provider_id'', JStr provider_id),
               (''model'', jopt (lc_model cfg)), (''outcome'', JStr ''success'')] db) (\<lambda>db.
            Inr ((summary, bs), db))))))))"

definition chat_node :: "env \<Rightarrow> llm_defaults \<Rightarrow> llm \<Rightarrow> secret_store \<Rightarrow> chat_request \<Rightarrow> db \<Rightarrow> (string \<times> db) result" where
  "chat_node env d answer st req db =
     and_then (or_error (\<lambda>_. HTTPException 404 ''Node not found'') (build_node_context (hr_node_id req) db)) (\<lambda>ctx.
       or_error (\<lambda>_. HTTPException 500 ''Chat error'')
         (and_then (to_llm_config env st (hr_provider_id req) db) (\<lambda>(cfg, provider_id).
          and_then (answer (get_provider d cfg) (ChatPrompt ctx (hr_history req) (hr_message req)) (lc_model cfg)) (\<lambda>reply.
          and_then (log_ai env (hr_node_id req) ''ai_chat''
              [(''message'', JStr (take 200 (hr_message req))), (''reply'', JStr (take 200 reply)), (''provider_id'', JStr provider_id),
               (''model'', jopt (lc_model cfg)), (''outcome'', JStr ''success'')] db) (\<lambda>db.
            Inr (reply, db))))))"

text \<open>\<open>/test-connection\<close>: the outcome, the provider and the model it reports.\<close>

definition test_connection ::
  "env \<Rightarrow> llm_defaults \<Rightarrow> (llm_client \<Rightarrow> string result) \<Rightarrow> secret_store \<Rightarrow> ident \<Rightarrow> db \<Rightarrow> (bool \<times> string \<times> string) result" where
  "test_connection env d ping st provider_id db =
     and_then (or_error (\<lambda>e. if e = ValueError then HTTPException 400 ''provider profile'' else e) (to_llm_config env st provider_id db)) (\<lambda>(cfg, _).
       if lc_provider cfg = ''mock'' then Inr (True, lc_provider cfg, or_default (lc_model cfg) ''default'')
       else (case ping (get_provider d cfg) of
          Inr _ \<Rightarrow> Inr (True, lc_provider cfg, or_default (lc_model cfg) ''default'')
        | Inl _ \<Rightarrow> Inr (False, or_default (Some (lc_provider cfg)) ''unknown'', or_default (lc_model cfg) [])))"

section \<open>Lemmas\<close>

lemma or_error_Inr [result_simps]: "or_error f m = Inr x \<longleftrightarrow> m = Inr x"
  by (auto simp: or_error_def split: sum.splits)

lemma context_node: "build_node_context nid db = Inr ctx \<Longrightarrow> \<exists>n. get_node_row db nid = Some n"
  by (auto simp: build_node_context_def split: option.splits)

lemma log_ai_Inr:
  assumes "log_ai env nid action payload db = Inr db'" "get_node_row db nid = Some n"
  obtains entry where "db' = action_logs_update (\<lambda>ls. ls @ [entry]) db" "l_actor_type entry = ''ai''" "l_node_id entry = Some nid"
    "l_project_id entry = n_project_id n"
  using assms by (auto simp: log_ai_def log_action_def insert_log_Inr intro!: that)

text \<open>The request loop sends at most two requests, and a second one only after a transient failure.\<close>

lemma openai_complete_attempts:
  "fst (openai_complete http client model) \<le> 2 \<and>
     (fst (openai_complete http client model) = 2 \<longrightarrow> http 0 = Timeout \<or> (\<exists>s b. http 0 = Response s b \<and> retryable s))"
  by (cases client) (auto simp: openai_complete_def try_request_def split: http_outcome.splits option.splits)

lemma ancestor_level_rel: "set (ancestor_level db x d) = {a. (a, x) \<in> child_rel db ^^ d}"
proof (induction d)
  case (Suc d)
  have "set (parent_ids db y) = {a. (a, y) \<in> child_rel db}" for y by (auto simp: parent_ids_def child_rel_iff)
  then have "set (ancestor_level db x (Suc d)) = {a. \<exists>y. (a, y) \<in> child_rel db \<and> (y, x) \<in> child_rel db ^^ d}" using Suc.IH by auto
  also have "\<dots> = {a. (a, x) \<in> child_rel db ^^ Suc d}" proof -
    have "child_rel db ^^ Suc d = child_rel db O child_rel db ^^ d" by (simp add: relpow_commute)
    then show ?thesis by (auto simp: relcomp_unfold)
  qed
  finally show ?case .
qed auto

text \<open>The recursive query ends on every graph and finds exactly the nodes at most five containment steps above.\<close>

lemma load_ancestor_path_levels:
  assumes "db_ok db"
  shows "(\<lambda>(n, bs). n_id n) ` set (fst (load_ancestor_path x db)) = {a. \<exists>d \<in> {1..5}. (a, x) \<in> child_rel db ^^ d}"
proof -
  have row: "\<exists>n. get_node_row db a = Some n \<and> n_id n = a" if "(a, x) \<in> child_rel db ^^ Suc d" for a d
  proof -
    from that obtain y where "(a, y) \<in> child_rel db" by (rule relpow_Suc_E2)
    moreover have "edge_refs_ok (edges db) (project_ids db) (node_ids db)" using assms by (simp add: db_ok_def schema_ok_def refs_ok_def)
    ultimately have "a \<in> node_ids db" unfolding child_rel_iff edge_refs_ok_def by blast
    then have "has_row n_id (nodes db) a" by (simp add: has_row_def)
    then obtain n where "row_get n_id (nodes db) a = Some n" by (auto simp: has_row_iff_get)
    then show ?thesis using row_get_Some [of n_id "nodes db" a n] by (simp add: get_node_row_def)
  qed
  have "n_id ` set (List.map_filter (get_node_row db) (ancestor_level db x (Suc d))) = {a. (a, x) \<in> child_rel db ^^ Suc d}" for d
  proof -
    have "set (List.map_filter (get_node_row db) xs) = {n. \<exists>a \<in> set xs. get_node_row db a = Some n}" for xs
      by (induction xs) (auto simp: map_filter_simps split: option.splits)
    then have "n_id ` set (List.map_filter (get_node_row db) (ancestor_level db x (Suc d))) =
        n_id ` {n. \<exists>a. (a, x) \<in> child_rel db ^^ Suc d \<and> get_node_row db a = Some n}"
      using ancestor_level_rel [of db x "Suc d"] by (simp del: ancestor_level.simps relpow.simps)
    also have "\<dots> = {a. (a, x) \<in> child_rel db ^^ Suc d}"
    proof (intro equalityI subsetI)
      fix a
      assume "a \<in> n_id ` {n. \<exists>a. (a, x) \<in> child_rel db ^^ Suc d \<and> get_node_row db a = Some n}"
      then obtain n b where "a = n_id n" "(b, x) \<in> child_rel db ^^ Suc d" "get_node_row db b = Some n" by blast
      then show "a \<in> {a. (a, x) \<in> child_rel db ^^ Suc d}" using row [of b d] by fastforce
    next
      fix a
      assume "a \<in> {a. (a, x) \<in> child_rel db ^^ Suc d}"
      then show "a \<in> n_id ` {n. \<exists>a. (a, x) \<in> child_rel db ^^ Suc d \<and> get_node_row db a = Some n}" using row [of a d] by blast
    qed
    finally show ?thesis .
  qed
  then have level: "n_id ` set (List.map_filter (get_node_row db) (ancestor_level db x d)) = {a. (a, x) \<in> child_rel db ^^ d}" if "d \<in> {1..5}" for d
    using that by (cases d) (simp_all del: ancestor_level.simps relpow.simps)
  have "(\<lambda>(n, bs). n_id n) ` set (fst (load_ancestor_path x db)) =
      (\<Union>d \<in> {1..5}. n_id ` set (List.map_filter (get_node_row db) (ancestor_level db x d)))"
  proof -
    have "{1..5} = set [5, 4, 3, 2, 1 :: nat]" by auto
    then show ?thesis by (auto simp: load_ancestor_path_def Let_def image_iff simp del: ancestor_level.simps)
  qed
  also have "\<dots> = {a. \<exists>d \<in> {1..5}. (a, x) \<in> child_rel db ^^ d}" using level by auto
  finally show ?thesis .
qed

section \<open>Properties\<close>

text \<open>
  The AI routes only suggest: an expansion, a deepening or a chat that succeeds, whatever the language model answers, changes
  nothing but the action log, to which it appends one entry of the AI for the node and its project.
\<close>

theorem ai_routes_only_log:
  assumes "(\<exists>r. expand_node env d answer loads st req db = Inr (r, db') \<and> nid = xr_node_id req) \<or>
    (\<exists>r. deepen_node env d answer loads st req2 db = Inr (r, db') \<and> nid = dr_node_id req2) \<or>
    (\<exists>r. chat_node env d answer st req3 db = Inr (r, db') \<and> nid = hr_node_id req3)"
  shows "\<exists>n entry. get_node_row db nid = Some n \<and> db' = action_logs_update (\<lambda>ls. ls @ [entry]) db \<and> l_actor_type entry = ''ai'' \<and>
    l_node_id entry = Some nid \<and> l_project_id entry = n_project_id n"
proof -
  from assms obtain ctx action payload where ctx: "build_node_context nid db = Inr ctx" and fin: "log_ai env nid action payload db = Inr db'"
    by (elim disjE exE conjE) (auto simp: expand_node_def deepen_node_def chat_node_def result_simps split: prod.splits)
  obtain n where n: "get_node_row db nid = Some n" using context_node [OF ctx] by blast
  show ?thesis by (rule log_ai_Inr [OF fin n]) (use n in blast)
qed

text \<open>
  A secret written for an enabled provider is the key the next AI request uses, in desktop mode from the process memory, otherwise
  from the environment: the profile resolves to it, and for every provider type the registry knows the client is
  built with it, never with the default key of the environment.
\<close>

theorem provider_secret_reaches_client:
  assumes "write_provider_secret env i key host db st = Inr st'" "get_provider_row db i = Some p" "pc_enabled p = Some True"
  shows "\<exists>cfg. to_llm_config env st' i db = Inr (cfg, pc_id p) \<and> lc_api_key cfg = Some key \<and>
    (py_lower (pc_provider_type p) \<in> {''openai_compatible'', ''custom'', ''openai''} \<longrightarrow>
       (\<exists>base model. get_provider d cfg = OpenAIClient base key model))"
proof -
  obtain v where v: "pc_secret_env_key p = Some v" "valid_app_secret_env_key v" and
    w: "if desktop_mode env then put_memory_secret (pc_id p) key st = Inr st' else write_env_value env v key st = Inr st'"
    using assms(1,2) by (auto simp: write_provider_secret_def result_simps split: option.splits if_splits)
  have key: "key \<noteq> []" and stored: "(if desktop_mode env then get_memory_secret (pc_id p) st' else ss_environ st' v) = Some key"
    using w by (auto simp: put_memory_secret_def write_env_value_def get_memory_secret_def usable_secret_def split: if_splits)
  then obtain cfg where cfg: "to_llm_config env st' i db = Inr (cfg, pc_id p)" "lc_api_key cfg = Some key" "lc_provider cfg = pc_provider_type p"
    using assms(2,3) v by (simp add: to_llm_config_def Let_def truthy_def)
  have "\<exists>base model. get_provider d cfg = OpenAIClient base key model"
    if "py_lower (pc_provider_type p) \<in> {''openai_compatible'', ''custom'', ''openai''}"
    using that key cfg(2,3) by (auto simp: get_provider_def openai_client_def or_default_def Let_def)
  then show ?thesis using cfg by blast
qed

definition sample_defaults :: llm_defaults where
  "sample_defaults = \<lparr>ld_base_url = ''https://x'', ld_api_key = ''inherited'', ld_model = ''m''\<rparr>"

definition sample_answer :: llm where
  "sample_answer client prompt model = Inr ''hello''"

theorem provider_secret_reaches_client_witness:
  "\<exists>st' cfg. write_provider_secret sample_env ''m'' ''sk'' ''localhost'' sample_db sample_store = Inr st' \<and>
     to_llm_config sample_env st' ''m'' sample_db = Inr (cfg, ''m'') \<and> lc_api_key cfg = Some ''sk'' \<and>
     (\<exists>base model. get_provider sample_defaults cfg = OpenAIClient base ''sk'' model)"
proof -
  have "get_provider_row sample_db ''m'' = Some sample_provider" "pc_enabled sample_provider = Some True"
    by (simp_all add: get_provider_row_def row_get_def sample_simps sample_provider_def)
  moreover have *: "case write_provider_secret sample_env ''m'' ''sk'' ''localhost'' sample_db sample_store of Inl _ \<Rightarrow> False | Inr _ \<Rightarrow> True"
    "pc_id sample_provider = ''m''" "py_lower (pc_provider_type sample_provider) \<in> {''openai_compatible'', ''custom'', ''openai''}" by code_simp+
  then obtain st' where run: "write_provider_secret sample_env ''m'' ''sk'' ''localhost'' sample_db sample_store = Inr st'"
    by (auto split: sum.splits)
  ultimately show ?thesis using provider_secret_reaches_client [OF run, of sample_provider sample_defaults] run *(2,3) by metis
qed

theorem ai_routes_only_log_witness:
  "\<exists>db' entry. chat_node sample_env sample_defaults sample_answer (sample_store\<lparr>ss_memory := [''m'' \<mapsto> ''sk'']\<rparr>)
       \<lparr>hr_node_id = ''a'', hr_message = ''hi'', hr_history = [], hr_provider_id = ''m''\<rparr> sample_db = Inr (''hello'', db') \<and>
     db' = action_logs_update (\<lambda>ls. ls @ [entry]) sample_db \<and> l_actor_type entry = ''ai''"
proof -
  let ?req = "\<lparr>hr_node_id = ''a'', hr_message = ''hi'', hr_history = [], hr_provider_id = ''m''\<rparr>"
  let ?run = "chat_node sample_env sample_defaults sample_answer (sample_store\<lparr>ss_memory := [''m'' \<mapsto> ''sk'']\<rparr>) ?req sample_db"
  have "case ?run of Inl _ \<Rightarrow> False | Inr (r, _) \<Rightarrow> r = ''hello''" by code_simp
  then obtain db' where run: "?run = Inr (''hello'', db')" by (auto split: sum.splits)
  then show ?thesis using ai_routes_only_log [where ?req3.0 = ?req and nid = "''a''" and db = sample_db and db' = db'] by fastforce
qed

text \<open>
  A profile of a type the registry does not know, which creating a profile accepts, gets a client built from the environment alone: in
  desktop mode, where the key of the profile was stored in memory, requests go out with the inherited default key.
\<close>

theorem unknown_provider_type_uses_inherited_key:
  "let db = sample_db\<lparr>provider_configs := [sample_provider\<lparr>pc_provider_type := ''anthropic''\<rparr>]\<rparr>
   in case write_provider_secret sample_env ''m'' ''sk'' ''localhost'' db sample_store of
        Inl _ \<Rightarrow> False
      | Inr st' \<Rightarrow> (case to_llm_config sample_env st' ''m'' db of
          Inl _ \<Rightarrow> False
        | Inr (cfg, _) \<Rightarrow> desktop_mode sample_env \<and> lc_api_key cfg = Some ''sk'' \<and>
            get_provider sample_defaults cfg = OpenAIClient ''https://x'' ''inherited'' ''m'')"
  by code_simp

end
