(* ===== verification/System.thy ===== *)
theory System
  imports Subtree_Owned Agents Json_Transfer Agent_Control Ai_Growth
begin

text \<open>
  The application as a whole: every request that can change the database, as one step relation over the
  handlers of the component theories. Requests are atomic: a handler that fails rolls its transaction back
  and is no step. Bodies are not restricted to those the validators of \<open>models/schemas.py\<close> let through (such as
  \<open>provider_create_valid\<close>), so the runs include every run the server can have. The steps are grouped by what protects them: edits of a project's graph claim the
  project's revision, a few requests create or remove whole projects, the others write only records
  beside the graph.
\<close>

section \<open>Steps\<close>

text \<open>Requests that edit the graph of one project; \<open>uuid4\<close> never gives the empty string.\<close>

inductive graph_step :: "db \<Rightarrow> db \<Rightarrow> bool" where
  "update_project env pid up db = Inr (x1, db') \<Longrightarrow> graph_step db db'"
| "create_node env pid nc db = Inr (x2, db') \<Longrightarrow> graph_step db db'"
| "update_node env nid nu db = Inr (x3, db') \<Longrightarrow> graph_step db db'"
| "delete_node env nid pr er db = Inr (x4, db') \<Longrightarrow> graph_step db db'"
| "create_edge env ec db = Inr (x5, db') \<Longrightarrow> graph_step db db'"
| "update_edge env eid eu db = Inr (x6, db') \<Longrightarrow> graph_step db db'"
| "promote_mainline env eid pr er db = Inr (x7, db') \<Longrightarrow> graph_step db db'"
| "promote_child_mainline env nid cid pr er db = Inr (x8, db') \<Longrightarrow> graph_step db db'"
| "delete_edge env eid pr er db = Inr (x9, db') \<Longrightarrow> graph_step db db'"
| "move_node env nid mv db = Inr (x10, db') \<Longrightarrow> graph_step db db'"
| "reparent_node env nid mv db = Inr (x11, db') \<Longrightarrow> graph_step db db'"
| "create_block env nid bc db = Inr (x12, db') \<Longrightarrow> graph_step db db'"
| "update_block env bid bu db = Inr (x13, db') \<Longrightarrow> graph_step db db'"
| "delete_block env bid pr nr er db = Inr (x14, db') \<Longrightarrow> graph_step db db'"
| "create_branch env pid brc db = Inr (x15, db') \<Longrightarrow> uuid env 0 \<noteq> [] \<Longrightarrow> graph_step db db'"
| "merge_branch env bid bm db = Inr (x16, db') \<Longrightarrow> graph_step db db'"
| "archive_branch env bid pr er db = Inr (x17, db') \<Longrightarrow> graph_step db db'"
| "approve_agent_artifact db_text env aid ar db = Inr (x18, db') \<Longrightarrow> graph_step db db'"

inductive project_set_step :: "db \<Rightarrow> db \<Rightarrow> bool" where
  "create_project env cp db = Inr (x1, db') \<Longrightarrow> project_set_step db db'"
| "import_project_json env document db = Inr (x2, db') \<Longrightarrow> project_set_step db db'"
| "delete_project env pid expected db = Inr (x3, db') \<Longrightarrow> project_set_step db db'"

inductive record_step :: "db \<Rightarrow> db \<Rightarrow> bool" where
  "create_agent_session env sc db = Inr (x1, db') \<Longrightarrow> record_step db db'"
| "update_agent_session env sid su db = Inr (x2, db') \<Longrightarrow> record_step db db'"
| "create_agent_artifact env sid ac db = Inr (x3, db') \<Longrightarrow> record_step db db'"
| "reject_agent_artifact env aid ar db = Inr (x4, db') \<Longrightarrow> record_step db db'"
| "create_provider env pc db = Inr (x5, db') \<Longrightarrow> record_step db db'"
| "update_provider env i pu db = Inr (x6, db') \<Longrightarrow> record_step db db'"
| "delete_provider i db = Inr (x7, db') \<Longrightarrow> record_step db db'"
| "expand_node env d answer loads st xr db = Inr (x8, db') \<Longrightarrow> record_step db db'"
| "deepen_node env d answer loads st dr db = Inr (x9, db') \<Longrightarrow> record_step db db'"
| "chat_node env d answer st hr db = Inr (x10, db') \<Longrightarrow> record_step db db'"

inductive api_step :: "(string \<Rightarrow> string \<Rightarrow> string) \<Rightarrow> digest \<Rightarrow> db \<Rightarrow> db \<Rightarrow> bool"
  for hash_secret dg where
  api_graph: "graph_step db db' \<Longrightarrow> api_step hash_secret dg db db'"
| api_projects: "project_set_step db db' \<Longrightarrow> api_step hash_secret dg db db'"
| api_records: "record_step db db' \<Longrightarrow> api_step hash_secret dg db db'"
| api_port: "port_step hash_secret dg db db' \<Longrightarrow> api_step hash_secret dg db db'"

text \<open>The graph of all projects, and two databases that agree on it and on the project rows.\<close>

definition graph :: "db \<Rightarrow> node list \<times> edge list \<times> content_block list \<times> branch list" where
  "graph db = (nodes db, edges db, content_blocks db, branches db)"

definition same_graph :: "db \<Rightarrow> db \<Rightarrow> bool" where
  "same_graph db db' \<longleftrightarrow> projects db' = projects db \<and> graph db' = graph db"

lemma same_graphI:
  "projects db' = projects db \<Longrightarrow> nodes db' = nodes db \<Longrightarrow> edges db' = edges db \<Longrightarrow>
     content_blocks db' = content_blocks db \<Longrightarrow> branches db' = branches db \<Longrightarrow> same_graph db db'"
  by (simp add: same_graph_def graph_def)

lemma same_graph_refl [simp]: "same_graph db db"
  by (simp add: same_graph_def)

lemma same_graph_trans: "same_graph db db1 \<Longrightarrow> same_graph db1 db2 \<Longrightarrow> same_graph db db2"
  by (simp add: same_graph_def)

lemma log_same_graph: "log_action env i pid nid actor action payload db = Inr db' \<Longrightarrow> same_graph db db'"
  by (rule same_graphI) (rule log_action_frame; assumption)+

lemma insert_log_same_graph: "insert_log r db = Inr db' \<Longrightarrow> same_graph db db'"
  by (auto simp: insert_log_Inr intro: same_graphI)

section \<open>Records beside the graph\<close>

lemma log_ai_steps:
  assumes "log_ai env nid action payload db = Inr db'"
  shows "db_ok db \<Longrightarrow> db_ok db'" "same_graph db db'"
  using assms by (auto simp: log_ai_def split: option.splits intro: ok_log_action log_same_graph)

lemma ai_route_logs:
  "expand_node env d answer loads st xr db = Inr (x, db') \<Longrightarrow> \<exists>nid action payload. log_ai env nid action payload db = Inr db'"
  "deepen_node env d answer loads st dr db = Inr (y, db') \<Longrightarrow> \<exists>nid action payload. log_ai env nid action payload db = Inr db'"
  "chat_node env d answer st hr db = Inr (z, db') \<Longrightarrow> \<exists>nid action payload. log_ai env nid action payload db = Inr db'"
  by (auto simp: expand_node_def deepen_node_def chat_node_def result_simps split: prod.splits)

lemma record_step_ok: "record_step db db' \<Longrightarrow> db_ok db \<Longrightarrow> db_ok db'"
  by (erule record_step.cases)
    (auto intro: create_agent_session_ok update_agent_session_ok create_agent_artifact_ok reject_agent_artifact_ok
      create_provider_ok update_provider_ok delete_provider_ok log_ai_steps(1) dest!: ai_route_logs)

lemma session_same_graph:
  "create_agent_session env sc db = Inr (s, db') \<Longrightarrow> same_graph db db'"
  "update_agent_session env sid su db = Inr (s, db') \<Longrightarrow> same_graph db db'"
proof -
  assume "create_agent_session env sc db = Inr (s, db')"
  then obtain db1 where 1: "insert_session s db = Inr db1" and 2: "log_action env (uuid env 1) (sc_project_id sc)
       (session_scope (sc_assigned_node_id sc) (sc_assigned_branch_root_id sc)) ''human'' ''agent_session_created''
       [(''session_id'', JStr (s_id s)), (''mode'', JStr (s_mode s)), (''provider_id'', jopt (s_provider_id s))] db1 = Inr db'"
    by (rule create_agent_session_steps)
  have "same_graph db db1" using 1 by (auto simp: statement_Inr intro: same_graphI)
  then show "same_graph db db'" using log_same_graph [OF 2] by (rule same_graph_trans)
next
  assume "update_agent_session env sid su db = Inr (s, db')"
  then show "same_graph db db'"
    by (rule update_agent_session_steps) (auto dest!: log_same_graph simp: same_graph_def graph_def)
qed

lemma artifact_same_graph:
  "create_agent_artifact env sid ac db = Inr (a, db') \<Longrightarrow> same_graph db db'"
  "reject_agent_artifact env aid ar db = Inr (a, db') \<Longrightarrow> same_graph db db'"
  subgoal by (erule create_agent_artifact_steps) (auto dest!: log_same_graph simp: same_graph_def graph_def statement_Inr)
  subgoal by (erule reject_agent_artifact_steps) (auto dest!: log_same_graph simp: same_graph_def graph_def set_artifact_def)
  done

lemma provider_same_graph:
  "create_provider env pc db = Inr (p, db') \<Longrightarrow> same_graph db db'"
  "update_provider env i pu db = Inr (p, db') \<Longrightarrow> same_graph db db'"
  "delete_provider i db = Inr (u, db') \<Longrightarrow> same_graph db db'"
  by (auto simp: create_provider_def update_provider_def delete_provider_def delete_provider_row_def Let_def result_simps statement_Inr
      split: option.splits if_splits intro!: same_graphI)

lemma record_step_same_graph: "record_step db db' \<Longrightarrow> same_graph db db'"
  by (erule record_step.cases)
    (auto intro: session_same_graph artifact_same_graph provider_same_graph log_ai_steps(2) dest!: ai_route_logs)

section \<open>The agent port\<close>

text \<open>What leaves the graph alone and keeps integrity, as every write to the tables of the port does.\<close>

definition beside :: "db \<Rightarrow> db \<Rightarrow> bool" where
  "beside db db' \<longleftrightarrow> same_graph db db' \<and> (db_ok db \<longrightarrow> db_ok db')"

lemma besideI:
  "projects db' = projects db \<Longrightarrow> nodes db' = nodes db \<Longrightarrow> edges db' = edges db \<Longrightarrow>
     content_blocks db' = content_blocks db \<Longrightarrow> branches db' = branches db \<Longrightarrow>
     (schema_ok db \<Longrightarrow> schema_ok db') \<Longrightarrow> beside db db'"
  by (simp add: beside_def same_graphI db_ok_def ownership_ok_def)

lemma beside_refl [simp]: "beside db db"
  by (simp add: beside_def)

lemma beside_trans: "beside db db1 \<Longrightarrow> beside db1 db2 \<Longrightarrow> beside db db2"
  by (auto simp: beside_def intro: same_graph_trans)

text \<open>The statements on the tables of the port check what the schema asks of a new row.\<close>

lemma insert_grant_Inr:
  "insert_grant g db = Inr db' \<Longrightarrow>
     g_id g \<notin> grant_ids db \<and> g_token_prefix g \<notin> g_token_prefix ` set (agent_grants db) \<and> g_project_id g \<in> project_ids db \<and>
     opt_ref (g_node_scope_id g) (node_ids db) \<and> opt_ref (g_branch_root_id g) (node_ids db) \<and>
     db' = agent_grants_update (\<lambda>rs. rs @ [g]) db"
  by (auto simp: insert_grant_def list_ex_iff has_row_def opt_has_ref split: if_splits)

lemma insert_proposal_Inr:
  "insert_proposal r db = Inr db' \<Longrightarrow>
     pr_id r \<notin> pr_id ` set (agent_proposals db) \<and> pr_grant_id r \<in> grant_ids db \<and> pr_project_id r \<in> project_ids db \<and>
     opt_ref (pr_target_node_id r) (node_ids db) \<and> db' = agent_proposals_update (\<lambda>rs. rs @ [r]) db"
  unfolding insert_proposal_def grant_exists by (auto simp: has_row_def opt_has_ref split: if_splits)

lemma insert_event_Inr:
  "insert_event r db = Inr db' \<Longrightarrow>
     ev_id r \<notin> ev_id ` set (agent_events db) \<and> ev_grant_id r \<in> grant_ids db \<and> ev_project_id r \<in> project_ids db \<and>
     opt_ref (ev_target_node_id r) (node_ids db) \<and> db' = agent_events_update (\<lambda>rs. rs @ [r]) db"
  unfolding insert_event_def grant_exists by (auto simp: has_row_def opt_has_ref split: if_splits)

lemma insert_readback_Inr:
  "insert_readback r db = Inr db' \<Longrightarrow>
     rb_id r \<notin> rb_id ` set (agent_readbacks db) \<and> rb_grant_id r \<in> grant_ids db \<and> rb_project_id r \<in> project_ids db \<and>
     opt_ref (rb_target_node_id r) (node_ids db) \<and> db' = agent_readbacks_update (\<lambda>rs. rs @ [r]) db"
  unfolding insert_readback_def grant_exists by (auto simp: has_row_def opt_has_ref split: if_splits)

lemma schema_insert_port [schema_intros]:
  "insert_grant g db = Inr db' \<Longrightarrow> schema_ok db \<Longrightarrow> schema_ok db'"
  "insert_proposal p db = Inr db' \<Longrightarrow> schema_ok db \<Longrightarrow> schema_ok db'"
  "insert_event e db = Inr db' \<Longrightarrow> schema_ok db \<Longrightarrow> schema_ok db'"
  "insert_readback b db = Inr db' \<Longrightarrow> schema_ok db \<Longrightarrow> schema_ok db'"
  subgoal by (drule insert_grant_Inr) (simp add: schema_defs refs_insert, simp add: grant_refs_ok_def)
  subgoal by (drule insert_proposal_Inr) (simp add: schema_defs, simp add: proposal_refs_ok_def)
  subgoal by (drule insert_event_Inr) (simp add: schema_defs, simp add: event_refs_ok_def)
  subgoal by (drule insert_readback_Inr) (simp add: schema_defs, simp add: readback_refs_ok_def)
  done

lemma beside_port:
  "insert_receipt r db = Inr db' \<Longrightarrow> beside db db'"
  "insert_proposal p db = Inr db' \<Longrightarrow> beside db db'"
  "insert_event e db = Inr db' \<Longrightarrow> beside db db'"
  "insert_readback b db = Inr db' \<Longrightarrow> beside db db'"
  "insert_grant g db = Inr db' \<Longrightarrow> beside db db'"
  by (rule besideI; frule insert_receipt_Inr insert_proposal_Inr insert_event_Inr insert_readback_Inr insert_grant_Inr;
      simp add: schema_insert_receipt schema_insert_port)+

lemma beside_updates:
  "beside db (use_grant env grant db)"
  "beside db (agent_grants_update (row_update g_id i (revoked env)) db)"
  "beside db (agent_proposals_update (row_update pr_id i (reject_proposal env note)) db)"
  unfolding use_grant_def row_update_def [abs_def]
  by (rule besideI; simp add: schema_map_grants schema_map_proposals revoked_def reject_proposal_def)+

lemma beside_log: "insert_log r db = Inr db' \<Longrightarrow> beside db db'"
  by (auto simp: beside_def intro: insert_log_same_graph ok_insert_log)

lemma store_once_beside:
  assumes "store_once env rid grant key req kind create db = Inr (response, db')"
    "\<And>r d. create db = Inr (r, d) \<Longrightarrow> beside db d"
  shows "beside db db'"
  using assms by (auto simp: store_once_def result_simps split: option.splits if_splits intro: beside_trans dest: beside_port(1))

lemma recordings_beside:
  "propose env dg grant pb db = Inr (x, db') \<Longrightarrow> beside db db'"
  "event env dg grant ev db = Inr (x, db') \<Longrightarrow> beside db db'"
  "readback env dg size_of grant rb db = Inr (x, db') \<Longrightarrow> beside db db'"
  unfolding propose_def event_def readback_def
  by (auto simp: result_simps split: prod.splits if_splits elim!: store_once_beside intro: beside_port
      dest!: beside_port(4) beside_log dest: beside_trans)

lemma apply_batch_claims:
  assumes "apply_batch_serialized env dg grant body actor proposal db = Inr (response, db')" "db_ok db"
  shows "db' = db \<or> advances db (g_project_id grant) (bt_expected_project_revision body) db'"
  using apply_batch_advances [OF assms] batch_replayed [OF assms(1)] by blast

lemma port_step_effect:
  assumes "port_step hash_secret dg db db'" "db_ok db"
  shows "db_ok db' \<and> (same_graph db db' \<or> (\<exists>pid r. advances db pid r db'))"
  using assms(1)
proof (cases rule: port_step.cases)
  case (step_auth env instant req hits hits' grant)
  then have "beside db db'" by (auto simp: auth_def beside_updates split: sum.splits prod.splits bool.splits)
  then show ?thesis using assms(2) by (simp add: beside_def)
next
  case (step_batch env grant data response)
  then have run: "apply_batch_serialized env dg grant data None None db = Inr (response, db')" by (auto simp: batch_def result_simps)
  show ?thesis using apply_batch_ok [OF run assms(2)] apply_batch_claims [OF run assms(2)] by auto
next
  case (step_create_grant env en gc out)
  then have "beside db db'" by (auto simp: create_grant_def result_simps Let_def split: option.splits dest: beside_port(5))
  then show ?thesis using assms(2) by (simp add: beside_def)
next
  case (step_revoke env i g)
  then have "beside db db'" by (auto simp: revoke_def result_simps beside_updates)
  then show ?thesis using assms(2) by (simp add: beside_def)
next
  case (step_review env reviewer i decision remark status)
  then consider "beside db db'" | grant body actor proposal x where "apply_batch_serialized env dg grant body actor proposal db = Inr (x, db')"
    by (auto simp: review_def result_simps beside_updates split: option.splits if_splits decision.splits)
  then show ?thesis
  proof cases
    case 2
    show ?thesis using apply_batch_ok [OF 2 assms(2)] apply_batch_claims [OF 2 assms(2)] by auto
  qed (use assms(2) in \<open>simp add: beside_def\<close>)
qed (use assms(2) in \<open>auto simp: beside_def dest!: recordings_beside\<close>)

section \<open>Edits of the graph\<close>

lemma graph_step_ok: "graph_step db db' \<Longrightarrow> db_ok db \<Longrightarrow> db_ok db'"
  by (erule graph_step.cases)
    (blast intro: update_project_ok create_node_ok update_node_ok delete_node_ok create_edge_ok update_edge_ok
      promote_edge_ok delete_edge_ok move_node_ok reparent_node_ok create_block_ok update_block_ok delete_block_ok create_branch_ok
      merge_branch_ok archive_branch_ok approve_agent_artifact_ok dest: promote_mainline_Inr promote_child_mainline_Inr)+

lemma graph_step_advances: "graph_step db db' \<Longrightarrow> \<exists>pid r. advances db pid r db'"
  by (erule graph_step.cases)
    (blast dest: update_project_advances create_node_advances update_node_advances delete_node_advances create_edge_advances
      update_edge_advances promote_edge_advances delete_edge_advances move_node_advances reparent_node_advances create_block_advances
      update_block_advances delete_block_advances create_branch_advances merge_branch_advances archive_branch_advances
      approve_agent_artifact_advances promote_mainline_Inr promote_child_mainline_Inr)+

section \<open>Whole projects\<close>

lemma project_set_step_ok: "project_set_step db db' \<Longrightarrow> db_ok db \<Longrightarrow> db_ok db'"
  by (erule project_set_step.cases) (blast intro: create_project_ok import_ok delete_project_ok)+

lemma project_set_step_ids:
  assumes "project_set_step db db'"
  shows "project_ids db' \<noteq> project_ids db"
  using assms
proof (cases rule: project_set_step.cases)
  case (1 env cp x1)
  then have "uuid env 0 \<notin> project_ids db \<and> project_ids db' = insert (uuid env 0) (project_ids db)"
    by (auto simp: create_project_def create_project_committed_def Let_def result_simps statement_Inr row_update_snoc set_row_update image_Un dest!: log_action_frame(1))
  then show ?thesis by blast
next
  case (2 env data out)
  then have run: "import_project_json_committed env data db = Inr (out, db')"
    by (auto simp: import_project_json_def result_simps split: if_splits)
  from run obtain name db1 where "insert_project (imported_project env (dc_project data) name) db = Inr db1" by (rule import_steps)
  then have "uuid env 0 \<notin> project_ids db" by (simp add: insert_project_Inr imported_project_def)
  then show ?thesis using import_projects [OF run] by (auto simp: imported_project_def)
next
  case (3 env pid expected x3)
  then obtain p db1 where p: "get_project_row db pid = Some p" and claim: "claim_project_revision env pid expected db = Inr db1"
    and db': "db' = delete_project_row pid db1"
    by (auto simp: delete_project_def result_simps)
  have "pid \<in> project_ids db" using p by (auto simp: get_project_row_def dest: row_get_Some)
  moreover have "pid \<notin> project_ids db'" by (auto simp: db' delete_project_row_def Let_def delete_nodes_frame grants_where_frame set_row_delete)
  ultimately show ?thesis by blast
qed

section \<open>Runs\<close>

lemma api_step_ok: "api_step hash_secret dg db db' \<Longrightarrow> db_ok db \<Longrightarrow> db_ok db'"
  by (erule api_step.cases) (blast intro: graph_step_ok project_set_step_ok record_step_ok dest: port_step_effect)+

lemma api_run_ok: "(api_step hash_secret dg)\<^sup>*\<^sup>* db db' \<Longrightarrow> db_ok db \<Longrightarrow> db_ok db'"
  by (induction rule: rtranclp_induct) (simp_all add: api_step_ok)

lemma api_step_effect:
  assumes "api_step hash_secret dg db db'" "db_ok db" "project_ids db' = project_ids db"
  shows "same_graph db db' \<or> (\<exists>pid r. advances db pid r db')"
  using assms(1)
proof (cases rule: api_step.cases)
  case api_graph
  then show ?thesis by (intro disjI2 graph_step_advances)
next
  case api_projects
  then show ?thesis using project_set_step_ids assms(3) by simp
next
  case api_records
  then show ?thesis by (intro disjI1 record_step_same_graph)
next
  case api_port
  show ?thesis by (rule conjunct2 [OF port_step_effect [OF api_port assms(2)]])
qed

text \<open>Requests that neither create nor remove a project.\<close>

definition edit_step :: "(string \<Rightarrow> string \<Rightarrow> string) \<Rightarrow> digest \<Rightarrow> db \<Rightarrow> db \<Rightarrow> bool" where
  "edit_step hash_secret dg db db' \<longleftrightarrow> api_step hash_secret dg db db' \<and> project_ids db' = project_ids db"

text \<open>Revisions only grow, and they have grown somewhere when the graph or a project row has changed.\<close>

definition grown :: "db \<Rightarrow> db \<Rightarrow> bool" where
  "grown db db' \<longleftrightarrow> same_graph db db' \<or> (\<exists>pid r s. project_revision db pid = Some r \<and> project_revision db' pid = Some s \<and> r < s)"

definition revisions_le :: "db \<Rightarrow> db \<Rightarrow> bool" where
  "revisions_le db db' \<longleftrightarrow> (\<forall>pid r. project_revision db pid = Some r \<longrightarrow> (\<exists>s \<ge> r. project_revision db' pid = Some s))"

lemma advances_grows: "advances db pid r db' \<Longrightarrow> grown db db' \<and> revisions_le db db'"
  by (auto simp: advances_def grown_def revisions_le_def)

lemma same_graph_revision: "same_graph db db' \<Longrightarrow> project_revision db' = project_revision db"
  by (simp add: same_graph_def project_revision_def get_project_row_def fun_eq_iff)

lemma project_revision_exists: "pid \<in> project_ids db \<longleftrightarrow> (\<exists>r. project_revision db pid = Some r)"
  by (auto simp: project_revision_def get_project_row_def row_get_None dest: row_get_Some)
    (metis image_eqI not_None_eq row_get_None)

lemma revisions_le_trans: "revisions_le db db1 \<Longrightarrow> revisions_le db1 db2 \<Longrightarrow> revisions_le db db2"
  unfolding revisions_le_def by (meson order.trans)

lemma grown_advances:
  assumes "revisions_le db db1" "project_ids db1 = project_ids db" "advances db1 pid r db2"
  shows "grown db db2"
proof -
  have a: "project_revision db1 pid = Some r" "project_revision db2 pid = Some (r + 1)" using assms(3) by (simp_all add: advances_def)
  then obtain r0 where r0: "project_revision db pid = Some r0" using assms(2) project_revision_exists by metis
  then have "r0 \<le> r" using assms(1) a(1) unfolding revisions_le_def by fastforce
  then have "r0 < r + 1" by simp
  then show ?thesis using r0 a(2) unfolding grown_def by blast
qed

lemma edit_run_grows:
  assumes "(edit_step hash_secret dg)\<^sup>*\<^sup>* db db'" "db_ok db"
  shows "grown db db' \<and> revisions_le db db' \<and> project_ids db' = project_ids db \<and> db_ok db'"
  using assms
proof (induction rule: rtranclp_induct)
  case (step db1 db2)
  then have IH: "grown db db1" "revisions_le db db1" "project_ids db1 = project_ids db" "db_ok db1"
    and one: "api_step hash_secret dg db1 db2" "project_ids db2 = project_ids db1"
    by (simp_all add: edit_step_def)
  have ok: "db_ok db2" using one(1) IH(4) by (rule api_step_ok)
  consider "same_graph db1 db2" | pid r where "advances db1 pid r db2" using api_step_effect [OF one(1) IH(4) one(2)] by blast
  then show ?case
  proof cases
    case 1
    then show ?thesis using IH ok one(2) same_graph_revision [OF 1]
      by (auto simp: grown_def revisions_le_def intro: same_graph_trans)
  next
    case 2
    show ?thesis using IH(3) ok one(2) grown_advances [OF IH(2,3) 2] revisions_le_trans [OF IH(2)] advances_grows [OF 2] by simp
  qed
qed (simp add: grown_def revisions_le_def)

end
