(* ===== verification/Subtree_View.thy ===== *)
theory Subtree_View
  imports Branches
begin

text \<open>
  The tree view of a node (\<open>get_subtree\<close> of \<open>api/routes.py\<close>), in its ordinary and its read-only
  variant. The ordinary one first collects ten levels of containment breadth first, then builds the
  tree; the read-only one builds it from all nodes of the project. Both stop at depth ten, whatever
  the shape of the graph.
\<close>

section \<open>The answer\<close>

record edge_meta =
  em_edge_id :: ident
  em_edge_revision :: int
  em_is_mainline :: bool

record tree_entry =
  te_node :: node
  te_meta :: "edge_meta option"
  te_blocks :: "content_block list"
  te_ancestor_path :: "(ident \<times> string \<times> string) list"

datatype subtree = Subtree tree_entry "subtree list"

text \<open>What both variants need: children, edge data and blocks by node, and the view of a row.\<close>

record tree_source =
  ts_node :: "ident \<Rightarrow> node option"
  ts_children :: "ident \<Rightarrow> ident list"
  ts_meta :: "ident \<Rightarrow> edge_meta option"
  ts_blocks :: "ident \<Rightarrow> content_block list"
  ts_view :: "node \<Rightarrow> node"

text \<open>\<open>edge_meta[to_id] = ...\<close> over the edges in order: the last edge into a node wins.\<close>

definition edge_meta_of :: "(edge \<Rightarrow> int) \<Rightarrow> edge list \<Rightarrow> ident \<Rightarrow> edge_meta option" where
  "edge_meta_of revision_of es x =
     fold (\<lambda>e m. if e_to_node_id e = x
        then Some \<lparr>em_edge_id = e_id e, em_edge_revision = revision_of e, em_is_mainline = e_is_mainline e\<rparr> else m) es None"

text \<open>\<open>depth\<close> is what is left of the ten levels.\<close>

fun build_subtree :: "nat \<Rightarrow> tree_source \<Rightarrow> (ident \<times> string \<times> string) list \<Rightarrow> node \<Rightarrow> subtree" where
  "build_subtree depth src ancestors n =
     Subtree \<lparr>te_node = ts_view src n, te_meta = ts_meta src (n_id n), te_blocks = ts_blocks src (n_id n), te_ancestor_path = ancestors\<rparr>
       (case depth of
          0 \<Rightarrow> []
        | Suc d \<Rightarrow> map (build_subtree d src (ancestors @ [(n_id n, n_title n, n_node_type n)]))
            (List.map_filter (ts_node src) (ts_children src (n_id n))))"

declare build_subtree.simps [simp del]

section \<open>The breadth-first levels\<close>

fun add_children :: "ident list \<Rightarrow> ident list \<times> ident list \<Rightarrow> ident list \<times> ident list" where
  "add_children [] acc = acc"
| "add_children (c # cs) (ids, next) =
     add_children cs (if c \<in> set ids then (ids, next) else (ids @ [c], next @ [c]))"

fun walk_levels :: "nat \<Rightarrow> (ident \<Rightarrow> ident list) \<Rightarrow> ident list \<Rightarrow> ident list \<Rightarrow> ident list" where
  "walk_levels 0 children frontier ids = ids"
| "walk_levels (Suc depth) children frontier ids =
     (if frontier = [] then ids
      else case fold (\<lambda>x. add_children (children x)) frontier (ids, []) of
        (ids', next) \<Rightarrow> walk_levels depth children next ids')"

section \<open>The handler\<close>

definition subtree_view :: "node \<Rightarrow> node" where
  "subtree_view n = (view_node n)\<lparr>n_branch_id := or_none (n_branch_id n)\<rparr>"

definition ordinary_source :: "db \<Rightarrow> ident \<Rightarrow> ident list \<Rightarrow> tree_source" where
  "ordinary_source db pid ids =
     \<lparr>ts_node = row_get n_id (filter (\<lambda>n. n_id n \<in> set ids) (nodes db)),
      ts_children = children_in db pid,
      ts_meta = edge_meta_of (\<lambda>e. current_revision (e_revision e)) (filter (\<lambda>e. e_project_id e = pid \<and> is_child_edge e) (edges db)),
      ts_blocks = (\<lambda>x. map (\<lambda>b. b\<lparr>b_revision := current_revision (b_revision b)\<rparr>)
        (sort_key b_order_index (filter (\<lambda>b. b_node_id b = x \<and> x \<in> set ids) (content_blocks db)))),
      ts_view = subtree_view\<rparr>"

text \<open>\<open>value(name, default)\<close> of the read-only variant only replaces null; lists come from the stored JSON as they are.\<close>

definition or_empty :: "string option \<Rightarrow> string option" where
  "or_empty x = Some (case x of None \<Rightarrow> [] | Some s \<Rightarrow> s)"

definition raw_view :: "node \<Rightarrow> node" where
  "raw_view n =
     n\<lparr>n_branch_id := or_none (n_branch_id n), n_summary := or_empty (n_summary n),
       n_priority := Some (case n_priority n of None \<Rightarrow> 0 | Some p \<Rightarrow> p),
       n_confidence := Some (case n_confidence n of None \<Rightarrow> 1 / 2 | Some c \<Rightarrow> c),
       n_description := or_empty (n_description n), n_rules_text := or_empty (n_rules_text n),
       n_constraints_text := or_empty (n_constraints_text n), n_examples_text := or_empty (n_examples_text n),
       n_questions_text := or_empty (n_questions_text n), n_decision_notes := or_empty (n_decision_notes n),
       n_created_by := or_empty (n_created_by n), n_last_edited_by := or_empty (n_last_edited_by n),
       n_position_x := Some (case n_position_x n of None \<Rightarrow> 0 | Some x \<Rightarrow> x),
       n_position_y := Some (case n_position_y n of None \<Rightarrow> 0 | Some y \<Rightarrow> y),
       n_revision := 1\<rparr>"

definition query_only_source :: "db \<Rightarrow> ident \<Rightarrow> tree_source" where
  "query_only_source db pid =
     (let es = sort_key (\<lambda>e. (e_created_at e, e_id e)) (filter (\<lambda>e. e_project_id e = pid \<and> is_child_edge e) (edges db));
          ns = filter (\<lambda>n. n_project_id n = pid) (nodes db)
      in \<lparr>ts_node = row_get n_id ns,
          ts_children = (\<lambda>x. map e_to_node_id (filter (\<lambda>e. e_from_node_id e = x) es)),
          ts_meta = edge_meta_of (\<lambda>_. 1) es,
          ts_blocks = (\<lambda>x. map (\<lambda>b. b\<lparr>b_revision := 1\<rparr>)
            (sort_key b_order_index (filter (\<lambda>b. b_node_id b = x \<and> x \<in> n_id ` set ns) (content_blocks db)))),
          ts_view = raw_view\<rparr>)"

definition get_subtree :: "env \<Rightarrow> ident \<Rightarrow> db \<Rightarrow> subtree result" where
  "get_subtree env nid db =
     (case get_node_row db nid of
        None \<Rightarrow> Inl (HTTPException 404 ''Node not found'')
      | Some node \<Rightarrow>
          if query_only env then Inr (build_subtree 10 (query_only_source db (n_project_id node)) [] node)
          else
            let ids = walk_levels 10 (children_in db (n_project_id node)) [nid] [nid]
            in Inr (build_subtree 10 (ordinary_source db (n_project_id node) ids) [] node))"

section \<open>What the levels collect\<close>

text \<open>The nodes at most \<open>k\<close> steps away.\<close>

fun near :: "('a \<times> 'a) set \<Rightarrow> nat \<Rightarrow> 'a \<Rightarrow> 'a set" where
  "near R 0 x = {x}"
| "near R (Suc k) x = insert x (\<Union>y \<in> R `` {x}. near R k y)"

lemma near_self: "x \<in> near R k x"
  by (cases k) simp_all

lemma near_child: "(x, y) \<in> R \<Longrightarrow> near R k y \<subseteq> near R (Suc k) x"
  by auto

declare near.simps(2) [simp del]

lemma near_step: "near R (Suc k) x = near R k x \<union> R `` near R k x"
proof (induction k arbitrary: x)
  case (Suc k)
  let ?U = "\<Union>y \<in> R `` {x}. near R k y"
  have "near R (Suc (Suc k)) x = insert x (\<Union>y \<in> R `` {x}. near R (Suc k) y)" by (rule near.simps)
  also have "(\<Union>y \<in> R `` {x}. near R (Suc k) y) = (\<Union>y \<in> R `` {x}. near R k y \<union> R `` near R k y)"
    by (rule SUP_cong [OF refl]) (rule Suc.IH)
  finally have 1: "near R (Suc (Suc k)) x = insert x (?U \<union> R `` ?U)" by (simp only: UN_Un_distrib Image_UN)
  have "R `` {x} \<subseteq> ?U" using near_self by fast
  then have "insert x (?U \<union> R `` ?U) = insert x ?U \<union> R `` insert x ?U" by blast
  with 1 show ?case unfolding near.simps(2) [of R k x] by simp
qed (auto simp: near.simps(2))

lemma add_children_sets:
  "add_children cs (ids, next) = (ids', next') \<Longrightarrow>
     set ids' = set ids \<union> set cs \<and> set next' = set next \<union> (set cs - set ids)"
  by (induction cs arbitrary: ids "next") (auto split: if_splits)

lemma fold_add_children_sets:
  "fold (\<lambda>x. add_children (ch x)) xs (ids, next) = (ids', next') \<Longrightarrow> set next \<subseteq> set ids \<Longrightarrow>
     set ids' = set ids \<union> (\<Union>x \<in> set xs. set (ch x)) \<and> set next \<union> (set ids' - set ids) \<subseteq> set next' \<and> set next' \<subseteq> set ids'"
proof (induction xs arbitrary: ids "next")
  case (Cons x xs)
  obtain i n where 1: "add_children (ch x) (ids, next) = (i, n)" by fastforce
  note s = add_children_sets [OF 1]
  have sub: "set n \<subseteq> set i" using s Cons.prems(2) by auto
  from Cons.prems(1) 1 have "fold (\<lambda>x. add_children (ch x)) xs (i, n) = (ids', next')" by simp
  note h = Cons.IH [OF this sub]
  note a = h [THEN conjunct1] h [THEN conjunct2, THEN conjunct1] h [THEN conjunct2, THEN conjunct2]
  have "set next \<subseteq> set n" "set i - set ids \<subseteq> set n" using s by auto
  then have "set next \<union> (set ids' - set ids) \<subseteq> set next'" using a(2) by blast
  moreover have "set ids' = set ids \<union> (\<Union>x \<in> set (x # xs). set (ch x))" using a(1) s by (simp add: Un_assoc)
  ultimately show ?case using a(3) by blast
qed auto

lemma walk_levels_near:
  assumes "set ids = near R k x" "R `` (set ids - set frontier) \<subseteq> set ids" "set frontier \<subseteq> set ids"
    "\<And>x. set (ch x) = R `` {x}"
  shows "set (walk_levels d ch frontier ids) = near R (k + d) x"
  using assms(1-3)
proof (induction d arbitrary: k frontier ids)
  case (Suc d)
  have step: "near R (Suc k) x = set ids \<union> R `` set frontier"
    unfolding near_step Suc.prems(1) [symmetric] using Suc.prems(2,3) by blast
  show ?case
  proof (cases "frontier = []")
    case True
    have "near R (k + j) x = set ids" for j
    proof (induction j)
      case (Suc j)
      then show ?case using near_step [of R "k + j" x] \<open>R `` (set ids - set frontier) \<subseteq> set ids\<close> True by auto
    qed (use Suc.prems in simp)
    from this [of "Suc d"] show ?thesis using True by simp
  next
    case False
    obtain ids' nxt where f: "fold (\<lambda>x. add_children (ch x)) frontier (ids, []) = (ids', nxt)" by fastforce
    then have s: "set ids' = set ids \<union> (\<Union>x \<in> set frontier. set (ch x))" "set ids' - set ids \<subseteq> set nxt" "set nxt \<subseteq> set ids'"
      using fold_add_children_sets [OF f] by auto
    have "(\<Union>x \<in> set frontier. set (ch x)) = R `` set frontier" using assms(4) by auto
    then have "set ids' = near R (Suc k) x" using s(1) step by simp
    moreover have "R `` (set ids' - set nxt) \<subseteq> set ids'"
    proof -
      have "set ids' - set nxt \<subseteq> set ids" using s(2) by blast
      then have "R `` (set ids' - set nxt) \<subseteq> R `` (set ids - set frontier) \<union> R `` set frontier" by blast
      also have "\<dots> \<subseteq> set ids'" using Suc.prems(2) s(1) \<open>(\<Union>x \<in> set frontier. set (ch x)) = R `` set frontier\<close> by auto
      finally show ?thesis .
    qed
    ultimately have "set (walk_levels d ch nxt ids') = near R (Suc k + d) x" using s(3) by (rule Suc.IH)
    then show ?thesis using False f by simp
  qed
qed simp

section \<open>What the tree shows\<close>

fun subtree_ids :: "subtree \<Rightarrow> ident set" where
  "subtree_ids (Subtree e ts) = insert (n_id (te_node e)) (\<Union> (set (map subtree_ids ts)))"

lemma set_map_filter_Some: "set (List.map_filter f xs) = {y. \<exists>x \<in> set xs. f x = Some y}"
  by (induction xs) (auto simp: map_filter_simps split: option.splits)

lemma build_subtree_ids:
  assumes "\<And>n. n_id (ts_view src n) = n_id n" "\<And>x n. ts_node src x = Some n \<Longrightarrow> n_id n = x"
    "\<And>x. set (ts_children src x) = R `` {x}"
  shows "(\<And>y. y \<in> near R d (n_id n) \<Longrightarrow> ts_node src y \<noteq> None) \<Longrightarrow>
    subtree_ids (build_subtree d src anc n) = near R d (n_id n)"
proof (induction d arbitrary: n anc)
  case 0
  then show ?case by (simp add: build_subtree.simps [of 0] assms(1))
next
  case (Suc d)
  let ?ms = "List.map_filter (ts_node src) (ts_children src (n_id n))"
  have ms: "n_id ` set ?ms = R `` {n_id n}"
  proof -
    have ex: "\<exists>m. ts_node src y = Some m" if "(n_id n, y) \<in> R" for y
      using Suc.prems [of y] near_child [OF that, of d] near_self [of y R d] by blast
    have "y \<in> n_id ` {m. \<exists>x \<in> R `` {n_id n}. ts_node src x = Some m} \<longleftrightarrow> (n_id n, y) \<in> R" for y
    proof
      assume y: "(n_id n, y) \<in> R"
      then obtain m where "ts_node src y = Some m" using ex by blast
      then show "y \<in> n_id ` {m. \<exists>x \<in> R `` {n_id n}. ts_node src x = Some m}" using assms(2) y by (intro image_eqI [of _ _ m]) auto
    qed (use assms(2) in auto)
    then show ?thesis unfolding set_map_filter_Some assms(3) by blast
  qed
  have "subtree_ids (build_subtree d src anc' m) = near R d (n_id m)" if "m \<in> set ?ms" for m anc'
  proof (rule Suc.IH)
    fix y assume "y \<in> near R d (n_id m)"
    moreover have "n_id m \<in> R `` {n_id n}" using imageI [OF that, of n_id] ms by simp
    then have "(n_id n, n_id m) \<in> R" by simp
    ultimately show "ts_node src y \<noteq> None" using Suc.prems [of y] near_child [of "n_id n" "n_id m" R d] by blast
  qed
  then have "(\<Union> (set (map subtree_ids (map (build_subtree d src anc') ?ms)))) = (\<Union>m \<in> set ?ms. near R d (n_id m))" for anc'
    unfolding set_map image_image by (rule SUP_cong [OF refl])
  also have "(\<Union>m \<in> set ?ms. near R d (n_id m)) = (\<Union>y \<in> n_id ` set ?ms. near R d y)" by simp
  also have "\<dots> = (\<Union>y \<in> R `` {n_id n}. near R d y)" by (simp only: ms)
  finally show ?case by (simp add: build_subtree.simps [of "Suc d"] near.simps(2) assms(1))
qed

lemma view_ids [simp]: "n_id (subtree_view n) = n_id n" "n_id (raw_view n) = n_id n"
  by (simp_all add: subtree_view_def view_node_def raw_view_def)

lemma near_rtrancl: "y \<in> near R k x \<Longrightarrow> (x, y) \<in> R\<^sup>*"
  by (induction k arbitrary: x) (auto simp: near.simps(2) intro: converse_rtrancl_into_rtrancl)

lemma near_closed_cong:
  assumes "\<And>a b. a \<in> S \<Longrightarrow> (a, b) \<in> R \<longleftrightarrow> (a, b) \<in> Q" "\<And>a b. a \<in> S \<Longrightarrow> (a, b) \<in> Q \<Longrightarrow> b \<in> S" "x \<in> S"
  shows "near R k x = near Q k x"
  using assms(3)
proof (induction k arbitrary: x)
  case (Suc k)
  have "R `` {x} = Q `` {x}" using assms(1) [OF Suc.prems] by auto
  moreover have "near R k y = near Q k y" if "y \<in> Q `` {x}" for y
    using Suc.IH assms(2) [OF Suc.prems] that by auto
  ultimately show ?case by (simp add: near.simps(2))
qed simp


section \<open>Properties\<close>

text \<open>The containment relation as one project's edges show it agrees with the whole below a node of the project.\<close>

lemma near_in_project:
  assumes "db_ok db" "owner (nodes db) x = Some pid"
  shows "near (child_rel_in db pid) k x = near (child_rel db) k x" "y \<in> near (child_rel db) k x \<Longrightarrow> owner (nodes db) y = Some pid"
proof -
  show "near (child_rel_in db pid) k x = near (child_rel db) k x"
  proof (rule near_closed_cong [of "{x. owner (nodes db) x = Some pid}"])
    fix a b assume a: "a \<in> {x. owner (nodes db) x = Some pid}"
    then show "(a, b) \<in> child_rel_in db pid \<longleftrightarrow> (a, b) \<in> child_rel db"
      by (intro child_rel_in_project(1) [OF assms(1)]) simp
    show "b \<in> {x. owner (nodes db) x = Some pid}" if "(a, b) \<in> child_rel db"
      using child_rel_in_project(2) [OF assms(1) _ that] a by simp
  qed (use assms(2) in simp)
  show "owner (nodes db) y = Some pid" if "y \<in> near (child_rel db) k x"
    using near_rtrancl [OF that]
  proof induction
    case (step a b)
    then show ?case using child_rel_in_project(2) [OF assms(1)] by blast
  qed (rule assms(2))
qed

lemma owner_row: "owner ns y = Some pid \<Longrightarrow> \<exists>n. row_get n_id ns y = Some n \<and> n_project_id n = pid"
  by (auto simp: owner_def)

lemma query_only_children:
  "set (ts_children (query_only_source db pid) x) = child_rel_in db pid `` {x}"
  by (auto simp: query_only_source_def Let_def child_rel_in_def children_in_def)

text \<open>
  C15: The tree view shows exactly the nodes at most ten containment steps below the node asked for,
  on every shape of graph, cycles and shared children included, and the read-only variant shows the
  same nodes as the ordinary one.
\<close>

theorem get_subtree_shows_ten_levels:
  assumes "db_ok db" and "get_node_row db nid = Some node"
  shows "\<exists>t. get_subtree env nid db = Inr t \<and> subtree_ids t = near (child_rel db) 10 nid"
proof -
  let ?pid = "n_project_id node" and ?R = "child_rel_in db (n_project_id node)"
  have id: "n_id node = nid" using assms(2) by (rule get_node_row_id)
  note near = near_in_project [OF assms(1) owner_get [OF assms(2)]]
  note rows = owner_row [OF near(2) [where k = 10]]
  show ?thesis
  proof (cases "query_only env")
    case True
    have ids: "n_id (ts_view (query_only_source db ?pid) n) = n_id n" for n by (simp add: query_only_source_def Let_def)
    have node: "ts_node (query_only_source db ?pid) y = row_get n_id (filter (\<lambda>n. n_project_id n = ?pid) (nodes db)) y" for y
      by (simp add: query_only_source_def Let_def)
    have "ts_node (query_only_source db ?pid) y \<noteq> None" if "y \<in> near ?R 10 (n_id node)" for y
      using rows [of y] that near(1) by (auto simp: node id row_get_None dest!: row_get_Some)
    then have "subtree_ids (build_subtree 10 (query_only_source db ?pid) [] node) = near ?R 10 (n_id node)"
      by (intro build_subtree_ids ids query_only_children) (auto simp: node dest: row_get_Some)
    then show ?thesis using assms(2) True near(1) by (simp add: get_subtree_def id)
  next
    case False
    define ids where "ids = walk_levels 10 (children_in db ?pid) [nid] [nid]"
    have "set ids = near ?R (0 + 10) nid"
      unfolding ids_def by (rule walk_levels_near) (auto simp: child_rel_in_def)
    then have ids: "set ids = near ?R 10 nid" by simp
    let ?src = "ordinary_source db ?pid ids"
    have node: "ts_node ?src y = row_get n_id (filter (\<lambda>n. n_id n \<in> set ids) (nodes db)) y" for y
      by (simp add: ordinary_source_def)
    have "ts_node ?src y \<noteq> None" if "y \<in> near ?R 10 (n_id node)" for y
      using rows [of y] that near(1) ids by (auto simp: node id row_get_None dest!: row_get_Some)
    then have "subtree_ids (build_subtree 10 ?src [] node) = near ?R 10 (n_id node)"
      by (intro build_subtree_ids) (auto simp: node ordinary_source_def child_rel_in_def dest: row_get_Some)
    then show ?thesis using assms(2) False near(1) by (simp add: get_subtree_def Let_def id ids_def)
  qed
qed

theorem get_subtree_shows_ten_levels_witness:
  "\<exists>t. get_subtree sample_env ''a'' sample_db = Inr t \<and> subtree_ids t = near (child_rel sample_db) 10 ''a''"
  using get_subtree_shows_ten_levels [OF sample_ok, of "''a''" "sample_node ''a''"]
  by (simp add: get_node_row_def row_get_def sample_simps)

end
