(* ===== verification/Rate_Limit.thy ===== *)
theory Rate_Limit
  imports Agent_Port
begin

text \<open>
  The rate limit of the Agent Port over a whole sequence of requests: its pruned queues decide exactly like a
  sliding window over the accepted requests, so no grant ever gets more than 120 requests into 60 seconds.
\<close>

lemma length_filter_mono:
  assumes "\<And>x. x \<in> set xs \<Longrightarrow> P x \<Longrightarrow> Q x"
  shows "length (filter P xs) \<le> length (filter Q xs)"
  using assms by (induction xs) fastforce+

section \<open>Sequences of requests\<close>

text \<open>The accepted ones of a sequence of authenticated requests, each a grant and an instant.\<close>

fun accepted :: "hits \<Rightarrow> (ident \<times> rat) list \<Rightarrow> (ident \<times> rat) list" where
  "accepted hits [] = []"
| "accepted hits ((g, t) # calls) =
     (case rate_limit g t hits of (ok, hits') \<Rightarrow> (if ok then [(g, t)] else []) @ accepted hits' calls)"

text \<open>The reference: a request passes when the last 60 seconds hold fewer than 120 accepted requests of its grant.\<close>

definition in_window :: "ident \<Rightarrow> rat \<Rightarrow> (ident \<times> rat) list \<Rightarrow> nat" where
  "in_window g t past = length (filter (\<lambda>(h, s). h = g \<and> t - 60 \<le> s \<and> s \<le> t) past)"

fun sliding_window :: "(ident \<times> rat) list \<Rightarrow> (ident \<times> rat) list \<Rightarrow> (ident \<times> rat) list" where
  "sliding_window past [] = []"
| "sliding_window past ((g, t) # calls) =
     (if in_window g t past < 120 then (g, t) # sliding_window (past @ [(g, t)]) calls else sliding_window past calls)"

section \<open>What the queues remember\<close>

definition instants :: "ident \<Rightarrow> (ident \<times> rat) list \<Rightarrow> rat list" where
  "instants g past = map snd (filter (\<lambda>(h, s). h = g) past)"

lemma instants_simps [simp]: "instants g [] = []" "instants g (past @ [(h, t)]) = instants g past @ (if h = g then [t] else [])"
  by (simp_all add: instants_def)

lemma in_window_instants: "in_window g t past = length (filter (\<lambda>s. t - 60 \<le> s \<and> s \<le> t) (instants g past))"
  unfolding in_window_def instants_def by (induction past) auto

text \<open>A queue holds the accepted instants of its grant but for some that are out of the window for good.\<close>

definition remembers :: "rat \<Rightarrow> rat list \<Rightarrow> rat list \<Rightarrow> bool" where
  "remembers limit ts b \<longleftrightarrow> (\<exists>old. ts = old @ b \<and> (\<forall>s \<in> set old. s < limit))"

lemma remembers_mono: "remembers limit ts b \<Longrightarrow> limit \<le> limit' \<Longrightarrow> remembers limit' ts b"
  by (fastforce simp: remembers_def)

lemma remembers_drop: "remembers limit ts b \<Longrightarrow> remembers limit ts (dropWhile (\<lambda>t. t < limit) b)"
proof -
  assume "remembers limit ts b"
  then obtain old where "ts = old @ b" "\<forall>s \<in> set old. s < limit" by (auto simp: remembers_def)
  then have "ts = (old @ takeWhile (\<lambda>t. t < limit) b) @ dropWhile (\<lambda>t. t < limit) b"
    "\<forall>s \<in> set (old @ takeWhile (\<lambda>t. t < limit) b). s < limit" by (auto dest: set_takeWhileD)
  then show ?thesis unfolding remembers_def by blast
qed

lemma remembers_snoc: "remembers limit ts b \<Longrightarrow> remembers limit (ts @ [t]) (b @ [t])"
  by (auto simp: remembers_def)

lemma remembers_stale:
  assumes "remembers limit ts b" "sorted ts" "b = [] \<or> last b < limit"
  shows "remembers limit ts []"
proof -
  from assms(1) obtain old where old: "ts = old @ b" "\<forall>s \<in> set old. s < limit" by (auto simp: remembers_def)
  have "s < limit" if "s \<in> set b" for s
  proof -
    have "sorted b" using assms(2) old(1) by (simp add: sorted_append)
    then have "s \<le> last b" using that by (induction b) auto
    then show ?thesis using that assms(3) by auto
  qed
  then show ?thesis using old by (auto simp: remembers_def)
qed

definition queues_ok :: "rat \<Rightarrow> (ident \<times> rat) list \<Rightarrow> hits \<Rightarrow> bool" where
  "queues_ok t past hits \<longleftrightarrow> distinct (map fst hits) \<and> (\<forall>g. sorted (instants g past) \<and> (\<forall>s \<in> set (instants g past). s \<le> t) \<and>
     remembers (t - 60) (instants g past) (bucket hits g))"

lemma bucket_filter:
  assumes "distinct (map fst hits)"
  shows "bucket (filter (\<lambda>(g, b). P b) hits) g = (if P (bucket hits g) then bucket hits g else [])"
  using assms
proof (induction hits)
  case (Cons x hits)
  obtain h b where x: "x = (h, b)" by fastforce
  have none: "bucket (filter Q hits) h = []" for Q
  proof -
    have "h \<notin> fst ` set (filter Q hits)" using Cons.prems x by auto
    then have "map_of (filter Q hits) h = None" by (simp add: map_of_eq_None_iff)
    then show ?thesis by (simp add: bucket_def)
  qed
  show ?case
  proof (cases "h = g")
    case True
    then show ?thesis using none [of "\<lambda>(g, b). P b"] by (simp add: x bucket_def)
  next
    case False
    then show ?thesis using Cons by (simp add: x bucket_def)
  qed
qed (simp add: bucket_def)

lemma bucket_append:
  "g \<notin> fst ` set hits \<Longrightarrow> bucket (hits @ hits') g = bucket hits' g"
  "g \<notin> fst ` set hits' \<Longrightarrow> bucket (hits @ hits') g = bucket hits g"
proof -
  have none: "map_of hits g = None" if "g \<notin> fst ` set hits" for hits :: hits using that by (simp add: map_of_eq_None_iff)
  show "g \<notin> fst ` set hits \<Longrightarrow> bucket (hits @ hits') g = bucket hits' g" using none [of hits] by (simp add: bucket_def map_add_def split: option.splits)
  show "g \<notin> fst ` set hits' \<Longrightarrow> bucket (hits @ hits') g = bucket hits g" using none [of hits'] by (simp add: bucket_def map_add_def split: option.splits)
qed

lemma bucket_prune:
  assumes "distinct (map fst hits)"
  shows "bucket (prune_hits t hits) g = bucket hits g \<or>
    bucket (prune_hits t hits) g = [] \<and> (bucket hits g = [] \<or> last (bucket hits g) < t - 60)"
proof -
  let ?P = "\<lambda>b. \<not> (b = [] \<or> last b < t - 60)"
  let ?a = "take 1000 hits" and ?b = "drop 1000 hits"
  have d: "distinct (map fst ?a)" "fst ` set ?a \<inter> fst ` set ?b = {}" and h: "hits = ?a @ ?b"
    using assms by (metis append_take_drop_id distinct_append map_append set_map)+
  have "bucket (filter (\<lambda>(g, b). ?P b) ?a @ ?b) g = bucket hits g \<or>
    bucket (filter (\<lambda>(g, b). ?P b) ?a @ ?b) g = [] \<and> (bucket hits g = [] \<or> last (bucket hits g) < t - 60)"
  proof (cases "g \<in> fst ` set ?b")
    case True
    then have "g \<notin> fst ` set ?a" using d(2) by blast
    moreover from this have "g \<notin> fst ` set (filter (\<lambda>(g, b). ?P b) ?a)" by auto
    ultimately show ?thesis using bucket_append(1) [of g ?a ?b] bucket_append(1) [of g _ ?b] by (simp flip: h)
  next
    case False
    then have "bucket (filter (\<lambda>(g, b). ?P b) ?a @ ?b) g = bucket (filter (\<lambda>(g, b). ?P b) ?a) g" "bucket hits g = bucket ?a g"
      using bucket_append(2) [of g ?b ?a] by (simp_all add: bucket_append(2))
    then show ?thesis using bucket_filter [OF d(1), of ?P g] by auto
  qed
  then show ?thesis by (auto simp: prune_hits_def)
qed

lemma distinct_prune: "distinct (map fst hits) \<Longrightarrow> distinct (map fst (prune_hits t hits))"
proof -
  assume d: "distinct (map fst hits)"
  have "distinct (map fst (filter P (take 1000 hits) @ drop 1000 hits))" for P
  proof -
    have "distinct (map fst (take 1000 hits @ drop 1000 hits))" using d by simp
    then show ?thesis by (auto simp: distinct_map_filter simp del: append_take_drop_id)
  qed
  then show ?thesis using d by (simp add: prune_hits_def)
qed

lemma bucket_set: "bucket (set_bucket g b hits) h = (if h = g then b else bucket hits h)"
  by (simp add: bucket_def set_bucket_def update_conv')

lemma distinct_set: "distinct (map fst hits) \<Longrightarrow> distinct (map fst (set_bucket g b hits))"
  by (simp add: set_bucket_def distinct_update)

section \<open>One request\<close>

lemma queues_prune:
  assumes "queues_ok t0 past hits" "t0 \<le> t"
  shows "queues_ok t past (prune_hits t hits)"
proof -
  have d: "distinct (map fst hits)" using assms(1) by (simp add: queues_ok_def)
  have "remembers (t - 60) (instants g past) (bucket (prune_hits t hits) g)" for g
  proof -
    have "remembers (t - 60) (instants g past) (bucket hits g)" "sorted (instants g past)"
      using assms by (auto simp: queues_ok_def intro: remembers_mono)
    then show ?thesis using bucket_prune [OF d, of t g] by (auto intro: remembers_stale)
  qed
  moreover have "\<forall>s \<in> set (instants g past). s \<le> t" for g using assms by (force simp: queues_ok_def)
  ultimately show ?thesis using assms(1) distinct_prune [OF d] by (simp add: queues_ok_def)
qed

lemma remembers_window:
  assumes "remembers (t - 60) ts b" "sorted ts" "\<forall>s \<in> set ts. s \<le> t"
  shows "filter (\<lambda>s. t - 60 \<le> s \<and> s \<le> t) ts = dropWhile (\<lambda>s. s < t - 60) b"
proof -
  obtain old where old: "ts = old @ b" "\<forall>s \<in> set old. s < t - 60" using assms(1) by (auto simp: remembers_def)
  have "filter (\<lambda>s. t - 60 \<le> s \<and> s \<le> t) old = []" using old(2) by (auto simp: filter_empty_conv)
  moreover have "sorted b" "\<forall>s \<in> set b. s \<le> t" using assms(2,3) old(1) by (auto simp: sorted_append)
  then have "filter (\<lambda>s. t - 60 \<le> s \<and> s \<le> t) b = dropWhile (\<lambda>s. s < t - 60) b"
  proof (induction b)
    case (Cons a b)
    then show ?case
    proof (cases "a < t - 60")
      case False
      then have "filter (\<lambda>s. t - 60 \<le> s \<and> s \<le> t) (a # b) = a # b" using Cons.prems by (intro filter_True) auto
      then show ?thesis using False by simp
    qed auto
  qed simp
  ultimately show ?thesis by (simp add: old(1))
qed

lemma rate_limit_step:
  assumes "queues_ok t0 past hits" "t0 \<le> t" "rate_limit g t hits = (ok, hits')"
  shows "ok \<longleftrightarrow> in_window g t past < 120" "queues_ok t (if ok then past @ [(g, t)] else past) hits'"
proof -
  let ?hits = "prune_hits t hits" and ?b = "dropWhile (\<lambda>s. s < t - 60) (bucket (prune_hits t hits) g)"
  have q: "queues_ok t past ?hits" by (rule queues_prune [OF assms(1,2)])
  have len: "in_window g t past = length ?b"
    using q remembers_window [of t "instants g past" "bucket ?hits g"] by (simp add: in_window_instants queues_ok_def)
  have "hits' = set_bucket g (if length ?b \<ge> 120 then ?b else ?b @ [t]) ?hits" "ok \<longleftrightarrow> length ?b < 120"
    using assms(3) by (auto simp: rate_limit_def Let_def split: if_splits)
  moreover have "remembers (t - 60) (instants g past) ?b"
    using q remembers_drop by (simp add: queues_ok_def)
  ultimately show "queues_ok t (if ok then past @ [(g, t)] else past) hits'"
    using q remembers_snoc [of "t - 60" "instants g past" ?b t]
    by (auto simp: queues_ok_def bucket_set distinct_set sorted_append)
  show "ok \<longleftrightarrow> in_window g t past < 120" using len \<open>ok \<longleftrightarrow> length ?b < 120\<close> by simp
qed

lemma accepted_sliding:
  assumes "queues_ok t0 past hits" "sorted (map snd calls)" "\<forall>(g, t) \<in> set calls. t0 \<le> t"
  shows "accepted hits calls = sliding_window past calls"
  using assms
proof (induction calls arbitrary: t0 past hits)
  case (Cons c calls)
  obtain g t where c: "c = (g, t)" by fastforce
  obtain ok hits' where r: "rate_limit g t hits = (ok, hits')" by fastforce
  have "t0 \<le> t" using Cons.prems(3) c by simp
  note step = rate_limit_step [OF Cons.prems(1) this r]
  have "accepted hits' calls = sliding_window (if ok then past @ [(g, t)] else past) calls"
    using Cons.prems(2) c by (intro Cons.IH [OF step(2)]) auto
  then show ?case using step(1) by (simp add: c r)
qed simp

lemma sliding_window_bound:
  assumes "sorted (map snd calls)" "\<forall>(h, s) \<in> set past. \<forall>(g, t) \<in> set calls. s \<le> t" "\<And>g T. in_window g T past \<le> 120"
  shows "in_window g T (past @ sliding_window past calls) \<le> 120"
  using assms
proof (induction calls arbitrary: past)
  case (Cons c calls)
  obtain h t where c: "c = (h, t)" by fastforce
  show ?case
  proof (cases "in_window h t past < 120")
    case True
    have late: "\<forall>(h, s) \<in> set past. s \<le> t" using Cons.prems(2) c by auto
    have "in_window g' T' (past @ [(h, t)]) \<le> 120" for g' T'
    proof (cases "g' = h \<and> t \<le> T' \<and> T' - 60 \<le> t")
      case in_it: True
      have "in_window h T' past \<le> in_window h t past"
        unfolding in_window_def using late in_it by (intro length_filter_mono) auto
      then show ?thesis using True in_it by (simp add: in_window_def)
    next
      case False
      then have "in_window g' T' (past @ [(h, t)]) = in_window g' T' past" by (auto simp: in_window_def)
      then show ?thesis using Cons.prems(3) by simp
    qed
    moreover have "\<forall>(k, s) \<in> set (past @ [(h, t)]). \<forall>(g, u) \<in> set calls. s \<le> u"
      using Cons.prems(1,2) c by auto
    ultimately have "in_window g T ((past @ [(h, t)]) @ sliding_window (past @ [(h, t)]) calls) \<le> 120"
      using Cons.IH [of "past @ [(h, t)]"] Cons.prems(1) by simp
    then show ?thesis using True by (simp add: c)
  next
    case False
    have "\<forall>(h, s) \<in> set past. \<forall>(g, u) \<in> set calls. s \<le> u" using Cons.prems(2) by auto
    then have "in_window g T (past @ sliding_window past calls) \<le> 120" using Cons.IH [of past] Cons.prems(1,3) by simp
    then show ?thesis using False by (simp add: c)
  qed
qed simp

text \<open>
  C20: Over any sequence of requests at instants that do not decrease, the pruned queues of the rate limit accept
  exactly what a sliding window over the accepted requests accepts, and so no grant ever passes 120 requests in 60 seconds.
\<close>

theorem rate_limit_is_sliding_window:
  assumes "sorted (map snd calls)"
  shows "accepted [] calls = sliding_window [] calls \<and> in_window g T (accepted [] calls) \<le> 120"
proof -
  have eq: "accepted [] calls = sliding_window [] calls"
  proof (cases calls)
    case (Cons c cs)
    have "queues_ok (snd c) [] []" by (simp add: queues_ok_def remembers_def bucket_def)
    then show ?thesis by (rule accepted_sliding) (use assms Cons in auto)
  qed simp
  then show ?thesis using sliding_window_bound [OF assms, of "[]" g T] by (simp add: in_window_def)
qed

theorem rate_limit_is_sliding_window_witness:
  "in_window ''g'' 60 (accepted [] (replicate 121 (''g'', 1) @ [(''g'', 60)])) \<le> 120 \<and>
   sliding_window [] [(''g'', 1), (''h'', 2)] = accepted [] [(''g'', 1), (''h'', 2)]"
proof
  show "in_window ''g'' 60 (accepted [] (replicate 121 (''g'', 1) @ [(''g'', 60)])) \<le> 120"
    by (rule conjunct2 [OF rate_limit_is_sliding_window]) (simp add: sorted_append)
  have "accepted [] [(''g'', 1), (''h'', 2)] = sliding_window [] [(''g'', 1), (''h'', 2)]"
    by (rule conjunct1 [OF rate_limit_is_sliding_window]) simp
  then show "sliding_window [] [(''g'', 1), (''h'', 2)] = accepted [] [(''g'', 1), (''h'', 2)]" by (rule sym)
qed

end
