(* ===== verification/Markdown_Export.thy ===== *)
theory Markdown_Export
  imports Providers Nodes
begin

text \<open>
  The Markdown exports of a project and the two history listings (\<open>api/routes.py\<close>). A document is a list of lines; each form of
  line the code formats is a constructor that carries what is interpolated, so the fixed wording (titles in Chinese,
  badges) is not part of the model. \<open>show_value\<close> is Python's \<open>str\<close> of a JSON value that is not a string. The nested functions recurse
  over one shared set of visited nodes; a call is made exactly when its entry of the stack below is taken, so
  \<open>preorder\<close> lists the calls that render, in order. Python's recursion limit is not modelled.
\<close>

section \<open>Lines\<close>

datatype md_line =
    ProjectTitle string
  | ProjectDescription string
  | ProjectGoal string
  | Rule
  | Heading nat string string
  | Summary string
  | SeedMark
  | BlocksHeading nat
  | BlockItem string "json option"
  | BodyLine string
  | BlankLine
  | DocsHeading nat
  | DocLink "json option" json
  | DocItem "json option"
  | DocSummary json
  | SpecTitle string
  | SpecDate timestamp
  | TocHeading
  | TocEntry nat string
  | SpecHeading nat string bool

definition py_str :: "(json \<Rightarrow> string) \<Rightarrow> json \<Rightarrow> string" where
  "py_str show_value j = (case j of JStr s \<Rightarrow> s | _ \<Rightarrow> show_value j)"

definition doc_block_types :: "string list" where
  "doc_block_types = [''resource'', ''document'', ''file'']"

definition block_content :: "content_block \<Rightarrow> json" where
  "block_content b = (case b_content b of JObj ms \<Rightarrow> JObj ms | _ \<Rightarrow> JObj [])"

text \<open>\<open>content.get(a) or content.get(b) or ...\<close>, with \<open>None\<close> for the final default.\<close>

definition first_member :: "string list \<Rightarrow> json \<Rightarrow> json option" where
  "first_member ks c = find json_truthy (map (\<lambda>k. case json_member k c of None \<Rightarrow> JNull | Some j \<Rightarrow> j) ks)"

definition body_lines :: "(json \<Rightarrow> string) \<Rightarrow> json option \<Rightarrow> md_line list" where
  "body_lines show_value body =
     (case body of None \<Rightarrow> [] | Some j \<Rightarrow> map (\<lambda>l. if l = [] then BlankLine else BodyLine l) (splitlines (py_str show_value j)))"

definition render_content_blocks :: "(json \<Rightarrow> string) \<Rightarrow> nat \<Rightarrow> content_block list \<Rightarrow> md_line list" where
  "render_content_blocks show_value level blocks =
     (let bs = filter (\<lambda>b. b_block_type b \<notin> set doc_block_types) blocks
      in if bs = [] then []
         else BlocksHeading level #
              concat (map (\<lambda>b. let c = block_content b
                 in BlockItem (b_block_type b) (first_member [''title''] c) # body_lines show_value (first_member [''body'', ''summary''] c)) bs)
              @ [BlankLine])"

definition render_bound_docs :: "nat \<Rightarrow> content_block list \<Rightarrow> md_line list" where
  "render_bound_docs level blocks =
     (let docs = filter (\<lambda>b. b_block_type b \<in> set doc_block_types) blocks
      in if docs = [] then []
         else DocsHeading level #
              concat (map (\<lambda>b. let c = block_content b;
                    title = first_member [''title'', ''name'', ''filename'', ''url'', ''path''] c
                 in (case first_member [''url'', ''path''] c of Some href \<Rightarrow> DocLink title href | None \<Rightarrow> DocItem title) #
                    (case first_member [''summary'', ''body''] c of Some s \<Rightarrow> [DocSummary s] | None \<Rightarrow> [])) docs)
              @ [BlankLine])"

section \<open>The walk\<close>

function preorder :: "ident list \<Rightarrow> (ident \<Rightarrow> ident list) \<Rightarrow> ident list \<Rightarrow> (ident \<times> nat) list \<Rightarrow> (ident \<times> nat) list" where
  "preorder known kids visited [] = []"
| "preorder known kids visited ((x, d) # stack) =
     (if x \<in> set visited \<or> x \<notin> set known then preorder known kids visited stack
      else (x, d) # preorder known kids (x # visited) (map (\<lambda>y. (y, Suc d)) (kids x) @ stack))"
  by pat_completeness auto

termination
proof (relation "measures [\<lambda>(known, kids, visited, stack). card (set known - set visited), \<lambda>(known, kids, visited, stack). length stack]",
    goal_cases)
  case (3 known kids visited x d stack)
  then have "set known - set (x # visited) \<subset> set known - set visited" by auto
  then have "card (set known - set (x # visited)) < card (set known - set visited)" by (intro psubset_card_mono) simp_all
  then show ?case by simp
qed auto

definition main_child_edges :: "ident \<Rightarrow> db \<Rightarrow> edge list" where
  "main_child_edges pid db =
     (let ids = map n_id (ordinary_main_nodes pid db)
      in filter (\<lambda>e. e_project_id e = pid \<and> is_child_edge e \<and> e_from_node_id e \<in> set ids \<and> e_to_node_id e \<in> set ids) (edges db))"

definition child_map :: "ident \<Rightarrow> db \<Rightarrow> ident \<Rightarrow> ident list" where
  "child_map pid db x = map e_to_node_id (filter (\<lambda>e. e_from_node_id e = x) (main_child_edges pid db))"

definition node_blocks :: "ident \<Rightarrow> db \<Rightarrow> content_block list" where
  "node_blocks x db = sort_key b_order_index (filter (\<lambda>b. b_node_id b = x) (content_blocks db))"

definition render_order :: "ident \<Rightarrow> ident \<Rightarrow> db \<Rightarrow> (ident \<times> nat) list" where
  "render_order pid start db = preorder (map n_id (ordinary_main_nodes pid db)) (child_map pid db) [] [(start, 0)]"

section \<open>The exports\<close>

definition render_node :: "(json \<Rightarrow> string) \<Rightarrow> db \<Rightarrow> ident \<times> nat \<Rightarrow> md_line list" where
  "render_node show_value db x =
     (case get_node_row db (fst x) of
        None \<Rightarrow> []
      | Some n \<Rightarrow>
          Heading (min (snd x + 2) 6) (n_maturity n) (n_title n) #
          (if truthy (n_summary n) then [Summary (the (n_summary n))] else []) @
          render_content_blocks show_value (min (snd x + 3) 6) (node_blocks (n_id n) db) @
          render_bound_docs (min (snd x + 3) 6) (node_blocks (n_id n) db) @
          (if n_maturity n = ''seed'' then [SeedMark] else []))"

definition project_lines :: "project \<Rightarrow> md_line list" where
  "project_lines p =
     ProjectTitle (p_name p) #
     (if truthy (p_description p) then [ProjectDescription (the (p_description p))] else []) @
     (if truthy (p_goal p) then [ProjectGoal (the (p_goal p))] else []) @ [Rule]"

text \<open>The stored text of a block, in the read-only variant: it must decode to an object.\<close>

fun decodes :: "json \<Rightarrow> bool" where
  "decodes (JObj ms) = True"
| "decodes _ = False"

definition export_project :: "env \<Rightarrow> (json \<Rightarrow> string) \<Rightarrow> ident \<Rightarrow> db \<Rightarrow> md_line list result" where
  "export_project env show_value pid db =
     (case get_project_row db pid of
        None \<Rightarrow> Inl (HTTPException 404 ''Project not found'')
      | Some p \<Rightarrow>
          if query_only env \<and> list_ex (\<lambda>b. b_node_id b \<in> set (map n_id (ordinary_main_nodes pid db)) \<and> \<not> decodes (b_content b)) (content_blocks db)
          then Inl (HTTPException 409 ''Project data is not compatible with Markdown export'')
          else if \<not> truthy (p_root_node_id p) then Inl (HTTPException 404 ''No root node'')
          else Inr (project_lines p @ concat (map (render_node show_value db) (render_order pid (the (p_root_node_id p)) db))))"

definition toc_entry :: "db \<Rightarrow> ident \<times> nat \<Rightarrow> md_line list" where
  "toc_entry db x = (case get_node_row db (fst x) of None \<Rightarrow> [] | Some n \<Rightarrow> [TocEntry (snd x) (n_title n)])"

definition render_spec_node :: "(json \<Rightarrow> string) \<Rightarrow> db \<Rightarrow> ident \<times> nat \<Rightarrow> md_line list" where
  "render_spec_node show_value db x =
     (case get_node_row db (fst x) of
        None \<Rightarrow> []
      | Some n \<Rightarrow>
          SpecHeading (min (snd x + 2) 6) (n_title n) (n_maturity n \<notin> {''stable'', ''finalized''}) #
          (if truthy (n_summary n) then [Summary (the (n_summary n))] else []) @
          render_content_blocks show_value 3 (node_blocks (n_id n) db) @ render_bound_docs 3 (node_blocks (n_id n) db))"

definition export_spec :: "env \<Rightarrow> (json \<Rightarrow> string) \<Rightarrow> ident \<Rightarrow> db \<Rightarrow> md_line list result" where
  "export_spec env show_value pid db =
     (case get_project_row db pid of
        None \<Rightarrow> Inl (HTTPException 404 ''Project not found'')
      | Some p \<Rightarrow>
          if \<not> truthy (p_root_node_id p) then Inl (HTTPException 404 ''No root node'')
          else let order = render_order pid (the (p_root_node_id p)) db
               in Inr ([SpecTitle (p_name p), BlankLine,
                    if truthy (p_description p) then ProjectDescription (the (p_description p)) else BlankLine,
                    if truthy (p_goal p) then ProjectGoal (the (p_goal p)) else BlankLine,
                    SpecDate (now env), BlankLine, Rule, BlankLine, TocHeading, BlankLine] @
                    concat (map (toc_entry db) order) @ [BlankLine, Rule, BlankLine] @
                    concat (map (render_spec_node show_value db) order)))"

text \<open>\<open>LIMIT\<close> of SQLite: a negative number is no limit.\<close>

definition sql_limit :: "int \<Rightarrow> 'a list \<Rightarrow> 'a list" where
  "sql_limit k xs = (if k < 0 then xs else take (nat k) xs)"

definition get_node_history :: "ident \<Rightarrow> int \<Rightarrow> db \<Rightarrow> action_log list" where
  "get_node_history nid limit db =
     sql_limit limit (sort_key (\<lambda>l. - l_created_at l) (filter (\<lambda>l. l_node_id l = Some nid) (action_logs db)))"

definition list_project_actions :: "ident \<Rightarrow> int \<Rightarrow> db \<Rightarrow> action_log list result" where
  "list_project_actions pid limit db =
     (case get_project_row db pid of
        None \<Rightarrow> Inl (HTTPException 404 ''Project not found'')
      | Some p \<Rightarrow> Inr (sql_limit limit (sort_key (\<lambda>l. - l_created_at l) (filter (\<lambda>l. l_project_id l = pid) (action_logs db)))))"

section \<open>What the walk visits\<close>

lemma preorder_distinct:
  "distinct (map fst (preorder known kids visited stack)) \<and> set (map fst (preorder known kids visited stack)) \<inter> set visited = {} \<and>
     set (map fst (preorder known kids visited stack)) \<subseteq> set known"
  by (induction known kids visited stack rule: preorder.induct) auto

lemma preorder_covers:
  "\<forall>x \<in> fst ` set stack \<inter> set known. x \<in> set (map fst (preorder known kids visited stack)) \<union> set visited"
  by (induction known kids visited stack rule: preorder.induct) auto

lemma preorder_closed:
  "x \<in> set (map fst (preorder known kids visited stack)) \<Longrightarrow> y \<in> set (kids x) \<Longrightarrow> y \<in> set known \<Longrightarrow>
     y \<in> set (map fst (preorder known kids visited stack)) \<union> set visited"
proof (induction known kids visited stack rule: preorder.induct)
  case (2 known kids visited z d stack)
  show ?case
  proof (cases "z \<in> set visited \<or> z \<notin> set known")
    case True
    then show ?thesis using 2 by simp
  next
    case False
    let ?stack = "map (\<lambda>y. (y, Suc d)) (kids z) @ stack"
    show ?thesis
    proof (cases "x = z")
      case True
      then have "y \<in> fst ` set ?stack \<inter> set known" using "2.prems" by force
      then show ?thesis using preorder_covers [of ?stack known kids "z # visited"] False by auto
    next
      case other: False
      then have "x \<in> set (map fst (preorder known kids (z # visited) ?stack))" using "2.prems"(1) False by auto
      then show ?thesis using "2.IH"(2) [OF False] "2.prems"(2,3) False by auto
    qed
  qed
qed simp

lemma preorder_reached:
  assumes "\<And>x y. x \<in> set known \<Longrightarrow> y \<in> set (kids x) \<Longrightarrow> (x, y) \<in> r" "x \<in> set (map fst (preorder known kids visited stack))"
  shows "\<exists>s \<in> fst ` set stack. s \<in> set known \<and> (s, x) \<in> r\<^sup>*"
  using assms
proof (induction known kids visited stack rule: preorder.induct)
  case (2 known kids visited z d stack)
  show ?case
  proof (cases "z \<in> set visited \<or> z \<notin> set known")
    case True
    then show ?thesis using 2 by auto
  next
    case False
    show ?thesis
    proof (cases "x = z")
      case True
      then show ?thesis using False by auto
    next
      case other: False
      then obtain s where s: "s \<in> set (kids z) \<union> fst ` set stack" "s \<in> set known" "(s, x) \<in> r\<^sup>*"
        using "2.IH"(2) [OF False "2.prems"(1)] "2.prems"(2) False by (auto simp: image_Un image_image)
      then show ?thesis
      proof (cases "s \<in> set (kids z)")
        case True
        then have "(z, x) \<in> r\<^sup>*" using s(3) "2.prems"(1) [of z s] False by (meson converse_rtrancl_into_rtrancl)
        then show ?thesis using False by auto
      qed auto
    qed
  qed
qed simp

section \<open>Properties\<close>

text \<open>The main tree, from the rows alone: ordinary nodes of the project that lie on no branch, and an edge for every stored containment of
  the project between two of them.\<close>

definition main_id :: "ident \<Rightarrow> db \<Rightarrow> ident \<Rightarrow> bool" where
  "main_id pid db x \<longleftrightarrow> (\<exists>n \<in> set (nodes db). n_id n = x \<and> n_project_id n = pid \<and> n_branch_id n = None)"

definition main_child_rel :: "ident \<Rightarrow> db \<Rightarrow> (ident \<times> ident) set" where
  "main_child_rel pid db = {(x, y). main_id pid db x \<and> main_id pid db y \<and>
     (\<exists>e \<in> set (edges db). e_project_id e = pid \<and> e_relation_type e = ''child_of'' \<and> e_from_node_id e = x \<and> e_to_node_id e = y)}"

definition main_reachable :: "ident \<Rightarrow> ident \<Rightarrow> db \<Rightarrow> ident set" where
  "main_reachable pid start db =
     (if main_id pid db start then {x. (start, x) \<in> (main_child_rel pid db)\<^sup>*} else {})"

lemma main_id_iff: "main_id pid db x \<longleftrightarrow> x \<in> set (map n_id (ordinary_main_nodes pid db))"
  by (auto simp: main_id_def ordinary_main_nodes_def)

lemma child_map_iff: "y \<in> set (child_map pid db x) \<longleftrightarrow> (x, y) \<in> main_child_rel pid db"
proof -
  have "y \<in> set (child_map pid db x) \<longleftrightarrow> (\<exists>e. e \<in> set (main_child_edges pid db) \<and> e_from_node_id e = x \<and> y = e_to_node_id e)"
    unfolding child_map_def set_map image_iff set_filter by blast
  also have "\<dots> \<longleftrightarrow> (x, y) \<in> main_child_rel pid db"
    unfolding main_child_edges_def main_child_rel_def main_id_iff Let_def set_filter is_child_edge_def child_of_def by blast
  finally show ?thesis .
qed

lemma child_map_main: "(x, y) \<in> main_child_rel pid db \<Longrightarrow> y \<in> set (map n_id (ordinary_main_nodes pid db))"
  by (simp add: main_child_rel_def main_id_iff)

lemma render_order_reachable:
  "distinct (map fst (render_order pid start db)) \<and> set (map fst (render_order pid start db)) = main_reachable pid start db"
proof -
  let ?known = "map n_id (ordinary_main_nodes pid db)" and ?kids = "child_map pid db" and ?r = "main_child_rel pid db"
  let ?out = "set (map fst (preorder ?known ?kids [] [(start, 0)]))"
  have d: "distinct (map fst (preorder ?known ?kids [] [(start, 0)]))" "?out \<subseteq> set ?known"
    using preorder_distinct by blast+
  have "?out \<subseteq> main_reachable pid start db"
  proof
    fix x
    assume "x \<in> ?out"
    then have "\<exists>s \<in> fst ` set [(start, 0 :: nat)]. s \<in> set ?known \<and> (s, x) \<in> ?r\<^sup>*"
      by (rule preorder_reached [rotated]) (simp add: child_map_iff)
    then show "x \<in> main_reachable pid start db" by (auto simp: main_reachable_def main_id_iff)
  qed
  moreover have "x \<in> ?out" if "start \<in> set ?known" "(start, x) \<in> ?r\<^sup>*" for x
    using that(2)
  proof (induction rule: rtrancl_induct)
    case base
    then show ?case using preorder_covers [of "[(start, 0)]" ?known ?kids "[]"] that(1) by auto
  next
    case (step y z)
    then have "z \<in> set (?kids y)" "z \<in> set ?known" using child_map_main by (auto simp: child_map_iff)
    then show ?case using preorder_closed [OF step.IH] by auto
  qed
  then have "main_reachable pid start db \<subseteq> ?out" by (auto simp: main_reachable_def main_id_iff simp del: preorder.simps)
  ultimately show ?thesis using d(1) by (simp add: render_order_def del: preorder.simps)
qed

text \<open>
  C22: A Markdown export, and the specification export, of a project with a root show every main node that can be reached from the root
  along the containment edges of the main tree, and no other, each exactly once, in one and the same order, on every shape of
  graph: cycles and shared children included. In the read-only variant every block must hold an object.
\<close>

theorem exports_show_main_tree_once:
  assumes "get_project_row db pid = Some p" "p_root_node_id p = Some start" "start \<noteq> []"
    "query_only env \<longrightarrow> list_all (\<lambda>b. decodes (b_content b)) (content_blocks db)"
  shows "\<exists>order toc. distinct (map fst order) \<and> set (map fst order) = main_reachable pid start db \<and>
    export_project env show_value pid db = Inr (project_lines p @ concat (map (render_node show_value db) order)) \<and>
    export_spec env show_value pid db = Inr (toc @ concat (map (toc_entry db) order) @ [BlankLine, Rule, BlankLine] @
      concat (map (render_spec_node show_value db) order))"
proof -
  have "truthy (p_root_node_id p)" "the (p_root_node_id p) = start" using assms(2,3) by (simp_all add: truthy_def)
  moreover have "\<not> (query_only env \<and> list_ex (\<lambda>b. b_node_id b \<in> set (map n_id (ordinary_main_nodes pid db)) \<and> \<not> decodes (b_content b)) (content_blocks db))"
    using assms(4) by (auto simp: list_ex_iff list_all_iff)
  ultimately have runs: "export_project env show_value pid db = Inr (project_lines p @ concat (map (render_node show_value db) (render_order pid start db)))"
    "\<exists>toc. export_spec env show_value pid db = Inr (toc @ concat (map (toc_entry db) (render_order pid start db)) @ [BlankLine, Rule, BlankLine] @
      concat (map (render_spec_node show_value db) (render_order pid start db)))"
    using assms(1) by (auto simp: export_project_def export_spec_def Let_def)
  then show ?thesis using render_order_reachable by blast
qed

theorem exports_show_main_tree_once_witness:
  "\<exists>order. main_reachable ''p'' ''r'' sample_db = {''r'', ''a'', ''c'', ''b''} \<and> set (map fst order) = {''r'', ''a'', ''c'', ''b''} \<and> distinct (map fst order) \<and>
     export_project sample_env (\<lambda>_. []) ''p'' sample_db = Inr (project_lines sample_project @ concat (map (render_node (\<lambda>_. []) sample_db) order))"
proof -
  have row: "get_project_row sample_db ''p'' = Some sample_project" "p_root_node_id sample_project = Some ''r''" "''r'' \<noteq> []"
    "query_only sample_env \<longrightarrow> list_all (\<lambda>b. decodes (b_content b)) (content_blocks sample_db)"
    by (simp_all add: get_project_row_def row_get_def sample_simps)
  have "map fst (render_order ''p'' ''r'' sample_db) = [''r'', ''a'', ''c'', ''b'']" by code_simp
  then have "main_reachable ''p'' ''r'' sample_db = {''r'', ''a'', ''c'', ''b''}"
    using render_order_reachable [of "''p''" "''r''" sample_db] by simp
  then show ?thesis using exports_show_main_tree_once [OF row, of "\<lambda>_. []"] by metis
qed

end
