(* ===== verification/Signer_Ceremony.thy ===== *)
theory Signer_Ceremony
  imports Prelude
begin

text \<open>
  The signing key of the license authority (\<open>licensing/signer_ceremony.py\<close> and the part of
  \<open>licensing/authority.py\<close> that pins it): reviewed ceremony descriptors, the monotonic anchor outside the
  database that binds every key generation to one descriptor, and the rotation from one generation to the next.
  Untyped Python values are the type \<open>py\<close>. A descriptor that passed validation is the record \<open>ceremony\<close>, which
  stands for its canonical JSON text too: SHA-256 of that text is the parameter \<open>digest\<close>. Times are microseconds.
\<close>

section \<open>Python values and failures\<close>

datatype py = PyNone | PyBool bool | PyInt int | PyFloat rat | PyStr string | PyList "py list" | PyDict "(string \<times> py) list"

text \<open>A \<open>ValueError\<close>, \<open>RuntimeError\<close> or \<open>KeyError\<close> with its code, a \<open>TypeError\<close>, or a violated constraint of the database.\<close>

datatype failure = Value_Error string | Runtime_Error string | Key_Error string | Type_Error | Integrity_Error

type_synonym 'a answer = "failure + 'a"

definition dict_keys :: "(string \<times> py) list \<Rightarrow> string set" where
  "dict_keys ms = set (map fst ms)"

text \<open>Patterns of one character class for the first and one for the other characters, as the source uses them.\<close>

definition lower_digit :: "char \<Rightarrow> bool" where
  "lower_digit c \<longleftrightarrow> c \<in> set ''abcdefghijklmnopqrstuvwxyz0123456789''"

definition alnum :: "char \<Rightarrow> bool" where
  "alnum c \<longleftrightarrow> lower_digit c \<or> c \<in> set ''ABCDEFGHIJKLMNOPQRSTUVWXYZ''"

definition ascii_lower :: "char \<Rightarrow> char" where
  "ascii_lower c = (if c \<in> set ''ABCDEFGHIJKLMNOPQRSTUVWXYZ'' then char_of (of_char c + 32 :: nat) else c)"

definition lower_hex_digit :: "char \<Rightarrow> bool" where
  "lower_hex_digit c \<longleftrightarrow> c \<in> set ''0123456789abcdef''"

fun head_tail :: "(char \<Rightarrow> bool) \<Rightarrow> (char \<Rightarrow> bool) \<Rightarrow> nat \<Rightarrow> nat \<Rightarrow> string \<Rightarrow> bool" where
  "head_tail p q lo hi [] = False"
| "head_tail p q lo hi (c # cs) = (p c \<and> lo \<le> length cs \<and> length cs \<le> hi \<and> list_all q cs)"

definition hex64 :: "string \<Rightarrow> bool" where
  "hex64 s \<longleftrightarrow> length s = 64 \<and> list_all lower_hex_digit s"

section \<open>Anchor claims\<close>

record anchor_claim =
  cl_generation :: int
  cl_ceremony :: "string option"

definition validate_anchor_claim :: "bool \<Rightarrow> py \<Rightarrow> anchor_claim answer" where
  "validate_anchor_claim allow_zero v =
     (case v of
        PyDict ms \<Rightarrow>
          (if dict_keys ms \<noteq> {''generation'', ''ceremony_sha256''} then Inl (Value_Error ''invalid_anchor_claim'')
           else case (map_of ms ''generation'', map_of ms ''ceremony_sha256'') of
             (Some (PyInt g), Some d) \<Rightarrow>
               if g < 0 \<or> \<not> allow_zero \<and> g < 1 then Inl (Value_Error ''invalid_anchor_claim'')
               else if g = 0 then (if d \<noteq> PyNone then Inl (Value_Error ''invalid_anchor_claim'') else Inr \<lparr>cl_generation = 0, cl_ceremony = None\<rparr>)
               else (case d of
                 PyStr s \<Rightarrow> if hex64 s then Inr \<lparr>cl_generation = g, cl_ceremony = Some s\<rparr> else Inl (Value_Error ''invalid_anchor_claim'')
               | _ \<Rightarrow> Inl (Value_Error ''invalid_anchor_claim''))
           | _ \<Rightarrow> Inl (Value_Error ''invalid_anchor_claim''))
      | _ \<Rightarrow> Inl (Value_Error ''invalid_anchor_claim''))"

definition claim_value :: "anchor_claim \<Rightarrow> py" where
  "claim_value c = PyDict [(''generation'', PyInt (cl_generation c)),
     (''ceremony_sha256'', case cl_ceremony c of None \<Rightarrow> PyNone | Some s \<Rightarrow> PyStr s)]"

text \<open>The anchor of the offline fixture: its claim and whether it is reachable.\<close>

record anchor =
  an_claim :: anchor_claim
  an_available :: bool

definition new_anchor :: "int \<Rightarrow> string option \<Rightarrow> anchor answer" where
  "new_anchor g d = and_then (validate_anchor_claim True (claim_value \<lparr>cl_generation = g, cl_ceremony = d\<rparr>)) (\<lambda>c.
     Inr \<lparr>an_claim = c, an_available = True\<rparr>)"

definition anchor_read :: "anchor \<Rightarrow> py answer" where
  "anchor_read a = (if \<not> an_available a then Inl (Runtime_Error ''fixture_anchor_unavailable'') else Inr (claim_value (an_claim a)))"

definition compare_and_advance :: "py \<Rightarrow> py \<Rightarrow> anchor \<Rightarrow> (py \<times> anchor) answer" where
  "compare_and_advance expected new a =
     and_then (validate_anchor_claim True expected) (\<lambda>expected.
     and_then (validate_anchor_claim False new) (\<lambda>new.
       if \<not> an_available a then Inl (Runtime_Error ''fixture_anchor_unavailable'')
       else if an_claim a = new then Inr (claim_value (an_claim a), a)
       else if an_claim a \<noteq> expected \<or> cl_generation new \<noteq> cl_generation expected + 1 then Inl (Runtime_Error ''fixture_anchor_conflict'')
       else Inr (claim_value new, a\<lparr>an_claim := new\<rparr>)))"

section \<open>Ceremony descriptors\<close>

record ceremony =
  ce_authority_id :: string
  ce_key_id :: string
  ce_generation :: int
  ce_activated_at :: string
  ce_predecessor :: "int option"
  ce_public_key_sha256 :: string
  ce_attestation :: string

definition FIELDS :: "string set" where
  "FIELDS = {''schema_version'', ''purpose'', ''domain'', ''algorithm'', ''authority_id'', ''key_id'', ''generation'', ''activated_at'',
     ''predecessor_generation'', ''public_key_sha256'', ''provider_attestation_id''}"

text \<open>
  What validation gets from outside: SHA-256, the loader of public keys (\<open>None\<close> when neither encoding loads, otherwise
  whether the key is an Ed25519 key) and the instant of a canonical timestamp (\<open>None\<close> for other spellings).
\<close>

record key_review =
  kr_sha256 :: "string \<Rightarrow> string"
  kr_load_key :: "string \<Rightarrow> bool option"
  kr_canonical_time :: "string \<Rightarrow> timestamp option"

definition require :: "bool \<Rightarrow> string \<Rightarrow> unit answer" where
  "require ok code = (if ok then Inr () else Inl (Value_Error code))"

fun py_string :: "py option \<Rightarrow> string" where
  "py_string (Some (PyStr s)) = s"
| "py_string _ = []"

definition is_str :: "py option \<Rightarrow> bool" where
  "is_str v \<longleftrightarrow> (case v of Some (PyStr _) \<Rightarrow> True | _ \<Rightarrow> False)"

definition predecessor_ok :: "int \<Rightarrow> py option \<Rightarrow> bool" where
  "predecessor_ok g p \<longleftrightarrow> (if g = 1 then p = Some PyNone else p = Some (PyInt (g - 1)))"

definition validate_ceremony :: "key_review \<Rightarrow> py \<Rightarrow> string \<Rightarrow> timestamp \<Rightarrow> ceremony answer" where
  "validate_ceremony kr descriptor reviewed_public_key clock =
     (case descriptor of
        PyDict ms \<Rightarrow>
          let get = map_of ms; s = (\<lambda>k. py_string (get k)) in
          and_then (require (dict_keys ms = FIELDS) ''invalid_ceremony_schema'') (\<lambda>_.
          and_then (require (get ''schema_version'' = Some (PyInt 1)) ''invalid_ceremony_schema_version'') (\<lambda>_.
          and_then (require (get ''purpose'' = Some (PyStr ''growthmap-license-authority-signing'') \<and>
              get ''domain'' = Some (PyStr ''growthmap-activation-certificate-v2'') \<and> get ''algorithm'' = Some (PyStr ''Ed25519''))
              ''invalid_ceremony_binding'') (\<lambda>_.
          and_then (require (is_str (get ''authority_id'') \<and>
              head_tail lower_digit (\<lambda>c. lower_digit c \<or> c \<in> set ''_-'') 2 63 (s ''authority_id'')) ''invalid_authority_id'') (\<lambda>_.
          and_then (require (is_str (get ''key_id'') \<and>
              head_tail lower_digit (\<lambda>c. lower_digit c \<or> c \<in> set ''._-'') 2 63 (s ''key_id'')) ''invalid_key_id'') (\<lambda>_.
          case get ''generation'' of
            Some (PyInt g) \<Rightarrow>
              and_then (require (1 \<le> g) ''invalid_generation'') (\<lambda>_.
              and_then (require (predecessor_ok g (get ''predecessor_generation'')) ''invalid_predecessor'') (\<lambda>_.
              case kr_canonical_time kr (s ''activated_at'') of
                None \<Rightarrow> Inl (Value_Error ''invalid_activation_time'')
              | Some activated \<Rightarrow>
                  and_then (require (is_str (get ''activated_at'')) ''invalid_activation_time'') (\<lambda>_.
                  and_then (require (activated \<le> clock) ''ceremony_not_active'') (\<lambda>_.
                  and_then (require (is_str (get ''public_key_sha256'') \<and> hex64 (s ''public_key_sha256'')) ''invalid_public_key_hash'') (\<lambda>_.
                  and_then (require (kr_sha256 kr reviewed_public_key = s ''public_key_sha256'') ''public_key_hash_mismatch'') (\<lambda>_.
                  and_then (require (kr_load_key kr reviewed_public_key \<noteq> None) ''invalid_public_key'') (\<lambda>_.
                  and_then (require (kr_load_key kr reviewed_public_key = Some True) ''public_key_must_be_ed25519'') (\<lambda>_.
                  and_then (require (is_str (get ''provider_attestation_id'') \<and>
                      head_tail alnum (\<lambda>c. alnum c \<or> c \<in> set ''._:/-'') 0 127 (s ''provider_attestation_id'')) ''invalid_attestation'') (\<lambda>_.
                    Inr \<lparr>ce_authority_id = s ''authority_id'', ce_key_id = s ''key_id'', ce_generation = g, ce_activated_at = s ''activated_at'',
                      ce_predecessor = (if g = 1 then None else Some (g - 1)), ce_public_key_sha256 = s ''public_key_sha256'',
                      ce_attestation = s ''provider_attestation_id''\<rparr>))))))))
          )
          | _ \<Rightarrow> Inl (Value_Error ''invalid_generation''))))))
      | _ \<Rightarrow> Inl (Value_Error ''invalid_ceremony_schema''))"

section \<open>Pinning and rotation\<close>

text \<open>A row of \<open>signer_ceremonies\<close>; its other columns repeat members of the descriptor.\<close>

record pin =
  pn_generation :: int
  pn_descriptor :: ceremony
  pn_pinned_at :: timestamp

definition latest_pin :: "pin list \<Rightarrow> pin option" where
  "latest_pin ps = find (\<lambda>p. list_all (\<lambda>q. pn_generation q \<le> pn_generation p) ps) ps"

definition pin_of :: "int \<Rightarrow> pin list \<Rightarrow> pin option" where
  "pin_of g ps = find (\<lambda>p. pn_generation p = g) ps"

definition canonical_ceremony_claim :: "(ceremony \<Rightarrow> string) \<Rightarrow> ceremony \<Rightarrow> anchor_claim answer" where
  "canonical_ceremony_claim digest c =
     (if ce_generation c \<le> 0 then Inl (Runtime_Error ''signer_ceremony_invalid'')
      else Inr \<lparr>cl_generation = ce_generation c, cl_ceremony = Some (digest c)\<rparr>)"

text \<open>Whether the descriptor is to be inserted, or is the pinned one.\<close>

definition check_ceremony_transition :: "ceremony \<Rightarrow> pin list \<Rightarrow> bool answer" where
  "check_ceremony_transition c ps =
     (case latest_pin ps of
        Some l \<Rightarrow>
          if ce_generation c < pn_generation l \<or> ce_generation c > pn_generation l + 1 then Inl (Runtime_Error ''signer_generation_invalid'')
          else if ce_generation c = pn_generation l
          then (if pn_descriptor l \<noteq> c then Inl (Runtime_Error ''signer_ceremony_conflict'') else Inr False)
          else if ce_predecessor c \<noteq> Some (pn_generation l) then Inl (Runtime_Error ''signer_predecessor_invalid'')
          else Inr True
      | None \<Rightarrow> if ce_generation c \<noteq> 1 then Inl (Runtime_Error ''signer_initial_generation_invalid'') else Inr True)"

definition insert_pin :: "pin \<Rightarrow> pin list \<Rightarrow> pin list answer" where
  "insert_pin p ps =
     (if list_ex (\<lambda>q. pn_generation q = pn_generation p \<or> pn_descriptor q = pn_descriptor p) ps \<or> pn_generation p \<le> 0
      then Inl Integrity_Error else Inr (ps @ [p]))"

definition pin_ceremony :: "timestamp \<Rightarrow> ceremony \<Rightarrow> pin list \<Rightarrow> pin list answer" where
  "pin_ceremony clock c ps =
     and_then (check_ceremony_transition c ps) (\<lambda>should_insert.
       if should_insert then insert_pin \<lparr>pn_generation = ce_generation c, pn_descriptor = c, pn_pinned_at = clock\<rparr> ps else Inr ps)"

definition assert_signer_state :: "(ceremony \<Rightarrow> string) \<Rightarrow> ceremony \<Rightarrow> anchor \<Rightarrow> pin list \<Rightarrow> unit answer" where
  "assert_signer_state digest c a ps =
     (case and_then (anchor_read a) (validate_anchor_claim False) of
        Inl _ \<Rightarrow> Inl (Runtime_Error ''signer_state_unavailable'')
      | Inr anchored \<Rightarrow>
          and_then (canonical_ceremony_claim digest c) (\<lambda>expected.
            if anchored \<noteq> expected then Inl (Runtime_Error ''signer_state_conflict'')
            else case latest_pin ps of
              None \<Rightarrow> Inl (Runtime_Error ''signer_state_conflict'')
            | Some l \<Rightarrow> if pn_generation l \<noteq> ce_generation c \<or> pn_descriptor l \<noteq> c then Inl (Runtime_Error ''signer_state_conflict'') else Inr ()))"

text \<open>The claim expected of the anchor before the advance.\<close>

definition expected_claim :: "(ceremony \<Rightarrow> string) \<Rightarrow> ceremony \<Rightarrow> pin list \<Rightarrow> anchor_claim answer" where
  "expected_claim digest c ps =
     (if ce_generation c > 1
      then (case pin_of (ce_generation c - 1) ps of
          None \<Rightarrow> Inl (Runtime_Error ''signer_predecessor_invalid'')
        | Some p \<Rightarrow> Inr \<lparr>cl_generation = ce_generation c - 1, cl_ceremony = Some (digest (pn_descriptor p))\<rparr>)
      else Inr \<lparr>cl_generation = ce_generation c - 1, cl_ceremony = None\<rparr>)"

text \<open>Everything up to the advance of the anchor, with the anchor it leaves.\<close>

definition advance_anchor :: "(ceremony \<Rightarrow> string) \<Rightarrow> key_review \<Rightarrow> py \<Rightarrow> string \<Rightarrow> timestamp \<Rightarrow> anchor \<Rightarrow> pin list \<Rightarrow> (ceremony \<times> anchor) answer" where
  "advance_anchor digest kr descriptor reviewed_public_key clock a ps =
     (case validate_ceremony kr descriptor reviewed_public_key clock of
        Inl (Runtime_Error e) \<Rightarrow> Inl (Runtime_Error e)
      | Inl _ \<Rightarrow> Inl (Runtime_Error ''signer_ceremony_invalid'')
      | Inr c \<Rightarrow>
          and_then (check_ceremony_transition c ps) (\<lambda>_.
          and_then (canonical_ceremony_claim digest c) (\<lambda>claimed.
          and_then (expected_claim digest c ps) (\<lambda>expected.
            case compare_and_advance (claim_value expected) (claim_value claimed) a of
              Inl _ \<Rightarrow> Inl (Runtime_Error ''signer_generation_anchor_unavailable_or_conflicting'')
            | Inr (v, a') \<Rightarrow>
                if validate_anchor_claim False v \<noteq> Inr claimed then Inl (Runtime_Error ''signer_generation_anchor_unavailable_or_conflicting'')
                else Inr (c, a')))))"

text \<open>The construction of an authority; an advanced anchor stays advanced when a later step fails.\<close>

definition construct ::
  "(ceremony \<Rightarrow> string) \<Rightarrow> key_review \<Rightarrow> py \<Rightarrow> string \<Rightarrow> timestamp \<Rightarrow> anchor \<Rightarrow> pin list \<Rightarrow> ceremony answer \<times> anchor \<times> pin list" where
  "construct digest kr descriptor reviewed_public_key clock a ps =
     (case advance_anchor digest kr descriptor reviewed_public_key clock a ps of
        Inl e \<Rightarrow> (Inl e, a, ps)
      | Inr (c, a') \<Rightarrow>
          (case pin_ceremony clock c ps of
             Inl e \<Rightarrow> (Inl e, a', ps)
           | Inr ps' \<Rightarrow> (case assert_signer_state digest c a' ps' of Inl e \<Rightarrow> (Inl e, a', ps') | Inr _ \<Rightarrow> (Inr c, a', ps'))))"

section \<open>Runs\<close>

text \<open>Constructions in any order, and constructions that a crash stops between the anchor and the database.\<close>

inductive rotation_step :: "(ceremony \<Rightarrow> string) \<Rightarrow> anchor \<times> pin list \<Rightarrow> anchor \<times> pin list \<Rightarrow> bool" for digest where
  rotation_construct: "construct digest kr d key clock a ps = (r, a', ps') \<Longrightarrow> rotation_step digest (a, ps) (a', ps')"
| rotation_crash: "advance_anchor digest kr d key clock a ps = Inr (c, a') \<Longrightarrow> rotation_step digest (a, ps) (a', ps)"

definition fresh_anchor :: anchor where
  "fresh_anchor = \<lparr>an_claim = \<lparr>cl_generation = 0, cl_ceremony = None\<rparr>, an_available = True\<rparr>"

text \<open>The pins are the generations 1, 2, ... in order, each with its own descriptor.\<close>

definition pins_ok :: "pin list \<Rightarrow> bool" where
  "pins_ok ps \<longleftrightarrow> (\<forall>i < length ps. pn_generation (ps ! i) = int i + 1 \<and> ce_generation (pn_descriptor (ps ! i)) = int i + 1)"

lemma pins_ok_Nil [simp]: "pins_ok []"
  by (simp add: pins_ok_def)

lemma pins_ok_snoc: "pins_ok (ps @ [p]) \<longleftrightarrow> pins_ok ps \<and> pn_generation p = int (length ps) + 1 \<and> ce_generation (pn_descriptor p) = int (length ps) + 1"
  by (auto simp: pins_ok_def nth_append less_Suc_eq)

lemma find_append: "find P (xs @ ys) = (case find P xs of None \<Rightarrow> find P ys | Some x \<Rightarrow> Some x)"
  by (induction xs) simp_all

lemma latest_pin_last:
  assumes "pins_ok ps"
  shows "latest_pin ps = (if ps = [] then None else Some (last ps))"
proof (cases ps rule: rev_cases)
  case (snoc qs p)
  have low: "pn_generation q < pn_generation p" if "q \<in> set qs" for q
    using that assms by (auto simp: snoc pins_ok_snoc in_set_conv_nth) (auto simp: pins_ok_def)
  then have "find (\<lambda>p'. list_all (\<lambda>q. pn_generation q \<le> pn_generation p') (qs @ [p])) qs = None"
    by (auto simp: find_None_iff) (meson leD)
  then show ?thesis using low by (auto simp: latest_pin_def snoc find_append list_all_iff less_imp_le)
qed (simp add: latest_pin_def)


lemma assert_signer_state_Inr:
  "assert_signer_state digest c a ps = Inr () \<longleftrightarrow> (\<exists>l. and_then (anchor_read a) (validate_anchor_claim False) = canonical_ceremony_claim digest c \<and>
     0 < ce_generation c \<and> latest_pin ps = Some l \<and> pn_generation l = ce_generation c \<and> pn_descriptor l = c)"
  by (auto simp: assert_signer_state_def canonical_ceremony_claim_def result_simps split: sum.splits option.splits if_splits)

lemma pin_ceremony_Inr:
  assumes "pin_ceremony clock c ps = Inr ps'" "pins_ok ps"
  shows "pins_ok ps' \<and> ps' \<noteq> [] \<and> pn_descriptor (last ps') = c \<and> (ps' = ps \<or> (\<exists>p. ps' = ps @ [p]))"
proof -
  from assms(1) obtain b where b: "check_ceremony_transition c ps = Inr b"
    and ps': "ps' = (if b then ps @ [\<lparr>pn_generation = ce_generation c, pn_descriptor = c, pn_pinned_at = clock\<rparr>] else ps)"
    by (auto simp: pin_ceremony_def insert_pin_def result_simps split: if_splits)
  have "b \<Longrightarrow> ce_generation c = int (length ps) + 1" "\<not> b \<Longrightarrow> ps \<noteq> [] \<and> pn_descriptor (last ps) = c"
    using b latest_pin_last [OF assms(2)] assms(2)
    by (cases ps rule: rev_cases; auto simp: check_ceremony_transition_def pins_ok_snoc split: if_splits)+
  then show ?thesis using assms(2) by (auto simp: ps' pins_ok_snoc)
qed

lemma rotation_step_pins:
  assumes "rotation_step digest s s'" "pins_ok (snd s)"
  shows "pins_ok (snd s') \<and> (\<exists>qs. snd s' = snd s @ qs)"
  using assms(1)
proof (cases rule: rotation_step.cases)
  case (rotation_construct kr d key clock a ps r a' ps')
  consider "ps' = ps" | c where "pin_ceremony clock c ps = Inr ps'"
    using rotation_construct(3) by (auto simp: construct_def split: sum.splits)
  then show ?thesis using rotation_construct assms(2) pin_ceremony_Inr by cases (auto, blast)
qed (use assms(2) in auto)

lemma rotation_run_pins:
  "(rotation_step digest)\<^sup>*\<^sup>* s s' \<Longrightarrow> pins_ok (snd s) \<Longrightarrow> pins_ok (snd s') \<and> (\<exists>qs. snd s' = snd s @ qs)"
  by (induction rule: rtranclp_induct) (auto dest!: rotation_step_pins)

lemma signer_is_last:
  assumes "assert_signer_state digest c a ps = Inr ()" "pins_ok ps"
  shows "ps \<noteq> [] \<and> pn_descriptor (last ps) = c \<and> ce_generation c = int (length ps)"
proof (cases ps rule: rev_cases)
  case (snoc qs p)
  then show ?thesis using assms latest_pin_last [OF assms(2)] by (auto simp: assert_signer_state_Inr pins_ok_snoc)
qed (use assms latest_pin_last [OF assms(2)] in \<open>auto simp: assert_signer_state_Inr\<close>)

lemma pins_generations: "pins_ok ps \<Longrightarrow> map pn_generation ps = [1..int (length ps)]"
  by (rule nth_equalityI) (auto simp: pins_ok_def nth_upto)

lemma construct_Inr:
  assumes "construct digest kr d key clock a ps = (Inr c, a', ps')"
  shows "assert_signer_state digest c a' ps' = Inr ()"
  using assms by (auto simp: construct_def split: sum.splits)

text \<open>Once the anchor has moved to a generation, only that descriptor (by its digest) can still be pinned for it.\<close>

lemma validate_claim_value: "validate_anchor_claim z (claim_value c) = Inr c' \<Longrightarrow> c' = c"
  by (cases c) (auto simp: validate_anchor_claim_def claim_value_def dict_keys_def split: if_splits option.splits py.splits)

lemma case_refail_eq_Inr:
  "(case m of Inl e \<Rightarrow> Inl (g e) | Inr x \<Rightarrow> f x) = Inr y \<longleftrightarrow> (\<exists>x. m = Inr x \<and> f x = Inr y)"
  by (cases m) auto

lemma compare_and_advance_Inr:
  "compare_and_advance (claim_value expected) (claim_value new) a = Inr (v, a') \<Longrightarrow>
     an_claim a' = new \<and> (an_claim a = new \<or> an_claim a = expected)"
  by (cases a) (auto simp: compare_and_advance_def result_simps split: if_splits dest!: validate_claim_value)

lemma advance_anchor_Inr:
  assumes "advance_anchor digest kr d key clock a ps = Inr (c, a')"
  shows "an_claim a' = \<lparr>cl_generation = ce_generation c, cl_ceremony = Some (digest c)\<rparr>"
    "an_claim a = an_claim a' \<or> cl_generation (an_claim a) = ce_generation c - 1"
proof -
  from assms obtain expected v where "expected_claim digest c ps = Inr expected"
    "compare_and_advance (claim_value expected) (claim_value \<lparr>cl_generation = ce_generation c, cl_ceremony = Some (digest c)\<rparr>) a = Inr (v, a')"
    unfolding advance_anchor_def canonical_ceremony_claim_def
    by (cases "validate_ceremony kr d key clock") (auto simp: result_simps case_refail_eq_Inr split: failure.splits prod.splits if_splits)
  then show "an_claim a' = \<lparr>cl_generation = ce_generation c, cl_ceremony = Some (digest c)\<rparr>"
    "an_claim a = an_claim a' \<or> cl_generation (an_claim a) = ce_generation c - 1"
    by (auto simp: expected_claim_def split: if_splits option.splits dest!: compare_and_advance_Inr)
qed

lemma crash_binds_generation:
  assumes "advance_anchor digest kr d key clock a ps = Inr (c, a')" "advance_anchor digest kr2 d2 key2 clock2 a' ps = Inr (c2, a2)"
    "ce_generation c2 = ce_generation c"
  shows "digest c2 = digest c"
  using advance_anchor_Inr [OF assms(1)] advance_anchor_Inr [OF assms(2)] assms(3) by auto

section \<open>Properties\<close>

text \<open>
  C40: Signing keys rotate one generation at a time and never back: from an empty database and anchor, whatever constructions are
  tried or crash, the pinned generations are 1, 2, ..., n, an authority that has just been constructed may sign, at most the
  authority of generation n may sign, and one that could sign before a newer descriptor was pinned never signs again.
\<close>

theorem retired_signers_stay_retired:
  assumes "(rotation_step digest)\<^sup>*\<^sup>* (fresh_anchor, []) (a, ps)" "(rotation_step digest)\<^sup>*\<^sup>* (a, ps) (a', ps')"
  shows "map pn_generation ps' = [1..int (length ps')] \<and>
    (\<forall>c. assert_signer_state digest c a' ps' = Inr () \<longrightarrow> ps' \<noteq> [] \<and> c = pn_descriptor (last ps') \<and> ce_generation c = int (length ps')) \<and>
    (\<forall>c. assert_signer_state digest c a ps = Inr () \<and> ps' \<noteq> ps \<longrightarrow> assert_signer_state digest c a' ps' \<noteq> Inr ()) \<and>
    (\<forall>kr d key clock c a2 ps2. construct digest kr d key clock a' ps' = (Inr c, a2, ps2) \<longrightarrow> assert_signer_state digest c a2 ps2 = Inr ())"
proof -
  have ok: "pins_ok ps" using rotation_run_pins [OF assms(1)] by simp
  then have ok': "pins_ok ps'" and ext: "\<exists>qs. ps' = ps @ qs" using rotation_run_pins [OF assms(2)] by simp_all
  have "assert_signer_state digest c a' ps' \<noteq> Inr ()" if c: "assert_signer_state digest c a ps = Inr ()" "ps' \<noteq> ps" for c
  proof
    assume "assert_signer_state digest c a' ps' = Inr ()"
    then have "int (length ps') = int (length ps)" using signer_is_last ok ok' c(1) by metis
    then show False using ext c(2) by auto
  qed
  then show ?thesis using pins_generations [OF ok'] signer_is_last [OF _ ok'] construct_Inr by blast
qed

definition sample_review :: key_review where
  "sample_review = \<lparr>kr_sha256 = (\<lambda>_. replicate 64 CHR ''a''), kr_load_key = (\<lambda>_. Some True), kr_canonical_time = (\<lambda>_. Some 0)\<rparr>"

definition sample_descriptor :: "int \<Rightarrow> py" where
  "sample_descriptor g = PyDict [(''schema_version'', PyInt 1), (''purpose'', PyStr ''growthmap-license-authority-signing''),
     (''domain'', PyStr ''growthmap-activation-certificate-v2''), (''algorithm'', PyStr ''Ed25519''), (''authority_id'', PyStr ''gm-main''),
     (''key_id'', PyStr ''key''), (''generation'', PyInt g), (''activated_at'', PyStr ''t''),
     (''predecessor_generation'', if g = 1 then PyNone else PyInt (g - 1)), (''public_key_sha256'', PyStr (replicate 64 CHR ''a'')),
     (''provider_attestation_id'', PyStr ''hsm'')]"

definition sample_ceremony_digest :: "ceremony \<Rightarrow> string" where
  "sample_ceremony_digest c = replicate 64 (if ce_generation c = 1 then CHR ''1'' else CHR ''2'')"

abbreviation sample_construct :: "int \<Rightarrow> anchor \<times> pin list \<Rightarrow> ceremony answer \<times> anchor \<times> pin list" where
  "sample_construct g s \<equiv> construct sample_ceremony_digest sample_review (sample_descriptor g) ''key'' 7 (fst s) (snd s)"

lemma sample_rotation: "rotation_step sample_ceremony_digest s (snd (sample_construct g s))"
  by (cases s, cases "sample_construct g s") (auto intro: rotation_construct)

theorem retired_signers_stay_retired_witness:
  "\<exists>s1 s2 c. (rotation_step sample_ceremony_digest)\<^sup>*\<^sup>* (fresh_anchor, []) s1 \<and> (rotation_step sample_ceremony_digest)\<^sup>*\<^sup>* s1 s2 \<and>
     map pn_generation (snd s2) = [1, 2] \<and> assert_signer_state sample_ceremony_digest c (fst s1) (snd s1) = Inr () \<and>
     assert_signer_state sample_ceremony_digest c (fst s2) (snd s2) \<noteq> Inr ()"
proof -
  define s1 where "s1 = snd (sample_construct 1 (fresh_anchor, []))"
  define s2 where "s2 = snd (sample_construct 2 s1)"
  define c where "c = pn_descriptor (hd (snd s1))"
  have runs: "(rotation_step sample_ceremony_digest)\<^sup>*\<^sup>* (fresh_anchor, []) (fst s1, snd s1)"
    "(rotation_step sample_ceremony_digest)\<^sup>*\<^sup>* (fst s1, snd s1) (fst s2, snd s2)"
    using sample_rotation [of "(fresh_anchor, [])" 1] sample_rotation [of s1 2] by (simp_all add: s1_def s2_def)
  have facts: "map pn_generation (snd s2) = [1, 2]" "snd s2 \<noteq> snd s1" "assert_signer_state sample_ceremony_digest c (fst s1) (snd s1) = Inr ()"
    unfolding c_def s2_def s1_def by code_simp+
  have "assert_signer_state sample_ceremony_digest c (fst s2) (snd s2) \<noteq> Inr ()"
    using retired_signers_stay_retired [OF runs] facts(2,3) by blast
  then show ?thesis using runs facts(1,3) by (intro exI [of _ s1] exI [of _ s2] exI [of _ c]) simp
qed

end
