(* ===== verification/License_Authority.thy ===== *)
theory License_Authority
  imports Signer_Ceremony
begin

text \<open>
  The license authority (\<open>licensing/authority.py\<close>): its SQLite tables as lists of rows, licenses and gifts,
  activation challenges, the activation of a device under the seat limit of its license, deactivation, and the parser of
  activation keys (\<open>licensing/gift_service.py\<close>). Every operation takes the writer lock and one transaction, so it is a
  function from the database to a failure (rolled back) or an answer with the new database.
  Hash functions, signatures, base64, random values and the clock are the record \<open>outside\<close>. Timestamps are microseconds
  instead of their text, and a certificate is a record instead of its JSON text. A message is its domain and its JSON document.
\<close>

section \<open>Rows\<close>

record license =
  li_id :: string
  li_edition :: string
  li_major_version :: int
  li_seat_limit :: int
  li_issued_at :: timestamp
  li_expires_at :: "timestamp option"
  li_revoked_at :: "timestamp option"
  li_check_in_days :: int

record gift =
  gi_id :: string
  gi_license_id :: string
  gi_secret_digest :: string
  gi_secret_generation :: int
  gi_status :: string
  gi_created_at :: timestamp
  gi_rotated_at :: "timestamp option"
  gi_revoked_at :: "timestamp option"
  gi_edition :: string
  gi_major_version :: int
  gi_seat_limit :: int
  gi_expires_at :: "timestamp option"
  gi_check_in_days :: int

record gift_event =
  ge_gift_id :: string
  ge_at :: timestamp
  ge_event :: string
  ge_secret_generation :: int

record certificate =
  ct_edition :: string
  ct_license_id :: string
  ct_activation_id :: string
  ct_major_version :: int
  ct_device_allowance :: int
  ct_device_id :: string
  ct_device_public_key :: string
  ct_issued_at :: timestamp
  ct_expires_at :: "timestamp option"
  ct_next_check_in_at :: timestamp
  ct_signature :: string

record challenge =
  ch_id :: string
  ch_license_id :: string
  ch_device_id :: string
  ch_device_public_key :: string
  ch_nonce :: string
  ch_issued_at :: timestamp
  ch_expires_at :: timestamp
  ch_consumed_at :: "timestamp option"
  ch_request_digest :: "string option"
  ch_certificate :: "certificate option"
  ch_flow_kind :: "string option"
  ch_entitlement_generation :: "int option"

record activation =
  act_id :: string
  act_license_id :: string
  act_device_id :: string
  act_device_public_key :: string
  act_activated_at :: timestamp
  act_deactivated_at :: "timestamp option"
  act_certificate :: certificate
  act_nonce_digest :: string

record activation_request =
  rr_digest :: string
  rr_license_id :: string
  rr_device_id :: string
  rr_nonce_digest :: string
  rr_proof_digest :: string
  rr_first_seen_at :: timestamp
  rr_status :: string
  rr_activation_id :: "string option"
  rr_certificate :: "certificate option"

record audit_entry =
  au_at :: timestamp
  au_event :: string
  au_license_id :: string
  au_device_id :: "string option"
  au_detail :: json

record external_entitlement =
  xe_source :: string
  xe_source_id :: string
  xe_license_id :: string
  xe_created_at :: timestamp
  xe_payload_digest :: "string option"
  xe_authority_id :: "string option"
  xe_key_id :: "string option"
  xe_generation :: "int option"
  xe_public_key_sha256 :: "string option"
  xe_attestation :: "string option"
  xe_ack_signature :: "string option"

record external_revocation =
  xv_source :: string
  xv_source_id :: string
  xv_authority_id :: string
  xv_payload_digest :: string
  xv_license_id :: string
  xv_action :: string
  xv_reason :: string
  xv_payment_proof :: string
  xv_tx_hash :: string
  xv_event_created_at :: string
  xv_revoked_at :: timestamp
  xv_request_digest :: string
  xv_receipt :: string
  xv_key_id :: "string option"
  xv_generation :: "int option"
  xv_public_key_sha256 :: "string option"
  xv_attestation :: "string option"
  xv_ack_signature :: "string option"

record authority_db =
  ad_pins :: "pin list"
  ad_licenses :: "license list"
  ad_entitlements :: "external_entitlement list"
  ad_revocations :: "external_revocation list"
  ad_gifts :: "gift list"
  ad_gift_events :: "gift_event list"
  ad_challenges :: "challenge list"
  ad_activations :: "activation list"
  ad_requests :: "activation_request list"
  ad_audit :: "audit_entry list"

section \<open>The world outside\<close>

record outside =
  oe_clock :: timestamp
  oe_uuid_hex :: "nat \<Rightarrow> string"
  oe_uuid :: string
  oe_token :: string
  oe_sha256 :: "string \<Rightarrow> string"
  oe_json_digest :: "json \<Rightarrow> string"
  oe_b64decode :: "string \<Rightarrow> string option"
  oe_b64encode :: "string \<Rightarrow> string"
  oe_valid_key :: "string \<Rightarrow> bool"
  oe_verify :: "string \<Rightarrow> string \<Rightarrow> string \<times> json \<Rightarrow> bool"
  oe_sign :: "string \<times> json \<Rightarrow> string option"
  oe_public_verify :: "string \<Rightarrow> string \<times> json \<Rightarrow> bool"
  oe_ceremony_digest :: "ceremony \<Rightarrow> string"
  oe_anchor :: anchor
  oe_event_time :: "string \<Rightarrow> timestamp option"

definition seconds :: "int \<Rightarrow> timestamp" where
  "seconds n = n * 1000000"

definition days :: "int \<Rightarrow> timestamp" where
  "days n = seconds (n * 86400)"

definition device_identifier :: "outside \<Rightarrow> string \<Rightarrow> string answer" where
  "device_identifier oe public_key_b64 =
     (case oe_b64decode oe public_key_b64 of
        None \<Rightarrow> Inl (Value_Error [])
      | Some raw \<Rightarrow>
          if length raw \<noteq> 32 then Inl (Value_Error ''invalid_device_public_key'')
          else if \<not> oe_valid_key oe raw then Inl (Value_Error [])
          else Inr (''gmdev_'' @ oe_sha256 oe raw))"

definition activation_challenge :: "string \<Rightarrow> string \<Rightarrow> string \<Rightarrow> string \<times> json" where
  "activation_challenge license_id public_key_b64 nonce =
     (''growthmap-activation-request-v1'',
      JObj [(''license_id'', JStr license_id), (''device_public_key'', JStr public_key_b64), (''nonce'', JStr nonce)])"

definition sign_verified :: "outside \<Rightarrow> ceremony \<Rightarrow> string \<times> json \<Rightarrow> authority_db \<Rightarrow> string answer" where
  "sign_verified oe c msg db =
     and_then (assert_signer_state (oe_ceremony_digest oe) c (oe_anchor oe) (ad_pins db)) (\<lambda>_.
       case oe_sign oe msg of
         None \<Rightarrow> Inl (Runtime_Error ''license_signing_unavailable'')
       | Some signature \<Rightarrow>
           if length signature \<noteq> 64 \<or> \<not> oe_public_verify oe signature msg then Inl (Runtime_Error ''license_signing_failed'') else Inr signature)"

definition audit :: "outside \<Rightarrow> string \<Rightarrow> string \<Rightarrow> string option \<Rightarrow> json \<Rightarrow> authority_db \<Rightarrow> authority_db" where
  "audit oe ev license_id device_id detail db =
     ad_audit_update (\<lambda>rs. rs @ [\<lparr>au_at = oe_clock oe, au_event = ev, au_license_id = license_id, au_device_id = device_id, au_detail = detail\<rparr>]) db"

section \<open>Licenses\<close>

definition license_id_ok :: "string \<Rightarrow> bool" where
  "license_id_ok s \<longleftrightarrow> head_tail alnum (\<lambda>c. alnum c \<or> c \<in> set ''._-'') 0 79 s"

definition EDITIONS :: "string set" where
  "EDITIONS = {''personal'', ''pro'', ''studio''}"

text \<open>The primary key and the CHECK constraints of the table.\<close>

definition insert_license :: "license \<Rightarrow> authority_db \<Rightarrow> authority_db answer" where
  "insert_license l db =
     (if has_row li_id (ad_licenses db) (li_id l) \<or> \<not> (1 \<le> li_seat_limit l \<and> li_seat_limit l \<le> 2)
         \<or> \<not> (1 \<le> li_check_in_days l \<and> li_check_in_days l \<le> 365)
      then Inl Integrity_Error else Inr (ad_licenses_update (\<lambda>rs. rs @ [l]) db))"

record license_policy =
  lp_license_id :: "string option"
  lp_edition :: string
  lp_major_version :: int
  lp_seat_limit :: int
  lp_expires_at :: "timestamp option"
  lp_check_in_days :: int

definition create_license :: "outside \<Rightarrow> license_policy \<Rightarrow> authority_db \<Rightarrow> (license \<times> authority_db) answer" where
  "create_license oe p db =
     (let license_id = (if truthy (lp_license_id p) then the (lp_license_id p) else ''gm_'' @ oe_uuid_hex oe 0)
      in if \<not> license_id_ok license_id \<or> lp_edition p \<notin> EDITIONS \<or> lp_major_version p < 1 \<or> lp_seat_limit p \<notin> {1, 2}
         then Inl (Value_Error ''invalid_license'')
         else
           let l = \<lparr>li_id = license_id, li_edition = lp_edition p, li_major_version = lp_major_version p, li_seat_limit = lp_seat_limit p,
                 li_issued_at = oe_clock oe, li_expires_at = lp_expires_at p, li_revoked_at = None, li_check_in_days = lp_check_in_days p\<rparr>
           in case insert_license l db of
                Inl _ \<Rightarrow> Inl (Value_Error ''license_exists'')
              | Inr db \<Rightarrow> Inr (l, audit oe ''license_created'' license_id None (JObj [(''seat_limit'', jint (lp_seat_limit p))]) db))"

section \<open>Gifts\<close>

definition insert_gift :: "gift \<Rightarrow> authority_db \<Rightarrow> authority_db answer" where
  "insert_gift g db =
     (if has_row gi_id (ad_gifts db) (gi_id g) \<or> has_row gi_license_id (ad_gifts db) (gi_license_id g)
         \<or> \<not> has_row li_id (ad_licenses db) (gi_license_id g)
      then Inl Integrity_Error else Inr (ad_gifts_update (\<lambda>rs. rs @ [g]) db))"

definition log_gift_event :: "string \<Rightarrow> timestamp \<Rightarrow> string \<Rightarrow> int \<Rightarrow> authority_db \<Rightarrow> authority_db" where
  "log_gift_event i t ev generation db =
     ad_gift_events_update (\<lambda>rs. rs @ [\<lparr>ge_gift_id = i, ge_at = t, ge_event = ev, ge_secret_generation = generation\<rparr>]) db"

text \<open>\<open>str(uuid.UUID(value))\<close> accepts many spellings; here it is the parameter \<open>canon\<close>.\<close>

definition get_gift :: "(string \<Rightarrow> string option) \<Rightarrow> string \<Rightarrow> authority_db \<Rightarrow> gift answer" where
  "get_gift canon gift_id db =
     (case canon gift_id of
        None \<Rightarrow> Inl (Value_Error ''gift_unavailable'')
      | Some i \<Rightarrow> (case row_get gi_id (ad_gifts db) i of None \<Rightarrow> Inl (Value_Error ''gift_unavailable'') | Some g \<Rightarrow> Inr g))"

definition list_gifts :: "authority_db \<Rightarrow> gift list" where
  "list_gifts db = sort_key (\<lambda>g. (gi_created_at g, gi_id g)) (ad_gifts db)"

definition claim_key :: "string \<Rightarrow> string \<Rightarrow> string" where
  "claim_key gift_id secret = ''GMG1.'' @ gift_id @ ''.'' @ secret"

definition create_gift :: "outside \<Rightarrow> (string \<Rightarrow> string option) \<Rightarrow> license_policy \<Rightarrow> authority_db \<Rightarrow> ((gift \<times> string) \<times> authority_db) answer" where
  "create_gift oe canon p db =
     (if lp_edition p \<notin> EDITIONS \<or> lp_major_version p \<noteq> 1 \<or> lp_seat_limit p \<notin> {1, 2}
         \<or> \<not> (1 \<le> lp_check_in_days p \<and> lp_check_in_days p \<le> 365) \<or> lp_expires_at p \<noteq> None
      then Inl (Value_Error ''invalid_gift_policy'')
      else
        let gift_id = oe_uuid oe; license_id = ''gm_'' @ oe_uuid_hex oe 0; secret = oe_token oe
        in if length secret \<noteq> 32 then Inl (Runtime_Error ''gift_secret_generation_failed'')
           else
             and_then (insert_license \<lparr>li_id = license_id, li_edition = lp_edition p, li_major_version = lp_major_version p,
               li_seat_limit = lp_seat_limit p, li_issued_at = oe_clock oe, li_expires_at = lp_expires_at p, li_revoked_at = None,
               li_check_in_days = lp_check_in_days p\<rparr> db) (\<lambda>db.
             and_then (insert_gift \<lparr>gi_id = gift_id, gi_license_id = license_id, gi_secret_digest = oe_sha256 oe secret,
               gi_secret_generation = 1, gi_status = ''active'', gi_created_at = oe_clock oe, gi_rotated_at = None, gi_revoked_at = None,
               gi_edition = lp_edition p, gi_major_version = lp_major_version p, gi_seat_limit = lp_seat_limit p,
               gi_expires_at = lp_expires_at p, gi_check_in_days = lp_check_in_days p\<rparr> db) (\<lambda>db.
             let db = audit oe ''gift_created'' license_id None (JObj [(''gift_id'', JStr gift_id), (''secret_generation'', jint 1)])
                   (log_gift_event gift_id (oe_clock oe) ''created'' 1 db)
             in and_then (get_gift canon gift_id db) (\<lambda>g. Inr ((g, claim_key gift_id secret), db)))))"

text \<open>\<open>SET consumed_at = COALESCE(consumed_at, ?) WHERE license_id = ?\<close>, and the same for the other tables.\<close>

definition coalesce :: "'a option \<Rightarrow> 'a \<Rightarrow> 'a option" where
  "coalesce x v = (case x of None \<Rightarrow> Some v | Some _ \<Rightarrow> x)"

definition consume_challenges :: "timestamp \<Rightarrow> string \<Rightarrow> authority_db \<Rightarrow> authority_db" where
  "consume_challenges t license_id db =
     ad_challenges_update (map (\<lambda>ch. if ch_license_id ch = license_id then ch\<lparr>ch_consumed_at := coalesce (ch_consumed_at ch) t\<rparr> else ch)) db"

definition revoke_license :: "timestamp \<Rightarrow> string \<Rightarrow> authority_db \<Rightarrow> authority_db" where
  "revoke_license t license_id db = consume_challenges t license_id
     (ad_requests_update (map (\<lambda>r. if rr_license_id r = license_id then r\<lparr>rr_status := ''consumed''\<rparr> else r))
     (ad_activations_update (map (\<lambda>a. if act_license_id a = license_id then a\<lparr>act_deactivated_at := coalesce (act_deactivated_at a) t\<rparr> else a))
     (ad_licenses_update (map (\<lambda>l. if li_id l = license_id then l\<lparr>li_revoked_at := coalesce (li_revoked_at l) t\<rparr> else l)) db)))"

definition recover_gift :: "outside \<Rightarrow> (string \<Rightarrow> string option) \<Rightarrow> string \<Rightarrow> authority_db \<Rightarrow> ((gift \<times> string) \<times> authority_db) answer" where
  "recover_gift oe canon gift_id db =
     (case canon gift_id of
        None \<Rightarrow> Inl (Value_Error ''gift_unavailable'')
      | Some i \<Rightarrow>
          let secret = oe_token oe in
          if length secret \<noteq> 32 then Inl (Runtime_Error ''gift_secret_generation_failed'')
          else case row_get gi_id (ad_gifts db) i of
            None \<Rightarrow> Inl (Value_Error ''gift_unavailable'')
          | Some g \<Rightarrow>
              if gi_status g \<noteq> ''active'' then Inl (Value_Error ''gift_unavailable'')
              else
                let generation = gi_secret_generation g + 1;
                    db = audit oe ''gift_claim_rotated'' (gi_license_id g) None
                          (JObj [(''gift_id'', JStr i), (''secret_generation'', jint generation)])
                        (log_gift_event i (oe_clock oe) ''rotated'' generation
                        (consume_challenges (oe_clock oe) (gi_license_id g)
                        (ad_gifts_update (row_update gi_id i (\<lambda>g. g\<lparr>gi_secret_digest := oe_sha256 oe secret, gi_secret_generation := generation,
                          gi_rotated_at := Some (oe_clock oe)\<rparr>)) db)))
                in and_then (get_gift canon i db) (\<lambda>g. Inr ((g, claim_key i secret), db)))"

definition revoke_gift :: "outside \<Rightarrow> (string \<Rightarrow> string option) \<Rightarrow> string \<Rightarrow> authority_db \<Rightarrow> (gift \<times> authority_db) answer" where
  "revoke_gift oe canon gift_id db =
     (case canon gift_id of
        None \<Rightarrow> Inl (Value_Error ''gift_unavailable'')
      | Some i \<Rightarrow>
          (case row_get gi_id (ad_gifts db) i of
             None \<Rightarrow> Inl (Value_Error ''gift_unavailable'')
           | Some g \<Rightarrow>
               let db = (if gi_status g = ''active''
                     then audit oe ''gift_revoked'' (gi_license_id g) None (JObj [(''gift_id'', JStr i)])
                       (log_gift_event i (oe_clock oe) ''revoked'' (gi_secret_generation g)
                       (revoke_license (oe_clock oe) (gi_license_id g)
                       (ad_gifts_update (row_update gi_id i (\<lambda>g. g\<lparr>gi_status := ''revoked'', gi_revoked_at := Some (oe_clock oe)\<rparr>)) db)))
                     else db)
               in and_then (get_gift canon i db) (\<lambda>g. Inr (g, db))))"

section \<open>Activation keys\<close>

datatype capability_kind = Payment | Gift

fun hex_groups :: "nat list \<Rightarrow> string \<Rightarrow> bool" where
  "hex_groups [n] s = (length s = n \<and> list_all lower_hex_digit s)"
| "hex_groups (n # ns) s =
     (list_all lower_hex_digit (take n s) \<and> n < length s \<and> s ! n = CHR ''-'' \<and> hex_groups ns (drop (Suc n) s))"
| "hex_groups [] s = False"

definition gift_id_ok :: "string \<Rightarrow> bool" where
  "gift_id_ok s \<longleftrightarrow> hex_groups [8, 4, 4, 4, 12] s \<and> s ! 14 \<in> set ''12345'' \<and> s ! 19 \<in> set ''89ab''"

definition secret_ok :: "string \<Rightarrow> bool" where
  "secret_ok s \<longleftrightarrow> length s = 32 \<and> list_all (\<lambda>c. alnum c \<or> c \<in> set ''_-'') s"

definition match_key :: "string \<Rightarrow> string \<Rightarrow> (string \<times> string) option" where
  "match_key prefix v =
     (let i = take 36 (drop (length prefix) v); secret = drop (length prefix + 37) v
      in if take (length prefix) v = prefix \<and> gift_id_ok i \<and> length prefix + 36 < length v \<and> v ! (length prefix + 36) = CHR ''.'' \<and> secret_ok secret
         then Some (i, secret) else None)"

definition parse_activation_capability :: "string \<Rightarrow> (capability_kind \<times> string \<times> string) answer" where
  "parse_activation_capability v =
     (if length v > 128 \<or> v \<noteq> strip v then Inl (Value_Error ''activation_key_invalid'')
      else case match_key ''GM1.'' v of
        Some (i, secret) \<Rightarrow> Inr (Payment, i, secret)
      | None \<Rightarrow> (case match_key ''GMG1.'' v of
          Some (i, secret) \<Rightarrow> Inr (Gift, i, secret)
        | None \<Rightarrow> Inl (Value_Error ''activation_key_invalid'')))"

section \<open>Challenges\<close>

definition insert_challenge :: "challenge \<Rightarrow> authority_db \<Rightarrow> authority_db answer" where
  "insert_challenge ch db =
     (if has_row ch_id (ad_challenges db) (ch_id ch) \<or> has_row ch_nonce (ad_challenges db) (ch_nonce ch)
         \<or> \<not> has_row li_id (ad_licenses db) (ch_license_id ch)
      then Inl Integrity_Error else Inr (ad_challenges_update (\<lambda>rs. rs @ [ch]) db))"

text \<open>A new challenge replaces the open ones of the device.\<close>

definition supersede_challenges :: "timestamp \<Rightarrow> string \<Rightarrow> string \<Rightarrow> authority_db \<Rightarrow> authority_db" where
  "supersede_challenges t license_id device_id db =
     ad_challenges_update (map (\<lambda>ch. if ch_license_id ch = license_id \<and> ch_device_id ch = device_id \<and> ch_consumed_at ch = None
       then ch\<lparr>ch_consumed_at := Some t\<rparr> else ch)) db"

definition new_challenge :: "outside \<Rightarrow> string \<Rightarrow> string \<Rightarrow> string \<Rightarrow> timestamp \<Rightarrow> string \<Rightarrow> int option \<Rightarrow> challenge" where
  "new_challenge oe license_id device_id device_public_key expires flow generation =
     \<lparr>ch_id = ''gmc_'' @ oe_uuid_hex oe 0, ch_license_id = license_id, ch_device_id = device_id, ch_device_public_key = device_public_key,
      ch_nonce = oe_token oe, ch_issued_at = oe_clock oe, ch_expires_at = expires, ch_consumed_at = None, ch_request_digest = None,
      ch_certificate = None, ch_flow_kind = Some flow, ch_entitlement_generation = generation\<rparr>"

definition issue_gift_claim_challenge ::
  "outside \<Rightarrow> string \<Rightarrow> string \<Rightarrow> string \<Rightarrow> int \<Rightarrow> authority_db \<Rightarrow> (challenge \<times> authority_db) answer" where
  "issue_gift_claim_challenge oe gift_id secret device_public_key ttl_seconds db =
     (if \<not> gift_id_ok gift_id \<or> \<not> secret_ok secret then Inl (Value_Error ''gift_unavailable'')
      else and_then (device_identifier oe device_public_key) (\<lambda>device_id.
        case row_get gi_id (ad_gifts db) gift_id of
          None \<Rightarrow> Inl (Value_Error ''gift_unavailable'')
        | Some g \<Rightarrow>
            let stored = (if length (gi_secret_digest g) = 64 then gi_secret_digest g else replicate 64 CHR ''0'')
            in if gi_status g \<noteq> ''active'' \<or> stored \<noteq> oe_sha256 oe secret then Inl (Value_Error ''gift_unavailable'')
               else
                 let ch = new_challenge oe (gi_license_id g) device_id device_public_key
                       (oe_clock oe + seconds (max 30 (min ttl_seconds 300))) ''gift'' (Some (gi_secret_generation g))
                 in and_then (insert_challenge ch (supersede_challenges (oe_clock oe) (gi_license_id g) device_id db)) (\<lambda>db. Inr (ch, db))))"

definition issue_activation_challenge :: "outside \<Rightarrow> string \<Rightarrow> string \<Rightarrow> int \<Rightarrow> authority_db \<Rightarrow> (challenge \<times> authority_db) answer" where
  "issue_activation_challenge oe license_id device_public_key ttl_seconds db =
     and_then (device_identifier oe device_public_key) (\<lambda>device_id.
       case row_get li_id (ad_licenses db) license_id of
         None \<Rightarrow> Inl (Value_Error ''license_unavailable'')
       | Some l \<Rightarrow>
           if li_revoked_at l \<noteq> None then Inl (Value_Error ''license_unavailable'')
           else
             let ch = new_challenge oe license_id device_id device_public_key (oe_clock oe + seconds ttl_seconds) ''payment'' None
             in and_then (insert_challenge ch (supersede_challenges (oe_clock oe) license_id device_id db)) (\<lambda>db. Inr (ch, db)))"

section \<open>Activation\<close>

definition nonce_ok :: "string \<Rightarrow> bool" where
  "nonce_ok s \<longleftrightarrow> 16 \<le> length s \<and> length s \<le> 128 \<and> list_all (\<lambda>c. alnum c \<or> c \<in> set ''_-'') s"

definition proof_valid :: "outside \<Rightarrow> string \<Rightarrow> string \<Rightarrow> string \<Rightarrow> string \<Rightarrow> bool" where
  "proof_valid oe license_id device_public_key nonce prf \<longleftrightarrow>
     (case (oe_b64decode oe device_public_key, oe_b64decode oe prf) of
        (Some raw, Some sig) \<Rightarrow> oe_verify oe raw sig (activation_challenge license_id device_public_key nonce)
      | _ \<Rightarrow> False)"

definition request_digest :: "outside \<Rightarrow> string \<Rightarrow> string \<Rightarrow> string \<Rightarrow> string \<Rightarrow> string" where
  "request_digest oe license_id device_id nonce prf =
     (let z = [CHR 0x00] in oe_sha256 oe (license_id @ z @ device_id @ z @ oe_sha256 oe nonce @ z @ oe_sha256 oe prf))"

definition cert_doc :: "certificate \<Rightarrow> json" where
  "cert_doc ct = JObj [(''schema_version'', jint 2), (''certificate_type'', JStr ''growthmap_device_activation''), (''product'', JStr ''growthmap''),
     (''edition'', JStr (ct_edition ct)), (''license_id'', JStr (ct_license_id ct)), (''activation_id'', JStr (ct_activation_id ct)),
     (''major_version'', jint (ct_major_version ct)), (''device_allowance'', jint (ct_device_allowance ct)), (''device_id'', JStr (ct_device_id ct)),
     (''device_public_key'', JStr (ct_device_public_key ct)), (''issued_at'', jint (ct_issued_at ct)),
     (''expires_at'', case ct_expires_at ct of None \<Rightarrow> JNull | Some t \<Rightarrow> jint t), (''revoked_at'', JNull), (''max_active_projects'', JNull),
     (''next_check_in_at'', jint (ct_next_check_in_at ct))]"

definition CERT_DOMAIN :: string where
  "CERT_DOMAIN = ''growthmap-activation-certificate-v2''"

definition find_activation :: "string \<Rightarrow> string \<Rightarrow> authority_db \<Rightarrow> activation option" where
  "find_activation license_id device_id db = find (\<lambda>a. act_license_id a = license_id \<and> act_device_id a = device_id) (ad_activations db)"

definition active_seats :: "string \<Rightarrow> authority_db \<Rightarrow> nat" where
  "active_seats license_id db = length (filter (\<lambda>a. act_license_id a = license_id \<and> act_deactivated_at a = None) (ad_activations db))"

definition insert_activation :: "activation \<Rightarrow> authority_db \<Rightarrow> authority_db answer" where
  "insert_activation a db =
     (if has_row act_id (ad_activations db) (act_id a) \<or> find_activation (act_license_id a) (act_device_id a) db \<noteq> None
         \<or> \<not> has_row li_id (ad_licenses db) (act_license_id a)
      then Inl Integrity_Error else Inr (ad_activations_update (\<lambda>rs. rs @ [a]) db))"

text \<open>The \<open>UPDATE\<close> of the device's row; its new primary key must be free.\<close>

definition reactivate :: "activation \<Rightarrow> authority_db \<Rightarrow> authority_db answer" where
  "reactivate a db =
     (let mine = (\<lambda>r. act_license_id r = act_license_id a \<and> act_device_id r = act_device_id a)
      in if list_ex (\<lambda>r. act_id r = act_id a \<and> \<not> mine r) (ad_activations db) then Inl Integrity_Error
         else Inr (ad_activations_update (map (\<lambda>r. if mine r then a else r)) db))"

definition insert_request :: "activation_request \<Rightarrow> authority_db \<Rightarrow> authority_db answer" where
  "insert_request r db =
     (if has_row rr_digest (ad_requests db) (rr_digest r) \<or> \<not> has_row li_id (ad_licenses db) (rr_license_id r)
      then Inl (Value_Error ''activation_nonce_consumed'') else Inr (ad_requests_update (\<lambda>rs. rs @ [r]) db))"

definition new_certificate :: "outside \<Rightarrow> license \<Rightarrow> string \<Rightarrow> string \<Rightarrow> certificate" where
  "new_certificate oe l device_id device_public_key =
     \<lparr>ct_edition = li_edition l, ct_license_id = li_id l, ct_activation_id = ''gma_'' @ oe_uuid_hex oe 0, ct_major_version = li_major_version l,
      ct_device_allowance = li_seat_limit l, ct_device_id = device_id, ct_device_public_key = device_public_key, ct_issued_at = oe_clock oe,
      ct_expires_at = li_expires_at l, ct_next_check_in_at = oe_clock oe + days (li_check_in_days l), ct_signature = []\<rparr>"

definition seat_request :: "outside \<Rightarrow> string \<Rightarrow> string \<Rightarrow> certificate \<Rightarrow> activation_request" where
  "seat_request oe nonce prf cert =
     \<lparr>rr_digest = request_digest oe (ct_license_id cert) (ct_device_id cert) nonce prf, rr_license_id = ct_license_id cert,
      rr_device_id = ct_device_id cert, rr_nonce_digest = oe_sha256 oe nonce, rr_proof_digest = oe_sha256 oe prf,
      rr_first_seen_at = oe_clock oe, rr_status = ''active'', rr_activation_id = Some (ct_activation_id cert), rr_certificate = Some cert\<rparr>"

definition seat_row :: "outside \<Rightarrow> string \<Rightarrow> string \<Rightarrow> certificate \<Rightarrow> activation" where
  "seat_row oe nonce prf cert =
     \<lparr>act_id = ct_activation_id cert, act_license_id = ct_license_id cert, act_device_id = ct_device_id cert,
      act_device_public_key = ct_device_public_key cert, act_activated_at = oe_clock oe, act_deactivated_at = None, act_certificate = cert,
      act_nonce_digest = request_digest oe (ct_license_id cert) (ct_device_id cert) nonce prf\<rparr>"

definition needs_seat :: "license \<Rightarrow> string \<Rightarrow> authority_db \<Rightarrow> bool" where
  "needs_seat l device_id db \<longleftrightarrow> (case find_activation (li_id l) device_id db of None \<Rightarrow> True | Some old \<Rightarrow> act_deactivated_at old \<noteq> None)"

definition grant_seat ::
  "outside \<Rightarrow> ceremony \<Rightarrow> license \<Rightarrow> string \<Rightarrow> string \<Rightarrow> string \<Rightarrow> string \<Rightarrow> authority_db \<Rightarrow> (certificate \<times> authority_db) answer" where
  "grant_seat oe c l device_id device_public_key nonce prf db =
     (if needs_seat l device_id db \<and> int (active_seats (li_id l) db) \<ge> li_seat_limit l then Inl (Value_Error ''seat_limit_reached'')
      else
        let unsigned = new_certificate oe l device_id device_public_key
        in and_then (sign_verified oe c (CERT_DOMAIN, cert_doc unsigned) db) (\<lambda>signature.
           let cert = unsigned\<lparr>ct_signature := oe_b64encode oe signature\<rparr>
           in and_then (insert_request (seat_request oe nonce prf cert) db) (\<lambda>db1.
              and_then (if find_activation (li_id l) device_id db = None then insert_activation (seat_row oe nonce prf cert) db1
                  else reactivate (seat_row oe nonce prf cert) db1) (\<lambda>db2.
                Inr (cert, audit oe ''device_activated'' (li_id l) (Some device_id) (JObj []) db2)))))"

definition activate_in_transaction ::
  "outside \<Rightarrow> ceremony \<Rightarrow> string \<Rightarrow> string \<Rightarrow> string \<Rightarrow> string \<Rightarrow> authority_db \<Rightarrow> (certificate \<times> authority_db) answer" where
  "activate_in_transaction oe c license_id device_public_key nonce prf db =
     and_then (device_identifier oe device_public_key) (\<lambda>device_id.
       if \<not> nonce_ok nonce then Inl (Value_Error ''invalid_nonce'')
       else if \<not> proof_valid oe license_id device_public_key nonce prf then Inl (Value_Error ''device_proof_invalid'')
       else case row_get li_id (ad_licenses db) license_id of
         None \<Rightarrow> Inl (Value_Error ''license_not_found'')
       | Some l \<Rightarrow>
           if li_revoked_at l \<noteq> None then Inl (Value_Error ''license_revoked'')
           else if (case li_expires_at l of None \<Rightarrow> False | Some t \<Rightarrow> t \<le> oe_clock oe) then Inl (Value_Error ''license_expired'')
           else case row_get rr_digest (ad_requests db) (request_digest oe license_id device_id nonce prf) of
             Some r \<Rightarrow>
               (case rr_certificate r of
                  Some cert \<Rightarrow> if rr_status r = ''active'' then Inr (cert, audit oe ''activation_retrieved'' license_id (Some device_id) (JObj []) db)
                    else Inl (Value_Error ''activation_nonce_consumed'')
                | None \<Rightarrow> Inl (Value_Error ''activation_nonce_consumed''))
           | None \<Rightarrow> grant_seat oe c l device_id device_public_key nonce prf db)"

text \<open>The rows that may answer a consumed challenge again: an active request with the live activation it made.\<close>

definition live_answers :: "outside \<Rightarrow> challenge \<Rightarrow> string \<Rightarrow> authority_db \<Rightarrow> (activation_request \<times> activation) list" where
  "live_answers oe ch prf db =
     filter (\<lambda>(r, a). rr_activation_id r = Some (act_id a) \<and> act_license_id a = rr_license_id r \<and> act_device_id a = rr_device_id r \<and>
         act_nonce_digest a = rr_digest r \<and> rr_license_id r = ch_license_id ch \<and> rr_device_id r = ch_device_id ch \<and>
         rr_nonce_digest r = oe_sha256 oe (ch_nonce ch) \<and> rr_proof_digest r = oe_sha256 oe prf \<and> rr_status r = ''active'' \<and>
         act_deactivated_at a = None)
       (List.product (ad_requests db) (ad_activations db))"

definition answer_again :: "outside \<Rightarrow> challenge \<Rightarrow> string \<Rightarrow> authority_db \<Rightarrow> certificate answer" where
  "answer_again oe ch prf db =
     (case (live_answers oe ch prf db, ch_certificate ch) of
        ((r, a) # _, Some cert) \<Rightarrow>
          if or_default (ch_request_digest ch) [] = oe_sha256 oe prf \<and> rr_certificate r = Some cert \<and> act_certificate a = cert \<and>
             Some (ct_activation_id cert) = rr_activation_id r \<and> ct_license_id cert = ch_license_id ch \<and> ct_device_id cert = ch_device_id ch \<and>
             act_device_public_key a = ch_device_public_key ch \<and> ct_device_public_key cert = ch_device_public_key ch
          then Inr cert else Inl (Value_Error ''challenge_consumed'')
      | _ \<Rightarrow> Inl (Value_Error ''challenge_consumed''))"

definition flow_open :: "challenge \<Rightarrow> string \<Rightarrow> authority_db \<Rightarrow> bool" where
  "flow_open ch flow db \<longleftrightarrow>
     flow \<in> {''gift'', ''payment''} \<and> ch_flow_kind ch = Some flow \<and>
     (if flow = ''gift''
      then (case row_get gi_license_id (ad_gifts db) (ch_license_id ch) of
          None \<Rightarrow> False | Some g \<Rightarrow> gi_status g = ''active'' \<and> ch_entitlement_generation ch = Some (gi_secret_generation g))
      else ch_entitlement_generation ch = None)"

definition activate_challenge :: "outside \<Rightarrow> ceremony \<Rightarrow> string \<Rightarrow> string \<Rightarrow> string \<Rightarrow> authority_db \<Rightarrow> (certificate \<times> authority_db) answer" where
  "activate_challenge oe c challenge_id prf expected_flow_kind db =
     (case row_get ch_id (ad_challenges db) challenge_id of
        None \<Rightarrow> Inl (Value_Error ''challenge_unavailable'')
      | Some ch \<Rightarrow>
          if \<not> flow_open ch expected_flow_kind db then Inl (Value_Error ''challenge_unavailable'')
          else case row_get li_id (ad_licenses db) (ch_license_id ch) of
            None \<Rightarrow> Inl (Value_Error ''license_revoked'')
          | Some l \<Rightarrow>
              if li_revoked_at l \<noteq> None then Inl (Value_Error ''license_revoked'')
              else if ch_consumed_at ch \<noteq> None then and_then (answer_again oe ch prf db) (\<lambda>cert. Inr (cert, db))
              else if ch_expires_at ch \<le> oe_clock oe then Inl (Value_Error ''challenge_expired'')
              else and_then (activate_in_transaction oe c (ch_license_id ch) (ch_device_public_key ch) (ch_nonce ch) prf db) (\<lambda>(cert, db).
                Inr (cert, ad_challenges_update (row_update ch_id challenge_id (\<lambda>ch. ch\<lparr>ch_consumed_at := Some (oe_clock oe),
                  ch_request_digest := Some (oe_sha256 oe prf), ch_certificate := Some cert\<rparr>)) db)))"

definition activate :: "outside \<Rightarrow> ceremony \<Rightarrow> string \<Rightarrow> string \<Rightarrow> string \<Rightarrow> string \<Rightarrow> authority_db \<Rightarrow> (certificate \<times> authority_db) answer" where
  "activate oe c license_id device_public_key nonce prf db = activate_in_transaction oe c license_id device_public_key nonce prf db"

definition deactivate :: "outside \<Rightarrow> string \<Rightarrow> string \<Rightarrow> string \<Rightarrow> authority_db \<Rightarrow> bool \<times> authority_db" where
  "deactivate oe license_id device_id reason db =
     (case find_activation license_id device_id db of
        None \<Rightarrow> (False, db)
      | Some a \<Rightarrow>
          if act_deactivated_at a \<noteq> None then (False, db)
          else (True, audit oe ''device_deactivated'' license_id (Some device_id) (JObj [(''reason'', JStr reason)])
            (ad_requests_update (map (\<lambda>r. if rr_license_id r = license_id \<and> rr_device_id r = device_id \<and> rr_status r = ''active''
              then r\<lparr>rr_status := ''consumed''\<rparr> else r))
            (ad_activations_update (map (\<lambda>a. if act_license_id a = license_id \<and> act_device_id a = device_id
              then a\<lparr>act_deactivated_at := Some (oe_clock oe)\<rparr> else a)) db))))"

definition list_gift_devices :: "(string \<Rightarrow> string option) \<Rightarrow> string \<Rightarrow> authority_db \<Rightarrow> activation list answer" where
  "list_gift_devices canon gift_id db =
     and_then (get_gift canon gift_id db) (\<lambda>g. Inr (sort_key act_activated_at (filter (\<lambda>a. act_license_id a = gi_license_id g) (ad_activations db))))"

definition deactivate_gift_device :: "outside \<Rightarrow> (string \<Rightarrow> string option) \<Rightarrow> string \<Rightarrow> string \<Rightarrow> authority_db \<Rightarrow> (bool \<times> authority_db) answer" where
  "deactivate_gift_device oe canon gift_id device_id db =
     and_then (get_gift canon gift_id db) (\<lambda>g. Inr (deactivate oe (gi_license_id g) device_id ''gift_admin'' db))"

end
