(* ===== verification/Entitlement_Inbox.thy ===== *)
theory Entitlement_Inbox
  imports License_Authority
begin

text \<open>
  The inbox of the license authority for purchases made elsewhere (\<open>licensing/authority.py\<close>): entitlements and
  revocations delivered by a payment service, once each, under the identity of the current signer, and acknowledged with a
  signature that later readers get back.
\<close>

section \<open>Signer identity\<close>

record signer_identity =
  si_authority_id :: string
  si_key_id :: string
  si_generation :: int
  si_public_key_sha256 :: string
  si_attestation :: string

definition handshake :: "outside \<Rightarrow> ceremony \<Rightarrow> authority_db \<Rightarrow> signer_identity answer" where
  "handshake oe c db =
     and_then (assert_signer_state (oe_ceremony_digest oe) c (oe_anchor oe) (ad_pins db)) (\<lambda>_.
       Inr \<lparr>si_authority_id = ce_authority_id c, si_key_id = ce_key_id c, si_generation = ce_generation c,
         si_public_key_sha256 = ce_public_key_sha256 c, si_attestation = ce_attestation c\<rparr>)"

definition accepted_signer_identity :: "outside \<Rightarrow> ceremony \<Rightarrow> signer_identity \<Rightarrow> authority_db \<Rightarrow> signer_identity answer" where
  "accepted_signer_identity oe c identity db =
     and_then (handshake oe c db) (\<lambda>expected.
       if identity \<noteq> expected then Inl (Value_Error ''authority_identity_mismatch'') else Inr expected)"

definition signed_ack :: "outside \<Rightarrow> ceremony \<Rightarrow> string \<Rightarrow> json \<Rightarrow> authority_db \<Rightarrow> string answer" where
  "signed_ack oe c domain payload db = and_then (sign_verified oe c (domain, payload) db) (\<lambda>signature. Inr (oe_b64encode oe signature))"

definition identity_doc :: "signer_identity \<Rightarrow> json" where
  "identity_doc i = JObj [(''authority_id'', JStr (si_authority_id i)), (''key_id'', JStr (si_key_id i)), (''generation'', jint (si_generation i)),
     (''public_key_sha256'', JStr (si_public_key_sha256 i)), (''attestation'', JStr (si_attestation i))]"

text \<open>The identity columns of a row; columns added by an upgrade are null in older rows.\<close>

definition stored_is ::
  "signer_identity \<Rightarrow> string option \<Rightarrow> string option \<Rightarrow> int option \<Rightarrow> string option \<Rightarrow> string option \<Rightarrow> bool" where
  "stored_is i authority_id key_id generation key_sha attestation \<longleftrightarrow>
     authority_id = Some (si_authority_id i) \<and> key_id = Some (si_key_id i) \<and> generation = Some (si_generation i) \<and>
     key_sha = Some (si_public_key_sha256 i) \<and> attestation = Some (si_attestation i)"

section \<open>Entitlements\<close>

record delivery =
  de_source :: string
  de_source_id :: string
  de_payload_digest :: string
  de_authority_id :: string
  de_signer_identity :: signer_identity
  de_edition :: string
  de_major_version :: int
  de_seat_limit :: int

record delivery_ack =
  da_license_id :: string
  da_edition :: string
  da_major_version :: int
  da_device_allowance :: int
  da_delivery_receipt :: string
  da_authority_id :: string
  da_signer_identity :: signer_identity
  da_ack_signature :: string

definition source_ok :: "string \<Rightarrow> bool" where
  "source_ok s \<longleftrightarrow> head_tail (\<lambda>c. c \<in> set ''abcdefghijklmnopqrstuvwxyz'') (\<lambda>c. lower_digit c \<or> c \<in> set ''_-'') 0 31 s"

definition find_entitlement :: "string \<Rightarrow> string \<Rightarrow> authority_db \<Rightarrow> external_entitlement option" where
  "find_entitlement source source_id db = find (\<lambda>e. xe_source e = source \<and> xe_source_id e = source_id) (ad_entitlements db)"

definition delivery_receipt :: "outside \<Rightarrow> signer_identity \<Rightarrow> string \<Rightarrow> string \<Rightarrow> string \<Rightarrow> string \<Rightarrow> string" where
  "delivery_receipt oe identity source source_id payload_digest license_id =
     oe_json_digest oe (JObj [(''signer_identity'', identity_doc identity), (''source'', JStr source), (''source_id'', JStr source_id),
       (''payload_digest'', JStr payload_digest), (''license_id'', JStr license_id)])"

definition insert_entitlement :: "external_entitlement \<Rightarrow> authority_db \<Rightarrow> authority_db answer" where
  "insert_entitlement e db =
     (if find_entitlement (xe_source e) (xe_source_id e) db \<noteq> None \<or> has_row xe_license_id (ad_entitlements db) (xe_license_id e)
         \<or> \<not> has_row li_id (ad_licenses db) (xe_license_id e)
      then Inl Integrity_Error else Inr (ad_entitlements_update (\<lambda>rs. rs @ [e]) db))"

definition delivery_answer :: "outside \<Rightarrow> delivery \<Rightarrow> signer_identity \<Rightarrow> license \<Rightarrow> string \<Rightarrow> delivery_ack" where
  "delivery_answer oe d identity l signature =
     \<lparr>da_license_id = li_id l, da_edition = li_edition l, da_major_version = li_major_version l, da_device_allowance = li_seat_limit l,
      da_delivery_receipt = delivery_receipt oe identity (de_source d) (de_source_id d) (de_payload_digest d) (li_id l),
      da_authority_id = de_authority_id d, da_signer_identity = identity, da_ack_signature = signature\<rparr>"

definition replay_entitlement :: "outside \<Rightarrow> delivery \<Rightarrow> signer_identity \<Rightarrow> external_entitlement \<Rightarrow> license \<Rightarrow> delivery_ack answer" where
  "replay_entitlement oe d identity e l =
     (if xe_payload_digest e \<noteq> Some (de_payload_digest d) \<or>
         \<not> stored_is identity (xe_authority_id e) (xe_key_id e) (xe_generation e) (xe_public_key_sha256 e) (xe_attestation e)
      then Inl (Value_Error ''external_entitlement_contradiction'')
      else case xe_ack_signature e of
        None \<Rightarrow> Inl (Value_Error ''legacy_identity_unproven'')
      | Some signature \<Rightarrow> Inr (delivery_answer oe d identity l signature))"

definition entitled_license :: "outside \<Rightarrow> delivery \<Rightarrow> license" where
  "entitled_license oe d =
     \<lparr>li_id = ''gm_'' @ oe_uuid_hex oe 0, li_edition = de_edition d, li_major_version = de_major_version d, li_seat_limit = de_seat_limit d,
      li_issued_at = oe_clock oe, li_expires_at = None, li_revoked_at = None, li_check_in_days = 30\<rparr>"

definition entitlement_row :: "outside \<Rightarrow> delivery \<Rightarrow> signer_identity \<Rightarrow> string \<Rightarrow> string \<Rightarrow> external_entitlement" where
  "entitlement_row oe d identity license_id signature =
     \<lparr>xe_source = de_source d, xe_source_id = de_source_id d, xe_license_id = license_id, xe_created_at = oe_clock oe,
      xe_payload_digest = Some (de_payload_digest d), xe_authority_id = Some (de_authority_id d), xe_key_id = Some (si_key_id identity),
      xe_generation = Some (si_generation identity), xe_public_key_sha256 = Some (si_public_key_sha256 identity),
      xe_attestation = Some (si_attestation identity), xe_ack_signature = Some signature\<rparr>"

definition entitlement_ack_doc :: "outside \<Rightarrow> delivery \<Rightarrow> signer_identity \<Rightarrow> string \<Rightarrow> json" where
  "entitlement_ack_doc oe d identity license_id =
     JObj [(''authority_id'', JStr (de_authority_id d)),
       (''delivery_receipt'', JStr (delivery_receipt oe identity (de_source d) (de_source_id d) (de_payload_digest d) license_id)),
       (''license_id'', JStr license_id), (''payload_digest'', JStr (de_payload_digest d)), (''signer_identity'', identity_doc identity),
       (''source'', JStr (de_source d)), (''source_id'', JStr (de_source_id d))]"

definition accept_entitlement :: "outside \<Rightarrow> ceremony \<Rightarrow> delivery \<Rightarrow> signer_identity \<Rightarrow> authority_db \<Rightarrow> (delivery_ack \<times> authority_db) answer" where
  "accept_entitlement oe c d identity db =
     (let l = entitled_license oe d
      in and_then (insert_license l db) (\<lambda>db.
         and_then (signed_ack oe c ''growthmap-entitlement-authority-ack-v1'' (entitlement_ack_doc oe d identity (li_id l)) db) (\<lambda>signature.
         and_then (insert_entitlement (entitlement_row oe d identity (li_id l) signature) db) (\<lambda>db.
           Inr (delivery_answer oe d identity l signature,
             audit oe ''external_entitlement_created'' (li_id l) None
               (JObj [(''source'', JStr (de_source d)), (''source_id'', JStr (de_source_id d)), (''payload_digest'', JStr (de_payload_digest d)),
                 (''signer_identity'', identity_doc identity)]) db)))))"

definition create_external_entitlement :: "outside \<Rightarrow> ceremony \<Rightarrow> delivery \<Rightarrow> authority_db \<Rightarrow> (delivery_ack \<times> authority_db) answer" where
  "create_external_entitlement oe c d db =
     (if de_authority_id d \<noteq> ce_authority_id c then Inl (Value_Error ''wrong_authority'')
      else and_then (accepted_signer_identity oe c (de_signer_identity d) db) (\<lambda>identity.
        if \<not> source_ok (de_source d) \<or> \<not> hex64 (de_source_id d) \<or> \<not> hex64 (de_payload_digest d) then Inl (Value_Error ''invalid_external_source'')
        else if de_edition d \<notin> EDITIONS \<or> de_major_version d \<noteq> 1 \<or> de_seat_limit d \<notin> {1, 2} then Inl (Value_Error ''invalid_license'')
        else case find_entitlement (de_source d) (de_source_id d) db of
          Some e \<Rightarrow>
            (case row_get li_id (ad_licenses db) (xe_license_id e) of
               Some l \<Rightarrow> and_then (replay_entitlement oe d identity e l) (\<lambda>ack. Inr (ack, db))
             | None \<Rightarrow> accept_entitlement oe c d identity db)
        | None \<Rightarrow> accept_entitlement oe c d identity db))"

definition read_external_entitlement_acknowledgement ::
  "outside \<Rightarrow> ceremony \<Rightarrow> string \<Rightarrow> string \<Rightarrow> signer_identity \<Rightarrow> authority_db \<Rightarrow> (external_entitlement \<times> string) answer" where
  "read_external_entitlement_acknowledgement oe c source source_id identity db =
     and_then (accepted_signer_identity oe c identity db) (\<lambda>identity.
       case find_entitlement source source_id db of
         None \<Rightarrow> Inl (Value_Error ''external_entitlement_unavailable'')
       | Some e \<Rightarrow>
           if xe_authority_id e = None \<or> xe_key_id e = None \<or> xe_generation e = None \<or> xe_public_key_sha256 e = None \<or>
              xe_attestation e = None \<or> xe_ack_signature e = None then Inl (Value_Error ''legacy_identity_unproven'')
           else if \<not> stored_is identity (xe_authority_id e) (xe_key_id e) (xe_generation e) (xe_public_key_sha256 e) (xe_attestation e)
           then Inl (Value_Error ''external_entitlement_contradiction'')
           else Inr (e, delivery_receipt oe identity source source_id (or_default (xe_payload_digest e) []) (xe_license_id e)))"

section \<open>Revocations\<close>

record revocation =
  re_source :: string
  re_source_id :: string
  re_payload_digest :: string
  re_authority_id :: string
  re_signer_identity :: signer_identity
  re_license_id :: "string option"
  re_action :: string
  re_reason :: string
  re_payment_proof :: string
  re_tx_hash :: string
  re_created_at :: string

record revocation_ack =
  ra_license_id :: string
  ra_revoked_at :: timestamp
  ra_receipt :: string
  ra_authority_id :: string
  ra_signer_identity :: signer_identity
  ra_ack_signature :: string

definition tx_hash_ok :: "string \<Rightarrow> bool" where
  "tx_hash_ok s \<longleftrightarrow> length s = 66 \<and> take 2 s = ''0x'' \<and> list_all (\<lambda>c. lower_hex_digit c \<or> c \<in> set ''ABCDEF'') (drop 2 s)"

definition revocation_digest :: "outside \<Rightarrow> signer_identity \<Rightarrow> revocation \<Rightarrow> string" where
  "revocation_digest oe identity r =
     oe_json_digest oe (JObj [(''signer_identity'', identity_doc identity), (''source'', JStr (re_source r)), (''source_id'', JStr (re_source_id r)),
       (''payload_digest'', JStr (re_payload_digest r)), (''license_id'', jopt (re_license_id r)), (''action'', JStr (re_action r)),
       (''reason'', JStr (re_reason r)), (''payment_proof'', JStr (re_payment_proof r)), (''tx_hash'', JStr (re_tx_hash r)),
       (''created_at'', JStr (re_created_at r))])"

definition find_revocation :: "string \<Rightarrow> string \<Rightarrow> authority_db \<Rightarrow> external_revocation option" where
  "find_revocation source source_id db = find (\<lambda>v. xv_source v = source \<and> xv_source_id v = source_id) (ad_revocations db)"

definition revocation_evidence_ok :: "revocation \<Rightarrow> bool" where
  "revocation_evidence_ok r \<longleftrightarrow>
     source_ok (re_source r) \<and> hex64 (re_source_id r) \<and> hex64 (re_payload_digest r) \<and>
     (case re_license_id r of None \<Rightarrow> False | Some i \<Rightarrow> license_id_ok i) \<and> hex64 (re_payment_proof r) \<and> tx_hash_ok (re_tx_hash r)"

definition replay_revocation :: "signer_identity \<Rightarrow> string \<Rightarrow> string \<Rightarrow> external_revocation \<Rightarrow> revocation_ack answer" where
  "replay_revocation identity authority_id digest v =
     (if xv_request_digest v \<noteq> digest then Inl (Value_Error ''external_revocation_contradiction'')
      else if \<not> stored_is identity (Some authority_id) (xv_key_id v) (xv_generation v) (xv_public_key_sha256 v) (xv_attestation v)
      then Inl (Value_Error ''external_revocation_contradiction'')
      else case xv_ack_signature v of
        None \<Rightarrow> Inl (Value_Error ''legacy_identity_unproven'')
      | Some signature \<Rightarrow>
          Inr \<lparr>ra_license_id = xv_license_id v, ra_revoked_at = xv_revoked_at v, ra_receipt = xv_receipt v, ra_authority_id = authority_id,
            ra_signer_identity = identity, ra_ack_signature = signature\<rparr>)"

definition insert_revocation :: "external_revocation \<Rightarrow> authority_db \<Rightarrow> authority_db answer" where
  "insert_revocation v db =
     (if find_revocation (xv_source v) (xv_source_id v) db \<noteq> None \<or> has_row xv_receipt (ad_revocations db) (xv_receipt v)
         \<or> \<not> has_row li_id (ad_licenses db) (xv_license_id v)
      then Inl Integrity_Error else Inr (ad_revocations_update (\<lambda>rs. rs @ [v]) db))"

definition revocation_receipt :: "outside \<Rightarrow> signer_identity \<Rightarrow> revocation \<Rightarrow> string \<Rightarrow> string" where
  "revocation_receipt oe identity r license_id =
     oe_json_digest oe (JObj [(''authority_id'', JStr (re_authority_id r)), (''request_digest'', JStr (revocation_digest oe identity r)),
       (''license_id'', JStr license_id), (''revoked_at'', jint (oe_clock oe))])"

definition revocation_row :: "outside \<Rightarrow> revocation \<Rightarrow> signer_identity \<Rightarrow> string \<Rightarrow> string \<Rightarrow> external_revocation" where
  "revocation_row oe r identity license_id signature =
     \<lparr>xv_source = re_source r, xv_source_id = re_source_id r, xv_authority_id = re_authority_id r, xv_payload_digest = re_payload_digest r,
      xv_license_id = license_id, xv_action = re_action r, xv_reason = re_reason r, xv_payment_proof = re_payment_proof r,
      xv_tx_hash = re_tx_hash r, xv_event_created_at = re_created_at r, xv_revoked_at = oe_clock oe,
      xv_request_digest = revocation_digest oe identity r, xv_receipt = revocation_receipt oe identity r license_id,
      xv_key_id = Some (si_key_id identity), xv_generation = Some (si_generation identity),
      xv_public_key_sha256 = Some (si_public_key_sha256 identity), xv_attestation = Some (si_attestation identity),
      xv_ack_signature = Some signature\<rparr>"

definition revocation_ack_doc :: "outside \<Rightarrow> revocation \<Rightarrow> signer_identity \<Rightarrow> string \<Rightarrow> json" where
  "revocation_ack_doc oe r identity license_id =
     JObj [(''authority_id'', JStr (re_authority_id r)), (''license_id'', JStr license_id), (''request_digest'', JStr (revocation_digest oe identity r)),
       (''revocation_receipt'', JStr (revocation_receipt oe identity r license_id)), (''revoked_at'', jint (oe_clock oe)),
       (''signer_identity'', identity_doc identity), (''source'', JStr (re_source r)), (''source_id'', JStr (re_source_id r))]"

definition accept_revocation ::
  "outside \<Rightarrow> ceremony \<Rightarrow> revocation \<Rightarrow> signer_identity \<Rightarrow> string \<Rightarrow> authority_db \<Rightarrow> (revocation_ack \<times> authority_db) answer" where
  "accept_revocation oe c r identity license_id db =
     and_then (signed_ack oe c ''growthmap-revocation-authority-ack-v1'' (revocation_ack_doc oe r identity license_id) db) (\<lambda>signature.
     and_then (insert_revocation (revocation_row oe r identity license_id signature) (revoke_license (oe_clock oe) license_id db)) (\<lambda>db.
       Inr (\<lparr>ra_license_id = license_id, ra_revoked_at = oe_clock oe, ra_receipt = revocation_receipt oe identity r license_id,
           ra_authority_id = re_authority_id r, ra_signer_identity = identity, ra_ack_signature = signature\<rparr>,
         audit oe ''external_entitlement_revoked'' license_id None
           (JObj [(''action'', JStr (re_action r)), (''reason'', JStr (re_reason r)), (''receipt'', JStr (revocation_receipt oe identity r license_id)),
             (''signer_identity'', identity_doc identity)]) db)))"

definition fresh_event :: "outside \<Rightarrow> string \<Rightarrow> bool" where
  "fresh_event oe created_at \<longleftrightarrow>
     (case oe_event_time oe created_at of
        None \<Rightarrow> False | Some t \<Rightarrow> oe_clock oe - seconds 86400 \<le> t \<and> t \<le> oe_clock oe + seconds 300)"

definition revoke_external_entitlement :: "outside \<Rightarrow> ceremony \<Rightarrow> revocation \<Rightarrow> authority_db \<Rightarrow> (revocation_ack \<times> authority_db) answer" where
  "revoke_external_entitlement oe c r db =
     (if re_authority_id r \<noteq> ce_authority_id c then Inl (Value_Error ''wrong_authority'')
      else and_then (accepted_signer_identity oe c (re_signer_identity r) db) (\<lambda>identity.
        if re_action r \<notin> {''refund'', ''revoke''} then Inl (Value_Error ''invalid_revocation_action'')
        else if re_reason r \<notin> {''refund'', ''chargeback'', ''fraud'', ''terms_violation'', ''administrative''} then Inl (Value_Error ''invalid_revocation_reason'')
        else if \<not> revocation_evidence_ok r then Inl (Value_Error ''invalid_revocation_evidence'')
        else case find_entitlement (re_source r) (re_source_id r) db of
          None \<Rightarrow> Inl (Value_Error ''external_entitlement_unavailable'')
        | Some e \<Rightarrow>
            if xe_payload_digest e \<noteq> Some (re_payload_digest r) \<or> Some (xe_license_id e) \<noteq> re_license_id r
            then Inl (Value_Error ''external_entitlement_unavailable'')
            else case find_revocation (re_source r) (re_source_id r) db of
              Some v \<Rightarrow> and_then (replay_revocation identity (re_authority_id r) (revocation_digest oe identity r) v) (\<lambda>ack. Inr (ack, db))
            | None \<Rightarrow>
                if \<not> fresh_event oe (re_created_at r) then Inl (Value_Error ''invalid_revocation_created_at'')
                else accept_revocation oe c r identity (xe_license_id e) db))"

definition read_external_revocation_acknowledgement ::
  "outside \<Rightarrow> ceremony \<Rightarrow> string \<Rightarrow> string \<Rightarrow> signer_identity \<Rightarrow> authority_db \<Rightarrow> external_revocation answer" where
  "read_external_revocation_acknowledgement oe c source source_id identity db =
     and_then (accepted_signer_identity oe c identity db) (\<lambda>identity.
       case find_revocation source source_id db of
         None \<Rightarrow> Inl (Value_Error ''external_revocation_unavailable'')
       | Some v \<Rightarrow>
           if xv_key_id v = None \<or> xv_generation v = None \<or> xv_public_key_sha256 v = None \<or> xv_attestation v = None \<or> xv_ack_signature v = None
           then Inl (Value_Error ''legacy_identity_unproven'')
           else if \<not> stored_is identity (Some (xv_authority_id v)) (xv_key_id v) (xv_generation v) (xv_public_key_sha256 v) (xv_attestation v)
           then Inl (Value_Error ''external_revocation_contradiction'')
           else Inr v)"

end
