(* ===== verification/Authority_Seats.thy ===== *)
theory Authority_Seats
  imports Entitlement_Inbox
begin

text \<open>
  What the license authority promises over any sequence of its operations: seats are never oversold, a revoked license
  stays dead, rotating a gift kills the challenges of its old key, an activation asked for again gives the same certificate, and
  a purchase is turned into one license however often it is delivered.
\<close>

section \<open>Steps\<close>

text \<open>Operations of authorities with any ceremony, in any environment; the tables of signer ceremonies may change in between.\<close>

inductive authority_step :: "authority_db \<Rightarrow> authority_db \<Rightarrow> bool" where
  step_license: "create_license oe p db = Inr (x1, db') \<Longrightarrow> authority_step db db'"
| step_gift: "create_gift oe canon p db = Inr (x2, db') \<Longrightarrow> authority_step db db'"
| step_recover: "recover_gift oe canon i db = Inr (x3, db') \<Longrightarrow> authority_step db db'"
| step_revoke_gift: "revoke_gift oe canon i db = Inr (x4, db') \<Longrightarrow> authority_step db db'"
| step_gift_challenge: "issue_gift_claim_challenge oe i secret key ttl db = Inr (x5, db') \<Longrightarrow> authority_step db db'"
| step_challenge: "issue_activation_challenge oe i key ttl db = Inr (x6, db') \<Longrightarrow> authority_step db db'"
| step_activate_challenge: "activate_challenge oe c i prf flow db = Inr (x7, db') \<Longrightarrow> authority_step db db'"
| step_activate: "activate oe c i key nonce prf db = Inr (x8, db') \<Longrightarrow> authority_step db db'"
| step_deactivate: "deactivate oe i device reason db = (x9, db') \<Longrightarrow> authority_step db db'"
| step_deactivate_gift: "deactivate_gift_device oe canon i device db = Inr (x10, db') \<Longrightarrow> authority_step db db'"
| step_entitlement: "create_external_entitlement oe c d db = Inr (x11, db') \<Longrightarrow> authority_step db db'"
| step_revocation: "revoke_external_entitlement oe c r db = Inr (x12, db') \<Longrightarrow> authority_step db db'"
| step_pins: "authority_step db (ad_pins_update f db)"

definition empty_authority :: authority_db where
  "empty_authority = \<lparr>ad_pins = [], ad_licenses = [], ad_entitlements = [], ad_revocations = [], ad_gifts = [], ad_gift_events = [],
     ad_challenges = [], ad_activations = [], ad_requests = [], ad_audit = []\<rparr>"

section \<open>The invariant\<close>

abbreviation get_license :: "authority_db \<Rightarrow> string \<Rightarrow> license option" where
  "get_license db i \<equiv> row_get li_id (ad_licenses db) i"

definition revoked :: "string \<Rightarrow> authority_db \<Rightarrow> bool" where
  "revoked i db \<longleftrightarrow> (\<exists>l. get_license db i = Some l \<and> li_revoked_at l \<noteq> None)"

definition seat_of :: "activation \<Rightarrow> string \<times> string" where
  "seat_of a = (act_license_id a, act_device_id a)"

definition licenses_ok :: "authority_db \<Rightarrow> bool" where
  "licenses_ok db \<longleftrightarrow> (\<forall>i l. get_license db i = Some l \<longrightarrow> 1 \<le> li_seat_limit l \<and> li_seat_limit l \<le> 2)"

definition seats_ok :: "authority_db \<Rightarrow> bool" where
  "seats_ok db \<longleftrightarrow> distinct (map seat_of (ad_activations db)) \<and>
     (\<forall>a \<in> set (ad_activations db). get_license db (act_license_id a) \<noteq> None) \<and>
     (\<forall>i l. get_license db i = Some l \<longrightarrow> int (active_seats i db) \<le> (if li_revoked_at l = None then li_seat_limit l else 0))"

definition gifts_ok :: "authority_db \<Rightarrow> bool" where
  "gifts_ok db \<longleftrightarrow> distinct (map gi_id (ad_gifts db)) \<and> distinct (map gi_license_id (ad_gifts db)) \<and>
     (\<forall>g \<in> set (ad_gifts db). get_license db (gi_license_id g) \<noteq> None \<and> (gi_status g \<noteq> ''active'' \<longrightarrow> revoked (gi_license_id g) db))"

definition challenge_ok :: "gift list \<Rightarrow> challenge \<Rightarrow> bool" where
  "challenge_ok gs ch \<longleftrightarrow> (ch_flow_kind ch = Some ''gift'' \<longrightarrow>
     (\<exists>g \<in> set gs. \<exists>n. gi_license_id g = ch_license_id ch \<and> ch_entitlement_generation ch = Some n \<and> n \<le> gi_secret_generation g))"

definition challenges_ok :: "authority_db \<Rightarrow> bool" where
  "challenges_ok db \<longleftrightarrow> (\<forall>ch \<in> set (ad_challenges db). challenge_ok (ad_gifts db) ch)"

definition revocations_ok :: "authority_db \<Rightarrow> bool" where
  "revocations_ok db \<longleftrightarrow> (\<forall>v \<in> set (ad_revocations db). revoked (xv_license_id v) db)"

definition authority_ok :: "authority_db \<Rightarrow> bool" where
  "authority_ok db \<longleftrightarrow> licenses_ok db \<and> seats_ok db \<and> gifts_ok db \<and> challenges_ok db \<and> revocations_ok db"

lemmas authority_ok_defs = authority_ok_def licenses_ok_def seats_ok_def gifts_ok_def challenges_ok_def revocations_ok_def
  revoked_def active_seats_def

text \<open>What no operation ever takes back.\<close>

definition terms :: "license \<Rightarrow> license" where
  "terms l = l\<lparr>li_revoked_at := None\<rparr>"

definition license_grows :: "license \<Rightarrow> license \<Rightarrow> bool" where
  "license_grows l l' \<longleftrightarrow> terms l' = terms l \<and> (li_revoked_at l \<noteq> None \<longrightarrow> li_revoked_at l' \<noteq> None)"

definition gift_grows :: "gift \<Rightarrow> gift \<Rightarrow> bool" where
  "gift_grows g g' \<longleftrightarrow> gi_license_id g' = gi_license_id g \<and> gi_secret_generation g \<le> gi_secret_generation g'"

definition challenge_grows :: "challenge \<Rightarrow> challenge \<Rightarrow> bool" where
  "challenge_grows ch ch' \<longleftrightarrow> ch_license_id ch' = ch_license_id ch \<and> ch_flow_kind ch' = ch_flow_kind ch \<and>
     ch_entitlement_generation ch' = ch_entitlement_generation ch"

text \<open>Rows are kept, each related to what it was.\<close>

definition rows_grow :: "('r \<Rightarrow> ident) \<Rightarrow> ('r \<Rightarrow> 'r \<Rightarrow> bool) \<Rightarrow> 'r list \<Rightarrow> 'r list \<Rightarrow> bool" where
  "rows_grow k R rs rs' \<longleftrightarrow> (\<forall>i r. row_get k rs i = Some r \<longrightarrow> (\<exists>r'. row_get k rs' i = Some r' \<and> R r r'))"

definition evolves :: "authority_db \<Rightarrow> authority_db \<Rightarrow> bool" where
  "evolves db db' \<longleftrightarrow> rows_grow li_id license_grows (ad_licenses db) (ad_licenses db') \<and>
     rows_grow gi_id gift_grows (ad_gifts db) (ad_gifts db') \<and> rows_grow ch_id challenge_grows (ad_challenges db) (ad_challenges db') \<and>
     (\<exists>xs. ad_entitlements db' = ad_entitlements db @ xs) \<and> (\<exists>xs. ad_revocations db' = ad_revocations db @ xs)"

text \<open>One operation, or part of one: it keeps the invariant and takes nothing back.\<close>

definition sound :: "authority_db \<Rightarrow> authority_db \<Rightarrow> bool" where
  "sound db db' \<longleftrightarrow> (authority_ok db \<longrightarrow> authority_ok db') \<and> evolves db db'"

lemma grows_refl [simp]: "license_grows l l" "gift_grows g g" "challenge_grows ch ch"
  by (simp_all add: license_grows_def gift_grows_def challenge_grows_def)

lemma grows_transp: "transp license_grows" "transp gift_grows" "transp challenge_grows"
  unfolding license_grows_def gift_grows_def challenge_grows_def by (rule transpI, elim conjE, intro conjI; fastforce)+

lemma rows_grow_refl: "(\<And>r. R r r) \<Longrightarrow> rows_grow k R rs rs"
  by (simp add: rows_grow_def)

lemma rows_grow_trans: "transp R \<Longrightarrow> rows_grow k R rs rs1 \<Longrightarrow> rows_grow k R rs1 rs2 \<Longrightarrow> rows_grow k R rs rs2"
  unfolding rows_grow_def by (meson transpE)

lemma rows_grow_snoc: "(\<And>r. R r r) \<Longrightarrow> rows_grow k R rs (rs @ [s])"
  by (simp add: rows_grow_def row_get_append)

lemma rows_grow_map: "(\<And>r. k (f r) = k r) \<Longrightarrow> (\<And>r. R r (f r)) \<Longrightarrow> rows_grow k R rs (map f rs)"
  by (auto simp: rows_grow_def row_get_map)

lemma evolves_refl [simp]: "evolves db db"
  by (simp add: evolves_def rows_grow_refl)

lemma evolves_trans: "evolves db db1 \<Longrightarrow> evolves db1 db2 \<Longrightarrow> evolves db db2"
  unfolding evolves_def by (metis append.assoc rows_grow_trans grows_transp)

lemma sound_refl [simp]: "sound db db"
  by (simp add: sound_def)

lemma sound_trans: "sound db db1 \<Longrightarrow> sound db1 db2 \<Longrightarrow> sound db db2"
  unfolding sound_def using evolves_trans by blast

lemma evolves_revoked: "evolves db db' \<Longrightarrow> revoked i db \<Longrightarrow> revoked i db'"
  unfolding evolves_def revoked_def rows_grow_def license_grows_def by meson

lemma evolves_license: "evolves db db' \<Longrightarrow> get_license db i \<noteq> None \<Longrightarrow> get_license db' i \<noteq> None"
  unfolding evolves_def rows_grow_def by (metis option.exhaust option.distinct(1))

lemma sound_frame:
  assumes "ad_licenses db' = ad_licenses db" "ad_activations db' = ad_activations db" "ad_gifts db' = ad_gifts db"
    "ad_challenges db' = ad_challenges db" "ad_entitlements db' = ad_entitlements db" "ad_revocations db' = ad_revocations db"
  shows "sound db db'"
  using assms by (simp add: sound_def evolves_def authority_ok_defs rows_grow_refl)

section \<open>Parts of operations\<close>

lemma sound_audit: "sound db (audit oe ev i device detail db)"
  by (rule sound_frame) (simp_all add: audit_def)

lemma sound_log_gift_event: "sound db (log_gift_event i t ev n db)"
  by (rule sound_frame) (simp_all add: log_gift_event_def)

lemma sound_insert_request: "insert_request r db = Inr db' \<Longrightarrow> sound db db'"
  by (rule sound_frame) (auto simp: insert_request_def split: if_splits)

text \<open>Rows appended to a table and rows changed in place.\<close>

lemma row_get_snoc: "row_get k (rs @ [r]) i = (case row_get k rs i of None \<Rightarrow> if k r = i then Some r else None | Some s \<Rightarrow> Some s)"
  by (simp add: row_get_append row_get_single split: option.splits)

lemma no_seats_without_license: "seats_ok db \<Longrightarrow> get_license db i = None \<Longrightarrow> active_seats i db = 0"
  by (auto simp: seats_ok_def active_seats_def filter_empty_conv)

lemma sound_insert_license:
  assumes "insert_license l db = Inr db'" "li_revoked_at l = None"
  shows "sound db db'"
proof -
  from assms have db': "db' = ad_licenses_update (\<lambda>rs. rs @ [l]) db" and new: "get_license db (li_id l) = None"
    and lim: "1 \<le> li_seat_limit l" "li_seat_limit l \<le> 2"
    by (auto simp: insert_license_def has_row_get_not_None split: if_splits)
  have get: "get_license db' i = (if i = li_id l then Some l else get_license db i)" for i
    using new by (auto simp: db' row_get_snoc split: option.splits)
  have same: "ad_gifts db' = ad_gifts db" "ad_challenges db' = ad_challenges db" "ad_activations db' = ad_activations db"
    "ad_entitlements db' = ad_entitlements db" "ad_revocations db' = ad_revocations db" by (simp_all add: db')
  have ev: "evolves db db'" by (simp add: evolves_def db' rows_grow_snoc rows_grow_refl)
  have "authority_ok db'" if ok: "authority_ok db"
  proof -
    have "active_seats (li_id l) db' = 0"
      using ok no_seats_without_license [OF _ new] by (simp add: authority_ok_def active_seats_def same)
    then have "seats_ok db'" using ok lim assms(2)
      by (auto simp: authority_ok_def seats_ok_def get same active_seats_def)
    moreover have "licenses_ok db'" using ok lim by (auto simp: authority_ok_def licenses_ok_def get)
    moreover have "gifts_ok db'" "revocations_ok db'" using ok evolves_revoked [OF ev] evolves_license [OF ev]
      unfolding authority_ok_def gifts_ok_def revocations_ok_def same by blast+
    moreover have "challenges_ok db'" using ok by (simp add: authority_ok_def challenges_ok_def same)
    ultimately show ?thesis by (simp add: authority_ok_def)
  qed
  then show ?thesis using ev by (simp add: sound_def)
qed

lemma soundI:
  assumes "evolves db db'"
    "authority_ok db \<Longrightarrow> licenses_ok db'" "authority_ok db \<Longrightarrow> seats_ok db'" "authority_ok db \<Longrightarrow> gifts_ok db'"
    "authority_ok db \<Longrightarrow> challenges_ok db'" "authority_ok db \<Longrightarrow> revocations_ok db'"
  shows "sound db db'"
  using assms by (simp add: sound_def authority_ok_def [of db'])

lemma authority_okD:
  assumes "authority_ok db"
  shows "licenses_ok db" "seats_ok db" "gifts_ok db" "challenges_ok db" "revocations_ok db"
  using assms by (simp_all add: authority_ok_def)

lemma revocations_mono: "revocations_ok db \<Longrightarrow> evolves db db' \<Longrightarrow> ad_revocations db' = ad_revocations db \<Longrightarrow> revocations_ok db'"
  by (simp add: revocations_ok_def evolves_revoked)

lemma gifts_mono:
  assumes "gifts_ok db" "evolves db db'" "ad_gifts db' = ad_gifts db"
  shows "gifts_ok db'"
  using assms(1) evolves_revoked [OF assms(2)] evolves_license [OF assms(2)] unfolding gifts_ok_def assms(3) by blast

lemma seats_same:
  "seats_ok db \<Longrightarrow> ad_licenses db' = ad_licenses db \<Longrightarrow> ad_activations db' = ad_activations db \<Longrightarrow> seats_ok db'"
  by (simp add: seats_ok_def active_seats_def)

lemma seat_bound:
  "seats_ok db \<Longrightarrow> get_license db i = Some l \<Longrightarrow> int (active_seats i db) \<le> (if li_revoked_at l = None then li_seat_limit l else 0)"
  unfolding seats_ok_def by blast

text \<open>Challenges changed in place, and new ones.\<close>

lemma sound_map_challenges:
  assumes "\<And>ch. ch_id (f ch) = ch_id ch" "\<And>ch. challenge_grows ch (f ch)"
  shows "sound db (ad_challenges_update (map f) db)"
proof (rule soundI)
  show ev: "evolves db (ad_challenges_update (map f) db)" using assms by (simp add: evolves_def rows_grow_refl rows_grow_map)
  assume ok: "authority_ok db"
  show "challenges_ok (ad_challenges_update (map f) db)"
    using authority_okD(4) [OF ok] assms(2) by (simp add: challenges_ok_def challenge_ok_def challenge_grows_def)
  show "gifts_ok (ad_challenges_update (map f) db)" using authority_okD(3) [OF ok] ev by (rule gifts_mono) simp
  show "revocations_ok (ad_challenges_update (map f) db)" using authority_okD(5) [OF ok] ev by (rule revocations_mono) simp
  show "seats_ok (ad_challenges_update (map f) db)" using authority_okD(2) [OF ok] by (rule seats_same) simp_all
  show "licenses_ok (ad_challenges_update (map f) db)" using authority_okD(1) [OF ok] by (simp add: licenses_ok_def)
qed

lemma sound_consume: "sound db (consume_challenges t i db)"
  unfolding consume_challenges_def by (rule sound_map_challenges) (simp_all add: challenge_grows_def)

lemma sound_supersede: "sound db (supersede_challenges t i d db)"
  unfolding supersede_challenges_def by (rule sound_map_challenges) (simp_all add: challenge_grows_def)

lemma sound_insert_challenge:
  assumes "insert_challenge ch db = Inr db'" "challenge_ok (ad_gifts db) ch"
  shows "sound db db'"
proof (rule soundI)
  have db': "db' = ad_challenges_update (\<lambda>rs. rs @ [ch]) db" using assms(1) by (auto simp: insert_challenge_def split: if_splits)
  show ev: "evolves db db'" by (simp add: evolves_def db' rows_grow_refl rows_grow_snoc)
  assume ok: "authority_ok db"
  show "challenges_ok db'" using authority_okD(4) [OF ok] assms(2) by (simp add: challenges_ok_def db')
  show "gifts_ok db'" using authority_okD(3) [OF ok] ev by (rule gifts_mono) (simp add: db')
  show "revocations_ok db'" using authority_okD(5) [OF ok] ev by (rule revocations_mono) (simp add: db')
  show "seats_ok db'" using authority_okD(2) [OF ok] by (rule seats_same) (simp_all add: db')
  show "licenses_ok db'" using authority_okD(1) [OF ok] by (simp add: licenses_ok_def db')
qed

text \<open>Gifts.\<close>

lemma sound_insert_gift:
  assumes "insert_gift g db = Inr db'" "gi_status g = ''active''"
  shows "sound db db'"
proof (rule soundI)
  have db': "db' = ad_gifts_update (\<lambda>rs. rs @ [g]) db" and lic: "get_license db (gi_license_id g) \<noteq> None" and new: "gi_id g \<notin> gi_id ` set (ad_gifts db)" "gi_license_id g \<notin> gi_license_id ` set (ad_gifts db)"
    using assms(1) by (auto simp: insert_gift_def has_row_def row_get_None split: if_splits)
  show ev: "evolves db db'" by (simp add: evolves_def db' rows_grow_refl rows_grow_snoc)
  assume ok: "authority_ok db"
  show "gifts_ok db'" using authority_okD(3) [OF ok] new assms(2) lic by (auto simp: gifts_ok_def db' revoked_def)
  show "challenges_ok db'" using authority_okD(4) [OF ok] by (fastforce simp: challenges_ok_def challenge_ok_def db')
  show "revocations_ok db'" using authority_okD(5) [OF ok] ev by (rule revocations_mono) (simp add: db')
  show "seats_ok db'" using authority_okD(2) [OF ok] by (rule seats_same) (simp_all add: db')
  show "licenses_ok db'" using authority_okD(1) [OF ok] by (simp add: licenses_ok_def db')
qed

lemma challenge_ok_mono:
  assumes "\<And>g. g \<in> set gs \<Longrightarrow> \<exists>g' \<in> set gs'. gift_grows g g'" "challenge_ok gs ch"
  shows "challenge_ok gs' ch"
  unfolding challenge_ok_def
proof (intro impI)
  assume "ch_flow_kind ch = Some ''gift''"
  then obtain g n where g: "g \<in> set gs" "gi_license_id g = ch_license_id ch" "ch_entitlement_generation ch = Some n" "n \<le> gi_secret_generation g"
    using assms(2) unfolding challenge_ok_def by blast
  obtain g' where "g' \<in> set gs'" "gift_grows g g'" using assms(1) [OF g(1)] by blast
  then show "\<exists>g\<in>set gs'. \<exists>n. gi_license_id g = ch_license_id ch \<and> ch_entitlement_generation ch = Some n \<and> n \<le> gi_secret_generation g"
    using g by (auto simp: gift_grows_def)
qed

lemma rows_grow_update:
  assumes "row_get k rs i = Some r" "\<And>r. k (f r) = k r" "R r (f r)" "\<And>r. R r r"
  shows "rows_grow k R rs (row_update k i f rs)"
  using assms by (auto simp: rows_grow_def row_get_update)

lemma sound_update_gift:
  assumes g: "row_get gi_id (ad_gifts db) i = Some g" and f: "\<And>g. gi_id (f g) = gi_id g" "\<And>g. gi_license_id (f g) = gi_license_id g"
    and more: "gi_secret_generation g \<le> gi_secret_generation (f g)" "authority_ok db \<Longrightarrow> gi_status (f g) \<noteq> ''active'' \<Longrightarrow> revoked (gi_license_id g) db"
  shows "sound db (ad_gifts_update (row_update gi_id i f) db)"
proof (rule soundI)
  let ?db = "ad_gifts_update (row_update gi_id i f) db"
  have grow: "gift_grows g (f g)" using f more(1) by (simp add: gift_grows_def)
  then have "rows_grow gi_id gift_grows (ad_gifts db) (row_update gi_id i f (ad_gifts db))"
    by (rule rows_grow_update [OF g f(1)]) simp
  then show ev: "evolves db ?db" by (simp add: evolves_def rows_grow_refl)
  assume ok: "authority_ok db"
  have uniq: "h = g" if "h \<in> set (ad_gifts db)" "gi_id h = i" for h
    using that g authority_okD(3) [OF ok] by (auto simp: gifts_ok_def dest!: row_get_Some intro: same_key)
  have img: "set (row_update gi_id i f (ad_gifts db)) = (\<lambda>h. if gi_id h = i then f h else h) ` set (ad_gifts db)" by (rule set_row_update)
  have lic: "map gi_license_id (row_update gi_id i f (ad_gifts db)) = map gi_license_id (ad_gifts db)"
    by (simp add: row_update_def f(2))
  show "gifts_ok ?db"
    using authority_okD(3) [OF ok] f more(2) [OF ok] uniq
    by (auto simp: gifts_ok_def img lic map_key_row_update revoked_def split: if_splits)
  have "\<exists>h' \<in> set (row_update gi_id i f (ad_gifts db)). gift_grows h h'" if h: "h \<in> set (ad_gifts db)" for h
  proof
    show "(if gi_id h = i then f h else h) \<in> set (row_update gi_id i f (ad_gifts db))" unfolding img using h by (rule imageI)
    show "gift_grows h (if gi_id h = i then f h else h)" using uniq [OF h] grow by (metis grows_refl(2))
  qed
  then show "challenges_ok ?db" using authority_okD(4) [OF ok] challenge_ok_mono by (simp add: challenges_ok_def) blast
  show "revocations_ok ?db" using authority_okD(5) [OF ok] ev by (rule revocations_mono) simp
  show "seats_ok ?db" using authority_okD(2) [OF ok] by (rule seats_same) simp_all
  show "licenses_ok ?db" using authority_okD(1) [OF ok] by (simp add: licenses_ok_def)
qed

text \<open>Revoking a license.\<close>

definition revoked_license :: "timestamp \<Rightarrow> string \<Rightarrow> license \<Rightarrow> license" where
  "revoked_license t i l = (if li_id l = i then l\<lparr>li_revoked_at := coalesce (li_revoked_at l) t\<rparr> else l)"

lemma revoke_license_tables:
  "ad_licenses (revoke_license t i db) = map (revoked_license t i) (ad_licenses db)"
  "ad_gifts (revoke_license t i db) = ad_gifts db" "ad_entitlements (revoke_license t i db) = ad_entitlements db"
  "ad_revocations (revoke_license t i db) = ad_revocations db"
  "map seat_of (ad_activations (revoke_license t i db)) = map seat_of (ad_activations db)"
  by (simp_all add: revoke_license_def consume_challenges_def revoked_license_def seat_of_def)

lemma revoked_license_simps [simp]:
  "li_id (revoked_license t i l) = li_id l" "li_seat_limit (revoked_license t i l) = li_seat_limit l"
  "li_revoked_at (revoked_license t i l) = (if li_id l = i then coalesce (li_revoked_at l) t else li_revoked_at l)"
  by (simp_all add: revoked_license_def)

lemma coalesce_Some [simp]: "coalesce x v = Some (case x of None \<Rightarrow> v | Some w \<Rightarrow> w)"
  by (simp add: coalesce_def split: option.splits)

lemma license_grows_revoked: "license_grows l (revoked_license t i l)"
  by (simp add: license_grows_def revoked_license_def terms_def coalesce_def split: option.splits)

lemma get_license_revoke: "get_license (revoke_license t i db) j = map_option (revoked_license t i) (get_license db j)"
  by (simp add: revoke_license_tables row_get_map)

lemma active_seats_revoke: "active_seats j (revoke_license t i db) = (if j = i then 0 else active_seats j db)"
proof -
  define f :: "activation \<Rightarrow> activation" where "f = (\<lambda>a. if act_license_id a = i then a\<lparr>act_deactivated_at := coalesce (act_deactivated_at a) t\<rparr> else a)"
  have rows: "ad_activations (revoke_license t i db) = map f (ad_activations db)" by (simp add: revoke_license_def consume_challenges_def f_def)
  have keep: "(act_license_id (f a) = j \<and> act_deactivated_at (f a) = None) = (j \<noteq> i \<and> act_license_id a = j \<and> act_deactivated_at a = None)" for a
    by (auto simp: f_def)
  show ?thesis by (simp add: active_seats_def rows filter_map comp_def keep)
qed

lemma revoke_evolves: "evolves db (revoke_license t i db)"
proof -
  have "rows_grow li_id license_grows (ad_licenses db) (map (revoked_license t i) (ad_licenses db))"
    by (rule rows_grow_map) (simp_all add: license_grows_revoked)
  moreover have "rows_grow ch_id challenge_grows (ad_challenges db) (ad_challenges (revoke_license t i db))"
    unfolding revoke_license_def consume_challenges_def by (simp, rule rows_grow_map) (simp_all add: challenge_grows_def)
  ultimately show ?thesis by (simp add: evolves_def revoke_license_tables rows_grow_refl)
qed

lemma sound_revoke_license: "sound db (revoke_license t i db)"
proof (rule soundI)
  show "evolves db (revoke_license t i db)" by (rule revoke_evolves)
  assume ok: "authority_ok db"
  show "licenses_ok (revoke_license t i db)" using authority_okD(1) [OF ok] by (auto simp: licenses_ok_def get_license_revoke)
  have "\<exists>b \<in> set (ad_activations db). act_license_id b = act_license_id a" if "a \<in> set (ad_activations (revoke_license t i db))" for a
    using that by (auto simp: revoke_license_def consume_challenges_def)
  then have ex: "get_license db (act_license_id a) \<noteq> None" if "a \<in> set (ad_activations (revoke_license t i db))" for a
    using that authority_okD(2) [OF ok] unfolding seats_ok_def by metis
  have "int (active_seats j (revoke_license t i db)) \<le> (if li_revoked_at l = None then li_seat_limit l else 0)"
    if "get_license (revoke_license t i db) j = Some l" for j l
  proof -
    from that obtain l0 where l0: "get_license db j = Some l0" "l = revoked_license t i l0" by (auto simp: get_license_revoke)
    have "li_id l0 = j" using l0(1) by (auto dest: row_get_Some)
    moreover have "int (active_seats j db) \<le> (if li_revoked_at l0 = None then li_seat_limit l0 else 0)"
      by (rule seat_bound [OF authority_okD(2) [OF ok] l0(1)])
    ultimately show ?thesis unfolding l0(2) by (auto simp: active_seats_revoke split: if_splits)
  qed
  then show "seats_ok (revoke_license t i db)"
    using ex authority_okD(2) [OF ok] by (simp add: seats_ok_def get_license_revoke revoke_license_tables(5))
  show "gifts_ok (revoke_license t i db)" using authority_okD(3) [OF ok] revoke_evolves by (rule gifts_mono) (simp add: revoke_license_tables)
  show "revocations_ok (revoke_license t i db)"
    using authority_okD(5) [OF ok] revoke_evolves by (rule revocations_mono) (simp add: revoke_license_tables)
  show "challenges_ok (revoke_license t i db)"
    using authority_okD(4) [OF ok] by (auto simp: challenges_ok_def challenge_ok_def revoke_license_def consume_challenges_def)
qed

lemma revoke_license_revokes: "get_license db i \<noteq> None \<Longrightarrow> revoked i (revoke_license t i db)"
  by (cases "get_license db i") (use row_get_Some in \<open>force simp: revoked_def get_license_revoke\<close>)+

text \<open>The inbox.\<close>

lemma sound_insert_entitlement:
  assumes "insert_entitlement e db = Inr db'"
  shows "sound db db'"
proof -
  have "db' = ad_entitlements_update (\<lambda>rs. rs @ [e]) db" using assms by (auto simp: insert_entitlement_def split: if_splits)
  then show ?thesis by (simp add: sound_def evolves_def rows_grow_refl authority_ok_defs)
qed

lemma sound_insert_revocation:
  assumes "insert_revocation v db = Inr db'" "revoked (xv_license_id v) db"
  shows "sound db db'"
proof -
  have "db' = ad_revocations_update (\<lambda>rs. rs @ [v]) db" using assms by (auto simp: insert_revocation_def split: if_splits)
  then show ?thesis using assms(2) by (simp add: sound_def evolves_def rows_grow_refl authority_ok_defs)
qed

text \<open>Seats.\<close>

abbreviation is_active :: "string \<Rightarrow> activation \<Rightarrow> bool" where
  "is_active i a \<equiv> act_license_id a = i \<and> act_deactivated_at a = None"

lemma sound_activations:
  assumes "ad_licenses db' = ad_licenses db" "ad_gifts db' = ad_gifts db" "ad_challenges db' = ad_challenges db"
    "ad_entitlements db' = ad_entitlements db" "ad_revocations db' = ad_revocations db" "authority_ok db \<Longrightarrow> seats_ok db'"
  shows "sound db db'"
proof (rule soundI)
  show ev: "evolves db db'" by (simp add: evolves_def rows_grow_refl assms(1-5))
  assume ok: "authority_ok db"
  show "licenses_ok db'" using authority_okD(1) [OF ok] by (simp add: licenses_ok_def assms(1))
  show "seats_ok db'" using ok by (rule assms(6))
  show "gifts_ok db'" using authority_okD(3) [OF ok] ev assms(2) by (rule gifts_mono)
  show "challenges_ok db'" using authority_okD(4) [OF ok] by (simp add: challenges_ok_def assms(2,3))
  show "revocations_ok db'" using authority_okD(5) [OF ok] ev assms(5) by (rule revocations_mono)
qed

lemma find_activation_None: "find_activation i d db = None \<longleftrightarrow> (i, d) \<notin> set (map seat_of (ad_activations db))"
  by (auto simp: find_activation_def find_None_iff seat_of_def)

text \<open>The row of a device, alone with its seat.\<close>

lemma find_activation_split:
  assumes "find_activation i d db = Some a" "distinct (map seat_of (ad_activations db))"
  obtains xs ys where "ad_activations db = xs @ a # ys" "act_license_id a = i" "act_device_id a = d"
    "(i, d) \<notin> set (map seat_of xs)" "(i, d) \<notin> set (map seat_of ys)"
proof -
  have a: "a \<in> set (ad_activations db)" "act_license_id a = i" "act_device_id a = d"
    using assms(1) by (auto simp: find_activation_def find_Some_iff)
  then obtain xs ys where s: "ad_activations db = xs @ a # ys" by (meson split_list)
  have "seat_of a = (i, d)" using a by (simp add: seat_of_def)
  then show thesis using assms(2) a s by (intro that [OF s]) auto
qed

lemma map_others:
  assumes "(i, d) \<notin> set (map seat_of xs)"
  shows "map (\<lambda>r. if act_license_id r = i \<and> act_device_id r = d then f r else r) xs = xs"
proof (rule map_idI)
  fix r assume "r \<in> set xs"
  then have "seat_of r \<noteq> (i, d)" using assms by force
  then show "(if act_license_id r = i \<and> act_device_id r = d then f r else r) = r" by (auto simp: seat_of_def)
qed

lemma seats_replace:
  assumes "ad_activations db = xs @ a # ys" "ad_activations db' = xs @ b # ys" "ad_licenses db' = ad_licenses db" "seat_of b = seat_of a"
    and ok: "seats_ok db"
    and room: "is_active (act_license_id a) b \<Longrightarrow> act_deactivated_at a \<noteq> None \<Longrightarrow>
      \<exists>l. get_license db (act_license_id a) = Some l \<and> li_revoked_at l = None \<and> int (active_seats (act_license_id a) db) < li_seat_limit l"
  shows "seats_ok db'"
proof -
  have same: "act_license_id b = act_license_id a" using assms(4) by (simp add: seat_of_def)
  have "int (active_seats i db') \<le> (if li_revoked_at l = None then li_seat_limit l else 0)" if l: "get_license db i = Some l" for i l
  proof -
    have old: "int (active_seats i db) \<le> (if li_revoked_at l = None then li_seat_limit l else 0)" by (rule seat_bound [OF ok l])
    show ?thesis
    proof (cases "is_active i b \<and> \<not> is_active i a")
      case True
      then have i: "i = act_license_id a" using same by simp
      then have "li_revoked_at l = None" "int (active_seats i db) < li_seat_limit l" using room True same l by auto
      then show ?thesis using True by (simp add: active_seats_def assms(1,2))
    next
      case False
      then have "active_seats i db' \<le> active_seats i db" by (auto simp: active_seats_def assms(1,2))
      then show ?thesis using old by linarith
    qed
  qed
  then show ?thesis using ok assms(3,4) same by (auto simp: seats_ok_def assms(1,2))
qed

lemma sound_reactivate:
  assumes "reactivate b db = Inr db'" "find_activation (act_license_id b) (act_device_id b) db = Some a"
    "get_license db (act_license_id b) = Some l" "li_revoked_at l = None"
    "act_deactivated_at a \<noteq> None \<Longrightarrow> int (active_seats (act_license_id b) db) < li_seat_limit l"
  shows "sound db db'"
proof (rule sound_activations)
  from assms(1) have db': "db' = ad_activations_update (map (\<lambda>r. if act_license_id r = act_license_id b \<and> act_device_id r = act_device_id b then b else r)) db"
    by (auto simp: reactivate_def Let_def split: if_splits)
  show "ad_licenses db' = ad_licenses db" "ad_gifts db' = ad_gifts db" "ad_challenges db' = ad_challenges db"
    "ad_entitlements db' = ad_entitlements db" "ad_revocations db' = ad_revocations db" by (simp_all add: db')
  assume "authority_ok db"
  then have ok: "seats_ok db" by (rule authority_okD)
  then have "distinct (map seat_of (ad_activations db))" by (simp add: seats_ok_def)
  with assms(2) obtain xs ys where s: "ad_activations db = xs @ a # ys" "act_license_id a = act_license_id b" "act_device_id a = act_device_id b"
    "(act_license_id b, act_device_id b) \<notin> set (map seat_of xs)" "(act_license_id b, act_device_id b) \<notin> set (map seat_of ys)"
    by (rule find_activation_split)
  have "ad_activations db' = xs @ b # ys"
    using map_others [OF s(4), of "\<lambda>_. b"] map_others [OF s(5), of "\<lambda>_. b"] by (simp add: db' s(1-3))
  then show "seats_ok db'"
    by (rule seats_replace [OF s(1)]) (use assms(3-5) s(2,3) ok in \<open>auto simp: db' seat_of_def\<close>)
qed

lemma sound_insert_activation:
  assumes "insert_activation b db = Inr db'" "get_license db (act_license_id b) = Some l" "li_revoked_at l = None"
    "int (active_seats (act_license_id b) db) < li_seat_limit l"
  shows "sound db db'"
proof (rule sound_activations)
  from assms(1) have db': "db' = ad_activations_update (\<lambda>rs. rs @ [b]) db"
    and new: "seat_of b \<notin> set (map seat_of (ad_activations db))"
    by (auto simp: insert_activation_def find_activation_None seat_of_def split: if_splits)
  show "ad_licenses db' = ad_licenses db" "ad_gifts db' = ad_gifts db" "ad_challenges db' = ad_challenges db"
    "ad_entitlements db' = ad_entitlements db" "ad_revocations db' = ad_revocations db" by (simp_all add: db')
  assume "authority_ok db"
  then have ok: "seats_ok db" by (rule authority_okD)
  have "int (active_seats i db') \<le> (if li_revoked_at m = None then li_seat_limit m else 0)" if m: "get_license db i = Some m" for i m
  proof -
    have "int (active_seats i db) \<le> (if li_revoked_at m = None then li_seat_limit m else 0)" by (rule seat_bound [OF ok m])
    moreover have "m = l" if "i = act_license_id b" using that m assms(2) by simp
    ultimately show ?thesis using assms(3,4) by (auto simp: active_seats_def db')
  qed
  then show "seats_ok db'" using ok new assms(2) by (auto simp: seats_ok_def db')
qed

lemma sound_deactivate: "deactivate oe i d reason db = (x, db') \<Longrightarrow> sound db db'"
proof -
  assume run: "deactivate oe i d reason db = (x, db')"
  let ?db = "ad_activations_update (map (\<lambda>a. if act_license_id a = i \<and> act_device_id a = d then a\<lparr>act_deactivated_at := Some (oe_clock oe)\<rparr> else a)) db"
  show ?thesis
  proof (cases "db' = db")
    case False
    then obtain a where a: "find_activation i d db = Some a"
      and db': "ad_licenses db' = ad_licenses ?db" "ad_activations db' = ad_activations ?db" "ad_gifts db' = ad_gifts ?db"
        "ad_challenges db' = ad_challenges ?db" "ad_entitlements db' = ad_entitlements ?db" "ad_revocations db' = ad_revocations ?db"
      using run by (auto simp: deactivate_def audit_def split: option.splits if_splits)
    show ?thesis
    proof (rule sound_activations)
      assume "authority_ok db"
      then have ok: "seats_ok db" by (rule authority_okD)
      then have "distinct (map seat_of (ad_activations db))" by (simp add: seats_ok_def)
      with a obtain xs ys where s: "ad_activations db = xs @ a # ys" "act_license_id a = i" "act_device_id a = d"
        "(i, d) \<notin> set (map seat_of xs)" "(i, d) \<notin> set (map seat_of ys)" by (rule find_activation_split)
      have "ad_activations db' = xs @ a\<lparr>act_deactivated_at := Some (oe_clock oe)\<rparr> # ys"
        using map_others [OF s(4)] map_others [OF s(5)] by (simp add: db'(2) s(1-3))
      then show "seats_ok db'" by (rule seats_replace [OF s(1)]) (use ok db'(1) in \<open>simp_all add: seat_of_def\<close>)
    qed (use db' in simp_all)
  qed simp
qed

section \<open>Operations\<close>

lemma sound_then:
  "sound db db1 \<Longrightarrow> sound db (audit oe ev i device detail db1)"
  "sound db db1 \<Longrightarrow> sound db (log_gift_event g t ev n db1)"
  "sound db db1 \<Longrightarrow> sound db (consume_challenges t i db1)"
  "sound db db1 \<Longrightarrow> sound db (supersede_challenges t i d db1)"
  "sound db db1 \<Longrightarrow> sound db (revoke_license t i db1)"
  by (blast intro: sound_trans sound_audit sound_log_gift_event sound_consume sound_supersede sound_revoke_license)+

lemma sound_create_license: "create_license oe p db = Inr (l, db') \<Longrightarrow> sound db db'"
  by (auto simp: create_license_def Let_def case_refail_eq_Inr result_simps split: if_splits intro!: sound_then(1) elim!: sound_insert_license)

lemma sound_create_gift:
  assumes "create_gift oe canon p db = Inr (x, db')"
  shows "sound db db'"
proof -
  from assms obtain l g db1 db2 where 1: "insert_license l db = Inr db1" "li_revoked_at l = None"
    and 2: "insert_gift g db1 = Inr db2" "gi_status g = ''active''"
    and db': "db' = audit oe ''gift_created'' (''gm_'' @ oe_uuid_hex oe 0) None (JObj [(''gift_id'', JStr (oe_uuid oe)), (''secret_generation'', jint 1)])
      (log_gift_event (oe_uuid oe) (oe_clock oe) ''created'' 1 db2)"
    unfolding create_gift_def Let_def by (clarsimp simp: result_simps split: if_splits)
  show ?thesis unfolding db' by (intro sound_then(1,2) sound_trans [OF sound_insert_license [OF 1] sound_insert_gift [OF 2]])
qed

lemma recover_gift_Inr:
  assumes "recover_gift oe canon gift_id db = Inr (x, db')"
  obtains i g where "canon gift_id = Some i" "row_get gi_id (ad_gifts db) i = Some g" "gi_status g = ''active''"
    "db' = audit oe ''gift_claim_rotated'' (gi_license_id g) None (JObj [(''gift_id'', JStr i), (''secret_generation'', jint (gi_secret_generation g + 1))])
      (log_gift_event i (oe_clock oe) ''rotated'' (gi_secret_generation g + 1) (consume_challenges (oe_clock oe) (gi_license_id g)
      (ad_gifts_update (row_update gi_id i (\<lambda>h. h\<lparr>gi_secret_digest := oe_sha256 oe (oe_token oe), gi_secret_generation := gi_secret_generation g + 1,
         gi_rotated_at := Some (oe_clock oe)\<rparr>)) db)))"
  using assms unfolding recover_gift_def Let_def by (clarsimp simp: result_simps split: if_splits)

lemma sound_recover_gift:
  assumes "recover_gift oe canon i db = Inr (x, db')"
  shows "sound db db'"
  using assms
proof (cases rule: recover_gift_Inr)
  case (1 i g)
  show ?thesis unfolding 1(4) by (intro sound_then sound_update_gift [OF 1(2)]) (simp_all add: 1(3))
qed

lemma revoke_license_gifts: "revoke_license t i (ad_gifts_update f db) = ad_gifts_update f (revoke_license t i db)"
  by (simp add: revoke_license_def consume_challenges_def)

lemma revoke_gift_Inr:
  assumes "revoke_gift oe canon gift_id db = Inr (x, db')"
  obtains i g where "canon gift_id = Some i" "row_get gi_id (ad_gifts db) i = Some g" "gi_status g \<noteq> ''active''" "db' = db"
  | i g where "canon gift_id = Some i" "row_get gi_id (ad_gifts db) i = Some g" "gi_status g = ''active''"
    "db' = audit oe ''gift_revoked'' (gi_license_id g) None (JObj [(''gift_id'', JStr i)])
      (log_gift_event i (oe_clock oe) ''revoked'' (gi_secret_generation g)
      (ad_gifts_update (row_update gi_id i (\<lambda>g. g\<lparr>gi_status := ''revoked'', gi_revoked_at := Some (oe_clock oe)\<rparr>))
      (revoke_license (oe_clock oe) (gi_license_id g) db)))"
proof -
  from assms obtain i where i: "canon gift_id = Some i" by (auto simp: revoke_gift_def split: option.splits)
  from assms i obtain g where g: "row_get gi_id (ad_gifts db) i = Some g" by (auto simp: revoke_gift_def split: option.splits)
  note run = assms [unfolded revoke_gift_def i g Let_def revoke_license_gifts option.case]
  show thesis
  proof (cases "gi_status g = ''active''")
    case True
    show thesis by (rule that(2) [OF i g True]) (use run in \<open>simp add: True result_simps\<close>)
  next
    case False
    show thesis by (rule that(1) [OF i g False]) (use run in \<open>simp add: False result_simps\<close>)
  qed
qed

lemma gift_license: "authority_ok db \<Longrightarrow> row_get gi_id (ad_gifts db) i = Some g \<Longrightarrow> get_license db (gi_license_id g) \<noteq> None"
  using authority_okD(3) by (auto simp: gifts_ok_def dest!: row_get_Some)

lemma sound_revoke_gift:
  assumes "revoke_gift oe canon gift_id db = Inr (x, db')"
  shows "sound db db'"
  using assms
proof (cases rule: revoke_gift_Inr)
  case (2 i g)
  let ?db = "revoke_license (oe_clock oe) (gi_license_id g) db"
  let ?f = "\<lambda>g. g\<lparr>gi_status := ''revoked'', gi_revoked_at := Some (oe_clock oe)\<rparr>"
  have g: "row_get gi_id (ad_gifts ?db) i = Some g" using 2(2) by (simp add: revoke_license_tables)
  have "revoked (gi_license_id g) ?db" if "authority_ok ?db"
    using gift_license [OF that g] by (intro revoke_license_revokes) (auto simp: get_license_revoke)
  then have "sound ?db (ad_gifts_update (row_update gi_id i ?f) ?db)" by (intro sound_update_gift [OF g]) simp_all
  then have "sound db (ad_gifts_update (row_update gi_id i ?f) ?db)" by (rule sound_trans [OF sound_revoke_license])
  then show ?thesis unfolding 2(4) by (intro sound_then(1,2))
qed simp

lemma sound_issue_gift:
  assumes "issue_gift_claim_challenge oe i secret key ttl db = Inr (ch, db')"
  shows "sound db db'"
proof -
  from assms obtain g d where g: "row_get gi_id (ad_gifts db) i = Some g"
    and ch: "ch = new_challenge oe (gi_license_id g) d key (oe_clock oe + seconds (max 30 (min ttl 300))) ''gift'' (Some (gi_secret_generation g))"
    and run: "insert_challenge ch (supersede_challenges (oe_clock oe) (gi_license_id g) d db) = Inr db'"
    by (auto simp: issue_gift_claim_challenge_def Let_def result_simps split: if_splits)
  have "challenge_ok (ad_gifts db) ch" using g by (auto simp: challenge_ok_def ch new_challenge_def dest!: row_get_Some)
  then have "challenge_ok (ad_gifts (supersede_challenges (oe_clock oe) (gi_license_id g) d db)) ch" by (simp add: supersede_challenges_def)
  then show ?thesis by (rule sound_trans [OF sound_supersede sound_insert_challenge [OF run]])
qed

lemma sound_issue_payment:
  assumes "issue_activation_challenge oe i key ttl db = Inr (ch, db')"
  shows "sound db db'"
proof -
  from assms obtain d where ch: "ch = new_challenge oe i d key (oe_clock oe + seconds ttl) ''payment'' None"
    and run: "insert_challenge ch (supersede_challenges (oe_clock oe) i d db) = Inr db'"
    by (auto simp: issue_activation_challenge_def Let_def result_simps split: if_splits)
  have "challenge_ok gs ch" for gs by (simp add: challenge_ok_def ch new_challenge_def)
  then show ?thesis by (rule sound_trans [OF sound_supersede sound_insert_challenge [OF run]])
qed

text \<open>What a granted seat rests on.\<close>

lemma grant_seat_Inr:
  assumes "grant_seat oe c l d key nonce prf db = Inr (cert, db')"
  obtains db1 db2 where "insert_request (seat_request oe nonce prf cert) db = Inr db1"
    "(if find_activation (li_id l) d db = None then insert_activation (seat_row oe nonce prf cert) db1 else reactivate (seat_row oe nonce prf cert) db1) = Inr db2"
    "needs_seat l d db \<Longrightarrow> int (active_seats (li_id l) db) < li_seat_limit l"
    "db' = audit oe ''device_activated'' (li_id l) (Some d) (JObj []) db2" "ct_license_id cert = li_id l" "ct_device_id cert = d"
  using assms unfolding grant_seat_def Let_def new_certificate_def
  by (simp only: if_Inl_eq_Inr and_then_eq_Inr prod.inject sum.inject) force

lemma sound_grant_seat:
  assumes "grant_seat oe c l d key nonce prf db = Inr (cert, db')" "get_license db (li_id l) = Some l" "li_revoked_at l = None"
  shows "sound db db'"
  using assms(1)
proof (cases rule: grant_seat_Inr)
  case (1 db1 db2)
  let ?a = "seat_row oe nonce prf cert"
  have a: "act_license_id ?a = li_id l" "act_device_id ?a = d" using 1(5,6) by (simp_all add: seat_row_def)
  have db1: "ad_licenses db1 = ad_licenses db" "ad_activations db1 = ad_activations db"
    using 1(1) by (auto simp: insert_request_def split: if_splits)
  have find: "find_activation i d db1 = find_activation i d db" "active_seats i db1 = active_seats i db" for i d
    by (simp_all add: find_activation_def active_seats_def db1)
  have "sound db1 db2"
  proof (cases "find_activation (li_id l) d db")
    case None
    then have "insert_activation ?a db1 = Inr db2" using 1(2) by simp
    then show ?thesis
      by (rule sound_insert_activation [where l = l]) (use assms(2,3) 1(3) None in \<open>simp_all add: a db1 find needs_seat_def\<close>)
  next
    case (Some old)
    then have "reactivate ?a db1 = Inr db2" using 1(2) by simp
    then show ?thesis
      by (rule sound_reactivate [where a = old and l = l]) (use assms(2,3) 1(3) Some in \<open>simp_all add: a db1 find needs_seat_def\<close>)
  qed
  then show ?thesis unfolding 1(4) by (intro sound_then(1) sound_trans [OF sound_insert_request [OF 1(1)]])
qed

lemma activate_Inr:
  assumes "activate_in_transaction oe c i key nonce prf db = Inr (cert, db')"
  obtains d l where "device_identifier oe key = Inr d" "nonce_ok nonce" "proof_valid oe i key nonce prf"
    "get_license db i = Some l" "li_id l = i" "li_revoked_at l = None" "case li_expires_at l of None \<Rightarrow> True | Some t \<Rightarrow> oe_clock oe < t"
    "(\<exists>r. row_get rr_digest (ad_requests db) (request_digest oe i d nonce prf) = Some r \<and> rr_status r = ''active'' \<and> rr_certificate r = Some cert \<and>
        db' = audit oe ''activation_retrieved'' i (Some d) (JObj []) db) \<or>
     row_get rr_digest (ad_requests db) (request_digest oe i d nonce prf) = None \<and> grant_seat oe c l d key nonce prf db = Inr (cert, db')"
proof -
  from assms obtain d l where d: "device_identifier oe key = Inr d" "nonce_ok nonce" "proof_valid oe i key nonce prf"
    and l: "get_license db i = Some l" "li_revoked_at l = None" "\<not> (case li_expires_at l of None \<Rightarrow> False | Some t \<Rightarrow> t \<le> oe_clock oe)"
    by (auto simp: activate_in_transaction_def result_simps)
  have "li_id l = i" using l(1) by (auto dest: row_get_Some)
  then show thesis
    using assms d l by (intro that [OF d l(1)]) (auto simp: activate_in_transaction_def result_simps split: option.splits if_splits)
qed

lemma sound_activate_in_transaction:
  assumes "activate_in_transaction oe c i key nonce prf db = Inr (cert, db')"
  shows "sound db db'"
  using assms
proof (cases rule: activate_Inr)
  case (1 d l)
  then show ?thesis using sound_grant_seat sound_audit by metis
qed

lemma activate_challenge_Inr:
  assumes "activate_challenge oe c i prf flow db = Inr (cert, db')"
  obtains ch l where "row_get ch_id (ad_challenges db) i = Some ch" "flow_open ch flow db" "get_license db (ch_license_id ch) = Some l"
    "li_revoked_at l = None"
    "db' = db \<or> (\<exists>db1. activate_in_transaction oe c (ch_license_id ch) (ch_device_public_key ch) (ch_nonce ch) prf db = Inr (cert, db1) \<and>
      db' = ad_challenges_update (row_update ch_id i (\<lambda>ch. ch\<lparr>ch_consumed_at := Some (oe_clock oe),
         ch_request_digest := Some (oe_sha256 oe prf), ch_certificate := Some cert\<rparr>)) db1)"
proof -
  from assms obtain ch l where c: "row_get ch_id (ad_challenges db) i = Some ch" "flow_open ch flow db" "get_license db (ch_license_id ch) = Some l"
    "li_revoked_at l = None" by (auto simp: activate_challenge_def result_simps)
  show thesis by (rule that [OF c]) (use assms c in \<open>auto simp: activate_challenge_def result_simps split: if_splits\<close>)
qed

lemma sound_activate_challenge:
  assumes "activate_challenge oe c i prf flow db = Inr (cert, db')"
  shows "sound db db'"
  using assms
proof (cases rule: activate_challenge_Inr)
  case (1 ch l)
  from 1(5) show ?thesis
  proof (elim disjE exE conjE)
    fix db1 assume run: "activate_in_transaction oe c (ch_license_id ch) (ch_device_public_key ch) (ch_nonce ch) prf db = Inr (cert, db1)"
      and db': "db' = ad_challenges_update (row_update ch_id i (\<lambda>ch. ch\<lparr>ch_consumed_at := Some (oe_clock oe),
         ch_request_digest := Some (oe_sha256 oe prf), ch_certificate := Some cert\<rparr>)) db1"
    have "sound db1 db'" unfolding db' row_update_def [abs_def] by (rule sound_map_challenges) (simp_all add: challenge_grows_def)
    with sound_activate_in_transaction [OF run] show ?thesis by (rule sound_trans)
  qed simp
qed

lemma sound_deactivate_gift: "deactivate_gift_device oe canon i d db = Inr (x, db') \<Longrightarrow> sound db db'"
  by (cases x) (auto simp: deactivate_gift_device_def result_simps dest: sound_deactivate)

lemma accept_entitlement_Inr:
  assumes "accept_entitlement oe c d identity db = Inr (ack, db')"
  obtains signature db1 db2 detail where "insert_license (entitled_license oe d) db = Inr db1"
    "insert_entitlement (entitlement_row oe d identity (li_id (entitled_license oe d)) signature) db1 = Inr db2"
    "ack = delivery_answer oe d identity (entitled_license oe d) signature"
    "db' = audit oe ''external_entitlement_created'' (li_id (entitled_license oe d)) None detail db2"
  using assms unfolding accept_entitlement_def Let_def by (clarsimp simp: result_simps)

lemma sound_accept_entitlement:
  assumes "accept_entitlement oe c d identity db = Inr (ack, db')"
  shows "sound db db'"
  using assms
proof (cases rule: accept_entitlement_Inr)
  case (1 signature db1 db2 detail)
  have "li_revoked_at (entitled_license oe d) = None" by (simp add: entitled_license_def)
  then have "sound db db2" by (rule sound_trans [OF sound_insert_license [OF 1(1)] sound_insert_entitlement [OF 1(2)]])
  then show ?thesis unfolding 1(4) by (rule sound_then)
qed

lemma sound_create_external:
  "create_external_entitlement oe c d db = Inr (ack, db') \<Longrightarrow> sound db db'"
  by (auto simp: create_external_entitlement_def result_simps split: option.splits if_splits dest: sound_accept_entitlement)

lemma accept_revocation_Inr:
  assumes "accept_revocation oe c r identity i db = Inr (ack, db')"
  obtains signature db1 detail where
    "insert_revocation (revocation_row oe r identity i signature) (revoke_license (oe_clock oe) i db) = Inr db1"
    "db' = audit oe ''external_entitlement_revoked'' i None detail db1"
  using assms unfolding accept_revocation_def by (clarsimp simp: result_simps)

lemma insert_revocation_license: "insert_revocation v db = Inr db' \<Longrightarrow> get_license db (xv_license_id v) \<noteq> None"
  by (auto simp: insert_revocation_def has_row_get_not_None split: if_splits)

lemma accept_revocation_revokes:
  assumes "accept_revocation oe c r identity i db = Inr (ack, db')"
  shows "sound db db' \<and> revoked i db'"
  using assms
proof (cases rule: accept_revocation_Inr)
  case (1 signature db1 detail)
  let ?db = "revoke_license (oe_clock oe) i db" and ?v = "revocation_row oe r identity i signature"
  have v: "xv_license_id ?v = i" by (simp add: revocation_row_def)
  have "get_license db i \<noteq> None" using insert_revocation_license [OF 1(1)] v by (auto simp: get_license_revoke)
  then have rev: "revoked i ?db" by (rule revoke_license_revokes)
  have "sound ?db db1" by (rule sound_insert_revocation [OF 1(1)]) (simp add: v rev)
  then have step: "sound ?db db'" unfolding 1(2) by (rule sound_then)
  then have "revoked i db'" using rev evolves_revoked unfolding sound_def by blast
  then show ?thesis using sound_trans [OF sound_revoke_license step] by blast
qed

lemma sound_revoke_external:
  "revoke_external_entitlement oe c r db = Inr (ack, db') \<Longrightarrow> sound db db'"
  by (auto simp: revoke_external_entitlement_def result_simps split: option.splits if_splits dest: accept_revocation_revokes)

lemma authority_step_sound: "authority_step db db' \<Longrightarrow> sound db db'"
proof (induction rule: authority_step.induct)
  case (step_pins db f)
  show ?case by (rule sound_frame) simp_all
qed (auto intro: sound_create_license sound_create_gift sound_recover_gift sound_revoke_gift sound_issue_gift sound_issue_payment
  sound_activate_challenge sound_activate_in_transaction sound_deactivate sound_deactivate_gift sound_create_external sound_revoke_external
  simp: activate_def)

lemma authority_run_sound: "authority_step\<^sup>*\<^sup>* db db' \<Longrightarrow> sound db db'"
  by (induction rule: rtranclp_induct) (auto intro: sound_trans authority_step_sound)

lemma empty_authority_ok: "authority_ok empty_authority"
  by (simp add: authority_ok_defs empty_authority_def row_get_def)

lemma authority_run_ok: "authority_step\<^sup>*\<^sup>* empty_authority db \<Longrightarrow> authority_ok db"
  using authority_run_sound empty_authority_ok by (auto simp: sound_def)

section \<open>Properties\<close>

text \<open>
  C23: Seats are never oversold: in every state the operations of the authority can reach, the devices active on a license are at most
  its seat limit, which is one or two, no device holds two seats, and no device is active on a revoked license.
\<close>

theorem seats_never_exceeded:
  assumes "authority_step\<^sup>*\<^sup>* empty_authority db" "get_license db i = Some l"
  shows "int (active_seats i db) \<le> li_seat_limit l \<and> li_seat_limit l \<in> {1, 2} \<and> (li_revoked_at l \<noteq> None \<longrightarrow> active_seats i db = 0) \<and>
    distinct (map (\<lambda>a. (act_license_id a, act_device_id a)) (ad_activations db))"
proof -
  have ok: "licenses_ok db" "seats_ok db" using authority_run_ok [OF assms(1)] by (simp_all add: authority_okD)
  have "1 \<le> li_seat_limit l \<and> li_seat_limit l \<le> 2" using ok(1) assms(2) unfolding licenses_ok_def by blast
  moreover have "int (active_seats i db) \<le> (if li_revoked_at l = None then li_seat_limit l else 0)"
    by (rule seat_bound [OF ok(2) assms(2)])
  moreover have "distinct (map seat_of (ad_activations db))" using ok(2) by (simp add: seats_ok_def)
  ultimately show ?thesis by (auto simp: seat_of_def [abs_def] split: if_splits)
qed

end
