(* ===== verification/Authority_Promises.thy ===== *)
theory Authority_Promises
  imports Authority_Seats
begin

text \<open>
  Promises of the license authority to its callers, over all runs of its operations: what a revocation, a rotated gift key, a
  repeated activation and a repeated delivery lead to.
\<close>

section \<open>Revocation\<close>

lemma run_keeps:
  assumes "authority_step\<^sup>*\<^sup>* db db'"
  shows "evolves db db'" "authority_ok db \<Longrightarrow> authority_ok db'"
  using authority_run_sound [OF assms] by (simp_all add: sound_def)

lemma revoke_gift_revokes:
  assumes "revoke_gift oe canon gid db = Inr (x, db')" "authority_ok db" "canon gid = Some i" "row_get gi_id (ad_gifts db) i = Some g"
  shows "revoked (gi_license_id g) db'"
  using assms(1)
proof (cases rule: revoke_gift_Inr)
  case (1 i2 g2)
  then show ?thesis using assms(3,4) authority_okD(3) [OF assms(2)] by (auto simp: gifts_ok_def dest!: row_get_Some)
next
  case (2 i2 g2)
  have "revoked (gi_license_id g) (revoke_license (oe_clock oe) (gi_license_id g) db)"
    by (rule revoke_license_revokes [OF gift_license [OF assms(2,4)]])
  then show ?thesis using 2 assms(3,4) by (simp add: revoked_def audit_def log_gift_event_def)
qed

lemma revoke_external_revokes:
  assumes "revoke_external_entitlement oe c r db = Inr (ack, db')" "authority_ok db"
  shows "revoked (ra_license_id ack) db'"
proof -
  from assms(1) consider v identity where "find_revocation (re_source r) (re_source_id r) db = Some v" "db' = db"
      "replay_revocation identity (re_authority_id r) (revocation_digest oe identity r) v = Inr ack"
    | i identity where "accept_revocation oe c r identity i db = Inr (ack, db')"
    by (auto simp: revoke_external_entitlement_def result_simps split: option.splits)
  then show ?thesis
  proof cases
    case (1 v identity)
    have "v \<in> set (ad_revocations db)" using 1(1) by (auto simp: find_revocation_def find_Some_iff)
    moreover have "ra_license_id ack = xv_license_id v" using 1(3) by (auto simp: replay_revocation_def split: if_splits option.splits)
    ultimately show ?thesis using authority_okD(5) [OF assms(2)] 1(2) by (simp add: revocations_ok_def)
  next
    case (2 i identity)
    have "ra_license_id ack = i" using 2 by (auto simp: accept_revocation_def result_simps)
    then show ?thesis using accept_revocation_revokes [OF 2] by simp
  qed
qed

lemma revoked_refuses:
  assumes "revoked i db"
  shows "\<nexists>cert db'. activate oe c i key nonce prf db = Inr (cert, db')"
    "\<nexists>ch db'. issue_activation_challenge oe i key ttl db = Inr (ch, db')"
    "\<nexists>ch cert db'. row_get ch_id (ad_challenges db) j = Some ch \<and> ch_license_id ch = i \<and> activate_challenge oe c j prf flow db = Inr (cert, db')"
  using assms unfolding activate_def
  by (auto simp: revoked_def issue_activation_challenge_def result_simps elim!: activate_Inr activate_challenge_Inr)

text \<open>
  C24: A revoked license is dead for good: once a gift has been revoked, or the revocation of a purchase has been acknowledged, then after
  any further operations no device is active on that license, no activation of it succeeds, directly or by any of its challenges, and
  no new challenge is issued for it.
\<close>

theorem revoked_license_stays_dead:
  assumes "authority_step\<^sup>*\<^sup>* empty_authority db"
    "(\<exists>x gid j g. revoke_gift oe canon gid db = Inr (x, db1) \<and> canon gid = Some j \<and> row_get gi_id (ad_gifts db) j = Some g \<and> i = gi_license_id g) \<or>
     (\<exists>ack. revoke_external_entitlement oe c r db = Inr (ack, db1) \<and> i = ra_license_id ack)"
    "authority_step\<^sup>*\<^sup>* db1 db2"
  shows "active_seats i db2 = 0 \<and>
    (\<forall>oe c key nonce prf. \<nexists>cert db3. activate oe c i key nonce prf db2 = Inr (cert, db3)) \<and>
    (\<forall>oe c j ch prf flow. row_get ch_id (ad_challenges db2) j = Some ch \<and> ch_license_id ch = i \<longrightarrow>
       (\<nexists>cert db3. activate_challenge oe c j prf flow db2 = Inr (cert, db3))) \<and>
    (\<forall>oe key ttl. \<nexists>ch db3. issue_activation_challenge oe i key ttl db2 = Inr (ch, db3))"
proof -
  have ok: "authority_ok db" by (rule authority_run_ok) fact
  have rev1: "revoked i db1" and ok1: "authority_ok db1"
    using assms(2) revoke_gift_revokes [OF _ ok] revoke_external_revokes [OF _ ok] sound_revoke_gift sound_revoke_external ok
    by (auto simp: sound_def)
  have rev: "revoked i db2" and ok2: "authority_ok db2" using run_keeps [OF assms(3)] evolves_revoked rev1 ok1 by blast+
  have "active_seats i db2 = 0" using rev seat_bound [OF authority_okD(2) [OF ok2]] by (fastforce simp: revoked_def)
  then show ?thesis using revoked_refuses [OF rev] by blast
qed

section \<open>Rotation of a gift key\<close>

lemma same_gift:
  assumes "authority_ok db" "g \<in> set (ad_gifts db)" "h \<in> set (ad_gifts db)" "gi_license_id g = gi_license_id h"
  shows "g = h"
  using assms authority_okD(3) [OF assms(1)] by (auto simp: gifts_ok_def intro: same_key)

lemma old_challenge_closed:
  assumes "authority_ok db" "row_get gi_id (ad_gifts db) i = Some g" "ch_license_id ch = gi_license_id g"
    "ch_flow_kind ch = Some ''gift''" "ch_entitlement_generation ch = Some n" "n < gi_secret_generation g"
  shows "\<not> flow_open ch flow db"
proof
  assume "flow_open ch flow db"
  then have "case row_get gi_license_id (ad_gifts db) (ch_license_id ch) of
      None \<Rightarrow> False | Some g \<Rightarrow> gi_status g = ''active'' \<and> ch_entitlement_generation ch = Some (gi_secret_generation g)"
    unfolding flow_open_def assms(4) option.inject by presburger
  then obtain h where h: "row_get gi_license_id (ad_gifts db) (gi_license_id g) = Some h" "gi_secret_generation h = n"
    unfolding assms(3,5) by (cases "row_get gi_license_id (ad_gifts db) (gi_license_id g)") simp_all
  have "g = h" using same_gift [OF assms(1), of g h] row_get_Some [OF assms(2)] row_get_Some [OF h(1)] by simp
  then show False using h(2) assms(6) by simp
qed

text \<open>
  C25: Rotating the key of a gift closes every challenge issued before: whatever happens afterwards, a challenge of the gift that existed
  at the rotation never activates a device again, not even one it had already answered.
\<close>

theorem rotation_closes_old_challenges:
  assumes "authority_step\<^sup>*\<^sup>* empty_authority db" "recover_gift oe canon gid db = Inr (x, db1)" "authority_step\<^sup>*\<^sup>* db1 db2"
    "canon gid = Some i" "row_get gi_id (ad_gifts db) i = Some g"
    "row_get ch_id (ad_challenges db) j = Some ch" "ch_flow_kind ch = Some ''gift''" "ch_license_id ch = gi_license_id g"
  shows "activate_challenge oe2 c j prf flow db2 = Inl (Value_Error ''challenge_unavailable'')"
proof -
  have ok: "authority_ok db" by (rule authority_run_ok) fact
  have ok2: "authority_ok db2" using sound_recover_gift [OF assms(2)] ok run_keeps(2) [OF assms(3)] by (simp add: sound_def)
  have "challenge_ok (ad_gifts db) ch" using authority_okD(4) [OF ok] assms(6) by (auto simp: challenges_ok_def dest!: row_get_Some)
  then obtain h n where h: "h \<in> set (ad_gifts db)" "gi_license_id h = ch_license_id ch" "ch_entitlement_generation ch = Some n" "n \<le> gi_secret_generation h"
    using assms(7) unfolding challenge_ok_def by blast
  have "h = g" using same_gift [OF ok, of h g] h(1,2) assms(8) row_get_Some [OF assms(5)] by simp
  from assms(2) obtain g1 where g1: "row_get gi_id (ad_gifts db1) i = Some g1" "gi_license_id g1 = gi_license_id g"
      "gi_secret_generation g1 = gi_secret_generation g + 1"
    using assms(4,5) by (cases rule: recover_gift_Inr) (auto simp: audit_def log_gift_event_def consume_challenges_def row_get_update)
  obtain g2 where g2: "row_get gi_id (ad_gifts db2) i = Some g2" "gift_grows g1 g2"
    using run_keeps(1) [OF assms(3)] g1(1) unfolding evolves_def rows_grow_def by blast
  have "evolves db db2" using sound_recover_gift [OF assms(2)] run_keeps(1) [OF assms(3)] evolves_trans by (auto simp: sound_def)
  then obtain ch2 where ch2: "row_get ch_id (ad_challenges db2) j = Some ch2" "challenge_grows ch ch2"
    using assms(6) unfolding evolves_def rows_grow_def by blast
  have "\<not> flow_open ch2 flow db2"
    by (rule old_challenge_closed [OF ok2 g2(1), where n = n])
      (use ch2(2) g2(2) g1 h(3,4) \<open>h = g\<close> assms(7,8) in \<open>auto simp: challenge_grows_def gift_grows_def\<close>)
  then show ?thesis using ch2(1) by (simp add: activate_challenge_def)
qed

section \<open>Repeated requests\<close>

lemma grant_seat_effect:
  assumes "grant_seat oe c l d key nonce prf db = Inr (cert, db')" "row_get rr_digest (ad_requests db) (request_digest oe (li_id l) d nonce prf) = None"
  shows "row_get rr_digest (ad_requests db') (request_digest oe (li_id l) d nonce prf) = Some (seat_request oe nonce prf cert)"
    "ad_licenses db' = ad_licenses db"
proof -
  obtain db1 db2 where 1: "insert_request (seat_request oe nonce prf cert) db = Inr db1"
    "(if find_activation (li_id l) d db = None then insert_activation (seat_row oe nonce prf cert) db1 else reactivate (seat_row oe nonce prf cert) db1) = Inr db2"
    "db' = audit oe ''device_activated'' (li_id l) (Some d) (JObj []) db2" "ct_license_id cert = li_id l" "ct_device_id cert = d"
    using assms(1) by (rule grant_seat_Inr)
  have db1: "ad_requests db1 = ad_requests db @ [seat_request oe nonce prf cert]" "ad_licenses db1 = ad_licenses db"
    using 1(1) by (auto simp: insert_request_def split: if_splits)
  have db2: "ad_requests db2 = ad_requests db1" "ad_licenses db2 = ad_licenses db1"
    using 1(2) by (auto simp: insert_activation_def reactivate_def Let_def split: if_splits)
  have "rr_digest (seat_request oe nonce prf cert) = request_digest oe (li_id l) d nonce prf" using 1(4,5) by (simp add: seat_request_def)
  then show "row_get rr_digest (ad_requests db') (request_digest oe (li_id l) d nonce prf) = Some (seat_request oe nonce prf cert)"
    using assms(2) by (simp add: 1(3) audit_def db1 db2 row_get_snoc)
  show "ad_licenses db' = ad_licenses db" by (simp add: 1(3) audit_def db1 db2)
qed

text \<open>
  An activation whose answer was lost can be asked for again: the same request, made at any later time before the license expires,
  gets the same certificate and changes nothing but the audit log, so it never takes a second seat.
\<close>

theorem activation_is_idempotent:
  assumes "activate oe c i key nonce prf db = Inr (cert, db1)"
    "get_license db i = Some l" "case li_expires_at l of None \<Rightarrow> True | Some t \<Rightarrow> later < t"
  shows "\<exists>entry. activate (oe\<lparr>oe_clock := later\<rparr>) c2 i key nonce prf db1 = Inr (cert, ad_audit_update (\<lambda>rs. rs @ [entry]) db1)"
  using assms(1) [unfolded activate_def]
proof (cases rule: activate_Inr)
  case (1 d l')
  have ll: "l' = l" using 1(4) assms(2) by simp
  obtain r where r: "row_get rr_digest (ad_requests db1) (request_digest oe i d nonce prf) = Some r" "rr_status r = ''active''" "rr_certificate r = Some cert"
    and lic: "ad_licenses db1 = ad_licenses db"
  proof -
    from 1(8) show thesis
    proof (elim disjE exE conjE)
      fix r assume "row_get rr_digest (ad_requests db) (request_digest oe i d nonce prf) = Some r" "rr_status r = ''active''"
        "rr_certificate r = Some cert" "db1 = audit oe ''activation_retrieved'' i (Some d) (JObj []) db"
      then show thesis by (intro that [of r]) (simp_all add: audit_def)
    next
      assume none: "row_get rr_digest (ad_requests db) (request_digest oe i d nonce prf) = None" and run: "grant_seat oe c l' d key nonce prf db = Inr (cert, db1)"
      note e = grant_seat_effect [OF run, unfolded 1(5), OF none]
      show thesis by (rule that [OF e(1) _ _ e(2)]) (simp_all add: seat_request_def)
    qed
  qed
  let ?oe = "oe\<lparr>oe_clock := later\<rparr>"
  have same: "device_identifier ?oe = device_identifier oe" "proof_valid ?oe = proof_valid oe" "request_digest ?oe = request_digest oe"
    by (auto simp: fun_eq_iff device_identifier_def proof_valid_def request_digest_def split: option.splits)
  have "activate ?oe c2 i key nonce prf db1 = Inr (cert, audit ?oe ''activation_retrieved'' i (Some d) (JObj []) db1)"
    using 1(1-4,6) r lic assms(3) ll
    by (simp add: activate_def activate_in_transaction_def same result_simps) (auto split: option.splits)
  then show ?thesis by (auto simp: audit_def)
qed

lemma terms_fields: "terms l' = terms l \<Longrightarrow> li_id l' = li_id l \<and> li_edition l' = li_edition l \<and> li_major_version l' = li_major_version l \<and> li_seat_limit l' = li_seat_limit l"
  by (cases l; cases l') (simp add: terms_def)

lemma delivery_answer_terms:
  "terms l' = terms l \<Longrightarrow> oe_json_digest oe' = oe_json_digest oe \<Longrightarrow> delivery_answer oe' d identity l' signature = delivery_answer oe d identity l signature"
  using terms_fields [of l' l] by (simp add: delivery_answer_def delivery_receipt_def)

text \<open>A delivery that has been acknowledged: its row and its license.\<close>

definition delivered :: "outside \<Rightarrow> delivery \<Rightarrow> delivery_ack \<Rightarrow> authority_db \<Rightarrow> bool" where
  "delivered oe d ack db \<longleftrightarrow> (\<exists>e l. find_entitlement (de_source d) (de_source_id d) db = Some e \<and> get_license db (xe_license_id e) = Some l \<and>
     replay_entitlement oe d (de_signer_identity d) e l = Inr ack)"

lemma delivered_evolves:
  assumes "delivered oe d ack db" "evolves db db'" "oe_json_digest oe' = oe_json_digest oe"
  shows "delivered oe' d ack db'"
proof -
  from assms(1) obtain e l where e: "find_entitlement (de_source d) (de_source_id d) db = Some e" and l: "get_license db (xe_license_id e) = Some l"
    and ack: "replay_entitlement oe d (de_signer_identity d) e l = Inr ack" unfolding delivered_def by blast
  have e': "find_entitlement (de_source d) (de_source_id d) db' = Some e"
    using assms(2) e by (auto simp: evolves_def find_entitlement_def find_append)
  obtain l' where l': "get_license db' (xe_license_id e) = Some l'" "terms l' = terms l"
    using assms(2) l unfolding evolves_def rows_grow_def license_grows_def by blast
  have "replay_entitlement oe' d (de_signer_identity d) e l' = Inr ack"
    using ack delivery_answer_terms [OF l'(2) assms(3)] by (auto simp: replay_entitlement_def split: if_splits option.splits)
  then show ?thesis using e' l'(1) unfolding delivered_def by blast
qed

lemma accepted_identity: "accepted_signer_identity oe c i db = Inr identity \<Longrightarrow> identity = i \<and> si_authority_id i = ce_authority_id c"
  by (auto simp: accepted_signer_identity_def handshake_def result_simps)

lemma create_external_delivers:
  assumes "create_external_entitlement oe c d db = Inr (ack, db')"
  shows "delivered oe d ack db'" "de_authority_id d = ce_authority_id c" "source_ok (de_source d)" "hex64 (de_source_id d)" "hex64 (de_payload_digest d)"
    "de_edition d \<in> EDITIONS" "de_major_version d = 1" "de_seat_limit d \<in> {1, 2}"
proof -
  from assms obtain identity where a: "de_authority_id d = ce_authority_id c" "accepted_signer_identity oe c (de_signer_identity d) db = Inr identity"
    and b: "source_ok (de_source d)" "hex64 (de_source_id d)" "hex64 (de_payload_digest d)" "de_edition d \<in> EDITIONS" "de_major_version d = 1" "de_seat_limit d \<in> {1, 2}"
    and run: "(case find_entitlement (de_source d) (de_source_id d) db of
          Some e \<Rightarrow> (case get_license db (xe_license_id e) of
               Some l \<Rightarrow> and_then (replay_entitlement oe d identity e l) (\<lambda>ack. Inr (ack, db))
             | None \<Rightarrow> accept_entitlement oe c d identity db)
        | None \<Rightarrow> accept_entitlement oe c d identity db) = Inr (ack, db')"
    by (auto simp: create_external_entitlement_def if_Inl_eq_Inr and_then_eq_Inr)
  have id: "identity = de_signer_identity d" "si_authority_id identity = de_authority_id d" using accepted_identity [OF a(2)] a(1) by simp_all
  show "delivered oe d ack db'"
  proof (cases "accept_entitlement oe c d identity db = Inr (ack, db')")
    case True
    then show ?thesis
    proof (cases rule: accept_entitlement_Inr)
      case (1 signature db1 db2 detail)
      let ?l = "entitled_license oe d" and ?e = "entitlement_row oe d identity (li_id (entitled_license oe d)) signature"
      have db2: "ad_entitlements db2 = ad_entitlements db1 @ [?e]" "find_entitlement (de_source d) (de_source_id d) db1 = None" "ad_licenses db2 = ad_licenses db1"
        using 1(2) by (auto simp: insert_entitlement_def entitlement_row_def split: if_splits)
      have db1: "ad_licenses db1 = ad_licenses db @ [?l]" "get_license db (li_id ?l) = None"
        using 1(1) by (auto simp: insert_license_def has_row_get_not_None split: if_splits)
      have "find_entitlement (de_source d) (de_source_id d) db' = Some ?e"
        using db2(2) by (simp add: find_entitlement_def 1(4) audit_def db2(1) find_append) (simp add: entitlement_row_def)
      moreover have "get_license db' (li_id ?l) = Some ?l" using db1(2) by (simp add: 1(4) audit_def db2(3) db1(1) row_get_snoc)
      moreover have "replay_entitlement oe d (de_signer_identity d) ?e ?l = Inr ack"
        using id by (simp add: replay_entitlement_def entitlement_row_def stored_is_def 1(3))
      ultimately show ?thesis unfolding delivered_def by (auto simp: entitlement_row_def)
    qed
  next
    case False
    then show ?thesis using run id unfolding delivered_def by (auto simp: result_simps split: option.splits)
  qed
  show "de_authority_id d = ce_authority_id c" by (rule a)
  show "source_ok (de_source d)" "hex64 (de_source_id d)" "hex64 (de_payload_digest d)" "de_edition d \<in> EDITIONS" "de_major_version d = 1"
    "de_seat_limit d \<in> {1, 2}" by (rule b)+
qed

text \<open>
  A purchase becomes one license: once a delivery has been acknowledged, the same delivery, repeated after any further operations while
  the same signer is in charge, gets the same acknowledgement (license, receipt and signature) and changes nothing.
\<close>

theorem delivery_exactly_once:
  assumes "create_external_entitlement oe c d db = Inr (ack, db1)" "authority_step\<^sup>*\<^sup>* db1 db2"
    "accepted_signer_identity oe2 c (de_signer_identity d) db2 = Inr identity" "oe_json_digest oe2 = oe_json_digest oe"
  shows "create_external_entitlement oe2 c d db2 = Inr (ack, db2)"
proof -
  note e = create_external_delivers [OF assms(1)]
  have "delivered oe2 d ack db2" by (rule delivered_evolves [OF e(1) run_keeps(1) [OF assms(2)] assms(4)])
  moreover have "identity = de_signer_identity d" using accepted_identity [OF assms(3)] by simp
  ultimately show ?thesis using e(2-8) assms(3) unfolding delivered_def create_external_entitlement_def by (auto simp: result_simps)
qed

section \<open>Gift keys\<close>

lemma hex_groups_length: "hex_groups ns s \<Longrightarrow> length s + 1 = sum_list ns + length ns"
  by (induction ns s rule: hex_groups.induct) auto

lemma gift_id_length: "gift_id_ok i \<Longrightarrow> length i = 36"
  using hex_groups_length [of "[8, 4, 4, 4, 12]" i] by (simp add: gift_id_ok_def)

lemma no_space_at_ends: "s \<noteq> [] \<Longrightarrow> \<not> py_space (hd s) \<Longrightarrow> \<not> py_space (last s) \<Longrightarrow> strip s = s"
proof -
  assume s: "s \<noteq> []" "\<not> py_space (hd s)" "\<not> py_space (last s)"
  then obtain xs x where "s = xs @ [x]" by (meson rev_exhaust)
  then have "dropWhile py_space (rev s) = rev s" using s(3) by simp
  moreover have "dropWhile py_space s = s" using s(1,2) by (cases s) simp_all
  ultimately show ?thesis by (simp add: strip_def)
qed

lemma key_char_no_space: "alnum c \<or> c \<in> set ''_-'' \<Longrightarrow> \<not> py_space c"
  by (auto simp: alnum_def lower_digit_def py_space_def)

text \<open>The key handed out with a gift is read back as that gift with that secret.\<close>

lemma claim_key_parses:
  assumes "gift_id_ok i" "secret_ok secret"
  shows "parse_activation_capability (claim_key i secret) = Inr (Gift, i, secret)"
proof -
  have len: "length i = 36" "length secret = 32" using gift_id_length assms by (auto simp: secret_ok_def)
  then have ne: "secret \<noteq> []" by auto
  then have "last (claim_key i secret) = last secret" by (simp add: claim_key_def)
  moreover have "\<not> py_space (last secret)"
    using assms(2) ne by (intro key_char_no_space) (auto simp: secret_ok_def list_all_iff)
  ultimately have "strip (claim_key i secret) = claim_key i secret"
    by (intro no_space_at_ends) (simp_all add: claim_key_def py_space_def)
  moreover have "match_key ''GM1.'' (claim_key i secret) = None" by (simp add: match_key_def claim_key_def Let_def)
  moreover have "match_key ''GMG1.'' (claim_key i secret) = Some (i, secret)"
    using assms len by (simp add: match_key_def claim_key_def Let_def nth_append)
  ultimately show ?thesis using len by (simp add: parse_activation_capability_def) (simp add: claim_key_def)
qed

section \<open>Witnesses\<close>

definition sample_ceremony :: ceremony where
  "sample_ceremony = \<lparr>ce_authority_id = ''gm-main'', ce_key_id = ''key'', ce_generation = 1, ce_activated_at = ''t'', ce_predecessor = None,
     ce_public_key_sha256 = replicate 64 CHR ''a'', ce_attestation = ''hsm''\<rparr>"

text \<open>An environment whose hash keeps the last characters of a text, at the time \<open>t\<close>.\<close>

definition sample_outside :: "timestamp \<Rightarrow> char \<Rightarrow> outside" where
  "sample_outside t u = \<lparr>oe_clock = t, oe_uuid_hex = (\<lambda>_. replicate 32 u), oe_uuid = ''11111111-1111-1111-8111-111111111111'',
     oe_token = replicate 32 u, oe_sha256 = (\<lambda>s. drop (length s) (replicate 64 CHR ''0'' @ s)), oe_json_digest = (\<lambda>_. replicate 64 CHR ''d''),
     oe_b64decode = Some, oe_b64encode = (\<lambda>s. s), oe_valid_key = (\<lambda>_. True), oe_verify = (\<lambda>_ _ _. True),
     oe_sign = (\<lambda>_. Some (replicate 64 CHR ''s'')), oe_public_verify = (\<lambda>_ _. True), oe_ceremony_digest = (\<lambda>_. replicate 64 CHR ''a''),
     oe_anchor = \<lparr>an_claim = \<lparr>cl_generation = 1, cl_ceremony = Some (replicate 64 CHR ''a'')\<rparr>, an_available = True\<rparr>,
     oe_event_time = (\<lambda>_. Some t)\<rparr>"

definition sample_policy :: license_policy where
  "sample_policy = \<lparr>lp_license_id = Some ''lic'', lp_edition = ''personal'', lp_major_version = 1, lp_seat_limit = 1, lp_expires_at = None, lp_check_in_days = 30\<rparr>"

definition sample_key :: string where
  "sample_key = replicate 32 CHR ''k''"

definition pinned_authority :: authority_db where
  "pinned_authority = ad_pins_update (\<lambda>_. [\<lparr>pn_generation = 1, pn_descriptor = sample_ceremony, pn_pinned_at = 0\<rparr>]) empty_authority"

lemma pinned_reachable: "authority_step\<^sup>*\<^sup>* empty_authority pinned_authority"
  unfolding pinned_authority_def by (rule r_into_rtranclp) (rule step_pins)

text \<open>The database an operation leaves.\<close>

definition after :: "('a \<times> authority_db) answer \<Rightarrow> authority_db" where
  "after m = (case m of Inr (_, db) \<Rightarrow> db | Inl _ \<Rightarrow> empty_authority)"

definition succeeds :: "'a answer \<Rightarrow> bool" where
  "succeeds m \<longleftrightarrow> (case m of Inr _ \<Rightarrow> True | Inl _ \<Rightarrow> False)"

lemma succeeds_after: "succeeds m \<Longrightarrow> \<exists>x. m = Inr (x, after m)"
  by (auto simp: succeeds_def after_def split: sum.splits)

definition licensed_db :: authority_db where
  "licensed_db = after (create_license (sample_outside 1 CHR ''a'') sample_policy pinned_authority)"

abbreviation sample_activation :: "timestamp \<Rightarrow> authority_db \<Rightarrow> (certificate \<times> authority_db) answer" where
  "sample_activation t db \<equiv> activate ((sample_outside 2 CHR ''b'')\<lparr>oe_clock := t\<rparr>) sample_ceremony ''lic'' sample_key (replicate 16 CHR ''n'') ''proof'' db"

definition activated_db :: authority_db where
  "activated_db = after (sample_activation 2 licensed_db)"

lemma licensed_reachable: "authority_step\<^sup>*\<^sup>* empty_authority licensed_db"
proof -
  have "succeeds (create_license (sample_outside 1 CHR ''a'') sample_policy pinned_authority)" by code_simp
  then show ?thesis unfolding licensed_db_def
    using succeeds_after step_license pinned_reachable by (meson rtranclp.rtrancl_into_rtrancl)
qed

lemma activated_run: "\<exists>cert. sample_activation 2 licensed_db = Inr (cert, activated_db)"
proof -
  have "succeeds (sample_activation 2 licensed_db)" by code_simp
  then show ?thesis unfolding activated_db_def by (rule succeeds_after)
qed

theorem activation_is_idempotent_witness:
  "\<exists>cert entry. sample_activation 2 licensed_db = Inr (cert, activated_db) \<and> active_seats ''lic'' activated_db = 1 \<and>
     sample_activation 50 activated_db = Inr (cert, ad_audit_update (\<lambda>rs. rs @ [entry]) activated_db)"
proof -
  obtain cert where run: "sample_activation 2 licensed_db = Inr (cert, activated_db)" using activated_run by blast
  have "case get_license licensed_db ''lic'' of None \<Rightarrow> False | Some l \<Rightarrow> li_expires_at l = None" by code_simp
  then obtain l where l: "get_license licensed_db ''lic'' = Some l" "li_expires_at l = None" by (auto split: option.splits)
  have "active_seats ''lic'' activated_db = 1" by code_simp
  then show ?thesis using activation_is_idempotent [OF run l(1), of 50 sample_ceremony] run l(2) by simp
qed

theorem seats_never_exceeded_witness:
  "\<exists>l. authority_step\<^sup>*\<^sup>* empty_authority activated_db \<and> get_license activated_db ''lic'' = Some l \<and> active_seats ''lic'' activated_db = 1 \<and>
     int (active_seats ''lic'' activated_db) \<le> li_seat_limit l \<and> li_seat_limit l \<in> {1, 2}"
proof -
  have run: "authority_step\<^sup>*\<^sup>* empty_authority activated_db"
    using licensed_reachable activated_run step_activate by (meson rtranclp.rtrancl_into_rtrancl)
  have "case get_license activated_db ''lic'' of None \<Rightarrow> False | Some _ \<Rightarrow> active_seats ''lic'' activated_db = 1" by code_simp
  then obtain l where l: "get_license activated_db ''lic'' = Some l" "active_seats ''lic'' activated_db = 1" by (auto split: option.splits)
  then show ?thesis using seats_never_exceeded [OF run l(1)] run by blast
qed

definition gifted_db :: authority_db where
  "gifted_db = after (create_gift (sample_outside 1 CHR ''a'') Some sample_policy pinned_authority)"

definition gift_uuid :: string where
  "gift_uuid = ''11111111-1111-1111-8111-111111111111''"

definition claimed_db :: authority_db where
  "claimed_db = after (issue_gift_claim_challenge (sample_outside 2 CHR ''b'') gift_uuid (replicate 32 CHR ''a'') sample_key 300 gifted_db)"

definition rotated_db :: authority_db where
  "rotated_db = after (recover_gift (sample_outside 3 CHR ''c'') Some gift_uuid claimed_db)"

definition revoked_db :: authority_db where
  "revoked_db = after (revoke_gift (sample_outside 3 CHR ''c'') Some gift_uuid claimed_db)"

lemma claimed_reachable: "authority_step\<^sup>*\<^sup>* empty_authority claimed_db"
proof -
  have "succeeds (create_gift (sample_outside 1 CHR ''a'') Some sample_policy pinned_authority)" by code_simp
  then have "authority_step pinned_authority gifted_db" unfolding gifted_db_def using succeeds_after step_gift by metis
  moreover have "succeeds (issue_gift_claim_challenge (sample_outside 2 CHR ''b'') gift_uuid (replicate 32 CHR ''a'') sample_key 300 gifted_db)" by code_simp
  then have "authority_step gifted_db claimed_db" unfolding claimed_db_def using succeeds_after step_gift_challenge by metis
  ultimately show ?thesis using pinned_reachable by (meson rtranclp.rtrancl_into_rtrancl)
qed

lemma claimed_rows:
  obtains g ch where "row_get gi_id (ad_gifts claimed_db) gift_uuid = Some g" "row_get ch_id (ad_challenges claimed_db) (''gmc_'' @ replicate 32 CHR ''b'') = Some ch"
    "ch_flow_kind ch = Some ''gift''" "ch_license_id ch = gi_license_id g"
proof -
  have "case (row_get gi_id (ad_gifts claimed_db) gift_uuid, row_get ch_id (ad_challenges claimed_db) (''gmc_'' @ replicate 32 CHR ''b'')) of
      (Some g, Some ch) \<Rightarrow> ch_flow_kind ch = Some ''gift'' \<and> ch_license_id ch = gi_license_id g | _ \<Rightarrow> False" by code_simp
  then show thesis using that by (auto split: option.splits)
qed

theorem rotation_closes_old_challenges_witness:
  "succeeds (activate_challenge (sample_outside 3 CHR ''d'') sample_ceremony (''gmc_'' @ replicate 32 CHR ''b'') ''proof'' ''gift'' claimed_db) \<and>
   succeeds (recover_gift (sample_outside 3 CHR ''c'') Some gift_uuid claimed_db) \<and>
   activate_challenge (sample_outside 3 CHR ''d'') sample_ceremony (''gmc_'' @ replicate 32 CHR ''b'') ''proof'' ''gift'' rotated_db =
     Inl (Value_Error ''challenge_unavailable'')"
proof -
  have ok: "succeeds (recover_gift (sample_outside 3 CHR ''c'') Some gift_uuid claimed_db)" by code_simp
  then obtain x where run: "recover_gift (sample_outside 3 CHR ''c'') Some gift_uuid claimed_db = Inr (x, rotated_db)"
    unfolding rotated_db_def using succeeds_after by blast
  obtain g ch where rows: "row_get gi_id (ad_gifts claimed_db) gift_uuid = Some g" "row_get ch_id (ad_challenges claimed_db) (''gmc_'' @ replicate 32 CHR ''b'') = Some ch"
    "ch_flow_kind ch = Some ''gift''" "ch_license_id ch = gi_license_id g" by (rule claimed_rows)
  have "succeeds (activate_challenge (sample_outside 3 CHR ''d'') sample_ceremony (''gmc_'' @ replicate 32 CHR ''b'') ''proof'' ''gift'' claimed_db)"
    by code_simp
  then show ?thesis
    using ok rotation_closes_old_challenges [OF claimed_reachable run rtranclp.rtrancl_refl refl rows] by blast
qed

theorem revoked_license_stays_dead_witness:
  "succeeds (revoke_gift (sample_outside 3 CHR ''c'') Some gift_uuid claimed_db) \<and>
   (\<exists>i. get_license revoked_db i \<noteq> None \<and> active_seats i revoked_db = 0 \<and>
     (\<nexists>cert db. activate (sample_outside 3 CHR ''d'') sample_ceremony i sample_key (replicate 16 CHR ''n'') ''proof'' revoked_db = Inr (cert, db)))"
proof -
  have ok: "succeeds (revoke_gift (sample_outside 3 CHR ''c'') Some gift_uuid claimed_db)" by code_simp
  then obtain x where run: "revoke_gift (sample_outside 3 CHR ''c'') Some gift_uuid claimed_db = Inr (x, revoked_db)"
    unfolding revoked_db_def using succeeds_after by blast
  obtain g ch where g: "row_get gi_id (ad_gifts claimed_db) gift_uuid = Some g" by (rule claimed_rows)
  have "get_license revoked_db (gi_license_id g) \<noteq> None"
    using gift_license [OF authority_run_ok [OF claimed_reachable] g] evolves_license sound_revoke_gift [OF run] by (auto simp: sound_def)
  moreover have "active_seats (gi_license_id g) revoked_db = 0 \<and>
     (\<nexists>cert db. activate (sample_outside 3 CHR ''d'') sample_ceremony (gi_license_id g) sample_key (replicate 16 CHR ''n'') ''proof'' revoked_db = Inr (cert, db))"
    using revoked_license_stays_dead [OF claimed_reachable disjI1, of "sample_outside 3 CHR ''c''" Some revoked_db "gi_license_id g" revoked_db] run g by blast
  ultimately show ?thesis using ok by blast
qed

definition sample_identity :: signer_identity where
  "sample_identity = \<lparr>si_authority_id = ''gm-main'', si_key_id = ''key'', si_generation = 1, si_public_key_sha256 = replicate 64 CHR ''a'', si_attestation = ''hsm''\<rparr>"

definition sample_delivery :: delivery where
  "sample_delivery = \<lparr>de_source = ''x402'', de_source_id = replicate 64 CHR ''1'', de_payload_digest = replicate 64 CHR ''2'', de_authority_id = ''gm-main'',
     de_signer_identity = sample_identity, de_edition = ''personal'', de_major_version = 1, de_seat_limit = 2\<rparr>"

definition delivered_db :: authority_db where
  "delivered_db = after (create_external_entitlement (sample_outside 1 CHR ''a'') sample_ceremony sample_delivery pinned_authority)"

theorem delivery_exactly_once_witness:
  "\<exists>ack. create_external_entitlement (sample_outside 1 CHR ''a'') sample_ceremony sample_delivery pinned_authority = Inr (ack, delivered_db) \<and>
     create_external_entitlement (sample_outside 9 CHR ''z'') sample_ceremony sample_delivery delivered_db = Inr (ack, delivered_db) \<and>
     length (ad_licenses delivered_db) = 1"
proof -
  have "succeeds (create_external_entitlement (sample_outside 1 CHR ''a'') sample_ceremony sample_delivery pinned_authority)" by code_simp
  then obtain ack where run: "create_external_entitlement (sample_outside 1 CHR ''a'') sample_ceremony sample_delivery pinned_authority = Inr (ack, delivered_db)"
    unfolding delivered_db_def using succeeds_after by blast
  have id: "accepted_signer_identity (sample_outside 9 CHR ''z'') sample_ceremony (de_signer_identity sample_delivery) delivered_db = Inr sample_identity"
    by code_simp
  have "length (ad_licenses delivered_db) = 1" by code_simp
  then show ?thesis
    using run delivery_exactly_once [OF run rtranclp.rtrancl_refl id] by (simp add: sample_outside_def)
qed

end
