(* ===== verification/Desktop_Entitlement.thy ===== *)
theory Desktop_Entitlement
  imports License_Authority
begin

text \<open>
  The entitlement policy of the desktop application (\<open>desktop/entitlements.py\<close>): signed license documents and device activations,
  revocation assertions, the permanent free edition with its clock-rollback witness, and what the application may do with them.
  The three state files are the record \<open>state_files\<close>: a file is missing, unreadable, not JSON, or the JSON value read from it, whose
  objects may still repeat keys. Signature verification, base64, SHA-256, canonical JSON and ISO timestamps are the record \<open>desk\<close>,
  which also says whether the atomic replacement of a state file succeeds.
\<close>

section \<open>State\<close>

record entitlement =
  en_state :: string
  en_edition :: string
  en_license_id :: "string option"
  en_major_version :: "int option"
  en_device_allowance :: "int option"
  en_max_active_projects :: "int option"
  en_valid :: bool
  en_mutations_allowed :: bool
  en_reason :: string
  en_free_started_at :: "timestamp option"

definition extraction :: "string \<Rightarrow> entitlement" where
  "extraction reason = \<lparr>en_state = ''extraction'', en_edition = ''unpaid'', en_license_id = None, en_major_version = None,
     en_device_allowance = None, en_max_active_projects = Some 0, en_valid = False, en_mutations_allowed = False, en_reason = reason,
     en_free_started_at = None\<rparr>"

datatype state_file = Missing | Unreadable | Not_Json | Json_File py

record state_files =
  sf_license :: state_file
  sf_trial :: state_file
  sf_revocation :: state_file

text \<open>What \<open>read_bytes\<close> and the loader make of the public key file.\<close>

datatype key_file = No_Key | Placeholder_Key | Bad_Pem | Other_Key | Ed25519_Key

text \<open>\<open>dk_now\<close> is the clock of a call, \<open>dk_later\<close> what \<open>apply_revocation\<close> finds when it reads the clock again.\<close>

record desk =
  dk_now :: timestamp
  dk_later :: timestamp
  dk_key_file :: key_file
  dk_verify :: "string \<Rightarrow> string \<Rightarrow> bool"
  dk_canonical :: "(string \<times> py) list \<Rightarrow> string"
  dk_b64decode :: "string \<Rightarrow> string option"
  dk_sha256 :: "string \<Rightarrow> string"
  dk_valid_key :: "string \<Rightarrow> bool"
  dk_iso :: "string \<Rightarrow> timestamp option"
  dk_canonical_utc :: "string \<Rightarrow> bool"
  dk_current_major :: int
  dk_device_public_key :: "string option"
  dk_write_ok :: bool

section \<open>JSON\<close>

text \<open>The hook of \<open>strict_json_loads\<close>: no object may repeat a key, nor two keys that differ only in case
  (\<open>casefold\<close>, which on ASCII keys is lower-casing).\<close>

fun strict_json :: "py \<Rightarrow> bool" where
  "strict_json (PyDict ms) = (distinct (map (map ascii_lower \<circ> fst) ms) \<and> list_all (strict_json \<circ> snd) ms)"
| "strict_json (PyList vs) = list_all strict_json vs"
| "strict_json _ = True"

fun read_json :: "state_file \<Rightarrow> py option" where
  "read_json (Json_File v) = (if strict_json v then Some v else None)"
| "read_json _ = None"

fun py_eq_int :: "py \<Rightarrow> int \<Rightarrow> bool" where
  "py_eq_int (PyInt i) n = (i = n)"
| "py_eq_int (PyBool b) n = ((if b then 1 else 0) = n)"
| "py_eq_int (PyFloat r) n = (r = of_int n)"
| "py_eq_int _ n = False"

fun hashable :: "py \<Rightarrow> bool" where
  "hashable (PyList _) = False"
| "hashable (PyDict _) = False"
| "hashable _ = True"

definition iso :: "desk \<Rightarrow> py \<Rightarrow> timestamp option" where
  "iso dk v = (case v of PyStr s \<Rightarrow> dk_iso dk s | _ \<Rightarrow> None)"

text \<open>An optional timestamp: absent or null gives no instant, anything unreadable fails.\<close>

definition optional_iso :: "desk \<Rightarrow> py option \<Rightarrow> timestamp option option" where
  "optional_iso dk v = (case v of None \<Rightarrow> Some None | Some PyNone \<Rightarrow> Some None | Some w \<Rightarrow> (case iso dk w of None \<Rightarrow> None | Some t \<Rightarrow> Some (Some t)))"

definition canonical_payload :: "desk \<Rightarrow> (string \<times> py) list \<Rightarrow> string" where
  "canonical_payload dk ms = dk_canonical dk (filter (\<lambda>(k, _). k \<noteq> ''signature'') ms)"

definition signature_ok :: "desk \<Rightarrow> string \<Rightarrow> (string \<times> py) list \<Rightarrow> bool" where
  "signature_ok dk domain ms \<longleftrightarrow>
     (case map_of ms ''signature'' of
        Some (PyStr s) \<Rightarrow> (case dk_b64decode dk s of None \<Rightarrow> False | Some sig \<Rightarrow> dk_verify dk sig (domain @ canonical_payload dk ms))
      | _ \<Rightarrow> False)"

section \<open>License documents\<close>

definition LICENSE_FIELDS :: "string set" where
  "LICENSE_FIELDS = {''schema_version'', ''edition'', ''license_id'', ''major_version'', ''device_allowance'', ''device_binding'', ''issued_at'',
     ''expires_at'', ''revoked_at'', ''max_active_projects'', ''next_check_in_at'', ''signature''}"

definition LICENSE_REQUIRED :: "string set" where
  "LICENSE_REQUIRED = {''schema_version'', ''edition'', ''license_id'', ''major_version'', ''device_allowance'', ''issued_at'',
     ''max_active_projects'', ''signature''}"

definition ACTIVATION_FIELDS :: "string set" where
  "ACTIVATION_FIELDS = {''schema_version'', ''certificate_type'', ''product'', ''edition'', ''license_id'', ''activation_id'', ''major_version'',
     ''device_allowance'', ''device_id'', ''device_public_key'', ''issued_at'', ''expires_at'', ''revoked_at'', ''max_active_projects'',
     ''next_check_in_at'', ''signature''}"

definition ACTIVATION_DOMAIN :: string where
  "ACTIVATION_DOMAIN = ''growthmap-activation-certificate-v2'' @ [CHR 0x00]"

definition positive_int :: "py option \<Rightarrow> bool" where
  "positive_int v \<longleftrightarrow> (case v of Some (PyInt i) \<Rightarrow> 1 \<le> i | _ \<Rightarrow> False)"

fun py_int :: "py option \<Rightarrow> int" where
  "py_int (Some (PyInt i)) = i"
| "py_int _ = 0"

definition activation_id_ok :: "string \<Rightarrow> bool" where
  "activation_id_ok s \<longleftrightarrow> take 4 s = ''gma_'' \<and> length s = 36 \<and> list_all lower_hex_digit (drop 4 s)"

definition device_id_ok :: "string \<Rightarrow> bool" where
  "device_id_ok s \<longleftrightarrow> take 6 s = ''gmdev_'' \<and> length s = 70 \<and> list_all lower_hex_digit (drop 6 s)"

text \<open>\<open>_device_id\<close>; \<open>None\<close> when it raises.\<close>

definition device_id_of :: "desk \<Rightarrow> py option \<Rightarrow> string option" where
  "device_id_of dk v =
     (case v of
        Some (PyStr k) \<Rightarrow>
          (case dk_b64decode dk k of
             None \<Rightarrow> None
           | Some raw \<Rightarrow> if length raw \<noteq> 32 \<or> \<not> dk_valid_key dk raw then None else Some (''gmdev_'' @ dk_sha256 dk raw))
      | _ \<Rightarrow> None)"

definition is_ascii :: "string \<Rightarrow> bool" where
  "is_ascii s \<longleftrightarrow> list_all (\<lambda>c. of_char c < (128 :: nat)) s"

text \<open>The binding of an activation to this device: \<open>None\<close> when it holds, otherwise the entitlement returned instead.\<close>

definition check_activation :: "desk \<Rightarrow> (string \<Rightarrow> py option) \<Rightarrow> (entitlement \<Rightarrow> entitlement) \<Rightarrow> entitlement option" where
  "check_activation dk get known =
     (if get ''certificate_type'' \<noteq> Some (PyStr ''growthmap_device_activation'') \<or> get ''product'' \<noteq> Some (PyStr ''growthmap'')
      then Some (extraction ''invalid_certificate_type'')
      else if \<not> (is_str (get ''activation_id'') \<and> activation_id_ok (py_string (get ''activation_id'')))
      then Some (extraction ''invalid_activation_id'')
      else if \<not> (is_str (get ''device_id'') \<and> device_id_ok (py_string (get ''device_id''))) then Some (extraction ''invalid_device_binding'')
      else case device_id_of dk (get ''device_public_key'') of
        None \<Rightarrow> Some (extraction ''invalid_signature'')
      | Some i \<Rightarrow>
          if i \<noteq> py_string (get ''device_id'') then Some (extraction ''invalid_device_binding'')
          else if \<not> truthy (dk_device_public_key dk) then Some (known (extraction ''device_identity_missing''))
          else if \<not> is_ascii (the (dk_device_public_key dk)) \<or> \<not> is_ascii (py_string (get ''device_public_key'')) then Some (extraction ''invalid_signature'')
          else if py_string (get ''device_public_key'') \<noteq> the (dk_device_public_key dk) then Some (known (extraction ''wrong_device''))
          else None)"

definition check_times :: "desk \<Rightarrow> (string \<Rightarrow> py option) \<Rightarrow> (timestamp option \<times> timestamp option, string) sum" where
  "check_times dk get =
     (case iso dk (the (get ''issued_at'')) of
        None \<Rightarrow> Inr ''invalid_issued_at''
      | Some _ \<Rightarrow>
          (case optional_iso dk (get ''expires_at'') of
             None \<Rightarrow> Inr ''invalid_expiry''
           | Some expiry \<Rightarrow>
               (case optional_iso dk (get ''revoked_at'') of None \<Rightarrow> Inr ''invalid_revocation'' | Some gone \<Rightarrow> Inl (expiry, gone))))"

text \<open>The signed semantics of a document whose signature has been verified.\<close>

definition known :: "(string \<Rightarrow> py option) \<Rightarrow> entitlement \<Rightarrow> entitlement" where
  "known get e = e\<lparr>en_license_id := Some (py_string (get ''license_id'')), en_major_version := Some (py_int (get ''major_version''))\<rparr>"

definition paid :: "(string \<Rightarrow> py option) \<Rightarrow> string \<Rightarrow> entitlement \<Rightarrow> entitlement" where
  "paid get state e = (known get e)\<lparr>en_state := state, en_edition := py_string (get ''edition''),
     en_device_allowance := Some (py_int (get ''device_allowance'')), en_max_active_projects := None\<rparr>"

definition passed :: "desk \<Rightarrow> timestamp option \<Rightarrow> bool" where
  "passed dk t \<longleftrightarrow> (case t of None \<Rightarrow> False | Some t \<Rightarrow> t \<le> dk_now dk)"

definition verify_terms :: "desk \<Rightarrow> (string \<Rightarrow> py option) \<Rightarrow> bool \<Rightarrow> timestamp option \<Rightarrow> timestamp option \<Rightarrow> entitlement" where
  "verify_terms dk get activation expiry gone =
     (if py_int (get ''major_version'') \<noteq> dk_current_major dk then known get (extraction ''major_mismatch'')
      else if passed dk expiry then paid get ''paid_observed'' (extraction ''expired'')
      else if passed dk gone then paid get ''paid_observed'' (extraction ''revoked'')
      else if get ''next_check_in_at'' = None \<or> \<not> activation
      then (paid get ''paid_legacy'' (extraction ''legacy_bootstrap_required''))\<lparr>en_valid := True\<rparr>
      else case iso dk (the (get ''next_check_in_at'')) of
        None \<Rightarrow> extraction ''invalid_signature''
      | Some t \<Rightarrow>
          if dk_now dk > t then known get (extraction ''check_in_required'')
          else (paid get ''paid'' (extraction ''valid''))\<lparr>en_valid := True, en_mutations_allowed := True\<rparr>)"

definition verify_signed :: "desk \<Rightarrow> (string \<Rightarrow> py option) \<Rightarrow> bool \<Rightarrow> entitlement" where
  "verify_signed dk get activation =
     (if py_int (get ''device_allowance'') > 2 then extraction ''invalid_device_allowance''
      else if get ''max_active_projects'' \<noteq> Some PyNone then extraction ''invalid_limit''
      else case check_times dk get of
        Inr reason \<Rightarrow> extraction reason
      | Inl (expiry, gone) \<Rightarrow>
          (case (if activation then check_activation dk get (known get)
                 else if get ''device_binding'' \<noteq> None \<and> get ''device_binding'' \<noteq> Some PyNone then Some (extraction ''device_binding_unsupported'')
                 else None) of
             Some e \<Rightarrow> e
           | None \<Rightarrow> verify_terms dk get activation expiry gone))"

definition verify_document :: "desk \<Rightarrow> py \<Rightarrow> entitlement" where
  "verify_document dk doc =
     (case doc of
        PyDict ms \<Rightarrow>
          let get = map_of ms; keys = dict_keys ms;
              activation = (case get ''schema_version'' of None \<Rightarrow> False | Some v \<Rightarrow> py_eq_int v 2)
          in
          if (if activation then keys \<noteq> ACTIVATION_FIELDS else \<not> keys \<subseteq> LICENSE_FIELDS \<or> \<not> LICENSE_REQUIRED \<subseteq> keys) then extraction ''invalid_document''
          else if get ''schema_version'' \<notin> {Some (PyInt 1), Some (PyInt 2)} then extraction ''unsupported_schema''
          else if \<not> hashable (the (get ''edition'')) then extraction ''invalid_signature''
          else if \<not> is_str (get ''edition'') \<or> py_string (get ''edition'') \<notin> EDITIONS then extraction ''invalid_edition''
          else if \<not> is_str (get ''license_id'') \<or> \<not> license_id_ok (py_string (get ''license_id'')) then extraction ''invalid_license_id''
          else if \<not> positive_int (get ''major_version'') then extraction ''invalid_major_version''
          else if \<not> positive_int (get ''device_allowance'') then extraction ''invalid_device_allowance''
          else if dk_key_file dk = Placeholder_Key then extraction ''placeholder_public_key''
          else if dk_key_file dk = Other_Key then extraction ''invalid_public_key''
          else if dk_key_file dk \<noteq> Ed25519_Key \<or> \<not> signature_ok dk (if activation then ACTIVATION_DOMAIN else []) ms then extraction ''invalid_signature''
          else verify_signed dk get activation
      | _ \<Rightarrow> extraction ''invalid_document'')"

section \<open>Revocation assertions\<close>

definition REVOCATION_FIELDS :: "string set" where
  "REVOCATION_FIELDS = {''schema_version'', ''assertion_type'', ''product'', ''major_version'', ''license_id'', ''revoked_at'', ''sequence'',
     ''reason_code'', ''signature''}"

definition is_int :: "py option \<Rightarrow> bool" where
  "is_int v \<longleftrightarrow> (case v of Some (PyInt _) \<Rightarrow> True | _ \<Rightarrow> False)"

definition reason_ok :: "py option \<Rightarrow> bool" where
  "reason_ok v \<longleftrightarrow> v = Some PyNone \<or> is_str v \<and> py_string v \<in> {''refund'', ''chargeback'', ''fraud'', ''terms_violation'', ''administrative''}"

definition verify_revocation_assertion :: "desk \<Rightarrow> py \<Rightarrow> string \<Rightarrow> int \<Rightarrow> py option \<Rightarrow> unit answer" where
  "verify_revocation_assertion dk doc license_id minimum_sequence issued_at =
     (case doc of
        PyDict ms \<Rightarrow>
          let get = map_of ms in
          and_then (require (dict_keys ms = REVOCATION_FIELDS) ''invalid_revocation_document'') (\<lambda>_.
          and_then (require (is_int (get ''schema_version'') \<and> is_int (get ''major_version'') \<and> is_int (get ''sequence'')) ''invalid_revocation_integer'') (\<lambda>_.
          and_then (require (is_str (get ''assertion_type'') \<and> is_str (get ''product'') \<and> is_str (get ''license_id'') \<and>
              is_str (get ''revoked_at'') \<and> is_str (get ''signature'')) ''invalid_revocation_string'') (\<lambda>_.
          and_then (require (py_int (get ''schema_version'') = 1 \<and> py_string (get ''assertion_type'') = ''growthmap_license_revocation'' \<and>
              py_string (get ''product'') = ''growthmap'') ''unsupported_revocation_schema'') (\<lambda>_.
          and_then (require (py_string (get ''license_id'') = license_id) ''revocation_license_mismatch'') (\<lambda>_.
          and_then (require (py_int (get ''major_version'') = dk_current_major dk) ''revocation_major_mismatch'') (\<lambda>_.
          and_then (require (minimum_sequence < py_int (get ''sequence'')) ''revocation_sequence_replay'') (\<lambda>_.
          and_then (require (reason_ok (get ''reason_code'')) ''invalid_revocation_reason'') (\<lambda>_.
          and_then (require (dk_canonical_utc dk (py_string (get ''revoked_at'')) \<and> dk_iso dk (py_string (get ''revoked_at'')) \<noteq> None) ''timestamp'') (\<lambda>_.
            let gone = the (dk_iso dk (py_string (get ''revoked_at''))) in
            and_then (require (gone \<le> dk_now dk + seconds 300) ''revocation_from_future'') (\<lambda>_.
            and_then (case issued_at of
                None \<Rightarrow> Inr ()
              | Some PyNone \<Rightarrow> Inr ()
              | Some v \<Rightarrow> (case iso dk v of None \<Rightarrow> Inl (Value_Error ''timestamp'') | Some t \<Rightarrow> require (t \<le> gone) ''revocation_before_license_issue'')) (\<lambda>_.
            and_then (require (dk_key_file dk = Ed25519_Key) ''invalid_public_key'') (\<lambda>_.
              require (signature_ok dk (''growthmap-revocation-v1'' @ [CHR 0x00]) ms) ''invalid_signature''))))))))))))
      | _ \<Rightarrow> Inl (Value_Error ''invalid_revocation_document''))"

definition apply_revocation :: "desk \<Rightarrow> state_file \<Rightarrow> py option \<Rightarrow> entitlement \<Rightarrow> entitlement" where
  "apply_revocation dk f issued_at e =
     (if en_state e \<notin> {''paid'', ''paid_legacy''} \<or> \<not> en_valid e \<or> f = Missing then e
      else
        let known = (\<lambda>x. x\<lparr>en_license_id := en_license_id e, en_major_version := en_major_version e\<rparr>)
        in case read_json f of
          None \<Rightarrow> known (extraction ''revocation_state_invalid'')
        | Some doc \<Rightarrow>
            (case verify_revocation_assertion (dk\<lparr>dk_now := dk_later dk\<rparr>) doc (or_default (en_license_id e) []) 0 issued_at of
               Inl _ \<Rightarrow> known (extraction ''revocation_state_invalid'')
             | Inr _ \<Rightarrow> known (extraction ''revoked'')))"

section \<open>The free edition\<close>

definition installation_id_ok :: "string \<Rightarrow> bool" where
  "installation_id_ok s \<longleftrightarrow> 8 \<le> length s \<and> length s \<le> 80 \<and> list_all (\<lambda>c. alnum c \<or> c = CHR ''-'') s"

definition trial_doc :: "string \<Rightarrow> string \<Rightarrow> string \<Rightarrow> py" where
  "trial_doc installation started seen = PyDict [(''schema_version'', PyInt 1), (''installation_id'', PyStr installation),
     (''started_at'', PyStr started), (''last_seen_at'', PyStr seen)]"

text \<open>\<open>render\<close> is \<open>isoformat\<close>: it writes instants that reading gives back.\<close>

definition initialize_trial :: "(timestamp \<Rightarrow> string) \<Rightarrow> desk \<Rightarrow> string option \<Rightarrow> string \<Rightarrow> state_files \<Rightarrow> state_files answer" where
  "initialize_trial render dk started_at installation_id fs =
     (if sf_trial fs \<noteq> Missing then Inr fs
      else
        and_then (if truthy started_at then (case dk_iso dk (the started_at) of None \<Rightarrow> Inl (Value_Error ''timestamp'') | Some t \<Rightarrow> Inr (render t))
                  else Inr (render (dk_now dk))) (\<lambda>instant.
          if \<not> installation_id_ok installation_id then Inl (Value_Error ''installation_id'')
          else if \<not> dk_write_ok dk then Inl (Runtime_Error ''OSError'')
          else Inr (fs\<lparr>sf_trial := Json_File (trial_doc installation_id instant instant)\<rparr>)))"

definition trial_fields :: "py \<Rightarrow> (string \<times> py \<times> py) option" where
  "trial_fields doc =
     (case doc of
        PyDict ms \<Rightarrow>
          (case (map_of ms ''schema_version'', map_of ms ''installation_id'', map_of ms ''started_at'', map_of ms ''last_seen_at'') of
             (Some v, Some (PyStr i), Some s, Some l) \<Rightarrow>
               if dict_keys ms = {''schema_version'', ''installation_id'', ''started_at'', ''last_seen_at''} \<and> py_eq_int v 1 \<and> installation_id_ok i
               then Some (i, s, l) else None
           | _ \<Rightarrow> None)
      | _ \<Rightarrow> None)"

definition free_entitlement :: "(timestamp \<Rightarrow> string) \<Rightarrow> desk \<Rightarrow> bool \<Rightarrow> state_files \<Rightarrow> entitlement \<times> state_files" where
  "free_entitlement render dk checkpoint fs =
     (if sf_trial fs = Missing then (extraction ''no_free_state'', fs)
      else case Option.bind (read_json (sf_trial fs)) trial_fields of
        None \<Rightarrow> (extraction ''corrupt_free_state'', fs)
      | Some (i, s, l) \<Rightarrow>
          (case (iso dk s, iso dk l) of
             (Some started, Some seen) \<Rightarrow>
               if started > dk_now dk + seconds 300 \<or> dk_now dk + seconds 300 < seen
               then ((extraction ''clock_rollback'')\<lparr>en_free_started_at := Some started\<rparr>, fs)
               else if checkpoint \<and> dk_now dk > seen \<and> \<not> dk_write_ok dk then (extraction ''corrupt_free_state'', fs)
               else
                 (\<lparr>en_state = ''free'', en_edition = ''free'', en_license_id = None, en_major_version = None, en_device_allowance = None,
                   en_max_active_projects = Some 1, en_valid = True, en_mutations_allowed = True, en_reason = ''free_active'',
                   en_free_started_at = Some started\<rparr>,
                  if checkpoint \<and> dk_now dk > seen then fs\<lparr>sf_trial := Json_File (trial_doc i (render started) (render (dk_now dk)))\<rparr> else fs)
           | _ \<Rightarrow> (extraction ''corrupt_free_state'', fs)))"

section \<open>The current entitlement\<close>

definition peek_current_entitlement :: "(timestamp \<Rightarrow> string) \<Rightarrow> desk \<Rightarrow> state_files \<Rightarrow> entitlement result" where
  "peek_current_entitlement render dk fs =
     (if sf_license fs \<noteq> Missing
      then (case read_json (sf_license fs) of
          None \<Rightarrow> Inr (extraction ''corrupt_license'')
        | Some doc \<Rightarrow>
            (case doc of
               PyDict ms \<Rightarrow> Inr (apply_revocation dk (sf_revocation fs) (map_of ms ''issued_at'') (verify_document dk doc))
             | _ \<Rightarrow> Inl AttributeError))
      else Inr (fst (free_entitlement render dk False fs)))"

definition checkpoint_current_entitlement :: "(timestamp \<Rightarrow> string) \<Rightarrow> desk \<Rightarrow> state_files \<Rightarrow> (entitlement \<times> state_files) result" where
  "checkpoint_current_entitlement render dk fs =
     and_then (peek_current_entitlement render dk fs) (\<lambda>v.
       if en_state v \<noteq> ''free'' \<or> \<not> en_valid v \<or> \<not> en_mutations_allowed v then Inr (v, fs)
       else Inr (free_entitlement render dk True fs))"

definition current_entitlement :: "(timestamp \<Rightarrow> string) \<Rightarrow> desk \<Rightarrow> bool \<Rightarrow> state_files \<Rightarrow> (entitlement \<times> state_files) result" where
  "current_entitlement render dk checkpoint fs =
     (if checkpoint then checkpoint_current_entitlement render dk fs
      else and_then (peek_current_entitlement render dk fs) (\<lambda>v. Inr (v, fs)))"

section \<open>Lemmas\<close>

lemma extraction_simps [simp]:
  "\<not> en_mutations_allowed (extraction r)" "en_state (extraction r) = ''extraction''" "\<not> en_valid (extraction r)"
  by (simp_all add: extraction_def)

definition not_passed :: "desk \<Rightarrow> py option \<Rightarrow> bool" where
  "not_passed dk v \<longleftrightarrow> (\<exists>t. optional_iso dk v = Some t \<and> \<not> passed dk t)"

text \<open>What a certificate must be for the application to write.\<close>

definition certifies :: "desk \<Rightarrow> (string \<times> py) list \<Rightarrow> bool" where
  "certifies dk ms \<longleftrightarrow>
     dict_keys ms = ACTIVATION_FIELDS \<and> map_of ms ''schema_version'' = Some (PyInt 2) \<and>
     dk_key_file dk = Ed25519_Key \<and> signature_ok dk ACTIVATION_DOMAIN ms \<and>
     dk_device_public_key dk \<noteq> None \<and> map_of ms ''device_public_key'' = map_option PyStr (dk_device_public_key dk) \<and>
     map_of ms ''device_id'' = map_option PyStr (device_id_of dk (map_of ms ''device_public_key'')) \<and>
     map_of ms ''major_version'' = Some (PyInt (dk_current_major dk)) \<and> py_int (map_of ms ''device_allowance'') \<in> {1, 2} \<and>
     not_passed dk (map_of ms ''expires_at'') \<and> not_passed dk (map_of ms ''revoked_at'') \<and>
     (\<exists>s t. map_of ms ''next_check_in_at'' = Some (PyStr s) \<and> dk_iso dk s = Some t \<and> dk_now dk \<le> t)"

lemma check_activation_None:
  assumes "check_activation dk get k = None"
  shows "dk_device_public_key dk \<noteq> None" "get ''device_public_key'' = map_option PyStr (dk_device_public_key dk)"
    "get ''device_id'' = map_option PyStr (device_id_of dk (get ''device_public_key''))"
proof -
  from assms obtain i where i: "device_id_of dk (get ''device_public_key'') = Some i" "i = py_string (get ''device_id'')" "is_str (get ''device_id'')"
    and key: "truthy (dk_device_public_key dk)" "py_string (get ''device_public_key'') = the (dk_device_public_key dk)"
    by (auto simp: check_activation_def split: if_splits option.splits)
  have "\<exists>s. get ''device_public_key'' = Some (PyStr s)" using i(1) by (auto simp: device_id_of_def split: option.splits py.splits)
  then show "dk_device_public_key dk \<noteq> None" "get ''device_public_key'' = map_option PyStr (dk_device_public_key dk)" using key by (auto simp: truthy_Some)
  show "get ''device_id'' = map_option PyStr (device_id_of dk (get ''device_public_key''))"
    using i by (auto simp: is_str_def split: option.splits py.splits)
qed

lemma allowed_if: "en_mutations_allowed (if c then extraction r else e) \<longleftrightarrow> \<not> c \<and> en_mutations_allowed e"
  by simp

lemma known_allowed [simp]: "en_mutations_allowed (known get e) = en_mutations_allowed e" "en_mutations_allowed (paid get st e) = en_mutations_allowed e"
  "en_state (paid get st e) = st"
  by (simp_all add: known_def paid_def)

lemma check_activation_refuses: "check_activation dk get (known g) = Some e \<Longrightarrow> \<not> en_mutations_allowed e"
  by (auto simp: check_activation_def split: if_splits option.splits)

lemma check_times_Inl:
  "check_times dk get = Inl (expiry, gone) \<Longrightarrow> optional_iso dk (get ''expires_at'') = Some expiry \<and> optional_iso dk (get ''revoked_at'') = Some gone"
  by (auto simp: check_times_def split: option.splits)

lemma iso_Some: "iso dk v = Some t \<longleftrightarrow> (\<exists>s. v = PyStr s \<and> dk_iso dk s = Some t)"
  by (auto simp: iso_def split: py.splits)

lemma positive_int_Some: "positive_int v \<longleftrightarrow> (\<exists>i. v = Some (PyInt i) \<and> 1 \<le> i)"
  by (auto simp: positive_int_def split: option.splits py.splits)

lemma verify_terms_allowed:
  assumes "en_mutations_allowed (verify_terms dk get activation expiry gone)"
  shows "activation" "\<not> passed dk expiry" "\<not> passed dk gone" "py_int (get ''major_version'') = dk_current_major dk"
    "en_state (verify_terms dk get activation expiry gone) = ''paid'' \<and> en_valid (verify_terms dk get activation expiry gone)"
    "\<exists>s t. get ''next_check_in_at'' = Some (PyStr s) \<and> dk_iso dk s = Some t \<and> dk_now dk \<le> t"
  using assms unfolding verify_terms_def by (auto simp: iso_Some split: if_splits option.splits)

lemma verify_signed_allowed:
  assumes "en_mutations_allowed (verify_signed dk get activation)"
  obtains expiry gone where "activation" "py_int (get ''device_allowance'') \<le> 2" "check_times dk get = Inl (expiry, gone)"
    "check_activation dk get (known get) = None" "verify_signed dk get activation = verify_terms dk get activation expiry gone"
    "en_mutations_allowed (verify_terms dk get activation expiry gone)"
proof -
  note run = assms [unfolded verify_signed_def allowed_if]
  obtain expiry gone where t: "check_times dk get = Inl (expiry, gone)"
    using run by (cases "check_times dk get") auto
  define e where "e = (if activation then check_activation dk get (known get)
      else if get ''device_binding'' \<noteq> None \<and> get ''device_binding'' \<noteq> Some PyNone then Some (extraction ''device_binding_unsupported'') else None)"
  have none: "e = None"
    using run check_activation_refuses unfolding t e_def by (auto split: if_splits option.splits)
  have eq: "verify_signed dk get activation = verify_terms dk get activation expiry gone"
    using run none unfolding verify_signed_def t e_def by simp
  then have terms: "en_mutations_allowed (verify_terms dk get activation expiry gone)" using assms by simp
  then have "activation" by (rule verify_terms_allowed)
  then show thesis using none t eq terms run by (intro that [of expiry gone]) (simp_all add: e_def)
qed

lemma verify_document_allowed:
  assumes "en_mutations_allowed (verify_document dk doc)"
  shows "en_state (verify_document dk doc) = ''paid'' \<and> en_valid (verify_document dk doc) \<and> (\<exists>ms. doc = PyDict ms \<and> certifies dk ms)"
proof -
  obtain ms where doc: "doc = PyDict ms" using assms by (cases doc) (simp_all add: verify_document_def)
  define activation where "activation = (case map_of ms ''schema_version'' of None \<Rightarrow> False | Some v \<Rightarrow> py_eq_int v 2)"
  note run = assms [unfolded verify_document_def doc py.case Let_def activation_def [symmetric] allowed_if]
  have keys: "\<not> (if activation then dict_keys ms \<noteq> ACTIVATION_FIELDS else \<not> dict_keys ms \<subseteq> LICENSE_FIELDS \<or> \<not> LICENSE_REQUIRED \<subseteq> dict_keys ms)"
    and schema: "map_of ms ''schema_version'' \<in> {Some (PyInt 1), Some (PyInt 2)}"
    and nums: "positive_int (map_of ms ''major_version'')" "positive_int (map_of ms ''device_allowance'')"
    and sig: "dk_key_file dk = Ed25519_Key" "signature_ok dk (if activation then ACTIVATION_DOMAIN else []) ms"
    and last: "en_mutations_allowed (verify_signed dk (map_of ms) activation)"
    using run by blast+
  obtain expiry gone where v: "activation" "py_int (map_of ms ''device_allowance'') \<le> 2" "check_times dk (map_of ms) = Inl (expiry, gone)"
    "check_activation dk (map_of ms) (known (map_of ms)) = None" "verify_signed dk (map_of ms) activation = verify_terms dk (map_of ms) activation expiry gone"
    "en_mutations_allowed (verify_terms dk (map_of ms) activation expiry gone)" using last by (rule verify_signed_allowed)
  note terms = verify_terms_allowed [OF v(6)] and bound = check_activation_None [OF v(4)] and times = check_times_Inl [OF v(3)]
  have "verify_document dk doc = verify_signed dk (map_of ms) activation"
    using run unfolding verify_document_def doc py.case Let_def activation_def [symmetric] by simp
  moreover have "certifies dk ms"
    using keys schema nums sig v(1,2) terms bound times
    by (auto simp: certifies_def activation_def not_passed_def positive_int_Some)
  ultimately show ?thesis using terms(5) v(5) doc by auto
qed

lemma check_activation_state: "check_activation dk get (known g) = Some e \<Longrightarrow> en_state e = ''extraction''"
  by (auto simp: check_activation_def known_def split: if_splits option.splits)

lemma verify_terms_state: "en_state (verify_terms dk get activation expiry gone) \<noteq> ''free''"
  by (simp add: verify_terms_def known_def paid_def split: option.splits)

lemma verify_signed_state: "en_state (verify_signed dk get activation) \<noteq> ''free''"
  by (auto simp: verify_signed_def verify_terms_state dest: check_activation_state split: sum.splits option.splits if_splits)

lemma verify_document_state: "en_state (verify_document dk doc) \<noteq> ''free''"
  by (cases doc) (simp_all add: verify_document_def Let_def verify_signed_state)

lemma license_state_not_free: "en_state (apply_revocation dk f issued (verify_document dk doc)) \<noteq> ''free''"
  by (auto simp: apply_revocation_def Let_def verify_document_state split: option.splits sum.splits)

lemma read_json_Some: "read_json f = Some d \<longleftrightarrow> f = Json_File d \<and> strict_json d"
  by (cases f) auto

lemma apply_revocation_allowed:
  "en_mutations_allowed (apply_revocation dk f issued e) \<Longrightarrow>
     apply_revocation dk f issued e = e \<and> (f = Missing \<or> en_state e \<notin> {''paid'', ''paid_legacy''} \<or> \<not> en_valid e)"
  by (auto simp: apply_revocation_def Let_def split: if_splits option.splits sum.splits)

lemma free_entitlement_cases:
  assumes "free_entitlement render dk cp fs = (e, fs')" "en_mutations_allowed e"
  obtains i s l started seen where "Option.bind (read_json (sf_trial fs)) trial_fields = Some (i, s, l)" "iso dk s = Some started" "iso dk l = Some seen"
    "started \<le> dk_now dk + seconds 300" "seen \<le> dk_now dk + seconds 300" "en_state e = ''free''" "en_max_active_projects e = Some 1" "en_valid e"
    "fs' = (if cp \<and> dk_now dk > seen then fs\<lparr>sf_trial := Json_File (trial_doc i (render started) (render (dk_now dk)))\<rparr> else fs)"
  using assms by (auto simp: free_entitlement_def split: if_splits option.splits prod.splits)

lemma trial_fields_doc: "installation_id_ok i \<Longrightarrow> Option.bind (read_json (Json_File (trial_doc i s l))) trial_fields = Some (i, PyStr s, PyStr l)"
  by (simp add: trial_doc_def trial_fields_def dict_keys_def ascii_lower_def)

lemma trial_fields_id: "trial_fields d = Some (i, s, l) \<Longrightarrow> installation_id_ok i"
  by (auto simp: trial_fields_def split: py.splits option.splits if_splits prod.splits)

text \<open>A checkpoint remembers the time: later, a clock set back by more than the tolerance is noticed.\<close>

lemma checkpoint_notices_rollback:
  assumes "free_entitlement render dk True fs = (e, fs')" "en_mutations_allowed e" "\<And>t. dk_iso dk (render t) = Some t"
    "dk' = dk\<lparr>dk_now := earlier\<rparr>" "earlier + seconds 300 < dk_now dk"
  shows "\<not> en_mutations_allowed (fst (free_entitlement render dk' cp fs'))"
  using assms(1,2)
proof (cases rule: free_entitlement_cases)
  case (1 i s l started seen)
  have iso: "iso (dk\<lparr>dk_now := earlier\<rparr>) v = iso dk v" for v by (simp add: iso_def split: py.splits)
  show ?thesis
  proof (cases "dk_now dk > seen")
    case True
    have "installation_id_ok i" using 1(1) trial_fields_id by (auto simp: bind_eq_Some_conv)
    then have "Option.bind (read_json (sf_trial fs')) trial_fields = Some (i, PyStr (render started), PyStr (render (dk_now dk)))"
      using trial_fields_doc [of i "render started" "render (dk_now dk)"] unfolding 1(9) by (simp add: True)
    then show ?thesis using assms(3,5) by (auto simp: free_entitlement_def iso iso_def assms(4))
  next
    case False
    then show ?thesis using 1(1-3,9) assms(5) by (auto simp: free_entitlement_def iso assms(4))
  qed
qed

text \<open>A license file holding a JSON array instead of an object is not refused: reading it ends in an unhandled exception.\<close>

lemma array_license_crashes:
  "peek_current_entitlement render dk \<lparr>sf_license = Json_File (PyList []), sf_trial = Missing, sf_revocation = Missing\<rparr> = Inl AttributeError"
  by (simp add: peek_current_entitlement_def)

section \<open>Properties\<close>

text \<open>
  C39: The application fails closed: it may change projects only in two situations. Either there is no license file, the free state
  is intact and the clock has not been set back beyond the tolerance, and then one active project is allowed; or the license file holds an
  activation certificate, signed for this product line under its own domain, bound to this device's key, unexpired, unrevoked and
  checked in, and there is no revocation file at all.
\<close>

theorem mutations_fail_closed:
  assumes "current_entitlement render dk checkpoint fs = Inr (e, fs')" "en_mutations_allowed e"
  shows "(sf_license fs = Missing \<and> en_state e = ''free'' \<and> en_max_active_projects e = Some 1 \<and>
      (\<exists>i s l started seen. Option.bind (read_json (sf_trial fs)) trial_fields = Some (i, s, l) \<and> iso dk s = Some started \<and> iso dk l = Some seen \<and>
        started \<le> dk_now dk + seconds 300 \<and> seen \<le> dk_now dk + seconds 300)) \<or>
    (\<exists>ms. sf_license fs = Json_File (PyDict ms) \<and> certifies dk ms \<and> en_state e = ''paid'' \<and> sf_revocation fs = Missing \<and> fs' = fs)"
proof -
  obtain v where v: "peek_current_entitlement render dk fs = Inr v" and e: "(e, fs') = (v, fs) \<or> free_entitlement render dk True fs = (e, fs') \<and> en_state v = ''free''"
    using assms(1) by (auto simp: current_entitlement_def checkpoint_current_entitlement_def result_simps split: if_splits)
  show ?thesis
  proof (cases "sf_license fs = Missing")
    case True
    then obtain cp fs1 where "free_entitlement render dk cp fs = (e, fs1)"
      using v e by (cases "free_entitlement render dk False fs") (auto simp: peek_current_entitlement_def)
    then show ?thesis using assms(2) True by (elim free_entitlement_cases) blast+
  next
    case False
    obtain ms where ms: "sf_license fs = Json_File (PyDict ms)"
      and ve: "v = apply_revocation dk (sf_revocation fs) (map_of ms ''issued_at'') (verify_document dk (PyDict ms))" if "v \<noteq> extraction ''corrupt_license''"
      using v False by (auto simp: peek_current_entitlement_def read_json_Some split: option.splits py.splits)
    show ?thesis
    proof (cases "v = extraction ''corrupt_license''")
      case True
      then show ?thesis using e assms(2) by auto
    next
      case corrupt: False
      note license = ms [OF corrupt] and read = ve [OF corrupt]
      have "en_state v \<noteq> ''free''" using read by (simp add: license_state_not_free)
      then have here: "v = e" "fs' = fs" using e by auto
      note kept = apply_revocation_allowed [of dk "sf_revocation fs" "map_of ms ''issued_at''" "verify_document dk (PyDict ms)", folded read]
      have same: "v = verify_document dk (PyDict ms)" using kept here assms(2) by simp
      then have "en_mutations_allowed (verify_document dk (PyDict ms))" using here assms(2) by simp
      note verdict = verify_document_allowed [OF this]
      then show ?thesis using kept same here assms(2) license by auto
    qed
  qed
qed

text \<open>A device whose signatures, hashes and timestamps are concrete functions, and an activation certificate it accepts.\<close>

definition demo_desk :: desk where
  "demo_desk = \<lparr>dk_now = 0, dk_later = 1, dk_key_file = Ed25519_Key, dk_verify = (\<lambda>sig msg. msg = sig), dk_canonical = (\<lambda>ms. concat (map fst ms)),
     dk_b64decode = (\<lambda>s. Some s), dk_sha256 = (\<lambda>s. s @ s), dk_valid_key = (\<lambda>_. True), dk_iso = (\<lambda>s. Some (seconds (int (length s)))),
     dk_canonical_utc = (\<lambda>_. True), dk_current_major = 1, dk_device_public_key = Some (replicate 32 CHR ''a''), dk_write_ok = True\<rparr>"

definition demo_certificate :: py where
  "demo_certificate =
     (let ms = [(''schema_version'', PyInt 2), (''certificate_type'', PyStr ''growthmap_device_activation''), (''product'', PyStr ''growthmap''),
        (''edition'', PyStr ''pro''), (''license_id'', PyStr ''license-0001''), (''activation_id'', PyStr (''gma_'' @ replicate 32 CHR ''0'')),
        (''major_version'', PyInt 1), (''device_allowance'', PyInt 2), (''device_id'', PyStr (''gmdev_'' @ replicate 64 CHR ''a'')),
        (''device_public_key'', PyStr (replicate 32 CHR ''a'')), (''issued_at'', PyStr ''now''), (''expires_at'', PyNone), (''revoked_at'', PyNone),
        (''max_active_projects'', PyNone), (''next_check_in_at'', PyStr ''later'')]
      in PyDict (ms @ [(''signature'', PyStr (ACTIVATION_DOMAIN @ concat (map fst ms)))]))"

definition demo_files :: state_files where
  "demo_files = \<lparr>sf_license = Json_File demo_certificate, sf_trial = Missing, sf_revocation = Missing\<rparr>"

lemma demo_certificate_accepted:
  "current_entitlement (\<lambda>_. []) demo_desk True demo_files = Inr (verify_document demo_desk demo_certificate, demo_files)"
  by code_simp

lemma demo_certificate_allows: "en_mutations_allowed (verify_document demo_desk demo_certificate)"
  by code_simp

theorem mutations_fail_closed_witness:
  "\<exists>ms. demo_certificate = PyDict ms \<and> certifies demo_desk ms"
  using mutations_fail_closed [OF demo_certificate_accepted demo_certificate_allows] by (auto simp: demo_files_def)

end
