(* ===== verification/Payments_Ledger.thy ===== *)
theory Payments_Ledger
  imports Entitlement_Inbox
begin

text \<open>
  The ledger of the payments service (\<open>services/payments/growthmap_payments/service.py\<close> and the schema of its migrations): the tables as lists
  of rows, statements that fail like SQLite when a constraint or a trigger of the schema is violated, the chained audit log, and the
  authenticated checkpoint outside the database that every transaction checks first and publishes before it commits.
  A transaction is a function on the ledger that ends in a commit or a rollback; \<open>trusted_tx\<close> puts it between check and publication.
  Instants are microseconds instead of ISO text (whose order is the same), and the clock is read once per transaction. Hash functions and
  MACs over JSON documents are fields of the configuration.
\<close>

section \<open>Rows\<close>

record pay_order =
  od_id :: string
  od_recovery_hash :: string
  od_rail :: string
  od_state :: string
  od_quoted_amount :: int
  od_currency :: string
  od_tier :: string
  od_quote_expires_at :: timestamp
  od_buyer_email :: string
  od_license_name :: string
  od_payer_ref :: "string option"
  od_tx_hash :: "string option"
  od_sale_ordinal :: "int option"
  od_license_id :: "string option"
  od_created_at :: timestamp
  od_updated_at :: timestamp
  od_confirmed_at :: "timestamp option"

record payment_proof =
  pp_hash :: string
  pp_rail :: string
  pp_order_id :: string
  pp_tx_hash :: "string option"
  pp_created_at :: timestamp

record external_event =
  ev_hash :: string
  ev_source :: string
  ev_order_id :: string
  ev_received_at :: timestamp

record intent =
  it_id :: string
  it_order_id :: string
  it_proof_hash :: string
  it_nonce_hash :: string
  it_amount :: int
  it_currency :: string
  it_ordinal :: int
  it_lease_expires_at :: timestamp
  it_state :: string
  it_tx_hash :: "string option"
  it_evidence_hash :: "string option"
  it_evidence_source :: "string option"
  it_finality_at :: "timestamp option"
  it_reconciled_by :: "string option"
  it_created_at :: timestamp
  it_updated_at :: timestamp
  it_binding :: "string option"
  it_verified_payer :: "string option"
  it_settled_payer :: "string option"
  it_finality_basis :: "string option"

record settlement_candidate =
  cd_intent_id :: string
  cd_tx_hash :: string
  cd_payer :: string
  cd_network :: string
  cd_amount :: int
  cd_source :: string
  cd_observed_at :: timestamp
  cd_response_hash :: string

text \<open>The columns of the authority's identity are null together in rows from before they were added.\<close>

record outbox =
  ob_order_id :: string
  ob_source :: string
  ob_source_id :: string
  ob_proof_hash :: string
  ob_tx_hash :: string
  ob_evidence_hash :: string
  ob_payer :: string
  ob_network :: string
  ob_asset :: string
  ob_amount :: int
  ob_product :: string
  ob_major_version :: int
  ob_state :: string
  ob_license_id :: "string option"
  ob_created_at :: timestamp
  ob_delivered_at :: "timestamp option"
  ob_lease_owner :: "string option"
  ob_lease_expires_at :: "timestamp option"
  ob_attempt_count :: int
  ob_next_attempt_at :: "timestamp option"
  ob_last_error_hash :: "string option"
  ob_receipt :: "string option"
  ob_fence :: int
  ob_identity :: "signer_identity option"
  ob_ack_signature :: "string option"
  ob_phase :: string

record revocation_event =
  rv_event_id :: string
  rv_order_id :: string
  rv_authority_id :: string
  rv_source :: string
  rv_source_id :: string
  rv_payload_digest :: string
  rv_license_id :: string
  rv_action :: string
  rv_reason :: string
  rv_proof_hash :: string
  rv_tx_hash :: string
  rv_evidence_hash :: string
  rv_created_at :: timestamp
  rv_state :: string
  rv_lease_owner :: "string option"
  rv_lease_expires_at :: "timestamp option"
  rv_attempt_count :: int
  rv_next_attempt_at :: "timestamp option"
  rv_last_error_hash :: "string option"
  rv_fence :: int
  rv_delivered_at :: "timestamp option"
  rv_receipt :: "string option"
  rv_identity :: "signer_identity option"
  rv_ack_signature :: "string option"
  rv_revoked_at :: "timestamp option"
  rv_request_digest :: "string option"

record assertion =
  as_license_id :: string
  as_order_id :: string
  as_sequence :: int
  as_revoked_at :: timestamp
  as_reason :: "string option"
  as_signature :: string
  as_created_at :: timestamp

record whop_row =
  wh_event_id :: string
  wh_raw_digest :: string
  wh_occurred_at :: string
  wh_kind :: string
  wh_order_id :: string
  wh_provider_order_ref :: string
  wh_provider_payment_ref :: string
  wh_received_at :: timestamp
  wh_state :: string
  wh_attempts :: int
  wh_applied_at :: "timestamp option"
  wh_last_attempt_at :: "timestamp option"
  wh_error_digest :: "string option"

record audit_event =
  ae_event_id :: string
  ae_at :: timestamp
  ae_actor :: string
  ae_operation :: string
  ae_object_id :: string
  ae_data_hash :: string
  ae_previous_hash :: string
  ae_chain_hash :: string

record ledger =
  lg_orders :: "pay_order list"
  lg_proofs :: "payment_proof list"
  lg_events :: "external_event list"
  lg_intents :: "intent list"
  lg_candidates :: "settlement_candidate list"
  lg_outbox :: "outbox list"
  lg_revocations :: "revocation_event list"
  lg_assertions :: "assertion list"
  lg_whop :: "whop_row list"
  lg_audit :: "audit_event list"
  lg_sequence :: int

section \<open>Configuration and environment\<close>

record pay_config =
  cf_recipient :: string
  cf_environment :: string
  cf_merchant_id :: string
  cf_resource_base :: string
  cf_quote_seconds :: int
  cf_intent_seconds :: int
  cf_identity :: signer_identity
  cf_hash :: "string \<Rightarrow> string"
  cf_data_hash :: "json \<Rightarrow> string"
  cf_json_hash :: "json \<Rightarrow> string"
  cf_plain_json_hash :: "json \<Rightarrow> string"
  cf_mac :: "json \<Rightarrow> string"
  cf_root :: "ledger \<Rightarrow> string"
  cf_schema :: string
  cf_isoformat :: "timestamp \<Rightarrow> string"
  cf_sign :: "(string \<times> json \<Rightarrow> string) option"
  cf_ack_verify :: "string \<Rightarrow> string \<times> json \<Rightarrow> bool"

text \<open>How the publication of a checkpoint ends: done, not written, or written without the commit that should follow.\<close>

datatype publication = Published | Not_Written | Not_Committed

record pay_env =
  pv_now :: timestamp
  pv_uuid :: "nat \<Rightarrow> string"
  pv_token :: string
  pv_publication :: publication

section \<open>Statements\<close>

definition distinct_some :: "'a option list \<Rightarrow> bool" where
  "distinct_some xs \<longleftrightarrow> distinct (filter (\<lambda>x. x \<noteq> None) xs)"

definition order_check :: "pay_order \<Rightarrow> bool" where
  "order_check r \<longleftrightarrow>
     od_state r \<in> {''pending_payment'', ''payment_confirmed'', ''license_issued'', ''manual_review'', ''rejected'', ''expired'', ''refunded'', ''revoked''} \<and>
     0 < od_quoted_amount r \<and> od_tier r \<in> {''early'', ''regular''} \<and> (case od_sale_ordinal r of None \<Rightarrow> True | Some i \<Rightarrow> 0 < i) \<and>
     (od_rail r = ''x402'' \<and> od_currency r = ''USDC'' \<or> od_rail r = ''paypal'' \<and> od_currency r = ''USD'')"

definition orders_ok :: "pay_order list \<Rightarrow> bool" where
  "orders_ok rs \<longleftrightarrow>
     distinct (map od_id rs) \<and> distinct (map od_recovery_hash rs) \<and> distinct_some (map od_tx_hash rs) \<and>
     distinct_some (map od_sale_ordinal rs) \<and> distinct_some (map od_license_id rs) \<and> list_all order_check rs"

definition put_orders :: "(pay_order list \<Rightarrow> pay_order list) \<Rightarrow> ledger \<Rightarrow> ledger answer" where
  "put_orders f db = (if orders_ok (f (lg_orders db)) then Inr (lg_orders_update f db) else Inl Integrity_Error)"

definition get_order :: "ledger \<Rightarrow> string \<Rightarrow> pay_order option" where
  "get_order db i = row_get od_id (lg_orders db) i"

definition update_order :: "string \<Rightarrow> (pay_order \<Rightarrow> pay_order) \<Rightarrow> ledger \<Rightarrow> ledger answer" where
  "update_order i f db = put_orders (row_update od_id i f) db"

definition set_order_state :: "pay_env \<Rightarrow> string \<Rightarrow> string \<Rightarrow> ledger \<Rightarrow> ledger answer" where
  "set_order_state env i s db = update_order i (\<lambda>r. r\<lparr>od_state := s, od_updated_at := pv_now env\<rparr>) db"

definition insert_proof :: "payment_proof \<Rightarrow> ledger \<Rightarrow> ledger answer" where
  "insert_proof p db =
     (if has_row pp_hash (lg_proofs db) (pp_hash p) \<or> pp_tx_hash p \<noteq> None \<and> pp_tx_hash p \<in> pp_tx_hash ` set (lg_proofs db) \<or>
         get_order db (pp_order_id p) = None
      then Inl Integrity_Error else Inr (lg_proofs_update (\<lambda>rs. rs @ [p]) db))"

definition insert_external_event :: "external_event \<Rightarrow> ledger \<Rightarrow> ledger answer" where
  "insert_external_event e db =
     (if has_row ev_hash (lg_events db) (ev_hash e) \<or> get_order db (ev_order_id e) = None
      then Inl Integrity_Error else Inr (lg_events_update (\<lambda>rs. rs @ [e]) db))"

text \<open>Intents: uniqueness, the evidence a terminal state needs, and the immutability of terminal rows.\<close>

definition terminal :: "string \<Rightarrow> bool" where
  "terminal s \<longleftrightarrow> s \<in> {''settled'', ''finalized_paid'', ''cancelled_unpaid''}"

definition intent_check :: "intent \<Rightarrow> bool" where
  "intent_check r \<longleftrightarrow>
     it_state r \<in> {''prepared'', ''settled'', ''ambiguous'', ''finalized_paid'', ''cancelled_unpaid''} \<and>
     (terminal (it_state r) \<longrightarrow> it_evidence_hash r \<noteq> None \<and> it_binding r \<noteq> None)"

definition intents_ok :: "intent list \<Rightarrow> bool" where
  "intents_ok rs \<longleftrightarrow>
     distinct (map it_id rs) \<and> distinct (map it_order_id rs) \<and> distinct (map it_proof_hash rs) \<and> distinct (map it_nonce_hash rs) \<and>
     distinct_some (map it_tx_hash rs) \<and> distinct_some (map it_evidence_hash rs) \<and> distinct_some (map it_binding rs) \<and>
     distinct (map it_ordinal (filter (\<lambda>r. it_state r \<noteq> ''cancelled_unpaid'') rs)) \<and> list_all intent_check rs"

definition intent_change_ok :: "intent \<Rightarrow> intent \<Rightarrow> bool" where
  "intent_change_ok old new \<longleftrightarrow>
     \<not> terminal (it_state old) \<or>
     it_state old = ''settled'' \<and> it_state new = ''finalized_paid'' \<and>
     new\<lparr>it_state := it_state old, it_updated_at := it_updated_at old\<rparr> = old"

definition get_intent :: "ledger \<Rightarrow> string \<Rightarrow> intent option" where
  "get_intent db i = row_get it_id (lg_intents db) i"

definition insert_intent :: "intent \<Rightarrow> ledger \<Rightarrow> ledger answer" where
  "insert_intent r db =
     (if intents_ok (lg_intents db @ [r]) \<and> get_order db (it_order_id r) \<noteq> None
      then Inr (lg_intents_update (\<lambda>rs. rs @ [r]) db) else Inl Integrity_Error)"

definition update_intent :: "string \<Rightarrow> (intent \<Rightarrow> intent) \<Rightarrow> ledger \<Rightarrow> ledger answer" where
  "update_intent i f db =
     (if intents_ok (row_update it_id i f (lg_intents db)) \<and> list_all (\<lambda>r. it_id r = i \<longrightarrow> intent_change_ok r (f r)) (lg_intents db)
      then Inr (lg_intents_update (row_update it_id i f) db) else Inl Integrity_Error)"

definition insert_candidate :: "settlement_candidate \<Rightarrow> ledger \<Rightarrow> ledger answer" where
  "insert_candidate c db =
     (if has_row cd_intent_id (lg_candidates db) (cd_intent_id c) \<or> has_row cd_tx_hash (lg_candidates db) (cd_tx_hash c) \<or>
         has_row cd_response_hash (lg_candidates db) (cd_response_hash c) \<or> get_intent db (cd_intent_id c) = None \<or> cd_amount c \<le> 0
      then Inl Integrity_Error else Inr (lg_candidates_update (\<lambda>rs. rs @ [c]) db))"

text \<open>The outbox: constraints of the table, then the triggers that compare the old with the new row.\<close>

definition BASE_USDC :: string where
  "BASE_USDC = ''0x833589fCD6eDb6E08f4c7C32D4f71b54bdA02913''"

definition outbox_check :: "outbox \<Rightarrow> bool" where
  "outbox_check r \<longleftrightarrow>
     ob_source r = ''x402'' \<and> ob_network r = ''eip155:8453'' \<and> ob_asset r = BASE_USDC \<and> 0 < ob_amount r \<and> ob_product r = ''growthmap'' \<and>
     ob_major_version r = 1 \<and> ob_state r \<in> {''pending'', ''leased'', ''delivered'', ''quarantined''} \<and>
     ob_phase r \<in> {''none'', ''crossing_prepared'', ''crossing_authorized'', ''readback_only'', ''manual_review''}"

definition outbox_ok :: "outbox list \<Rightarrow> bool" where
  "outbox_ok rs \<longleftrightarrow>
     distinct (map ob_order_id rs) \<and> distinct (map ob_proof_hash rs) \<and> distinct (map ob_tx_hash rs) \<and> distinct (map ob_evidence_hash rs) \<and>
     distinct (map (\<lambda>r. (ob_source r, ob_source_id r)) rs) \<and> distinct_some (map ob_license_id rs) \<and> distinct_some (map ob_receipt rs) \<and>
     list_all outbox_check rs"

text \<open>What a row stands for; it never changes.\<close>

definition outbox_payload :: "outbox \<Rightarrow> string list \<times> int \<times> int \<times> timestamp \<times> signer_identity option" where
  "outbox_payload r =
     ([ob_order_id r, ob_source r, ob_source_id r, ob_proof_hash r, ob_tx_hash r, ob_evidence_hash r, ob_payer r, ob_network r, ob_asset r,
       ob_product r], ob_amount r, ob_major_version r, ob_created_at r, ob_identity r)"

definition phase_change_ok :: "outbox \<Rightarrow> outbox \<Rightarrow> bool" where
  "phase_change_ok old new \<longleftrightarrow>
     (ob_phase old = ''none'' \<longrightarrow> ob_phase new = ''none'' \<or>
        ob_phase new = ''crossing_prepared'' \<and> ob_state new = ''leased'' \<and> ob_lease_owner new \<noteq> None \<and> ob_identity new \<noteq> None) \<and>
     (ob_phase old = ''crossing_prepared'' \<longrightarrow> ob_phase new \<in> {''crossing_prepared'', ''crossing_authorized'', ''none''}) \<and>
     (ob_phase old = ''crossing_prepared'' \<and> ob_phase new = ''crossing_authorized'' \<longrightarrow>
        ob_state old = ''leased'' \<and> ob_state new = ''leased'' \<and> ob_lease_owner old = ob_lease_owner new \<and> ob_lease_owner new \<noteq> None \<and>
        ob_fence old = ob_fence new) \<and>
     (ob_phase old = ''crossing_prepared'' \<and> ob_phase new = ''none'' \<longrightarrow> ob_state new = ''quarantined'' \<and> ob_lease_owner new = None) \<and>
     (ob_phase old = ''crossing_authorized'' \<longrightarrow> ob_phase new \<in> {''crossing_authorized'', ''readback_only''}) \<and>
     (ob_phase old = ''readback_only'' \<longrightarrow> ob_phase new \<in> {''readback_only'', ''manual_review''}) \<and>
     (ob_phase old = ''readback_only'' \<and> ob_phase new = ''manual_review'' \<longrightarrow> 8 \<le> ob_attempt_count new) \<and>
     (ob_phase old = ''manual_review'' \<longrightarrow> ob_phase new = ''manual_review'') \<and>
     (ob_phase old = ''crossing_prepared'' \<and> ob_phase new = ''crossing_prepared'' \<longrightarrow>
        ob_state new = ob_state old \<and> ob_lease_owner new = ob_lease_owner old \<and> ob_lease_expires_at new = ob_lease_expires_at old \<and>
        ob_fence new = ob_fence old)"

definition outbox_change_ok :: "outbox \<Rightarrow> outbox \<Rightarrow> bool" where
  "outbox_change_ok old new \<longleftrightarrow>
     outbox_payload new = outbox_payload old \<and>
     (ob_state old = ''delivered'' \<longrightarrow>
        ob_state new = ''delivered'' \<and> ob_license_id new = ob_license_id old \<and> ob_delivered_at new = ob_delivered_at old) \<and>
     (ob_ack_signature old \<noteq> None \<longrightarrow> ob_ack_signature new = ob_ack_signature old) \<and>
     (ob_state new = ''delivered'' \<longrightarrow>
        ob_license_id new \<noteq> None \<and> map_option length (ob_receipt new) = Some 64 \<and> map_option length (ob_ack_signature new) = Some 88) \<and>
     phase_change_ok old new"

definition get_outbox :: "ledger \<Rightarrow> string \<Rightarrow> outbox option" where
  "get_outbox db i = row_get ob_order_id (lg_outbox db) i"

definition insert_outbox :: "outbox \<Rightarrow> ledger \<Rightarrow> ledger answer" where
  "insert_outbox r db =
     (if outbox_ok (lg_outbox db @ [r]) \<and> get_order db (ob_order_id r) \<noteq> None \<and> ob_identity r \<noteq> None
      then Inr (lg_outbox_update (\<lambda>rs. rs @ [r]) db) else Inl Integrity_Error)"

definition update_outbox :: "string \<Rightarrow> (outbox \<Rightarrow> outbox) \<Rightarrow> ledger \<Rightarrow> ledger answer" where
  "update_outbox i f db =
     (if outbox_ok (row_update ob_order_id i f (lg_outbox db)) \<and> list_all (\<lambda>r. ob_order_id r = i \<longrightarrow> outbox_change_ok r (f r)) (lg_outbox db)
      then Inr (lg_outbox_update (row_update ob_order_id i f) db) else Inl Integrity_Error)"

text \<open>Revocations: \<open>INSERT OR IGNORE\<close> skips a row that violates a constraint of the table.\<close>

definition get_revocation :: "ledger \<Rightarrow> string \<Rightarrow> revocation_event option" where
  "get_revocation db oid = row_get rv_order_id (lg_revocations db) oid"

definition revocation_clash :: "revocation_event \<Rightarrow> ledger \<Rightarrow> bool" where
  "revocation_clash v db \<longleftrightarrow>
     rv_source v \<noteq> ''x402'' \<or> rv_action v \<notin> {''refund'', ''revoke''} \<or>
     list_ex (\<lambda>w. rv_event_id w = rv_event_id v \<or> rv_order_id w = rv_order_id v \<or> rv_license_id w = rv_license_id v \<or>
       rv_authority_id w = rv_authority_id v \<and> rv_source w = rv_source v \<and> rv_source_id w = rv_source_id v) (lg_revocations db)"

definition insert_or_ignore_revocation :: "revocation_event \<Rightarrow> ledger \<Rightarrow> ledger" where
  "insert_or_ignore_revocation v db = (if revocation_clash v db then db else lg_revocations_update (\<lambda>rs. rs @ [v]) db)"

definition revocation_change_ok :: "revocation_event \<Rightarrow> revocation_event \<Rightarrow> bool" where
  "revocation_change_ok old new \<longleftrightarrow>
     rv_event_id new = rv_event_id old \<and> rv_order_id new = rv_order_id old \<and> rv_authority_id new = rv_authority_id old \<and>
     rv_source new = rv_source old \<and> rv_source_id new = rv_source_id old \<and> rv_payload_digest new = rv_payload_digest old \<and>
     rv_license_id new = rv_license_id old \<and> rv_action new = rv_action old \<and> rv_reason new = rv_reason old \<and>
     rv_proof_hash new = rv_proof_hash old \<and> rv_tx_hash new = rv_tx_hash old \<and> rv_evidence_hash new = rv_evidence_hash old \<and>
     rv_created_at new = rv_created_at old \<and> rv_identity new = rv_identity old \<and>
     (rv_state old = ''delivered'' \<longrightarrow> rv_state new = ''delivered'' \<and> rv_delivered_at new = rv_delivered_at old \<and> rv_receipt new = rv_receipt old) \<and>
     (rv_ack_signature old \<noteq> None \<longrightarrow> rv_ack_signature new = rv_ack_signature old) \<and>
     (rv_revoked_at old \<noteq> None \<longrightarrow> rv_revoked_at new = rv_revoked_at old) \<and>
     (rv_request_digest old \<noteq> None \<longrightarrow> rv_request_digest new = rv_request_digest old) \<and>
     (rv_state new = ''delivered'' \<longrightarrow> map_option length (rv_receipt new) = Some 64 \<and> map_option length (rv_ack_signature new) = Some 88 \<and>
        rv_revoked_at new \<noteq> None \<and> rv_request_digest new \<noteq> None)"

definition update_revocation :: "string \<Rightarrow> (revocation_event \<Rightarrow> revocation_event) \<Rightarrow> ledger \<Rightarrow> ledger answer" where
  "update_revocation i f db =
     (if distinct_some (map rv_receipt (row_update rv_event_id i f (lg_revocations db))) \<and>
         list_all (\<lambda>r. rv_event_id r = i \<longrightarrow> revocation_change_ok r (f r)) (lg_revocations db)
      then Inr (lg_revocations_update (row_update rv_event_id i f) db) else Inl Integrity_Error)"

definition assertion_clash :: "assertion \<Rightarrow> ledger \<Rightarrow> bool" where
  "assertion_clash a db \<longleftrightarrow>
     as_sequence a < 1 \<or>
     (case as_reason a of None \<Rightarrow> False | Some r \<Rightarrow> r \<notin> {''refund'', ''chargeback'', ''fraud'', ''terms_violation'', ''administrative''}) \<or>
     list_ex (\<lambda>b. as_license_id b = as_license_id a \<or> as_order_id b = as_order_id a) (lg_assertions db)"

definition insert_assertion :: "assertion \<Rightarrow> ledger \<Rightarrow> ledger answer" where
  "insert_assertion a db = (if assertion_clash a db then Inl Integrity_Error else Inr (lg_assertions_update (\<lambda>rs. rs @ [a]) db))"

definition insert_or_ignore_assertion :: "assertion \<Rightarrow> ledger \<Rightarrow> ledger" where
  "insert_or_ignore_assertion a db = (if assertion_clash a db then db else lg_assertions_update (\<lambda>rs. rs @ [a]) db)"

definition get_whop :: "ledger \<Rightarrow> string \<Rightarrow> whop_row option" where
  "get_whop db i = row_get wh_event_id (lg_whop db) i"

definition insert_whop :: "whop_row \<Rightarrow> ledger \<Rightarrow> ledger answer" where
  "insert_whop w db =
     (if get_whop db (wh_event_id w) \<noteq> None \<or> length (wh_raw_digest w) \<noteq> 64 \<or> wh_kind w \<notin> {''paid'', ''refund'', ''dispute'', ''chargeback''}
      then Inl Integrity_Error else Inr (lg_whop_update (\<lambda>rs. rs @ [w]) db))"

definition whop_change_ok :: "whop_row \<Rightarrow> whop_row \<Rightarrow> bool" where
  "whop_change_ok old new \<longleftrightarrow>
     new\<lparr>wh_state := wh_state old, wh_attempts := wh_attempts old, wh_applied_at := wh_applied_at old, wh_last_attempt_at := wh_last_attempt_at old,
       wh_error_digest := wh_error_digest old\<rparr> = old \<and>
     (wh_state old \<in> {''applied'', ''quarantined''} \<longrightarrow> wh_state new = wh_state old) \<and> wh_attempts old \<le> wh_attempts new \<and>
     (wh_applied_at old \<noteq> None \<longrightarrow> wh_applied_at new = wh_applied_at old) \<and>
     wh_state new \<in> {''received'', ''applied'', ''quarantined''} \<and> (case wh_error_digest new of None \<Rightarrow> True | Some d \<Rightarrow> length d = 64)"

definition update_whop :: "string \<Rightarrow> (whop_row \<Rightarrow> whop_row) \<Rightarrow> ledger \<Rightarrow> ledger answer" where
  "update_whop i f db =
     (if list_all (\<lambda>r. wh_event_id r = i \<longrightarrow> whop_change_ok r (f r)) (lg_whop db)
      then Inr (lg_whop_update (row_update wh_event_id i f) db) else Inl Integrity_Error)"

section \<open>The audit chain\<close>

definition genesis :: string where
  "genesis = replicate 64 CHR ''0''"

definition last_hash :: "audit_event list \<Rightarrow> string" where
  "last_hash rs = (if rs = [] then genesis else ae_chain_hash (last rs))"

fun bar_join :: "string list \<Rightarrow> string" where
  "bar_join [] = []"
| "bar_join [s] = s"
| "bar_join (s # ss) = s @ CHR ''|'' # bar_join ss"

definition chain_hash :: "pay_config \<Rightarrow> string \<Rightarrow> timestamp \<Rightarrow> string \<Rightarrow> string \<Rightarrow> string \<Rightarrow> string \<Rightarrow> string" where
  "chain_hash cf prev t actor operation obj data_hash = cf_hash cf (bar_join [prev, cf_isoformat cf t, actor, operation, obj, data_hash])"

definition pay_audit :: "pay_config \<Rightarrow> pay_env \<Rightarrow> nat \<Rightarrow> string \<Rightarrow> string \<Rightarrow> string \<Rightarrow> json \<Rightarrow> ledger \<Rightarrow> ledger answer" where
  "pay_audit cf env n actor operation obj data db =
     (let prev = last_hash (lg_audit db); dh = cf_data_hash cf data;
          e = \<lparr>ae_event_id = pv_uuid env n, ae_at = pv_now env, ae_actor = actor, ae_operation = operation, ae_object_id = obj, ae_data_hash = dh,
            ae_previous_hash = prev, ae_chain_hash = chain_hash cf prev (pv_now env) actor operation obj dh\<rparr>
      in if has_row ae_event_id (lg_audit db) (ae_event_id e) \<or> has_row ae_chain_hash (lg_audit db) (ae_chain_hash e) then Inl Integrity_Error
         else Inr (lg_audit_update (\<lambda>rs. rs @ [e]) db))"

fun audit_verifies :: "pay_config \<Rightarrow> string \<Rightarrow> audit_event list \<Rightarrow> bool" where
  "audit_verifies cf prev [] = True"
| "audit_verifies cf prev (r # rs) =
     (if chain_hash cf prev (ae_at r) (ae_actor r) (ae_operation r) (ae_object_id r) (ae_data_hash r) \<noteq> ae_chain_hash r \<or> ae_previous_hash r \<noteq> prev
      then False else audit_verifies cf (ae_chain_hash r) rs)"

section \<open>Checkpoints and transactions\<close>

record checkpoint =
  ck_count :: nat
  ck_root :: string
  ck_schema :: string
  ck_sequence :: int

definition checkpoint_json :: "checkpoint \<Rightarrow> json" where
  "checkpoint_json c = JObj [(''count'', jint (int (ck_count c))), (''root'', JStr (ck_root c)), (''schema'', JStr (ck_schema c)),
     (''sequence'', jint (ck_sequence c)), (''version'', jint 2)]"

definition closure_count :: "ledger \<Rightarrow> nat" where
  "closure_count db = length (lg_orders db) + length (lg_proofs db) + length (lg_events db) + length (lg_intents db) + length (lg_candidates db) +
     length (lg_outbox db) + length (lg_revocations db) + length (lg_assertions db) + length (lg_whop db) + length (lg_audit db) + 14"

definition checkpoint_document :: "pay_config \<Rightarrow> ledger \<Rightarrow> checkpoint \<times> string" where
  "checkpoint_document cf db =
     (let core = \<lparr>ck_count = closure_count db, ck_root = cf_root cf db, ck_schema = cf_schema cf, ck_sequence = lg_sequence db\<rparr>
      in (core, cf_mac cf (JList [JStr ''growthmap-issuance-checkpoint-v2'', checkpoint_json core])))"

text \<open>
  The file beside the database. \<open>Legacy_File\<close> is the document of schema version 5: the number, digest and sequence of the
  terminal intents, with a MAC of their own.
\<close>

datatype checkpoint_file = No_File | Bad_File | Legacy_File nat string int string | Checkpoint_File checkpoint string

record pay_state =
  ps_ledger :: ledger
  ps_file :: checkpoint_file
  ps_failed :: bool

definition evidence_fields :: "intent \<Rightarrow> string option \<Rightarrow> string option \<Rightarrow> string option \<Rightarrow> timestamp option \<Rightarrow> bool \<Rightarrow> json" where
  "evidence_fields r tx_hash evidence_hash source finality_at was_paid =
     JObj ([(''amount_minor'', jint (it_amount r)), (''created_at'', jint (it_created_at r)), (''currency'', JStr (it_currency r)),
       (''evidence_hash'', jopt evidence_hash), (''evidence_source'', jopt source),
       (''finality_at'', case finality_at of None \<Rightarrow> JNull | Some t \<Rightarrow> jint t), (''intent_id'', JStr (it_id r)),
       (''lease_expires_at'', jint (it_lease_expires_at r)), (''nonce_hash'', JStr (it_nonce_hash r)), (''order_id'', JStr (it_order_id r)),
       (''proof_hash'', JStr (it_proof_hash r)), (''reconciled_by'', jopt (it_reconciled_by r)), (''reserved_ordinal'', jint (it_ordinal r)),
       (''state'', JStr (if was_paid then ''paid'' else ''cancelled_unpaid'')), (''tx_hash'', jopt tx_hash)] @
      (if it_finality_basis r = None \<and> it_verified_payer r = None \<and> it_settled_payer r = None then []
       else [(''finality_basis'', jopt (it_finality_basis r)), (''verified_payer'', jopt (it_verified_payer r)), (''settled_payer'', jopt (it_settled_payer r))]))"

definition evidence_binding ::
  "pay_config \<Rightarrow> intent \<Rightarrow> string option \<Rightarrow> string option \<Rightarrow> string option \<Rightarrow> timestamp option \<Rightarrow> bool \<Rightarrow> string" where
  "evidence_binding cf r tx_hash evidence_hash source finality_at was_paid =
     cf_mac cf (evidence_fields r tx_hash evidence_hash source finality_at was_paid)"

definition evidence_authentic :: "pay_config \<Rightarrow> intent \<Rightarrow> bool" where
  "evidence_authentic cf r \<longleftrightarrow>
     or_default (it_binding r) [] =
       evidence_binding cf r (it_tx_hash r) (it_evidence_hash r) (it_evidence_source r) (it_finality_at r) (it_state r \<noteq> ''cancelled_unpaid'')"

definition verify_checkpoint :: "pay_config \<Rightarrow> checkpoint_file \<Rightarrow> ledger \<Rightarrow> unit answer" where
  "verify_checkpoint cf f db =
     (case f of
        No_File \<Rightarrow> Inl (Runtime_Error ''external issuance checkpoint missing'')
      | Bad_File \<Rightarrow> Inl (Runtime_Error ''external issuance checkpoint invalid'')
      | Legacy_File _ _ _ _ \<Rightarrow> Inl (Runtime_Error ''external issuance checkpoint authentication failed'')
      | Checkpoint_File c mac \<Rightarrow>
          if mac \<noteq> cf_mac cf (JList [JStr ''growthmap-issuance-checkpoint-v2'', checkpoint_json c])
          then Inl (Runtime_Error ''external issuance checkpoint authentication failed'')
          else if c \<noteq> fst (checkpoint_document cf db) then Inl (Runtime_Error ''external issuance checkpoint/database mismatch'')
          else Inr ())"

definition verify_terminal_evidence :: "pay_config \<Rightarrow> ledger \<Rightarrow> unit answer" where
  "verify_terminal_evidence cf db =
     (if list_all (\<lambda>r. terminal (it_state r) \<longrightarrow> evidence_authentic cf r) (lg_intents db) then Inr ()
      else Inl (Runtime_Error ''terminal settlement evidence authentication failed''))"

definition assert_terminal_trust :: "pay_config \<Rightarrow> pay_state \<Rightarrow> unit answer" where
  "assert_terminal_trust cf st =
     (if ps_failed st then Inl (Runtime_Error ''payment service is fail-closed after checkpoint failure'')
      else and_then (verify_checkpoint cf (ps_file st) (ps_ledger st)) (\<lambda>_. verify_terminal_evidence cf (ps_ledger st)))"

definition commit_trusted :: "pay_config \<Rightarrow> pay_env \<Rightarrow> ledger \<Rightarrow> 'a answer \<Rightarrow> pay_state \<Rightarrow> 'a answer \<times> pay_state" where
  "commit_trusted cf env db r st =
     (let db = lg_sequence_update (\<lambda>n. n + 1) db; (core, mac) = checkpoint_document cf db;
          lost = Inl (Runtime_Error ''external issuance checkpoint update failed; service is fail-closed'')
      in case pv_publication env of
           Published \<Rightarrow> (r, st\<lparr>ps_ledger := db, ps_file := Checkpoint_File core mac\<rparr>)
         | Not_Written \<Rightarrow> (lost, st\<lparr>ps_failed := True\<rparr>)
         | Not_Committed \<Rightarrow> (lost, st\<lparr>ps_file := Checkpoint_File core mac, ps_failed := True\<rparr>))"

datatype 'a tx = Commit ledger "'a answer" | Rollback "'a answer"

definition commits :: "('a \<times> ledger) answer \<Rightarrow> 'a tx" where
  "commits m = (case m of Inl e \<Rightarrow> Rollback (Inl e) | Inr (x, db) \<Rightarrow> Commit db (Inr x))"

definition trusted_tx :: "pay_config \<Rightarrow> pay_env \<Rightarrow> (ledger \<Rightarrow> 'a tx) \<Rightarrow> pay_state \<Rightarrow> 'a answer \<times> pay_state" where
  "trusted_tx cf env f st =
     (case assert_terminal_trust cf st of
        Inl e \<Rightarrow> (Inl e, st)
      | Inr _ \<Rightarrow> (case f (ps_ledger st) of Rollback r \<Rightarrow> (r, st) | Commit db r \<Rightarrow> commit_trusted cf env db r st))"

definition verify_audit :: "pay_config \<Rightarrow> ledger \<Rightarrow> bool tx" where
  "verify_audit cf db = Rollback (Inr (audit_verifies cf genesis (lg_audit db)))"

end
