(* ===== verification/Payments_Orders.thy ===== *)
theory Payments_Orders
  imports Payments_Ledger
begin

text \<open>
  Orders and their settlement (\<open>growthmap_payments/service.py\<close>): quotes, the reservation of a sale ordinal by a settlement intent, evidence of
  payment and its finalization into an entitlement to deliver, ambiguous settlements and their reconciliation, and PayPal claims confirmed by an
  administrator. An operation with several transactions takes one environment per transaction.
\<close>

section \<open>Quotes\<close>

definition EARLY_LIMIT :: int where
  "EARLY_LIMIT = 50"

definition price :: "bool \<Rightarrow> string \<Rightarrow> int" where
  "price early rail = (if rail = ''x402'' then (if early then 10000000 else 29000000) else (if early then 1000 else 2900))"

definition email_char :: "char \<Rightarrow> bool" where
  "email_char c \<longleftrightarrow> \<not> py_space c \<and> c \<noteq> CHR ''@''"

text \<open>The pattern \<open>[^\s@]+@[^\s@]+\.[^\s@]+\<close>.\<close>

definition email_ok :: "string \<Rightarrow> bool" where
  "email_ok s \<longleftrightarrow>
     (let local = takeWhile (\<lambda>c. c \<noteq> CHR ''@'') s; domain = drop (Suc (length local)) s
      in length local < length s \<and> local \<noteq> [] \<and> list_all email_char local \<and> list_all email_char domain \<and>
         CHR ''.'' \<in> set (butlast (drop 1 domain)))"

definition normalize_email :: "string \<Rightarrow> string answer" where
  "normalize_email v =
     (let v = map ascii_lower (strip v) in if 254 < length v \<or> \<not> email_ok v then Inl (Value_Error ''invalid email'') else Inr v)"

definition reserved :: "intent \<Rightarrow> bool" where
  "reserved r \<longleftrightarrow> it_state r \<in> {''prepared'', ''settled'', ''ambiguous''}"

definition sold :: "ledger \<Rightarrow> int list" where
  "sold db = List.map_filter od_sale_ordinal (lg_orders db)"

definition held :: "ledger \<Rightarrow> int list" where
  "held db = map it_ordinal (filter reserved (lg_intents db))"

definition create_order_tx :: "pay_config \<Rightarrow> pay_env \<Rightarrow> string \<Rightarrow> string \<Rightarrow> string \<Rightarrow> ledger \<Rightarrow> (pay_order \<times> string) tx" where
  "create_order_tx cf env rail email license_name db =
     (let early = int (length (sold db) + length (held db)) < EARLY_LIMIT;
          r = \<lparr>od_id = pv_uuid env 0, od_recovery_hash = cf_hash cf (pv_token env), od_rail = rail, od_state = ''pending_payment'',
            od_quoted_amount = price early rail, od_currency = (if rail = ''x402'' then ''USDC'' else ''USD''),
            od_tier = (if early then ''early'' else ''regular''), od_quote_expires_at = pv_now env + seconds (cf_quote_seconds cf),
            od_buyer_email = email, od_license_name = take 100 (strip license_name), od_payer_ref = None, od_tx_hash = None,
            od_sale_ordinal = None, od_license_id = None, od_created_at = pv_now env, od_updated_at = pv_now env, od_confirmed_at = None\<rparr>
      in commits (and_then (put_orders (\<lambda>rs. rs @ [r]) db) (\<lambda>db.
         and_then (pay_audit cf env 1 ''buyer'' ''order.created'' (od_id r)
             (JObj [(''rail'', JStr rail), (''amount_minor'', jint (od_quoted_amount r)), (''currency'', JStr (od_currency r)),
               (''email_hash'', JStr (cf_hash cf email))]) db) (\<lambda>db.
           Inr ((r, pv_token env), db)))))"

definition create_order :: "pay_config \<Rightarrow> pay_env \<Rightarrow> string \<Rightarrow> string \<Rightarrow> string \<Rightarrow> pay_state \<Rightarrow> (pay_order \<times> string) answer \<times> pay_state" where
  "create_order cf env rail email license_name st =
     (if rail \<notin> {''x402'', ''paypal''} then (Inl (Value_Error ''rail''), st)
      else case normalize_email email of
        Inl e \<Rightarrow> (Inl e, st)
      | Inr email \<Rightarrow> trusted_tx cf env (create_order_tx cf env rail email license_name) st)"

record payment_request =
  pr_url :: string
  pr_amount :: int
  pr_pay_to :: string
  pr_timeout :: int
  pr_order_id :: string

definition payment_challenge :: "pay_config \<Rightarrow> pay_env \<Rightarrow> string \<Rightarrow> ledger \<Rightarrow> payment_request tx" where
  "payment_challenge cf env oid db =
     Rollback (case get_order db oid of
        None \<Rightarrow> Inl (Key_Error ''order'')
      | Some r \<Rightarrow>
          if od_rail r \<noteq> ''x402'' then Inl (Key_Error ''order'')
          else if od_state r \<noteq> ''pending_payment'' \<or> od_quote_expires_at r \<le> pv_now env then Inl (Value_Error ''expired or unavailable'')
          else Inr \<lparr>pr_url = rstrip_slash (cf_resource_base cf) @ ''/v1/orders/'' @ oid @ ''/purchase'', pr_amount = od_quoted_amount r,
            pr_pay_to = cf_recipient cf, pr_timeout = cf_quote_seconds cf, pr_order_id = oid\<rparr>)"

section \<open>Settlement intents\<close>

text \<open>\<open>next(i for i in range(1, len(occupied) + 2) if i not in occupied)\<close>.\<close>

definition next_ordinal :: "ledger \<Rightarrow> int option" where
  "next_ordinal db =
     (let occupied = remdups (sold db @ held db) in find (\<lambda>i. i \<notin> set occupied) (map int [1 ..< length occupied + 2]))"

definition payer_ok :: "string \<Rightarrow> bool" where
  "payer_ok s \<longleftrightarrow> length s = 42 \<and> take 2 s = ''0x'' \<and> list_all (\<lambda>c. lower_hex_digit c \<or> c \<in> set ''ABCDEF'') (drop 2 s)"

definition new_intent :: "pay_config \<Rightarrow> pay_env \<Rightarrow> string \<Rightarrow> string \<Rightarrow> string \<Rightarrow> int \<Rightarrow> string option \<Rightarrow> int \<Rightarrow> intent" where
  "new_intent cf env oid proof_id nonce amount payer ordinal =
     \<lparr>it_id = pv_uuid env 0, it_order_id = oid, it_proof_hash = cf_hash cf proof_id, it_nonce_hash = cf_hash cf nonce, it_amount = amount,
      it_currency = ''USDC'', it_ordinal = ordinal, it_lease_expires_at = pv_now env + seconds (cf_intent_seconds cf), it_state = ''prepared'',
      it_tx_hash = None, it_evidence_hash = None, it_evidence_source = None, it_finality_at = None, it_reconciled_by = None,
      it_created_at = pv_now env, it_updated_at = pv_now env, it_binding = None, it_verified_payer = map_option (map ascii_lower) payer,
      it_settled_payer = None, it_finality_basis = None\<rparr>"

text \<open>The order goes to review: committed, although the caller gets an error.\<close>

definition stale_quote :: "pay_config \<Rightarrow> pay_env \<Rightarrow> string \<Rightarrow> string \<Rightarrow> json \<Rightarrow> ledger \<Rightarrow> ledger answer" where
  "stale_quote cf env actor oid data db =
     and_then (set_order_state env oid ''manual_review'' db) (\<lambda>db. pay_audit cf env 1 actor ''payment.manual_review'' oid data db)"

definition prepare_x402_intent :: "pay_config \<Rightarrow> pay_env \<Rightarrow> string \<Rightarrow> string \<Rightarrow> string \<Rightarrow> int \<Rightarrow> string option \<Rightarrow> ledger \<Rightarrow> (string \<times> int) tx" where
  "prepare_x402_intent cf env oid proof_id nonce amount payer db =
     (case get_order db oid of
        None \<Rightarrow> Rollback (Inl (Value_Error ''order unavailable''))
      | Some r \<Rightarrow>
          if od_rail r \<noteq> ''x402'' \<or> od_state r \<noteq> ''pending_payment'' then Rollback (Inl (Value_Error ''order unavailable''))
          else case next_ordinal db of
            None \<Rightarrow> Rollback (Inl (Runtime_Error ''StopIteration''))
          | Some ordinal \<Rightarrow>
              let expected = price (ordinal \<le> EARLY_LIMIT) ''x402''
              in if od_quote_expires_at r \<le> pv_now env \<or> amount \<noteq> expected \<or> od_quoted_amount r \<noteq> expected
                 then (case stale_quote cf env ''x402.verify'' oid (JObj [(''provided'', jint amount), (''expected'', jint expected)]) db of
                     Inl e \<Rightarrow> Rollback (Inl e)
                   | Inr db \<Rightarrow> Commit db (Inl (Value_Error ''stale quote'')))
                 else if payer \<noteq> None \<and> \<not> payer_ok (the payer) then Rollback (Inl (Value_Error ''invalid verified payer''))
                 else let i = new_intent cf env oid proof_id nonce amount payer ordinal
                      in case insert_intent i db of
                           Inl _ \<Rightarrow> Rollback (Inl (Value_Error ''duplicate authorization/order''))
                         | Inr db \<Rightarrow>
                             commits (and_then (pay_audit cf env 1 ''x402.verify'' ''settlement_intent.prepared'' oid
                                 (JObj [(''intent_id'', JStr (it_id i)), (''ordinal'', jint ordinal), (''proof_hash'', JStr (it_proof_hash i))]) db)
                               (\<lambda>db. Inr ((it_id i, ordinal), db))))"

record settlement =
  se_tx_hash :: "string option"
  se_evidence_hash :: "string option"
  se_source :: "string option"
  se_finality_at :: "timestamp option"
  se_payer :: "string option"
  se_finality_basis :: "string option"

definition settled_row :: "pay_config \<Rightarrow> pay_env \<Rightarrow> string \<Rightarrow> settlement \<Rightarrow> intent \<Rightarrow> intent" where
  "settled_row cf env actor s i =
     (let i' = i\<lparr>it_reconciled_by := Some actor, it_settled_payer := map_option (map ascii_lower) (se_payer s), it_finality_basis := se_finality_basis s\<rparr>
      in i'\<lparr>it_state := ''settled'', it_tx_hash := se_tx_hash s, it_evidence_hash := se_evidence_hash s, it_evidence_source := se_source s,
           it_finality_at := se_finality_at s, it_updated_at := pv_now env,
           it_binding := Some (evidence_binding cf i' (se_tx_hash s) (se_evidence_hash s) (se_source s) (se_finality_at s) True)\<rparr>)"

definition record_settlement_result_tx :: "pay_config \<Rightarrow> pay_env \<Rightarrow> string \<Rightarrow> settlement \<Rightarrow> string \<Rightarrow> ledger \<Rightarrow> intent tx" where
  "record_settlement_result_tx cf env intent_id s actor db =
     (case get_intent db intent_id of
        None \<Rightarrow> Rollback (Inl (Key_Error ''intent''))
      | Some i \<Rightarrow>
          if \<not> truthy (it_verified_payer i) \<or> \<not> truthy (se_payer s) \<or> map_option (map ascii_lower) (se_payer s) \<noteq> it_verified_payer i
          then Rollback (Inl (Value_Error ''settlement payer mismatch''))
          else let i' = settled_row cf env actor s i
          in if it_state i \<in> {''settled'', ''finalized_paid''}
             then Rollback (if it_tx_hash i \<noteq> se_tx_hash s \<or> it_evidence_hash i \<noteq> se_evidence_hash s \<or> it_binding i \<noteq> it_binding i'
                  then Inl (Value_Error ''conflicting settlement evidence'') else Inr i)
             else if it_state i \<notin> {''prepared'', ''ambiguous''} then Rollback (Inl (Value_Error ''intent cannot become settled''))
             else case update_intent intent_id (settled_row cf env actor s) db of
               Inl _ \<Rightarrow> Rollback (Inl (Value_Error ''settlement evidence already used''))
             | Inr db \<Rightarrow>
                 commits (and_then (pay_audit cf env 0 actor ''settlement.evidence_recorded'' (it_order_id i)
                     (JObj [(''intent_id'', JStr intent_id), (''tx_hash'', JStr (cf_hash cf (the (se_tx_hash s)))), (''evidence_hash'', jopt (se_evidence_hash s)),
                       (''source'', jopt (se_source s)), (''binding'', jopt (it_binding i'))]) db) (\<lambda>db. Inr (i', db))))"

definition record_settlement_result :: "pay_config \<Rightarrow> pay_env \<Rightarrow> string \<Rightarrow> settlement \<Rightarrow> string \<Rightarrow> pay_state \<Rightarrow> intent answer \<times> pay_state" where
  "record_settlement_result cf env intent_id s actor st =
     (if \<not> truthy (se_tx_hash s) \<or> \<not> truthy (se_evidence_hash s) \<or> \<not> truthy (se_source s) \<or> \<not> truthy (se_finality_basis s) \<or>
         (case se_finality_at s of None \<Rightarrow> True | Some t \<Rightarrow> pv_now env < t)
      then (Inl (Value_Error ''invalid settlement evidence''), st)
      else trusted_tx cf env (record_settlement_result_tx cf env intent_id s actor) st)"

section \<open>Finalization\<close>

definition source_context :: "pay_config \<Rightarrow> string \<Rightarrow> json" where
  "source_context cf oid =
     JObj [(''environment'', JStr (cf_environment cf)), (''merchant'', JStr (cf_merchant_id cf)), (''payee'', JStr (map ascii_lower (cf_recipient cf))),
       (''network'', JStr ''eip155:8453''), (''asset'', JStr (map ascii_lower BASE_USDC)), (''product'', JStr ''growthmap''), (''major'', jint 1),
       (''order'', JStr oid)]"

definition new_outbox :: "pay_config \<Rightarrow> pay_env \<Rightarrow> intent \<Rightarrow> outbox" where
  "new_outbox cf env i =
     \<lparr>ob_order_id = it_order_id i, ob_source = ''x402'', ob_source_id = cf_plain_json_hash cf (source_context cf (it_order_id i)),
      ob_proof_hash = it_proof_hash i, ob_tx_hash = the (it_tx_hash i), ob_evidence_hash = the (it_evidence_hash i), ob_payer = the (it_settled_payer i),
      ob_network = ''eip155:8453'', ob_asset = BASE_USDC, ob_amount = it_amount i, ob_product = ''growthmap'', ob_major_version = 1,
      ob_state = ''pending'', ob_license_id = None, ob_created_at = pv_now env, ob_delivered_at = None, ob_lease_owner = None,
      ob_lease_expires_at = None, ob_attempt_count = 0, ob_next_attempt_at = Some (pv_now env), ob_last_error_hash = None, ob_receipt = None,
      ob_fence = 0, ob_identity = Some (cf_identity cf), ob_ack_signature = None, ob_phase = ''none''\<rparr>"

definition issue_reserved :: "pay_config \<Rightarrow> pay_env \<Rightarrow> intent \<Rightarrow> string \<Rightarrow> ledger \<Rightarrow> (pay_order \<times> ledger) answer" where
  "issue_reserved cf env i actor db =
     (let oid = it_order_id i in
      and_then (insert_proof \<lparr>pp_hash = it_proof_hash i, pp_rail = ''x402'', pp_order_id = oid, pp_tx_hash = it_tx_hash i, pp_created_at = pv_now env\<rparr> db) (\<lambda>db.
      and_then (update_order oid (\<lambda>r. r\<lparr>od_state := ''payment_confirmed'', od_sale_ordinal := Some (it_ordinal i), od_confirmed_at := Some (pv_now env),
          od_updated_at := pv_now env, od_tx_hash := it_tx_hash i\<rparr>) db) (\<lambda>db.
      and_then (pay_audit cf env 0 actor ''payment.confirmed'' oid (JObj [(''ordinal'', jint (it_ordinal i))]) db) (\<lambda>db.
      and_then (if it_settled_payer i = None then Inl Integrity_Error else insert_outbox (new_outbox cf env i) db) (\<lambda>db.
      and_then (update_intent (it_id i) (\<lambda>r. r\<lparr>it_state := ''finalized_paid'', it_updated_at := pv_now env\<rparr>) db) (\<lambda>db.
      and_then (pay_audit cf env 1 ''issuer'' ''entitlement.enqueued'' oid (JObj [(''source'', JStr ''x402'')]) db) (\<lambda>db.
        case get_order db oid of None \<Rightarrow> Inl Type_Error | Some r \<Rightarrow> Inr (r, db))))))))"

definition finalize_x402_intent :: "pay_config \<Rightarrow> pay_env \<Rightarrow> string \<Rightarrow> ledger \<Rightarrow> pay_order tx" where
  "finalize_x402_intent cf env intent_id db =
     (case get_intent db intent_id of
        None \<Rightarrow> Rollback (Inl (Key_Error ''intent''))
      | Some i \<Rightarrow>
          if it_state i \<notin> {''settled'', ''finalized_paid''} \<or> \<not> truthy (it_tx_hash i) \<or> \<not> truthy (it_evidence_hash i)
          then Rollback (Inl (Value_Error ''durable paid evidence required''))
          else if or_default (it_binding i) [] \<noteq>
              evidence_binding cf i (it_tx_hash i) (it_evidence_hash i) (it_evidence_source i) (it_finality_at i) True
          then Rollback (Inl (Value_Error ''settlement evidence binding mismatch''))
          else if it_state i = ''finalized_paid''
          then Rollback (case get_order db (it_order_id i) of None \<Rightarrow> Inl Type_Error | Some r \<Rightarrow> Inr r)
          else commits (issue_reserved cf env i ''x402.finalize'' db))"

text \<open>\<open>recover_durable_settlements\<close>: the settled intents are finalized one by one, oldest first, each in its own transaction.\<close>

fun finalize_all :: "pay_config \<Rightarrow> (nat \<Rightarrow> pay_env) \<Rightarrow> nat \<Rightarrow> string list \<Rightarrow> pay_state \<Rightarrow> unit answer \<times> pay_state" where
  "finalize_all cf env n [] st = (Inr (), st)"
| "finalize_all cf env n (i # is) st =
     (case trusted_tx cf (env n) (finalize_x402_intent cf (env n) i) st of
        (Inl e, st') \<Rightarrow> (Inl e, st')
      | (Inr _, st') \<Rightarrow> finalize_all cf env (Suc n) is st')"

definition recover_durable_settlements :: "pay_config \<Rightarrow> (nat \<Rightarrow> pay_env) \<Rightarrow> pay_state \<Rightarrow> unit answer \<times> pay_state" where
  "recover_durable_settlements cf env st =
     finalize_all cf env 0 (map it_id (sort_key it_created_at (filter (\<lambda>i. it_state i = ''settled'') (lg_intents (ps_ledger st))))) st"

section \<open>Ambiguous settlements\<close>

definition make_ambiguous :: "pay_env \<Rightarrow> intent \<Rightarrow> ledger \<Rightarrow> ledger answer" where
  "make_ambiguous env i db =
     and_then (update_intent (it_id i) (\<lambda>r. r\<lparr>it_state := ''ambiguous'', it_updated_at := pv_now env\<rparr>) db)
       (set_order_state env (it_order_id i) ''manual_review'')"

fun expire_intents :: "pay_config \<Rightarrow> pay_env \<Rightarrow> nat \<Rightarrow> intent list \<Rightarrow> ledger \<Rightarrow> ledger answer" where
  "expire_intents cf env n [] db = Inr db"
| "expire_intents cf env n (i # is) db =
     and_then (make_ambiguous env i db) (\<lambda>db.
     and_then (pay_audit cf env n ''recovery'' ''settlement_intent.lease_expired'' (it_order_id i) (JObj [(''intent_id'', JStr (it_id i))]) db)
       (expire_intents cf env (Suc n) is))"

definition reconcile_expired_intents :: "pay_config \<Rightarrow> pay_env \<Rightarrow> ledger \<Rightarrow> unit tx" where
  "reconcile_expired_intents cf env db =
     commits (and_then (expire_intents cf env 0 (filter (\<lambda>i. it_state i = ''prepared'' \<and> it_lease_expires_at i \<le> pv_now env) (lg_intents db)) db)
       (\<lambda>db. Inr ((), db)))"

definition candidate_ok :: "settlement_candidate \<Rightarrow> bool" where
  "candidate_ok c \<longleftrightarrow>
     length (cd_tx_hash c) = 66 \<and> take 2 (cd_tx_hash c) = ''0x'' \<and> list_all lower_hex_digit (drop 2 (cd_tx_hash c)) \<and>
     length (cd_payer c) = 42 \<and> take 2 (cd_payer c) = ''0x'' \<and> list_all lower_hex_digit (drop 2 (cd_payer c)) \<and>
     cd_network c = ''eip155:8453'' \<and> 0 < cd_amount c \<and>
     head_tail lower_digit (\<lambda>x. lower_digit x \<or> x \<in> set ''._:/-'') 0 127 (cd_source c) \<and> hex64 (cd_response_hash c)"

definition record_settlement_candidate_tx :: "pay_config \<Rightarrow> pay_env \<Rightarrow> settlement_candidate \<Rightarrow> ledger \<Rightarrow> settlement_candidate tx" where
  "record_settlement_candidate_tx cf env c db =
     (case get_intent db (cd_intent_id c) of
        None \<Rightarrow> Rollback (Inl (Key_Error ''intent''))
      | Some i \<Rightarrow>
          if it_state i \<notin> {''prepared'', ''ambiguous''} \<or> \<not> truthy (it_verified_payer i) \<or> Some (cd_payer c) \<noteq> it_verified_payer i \<or>
             cd_amount c \<noteq> it_amount i
          then Rollback (Inl (Value_Error ''settlement candidate binding mismatch''))
          else case row_get cd_intent_id (lg_candidates db) (cd_intent_id c) of
            Some old \<Rightarrow>
              Rollback (if old\<lparr>cd_observed_at := cd_observed_at c\<rparr> \<noteq> c then Inl (Value_Error ''conflicting settlement candidate'') else Inr old)
          | None \<Rightarrow>
              let c = c\<lparr>cd_observed_at := pv_now env\<rparr>
              in case insert_candidate c db of
                   Inl _ \<Rightarrow> Rollback (Inl (Value_Error ''settlement candidate already used''))
                 | Inr db \<Rightarrow>
                     commits (and_then (if it_state i = ''prepared''
                         then update_intent (it_id i) (\<lambda>r. r\<lparr>it_state := ''ambiguous'', it_updated_at := pv_now env\<rparr>) db else Inr db) (\<lambda>db.
                       and_then (set_order_state env (it_order_id i) ''manual_review'' db) (\<lambda>db.
                       and_then (pay_audit cf env 0 ''x402.settle'' ''settlement.candidate_recorded'' (it_order_id i)
                           (JObj [(''intent_id'', JStr (it_id i)), (''tx_hash'', JStr (cf_hash cf (cd_tx_hash c))), (''response_hash'', JStr (cd_response_hash c)),
                             (''source'', JStr (cd_source c))]) db) (\<lambda>db.
                         Inr (c, db))))))"

definition record_settlement_candidate :: "pay_config \<Rightarrow> pay_env \<Rightarrow> settlement_candidate \<Rightarrow> pay_state \<Rightarrow> settlement_candidate answer \<times> pay_state" where
  "record_settlement_candidate cf env c st =
     (if \<not> candidate_ok c then (Inl (Value_Error ''invalid settlement candidate''), st)
      else trusted_tx cf env (record_settlement_candidate_tx cf env c) st)"

definition mark_intent_ambiguous :: "pay_config \<Rightarrow> pay_env \<Rightarrow> string \<Rightarrow> string \<Rightarrow> ledger \<Rightarrow> unit tx" where
  "mark_intent_ambiguous cf env intent_id reason db =
     (case get_intent db intent_id of
        Some i \<Rightarrow>
          if it_state i = ''prepared''
          then commits (and_then (make_ambiguous env i db) (\<lambda>db.
            and_then (pay_audit cf env 0 ''x402.settle'' ''settlement_intent.ambiguous'' (it_order_id i)
                (JObj [(''intent_id'', JStr intent_id), (''reason_hash'', JStr (cf_hash cf reason))]) db) (\<lambda>db. Inr ((), db))))
          else Commit db (Inr ())
      | None \<Rightarrow> Commit db (Inr ()))"

text \<open>What a reconciler found out; \<open>None\<close> when required members are missing.\<close>

record evidence =
  re_outcome :: string
  re_settlement :: settlement
  re_proof_hash :: string
  re_nonce_hash :: string
  re_order_id :: string

definition cancelled_row :: "pay_config \<Rightarrow> pay_env \<Rightarrow> string \<Rightarrow> settlement \<Rightarrow> intent \<Rightarrow> intent" where
  "cancelled_row cf env actor s i =
     (let i' = i\<lparr>it_reconciled_by := Some actor, it_settled_payer := map_option (map ascii_lower) (se_payer s), it_finality_basis := se_finality_basis s\<rparr>
      in i'\<lparr>it_state := ''cancelled_unpaid'', it_evidence_hash := se_evidence_hash s, it_evidence_source := se_source s,
           it_finality_at := se_finality_at s, it_updated_at := pv_now env,
           it_binding := Some (evidence_binding cf i' None (se_evidence_hash s) (se_source s) (se_finality_at s) False)\<rparr>)"

definition cancel_unpaid_tx :: "pay_config \<Rightarrow> pay_env \<Rightarrow> string \<Rightarrow> settlement \<Rightarrow> string \<Rightarrow> ledger \<Rightarrow> int tx" where
  "cancel_unpaid_tx cf env intent_id s actor db =
     (case get_intent db intent_id of
        None \<Rightarrow> Rollback (Inl Type_Error)
      | Some i \<Rightarrow>
          if it_state i \<notin> {''prepared'', ''ambiguous''} then Rollback (Inl (Value_Error ''reconciliation race''))
          else if se_payer s = None then Rollback (Inl Type_Error)
          else case update_intent intent_id (cancelled_row cf env actor s) db of
            Inl _ \<Rightarrow> Rollback (Inl (Value_Error ''settlement evidence already used''))
          | Inr db \<Rightarrow>
              commits (and_then (set_order_state env (it_order_id i) ''expired'' db) (\<lambda>db.
                and_then (pay_audit cf env 0 actor ''settlement.cancelled_unpaid'' (it_order_id i)
                    (JObj [(''intent_id'', JStr intent_id), (''ordinal_released'', jint (it_ordinal i)), (''evidence_hash'', jopt (se_evidence_hash s)),
                      (''source'', jopt (se_source s)), (''binding'', jopt (it_binding (cancelled_row cf env actor s i)))]) db) (\<lambda>db.
                  Inr (it_ordinal i, db)))))"

definition read_intent :: "string \<Rightarrow> ledger \<Rightarrow> intent tx" where
  "read_intent intent_id db =
     Rollback (case get_intent db intent_id of
        None \<Rightarrow> Inl (Value_Error ''intent not reconcilable'')
      | Some i \<Rightarrow> if it_state i \<in> {''prepared'', ''ambiguous''} then Inr i else Inl (Value_Error ''intent not reconcilable''))"

text \<open>The answer: the order when paid, the released ordinal when not.\<close>

definition reconcile_intent ::
  "pay_config \<Rightarrow> (nat \<Rightarrow> pay_env) \<Rightarrow> (intent \<Rightarrow> evidence option answer) \<Rightarrow> string \<Rightarrow> string \<Rightarrow> pay_state \<Rightarrow> (pay_order + int) answer \<times> pay_state" where
  "reconcile_intent cf env reconciler intent_id actor st =
     (case trusted_tx cf (env 0) (read_intent intent_id) st of
        (Inl e, st) \<Rightarrow> (Inl e, st)
      | (Inr i, st) \<Rightarrow>
          (case reconciler i of
             Inl e \<Rightarrow> (Inl e, st)
           | Inr None \<Rightarrow> (Inl (Value_Error ''reconciliation evidence binding''), st)
           | Inr (Some ev) \<Rightarrow>
               if re_proof_hash ev \<noteq> it_proof_hash i \<or> re_nonce_hash ev \<noteq> it_nonce_hash i \<or> re_order_id ev \<noteq> it_order_id i
               then (Inl (Value_Error ''reconciliation evidence binding''), st)
               else if re_outcome ev = ''paid''
               then (case record_settlement_result cf (env 1) intent_id (re_settlement ev) actor st of
                   (Inl e, st) \<Rightarrow> (Inl e, st)
                 | (Inr _, st) \<Rightarrow>
                     (case trusted_tx cf (env 2) (finalize_x402_intent cf (env 2) intent_id) st of
                        (Inl e, st) \<Rightarrow> (Inl e, st) | (Inr r, st) \<Rightarrow> (Inr (Inl r), st)))
               else if re_outcome ev \<noteq> ''unpaid'' \<or> se_tx_hash (re_settlement ev) \<noteq> None \<or>
                 (case se_finality_at (re_settlement ev) of None \<Rightarrow> True | Some t \<Rightarrow> pv_now (env 1) < t)
               then (Inl (Value_Error ''final unpaid evidence required''), st)
               else (case trusted_tx cf (env 1) (cancel_unpaid_tx cf (env 1) intent_id (re_settlement ev) actor) st of
                   (Inl e, st) \<Rightarrow> (Inl e, st) | (Inr n, st) \<Rightarrow> (Inr (Inr n), st))))"

section \<open>Direct confirmation and PayPal\<close>

definition confirm_payment_locked ::
  "pay_config \<Rightarrow> pay_env \<Rightarrow> string \<Rightarrow> string \<Rightarrow> int \<Rightarrow> string \<Rightarrow> string option \<Rightarrow> string option \<Rightarrow> string \<Rightarrow> ledger \<Rightarrow> pay_order tx" where
  "confirm_payment_locked cf env oid proof_id amount currency payer_ref tx_hash actor db =
     (case get_order db oid of
        None \<Rightarrow> Rollback (Inl (Key_Error ''order''))
      | Some r \<Rightarrow>
          if od_state r = ''license_issued'' then Rollback (Inr r)
          else if od_state r \<noteq> ''pending_payment'' then Rollback (Inl (Value_Error ''invalid state''))
          else case next_ordinal db of
            None \<Rightarrow> Rollback (Inl (Runtime_Error ''StopIteration''))
          | Some ordinal \<Rightarrow>
              let expected = price (ordinal \<le> EARLY_LIMIT) (od_rail r);
                  answer = (\<lambda>db. case get_order db oid of None \<Rightarrow> Inl Type_Error | Some r \<Rightarrow> Inr (r, db))
              in if od_quote_expires_at r \<le> pv_now env \<or> amount \<noteq> expected \<or> od_quoted_amount r \<noteq> expected \<or>
                    (od_rail r, currency) \<notin> {(''x402'', ''USDC''), (''paypal'', ''USD'')}
                 then commits (and_then (stale_quote cf env actor oid
                     (JObj [(''provided'', jint amount), (''expected'', jint expected), (''currency'', JStr currency)]) db) answer)
                 else (case insert_proof \<lparr>pp_hash = cf_hash cf proof_id, pp_rail = od_rail r, pp_order_id = oid, pp_tx_hash = tx_hash, pp_created_at = pv_now env\<rparr> db of
                     Inl _ \<Rightarrow> Rollback (Inl (Value_Error ''duplicate payment proof''))
                   | Inr db \<Rightarrow>
                       commits (and_then (update_order oid (\<lambda>r. r\<lparr>od_state := ''payment_confirmed'', od_sale_ordinal := Some ordinal,
                           od_confirmed_at := Some (pv_now env), od_updated_at := pv_now env, od_payer_ref := payer_ref, od_tx_hash := tx_hash\<rparr>) db) (\<lambda>db.
                         and_then (pay_audit cf env 0 actor ''payment.confirmed'' oid (JObj [(''ordinal'', jint ordinal)]) db) (\<lambda>db.
                         and_then (pay_audit cf env 1 ''issuer'' ''entitlement.not_configured'' oid (JObj [(''rail'', JStr (od_rail r))]) db) answer)))))"

text \<open>\<open>decimal\<close> reads a finite decimal as coefficient and exponent.\<close>

definition paypal_minor :: "(string \<Rightarrow> (int \<times> int) option) \<Rightarrow> string \<Rightarrow> int answer" where
  "paypal_minor decimal v =
     (if CHR ''e'' \<in> set v \<or> CHR ''E'' \<in> set v then Inl (Value_Error ''PayPal amount must be a decimal string'')
      else case decimal v of
        None \<Rightarrow> Inl (Value_Error ''invalid PayPal amount'')
      | Some (c, e) \<Rightarrow>
          if c \<le> 0 \<or> e < - 2 then Inl (Value_Error ''PayPal amount must have at most two decimal places'') else Inr (c * 10 ^ nat (e + 2)))"

definition paypal_submit_tx :: "pay_config \<Rightarrow> pay_env \<Rightarrow> string \<Rightarrow> string \<Rightarrow> ledger \<Rightarrow> unit tx" where
  "paypal_submit_tx cf env oid tx db =
     (case get_order db oid of
        None \<Rightarrow> Rollback (Inl (Value_Error ''PayPal order unavailable''))
      | Some r \<Rightarrow>
          if od_rail r \<noteq> ''paypal'' \<or> od_state r \<noteq> ''pending_payment'' then Rollback (Inl (Value_Error ''PayPal order unavailable''))
          else case insert_external_event \<lparr>ev_hash = cf_hash cf (''paypal:'' @ tx), ev_source = ''paypal-claim'', ev_order_id = oid, ev_received_at = pv_now env\<rparr> db of
            Inl _ \<Rightarrow> Rollback (Inl (Value_Error ''duplicate transaction id''))
          | Inr db \<Rightarrow>
              commits (and_then (update_order oid (\<lambda>r. r\<lparr>od_payer_ref := Some tx, od_updated_at := pv_now env\<rparr>) db) (\<lambda>db.
                and_then (pay_audit cf env 0 ''buyer'' ''paypal.claim_submitted'' oid (JObj [(''transaction_hash'', JStr (cf_hash cf tx))]) db) (\<lambda>db.
                  Inr ((), db)))))"

definition paypal_submit :: "pay_config \<Rightarrow> pay_env \<Rightarrow> string \<Rightarrow> string \<Rightarrow> pay_state \<Rightarrow> unit answer \<times> pay_state" where
  "paypal_submit cf env oid transaction_id st =
     (let tx = strip transaction_id
      in if tx = [] \<or> 120 < length tx then (Inl (Value_Error ''transaction id''), st) else trusted_tx cf env (paypal_submit_tx cf env oid tx) st)"

record attestation =
  pa_amount :: string
  pa_currency :: string
  pa_status :: string
  pa_payee_verified :: bool

definition paypal_confirm_tx ::
  "pay_config \<Rightarrow> pay_env \<Rightarrow> (string \<Rightarrow> (int \<times> int) option) \<Rightarrow> string \<Rightarrow> string \<Rightarrow> attestation \<Rightarrow> string \<Rightarrow> ledger \<Rightarrow> pay_order tx" where
  "paypal_confirm_tx cf env decimal oid transaction_id a actor db =
     (case get_order db oid of
        None \<Rightarrow> Rollback (Inl (Value_Error ''transaction does not match submitted claim''))
      | Some r \<Rightarrow>
          if od_rail r \<noteq> ''paypal'' \<or> od_payer_ref r \<noteq> Some transaction_id
          then Rollback (Inl (Value_Error ''transaction does not match submitted claim''))
          else case paypal_minor decimal (pa_amount a) of
            Inl e \<Rightarrow> Rollback (Inl e)
          | Inr amount \<Rightarrow> confirm_payment_locked cf env oid transaction_id amount ''USD'' None (Some transaction_id) actor db)"

definition paypal_confirm ::
  "pay_config \<Rightarrow> pay_env \<Rightarrow> (string \<Rightarrow> (int \<times> int) option) \<Rightarrow> string \<Rightarrow> string \<Rightarrow> attestation \<Rightarrow> string \<Rightarrow> pay_state \<Rightarrow> pay_order answer \<times> pay_state" where
  "paypal_confirm cf env decimal oid transaction_id a actor st =
     (if pa_status a \<noteq> ''COMPLETED'' \<or> pa_currency a \<noteq> ''USD'' \<or> \<not> pa_payee_verified a then (Inl (Value_Error ''invalid PayPal attestation''), st)
      else trusted_tx cf env (paypal_confirm_tx cf env decimal oid transaction_id a actor) st)"

end
