(* ===== verification/Payments_Finality.thy ===== *)
theory Payments_Finality
  imports Payments_Orders
begin

text \<open>
  How the payments service learns that a transfer on the Base chain is final (\<open>growthmap_payments/finality.py\<close>, \<open>base_finality.py\<close>): an
  observer reads a receipt and two blocks from a node and reports the single transfer that pays an intent; its report comes back as a document
  that is authenticated, by a MAC or by a signature, before every member of it is compared with the intent. The node, the holder of the key,
  JSON text, hash functions and timestamps as text are parameters. Values that JSON text denotes are of type \<open>py\<close>; a decoded object has each
  key once, except before the duplicate check of \<open>strict_object\<close>. Bytes are characters, instants microseconds.
\<close>

section \<open>Python values\<close>

type_synonym members = "(string \<times> py) list"

record runtime =
  rt_loads :: "string \<Rightarrow> py answer"
  rt_dumps :: "py \<Rightarrow> string"
  rt_casefold :: "string \<Rightarrow> string"
  rt_sha256 :: "string \<Rightarrow> string"
  rt_hmac :: "string \<Rightarrow> string \<Rightarrow> string"
  rt_b64decode :: "string \<Rightarrow> string option"
  rt_isoformat :: "timestamp \<Rightarrow> string"
  rt_fromisoformat :: "string \<Rightarrow> timestamp option"

text \<open>\<open>d.get(k)\<close>, and \<open>d[k]\<close> where the key is known to be there.\<close>

definition dict_item :: "members \<Rightarrow> string \<Rightarrow> py" where
  "dict_item ms k = (case map_of ms k of Some v \<Rightarrow> v | None \<Rightarrow> PyNone)"

fun text_value :: "py \<Rightarrow> string" where
  "text_value (PyStr s) = s"
| "text_value _ = []"

fun py_is_str :: "py \<Rightarrow> bool" where
  "py_is_str (PyStr _) = True"
| "py_is_str _ = False"

fun py_is_int :: "py \<Rightarrow> bool" where
  "py_is_int (PyInt _) = True"
| "py_is_int _ = False"

abbreviation text_item :: "members \<Rightarrow> string \<Rightarrow> string" where
  "text_item ms k \<equiv> text_value (dict_item ms k)"

fun py_true :: "py \<Rightarrow> bool" where
  "py_true PyNone = False"
| "py_true (PyBool b) = b"
| "py_true (PyInt i) = (i \<noteq> 0)"
| "py_true (PyFloat r) = (r \<noteq> 0)"
| "py_true (PyStr s) = (s \<noteq> [])"
| "py_true (PyList vs) = (vs \<noteq> [])"
| "py_true (PyDict ms) = (ms \<noteq> [])"

text \<open>\<open>v or ""\<close> as the subject of a pattern, which has to be a string.\<close>

definition pattern_subject :: "py \<Rightarrow> string answer" where
  "pattern_subject v = (if \<not> py_true v then Inr [] else case v of PyStr s \<Rightarrow> Inr s | _ \<Rightarrow> Inl Type_Error)"

text \<open>\<open>str.lower\<close> on the code points below 256.\<close>

definition latin_lower :: "char \<Rightarrow> char" where
  "latin_lower c =
     (let n = of_char c :: nat in if 65 \<le> n \<and> n \<le> 90 \<or> 192 \<le> n \<and> n \<le> 222 \<and> n \<noteq> 215 then char_of (n + 32) else c)"

definition prefixed_hex :: "nat \<Rightarrow> string \<Rightarrow> bool" where
  "prefixed_hex n s \<longleftrightarrow> length s = n + 2 \<and> take 2 s = ''0x'' \<and> list_all lower_hex_digit (drop 2 s)"

abbreviation is_tx :: "string \<Rightarrow> bool" where
  "is_tx \<equiv> prefixed_hex 64"

abbreviation is_address :: "string \<Rightarrow> bool" where
  "is_address \<equiv> prefixed_hex 40"

definition is_label :: "string \<Rightarrow> bool" where
  "is_label s \<longleftrightarrow> head_tail lower_digit (\<lambda>x. lower_digit x \<or> x \<in> set ''._:/-'') 0 127 s"

definition hex_digit_value :: "char \<Rightarrow> int" where
  "hex_digit_value c = int (length (takeWhile (\<lambda>d. d \<noteq> c) ''0123456789abcdef''))"

definition hex_value :: "string \<Rightarrow> int" where
  "hex_value s = foldl (\<lambda>n c. 16 * n + hex_digit_value c) 0 s"

definition BASE_NETWORK :: string where
  "BASE_NETWORK = ''eip155:8453''"

section \<open>Documents\<close>

fun strict_object :: "(string \<Rightarrow> string) \<Rightarrow> py \<Rightarrow> bool" where
  "strict_object f (PyDict ms) = (distinct (map (\<lambda>m. f (fst m)) ms) \<and> list_all (\<lambda>m. strict_object f (snd m)) ms)"
| "strict_object f (PyList vs) = list_all (strict_object f) vs"
| "strict_object f _ = True"

fun is_container :: "py \<Rightarrow> bool" where
  "is_container (PyDict _) = True"
| "is_container (PyList _) = True"
| "is_container _ = False"

fun containers :: "py \<Rightarrow> py list" where
  "containers (PyDict ms) = filter is_container (map snd ms)"
| "containers (PyList vs) = filter is_container vs"
| "containers _ = []"

definition weight :: "py \<Rightarrow> nat" where
  "weight v = Suc (size v)"

lemma containers_smaller: "sum_list (map weight (containers v)) < weight v"
proof -
  have "sum_list (map weight (filter is_container vs)) \<le> size_list size vs" for vs by (induction vs) (auto simp: weight_def)
  moreover have "sum_list (map weight (filter is_container (map snd ms))) \<le> size_list (size_prod (\<lambda>_. 0) size) ms" for ms :: members
    by (induction ms) (auto simp: weight_def)
  ultimately show ?thesis by (cases v) (auto simp: weight_def le_imp_less_Suc less_Suc_eq_le intro: le_SucI)
qed

text \<open>\<open>_reject_excessive_depth\<close>: the stack, its top first; the value is whether the loop ends without an exception.\<close>

function depth_loop :: "nat \<Rightarrow> (py \<times> nat) list \<Rightarrow> bool" where
  "depth_loop maximum [] = True"
| "depth_loop maximum ((current, depth) # stack) =
     (if depth > maximum then False
      else depth_loop maximum (rev (map (\<lambda>child. (child, depth + 1)) (containers current)) @ stack))"
  by pat_completeness auto
termination
proof (relation "measure (\<lambda>(_, stack). sum_list (map (weight \<circ> fst) stack))", goal_cases)
  case (2 maximum current depth stack)
  have "map (weight \<circ> fst) (rev (map (\<lambda>child. (child, depth + 1)) (containers current))) = rev (map weight (containers current))"
    by (simp add: rev_map)
  then have "sum_list (map (weight \<circ> fst) (rev (map (\<lambda>child. (child, depth + 1)) (containers current)))) < weight current"
    by (simp only: sum_list_rev containers_smaller)
  then show ?case by (simp del: map_map map_append rev_map add: map_append)
qed simp

definition reject_excessive_depth :: "py \<Rightarrow> nat \<Rightarrow> bool" where
  "reject_excessive_depth v maximum \<longleftrightarrow> \<not> depth_loop maximum [(v, 1)]"

definition MAX_JSON_DEPTH :: nat where
  "MAX_JSON_DEPTH = 32"

definition MAX_DOCUMENT :: nat where
  "MAX_DOCUMENT = 16384"

text \<open>\<open>_CANONICAL_UTC\<close>.\<close>

definition digit :: "char \<Rightarrow> bool" where
  "digit c \<longleftrightarrow> c \<in> set ''0123456789''"

definition canonical_utc :: "string \<Rightarrow> bool" where
  "canonical_utc s \<longleftrightarrow>
     list_all2 (\<lambda>p c. if p = CHR ''d'' then digit c else c = p) ''dddd-dd-ddTdd:dd:dd'' (take 19 s) \<and>
     (let r = drop 19 s; n = length r - 7
      in r = ''+00:00'' \<or> 1 \<le> n \<and> n \<le> 6 \<and> take 1 r = ''.'' \<and> list_all digit (take n (drop 1 r)) \<and> drop (n + 1) r = ''+00:00'')"

definition parse_canonical_utc :: "runtime \<Rightarrow> string \<Rightarrow> timestamp option" where
  "parse_canonical_utc rt raw =
     (if \<not> canonical_utc raw then None
      else case rt_fromisoformat rt raw of
        None \<Rightarrow> None
      | Some parsed \<Rightarrow> if rt_isoformat rt parsed \<noteq> raw then None else Some parsed)"

section \<open>Validation\<close>

definition FINALITY_FIELDS :: "string list" where
  "FINALITY_FIELDS = [''outcome'', ''proof_hash'', ''nonce_hash'', ''order_id'', ''payer'', ''tx_hash'', ''evidence_hash'', ''source'',
     ''finality_at'', ''finality_basis'', ''network'', ''asset'', ''payee'', ''amount_minor'']"

record finality_terms =
  ft_payee :: string
  ft_network :: string
  ft_asset :: string

definition shape_fault :: "members \<Rightarrow> string option" where
  "shape_fault p =
     (let txt = text_item p; paid = txt ''outcome'' = ''paid'' in
      if list_ex (\<lambda>k. k \<noteq> ''amount_minor'' \<and> \<not> py_is_str (dict_item p k)) FINALITY_FIELDS \<or> \<not> py_is_int (dict_item p ''amount_minor'')
      then Some ''invalid authenticated finality field type''
      else if txt ''outcome'' \<notin> {''paid'', ''unpaid''} then Some ''invalid authenticated finality outcome''
      else if \<not> list_all (\<lambda>k. hex64 (txt k)) [''proof_hash'', ''nonce_hash'', ''evidence_hash'']
      then Some ''invalid authenticated finality digest''
      else if \<not> is_address (txt ''payer'') \<or> txt ''payer'' \<noteq> map latin_lower (txt ''payer'') then Some ''invalid authenticated finality payer''
      else if \<not> is_label (txt ''source'') \<or> \<not> is_label (txt ''finality_basis'') then Some ''invalid authenticated finality attribution''
      else if paid \<and> \<not> is_tx (txt ''tx_hash'') \<or> \<not> paid \<and> txt ''tx_hash'' \<noteq> ''''
      then Some ''invalid authenticated finality transaction outcome''
      else None)"

text \<open>The instants of the document and of the intent, as far as they can be read, against the clock.\<close>

definition instants_ok :: "runtime \<Rightarrow> timestamp \<Rightarrow> members \<Rightarrow> intent \<Rightarrow> bool" where
  "instants_ok rt now p i =
     (case (parse_canonical_utc rt (text_item p ''finality_at''), parse_canonical_utc rt (rt_isoformat rt (it_created_at i))) of
        (Some finality, Some created) \<Rightarrow> created \<le> finality \<and> finality \<le> now
      | _ \<Rightarrow> False)"

definition bindings_ok :: "finality_terms \<Rightarrow> members \<Rightarrow> intent \<Rightarrow> bool" where
  "bindings_ok ft p i \<longleftrightarrow>
     text_item p ''proof_hash'' = it_proof_hash i \<and> text_item p ''nonce_hash'' = it_nonce_hash i \<and> text_item p ''order_id'' = it_order_id i \<and>
     Some (map latin_lower (text_item p ''payer'')) = it_verified_payer i \<and> dict_item p ''amount_minor'' = PyInt (it_amount i) \<and>
     text_item p ''network'' = ft_network ft \<and> map latin_lower (text_item p ''asset'') = ft_asset ft \<and>
     map latin_lower (text_item p ''payee'') = ft_payee ft"

definition validate_finality :: "runtime \<Rightarrow> finality_terms \<Rightarrow> timestamp \<Rightarrow> members \<Rightarrow> intent \<Rightarrow> unit answer" where
  "validate_finality rt ft now p i =
     (case shape_fault p of
        Some m \<Rightarrow> Inl (Value_Error m)
      | None \<Rightarrow>
          if \<not> instants_ok rt now p i then Inl (Value_Error ''invalid authenticated finality timestamp'')
          else if \<not> bindings_ok ft p i then Inl (Value_Error ''authenticated finality binding mismatch'')
          else Inr ())"

definition normalized_evidence :: "members \<Rightarrow> members" where
  "normalized_evidence p =
     map (\<lambda>k. (k, dict_item p k)) ([''outcome'', ''proof_hash'', ''nonce_hash'', ''order_id'', ''payer'', ''evidence_hash'', ''source'',
       ''finality_at'', ''finality_basis''] @ (if text_item p ''outcome'' = ''paid'' then [''tx_hash''] else []))"

section \<open>Reconcilers\<close>

record mac_reconciler =
  mr_terms :: finality_terms
  mr_key :: string
  mr_max_document :: nat

definition mac_reconciler_init :: "string \<Rightarrow> string \<Rightarrow> string \<Rightarrow> string \<Rightarrow> nat \<Rightarrow> mac_reconciler answer" where
  "mac_reconciler_init mac_key payee network asset max_document =
     (if length mac_key < 32 then Inl (Runtime_Error ''authenticated finality MAC key missing/weak'')
      else if \<not> is_address (map latin_lower payee) then Inl (Runtime_Error ''authenticated finality payee invalid'')
      else if max_document < 512 \<or> max_document > MAX_DOCUMENT then Inl (Runtime_Error ''authenticated finality document bound invalid'')
      else Inr \<lparr>mr_terms = \<lparr>ft_payee = map latin_lower payee, ft_network = network, ft_asset = map latin_lower asset\<rparr>, mr_key = mac_key,
        mr_max_document = max_document\<rparr>)"

text \<open>The steps from bytes to a decoded document, \<open>kind\<close> being the word the messages start with.\<close>

definition decode_document :: "runtime \<Rightarrow> string \<Rightarrow> nat \<Rightarrow> string \<Rightarrow> py answer" where
  "decode_document rt kind max_document raw =
     (let invalid = Inl (Value_Error (''invalid '' @ kind @ '' finality document'')) in
      if raw = [] \<or> length raw > max_document then invalid
      else case rt_loads rt raw of
        Inl (Value_Error _) \<Rightarrow> invalid
      | Inl e \<Rightarrow> Inl e
      | Inr v \<Rightarrow>
          if \<not> strict_object (rt_casefold rt) v then invalid
          else if reject_excessive_depth v MAX_JSON_DEPTH then Inl (Value_Error ''invalid authenticated finality document'')
          else Inr v)"

definition MAC_DOMAIN :: string where
  "MAC_DOMAIN = ''growthmap-authenticated-finality-v1'' @ [CHR 0x00]"

definition SIGNED_DOMAIN :: string where
  "SIGNED_DOMAIN = ''growthmap-signed-finality-v1'' @ [CHR 0x00]"

definition sign_test_document :: "runtime \<Rightarrow> members \<Rightarrow> string \<Rightarrow> string" where
  "sign_test_document rt payload key =
     rt_dumps rt (PyDict [(''mac'', PyStr (rt_hmac rt key (MAC_DOMAIN @ rt_dumps rt (PyDict payload)))), (''payload'', PyDict payload)])"

definition mac_payload :: "runtime \<Rightarrow> mac_reconciler \<Rightarrow> string \<Rightarrow> members answer" where
  "mac_payload rt mr raw =
     and_then (decode_document rt ''authenticated'' (mr_max_document mr) raw) (\<lambda>v.
     case v of
       PyDict document \<Rightarrow>
         if dict_keys document \<noteq> {''mac'', ''payload''} then Inl (Value_Error ''invalid authenticated finality envelope'')
         else (case (dict_item document ''mac'', dict_item document ''payload'') of
           (PyStr mac, PyDict payload) \<Rightarrow>
             if \<not> hex64 mac \<or> dict_keys payload \<noteq> set FINALITY_FIELDS then Inl (Value_Error ''invalid authenticated finality schema'')
             else if mac \<noteq> rt_hmac rt (mr_key mr) (MAC_DOMAIN @ rt_dumps rt (PyDict payload))
             then Inl (Value_Error ''authenticated finality verification failed'')
             else Inr payload
         | _ \<Rightarrow> Inl (Value_Error ''invalid authenticated finality schema''))
     | _ \<Rightarrow> Inl (Value_Error ''invalid authenticated finality envelope''))"

text \<open>\<open>AuthenticatedFinalityReconciler.reconcile\<close>; \<open>provider\<close> is its source of documents.\<close>

definition mac_reconcile :: "runtime \<Rightarrow> mac_reconciler \<Rightarrow> timestamp \<Rightarrow> (intent \<Rightarrow> string answer) \<Rightarrow> intent \<Rightarrow> members answer" where
  "mac_reconcile rt mr now provider i =
     (case provider i of
        Inl _ \<Rightarrow> Inl (Value_Error ''authenticated finality provider unavailable'')
      | Inr raw \<Rightarrow>
          and_then (mac_payload rt mr raw) (\<lambda>payload.
          and_then (validate_finality rt (mr_terms mr) now payload i) (\<lambda>_.
            Inr (normalized_evidence payload))))"

record signed_reconciler =
  sr_terms :: finality_terms
  sr_verify :: "string \<Rightarrow> string \<Rightarrow> bool"
  sr_max_document :: nat

text \<open>\<open>load\<close> reads a PEM public key: \<open>None\<close> when it cannot, \<open>Some None\<close> for a key that is not Ed25519.\<close>

definition signed_reconciler_init ::
  "(string \<Rightarrow> (string \<Rightarrow> string \<Rightarrow> bool) option option) \<Rightarrow> string \<Rightarrow> string \<Rightarrow> string \<Rightarrow> string \<Rightarrow> nat \<Rightarrow> signed_reconciler answer" where
  "signed_reconciler_init load public_key payee network asset max_document =
     (case load public_key of
        None \<Rightarrow> Inl (Runtime_Error ''signed finality public key invalid'')
      | Some None \<Rightarrow> Inl (Runtime_Error ''signed finality public key must be Ed25519'')
      | Some (Some verify) \<Rightarrow>
          if \<not> is_address (map latin_lower payee) then Inl (Runtime_Error ''signed finality payee invalid'')
          else if max_document < 512 \<or> max_document > MAX_DOCUMENT then Inl (Runtime_Error ''signed finality document bound invalid'')
          else Inr \<lparr>sr_terms = \<lparr>ft_payee = map latin_lower payee, ft_network = network, ft_asset = map latin_lower asset\<rparr>,
            sr_verify = verify, sr_max_document = max_document\<rparr>)"

definition signed_payload :: "runtime \<Rightarrow> signed_reconciler \<Rightarrow> string \<Rightarrow> members answer" where
  "signed_payload rt sr raw =
     and_then (decode_document rt ''signed'' (sr_max_document sr) raw) (\<lambda>v.
     case v of
       PyDict document \<Rightarrow>
         if dict_keys document \<noteq> {''signature'', ''payload''} then Inl (Value_Error ''invalid signed finality envelope'')
         else (case (dict_item document ''signature'', dict_item document ''payload'') of
           (PyStr signature, PyDict payload) \<Rightarrow>
             if dict_keys payload \<noteq> set FINALITY_FIELDS then Inl (Value_Error ''invalid signed finality schema'')
             else (case rt_b64decode rt signature of
               None \<Rightarrow> Inl (Value_Error ''signed finality verification failed'')
             | Some s \<Rightarrow>
                 if length s \<noteq> 64 \<or> \<not> sr_verify sr s (SIGNED_DOMAIN @ rt_dumps rt (PyDict payload))
                 then Inl (Value_Error ''signed finality verification failed'')
                 else Inr payload)
         | _ \<Rightarrow> Inl (Value_Error ''invalid signed finality schema''))
     | _ \<Rightarrow> Inl (Value_Error ''invalid signed finality envelope''))"

definition signed_reconcile :: "runtime \<Rightarrow> signed_reconciler \<Rightarrow> timestamp \<Rightarrow> (intent \<Rightarrow> string answer) \<Rightarrow> intent \<Rightarrow> members answer" where
  "signed_reconcile rt sr now provider i =
     (case provider i of
        Inl _ \<Rightarrow> Inl (Value_Error ''signed finality provider unavailable'')
      | Inr raw \<Rightarrow>
          and_then (signed_payload rt sr raw) (\<lambda>payload.
          and_then (validate_finality rt (sr_terms sr) now payload i) (\<lambda>_.
            Inr (normalized_evidence payload))))"

text \<open>The service reads the answer of a reconciler by member names; the instant is the one the text denotes.\<close>

definition text_option :: "members \<Rightarrow> string \<Rightarrow> string option" where
  "text_option ms k = (case map_of ms k of Some (PyStr s) \<Rightarrow> Some s | _ \<Rightarrow> None)"

definition evidence_of :: "runtime \<Rightarrow> members \<Rightarrow> evidence option" where
  "evidence_of rt ms =
     (if {''outcome'', ''evidence_hash'', ''source'', ''finality_at'', ''finality_basis'', ''payer'', ''proof_hash'', ''nonce_hash'', ''order_id''} \<subseteq> dict_keys ms
      then Some \<lparr>re_outcome = text_item ms ''outcome'',
        re_settlement = \<lparr>se_tx_hash = text_option ms ''tx_hash'', se_evidence_hash = text_option ms ''evidence_hash'', se_source = text_option ms ''source'',
          se_finality_at = rt_fromisoformat rt (text_item ms ''finality_at''), se_payer = text_option ms ''payer'',
          se_finality_basis = text_option ms ''finality_basis''\<rparr>,
        re_proof_hash = text_item ms ''proof_hash'', re_nonce_hash = text_item ms ''nonce_hash'', re_order_id = text_item ms ''order_id''\<rparr>
      else None)"

end
