(* ===== verification/Payments_Chain.thy ===== *)
theory Payments_Chain
  imports Payments_Finality "HOL-Library.AList"
begin

text \<open>
  The observer of the Base chain (\<open>growthmap_payments/base_finality.py\<close>): the read-only transport to the official node, with the network as a
  parameter, and the observation of one settlement candidate: a successful receipt in a block at or below the finalized one, no older than the
  intent, with exactly one USDC transfer of the amount from the payer to the payee.
\<close>

section \<open>Transport\<close>

definition RPC_METHODS :: "string set" where
  "RPC_METHODS = {''eth_chainId'', ''eth_getTransactionReceipt'', ''eth_getBlockByHash'', ''eth_getBlockByNumber''}"

definition RPC_MAX_REQUEST :: nat where
  "RPC_MAX_REQUEST = 2048"

definition RPC_MAX_RESPONSE :: nat where
  "RPC_MAX_RESPONSE = 1048576"

text \<open>
  The network: the addresses the resolver gives for the host, an address read (its canonical spelling and whether it is global), and the
  exchange of a request with an address: the \<open>Content-Length\<close> header, the status and the body, or nothing when the connection fails.
\<close>

record rpc_network =
  rn_getaddrinfo :: "string list option"
  rn_ip_address :: "string \<Rightarrow> (string \<times> bool) option"
  rn_exchange :: "string \<Rightarrow> string \<Rightarrow> (string option \<times> int \<times> string) option"

fun collect_addresses :: "rpc_network \<Rightarrow> string list \<Rightarrow> string list \<Rightarrow> string list answer" where
  "collect_addresses rn addresses [] = Inr addresses"
| "collect_addresses rn addresses (v # vs) =
     (case rn_ip_address rn v of
        None \<Rightarrow> Inl (Value_Error ''official Base RPC DNS invalid'')
      | Some (address, is_global) \<Rightarrow>
          if \<not> is_global then Inl (Value_Error ''official Base RPC DNS rejected'')
          else collect_addresses rn (if address \<in> set addresses then addresses else addresses @ [address]) vs)"

definition public_addresses :: "rpc_network \<Rightarrow> string list answer" where
  "public_addresses rn =
     (case rn_getaddrinfo rn of
        None \<Rightarrow> Inl (Value_Error ''official Base RPC DNS unavailable'')
      | Some values \<Rightarrow>
          and_then (collect_addresses rn [] values) (\<lambda>addresses.
            if addresses = [] then Inl (Value_Error ''official Base RPC DNS unavailable'') else Inr addresses))"

text \<open>\<open>json.loads\<close> without a hook: the last of several members with the same key counts.\<close>

fun plain_object :: "py \<Rightarrow> py" where
  "plain_object (PyDict ms) = PyDict (foldl (\<lambda>d (k, v). AList.update k v d) [] (map (\<lambda>m. (fst m, plain_object (snd m))) ms))"
| "plain_object (PyList vs) = PyList (map plain_object vs)"
| "plain_object v = v"

fun equals_one :: "py \<Rightarrow> bool" where
  "equals_one (PyInt i) = (i = 1)"
| "equals_one (PyBool b) = b"
| "equals_one (PyFloat r) = (r = 1)"
| "equals_one _ = False"

definition decimal_value :: "string \<Rightarrow> int" where
  "decimal_value s = foldl (\<lambda>n c. 10 * n + hex_digit_value c) 0 s"

text \<open>The body of the loop over addresses: a result, an exception that ends the loop, or (\<open>None\<close>) one that moves on to the next address.\<close>

definition rpc_attempt :: "runtime \<Rightarrow> rpc_network \<Rightarrow> string \<Rightarrow> string \<Rightarrow> py answer option" where
  "rpc_attempt rt rn request address =
     (case rn_exchange rn address request of
        None \<Rightarrow> None
      | Some (content_length, status, body) \<Rightarrow>
          if (case content_length of None \<Rightarrow> False
              | Some l \<Rightarrow> l = [] \<or> \<not> list_all digit l \<or> decimal_value l > int RPC_MAX_RESPONSE) then None
          else if status \<noteq> 200 \<or> length body > RPC_MAX_RESPONSE then None
          else case rt_loads rt body of
            Inl (Value_Error _) \<Rightarrow> None
          | Inl e \<Rightarrow> Some (Inl e)
          | Inr v \<Rightarrow>
              (case plain_object v of
                 PyDict document \<Rightarrow>
                   if dict_keys document \<noteq> {''jsonrpc'', ''id'', ''result''} \<or> dict_item document ''jsonrpc'' \<noteq> PyStr ''2.0'' \<or>
                      \<not> equals_one (dict_item document ''id'')
                   then None else Some (Inr (dict_item document ''result''))
               | _ \<Rightarrow> None))"

fun first_attempt :: "runtime \<Rightarrow> rpc_network \<Rightarrow> string \<Rightarrow> string list \<Rightarrow> py answer" where
  "first_attempt rt rn request [] = Inl (Value_Error ''official Base RPC unavailable'')"
| "first_attempt rt rn request (a # as) =
     (case rpc_attempt rt rn request a of Some r \<Rightarrow> r | None \<Rightarrow> first_attempt rt rn request as)"

text \<open>\<open>json_text\<close> is \<open>json.dumps\<close> without spaces and without sorting.\<close>

definition rpc_call :: "runtime \<Rightarrow> (py \<Rightarrow> string) \<Rightarrow> rpc_network \<Rightarrow> string \<Rightarrow> py list \<Rightarrow> py answer" where
  "rpc_call rt json_text rn method params =
     (if method \<notin> RPC_METHODS then Inl (Value_Error ''official Base RPC method forbidden'')
      else let request = json_text (PyDict [(''jsonrpc'', PyStr ''2.0''), (''method'', PyStr method), (''params'', PyList params), (''id'', PyInt 1)])
      in if length request > RPC_MAX_REQUEST then Inl (Value_Error ''official Base RPC request too large'')
         else and_then (public_addresses rn) (first_attempt rt rn request))"

section \<open>Observation\<close>

definition BASE_CHAIN_ID_HEX :: string where
  "BASE_CHAIN_ID_HEX = ''0x2105''"

definition TRANSFER_TOPIC :: string where
  "TRANSFER_TOPIC = ''0xddf252ad1be2c89b69c2b068fc378daa952ba7f163c4a11628f55a4df523b3ef''"

definition quantity :: "py \<Rightarrow> int answer" where
  "quantity v =
     (case v of
        PyStr s \<Rightarrow>
          (let d = drop 2 s in
           if take 2 s = ''0x'' \<and> (d = ''0'' \<or> d \<noteq> [] \<and> hd d \<noteq> CHR ''0'' \<and> list_all lower_hex_digit d)
           then Inr (hex_value d) else Inl (Value_Error ''invalid Base RPC quantity''))
      | _ \<Rightarrow> Inl (Value_Error ''invalid Base RPC quantity''))"

definition address_topic :: "string \<Rightarrow> string" where
  "address_topic address = ''0x'' @ replicate 24 CHR ''0'' @ drop 2 address"

definition strict_dict :: "py \<Rightarrow> string set \<Rightarrow> string \<Rightarrow> members answer" where
  "strict_dict v needed label =
     (case v of
        PyDict ms \<Rightarrow> if needed \<subseteq> dict_keys ms then Inr ms else Inl (Value_Error (''invalid Base RPC '' @ label))
      | _ \<Rightarrow> Inl (Value_Error (''invalid Base RPC '' @ label)))"

type_synonym rpc = "string \<Rightarrow> py list \<Rightarrow> py answer"

text \<open>The receipt of a transaction, with the hash and number of its block and its logs.\<close>

definition read_receipt :: "rpc \<Rightarrow> string \<Rightarrow> (members \<times> string \<times> int \<times> py list) answer" where
  "read_receipt rpc tx =
     and_then (rpc ''eth_getTransactionReceipt'' [PyStr tx]) (\<lambda>v.
     and_then (strict_dict v {''transactionHash'', ''status'', ''blockNumber'', ''blockHash'', ''logs''} ''receipt'') (\<lambda>receipt.
     let mismatch = Inl (Value_Error ''Base finality receipt mismatch'') in
     if dict_item receipt ''transactionHash'' \<noteq> PyStr tx \<or> dict_item receipt ''status'' \<noteq> PyStr ''0x1'' then mismatch
     else and_then (pattern_subject (dict_item receipt ''blockHash'')) (\<lambda>block_hash.
     if \<not> is_tx block_hash then mismatch
     else and_then (quantity (dict_item receipt ''blockNumber'')) (\<lambda>number.
     case dict_item receipt ''logs'' of
       PyList logs \<Rightarrow> Inr (receipt, block_hash, number, logs)
     | _ \<Rightarrow> Inl (Value_Error ''invalid Base RPC receipt'')))))"

text \<open>The block of the receipt and the finalized block.\<close>

definition read_blocks :: "rpc \<Rightarrow> string \<Rightarrow> int \<Rightarrow> (members \<times> members) answer" where
  "read_blocks rpc block_hash number =
     and_then (rpc ''eth_getBlockByHash'' [PyStr block_hash, PyBool False]) (\<lambda>v.
     and_then (strict_dict v {''hash'', ''number'', ''timestamp''} ''receipt block'') (\<lambda>canonical.
     and_then (rpc ''eth_getBlockByNumber'' [PyStr ''finalized'', PyBool False]) (\<lambda>v.
     and_then (strict_dict v {''hash'', ''number'', ''timestamp''} ''finalized block'') (\<lambda>finalized.
     let unfinalized = Inl (Value_Error ''Base finality block not finalized'') in
     if dict_item canonical ''hash'' \<noteq> PyStr block_hash then unfinalized
     else and_then (quantity (dict_item canonical ''number'')) (\<lambda>n.
     if n \<noteq> number then unfinalized
     else and_then (quantity (dict_item finalized ''number'')) (\<lambda>m.
     if m < number then unfinalized
     else and_then (pattern_subject (dict_item finalized ''hash'')) (\<lambda>h.
     if \<not> is_tx h then unfinalized else Inr (canonical, finalized))))))))"

text \<open>\<open>datetime.fromtimestamp\<close>: years up to 9999.\<close>

definition from_timestamp :: "int \<Rightarrow> timestamp option" where
  "from_timestamp n = (if n \<le> 253402300799 then Some (n * 1000000) else None)"

definition block_time :: "runtime \<Rightarrow> members \<Rightarrow> intent \<Rightarrow> timestamp answer" where
  "block_time rt canonical i =
     and_then (quantity (dict_item canonical ''timestamp'')) (\<lambda>n.
     case (from_timestamp n, rt_fromisoformat rt (rt_isoformat rt (it_created_at i))) of
       (Some t, Some created) \<Rightarrow> if t < created then Inl (Value_Error ''Base finality timestamp invalid'') else Inr t
     | _ \<Rightarrow> Inl (Value_Error ''Base finality timestamp invalid''))"

definition transfer_log :: "string \<Rightarrow> string \<Rightarrow> int \<Rightarrow> members \<Rightarrow> bool" where
  "transfer_log payer payee amount l \<longleftrightarrow>
     dict_item l ''address'' = PyStr (map latin_lower BASE_USDC) \<and>
     (case (dict_item l ''topics'', dict_item l ''data'') of
        (PyList [t0, t1, t2], PyStr d) \<Rightarrow>
          t0 = PyStr TRANSFER_TOPIC \<and> t1 = PyStr (address_topic payer) \<and> t2 = PyStr (address_topic payee) \<and> is_tx d \<and> hex_value (drop 2 d) = amount
      | _ \<Rightarrow> False)"

fun count_transfers :: "string \<Rightarrow> string \<Rightarrow> int \<Rightarrow> nat \<Rightarrow> py list \<Rightarrow> nat answer" where
  "count_transfers payer payee amount matches [] = Inr matches"
| "count_transfers payer payee amount matches (PyDict l # logs) =
     count_transfers payer payee amount (if transfer_log payer payee amount l then matches + 1 else matches) logs"
| "count_transfers payer payee amount matches (_ # logs) = Inl (Value_Error ''invalid Base RPC log'')"

record observer =
  bo_payee :: string
  bo_source :: string

definition observer_init :: "string \<Rightarrow> string \<Rightarrow> observer answer" where
  "observer_init payee source =
     (if \<not> is_address payee \<or> payee \<noteq> map latin_lower payee then Inl (Runtime_Error ''Base finality payee invalid'')
      else if \<not> is_label source then Inl (Runtime_Error ''Base finality source invalid'')
      else Inr \<lparr>bo_payee = payee, bo_source = source\<rparr>)"

definition observation :: "settlement_candidate \<Rightarrow> members \<Rightarrow> members \<Rightarrow> members \<Rightarrow> py" where
  "observation c receipt canonical finalized =
     PyDict [(''candidate_response_hash'', PyStr (cd_response_hash c)), (''canonical_block_hash'', dict_item canonical ''hash''),
       (''finalized_block_hash'', dict_item finalized ''hash''), (''finalized_block_number'', dict_item finalized ''number''),
       (''receipt'', PyDict receipt)]"

definition observed_payload :: "runtime \<Rightarrow> observer \<Rightarrow> intent \<Rightarrow> settlement_candidate \<Rightarrow> string \<Rightarrow> string \<Rightarrow> timestamp \<Rightarrow> members" where
  "observed_payload rt bo i c payer evidence t =
     [(''outcome'', PyStr ''paid''), (''proof_hash'', PyStr (it_proof_hash i)), (''nonce_hash'', PyStr (it_nonce_hash i)),
      (''order_id'', PyStr (it_order_id i)), (''payer'', PyStr payer), (''tx_hash'', PyStr (cd_tx_hash c)),
      (''evidence_hash'', PyStr evidence), (''source'', PyStr (bo_source bo)), (''finality_at'', PyStr (rt_isoformat rt t)),
      (''finality_basis'', PyStr ''base.rpc.finalized_ancestor''), (''network'', PyStr BASE_NETWORK),
      (''asset'', PyStr (map latin_lower BASE_USDC)), (''payee'', PyStr (bo_payee bo)), (''amount_minor'', PyInt (it_amount i))]"

definition observe :: "runtime \<Rightarrow> observer \<Rightarrow> rpc \<Rightarrow> intent \<Rightarrow> settlement_candidate \<Rightarrow> members answer" where
  "observe rt bo rpc i c =
     (case it_verified_payer i of
        None \<Rightarrow> Inl (Value_Error ''Base finality candidate binding mismatch'')
      | Some payer \<Rightarrow>
          if cd_intent_id c \<noteq> it_id i \<or> cd_payer c \<noteq> payer \<or> cd_network c \<noteq> BASE_NETWORK \<or> cd_amount c \<noteq> it_amount i \<or>
             \<not> is_tx (cd_tx_hash c) \<or> \<not> is_address payer \<or> \<not> hex64 (cd_response_hash c)
          then Inl (Value_Error ''Base finality candidate binding mismatch'')
          else and_then (rpc ''eth_chainId'' []) (\<lambda>chain.
            if chain \<noteq> PyStr BASE_CHAIN_ID_HEX then Inl (Value_Error ''Base finality chain mismatch'')
            else and_then (read_receipt rpc (cd_tx_hash c)) (\<lambda>(receipt, block_hash, number, logs).
            and_then (read_blocks rpc block_hash number) (\<lambda>(canonical, finalized).
            and_then (block_time rt canonical i) (\<lambda>t.
            and_then (count_transfers payer (bo_payee bo) (it_amount i) 0 logs) (\<lambda>matches.
            if matches \<noteq> 1 then Inl (Value_Error ''Base finality USDC transfer mismatch'')
            else Inr (observed_payload rt bo i c payer (rt_sha256 rt (rt_dumps rt (observation c receipt canonical finalized))) t)))))))"

text \<open>
  \<open>finality_evidence\<close>: \<open>candidates\<close> looks up what the facilitator reported, \<open>authenticate\<close> is the holder of the key. Errors other than
  \<open>ValueError\<close> are reported as one of them.
\<close>

definition base_evidence ::
  "runtime \<Rightarrow> observer \<Rightarrow> rpc \<Rightarrow> (string \<Rightarrow> settlement_candidate answer) \<Rightarrow> (members \<Rightarrow> string answer) \<Rightarrow> intent \<Rightarrow> string answer" where
  "base_evidence rt bo rpc candidates authenticate i =
     (case and_then (candidates (it_id i)) (\<lambda>c. and_then (observe rt bo rpc i c) authenticate) of
        Inl (Value_Error m) \<Rightarrow> Inl (Value_Error m)
      | Inl _ \<Rightarrow> Inl (Value_Error ''Base finality dependency unavailable'')
      | Inr envelope \<Rightarrow>
          if envelope = [] \<or> length envelope > 16384 then Inl (Value_Error ''Base finality authenticator unavailable'') else Inr envelope)"

end
