(* ===== verification/Payments_Outbox.thy ===== *)
theory Payments_Outbox
  imports Payments_Orders
begin

text \<open>
  Delivery of paid entitlements to the license authority, and of revocations (\<open>growthmap_payments/service.py\<close>). A worker leases a row of the
  outbox under a fencing version, announces the crossing to the authority in two transactions, talks to the authority, and records the
  signed acknowledgement in a last transaction; a refund in between moves the fence. Each transaction is a function of its own, because others
  run between them; the functions named after the methods run them in sequence. What the authority answers is a parameter.
\<close>

section \<open>Acknowledgements\<close>

record entitlement_ack =
  ea_source :: string
  ea_source_id :: string
  ea_payload_digest :: string
  ea_license_id :: string
  ea_authority_id :: string
  ea_identity :: signer_identity
  ea_receipt :: string
  ea_signature :: string

record revocation_answer =
  rw_source :: string
  rw_source_id :: string
  rw_payload_digest :: string
  rw_license_id :: string
  rw_action :: string
  rw_reason :: string
  rw_payment_proof :: string
  rw_tx_hash :: string
  rw_created_at :: timestamp
  rw_revoked_at :: timestamp
  rw_request_digest :: string
  rw_receipt :: string
  rw_authority_id :: string
  rw_identity :: signer_identity
  rw_signature :: string

definition verify_authority_handshake :: "pay_config \<Rightarrow> signer_identity option \<Rightarrow> signer_identity answer" where
  "verify_authority_handshake cf actual =
     (case actual of
        None \<Rightarrow> Inl (Runtime_Error ''authority_identity_unavailable'')
      | Some i \<Rightarrow> if i \<noteq> cf_identity cf then Inl (Runtime_Error ''authority_identity_mismatch'') else Inr i)"

definition outbox_payload_digest :: "pay_config \<Rightarrow> outbox \<Rightarrow> string" where
  "outbox_payload_digest cf r =
     cf_plain_json_hash cf (JObj [(''order_id'', JStr (ob_order_id r)), (''source'', JStr (ob_source r)), (''source_id'', JStr (ob_source_id r)),
       (''proof_hash'', JStr (ob_proof_hash r)), (''tx_hash'', JStr (ob_tx_hash r)), (''evidence_hash'', JStr (ob_evidence_hash r)),
       (''payer'', JStr (ob_payer r)), (''network'', JStr (ob_network r)), (''asset'', JStr (ob_asset r)), (''amount_minor'', jint (ob_amount r)),
       (''product'', JStr (ob_product r)), (''major_version'', jint (ob_major_version r))])"

definition issued_license_id_ok :: "string \<Rightarrow> bool" where
  "issued_license_id_ok s \<longleftrightarrow> take 3 s = ''gm_'' \<and> length s = 35 \<and> list_all lower_hex_digit (drop 3 s)"

definition expected_receipt :: "pay_config \<Rightarrow> signer_identity \<Rightarrow> outbox \<Rightarrow> string \<Rightarrow> string \<Rightarrow> string" where
  "expected_receipt cf identity r digest license_id =
     cf_json_hash cf (JObj [(''signer_identity'', identity_doc identity), (''source'', JStr (ob_source r)), (''source_id'', JStr (ob_source_id r)),
       (''payload_digest'', JStr digest), (''license_id'', JStr license_id)])"

definition validate_entitlement_ack :: "pay_config \<Rightarrow> entitlement_ack \<Rightarrow> outbox \<Rightarrow> signer_identity \<Rightarrow> string \<Rightarrow> bool" where
  "validate_entitlement_ack cf v r identity digest \<longleftrightarrow>
     ea_identity v = identity \<and> ea_authority_id v = si_authority_id identity \<and> ea_source v = ob_source r \<and> ea_source_id v = ob_source_id r \<and>
     ea_payload_digest v = digest \<and> issued_license_id_ok (ea_license_id v) \<and> hex64 (ea_receipt v) \<and>
     ea_receipt v = expected_receipt cf identity r digest (ea_license_id v) \<and>
     cf_ack_verify cf (ea_signature v) (''growthmap-entitlement-authority-ack-v1'',
       JObj [(''authority_id'', JStr (ea_authority_id v)), (''delivery_receipt'', JStr (ea_receipt v)), (''license_id'', JStr (ea_license_id v)),
         (''payload_digest'', JStr (ea_payload_digest v)), (''signer_identity'', identity_doc identity), (''source'', JStr (ea_source v)),
         (''source_id'', JStr (ea_source_id v))])"

definition revocation_request_digest :: "pay_config \<Rightarrow> signer_identity \<Rightarrow> revocation_event \<Rightarrow> string" where
  "revocation_request_digest cf identity r =
     cf_json_hash cf (JObj [(''signer_identity'', identity_doc identity), (''source'', JStr (rv_source r)), (''source_id'', JStr (rv_source_id r)),
       (''payload_digest'', JStr (rv_payload_digest r)), (''license_id'', JStr (rv_license_id r)), (''action'', JStr (rv_action r)),
       (''reason'', JStr (rv_reason r)), (''payment_proof'', JStr (rv_proof_hash r)), (''tx_hash'', JStr (rv_tx_hash r)),
       (''created_at'', JStr (cf_isoformat cf (rv_created_at r)))])"

definition validate_revocation_ack :: "pay_config \<Rightarrow> revocation_answer \<Rightarrow> revocation_event \<Rightarrow> signer_identity \<Rightarrow> bool" where
  "validate_revocation_ack cf v r identity \<longleftrightarrow>
     rw_identity v = identity \<and> rw_authority_id v = si_authority_id identity \<and> rw_source v = rv_source r \<and> rw_source_id v = rv_source_id r \<and>
     rw_payload_digest v = rv_payload_digest r \<and> rw_license_id v = rv_license_id r \<and> rw_action v = rv_action r \<and> rw_reason v = rv_reason r \<and>
     rw_payment_proof v = rv_proof_hash r \<and> rw_tx_hash v = rv_tx_hash r \<and> rw_created_at v = rv_created_at r \<and>
     hex64 (rw_request_digest v) \<and> hex64 (rw_receipt v) \<and> rw_request_digest v = revocation_request_digest cf identity r \<and>
     rw_receipt v = cf_json_hash cf (JObj [(''authority_id'', JStr (si_authority_id identity)), (''request_digest'', JStr (rw_request_digest v)),
       (''license_id'', JStr (rv_license_id r)), (''revoked_at'', jint (rw_revoked_at v))]) \<and>
     cf_ack_verify cf (rw_signature v) (''growthmap-revocation-authority-ack-v1'',
       JObj [(''authority_id'', JStr (rw_authority_id v)), (''license_id'', JStr (rw_license_id v)), (''request_digest'', JStr (rw_request_digest v)),
         (''revocation_receipt'', JStr (rw_receipt v)), (''revoked_at'', jint (rw_revoked_at v)), (''signer_identity'', identity_doc identity),
         (''source'', JStr (rw_source v)), (''source_id'', JStr (rw_source_id v))])"

section \<open>Revocations to deliver\<close>

definition new_revocation :: "pay_config \<Rightarrow> outbox \<Rightarrow> string \<Rightarrow> string \<Rightarrow> string \<Rightarrow> timestamp \<Rightarrow> revocation_event" where
  "new_revocation cf e license_id action reason created_at =
     \<lparr>rv_event_id = ''gmr_'' @ cf_data_hash cf (JObj [(''authority_id'', JStr (si_authority_id (cf_identity cf))), (''source'', JStr (ob_source e)),
        (''source_id'', JStr (ob_source_id e)), (''payload_digest'', JStr (outbox_payload_digest cf e)), (''license_id'', JStr license_id),
        (''order_id'', JStr (ob_order_id e)), (''action'', JStr action)]),
      rv_order_id = ob_order_id e, rv_authority_id = si_authority_id (cf_identity cf), rv_source = ob_source e, rv_source_id = ob_source_id e,
      rv_payload_digest = outbox_payload_digest cf e, rv_license_id = license_id, rv_action = action, rv_reason = reason,
      rv_proof_hash = ob_proof_hash e, rv_tx_hash = ob_tx_hash e, rv_evidence_hash = ob_evidence_hash e, rv_created_at = created_at,
      rv_state = ''pending'', rv_lease_owner = None, rv_lease_expires_at = None, rv_attempt_count = 0, rv_next_attempt_at = Some created_at,
      rv_last_error_hash = None, rv_fence = 0, rv_delivered_at = None, rv_receipt = None, rv_identity = Some (cf_identity cf),
      rv_ack_signature = None, rv_revoked_at = None, rv_request_digest = None\<rparr>"

definition enqueue_revocation ::
  "pay_config \<Rightarrow> pay_env \<Rightarrow> outbox \<Rightarrow> string \<Rightarrow> string \<Rightarrow> string \<Rightarrow> timestamp \<Rightarrow> ledger \<Rightarrow> (revocation_event \<times> ledger) answer" where
  "enqueue_revocation cf env e license_id action reason created_at db =
     (if created_at < pv_now env - seconds 300 \<or> pv_now env + seconds 300 < created_at then Inl (Value_Error ''invalid revocation event time'')
      else let db = insert_or_ignore_revocation (new_revocation cf e license_id action reason created_at) db
           in case get_revocation db (ob_order_id e) of None \<Rightarrow> Inl Type_Error | Some v \<Rightarrow> Inr (v, db))"

definition revocation_doc :: "string \<Rightarrow> timestamp \<Rightarrow> int \<Rightarrow> string option \<Rightarrow> json" where
  "revocation_doc license_id revoked_at sequence reason_code =
     JObj [(''schema_version'', jint 1), (''assertion_type'', JStr ''growthmap_license_revocation''), (''product'', JStr ''growthmap''), (''major_version'', jint 1),
       (''license_id'', JStr license_id), (''revoked_at'', jint revoked_at), (''sequence'', jint sequence), (''reason_code'', jopt reason_code)]"

definition sign_revocation :: "pay_config \<Rightarrow> pay_env \<Rightarrow> string \<Rightarrow> string \<Rightarrow> string option \<Rightarrow> assertion answer" where
  "sign_revocation cf env license_id oid reason_code =
     (case cf_sign cf of
        None \<Rightarrow> Inl (Runtime_Error ''signing key unavailable'')
      | Some sign \<Rightarrow>
          if reason_code \<notin> {None, Some ''refund'', Some ''chargeback'', Some ''fraud'', Some ''terms_violation'', Some ''administrative''}
          then Inl (Value_Error ''invalid revocation reason'')
          else Inr \<lparr>as_license_id = license_id, as_order_id = oid, as_sequence = 1, as_revoked_at = pv_now env, as_reason = reason_code,
            as_signature = sign (''growthmap-revocation-v1'', revocation_doc license_id (pv_now env) 1 reason_code), as_created_at = pv_now env\<rparr>)"

section \<open>Claiming an entitlement to deliver\<close>

definition due :: "pay_env \<Rightarrow> timestamp option \<Rightarrow> bool" where
  "due env t \<longleftrightarrow> (case t of None \<Rightarrow> True | Some t \<Rightarrow> t \<le> pv_now env)"

definition lapsed :: "pay_env \<Rightarrow> timestamp option \<Rightarrow> bool" where
  "lapsed env t \<longleftrightarrow> (case t of None \<Rightarrow> False | Some t \<Rightarrow> t \<le> pv_now env)"

definition claimable :: "pay_env \<Rightarrow> ledger \<Rightarrow> outbox \<Rightarrow> bool" where
  "claimable env db e \<longleftrightarrow>
     (case get_order db (ob_order_id e) of
        None \<Rightarrow> False
      | Some buy \<Rightarrow>
          let recoverable = od_state buy \<in> {''payment_confirmed'', ''refunded''} \<or> od_state buy = ''revoked'' \<and> ob_phase e = ''readback_only''
          in od_state buy = ''payment_confirmed'' \<and> ob_state e = ''pending'' \<and> due env (ob_next_attempt_at e) \<or>
             ob_state e = ''leased'' \<and> lapsed env (ob_lease_expires_at e) \<and> recoverable \<or>
             ob_phase e \<in> {''crossing_authorized'', ''readback_only''} \<and> ob_state e = ''quarantined'' \<and> due env (ob_next_attempt_at e) \<and> recoverable)"

definition lease_row :: "pay_env \<Rightarrow> string \<Rightarrow> int \<Rightarrow> outbox \<Rightarrow> outbox" where
  "lease_row env worker lease_seconds e =
     e\<lparr>ob_state := ''leased'', ob_lease_owner := Some worker, ob_lease_expires_at := Some (pv_now env + seconds lease_seconds),
       ob_attempt_count := ob_attempt_count e + 1, ob_fence := ob_fence e + 1,
       ob_phase := (if ob_phase e \<in> {''crossing_authorized'', ''readback_only''} then ''readback_only'' else ob_phase e)\<rparr>"

definition take_lease :: "pay_env \<Rightarrow> string \<Rightarrow> int \<Rightarrow> string \<Rightarrow> ledger \<Rightarrow> (outbox option \<times> ledger) answer" where
  "take_lease env worker lease_seconds oid db =
     and_then (update_outbox oid (lease_row env worker lease_seconds) db) (\<lambda>db. Inr (get_outbox db oid, db))"

text \<open>An expired lease that had only announced its crossing starts over.\<close>

definition reset_prepared :: "pay_env \<Rightarrow> outbox \<Rightarrow> ledger \<Rightarrow> ledger answer" where
  "reset_prepared env e db =
     (if ob_license_id e \<noteq> None \<or> ob_receipt e \<noteq> None \<or> ob_ack_signature e \<noteq> None then Inl (Runtime_Error ''prepared recovery evidence contradiction'')
      else if ob_lease_owner e = None \<or> ob_identity e = None then Inl (Runtime_Error ''prepared recovery lost'')
      else update_outbox (ob_order_id e) (\<lambda>e. e\<lparr>ob_state := ''quarantined'', ob_phase := ''none'', ob_lease_owner := None, ob_lease_expires_at := None,
        ob_fence := ob_fence e + 1, ob_next_attempt_at := Some (pv_now env)\<rparr>) db)"

definition claim_outbox :: "pay_env \<Rightarrow> string \<Rightarrow> int \<Rightarrow> string option \<Rightarrow> ledger \<Rightarrow> outbox option tx" where
  "claim_outbox env worker lease_seconds order_id db =
     (case sort_key ob_created_at (filter (\<lambda>e. claimable env db e \<and> (order_id = None \<or> order_id = Some (ob_order_id e))) (lg_outbox db)) of
        [] \<Rightarrow> Rollback (Inr None)
      | e # _ \<Rightarrow>
          if ob_state e = ''leased'' \<and> ob_phase e = ''crossing_prepared''
          then (case reset_prepared env e db of
              Inl x \<Rightarrow> Rollback (Inl x)
            | Inr db \<Rightarrow>
                (case map_option od_state (get_order db (ob_order_id e)) of
                   Some s \<Rightarrow>
                     if s = ''refunded'' then Commit db (Inr None)
                     else if s \<noteq> ''payment_confirmed'' then Rollback (Inl (Runtime_Error ''prepared recovery order state invalid''))
                     else commits (take_lease env worker lease_seconds (ob_order_id e) db)
                 | None \<Rightarrow> Rollback (Inl (Runtime_Error ''prepared recovery order state invalid''))))
          else commits (take_lease env worker lease_seconds (ob_order_id e) db))"

section \<open>Delivering it\<close>

definition holds_lease :: "string \<Rightarrow> outbox \<Rightarrow> outbox \<Rightarrow> bool" where
  "holds_lease worker row e \<longleftrightarrow> ob_state e = ''leased'' \<and> ob_lease_owner e = Some worker \<and> ob_fence e = ob_fence row"

definition check_lease :: "outbox \<Rightarrow> string \<Rightarrow> ledger \<Rightarrow> unit tx" where
  "check_lease row worker db =
     Rollback (case (get_outbox db (ob_order_id row), get_order db (ob_order_id row)) of
        (Some e, Some buy) \<Rightarrow>
          if \<not> holds_lease worker row e \<or> od_state buy \<notin> {''payment_confirmed'', ''refunded'', ''revoked''} \<or>
             od_state buy \<in> {''refunded'', ''revoked''} \<and> ob_phase row \<noteq> ''readback_only''
          then Inl (Runtime_Error ''outbox lease lost'') else Inr ()
      | _ \<Rightarrow> Inl (Runtime_Error ''outbox lease lost''))"

definition prepare_crossing :: "outbox \<Rightarrow> string \<Rightarrow> ledger \<Rightarrow> unit tx" where
  "prepare_crossing row worker db =
     (case get_outbox db (ob_order_id row) of
        None \<Rightarrow> Rollback (Inl (Runtime_Error ''outbox lease lost''))
      | Some e \<Rightarrow>
          if \<not> holds_lease worker row e \<or> ob_phase e \<noteq> ''none'' then Rollback (Inl (Runtime_Error ''outbox lease lost''))
          else commits (and_then (update_outbox (ob_order_id row) (\<lambda>e. e\<lparr>ob_phase := ''crossing_prepared''\<rparr>) db) (\<lambda>db. Inr ((), db))))"

definition authorize_crossing :: "outbox \<Rightarrow> string \<Rightarrow> ledger \<Rightarrow> unit tx" where
  "authorize_crossing row worker db =
     (case (get_outbox db (ob_order_id row), get_order db (ob_order_id row)) of
        (Some e, Some buy) \<Rightarrow>
          if \<not> holds_lease worker row e \<or> ob_phase e \<noteq> ''crossing_prepared'' \<or> od_state buy \<noteq> ''payment_confirmed''
          then Rollback (Inl (Runtime_Error ''outbox crossing authorization lost''))
          else commits (and_then (update_outbox (ob_order_id row) (\<lambda>e. e\<lparr>ob_phase := ''crossing_authorized''\<rparr>) db) (\<lambda>db. Inr ((), db)))
      | _ \<Rightarrow> Rollback (Inl (Runtime_Error ''outbox crossing authorization lost'')))"

definition retry_delay :: "int \<Rightarrow> timestamp" where
  "retry_delay attempts = seconds (min 3600 (2 ^ nat (min attempts 10)))"

definition error_text :: "failure \<Rightarrow> string" where
  "error_text e = (case e of Value_Error s \<Rightarrow> ''ValueError:'' @ s | Runtime_Error s \<Rightarrow> ''RuntimeError:'' @ s | Key_Error s \<Rightarrow> ''KeyError:'' @ s
     | Type_Error \<Rightarrow> ''TypeError:'' | Integrity_Error \<Rightarrow> ''IntegrityError:'')"

definition requeue_reconciliation_failure :: "pay_config \<Rightarrow> pay_env \<Rightarrow> outbox \<Rightarrow> string \<Rightarrow> failure \<Rightarrow> int \<Rightarrow> ledger \<Rightarrow> unit tx" where
  "requeue_reconciliation_failure cf env row worker err max_attempts db =
     (let lost = Rollback (Inl (Runtime_Error ''authority_reconciliation_state_lost'')) in
      if ob_phase row \<notin> {''crossing_authorized'', ''readback_only''} then lost
      else case get_outbox db (ob_order_id row) of
        None \<Rightarrow> lost
      | Some e \<Rightarrow>
          if \<not> holds_lease worker row e \<or> ob_phase e \<notin> {ob_phase row, ''readback_only''} then lost
          else commits (and_then (update_outbox (ob_order_id row) (\<lambda>e. e\<lparr>ob_state := ''quarantined'',
              ob_phase := (if max_attempts \<le> ob_attempt_count e then ''manual_review'' else ''readback_only''), ob_lease_owner := None,
              ob_lease_expires_at := None, ob_next_attempt_at := Some (pv_now env + retry_delay (ob_attempt_count e)),
              ob_last_error_hash := Some (cf_hash cf (error_text err))\<rparr>) db) (\<lambda>db. Inr ((), db))))"

definition fail_outbox_tx :: "pay_config \<Rightarrow> pay_env \<Rightarrow> outbox \<Rightarrow> string \<Rightarrow> failure \<Rightarrow> int \<Rightarrow> ledger \<Rightarrow> unit tx" where
  "fail_outbox_tx cf env row worker err max_attempts db =
     (if ob_phase row \<in> {''crossing_authorized'', ''readback_only''}
      then (case requeue_reconciliation_failure cf env row worker err max_attempts db of
          Rollback (Inl (Runtime_Error _)) \<Rightarrow> Rollback (Inr ()) | t \<Rightarrow> t)
      else case get_outbox db (ob_order_id row) of
        None \<Rightarrow> Rollback (Inr ())
      | Some e \<Rightarrow>
          if \<not> holds_lease worker row e then Rollback (Inr ())
          else commits (and_then (update_outbox (ob_order_id row) (\<lambda>e. e\<lparr>ob_state := (if max_attempts \<le> ob_attempt_count e then ''quarantined'' else ''pending''),
              ob_lease_owner := None, ob_lease_expires_at := None, ob_next_attempt_at := Some (pv_now env + retry_delay (ob_attempt_count e)),
              ob_last_error_hash := Some (cf_hash cf (error_text err))\<rparr>) db) (\<lambda>db. Inr ((), db))))"

text \<open>
  \<open>fail_outbox\<close>: while a crossing is being reconciled the caller never learns of a \<open>RuntimeError\<close> of the requeueing, the failed
  publication of its checkpoint included; the check of trust comes before and is not covered.
\<close>

definition fail_outbox :: "pay_config \<Rightarrow> pay_env \<Rightarrow> outbox \<Rightarrow> string \<Rightarrow> failure \<Rightarrow> int \<Rightarrow> pay_state \<Rightarrow> unit answer \<times> pay_state" where
  "fail_outbox cf env row worker err max_attempts st =
     (case assert_terminal_trust cf st of
        Inl e \<Rightarrow> (Inl e, st)
      | Inr _ \<Rightarrow>
          (case trusted_tx cf env (fail_outbox_tx cf env row worker err max_attempts) st of
             (Inl (Runtime_Error m), st) \<Rightarrow>
               (if ob_phase row \<in> {''crossing_authorized'', ''readback_only''} then Inr () else Inl (Runtime_Error m), st)
           | answer \<Rightarrow> answer))"

definition delivered_row :: "pay_env \<Rightarrow> entitlement_ack \<Rightarrow> outbox \<Rightarrow> outbox" where
  "delivered_row env ack e =
     e\<lparr>ob_state := ''delivered'', ob_license_id := Some (ea_license_id ack), ob_delivered_at := Some (pv_now env), ob_receipt := Some (ea_receipt ack),
       ob_ack_signature := Some (ea_signature ack), ob_lease_owner := None, ob_lease_expires_at := None\<rparr>"

text \<open>A license delivered for an order that was refunded or charged back meanwhile is queued for revocation in the same transaction.\<close>

definition compensate :: "pay_config \<Rightarrow> pay_env \<Rightarrow> outbox \<Rightarrow> string \<Rightarrow> string \<Rightarrow> string \<Rightarrow> string \<Rightarrow> json \<Rightarrow> ledger \<Rightarrow> ledger answer" where
  "compensate cf env e license_id action reason operation data db =
     and_then (enqueue_revocation cf env e license_id action reason (pv_now env) db) (\<lambda>(_, db).
       pay_audit cf env 0 ''issuer'' operation (ob_order_id e) data db)"

definition complete_delivery :: "pay_config \<Rightarrow> pay_env \<Rightarrow> outbox \<Rightarrow> string \<Rightarrow> entitlement_ack \<Rightarrow> ledger \<Rightarrow> entitlement_ack tx" where
  "complete_delivery cf env row worker ack db =
     (let oid = ob_order_id row; l = ea_license_id ack; lost = Rollback (Inl (Runtime_Error ''outbox lease lost''));
          data = JObj [(''license_id'', JStr l)]; stored = update_outbox oid (delivered_row env ack) db
      in case (get_outbox db oid, get_order db oid) of
        (Some e, Some buy) \<Rightarrow>
          if \<not> holds_lease worker row e
          then (if od_state buy \<in> {''refunded'', ''revoked''} \<and> ob_state e \<in> {''quarantined'', ''pending'', ''leased''}
                then let (action, reason) = (if od_state buy = ''refunded'' then (''refund'', ''refund'') else (''revoke'', ''chargeback''))
                     in commits (and_then stored (\<lambda>db.
                        and_then (compensate cf env e l action reason ''entitlement.compensating_revocation''
                            (JObj [(''license_id'', JStr l), (''action'', JStr action), (''reason'', JStr reason)]) db) (\<lambda>db.
                          Inr (ack, db))))
                else lost)
          else if od_state buy = ''payment_confirmed''
          then commits (and_then stored (\<lambda>db.
            and_then (update_order oid (\<lambda>r. r\<lparr>od_state := ''license_issued'', od_license_id := Some l, od_updated_at := pv_now env\<rparr>) db) (\<lambda>db.
            and_then (pay_audit cf env 0 ''issuer'' ''entitlement.delivered'' oid data db) (\<lambda>db. Inr (ack, db)))))
          else if od_state buy = ''refunded''
          then commits (and_then stored (\<lambda>db.
            and_then (compensate cf env row l ''refund'' ''refund'' ''entitlement.delivered_after_refund'' data db) (\<lambda>db. Inr (ack, db))))
          else if od_state buy = ''revoked''
          then commits (and_then stored (\<lambda>db.
            and_then (compensate cf env row l ''revoke'' ''chargeback'' ''entitlement.delivered_after_chargeback'' data db) (\<lambda>db. Inr (ack, db))))
          else lost
      | (Some e, None) \<Rightarrow> if holds_lease worker row e then Rollback (Inl Type_Error) else lost
      | _ \<Rightarrow> Rollback (Inl Type_Error))"

text \<open>
  The answers of the authority during one delivery: its handshakes, and the acknowledgement read back (\<open>None\<close> when the call fails; then
  \<open>None\<close> when its members are not as documented). The answer to the creation call itself is not used.
\<close>

record authority_answers =
  aa_handshake :: "nat \<Rightarrow> signer_identity option"
  aa_acknowledgement :: "entitlement_ack option option"

definition cross :: "pay_config \<Rightarrow> (nat \<Rightarrow> pay_env) \<Rightarrow> outbox \<Rightarrow> string \<Rightarrow> pay_state \<Rightarrow> outbox answer \<times> pay_state" where
  "cross cf env row worker st =
     (if ob_phase row = ''readback_only'' then (Inr row, st)
      else case trusted_tx cf (env 1) (prepare_crossing row worker) st of
        (Inl e, st) \<Rightarrow> (Inl e, st)
      | (Inr _, st) \<Rightarrow>
          (case trusted_tx cf (env 2) (authorize_crossing row worker) st of
             (Inl e, st) \<Rightarrow> (Inl e, st) | (Inr _, st) \<Rightarrow> (Inr (row\<lparr>ob_phase := ''crossing_authorized''\<rparr>), st)))"

definition readback_failed :: "pay_config \<Rightarrow> (nat \<Rightarrow> pay_env) \<Rightarrow> outbox \<Rightarrow> string \<Rightarrow> pay_state \<Rightarrow> failure \<times> pay_state" where
  "readback_failed cf env row worker st =
     (case trusted_tx cf (env 3) (requeue_reconciliation_failure cf (env 3) row worker (Runtime_Error ''authority_operation_unavailable'') 8) st of
        (Inr _, st) \<Rightarrow> (Runtime_Error ''authority_reconciliation_pending'', st)
      | (Inl (Runtime_Error m), st) \<Rightarrow>
          let e = get_outbox (ps_ledger st) (ob_order_id row); s = map_option od_state (get_order (ps_ledger st) (ob_order_id row))
          in if map_option ob_state e = Some ''quarantined'' \<and> map_option ob_phase e = Some ''readback_only'' \<and> s = Some ''refunded''
             then (Runtime_Error ''authority_reconciliation_pending'', st) else (Runtime_Error m, st)
      | (Inl e, st) \<Rightarrow> (e, st))"

definition deliver_claimed_outbox ::
  "pay_config \<Rightarrow> (nat \<Rightarrow> pay_env) \<Rightarrow> authority_answers \<Rightarrow> outbox \<Rightarrow> string \<Rightarrow> pay_state \<Rightarrow> entitlement_ack answer \<times> pay_state" where
  "deliver_claimed_outbox cf env aa row worker st =
     (case trusted_tx cf (env 0) (check_lease row worker) st of
        (Inl e, st) \<Rightarrow> (Inl e, st)
      | (Inr _, st) \<Rightarrow>
          (case verify_authority_handshake cf (aa_handshake aa 0) of
             Inl e \<Rightarrow> (Inl e, st)
           | Inr identity \<Rightarrow>
               (case cross cf env row worker st of
                  (Inl e, st) \<Rightarrow> (Inl e, st)
                | (Inr row, st) \<Rightarrow>
                    if ob_identity row \<noteq> Some identity then (Inl (Runtime_Error ''authority_identity_mismatch''), st)
                    else case verify_authority_handshake cf (aa_handshake aa 1) of
                      Inl e \<Rightarrow> (Inl e, st)
                    | Inr _ \<Rightarrow>
                        (case aa_acknowledgement aa of
                           None \<Rightarrow> (let (e, st) = readback_failed cf env row worker st in (Inl e, st))
                         | Some ack \<Rightarrow>
                             if ack = None \<or> aa_handshake aa 2 \<noteq> Some (cf_identity cf) \<or> aa_handshake aa 3 \<noteq> Some (cf_identity cf) \<or>
                                \<not> validate_entitlement_ack cf (the ack) row identity (outbox_payload_digest cf row)
                             then (Inl (Runtime_Error ''authority_acknowledgement_invalid''), st)
                             else trusted_tx cf (env 3) (complete_delivery cf (env 3) row worker (the ack)) st))))"

definition stored_ack :: "pay_config \<Rightarrow> outbox \<Rightarrow> entitlement_ack" where
  "stored_ack cf e =
     \<lparr>ea_source = ob_source e, ea_source_id = ob_source_id e, ea_payload_digest = outbox_payload_digest cf e, ea_license_id = the (ob_license_id e),
      ea_authority_id = si_authority_id (the (ob_identity e)), ea_identity = the (ob_identity e), ea_receipt = the (ob_receipt e),
      ea_signature = the (ob_ack_signature e)\<rparr>"

definition stored_ack_ok :: "pay_config \<Rightarrow> outbox \<Rightarrow> bool" where
  "stored_ack_ok cf e \<longleftrightarrow>
     ob_license_id e \<noteq> None \<and> ob_receipt e \<noteq> None \<and> ob_ack_signature e \<noteq> None \<and>
     validate_entitlement_ack cf (stored_ack cf e) e (the (ob_identity e)) (outbox_payload_digest cf e)"

text \<open>Waiting for another worker: the ledgers seen at the polls, at most a hundred of them.\<close>

fun poll_delivered :: "pay_config \<Rightarrow> string \<Rightarrow> ledger list \<Rightarrow> entitlement_ack answer" where
  "poll_delivered cf oid [] = Inl (Value_Error ''entitlement unavailable'')"
| "poll_delivered cf oid (db # seen) =
     (case get_outbox db oid of
        None \<Rightarrow> Inl (Value_Error ''entitlement unavailable'')
      | Some e \<Rightarrow>
          if ob_state e = ''delivered''
          then (if ob_identity e = None then Inl (Runtime_Error ''legacy_identity_unproven'')
                else if ob_identity e \<noteq> Some (cf_identity cf) then Inl (Runtime_Error ''authority_identity_mismatch'')
                else if \<not> stored_ack_ok cf e then Inl (Runtime_Error ''authority_acknowledgement_invalid'') else Inr (stored_ack cf e))
          else if ob_state e \<notin> {''leased'', ''pending''} then Inl (Value_Error ''entitlement unavailable'')
          else poll_delivered cf oid seen)"

definition deliver_entitlement ::
  "pay_config \<Rightarrow> (nat \<Rightarrow> pay_env) \<Rightarrow> authority_answers \<Rightarrow> string \<Rightarrow> string \<Rightarrow> ledger list \<Rightarrow> pay_state \<Rightarrow> entitlement_ack answer \<times> pay_state" where
  "deliver_entitlement cf env aa worker oid seen st =
     (case trusted_tx cf (env 4) (claim_outbox (env 4) worker 30 (Some oid)) st of
        (Inl e, st) \<Rightarrow> (Inl e, st)
      | (Inr None, st) \<Rightarrow> (poll_delivered cf oid (take 100 seen), st)
      | (Inr (Some row), st) \<Rightarrow>
          (case deliver_claimed_outbox cf env aa row worker st of
             (Inr ack, st) \<Rightarrow> (Inr ack, st)
           | (Inl e, st) \<Rightarrow>
               if e \<in> {Runtime_Error ''authority_reconciliation_pending'', Runtime_Error ''authority_reconciliation_state_lost''} then (Inl e, st)
               else (case fail_outbox cf (env 5) row worker e 8 st of
                   (Inl e', st) \<Rightarrow> (Inl e', st) | (Inr _, st) \<Rightarrow> (Inl e, st))))"

section \<open>Decisions of the administrator\<close>

definition TRANSITIONS :: "string \<Rightarrow> string set" where
  "TRANSITIONS action =
     (if action = ''reject'' then {''pending_payment'', ''manual_review''}
      else if action = ''refund'' then {''payment_confirmed'', ''license_issued''} else {''license_issued''})"

definition delivered_license :: "outbox option \<Rightarrow> string option" where
  "delivered_license e = (case e of None \<Rightarrow> None | Some e \<Rightarrow> if ob_state e = ''delivered'' \<and> truthy (ob_license_id e) then ob_license_id e else None)"

definition fence_off :: "pay_config \<Rightarrow> pay_env \<Rightarrow> string \<Rightarrow> outbox \<Rightarrow> outbox" where
  "fence_off cf env cause e =
     e\<lparr>ob_state := ''quarantined'', ob_phase := (if ob_phase e \<in> {''none'', ''crossing_prepared''} then ''none'' else ''readback_only''),
       ob_lease_owner := None, ob_lease_expires_at := None, ob_fence := ob_fence e + 1,
       ob_next_attempt_at := (if ob_phase e = ''none'' then ob_next_attempt_at e else Some (pv_now env + seconds 2)),
       ob_last_error_hash := Some (cf_hash cf cause)\<rparr>"

record transition_answer =
  ta_state :: string
  ta_idempotent :: bool
  ta_revocation :: "assertion option"
  ta_event :: "revocation_event option"

definition revoke_delivered ::
  "pay_config \<Rightarrow> pay_env \<Rightarrow> string \<Rightarrow> string option \<Rightarrow> outbox \<Rightarrow> string \<Rightarrow> ledger \<Rightarrow> ((assertion option \<times> revocation_event option) \<times> ledger) answer" where
  "revoke_delivered cf env action reason_code e license_id db =
     (let reason = (if action = ''refund'' then ''refund'' else or_default reason_code ''administrative'')
      in and_then (sign_revocation cf env license_id (ob_order_id e) (Some reason)) (\<lambda>a.
         and_then (insert_assertion a db) (\<lambda>db.
         and_then (enqueue_revocation cf env e license_id action reason (pv_now env) db) (\<lambda>(v, db).
           Inr ((Some a, Some v), db)))))"

definition admin_transition_tx :: "pay_config \<Rightarrow> pay_env \<Rightarrow> string \<Rightarrow> string \<Rightarrow> string \<Rightarrow> string option \<Rightarrow> ledger \<Rightarrow> transition_answer tx" where
  "admin_transition_tx cf env oid action target reason_code db =
     (case get_order db oid of
        None \<Rightarrow> Rollback (Inl (Key_Error ''order''))
      | Some r \<Rightarrow>
          if od_state r = target
          then commits (and_then (pay_audit cf env 0 ''admin'' (''order.'' @ action @ ''.idempotent'') oid (JObj [(''state'', JStr target)]) db) (\<lambda>db.
            Inr (\<lparr>ta_state = target, ta_idempotent = True,
              ta_revocation = (if action = ''reject'' then None else row_get as_order_id (lg_assertions db) oid),
              ta_event = (if action = ''reject'' then None else get_revocation db oid)\<rparr>, db)))
          else if od_state r \<notin> TRANSITIONS action then Rollback (Inl (Value_Error ''illegal transition''))
          else let e = get_outbox db oid; license_id = delivered_license e
               in commits (and_then
                    (if action \<in> {''refund'', ''revoke''} \<and> license_id \<noteq> None then revoke_delivered cf env action reason_code (the e) (the license_id) db
                     else if action = ''refund'' \<and> e \<noteq> None
                     then and_then (update_outbox oid (fence_off cf env ''cancelled_by_refund_before_delivery'') db) (\<lambda>db. Inr ((None, None), db))
                     else Inr ((None, None), db)) (\<lambda>((a, v), db).
                    and_then (set_order_state env oid target db) (\<lambda>db.
                    and_then (pay_audit cf env 0 ''admin'' (''order.'' @ action) oid
                        (JObj [(''from'', JStr (od_state r)), (''to'', JStr target), (''license_id'', jopt license_id), (''revocation_enqueued'', JBool (v \<noteq> None))]) db) (\<lambda>db.
                      Inr (\<lparr>ta_state = target, ta_idempotent = False, ta_revocation = a, ta_event = v\<rparr>, db))))))"

definition transition_target :: "string \<Rightarrow> string option" where
  "transition_target action = map_of [(''reject'', ''rejected''), (''refund'', ''refunded''), (''revoke'', ''revoked'')] action"

definition admin_transition :: "pay_config \<Rightarrow> pay_env \<Rightarrow> string \<Rightarrow> string \<Rightarrow> string option \<Rightarrow> pay_state \<Rightarrow> transition_answer answer \<times> pay_state" where
  "admin_transition cf env oid action reason_code st =
     (case transition_target action of
        None \<Rightarrow> (Inl (Key_Error ''action''), st)
      | Some target \<Rightarrow>
          if action \<noteq> ''revoke'' \<and> reason_code \<noteq> None then (Inl (Value_Error ''reason is only valid for revocation''), st)
          else trusted_tx cf env (admin_transition_tx cf env oid action target reason_code) st)"

section \<open>Delivering a revocation\<close>

definition claim_revocation :: "pay_env \<Rightarrow> string \<Rightarrow> int \<Rightarrow> string option \<Rightarrow> ledger \<Rightarrow> revocation_event option tx" where
  "claim_revocation env worker lease_seconds order_id db =
     (case sort_key rv_created_at (filter (\<lambda>v. (rv_state v = ''pending'' \<and> due env (rv_next_attempt_at v) \<or> rv_state v = ''leased'' \<and> lapsed env (rv_lease_expires_at v)) \<and>
         (order_id = None \<or> order_id = Some (rv_order_id v))) (lg_revocations db)) of
        [] \<Rightarrow> Rollback (Inr None)
      | v # _ \<Rightarrow>
          commits (and_then (update_revocation (rv_event_id v) (\<lambda>v. v\<lparr>rv_state := ''leased'', rv_lease_owner := Some worker,
              rv_lease_expires_at := Some (pv_now env + seconds lease_seconds), rv_attempt_count := rv_attempt_count v + 1, rv_fence := rv_fence v + 1\<rparr>) db) (\<lambda>db.
            Inr (row_get rv_event_id (lg_revocations db) (rv_event_id v), db))))"

definition holds_revocation :: "string \<Rightarrow> revocation_event \<Rightarrow> revocation_event \<Rightarrow> bool" where
  "holds_revocation worker row v \<longleftrightarrow> rv_state v = ''leased'' \<and> rv_lease_owner v = Some worker \<and> rv_fence v = rv_fence row"

definition complete_revocation :: "pay_config \<Rightarrow> pay_env \<Rightarrow> revocation_event \<Rightarrow> string \<Rightarrow> revocation_answer \<Rightarrow> ledger \<Rightarrow> unit tx" where
  "complete_revocation cf env row worker ack db =
     (case row_get rv_event_id (lg_revocations db) (rv_event_id row) of
        None \<Rightarrow> Rollback (Inl (Runtime_Error ''revocation lease lost''))
      | Some v \<Rightarrow>
          if \<not> holds_revocation worker row v then Rollback (Inl (Runtime_Error ''revocation lease lost''))
          else commits (and_then (update_revocation (rv_event_id row) (\<lambda>v. v\<lparr>rv_state := ''delivered'', rv_delivered_at := Some (pv_now env),
              rv_receipt := Some (rw_receipt ack), rv_ack_signature := Some (rw_signature ack), rv_revoked_at := Some (rw_revoked_at ack),
              rv_request_digest := Some (rw_request_digest ack), rv_lease_owner := None, rv_lease_expires_at := None\<rparr>) db) (\<lambda>db.
            and_then (pay_audit cf env 0 ''issuer'' ''revocation.delivered'' (rv_order_id row)
                (JObj [(''license_id'', JStr (rv_license_id row)), (''receipt'', JStr (rw_receipt ack))]) db) (\<lambda>db. Inr ((), db)))))"

text \<open>The answer to the call and the acknowledgement read back must agree.\<close>

record revocation_answers =
  rz_handshake :: "nat \<Rightarrow> signer_identity option"
  rz_response :: "revocation_ack option"
  rz_acknowledgement :: "revocation_answer option"

definition deliver_claimed_revocation ::
  "pay_config \<Rightarrow> pay_env \<Rightarrow> revocation_answers \<Rightarrow> revocation_event \<Rightarrow> string \<Rightarrow> pay_state \<Rightarrow> revocation_ack answer \<times> pay_state" where
  "deliver_claimed_revocation cf env rz row worker st =
     (let shake = (\<lambda>n. verify_authority_handshake cf (rz_handshake rz n));
          unavailable = Runtime_Error ''authority_operation_unavailable''
      in case and_then (shake 0) (\<lambda>identity.
           if rv_identity row \<noteq> Some identity then Inl (Runtime_Error ''authority_identity_mismatch'')
           else and_then (case rz_response rz of None \<Rightarrow> Inl unavailable | Some r \<Rightarrow> Inr r) (\<lambda>response.
             and_then (shake 1) (\<lambda>_.
             and_then (case rz_acknowledgement rz of None \<Rightarrow> Inl unavailable | Some a \<Rightarrow> Inr a) (\<lambda>ack.
             and_then (shake 2) (\<lambda>_.
               if \<not> validate_revocation_ack cf ack row identity \<or>
                  response \<noteq> \<lparr>ra_license_id = rw_license_id ack, ra_revoked_at = rw_revoked_at ack, ra_receipt = rw_receipt ack,
                    ra_authority_id = si_authority_id identity, ra_signer_identity = identity, ra_ack_signature = rw_signature ack\<rparr>
               then Inl (Runtime_Error ''authority_acknowledgement_invalid'') else Inr (response, ack)))))) of
         Inl e \<Rightarrow> (Inl e, st)
       | Inr (response, ack) \<Rightarrow>
           (case trusted_tx cf env (complete_revocation cf env row worker ack) st of (Inl e, st) \<Rightarrow> (Inl e, st) | (Inr _, st) \<Rightarrow> (Inr response, st)))"

definition fail_revocation :: "pay_config \<Rightarrow> pay_env \<Rightarrow> revocation_event \<Rightarrow> string \<Rightarrow> string \<Rightarrow> int \<Rightarrow> ledger \<Rightarrow> unit tx" where
  "fail_revocation cf env row worker message max_attempts db =
     (case row_get rv_event_id (lg_revocations db) (rv_event_id row) of
        None \<Rightarrow> Rollback (Inr ())
      | Some v \<Rightarrow>
          if \<not> holds_revocation worker row v then Rollback (Inr ())
          else commits (and_then (update_revocation (rv_event_id row) (\<lambda>v. v\<lparr>rv_state := (if max_attempts \<le> rv_attempt_count v then ''quarantined'' else ''pending''),
              rv_lease_owner := None, rv_lease_expires_at := None, rv_next_attempt_at := Some (pv_now env + retry_delay (rv_attempt_count v)),
              rv_last_error_hash := Some (cf_hash cf message)\<rparr>) db) (\<lambda>db. Inr ((), db))))"

definition stored_revocation :: "revocation_event \<Rightarrow> revocation_answer" where
  "stored_revocation v =
     \<lparr>rw_source = rv_source v, rw_source_id = rv_source_id v, rw_payload_digest = rv_payload_digest v, rw_license_id = rv_license_id v, rw_action = rv_action v,
      rw_reason = rv_reason v, rw_payment_proof = rv_proof_hash v, rw_tx_hash = rv_tx_hash v, rw_created_at = rv_created_at v,
      rw_revoked_at = the (rv_revoked_at v), rw_request_digest = the (rv_request_digest v), rw_receipt = the (rv_receipt v),
      rw_authority_id = si_authority_id (the (rv_identity v)), rw_identity = the (rv_identity v), rw_signature = the (rv_ack_signature v)\<rparr>"

definition read_revocation :: "pay_config \<Rightarrow> string \<Rightarrow> ledger \<Rightarrow> revocation_ack answer" where
  "read_revocation cf oid db =
     (case find (\<lambda>v. rv_order_id v = oid \<and> rv_state v = ''delivered'') (lg_revocations db) of
        None \<Rightarrow> Inl (Value_Error ''revocation unavailable'')
      | Some v \<Rightarrow>
          if rv_identity v = None then Inl (Runtime_Error ''legacy_identity_unproven'')
          else if rv_identity v \<noteq> Some (cf_identity cf) then Inl (Runtime_Error ''authority_identity_mismatch'')
          else if rv_ack_signature v = None \<or> rv_revoked_at v = None \<or> rv_request_digest v = None \<or> rv_receipt v = None
          then Inl (Runtime_Error ''legacy_identity_unproven'')
          else if \<not> validate_revocation_ack cf (stored_revocation v) v (the (rv_identity v)) then Inl (Runtime_Error ''authority_acknowledgement_invalid'')
          else Inr \<lparr>ra_license_id = rv_license_id v, ra_revoked_at = the (rv_revoked_at v), ra_receipt = the (rv_receipt v),
            ra_authority_id = si_authority_id (the (rv_identity v)), ra_signer_identity = the (rv_identity v), ra_ack_signature = the (rv_ack_signature v)\<rparr>)"

definition error_message :: "failure \<Rightarrow> string" where
  "error_message e = (case e of Value_Error s \<Rightarrow> s | Runtime_Error s \<Rightarrow> s | Key_Error s \<Rightarrow> s | Type_Error \<Rightarrow> [] | Integrity_Error \<Rightarrow> [])"

definition deliver_revocation ::
  "pay_config \<Rightarrow> (nat \<Rightarrow> pay_env) \<Rightarrow> revocation_answers \<Rightarrow> string \<Rightarrow> string \<Rightarrow> pay_state \<Rightarrow> revocation_ack answer \<times> pay_state" where
  "deliver_revocation cf env rz worker oid st =
     (case trusted_tx cf (env 0) (claim_revocation (env 0) worker 30 (Some oid)) st of
        (Inl e, st) \<Rightarrow> (Inl e, st)
      | (Inr None, st) \<Rightarrow> (read_revocation cf oid (ps_ledger st), st)
      | (Inr (Some row), st) \<Rightarrow>
          (case deliver_claimed_revocation cf (env 1) rz row worker st of
             (Inr r, st) \<Rightarrow> (Inr r, st)
           | (Inl e, st) \<Rightarrow>
               (case trusted_tx cf (env 2) (fail_revocation cf (env 2) row worker (error_message e) 8) st of
                  (Inl e', st) \<Rightarrow> (Inl e', st) | (Inr _, st) \<Rightarrow> (Inl e, st))))"

section \<open>Reads\<close>

definition admin_list_orders :: "ledger \<Rightarrow> pay_order list tx" where
  "admin_list_orders db = Rollback (Inr (take 200 (rev (sort_key od_created_at (lg_orders db)))))"

definition authenticated_entitlement :: "pay_config \<Rightarrow> string \<Rightarrow> string \<Rightarrow> ledger \<Rightarrow> pay_order option tx" where
  "authenticated_entitlement cf oid code db =
     Rollback (Inr (if 256 < length code then None
       else case get_order db oid of
         None \<Rightarrow> None
       | Some r \<Rightarrow> if od_recovery_hash r = cf_hash cf code \<and> od_state r = ''license_issued'' \<and> truthy (od_license_id r) then Some r else None))"

definition pending_outbox_orders :: "ledger \<Rightarrow> string list" where
  "pending_outbox_orders db = map ob_order_id (sort_key ob_created_at (filter (\<lambda>e. ob_state e = ''pending'') (lg_outbox db)))"

text \<open>A row of the reconciliation listing with the license it proves, if any.\<close>

definition list_authority_reconciliation :: "pay_config \<Rightarrow> string option \<Rightarrow> ledger \<Rightarrow> (outbox \<times> string option) list tx" where
  "list_authority_reconciliation cf status db =
     Rollback (if status \<notin> {None, Some ''crossing_prepared'', Some ''crossing_authorized'', Some ''readback_only'', Some ''manual_review''}
       then Inl (Value_Error ''invalid reconciliation status'')
       else Inr (map (\<lambda>e. (e, if ob_state e = ''delivered'' \<and> ob_identity e \<noteq> None \<and> stored_ack_ok cf e then ob_license_id e else None))
         (take 200 (sort_key ob_created_at (filter (\<lambda>e. ob_phase e \<noteq> ''none'' \<and> (status = None \<or> status = Some (ob_phase e)) \<and>
           get_order db (ob_order_id e) \<noteq> None) (lg_outbox db))))))"

end
