(* ===== verification/Payments_Whop.thy ===== *)
theory Payments_Whop
  imports Payments_Outbox
begin

text \<open>
  The inbox of authenticated shop events (\<open>receive_whop_event\<close> and what it calls in \<open>growthmap_payments/service.py\<close>): an event is stored once
  and applied in a second transaction. When applying it fails, the failure is counted in the same transaction, so what was written before the
  failure is committed with it; a business step therefore returns the ledger together with its outcome. The publication of the checkpoint is
  part of what is applied: when it fails the transaction is rolled back and the failure is counted outside any transaction, statement by
  statement.
\<close>

record whop_event =
  we_event_id :: string
  we_occurred_at :: string
  we_kind :: string
  we_order_id :: string
  we_provider_order_ref :: string
  we_provider_payment_ref :: string

definition reverse_order :: "pay_config \<Rightarrow> pay_env \<Rightarrow> whop_row \<Rightarrow> pay_order \<Rightarrow> ledger \<Rightarrow> unit answer \<times> ledger" where
  "reverse_order cf env event r db =
     (let target = (if wh_kind event = ''refund'' then ''refunded'' else ''revoked'')
      in case set_order_state env (od_id r) target db of
           Inl e \<Rightarrow> (Inl e, db)
         | Inr db \<Rightarrow>
             (case pay_audit cf env 0 ''whop.webhook'' (''order.'' @ wh_kind event) (od_id r)
                 (JObj [(''from'', JStr (od_state r)), (''to'', JStr target)]) db of
                Inl e \<Rightarrow> (Inl e, db) | Inr db \<Rightarrow> (Inr (), db)))"

definition apply_whop_business :: "pay_config \<Rightarrow> pay_env \<Rightarrow> whop_row \<Rightarrow> ledger \<Rightarrow> unit answer \<times> ledger" where
  "apply_whop_business cf env event db =
     (case get_order db (wh_order_id event) of
        None \<Rightarrow> (Inl (Value_Error ''unbound order''), db)
      | Some r \<Rightarrow>
          if od_state r \<in> {''refunded'', ''revoked'', ''rejected'', ''expired''} then (Inr (), db)
          else if wh_kind event = ''paid''
          then (if od_state r \<notin> {''payment_confirmed'', ''license_issued''} then Inl (Value_Error ''reviewed Whop checkout binding unavailable'') else Inr (), db)
          else let e = get_outbox db (od_id r);
                   (action, reason) = (if wh_kind event = ''refund'' then (''refund'', ''refund'') else (''revoke'', ''chargeback''))
               in case delivered_license e of
                    Some license_id \<Rightarrow>
                      (case sign_revocation cf env license_id (od_id r) (Some reason) of
                         Inl x \<Rightarrow> (Inl x, db)
                       | Inr a \<Rightarrow>
                           let db = insert_or_ignore_assertion a db
                           in case enqueue_revocation cf env (the e) license_id action reason (pv_now env) db of
                                Inl x \<Rightarrow> (Inl x, db)
                              | Inr (_, db) \<Rightarrow> reverse_order cf env event r db)
                  | None \<Rightarrow>
                      if e = None then reverse_order cf env event r db
                      else (case update_outbox (od_id r) (fence_off cf env ''cancelled_by_whop_reversal'') db of
                          Inl x \<Rightarrow> (Inl x, db)
                        | Inr db \<Rightarrow> reverse_order cf env event r db))"

definition failed_state :: "whop_row \<Rightarrow> int \<Rightarrow> string" where
  "failed_state event max_attempts = (if max_attempts \<le> wh_attempts event + 1 then ''quarantined'' else ''received'')"

definition mark_attempt :: "pay_config \<Rightarrow> pay_env \<Rightarrow> whop_row \<Rightarrow> int \<Rightarrow> failure \<Rightarrow> ledger \<Rightarrow> ledger answer" where
  "mark_attempt cf env event max_attempts err db =
     update_whop (wh_event_id event) (\<lambda>w. w\<lparr>wh_state := failed_state event max_attempts, wh_attempts := wh_attempts event + 1,
       wh_last_attempt_at := Some (pv_now env), wh_error_digest := Some (cf_hash cf (error_text err))\<rparr>) db"

definition audit_failure :: "pay_config \<Rightarrow> pay_env \<Rightarrow> whop_row \<Rightarrow> int \<Rightarrow> ledger \<Rightarrow> ledger answer" where
  "audit_failure cf env event max_attempts db =
     pay_audit cf env 2 ''whop.webhook'' ''whop.event.apply_failed'' (wh_order_id event)
       (JObj [(''event_id_hash'', JStr (cf_hash cf (wh_event_id event))), (''state'', JStr (failed_state event max_attempts))]) db"

definition count_failure :: "pay_config \<Rightarrow> pay_env \<Rightarrow> whop_row \<Rightarrow> int \<Rightarrow> failure \<Rightarrow> ledger \<Rightarrow> string tx" where
  "count_failure cf env event max_attempts err db =
     commits (and_then (mark_attempt cf env event max_attempts err db) (\<lambda>db.
       and_then (audit_failure cf env event max_attempts db) (\<lambda>db. Inr (failed_state event max_attempts, db))))"

text \<open>
  The same after the rollback of a failed publication: each statement commits by itself, the sequence too, and a publication that fails
  again leaves them behind.
\<close>

definition count_failure_unlocked :: "pay_config \<Rightarrow> pay_env \<Rightarrow> whop_row \<Rightarrow> int \<Rightarrow> failure \<Rightarrow> pay_state \<Rightarrow> string answer \<times> pay_state" where
  "count_failure_unlocked cf env event max_attempts err st =
     (case mark_attempt cf env event max_attempts err (ps_ledger st) of
        Inl e \<Rightarrow> (Inl e, st)
      | Inr db \<Rightarrow>
          (case audit_failure cf env event max_attempts db of
             Inl e \<Rightarrow> (Inl e, st\<lparr>ps_ledger := db\<rparr>)
           | Inr db \<Rightarrow>
               let db = lg_sequence_update (\<lambda>n. n + 1) db; (core, mac) = checkpoint_document cf db;
                   lost = Inl (Runtime_Error ''external issuance checkpoint update failed; service is fail-closed'')
               in (case pv_publication env of
                     Published \<Rightarrow> (Inr (failed_state event max_attempts), st\<lparr>ps_ledger := db, ps_file := Checkpoint_File core mac\<rparr>)
                   | Not_Written \<Rightarrow> (lost, st\<lparr>ps_ledger := db, ps_failed := True\<rparr>)
                   | Not_Committed \<Rightarrow> (lost, st\<lparr>ps_ledger := db, ps_file := Checkpoint_File core mac, ps_failed := True\<rparr>))))"

definition apply_whop_event :: "pay_config \<Rightarrow> pay_env \<Rightarrow> string \<Rightarrow> int \<Rightarrow> ledger \<Rightarrow> string tx" where
  "apply_whop_event cf env event_id max_attempts db =
     (case get_whop db event_id of
        None \<Rightarrow> Rollback (Inl (Key_Error ''Whop event''))
      | Some event \<Rightarrow>
          if wh_state event \<in> {''applied'', ''quarantined''} then Rollback (Inr (wh_state event))
          else case apply_whop_business cf env event db of
            (Inl e, db) \<Rightarrow> count_failure cf env event max_attempts e db
          | (Inr _, db) \<Rightarrow>
              (case update_whop event_id (\<lambda>w. w\<lparr>wh_state := ''applied'', wh_attempts := wh_attempts w + 1, wh_last_attempt_at := Some (pv_now env),
                  wh_applied_at := Some (pv_now env), wh_error_digest := None\<rparr>) db of
                 Inl e \<Rightarrow> count_failure cf env event max_attempts e db
               | Inr db' \<Rightarrow>
                   (case pay_audit cf env 1 ''whop.webhook'' ''whop.event.applied'' (wh_order_id event)
                       (JObj [(''event_id_hash'', JStr (cf_hash cf event_id)), (''kind'', JStr (wh_kind event))]) db' of
                      Inl e \<Rightarrow> count_failure cf env event max_attempts e db'
                    | Inr db' \<Rightarrow> Commit db' (Inr ''applied''))))"

text \<open>\<open>_apply_whop_event\<close> with its commit: \<open>applied\<close> is the answer of the transaction only when everything before the commit went well.\<close>

definition apply_whop :: "pay_config \<Rightarrow> pay_env \<Rightarrow> pay_env \<Rightarrow> string \<Rightarrow> int \<Rightarrow> pay_state \<Rightarrow> string answer \<times> pay_state" where
  "apply_whop cf env env' event_id max_attempts st =
     (case assert_terminal_trust cf st of
        Inl e \<Rightarrow> (Inl e, st)
      | Inr _ \<Rightarrow>
          (case apply_whop_event cf env event_id max_attempts (ps_ledger st) of
             Rollback r \<Rightarrow> (r, st)
           | Commit db r \<Rightarrow>
               (case commit_trusted cf env db r st of
                  (Inl e, st') \<Rightarrow>
                    (case get_whop (ps_ledger st) event_id of
                       Some event \<Rightarrow> if r = Inr ''applied'' then count_failure_unlocked cf env' event max_attempts e st' else (Inl e, st')
                     | None \<Rightarrow> (Inl e, st'))
                | (Inr x, st') \<Rightarrow> (Inr x, st'))))"

definition same_event :: "whop_event \<Rightarrow> string \<Rightarrow> whop_row \<Rightarrow> bool" where
  "same_event event raw_digest w \<longleftrightarrow>
     wh_raw_digest w = raw_digest \<and> wh_occurred_at w = we_occurred_at event \<and> wh_kind w = we_kind event \<and> wh_order_id w = we_order_id event \<and>
     wh_provider_order_ref w = we_provider_order_ref event \<and> wh_provider_payment_ref w = we_provider_payment_ref event"

definition store_whop_event :: "pay_config \<Rightarrow> pay_env \<Rightarrow> whop_event \<Rightarrow> string \<Rightarrow> ledger \<Rightarrow> unit tx" where
  "store_whop_event cf env event raw_digest db =
     (case get_whop db (we_event_id event) of
        Some w \<Rightarrow> Rollback (if \<not> same_event event raw_digest w then Inl (Value_Error ''conflicting Whop event'') else Inr ())
      | None \<Rightarrow>
          commits (and_then (insert_whop \<lparr>wh_event_id = we_event_id event, wh_raw_digest = raw_digest, wh_occurred_at = we_occurred_at event,
              wh_kind = we_kind event, wh_order_id = we_order_id event, wh_provider_order_ref = we_provider_order_ref event,
              wh_provider_payment_ref = we_provider_payment_ref event, wh_received_at = pv_now env, wh_state = ''received'', wh_attempts = 0,
              wh_applied_at = None, wh_last_attempt_at = None, wh_error_digest = None\<rparr> db) (\<lambda>db.
            and_then (pay_audit cf env 0 ''whop.webhook'' ''whop.event.received'' (we_order_id event)
                (JObj [(''event_id_hash'', JStr (cf_hash cf (we_event_id event))), (''kind'', JStr (we_kind event))]) db) (\<lambda>db. Inr ((), db)))))"

definition receive_whop_event ::
  "pay_config \<Rightarrow> (nat \<Rightarrow> pay_env) \<Rightarrow> whop_event \<Rightarrow> string \<Rightarrow> int \<Rightarrow> pay_state \<Rightarrow> string answer \<times> pay_state" where
  "receive_whop_event cf env event raw_digest max_attempts st =
     (if \<not> hex64 raw_digest \<or> max_attempts < 1 \<or> 20 < max_attempts then (Inl (Value_Error ''invalid Whop event''), st)
      else case trusted_tx cf (env 0) (store_whop_event cf (env 0) event raw_digest) st of
        (Inl e, st) \<Rightarrow> (Inl e, st)
      | (Inr _, st) \<Rightarrow> apply_whop cf (env 1) (env 2) (we_event_id event) max_attempts st)"

definition list_whop_inbox :: "string option \<Rightarrow> ledger \<Rightarrow> whop_row list tx" where
  "list_whop_inbox status db =
     Rollback (if status \<notin> {None, Some ''received'', Some ''applied'', Some ''quarantined''} then Inl (Value_Error ''invalid Whop inbox status'')
       else Inr (take 200 (rev (sort_key wh_received_at (filter (\<lambda>w. status = None \<or> status = Some (wh_state w)) (lg_whop db))))))"

end
