(* ===== verification/Payments_Safety.thy ===== *)
theory Payments_Safety
  imports Payments_Whop
begin

text \<open>
  What the payments ledger keeps over all interleavings of its transactions: sale ordinals are sold once and at their price, an entitlement
  belongs to a finally settled payment, a license delivered for an order that was refunded or charged back is queued for revocation, and the
  audit chain verifies. Workers hold copies of rows they leased; the steps below allow any copy.
\<close>

section \<open>Statements\<close>

named_theorems pay_statement

lemma pay_audit_Inr [pay_statement]:
  "pay_audit cf env n actor operation obj data db = Inr db' \<longleftrightarrow>
     (let prev = last_hash (lg_audit db); dh = cf_data_hash cf data;
          e = \<lparr>ae_event_id = pv_uuid env n, ae_at = pv_now env, ae_actor = actor, ae_operation = operation, ae_object_id = obj, ae_data_hash = dh,
            ae_previous_hash = prev, ae_chain_hash = chain_hash cf prev (pv_now env) actor operation obj dh\<rparr>
      in \<not> has_row ae_event_id (lg_audit db) (ae_event_id e) \<and> \<not> has_row ae_chain_hash (lg_audit db) (ae_chain_hash e) \<and>
         db' = lg_audit_update (\<lambda>rs. rs @ [e]) db)"
  by (auto simp: pay_audit_def Let_def)

lemma put_orders_Inr [pay_statement]: "put_orders f db = Inr db' \<longleftrightarrow> orders_ok (f (lg_orders db)) \<and> db' = lg_orders_update f db"
  by (auto simp: put_orders_def)

lemma update_order_Inr [pay_statement]:
  "update_order i f db = Inr db' \<longleftrightarrow> orders_ok (row_update od_id i f (lg_orders db)) \<and> db' = lg_orders_update (row_update od_id i f) db"
  by (simp add: update_order_def put_orders_Inr)

lemma insert_proof_Inr: "insert_proof p db = Inr db' \<Longrightarrow> db' = lg_proofs_update (\<lambda>rs. rs @ [p]) db"
  by (auto simp: insert_proof_def split: if_splits)

lemma insert_external_event_Inr: "insert_external_event p db = Inr db' \<Longrightarrow> db' = lg_events_update (\<lambda>rs. rs @ [p]) db"
  by (auto simp: insert_external_event_def split: if_splits)

lemma insert_candidate_Inr: "insert_candidate p db = Inr db' \<Longrightarrow> db' = lg_candidates_update (\<lambda>rs. rs @ [p]) db"
  by (auto simp: insert_candidate_def split: if_splits)

lemma insert_assertion_Inr: "insert_assertion p db = Inr db' \<Longrightarrow> db' = lg_assertions_update (\<lambda>rs. rs @ [p]) db"
  by (auto simp: insert_assertion_def split: if_splits)

lemma insert_intent_Inr [pay_statement]:
  "insert_intent r db = Inr db' \<longleftrightarrow>
     intents_ok (lg_intents db @ [r]) \<and> get_order db (it_order_id r) \<noteq> None \<and> db' = lg_intents_update (\<lambda>rs. rs @ [r]) db"
  by (auto simp: insert_intent_def)

lemma update_intent_Inr [pay_statement]:
  "update_intent i f db = Inr db' \<longleftrightarrow> intents_ok (row_update it_id i f (lg_intents db)) \<and>
     list_all (\<lambda>r. it_id r = i \<longrightarrow> intent_change_ok r (f r)) (lg_intents db) \<and> db' = lg_intents_update (row_update it_id i f) db"
  by (auto simp: update_intent_def)

lemma insert_outbox_Inr [pay_statement]:
  "insert_outbox r db = Inr db' \<longleftrightarrow>
     outbox_ok (lg_outbox db @ [r]) \<and> get_order db (ob_order_id r) \<noteq> None \<and> ob_identity r \<noteq> None \<and> db' = lg_outbox_update (\<lambda>rs. rs @ [r]) db"
  by (auto simp: insert_outbox_def)

lemma update_outbox_Inr [pay_statement]:
  "update_outbox i f db = Inr db' \<longleftrightarrow> outbox_ok (row_update ob_order_id i f (lg_outbox db)) \<and>
     list_all (\<lambda>r. ob_order_id r = i \<longrightarrow> outbox_change_ok r (f r)) (lg_outbox db) \<and> db' = lg_outbox_update (row_update ob_order_id i f) db"
  by (auto simp: update_outbox_def)

lemma update_revocation_Inr [pay_statement]:
  "update_revocation i f db = Inr db' \<longleftrightarrow> distinct_some (map rv_receipt (row_update rv_event_id i f (lg_revocations db))) \<and>
     list_all (\<lambda>r. rv_event_id r = i \<longrightarrow> revocation_change_ok r (f r)) (lg_revocations db) \<and> db' = lg_revocations_update (row_update rv_event_id i f) db"
  by (auto simp: update_revocation_def)

lemma insert_whop_Inr: "insert_whop w db = Inr db' \<Longrightarrow> db' = lg_whop_update (\<lambda>rs. rs @ [w]) db"
  by (auto simp: insert_whop_def split: if_splits)

lemma update_whop_Inr: "update_whop i f db = Inr db' \<Longrightarrow> db' = lg_whop_update (row_update wh_event_id i f) db"
  by (auto simp: update_whop_def split: if_splits)

section \<open>The invariant\<close>

definition late :: "string set" where
  "late = {''payment_confirmed'', ''license_issued'', ''refunded'', ''revoked''}"

definition reversed_state :: "string \<Rightarrow> bool" where
  "reversed_state s \<longleftrightarrow> s \<in> {''refunded'', ''revoked''}"

definition priced :: "ledger \<Rightarrow> bool" where
  "priced db \<longleftrightarrow>
     (\<forall>r\<in>set (lg_orders db). \<forall>n. od_sale_ordinal r = Some n \<longrightarrow> od_quoted_amount r = price (n \<le> EARLY_LIMIT) (od_rail r)) \<and>
     (\<forall>i\<in>set (lg_intents db). it_state i \<noteq> ''cancelled_unpaid'' \<longrightarrow>
        (\<exists>r\<in>set (lg_orders db). od_id r = it_order_id i \<and> od_rail r = ''x402'' \<and> od_quoted_amount r = price (it_ordinal i \<le> EARLY_LIMIT) ''x402''))"

definition outbox_bound :: "ledger \<Rightarrow> bool" where
  "outbox_bound db \<longleftrightarrow>
     (\<forall>e\<in>set (lg_outbox db). (\<exists>r\<in>set (lg_orders db). od_id r = ob_order_id e \<and> od_state r \<in> late) \<and>
        (\<forall>i\<in>set (lg_intents db). it_order_id i = ob_order_id e \<longrightarrow> it_state i = ''finalized_paid'') \<and>
        (ob_state e = ''delivered'' \<longrightarrow> truthy (ob_license_id e)))"

definition compensated :: "ledger \<Rightarrow> bool" where
  "compensated db \<longleftrightarrow>
     (\<forall>e\<in>set (lg_outbox db). \<forall>r\<in>set (lg_orders db). od_id r = ob_order_id e \<longrightarrow> reversed_state (od_state r) \<longrightarrow> ob_state e = ''delivered'' \<longrightarrow>
        (\<exists>v\<in>set (lg_revocations db). rv_order_id v = ob_order_id e \<and> Some (rv_license_id v) = ob_license_id e)) \<and>
     (\<forall>v\<in>set (lg_revocations db). \<exists>e\<in>set (lg_outbox db). ob_order_id e = rv_order_id v \<and> ob_state e = ''delivered'' \<and>
        ob_license_id e = Some (rv_license_id v))"

definition tables_ok :: "ledger \<Rightarrow> bool" where
  "tables_ok db \<longleftrightarrow> orders_ok (lg_orders db) \<and> intents_ok (lg_intents db) \<and> outbox_ok (lg_outbox db)"

definition ledger_ok :: "ledger \<Rightarrow> bool" where
  "ledger_ok db \<longleftrightarrow> tables_ok db \<and> priced db \<and> outbox_bound db \<and> compensated db"

definition reversed :: "ledger \<Rightarrow> string \<Rightarrow> bool" where
  "reversed db oid \<longleftrightarrow> (\<exists>e\<in>set (lg_outbox db). ob_order_id e = oid) \<and> (\<exists>r\<in>set (lg_orders db). od_id r = oid \<and> reversed_state (od_state r))"

lemmas ledger_ok_defs = ledger_ok_def tables_ok_def priced_def outbox_bound_def compensated_def

text \<open>What a transaction does to a ledger that satisfies the invariant.\<close>

definition proper :: "pay_config \<Rightarrow> ledger \<Rightarrow> ledger \<Rightarrow> bool" where
  "proper cf db db' \<longleftrightarrow>
     (ledger_ok db \<longrightarrow> ledger_ok db' \<and> (\<forall>oid. reversed db oid \<longrightarrow> reversed db' oid)) \<and>
     (audit_verifies cf genesis (lg_audit db) \<longrightarrow> audit_verifies cf genesis (lg_audit db'))"

lemma proper_refl [simp]: "proper cf db db"
  by (simp add: proper_def)

lemma proper_trans: "proper cf a b \<Longrightarrow> proper cf b c \<Longrightarrow> proper cf a c"
  by (auto simp: proper_def)

text \<open>Tables beside the invariant.\<close>

lemma proper_beside [simp]:
  "proper cf db (lg_proofs_update f1 db)" "proper cf db (lg_events_update f2 db)" "proper cf db (lg_candidates_update f3 db)"
  "proper cf db (lg_assertions_update f4 db)" "proper cf db (lg_whop_update f5 db)" "proper cf db (lg_sequence_update f6 db)"
  by (simp_all add: proper_def ledger_ok_defs reversed_def)

lemma audit_verifies_snoc:
  "audit_verifies cf prev rs \<Longrightarrow>
     ae_previous_hash e = (if rs = [] then prev else ae_chain_hash (last rs)) \<Longrightarrow>
     ae_chain_hash e = chain_hash cf (ae_previous_hash e) (ae_at e) (ae_actor e) (ae_operation e) (ae_object_id e) (ae_data_hash e) \<Longrightarrow>
     audit_verifies cf prev (rs @ [e])"
  by (induction rs arbitrary: prev) (auto split: if_splits)

lemma proper_audit:
  assumes "pay_audit cf env n actor operation obj data db = Inr db'"
  shows "proper cf db db'"
  using assms unfolding proper_def
  by (auto simp: pay_audit_Inr Let_def ledger_ok_defs reversed_def last_hash_def intro!: audit_verifies_snoc)

section \<open>Changes of single rows\<close>

lemma orders_unique: "ledger_ok db \<Longrightarrow> r \<in> set (lg_orders db) \<Longrightarrow> q \<in> set (lg_orders db) \<Longrightarrow> od_id r = od_id q \<Longrightarrow> r = q"
  by (rule same_key [of od_id]) (auto simp: ledger_ok_def tables_ok_def orders_ok_def)

lemma outbox_unique: "ledger_ok db \<Longrightarrow> e \<in> set (lg_outbox db) \<Longrightarrow> d \<in> set (lg_outbox db) \<Longrightarrow> ob_order_id e = ob_order_id d \<Longrightarrow> e = d"
  by (rule same_key [of ob_order_id]) (auto simp: ledger_ok_def tables_ok_def outbox_ok_def)

lemma get_order_Some: "get_order db i = Some r \<Longrightarrow> r \<in> set (lg_orders db) \<and> od_id r = i"
  by (simp add: get_order_def row_get_Some)

lemma get_outbox_Some: "get_outbox db i = Some r \<Longrightarrow> r \<in> set (lg_outbox db) \<and> ob_order_id r = i"
  by (simp add: get_outbox_def row_get_Some)

lemma get_intent_Some: "get_intent db i = Some r \<Longrightarrow> r \<in> set (lg_intents db) \<and> it_id r = i"
  by (simp add: get_intent_def row_get_Some)

lemma get_revocation_Some: "get_revocation db i = Some v \<Longrightarrow> v \<in> set (lg_revocations db) \<and> rv_order_id v = i"
  by (simp add: get_revocation_def row_get_Some)

lemma no_outbox_early:
  assumes "ledger_ok db" "r \<in> set (lg_orders db)" "od_state r \<notin> late" "e \<in> set (lg_outbox db)"
  shows "ob_order_id e \<noteq> od_id r"
proof
  assume same: "ob_order_id e = od_id r"
  obtain q where "q \<in> set (lg_orders db)" "od_id q = ob_order_id e" "od_state q \<in> late"
    using assms(1,4) by (auto simp: ledger_ok_def outbox_bound_def)
  then show False using orders_unique [OF assms(1), of q r] assms(2,3) same by simp
qed

lemma no_outbox_open:
  assumes "ledger_ok db" "i \<in> set (lg_intents db)" "it_state i \<noteq> ''finalized_paid''" "e \<in> set (lg_outbox db)"
  shows "ob_order_id e \<noteq> it_order_id i"
  using assms by (auto simp: ledger_ok_def outbox_bound_def)

lemma proper_order:
  assumes upd: "update_order oid f db = Inr db'"
    and keep: "\<And>r. od_id (f r) = od_id r" "\<And>r. od_rail (f r) = od_rail r" "\<And>r. od_quoted_amount (f r) = od_quoted_amount r"
    and ordinal: "\<And>r n. ledger_ok db \<Longrightarrow> r \<in> set (lg_orders db) \<Longrightarrow> od_id r = oid \<Longrightarrow> od_sale_ordinal (f r) = Some n \<Longrightarrow>
      od_sale_ordinal r = Some n \<or> od_quoted_amount r = price (n \<le> EARLY_LIMIT) (od_rail r)"
    and state: "\<And>r e. ledger_ok db \<Longrightarrow> r \<in> set (lg_orders db) \<Longrightarrow> od_id r = oid \<Longrightarrow> e \<in> set (lg_outbox db) \<Longrightarrow> ob_order_id e = oid \<Longrightarrow>
      od_state (f r) \<in> late \<and> (reversed_state (od_state r) \<longrightarrow> reversed_state (od_state (f r))) \<and>
      (reversed_state (od_state (f r)) \<longrightarrow> ob_state e = ''delivered'' \<longrightarrow>
        (\<exists>v\<in>set (lg_revocations db). rv_order_id v = ob_order_id e \<and> Some (rv_license_id v) = ob_license_id e))"
  shows "proper cf db db'"
proof -
  define g where "g r = (if od_id r = oid then f r else r)" for r
  have db': "db' = lg_orders_update (map g) db" and tab: "orders_ok (map g (lg_orders db))"
    using upd by (auto simp: update_order_Inr row_update_def g_def [abs_def])
  have g: "od_id (g r) = od_id r" "od_rail (g r) = od_rail r" "od_quoted_amount (g r) = od_quoted_amount r" for r
    using keep by (simp_all add: g_def)
  have "ledger_ok db'" if ok: "ledger_ok db"
  proof -
    have "od_quoted_amount (g r) = price (n \<le> EARLY_LIMIT) (od_rail (g r))" if "r \<in> set (lg_orders db)" "od_sale_ordinal (g r) = Some n" for r n
      using that ok ordinal [OF ok that(1)] g by (auto simp: ledger_ok_def priced_def g_def split: if_splits)
    then have "priced db'" using ok g unfolding db' by (fastforce simp: ledger_ok_def priced_def)
    moreover have "outbox_bound db'"
      unfolding outbox_bound_def db'
    proof (rule ballI, rule conjI)
      fix e assume "e \<in> set (lg_outbox (lg_orders_update (map g) db))"
      then have e: "e \<in> set (lg_outbox db)" by simp
      then obtain r where r: "r \<in> set (lg_orders db)" "od_id r = ob_order_id e" "od_state r \<in> late"
        using ok by (auto simp: ledger_ok_def outbox_bound_def)
      then have "od_state (g r) \<in> late" using state [OF ok r(1) _ e] by (auto simp: g_def)
      then show "\<exists>r\<in>set (lg_orders (lg_orders_update (map g) db)). od_id r = ob_order_id e \<and> od_state r \<in> late" using r g by auto
      show "(\<forall>i\<in>set (lg_intents (lg_orders_update (map g) db)). it_order_id i = ob_order_id e \<longrightarrow> it_state i = ''finalized_paid'') \<and>
          (ob_state e = ''delivered'' \<longrightarrow> truthy (ob_license_id e))"
        using ok e by (auto simp: ledger_ok_def outbox_bound_def)
    qed
    moreover have "\<exists>v\<in>set (lg_revocations db). rv_order_id v = ob_order_id e \<and> Some (rv_license_id v) = ob_license_id e"
      if "e \<in> set (lg_outbox db)" "r \<in> set (lg_orders db)" "od_id r = ob_order_id e" "reversed_state (od_state (g r))" "ob_state e = ''delivered''" for e r
      using that ok state [OF ok that(2) _ that(1)] by (auto simp: ledger_ok_def compensated_def g_def split: if_splits)
    then have "compensated db'" using ok g unfolding db' by (auto simp: ledger_ok_def compensated_def)
    ultimately show ?thesis using ok tab by (simp add: db' ledger_ok_def tables_ok_def)
  qed
  moreover have "reversed db' i" if ok: "ledger_ok db" and rev: "reversed db i" for i
  proof -
    obtain e r where er: "e \<in> set (lg_outbox db)" "ob_order_id e = i" "r \<in> set (lg_orders db)" "od_id r = i" "reversed_state (od_state r)"
      using rev by (auto simp: reversed_def)
    have "reversed_state (od_state (g r))" using er state [OF ok er(3) _ er(1)] by (auto simp: g_def)
    then show ?thesis using er g by (auto simp: reversed_def db')
  qed
  ultimately show ?thesis by (simp add: proper_def db')
qed

lemma proper_new_order:
  assumes "put_orders (\<lambda>rs. rs @ [r]) db = Inr db'" "od_sale_ordinal r = None"
  shows "proper cf db db'"
proof -
  have db': "db' = lg_orders_update (\<lambda>rs. rs @ [r]) db" and tab: "orders_ok (lg_orders db @ [r])"
    using assms(1) by (simp_all add: put_orders_Inr)
  have "od_id r \<notin> od_id ` set (lg_orders db)" using tab by (simp add: orders_ok_def)
  then have new: "od_id q \<noteq> od_id r" if "q \<in> set (lg_orders db)" for q using that by (metis imageI)
  have "ledger_ok db'" if ok: "ledger_ok db"
  proof -
    have "priced db'" using ok assms(2) by (auto simp: db' ledger_ok_def priced_def)
    moreover have "outbox_bound db'" using ok by (auto simp: db' ledger_ok_def outbox_bound_def)
    moreover have "\<forall>e\<in>set (lg_outbox db). od_id r \<noteq> ob_order_id e"
      using ok new by (auto simp: ledger_ok_def outbox_bound_def)
    then have "compensated db'" using ok unfolding db' by (simp add: ledger_ok_def compensated_def)
    ultimately show ?thesis using ok tab by (simp add: db' ledger_ok_def tables_ok_def)
  qed
  then show ?thesis by (auto simp: proper_def db' reversed_def)
qed

lemma proper_state:
  assumes "set_order_state env oid s db = Inr db'"
    and "\<And>r e. ledger_ok db \<Longrightarrow> r \<in> set (lg_orders db) \<Longrightarrow> od_id r = oid \<Longrightarrow> e \<in> set (lg_outbox db) \<Longrightarrow> ob_order_id e = oid \<Longrightarrow>
      s \<in> late \<and> (reversed_state (od_state r) \<longrightarrow> reversed_state s) \<and>
      (reversed_state s \<longrightarrow> ob_state e = ''delivered'' \<longrightarrow>
        (\<exists>v\<in>set (lg_revocations db). rv_order_id v = ob_order_id e \<and> Some (rv_license_id v) = ob_license_id e))"
  shows "proper cf db db'"
  using assms by (intro proper_order [where oid = oid and f = "\<lambda>r. r\<lparr>od_state := s, od_updated_at := pv_now env\<rparr>"]) (auto simp: set_order_state_def)

lemma proper_state_free:
  assumes "set_order_state env oid s db = Inr db'" "\<And>e. ledger_ok db \<Longrightarrow> e \<in> set (lg_outbox db) \<Longrightarrow> ob_order_id e \<noteq> oid"
  shows "proper cf db db'"
  using assms by (intro proper_state) auto

text \<open>Reversing an order: whatever was delivered for it has its revocation already.\<close>

lemma proper_reverse:
  assumes "set_order_state env oid s db = Inr db'" "reversed_state s"
    and "\<And>e. ledger_ok db \<Longrightarrow> e \<in> set (lg_outbox db) \<Longrightarrow> ob_order_id e = oid \<Longrightarrow> ob_state e = ''delivered'' \<Longrightarrow> get_revocation db oid \<noteq> None"
  shows "proper cf db db'"
proof (rule proper_state [OF assms(1)])
  fix r e assume ok: "ledger_ok db" and e: "e \<in> set (lg_outbox db)" "ob_order_id e = oid"
  have "\<exists>v\<in>set (lg_revocations db). rv_order_id v = ob_order_id e \<and> Some (rv_license_id v) = ob_license_id e" if d: "ob_state e = ''delivered''"
  proof -
    obtain v where v: "v \<in> set (lg_revocations db)" "rv_order_id v = oid" using assms(3) [OF ok e d] get_revocation_Some by blast
    then obtain d where "d \<in> set (lg_outbox db)" "ob_order_id d = rv_order_id v" "ob_license_id d = Some (rv_license_id v)"
      using ok by (auto simp: ledger_ok_def compensated_def)
    then show ?thesis using outbox_unique [OF ok, of d e] e v by auto
  qed
  then show "s \<in> late \<and> (reversed_state (od_state r) \<longrightarrow> reversed_state s) \<and> (reversed_state s \<longrightarrow> ob_state e = ''delivered'' \<longrightarrow>
      (\<exists>v\<in>set (lg_revocations db). rv_order_id v = ob_order_id e \<and> Some (rv_license_id v) = ob_license_id e))"
    using assms(2) by (auto simp: reversed_state_def late_def)
qed

lemma proper_intent:
  assumes upd: "update_intent iid f db = Inr db'"
    and keep: "\<And>i. it_order_id (f i) = it_order_id i" "\<And>i. it_ordinal (f i) = it_ordinal i"
  shows "proper cf db db'"
proof -
  define g where "g i = (if it_id i = iid then f i else i)" for i
  have db': "db' = lg_intents_update (map g) db" and tab: "intents_ok (map g (lg_intents db))"
    using upd by (auto simp: update_intent_Inr row_update_def g_def [abs_def])
  have change: "intent_change_ok i (g i) \<or> g i = i" if "i \<in> set (lg_intents db)" for i
    using upd that by (auto simp: update_intent_Inr list_all_iff g_def)
  have g: "it_order_id (g i) = it_order_id i" "it_ordinal (g i) = it_ordinal i" for i using keep by (simp_all add: g_def)
  have "ledger_ok db'" if ok: "ledger_ok db"
  proof -
    have "it_state i \<noteq> ''cancelled_unpaid''" if "i \<in> set (lg_intents db)" "it_state (g i) \<noteq> ''cancelled_unpaid''" for i
      using change [OF that(1)] that(2) by (auto simp: intent_change_ok_def terminal_def)
    then have "priced db'" using ok g unfolding db' by (auto simp: ledger_ok_def priced_def)
    moreover have "it_state (g i) = ''finalized_paid''" if "i \<in> set (lg_intents db)" "it_state i = ''finalized_paid''" for i
      using change [OF that(1)] that(2) by (auto simp: intent_change_ok_def terminal_def)
    then have "outbox_bound db'" using ok g unfolding db' by (auto simp: ledger_ok_def outbox_bound_def)
    moreover have "compensated db'" using ok by (simp add: db' ledger_ok_def compensated_def)
    ultimately show ?thesis using ok tab by (simp add: db' ledger_ok_def tables_ok_def)
  qed
  then show ?thesis by (auto simp: proper_def db' reversed_def)
qed

lemma proper_new_intent:
  assumes ins: "insert_intent i db = Inr db'" and r: "r \<in> set (lg_orders db)" "od_id r = it_order_id i" "od_state r \<notin> late" "od_rail r = ''x402''"
    "od_quoted_amount r = price (it_ordinal i \<le> EARLY_LIMIT) ''x402''"
  shows "proper cf db db'"
proof -
  have db': "db' = lg_intents_update (\<lambda>rs. rs @ [i]) db" and tab: "intents_ok (lg_intents db @ [i])" using ins by (simp_all add: insert_intent_Inr)
  have "ledger_ok db'" if ok: "ledger_ok db"
  proof -
    have "priced db'" using ok r by (auto simp: db' ledger_ok_def priced_def)
    moreover have "\<forall>e\<in>set (lg_outbox db). it_order_id i \<noteq> ob_order_id e" using no_outbox_early [OF ok r(1,3)] r(2) by metis
    then have "outbox_bound db'" using ok by (auto simp: db' ledger_ok_def outbox_bound_def)
    moreover have "compensated db'" using ok by (simp add: db' ledger_ok_def compensated_def)
    ultimately show ?thesis using ok tab by (simp add: db' ledger_ok_def tables_ok_def)
  qed
  then show ?thesis by (auto simp: proper_def db' reversed_def)
qed

lemma payload_order: "outbox_payload e = outbox_payload d \<Longrightarrow> ob_order_id e = ob_order_id d"
  by (simp add: outbox_payload_def)

lemma proper_outbox:
  assumes upd: "update_outbox oid f db = Inr db'"
    and new: "\<And>e r. ledger_ok db \<Longrightarrow> e \<in> set (lg_outbox db) \<Longrightarrow> ob_order_id e = oid \<Longrightarrow> ob_state (f e) = ''delivered'' \<Longrightarrow>
      ob_state e = ''delivered'' \<or> truthy (ob_license_id (f e)) \<and> (\<forall>r\<in>set (lg_orders db). od_id r = oid \<longrightarrow> \<not> reversed_state (od_state r))"
  shows "proper cf db db'"
proof -
  define g where "g e = (if ob_order_id e = oid then f e else e)" for e
  have db': "db' = lg_outbox_update (map g) db" and tab: "outbox_ok (map g (lg_outbox db))"
    using upd by (auto simp: update_outbox_Inr row_update_def g_def [abs_def])
  have change: "outbox_change_ok e (g e) \<or> g e = e" if "e \<in> set (lg_outbox db)" for e
    using upd that by (auto simp: update_outbox_Inr list_all_iff g_def)
  have g: "ob_order_id (g e) = ob_order_id e" if "e \<in> set (lg_outbox db)" for e
    using change [OF that] by (auto simp: outbox_change_ok_def dest: payload_order)
  have kept: "ob_state (g e) = ''delivered'' \<and> ob_license_id (g e) = ob_license_id e" if "e \<in> set (lg_outbox db)" "ob_state e = ''delivered''" for e
    using change [OF that(1)] that(2) by (auto simp: outbox_change_ok_def)
  have "ledger_ok db'" if ok: "ledger_ok db"
  proof -
    have "priced db'" using ok by (simp add: db' ledger_ok_def priced_def)
    moreover have "truthy (ob_license_id (g e))" if e: "e \<in> set (lg_outbox db)" and d: "ob_state (g e) = ''delivered''" for e
    proof (cases "ob_state e = ''delivered''")
      case True
      then show ?thesis using ok e kept [OF e] by (simp add: ledger_ok_def outbox_bound_def)
    next
      case False
      then show ?thesis using new [OF ok e] d by (auto simp: g_def split: if_splits)
    qed
    then have "outbox_bound db'" using ok g unfolding db' by (simp add: ledger_ok_def outbox_bound_def)
    moreover have "\<exists>v\<in>set (lg_revocations db). rv_order_id v = ob_order_id (g e) \<and> Some (rv_license_id v) = ob_license_id (g e)"
      if e: "e \<in> set (lg_outbox db)" and r: "r \<in> set (lg_orders db)" "od_id r = ob_order_id (g e)" "reversed_state (od_state r)"
        and d: "ob_state (g e) = ''delivered''" for e r
    proof -
      have "ob_state e = ''delivered''" using new [OF ok e] r g [OF e] d by (auto simp: g_def split: if_splits)
      then show ?thesis using ok e r g [OF e] kept [OF e] by (auto simp: ledger_ok_def compensated_def)
    qed
    moreover have "\<forall>v\<in>set (lg_revocations db). \<exists>e\<in>set (lg_outbox db). ob_order_id (g e) = rv_order_id v \<and> ob_state (g e) = ''delivered'' \<and>
        ob_license_id (g e) = Some (rv_license_id v)"
    proof
      fix v assume "v \<in> set (lg_revocations db)"
      then obtain e where e: "e \<in> set (lg_outbox db)" "ob_order_id e = rv_order_id v" "ob_state e = ''delivered''" "ob_license_id e = Some (rv_license_id v)"
        using ok by (auto simp: ledger_ok_def compensated_def)
      then show "\<exists>e\<in>set (lg_outbox db). ob_order_id (g e) = rv_order_id v \<and> ob_state (g e) = ''delivered'' \<and> ob_license_id (g e) = Some (rv_license_id v)"
        using g [OF e(1)] kept [OF e(1,3)] by auto
    qed
    ultimately have "compensated db'" unfolding db' compensated_def by simp
    then show ?thesis using ok tab \<open>priced db'\<close> \<open>outbox_bound db'\<close> by (simp add: db' ledger_ok_def tables_ok_def)
  qed
  moreover have "reversed db' i" if "reversed db i" for i using that g by (auto simp: reversed_def db')
  ultimately show ?thesis by (simp add: proper_def db')
qed

lemma proper_outbox_undelivered:
  "update_outbox oid f db = Inr db' \<Longrightarrow> (\<And>e. ob_state (f e) \<noteq> ''delivered'') \<Longrightarrow> proper cf db db'"
  by (rule proper_outbox) auto

lemma proper_outbox_same_state:
  "update_outbox oid f db = Inr db' \<Longrightarrow> (\<And>e. ob_state (f e) = ob_state e) \<Longrightarrow> proper cf db db'"
  by (rule proper_outbox) auto

lemma proper_revocation:
  assumes "update_revocation i f db = Inr db'"
  shows "proper cf db db'"
proof -
  define g where "g v = (if rv_event_id v = i then f v else v)" for v
  have db': "db' = lg_revocations_update (map g) db"
    using assms by (auto simp: update_revocation_Inr row_update_def g_def [abs_def])
  have g: "rv_order_id (g v) = rv_order_id v" "rv_license_id (g v) = rv_license_id v" if "v \<in> set (lg_revocations db)" for v
    using assms that by (auto simp: update_revocation_Inr list_all_iff g_def revocation_change_ok_def)
  have "compensated db'" if "compensated db" using that g unfolding db' by (simp add: compensated_def)
  then show ?thesis by (auto simp: proper_def db' reversed_def ledger_ok_def tables_ok_def priced_def outbox_bound_def)
qed

lemma enqueue_revocation_Inr:
  assumes "enqueue_revocation cf env e l action reason t db = Inr (v, db')"
  shows "db' = insert_or_ignore_revocation (new_revocation cf e l action reason t) db" "get_revocation db' (ob_order_id e) = Some v"
  using assms by (auto simp: enqueue_revocation_def Let_def split: if_splits option.splits)

lemma insert_or_ignore_cases:
  "insert_or_ignore_revocation v db = db \<or> insert_or_ignore_revocation v db = lg_revocations_update (\<lambda>rs. rs @ [v]) db"
  by (simp add: insert_or_ignore_revocation_def)

text \<open>Queueing the revocation of a license that has been delivered.\<close>

lemma proper_enqueue:
  assumes enq: "enqueue_revocation cf env e l action reason t db = Inr (v, db')"
    and e: "e \<in> set (lg_outbox db)" "ob_state e = ''delivered''" "ob_license_id e = Some l"
  shows "proper cf' db db'"
proof -
  let ?v = "new_revocation cf e l action reason t"
  have "compensated (lg_revocations_update (\<lambda>rs. rs @ [?v]) db)" if comp: "compensated db"
    unfolding compensated_def
  proof (rule conjI)
    show "\<forall>e\<in>set (lg_outbox (lg_revocations_update (\<lambda>rs. rs @ [?v]) db)). \<forall>r\<in>set (lg_orders (lg_revocations_update (\<lambda>rs. rs @ [?v]) db)).
        od_id r = ob_order_id e \<longrightarrow> reversed_state (od_state r) \<longrightarrow> ob_state e = ''delivered'' \<longrightarrow>
        (\<exists>v\<in>set (lg_revocations (lg_revocations_update (\<lambda>rs. rs @ [?v]) db)). rv_order_id v = ob_order_id e \<and> Some (rv_license_id v) = ob_license_id e)"
      using comp by (simp add: compensated_def)
    show "\<forall>v\<in>set (lg_revocations (lg_revocations_update (\<lambda>rs. rs @ [?v]) db)). \<exists>e\<in>set (lg_outbox (lg_revocations_update (\<lambda>rs. rs @ [?v]) db)).
        ob_order_id e = rv_order_id v \<and> ob_state e = ''delivered'' \<and> ob_license_id e = Some (rv_license_id v)"
      using comp e by (auto simp: compensated_def new_revocation_def intro: bexI [of _ e])
  qed
  then have "compensated db'" if "compensated db"
    using that insert_or_ignore_cases [of ?v db] unfolding enqueue_revocation_Inr(1) [OF enq] by auto
  moreover have "lg_outbox db' = lg_outbox db" "lg_orders db' = lg_orders db" "lg_intents db' = lg_intents db" "lg_audit db' = lg_audit db"
    using insert_or_ignore_cases [of ?v db] unfolding enqueue_revocation_Inr(1) [OF enq] by auto
  ultimately show ?thesis by (auto simp: proper_def reversed_def ledger_ok_def tables_ok_def priced_def outbox_bound_def)
qed

lemma undelivered_unrevoked:
  assumes "ledger_ok db" "e \<in> set (lg_outbox db)" "ob_state e \<noteq> ''delivered''"
  shows "get_revocation db (ob_order_id e) = None"
proof (rule ccontr)
  assume "get_revocation db (ob_order_id e) \<noteq> None"
  then obtain v where "v \<in> set (lg_revocations db)" "rv_order_id v = ob_order_id e" using get_revocation_Some by blast
  then obtain d where "d \<in> set (lg_outbox db)" "ob_order_id d = ob_order_id e" "ob_state d = ''delivered''"
    using assms(1) by (auto simp: ledger_ok_def compensated_def)
  then show False using outbox_unique [OF assms(1), of d e] assms(2,3) by auto
qed

text \<open>Delivering a license for a reversed order, with its revocation.\<close>

lemma proper_compensated:
  assumes upd: "update_outbox oid (delivered_row env ack) db = Inr db1"
    and e: "e \<in> set (lg_outbox db)" "ob_order_id e = oid" "ob_state e \<noteq> ''delivered''"
    and enq: "enqueue_revocation cf env2 d (ea_license_id ack) action reason t db1 = Inr (v, db2)" and d: "ob_order_id d = oid"
    and l: "ea_license_id ack \<noteq> []"
  shows "proper cf' db db2"
proof -
  define g where "g e = (if ob_order_id e = oid then delivered_row env ack e else e)" for e
  have db1: "db1 = lg_outbox_update (map g) db" and tab: "outbox_ok (map g (lg_outbox db))"
    using upd by (auto simp: update_outbox_Inr row_update_def g_def [abs_def])
  let ?v = "new_revocation cf d (ea_license_id ack) action reason t"
  have g: "ob_order_id (g e) = ob_order_id e" for e by (simp add: g_def delivered_row_def)
  have at: "rv_order_id ?v = oid" "rv_license_id ?v = ea_license_id ack" using d by (simp_all add: new_revocation_def)
  have "ledger_ok db2" "reversed db i \<longrightarrow> reversed db2 i" if ok: "ledger_ok db" for i
  proof -
    have none: "get_revocation db oid = None" using undelivered_unrevoked [OF ok e(1,3)] e(2) by simp
    have "get_revocation db1 oid = None" using none by (simp add: db1 get_revocation_def)
    then have db2: "db2 = lg_revocations_update (\<lambda>rs. rs @ [?v]) db1"
      using enqueue_revocation_Inr [OF enq] d insert_or_ignore_cases [of ?v db1] by auto
    have old: "rv_order_id w \<noteq> oid" if "w \<in> set (lg_revocations db)" for w
      using none that by (auto simp: get_revocation_def row_get_None)
    have "compensated db2" unfolding compensated_def
    proof (intro conjI ballI impI)
      fix x r assume x: "x \<in> set (lg_outbox db2)" and r: "r \<in> set (lg_orders db2)" "od_id r = ob_order_id x" "reversed_state (od_state r)"
        "ob_state x = ''delivered''"
      then obtain y where y: "y \<in> set (lg_outbox db)" "x = g y" by (auto simp: db1 db2)
      show "\<exists>v\<in>set (lg_revocations db2). rv_order_id v = ob_order_id x \<and> Some (rv_license_id v) = ob_license_id x"
      proof (cases "ob_order_id y = oid")
        case True
        then show ?thesis using y at by (auto simp: db2 g_def delivered_row_def)
      next
        case False
        then show ?thesis using y r ok by (auto simp: db1 db2 g_def ledger_ok_def compensated_def)
      qed
    next
      fix w assume "w \<in> set (lg_revocations db2)"
      then consider "w = ?v" | "w \<in> set (lg_revocations db)" by (auto simp: db1 db2)
      then show "\<exists>x\<in>set (lg_outbox db2). ob_order_id x = rv_order_id w \<and> ob_state x = ''delivered'' \<and> ob_license_id x = Some (rv_license_id w)"
      proof cases
        case 1
        then show ?thesis using e at by (intro bexI [of _ "g e"]) (auto simp: db1 db2 g_def delivered_row_def)
      next
        case 2
        then obtain x where "x \<in> set (lg_outbox db)" "ob_order_id x = rv_order_id w" "ob_state x = ''delivered''" "ob_license_id x = Some (rv_license_id w)"
          using ok by (auto simp: ledger_ok_def compensated_def)
        then show ?thesis using old [OF 2] by (intro bexI [of _ "g x"]) (auto simp: db1 db2 g_def)
      qed
    qed
    moreover have "ob_state (g x) = ''delivered'' \<longrightarrow> truthy (ob_license_id (g x))" if "x \<in> set (lg_outbox db)" for x
      using ok that l by (auto simp: ledger_ok_def outbox_bound_def g_def delivered_row_def truthy_def)
    ultimately show "ledger_ok db2" using ok tab g by (auto simp: db1 db2 ledger_ok_def tables_ok_def priced_def outbox_bound_def)
    show "reversed db i \<longrightarrow> reversed db2 i" using g by (auto simp: db1 db2 reversed_def)
  qed
  moreover have "lg_audit db2 = lg_audit db"
    using enqueue_revocation_Inr(1) [OF enq] insert_or_ignore_cases [of ?v db1] by (auto simp: db1)
  ultimately show ?thesis by (simp add: proper_def)
qed

text \<open>Turning a settled payment into an entitlement to deliver.\<close>

lemma proper_entitle:
  assumes ins: "insert_outbox e db = Inr db1" and upd: "update_intent iid f db1 = Inr db2"
    and f: "\<And>i. it_order_id (f i) = it_order_id i" "\<And>i. it_ordinal (f i) = it_ordinal i" "\<And>i. it_state (f i) = ''finalized_paid''"
    and i: "i \<in> set (lg_intents db)" "it_id i = iid" "it_order_id i = ob_order_id e" "ob_state e \<noteq> ''delivered''"
    and r: "r \<in> set (lg_orders db)" "od_id r = ob_order_id e" "od_state r \<in> late"
  shows "proper cf db db2"
proof -
  define g where "g i = (if it_id i = iid then f i else i)" for i
  have db1: "db1 = lg_outbox_update (\<lambda>rs. rs @ [e]) db" and tab: "outbox_ok (lg_outbox db @ [e])" using ins by (auto simp: insert_outbox_Inr)
  have db2: "db2 = lg_intents_update (map g) db1" and tab2: "intents_ok (map g (lg_intents db))"
    using upd by (auto simp: update_intent_Inr row_update_def g_def [abs_def] db1)
  have change: "intent_change_ok i (g i) \<or> g i = i" if "i \<in> set (lg_intents db)" for i
    using upd that by (auto simp: update_intent_Inr list_all_iff g_def db1)
  have g: "it_order_id (g i) = it_order_id i" "it_ordinal (g i) = it_ordinal i" for i using f by (simp_all add: g_def)
  have "ledger_ok db2" if ok: "ledger_ok db"
  proof -
    have "it_state i \<noteq> ''cancelled_unpaid''" if "i \<in> set (lg_intents db)" "it_state (g i) \<noteq> ''cancelled_unpaid''" for i
      using change [OF that(1)] that(2) by (auto simp: intent_change_ok_def terminal_def)
    then have "priced db2" using ok g by (auto simp: db1 db2 ledger_ok_def priced_def)
    moreover have same: "j = i" if "j \<in> set (lg_intents db)" "it_order_id j = ob_order_id e" for j
      using that ok i by (intro same_key [of it_order_id "lg_intents db"]) (auto simp: ledger_ok_def tables_ok_def intents_ok_def)
    have fin: "it_state (g j) = ''finalized_paid''" if "it_state j = ''finalized_paid''" for j using that f(3) by (simp add: g_def)
    have "outbox_bound db2" unfolding outbox_bound_def
    proof (rule ballI, rule conjI)
      fix x assume "x \<in> set (lg_outbox db2)"
      then have x: "x = e \<or> x \<in> set (lg_outbox db)" by (auto simp: db1 db2)
      then show "\<exists>r\<in>set (lg_orders db2). od_id r = ob_order_id x \<and> od_state r \<in> late" using ok r by (auto simp: db1 db2 ledger_ok_def outbox_bound_def)
      have "it_state (g j) = ''finalized_paid''" if j: "j \<in> set (lg_intents db)" "it_order_id j = ob_order_id x" for j
      proof (cases "x = e")
        case True
        then have "it_id j = iid" using same [OF j(1)] j(2) i(2) by simp
        then show ?thesis by (simp add: g_def f(3))
      next
        case False
        then show ?thesis using x j ok fin by (auto simp: ledger_ok_def outbox_bound_def)
      qed
      then show "(\<forall>j\<in>set (lg_intents db2). it_order_id j = ob_order_id x \<longrightarrow> it_state j = ''finalized_paid'') \<and>
          (ob_state x = ''delivered'' \<longrightarrow> truthy (ob_license_id x))"
        using g x i(4) ok by (auto simp: db1 db2 ledger_ok_def outbox_bound_def)
    qed
    moreover have "compensated db2" using ok i(4) by (auto simp: db1 db2 ledger_ok_def compensated_def)
    ultimately show ?thesis using ok tab tab2 by (simp add: db1 db2 ledger_ok_def tables_ok_def)
  qed
  then show ?thesis by (auto simp: proper_def db1 db2 reversed_def)
qed

end
