(* ===== verification/Payments_Promises.thy ===== *)
theory Payments_Promises
  imports Payments_Safety
begin

text \<open>
  Every transaction of the payments service is proper, hence the invariant of \<open>Payments_Safety\<close> holds in every state the service reaches, and
  the promises to buyers and to the shop follow.
\<close>

section \<open>Transactions\<close>

lemma commits_Commit: "commits m = Commit db' r \<longleftrightarrow> (\<exists>x. m = Inr (x, db') \<and> r = Inr x)"
  by (auto simp: commits_def split: sum.splits prod.splits)

lemma row_update_member: "r \<in> set rs \<Longrightarrow> k r = i \<Longrightarrow> f r \<in> set (row_update k i f rs)"
  by (auto simp: set_row_update)

lemmas tx_simps = commits_Commit result_simps

lemma create_order_proper:
  assumes "create_order_tx cf env rail email name db = Commit db' r"
  shows "proper cf db db'"
proof -
  obtain q db1 where q: "put_orders (\<lambda>rs. rs @ [q]) db = Inr db1" "od_sale_ordinal q = None"
    and a: "pay_audit cf env 1 ''buyer'' ''order.created'' (od_id q)
      (JObj [(''rail'', JStr rail), (''amount_minor'', jint (od_quoted_amount q)), (''currency'', JStr (od_currency q)), (''email_hash'', JStr (cf_hash cf email))]) db1 = Inr db'"
    using assms unfolding create_order_tx_def Let_def by (auto simp: tx_simps)
  show ?thesis using proper_new_order [OF q] proper_audit [OF a] by (rule proper_trans)
qed

lemma stale_quote_proper:
  assumes "stale_quote cf env actor oid data db = Inr db'" "r \<in> set (lg_orders db)" "od_id r = oid" "od_state r = ''pending_payment''"
  shows "proper cf db db'"
proof -
  obtain db1 where s: "set_order_state env oid ''manual_review'' db = Inr db1" and a: "pay_audit cf env 1 actor ''payment.manual_review'' oid data db1 = Inr db'"
    using assms(1) by (auto simp: stale_quote_def result_simps)
  have "ob_order_id e \<noteq> oid" if "ledger_ok db" "e \<in> set (lg_outbox db)" for e
    using no_outbox_early [OF that(1) assms(2) _ that(2)] assms(3,4) by (simp add: late_def)
  then show ?thesis using proper_state_free [OF s] proper_audit [OF a] by (blast intro: proper_trans)
qed

lemma prepare_proper:
  assumes "prepare_x402_intent cf env oid proof_id nonce amount payer db = Commit db' ans"
  shows "proper cf db db'"
proof -
  obtain r ordinal where r: "get_order db oid = Some r" "od_rail r = ''x402''" "od_state r = ''pending_payment''" and n: "next_ordinal db = Some ordinal"
    using assms by (auto simp: prepare_x402_intent_def Let_def split: option.splits if_splits)
  define expected where "expected = price (ordinal \<le> EARLY_LIMIT) ''x402''"
  define i where "i = new_intent cf env oid proof_id nonce amount payer ordinal"
  note row = get_order_Some [OF r(1)]
  note run = assms [unfolded prepare_x402_intent_def r(1) n option.case Let_def, folded expected_def i_def]
  show ?thesis
  proof (cases "od_quote_expires_at r \<le> pv_now env \<or> amount \<noteq> expected \<or> od_quoted_amount r \<noteq> expected")
    case True
    then have "stale_quote cf env ''x402.verify'' oid (JObj [(''provided'', jint amount), (''expected'', jint expected)]) db = Inr db'"
      using run r(2,3) by (auto split: sum.splits)
    then show ?thesis using row r(3) by (blast intro: stale_quote_proper)
  next
    case False
    then obtain db1 where ins: "insert_intent i db = Inr db1"
      and a: "pay_audit cf env 1 ''x402.verify'' ''settlement_intent.prepared'' oid
        (JObj [(''intent_id'', JStr (it_id i)), (''ordinal'', jint ordinal), (''proof_hash'', JStr (it_proof_hash i))]) db1 = Inr db'"
      using run r(2,3) by (auto simp: tx_simps split: sum.splits if_splits)
    have "proper cf db db1"
      using row r(2,3) False by (intro proper_new_intent [OF ins, of r]) (auto simp: i_def new_intent_def late_def expected_def)
    then show ?thesis using proper_audit [OF a] by (rule proper_trans)
  qed
qed

lemma record_settlement_result_proper:
  assumes "record_settlement_result_tx cf env intent_id s actor db = Commit db' ans"
  shows "proper cf db db'"
proof -
  obtain db1 o' d where u: "update_intent intent_id (settled_row cf env actor s) db = Inr db1"
    and a: "pay_audit cf env 0 actor ''settlement.evidence_recorded'' o' d db1 = Inr db'"
    using assms by (auto simp: record_settlement_result_tx_def Let_def tx_simps split: option.splits if_splits sum.splits)
  have "proper cf db db1" by (rule proper_intent [OF u]) (simp_all add: settled_row_def Let_def)
  then show ?thesis using proper_audit [OF a] by (rule proper_trans)
qed

lemma make_ambiguous_proper:
  assumes "make_ambiguous env i db = Inr db'" "i \<in> set (lg_intents db)" "it_state i \<noteq> ''finalized_paid''"
  shows "proper cf db db'"
proof -
  obtain db1 where u: "update_intent (it_id i) (\<lambda>r. r\<lparr>it_state := ''ambiguous'', it_updated_at := pv_now env\<rparr>) db = Inr db1"
    and s: "set_order_state env (it_order_id i) ''manual_review'' db1 = Inr db'"
    using assms(1) by (auto simp: make_ambiguous_def result_simps)
  have p: "proper cf db db1" by (rule proper_intent [OF u]) simp_all
  have "i\<lparr>it_state := ''ambiguous'', it_updated_at := pv_now env\<rparr> \<in> set (lg_intents db1)"
    using u assms(2) by (auto simp: update_intent_Inr set_row_update)
  then have "ob_order_id e \<noteq> it_order_id i" if "ledger_ok db1" "e \<in> set (lg_outbox db1)" for e
    using no_outbox_open [OF that(1) _ _ that(2)] by fastforce
  then show ?thesis using p proper_state_free [OF s] by (blast intro: proper_trans)
qed

lemma make_ambiguous_others:
  assumes "make_ambiguous env i db = Inr db'" "j \<in> set (lg_intents db)" "it_id j \<noteq> it_id i"
  shows "j \<in> set (lg_intents db')"
  using assms by (force simp: make_ambiguous_def result_simps update_intent_Inr set_order_state_def update_order_Inr set_row_update)

lemma expire_intents_proper:
  "expire_intents cf env n is db = Inr db' \<Longrightarrow> set is \<subseteq> set (lg_intents db) \<Longrightarrow> distinct (map it_id is) \<Longrightarrow>
     \<forall>i\<in>set is. it_state i \<noteq> ''finalized_paid'' \<Longrightarrow> proper cf db db'"
proof (induction "is" arbitrary: n db)
  case (Cons i "is")
  obtain db1 db2 where m: "make_ambiguous env i db = Inr db1"
    and a: "pay_audit cf env n ''recovery'' ''settlement_intent.lease_expired'' (it_order_id i) (JObj [(''intent_id'', JStr (it_id i))]) db1 = Inr db2"
    and rest: "expire_intents cf env (Suc n) is db2 = Inr db'"
    using Cons.prems(1) by (auto simp: result_simps)
  have "set is \<subseteq> set (lg_intents db2)"
  proof
    fix j assume j: "j \<in> set is"
    then have "it_id j \<in> it_id ` set is" by (rule imageI)
    then have "it_id j \<noteq> it_id i" using Cons.prems(3) by auto
    then have "j \<in> set (lg_intents db1)" using make_ambiguous_others [OF m] j Cons.prems(2) by auto
    then show "j \<in> set (lg_intents db2)" using a by (auto simp: pay_audit_Inr Let_def)
  qed
  then have "proper cf db2 db'" using Cons.IH [OF rest] Cons.prems by auto
  moreover have "proper cf db db1" using make_ambiguous_proper [OF m] Cons.prems by auto
  ultimately show ?case using proper_audit [OF a] by (blast intro: proper_trans)
qed simp

lemma reconcile_expired_proper:
  assumes "reconcile_expired_intents cf env db = Commit db' r" "distinct (map it_id (lg_intents db))"
  shows "proper cf db db'"
  using assms by (auto simp: reconcile_expired_intents_def tx_simps distinct_map_filter intro!: expire_intents_proper)

lemma candidate_proper:
  assumes "record_settlement_candidate_tx cf env c db = Commit db' ans"
  shows "proper cf db db'"
proof -
  obtain i c' db1 db2 db3 a d where i: "get_intent db (cd_intent_id c) = Some i" "it_state i \<in> {''prepared'', ''ambiguous''}"
    and c: "insert_candidate c' db = Inr db1"
    and u: "(if it_state i = ''prepared'' then update_intent (it_id i) (\<lambda>r. r\<lparr>it_state := ''ambiguous'', it_updated_at := pv_now env\<rparr>) db1 else Inr db1) = Inr db2"
    and s: "set_order_state env (it_order_id i) ''manual_review'' db2 = Inr db3" and a: "pay_audit cf env 0 ''x402.settle'' ''settlement.candidate_recorded'' a d db3 = Inr db'"
    using assms by (auto simp: record_settlement_candidate_tx_def Let_def tx_simps split: option.splits if_splits sum.splits)
  note row = get_intent_Some [OF i(1)]
  have p1: "proper cf db db1" using insert_candidate_Inr [OF c] by simp
  have p2: "proper cf db1 db2"
    using u by (auto intro: proper_intent split: if_splits)
  have "\<exists>j\<in>set (lg_intents db2). it_order_id j = it_order_id i \<and> it_state j \<noteq> ''finalized_paid''"
  proof (cases "it_state i = ''prepared''")
    case True
    then have "i\<lparr>it_state := ''ambiguous'', it_updated_at := pv_now env\<rparr> \<in> set (lg_intents db2)"
      using u row insert_candidate_Inr [OF c] by (auto simp: update_intent_Inr intro!: row_update_member [where r = i])
    then show ?thesis by (rule bexI [rotated]) simp
  next
    case False
    then show ?thesis using u i(2) row insert_candidate_Inr [OF c] by auto
  qed
  then have "ob_order_id e \<noteq> it_order_id i" if "ledger_ok db2" "e \<in> set (lg_outbox db2)" for e
    using no_outbox_open [OF that(1) _ _ that(2)] by metis
  then show ?thesis using p1 p2 proper_state_free [OF s] proper_audit [OF a] by (blast intro: proper_trans)
qed

lemma mark_ambiguous_proper:
  assumes "mark_intent_ambiguous cf env intent_id reason db = Commit db' r"
  shows "proper cf db db'"
proof (cases "db' = db")
  case False
  obtain i db1 a d where i: "get_intent db intent_id = Some i" "it_state i = ''prepared''" and m: "make_ambiguous env i db = Inr db1"
    and a: "pay_audit cf env 0 ''x402.settle'' ''settlement_intent.ambiguous'' a d db1 = Inr db'"
    using assms False by (auto simp: mark_intent_ambiguous_def tx_simps split: option.splits if_splits)
  show ?thesis using make_ambiguous_proper [OF m] get_intent_Some [OF i(1)] i(2) proper_audit [OF a] by (auto intro: proper_trans)
qed simp

lemma cancel_unpaid_proper:
  assumes "cancel_unpaid_tx cf env intent_id s actor db = Commit db' r"
  shows "proper cf db db'"
proof -
  obtain i db1 db2 a d where i: "get_intent db intent_id = Some i" and u: "update_intent intent_id (cancelled_row cf env actor s) db = Inr db1"
    and t: "set_order_state env (it_order_id i) ''expired'' db1 = Inr db2" and a: "pay_audit cf env 0 actor ''settlement.cancelled_unpaid'' a d db2 = Inr db'"
    using assms by (auto simp: cancel_unpaid_tx_def tx_simps split: option.splits if_splits sum.splits)
  have p: "proper cf db db1" by (rule proper_intent [OF u]) (simp_all add: cancelled_row_def Let_def)
  have "cancelled_row cf env actor s i \<in> set (lg_intents db1)"
    using u get_intent_Some [OF i] by (auto simp: update_intent_Inr set_row_update)
  then have "ob_order_id e \<noteq> it_order_id i" if "ledger_ok db1" "e \<in> set (lg_outbox db1)" for e
    using no_outbox_open [OF that(1) _ _ that(2), of "cancelled_row cf env actor s i"] by (simp add: cancelled_row_def Let_def)
  then show ?thesis using p proper_state_free [OF t] proper_audit [OF a] by (blast intro: proper_trans)
qed

lemma finalize_proper:
  assumes "finalize_x402_intent cf env intent_id db = Commit db' r"
  shows "proper cf db db'"
proof -
  obtain i where i: "get_intent db intent_id = Some i" "it_state i = ''settled''" and iss: "\<exists>q. issue_reserved cf env i ''x402.finalize'' db = Inr (q, db')"
    using assms by (auto simp: finalize_x402_intent_def tx_simps split: option.splits if_splits)
  note row = get_intent_Some [OF i(1)]
  let ?f = "\<lambda>r. r\<lparr>od_state := ''payment_confirmed'', od_sale_ordinal := Some (it_ordinal i), od_confirmed_at := Some (pv_now env),
    od_updated_at := pv_now env, od_tx_hash := it_tx_hash i\<rparr>"
  obtain db1 db2 db3 db4 db5 pf where pf: "insert_proof pf db = Inr db1" and o: "update_order (it_order_id i) ?f db1 = Inr db2"
    and a1: "pay_audit cf env 0 ''x402.finalize'' ''payment.confirmed'' (it_order_id i) (JObj [(''ordinal'', jint (it_ordinal i))]) db2 = Inr db3"
    and ob: "insert_outbox (new_outbox cf env i) db3 = Inr db4"
    and u: "update_intent (it_id i) (\<lambda>r. r\<lparr>it_state := ''finalized_paid'', it_updated_at := pv_now env\<rparr>) db4 = Inr db5"
    and a2: "pay_audit cf env 1 ''issuer'' ''entitlement.enqueued'' (it_order_id i) (JObj [(''source'', JStr ''x402'')]) db5 = Inr db'"
    using iss by (auto simp: issue_reserved_def Let_def result_simps split: if_splits)
  have db1: "db1 = lg_proofs_update (\<lambda>rs. rs @ [pf]) db" using insert_proof_Inr [OF pf] .
  have p2: "proper cf db1 db2"
  proof (rule proper_order [OF o])
    fix r n assume ok: "ledger_ok db1" and r: "r \<in> set (lg_orders db1)" "od_id r = it_order_id i" "od_sale_ordinal (?f r) = Some n"
    have "i \<in> set (lg_intents db1)" using row by (simp add: db1)
    then obtain q where "q \<in> set (lg_orders db1)" "od_id q = it_order_id i" "od_rail q = ''x402''" "od_quoted_amount q = price (it_ordinal i \<le> EARLY_LIMIT) ''x402''"
      using ok i(2) by (auto simp: ledger_ok_def priced_def)
    then show "od_sale_ordinal r = Some n \<or> od_quoted_amount r = price (n \<le> EARLY_LIMIT) (od_rail r)"
      using orders_unique [OF ok, of q r] r by auto
  next
    fix r e assume ok: "ledger_ok db1" and e: "e \<in> set (lg_outbox db1)" "ob_order_id e = it_order_id i"
    then have False using no_outbox_open [OF ok, of i e] row i(2) by (simp add: db1)
    then show "od_state (?f r) \<in> late \<and> (reversed_state (od_state r) \<longrightarrow> reversed_state (od_state (?f r))) \<and> (reversed_state (od_state (?f r)) \<longrightarrow>
        ob_state e = ''delivered'' \<longrightarrow> (\<exists>v\<in>set (lg_revocations db1). rv_order_id v = ob_order_id e \<and> Some (rv_license_id v) = ob_license_id e))" ..
  qed simp_all
  have "proper cf db3 db5"
  proof -
    obtain r where "r \<in> set (lg_orders db1)" "od_id r = it_order_id i"
      using ob get_order_Some a1 o by (force simp: insert_outbox_Inr pay_audit_Inr Let_def update_order_Inr set_row_update new_outbox_def)
    then have r: "?f r \<in> set (lg_orders db3)" "od_id (?f r) = it_order_id i"
      using a1 o by (auto simp: pay_audit_Inr Let_def update_order_Inr set_row_update)
    have "i \<in> set (lg_intents db3)" using row a1 o by (auto simp: pay_audit_Inr Let_def update_order_Inr db1)
    then show ?thesis using r
      by (intro proper_entitle [OF ob u, of i "?f r"]) (auto simp: new_outbox_def late_def)
  qed
  then show ?thesis using p2 proper_audit [OF a1] proper_audit [OF a2] db1 by (metis proper_trans proper_beside(1))
qed

lemma confirm_proper:
  assumes "confirm_payment_locked cf env oid proof_id amount currency payer_ref tx_hash actor db = Commit db' ans"
  shows "proper cf db db'"
proof -
  obtain r ordinal where r: "get_order db oid = Some r" "od_state r = ''pending_payment''" and n: "next_ordinal db = Some ordinal"
    using assms by (auto simp: confirm_payment_locked_def Let_def split: option.splits if_splits)
  note row = get_order_Some [OF r(1)]
  define expected where "expected = price (ordinal \<le> EARLY_LIMIT) (od_rail r)"
  note run = assms [unfolded confirm_payment_locked_def r(1) n option.case Let_def, folded expected_def]
  show ?thesis
  proof (cases "od_quote_expires_at r \<le> pv_now env \<or> amount \<noteq> expected \<or> od_quoted_amount r \<noteq> expected \<or>
      (od_rail r, currency) \<notin> {(''x402'', ''USDC''), (''paypal'', ''USD'')}")
    case True
    then obtain d where "stale_quote cf env actor oid d db = Inr db'"
      using run r(2) by (simp only: if_True if_False) (auto simp: tx_simps split: option.splits)
    then show ?thesis using row r(2) by (blast intro: stale_quote_proper)
  next
    case False
    let ?f = "\<lambda>r. r\<lparr>od_state := ''payment_confirmed'', od_sale_ordinal := Some ordinal, od_confirmed_at := Some (pv_now env), od_updated_at := pv_now env,
      od_payer_ref := payer_ref, od_tx_hash := tx_hash\<rparr>"
    obtain db1 db2 db3 pf d1 d2 where pf: "insert_proof pf db = Inr db1" and u: "update_order oid ?f db1 = Inr db2"
      and a1: "pay_audit cf env 0 actor ''payment.confirmed'' oid d1 db2 = Inr db3"
      and a2: "pay_audit cf env 1 ''issuer'' ''entitlement.not_configured'' oid d2 db3 = Inr db'"
      using run r(2) False by (simp only: if_True if_False) (auto simp: tx_simps split: option.splits sum.splits)
    have db1: "db1 = lg_proofs_update (\<lambda>rs. rs @ [pf]) db" using insert_proof_Inr [OF pf] .
    have "proper cf db1 db2"
    proof (rule proper_order [OF u])
      fix q n assume ok: "ledger_ok db1" and q: "q \<in> set (lg_orders db1)" "od_id q = oid" "od_sale_ordinal (?f q) = Some n"
      have "q = r" using orders_unique [OF ok q(1)] row q(2) by (simp add: db1)
      then show "od_sale_ordinal q = Some n \<or> od_quoted_amount q = price (n \<le> EARLY_LIMIT) (od_rail q)" using False q(3) by (auto simp: expected_def)
    next
      fix q e assume ok: "ledger_ok db1" and e: "e \<in> set (lg_outbox db1)" "ob_order_id e = oid"
      then have False using no_outbox_early [OF ok, of r e] row r(2) by (simp add: db1 late_def)
      then show "od_state (?f q) \<in> late \<and> (reversed_state (od_state q) \<longrightarrow> reversed_state (od_state (?f q))) \<and> (reversed_state (od_state (?f q)) \<longrightarrow>
          ob_state e = ''delivered'' \<longrightarrow> (\<exists>v\<in>set (lg_revocations db1). rv_order_id v = ob_order_id e \<and> Some (rv_license_id v) = ob_license_id e))" ..
    qed simp_all
    then show ?thesis using proper_audit [OF a1] proper_audit [OF a2] db1 by (metis proper_trans proper_beside(1))
  qed
qed

lemma paypal_submit_proper:
  assumes "paypal_submit_tx cf env oid tx db = Commit db' ans"
  shows "proper cf db db'"
proof -
  obtain r db1 db2 x d where r: "get_order db oid = Some r" "od_state r = ''pending_payment''" and e: "insert_external_event x db = Inr db1"
    and u: "update_order oid (\<lambda>r. r\<lparr>od_payer_ref := Some tx, od_updated_at := pv_now env\<rparr>) db1 = Inr db2"
    and a: "pay_audit cf env 0 ''buyer'' ''paypal.claim_submitted'' oid d db2 = Inr db'"
    using assms by (auto simp: paypal_submit_tx_def tx_simps split: option.splits if_splits sum.splits)
  have "proper cf db1 db2"
    using no_outbox_early [of db1 r] get_order_Some [OF r(1)] r(2) insert_external_event_Inr [OF e]
    by (intro proper_order [OF u]) (auto simp: late_def)
  then show ?thesis using insert_external_event_Inr [OF e] proper_audit [OF a] by (metis proper_trans proper_beside(2))
qed

lemma paypal_confirm_proper: "paypal_confirm_tx cf env decimal oid t a actor db = Commit db' r \<Longrightarrow> proper cf db db'"
  by (auto simp: paypal_confirm_tx_def split: option.splits if_splits sum.splits intro: confirm_proper)

section \<open>Delivery\<close>

lemma take_lease_proper: "take_lease env worker n oid db = Inr (x, db') \<Longrightarrow> proper cf db db'"
  by (auto simp: take_lease_def result_simps lease_row_def intro!: proper_outbox_undelivered)

lemma reset_prepared_proper: "reset_prepared env e db = Inr db' \<Longrightarrow> proper cf db db'"
  by (auto simp: reset_prepared_def result_simps intro!: proper_outbox_undelivered)

lemma claim_outbox_proper:
  assumes "claim_outbox env worker n oid db = Commit db' r"
  shows "proper cf db db'"
  using assms unfolding claim_outbox_def
  by (auto simp: tx_simps split: list.splits if_splits sum.splits option.splits intro: take_lease_proper reset_prepared_proper proper_trans)

lemma crossing_proper:
  "prepare_crossing row worker db = Commit db' r \<Longrightarrow> proper cf db db'"
  "authorize_crossing row worker db = Commit db' r \<Longrightarrow> proper cf db db'"
  by (auto simp: prepare_crossing_def authorize_crossing_def tx_simps split: option.splits if_splits intro!: proper_outbox_same_state)

lemma requeue_proper:
  "requeue_reconciliation_failure cf env row worker err m db = Commit db' r \<Longrightarrow> proper cf' db db'"
  by (auto simp: requeue_reconciliation_failure_def Let_def tx_simps split: option.splits if_splits intro!: proper_outbox_undelivered)

lemma fail_outbox_proper:
  assumes "fail_outbox_tx cf env row worker err m db = Commit db' r"
  shows "proper cf' db db'"
proof (cases "ob_phase row \<in> {''crossing_authorized'', ''readback_only''}")
  case True
  then show ?thesis using assms by (auto simp: fail_outbox_tx_def split: tx.splits sum.splits failure.splits intro: requeue_proper)
next
  case False
  then show ?thesis using assms
    by (auto simp: fail_outbox_tx_def tx_simps split: option.splits if_splits intro!: proper_outbox_undelivered)
qed

lemma compensate_Inr:
  assumes "compensate cf env e l action reason operation data db = Inr db'"
  obtains v db1 where "enqueue_revocation cf env e l action reason (pv_now env) db = Inr (v, db1)" "proper cf db1 db'"
  using assms proper_audit by (auto simp: compensate_def result_simps split: prod.splits)

lemma compensated_delivery_proper:
  assumes e: "e \<in> set (lg_outbox db)" "ob_order_id e = oid" "ob_state e \<noteq> ''delivered''" and d: "ob_order_id d = oid"
    and stored: "update_outbox oid (delivered_row env ack) db = Inr db1"
    and c: "compensate cf env d (ea_license_id ack) action reason operation data db1 = Inr db'" and l: "ea_license_id ack \<noteq> []"
  shows "proper cf db db'"
proof -
  obtain v db2 where enq: "enqueue_revocation cf env d (ea_license_id ack) action reason (pv_now env) db1 = Inr (v, db2)" and last: "proper cf db2 db'"
    using c by (rule compensate_Inr)
  show ?thesis using proper_compensated [OF stored e enq d l] last by (rule proper_trans)
qed

lemma issued_delivery_proper:
  assumes r: "r \<in> set (lg_orders db)" "od_id r = oid" "od_state r = ''payment_confirmed''"
    and stored: "update_outbox oid (delivered_row env ack) db = Inr db1"
    and u: "update_order oid (\<lambda>r. r\<lparr>od_state := ''license_issued'', od_license_id := l, od_updated_at := t\<rparr>) db1 = Inr db2"
    and l: "ea_license_id ack \<noteq> []"
  shows "proper cf db db2"
proof -
  have not_reversed: "\<not> reversed_state (od_state q)" if "ledger_ok db" "q \<in> set (lg_orders db)" "od_id q = oid" for q
    using orders_unique [OF that(1,2) r(1)] that(3) r(2,3) by (simp add: reversed_state_def)
  have p: "proper cf db db1" using not_reversed l by (intro proper_outbox [OF stored]) (auto simp: delivered_row_def truthy_def)
  have "lg_orders db1 = lg_orders db" using stored by (auto simp: update_outbox_Inr)
  then have "\<not> reversed_state (od_state q)" if "ledger_ok db1" "q \<in> set (lg_orders db1)" "od_id q = oid" for q
    using orders_unique [OF that(1,2), of r] that(3) r by (simp add: reversed_state_def)
  then have "proper cf db1 db2" by (intro proper_order [OF u]) (auto simp: late_def reversed_state_def)
  with p show ?thesis by (rule proper_trans)
qed

lemma complete_delivery_proper:
  assumes "complete_delivery cf env row worker ack db = Commit db' ans" and l: "ea_license_id ack \<noteq> []"
  shows "proper cf db db'"
proof -
  define oid where "oid = ob_order_id row"
  obtain e r where e: "get_outbox db oid = Some e" and r: "get_order db oid = Some r"
    using assms(1) by (auto simp: complete_delivery_def Let_def oid_def split: option.splits if_splits)
  note rows = get_outbox_Some [OF e] get_order_Some [OF r]
  have "\<exists>db1. update_outbox oid (delivered_row env ack) db = Inr db1 \<and> ob_state e \<noteq> ''delivered'' \<and>
      ((\<exists>d action reason operation data. ob_order_id d = oid \<and> compensate cf env d (ea_license_id ack) action reason operation data db1 = Inr db') \<or>
       od_state r = ''payment_confirmed'' \<and>
       (\<exists>db2 l t n a b c d. update_order oid (\<lambda>r. r\<lparr>od_state := ''license_issued'', od_license_id := l, od_updated_at := t\<rparr>) db1 = Inr db2 \<and>
          pay_audit cf env n a b c d db2 = Inr db'))"
    using assms(1) e r rows unfolding complete_delivery_def Let_def oid_def [symmetric]
    by (auto simp: tx_simps holds_lease_def split: if_splits) (metis rows oid_def)+
  then show ?thesis
  proof (elim exE conjE disjE)
    fix db1 d action reason operation data
    assume "update_outbox oid (delivered_row env ack) db = Inr db1" "ob_state e \<noteq> ''delivered''" "ob_order_id d = oid"
      "compensate cf env d (ea_license_id ack) action reason operation data db1 = Inr db'"
    then show ?thesis using rows(1) by (intro compensated_delivery_proper [of e db oid d env ack db1] l) simp_all
  next
    fix db1 db2 l' t n a b c d
    assume stored: "update_outbox oid (delivered_row env ack) db = Inr db1" and state: "od_state r = ''payment_confirmed''"
      and u: "update_order oid (\<lambda>r. r\<lparr>od_state := ''license_issued'', od_license_id := l', od_updated_at := t\<rparr>) db1 = Inr db2"
      and audit: "pay_audit cf env n a b c d db2 = Inr db'"
    have "proper cf db db2" using rows(2) state by (intro issued_delivery_proper [OF _ _ _ stored u l]) simp_all
    then show ?thesis using proper_audit [OF audit] by (rule proper_trans)
  qed
qed

section \<open>Reversals\<close>

lemma delivered_license_Some:
  "delivered_license e = Some l \<longleftrightarrow> (\<exists>d. e = Some d \<and> ob_state d = ''delivered'' \<and> ob_license_id d = Some l \<and> l \<noteq> [])"
  by (auto simp: delivered_license_def truthy_Some split: option.splits)

lemma delivered_has_license:
  assumes "ledger_ok db" "get_outbox db oid = Some e" "ob_state e = ''delivered''"
  shows "delivered_license (get_outbox db oid) \<noteq> None"
  using assms get_outbox_Some [OF assms(2)] by (auto simp: delivered_license_def ledger_ok_def outbox_bound_def truthy_Some)

lemma fence_off_proper: "update_outbox oid (fence_off cf env cause) db = Inr db' \<Longrightarrow> proper cf' db db'"
  by (rule proper_outbox_undelivered) (auto simp: fence_off_def)

lemma fence_off_undelivered:
  assumes "update_outbox oid (fence_off cf env cause) db = Inr db'" "d \<in> set (lg_outbox db')" "ob_order_id d = oid"
  shows "ob_state d \<noteq> ''delivered''"
proof -
  obtain e where e: "e \<in> set (lg_outbox db)" "d = (if ob_order_id e = oid then fence_off cf env cause e else e)"
    using assms(1,2) by (auto simp: update_outbox_Inr set_row_update)
  have "ob_order_id (fence_off cf env cause e) = ob_order_id e" "ob_state (fence_off cf env cause e) = ''quarantined''" by (simp_all add: fence_off_def)
  then show ?thesis using e(2) assms(3) by (cases "ob_order_id e = oid") simp_all
qed

lemma revoke_delivered_proper:
  assumes "revoke_delivered cf env action reason e l db = Inr (x, db')" "e \<in> set (lg_outbox db)" "ob_state e = ''delivered''" "ob_license_id e = Some l"
  shows "proper cf db db'" "get_revocation db' (ob_order_id e) \<noteq> None" "lg_outbox db' = lg_outbox db"
proof -
  obtain a db1 v where a: "insert_assertion a db = Inr db1"
    and enq: "\<exists>reason. enqueue_revocation cf env e l action reason (pv_now env) db1 = Inr (v, db')"
    using assms(1) unfolding revoke_delivered_def Let_def result_simps by (auto split: prod.splits)
  then obtain reason' where enq: "enqueue_revocation cf env e l action reason' (pv_now env) db1 = Inr (v, db')" by blast
  note db1 = insert_assertion_Inr [OF a]
  have "proper cf db1 db'" using assms(2-4) by (intro proper_enqueue [OF enq]) (simp_all add: db1)
  then show "proper cf db db'" using db1 by (metis proper_trans proper_beside(4))
  show "get_revocation db' (ob_order_id e) \<noteq> None" using enqueue_revocation_Inr(2) [OF enq] by simp
  show "lg_outbox db' = lg_outbox db"
    using enqueue_revocation_Inr(1) [OF enq] insert_or_ignore_cases [of "new_revocation cf e l action reason' (pv_now env)" db1] by (auto simp: db1)
qed

text \<open>The part of a reversal that deals with the entitlement leaves nothing delivered without revocation.\<close>

definition settles :: "pay_config \<Rightarrow> string \<Rightarrow> ledger \<Rightarrow> ledger \<Rightarrow> bool" where
  "settles cf oid db db' \<longleftrightarrow>
     proper cf db db' \<and> (ledger_ok db \<longrightarrow> (\<forall>e\<in>set (lg_outbox db'). ob_order_id e = oid \<longrightarrow> ob_state e = ''delivered'' \<longrightarrow> get_revocation db' oid \<noteq> None))"

lemma settles_reverse:
  assumes "settles cf oid db db1" "set_order_state env oid s db1 = Inr db2" "reversed_state s"
  shows "proper cf db db2"
proof -
  have "proper cf db1 db2" if "ledger_ok db"
    using assms that by (intro proper_reverse [OF assms(2,3)]) (auto simp: settles_def)
  moreover have "lg_audit db2 = lg_audit db1" using assms(2) by (auto simp: set_order_state_def update_order_Inr)
  ultimately show ?thesis using assms(1) by (auto simp: settles_def proper_def)
qed

lemma settles_nothing:
  assumes "ledger_ok db \<Longrightarrow> get_outbox db oid = None \<or> (\<exists>e. get_outbox db oid = Some e \<and> ob_state e \<noteq> ''delivered'')"
  shows "settles cf oid db db"
proof -
  have "False" if ok: "ledger_ok db" and e: "e \<in> set (lg_outbox db)" "ob_order_id e = oid" "ob_state e = ''delivered''" for e
  proof -
    have "get_outbox db oid = Some e"
      using e ok row_get_unique [of ob_order_id "lg_outbox db" e] by (simp add: get_outbox_def ledger_ok_def tables_ok_def outbox_ok_def)
    then show False using assms [OF ok] e(3) by simp
  qed
  then show ?thesis by (auto simp: settles_def)
qed

lemma settles_undelivered: "delivered_license (get_outbox db oid) = None \<Longrightarrow> settles cf oid db db"
  using delivered_has_license [of db oid] by (intro settles_nothing) (cases "get_outbox db oid", auto)

lemma settles_fence_off: "update_outbox oid (fence_off cf env cause) db = Inr db' \<Longrightarrow> settles cf' oid db db'"
  using fence_off_undelivered by (auto simp: settles_def intro: fence_off_proper)

lemma settles_revoke:
  assumes "revoke_delivered cf env action reason e l db = Inr (x, db')" "get_outbox db oid = Some e" "delivered_license (Some e) = Some l"
  shows "settles cf oid db db'"
  using revoke_delivered_proper [OF assms(1)] get_outbox_Some [OF assms(2)] assms(3) by (auto simp: settles_def delivered_license_Some)

lemma admin_transition_proper:
  assumes run: "admin_transition_tx cf env oid action target reason db = Commit db' ans" and t: "transition_target action = Some target"
  shows "proper cf db db'"
proof -
  obtain r where r: "get_order db oid = Some r" using run by (auto simp: admin_transition_tx_def split: option.splits)
  note row = get_order_Some [OF r]
  show ?thesis
  proof (cases "od_state r = target")
    case True
    then show ?thesis using run r proper_audit by (auto simp: admin_transition_tx_def tx_simps)
  next
    case False
    define e where "e = get_outbox db oid"
    define l where "l = delivered_license e"
    obtain x db1 db2 d where legal: "od_state r \<in> TRANSITIONS action"
      and part: "(if action \<in> {''refund'', ''revoke''} \<and> l \<noteq> None then revoke_delivered cf env action reason (the e) (the l) db
          else if action = ''refund'' \<and> e \<noteq> None
          then and_then (update_outbox oid (fence_off cf env ''cancelled_by_refund_before_delivery'') db) (\<lambda>db. Inr ((None, None), db))
          else Inr ((None, None), db)) = Inr (x, db1)"
      and s: "set_order_state env oid target db1 = Inr db2" and a: "pay_audit cf env 0 ''admin'' (''order.'' @ action) oid d db2 = Inr db'"
      using run r False unfolding admin_transition_tx_def Let_def e_def [symmetric] l_def [symmetric]
      by (simp only: option.case if_False) (force simp: tx_simps split: if_splits prod.splits)
    have "proper cf db db2"
    proof (cases "action = ''reject''")
      case True
      then have "db1 = db" "od_state r \<notin> late" using part legal by (auto simp: TRANSITIONS_def late_def)
      then show ?thesis using s no_outbox_early [OF _ row [THEN conjunct1]] row by (intro proper_state_free [OF s [unfolded \<open>db1 = db\<close>]]) auto
    next
      case False
      then have act: "action \<in> {''refund'', ''revoke''}" and rev: "reversed_state target" using t by (auto simp: transition_target_def reversed_state_def split: if_splits)
      have "settles cf oid db db1"
      proof (cases l)
        case (Some m)
        then obtain e' where e': "e = Some e'" by (auto simp: l_def delivered_license_Some)
        have "revoke_delivered cf env action reason e' m db = Inr (x, db1)" using part act Some e' by simp
        then show ?thesis using e' Some by (intro settles_revoke [of cf env action reason e' m]) (auto simp: e_def l_def)
      next
        case None
        show ?thesis
        proof (cases "action = ''refund'' \<and> e \<noteq> None")
          case True
          then have "update_outbox oid (fence_off cf env ''cancelled_by_refund_before_delivery'') db = Inr db1" using part None by (auto simp: result_simps)
          then show ?thesis by (rule settles_fence_off)
        next
          case False
          then have "db1 = db" using part None by auto
          moreover have "settles cf oid db db"
            using None delivered_has_license by (intro settles_undelivered) (simp add: e_def l_def)
          ultimately show ?thesis by simp
        qed
      qed
      then show ?thesis using s rev by (rule settles_reverse)
    qed
    then show ?thesis using proper_audit [OF a] by (rule proper_trans)
  qed
qed

lemma revocation_proper:
  "claim_revocation env worker n oid db = Commit db' r1 \<Longrightarrow> proper cf db db'"
  "fail_revocation cf' env row worker m k db = Commit db' r2 \<Longrightarrow> proper cf db db'"
  by (auto simp: claim_revocation_def fail_revocation_def tx_simps split: list.splits option.splits if_splits intro: proper_revocation)

lemma complete_revocation_proper:
  assumes "complete_revocation cf env row worker ack db = Commit db' r"
  shows "proper cf db db'"
  using assms by (auto simp: complete_revocation_def tx_simps split: option.splits if_splits intro: proper_trans proper_revocation proper_audit)

section \<open>Shop events\<close>

lemma reverse_order_proper:
  assumes "settles cf (od_id r) db db1" "reverse_order cf env event r db1 = (ans, db2)"
  shows "proper cf db db2"
proof -
  define target where "target = (if wh_kind event = ''refund'' then ''refunded'' else ''revoked'')"
  have t: "reversed_state target" by (simp add: target_def reversed_state_def)
  show ?thesis
  proof (cases "set_order_state env (od_id r) target db1")
    case (Inl x)
    then have "db2 = db1" using assms(2) by (simp add: reverse_order_def Let_def target_def [symmetric])
    then show ?thesis using assms(1) by (simp add: settles_def)
  next
    case (Inr db3)
    note p = settles_reverse [OF assms(1) Inr t]
    show ?thesis
    proof (cases "pay_audit cf env 0 ''whop.webhook'' (''order.'' @ wh_kind event) (od_id r)
        (JObj [(''from'', JStr (od_state r)), (''to'', JStr target)]) db3")
      case Inl
      then show ?thesis using assms(2) Inr p by (simp add: reverse_order_def Let_def target_def [symmetric])
    next
      case (Inr db4)
      then have "db2 = db4" using assms(2) \<open>set_order_state env (od_id r) target db1 = Inr db3\<close> by (simp add: reverse_order_def Let_def target_def [symmetric])
      then show ?thesis using p proper_audit [OF Inr] by (blast intro: proper_trans)
    qed
  qed
qed

lemma proper_ignore_assertion [simp]: "proper cf db (insert_or_ignore_assertion a db)"
  by (simp add: insert_or_ignore_assertion_def)

lemma settles_whop_revoke:
  assumes e: "get_outbox db oid = Some e" "delivered_license (Some e) = Some l"
    and enq: "enqueue_revocation cf env e l action reason t (insert_or_ignore_assertion a db) = Inr (v, db1)"
  shows "settles cf oid db db1"
proof -
  have out: "lg_outbox (insert_or_ignore_assertion a db) = lg_outbox db" by (simp add: insert_or_ignore_assertion_def)
  have "proper cf (insert_or_ignore_assertion a db) db1"
    using get_outbox_Some [OF e(1)] e(2) by (intro proper_enqueue [OF enq]) (auto simp: out delivered_license_Some)
  then have "proper cf db db1" using proper_trans proper_ignore_assertion by blast
  then show ?thesis using enqueue_revocation_Inr(2) [OF enq] get_outbox_Some [OF e(1)] by (auto simp: settles_def)
qed

lemma apply_whop_business_proper:
  assumes "apply_whop_business cf env event db = (ans, db')"
  shows "proper cf db db'"
proof (cases "db' = db")
  case False
  obtain r where r: "get_order db (wh_order_id event) = Some r" using assms False by (auto simp: apply_whop_business_def split: option.splits)
  define e where "e = get_outbox db (od_id r)"
  define action where "action = (if wh_kind event = ''refund'' then ''refund'' else ''revoke'')"
  define reason where "reason = (if wh_kind event = ''refund'' then ''refund'' else ''chargeback'')"
  have pair: "(if wh_kind event = ''refund'' then (''refund'', ''refund'') else (''revoke'', ''chargeback'')) = (action, reason)"
    by (simp add: action_def reason_def)
  have step: "(case delivered_license e of
      Some l \<Rightarrow> (case sign_revocation cf env l (od_id r) (Some reason) of Inl x \<Rightarrow> (Inl x, db)
        | Inr a \<Rightarrow> (case enqueue_revocation cf env (the e) l action reason (pv_now env) (insert_or_ignore_assertion a db) of
            Inl x \<Rightarrow> (Inl x, insert_or_ignore_assertion a db) | Inr (_, db) \<Rightarrow> reverse_order cf env event r db))
    | None \<Rightarrow> if e = None then reverse_order cf env event r db
        else (case update_outbox (od_id r) (fence_off cf env ''cancelled_by_whop_reversal'') db of
          Inl x \<Rightarrow> (Inl x, db) | Inr db \<Rightarrow> reverse_order cf env event r db)) = (ans, db')"
    using assms [unfolded apply_whop_business_def r option.case Let_def e_def [symmetric] pair prod.case] False by (simp only: if_False split: if_splits) auto
  show ?thesis
  proof (cases "delivered_license e")
    case (Some l)
    then obtain e' where e': "e = Some e'" by (auto simp: delivered_license_Some)
    obtain a where a: "sign_revocation cf env l (od_id r) (Some reason) = Inr a"
      using step Some False by (auto split: sum.splits)
    show ?thesis
    proof (cases "enqueue_revocation cf env e' l action reason (pv_now env) (insert_or_ignore_assertion a db)")
      case Inl
      then show ?thesis using step Some a e' by auto
    next
      case (Inr y)
      obtain v db1 where "y = (v, db1)" by (cases y)
      then have enq: "enqueue_revocation cf env e' l action reason (pv_now env) (insert_or_ignore_assertion a db) = Inr (v, db1)" using Inr by simp
      have "settles cf (od_id r) db db1" using e' Some by (intro settles_whop_revoke [OF _ _ enq]) (simp_all add: e_def)
      moreover have "reverse_order cf env event r db1 = (ans, db')" using step Some a e' enq by simp
      ultimately show ?thesis by (rule reverse_order_proper)
    qed
  next
    case None
    show ?thesis
    proof (cases "e = None")
      case True
      then have "settles cf (od_id r) db db" by (intro settles_undelivered) (simp add: e_def [symmetric] None [unfolded True] delivered_license_def)
      moreover have "reverse_order cf env event r db = (ans, db')" using step None True by simp
      ultimately show ?thesis by (rule reverse_order_proper)
    next
      case old: False
      then obtain db1 where u: "update_outbox (od_id r) (fence_off cf env ''cancelled_by_whop_reversal'') db = Inr db1"
        using step None False by (auto split: sum.splits)
      then have "reverse_order cf env event r db1 = (ans, db')" using step None old by simp
      then show ?thesis using settles_fence_off [OF u] reverse_order_proper by blast
    qed
  qed
qed simp

lemma count_failure_proper: "count_failure cf env event m err db = Commit db' r \<Longrightarrow> proper cf db db'"
  by (auto simp: count_failure_def mark_attempt_def audit_failure_def tx_simps dest!: update_whop_Inr proper_audit intro: proper_trans [OF proper_beside(5)])

lemma unlocked_failure_proper:
  "mark_attempt cf env event m err db = Inr db' \<Longrightarrow> proper cf db db'"
  "audit_failure cf env event m db = Inr db' \<Longrightarrow> proper cf db db'"
  by (auto simp: mark_attempt_def audit_failure_def dest!: update_whop_Inr intro: proper_audit proper_beside(5))

lemma apply_whop_event_proper:
  assumes "apply_whop_event cf env event_id m db = Commit db' r"
  shows "proper cf db db'"
proof -
  obtain event where ev: "get_whop db event_id = Some event" "wh_state event \<notin> {''applied'', ''quarantined''}"
    using assms by (auto simp: apply_whop_event_def split: option.splits if_splits)
  obtain ans db1 where b: "apply_whop_business cf env event db = (ans, db1)" by (cases "apply_whop_business cf env event db")
  note p = apply_whop_business_proper [OF b]
  have "proper cf db1 db'"
    using assms ev b by (auto simp: apply_whop_event_def split: sum.splits option.splits if_splits
      dest!: update_whop_Inr proper_audit intro: count_failure_proper proper_trans [OF proper_beside(5)])
  with p show ?thesis by (rule proper_trans)
qed

lemma store_whop_event_proper: "store_whop_event cf env event digest db = Commit db' r \<Longrightarrow> proper cf db db'"
  by (auto simp: store_whop_event_def tx_simps split: option.splits dest!: insert_whop_Inr proper_audit intro: proper_trans [OF proper_beside(5)])

end
