(* ===== verification/Payments_Start.thy ===== *)
theory Payments_Start
  imports Payments_Whop
begin

text \<open>
  The start of the payments service (\<open>PaymentService.__init__\<close> and \<open>_init\<close> of \<open>growthmap_payments/service.py\<close>): the schema version and the
  migration ledger are compared with the thirteen migrations the code knows, missing migrations run one transaction each, a start that migrated
  publishes a new checkpoint, then the checkpoint and the evidence are verified, settled payments are finalized and expired intents go to
  review. What a migration script does to the rows (\<open>sql\<close>), the text of the scripts (\<open>text_of\<close>) and the digest of the terminal intents in the
  checkpoint of version 5 (\<open>legacy_root\<close>) are arguments.
\<close>

section \<open>The database file and the process\<close>

definition SCHEMA_VERSION :: int where
  "SCHEMA_VERSION = 13"

definition MIGRATIONS :: "(int \<times> string \<times> string) list" where
  "MIGRATIONS =
     [(1, ''001_payments_v1.sql'',
        ''311bc81c68f1fc7f63ec27c309600b8ac852774ee7f535a5783bc2dc625ca28d''),
      (2, ''002_settlement_security.sql'',
        ''2330d6397b12b2d5bd4ecd89dd98bb3a59cf05c2722a4a82d64640b0fc09b54c''),
      (3, ''003_evidence_identity.sql'',
        ''28814bd1eac98f1e31310a823c4e2983928811ce1b3a05f80266703583f04106''),
      (4, ''004_terminal_evidence_trust.sql'',
        ''f2400926eda875753a06c64c2bd045b0806b02fdc4bc23f1f05c177b3883d451''),
      (5, ''005_external_terminal_checkpoint.sql'',
        ''85c2eb7ccaf6d57c916cd2fbbe594c32ad70436fb38605949e25602b345ce045''),
      (6, ''006_authenticated_issuance_closure.sql'',
        ''842904b883fc5e529d25019b8deed41467429df239ec4db92df9dd2fa23e4c9e''),
      (7, ''007_signed_revocation_assertions.sql'',
        ''32e37e78522e54330753b1843dc7b7fdaf98015442320221350629cdd85489c7''),
      (8, ''008_device_activation_entitlements.sql'',
        ''2c72ffee4fbd739c84f85c9ae7d8cf267bdffb84bea88779198e50e78e6e71af''),
      (9, ''009_authority_revocation_outbox.sql'',
        ''367b701a724639518e9854fd0159d24bb2ce78309242f58fe64206f9367989fc''),
      (10, ''010_terminal_payer_basis_immutability.sql'',
        ''101c8dc450685c8b26eaabb427e0b1c2f96765c0cbd74ace70f1cd3f66fcbd07''),
      (11, ''011_authority_signer_identity_binding.sql'',
        ''1d585bb206d86e018794a96ff8adbc91b84e02355d4d12daf45e09c94d195d42''),
      (12, ''012_facilitator_candidate_settlement.sql'',
        ''88c4b81c4b5926179546b69a67c7efd5d2d68555511c42a49effb3944e9a159a''),
      (13, ''013_whop_webhook_inbox.sql'',
        ''b587441a7e1af84a1143577180e93056374bfa011161269ebaf14bc8690e1f38'')]"

text \<open>
  \<open>hs_version\<close> is \<open>PRAGMA user_version\<close>, \<open>hs_tables\<close> whether there is any table, \<open>hs_migrations\<close> the rows of \<open>migration_ledger\<close> without their time
  (\<open>None\<close> without the table), \<open>hs_running\<close> whether a service object was constructed.
\<close>

record pay_host =
  hs_state :: pay_state
  hs_version :: int
  hs_tables :: bool
  hs_migrations :: "(int \<times> string \<times> string) list option"
  hs_running :: bool

section \<open>Migrations\<close>

definition migrations_to :: "int \<Rightarrow> (int \<times> string \<times> string) list" where
  "migrations_to version = filter (\<lambda>(v, _). v \<le> version) MIGRATIONS"

definition check_migration_ledger :: "int \<Rightarrow> pay_host \<Rightarrow> unit answer" where
  "check_migration_ledger version h =
     (case hs_migrations h of
        None \<Rightarrow> Inl (Runtime_Error ''migration ledger missing'')
      | Some rows \<Rightarrow> if set rows = set (migrations_to version) then Inr () else Inl (Runtime_Error ''migration ledger checksum mismatch''))"

definition terminal_intents :: "ledger \<Rightarrow> intent list" where
  "terminal_intents db = sort_key it_id (filter (\<lambda>i. terminal (it_state i)) (lg_intents db))"

definition legacy_json :: "nat \<Rightarrow> string \<Rightarrow> int \<Rightarrow> json" where
  "legacy_json n d sequence = JObj [(''count'', jint (int n)), (''root'', JStr d), (''sequence'', jint sequence), (''version'', jint 1)]"

definition verify_legacy_v5_checkpoint :: "pay_config \<Rightarrow> (intent list \<Rightarrow> string) \<Rightarrow> pay_state \<Rightarrow> unit answer" where
  "verify_legacy_v5_checkpoint cf legacy_root st =
     (let rows = terminal_intents (ps_ledger st);
          failed = Inl (Runtime_Error ''external settlement checkpoint authentication failed'')
      in case ps_file st of
           No_File \<Rightarrow> if rows \<noteq> [] then Inl (Runtime_Error ''external settlement checkpoint missing with terminal rows'') else Inr ()
         | Bad_File \<Rightarrow> Inl (Runtime_Error ''external settlement checkpoint unreadable'')
         | Checkpoint_File _ _ \<Rightarrow> failed
         | Legacy_File n d sequence mac \<Rightarrow>
             if mac \<noteq> cf_mac cf (JList [JStr ''growthmap-terminal-checkpoint-v1'', legacy_json n d sequence]) \<or>
                (n, d, sequence) \<noteq> (length rows, legacy_root rows, lg_sequence (ps_ledger st))
             then failed else Inr ())"

text \<open>The third migration also binds the evidence the rows already have.\<close>

definition backfill_binding :: "pay_config \<Rightarrow> ledger \<Rightarrow> ledger" where
  "backfill_binding cf db =
     lg_intents_update (map (\<lambda>i. if it_evidence_hash i = None then i
       else i\<lparr>it_binding := Some (evidence_binding cf i (it_tx_hash i) (it_evidence_hash i) (it_evidence_source i) (it_finality_at i)
         (it_state i \<noteq> ''cancelled_unpaid''))\<rparr>)) db"

definition ledger_rows :: "int \<Rightarrow> (int \<times> string \<times> string) list" where
  "ledger_rows target = filter (\<lambda>(v, _). if target = 2 then v \<in> {1, 2} else 2 < target \<and> v = target) MIGRATIONS"

definition apply_migration ::
  "pay_config \<Rightarrow> (string \<Rightarrow> ledger \<Rightarrow> ledger answer) \<Rightarrow> int \<Rightarrow> string \<Rightarrow> pay_host \<Rightarrow> unit answer \<times> pay_host" where
  "apply_migration cf sql target script h =
     (case sql script (ps_ledger (hs_state h)) of
        Inl e \<Rightarrow> (Inl e, h)
      | Inr db \<Rightarrow>
          let db = (if target = 3 then backfill_binding cf db else db);
              old = (case hs_migrations h of None \<Rightarrow> [] | Some rows \<Rightarrow> rows)
          in (Inr (), h\<lparr>hs_state := (hs_state h)\<lparr>ps_ledger := db\<rparr>, hs_version := target, hs_tables := True,
                hs_migrations := (if target < 2 then hs_migrations h else Some (old @ ledger_rows target))\<rparr>))"

fun migrate_all ::
  "pay_config \<Rightarrow> (string \<Rightarrow> ledger \<Rightarrow> ledger answer) \<Rightarrow> (string \<Rightarrow> string) \<Rightarrow> (int \<times> string \<times> string) list \<Rightarrow> pay_host \<Rightarrow>
   unit answer \<times> pay_host" where
  "migrate_all cf sql text_of [] h = (Inr (), h)"
| "migrate_all cf sql text_of ((target, filename, expected) # ms) h =
     (if cf_hash cf (text_of filename) \<noteq> expected then (Inl (Runtime_Error (''migration checksum mismatch: '' @ filename)), h)
      else case apply_migration cf sql target (text_of filename) h of
        (Inl e, h) \<Rightarrow> (Inl e, h)
      | (Inr _, h) \<Rightarrow> migrate_all cf sql text_of ms h)"

section \<open>Starting\<close>

definition write_checkpoint :: "pay_config \<Rightarrow> pay_env \<Rightarrow> pay_state \<Rightarrow> unit answer \<times> pay_state" where
  "write_checkpoint cf env st =
     (let (core, mac) = checkpoint_document cf (ps_ledger st); failed = Inl (Runtime_Error ''checkpoint not written'')
      in case pv_publication env of
           Published \<Rightarrow> (Inr (), st\<lparr>ps_file := Checkpoint_File core mac\<rparr>)
         | Not_Written \<Rightarrow> (failed, st)
         | Not_Committed \<Rightarrow> (failed, st\<lparr>ps_file := Checkpoint_File core mac\<rparr>))"

text \<open>After the schema is current: publish when it was migrated, verify, recover.\<close>

definition start_service :: "pay_config \<Rightarrow> (nat \<Rightarrow> pay_env) \<Rightarrow> bool \<Rightarrow> pay_host \<Rightarrow> unit answer \<times> pay_host" where
  "start_service cf env migrated h =
     (case (if migrated then write_checkpoint cf (env 0) (hs_state h) else (Inr (), hs_state h)) of
        (Inl e, st) \<Rightarrow> (Inl e, h\<lparr>hs_state := st\<rparr>)
      | (Inr _, st) \<Rightarrow>
          (case assert_terminal_trust cf st of
             Inl e \<Rightarrow> (Inl e, h\<lparr>hs_state := st\<rparr>)
           | Inr _ \<Rightarrow>
               (case recover_durable_settlements cf (\<lambda>n. env (n + 2)) st of
                  (Inl e, st) \<Rightarrow> (Inl e, h\<lparr>hs_state := st\<rparr>)
                | (Inr _, st) \<Rightarrow>
                    (case trusted_tx cf (env 1) (reconcile_expired_intents cf (env 1)) st of
                       (Inl e, st) \<Rightarrow> (Inl e, h\<lparr>hs_state := st\<rparr>)
                     | (Inr _, st) \<Rightarrow> (Inr (), h\<lparr>hs_state := st, hs_running := True\<rparr>)))))"

definition init_service ::
  "pay_config \<Rightarrow> (string \<Rightarrow> ledger \<Rightarrow> ledger answer) \<Rightarrow> (string \<Rightarrow> string) \<Rightarrow> (intent list \<Rightarrow> string) \<Rightarrow> (nat \<Rightarrow> pay_env) \<Rightarrow> pay_host \<Rightarrow>
   unit answer \<times> pay_host" where
  "init_service cf sql text_of legacy_root env host =
     (let h = host\<lparr>hs_state := (hs_state host)\<lparr>ps_failed := False\<rparr>, hs_running := False\<rparr>; version = hs_version h in
      if SCHEMA_VERSION < version then (Inl (Runtime_Error ''unsupported payment schema''), h)
      else if version < 0 then (Inl (Key_Error ''migration''), h)
      else if version = 0 \<and> hs_tables h then (Inl (Runtime_Error ''unversioned non-empty payment database''), h)
      else case (if 2 \<le> version then check_migration_ledger version h else Inr ()) of
        Inl e \<Rightarrow> (Inl e, h)
      | Inr _ \<Rightarrow>
          (case (if version = 5 then verify_legacy_v5_checkpoint cf legacy_root (hs_state h) else Inr ()) of
             Inl e \<Rightarrow> (Inl e, h)
           | Inr _ \<Rightarrow>
               (case migrate_all cf sql text_of (filter (\<lambda>(v, _). version < v) MIGRATIONS) h of
                  (Inl e, h) \<Rightarrow> (Inl e, h)
                | (Inr _, h) \<Rightarrow>
                    (case check_migration_ledger SCHEMA_VERSION h of
                       Inl e \<Rightarrow> (Inl e, h)
                     | Inr _ \<Rightarrow> start_service cf env (version < SCHEMA_VERSION) h))))"

end
