(* ===== verification/Payments_Guarantees.thy ===== *)
theory Payments_Guarantees
  imports Payments_Promises Payments_Start
begin

text \<open>
  What the payments service guarantees to buyers and to the shop, in every state its transactions reach and however they interleave, with a
  concrete run as example: an order is paid, its delivery has crossed to the authority when it is refunded, and the license that turns up
  is queued for revocation.
\<close>

section \<open>Runs\<close>

definition bumped :: "ledger \<Rightarrow> ledger" where
  "bumped db = lg_sequence_update (\<lambda>n. n + 1) db"

inductive pay_step :: "pay_config \<Rightarrow> ledger \<Rightarrow> ledger \<Rightarrow> bool" for cf where
  step_order: "create_order_tx cf env rail email name db = Commit db' r1 \<Longrightarrow> pay_step cf db (bumped db')"
| step_prepare: "prepare_x402_intent cf env oid proof_id nonce amount payer db = Commit db' r2 \<Longrightarrow> pay_step cf db (bumped db')"
| step_settle: "record_settlement_result_tx cf env intent_id s actor db = Commit db' r3 \<Longrightarrow> pay_step cf db (bumped db')"
| step_finalize: "finalize_x402_intent cf env intent_id db = Commit db' r4 \<Longrightarrow> pay_step cf db (bumped db')"
| step_expire: "reconcile_expired_intents cf env db = Commit db' r5 \<Longrightarrow> pay_step cf db (bumped db')"
| step_candidate: "record_settlement_candidate_tx cf env c db = Commit db' r6 \<Longrightarrow> pay_step cf db (bumped db')"
| step_ambiguous: "mark_intent_ambiguous cf env intent_id reason db = Commit db' r7 \<Longrightarrow> pay_step cf db (bumped db')"
| step_cancel: "cancel_unpaid_tx cf env intent_id s actor db = Commit db' r8 \<Longrightarrow> pay_step cf db (bumped db')"
| step_confirm: "confirm_payment_locked cf env oid proof_id amount currency payer_ref tx_hash actor db = Commit db' r9 \<Longrightarrow> pay_step cf db (bumped db')"
| step_paypal: "paypal_submit_tx cf env oid tx db = Commit db' r10 \<Longrightarrow> pay_step cf db (bumped db')"
| step_paypal_confirm: "paypal_confirm_tx cf env decimal oid tx att actor db = Commit db' r11 \<Longrightarrow> pay_step cf db (bumped db')"
| step_claim: "claim_outbox env worker ls order_id db = Commit db' r12 \<Longrightarrow> pay_step cf db (bumped db')"
| step_crossing: "prepare_crossing row worker db = Commit db' r13 \<Longrightarrow> pay_step cf db (bumped db')"
| step_authorize: "authorize_crossing row worker db = Commit db' r14 \<Longrightarrow> pay_step cf db (bumped db')"
| step_requeue: "requeue_reconciliation_failure cf env row worker err m db = Commit db' r15 \<Longrightarrow> pay_step cf db (bumped db')"
| step_fail: "fail_outbox_tx cf env row worker err m db = Commit db' r16 \<Longrightarrow> pay_step cf db (bumped db')"
| step_deliver: "complete_delivery cf env row worker ack db = Commit db' r17 \<Longrightarrow>
    validate_entitlement_ack cf ack row (cf_identity cf) (outbox_payload_digest cf row) \<Longrightarrow> pay_step cf db (bumped db')"
| step_admin: "admin_transition_tx cf env oid action target reason_code db = Commit db' r18 \<Longrightarrow> transition_target action = Some target \<Longrightarrow> pay_step cf db (bumped db')"
| step_claim_revocation: "claim_revocation env worker ls order_id db = Commit db' r19 \<Longrightarrow> pay_step cf db (bumped db')"
| step_revocation: "complete_revocation cf env rrow worker rack db = Commit db' r20 \<Longrightarrow> pay_step cf db (bumped db')"
| step_fail_revocation: "fail_revocation cf env rrow worker message m db = Commit db' r21 \<Longrightarrow> pay_step cf db (bumped db')"
| step_whop: "store_whop_event cf env event digest db = Commit db' r22 \<Longrightarrow> pay_step cf db (bumped db')"
| step_whop_apply: "apply_whop_event cf env event_id m db = Commit db' r23 \<Longrightarrow> pay_step cf db (bumped db')"
| step_whop_marked: "mark_attempt cf env wrow m err db = Inr db' \<Longrightarrow> pay_step cf db db'"
| step_whop_counted: "mark_attempt cf env wrow m err db = Inr db1 \<Longrightarrow> audit_failure cf env wrow m db1 = Inr db' \<Longrightarrow> pay_step cf db (bumped db')"

definition empty_ledger :: ledger where
  "empty_ledger = \<lparr>lg_orders = [], lg_proofs = [], lg_events = [], lg_intents = [], lg_candidates = [], lg_outbox = [], lg_revocations = [],
     lg_assertions = [], lg_whop = [], lg_audit = [], lg_sequence = 0\<rparr>"

lemma valid_ack_license: "validate_entitlement_ack cf ack row i d \<Longrightarrow> ea_license_id ack \<noteq> []"
  by (auto simp: validate_entitlement_ack_def issued_license_id_ok_def)

lemmas tx_proper = create_order_proper prepare_proper record_settlement_result_proper finalize_proper candidate_proper mark_ambiguous_proper
  cancel_unpaid_proper confirm_proper paypal_submit_proper paypal_confirm_proper claim_outbox_proper crossing_proper requeue_proper fail_outbox_proper
  admin_transition_proper revocation_proper complete_revocation_proper store_whop_event_proper apply_whop_event_proper

lemma pay_step_proper:
  assumes "pay_step cf db db'" and ids: "distinct (map it_id (lg_intents db))"
  shows "proper cf db db'"
proof -
  have "\<exists>db1. proper cf db db1 \<and> (db' = bumped db1 \<or> db' = db1)"
    using assms(1)
  proof cases
    case (step_whop_counted env wrow m err db1 db2)
    then have "proper cf db db2" using unlocked_failure_proper proper_trans by blast
    then show ?thesis using step_whop_counted(1) by blast
  next
    case (step_whop_marked env wrow m err)
    then show ?thesis using unlocked_failure_proper(1) by blast
  next
    case (step_expire env db1 r5)
    then show ?thesis using reconcile_expired_proper [OF _ ids] by blast
  next
    case (step_deliver env row worker ack db1 r17)
    then show ?thesis using complete_delivery_proper valid_ack_license by blast
  qed (blast intro: tx_proper)+
  then show ?thesis using proper_trans proper_beside(6) unfolding bumped_def by blast
qed

lemma ledger_ok_ids: "ledger_ok db \<Longrightarrow> distinct (map it_id (lg_intents db))"
  by (simp add: ledger_ok_def tables_ok_def intents_ok_def)

lemma pay_run_keeps:
  "(pay_step cf)\<^sup>*\<^sup>* db db' \<Longrightarrow> ledger_ok db \<Longrightarrow>
     ledger_ok db' \<and> (\<forall>oid. reversed db oid \<longrightarrow> reversed db' oid) \<and>
     (audit_verifies cf genesis (lg_audit db) \<longrightarrow> audit_verifies cf genesis (lg_audit db'))"
proof (induction rule: rtranclp_induct)
  case (step y z)
  then show ?case using pay_step_proper [OF step(2) ledger_ok_ids] by (auto simp: proper_def)
qed simp

lemma empty_ledger_ok: "ledger_ok empty_ledger" "audit_verifies cf genesis (lg_audit empty_ledger)"
  by (simp_all add: ledger_ok_defs empty_ledger_def orders_ok_def intents_ok_def outbox_ok_def distinct_some_def)

lemma pay_run_ok:
  assumes "(pay_step cf)\<^sup>*\<^sup>* empty_ledger db"
  shows "ledger_ok db" "audit_verifies cf genesis (lg_audit db)"
  using pay_run_keeps [OF assms empty_ledger_ok(1)] empty_ledger_ok(2) by simp_all

text \<open>The file holds the checkpoint of a ledger.\<close>

definition published_by :: "pay_config \<Rightarrow> checkpoint_file \<Rightarrow> ledger \<Rightarrow> bool" where
  "published_by cf file db \<longleftrightarrow> file = (case checkpoint_document cf db of (c, m) \<Rightarrow> Checkpoint_File c m)"

text \<open>A trusted transaction leaves the ledger alone or commits what the transaction computed from it.\<close>

lemma trusted_tx_ledger:
  assumes "trusted_tx cf env f st = (r, st')"
  shows "ps_ledger st' = ps_ledger st \<or> (\<exists>db. f (ps_ledger st) = Commit db r \<and> ps_ledger st' = bumped db)"
  using assms by (auto simp: trusted_tx_def commit_trusted_def checkpoint_document_def Let_def bumped_def split: sum.splits tx.splits publication.splits prod.splits)

text \<open>So do the two operations whose commit is handled by their caller.\<close>

lemma commit_trusted_cases:
  assumes "commit_trusted cf env db r st = (x, st')"
  shows "x = r \<and> ps_ledger st' = bumped db \<and> published_by cf (ps_file st') (bumped db) \<or> (\<exists>m. x = Inl (Runtime_Error m)) \<and> ps_ledger st' = ps_ledger st"
  using assms by (auto simp: commit_trusted_def checkpoint_document_def bumped_def published_by_def Let_def split: publication.splits)

lemma apply_whop_steps:
  assumes "apply_whop cf env env' event_id m st = (r, st')"
  shows "(pay_step cf)\<^sup>*\<^sup>* (ps_ledger st) (ps_ledger st')"
proof (cases "assert_terminal_trust cf st")
  case trust: (Inr u)
  show ?thesis
  proof (cases "apply_whop_event cf env event_id m (ps_ledger st)")
    case (Commit db x)
    then have step: "pay_step cf (ps_ledger st) (bumped db)" by (rule step_whop_apply)
    obtain y st1 where c: "commit_trusted cf env db x st = (y, st1)" by (cases "commit_trusted cf env db x st")
    have unlocked: "(pay_step cf)\<^sup>*\<^sup>* (ps_ledger st1) (ps_ledger st2)" if "count_failure_unlocked cf env' event m e st1 = (z, st2)" for event e z st2
      using that step_whop_marked step_whop_counted
      by (fastforce simp: count_failure_unlocked_def checkpoint_document_def bumped_def [symmetric] Let_def split: sum.splits publication.splits)
    have "st' = st1 \<or> ps_ledger st1 = ps_ledger st \<and> (\<exists>event e. count_failure_unlocked cf env' event m e st1 = (r, st'))"
      using assms trust Commit c commit_trusted_cases [OF c] by (auto simp: apply_whop_def split: sum.splits option.splits if_splits)
    then show ?thesis using commit_trusted_cases [OF c] step unlocked by auto
  qed (use assms trust in \<open>simp add: apply_whop_def\<close>)
qed (use assms in \<open>simp add: apply_whop_def\<close>)

lemma fail_outbox_steps:
  assumes "fail_outbox cf env row worker err m st = (r, st')"
  shows "(pay_step cf)\<^sup>*\<^sup>* (ps_ledger st) (ps_ledger st')"
proof (cases "assert_terminal_trust cf st")
  case (Inr u)
  obtain x st1 where t: "trusted_tx cf env (fail_outbox_tx cf env row worker err m) st = (x, st1)"
    by (cases "trusted_tx cf env (fail_outbox_tx cf env row worker err m) st")
  have "st' = st1" using assms Inr t by (auto simp: fail_outbox_def split: sum.splits failure.splits)
  moreover have "ps_ledger st1 = ps_ledger st \<or> pay_step cf (ps_ledger st) (ps_ledger st1)" using trusted_tx_ledger [OF t] by (auto intro: step_fail)
  ultimately show ?thesis by auto
qed (use assms in \<open>simp add: fail_outbox_def\<close>)

section \<open>Tampering\<close>

definition published :: "pay_config \<Rightarrow> pay_state \<Rightarrow> ledger \<Rightarrow> bool" where
  "published cf st db \<longleftrightarrow> published_by cf (ps_file st) db"

text \<open>
  The life of the service: transactions while it runs, ends of the process, and starts. The type of a transaction's answer does
  not matter for what it does to the ledger.
\<close>

inductive service_step ::
  "pay_config \<Rightarrow> (string \<Rightarrow> ledger \<Rightarrow> ledger answer) \<Rightarrow> (string \<Rightarrow> string) \<Rightarrow> (intent list \<Rightarrow> string) \<Rightarrow> pay_host \<Rightarrow> pay_host \<Rightarrow> bool"
  for cf sql text_of legacy_root where
  transaction: "hs_running h \<Longrightarrow> trusted_tx cf env (f :: ledger \<Rightarrow> unit tx) (hs_state h) = (r, st') \<Longrightarrow>
    service_step cf sql text_of legacy_root h (h\<lparr>hs_state := st'\<rparr>)"
| shop_event: "hs_running h \<Longrightarrow> apply_whop cf env env' event_id m (hs_state h) = (x, st') \<Longrightarrow>
    service_step cf sql text_of legacy_root h (h\<lparr>hs_state := st'\<rparr>)"
| stop: "service_step cf sql text_of legacy_root h (h\<lparr>hs_running := False\<rparr>)"
| start: "init_service cf sql text_of legacy_root envs h = (y, h') \<Longrightarrow> service_step cf sql text_of legacy_root h h'"

lemma mismatch_distrusted:
  assumes "published cf st db" "cf_root cf db \<noteq> cf_root cf (ps_ledger st)"
  shows "\<exists>m. assert_terminal_trust cf st = Inl (Runtime_Error m)"
  using assms by (simp add: published_def published_by_def checkpoint_document_def verify_checkpoint_def assert_terminal_trust_def and_then_def Let_def)

lemma mismatch_refuses:
  assumes "published cf st db" "cf_root cf db \<noteq> cf_root cf (ps_ledger st)"
  shows "\<exists>m. trusted_tx cf env f st = (Inl (Runtime_Error m), st)" "\<exists>m. apply_whop cf env env' event_id k st = (Inl (Runtime_Error m), st)"
  using mismatch_distrusted [OF assms] by (auto simp: trusted_tx_def apply_whop_def)

lemma no_migration_left: "filter (\<lambda>(v, _). SCHEMA_VERSION < v) MIGRATIONS = []"
  by (simp add: MIGRATIONS_def SCHEMA_VERSION_def)

text \<open>A start on a current schema compares the checkpoint before it writes anything.\<close>

lemma mismatch_refuses_start:
  assumes "published cf (hs_state h) db" "cf_root cf db \<noteq> cf_root cf (ps_ledger (hs_state h))" "hs_version h = SCHEMA_VERSION"
  shows "\<exists>m. init_service cf sql text_of legacy_root env h =
    (Inl (Runtime_Error m), h\<lparr>hs_state := (hs_state h)\<lparr>ps_failed := False\<rparr>, hs_running := False\<rparr>)"
proof -
  let ?h = "h\<lparr>hs_state := (hs_state h)\<lparr>ps_failed := False\<rparr>, hs_running := False\<rparr>"
  obtain m where "assert_terminal_trust cf (hs_state ?h) = Inl (Runtime_Error m)"
    using mismatch_distrusted [of cf "hs_state ?h" db] assms(1,2) by (auto simp: published_def)
  then have begun: "start_service cf env False ?h = (Inl (Runtime_Error m), ?h)" by (simp add: start_service_def)
  have ledger: "check_migration_ledger v ?h = Inr () \<or> (\<exists>m. check_migration_ledger v ?h = Inl (Runtime_Error m))" for v
    by (simp add: check_migration_ledger_def split: option.splits)
  have version: "hs_version ?h = 13" using assms(3) by (simp add: SCHEMA_VERSION_def)
  show ?thesis
    unfolding init_service_def Let_def version using ledger [of 13] no_migration_left begun by (auto simp: SCHEMA_VERSION_def)
qed

text \<open>
  C29: Changing the rows behind the service stops it for good, as long as the schema version in the database file is the current one: if
  the ledger is not the one whose checkpoint was published last, then whatever is attempted, and however often the process ends and is started
  again, every transaction is refused, every start fails, and neither ledger nor checkpoint changes. The digest of the ledger is assumed to
  tell the two ledgers apart.
\<close>

theorem tampering_stops_service:
  assumes "published cf (hs_state h) db" "ps_ledger (hs_state h) \<noteq> db" "inj_on (cf_root cf) {db, ps_ledger (hs_state h)}"
    "hs_version h = SCHEMA_VERSION" "(service_step cf sql text_of legacy_root)\<^sup>*\<^sup>* h h'"
  shows "ps_ledger (hs_state h') = ps_ledger (hs_state h) \<and> ps_file (hs_state h') = ps_file (hs_state h) \<and>
    (\<forall>env f. \<exists>m. trusted_tx cf env f (hs_state h') = (Inl (Runtime_Error m), hs_state h')) \<and>
    (\<forall>env. \<exists>m h''. init_service cf sql text_of legacy_root env h' = (Inl (Runtime_Error m), h''))"
proof -
  have digest: "cf_root cf db \<noteq> cf_root cf (ps_ledger (hs_state h))" using assms(2,3) by (auto dest: inj_onD)
  have "ps_ledger (hs_state h') = ps_ledger (hs_state h) \<and> ps_file (hs_state h') = ps_file (hs_state h) \<and> hs_version h' = SCHEMA_VERSION"
    using assms(5)
  proof (induction rule: rtranclp_induct)
    case (step y z)
    have y: "published cf (hs_state y) db" "cf_root cf db \<noteq> cf_root cf (ps_ledger (hs_state y))" "hs_version y = SCHEMA_VERSION"
      using step.IH assms(1) digest by (simp_all add: published_def)
    from step(2) show ?case
    proof cases
      case (transaction env f r st')
      then show ?thesis using step.IH mismatch_refuses(1) [OF y(1,2), of env f] by auto
    next
      case (shop_event env env' event_id m x st')
      then show ?thesis using step.IH mismatch_refuses(2) [OF y(1,2), of env env' event_id m] by auto
    next
      case (start envs r)
      then show ?thesis using step.IH mismatch_refuses_start [OF y, of sql text_of legacy_root envs] by auto
    qed (simp add: step.IH)
  qed (simp add: assms(4))
  then have end_state: "ps_ledger (hs_state h') = ps_ledger (hs_state h)" "ps_file (hs_state h') = ps_file (hs_state h)"
    "published cf (hs_state h') db" "cf_root cf db \<noteq> cf_root cf (ps_ledger (hs_state h'))" "hs_version h' = SCHEMA_VERSION"
    using assms(1) digest by (simp_all add: published_def)
  then show ?thesis using mismatch_refuses(1) [OF end_state(3,4)] mismatch_refuses_start [OF end_state(3-5)] by blast
qed

text \<open>
  The schema version is the way around: a database file set back to version 12 (with its migration ledger, and such that the thirteenth
  script runs) is migrated at the next start, and the migrated ledger gets a new checkpoint whatever the old checkpoint says. The service
  then runs on it and trusts it. The terminal rows still need authentic evidence; orders, outboxes and audit rows are not covered by it.
\<close>

theorem downgrade_accepts_changed_ledger:
  assumes "hs_version h = 12" "hs_migrations h = Some (migrations_to 12)"
    "cf_hash cf (text_of ''013_whop_webhook_inbox.sql'') = ''b587441a7e1af84a1143577180e93056374bfa011161269ebaf14bc8690e1f38''"
    "sql (text_of ''013_whop_webhook_inbox.sql'') (ps_ledger (hs_state h)) = Inr db"
    "verify_terminal_evidence cf db = Inr ()" "\<forall>i \<in> set (lg_intents db). it_state i \<notin> {''prepared'', ''settled''}"
    "pv_publication (env 0) = Published" "pv_publication (env 1) = Published"
  shows "\<exists>h'. init_service cf sql text_of legacy_root env h = (Inr (), h') \<and> hs_running h' \<and> ps_ledger (hs_state h') = bumped db \<and>
    assert_terminal_trust cf (hs_state h') = Inr ()"
proof -
  let ?h = "h\<lparr>hs_state := (hs_state h)\<lparr>ps_failed := False\<rparr>, hs_running := False\<rparr>"
  let ?file = "\<lambda>d. case checkpoint_document cf d of (core, mac) \<Rightarrow> Checkpoint_File core mac"
  let ?h1 = "?h\<lparr>hs_state := (hs_state ?h)\<lparr>ps_ledger := db\<rparr>, hs_version := 13, hs_tables := True,
      hs_migrations := Some (migrations_to 12 @ ledger_rows 13)\<rparr>"
  let ?st = "(hs_state ?h1)\<lparr>ps_file := ?file db\<rparr>"
  have left: "filter (\<lambda>(v, _). 12 < v) MIGRATIONS = [(13, ''013_whop_webhook_inbox.sql'', ''b587441a7e1af84a1143577180e93056374bfa011161269ebaf14bc8690e1f38'')]"
    by (simp add: MIGRATIONS_def)
  have migrated: "migrate_all cf sql text_of (filter (\<lambda>(v, _). 12 < v) MIGRATIONS) ?h = (Inr (), ?h1)"
    unfolding left using assms(2-4) by (simp add: apply_migration_def)
  have checks: "check_migration_ledger 12 ?h = Inr ()" "check_migration_ledger 13 ?h1 = Inr ()"
    using assms(2) by (auto simp: check_migration_ledger_def migrations_to_def ledger_rows_def MIGRATIONS_def)
  have trust: "assert_terminal_trust cf st = Inr ()"
    if "verify_terminal_evidence cf (ps_ledger st) = Inr ()" "ps_file st = ?file (ps_ledger st)" "\<not> ps_failed st" for st
    using that by (simp add: assert_terminal_trust_def verify_checkpoint_def checkpoint_document_def and_then_def Let_def)
  have ok: "assert_terminal_trust cf ?st = Inr ()" using assms(5) by (intro trust) simp_all
  have none: "filter (\<lambda>i. it_state i = ''settled'') (lg_intents db) = []"
    "filter (\<lambda>i. it_state i = ''prepared'' \<and> it_lease_expires_at i \<le> t) (lg_intents db) = []" for t
    using assms(6) by (auto simp: filter_empty_conv)
  have "recover_durable_settlements cf (\<lambda>n. env (n + 2)) ?st = (Inr (), ?st)" by (simp add: recover_durable_settlements_def none)
  moreover let ?final = "?st\<lparr>ps_ledger := bumped db, ps_file := ?file (bumped db)\<rparr>"
  have "trusted_tx cf (env 1) (reconcile_expired_intents cf (env 1)) ?st = (Inr (), ?final)"
    using ok assms(8)
    by (simp add: trusted_tx_def reconcile_expired_intents_def none commits_def and_then_def commit_trusted_def bumped_def checkpoint_document_def Let_def)
  moreover have "write_checkpoint cf (env 0) (hs_state ?h1) = (Inr (), ?st)"
    using assms(7) by (simp add: write_checkpoint_def checkpoint_document_def Let_def)
  ultimately have "start_service cf env True ?h1 = (Inr (), ?h1\<lparr>hs_state := ?final, hs_running := True\<rparr>)"
    using ok by (simp add: start_service_def)
  then have "init_service cf sql text_of legacy_root env h = (Inr (), ?h1\<lparr>hs_state := ?final, hs_running := True\<rparr>)"
    using assms(1) checks migrated by (simp add: init_service_def Let_def SCHEMA_VERSION_def)
  moreover have "verify_terminal_evidence cf (bumped db) = Inr ()" using assms(5) by (simp add: verify_terminal_evidence_def bumped_def)
  then have "assert_terminal_trust cf ?final = Inr ()" by (intro trust) simp_all
  ultimately show ?thesis by (intro exI [of _ "?h1\<lparr>hs_state := ?final, hs_running := True\<rparr>"]) simp
qed

section \<open>Sales\<close>

lemma distinct_some_inj:
  assumes "distinct_some (map f xs)" "x \<in> set xs" "y \<in> set xs" "f x = f y" "f x \<noteq> None"
  shows "x = y"
proof -
  have "distinct (map f (filter (\<lambda>x. f x \<noteq> None) xs))" using assms(1) by (simp add: distinct_some_def filter_map comp_def)
  then have "inj_on f {x \<in> set xs. f x \<noteq> None}" by (simp add: distinct_map)
  then show ?thesis using assms(2-5) by (auto dest: inj_onD)
qed

text \<open>
  C28: At most fifty orders are ever sold at the early price, whatever payments race: in every reachable ledger, no two orders have the same
  sale ordinal, each sold order was quoted the price of its ordinal, and so at most fifty sold orders were quoted the early price.
\<close>

theorem early_price_at_most_fifty:
  assumes "(pay_step cf)\<^sup>*\<^sup>* empty_ledger db"
  shows "(\<forall>r\<in>set (lg_orders db). \<forall>q\<in>set (lg_orders db). od_sale_ordinal r \<noteq> None \<longrightarrow> od_sale_ordinal r = od_sale_ordinal q \<longrightarrow> od_id r = od_id q) \<and>
    (\<forall>r\<in>set (lg_orders db). \<forall>n. od_sale_ordinal r = Some n \<longrightarrow> od_quoted_amount r = price (n \<le> EARLY_LIMIT) (od_rail r)) \<and>
    card (od_id ` {r \<in> set (lg_orders db). od_sale_ordinal r \<noteq> None \<and> od_quoted_amount r = price True (od_rail r)}) \<le> 50"
proof -
  note ok = pay_run_ok(1) [OF assms]
  then have tab: "orders_ok (lg_orders db)" and pr: "\<forall>r\<in>set (lg_orders db). \<forall>n. od_sale_ordinal r = Some n \<longrightarrow> od_quoted_amount r = price (n \<le> EARLY_LIMIT) (od_rail r)"
    by (simp_all add: ledger_ok_def tables_ok_def priced_def)
  have one: "od_id r = od_id q" if "r \<in> set (lg_orders db)" "q \<in> set (lg_orders db)" "od_sale_ordinal r \<noteq> None" "od_sale_ordinal r = od_sale_ordinal q" for r q
    using distinct_some_inj [of od_sale_ordinal "lg_orders db" r q] that tab by (simp add: orders_ok_def)
  let ?S = "{r \<in> set (lg_orders db). od_sale_ordinal r \<noteq> None \<and> od_quoted_amount r = price True (od_rail r)}"
  have in50: "od_sale_ordinal ` ?S \<subseteq> Some ` {1..50}"
  proof (rule image_subsetI)
    fix r assume r: "r \<in> ?S"
    then obtain n where n: "od_sale_ordinal r = Some n" by auto
    have "price (n \<le> EARLY_LIMIT) (od_rail r) = price True (od_rail r)" using r n pr by auto
    moreover have "0 < n" using tab r n by (auto simp: orders_ok_def list_all_iff order_check_def)
    ultimately show "od_sale_ordinal r \<in> Some ` {1..50}" by (auto simp: n price_def EARLY_LIMIT_def split: if_splits)
  qed
  have "card (od_id ` ?S) \<le> card (od_sale_ordinal ` ?S)"
  proof (rule card_le_if_inj_on_rel [of _ _ "\<lambda>i n. \<exists>r\<in>?S. i = od_id r \<and> n = od_sale_ordinal r"])
    show "finite (od_sale_ordinal ` ?S)" by simp
    show "\<exists>n. n \<in> od_sale_ordinal ` ?S \<and> (\<exists>r\<in>?S. i = od_id r \<and> n = od_sale_ordinal r)" if "i \<in> od_id ` ?S" for i
      using that by blast
    show "i = j" if "i \<in> od_id ` ?S" "j \<in> od_id ` ?S" "n \<in> od_sale_ordinal ` ?S" "\<exists>r\<in>?S. i = od_id r \<and> n = od_sale_ordinal r"
      "\<exists>r\<in>?S. j = od_id r \<and> n = od_sale_ordinal r" for i j n
      using that(4,5) one by auto
  qed
  also have "\<dots> \<le> card (Some ` {1..50 :: int})" using in50 by (intro card_mono) auto
  also have "\<dots> = 50" by (simp add: card_image)
  finally show ?thesis using one pr by blast
qed

section \<open>Reversals\<close>

text \<open>
  C26: No license outlives its refund: in every reachable ledger, if an order has been refunded or revoked and a license was delivered for it,
  then the revocation of exactly that license is in the outbox to the authority. This holds however refunds, chargebacks and the
  transactions of delivering workers interleave.
\<close>

theorem reversed_orders_are_compensated:
  assumes "(pay_step cf)\<^sup>*\<^sup>* empty_ledger db" "get_order db oid = Some r" "od_state r \<in> {''refunded'', ''revoked''}"
    "get_outbox db oid = Some e" "ob_state e = ''delivered''"
  shows "\<exists>v. get_revocation db oid = Some v \<and> ob_license_id e = Some (rv_license_id v)"
proof -
  note ok = pay_run_ok(1) [OF assms(1)]
  note e = get_outbox_Some [OF assms(4)] and r = get_order_Some [OF assms(2)]
  have "reversed_state (od_state r)" using assms(3) by (simp add: reversed_state_def)
  then obtain w where "w \<in> set (lg_revocations db)" "rv_order_id w = oid"
    using ok e r assms(5) unfolding ledger_ok_def compensated_def by metis
  then obtain v where v: "get_revocation db oid = Some v" by (cases "get_revocation db oid") (auto simp: get_revocation_def row_get_None)
  obtain d where "d \<in> set (lg_outbox db)" "ob_order_id d = oid" "ob_license_id d = Some (rv_license_id v)"
    using ok get_revocation_Some [OF v] by (auto simp: ledger_ok_def compensated_def)
  then show ?thesis using v outbox_unique [OF ok, of d e] e by auto
qed

text \<open>
  C27: A refund is final for an entitlement that was still to be delivered or already delivered: once the order of an entitlement is refunded or
  revoked it stays so, whatever follows, no worker is authorized to have a license created for it, and the buyer is not shown one.
\<close>

theorem no_crossing_after_reversal:
  assumes "(pay_step cf)\<^sup>*\<^sup>* empty_ledger db" "get_order db oid = Some r" "od_state r \<in> {''refunded'', ''revoked''}" "get_outbox db oid \<noteq> None"
    "(pay_step cf)\<^sup>*\<^sup>* db db'"
  shows "(\<exists>q. get_order db' oid = Some q \<and> od_state q \<in> {''refunded'', ''revoked''}) \<and>
    (\<forall>row worker. ob_order_id row = oid \<longrightarrow> (\<exists>m. authorize_crossing row worker db' = Rollback (Inl m))) \<and>
    (\<forall>code. authenticated_entitlement cf oid code db' = Rollback (Inr None))"
proof -
  note ok = pay_run_ok(1) [OF assms(1)]
  obtain e where "get_outbox db oid = Some e" using assms(4) by blast
  then have "reversed db oid"
    using get_outbox_Some get_order_Some [OF assms(2)] assms(3) by (fastforce simp: reversed_def reversed_state_def)
  then have rev: "reversed db' oid" and ok': "ledger_ok db'" using pay_run_keeps [OF assms(5) ok] by auto
  then obtain q where q: "q \<in> set (lg_orders db')" "od_id q = oid" "reversed_state (od_state q)" by (auto simp: reversed_def)
  have "get_order db' oid = Some q"
    using q ok' row_get_unique [of od_id "lg_orders db'" q] by (simp add: get_order_def ledger_ok_def tables_ok_def orders_ok_def)
  then show ?thesis using q(3)
    by (auto simp: reversed_state_def authorize_crossing_def authenticated_entitlement_def split: option.splits)
qed

section \<open>Audit\<close>

text \<open>C30: The audit chain verifies in every reachable ledger: \<open>verify_audit\<close> never reports a break the service made itself.\<close>

theorem audit_chain_verifies:
  assumes "(pay_step cf)\<^sup>*\<^sup>* empty_ledger db"
  shows "verify_audit cf db = Rollback (Inr True)"
  using pay_run_ok(2) [OF assms] by (simp add: verify_audit_def)

end
