(* ===== verification/Payments_Settlement.thy ===== *)
theory Payments_Settlement
  imports Payments_Chain Payments_Guarantees
begin

text \<open>
  What an x402 payment that the service accepts by reconciliation rests on: an authenticated document that agrees with the intent in every
  binding, hence, when only the observer has documents authenticated, one final transfer on the chain, which pays no other order.
  The two kinds of document, with a MAC and with a signature, satisfy the same contract (\<open>finality_envelope\<close>).
\<close>

section \<open>Nesting of documents\<close>

fun nesting :: "py \<Rightarrow> nat" where
  "nesting (PyDict ms) = Suc (foldr max (map (\<lambda>m. nesting (snd m)) ms) 0)"
| "nesting (PyList vs) = Suc (foldr max (map nesting vs) 0)"
| "nesting _ = 0"

lemma foldr_max_le: "foldr max ns (0 :: nat) \<le> k \<longleftrightarrow> (\<forall>n\<in>set ns. n \<le> k)"
  by (induction ns) auto

lemma nesting_scalar: "nesting v = 0 \<longleftrightarrow> \<not> is_container v"
  by (cases v) auto

lemma nesting_containers:
  "is_container v \<Longrightarrow> nesting v \<le> Suc k \<longleftrightarrow> (\<forall>c\<in>set (containers v). nesting c \<le> k)"
proof (cases v)
  case (PyList vs)
  have "nesting c \<le> k" if "\<not> is_container c" for c using that by (simp add: nesting_scalar [symmetric])
  then show ?thesis using PyList by (auto simp: foldr_max_le)
next
  case (PyDict ms)
  have "nesting c \<le> k" if "\<not> is_container c" for c using that by (simp add: nesting_scalar [symmetric])
  then show ?thesis using PyDict by (fastforce simp: foldr_max_le)
qed auto

lemma containers_of_scalar: "\<not> is_container v \<Longrightarrow> containers v = []"
  by (cases v) auto

lemma depth_loop_nesting:
  "depth_loop m stack \<longleftrightarrow> (\<forall>(v, d)\<in>set stack. d \<le> m \<and> nesting v + d \<le> Suc m)"
proof (induction m stack rule: depth_loop.induct)
  case (2 m v d stack)
  show ?case
  proof (cases "d > m")
    case False
    have "(\<forall>c\<in>set (containers v). Suc d \<le> m \<and> nesting c + Suc d \<le> Suc m) \<longleftrightarrow> nesting v + d \<le> Suc m"
    proof (cases "is_container v")
      case True
      have pos: "0 < nesting c" if "c \<in> set (containers v)" for c
        using that nesting_scalar [of c] by (cases v) auto
      have "nesting v \<le> Suc (m - d) \<longleftrightarrow> (\<forall>c\<in>set (containers v). nesting c \<le> m - d)"
        by (rule nesting_containers [OF True])
      moreover have "nesting c \<le> m - d \<longleftrightarrow> Suc d \<le> m \<and> nesting c + Suc d \<le> Suc m" if "c \<in> set (containers v)" for c
        using pos [OF that] False by auto
      ultimately show ?thesis using False by auto
    next
      case scalar: False
      then show ?thesis using False by (simp add: containers_of_scalar nesting_scalar [symmetric])
    qed
    then show ?thesis using 2 False by (simp add: ball_Un)
  qed simp
qed simp

lemma excessive_depth_is_nesting: "0 < m \<Longrightarrow> reject_excessive_depth v m \<longleftrightarrow> nesting v > m"
  by (auto simp: reject_excessive_depth_def depth_loop_nesting)

section \<open>The observer\<close>

text \<open>The transfers that pay the amount, among the logs of a receipt.\<close>

definition paying_logs :: "string \<Rightarrow> string \<Rightarrow> int \<Rightarrow> py list \<Rightarrow> py list" where
  "paying_logs payer payee amount logs = filter (\<lambda>l. case l of PyDict ms \<Rightarrow> transfer_log payer payee amount ms | _ \<Rightarrow> False) logs"

lemma count_transfers_paying:
  "count_transfers payer payee amount n logs = Inr m \<Longrightarrow> m = n + length (paying_logs payer payee amount logs)"
  by (induction payer payee amount n logs rule: count_transfers.induct) (auto simp: paying_logs_def split: if_splits)

text \<open>
  The chain, as the node shows it, holds a successful transaction in a finalized block, not older than an instant, that transfers the amount
  of USDC from the payer to the payee exactly once.
\<close>

definition paid_on_base :: "rpc \<Rightarrow> string \<Rightarrow> string \<Rightarrow> int \<Rightarrow> timestamp \<Rightarrow> string \<Rightarrow> bool" where
  "paid_on_base rpc payer payee amount since tx \<longleftrightarrow>
     rpc ''eth_chainId'' [] = Inr (PyStr BASE_CHAIN_ID_HEX) \<and>
     (\<exists>receipt block_hash number logs block clock finalized height.
        rpc ''eth_getTransactionReceipt'' [PyStr tx] = Inr (PyDict receipt) \<and> dict_item receipt ''transactionHash'' = PyStr tx \<and>
        dict_item receipt ''status'' = PyStr ''0x1'' \<and> dict_item receipt ''blockHash'' = PyStr block_hash \<and>
        quantity (dict_item receipt ''blockNumber'') = Inr number \<and> dict_item receipt ''logs'' = PyList logs \<and>
        rpc ''eth_getBlockByHash'' [PyStr block_hash, PyBool False] = Inr (PyDict block) \<and> dict_item block ''hash'' = PyStr block_hash \<and>
        quantity (dict_item block ''number'') = Inr number \<and> quantity (dict_item block ''timestamp'') = Inr clock \<and> since \<le> clock * 1000000 \<and>
        rpc ''eth_getBlockByNumber'' [PyStr ''finalized'', PyBool False] = Inr (PyDict finalized) \<and>
        quantity (dict_item finalized ''number'') = Inr height \<and> number \<le> height \<and>
        length (paying_logs payer payee amount logs) = 1)"

lemma strict_dict_Inr: "strict_dict v needed label = Inr ms \<longleftrightarrow> v = PyDict ms \<and> needed \<subseteq> dict_keys ms"
  by (auto simp: strict_dict_def split: py.splits if_splits)

lemma pattern_subject_tx: "pattern_subject v = Inr s \<Longrightarrow> is_tx s \<Longrightarrow> v = PyStr s"
  by (auto simp: pattern_subject_def prefixed_hex_def split: py.splits if_splits)

lemma list_case_Inr: "(case v of PyList l \<Rightarrow> Inr (f l) | _ \<Rightarrow> Inl e) = Inr y \<longleftrightarrow> (\<exists>l. v = PyList l \<and> f l = y)"
  by (cases v) auto

lemma read_receipt_Inr:
  "read_receipt rpc tx = Inr (receipt, block_hash, number, logs) \<Longrightarrow>
     rpc ''eth_getTransactionReceipt'' [PyStr tx] = Inr (PyDict receipt) \<and> dict_item receipt ''transactionHash'' = PyStr tx \<and>
     dict_item receipt ''status'' = PyStr ''0x1'' \<and> dict_item receipt ''blockHash'' = PyStr block_hash \<and>
     quantity (dict_item receipt ''blockNumber'') = Inr number \<and> dict_item receipt ''logs'' = PyList logs"
  by (auto simp: read_receipt_def Let_def result_simps strict_dict_Inr list_case_Inr dest: pattern_subject_tx)

lemma read_blocks_Inr:
  "read_blocks rpc block_hash number = Inr (block, finalized) \<Longrightarrow>
     rpc ''eth_getBlockByHash'' [PyStr block_hash, PyBool False] = Inr (PyDict block) \<and> dict_item block ''hash'' = PyStr block_hash \<and>
     quantity (dict_item block ''number'') = Inr number \<and>
     rpc ''eth_getBlockByNumber'' [PyStr ''finalized'', PyBool False] = Inr (PyDict finalized) \<and>
     (\<exists>height. quantity (dict_item finalized ''number'') = Inr height \<and> number \<le> height)"
  by (auto simp: read_blocks_def Let_def result_simps strict_dict_Inr)

definition iso_faithful :: "runtime \<Rightarrow> bool" where
  "iso_faithful rt \<longleftrightarrow> (\<forall>t u. rt_fromisoformat rt (rt_isoformat rt t) = Some u \<longrightarrow> u = t)"

lemma iso_faithfulD: "iso_faithful rt \<Longrightarrow> rt_fromisoformat rt (rt_isoformat rt t) = Some u \<Longrightarrow> u = t"
  by (simp add: iso_faithful_def)

lemma block_time_Inr:
  "block_time rt block i = Inr t \<Longrightarrow> \<exists>clock. quantity (dict_item block ''timestamp'') = Inr clock \<and> t = clock * 1000000"
  by (auto simp: block_time_def result_simps from_timestamp_def split: option.splits if_splits)

text \<open>An observation is made of the chain: since any instant up to the time it reports.\<close>

lemma observe_sound:
  assumes "observe rt bo rpc i c = Inr p"
  obtains payer t evidence where "it_verified_payer i = Some payer" "is_address payer" "p = observed_payload rt bo i c payer evidence t"
    "\<And>since. since \<le> t \<Longrightarrow> paid_on_base rpc payer (bo_payee bo) (it_amount i) since (cd_tx_hash c)"
proof -
  obtain payer where payer: "it_verified_payer i = Some payer" using assms by (auto simp: observe_def split: option.splits)
  obtain receipt block_hash number logs block finalized t where chain: "rpc ''eth_chainId'' [] = Inr (PyStr BASE_CHAIN_ID_HEX)"
    and receipt: "read_receipt rpc (cd_tx_hash c) = Inr (receipt, block_hash, number, logs)"
    and blocks: "read_blocks rpc block_hash number = Inr (block, finalized)" and t: "block_time rt block i = Inr t"
    and one: "count_transfers payer (bo_payee bo) (it_amount i) 0 logs = Inr 1" and address: "is_address payer"
    and p: "p = observed_payload rt bo i c payer (rt_sha256 rt (rt_dumps rt (observation c receipt block finalized))) t"
    using assms by (auto simp: observe_def payer result_simps)
  have "paid_on_base rpc payer (bo_payee bo) (it_amount i) since (cd_tx_hash c)" if "since \<le> t" for since
    using chain read_receipt_Inr [OF receipt] read_blocks_Inr [OF blocks] block_time_Inr [OF t] count_transfers_paying [OF one] that
    unfolding paid_on_base_def by auto
  then show thesis using that payer address p by blast
qed

section \<open>Envelopes\<close>

text \<open>Only the observer has its reports authenticated: whatever document opens holds one of them.\<close>

definition only_observed :: "runtime \<Rightarrow> observer \<Rightarrow> rpc \<Rightarrow> (string \<Rightarrow> members answer) \<Rightarrow> bool" where
  "only_observed rt bo rpc open_document \<longleftrightarrow>
     (\<forall>raw p. open_document raw = Inr p \<longrightarrow> (\<exists>i c q. observe rt bo rpc i c = Inr q \<and> map_of q = map_of p))"

lemma validate_finality_Inr:
  "validate_finality rt ft now p i = Inr () \<longleftrightarrow> shape_fault p = None \<and> instants_ok rt now p i \<and> bindings_ok ft p i"
  by (auto simp: validate_finality_def split: option.splits)

lemma dict_item_cong: "map_of p = map_of q \<Longrightarrow> dict_item p = dict_item q"
  by (simp add: dict_item_def fun_eq_iff)

lemma parse_canonical_utc_Some: "parse_canonical_utc rt s = Some t \<Longrightarrow> rt_fromisoformat rt s = Some t"
  by (auto simp: parse_canonical_utc_def split: option.splits if_splits)

text \<open>A report that passes validation against an intent is the report of a payment of that intent.\<close>

lemma validated_observation:
  assumes "validate_finality rt ft now p i = Inr ()" and obs: "observe rt bo rpc i' c = Inr q" and eq: "map_of q = map_of p"
    and iso: "iso_faithful rt" and payee: "map latin_lower (bo_payee bo) = bo_payee bo"
  obtains payer where "it_verified_payer i = Some payer" "paid_on_base rpc payer (ft_payee ft) (it_amount i) (it_created_at i) (text_item p ''tx_hash'')"
    "text_item p ''outcome'' = ''paid''" "is_tx (text_item p ''tx_hash'')"
proof -
  obtain payer t evidence where o: "it_verified_payer i' = Some payer" "q = observed_payload rt bo i' c payer evidence t"
    "\<And>since. since \<le> t \<Longrightarrow> paid_on_base rpc payer (bo_payee bo) (it_amount i') since (cd_tx_hash c)"
    using observe_sound [OF obs] by metis
  have v: "shape_fault p = None" "instants_ok rt now p i" "bindings_ok ft p i" using assms(1) by (simp_all add: validate_finality_Inr)
  have item: "dict_item p = dict_item q" using dict_item_cong [OF eq] by simp
  have q: "dict_item q ''outcome'' = PyStr ''paid''" "dict_item q ''payer'' = PyStr payer" "dict_item q ''tx_hash'' = PyStr (cd_tx_hash c)"
    "dict_item q ''finality_at'' = PyStr (rt_isoformat rt t)" "dict_item q ''payee'' = PyStr (bo_payee bo)" "dict_item q ''amount_minor'' = PyInt (it_amount i')"
    by (simp_all add: o(2) dict_item_def observed_payload_def)
  have shape: "is_tx (cd_tx_hash c)" "map latin_lower payer = payer"
    using v(1) by (auto simp: shape_fault_def Let_def item q split: if_splits)
  have bound: "it_verified_payer i = Some payer" "it_amount i' = it_amount i" "ft_payee ft = bo_payee bo"
    using v(3) shape payee by (auto simp: bindings_ok_def item q)
  have "it_created_at i \<le> t"
    using v(2) iso unfolding instants_ok_def item q text_value.simps
    by (auto split: option.splits dest!: parse_canonical_utc_Some) (metis iso_faithfulD)
  then show thesis using that bound o(3) shape by (simp add: item q)
qed

locale finality_envelope =
  fixes rt :: runtime
    and ft :: finality_terms
    and open_document :: "string \<Rightarrow> members answer"
    and reconcile :: "timestamp \<Rightarrow> (intent \<Rightarrow> string answer) \<Rightarrow> intent \<Rightarrow> members answer"
  assumes reconcile_Inr: "reconcile now provider i = Inr e \<Longrightarrow>
    \<exists>raw p. provider i = Inr raw \<and> open_document raw = Inr p \<and> validate_finality rt ft now p i = Inr () \<and> e = normalized_evidence p"
begin

lemma reconciled_is_paid:
  assumes "reconcile now provider i = Inr e" "only_observed rt bo rpc open_document" "iso_faithful rt"
    "map latin_lower (bo_payee bo) = bo_payee bo"
  obtains payer tx where "it_verified_payer i = Some payer" "paid_on_base rpc payer (ft_payee ft) (it_amount i) (it_created_at i) tx"
    "text_option e ''tx_hash'' = Some tx" "is_tx tx"
proof -
  obtain raw p where p: "open_document raw = Inr p" "validate_finality rt ft now p i = Inr ()" "e = normalized_evidence p"
    using reconcile_Inr [OF assms(1)] by blast
  obtain i' c q where q: "observe rt bo rpc i' c = Inr q" "map_of q = map_of p"
    using assms(2) p(1) unfolding only_observed_def by blast
  obtain payer where paid: "it_verified_payer i = Some payer"
    "paid_on_base rpc payer (ft_payee ft) (it_amount i) (it_created_at i) (text_item p ''tx_hash'')" "text_item p ''outcome'' = ''paid''"
    "is_tx (text_item p ''tx_hash'')"
    using validated_observation [OF p(2) q assms(3,4)] by blast
  have "text_option e ''tx_hash'' = Some (text_item p ''tx_hash'')"
    using paid(3,4) by (cases "dict_item p ''tx_hash''") (auto simp: p(3) normalized_evidence_def text_option_def prefixed_hex_def)
  then show thesis using that paid(1,2,4) by blast
qed

end

interpretation mac_envelope: finality_envelope rt "mr_terms mr" "mac_payload rt mr" "mac_reconcile rt mr" for rt mr
  by unfold_locales (auto simp: mac_reconcile_def result_simps split: sum.splits)

interpretation signed_envelope: finality_envelope rt "sr_terms sr" "signed_payload rt sr" "signed_reconcile rt sr" for rt sr
  by unfold_locales (auto simp: signed_reconcile_def result_simps split: sum.splits)

section \<open>The service\<close>

lemma trusted_tx_Inr:
  assumes "trusted_tx cf env f st = (Inr x, st')"
  obtains (committed) db where "f (ps_ledger st) = Commit db (Inr x)" "ps_ledger st' = bumped db"
    | (read_only) "f (ps_ledger st) = Rollback (Inr x)" "st' = st"
  using assms by (auto simp: trusted_tx_def commit_trusted_def checkpoint_document_def Let_def bumped_def
    split: sum.splits tx.splits publication.splits prod.splits)

lemma record_settlement_result_Inr:
  assumes "record_settlement_result cf env intent_id s actor st = (Inr x, st')"
    and i: "get_intent (ps_ledger st) intent_id = Some i" "it_state i \<in> {''prepared'', ''ambiguous''}"
  shows "\<exists>j. get_intent (ps_ledger st') intent_id = Some j \<and> it_state j = ''settled'' \<and> it_tx_hash j = se_tx_hash s \<and> it_order_id j = it_order_id i"
proof -
  let ?f = "settled_row cf env actor s"
  have keep: "it_id (?f r) = it_id r" "it_order_id (?f r) = it_order_id r" "it_state (?f r) = ''settled''" "it_tx_hash (?f r) = se_tx_hash s" for r
    by (simp_all add: settled_row_def Let_def)
  have tx: "trusted_tx cf env (record_settlement_result_tx cf env intent_id s actor) st = (Inr x, st')"
    using assms(1) by (auto simp: record_settlement_result_def split: if_splits)
  have "\<exists>db1. update_intent intent_id ?f (ps_ledger st) = Inr db1 \<and> lg_intents (ps_ledger st') = lg_intents db1"
    using tx
  proof (cases rule: trusted_tx_Inr)
    case (committed db)
    then show ?thesis using i
      by (auto simp: record_settlement_result_tx_def tx_simps Let_def bumped_def pay_audit_Inr split: if_splits sum.splits)
  next
    case read_only
    then show ?thesis using i
      by (auto simp: record_settlement_result_tx_def commits_def Let_def split: if_splits sum.splits prod.splits)
  qed
  then have "lg_intents (ps_ledger st') = row_update it_id intent_id ?f (lg_intents (ps_ledger st))" by (auto simp: update_intent_Inr)
  then show ?thesis using i(1) keep by (simp add: get_intent_def row_get_update)
qed

lemma finalize_Inr:
  assumes "trusted_tx cf env (finalize_x402_intent cf env intent_id) st = (Inr r, st')"
    and i: "get_intent (ps_ledger st) intent_id = Some i" "it_state i = ''settled''"
  shows "od_id r = it_order_id i \<and> od_state r = ''payment_confirmed'' \<and> od_tx_hash r = it_tx_hash i \<and> r \<in> set (lg_orders (ps_ledger st')) \<and>
    orders_ok (lg_orders (ps_ledger st'))"
  using assms(1)
proof (cases rule: trusted_tx_Inr)
  case (committed db)
  then obtain db1 db2 pf f where f: "update_order (it_order_id i) f db1 = Inr db2" "lg_orders db1 = lg_orders (ps_ledger st)"
    "f = (\<lambda>r. r\<lparr>od_state := ''payment_confirmed'', od_sale_ordinal := Some (it_ordinal i), od_confirmed_at := Some (pv_now env),
      od_updated_at := pv_now env, od_tx_hash := it_tx_hash i\<rparr>)"
    and db: "lg_orders db = lg_orders db2" and r: "get_order db (it_order_id i) = Some r"
    using i
    by (auto simp: finalize_x402_intent_def issue_reserved_def Let_def tx_simps pay_audit_Inr insert_outbox_Inr update_intent_Inr
      dest!: insert_proof_Inr split: if_splits option.splits)
  have rows: "orders_ok (lg_orders db)" "lg_orders db = row_update od_id (it_order_id i) f (lg_orders (ps_ledger st))"
    using f(1,2) db by (auto simp: update_order_Inr)
  have "row_get od_id (row_update od_id (it_order_id i) f (lg_orders (ps_ledger st))) (it_order_id i) = Some r"
    using r rows(2) by (simp add: get_order_def)
  then have "\<exists>r0. r = f r0 \<and> od_id r0 = it_order_id i" by (subst (asm) row_get_update) (auto simp: f(3) dest: row_get_Some)
  then show ?thesis using r rows committed(2) by (auto simp: f(3) get_order_def bumped_def dest: row_get_Some)
next
  case read_only
  then show ?thesis using i by (auto simp: finalize_x402_intent_def commits_def split: if_splits sum.splits prod.splits)
qed

lemma reconcile_intent_paid:
  assumes "reconcile_intent cf env reconciler intent_id actor st = (Inr (Inl r), st')"
  obtains i ev where "get_intent (ps_ledger st) intent_id = Some i" "reconciler i = Inr (Some ev)" "od_id r = it_order_id i"
    "od_state r = ''payment_confirmed''" "od_tx_hash r = se_tx_hash (re_settlement ev)" "r \<in> set (lg_orders (ps_ledger st'))"
    "orders_ok (lg_orders (ps_ledger st'))"
proof -
  obtain i st0 where read: "trusted_tx cf (env 0) (read_intent intent_id) st = (Inr i, st0)"
    using assms by (auto simp: reconcile_intent_def split: prod.splits sum.splits)
  then have i: "get_intent (ps_ledger st) intent_id = Some i" "it_state i \<in> {''prepared'', ''ambiguous''}" "st0 = st"
    by (auto elim!: trusted_tx_Inr simp: read_intent_def split: option.splits if_splits)
  obtain ev s st1 where ev: "reconciler i = Inr (Some ev)"
    and s: "record_settlement_result cf (env 1) intent_id (re_settlement ev) actor st = (Inr s, st1)"
    and fin: "trusted_tx cf (env 2) (finalize_x402_intent cf (env 2) intent_id) st1 = (Inr r, st')"
    using assms read i(3) by (auto simp: reconcile_intent_def split: prod.splits sum.splits option.splits if_splits)
  obtain j where j: "get_intent (ps_ledger st1) intent_id = Some j" "it_state j = ''settled''" "it_tx_hash j = se_tx_hash (re_settlement ev)"
    "it_order_id j = it_order_id i"
    using record_settlement_result_Inr [OF s i(1,2)] by blast
  show thesis using that [OF i(1) ev] finalize_Inr [OF fin j(1,2)] j(3,4) by simp
qed

text \<open>The reconcilers as the service calls them.\<close>

definition mac_finality :: "runtime \<Rightarrow> mac_reconciler \<Rightarrow> timestamp \<Rightarrow> (intent \<Rightarrow> string answer) \<Rightarrow> intent \<Rightarrow> evidence option answer" where
  "mac_finality rt mr now provider i = and_then (mac_reconcile rt mr now provider i) (\<lambda>e. Inr (evidence_of rt e))"

definition signed_finality :: "runtime \<Rightarrow> signed_reconciler \<Rightarrow> timestamp \<Rightarrow> (intent \<Rightarrow> string answer) \<Rightarrow> intent \<Rightarrow> evidence option answer" where
  "signed_finality rt sr now provider i = and_then (signed_reconcile rt sr now provider i) (\<lambda>e. Inr (evidence_of rt e))"

lemma evidence_of_tx: "evidence_of rt e = Some ev \<Longrightarrow> se_tx_hash (re_settlement ev) = text_option e ''tx_hash''"
  by (auto simp: evidence_of_def split: if_splits)

lemma distinct_some_once: "distinct_some (map f xs) \<Longrightarrow> x \<in> set xs \<Longrightarrow> y \<in> set xs \<Longrightarrow> f x = Some v \<Longrightarrow> f y = Some v \<Longrightarrow> x = y"
proof (induction xs)
  case (Cons a xs)
  have "Some v \<notin> f ` set xs" if "f a = Some v" using Cons.prems(1) that by (auto simp: distinct_some_def)
  then have "x \<notin> set xs" "y \<notin> set xs" if "f a = Some v" using that Cons.prems(4,5) by (metis imageI)+
  moreover have "distinct_some (map f xs)" using Cons.prems(1) by (auto simp: distinct_some_def split: if_splits)
  ultimately show ?case using Cons by auto
qed simp

lemma orders_ok_tx_once:
  "orders_ok rs \<Longrightarrow> r \<in> set rs \<Longrightarrow> r' \<in> set rs \<Longrightarrow> od_tx_hash r = Some tx \<Longrightarrow> od_tx_hash r' = Some tx \<Longrightarrow> r' = r"
  unfolding orders_ok_def by (blast intro: distinct_some_once)

lemma observer_init_Inr: "observer_init payee source = Inr bo \<Longrightarrow> bo_payee bo = payee \<and> map latin_lower (bo_payee bo) = bo_payee bo"
  by (auto simp: observer_init_def split: if_splits)

text \<open>
  C31: When the service accepts an x402 payment by reconciling an open intent with MAC-authenticated finality evidence, and only the chain observer has
  its reports authenticated, the order is confirmed and Base, as the observer's node shows it, holds a successful transaction in a finalized block, no
  older than the intent, with exactly one USDC transfer of the amount from the verified payer to the merchant; and that transaction confirms no other
  order. The other hypotheses are that both parties were set up by their constructors and that timestamp text is read back as the instant written.
\<close>

theorem settled_by_one_final_transfer:
  assumes "mac_reconciler_init key payee BASE_NETWORK BASE_USDC max_document = Inr mr" and "observer_init merchant source = Inr bo"
    and "only_observed rt bo rpc (mac_payload rt mr)" and "iso_faithful rt"
    and "reconcile_intent cf env (mac_finality rt mr now provider) intent_id actor st = (Inr (Inl r), st')"
  shows "\<exists>i payer tx. get_intent (ps_ledger st) intent_id = Some i \<and> od_id r = it_order_id i \<and> od_state r = ''payment_confirmed'' \<and>
    od_tx_hash r = Some tx \<and> it_verified_payer i = Some payer \<and>
    paid_on_base rpc payer (map latin_lower payee) (it_amount i) (it_created_at i) tx \<and>
    r \<in> set (lg_orders (ps_ledger st')) \<and> (\<forall>r'\<in>set (lg_orders (ps_ledger st')). od_tx_hash r' = Some tx \<longrightarrow> r' = r)"
proof -
  obtain i ev where i: "get_intent (ps_ledger st) intent_id = Some i" "mac_finality rt mr now provider i = Inr (Some ev)" "od_id r = it_order_id i"
    "od_state r = ''payment_confirmed''" "od_tx_hash r = se_tx_hash (re_settlement ev)" "r \<in> set (lg_orders (ps_ledger st'))"
    "orders_ok (lg_orders (ps_ledger st'))"
    using reconcile_intent_paid [OF assms(5)] by blast
  obtain e where e: "mac_reconcile rt mr now provider i = Inr e" "evidence_of rt e = Some ev"
    using i(2) by (auto simp: mac_finality_def result_simps)
  obtain payer tx where paid: "it_verified_payer i = Some payer"
    "paid_on_base rpc payer (ft_payee (mr_terms mr)) (it_amount i) (it_created_at i) tx" "text_option e ''tx_hash'' = Some tx"
    using mac_envelope.reconciled_is_paid [OF e(1) assms(3,4)] observer_init_Inr [OF assms(2)] by blast
  have tx: "od_tx_hash r = Some tx" using i(5) evidence_of_tx [OF e(2)] paid(3) by simp
  then have "\<forall>r'\<in>set (lg_orders (ps_ledger st')). od_tx_hash r' = Some tx \<longrightarrow> r' = r" using orders_ok_tx_once [OF i(7,6)] by blast
  moreover have "ft_payee (mr_terms mr) = map latin_lower payee" using assms(1) by (auto simp: mac_reconciler_init_def split: if_splits)
  then have "paid_on_base rpc payer (map latin_lower payee) (it_amount i) (it_created_at i) tx" using paid(2) by metis
  ultimately show ?thesis using i(1,3,4,6) paid(1) tx by blast
qed

lemma signed_settlement_is_final:
  assumes "observer_init merchant source = Inr bo" "only_observed rt bo rpc (signed_payload rt sr)" "iso_faithful rt"
    and "reconcile_intent cf env (signed_finality rt sr now provider) intent_id actor st = (Inr (Inl r), st')"
  shows "\<exists>i payer tx. get_intent (ps_ledger st) intent_id = Some i \<and> od_id r = it_order_id i \<and> od_tx_hash r = Some tx \<and>
    it_verified_payer i = Some payer \<and> paid_on_base rpc payer (ft_payee (sr_terms sr)) (it_amount i) (it_created_at i) tx"
proof -
  obtain i ev where i: "get_intent (ps_ledger st) intent_id = Some i" "signed_finality rt sr now provider i = Inr (Some ev)" "od_id r = it_order_id i"
    "od_tx_hash r = se_tx_hash (re_settlement ev)"
    using reconcile_intent_paid [OF assms(4)] by blast
  obtain e where e: "signed_reconcile rt sr now provider i = Inr e" "evidence_of rt e = Some ev"
    using i(2) by (auto simp: signed_finality_def result_simps)
  show ?thesis
    using signed_envelope.reconciled_is_paid [OF e(1) assms(2,3)] observer_init_Inr [OF assms(1)] evidence_of_tx [OF e(2)] i by metis
qed

end
