(* ===== verification/Payments_Scenario.thy ===== *)
theory Payments_Scenario
  imports Payments_Guarantees
begin

text \<open>
  A concrete run of the payments service, with concrete hash functions: an order is paid and its delivery has crossed to the authority when it
  is refunded; the license that turns up afterwards is queued for revocation. The guarantees are exercised on its ledgers.
\<close>

section \<open>The run\<close>

fun commit_step :: "'a tx \<Rightarrow> ledger option" where
  "commit_step (Commit db _) = Some (bumped db)"
| "commit_step (Rollback _) = None"

fun run :: "(ledger \<Rightarrow> ledger option) list \<Rightarrow> ledger \<Rightarrow> ledger option" where
  "run [] db = Some db"
| "run (f # fs) db = (case f db of None \<Rightarrow> None | Some db' \<Rightarrow> run fs db')"

lemma commit_step_Some: "commit_step t = Some db' \<longleftrightarrow> (\<exists>db r. t = Commit db r \<and> db' = bumped db)"
  by (cases t) auto

lemma run_reaches:
  "run fs db = Some db' \<Longrightarrow> (\<And>f a b. f \<in> set fs \<Longrightarrow> f a = Some b \<Longrightarrow> pay_step cf a b) \<Longrightarrow> (pay_step cf)\<^sup>*\<^sup>* db db'"
proof (induction fs arbitrary: db)
  case (Cons f fs)
  then obtain a where a: "f db = Some a" "run fs a = Some db'" by (auto split: option.splits)
  then show ?case using Cons by (meson converse_rtranclp_into_rtranclp list.set_intros)
qed simp

definition demo_config :: pay_config where
  "demo_config = \<lparr>cf_recipient = ''0xabc'', cf_environment = ''test'', cf_merchant_id = ''growthmap'', cf_resource_base = ''https://shop'',
     cf_quote_seconds = 300, cf_intent_seconds = 60,
     cf_identity = \<lparr>si_authority_id = ''primary'', si_key_id = ''key'', si_generation = 1, si_public_key_sha256 = ''sha'', si_attestation = ''att''\<rparr>,
     cf_hash = (\<lambda>s. s), cf_data_hash = (\<lambda>_. ''d''), cf_json_hash = (\<lambda>_. replicate 64 CHR ''0''), cf_plain_json_hash = (\<lambda>_. ''p''),
     cf_mac = (\<lambda>_. ''mac''), cf_root = (\<lambda>db. replicate (length (lg_orders db)) CHR ''x''), cf_schema = ''schema'', cf_isoformat = (\<lambda>_. []),
     cf_sign = Some (\<lambda>_. ''sig''), cf_ack_verify = (\<lambda>_ _. True)\<rparr>"

definition demo_env :: "nat \<Rightarrow> pay_env" where
  "demo_env k = \<lparr>pv_now = seconds (int k), pv_uuid = (\<lambda>n. replicate (3 * k + n + 1) CHR ''u''), pv_token = ''token'', pv_publication = Published\<rparr>"

definition demo_payer :: string where
  "demo_payer = ''0x'' @ replicate 40 CHR ''a''"

definition demo_settlement :: settlement where
  "demo_settlement = \<lparr>se_tx_hash = Some ''tx'', se_evidence_hash = Some ''evidence'', se_source = Some ''node'', se_finality_at = Some 0,
     se_payer = Some demo_payer, se_finality_basis = Some ''depth''\<rparr>"

definition demo_order :: string where
  "demo_order = ''u''"

definition demo_intent :: string where
  "demo_intent = ''uuuu''"

definition demo_ack :: entitlement_ack where
  "demo_ack = \<lparr>ea_source = ''x402'', ea_source_id = ''p'', ea_payload_digest = ''p'', ea_license_id = ''gm_'' @ replicate 32 CHR ''0'',
     ea_authority_id = ''primary'', ea_identity = cf_identity demo_config, ea_receipt = replicate 64 CHR ''0'', ea_signature = replicate 88 CHR ''s''\<rparr>"

definition demo_row :: "ledger \<Rightarrow> outbox" where
  "demo_row db = (hd (lg_outbox db))\<lparr>ob_source := ''x402'', ob_source_id := ''p'', ob_fence := 1\<rparr>"

definition demo_payment :: "(ledger \<Rightarrow> ledger option) list" where
  "demo_payment =
     [\<lambda>db. commit_step (create_order_tx demo_config (demo_env 0) ''x402'' ''a@b.c'' ''name'' db),
      \<lambda>db. commit_step (prepare_x402_intent demo_config (demo_env 1) demo_order ''proof'' ''nonce'' 10000000 (Some demo_payer) db),
      \<lambda>db. commit_step (record_settlement_result_tx demo_config (demo_env 2) demo_intent demo_settlement ''node'' db),
      \<lambda>db. commit_step (finalize_x402_intent demo_config (demo_env 3) demo_intent db)]"

definition demo_refund :: "(ledger \<Rightarrow> ledger option) list" where
  "demo_refund =
     [\<lambda>db. commit_step (claim_outbox (demo_env 4) ''w'' 30 None db),
      \<lambda>db. commit_step (prepare_crossing (demo_row db) ''w'' db),
      \<lambda>db. commit_step (authorize_crossing (demo_row db) ''w'' db),
      \<lambda>db. commit_step (admin_transition_tx demo_config (demo_env 5) demo_order ''refund'' ''refunded'' None db)]"

definition demo_delivery :: "(ledger \<Rightarrow> ledger option) list" where
  "demo_delivery = [\<lambda>db. commit_step (complete_delivery demo_config (demo_env 6) (demo_row db) ''w'' demo_ack db)]"

lemma demo_ack_valid: "validate_entitlement_ack demo_config demo_ack (demo_row db) (cf_identity demo_config) (outbox_payload_digest demo_config (demo_row db))"
proof -
  have "hex64 (replicate 64 CHR ''0'')" "issued_license_id_ok (''gm_'' @ replicate 32 CHR ''0'')" by code_simp+
  then show ?thesis
    by (simp add: validate_entitlement_ack_def demo_ack_def demo_config_def demo_row_def expected_receipt_def outbox_payload_digest_def)
qed

lemma refund_target: "transition_target ''refund'' = Some ''refunded''"
  by code_simp

lemma demo_steps:
  assumes "f \<in> set (demo_payment @ demo_refund @ demo_delivery)" "f a = Some b"
  shows "pay_step demo_config a b"
  using assms
  by (auto simp: demo_payment_def demo_refund_def demo_delivery_def commit_step_Some
    intro: step_order step_prepare step_settle step_finalize step_claim step_crossing step_authorize step_admin [OF _ refund_target]
      step_deliver [OF _ demo_ack_valid])

definition demo_facts :: "ledger option \<Rightarrow> ledger option \<Rightarrow> bool" where
  "demo_facts refunded delivered \<longleftrightarrow>
     (case (refunded, delivered) of
        (Some a, Some b) \<Rightarrow>
          (case (get_order a demo_order, get_outbox a demo_order, get_order b demo_order, get_outbox b demo_order) of
             (Some r, Some e, Some r', Some e') \<Rightarrow>
               od_state r = ''refunded'' \<and> od_sale_ordinal r = Some 1 \<and> ob_phase e = ''readback_only'' \<and> od_state r' = ''refunded'' \<and> ob_state e' = ''delivered''
           | _ \<Rightarrow> False)
      | _ \<Rightarrow> False)"

lemma demo_run_evaluates:
  "let a = run (demo_payment @ demo_refund) empty_ledger in demo_facts a (case a of None \<Rightarrow> None | Some db \<Rightarrow> run demo_delivery db)"
  by code_simp

lemma demo_run:
  obtains a b r e r' e' where "(pay_step demo_config)\<^sup>*\<^sup>* empty_ledger a" "(pay_step demo_config)\<^sup>*\<^sup>* a b"
    "get_order a demo_order = Some r" "od_state r = ''refunded''" "od_sale_ordinal r = Some 1" "get_outbox a demo_order = Some e"
    "get_order b demo_order = Some r'" "od_state r' = ''refunded''" "get_outbox b demo_order = Some e'" "ob_state e' = ''delivered''"
proof -
  obtain a where a: "run (demo_payment @ demo_refund) empty_ledger = Some a" using demo_run_evaluates by (auto simp: demo_facts_def Let_def split: option.splits)
  obtain b where b: "run demo_delivery a = Some b" using demo_run_evaluates a by (auto simp: demo_facts_def Let_def split: option.splits)
  have "(pay_step demo_config)\<^sup>*\<^sup>* empty_ledger a" using demo_steps by (intro run_reaches [OF a]) auto
  moreover have "(pay_step demo_config)\<^sup>*\<^sup>* a b" using demo_steps by (intro run_reaches [OF b]) auto
  moreover have "demo_facts (Some a) (Some b)" using demo_run_evaluates a b by (simp add: Let_def)
  ultimately show thesis using that by (auto simp: demo_facts_def split: option.splits)
qed

section \<open>Witnesses\<close>

theorem early_price_at_most_fifty_witness:
  "\<exists>(db :: ledger) r. r \<in> set (lg_orders db) \<and> od_sale_ordinal r = Some 1 \<and> od_quoted_amount r = price True (od_rail r) \<and>
     card (od_id ` {r \<in> set (lg_orders db). od_sale_ordinal r \<noteq> None \<and> od_quoted_amount r = price True (od_rail r)}) \<le> 50"
proof -
  obtain a r where a: "(pay_step demo_config)\<^sup>*\<^sup>* empty_ledger a" "get_order a demo_order = Some r" "od_sale_ordinal r = Some 1" by (rule demo_run)
  have mem: "r \<in> set (lg_orders a)" using get_order_Some [OF a(2)] by blast
  note early = early_price_at_most_fifty [OF a(1)]
  have "od_quoted_amount r = price True (od_rail r)"
    using bspec [OF conjunct1 [OF conjunct2 [OF early]] mem] a(3) by (simp add: EARLY_LIMIT_def)
  then show ?thesis using mem a(3) conjunct2 [OF conjunct2 [OF early]] by blast
qed

theorem reversed_orders_are_compensated_witness:
  "\<exists>db e v. get_outbox db demo_order = Some e \<and> get_revocation db demo_order = Some v \<and> ob_license_id e = Some (rv_license_id v)"
proof -
  obtain a b r' e' where run: "(pay_step demo_config)\<^sup>*\<^sup>* empty_ledger a" "(pay_step demo_config)\<^sup>*\<^sup>* a b"
    and b: "get_order b demo_order = Some r'" "od_state r' = ''refunded''" "get_outbox b demo_order = Some e'" "ob_state e' = ''delivered''" by (rule demo_run)
  have "(pay_step demo_config)\<^sup>*\<^sup>* empty_ledger b" using run by (rule rtranclp_trans)
  then show ?thesis using reversed_orders_are_compensated [of demo_config b demo_order r' e'] b by auto
qed

theorem no_crossing_after_reversal_witness:
  "\<exists>db q. get_order db demo_order = Some q \<and> od_state q \<in> {''refunded'', ''revoked''} \<and>
     (\<forall>row worker. ob_order_id row = demo_order \<longrightarrow> (\<exists>m. authorize_crossing row worker db = Rollback (Inl m)))"
proof -
  obtain a b r e where run: "(pay_step demo_config)\<^sup>*\<^sup>* empty_ledger a" "(pay_step demo_config)\<^sup>*\<^sup>* a b"
    and a: "get_order a demo_order = Some r" "od_state r = ''refunded''" "get_outbox a demo_order = Some e" by (rule demo_run)
  then show ?thesis using no_crossing_after_reversal [of demo_config a demo_order r b] by auto
qed

theorem audit_chain_verifies_witness: "\<exists>db. get_order db demo_order \<noteq> None \<and> verify_audit demo_config db = Rollback (Inr True)"
proof -
  obtain a r where a: "(pay_step demo_config)\<^sup>*\<^sup>* empty_ledger a" "get_order a demo_order = Some r" by (rule demo_run)
  then show ?thesis using audit_chain_verifies [OF a(1)] by auto
qed

text \<open>A tampered database file: an order row removed behind the running service.\<close>

definition demo_text :: "string \<Rightarrow> string" where
  "demo_text filename = (case map_of (map snd MIGRATIONS) filename of None \<Rightarrow> [] | Some digest \<Rightarrow> digest)"

definition tampered :: pay_host where
  "tampered = \<lparr>hs_state = \<lparr>ps_ledger = empty_ledger,
       ps_file = (case checkpoint_document demo_config (the (run (take 1 demo_payment) empty_ledger)) of (c, m) \<Rightarrow> Checkpoint_File c m), ps_failed = False\<rparr>,
     hs_version = 13, hs_tables = True, hs_migrations = Some MIGRATIONS, hs_running = True\<rparr>"

lemma tampered_digest: "cf_root demo_config (the (run (take 1 demo_payment) empty_ledger)) \<noteq> cf_root demo_config empty_ledger"
  by code_simp

theorem tampering_stops_service_witness:
  "\<exists>h'. service_step demo_config (\<lambda>_. Inr) demo_text (\<lambda>_. []) tampered h' \<and> hs_version tampered = SCHEMA_VERSION \<and>
     ps_ledger (hs_state h') = empty_ledger \<and> (\<forall>env f. \<exists>m. trusted_tx demo_config env f (hs_state h') = (Inl (Runtime_Error m), hs_state h'))"
proof -
  let ?db = "the (run (take 1 demo_payment) empty_ledger)"
  obtain y h' where "init_service demo_config (\<lambda>_. Inr) demo_text (\<lambda>_. []) demo_env tampered = (y, h')"
    by (cases "init_service demo_config (\<lambda>_. Inr) demo_text (\<lambda>_. []) demo_env tampered")
  then have step: "service_step demo_config (\<lambda>_. Inr) demo_text (\<lambda>_. []) tampered h'" by (rule start)
  have differs: "empty_ledger \<noteq> ?db" using tampered_digest by metis
  have "published demo_config (hs_state tampered) ?db" "hs_version tampered = SCHEMA_VERSION" "ps_ledger (hs_state tampered) = empty_ledger"
    by (simp_all add: published_def published_by_def tampered_def SCHEMA_VERSION_def)
  moreover have "inj_on (cf_root demo_config) {?db, empty_ledger}" using tampered_digest by (simp add: inj_on_def)
  ultimately show ?thesis
    using tampering_stops_service [of demo_config tampered ?db "\<lambda>_. Inr" demo_text "\<lambda>_. []" h'] step differs r_into_rtranclp by auto
qed

text \<open>The same file with its schema version set back: the next start accepts it.\<close>

theorem downgrade_accepts_changed_ledger_witness:
  "\<exists>h'. init_service demo_config (\<lambda>_. Inr) demo_text (\<lambda>_. []) demo_env (tampered\<lparr>hs_version := 12, hs_migrations := Some (migrations_to 12)\<rparr>) = (Inr (), h') \<and>
     hs_running h' \<and> assert_terminal_trust demo_config (hs_state h') = Inr ()"
proof -
  have "\<exists>h'. init_service demo_config (\<lambda>_. Inr) demo_text (\<lambda>_. []) demo_env (tampered\<lparr>hs_version := 12, hs_migrations := Some (migrations_to 12)\<rparr>) = (Inr (), h') \<and>
     hs_running h' \<and> ps_ledger (hs_state h') = bumped empty_ledger \<and> assert_terminal_trust demo_config (hs_state h') = Inr ()"
    by (rule downgrade_accepts_changed_ledger)
      (simp_all add: tampered_def demo_text_def demo_config_def MIGRATIONS_def verify_terminal_evidence_def empty_ledger_def demo_env_def)
  then show ?thesis by blast
qed

section \<open>A reversal that does not last\<close>

text \<open>The ledger with an order in another state.\<close>

definition in_state :: "string \<Rightarrow> string \<Rightarrow> ledger \<Rightarrow> ledger" where
  "in_state oid s db = lg_orders_update (row_update od_id oid (\<lambda>r. r\<lparr>od_state := s\<rparr>)) db"

lemma in_state_frame [simp]:
  "lg_proofs (in_state oid s db) = lg_proofs db" "lg_intents (in_state oid s db) = lg_intents db"
  "get_order (in_state oid s db) i = None \<longleftrightarrow> get_order db i = None"
  "get_intent (in_state oid s db) k = get_intent db k"
  by (simp_all add: in_state_def get_order_def get_intent_def row_get_update)

lemma row_update_twice: "(\<And>r. k (f r) = k r) \<Longrightarrow> row_update k i g (row_update k i f rs) = row_update k i (\<lambda>r. g (f r)) rs"
  by (simp add: row_update_def)

lemma issue_ignores_state: "issue_reserved cf env i actor (in_state (it_order_id i) s db) = issue_reserved cf env i actor db"
proof -
  let ?p = "\<lparr>pp_hash = it_proof_hash i, pp_rail = ''x402'', pp_order_id = it_order_id i, pp_tx_hash = it_tx_hash i, pp_created_at = pv_now env\<rparr>"
  let ?f = "\<lambda>r. r\<lparr>od_state := ''payment_confirmed'', od_sale_ordinal := Some (it_ordinal i), od_confirmed_at := Some (pv_now env),
      od_updated_at := pv_now env, od_tx_hash := it_tx_hash i\<rparr>"
  have "lg_proofs_update f (in_state oid s d) = in_state oid s (lg_proofs_update f d)" for f oid d by (simp add: in_state_def)
  then have proof_step: "insert_proof ?p (in_state (it_order_id i) s db) = map_sum id (in_state (it_order_id i) s) (insert_proof ?p db)"
    by (simp add: insert_proof_def)
  have "update_order (it_order_id i) ?f (in_state (it_order_id i) s d) = update_order (it_order_id i) ?f d" for d
    by (simp add: update_order_def put_orders_def in_state_def row_update_twice comp_def)
  then show ?thesis unfolding issue_reserved_def Let_def proof_step by (cases "insert_proof ?p db") (simp_all add: and_then_def)
qed

lemma issued_outbox:
  assumes "issue_reserved cf env i actor db = Inr (q, db')"
  shows "get_order db' (it_order_id i) = Some q \<and> od_state q = ''payment_confirmed'' \<and>
    (\<exists>e \<in> set (lg_outbox db'). ob_order_id e = it_order_id i \<and> ob_state e = ''pending'')"
proof -
  from assms obtain db1 db2 db3 db4 db5 where
    1: "update_order (it_order_id i) (\<lambda>r. r\<lparr>od_state := ''payment_confirmed'', od_sale_ordinal := Some (it_ordinal i), od_confirmed_at := Some (pv_now env),
          od_updated_at := pv_now env, od_tx_hash := it_tx_hash i\<rparr>) db1 = Inr db2"
    and 2: "pay_audit cf env 0 actor ''payment.confirmed'' (it_order_id i) (JObj [(''ordinal'', jint (it_ordinal i))]) db2 = Inr db3"
    and 3: "insert_outbox (new_outbox cf env i) db3 = Inr db4"
    and 4: "update_intent (it_id i) (\<lambda>r. r\<lparr>it_state := ''finalized_paid'', it_updated_at := pv_now env\<rparr>) db4 = Inr db5"
    and 5: "pay_audit cf env 1 ''issuer'' ''entitlement.enqueued'' (it_order_id i) (JObj [(''source'', JStr ''x402'')]) db5 = Inr db'"
    and q: "get_order db' (it_order_id i) = Some q"
    by (auto simp: issue_reserved_def Let_def result_simps split: if_splits option.splits)
  have "lg_orders db' = lg_orders db2" "lg_outbox db' = lg_outbox db3 @ [new_outbox cf env i]"
    using 2 3 4 5 by (auto simp: pay_audit_def insert_outbox_def update_intent_def Let_def split: if_splits)
  moreover have "\<forall>r \<in> set (lg_orders db2). od_id r = it_order_id i \<longrightarrow> od_state r = ''payment_confirmed''"
    using 1 by (auto simp: update_order_def put_orders_def set_row_update split: if_splits)
  ultimately show ?thesis using q get_order_Some [OF q] by (auto simp: new_outbox_def)
qed

text \<open>
  C38: A settlement revives a reversed order. Finalizing a settled payment does not look at the state of its order: on any ledger where the
  finalization commits, it commits the very same ledger had the order been refunded or revoked in the meantime, with the order back in
  \<open>payment_confirmed\<close> and an entitlement waiting to be delivered. Reversals are meant to be monotonic.
\<close>

theorem settlement_revives_reversed_order:
  assumes "get_intent db intent_id = Some i" "it_state i = ''settled''" "finalize_x402_intent cf env intent_id db = Commit db' answer"
  shows "(\<forall>s. finalize_x402_intent cf env intent_id (in_state (it_order_id i) s db) = Commit db' answer) \<and>
    (\<exists>q e. answer = Inr q \<and> get_order db' (it_order_id i) = Some q \<and> od_state q = ''payment_confirmed'' \<and>
      e \<in> set (lg_outbox db') \<and> ob_order_id e = it_order_id i \<and> ob_state e = ''pending'')"
proof (intro conjI allI)
  show "finalize_x402_intent cf env intent_id (in_state (it_order_id i) s db) = Commit db' answer" for s
    using assms by (auto simp: finalize_x402_intent_def issue_ignores_state split: if_splits)
  obtain q where "issue_reserved cf env i ''x402.finalize'' db = Inr (q, db')" "answer = Inr q"
    using assms by (auto simp: finalize_x402_intent_def commits_def split: if_splits sum.splits)
  then show "\<exists>q e. answer = Inr q \<and> get_order db' (it_order_id i) = Some q \<and> od_state q = ''payment_confirmed'' \<and>
      e \<in> set (lg_outbox db') \<and> ob_order_id e = it_order_id i \<and> ob_state e = ''pending''"
    using issued_outbox by blast
qed

definition demo_event :: whop_event where
  "demo_event = \<lparr>we_event_id = ''evt'', we_occurred_at = ''t'', we_kind = ''refund'', we_order_id = demo_order, we_provider_order_ref = ''ref'',
     we_provider_payment_ref = ''pay''\<rparr>"

text \<open>A shop event refunds the order while its payment is being settled; the settlement is recorded afterwards.\<close>

definition demo_reversal :: "(ledger \<Rightarrow> ledger option) list" where
  "demo_reversal = take 2 demo_payment @
     [\<lambda>db. commit_step (store_whop_event demo_config (demo_env 7) demo_event (replicate 64 CHR ''0'') db),
      \<lambda>db. commit_step (apply_whop_event demo_config (demo_env 8) ''evt'' 3 db), demo_payment ! 2]"

lemma demo_reversal_steps:
  assumes "f \<in> set demo_reversal" "f a = Some b"
  shows "pay_step demo_config a b"
  using assms demo_steps [of f a b] by (auto simp: demo_reversal_def demo_payment_def commit_step_Some intro: step_whop step_whop_apply step_order step_prepare step_settle)

theorem settlement_revives_reversed_order_witness:
  "\<exists>a r q. (pay_step demo_config)\<^sup>*\<^sup>* empty_ledger a \<and> get_order a demo_order = Some r \<and> od_state r = ''refunded'' \<and>
     (\<exists>db'. finalize_x402_intent demo_config (demo_env 3) demo_intent a = Commit db' (Inr q) \<and> od_state q = ''payment_confirmed'')"
proof -
  have "case run demo_reversal empty_ledger of None \<Rightarrow> False | Some a \<Rightarrow>
      map_option od_state (get_order a demo_order) = Some ''refunded'' \<and> map_option it_state (get_intent a demo_intent) = Some ''settled'' \<and>
      (case finalize_x402_intent demo_config (demo_env 3) demo_intent a of Rollback _ \<Rightarrow> False | Commit _ _ \<Rightarrow> True)"
    by code_simp
  then obtain a r i db' x where a: "run demo_reversal empty_ledger = Some a" "get_order a demo_order = Some r" "od_state r = ''refunded''"
    "get_intent a demo_intent = Some i" "it_state i = ''settled''" "finalize_x402_intent demo_config (demo_env 3) demo_intent a = Commit db' x"
    by (auto split: option.splits tx.splits)
  have "(pay_step demo_config)\<^sup>*\<^sup>* empty_ledger a" using demo_reversal_steps by (intro run_reaches [OF a(1)]) auto
  then show ?thesis using a(2,3,6) settlement_revives_reversed_order [OF a(4-6)] by auto
qed

end
