(* ===== verification/Payments_Settlement_Run.thy ===== *)
theory Payments_Settlement_Run
  imports Payments_Settlement Payments_Scenario
begin

text \<open>
  A payment that is settled by observation: an intent is open, the node shows a final transfer, the observer reports it, the report is
  authenticated and the service confirms the order.
\<close>

section \<open>The run\<close>

definition hash64 :: "char \<Rightarrow> string" where
  "hash64 c = replicate 64 c"

definition open_ledger :: ledger where
  "open_ledger = the (run
     [\<lambda>db. commit_step (create_order_tx demo_config (demo_env 0) ''x402'' ''a@b.c'' ''name'' db),
      \<lambda>db. commit_step (prepare_x402_intent demo_config (demo_env 1) demo_order (hash64 CHR ''1'') (hash64 CHR ''2'') 10000000 (Some demo_payer) db)]
     empty_ledger)"

definition open_state :: pay_state where
  "open_state = \<lparr>ps_ledger = open_ledger,
     ps_file = (case checkpoint_document demo_config open_ledger of (c, m) \<Rightarrow> Checkpoint_File c m), ps_failed = False\<rparr>"

definition open_intent :: intent where
  "open_intent = the (get_intent open_ledger demo_intent)"

definition sample_merchant :: string where
  "sample_merchant = ''0x'' @ replicate 40 CHR ''b''"

definition node_tx :: string where
  "node_tx = ''0x'' @ hash64 CHR ''7''"

definition node_block :: string where
  "node_block = ''0x'' @ hash64 CHR ''8''"

definition node_log :: py where
  "node_log = PyDict [(''address'', PyStr (map latin_lower BASE_USDC)),
     (''topics'', PyList [PyStr TRANSFER_TOPIC, PyStr (address_topic demo_payer), PyStr (address_topic sample_merchant)]),
     (''data'', PyStr (''0x'' @ replicate 58 CHR ''0'' @ ''989680''))]"

definition sample_node :: rpc where
  "sample_node method params =
     (if method = ''eth_chainId'' then Inr (PyStr ''0x2105'')
      else if method = ''eth_getTransactionReceipt''
      then Inr (PyDict [(''transactionHash'', PyStr node_tx), (''status'', PyStr ''0x1''), (''blockNumber'', PyStr ''0x10''), (''blockHash'', PyStr node_block),
        (''logs'', PyList [PyDict [(''address'', PyStr ''0x0'')], node_log])])
      else if method = ''eth_getBlockByHash''
      then Inr (PyDict [(''hash'', PyStr node_block), (''number'', PyStr ''0x10''), (''timestamp'', PyStr ''0x2'')])
      else Inr (PyDict [(''hash'', PyStr node_block), (''number'', PyStr ''0x11''), (''timestamp'', PyStr ''0x3'')]))"

definition sample_candidate :: settlement_candidate where
  "sample_candidate = \<lparr>cd_intent_id = demo_intent, cd_tx_hash = node_tx, cd_payer = demo_payer, cd_network = BASE_NETWORK, cd_amount = 10000000,
     cd_source = ''payai.facilitator.accepted'', cd_observed_at = 0, cd_response_hash = hash64 CHR ''3''\<rparr>"

definition first_second :: string where
  "first_second = ''1970-01-01T00:00:01+00:00''"

definition next_second :: string where
  "next_second = ''1970-01-01T00:00:02+00:00''"

text \<open>The observer's report, its document, and functions that write and read just these.\<close>

definition sample_report :: members where
  "sample_report =
     [(''outcome'', PyStr ''paid''), (''proof_hash'', PyStr (hash64 CHR ''1'')), (''nonce_hash'', PyStr (hash64 CHR ''2'')),
      (''order_id'', PyStr demo_order), (''payer'', PyStr demo_payer), (''tx_hash'', PyStr node_tx),
      (''evidence_hash'', PyStr (hash64 CHR ''5'')), (''source'', PyStr ''node''), (''finality_at'', PyStr next_second),
      (''finality_basis'', PyStr ''base.rpc.finalized_ancestor''), (''network'', PyStr BASE_NETWORK),
      (''asset'', PyStr (map latin_lower BASE_USDC)), (''payee'', PyStr sample_merchant), (''amount_minor'', PyInt 10000000)]"

definition demo_runtime :: runtime where
  "demo_runtime = \<lparr>rt_loads = (\<lambda>s. if s = ''doc'' then Inr (PyDict [(''mac'', PyStr (hash64 CHR ''6'')), (''payload'', PyDict sample_report)]) else Inl (Value_Error [])),
     rt_dumps = (\<lambda>_. ''doc''), rt_casefold = (\<lambda>s. s), rt_sha256 = (\<lambda>_. hash64 CHR ''5''), rt_hmac = (\<lambda>_ _. hash64 CHR ''6''),
     rt_b64decode = (\<lambda>_. None),
     rt_isoformat = (\<lambda>t. if t = 1000000 then first_second else if t = 2000000 then next_second else []),
     rt_fromisoformat = (\<lambda>s. if s = first_second then Some 1000000 else if s = next_second then Some 2000000 else None)\<rparr>"

definition demo_key :: string where
  "demo_key = replicate 32 CHR ''k''"

definition demo_observer :: observer where
  "demo_observer = \<lparr>bo_payee = sample_merchant, bo_source = ''node''\<rparr>"

definition demo_reconciler :: mac_reconciler where
  "demo_reconciler = \<lparr>mr_terms = \<lparr>ft_payee = sample_merchant, ft_network = BASE_NETWORK, ft_asset = map latin_lower BASE_USDC\<rparr>, mr_key = demo_key,
     mr_max_document = MAX_DOCUMENT\<rparr>"

definition demo_provider :: "intent \<Rightarrow> string answer" where
  "demo_provider = base_evidence demo_runtime demo_observer sample_node (\<lambda>_. Inr sample_candidate) (\<lambda>p. Inr (sign_test_document demo_runtime p demo_key))"

definition demo_reconciled :: "(pay_order + int) answer \<times> pay_state" where
  "demo_reconciled =
     reconcile_intent demo_config (\<lambda>n. demo_env (n + 3)) (mac_finality demo_runtime demo_reconciler 3000000 demo_provider) demo_intent ''operator'' open_state"

lemma demo_init:
  "mac_reconciler_init demo_key sample_merchant BASE_NETWORK BASE_USDC MAX_DOCUMENT = Inr demo_reconciler"
  "observer_init sample_merchant ''node'' = Inr demo_observer"
  by code_simp+

lemma demo_observation: "observe demo_runtime demo_observer sample_node open_intent sample_candidate = Inr sample_report"
  by code_simp

lemma demo_iso: "iso_faithful demo_runtime"
  by (auto simp: iso_faithful_def demo_runtime_def first_second_def next_second_def)

lemma demo_only_observed: "only_observed demo_runtime demo_observer sample_node (mac_payload demo_runtime demo_reconciler)"
proof -
  have "p = sample_report" if "mac_payload demo_runtime demo_reconciler raw = Inr p" for raw p
    using that by (auto simp: mac_payload_def decode_document_def demo_runtime_def Let_def result_simps dict_item_def split: if_splits)
  then show ?thesis using demo_observation unfolding only_observed_def by blast
qed

lemma demo_reconciliation: "case fst demo_reconciled of Inl _ \<Rightarrow> False | Inr x \<Rightarrow> isl x"
  by code_simp

section \<open>Witness\<close>

theorem settled_by_one_final_transfer_witness:
  "\<exists>i payer tx r st'. get_intent (ps_ledger open_state) demo_intent = Some i \<and> od_id r = it_order_id i \<and> od_tx_hash r = Some tx \<and>
     it_verified_payer i = Some payer \<and> paid_on_base sample_node payer (map latin_lower sample_merchant) (it_amount i) (it_created_at i) tx \<and>
     demo_reconciled = (Inr (Inl r), st') \<and> (\<forall>r'\<in>set (lg_orders (ps_ledger st')). od_tx_hash r' = Some tx \<longrightarrow> r' = r)"
proof -
  obtain r where "fst demo_reconciled = Inr (Inl r)" using demo_reconciliation by (auto simp: isl_def split: sum.splits)
  then obtain st' where run: "demo_reconciled = (Inr (Inl r), st')" by (metis prod.collapse)
  show ?thesis
    using settled_by_one_final_transfer [OF demo_init demo_only_observed demo_iso run [unfolded demo_reconciled_def]] run by blast
qed

end
