(* ===== verification/Payments_Ingress.thy ===== *)
theory Payments_Ingress
  imports Payments_Whop Payments_Finality
begin

text \<open>
  The way of a shop event into the service (\<open>growthmap_payments/whop.py\<close>): bounded headers and body, the official verifier, whose SDK decides
  about the signature, the normalization of a payment event into the internal form, and the strict parser of that form. \<open>utf8\<close> decodes bytes.
  Numbers of the official document are decimals (\<open>PyFloat\<close> is exact), its \<open>NaN\<close> and infinities count as \<open>PyNone\<close>.
\<close>

section \<open>Bounds on requests\<close>

definition MAX_BODY_BYTES :: nat where "MAX_BODY_BYTES = 64 * 1024"
definition MAX_SIGNATURE_HEADERS :: nat where "MAX_SIGNATURE_HEADERS = 8"
definition MAX_HEADER_NAME_BYTES :: nat where "MAX_HEADER_NAME_BYTES = 128"
definition MAX_HEADER_VALUE_BYTES :: nat where "MAX_HEADER_VALUE_BYTES = 4096"
definition MAX_VERIFIED_BODY_BYTES :: nat where "MAX_VERIFIED_BODY_BYTES = 64 * 1024"

abbreviation invalid_webhook :: "'a answer" where
  "invalid_webhook \<equiv> Inl (Value_Error ''invalid webhook'')"

fun contains :: "string \<Rightarrow> string \<Rightarrow> bool" where
  "contains t [] = (t = [])"
| "contains t (c # s) = (starts_with t (c # s) \<or> contains t s)"

definition signature_name :: "string \<Rightarrow> bool" where
  "signature_name n \<longleftrightarrow> list_ex (\<lambda>t. contains t (map ascii_lower n)) [''signature'', ''webhook'', ''whop'']"

text \<open>A dictionary with unique keys, or nothing when a key repeats.\<close>

definition unique_dict :: "(string \<times> string) list \<Rightarrow> (string \<times> string) list answer" where
  "unique_dict kvs = (if distinct (map fst kvs) then Inr kvs else invalid_webhook)"

fun select_headers :: "(string \<Rightarrow> string option) \<Rightarrow> (string \<times> string) list \<Rightarrow> (string \<times> string) list \<Rightarrow> (string \<times> string) list answer" where
  "select_headers utf8 selected [] = Inr selected"
| "select_headers utf8 selected ((raw_name, raw_value) # hs) =
     (if raw_name = [] \<or> length raw_name > MAX_HEADER_NAME_BYTES then invalid_webhook
      else if \<not> signature_name raw_name then select_headers utf8 selected hs
      else if raw_value = [] \<or> length raw_value > MAX_HEADER_VALUE_BYTES \<or> length selected \<ge> MAX_SIGNATURE_HEADERS then invalid_webhook
      else if \<not> list_all (\<lambda>c. of_char c < (128 :: nat)) raw_name then invalid_webhook
      else case utf8 raw_value of
        None \<Rightarrow> invalid_webhook
      | Some v \<Rightarrow> select_headers utf8 (selected @ [(raw_name, v)]) hs)"

definition bounded_signature_headers :: "(string \<Rightarrow> string option) \<Rightarrow> (string \<times> string) list \<Rightarrow> (string \<times> string) list answer" where
  "bounded_signature_headers utf8 raw_headers =
     and_then (select_headers utf8 [] raw_headers) (\<lambda>selected.
     if selected = [] then invalid_webhook else unique_dict (map (\<lambda>(n, v). (map ascii_lower n, v)) selected))"

text \<open>The length of a string in UTF-8, for code points below 256.\<close>

definition utf8_length :: "string \<Rightarrow> nat" where
  "utf8_length s = sum_list (map (\<lambda>c. if of_char c < (128 :: nat) then 1 else 2) s)"

fun select_named :: "(string \<times> string) list \<Rightarrow> (string \<times> string) list \<Rightarrow> (string \<times> string) list answer" where
  "select_named selected [] = Inr selected"
| "select_named selected ((n, v) # hs) =
     (if \<not> signature_name n then select_named selected hs
      else if \<not> list_all (\<lambda>c. of_char c < (128 :: nat)) n \<or> n = [] \<or> length n > MAX_HEADER_NAME_BYTES \<or> v = [] \<or>
         utf8_length v > MAX_HEADER_VALUE_BYTES then invalid_webhook
      else select_named (selected @ [(map ascii_lower n, v)]) hs)"

definition bounded_request :: "string \<Rightarrow> (string \<times> string) list \<Rightarrow> (string \<times> (string \<times> string) list) answer" where
  "bounded_request raw_body headers =
     (if raw_body = [] \<or> length raw_body > MAX_BODY_BYTES then invalid_webhook
      else and_then (select_named [] headers) (\<lambda>selected.
        if selected = [] \<or> length selected > MAX_SIGNATURE_HEADERS then invalid_webhook
        else and_then (unique_dict selected) (\<lambda>folded. Inr (raw_body, folded))))"

section \<open>The internal event\<close>

definition whop_token :: "string \<Rightarrow> bool" where
  "whop_token s \<longleftrightarrow> head_tail alnum (\<lambda>c. alnum c \<or> c \<in> set ''._:-'') 0 191 s"

definition EVENT_KEYS :: "string list" where
  "EVENT_KEYS = [''event_id'', ''kind'', ''occurred_at'', ''order_id'', ''provider_order_ref'', ''provider_payment_ref'']"

definition canonical_stamp :: "runtime \<Rightarrow> string \<Rightarrow> bool" where
  "canonical_stamp rt s = (case rt_fromisoformat rt s of None \<Rightarrow> False | Some t \<Rightarrow> rt_isoformat rt t = s)"

definition parse_verified_event :: "runtime \<Rightarrow> string \<Rightarrow> whop_event answer" where
  "parse_verified_event rt payload =
     (if payload = [] \<or> length payload > MAX_VERIFIED_BODY_BYTES then invalid_webhook
      else case rt_loads rt payload of
        Inl (Value_Error _) \<Rightarrow> invalid_webhook
      | Inl Type_Error \<Rightarrow> invalid_webhook
      | Inl e \<Rightarrow> Inl e
      | Inr v \<Rightarrow>
          if \<not> strict_object (rt_casefold rt) v then invalid_webhook
          else (case v of
            PyDict ms \<Rightarrow>
              let txt = text_item ms in
              if dict_keys ms \<noteq> set EVENT_KEYS \<or> \<not> list_all (\<lambda>k. py_is_str (dict_item ms k)) EVENT_KEYS then invalid_webhook
              else if txt ''kind'' \<notin> {''paid'', ''refund'', ''dispute'', ''chargeback''} then invalid_webhook
              else if \<not> list_all (\<lambda>k. whop_token (txt k)) [''event_id'', ''order_id'', ''provider_order_ref'', ''provider_payment_ref''] then invalid_webhook
              else if \<not> canonical_stamp rt (txt ''occurred_at'') then invalid_webhook
              else Inr \<lparr>we_event_id = txt ''event_id'', we_occurred_at = txt ''occurred_at'', we_kind = txt ''kind'', we_order_id = txt ''order_id'',
                we_provider_order_ref = txt ''provider_order_ref'', we_provider_payment_ref = txt ''provider_payment_ref''\<rparr>
          | _ \<Rightarrow> invalid_webhook))"

section \<open>The official verifier\<close>

record whop_verifier =
  wv_company_id :: string
  wv_currency :: string
  wv_total :: rat
  wv_product_id :: "string option"
  wv_plan_id :: "string option"
  wv_checkout_id :: "string option"

text \<open>\<open>decimal\<close> reads a finite decimal; identifiers count as given when they are not empty.\<close>

definition whop_verifier_init ::
  "(string \<Rightarrow> rat option) \<Rightarrow> string \<Rightarrow> string \<Rightarrow> string \<Rightarrow> string \<Rightarrow> string \<Rightarrow> string option \<Rightarrow> string option \<Rightarrow> string option \<Rightarrow> whop_verifier answer" where
  "whop_verifier_init decimal api_key webhook_secret company_id currency expected_total product_id plan_id checkout_id =
     (let unavailable = Inl (Value_Error ''official Whop configuration unavailable''); identifiers = [product_id, plan_id, checkout_id] in
      if list_ex (\<lambda>v. v = []) [api_key, webhook_secret, company_id, currency, expected_total] then unavailable
      else if \<not> whop_token company_id \<or> \<not> (length currency = 3 \<and> list_all (\<lambda>c. lower_digit c \<and> \<not> digit c) currency) then unavailable
      else if \<not> list_ex truthy identifiers \<or> list_ex (\<lambda>v. case v of None \<Rightarrow> False | Some s \<Rightarrow> \<not> whop_token s) identifiers then unavailable
      else case decimal expected_total of
        None \<Rightarrow> unavailable
      | Some d \<Rightarrow>
          if d \<le> 0 then unavailable
          else Inr \<lparr>wv_company_id = company_id, wv_currency = currency, wv_total = d, wv_product_id = product_id, wv_plan_id = plan_id,
            wv_checkout_id = checkout_id\<rparr>)"

definition OFFICIAL_EVENT_KEYS :: "string list" where
  "OFFICIAL_EVENT_KEYS = [''id'', ''api_version'', ''type'', ''timestamp'', ''company_id'', ''data'']"

definition OFFICIAL_HEADERS :: "string set" where
  "OFFICIAL_HEADERS = {''webhook-id'', ''webhook-timestamp'', ''webhook-signature''}"

text \<open>A configured identifier has to be the one of the document; \<open>None\<close> when it is not.\<close>

definition match_identifier :: "string option \<Rightarrow> py \<Rightarrow> string list option" where
  "match_identifier wanted found =
     (case wanted of None \<Rightarrow> Some [] | Some i \<Rightarrow> if found = PyStr i then Some [i] else None)"

definition object_id :: "py \<Rightarrow> py" where
  "object_id v = (case v of PyDict ms \<Rightarrow> dict_item ms ''id'' | _ \<Rightarrow> PyNone)"

definition matched_identifiers :: "whop_verifier \<Rightarrow> members \<Rightarrow> string list option" where
  "matched_identifiers wv data =
     (case (match_identifier (wv_product_id wv) (object_id (dict_item data ''product'')),
            match_identifier (wv_plan_id wv) (object_id (dict_item data ''plan'')),
            match_identifier (wv_checkout_id wv) (dict_item data ''checkout_configuration_id'')) of
        (Some a, Some b, Some c) \<Rightarrow> Some (a @ b @ c)
      | _ \<Rightarrow> None)"

definition total_matches :: "whop_verifier \<Rightarrow> py \<Rightarrow> bool" where
  "total_matches wv v = (case v of PyInt i \<Rightarrow> of_int i = wv_total wv | PyFloat r \<Rightarrow> r = wv_total wv | _ \<Rightarrow> False)"

definition official_timestamp :: "runtime \<Rightarrow> py \<Rightarrow> string option" where
  "official_timestamp rt v =
     (case v of
        PyStr s \<Rightarrow>
          if s = [] \<or> last s \<noteq> CHR ''Z'' then None
          else map_option (rt_isoformat rt) (rt_fromisoformat rt (butlast s @ ''+00:00''))
      | _ \<Rightarrow> None)"

definition normalize_payment :: "runtime \<Rightarrow> whop_verifier \<Rightarrow> py \<Rightarrow> members answer" where
  "normalize_payment rt wv v =
     (case v of
        PyDict ms \<Rightarrow>
          if dict_keys ms \<noteq> set OFFICIAL_EVENT_KEYS then invalid_webhook
          else if dict_item ms ''api_version'' \<noteq> PyStr ''v1'' \<or> dict_item ms ''type'' \<noteq> PyStr ''payment.succeeded'' then invalid_webhook
          else if dict_item ms ''company_id'' \<noteq> PyStr (wv_company_id wv) then invalid_webhook
          else (case (dict_item ms ''id'', dict_item ms ''data'') of
            (PyStr event_id, PyDict data) \<Rightarrow>
              if \<not> whop_token event_id then invalid_webhook
              else (case (dict_item data ''id'', dict_item data ''metadata'') of
                (PyStr payment_id, PyDict metadata) \<Rightarrow>
                  if \<not> whop_token payment_id \<or> dict_item data ''status'' \<noteq> PyStr ''succeeded'' \<or> dict_item data ''currency'' \<noteq> PyStr (wv_currency wv)
                  then invalid_webhook
                  else (case dict_item metadata ''order_id'' of
                    PyStr order_id \<Rightarrow>
                      if \<not> whop_token order_id \<or> \<not> total_matches wv (dict_item data ''total'') then invalid_webhook
                      else (case (matched_identifiers wv data, official_timestamp rt (dict_item ms ''timestamp'')) of
                        (Some matched, Some stamp) \<Rightarrow>
                          Inr [(''event_id'', PyStr event_id), (''kind'', PyStr ''paid''), (''occurred_at'', PyStr stamp), (''order_id'', PyStr order_id),
                            (''provider_order_ref'', PyStr (last matched)), (''provider_payment_ref'', PyStr payment_id)]
                      | _ \<Rightarrow> invalid_webhook)
                  | _ \<Rightarrow> invalid_webhook)
              | _ \<Rightarrow> invalid_webhook)
          | _ \<Rightarrow> invalid_webhook)
      | _ \<Rightarrow> invalid_webhook)"

text \<open>
  \<open>OfficialWhopVerifier.verify\<close>: \<open>utf8\<close> decodes the body, \<open>unwrap\<close> is the SDK's verdict on the signature, \<open>loads\<close> reads the text with decimals,
  \<open>dumps\<close> writes the answer.
\<close>

definition official_verify ::
  "runtime \<Rightarrow> whop_verifier \<Rightarrow> (string \<Rightarrow> string option) \<Rightarrow> (string \<Rightarrow> (string \<times> string) list \<Rightarrow> bool) \<Rightarrow> (string \<Rightarrow> py answer) \<Rightarrow> (py \<Rightarrow> string) \<Rightarrow>
   string \<Rightarrow> (string \<times> string) list \<Rightarrow> string answer" where
  "official_verify rt wv utf8 unwrap loads dumps raw_body signature_headers =
     and_then (bounded_request raw_body signature_headers) (\<lambda>(bounded, headers).
     if set (map fst headers) \<noteq> OFFICIAL_HEADERS then invalid_webhook
     else case utf8 bounded of
       None \<Rightarrow> invalid_webhook
     | Some txt \<Rightarrow>
         if \<not> unwrap txt headers then invalid_webhook
         else (case loads txt of
           Inl (Value_Error _) \<Rightarrow> invalid_webhook
         | Inl Type_Error \<Rightarrow> invalid_webhook
         | Inl e \<Rightarrow> Inl e
         | Inr v \<Rightarrow>
             if \<not> strict_object (rt_casefold rt) v then invalid_webhook
             else and_then (normalize_payment rt wv v) (\<lambda>normalized. Inr (dumps (PyDict normalized)))))"

section \<open>What the verifier lets through\<close>

lemma normalize_payment_Inr:
  assumes "normalize_payment rt wv v = Inr ms"
  shows "\<exists>event_id order_id payment_id t s matched data.
    ms = [(''event_id'', PyStr event_id), (''kind'', PyStr ''paid''), (''occurred_at'', PyStr (rt_isoformat rt t)), (''order_id'', PyStr order_id),
      (''provider_order_ref'', PyStr (last matched)), (''provider_payment_ref'', PyStr payment_id)] \<and>
    whop_token event_id \<and> whop_token order_id \<and> whop_token payment_id \<and> rt_fromisoformat rt s = Some t \<and>
    matched_identifiers wv data = Some matched \<and> total_matches wv (dict_item data ''total'')"
  using assms by (auto simp: normalize_payment_def official_timestamp_def split: py.splits if_splits option.splits) blast

lemma matched_from_config:
  assumes "matched_identifiers wv data = Some matched" "i \<in> set matched"
  shows "Some i \<in> {wv_product_id wv, wv_plan_id wv, wv_checkout_id wv}"
  using assms by (auto simp: matched_identifiers_def match_identifier_def split: option.splits if_splits)

lemma whop_verifier_init_Inr:
  assumes "whop_verifier_init decimal api_key webhook_secret company_id currency expected_total product_id plan_id checkout_id = Inr wv"
  shows "(wv_product_id wv \<noteq> None \<or> wv_plan_id wv \<noteq> None \<or> wv_checkout_id wv \<noteq> None) \<and>
    (\<forall>i. Some i \<in> {wv_product_id wv, wv_plan_id wv, wv_checkout_id wv} \<longrightarrow> whop_token i)"
  using assms by (auto simp: whop_verifier_init_def Let_def truthy_Some split: option.splits if_splits)

lemma matched_is_token:
  assumes init: "whop_verifier_init decimal api_key webhook_secret company_id currency expected_total product_id plan_id checkout_id = Inr wv"
    and "matched_identifiers wv data = Some matched"
  shows "whop_token (last matched)"
proof -
  have "matched \<noteq> []"
    using assms(2) whop_verifier_init_Inr [OF init] by (auto simp: matched_identifiers_def match_identifier_def split: option.splits if_splits)
  then show ?thesis using matched_from_config [OF assms(2), of "last matched"] whop_verifier_init_Inr [OF init] by (metis last_in_set)
qed

text \<open>What JSON and timestamps as text promise about the six strings of an event.\<close>

definition event_text_ok :: "runtime \<Rightarrow> (py \<Rightarrow> string) \<Rightarrow> bool" where
  "event_text_ok rt dumps \<longleftrightarrow>
     (\<forall>vs. length vs = length EVENT_KEYS \<longrightarrow> (\<forall>v\<in>set vs. length v \<le> 192) \<longrightarrow>
        (let ms = zip EVENT_KEYS (map PyStr vs); d = dumps (PyDict ms)
         in d \<noteq> [] \<and> length d \<le> MAX_VERIFIED_BODY_BYTES \<and> rt_loads rt d = Inr (PyDict ms))) \<and>
     distinct (map (rt_casefold rt) EVENT_KEYS) \<and>
     (\<forall>s t. rt_fromisoformat rt s = Some t \<longrightarrow> length (rt_isoformat rt t) \<le> 192 \<and> rt_fromisoformat rt (rt_isoformat rt t) = Some t)"

lemma event_text_okD:
  "event_text_ok rt dumps \<Longrightarrow> ms = zip EVENT_KEYS (map PyStr vs) \<Longrightarrow> \<forall>v\<in>set vs. length v \<le> 192 \<Longrightarrow> length vs = length EVENT_KEYS \<Longrightarrow>
   dumps (PyDict ms) \<noteq> [] \<and> length (dumps (PyDict ms)) \<le> MAX_VERIFIED_BODY_BYTES \<and> rt_loads rt (dumps (PyDict ms)) = Inr (PyDict ms)"
  unfolding event_text_ok_def Let_def by blast

lemma token_length: "whop_token s \<Longrightarrow> length s \<le> 192"
  by (cases s) (auto simp: whop_token_def)

lemma loads_case_Inr:
  "(case r of Inl (Value_Error m) \<Rightarrow> invalid_webhook | Inl Type_Error \<Rightarrow> invalid_webhook | Inl e \<Rightarrow> Inl e | Inr v \<Rightarrow> f v) = Inr y \<longleftrightarrow>
     (\<exists>v. r = Inr v \<and> f v = Inr y)"
  by (cases r) (auto split: failure.splits)

lemma verified_event_parses:
  assumes init: "whop_verifier_init decimal api_key webhook_secret company_id currency expected_total product_id plan_id checkout_id = Inr wv"
    and ok: "event_text_ok rt dumps"
    and run: "official_verify rt wv utf8 unwrap loads dumps raw_body headers = Inr raw"
  shows "\<exists>ev body hs. parse_verified_event rt raw = Inr ev \<and> we_kind ev = ''paid'' \<and> utf8 raw_body = Some body \<and> unwrap body hs"
proof -
  obtain body hs v ms where ms: "normalize_payment rt wv v = Inr ms" "raw = dumps (PyDict ms)" "utf8 raw_body = Some body" "unwrap body hs"
    using run by (auto simp: official_verify_def bounded_request_def result_simps loads_case_Inr)
  obtain event_id order_id payment_id t s matched data where n:
    "ms = [(''event_id'', PyStr event_id), (''kind'', PyStr ''paid''), (''occurred_at'', PyStr (rt_isoformat rt t)), (''order_id'', PyStr order_id),
      (''provider_order_ref'', PyStr (last matched)), (''provider_payment_ref'', PyStr payment_id)]"
    "whop_token event_id" "whop_token order_id" "whop_token payment_id" "rt_fromisoformat rt s = Some t" "matched_identifiers wv data = Some matched"
    using normalize_payment_Inr [OF ms(1)] by blast
  have reference: "whop_token (last matched)" by (rule matched_is_token [OF init n(6)])
  have stamp: "length (rt_isoformat rt t) \<le> 192" "rt_fromisoformat rt (rt_isoformat rt t) = Some t"
    using ok n(5) unfolding event_text_ok_def by blast+
  let ?vs = "[event_id, ''paid'', rt_isoformat rt t, order_id, last matched, payment_id]"
  have zip: "ms = zip EVENT_KEYS (map PyStr ?vs)" by (simp add: n(1) EVENT_KEYS_def)
  have bounds: "\<forall>v\<in>set ?vs. length v \<le> 192" "length ?vs = length EVENT_KEYS"
    using n(2-4) reference stamp(1) by (simp_all add: token_length EVENT_KEYS_def)
  note raw = event_text_okD [OF ok zip bounds, folded ms(2)]
  have keys: "strict_object (rt_casefold rt) (PyDict ms)" using ok by (auto simp: event_text_ok_def EVENT_KEYS_def n(1))
  have "dict_keys ms = set EVENT_KEYS" "list_all (\<lambda>k. py_is_str (dict_item ms k)) EVENT_KEYS"
    by (auto simp: n(1) EVENT_KEYS_def dict_keys_def dict_item_def)
  moreover have "canonical_stamp rt (text_item ms ''occurred_at'')" by (simp add: n(1) dict_item_def canonical_stamp_def stamp(2))
  moreover have "text_item ms ''kind'' = ''paid''" "text_item ms ''event_id'' = event_id" "text_item ms ''order_id'' = order_id"
    "text_item ms ''provider_order_ref'' = last matched" "text_item ms ''provider_payment_ref'' = payment_id"
    by (simp_all add: n(1) dict_item_def)
  ultimately show ?thesis using raw keys n(2-4) reference ms(3,4) by (auto simp: parse_verified_event_def Let_def)
qed

end
