(* ===== verification/Payments_Facilitator.thy ===== *)
theory Payments_Facilitator
  imports Payments_Finality
begin

text \<open>
  The adapter of the x402 facilitator (\<open>growthmap_payments/facilitator.py\<close>): the check of its origin and of its capability document, the
  binding of a payment payload to the challenge of the service, and the contexts that let a verified payment be settled once, in time. The SDK
  (decoding of headers, its models and its client), \<open>str()\<close>, URL parsing and the clocks are parameters.
\<close>

section \<open>Origins\<close>

definition SPECIAL_USE_ROOTS :: "string list" where
  "SPECIAL_USE_ROOTS = [''localhost'', ''local'', ''internal'', ''invalid'', ''example'', ''alt'', ''arpa'', ''onion'', ''example.com'', ''example.net'', ''example.org'']"

fun split_dots :: "string \<Rightarrow> string list" where
  "split_dots [] = [[]]"
| "split_dots (c # s) = (if c = CHR ''.'' then [] # split_dots s else case split_dots s of [] \<Rightarrow> [[c]] | l # ls \<Rightarrow> (c # l) # ls)"

definition ends_with :: "string \<Rightarrow> string \<Rightarrow> bool" where
  "ends_with t s \<longleftrightarrow> length t \<le> length s \<and> drop (length s - length t) s = t"

definition hex_any :: "char \<Rightarrow> bool" where
  "hex_any c \<longleftrightarrow> lower_hex_digit c \<or> c \<in> set ''ABCDEF''"

definition numeric_component :: "string \<Rightarrow> bool" where
  "numeric_component p \<longleftrightarrow>
     p \<noteq> [] \<and> list_all digit p \<or> 3 \<le> length p \<and> take 2 p \<in> {''0x'', ''0X''} \<and> list_all hex_any (drop 2 p)"

definition is_legacy_numeric_ipv4 :: "string \<Rightarrow> bool" where
  "is_legacy_numeric_ipv4 host \<longleftrightarrow> (let parts = split_dots host in length parts \<le> 4 \<and> list_all numeric_component parts)"

text \<open>The pattern of one label: letters and digits at both ends, hyphens between, at most 63 characters.\<close>

definition dns_label :: "string \<Rightarrow> bool" where
  "dns_label l \<longleftrightarrow> l \<noteq> [] \<and> length l \<le> 63 \<and> list_all (\<lambda>c. lower_digit c \<or> c = CHR ''-'') l \<and> lower_digit (hd l) \<and> lower_digit (last l)"

text \<open>\<open>urlsplit\<close> gives the parts of a URL (a port outside its range is an error); \<open>ip_literal\<close> is whether \<open>ipaddress\<close> reads the host.\<close>

record url_parts =
  up_scheme :: string
  up_netloc :: string
  up_hostname :: "string option"
  up_port :: "int option"
  up_username :: "string option"
  up_password :: "string option"
  up_path :: string
  up_query :: string
  up_fragment :: string

definition canonical_origin :: "(string \<Rightarrow> url_parts option) \<Rightarrow> (string \<Rightarrow> bool) \<Rightarrow> bool \<Rightarrow> string \<Rightarrow> string answer" where
  "canonical_origin urlsplit ip_literal allow_test_origin v =
     (let rejected = Inl (Runtime_Error ''facilitator endpoint must be a canonical public-DNS HTTPS origin'') in
      if list_ex (\<lambda>c. of_char c \<le> (32 :: nat) \<or> of_char c = (127 :: nat)) v then rejected
      else case urlsplit v of
        None \<Rightarrow> rejected
      | Some u \<Rightarrow>
          let host = (case up_hostname u of None \<Rightarrow> [] | Some h \<Rightarrow> h) in
          if up_scheme u \<noteq> ''https'' \<or> host = [] \<or> up_netloc u \<noteq> host \<or> up_port u \<noteq> None \<or> truthy (up_username u) \<or> truthy (up_password u) \<or>
             up_path u \<noteq> [] \<or> up_query u \<noteq> [] \<or> up_fragment u \<noteq> [] \<or> host \<noteq> map latin_lower host \<or> ends_with ''.'' host \<or> CHR ''_'' \<in> set host
          then rejected
          else if ip_literal host then rejected
          else if is_legacy_numeric_ipv4 host then rejected
          else let labels = split_dots host;
                   special_use = list_ex (\<lambda>root. host = root \<or> ends_with (CHR ''.'' # root) host) SPECIAL_USE_ROOTS;
                   raw_a_label = list_ex (starts_with ''xn--'') labels;
                   test_only = (host = ''test'' \<or> ends_with ''.test'' host)
          in if length labels < 2 \<or> \<not> list_all dns_label labels \<or> special_use \<or> raw_a_label \<or> test_only \<and> \<not> allow_test_origin then rejected
             else if v \<noteq> ''https://'' @ host then rejected
             else Inr (''https://'' @ host))"

definition validated_origin ::
  "(string \<Rightarrow> url_parts option) \<Rightarrow> (string \<Rightarrow> bool) \<Rightarrow> string \<Rightarrow> string option \<Rightarrow> bool \<Rightarrow> string answer" where
  "validated_origin urlsplit ip_literal endpoint allowed_origin allow_test_origin =
     and_then (canonical_origin urlsplit ip_literal allow_test_origin endpoint) (\<lambda>origin.
     case allowed_origin of
       None \<Rightarrow> Inr origin
     | Some a \<Rightarrow> and_then (canonical_origin urlsplit ip_literal allow_test_origin a) (\<lambda>allowed.
         if allowed \<noteq> origin then Inl (Runtime_Error ''facilitator endpoint must be a canonical public-DNS HTTPS origin'') else Inr origin))"

section \<open>Capabilities\<close>

record capability_evidence =
  ce_document_sha256 :: string
  ce_base_exact_v2 :: bool
  ce_evm_signers :: "string list"

definition hex_address :: "string \<Rightarrow> bool" where
  "hex_address s \<longleftrightarrow> length s = 42 \<and> take 2 s = ''0x'' \<and> list_all hex_any (drop 2 s)"

definition hex_tx :: "string \<Rightarrow> bool" where
  "hex_tx s \<longleftrightarrow> length s = 66 \<and> take 2 s = ''0x'' \<and> list_all hex_any (drop 2 s)"

definition base_exact_kind :: "py \<Rightarrow> bool" where
  "base_exact_kind kind =
     (case kind of
        PyDict ms \<Rightarrow> dict_item ms ''x402Version'' = PyInt 2 \<and> dict_item ms ''scheme'' = PyStr ''exact'' \<and> dict_item ms ''network'' = PyStr BASE_NETWORK
      | _ \<Rightarrow> False)"

fun normalize_signers :: "string list \<Rightarrow> py list \<Rightarrow> string list answer" where
  "normalize_signers normalized [] = Inr normalized"
| "normalize_signers normalized (PyStr s # vs) =
     (if \<not> hex_address s \<or> map latin_lower s \<in> set normalized then Inl (Value_Error ''invalid PayAI capability signer'')
      else normalize_signers (normalized @ [map latin_lower s]) vs)"
| "normalize_signers normalized (_ # vs) = Inl (Value_Error ''invalid PayAI capability signer'')"

definition inspect_payai_capabilities :: "runtime \<Rightarrow> string \<Rightarrow> capability_evidence answer" where
  "inspect_payai_capabilities rt raw =
     (let invalid = Inl (Value_Error ''invalid PayAI capability document'') in
      if raw = [] \<or> length raw > 65536 then invalid
      else case rt_loads rt raw of
        Inl (Value_Error _) \<Rightarrow> invalid
      | Inl e \<Rightarrow> Inl e
      | Inr v \<Rightarrow>
          if \<not> strict_object (rt_casefold rt) v then invalid
          else (case v of
            PyDict document \<Rightarrow>
              (case dict_item document ''kinds'' of
                 PyList kinds \<Rightarrow>
                   (case (case dict_item document ''signers'' of PyDict signers \<Rightarrow> dict_item signers ''eip155:*'' | _ \<Rightarrow> PyNone) of
                      PyList evm \<Rightarrow>
                        if \<not> list_ex base_exact_kind kinds \<or> evm = [] then Inl (Value_Error ''PayAI Base x402 v2 exact capability unavailable'')
                        else and_then (normalize_signers [] evm) (\<lambda>normalized.
                          Inr \<lparr>ce_document_sha256 = rt_sha256 rt raw, ce_base_exact_v2 = True, ce_evm_signers = normalized\<rparr>)
                    | _ \<Rightarrow> Inl (Value_Error ''PayAI Base x402 v2 exact capability unavailable''))
               | _ \<Rightarrow> invalid)
          | _ \<Rightarrow> invalid))"

section \<open>Binding a payload to a challenge\<close>

record requirement =
  rq_scheme :: string
  rq_network :: string
  rq_asset :: string
  rq_amount :: string
  rq_pay_to :: string
  rq_max_timeout :: int
  rq_extra :: members

record x402_payload =
  xp_version :: int
  xp_accepted :: requirement
  xp_payload :: members

record settle_response =
  sp_success :: bool
  sp_network :: string
  sp_amount :: "string option"
  sp_transaction :: "string option"
  sp_payer :: "string option"

text \<open>The SDK, and what is used of Python around it; \<open>fl_response_text\<close> is the JSON text of a response.\<close>

record facilitator_lib =
  fl_decode :: "string \<Rightarrow> x402_payload answer"
  fl_model_validate :: "members \<Rightarrow> requirement answer"
  fl_verify :: "x402_payload \<Rightarrow> requirement \<Rightarrow> (bool \<times> string option) answer"
  fl_settle :: "x402_payload \<Rightarrow> requirement \<Rightarrow> settle_response answer"
  fl_str :: "py \<Rightarrow> string"
  fl_sha256 :: "string \<Rightarrow> string"
  fl_response_text :: "settle_response \<Rightarrow> string"

definition expected_extra :: "string \<Rightarrow> members" where
  "expected_extra order_id =
     [(''name'', PyStr ''USD Coin''), (''version'', PyStr ''2''), (''orderId'', PyStr order_id), (''product'', PyStr ''growthmap''), (''majorVersion'', PyInt 1)]"

text \<open>The single entry of \<open>accepts\<close> in the challenge of the service.\<close>

definition accepts_entry :: "facilitator_lib \<Rightarrow> payment_request \<Rightarrow> members" where
  "accepts_entry fl ch =
     [(''scheme'', PyStr ''exact''), (''network'', PyStr BASE_NETWORK), (''asset'', PyStr BASE_USDC), (''amount'', PyStr (fl_str fl (PyInt (pr_amount ch)))),
      (''payTo'', PyStr (pr_pay_to ch)), (''maxTimeoutSeconds'', PyInt (pr_timeout ch)), (''extra'', PyDict (expected_extra (pr_order_id ch)))]"

text \<open>Equality of an \<open>extra\<close> object with the expected one: the members of the latter are strings and one number.\<close>

definition same_extra :: "members \<Rightarrow> members \<Rightarrow> bool" where
  "same_extra ms expected \<longleftrightarrow>
     dict_keys ms = dict_keys expected \<and>
     list_all (\<lambda>(k, v). dict_item ms k = v \<or> v = PyInt 1 \<and> dict_item ms k \<in> {PyBool True, PyFloat 1}) expected"

fun int_like :: "py \<Rightarrow> int option" where
  "int_like (PyInt i) = Some i"
| "int_like (PyBool b) = Some (if b then 1 else 0)"
| "int_like _ = None"

definition get_text :: "facilitator_lib \<Rightarrow> members \<Rightarrow> string \<Rightarrow> string" where
  "get_text fl ms k = (case map_of ms k of None \<Rightarrow> [] | Some v \<Rightarrow> fl_str fl v)"

definition authorization_ok :: "facilitator_lib \<Rightarrow> int \<Rightarrow> requirement \<Rightarrow> string \<Rightarrow> members \<Rightarrow> bool" where
  "authorization_ok fl wall rq order_id a \<longleftrightarrow>
     (case dict_item a ''nonce'' of PyStr nonce \<Rightarrow> nonce \<noteq> [] \<and> length nonce \<le> 256 | _ \<Rightarrow> False) \<and>
     map latin_lower (get_text fl a ''to'') = map latin_lower (rq_pay_to rq) \<and>
     map latin_lower (get_text fl a ''asset'') = map latin_lower (rq_asset rq) \<and>
     get_text fl a ''value'' = rq_amount rq \<and> dict_item a ''orderId'' = PyStr order_id \<and> hex_address (get_text fl a ''from'') \<and>
     (case int_like (dict_item a ''validBefore'') of None \<Rightarrow> False | Some t \<Rightarrow> wall < t)"

definition terms_ok :: "requirement \<Rightarrow> x402_payload \<Rightarrow> string \<Rightarrow> bool" where
  "terms_ok rq p order_id \<longleftrightarrow>
     (let accepted = xp_accepted p in
      xp_version p = 2 \<and> rq_scheme accepted = ''exact'' \<and> rq_network accepted = BASE_NETWORK \<and>
      map latin_lower (rq_asset accepted) = map latin_lower BASE_USDC \<and> rq_amount accepted = rq_amount rq \<and>
      map latin_lower (rq_pay_to accepted) = map latin_lower (rq_pay_to rq) \<and> rq_max_timeout accepted = rq_max_timeout rq \<and>
      same_extra (rq_extra accepted) (expected_extra order_id) \<and> rq_scheme rq = ''exact'' \<and> rq_network rq = BASE_NETWORK \<and>
      map latin_lower (rq_asset rq) = map latin_lower BASE_USDC \<and> same_extra (rq_extra rq) (expected_extra order_id))"

text \<open>\<open>_models\<close>: the payload, the requirement and the nonce; \<open>wall\<close> is the time in seconds.\<close>

definition payment_models :: "facilitator_lib \<Rightarrow> int \<Rightarrow> string \<Rightarrow> payment_request \<Rightarrow> (x402_payload \<times> requirement \<times> string) answer" where
  "payment_models fl wall signature ch =
     and_then (fl_decode fl signature) (\<lambda>p.
     and_then (fl_model_validate fl (accepts_entry fl ch)) (\<lambda>rq.
     if \<not> terms_ok rq p (pr_order_id ch) then Inl (Value_Error ''payment payload binding mismatch'')
     else case dict_item (xp_payload p) ''authorization'' of
       PyDict a \<Rightarrow>
         if \<not> authorization_ok fl wall rq (pr_order_id ch) a then Inl (Value_Error ''invalid authorization binding'')
         else Inr (p, rq, text_item a ''nonce'')
     | _ \<Rightarrow> Inl (Value_Error ''missing EVM exact authorization'')))"

section \<open>Verification and settlement\<close>

record verification_context =
  vx_payload :: x402_payload
  vx_requirement :: requirement
  vx_payer :: string
  vx_expires :: int

record facilitator =
  fa_contexts :: "(string \<times> verification_context) list"

record facilitator_config =
  fg_context_ttl :: int
  fg_max_contexts :: nat

record verified_payment =
  vp_amount :: string
  vp_nonce :: string
  vp_proof_id :: string
  vp_payer :: string

definition ascii_text :: "string \<Rightarrow> bool" where
  "ascii_text s \<longleftrightarrow> list_all (\<lambda>c. of_char c < (128 :: nat)) s"

definition facilitator_verify ::
  "facilitator_lib \<Rightarrow> facilitator_config \<Rightarrow> int \<Rightarrow> int \<Rightarrow> string \<Rightarrow> payment_request \<Rightarrow> facilitator \<Rightarrow> verified_payment answer \<times> facilitator" where
  "facilitator_verify fl fg wall now signature ch st =
     (case and_then (payment_models fl wall signature ch) (\<lambda>(p, rq, nonce). and_then (fl_verify fl p rq) (\<lambda>result. Inr (p, rq, nonce, result))) of
        Inl _ \<Rightarrow> (Inl (Value_Error ''facilitator verification failed''), st)
      | Inr (p, rq, nonce, is_valid, payer) \<Rightarrow>
          if \<not> is_valid \<or> \<not> hex_address (case payer of None \<Rightarrow> [] | Some x \<Rightarrow> x)
          then (Inl (Value_Error ''facilitator rejected payment''), st)
          else if \<not> ascii_text signature then (Inl (Value_Error ''ascii''), st)
          else let proof_id = fl_sha256 fl signature;
                   live = filter (\<lambda>(_, c). vx_expires c > now) (fa_contexts st)
               in if proof_id \<in> fst ` set live then (Inl (Value_Error ''payment proof already verified''), st\<lparr>fa_contexts := live\<rparr>)
                  else if length live \<ge> fg_max_contexts fg
                  then (Inl (Value_Error ''verification context capacity reached''), st\<lparr>fa_contexts := live\<rparr>)
                  else (Inr \<lparr>vp_amount = rq_amount rq, vp_nonce = nonce, vp_proof_id = proof_id, vp_payer = the payer\<rparr>,
                        st\<lparr>fa_contexts := live @ [(proof_id, \<lparr>vx_payload = p, vx_requirement = rq, vx_payer = map latin_lower (the payer),
                          vx_expires = now + fg_context_ttl fg\<rparr>)]\<rparr>))"

text \<open>\<open>settle\<close> up to the call of the client: the context is taken out whatever follows.\<close>

definition settle_ready ::
  "facilitator_lib \<Rightarrow> int \<Rightarrow> int \<Rightarrow> string \<Rightarrow> payment_request \<Rightarrow> facilitator \<Rightarrow> (x402_payload \<times> requirement \<times> string) answer \<times> facilitator" where
  "settle_ready fl wall now signature ch st =
     (if \<not> ascii_text signature then (Inl (Value_Error ''ascii''), st)
      else let proof_id = fl_sha256 fl signature in
      case payment_models fl wall signature ch of
        Inl e \<Rightarrow> (Inl e, st)
      | Inr (p, rq, _) \<Rightarrow>
          (case map_of (fa_contexts st) proof_id of
             None \<Rightarrow> (Inl (Runtime_Error ''settle attempted without verified context''), st)
           | Some c \<Rightarrow>
               let st = st\<lparr>fa_contexts := filter (\<lambda>(k, _). k \<noteq> proof_id) (fa_contexts st)\<rparr>
               in if vx_expires c \<le> now then (Inl (Runtime_Error ''verified context expired''), st) else (Inr (p, rq, vx_payer c), st)))"

record settled_candidate =
  sc_transaction :: string
  sc_payer :: string
  sc_network :: string
  sc_amount :: string
  sc_response_hash :: string
  sc_source :: string

definition settle_candidate :: "facilitator_lib \<Rightarrow> x402_payload \<Rightarrow> requirement \<Rightarrow> string \<Rightarrow> settled_candidate answer" where
  "settle_candidate fl p rq verified_payer =
     (case fl_settle fl p rq of
        Inl _ \<Rightarrow> Inl (Runtime_Error ''facilitator settlement status unknown'')
      | Inr r \<Rightarrow>
          let tx = (case sp_transaction r of None \<Rightarrow> [] | Some x \<Rightarrow> x); payer = (case sp_payer r of None \<Rightarrow> [] | Some x \<Rightarrow> x)
          in if \<not> sp_success r \<or> sp_network r \<noteq> BASE_NETWORK \<or> sp_amount r \<noteq> Some (rq_amount rq) \<or> \<not> hex_tx tx \<or> \<not> hex_address payer \<or>
                map latin_lower payer \<noteq> verified_payer
             then Inl (Runtime_Error ''facilitator settlement response ambiguous'')
             else Inr \<lparr>sc_transaction = map latin_lower tx, sc_payer = map latin_lower payer, sc_network = sp_network r, sc_amount = rq_amount rq,
               sc_response_hash = fl_sha256 fl (fl_response_text fl r), sc_source = ''payai.facilitator.accepted''\<rparr>)"

definition facilitator_settle ::
  "facilitator_lib \<Rightarrow> int \<Rightarrow> int \<Rightarrow> string \<Rightarrow> payment_request \<Rightarrow> facilitator \<Rightarrow> settled_candidate answer \<times> facilitator" where
  "facilitator_settle fl wall now signature ch st =
     (case settle_ready fl wall now signature ch st of
        (Inl e, st) \<Rightarrow> (Inl e, st)
      | (Inr (p, rq, payer), st) \<Rightarrow> (settle_candidate fl p rq payer, st))"

end
