(* ===== verification/Payments_Api.thy ===== *)
theory Payments_Api
  imports Payments_Ingress Payments_Facilitator
begin

text \<open>
  The HTTP boundary of the payments service (\<open>growthmap_payments/api.py\<close>): the rate limiter with its reservations, the authentication of
  administrators, and the routes. A route takes the state it works on and returns a reply with the new state; \<open>Status\<close> is an error reply (an
  exception that no route handles is a 500). The session verifier, the facilitator and the authority are parameters; times are microseconds.
\<close>

section \<open>Rate limiter\<close>

type_synonym bucket = "string \<times> string"

text \<open>A slot is an instant, with its owner when it was reserved.\<close>

type_synonym slot = "int \<times> int option"

record limiter =
  lm_rows :: "bucket \<Rightarrow> slot list"
  lm_sequence :: int

definition WINDOW :: int where
  "WINDOW = 60000000"

definition prune :: "int \<Rightarrow> slot list \<Rightarrow> slot list" where
  "prune now q = dropWhile (\<lambda>s. fst s < now - WINDOW) q"

definition limiter_check :: "nat \<Rightarrow> bucket \<Rightarrow> int \<Rightarrow> limiter \<Rightarrow> bool \<times> limiter" where
  "limiter_check limit k now lm =
     (let q = prune now (lm_rows lm k)
      in if length q \<ge> limit then (False, lm\<lparr>lm_rows := (lm_rows lm)(k := q)\<rparr>)
         else (True, lm\<lparr>lm_rows := (lm_rows lm)(k := q @ [(now, None)])\<rparr>))"

text \<open>The loop of \<open>reserve\<close> over the buckets: every one is pruned, the first full one ends it.\<close>

fun prune_buckets :: "nat \<Rightarrow> int \<Rightarrow> bucket list \<Rightarrow> (bucket \<Rightarrow> slot list) \<Rightarrow> bool \<times> (bucket \<Rightarrow> slot list)" where
  "prune_buckets limit now [] rows = (True, rows)"
| "prune_buckets limit now (k # ks) rows =
     (let q = prune now (rows k); rows = rows(k := q)
      in if length q \<ge> limit then (False, rows) else prune_buckets limit now ks rows)"

definition add_slot :: "slot \<Rightarrow> (bucket \<Rightarrow> slot list) \<Rightarrow> bucket \<Rightarrow> (bucket \<Rightarrow> slot list)" where
  "add_slot slot rows k = rows(k := rows k @ [slot])"

definition limiter_reserve :: "nat \<Rightarrow> bucket list \<Rightarrow> int \<Rightarrow> limiter \<Rightarrow> (bucket \<times> slot) list option \<times> limiter" where
  "limiter_reserve limit ks now lm =
     (case prune_buckets limit now ks (lm_rows lm) of
        (False, rows) \<Rightarrow> (None, lm\<lparr>lm_rows := rows\<rparr>)
      | (True, rows) \<Rightarrow>
          let owner = lm_sequence lm + 1; slot = (now, Some owner)
          in (Some (map (\<lambda>k. (k, slot)) ks), lm\<lparr>lm_rows := foldl (add_slot slot) rows ks, lm_sequence := owner\<rparr>))"

definition drop_slot :: "bucket list \<Rightarrow> (bucket \<Rightarrow> slot list) \<Rightarrow> bucket \<times> slot \<Rightarrow> (bucket \<Rightarrow> slot list)" where
  "drop_slot retained rows ks = (case ks of (k, slot) \<Rightarrow> if k \<in> set retained then rows else rows(k := remove1 slot (rows k)))"

definition limiter_retain :: "(bucket \<times> slot) list \<Rightarrow> bucket list \<Rightarrow> limiter \<Rightarrow> limiter" where
  "limiter_retain reservation retained lm = lm\<lparr>lm_rows := foldl (drop_slot retained) (lm_rows lm) reservation\<rparr>"

section \<open>Administrators\<close>

record api_config =
  ac_limit :: nat
  ac_admin_origin :: string
  ac_csrf_secret :: string
  ac_legacy_fixture :: bool
  ac_sha256 :: "string \<Rightarrow> string"

text \<open>What the authentication reads of a request; the answer of the session verifier may be an exception.\<close>

record admin_request =
  aq_ip :: string
  aq_authorization :: "string option"
  aq_csrf :: "string option"
  aq_origin :: string

definition MAX_TOKEN_CHARS :: nat where
  "MAX_TOKEN_CHARS = 4096"

definition bearer_token :: "admin_request \<Rightarrow> string" where
  "bearer_token aq = (let supplied = or_default (aq_authorization aq) [] in if starts_with ''Bearer '' supplied then drop 7 supplied else [])"

definition token_bounded :: "string \<Rightarrow> bool" where
  "token_bounded t \<longleftrightarrow> t \<noteq> [] \<and> length t \<le> MAX_TOKEN_CHARS \<and> utf8_length t \<le> MAX_TOKEN_CHARS"

definition fingerprint :: "api_config \<Rightarrow> admin_request \<Rightarrow> string" where
  "fingerprint ac aq =
     (let supplied = or_default (aq_authorization aq) []
      in take 24 (ac_sha256 ac (if length supplied \<le> MAX_TOKEN_CHARS + 7 then supplied else ''oversized'')))"

definition failed_bucket :: "string \<Rightarrow> bucket" where
  "failed_bucket ip = (''admin-ip-failed'', ip)"

definition token_accepted :: "(string \<Rightarrow> bool answer) \<Rightarrow> admin_request \<Rightarrow> bool" where
  "token_accepted verify aq \<longleftrightarrow> token_bounded (bearer_token aq) \<and> verify (bearer_token aq) = Inr True"

definition origin_and_csrf :: "api_config \<Rightarrow> admin_request \<Rightarrow> bool" where
  "origin_and_csrf ac aq \<longleftrightarrow>
     aq_origin aq = ac_admin_origin ac \<and> ac_csrf_secret ac \<noteq> [] \<and> or_default (aq_csrf aq) [] = ac_csrf_secret ac"

text \<open>\<open>admin\<close>: nothing, or the status of the refusal.\<close>

definition admin :: "api_config \<Rightarrow> (string \<Rightarrow> bool answer) \<Rightarrow> int \<Rightarrow> admin_request \<Rightarrow> limiter \<Rightarrow> int option \<times> limiter" where
  "admin ac verify now aq lm =
     (let coarse = failed_bucket (aq_ip aq);
          finger = (''admin-auth'', aq_ip aq @ '':'' @ fingerprint ac aq);
          action = (''admin-action'', aq_ip aq);
          limit = ac_limit ac
      in if ac_legacy_fixture ac
         then (if \<not> token_accepted verify aq
               then (case limiter_reserve limit [coarse, finger] now lm of
                   (None, lm) \<Rightarrow> (Some 429, lm) | (Some _, lm) \<Rightarrow> (Some 403, lm))
               else if \<not> origin_and_csrf ac aq
               then (case limiter_check limit coarse now lm of (False, lm) \<Rightarrow> (Some 429, lm) | (True, lm) \<Rightarrow> (Some 403, lm))
               else (case limiter_check limit action now lm of (False, lm) \<Rightarrow> (Some 429, lm) | (True, lm) \<Rightarrow> (None, lm)))
         else case limiter_reserve limit [coarse, finger, action] now lm of
           (None, lm) \<Rightarrow> (Some 429, lm)
         | (Some reservation, lm) \<Rightarrow>
             if \<not> token_accepted verify aq then (Some 403, limiter_retain reservation [coarse, finger] lm)
             else if \<not> origin_and_csrf ac aq then (Some 403, limiter_retain reservation [coarse] lm)
             else (None, limiter_retain reservation [action] lm))"

section \<open>Replies and routes of administrators\<close>

datatype 'a reply = Body 'a | Status int string

record 'f api_state =
  ap_service :: pay_state
  ap_limiter :: limiter
  ap_facilitator :: 'f

text \<open>An unhandled exception ends as a 500 of the middleware.\<close>

definition internal_error :: "'a reply" where
  "internal_error = Status 500 ''Internal server error''"

definition with_admin ::
  "api_config \<Rightarrow> (string \<Rightarrow> bool answer) \<Rightarrow> int \<Rightarrow> admin_request \<Rightarrow> (pay_state \<Rightarrow> 'a reply \<times> pay_state) \<Rightarrow> 'f api_state \<Rightarrow> 'a reply \<times> 'f api_state" where
  "with_admin ac verify now aq f st =
     (case admin ac verify now aq (ap_limiter st) of
        (Some code, lm) \<Rightarrow> (Status code (if code = 429 then ''rate limit'' else ''admin authentication failed''), st\<lparr>ap_limiter := lm\<rparr>)
      | (None, lm) \<Rightarrow> (case f (ap_service st) of (r, ps) \<Rightarrow> (r, st\<lparr>ap_limiter := lm, ap_service := ps\<rparr>)))"

definition list_orders :: "pay_config \<Rightarrow> pay_env \<Rightarrow> pay_state \<Rightarrow> pay_order list reply \<times> pay_state" where
  "list_orders cf env ps =
     (case trusted_tx cf env admin_list_orders ps of (Inl _, ps) \<Rightarrow> (internal_error, ps) | (Inr rs, ps) \<Rightarrow> (Body rs, ps))"

text \<open>An unknown status is refused before the ledger is opened.\<close>

definition whop_inbox :: "pay_config \<Rightarrow> pay_env \<Rightarrow> string option \<Rightarrow> pay_state \<Rightarrow> whop_row list reply \<times> pay_state" where
  "whop_inbox cf env status ps =
     (case list_whop_inbox status (ps_ledger ps) of
        Rollback (Inl _) \<Rightarrow> (Status 400 ''invalid Whop inbox status'', ps)
      | _ \<Rightarrow>
          (case trusted_tx cf env (list_whop_inbox status) ps of (Inl _, ps) \<Rightarrow> (internal_error, ps) | (Inr ws, ps) \<Rightarrow> (Body ws, ps)))"

definition authority_reconciliation :: "pay_config \<Rightarrow> pay_env \<Rightarrow> string option \<Rightarrow> pay_state \<Rightarrow> (outbox \<times> string option) list reply \<times> pay_state" where
  "authority_reconciliation cf env status ps =
     (case list_authority_reconciliation cf status (ps_ledger ps) of
        Rollback (Inl _) \<Rightarrow> (Status 400 ''invalid reconciliation status'', ps)
      | _ \<Rightarrow>
          (case trusted_tx cf env (list_authority_reconciliation cf status) ps of (Inl _, ps) \<Rightarrow> (internal_error, ps) | (Inr rows, ps) \<Rightarrow> (Body rows, ps)))"

text \<open>A \<open>ValueError\<close> or \<open>KeyError\<close> of the service is a conflict.\<close>

definition conflict :: "'a answer \<times> pay_state \<Rightarrow> 'a reply \<times> pay_state" where
  "conflict r =
     (case r of
        (Inr x, ps) \<Rightarrow> (Body x, ps)
      | (Inl e, ps) \<Rightarrow> (case e of Value_Error m \<Rightarrow> Status 409 m | Key_Error m \<Rightarrow> Status 409 m | _ \<Rightarrow> internal_error, ps))"

definition paypal_confirm_route ::
  "pay_config \<Rightarrow> pay_env \<Rightarrow> (string \<Rightarrow> (int \<times> int) option) \<Rightarrow> string \<Rightarrow> string \<Rightarrow> attestation \<Rightarrow> pay_state \<Rightarrow> pay_order reply \<times> pay_state" where
  "paypal_confirm_route cf env decimal oid transaction_id a ps = conflict (paypal_confirm cf env decimal oid transaction_id a ''admin'' ps)"

definition reconcile_route ::
  "pay_config \<Rightarrow> (nat \<Rightarrow> pay_env) \<Rightarrow> (intent \<Rightarrow> evidence option answer) option \<Rightarrow> string \<Rightarrow> pay_state \<Rightarrow> (pay_order + int) reply \<times> pay_state" where
  "reconcile_route cf env reconciler intent_id ps =
     (case reconciler of
        None \<Rightarrow> (Status 503 ''official reconciliation adapter blocked'', ps)
      | Some f \<Rightarrow> conflict (reconcile_intent cf env f intent_id ''admin-session'' ps))"

definition action_route :: "pay_config \<Rightarrow> pay_env \<Rightarrow> string \<Rightarrow> string \<Rightarrow> string option \<Rightarrow> pay_state \<Rightarrow> transition_answer reply \<times> pay_state" where
  "action_route cf env oid action reason ps =
     (case admin_transition cf env oid action reason ps of
        (Inr x, ps) \<Rightarrow> (Body x, ps)
      | (Inl e, ps) \<Rightarrow> (case e of Key_Error m \<Rightarrow> Status 404 m | Value_Error m \<Rightarrow> Status 409 m | _ \<Rightarrow> internal_error, ps))"

section \<open>Routes of the shop and of buyers\<close>

definition with_limit :: "api_config \<Rightarrow> string \<Rightarrow> string \<Rightarrow> int \<Rightarrow> ('f api_state \<Rightarrow> 'a reply \<times> 'f api_state) \<Rightarrow> 'f api_state \<Rightarrow> 'a reply \<times> 'f api_state" where
  "with_limit ac bucket_name ip now f st =
     (case limiter_check (ac_limit ac) (bucket_name, ip) now (ap_limiter st) of
        (False, lm) \<Rightarrow> (Status 429 ''rate limit'', st\<lparr>ap_limiter := lm\<rparr>)
      | (True, lm) \<Rightarrow> f (st\<lparr>ap_limiter := lm\<rparr>))"

text \<open>\<open>verifier\<close> is the shop's verifier, if there is one: authenticated bytes from a bounded request.\<close>

definition whop_webhook ::
  "runtime \<Rightarrow> (string \<Rightarrow> string option) \<Rightarrow> (string \<Rightarrow> (string \<times> string) list \<Rightarrow> string answer) option \<Rightarrow> pay_config \<Rightarrow> (nat \<Rightarrow> pay_env) \<Rightarrow>
   string \<Rightarrow> (string \<times> string) list \<Rightarrow> pay_state \<Rightarrow> string reply \<times> pay_state" where
  "whop_webhook rt utf8 verifier cf env raw raw_headers ps =
     (case verifier of
        None \<Rightarrow> (Status 503 ''temporarily_unavailable'', ps)
      | Some verify \<Rightarrow>
          (case and_then (bounded_signature_headers utf8 raw_headers) (\<lambda>headers.
             and_then (bounded_request raw headers) (\<lambda>(bounded, headers).
             and_then (verify bounded headers) (\<lambda>authenticated.
             and_then (parse_verified_event rt authenticated) (\<lambda>event. Inr (event, rt_sha256 rt bounded))))) of
             Inl _ \<Rightarrow> (Status 400 ''not_accepted'', ps)
           | Inr (event, digest) \<Rightarrow>
               (case receive_whop_event cf env event digest 3 ps of
                  (Inl _, ps) \<Rightarrow> (Status 400 ''not_accepted'', ps)
                | (Inr _, ps) \<Rightarrow> (Body ''accepted'', ps))))"

definition create_order_route ::
  "pay_config \<Rightarrow> pay_env \<Rightarrow> string \<Rightarrow> string \<Rightarrow> string \<Rightarrow> 'f api_state \<Rightarrow> (pay_order \<times> string) reply \<times> 'f api_state" where
  "create_order_route cf env rail email license_name st =
     (case create_order cf env rail email license_name (ap_service st) of
        (Inl (Value_Error m), ps) \<Rightarrow> (Status 422 m, st\<lparr>ap_service := ps\<rparr>)
      | (Inl _, ps) \<Rightarrow> (internal_error, st\<lparr>ap_service := ps\<rparr>)
      | (Inr x, ps) \<Rightarrow> (Body x, st\<lparr>ap_service := ps\<rparr>))"

definition paypal_submit_route :: "pay_config \<Rightarrow> pay_env \<Rightarrow> string \<Rightarrow> string \<Rightarrow> 'f api_state \<Rightarrow> string reply \<times> 'f api_state" where
  "paypal_submit_route cf env oid transaction_id st =
     (case paypal_submit cf env oid transaction_id (ap_service st) of
        (Inl (Value_Error m), ps) \<Rightarrow> (Status 409 m, st\<lparr>ap_service := ps\<rparr>)
      | (Inl _, ps) \<Rightarrow> (internal_error, st\<lparr>ap_service := ps\<rparr>)
      | (Inr _, ps) \<Rightarrow> (Body ''pending_payment'', st\<lparr>ap_service := ps\<rparr>))"

section \<open>Purchases\<close>

text \<open>What a facilitator answers to a settlement: a candidate whose finality is open, or a settlement of its own word.\<close>

datatype settled_reply = Pending settled_candidate | Settled bool settlement

record 'f facilitator_client =
  fc_verify :: "string \<Rightarrow> payment_request \<Rightarrow> 'f \<Rightarrow> verified_payment answer \<times> 'f"
  fc_settle :: "string \<Rightarrow> payment_request \<Rightarrow> 'f \<Rightarrow> settled_reply answer \<times> 'f"

definition official_client :: "facilitator_lib \<Rightarrow> facilitator_config \<Rightarrow> int \<Rightarrow> int \<Rightarrow> facilitator facilitator_client" where
  "official_client fl fg wall now =
     \<lparr>fc_verify = facilitator_verify fl fg wall now,
      fc_settle = (\<lambda>s ch st. case facilitator_settle fl wall now s ch st of (r, st) \<Rightarrow> (map_sum id Pending r, st))\<rparr>"

text \<open>From the answer of the facilitator to the ledger; \<open>to_int\<close> is \<open>int()\<close> on text.\<close>

definition record_settled ::
  "pay_config \<Rightarrow> (nat \<Rightarrow> pay_env) \<Rightarrow> (string \<Rightarrow> int option) \<Rightarrow> string \<Rightarrow> settled_reply \<Rightarrow> pay_state \<Rightarrow> unit answer \<times> pay_state" where
  "record_settled cf env to_int intent_id settled ps =
     (case settled of
        Pending s \<Rightarrow>
          (case to_int (sc_amount s) of
             None \<Rightarrow> (Inl (Value_Error ''amount''), ps)
           | Some amount \<Rightarrow>
               (case record_settlement_candidate cf (env 2) \<lparr>cd_intent_id = intent_id, cd_tx_hash = sc_transaction s, cd_payer = sc_payer s,
                   cd_network = sc_network s, cd_amount = amount, cd_source = sc_source s, cd_observed_at = pv_now (env 2),
                   cd_response_hash = sc_response_hash s\<rparr> ps of
                  (Inl e, ps) \<Rightarrow> (Inl e, ps)
                | (Inr _, ps) \<Rightarrow> (Inl (Runtime_Error ''settlement candidate recorded; independent finality required''), ps)))
      | Settled success s \<Rightarrow>
          if \<not> success then (Inl (Runtime_Error ''ambiguous''), ps)
          else (case record_settlement_result cf (env 2) intent_id s ''facilitator'' ps of
              (Inl e, ps) \<Rightarrow> (Inl e, ps)
            | (Inr _, ps) \<Rightarrow>
                (case trusted_tx cf (env 3) (finalize_x402_intent cf (env 3) intent_id) ps of (Inl e, ps) \<Rightarrow> (Inl e, ps) | (Inr _, ps) \<Rightarrow> (Inr (), ps))))"

text \<open>The part of a purchase before settlement: the challenge, the facilitator's verdict, the intent; \<open>None\<close> for a request without payment.\<close>

definition verified_intent ::
  "'f facilitator_client \<Rightarrow> pay_config \<Rightarrow> (nat \<Rightarrow> pay_env) \<Rightarrow> (string \<Rightarrow> int option) \<Rightarrow> string \<Rightarrow> string \<Rightarrow> payment_request \<Rightarrow> 'f api_state \<Rightarrow> string answer \<times> 'f api_state" where
  "verified_intent client cf env to_int oid signature ch st =
     (case fc_verify client signature ch (ap_facilitator st) of
        (Inl e, fs) \<Rightarrow> (Inl e, st\<lparr>ap_facilitator := fs\<rparr>)
      | (Inr v, fs) \<Rightarrow>
          (case to_int (vp_amount v) of
             None \<Rightarrow> (Inl (Value_Error ''amount''), st\<lparr>ap_facilitator := fs\<rparr>)
           | Some amount \<Rightarrow>
               (case trusted_tx cf (env 1) (prepare_x402_intent cf (env 1) oid (vp_proof_id v) (vp_nonce v) amount (Some (vp_payer v))) (ap_service st) of
                  (Inl e, ps) \<Rightarrow> (Inl e, st\<lparr>ap_facilitator := fs, ap_service := ps\<rparr>)
                | (Inr (intent_id, _), ps) \<Rightarrow> (Inr intent_id, st\<lparr>ap_facilitator := fs, ap_service := ps\<rparr>))))"

text \<open>\<open>deliver\<close> hands the entitlement of the order to the authority, if there is one.\<close>

definition purchase ::
  "'f facilitator_client option \<Rightarrow> (pay_state \<Rightarrow> unit answer \<times> pay_state) option \<Rightarrow> pay_config \<Rightarrow> (nat \<Rightarrow> pay_env) \<Rightarrow> (string \<Rightarrow> int option) \<Rightarrow>
   string \<Rightarrow> string option \<Rightarrow> 'f api_state \<Rightarrow> string reply \<times> 'f api_state" where
  "purchase facilitator deliver cf env to_int oid payment_signature st =
     (case trusted_tx cf (env 0) (payment_challenge cf (env 0) oid) (ap_service st) of
        (Inl e, ps) \<Rightarrow> (case e of Key_Error m \<Rightarrow> Status 410 m | Value_Error m \<Rightarrow> Status 410 m | _ \<Rightarrow> internal_error, st\<lparr>ap_service := ps\<rparr>)
      | (Inr ch, ps) \<Rightarrow>
          let st = st\<lparr>ap_service := ps\<rparr> in
          if \<not> truthy payment_signature then (Status 402 ''payment_required'', st)
          else case facilitator of
            None \<Rightarrow> (Status 503 ''official facilitator integration blocked'', st)
          | Some client \<Rightarrow>
              (case verified_intent client cf env to_int oid (the payment_signature) ch st of
                 (Inl e, st) \<Rightarrow> (case e of Value_Error m \<Rightarrow> Status 409 m | _ \<Rightarrow> internal_error, st)
               | (Inr intent_id, st) \<Rightarrow>
                   (case fc_settle client (the payment_signature) ch (ap_facilitator st) of
                      (settled, fs) \<Rightarrow>
                        (case (case settled of Inl e \<Rightarrow> (Inl e, ap_service st) | Inr s \<Rightarrow> record_settled cf env to_int intent_id s (ap_service st)) of
                           (Inl e, ps) \<Rightarrow>
                             (case trusted_tx cf (env 4) (mark_intent_ambiguous cf (env 4) intent_id (error_message e)) ps of
                                (Inl _, ps) \<Rightarrow> (internal_error, st\<lparr>ap_facilitator := fs, ap_service := ps\<rparr>)
                              | (Inr _, ps) \<Rightarrow>
                                  (Status 409 ''settlement ambiguous; manual reconciliation required; never automatically retried'',
                                   st\<lparr>ap_facilitator := fs, ap_service := ps\<rparr>))
                         | (Inr _, ps) \<Rightarrow>
                             (case deliver of
                                None \<Rightarrow> (Body ''payment_settled_activation_pending'', st\<lparr>ap_facilitator := fs, ap_service := ps\<rparr>)
                              | Some d \<Rightarrow>
                                  (case d ps of
                                     (Inl _, ps) \<Rightarrow> (Body ''payment_settled_activation_pending'', st\<lparr>ap_facilitator := fs, ap_service := ps\<rparr>)
                                   | (Inr _, ps) \<Rightarrow> (Body ''activation_required'', st\<lparr>ap_facilitator := fs, ap_service := ps\<rparr>)))))))"

section \<open>Activation\<close>

definition strict_body :: "runtime \<Rightarrow> string list \<Rightarrow> string \<Rightarrow> members option" where
  "strict_body rt names raw =
     (if raw = [] \<or> length raw > 8192 then None
      else case rt_loads rt raw of
        Inl _ \<Rightarrow> None
      | Inr v \<Rightarrow>
          (case v of
             PyDict ms \<Rightarrow>
               if strict_object (rt_casefold rt) v \<and> dict_keys ms = set names \<and> list_all (\<lambda>k. py_is_str (dict_item ms k)) names then Some ms else None
           | _ \<Rightarrow> None))"

text \<open>\<open>issue\<close> and \<open>activation\<close> are the calls of the authority, with its state.\<close>

definition activation_challenge_route ::
  "runtime \<Rightarrow> (string \<Rightarrow> string \<Rightarrow> 'a \<Rightarrow> 'c answer \<times> 'a) option \<Rightarrow> pay_config \<Rightarrow> pay_env \<Rightarrow> string \<Rightarrow> pay_state \<Rightarrow> 'a \<Rightarrow> 'c reply \<times> 'a" where
  "activation_challenge_route rt issue cf env raw ps au =
     (let unavailable = Status 404 ''not_found_or_unavailable'' in
      case issue of
        None \<Rightarrow> (unavailable, au)
      | Some f \<Rightarrow>
          (case strict_body rt [''order_id'', ''recovery_code'', ''device_public_key''] raw of
             None \<Rightarrow> (unavailable, au)
           | Some ms \<Rightarrow>
               (case (if 256 < length (text_item ms ''recovery_code'') then Inr None
                  else fst (trusted_tx cf env (authenticated_entitlement cf (text_item ms ''order_id'') (text_item ms ''recovery_code'')) ps)) of
                  Inl _ \<Rightarrow> (internal_error, au)
                | Inr None \<Rightarrow> (unavailable, au)
                | Inr (Some r) \<Rightarrow>
                    (case f (the (od_license_id r)) (text_item ms ''device_public_key'') au of
                       (Inr c, au) \<Rightarrow> (Body c, au)
                     | (Inl e, au) \<Rightarrow> (case e of Value_Error _ \<Rightarrow> unavailable | Type_Error \<Rightarrow> unavailable | _ \<Rightarrow> internal_error, au)))))"

definition activation_complete_route ::
  "runtime \<Rightarrow> (string \<Rightarrow> string \<Rightarrow> 'a \<Rightarrow> 'c answer \<times> 'a) option \<Rightarrow> string \<Rightarrow> 'a \<Rightarrow> 'c reply \<times> 'a" where
  "activation_complete_route rt activation raw au =
     (let unavailable = Status 404 ''not_found_or_unavailable'' in
      case activation of
        None \<Rightarrow> (unavailable, au)
      | Some f \<Rightarrow>
          (case strict_body rt [''challenge_id'', ''proof''] raw of
             None \<Rightarrow> (unavailable, au)
           | Some ms \<Rightarrow>
               (case f (text_item ms ''challenge_id'') (text_item ms ''proof'') au of
                  (Inr c, au) \<Rightarrow> (Body c, au)
                | (Inl e, au) \<Rightarrow> (case e of Value_Error _ \<Rightarrow> unavailable | Type_Error \<Rightarrow> unavailable | _ \<Rightarrow> internal_error, au))))"

end
