(* ===== verification/Payments_Boundary.thy ===== *)
theory Payments_Boundary
  imports Payments_Api Payments_Settlement
begin

text \<open>
  Promises of the HTTP boundary of the payments service: the facilitator is asked to settle once per fresh verification, its word alone never
  confirms an order, and guessing the credentials of the administrator is bounded per client and minute.
\<close>

section \<open>Settlement at the facilitator\<close>

text \<open>What the facilitator's client was asked: verifications that succeeded, with payer and instant, and settlements.\<close>

datatype facilitator_event = Verified string string int | Asked_To_Settle string string int

inductive facilitator_run :: "facilitator_lib \<Rightarrow> facilitator_config \<Rightarrow> facilitator_event list \<Rightarrow> facilitator \<Rightarrow> bool"
  for fl :: facilitator_lib and fg :: facilitator_config where
  run_start: "facilitator_run fl fg [] \<lparr>fa_contexts = []\<rparr>"
| run_verify: "facilitator_run fl fg es st \<Longrightarrow> facilitator_verify fl fg wall now signature ch st = (Inr v, st') \<Longrightarrow>
    facilitator_run fl fg (es @ [Verified (vp_proof_id v) (map latin_lower (vp_payer v)) now]) st'"
| run_refuse: "facilitator_run fl fg es st \<Longrightarrow> facilitator_verify fl fg wall now signature ch st = (Inl e, st') \<Longrightarrow> facilitator_run fl fg es st'"
| run_settle: "facilitator_run fl fg es st \<Longrightarrow> settle_ready fl wall now signature ch st = (Inr (p, rq, payer), st') \<Longrightarrow>
    facilitator_run fl fg (es @ [Asked_To_Settle (fl_sha256 fl signature) payer now]) st'"
| run_not_ready: "facilitator_run fl fg es st \<Longrightarrow> settle_ready fl wall now signature ch st = (Inl e, st') \<Longrightarrow> facilitator_run fl fg es st'"

text \<open>A verification no settlement of the same proof has followed yet.\<close>

definition unused :: "facilitator_config \<Rightarrow> facilitator_event list \<Rightarrow> string \<Rightarrow> string \<Rightarrow> int \<Rightarrow> bool" where
  "unused fg es pid payer expires \<longleftrightarrow>
     (\<exists>before after t. es = before @ Verified pid payer t # after \<and> expires = t + fg_context_ttl fg \<and>
        (\<forall>payer' t'. Asked_To_Settle pid payer' t' \<notin> set after))"

definition contexts_ok :: "facilitator_config \<Rightarrow> facilitator_event list \<Rightarrow> facilitator \<Rightarrow> bool" where
  "contexts_ok fg es st \<longleftrightarrow> (\<forall>(pid, c)\<in>set (fa_contexts st). unused fg es pid (vx_payer c) (vx_expires c))"

lemma unused_append:
  assumes "unused fg es pid payer expires" "\<And>payer' t'. e \<noteq> Asked_To_Settle pid payer' t'"
  shows "unused fg (es @ [e]) pid payer expires"
proof -
  obtain before after t where u: "es = before @ Verified pid payer t # after" "expires = t + fg_context_ttl fg"
    "\<forall>payer' t'. Asked_To_Settle pid payer' t' \<notin> set after"
    using assms(1) unfolding unused_def by blast
  then have "es @ [e] = before @ Verified pid payer t # (after @ [e])" "\<forall>payer' t'. Asked_To_Settle pid payer' t' \<notin> set (after @ [e])"
    using assms(2) by (auto dest: sym)
  then show ?thesis using u(2) unfolding unused_def by blast
qed

lemma verify_Inr:
  assumes "facilitator_verify fl fg wall now signature ch st = (Inr v, st')"
  shows "\<exists>c. fa_contexts st' = filter (\<lambda>(_, c). vx_expires c > now) (fa_contexts st) @ [(vp_proof_id v, c)] \<and>
    vx_payer c = map latin_lower (vp_payer v) \<and> vx_expires c = now + fg_context_ttl fg"
  using assms by (auto simp: facilitator_verify_def Let_def split: sum.splits prod.splits if_splits)

lemma verify_refused_contexts: "facilitator_verify fl fg wall now signature ch st = (Inl e, st') \<Longrightarrow> set (fa_contexts st') \<subseteq> set (fa_contexts st)"
  by (auto simp: facilitator_verify_def Let_def split: sum.splits prod.splits if_splits)

lemma settle_ready_contexts:
  "settle_ready fl wall now signature ch st = (r, st') \<Longrightarrow> set (fa_contexts st') \<subseteq> set (fa_contexts st)"
  by (auto simp: settle_ready_def Let_def split: sum.splits prod.splits if_splits option.splits)

lemma settle_ready_Inr:
  assumes "settle_ready fl wall now signature ch st = (Inr (p, rq, payer), st')"
  shows "\<exists>c. (fl_sha256 fl signature, c) \<in> set (fa_contexts st) \<and> vx_payer c = payer \<and> now < vx_expires c \<and>
    (\<forall>c'. (fl_sha256 fl signature, c') \<notin> set (fa_contexts st'))"
  using assms
  by (auto simp: settle_ready_def Let_def dest: map_of_SomeD split: sum.splits prod.splits if_splits option.splits)

lemma facilitator_run_contexts: "facilitator_run fl fg es st \<Longrightarrow> contexts_ok fg es st"
proof (induction rule: facilitator_run.induct)
  case (run_verify es st wall now signature ch v st')
  let ?e = "Verified (vp_proof_id v) (map latin_lower (vp_payer v)) now"
  have old: "unused fg (es @ [?e]) pid (vx_payer c) (vx_expires c)" if "(pid, c) \<in> set (fa_contexts st)" for pid c
    using run_verify.IH that by (auto simp: contexts_ok_def intro: unused_append)
  have new: "unused fg (es @ [?e]) (vp_proof_id v) (map latin_lower (vp_payer v)) (now + fg_context_ttl fg)"
    unfolding unused_def by fastforce
  show ?case using verify_Inr [OF run_verify.hyps(2)] old new unfolding contexts_ok_def by auto
next
  case (run_settle es st wall now signature ch p rq payer st')
  have "pid \<noteq> fl_sha256 fl signature" if "(pid, c) \<in> set (fa_contexts st')" for pid c
    using settle_ready_Inr [OF run_settle.hyps(2)] that by blast
  then show ?case
    using run_settle.IH settle_ready_contexts [OF run_settle.hyps(2)] unfolding contexts_ok_def by (fastforce intro: unused_append)
qed (auto simp: contexts_ok_def dest: verify_refused_contexts settle_ready_contexts)

text \<open>Every settlement the client was asked for answers an earlier verification of the same proof and payer that is recent and that none before it answers.\<close>

lemma settle_follows_verification:
  assumes "facilitator_run fl fg es st" "es = before @ Asked_To_Settle pid payer t # after"
  shows "\<exists>expires. t < expires \<and> unused fg before pid payer expires"
  using assms
proof (induction arbitrary: before after rule: facilitator_run.induct)
  case (run_verify es st wall now signature ch v st')
  then obtain after' where "es = before @ Asked_To_Settle pid payer t # after'" by (cases after rule: rev_cases) auto
  then show ?case by (rule run_verify.IH)
next
  case (run_settle es st wall now signature ch p rq payer' st')
  show ?case
  proof (cases after rule: rev_cases)
    case Nil
    then have e: "es = before" "pid = fl_sha256 fl signature" "payer' = payer" "now = t" using run_settle.prems by auto
    obtain c where "(pid, c) \<in> set (fa_contexts st)" "vx_payer c = payer" "t < vx_expires c"
      using settle_ready_Inr [OF run_settle.hyps(2)] e by blast
    then show ?thesis using facilitator_run_contexts [OF run_settle.hyps(1)] e(1) by (auto simp: contexts_ok_def)
  next
    case (snoc after' e)
    then have "es = before @ Asked_To_Settle pid payer t # after'" using run_settle.prems by simp
    then show ?thesis by (rule run_settle.IH)
  qed
qed auto

section \<open>Purchases\<close>

definition confirmed_orders :: "ledger \<Rightarrow> string set" where
  "confirmed_orders db = od_id ` {r \<in> set (lg_orders db). od_state r \<in> {''payment_confirmed'', ''license_issued''}}"

lemma confirmed_set_state:
  assumes "set_order_state env oid s db = Inr db'" "s \<notin> {''payment_confirmed'', ''license_issued''}"
  shows "confirmed_orders db' \<subseteq> confirmed_orders db"
  using assms by (auto simp: set_order_state_def update_order_Inr confirmed_orders_def set_row_update split: if_splits)

lemma confirmed_same_orders: "lg_orders db' = lg_orders db \<Longrightarrow> confirmed_orders db' = confirmed_orders db"
  by (simp add: confirmed_orders_def)

lemma confirmed_bumped [simp]: "confirmed_orders (bumped db) = confirmed_orders db"
  by (simp add: confirmed_orders_def bumped_def)

lemma confirmed_trusted_tx:
  assumes "trusted_tx cf env f st = (r, st')" "\<And>db x. f (ps_ledger st) = Commit db x \<Longrightarrow> confirmed_orders db \<subseteq> confirmed_orders (ps_ledger st)"
  shows "confirmed_orders (ps_ledger st') \<subseteq> confirmed_orders (ps_ledger st)"
  using trusted_tx_ledger [OF assms(1)] assms(2) by auto

lemma audit_orders: "pay_audit cf env n actor operation obj data db = Inr db' \<Longrightarrow> lg_orders db' = lg_orders db"
  by (auto simp: pay_audit_Inr Let_def)

lemma make_ambiguous_confirmed: "make_ambiguous env i db = Inr db' \<Longrightarrow> confirmed_orders db' \<subseteq> confirmed_orders db"
  by (auto simp: make_ambiguous_def result_simps update_intent_Inr dest!: confirmed_set_state) (auto simp: confirmed_orders_def)

lemma stale_quote_confirmed: "stale_quote cf env actor oid data db = Inr db' \<Longrightarrow> confirmed_orders db' \<subseteq> confirmed_orders db"
  by (auto simp: stale_quote_def result_simps dest!: confirmed_set_state audit_orders confirmed_same_orders)

lemma prepare_confirmed:
  assumes "prepare_x402_intent cf env oid proof_id nonce amount payer db = Commit db' r"
  shows "confirmed_orders db' \<subseteq> confirmed_orders db"
  using assms
  by (auto simp: prepare_x402_intent_def tx_simps Let_def insert_intent_Inr dest!: stale_quote_confirmed audit_orders confirmed_same_orders
    split: option.splits if_splits sum.splits) (auto simp: confirmed_orders_def)

lemma candidate_confirmed:
  assumes "record_settlement_candidate_tx cf env c db = Commit db' r"
  shows "confirmed_orders db' \<subseteq> confirmed_orders db"
proof -
  obtain db1 db2 db3 oid where s: "set_order_state env oid ''manual_review'' db2 = Inr db3" and o: "lg_orders db2 = lg_orders db" "lg_orders db' = lg_orders db3"
    using assms
    by (auto simp: record_settlement_candidate_tx_def tx_simps Let_def update_intent_Inr dest!: insert_candidate_Inr audit_orders
      split: option.splits if_splits sum.splits)
  then show ?thesis using confirmed_set_state [OF s] confirmed_same_orders [OF o(1)] confirmed_same_orders [OF o(2)] by simp
qed

lemma mark_confirmed:
  assumes "mark_intent_ambiguous cf env intent_id reason db = Commit db' r"
  shows "confirmed_orders db' \<subseteq> confirmed_orders db"
  using assms
  by (auto simp: mark_intent_ambiguous_def tx_simps dest!: make_ambiguous_confirmed audit_orders confirmed_same_orders split: option.splits if_splits)

lemma verified_intent_confirmed:
  "verified_intent client cf env to_int oid signature ch st = (r, st') \<Longrightarrow>
     confirmed_orders (ps_ledger (ap_service st')) \<subseteq> confirmed_orders (ps_ledger (ap_service st))"
  by (auto simp: verified_intent_def split: prod.splits sum.splits option.splits
    dest!: confirmed_trusted_tx [OF _ prepare_confirmed])

lemma record_pending_confirmed:
  assumes "record_settled cf env to_int intent_id (Pending s) ps = (r, ps')"
  shows "(\<exists>e. r = Inl e) \<and> confirmed_orders (ps_ledger ps') \<subseteq> confirmed_orders (ps_ledger ps)"
  using assms
  by (auto simp: record_settled_def record_settlement_candidate_def split: option.splits prod.splits sum.splits if_splits
    dest!: confirmed_trusted_tx [OF _ candidate_confirmed])

text \<open>
  C32: A purchase through the official facilitator always ends in an error reply and confirms no order, whatever the facilitator answers: its
  acceptance leaves at most a settlement candidate, which only independent evidence of finality can promote.
\<close>

theorem facilitator_cannot_confirm:
  "case purchase (Some (official_client fl fg wall now)) deliver cf env to_int oid payment_signature st of
     (reply, st') \<Rightarrow> (\<exists>code m. reply = Status code m) \<and>
       confirmed_orders (ps_ledger (ap_service st')) \<subseteq> confirmed_orders (ps_ledger (ap_service st))"
proof -
  let ?client = "official_client fl fg wall now"
  have challenge: "ps' = ps" if "trusted_tx cf (env 0) (payment_challenge cf (env 0) oid) ps = (x, ps')" for ps ps' x
    using that by (auto simp: trusted_tx_def payment_challenge_def split: sum.splits)
  have settled: "(\<exists>e. x = Inl e) \<and> confirmed_orders (ps_ledger ps') \<subseteq> confirmed_orders (ps_ledger ps)"
    if "record_settled cf env to_int intent_id s ps = (x, ps')" "map_sum id Pending z = Inr s" for s z ps ps' x intent_id
    using that by (cases z) (auto dest: record_pending_confirmed)
  have marked: "confirmed_orders (ps_ledger ps') \<subseteq> confirmed_orders (ps_ledger ps)"
    if "trusted_tx cf (env 4) (mark_intent_ambiguous cf (env 4) intent_id m) ps = (x, ps')" for ps ps' x intent_id m
    by (rule confirmed_trusted_tx [OF that]) (rule mark_confirmed)
  show ?thesis
    by (auto simp: purchase_def Let_def internal_error_def official_client_def split: prod.splits sum.splits option.splits failure.splits
      dest!: challenge marked verified_intent_confirmed) (blast dest: settled)+
qed

section \<open>Guessing credentials\<close>

text \<open>A sequence of requests that use the limiter, each with its instant: to routes of the administrator and to limited routes of buyers.\<close>

datatype limited_call = Admin_Call admin_request | Order_Call string | Activation_Call string

fun limited_run :: "api_config \<Rightarrow> (string \<Rightarrow> bool answer) \<Rightarrow> (int \<times> limited_call) list \<Rightarrow> limiter \<Rightarrow> (int \<times> admin_request \<times> int option) list" where
  "limited_run ac verify [] lm = []"
| "limited_run ac verify ((now, Admin_Call aq) # calls) lm =
     (case admin ac verify now aq lm of (r, lm') \<Rightarrow> (now, aq, r) # limited_run ac verify calls lm')"
| "limited_run ac verify ((now, Order_Call ip) # calls) lm = limited_run ac verify calls (snd (limiter_check (ac_limit ac) (''orders'', ip) now lm))"
| "limited_run ac verify ((now, Activation_Call ip) # calls) lm = limited_run ac verify calls (snd (limiter_check (ac_limit ac) (''activation'', ip) now lm))"

definition refused_since :: "int \<Rightarrow> string \<Rightarrow> (int \<times> admin_request \<times> int option) list \<Rightarrow> (int \<times> admin_request \<times> int option) list" where
  "refused_since u ip outcomes = filter (\<lambda>(t, aq, r). u \<le> t \<and> aq_ip aq = ip \<and> r = Some 403) outcomes"

definition slots_since :: "int \<Rightarrow> slot list \<Rightarrow> nat" where
  "slots_since u q = length (filter (\<lambda>s. u \<le> fst s) q)"

lemma slots_since_le: "slots_since u q \<le> length q"
  by (simp add: slots_since_def)

lemma slots_since_append: "slots_since u (q @ [s]) = slots_since u q + (if u \<le> fst s then 1 else 0)"
  by (simp add: slots_since_def)

lemma slots_since_prune: "now - WINDOW \<le> u \<Longrightarrow> slots_since u (prune now q) = slots_since u q"
  by (induction q) (auto simp: slots_since_def prune_def)

lemma slots_since_remove: "slots_since u (remove1 s (q @ [s])) = slots_since u q"
  by (induction q) (auto simp: slots_since_def)

lemmas slots_simps = slots_since_append slots_since_prune slots_since_remove

text \<open>What an attempt does to the failures remembered of its client, and to those of others.\<close>

lemma admin_other: "admin ac verify now aq lm = (r, lm') \<Longrightarrow> ip \<noteq> aq_ip aq \<Longrightarrow> lm_rows lm' (failed_bucket ip) = lm_rows lm (failed_bucket ip)"
  by (auto simp: admin_def Let_def failed_bucket_def limiter_reserve_def limiter_check_def limiter_retain_def drop_slot_def add_slot_def
    split: if_splits option.splits prod.splits bool.splits)

lemma admin_refused:
  assumes "admin ac verify now aq lm = (Some 403, lm')" "now - WINDOW \<le> u"
  defines "q \<equiv> lm_rows lm (failed_bucket (aq_ip aq))"
  shows "slots_since u (lm_rows lm' (failed_bucket (aq_ip aq))) = slots_since u q + (if u \<le> now then 1 else 0)" "slots_since u q < ac_limit ac"
proof -
  have "length (prune now q) < ac_limit ac \<and> (\<exists>s. fst s = now \<and> lm_rows lm' (failed_bucket (aq_ip aq)) = prune now q @ [s])"
    using assms(1)
    by (auto simp: q_def admin_def Let_def failed_bucket_def limiter_reserve_def limiter_check_def limiter_retain_def drop_slot_def add_slot_def
      split: if_splits option.splits prod.splits bool.splits)
  then show "slots_since u (lm_rows lm' (failed_bucket (aq_ip aq))) = slots_since u q + (if u \<le> now then 1 else 0)" "slots_since u q < ac_limit ac"
    using assms(2) slots_since_le [of u "prune now q"] by (auto simp: slots_simps)
qed

lemma admin_not_refused:
  assumes "admin ac verify now aq lm = (r, lm')" "r \<noteq> Some 403" "now - WINDOW \<le> u"
  shows "slots_since u (lm_rows lm' (failed_bucket (aq_ip aq))) = slots_since u (lm_rows lm (failed_bucket (aq_ip aq)))"
  using assms
  by (auto simp: admin_def Let_def failed_bucket_def limiter_reserve_def limiter_check_def limiter_retain_def drop_slot_def add_slot_def slots_simps
    split: if_splits option.splits prod.splits bool.splits)

lemma check_other: "bucket_name \<noteq> ''admin-ip-failed'' \<Longrightarrow> lm_rows (snd (limiter_check limit (bucket_name, ip) now lm)) (failed_bucket ip') = lm_rows lm (failed_bucket ip')"
  by (simp add: limiter_check_def Let_def failed_bucket_def)

definition refused_within :: "int \<Rightarrow> string \<Rightarrow> (int \<times> admin_request \<times> int option) list \<Rightarrow> (int \<times> admin_request \<times> int option) list" where
  "refused_within t ip outcomes = filter (\<lambda>(s, aq, r). t - WINDOW \<le> s \<and> s \<le> t \<and> aq_ip aq = ip \<and> r = Some 403) outcomes"

definition remembers_failures :: "int \<Rightarrow> (int \<times> admin_request \<times> int option) list \<Rightarrow> limiter \<Rightarrow> bool" where
  "remembers_failures now past lm \<longleftrightarrow>
     (\<forall>ip u. now - WINDOW \<le> u \<longrightarrow> length (refused_since u ip past) \<le> slots_since u (lm_rows lm (failed_bucket ip)))"

lemma refused_since_snoc:
  "refused_since u ip (past @ [(now, aq, r)]) = refused_since u ip past @ (if u \<le> now \<and> aq_ip aq = ip \<and> r = Some 403 then [(now, aq, r)] else [])"
  by (simp add: refused_since_def)

lemma refused_within_snoc:
  "refused_within t ip (past @ [(now, aq, r)]) =
     refused_within t ip past @ (if t - WINDOW \<le> now \<and> now \<le> t \<and> aq_ip aq = ip \<and> r = Some 403 then [(now, aq, r)] else [])"
  by (simp add: refused_within_def)

lemma refused_within_since: "length (refused_within t ip past) \<le> length (refused_since (t - WINDOW) ip past)"
  by (induction past) (auto simp: refused_within_def refused_since_def)

lemma remembers_admin:
  assumes "admin ac verify now aq lm = (r, lm')" "remembers_failures before past lm" "before \<le> now"
  shows "remembers_failures now (past @ [(now, aq, r)]) lm'"
  unfolding remembers_failures_def
proof (intro allI impI)
  fix ip u assume u: "now - WINDOW \<le> u"
  have old: "length (refused_since u ip past) \<le> slots_since u (lm_rows lm (failed_bucket ip))"
    using assms(2,3) u by (simp add: remembers_failures_def)
  show "length (refused_since u ip (past @ [(now, aq, r)])) \<le> slots_since u (lm_rows lm' (failed_bucket ip))"
  proof (cases "aq_ip aq = ip \<and> r = Some 403")
    case True
    then show ?thesis using old admin_refused(1) [OF _ u] assms(1) by (auto simp: refused_since_snoc)
  next
    case False
    then have "slots_since u (lm_rows lm' (failed_bucket ip)) = slots_since u (lm_rows lm (failed_bucket ip))"
      using admin_other [OF assms(1)] admin_not_refused [OF assms(1) _ u] by (cases "aq_ip aq = ip") auto
    then show ?thesis using old False by (auto simp: refused_since_snoc)
  qed
qed

lemma within_admin:
  assumes "admin ac verify now aq lm = (r, lm')" "remembers_failures before past lm" "before \<le> now" "length (refused_within t ip past) \<le> ac_limit ac"
  shows "length (refused_within t ip (past @ [(now, aq, r)])) \<le> ac_limit ac"
proof (cases "t - WINDOW \<le> now \<and> now \<le> t \<and> aq_ip aq = ip \<and> r = Some 403")
  case True
  then have u: "now - WINDOW \<le> t - WINDOW" by simp
  have "length (refused_since (t - WINDOW) ip past) \<le> slots_since (t - WINDOW) (lm_rows lm (failed_bucket ip))"
    using assms(2,3) u by (simp add: remembers_failures_def)
  moreover have "slots_since (t - WINDOW) (lm_rows lm (failed_bucket ip)) < ac_limit ac"
    using admin_refused(2) [OF _ u] assms(1) True by auto
  ultimately have "length (refused_within t ip past) < ac_limit ac" using refused_within_since [of t ip past] by linarith
  then show ?thesis by (simp add: refused_within_snoc)
qed (use assms(4) in \<open>auto simp: refused_within_snoc\<close>)

lemma remembers_check:
  "remembers_failures before past lm \<Longrightarrow> before \<le> now \<Longrightarrow> bucket_name \<noteq> ''admin-ip-failed'' \<Longrightarrow>
   remembers_failures now past (snd (limiter_check limit (bucket_name, ip) now lm))"
  by (auto simp: remembers_failures_def check_other)

lemma limited_run_bound:
  assumes "sorted (map fst calls)" "\<forall>c\<in>set calls. before \<le> fst c" "remembers_failures before past lm"
    "length (refused_within t ip past) \<le> ac_limit ac"
  shows "length (refused_within t ip (past @ limited_run ac verify calls lm)) \<le> ac_limit ac"
  using assms
proof (induction ac verify calls lm arbitrary: past before rule: limited_run.induct)
  case (2 ac verify now aq calls lm)
  obtain r lm' where a: "admin ac verify now aq lm = (r, lm')" by fastforce
  have "length (refused_within t ip ((past @ [(now, aq, r)]) @ limited_run ac verify calls lm')) \<le> ac_limit ac"
    using 2 a remembers_admin [OF a] within_admin [OF a] by (intro "2.IH" [where before = now]) auto
  then show ?case by (simp add: a)
next
  case (3 ac verify now ip' calls lm)
  then show ?case using remembers_check [of before past lm now "''orders''"] by (auto intro!: "3.IH" [where before = now])
next
  case (4 ac verify now ip' calls lm)
  then show ?case using remembers_check [of before past lm now "''activation''"] by (auto intro!: "4.IH" [where before = now])
qed simp

lemma admin_accepts: "admin ac verify now aq lm = (None, lm') \<Longrightarrow> token_accepted verify aq \<and> origin_and_csrf ac aq"
  by (auto simp: admin_def Let_def split: if_splits option.splits prod.splits bool.splits)

lemma limited_run_accepts: "(t, aq, None) \<in> set (limited_run ac verify calls lm) \<Longrightarrow> token_accepted verify aq \<and> origin_and_csrf ac aq"
  by (induction ac verify calls lm rule: limited_run.induct) (auto split: prod.splits dest: admin_accepts [OF sym])

text \<open>
  C33: Guessing the credentials of the administrator is bounded: over any sequence of requests, in the order of their times, no client gets more than
  the configured number of refused authentications within any 60 seconds, and every request that passes had a token the verifier accepts, the configured
  origin and the CSRF secret.
\<close>

theorem admin_guessing_is_bounded:
  assumes "sorted (map fst calls)"
  shows "length (refused_within t ip (limited_run ac verify calls \<lparr>lm_rows = \<lambda>_. [], lm_sequence = 0\<rparr>)) \<le> ac_limit ac \<and>
    (\<forall>(s, aq, r)\<in>set (limited_run ac verify calls \<lparr>lm_rows = \<lambda>_. [], lm_sequence = 0\<rparr>).
       r = None \<longrightarrow> token_accepted verify aq \<and> origin_and_csrf ac aq)"
proof -
  let ?lm = "\<lparr>lm_rows = \<lambda>_. [], lm_sequence = 0\<rparr> :: limiter"
  define before where "before = (if calls = [] then 0 else fst (hd calls))"
  have "\<forall>c\<in>set calls. before \<le> fst c" using assms by (cases calls) (auto simp: before_def)
  moreover have "remembers_failures before [] ?lm" by (simp add: remembers_failures_def refused_since_def)
  ultimately have "length (refused_within t ip ([] @ limited_run ac verify calls ?lm)) \<le> ac_limit ac"
    by (intro limited_run_bound [OF assms]) (auto simp: refused_within_def)
  then show ?thesis by (auto dest: limited_run_accepts)
qed

text \<open>Three wrong tokens in two seconds where two failures are allowed, then the right one, too late and after a minute.\<close>

definition sample_api :: api_config where
  "sample_api = \<lparr>ac_limit = 2, ac_admin_origin = ''https://admin'', ac_csrf_secret = ''csrf'', ac_legacy_fixture = False, ac_sha256 = (\<lambda>s. s)\<rparr>"

definition sample_attempt :: "string \<Rightarrow> limited_call" where
  "sample_attempt secret =
     Admin_Call \<lparr>aq_ip = ''10.0.0.1'', aq_authorization = Some (''Bearer '' @ secret), aq_csrf = Some ''csrf'', aq_origin = ''https://admin''\<rparr>"

definition sample_calls :: "(int \<times> limited_call) list" where
  "sample_calls = [(0, sample_attempt ''a''), (1000000, sample_attempt ''b''), (2000000, sample_attempt ''c''), (3000000, sample_attempt ''secret''),
     (4000000, Order_Call ''10.0.0.1''), (70000000, sample_attempt ''secret'')]"

definition sample_outcomes :: "(int \<times> admin_request \<times> int option) list" where
  "sample_outcomes = limited_run sample_api (\<lambda>t. Inr (t = ''secret'')) sample_calls \<lparr>lm_rows = \<lambda>_. [], lm_sequence = 0\<rparr>"

lemma sample_statuses: "map (snd \<circ> snd) sample_outcomes = [Some 403, Some 403, Some 429, Some 429, None]"
  by (simp add: sample_outcomes_def sample_calls_def sample_attempt_def sample_api_def admin_def Let_def failed_bucket_def fingerprint_def
    limiter_reserve_def limiter_check_def limiter_retain_def prune_def drop_slot_def add_slot_def token_accepted_def bearer_token_def token_bounded_def
    starts_with_def or_default_def utf8_length_def origin_and_csrf_def MAX_TOKEN_CHARS_def WINDOW_def)

theorem admin_guessing_is_bounded_witness:
  "map (snd \<circ> snd) sample_outcomes = [Some 403, Some 403, Some 429, Some 429, None] \<and> (\<forall>t. length (refused_within t ''10.0.0.1'' sample_outcomes) \<le> 2)"
proof -
  have sorted: "sorted (map fst sample_calls)" by (simp add: sample_calls_def)
  have "length (refused_within t ''10.0.0.1'' sample_outcomes) \<le> ac_limit sample_api" for t
    unfolding sample_outcomes_def using admin_guessing_is_bounded [OF sorted] by blast
  then show ?thesis using sample_statuses by (simp add: sample_api_def)
qed

end
