(* ===== verification/Payments_Sidecar.thy ===== *)
theory Payments_Sidecar
  imports Payments_Chain
begin

text \<open>
  The private sidecars that hold keys for the payments service (\<open>growthmap_payments/sidecar_server.py\<close>) and their client
  (\<open>unix_transport.py\<close>): requests and responses with a MAC over a fresh nonce, the window of nonces the server remembers, and the two handlers.
  The socket is a parameter of the client; of the server, one connection is one call of \<open>serve_request\<close>, whose value is the response sent, if any.
\<close>

section \<open>Replay window\<close>

record replay_window =
  rw_maximum :: nat
  rw_values :: "string list"

definition replay_window_init :: "nat \<Rightarrow> replay_window answer" where
  "replay_window_init maximum =
     (if maximum < 128 \<or> maximum > 65536 then Inl (Runtime_Error ''sidecar replay window invalid'') else Inr \<lparr>rw_maximum = maximum, rw_values = []\<rparr>)"

definition replay_consume :: "string \<Rightarrow> replay_window \<Rightarrow> unit answer \<times> replay_window" where
  "replay_consume nonce rw =
     (if nonce \<in> set (rw_values rw) then (Inl (Value_Error ''sidecar request replayed''), rw)
      else let vs = rw_values rw @ [nonce] in (Inr (), rw\<lparr>rw_values := if length vs > rw_maximum rw then tl vs else vs\<rparr>))"

section \<open>Handlers\<close>

text \<open>A handler: the operations it offers and what it does; \<open>sign\<close> and the authority are outside.\<close>

record handler =
  hd_operations :: "string set"
  hd_dispatch :: "string \<Rightarrow> members \<Rightarrow> py answer"

definition finality_dispatch :: "runtime \<Rightarrow> (string \<Rightarrow> string answer) \<Rightarrow> (string \<Rightarrow> string) \<Rightarrow> string \<Rightarrow> members \<Rightarrow> py answer" where
  "finality_dispatch rt sign b64encode operation arguments =
     (if operation \<noteq> ''sign_finality'' \<or> dict_keys arguments \<noteq> {''payload''} then Inl (Value_Error ''finality operation forbidden'')
      else case dict_item arguments ''payload'' of
        PyDict payload \<Rightarrow>
          if dict_keys payload \<noteq> set FINALITY_FIELDS then Inl (Value_Error ''finality payload invalid'')
          else let raw = rt_dumps rt (PyDict payload) in
          if length raw > 16000 then Inl (Value_Error ''finality payload too large'')
          else and_then (sign (SIGNED_DOMAIN @ raw)) (\<lambda>signature.
            if length signature \<noteq> 64 then Inl (Runtime_Error ''finality signing unavailable'')
            else Inr (PyDict [(''document'', PyStr (rt_dumps rt (PyDict [(''signature'', PyStr (b64encode signature)), (''payload'', PyDict payload)])))]))
      | _ \<Rightarrow> Inl (Value_Error ''finality payload invalid''))"

definition finality_handler :: "runtime \<Rightarrow> (string \<Rightarrow> string answer) \<Rightarrow> (string \<Rightarrow> string) \<Rightarrow> handler" where
  "finality_handler rt sign b64encode = \<lparr>hd_operations = {''sign_finality''}, hd_dispatch = finality_dispatch rt sign b64encode\<rparr>"

definition AUTHORITY_OPERATIONS :: "string set" where
  "AUTHORITY_OPERATIONS = {''handshake'', ''create_external_entitlement'', ''read_external_entitlement_acknowledgement'', ''revoke_external_entitlement'',
     ''read_external_revocation_acknowledgement''}"

text \<open>\<open>methods\<close> are the methods of the authority, by name.\<close>

definition authority_dispatch :: "(string \<Rightarrow> (members \<Rightarrow> py answer) option) \<Rightarrow> string \<Rightarrow> members \<Rightarrow> py answer" where
  "authority_dispatch methods operation arguments =
     (if operation \<notin> AUTHORITY_OPERATIONS then Inl (Value_Error ''Authority operation forbidden'')
      else if operation = ''handshake'' \<and> arguments \<noteq> [] then Inl (Value_Error ''Authority arguments invalid'')
      else case methods operation of
        None \<Rightarrow> Inl (Runtime_Error ''Authority operation unavailable'')
      | Some f \<Rightarrow> f arguments)"

definition authority_handler :: "(string \<Rightarrow> (members \<Rightarrow> py answer) option) \<Rightarrow> handler" where
  "authority_handler methods = \<lparr>hd_operations = AUTHORITY_OPERATIONS, hd_dispatch = authority_dispatch methods\<rparr>"

section \<open>The server\<close>

definition MAX_REQUEST :: nat where
  "MAX_REQUEST = 32768"

definition lower_letter :: "char \<Rightarrow> bool" where
  "lower_letter c \<longleftrightarrow> lower_digit c \<and> \<not> digit c"

definition operation_name :: "string \<Rightarrow> bool" where
  "operation_name s \<longleftrightarrow> head_tail lower_letter (\<lambda>c. lower_digit c \<or> c \<in> set ''_.-'') 2 63 s"

definition REQUEST_DOMAIN :: string where
  "REQUEST_DOMAIN = ''growthmap-unix-request-v1'' @ [CHR 0x00]"

definition RESPONSE_DOMAIN :: string where
  "RESPONSE_DOMAIN = ''growthmap-unix-response-v1'' @ [CHR 0x00]"

record sidecar =
  sd_service :: string
  sd_key :: string
  sd_handler :: handler

definition request_core :: "string \<Rightarrow> string \<Rightarrow> string \<Rightarrow> members \<Rightarrow> members" where
  "request_core service operation nonce arguments =
     [(''service'', PyStr service), (''operation'', PyStr operation), (''nonce'', PyStr nonce), (''arguments'', PyDict arguments)]"

text \<open>The operation, the nonce and the arguments of an authenticated request.\<close>

definition authenticate_request :: "runtime \<Rightarrow> sidecar \<Rightarrow> py \<Rightarrow> (string \<times> string \<times> members) answer" where
  "authenticate_request rt sd request =
     (case request of
        PyDict ms \<Rightarrow>
          (case (dict_item ms ''operation'', dict_item ms ''nonce'', dict_item ms ''arguments'', dict_item ms ''mac'') of
             (PyStr operation, PyStr nonce, PyDict arguments, PyStr mac) \<Rightarrow>
               if dict_keys ms \<noteq> {''service'', ''operation'', ''nonce'', ''arguments'', ''mac''} \<or> dict_item ms ''service'' \<noteq> PyStr (sd_service sd) \<or>
                  \<not> operation_name operation \<or> operation \<notin> hd_operations (sd_handler sd) \<or> \<not> hex64 nonce \<or> \<not> hex64 mac \<or>
                  mac \<noteq> rt_hmac rt (sd_key sd) (REQUEST_DOMAIN @ rt_dumps rt (PyDict (request_core (sd_service sd) operation nonce arguments)))
               then Inl (Value_Error []) else Inr (operation, nonce, arguments)
           | _ \<Rightarrow> Inl (Value_Error []))
      | _ \<Rightarrow> Inl (Value_Error []))"

definition sidecar_response :: "runtime \<Rightarrow> sidecar \<Rightarrow> string \<Rightarrow> string \<Rightarrow> bool \<Rightarrow> py \<Rightarrow> string" where
  "sidecar_response rt sd operation nonce success result =
     (let core = [(''service'', PyStr (sd_service sd)), (''operation'', PyStr operation), (''nonce'', PyStr nonce), (''ok'', PyBool success), (''result'', result)]
      in rt_dumps rt (PyDict (core @ [(''mac'', PyStr (rt_hmac rt (sd_key sd) (RESPONSE_DOMAIN @ rt_dumps rt (PyDict core))))])))"

text \<open>What a failed request is answered with: its own operation and nonce as far as they are well-formed; a value that is no string ends the connection.\<close>

definition failure_response :: "runtime \<Rightarrow> sidecar \<Rightarrow> py option \<Rightarrow> string option" where
  "failure_response rt sd request =
     (let (operation, nonce) = (case request of
            Some (PyDict ms) \<Rightarrow>
              (case map_of ms ''operation'' of None \<Rightarrow> PyStr ''invalid'' | Some v \<Rightarrow> v, case map_of ms ''nonce'' of None \<Rightarrow> PyStr (replicate 64 CHR ''0'') | Some v \<Rightarrow> v)
          | _ \<Rightarrow> (PyStr ''invalid'', PyStr (replicate 64 CHR ''0'')))
      in case (pattern_subject operation, pattern_subject nonce) of
           (Inr op, Inr n) \<Rightarrow>
             Some (sidecar_response rt sd (if operation_name op then op else ''invalid'') (if hex64 n then n else replicate 64 CHR ''0'') False PyNone)
         | _ \<Rightarrow> None)"

text \<open>\<open>peer_ok\<close> is the check of the peer's user id; a response longer than the bound is not sent.\<close>

definition serve_request :: "runtime \<Rightarrow> sidecar \<Rightarrow> bool \<Rightarrow> string \<Rightarrow> replay_window \<Rightarrow> string option \<times> replay_window" where
  "serve_request rt sd peer_ok raw rw =
     (let bounded = (\<lambda>r. case r of None \<Rightarrow> None | Some s \<Rightarrow> if length s \<le> MAX_REQUEST then Some s else None) in
      if \<not> peer_ok \<or> raw = [] \<or> length raw > MAX_REQUEST then (None, rw)
      else case rt_loads rt raw of
        Inl _ \<Rightarrow> (bounded (failure_response rt sd None), rw)
      | Inr v \<Rightarrow>
          let request = plain_object v in
          (case authenticate_request rt sd request of
             Inl _ \<Rightarrow> (bounded (failure_response rt sd (Some request)), rw)
           | Inr (operation, nonce, arguments) \<Rightarrow>
               (case replay_consume nonce rw of
                  (Inl _, rw) \<Rightarrow> (bounded (failure_response rt sd (Some request)), rw)
                | (Inr _, rw) \<Rightarrow>
                    (case hd_dispatch (sd_handler sd) operation arguments of
                       Inl _ \<Rightarrow> (bounded (failure_response rt sd (Some request)), rw)
                     | Inr result \<Rightarrow> (bounded (Some (sidecar_response rt sd operation nonce True result)), rw)))))"

section \<open>The client\<close>

text \<open>\<open>exchange\<close> sends a request over a fresh connection and gives the bytes received, nothing when the connection fails.\<close>

definition unix_call :: "runtime \<Rightarrow> string \<Rightarrow> string \<Rightarrow> (string \<Rightarrow> string option) \<Rightarrow> string \<Rightarrow> string \<Rightarrow> members \<Rightarrow> py answer" where
  "unix_call rt service key exchange nonce operation arguments =
     (if \<not> operation_name operation then Inl (Value_Error ''unix transport request invalid'')
      else let core = request_core service operation nonce arguments;
               mac = rt_hmac rt key (REQUEST_DOMAIN @ rt_dumps rt (PyDict core));
               raw = rt_dumps rt (PyDict (core @ [(''mac'', PyStr mac)])) @ [CHR 0x0A];
               invalid = Inl (Runtime_Error ''unix transport response invalid'')
      in if length raw > MAX_REQUEST then Inl (Value_Error ''unix transport request too large'')
         else case exchange raw of
           None \<Rightarrow> Inl (Runtime_Error ''unix transport unavailable'')
         | Some response \<Rightarrow>
             if response = [] \<or> length response > MAX_REQUEST then invalid
             else (case rt_loads rt response of
               Inl _ \<Rightarrow> invalid
             | Inr v \<Rightarrow>
                 (case plain_object v of
                    PyDict document \<Rightarrow>
                      if dict_keys document \<noteq> {''service'', ''operation'', ''nonce'', ''ok'', ''result'', ''mac''} then invalid
                      else let names = [''service'', ''operation'', ''nonce'', ''ok'', ''result''];
                               expected = rt_hmac rt key (RESPONSE_DOMAIN @ rt_dumps rt (PyDict (map (\<lambda>k. (k, dict_item document k)) names)))
                      in if dict_item document ''service'' \<noteq> PyStr service \<or> dict_item document ''operation'' \<noteq> PyStr operation \<or>
                            dict_item document ''nonce'' \<noteq> PyStr nonce \<or> dict_item document ''mac'' \<noteq> PyStr expected \<or>
                            dict_item document ''ok'' \<notin> {PyBool True, PyBool False}
                         then Inl (Runtime_Error ''unix transport response authentication failed'')
                         else if dict_item document ''ok'' = PyBool False then Inl (Runtime_Error (service @ '' operation unavailable''))
                         else Inr (dict_item document ''result'')
                  | _ \<Rightarrow> invalid)))"

text \<open>\<open>UnixFinalityAuthenticator\<close> and \<open>UnixAuthorityClient\<close> over a call.\<close>

definition authenticate_finality_payload :: "(string \<Rightarrow> members \<Rightarrow> py answer) \<Rightarrow> members \<Rightarrow> string answer" where
  "authenticate_finality_payload call payload =
     and_then (call ''sign_finality'' [(''payload'', PyDict payload)]) (\<lambda>result.
     case result of
       PyDict ms \<Rightarrow>
         (case dict_item ms ''document'' of
            PyStr d \<Rightarrow> if dict_keys ms = {''document''} then Inr d else Inl (Runtime_Error ''finality sidecar response invalid'')
          | _ \<Rightarrow> Inl (Runtime_Error ''finality sidecar response invalid''))
     | _ \<Rightarrow> Inl (Runtime_Error ''finality sidecar response invalid''))"

definition authority_call :: "(string \<Rightarrow> members \<Rightarrow> py answer) \<Rightarrow> string \<Rightarrow> members \<Rightarrow> py answer" where
  "authority_call call operation arguments =
     (if operation \<notin> AUTHORITY_OPERATIONS then Inl (Runtime_Error ''Authority operation forbidden'') else call operation arguments)"

section \<open>Replays\<close>

fun consume_all :: "string list \<Rightarrow> replay_window \<Rightarrow> replay_window" where
  "consume_all [] rw = rw"
| "consume_all (n # ns) rw = consume_all ns (snd (replay_consume n rw))"

lemma consume_keeps_suffix:
  assumes "rw_values rw = older @ n # newer" "length newer + 2 \<le> rw_maximum rw" "length (rw_values rw) \<le> rw_maximum rw"
  shows "\<exists>older' newer'. rw_values (snd (replay_consume m rw)) = older' @ n # newer' \<and> length newer' \<le> Suc (length newer) \<and>
    length (rw_values (snd (replay_consume m rw))) \<le> rw_maximum rw \<and> rw_maximum (snd (replay_consume m rw)) = rw_maximum rw"
proof (cases "m \<in> set (rw_values rw)")
  case True
  then have "snd (replay_consume m rw) = rw" by (simp add: replay_consume_def)
  then show ?thesis using assms by (intro exI [of _ older] exI [of _ newer]) auto
next
  case False
  show ?thesis
  proof (cases "length (rw_values rw @ [m]) > rw_maximum rw")
    case True
    then have "older \<noteq> []" using assms by (cases older) auto
    then show ?thesis using False True assms
      by (intro exI [of _ "tl older"] exI [of _ "newer @ [m]"]) (auto simp: replay_consume_def Let_def)
  next
    case fits: False
    then show ?thesis using False assms by (intro exI [of _ older] exI [of _ "newer @ [m]"]) (auto simp: replay_consume_def Let_def)
  qed
qed

lemma consume_all_keeps:
  assumes "rw_values rw = older @ n # newer" "length newer + length ms < rw_maximum rw" "length (rw_values rw) \<le> rw_maximum rw"
  shows "n \<in> set (rw_values (consume_all ms rw))"
  using assms
proof (induction ms arbitrary: rw older newer)
  case (Cons m ms)
  have room: "length newer + 2 \<le> rw_maximum rw" using Cons.prems(2) by simp
  obtain older' newer' where s: "rw_values (snd (replay_consume m rw)) = older' @ n # newer'" "length newer' \<le> Suc (length newer)"
    "length (rw_values (snd (replay_consume m rw))) \<le> rw_maximum rw" "rw_maximum (snd (replay_consume m rw)) = rw_maximum rw"
    using consume_keeps_suffix [OF Cons.prems(1) room Cons.prems(3), of m] by blast
  show ?case using Cons.IH [OF s(1)] s(2-4) Cons.prems(2) by simp
qed auto

text \<open>A request that was accepted is refused when it comes again, as long as fewer than the maximum of other requests came between.\<close>

lemma replay_refused:
  assumes "replay_consume n rw = (Inr (), rw')" "length (rw_values rw) \<le> rw_maximum rw" "length ms < rw_maximum rw"
  shows "\<exists>e. fst (replay_consume n (consume_all ms rw')) = Inl e"
proof -
  have "rw_values rw' = (if length (rw_values rw) = rw_maximum rw then tl (rw_values rw @ [n]) else rw_values rw @ [n])" "rw_maximum rw' = rw_maximum rw"
    using assms(1,2) by (auto simp: replay_consume_def Let_def split: if_splits)
  moreover have "rw_values rw \<noteq> []" if "length (rw_values rw) = rw_maximum rw" using that assms(3) by auto
  ultimately have "\<exists>older. rw_values rw' = older @ n # []" "length (rw_values rw') \<le> rw_maximum rw'" "rw_maximum rw' = rw_maximum rw"
    using assms(2) by (auto split: if_splits) (metis Suc_pred le_refl length_greater_0_conv)
  then have "n \<in> set (rw_values (consume_all ms rw'))" using consume_all_keeps [of rw' _ n "[]" ms] assms(3) by auto
  then show ?thesis by (simp add: replay_consume_def)
qed

text \<open>The server acts only on requests with its MAC and a nonce it does not remember.\<close>

lemma authenticate_request_Inr:
  "authenticate_request rt sd request = Inr (operation, nonce, arguments) \<Longrightarrow>
     \<exists>ms. request = PyDict ms \<and> operation \<in> hd_operations (sd_handler sd) \<and>
       dict_item ms ''mac'' = PyStr (rt_hmac rt (sd_key sd) (REQUEST_DOMAIN @ rt_dumps rt (PyDict (request_core (sd_service sd) operation nonce arguments))))"
  by (auto simp: authenticate_request_def split: py.splits if_splits)

end
