(* ===== verification/Shop_Fulfillment.thy ===== *)
theory Shop_Fulfillment
  imports Entitlement_Inbox
begin

text \<open>
  Fulfillment of purchases made in the shop (\<open>growthmap_payments/whop_fulfillment.py\<close>, \<open>whop_buyer_api.py\<close>): events that the ingress has
  verified and stored are parsed, checked against the two products on sale and turned into a license at the authority, or into its
  revocation; buyers read their activation keys. The authority is a parameter (\<open>remote\<close>) with a state of its own, since a call can take
  effect there although its answer never arrives. JSON parsing, SHA-256, AES-GCM, decimals and timestamps as text, random values and the
  clock are parameters too.
\<close>

section \<open>Documents\<close>

text \<open>What \<open>json.loads\<close> gives with decimals for numbers: coefficient and exponent; \<open>NaN\<close> and the infinities stay floats.\<close>

datatype doc =
    Doc_Null
  | Doc_Bool bool
  | Doc_Num int int
  | Doc_Float
  | Doc_Str string
  | Doc_List "doc list"
  | Doc_Obj "(string \<times> doc) list"

datatype loaded = Loaded doc | Not_Json | Load_Failed string

text \<open>Exceptions: permanent ones, other faults of the worker, and whatever else is raised, by its class.\<close>

datatype shop_error = Permanent string | Fulfillment string | Other string

type_synonym 'a outcome = "shop_error + 'a"

abbreviation invalid_event :: "'a outcome" where
  "invalid_event \<equiv> Inl (Permanent ''invalid verified event'')"

record shop_config =
  sw_sha256 :: "string \<Rightarrow> string"
  sw_list_digest :: "string option list \<Rightarrow> string"
  sw_loads :: "string \<Rightarrow> loaded"
  sw_casefold :: "string \<Rightarrow> string"
  sw_decimal :: "string \<Rightarrow> (int \<times> int) option"
  sw_decimal_text :: "int \<times> int \<Rightarrow> string"
  sw_parse_utc :: "string \<Rightarrow> timestamp option"
  sw_isoformat :: "timestamp \<Rightarrow> string"
  sw_encrypt :: "string \<Rightarrow> string \<Rightarrow> string \<Rightarrow> string"
  sw_decrypt :: "string \<Rightarrow> string \<Rightarrow> string \<Rightarrow> string option"
  sw_max_attempts :: int

fun strict_doc :: "(string \<Rightarrow> string) \<Rightarrow> doc \<Rightarrow> bool" where
  "strict_doc f (Doc_List ds) = list_all (strict_doc f) ds"
| "strict_doc f (Doc_Obj ms) = (distinct (map (\<lambda>m. f (fst m)) ms) \<and> list_all (\<lambda>m. strict_doc f (snd m)) ms)"
| "strict_doc f _ = True"

definition MAX_PAYLOAD :: nat where
  "MAX_PAYLOAD = 64 * 1024"

definition shop_strict_json :: "shop_config \<Rightarrow> string \<Rightarrow> (string \<times> doc) list outcome" where
  "shop_strict_json cf raw =
     (if raw = [] \<or> length raw > MAX_PAYLOAD then invalid_event
      else case sw_loads cf raw of
        Not_Json \<Rightarrow> invalid_event
      | Load_Failed c \<Rightarrow> Inl (Other c)
      | Loaded d \<Rightarrow> if \<not> strict_doc (sw_casefold cf) d then invalid_event else (case d of Doc_Obj ms \<Rightarrow> Inr ms | _ \<Rightarrow> invalid_event))"

definition event_identifier :: "doc \<Rightarrow> string outcome" where
  "event_identifier d =
     (case (case d of Doc_Obj ms \<Rightarrow> map_of ms ''id'' | _ \<Rightarrow> Some d) of
        Some (Doc_Str s) \<Rightarrow> if s = [] \<or> length s > 192 then invalid_event else Inr s
      | _ \<Rightarrow> invalid_event)"

definition required :: "(string \<times> doc) list \<Rightarrow> string list \<Rightarrow> doc outcome" where
  "required ms names = (case List.map_filter (map_of ms) names of [d] \<Rightarrow> Inr d | _ \<Rightarrow> invalid_event)"

definition required_string :: "(string \<times> doc) list \<Rightarrow> string \<Rightarrow> string outcome" where
  "required_string ms name = and_then (required ms [name]) (\<lambda>d. case d of Doc_Str s \<Rightarrow> Inr s | _ \<Rightarrow> invalid_event)"

definition event_timestamp :: "shop_config \<Rightarrow> doc \<Rightarrow> string outcome" where
  "event_timestamp cf d =
     (case d of
        Doc_Str s \<Rightarrow> (case sw_parse_utc cf s of None \<Rightarrow> invalid_event | Some t \<Rightarrow> Inr (sw_isoformat cf t))
      | _ \<Rightarrow> invalid_event)"

definition event_amount :: "shop_config \<Rightarrow> doc \<Rightarrow> (int \<times> int) outcome" where
  "event_amount cf d =
     (case d of
        Doc_Num c e \<Rightarrow> Inr (c, e)
      | Doc_Str s \<Rightarrow> (case sw_decimal cf s of None \<Rightarrow> invalid_event | Some x \<Rightarrow> Inr x)
      | _ \<Rightarrow> invalid_event)"

section \<open>Events\<close>

record shop_event =
  sv_webhook_id :: string
  sv_event_type :: string
  sv_payment_id :: string
  sv_company_id :: string
  sv_product_id :: string
  sv_plan_id :: string
  sv_currency :: string
  sv_amount :: "int \<times> int"
  sv_status :: string
  sv_occurred_at :: string
  sv_payload_sha256 :: string
  sv_user_id :: "string option"

definition SUPPORTED :: "string set" where
  "SUPPORTED = {''payment.succeeded'', ''refund.created'', ''dispute.created''}"

definition linked_payment :: "string \<Rightarrow> (string \<times> doc) list \<Rightarrow> (string \<times> doc) list outcome" where
  "linked_payment event_type data =
     (case (if event_type = ''payment.succeeded'' then Some (Doc_Obj data) else map_of data ''payment'') of
        Some (Doc_Str s) \<Rightarrow> Inr [(''id'', Doc_Str s)]
      | Some (Doc_Obj ms) \<Rightarrow> Inr ms
      | _ \<Rightarrow> invalid_event)"

definition buyer_of :: "string \<Rightarrow> (string \<times> doc) list \<Rightarrow> string option outcome" where
  "buyer_of event_type data =
     (if event_type \<noteq> ''payment.succeeded'' then Inr None
      else case map_of data ''user'' of
        Some (Doc_Obj user) \<Rightarrow> and_then (required user [''id'']) (\<lambda>d. and_then (event_identifier d) (\<lambda>i. Inr (Some i)))
      | _ \<Rightarrow> invalid_event)"

definition parse_event :: "shop_config \<Rightarrow> string \<Rightarrow> string \<Rightarrow> string \<Rightarrow> string \<Rightarrow> shop_event outcome" where
  "parse_event cf webhook_id event_type raw stored_digest =
     (if sw_sha256 cf raw \<noteq> stored_digest then Inl (Permanent ''verified payload digest mismatch'')
      else and_then (shop_strict_json cf raw) (\<lambda>envelope.
        if map_of envelope ''id'' \<noteq> Some (Doc_Str webhook_id) \<or> map_of envelope ''type'' \<noteq> Some (Doc_Str event_type)
        then Inl (Permanent ''verified envelope mismatch'')
        else if event_type \<notin> SUPPORTED then Inl (Permanent ''unsupported event'')
        else and_then (required envelope [''company_id'']) (\<lambda>d.
          and_then (event_identifier d) (\<lambda>company_id.
          case map_of envelope ''data'' of
            Some (Doc_Obj data) \<Rightarrow>
              and_then (linked_payment event_type data) (\<lambda>payment.
              and_then (required payment [''id'', ''payment_id'']) (\<lambda>d.
              and_then (event_identifier d) (\<lambda>payment_id.
              let semantic = (if map_of payment ''currency'' \<noteq> None \<and> map_of payment ''status'' \<noteq> None then payment else data)
              in and_then (required semantic [''product'', ''product_id'']) (\<lambda>d.
              and_then (event_identifier d) (\<lambda>product_id.
              and_then (required semantic [''plan'', ''plan_id'']) (\<lambda>d.
              and_then (event_identifier d) (\<lambda>plan_id.
              and_then (required_string semantic ''currency'') (\<lambda>currency.
              and_then (required_string semantic ''status'') (\<lambda>status.
              and_then (required semantic [''total'', ''amount'']) (\<lambda>d.
              and_then (event_amount cf d) (\<lambda>amount.
              and_then (required envelope [''timestamp'', ''created_at'']) (\<lambda>d.
              and_then (event_timestamp cf d) (\<lambda>occurred_at.
              and_then (buyer_of event_type data) (\<lambda>user_id.
                Inr \<lparr>sv_webhook_id = webhook_id, sv_event_type = event_type, sv_payment_id = payment_id, sv_company_id = company_id,
                  sv_product_id = product_id, sv_plan_id = plan_id, sv_currency = currency, sv_amount = amount, sv_status = status,
                  sv_occurred_at = occurred_at, sv_payload_sha256 = stored_digest, sv_user_id = user_id\<rparr>))))))))))))))
          | _ \<Rightarrow> invalid_event))))"

definition dec_value :: "int \<times> int \<Rightarrow> rat" where
  "dec_value x = (case x of (c, e) \<Rightarrow> if 0 \<le> e then of_int c * 10 ^ nat e else of_int c / 10 ^ nat (- e))"

definition COMPANY_ID :: string where
  "COMPANY_ID = ''biz_RVr0w7JHwRZgIq''"

definition PRODUCTS :: "string \<Rightarrow> string \<Rightarrow> (string \<times> rat) option" where
  "PRODUCTS product_id plan_id =
     (if (product_id, plan_id) = (''prod_PvObOc5wfatCY'', ''plan_rjuSiGxXCweMF'') then Some (''early'', 10)
      else if (product_id, plan_id) = (''prod_Lrwhtxe2bDQDD'', ''plan_BIaeEIZ2e6OP3'') then Some (''standard'', 29)
      else None)"

definition allowed_statuses :: "string \<Rightarrow> string set option" where
  "allowed_statuses event_type =
     (if event_type = ''payment.succeeded'' then Some {''succeeded''}
      else if event_type = ''refund.created'' then Some {''refunded''}
      else if event_type = ''dispute.created'' then Some {''open'', ''created''}
      else None)"

definition validate_semantics :: "shop_event \<Rightarrow> string outcome" where
  "validate_semantics ev =
     (let mismatch = Inl (Permanent ''commercial binding mismatch'') in
      case PRODUCTS (sv_product_id ev) (sv_plan_id ev) of
        None \<Rightarrow> mismatch
      | Some (tier, expected) \<Rightarrow>
          if sv_company_id ev \<noteq> COMPANY_ID then mismatch
          else if map ascii_lower (sv_currency ev) \<noteq> ''usd'' \<or> dec_value (sv_amount ev) \<noteq> expected then mismatch
          else case allowed_statuses (sv_event_type ev) of
            None \<Rightarrow> Inl (Other ''KeyError'')
          | Some allowed \<Rightarrow> if map ascii_lower (sv_status ev) \<notin> allowed then mismatch else Inr tier)"

definition canonical_event_digest :: "shop_config \<Rightarrow> shop_event \<Rightarrow> string" where
  "canonical_event_digest cf ev =
     sw_list_digest cf [Some (sv_event_type ev), Some (sv_payment_id ev), Some (sv_company_id ev), Some (sv_product_id ev), Some (sv_plan_id ev),
       Some (map ascii_lower (sv_currency ev)), Some (sw_decimal_text cf (sv_amount ev)), Some (map ascii_lower (sv_status ev)), sv_user_id ev]"

section \<open>Tables\<close>

record fulfillment =
  ff_payment_id :: string
  ff_commercial_digest :: string
  ff_product_id :: string
  ff_plan_id :: string
  ff_tier :: string
  ff_source_id :: string
  ff_payload_digest :: string
  ff_license_id :: "string option"
  ff_state :: string
  ff_grant_webhook_id :: string
  ff_granted_at :: "timestamp option"
  ff_revoked_at :: "timestamp option"
  ff_user_id :: string
  ff_order_id :: string
  ff_recovery_hash :: string
  ff_recovery_nonce :: string
  ff_recovery_ciphertext :: string

record attempt_row =
  at_webhook_id :: string
  at_payload_sha256 :: string
  at_attempts :: int
  at_next_attempt_at :: "timestamp option"
  at_last_error_digest :: string

record inbox_row =
  ib_webhook_id :: string
  ib_event_type :: string
  ib_payload_sha256 :: string
  ib_payload :: string
  ib_status :: string

record shop_db =
  sh_inbox :: "inbox_row list"
  sh_fulfillments :: "fulfillment list"
  sh_attempts :: "attempt_row list"

text \<open>What one event sees of the outside: the clock and the random values it may draw.\<close>

record shop_env =
  sx_clock :: timestamp
  sx_uuid :: string
  sx_token :: string
  sx_nonce :: string

definition get_fulfillment :: "shop_db \<Rightarrow> string \<Rightarrow> fulfillment option" where
  "get_fulfillment db i = row_get ff_payment_id (sh_fulfillments db) i"

definition insert_fulfillment :: "fulfillment \<Rightarrow> shop_db \<Rightarrow> shop_db outcome" where
  "insert_fulfillment f db =
     (if list_ex (\<lambda>g. ff_payment_id g = ff_payment_id f \<or> ff_source_id g = ff_source_id f \<or> ff_grant_webhook_id g = ff_grant_webhook_id f \<or>
          ff_order_id g = ff_order_id f \<or> ff_recovery_hash g = ff_recovery_hash f) (sh_fulfillments db)
      then Inl (Other ''IntegrityError'') else Inr (sh_fulfillments_update (\<lambda>rs. rs @ [f]) db))"

definition mark_granted :: "shop_env \<Rightarrow> string \<Rightarrow> string \<Rightarrow> shop_db \<Rightarrow> shop_db outcome" where
  "mark_granted env payment_id license_id db =
     (let rs = row_update ff_payment_id payment_id (\<lambda>f. if ff_state f = ''granting''
            then f\<lparr>ff_state := ''granted'', ff_license_id := Some license_id, ff_granted_at := Some (sx_clock env)\<rparr> else f) (sh_fulfillments db)
      in if distinct (List.map_filter ff_license_id rs) then Inr (db\<lparr>sh_fulfillments := rs\<rparr>) else Inl (Other ''IntegrityError''))"

definition mark_revoked :: "shop_env \<Rightarrow> string \<Rightarrow> shop_db \<Rightarrow> shop_db" where
  "mark_revoked env payment_id db =
     sh_fulfillments_update (row_update ff_payment_id payment_id (\<lambda>f. f\<lparr>ff_state := ''revoked'', ff_revoked_at := Some (sx_clock env)\<rparr>)) db"

section \<open>Granting and revoking\<close>

text \<open>The adapter of the authority: an answer or the class of an exception, and the state it leaves behind either way.\<close>

record 's remote =
  rm_handshake :: "'s \<Rightarrow> (string + signer_identity) \<times> 's"
  rm_create :: "delivery \<Rightarrow> 's \<Rightarrow> (string + unit) \<times> 's"
  rm_read :: "string \<Rightarrow> string \<Rightarrow> signer_identity \<Rightarrow> 's \<Rightarrow> (string + doc) \<times> 's"
  rm_revoke :: "revocation \<Rightarrow> 's \<Rightarrow> (string + unit) \<times> 's"
  rm_read_revocation :: "string \<Rightarrow> string \<Rightarrow> signer_identity \<Rightarrow> 's \<Rightarrow> (string + doc) \<times> 's"

text \<open>A call that raises ends the operation; otherwise its answer goes on.\<close>

definition then_call :: "(string + 'a) \<times> 's \<Rightarrow> ('a \<Rightarrow> 's \<Rightarrow> 'b outcome \<times> 's) \<Rightarrow> 'b outcome \<times> 's" where
  "then_call r f = (case r of (Inl c, s) \<Rightarrow> (Inl (Other c), s) | (Inr x, s) \<Rightarrow> f x s)"

definition member_string :: "doc \<Rightarrow> string \<Rightarrow> string option" where
  "member_string d name = (case d of Doc_Obj ms \<Rightarrow> (case map_of ms name of Some (Doc_Str s) \<Rightarrow> Some s | _ \<Rightarrow> None) | _ \<Rightarrow> None)"

definition shop_source_id :: "shop_config \<Rightarrow> string \<Rightarrow> string" where
  "shop_source_id cf payment_id = sw_sha256 cf (''whop-payment'' @ CHR 0x00 # payment_id)"

definition obtain_license :: "shop_config \<Rightarrow> 's remote \<Rightarrow> shop_event \<Rightarrow> 's \<Rightarrow> string outcome \<times> 's" where
  "obtain_license cf rm ev s =
     (let source_id = shop_source_id cf (sv_payment_id ev) in
      then_call (rm_handshake rm s) (\<lambda>identity s.
      then_call (rm_create rm \<lparr>de_source = ''whop'', de_source_id = source_id, de_payload_digest = sv_payload_sha256 ev,
          de_authority_id = si_authority_id identity, de_signer_identity = identity, de_edition = ''personal'', de_major_version = 1, de_seat_limit = 2\<rparr> s) (\<lambda>_ s.
      then_call (rm_read rm ''whop'' source_id identity s) (\<lambda>d s.
        case (member_string d ''source_id'', member_string d ''license_id'') of
          (Some i, Some l) \<Rightarrow> if i \<noteq> source_id then (Inl (Fulfillment ''authority acknowledgement invalid''), s) else (Inr l, s)
        | _ \<Rightarrow> (Inl (Fulfillment ''authority acknowledgement invalid''), s)))))"

definition delivery_aad :: "string \<Rightarrow> string \<Rightarrow> string \<Rightarrow> string" where
  "delivery_aad payment_id user_id order_id =
     ''growthmap-whop-delivery-v1'' @ CHR 0x00 # payment_id @ CHR 0x00 # user_id @ CHR 0x00 # order_id"

definition new_fulfillment :: "shop_config \<Rightarrow> shop_env \<Rightarrow> shop_event \<Rightarrow> string \<Rightarrow> string \<Rightarrow> fulfillment" where
  "new_fulfillment cf env ev user_id tier =
     \<lparr>ff_payment_id = sv_payment_id ev, ff_commercial_digest = canonical_event_digest cf ev, ff_product_id = sv_product_id ev,
      ff_plan_id = sv_plan_id ev, ff_tier = tier, ff_source_id = shop_source_id cf (sv_payment_id ev), ff_payload_digest = sv_payload_sha256 ev,
      ff_license_id = None, ff_state = ''granting'', ff_grant_webhook_id = sv_webhook_id ev, ff_granted_at = None, ff_revoked_at = None,
      ff_user_id = user_id, ff_order_id = sx_uuid env, ff_recovery_hash = sw_sha256 cf (sx_token env), ff_recovery_nonce = sx_nonce env,
      ff_recovery_ciphertext = sw_encrypt cf (sx_nonce env) (sx_token env) (delivery_aad (sv_payment_id ev) user_id (sx_uuid env))\<rparr>"

definition SHOP_EARLY_LIMIT :: nat where
  "SHOP_EARLY_LIMIT = 50"

definition early_fulfillments :: "shop_db \<Rightarrow> nat" where
  "early_fulfillments db =
     length (filter (\<lambda>f. ff_tier f = ''early'' \<and> ff_state f \<in> {''granting'', ''granted'', ''revoked''}) (sh_fulfillments db))"

definition finish_grant :: "shop_config \<Rightarrow> shop_env \<Rightarrow> 's remote \<Rightarrow> shop_event \<Rightarrow> shop_db \<Rightarrow> shop_db \<Rightarrow> 's \<Rightarrow> string outcome \<times> shop_db \<times> 's" where
  "finish_grant cf env rm ev db0 db s =
     (case obtain_license cf rm ev s of
        (Inl e, s) \<Rightarrow> (Inl e, db0, s)
      | (Inr license_id, s) \<Rightarrow>
          (case mark_granted env (sv_payment_id ev) license_id db of
             Inl e \<Rightarrow> (Inl e, db0, s) | Inr db \<Rightarrow> (Inr ''granted'', db, s)))"

definition shop_grant :: "shop_config \<Rightarrow> shop_env \<Rightarrow> 's remote \<Rightarrow> shop_event \<Rightarrow> string \<Rightarrow> shop_db \<Rightarrow> 's \<Rightarrow> string outcome \<times> shop_db \<times> 's" where
  "shop_grant cf env rm ev tier db s =
     (case sv_user_id ev of
        None \<Rightarrow> (Inl (Permanent ''verified buyer identity unavailable''), db, s)
      | Some user_id \<Rightarrow>
          (case get_fulfillment db (sv_payment_id ev) of
             Some f \<Rightarrow>
               if ff_commercial_digest f \<noteq> canonical_event_digest cf ev then (Inl (Permanent ''conflicting provider payment id''), db, s)
               else if ff_state f \<in> {''granted'', ''revoked''} then (Inr ''granted'', db, s)
               else finish_grant cf env rm ev db db s
           | None \<Rightarrow>
               if tier = ''early'' \<and> early_fulfillments db \<ge> SHOP_EARLY_LIMIT then (Inl (Permanent ''early allocation exhausted''), db, s)
               else case insert_fulfillment (new_fulfillment cf env ev user_id tier) db of
                 Inl e \<Rightarrow> (Inl e, db, s)
               | Inr db1 \<Rightarrow> finish_grant cf env rm ev db db1 s))"

definition shop_revocation :: "shop_config \<Rightarrow> shop_event \<Rightarrow> fulfillment \<Rightarrow> signer_identity \<Rightarrow> string \<Rightarrow> revocation" where
  "shop_revocation cf ev f identity license_id =
     (let refund = (sv_event_type ev = ''refund.created'') in
      \<lparr>re_source = ''whop'', re_source_id = ff_source_id f, re_payload_digest = ff_payload_digest f, re_authority_id = si_authority_id identity,
       re_signer_identity = identity, re_license_id = Some license_id, re_action = (if refund then ''refund'' else ''revoke''),
       re_reason = (if refund then ''refund'' else ''chargeback''),
       re_payment_proof = sw_sha256 cf (''whop-proof'' @ CHR 0x00 # sv_payment_id ev),
       re_tx_hash = ''0x'' @ sw_sha256 cf (''whop-reference'' @ CHR 0x00 # sv_payment_id ev), re_created_at = sv_occurred_at ev\<rparr>)"

definition revoke_license_remotely :: "shop_config \<Rightarrow> 's remote \<Rightarrow> shop_event \<Rightarrow> fulfillment \<Rightarrow> string \<Rightarrow> 's \<Rightarrow> unit outcome \<times> 's" where
  "revoke_license_remotely cf rm ev f license_id s =
     then_call (rm_handshake rm s) (\<lambda>identity s.
     then_call (rm_revoke rm (shop_revocation cf ev f identity license_id) s) (\<lambda>_ s.
     then_call (rm_read_revocation rm ''whop'' (ff_source_id f) identity s) (\<lambda>d s.
       if member_string d ''license_id'' \<noteq> Some license_id then (Inl (Fulfillment ''authority acknowledgement invalid''), s) else (Inr (), s))))"

definition shop_revoke :: "shop_config \<Rightarrow> shop_env \<Rightarrow> 's remote \<Rightarrow> shop_event \<Rightarrow> shop_db \<Rightarrow> 's \<Rightarrow> string outcome \<times> shop_db \<times> 's" where
  "shop_revoke cf env rm ev db s =
     (let unavailable = (Inl (Fulfillment ''linked entitlement unavailable''), db, s) in
      case get_fulfillment db (sv_payment_id ev) of
        None \<Rightarrow> unavailable
      | Some f \<Rightarrow>
          if ff_state f = ''granting'' \<or> \<not> truthy (ff_license_id f) then unavailable
          else if ff_product_id f \<noteq> sv_product_id ev \<or> ff_plan_id f \<noteq> sv_plan_id ev then (Inl (Permanent ''reversal binding mismatch''), db, s)
          else if ff_state f = ''revoked'' then (Inr ''revoked'', db, s)
          else case revoke_license_remotely cf rm ev f (the (ff_license_id f)) s of
            (Inl e, s) \<Rightarrow> (Inl e, db, s)
          | (Inr _, s) \<Rightarrow> (Inr ''revoked'', mark_revoked env (sv_payment_id ev) db, s))"

definition shop_process :: "shop_config \<Rightarrow> shop_env \<Rightarrow> 's remote \<Rightarrow> shop_event \<Rightarrow> shop_db \<Rightarrow> 's \<Rightarrow> string outcome \<times> shop_db \<times> 's" where
  "shop_process cf env rm ev db s =
     (case validate_semantics ev of
        Inl e \<Rightarrow> (Inl e, db, s)
      | Inr tier \<Rightarrow> if sv_event_type ev = ''payment.succeeded'' then shop_grant cf env rm ev tier db s else shop_revoke cf env rm ev db s)"

section \<open>The worker\<close>

text \<open>A row of the batch: the event with the attempts made so far.\<close>

record batch_row =
  bt_webhook_id :: string
  bt_event_type :: string
  bt_payload_sha256 :: string
  bt_payload :: string
  bt_attempts :: int

definition get_attempt :: "shop_db \<Rightarrow> string \<Rightarrow> attempt_row option" where
  "get_attempt db i = row_get at_webhook_id (sh_attempts db) i"

definition due_now :: "timestamp \<Rightarrow> shop_db \<Rightarrow> inbox_row \<Rightarrow> bool" where
  "due_now t db r \<longleftrightarrow> ib_status r = ''verified_pending'' \<and>
     (case get_attempt db (ib_webhook_id r) of
        None \<Rightarrow> True | Some a \<Rightarrow> (case at_next_attempt_at a of None \<Rightarrow> True | Some u \<Rightarrow> u \<le> t))"

definition due_batch :: "timestamp \<Rightarrow> nat \<Rightarrow> shop_db \<Rightarrow> batch_row list" where
  "due_batch t limit db =
     map (\<lambda>r. \<lparr>bt_webhook_id = ib_webhook_id r, bt_event_type = ib_event_type r, bt_payload_sha256 = ib_payload_sha256 r, bt_payload = ib_payload r,
         bt_attempts = (case get_attempt db (ib_webhook_id r) of None \<Rightarrow> 0 | Some a \<Rightarrow> at_attempts a)\<rparr>)
       (take limit (filter (due_now t db) (sh_inbox db)))"

definition still_pending :: "batch_row \<Rightarrow> inbox_row \<Rightarrow> bool" where
  "still_pending row r \<longleftrightarrow> ib_webhook_id r = bt_webhook_id row \<and> ib_payload_sha256 r = bt_payload_sha256 row \<and> ib_status r = ''verified_pending''"

definition set_status :: "batch_row \<Rightarrow> string \<Rightarrow> shop_db \<Rightarrow> shop_db" where
  "set_status row status db = sh_inbox_update (map (\<lambda>r. if still_pending row r then r\<lparr>ib_status := status\<rparr> else r)) db"

definition finish_row :: "batch_row \<Rightarrow> string \<Rightarrow> shop_db \<Rightarrow> shop_db outcome" where
  "finish_row row status db =
     (if length (filter (still_pending row) (sh_inbox db)) \<noteq> 1 then Inl (Fulfillment ''inbox row changed'')
      else Inr (sh_attempts_update (row_delete at_webhook_id (bt_webhook_id row)) (set_status row status db)))"

definition error_class :: "shop_error \<Rightarrow> string" where
  "error_class e = (case e of Permanent _ \<Rightarrow> ''PermanentFulfillmentError'' | Fulfillment _ \<Rightarrow> ''FulfillmentError'' | Other c \<Rightarrow> c)"

definition fail_row :: "shop_config \<Rightarrow> shop_env \<Rightarrow> batch_row \<Rightarrow> shop_error \<Rightarrow> bool \<Rightarrow> shop_db \<Rightarrow> shop_db" where
  "fail_row cf env row e permanent db =
     (let n = bt_attempts row + 1; next_at = sx_clock env + seconds (min 3600 (2 ^ nat (min n 11))); digest = sw_sha256 cf (error_class e);
          db = (if get_attempt db (bt_webhook_id row) = None
            then sh_attempts_update (\<lambda>rs. rs @ [\<lparr>at_webhook_id = bt_webhook_id row, at_payload_sha256 = bt_payload_sha256 row, at_attempts = n,
                at_next_attempt_at = Some next_at, at_last_error_digest = digest\<rparr>]) db
            else sh_attempts_update (row_update at_webhook_id (bt_webhook_id row)
                (\<lambda>a. a\<lparr>at_attempts := n, at_next_attempt_at := Some next_at, at_last_error_digest := digest\<rparr>)) db)
      in if permanent then set_status row ''rejected'' db else db)"

record tally =
  ta_processed :: nat
  ta_granted :: nat
  ta_revoked :: nat
  ta_ignored :: nat
  ta_retry :: nat
  ta_failed :: nat

definition count_outcome :: "string \<Rightarrow> tally \<Rightarrow> tally" where
  "count_outcome r t = (if r = ''granted'' then ta_granted_update Suc t else ta_revoked_update Suc t)"

definition failed_row :: "shop_config \<Rightarrow> shop_env \<Rightarrow> batch_row \<Rightarrow> shop_error \<Rightarrow> tally \<Rightarrow> shop_db \<Rightarrow> tally \<times> shop_db" where
  "failed_row cf env row e t db =
     (case e of
        Permanent _ \<Rightarrow> (ta_failed_update Suc t, fail_row cf env row e True db)
      | _ \<Rightarrow> if bt_attempts row + 1 \<ge> sw_max_attempts cf then (ta_failed_update Suc t, fail_row cf env row e True db)
             else (ta_retry_update Suc t, fail_row cf env row e False db))"

text \<open>One row of a batch. The status of an event the worker does not handle is set outside the guarded block: its failure ends the batch.\<close>

definition handle_row :: "shop_config \<Rightarrow> shop_env \<Rightarrow> 's remote \<Rightarrow> batch_row \<Rightarrow> tally \<Rightarrow> shop_db \<Rightarrow> 's \<Rightarrow> tally outcome \<times> shop_db \<times> 's" where
  "handle_row cf env rm row t db s =
     (let t = ta_processed_update Suc t in
      if bt_event_type row \<notin> SUPPORTED
      then (case finish_row row ''processed'' db of Inl e \<Rightarrow> (Inl e, db, s) | Inr db \<Rightarrow> (Inr (ta_ignored_update Suc t), db, s))
      else case parse_event cf (bt_webhook_id row) (bt_event_type row) (bt_payload row) (bt_payload_sha256 row) of
        Inl e \<Rightarrow> (case failed_row cf env row e t db of (t, db) \<Rightarrow> (Inr t, db, s))
      | Inr ev \<Rightarrow>
          (case shop_process cf env rm ev db s of
             (Inl e, db, s) \<Rightarrow> (case failed_row cf env row e t db of (t, db) \<Rightarrow> (Inr t, db, s))
           | (Inr r, db, s) \<Rightarrow>
               (case finish_row row ''processed'' db of
                  Inl e \<Rightarrow> (case failed_row cf env row e (count_outcome r t) db of (t, db) \<Rightarrow> (Inr t, db, s))
                | Inr db \<Rightarrow> (Inr (count_outcome r t), db, s))))"

fun handle_rows ::
  "shop_config \<Rightarrow> (nat \<Rightarrow> shop_env) \<Rightarrow> 's remote \<Rightarrow> nat \<Rightarrow> batch_row list \<Rightarrow> tally \<Rightarrow> shop_db \<Rightarrow> 's \<Rightarrow> tally outcome \<times> shop_db \<times> 's" where
  "handle_rows cf env rm n [] t db s = (Inr t, db, s)"
| "handle_rows cf env rm n (row # rows) t db s =
     (case handle_row cf (env n) rm row t db s of
        (Inl e, db, s) \<Rightarrow> (Inl e, db, s)
      | (Inr t, db, s) \<Rightarrow> handle_rows cf env rm (n + 1) rows t db s)"

definition no_tally :: tally where
  "no_tally = \<lparr>ta_processed = 0, ta_granted = 0, ta_revoked = 0, ta_ignored = 0, ta_retry = 0, ta_failed = 0\<rparr>"

definition run_once :: "shop_config \<Rightarrow> (nat \<Rightarrow> shop_env) \<Rightarrow> 's remote \<Rightarrow> int \<Rightarrow> shop_db \<Rightarrow> 's \<Rightarrow> tally outcome \<times> shop_db \<times> 's" where
  "run_once cf env rm limit db s =
     (if \<not> (1 \<le> limit \<and> limit \<le> 100) then (Inl (Fulfillment ''worker configuration invalid''), db, s)
      else handle_rows cf env rm 1 (due_batch (sx_clock (env 0)) (nat limit) db) no_tally db s)"

section \<open>Buyers\<close>

definition user_id_ok :: "string \<Rightarrow> bool" where
  "user_id_ok s \<longleftrightarrow> head_tail alnum (\<lambda>c. alnum c \<or> c \<in> set ''._:-'') 0 191 s"

definition recovery_code_ok :: "string \<Rightarrow> bool" where
  "recovery_code_ok s \<longleftrightarrow> length s = 32 \<and> list_all (\<lambda>c. alnum c \<or> c \<in> set ''_-'') s"

definition decrypt_code :: "shop_config \<Rightarrow> fulfillment \<Rightarrow> string outcome" where
  "decrypt_code cf f =
     (case sw_decrypt cf (ff_recovery_nonce f) (ff_recovery_ciphertext f) (delivery_aad (ff_payment_id f) (ff_user_id f) (ff_order_id f)) of
        None \<Rightarrow> Inl (Fulfillment ''buyer delivery unavailable'')
      | Some code \<Rightarrow>
          if \<not> recovery_code_ok code \<or> sw_sha256 cf code \<noteq> ff_recovery_hash f then Inl (Fulfillment ''buyer delivery unavailable'') else Inr code)"

record buyer_license =
  by_payment_id :: string
  by_tier :: string
  by_activation_key :: string

definition activation_key :: "string \<Rightarrow> string \<Rightarrow> string" where
  "activation_key order_id code = ''GM1.'' @ order_id @ CHR ''.'' # code"

fun show_licenses :: "shop_config \<Rightarrow> fulfillment list \<Rightarrow> buyer_license list outcome" where
  "show_licenses cf [] = Inr []"
| "show_licenses cf (f # fs) =
     and_then (decrypt_code cf f) (\<lambda>code.
     and_then (show_licenses cf fs) (\<lambda>ls.
       Inr (\<lparr>by_payment_id = ff_payment_id f, by_tier = ff_tier f, by_activation_key = activation_key (ff_order_id f) code\<rparr> # ls)))"

text \<open>The rows shown have been granted and carry the time of the grant, by which they are ordered.\<close>

definition grant_time :: "fulfillment \<Rightarrow> timestamp" where
  "grant_time f = (case ff_granted_at f of None \<Rightarrow> 0 | Some t \<Rightarrow> t)"

definition list_for_verified_user :: "shop_config \<Rightarrow> string \<Rightarrow> shop_db \<Rightarrow> buyer_license list outcome" where
  "list_for_verified_user cf user_id db =
     (if \<not> user_id_ok user_id then Inl (Fulfillment ''verified buyer identity invalid'')
      else show_licenses cf (sort_key grant_time (filter (\<lambda>f. ff_user_id f = user_id \<and> ff_state f = ''granted'') (sh_fulfillments db))))"

definition shop_entitlement :: "shop_config \<Rightarrow> string \<Rightarrow> string \<Rightarrow> shop_db \<Rightarrow> string option" where
  "shop_entitlement cf order_id code db =
     (case row_get ff_order_id (sh_fulfillments db) order_id of
        None \<Rightarrow> None
      | Some f \<Rightarrow> if ff_state f \<noteq> ''granted'' \<or> \<not> truthy (ff_license_id f) \<or> ff_recovery_hash f \<noteq> sw_sha256 cf code then None else ff_license_id f)"

text \<open>
  The routes for buyers. The identity of a session, its access and the calls of the authority are parameters; every failure is the same
  answer.
\<close>

definition buyer_licenses ::
  "shop_config \<Rightarrow> (string \<times> doc) list option \<Rightarrow> (string \<Rightarrow> bool) \<Rightarrow> shop_db \<Rightarrow> buyer_license list option" where
  "buyer_licenses cf identity access db =
     (case identity of
        Some [(k, Doc_Str user_id)] \<Rightarrow>
          if k \<noteq> ''user_id'' \<or> \<not> access user_id then None
          else (case list_for_verified_user cf user_id db of Inl _ \<Rightarrow> None | Inr ls \<Rightarrow> Some ls)
      | _ \<Rightarrow> None)"

definition shop_activation_challenge ::
  "shop_config \<Rightarrow> (string \<Rightarrow> string \<Rightarrow> 'c option) \<Rightarrow> string \<Rightarrow> string \<Rightarrow> string \<Rightarrow> shop_db \<Rightarrow> 'c option" where
  "shop_activation_challenge cf issue order_id code device_key db =
     (case shop_entitlement cf order_id code db of None \<Rightarrow> None | Some l \<Rightarrow> issue l device_key)"

end
