(* ===== verification/Shop_Authority.thy ===== *)
theory Shop_Authority
  imports Authority_Promises Shop_Fulfillment
begin

text \<open>
  What the shop worker relies on from the authority, as a locale, with the worker's guarantees proved in it; and the authority of
  \<open>Entitlement_Inbox\<close>, reached over a network that loses requests and answers while others use the authority too, as its
  interpretation.
\<close>

section \<open>The contract\<close>

locale entitlement_service =
  fixes rm :: "'s remote"
    and good :: "'s \<Rightarrow> bool"
    and entitled :: "'s \<Rightarrow> string \<Rightarrow> string \<Rightarrow> bool"
    and dead :: "'s \<Rightarrow> string \<Rightarrow> bool"
    and later :: "'s \<Rightarrow> 's \<Rightarrow> bool"
  assumes later_refl: "later s s"
    and later_trans: "later s s1 \<Longrightarrow> later s1 s2 \<Longrightarrow> later s s2"
    and later_good: "later s s' \<Longrightarrow> good s \<Longrightarrow> good s'"
    and later_entitled: "later s s' \<Longrightarrow> entitled s i l \<Longrightarrow> entitled s' i l"
    and later_dead: "later s s' \<Longrightarrow> dead s l \<Longrightarrow> dead s' l"
    and handshake_later: "rm_handshake rm s = (r1, s') \<Longrightarrow> later s s'"
    and create_later: "rm_create rm d s = (r2, s') \<Longrightarrow> later s s'"
    and read_later: "rm_read rm source i identity s = (r3, s') \<Longrightarrow> later s s'"
    and revoke_later: "rm_revoke rm r s = (r4, s') \<Longrightarrow> later s s'"
    and read_revocation_later: "rm_read_revocation rm source i identity s = (r5, s') \<Longrightarrow> later s s'"
    and read_entitled: "rm_read rm ''whop'' i identity s = (Inr doc, s') \<Longrightarrow> good s \<Longrightarrow> member_string doc ''license_id'' = Some l \<Longrightarrow>
      entitled s' i l \<and> l \<noteq> []"
    and read_dead: "rm_read_revocation rm ''whop'' i identity s = (Inr doc, s') \<Longrightarrow> good s \<Longrightarrow> member_string doc ''license_id'' = Some l \<Longrightarrow> dead s' l"
begin

text \<open>A fulfillment is backed by the authority: its license is the one delivered for the payment, and dead when the row says so.\<close>

definition backed :: "'s \<Rightarrow> fulfillment \<Rightarrow> bool" where
  "backed s f \<longleftrightarrow> ff_state f \<in> {''granted'', ''revoked''} \<and>
     (\<exists>l. ff_license_id f = Some l \<and> l \<noteq> [] \<and> entitled s (ff_source_id f) l \<and> (ff_state f = ''revoked'' \<longrightarrow> dead s l))"

definition bound :: "shop_db \<Rightarrow> 's \<Rightarrow> bool" where
  "bound db s \<longleftrightarrow> good s \<and> (\<forall>f\<in>set (sh_fulfillments db). backed s f)"

lemma backed_later: "later s s' \<Longrightarrow> backed s f \<Longrightarrow> backed s' f"
  unfolding backed_def using later_entitled later_dead by blast

lemma bound_later: "later s s' \<Longrightarrow> bound db s \<Longrightarrow> bound db s'"
  unfolding bound_def using later_good backed_later by blast

text \<open>Each call of an operation either raises and ends it, or its answer goes on in a later state.\<close>

lemma then_call_later:
  assumes "then_call r f = (x, s')" "later s s1" "\<And>y s2. r = (y, s2) \<Longrightarrow> later s1 s2"
  obtains c where "x = Inl (Other c)" "later s s'" | y s2 where "r = (Inr y, s2)" "f y s2 = (x, s')" "later s s2"
  using assms later_trans by (auto simp: then_call_def split: prod.splits sum.splits)

lemmas handshake_then = then_call_later [OF _ _ handshake_later]
lemmas create_then = then_call_later [OF _ _ create_later]
lemmas read_then = then_call_later [OF _ _ read_later]
lemmas revoke_then = then_call_later [OF _ _ revoke_later]
lemmas read_revocation_then = then_call_later [OF _ _ read_revocation_later]

lemma obtain_license_later:
  assumes "obtain_license cf rm ev s = (x, s')" "good s"
  shows "later s s' \<and> (\<forall>l. x = Inr l \<longrightarrow> entitled s' (shop_source_id cf (sv_payment_id ev)) l \<and> l \<noteq> [])"
  using assms(1) unfolding obtain_license_def Let_def
  by (elim handshake_then [OF _ later_refl] create_then read_then)
    (auto split: option.splits if_splits dest: read_entitled [OF _ later_good [OF _ assms(2)]])

lemma revoke_remotely_later:
  assumes "revoke_license_remotely cf rm ev f l s = (x, s')" "good s"
  shows "later s s' \<and> (\<forall>u. x = Inr u \<longrightarrow> dead s' l)"
  using assms(1) unfolding revoke_license_remotely_def
  by (elim handshake_then [OF _ later_refl] revoke_then read_revocation_then)
    (auto split: if_splits dest: read_dead [OF _ later_good [OF _ assms(2)]])

text \<open>The row a grant is about to complete.\<close>

definition opened :: "shop_config \<Rightarrow> shop_event \<Rightarrow> fulfillment \<Rightarrow> bool" where
  "opened cf ev f \<longleftrightarrow> ff_state f = ''granting'' \<and> ff_payment_id f = sv_payment_id ev \<and> ff_source_id f = shop_source_id cf (sv_payment_id ev)"

lemma finish_grant_bound:
  assumes "finish_grant cf env rm ev db0 db s = (r, db', s')" "bound db0 s" "\<forall>f\<in>set (sh_fulfillments db). backed s f \<or> opened cf ev f"
  shows "bound db' s' \<and> later s s'"
proof -
  obtain x s1 where call: "obtain_license cf rm ev s = (x, s1)" by fastforce
  have "good s" using assms(2) by (simp add: bound_def)
  note got = obtain_license_later [OF call this]
  then have later: "later s s1" ..
  have old: "bound db0 s1" by (rule bound_later [OF later assms(2)])
  have "s' = s1" using assms(1) call by (auto simp: finish_grant_def split: sum.splits)
  moreover have "bound db' s1"
  proof (cases "db' = db0")
    case False
    then obtain l where x: "x = Inr l" and db': "mark_granted env (sv_payment_id ev) l db = Inr db'"
      using assms(1) call by (auto simp: finish_grant_def split: sum.splits)
    have rows: "sh_fulfillments db' = row_update ff_payment_id (sv_payment_id ev) (\<lambda>f. if ff_state f = ''granting''
        then f\<lparr>ff_state := ''granted'', ff_license_id := Some l, ff_granted_at := Some (sx_clock env)\<rparr> else f) (sh_fulfillments db)"
      using db' by (auto simp: mark_granted_def Let_def split: if_splits)
    have "backed s1 f" if mem: "f \<in> set (sh_fulfillments db')" for f
    proof -
      obtain g where g: "g \<in> set (sh_fulfillments db)" "f = (if ff_payment_id g = sv_payment_id ev then if ff_state g = ''granting''
        then g\<lparr>ff_state := ''granted'', ff_license_id := Some l, ff_granted_at := Some (sx_clock env)\<rparr> else g else g)"
        using mem unfolding rows row_update_def by auto
      then consider "backed s g" | "opened cf ev g" using assms(3) by blast
      then show ?thesis
      proof cases
        case 1
        then have "f = g" using g(2) by (auto simp: backed_def)
        then show ?thesis using backed_later [OF later 1] by simp
      next
        case 2
        then show ?thesis using got g(2) x by (simp add: backed_def opened_def)
      qed
    qed
    then show ?thesis using old by (simp add: bound_def)
  qed (simp add: old)
  ultimately show ?thesis using later by simp
qed

lemma grant_bound:
  assumes "shop_grant cf env rm ev tier db s = (r, db', s')" "bound db s"
  shows "bound db' s' \<and> later s s'"
proof -
  have held: "\<forall>f\<in>set (sh_fulfillments db). backed s f" using assms(2) by (simp add: bound_def)
  consider "db' = db" "s' = s" | "finish_grant cf env rm ev db db s = (r, db', s')"
    | user db1 where "insert_fulfillment (new_fulfillment cf env ev user tier) db = Inr db1" "finish_grant cf env rm ev db db1 s = (r, db', s')"
    using assms(1) by (auto simp: shop_grant_def split: option.splits if_splits sum.splits)
  then show ?thesis
  proof cases
    case 1
    then show ?thesis using assms(2) later_refl by simp
  next
    case 2
    then show ?thesis by (rule finish_grant_bound [OF _ assms(2)]) (use held in blast)
  next
    case (3 user db1)
    have "opened cf ev (new_fulfillment cf env ev user tier)" by (simp add: opened_def new_fulfillment_def)
    then show ?thesis
      using 3(1) held by (intro finish_grant_bound [OF 3(2) assms(2)]) (auto simp: insert_fulfillment_def split: if_splits)
  qed
qed

lemma revoke_bound:
  assumes "shop_revoke cf env rm ev db s = (r, db', s')" "bound db s" "distinct (map ff_payment_id (sh_fulfillments db))"
  shows "bound db' s' \<and> later s s'"
proof (cases "get_fulfillment db (sv_payment_id ev)")
  case None
  then show ?thesis using assms(1,2) later_refl by (simp add: shop_revoke_def)
next
  case (Some f)
  have f: "f \<in> set (sh_fulfillments db)" "ff_payment_id f = sv_payment_id ev" using Some by (auto simp: get_fulfillment_def dest: row_get_Some)
  have good: "good s" and held: "\<forall>f\<in>set (sh_fulfillments db). backed s f" using assms(2) by (simp_all add: bound_def)
  obtain l where l: "ff_license_id f = Some l" using held f(1) by (auto simp: backed_def)
  obtain x s1 where call: "revoke_license_remotely cf rm ev f l s = (x, s1)" by fastforce
  note got = revoke_remotely_later [OF call good]
  consider "db' = db" "s' = s" | "db' = db" "s' = s1" | "db' = mark_revoked env (sv_payment_id ev) db" "s' = s1" "dead s1 l"
    using assms(1) Some call l got by (auto simp: shop_revoke_def Let_def split: if_splits sum.splits)
  then show ?thesis
  proof cases
    case 3
    have "backed s1 g" if mem: "g \<in> set (sh_fulfillments db')" for g
    proof -
      obtain h where h: "h \<in> set (sh_fulfillments db)"
        "g = (if ff_payment_id h = sv_payment_id ev then h\<lparr>ff_state := ''revoked'', ff_revoked_at := Some (sx_clock env)\<rparr> else h)"
        using mem unfolding 3(1) mark_revoked_def row_update_def by auto
      have b: "backed s1 h" using held h(1) backed_later got by blast
      show ?thesis
      proof (cases "ff_payment_id h = sv_payment_id ev")
        case True
        then have "h = f" using assms(3) h(1) f by (simp add: distinct_map inj_on_def)
        then show ?thesis using b True h(2) l 3(3) by (auto simp: backed_def)
      qed (use b h(2) in simp)
    qed
    then show ?thesis using later_good got good 3(2) by (auto simp: bound_def)
  qed (use assms(2) got bound_later later_refl in blast)+
qed

lemma process_bound:
  assumes "shop_process cf env rm ev db s = (r, db', s')" "bound db s" "distinct (map ff_payment_id (sh_fulfillments db))"
  shows "bound db' s' \<and> later s s'"
proof -
  consider "db' = db" "s' = s" | tier where "shop_grant cf env rm ev tier db s = (r, db', s')" | "shop_revoke cf env rm ev db s = (r, db', s')"
    using assms(1) by (auto simp: shop_process_def split: sum.splits if_splits)
  then show ?thesis using assms(2,3) grant_bound revoke_bound later_refl by cases blast+
qed

end

section \<open>The authority over a network\<close>

text \<open>Whatever others do at the authority meanwhile.\<close>

typedef interference = "{f. \<forall>db. authority_step\<^sup>*\<^sup>* db (f db)}"
  by (rule exI [of _ "\<lambda>db. db"]) simp

setup_lifting type_definition_interference

lift_definition meanwhile :: "interference \<Rightarrow> authority_db \<Rightarrow> authority_db" is "\<lambda>f. f" .

lift_definition quiet :: interference is "\<lambda>db. db" by simp

lemma meanwhile_runs: "authority_step\<^sup>*\<^sup>* db (meanwhile f db)"
  by transfer simp

datatype fate = Answered | Request_Lost | Answer_Lost

record network =
  nw_outside :: "nat \<Rightarrow> outside"
  nw_ceremony :: "nat \<Rightarrow> ceremony"
  nw_fate :: "nat \<Rightarrow> fate"
  nw_meanwhile :: "nat \<Rightarrow> interference"

type_synonym far = "authority_db \<times> nat"

text \<open>The n-th call: a lost request does nothing, a lost answer leaves what the authority did, a refusal and a loss look alike.\<close>

definition carry :: "network \<Rightarrow> (outside \<Rightarrow> ceremony \<Rightarrow> authority_db \<Rightarrow> ('a \<times> authority_db) answer) \<Rightarrow> far \<Rightarrow> (string + 'a) \<times> far" where
  "carry nw f s =
     (case s of (db, n) \<Rightarrow>
        let db = meanwhile (nw_meanwhile nw n) db; lost = Inl ''AuthorityHTTPError'' in
        if nw_fate nw n = Request_Lost then (lost, db, n + 1)
        else case f (nw_outside nw n) (nw_ceremony nw n) db of
          Inl _ \<Rightarrow> (lost, db, n + 1)
        | Inr (x, db) \<Rightarrow> (if nw_fate nw n = Answer_Lost then lost else Inr x, db, n + 1))"

definition entitled_ack :: "external_entitlement \<times> string \<Rightarrow> doc" where
  "entitled_ack a = (case a of (e, receipt) \<Rightarrow> Doc_Obj [(''source'', Doc_Str (xe_source e)), (''source_id'', Doc_Str (xe_source_id e)),
     (''license_id'', Doc_Str (xe_license_id e)), (''delivery_receipt'', Doc_Str receipt)])"

definition revoked_ack :: "external_revocation \<Rightarrow> doc" where
  "revoked_ack v = Doc_Obj [(''source'', Doc_Str (xv_source v)), (''source_id'', Doc_Str (xv_source_id v)),
     (''license_id'', Doc_Str (xv_license_id v)), (''revocation_receipt'', Doc_Str (xv_receipt v))]"

definition reads :: "'a answer \<Rightarrow> authority_db \<Rightarrow> ('a \<times> authority_db) answer" where
  "reads m db = and_then m (\<lambda>x. Inr (x, db))"

definition remote_authority :: "network \<Rightarrow> far remote" where
  "remote_authority nw =
     \<lparr>rm_handshake = carry nw (\<lambda>oe c db. reads (handshake oe c db) db),
      rm_create = (\<lambda>d. carry nw (\<lambda>oe c db. and_then (create_external_entitlement oe c d db) (\<lambda>(_, db). Inr ((), db)))),
      rm_read = (\<lambda>source i identity. carry nw (\<lambda>oe c db.
        reads (and_then (read_external_entitlement_acknowledgement oe c source i identity db) (\<lambda>a. Inr (entitled_ack a))) db)),
      rm_revoke = (\<lambda>r. carry nw (\<lambda>oe c db. and_then (revoke_external_entitlement oe c r db) (\<lambda>(_, db). Inr ((), db)))),
      rm_read_revocation = (\<lambda>source i identity. carry nw (\<lambda>oe c db.
        reads (and_then (read_external_revocation_acknowledgement oe c source i identity db) (\<lambda>v. Inr (revoked_ack v))) db))\<rparr>"

lemma carry_runs:
  assumes "carry nw f s = (r, s')" "\<And>oe c db x db'. f oe c db = Inr (x, db') \<Longrightarrow> authority_step\<^sup>*\<^sup>* db db'"
  shows "authority_step\<^sup>*\<^sup>* (fst s) (fst s')"
proof -
  obtain db n where s: "s = (db, n)" by (cases s)
  let ?db = "meanwhile (nw_meanwhile nw n) db"
  have "authority_step\<^sup>*\<^sup>* ?db (fst s')"
    using assms(1) by (auto simp: s carry_def Let_def split: if_splits sum.splits intro: assms(2))
  then show ?thesis using meanwhile_runs [of db] by (simp add: s rtranclp_trans [OF meanwhile_runs])
qed

lemma carry_answer:
  assumes "carry nw f s = (Inr x, s')"
  obtains oe c db where "authority_step\<^sup>*\<^sup>* (fst s) db" "f oe c db = Inr (x, fst s')"
proof (cases s)
  case (Pair db n)
  then have "f (nw_outside nw n) (nw_ceremony nw n) (meanwhile (nw_meanwhile nw n) db) = Inr (x, fst s')"
    using assms by (auto simp: carry_def Let_def split: if_splits sum.splits)
  then show thesis using that meanwhile_runs Pair by (metis fst_conv)
qed

text \<open>Licenses of purchases have a name.\<close>

definition named :: "authority_db \<Rightarrow> bool" where
  "named db \<longleftrightarrow> (\<forall>e\<in>set (ad_entitlements db). xe_license_id e \<noteq> [])"

lemma named_same: "ad_entitlements db' = ad_entitlements db \<Longrightarrow> named db \<Longrightarrow> named db'"
  by (simp add: named_def)

lemma revoke_license_entitlements [simp]: "ad_entitlements (revoke_license t i db) = ad_entitlements db"
  by (simp add: revoke_license_def consume_challenges_def)

lemma consume_entitlements [simp]: "ad_entitlements (consume_challenges t i db) = ad_entitlements db" "ad_entitlements (supersede_challenges t i d db) = ad_entitlements db"
  by (simp_all add: consume_challenges_def supersede_challenges_def)

lemma audit_entitlements [simp]: "ad_entitlements (audit oe ev i device detail db) = ad_entitlements db" "ad_entitlements (log_gift_event g t ev n db) = ad_entitlements db"
  by (simp_all add: audit_def log_gift_event_def)

lemma insert_entitlements [simp]:
  "insert_license l db = Inr db' \<Longrightarrow> ad_entitlements db' = ad_entitlements db"
  "insert_gift g db = Inr db' \<Longrightarrow> ad_entitlements db' = ad_entitlements db"
  "insert_challenge ch db = Inr db' \<Longrightarrow> ad_entitlements db' = ad_entitlements db"
  "insert_request r db = Inr db' \<Longrightarrow> ad_entitlements db' = ad_entitlements db"
  "insert_revocation v db = Inr db' \<Longrightarrow> ad_entitlements db' = ad_entitlements db"
  by (auto simp: insert_license_def insert_gift_def insert_challenge_def insert_request_def insert_revocation_def split: if_splits)

lemma seat_entitlements [simp]:
  "insert_activation a db = Inr db' \<Longrightarrow> ad_entitlements db' = ad_entitlements db"
  "reactivate a db = Inr db' \<Longrightarrow> ad_entitlements db' = ad_entitlements db"
  by (auto simp: insert_activation_def reactivate_def split: if_splits)

lemma grant_seat_entitlements: "grant_seat oe c l d key nonce prf db = Inr (cert, db') \<Longrightarrow> ad_entitlements db' = ad_entitlements db"
  by (elim grant_seat_Inr) (auto split: if_splits)

lemma activate_entitlements: "activate_in_transaction oe c i key nonce prf db = Inr (cert, db') \<Longrightarrow> ad_entitlements db' = ad_entitlements db"
  by (elim activate_Inr) (auto dest: grant_seat_entitlements)

lemma gift_entitlements:
  "create_license oe p db = Inr (l, db') \<Longrightarrow> ad_entitlements db' = ad_entitlements db"
  "create_gift oe canon q db = Inr (x, db') \<Longrightarrow> ad_entitlements db' = ad_entitlements db"
  "recover_gift oe canon i db = Inr (y, db') \<Longrightarrow> ad_entitlements db' = ad_entitlements db"
  "revoke_gift oe canon i db = Inr (z, db') \<Longrightarrow> ad_entitlements db' = ad_entitlements db"
  by (auto simp: create_license_def create_gift_def Let_def case_refail_eq_Inr result_simps split: if_splits elim!: recover_gift_Inr revoke_gift_Inr)

lemma challenge_entitlements:
  "issue_gift_claim_challenge oe i secret key ttl db = Inr (ch, db') \<Longrightarrow> ad_entitlements db' = ad_entitlements db"
  "issue_activation_challenge oe i key ttl db = Inr (ch, db') \<Longrightarrow> ad_entitlements db' = ad_entitlements db"
  "activate_challenge oe c i prf flow db = Inr (cert, db') \<Longrightarrow> ad_entitlements db' = ad_entitlements db"
  by (auto simp: issue_gift_claim_challenge_def issue_activation_challenge_def Let_def result_simps split: if_splits
    elim!: activate_challenge_Inr dest: activate_entitlements)

lemma deactivate_entitlements:
  "deactivate oe i d reason db = (x, db') \<Longrightarrow> ad_entitlements db' = ad_entitlements db"
  "deactivate_gift_device oe canon i d db = Inr (y, db') \<Longrightarrow> ad_entitlements db' = ad_entitlements db"
  by (auto simp: deactivate_def deactivate_gift_device_def Let_def result_simps split: if_splits option.splits)

lemma accept_named:
  assumes "accept_entitlement oe c d identity db = Inr (ack, db')" "named db"
  shows "named db'"
  using assms(1)
proof (cases rule: accept_entitlement_Inr)
  case (1 signature db1 db2 detail)
  then show ?thesis using assms(2) by (auto simp: named_def insert_entitlement_def entitlement_row_def entitled_license_def split: if_splits)
qed

lemma create_named: "create_external_entitlement oe c d db = Inr (ack, db') \<Longrightarrow> named db \<Longrightarrow> named db'"
  by (auto simp: create_external_entitlement_def result_simps split: option.splits if_splits dest: accept_named)

lemma revoke_named: "revoke_external_entitlement oe c r db = Inr (ack, db') \<Longrightarrow> named db \<Longrightarrow> named db'"
  by (auto simp: revoke_external_entitlement_def result_simps named_def split: option.splits if_splits elim!: accept_revocation_Inr)

lemma named_step: "authority_step db db' \<Longrightarrow> named db \<Longrightarrow> named db'"
proof (induction rule: authority_step.induct)
  case (step_entitlement oe c d db x db')
  then show ?case by (rule create_named)
next
  case (step_revocation oe c r db x db')
  then show ?case by (rule revoke_named)
qed (auto simp: activate_def intro: named_same dest: gift_entitlements challenge_entitlements deactivate_entitlements activate_entitlements)

lemma named_run: "authority_step\<^sup>*\<^sup>* db db' \<Longrightarrow> named db \<Longrightarrow> named db'"
  by (induction rule: rtranclp_induct) (auto intro: named_step)

definition sold_by_shop :: "authority_db \<Rightarrow> string \<Rightarrow> string \<Rightarrow> bool" where
  "sold_by_shop db source_id l \<longleftrightarrow> (\<exists>e. find_entitlement ''whop'' source_id db = Some e \<and> xe_license_id e = l)"

lemma sold_run: "authority_step\<^sup>*\<^sup>* db db' \<Longrightarrow> sold_by_shop db i l \<Longrightarrow> sold_by_shop db' i l"
  using run_keeps(1) [of db db'] by (auto simp: sold_by_shop_def evolves_def find_entitlement_def find_append)

lemma reads_eq: "reads m db = Inr (x, db') \<longleftrightarrow> m = Inr x \<and> db' = db"
  by (auto simp: reads_def and_then_def split: sum.splits)

lemma read_sold:
  assumes "rm_read (remote_authority nw) ''whop'' i identity s = (Inr d, s')" "named (fst s)" "member_string d ''license_id'' = Some l"
  shows "sold_by_shop (fst s') i l \<and> l \<noteq> []"
proof -
  obtain oe c db a where run: "authority_step\<^sup>*\<^sup>* (fst s) db" and a: "read_external_entitlement_acknowledgement oe c ''whop'' i identity db = Inr a"
    and d: "d = entitled_ack a" "fst s' = db"
    using assms(1) by (auto simp: remote_authority_def reads_eq and_then_eq_Inr elim!: carry_answer)
  obtain e receipt where e: "a = (e, receipt)" "find_entitlement ''whop'' i db = Some e"
    using a by (cases a) (auto simp: read_external_entitlement_acknowledgement_def result_simps split: option.splits if_splits)
  have "l = xe_license_id e" using assms(3) by (simp add: d(1) e(1) entitled_ack_def member_string_def)
  moreover have "e \<in> set (ad_entitlements db)" using e(2) by (auto simp: find_entitlement_def find_Some_iff)
  ultimately show ?thesis using e(2) d(2) named_run [OF run assms(2)] by (auto simp: sold_by_shop_def named_def)
qed

lemma read_revoked:
  assumes "rm_read_revocation (remote_authority nw) ''whop'' i identity s = (Inr d, s')" "authority_ok (fst s)" "member_string d ''license_id'' = Some l"
  shows "revoked l (fst s')"
proof -
  obtain oe c db v where run: "authority_step\<^sup>*\<^sup>* (fst s) db" and a: "read_external_revocation_acknowledgement oe c ''whop'' i identity db = Inr v"
    and d: "d = revoked_ack v" "fst s' = db"
    using assms(1) by (auto simp: remote_authority_def reads_eq and_then_eq_Inr elim!: carry_answer)
  have "find_revocation ''whop'' i db = Some v"
    using a by (auto simp: read_external_revocation_acknowledgement_def result_simps split: option.splits if_splits)
  then have "v \<in> set (ad_revocations db)" by (auto simp: find_revocation_def find_Some_iff)
  moreover have "l = xv_license_id v" using assms(3) by (simp add: d(1) revoked_ack_def member_string_def)
  ultimately show ?thesis using authority_okD(5) [OF run_keeps(2) [OF run assms(2)]] d(2) by (simp add: revocations_ok_def)
qed

lemma call_runs:
  "rm_handshake (remote_authority nw) s = (r1, s') \<Longrightarrow> authority_step\<^sup>*\<^sup>* (fst s) (fst s')"
  "rm_create (remote_authority nw) d s = (r2, s') \<Longrightarrow> authority_step\<^sup>*\<^sup>* (fst s) (fst s')"
  "rm_read (remote_authority nw) source i identity s = (r3, s') \<Longrightarrow> authority_step\<^sup>*\<^sup>* (fst s) (fst s')"
  "rm_revoke (remote_authority nw) r s = (r4, s') \<Longrightarrow> authority_step\<^sup>*\<^sup>* (fst s) (fst s')"
  "rm_read_revocation (remote_authority nw) source i identity s = (r5, s') \<Longrightarrow> authority_step\<^sup>*\<^sup>* (fst s) (fst s')"
  by (auto simp: remote_authority_def reads_eq and_then_eq_Inr elim!: carry_runs)
    (blast intro: step_entitlement step_revocation)+

interpretation authority: entitlement_service "remote_authority nw"
    "\<lambda>s. authority_ok (fst s) \<and> named (fst s)" "\<lambda>s. sold_by_shop (fst s)" "\<lambda>s l. revoked l (fst s)" "\<lambda>s s'. authority_step\<^sup>*\<^sup>* (fst s) (fst s')" for nw
proof unfold_locales
  show "authority_step\<^sup>*\<^sup>* (fst s) (fst s') \<Longrightarrow> revoked l (fst s) \<Longrightarrow> revoked l (fst s')" for s s' :: far and l
    using run_keeps(1) evolves_revoked by blast
qed (auto intro: rtranclp_trans run_keeps named_run sold_run call_runs dest: read_sold read_revoked)

end
