(* ===== verification/Shop_Guarantees.thy ===== *)
theory Shop_Guarantees
  imports Shop_Authority "HOL-Library.Multiset"
begin

text \<open>
  What buyers and the shop can rely on, over all runs of workers, of the ingress and of the authority: one license per payment, at most
  fifty early sales, refunds that end the license at the authority, activation keys that work, and events that are not retried forever.
\<close>

section \<open>Runs\<close>

definition empty_shop :: shop_db where
  "empty_shop = \<lparr>sh_inbox = [], sh_fulfillments = [], sh_attempts = []\<rparr>"

text \<open>
  A worker processes an event in one transaction, over any network; the tables of events and attempts change in any way; the authority
  serves others. A random token is 32 characters of the URL alphabet, as \<open>secrets.token_urlsafe(24)\<close> documents.
\<close>

inductive shop_step :: "shop_config \<Rightarrow> shop_db \<times> authority_db \<Rightarrow> shop_db \<times> authority_db \<Rightarrow> bool" for cf where
  step_process: "shop_process cf env (remote_authority nw) ev db (a, n) = (r, db', (a', n')) \<Longrightarrow> recovery_code_ok (sx_token env) \<Longrightarrow>
    shop_step cf (db, a) (db', a')"
| step_events: "shop_step cf (db, a) (db\<lparr>sh_inbox := rows, sh_attempts := counts\<rparr>, a)"
| step_others: "authority_step a a' \<Longrightarrow> shop_step cf (db, a) (db, a')"

text \<open>How processing an event changes the fulfillments.\<close>

lemma process_cases:
  assumes "shop_process cf env rm ev db s = (r, db', s')"
  obtains (same) "db' = db"
  | (again) l where "mark_granted env (sv_payment_id ev) l db = Inr db'"
  | (first) user tier db1 l where "insert_fulfillment (new_fulfillment cf env ev user tier) db = Inr db1"
      "tier = ''early'' \<Longrightarrow> early_fulfillments db < SHOP_EARLY_LIMIT" "mark_granted env (sv_payment_id ev) l db1 = Inr db'"
  | (reversed) "db' = mark_revoked env (sv_payment_id ev) db"
proof -
  consider "db' = db" | tier where "shop_grant cf env rm ev tier db s = (r, db', s')" | "shop_revoke cf env rm ev db s = (r, db', s')"
    using assms by (auto simp: shop_process_def split: sum.splits if_splits)
  then show thesis
  proof cases
    case (2 tier)
    consider "db' = db" | "finish_grant cf env rm ev db db s = (r, db', s')"
      | user db1 where "insert_fulfillment (new_fulfillment cf env ev user tier) db = Inr db1" "\<not> (tier = ''early'' \<and> SHOP_EARLY_LIMIT \<le> early_fulfillments db)"
          "finish_grant cf env rm ev db db1 s = (r, db', s')"
      using 2 by (auto simp: shop_grant_def split: option.splits if_splits sum.splits)
    then show thesis
    proof cases
      case 2
      then show thesis using same again by (auto simp: finish_grant_def split: prod.splits sum.splits)
    next
      case (3 user db1)
      then show thesis using same first [OF 3(1)] by (auto simp: finish_grant_def split: prod.splits sum.splits)
    qed (rule same)
  next
    case 3
    then show thesis using same reversed by (auto simp: shop_revoke_def Let_def split: option.splits if_splits prod.splits sum.splits)
  qed (rule same)
qed

section \<open>The invariant\<close>

definition sealed :: "shop_config \<Rightarrow> fulfillment \<Rightarrow> bool" where
  "sealed cf f \<longleftrightarrow> (\<exists>code. recovery_code_ok code \<and> ff_recovery_hash f = sw_sha256 cf code \<and>
     ff_recovery_ciphertext f = sw_encrypt cf (ff_recovery_nonce f) code (delivery_aad (ff_payment_id f) (ff_user_id f) (ff_order_id f)))"

definition shop_ok :: "shop_config \<Rightarrow> shop_db \<Rightarrow> bool" where
  "shop_ok cf db \<longleftrightarrow>
     distinct (map ff_payment_id (sh_fulfillments db)) \<and> distinct (map ff_order_id (sh_fulfillments db)) \<and>
     distinct (List.map_filter ff_license_id (sh_fulfillments db)) \<and> early_fulfillments db \<le> SHOP_EARLY_LIMIT \<and>
     (\<forall>f\<in>set (sh_fulfillments db). ff_state f \<in> {''granting'', ''granted'', ''revoked''} \<and> sealed cf f)"

text \<open>What a change of state leaves alone.\<close>

definition fixed :: "fulfillment \<Rightarrow> string list" where
  "fixed f = [ff_payment_id f, ff_commercial_digest f, ff_product_id f, ff_plan_id f, ff_tier f, ff_source_id f, ff_payload_digest f,
     ff_grant_webhook_id f, ff_user_id f, ff_order_id f, ff_recovery_hash f, ff_recovery_nonce f, ff_recovery_ciphertext f]"

lemma shop_ok_map:
  assumes "shop_ok cf db" "sh_fulfillments db' = map h (sh_fulfillments db)" "\<And>f. fixed (h f) = fixed f"
    "\<And>f. ff_state f \<in> {''granting'', ''granted'', ''revoked''} \<Longrightarrow> ff_state (h f) \<in> {''granting'', ''granted'', ''revoked''}"
    "distinct (List.map_filter ff_license_id (sh_fulfillments db'))"
  shows "shop_ok cf db'"
proof -
  have keep: "ff_payment_id (h f) = ff_payment_id f" "ff_order_id (h f) = ff_order_id f" "ff_tier (h f) = ff_tier f" "sealed cf (h f) = sealed cf f" for f
    using assms(3) [of f] by (simp_all add: fixed_def sealed_def)
  have "filter (\<lambda>f. ff_tier f = ''early'' \<and> ff_state f \<in> {''granting'', ''granted'', ''revoked''}) (map h (sh_fulfillments db)) =
      map h (filter (\<lambda>f. ff_tier f = ''early'' \<and> ff_state f \<in> {''granting'', ''granted'', ''revoked''}) (sh_fulfillments db))"
    using assms(1,4) unfolding filter_map shop_ok_def comp_def keep(3) by (intro arg_cong [of _ _ "map h"] filter_cong) blast+
  then have "early_fulfillments db' = early_fulfillments db" by (simp only: early_fulfillments_def assms(2) length_map)
  moreover have "map ff_payment_id (sh_fulfillments db') = map ff_payment_id (sh_fulfillments db)" "map ff_order_id (sh_fulfillments db') = map ff_order_id (sh_fulfillments db)"
    by (simp_all add: assms(2) keep)
  moreover have "\<forall>f\<in>set (sh_fulfillments db'). ff_state f \<in> {''granting'', ''granted'', ''revoked''} \<and> sealed cf f"
    using assms(1,4) keep(4) unfolding assms(2) shop_ok_def by simp
  ultimately show ?thesis using assms(1,5) unfolding shop_ok_def by simp
qed

lemma mark_granted_ok:
  assumes "mark_granted env i l db = Inr db'" "shop_ok cf db"
  shows "shop_ok cf db'"
proof (rule shop_ok_map [OF assms(2)])
  show "sh_fulfillments db' = map (\<lambda>f. if ff_payment_id f = i then if ff_state f = ''granting''
      then f\<lparr>ff_state := ''granted'', ff_license_id := Some l, ff_granted_at := Some (sx_clock env)\<rparr> else f else f) (sh_fulfillments db)"
    "distinct (List.map_filter ff_license_id (sh_fulfillments db'))"
    using assms(1) by (auto simp: mark_granted_def Let_def row_update_def split: if_splits)
qed (auto simp: fixed_def)

lemma mark_revoked_ok:
  assumes "shop_ok cf db"
  shows "shop_ok cf (mark_revoked env i db)"
proof (rule shop_ok_map [OF assms])
  let ?h = "\<lambda>f. if ff_payment_id f = i then f\<lparr>ff_state := ''revoked'', ff_revoked_at := Some (sx_clock env)\<rparr> else f"
  show rows: "sh_fulfillments (mark_revoked env i db) = map ?h (sh_fulfillments db)" by (simp add: mark_revoked_def row_update_def)
  have "List.map_filter ff_license_id (map ?h rs) = List.map_filter ff_license_id rs" for rs
    by (induction rs) (auto simp: List.map_filter_def)
  then show "distinct (List.map_filter ff_license_id (sh_fulfillments (mark_revoked env i db)))" using assms unfolding rows shop_ok_def by metis
qed (auto simp: fixed_def)

lemma insert_ok:
  assumes "insert_fulfillment (new_fulfillment cf env ev user tier) db = Inr db'" "shop_ok cf db" "recovery_code_ok (sx_token env)"
    "tier = ''early'' \<Longrightarrow> early_fulfillments db < SHOP_EARLY_LIMIT"
  shows "shop_ok cf db'"
proof -
  let ?f = "new_fulfillment cf env ev user tier"
  have new: "ff_payment_id ?f \<notin> ff_payment_id ` set (sh_fulfillments db)" "ff_order_id ?f \<notin> ff_order_id ` set (sh_fulfillments db)"
    and rows: "sh_fulfillments db' = sh_fulfillments db @ [?f]"
    using assms(1) by (auto simp: insert_fulfillment_def list_ex_iff split: if_splits)
  have "sealed cf ?f" using assms(3) by (auto simp: sealed_def new_fulfillment_def)
  moreover have "ff_state ?f = ''granting''" "ff_license_id ?f = None" "ff_tier ?f = tier" by (simp_all add: new_fulfillment_def)
  moreover have "early_fulfillments db' \<le> SHOP_EARLY_LIMIT"
    using assms(2,4) by (auto simp: early_fulfillments_def rows shop_ok_def new_fulfillment_def)
  ultimately show ?thesis using assms(2) new by (auto simp: shop_ok_def rows List.map_filter_def)
qed

lemma process_ok:
  assumes "shop_process cf env rm ev db s = (r, db', s')" "shop_ok cf db" "recovery_code_ok (sx_token env)"
  shows "shop_ok cf db'"
  using assms(1)
proof (cases rule: process_cases)
  case (first user tier db1 l)
  show ?thesis by (rule mark_granted_ok [OF first(3) insert_ok [OF first(1) assms(2,3) first(2)]])
qed (use assms(2) mark_granted_ok mark_revoked_ok in blast)+

text \<open>The contract of the authority, spelled out for its tables.\<close>

definition supplied :: "shop_db \<Rightarrow> authority_db \<Rightarrow> bool" where
  "supplied db a \<longleftrightarrow> (authority_ok a \<and> named a) \<and> (\<forall>f\<in>set (sh_fulfillments db). ff_state f \<in> {''granted'', ''revoked''} \<and>
     (\<exists>l. ff_license_id f = Some l \<and> l \<noteq> [] \<and> sold_by_shop a (ff_source_id f) l \<and> (ff_state f = ''revoked'' \<longrightarrow> revoked l a)))"

lemma supplied_bound: "authority.bound db (a, n) = supplied db a"
  unfolding authority.bound_def authority.backed_def supplied_def by simp

lemma process_supplied:
  assumes "shop_process cf env (remote_authority nw) ev db (a, n) = (r, db', (a', n'))" "shop_ok cf db" "supplied db a"
  shows "supplied db' a' \<and> authority_step\<^sup>*\<^sup>* a a'"
  using authority.process_bound [OF assms(1)] assms(2,3) by (simp add: supplied_bound shop_ok_def)

lemma shop_step_keeps:
  assumes "shop_step cf x y" "shop_ok cf (fst x)" "supplied (fst x) (snd x)"
  shows "shop_ok cf (fst y) \<and> supplied (fst y) (snd y) \<and> authority_step\<^sup>*\<^sup>* (snd x) (snd y)"
  using assms
proof cases
  case (step_process env nw ev db a n r db' a' n')
  then show ?thesis using process_supplied [OF step_process(3)] process_ok [OF step_process(3)] assms(2,3) by simp
next
  case (step_events db a rows counts)
  then show ?thesis using assms(2,3) by (simp add: shop_ok_def early_fulfillments_def supplied_def)
next
  case (step_others a a' db)
  then show ?thesis using authority.bound_later [of "(a, 0)" "(a', 0)" db] assms(2,3) by (simp add: supplied_bound r_into_rtranclp)
qed

lemma shop_run_keeps:
  assumes "(shop_step cf)\<^sup>*\<^sup>* x y" "shop_ok cf (fst x)" "supplied (fst x) (snd x)"
  shows "shop_ok cf (fst y) \<and> supplied (fst y) (snd y) \<and> authority_step\<^sup>*\<^sup>* (snd x) (snd y)"
  using assms
proof (induction rule: rtranclp_induct)
  case (step y z)
  then have y: "shop_ok cf (fst y)" "supplied (fst y) (snd y)" "authority_step\<^sup>*\<^sup>* (snd x) (snd y)" by simp_all
  show ?case using shop_step_keeps [OF step(2) y(1,2)] rtranclp_trans [OF y(3)] by simp
qed simp

lemma shop_start: "shop_ok cf empty_shop" "supplied empty_shop empty_authority"
proof -
  show "shop_ok cf empty_shop" by (simp add: shop_ok_def empty_shop_def early_fulfillments_def List.map_filter_def)
  have "named empty_authority" by (simp add: named_def empty_authority_def)
  then show "supplied empty_shop empty_authority" using empty_authority_ok by (simp add: supplied_def empty_shop_def)
qed

lemma shop_reachable:
  assumes "(shop_step cf)\<^sup>*\<^sup>* (empty_shop, empty_authority) (db, a)"
  shows "shop_ok cf db" "supplied db a" "authority_step\<^sup>*\<^sup>* empty_authority a"
  using shop_run_keeps [OF assms] shop_start by simp_all

section \<open>Sales\<close>

lemma map_filter_inj:
  assumes "distinct (List.map_filter k rs)" "x \<in> set rs" "y \<in> set rs" "k x = Some v" "k y = Some v"
  shows "x = y"
proof -
  have "inj_on (the \<circ> k) {x \<in> set rs. k x \<noteq> None}" using assms(1) by (simp add: List.map_filter_def distinct_map)
  then show ?thesis using assms(2-5) by (simp add: inj_on_def)
qed

lemma row_inj: "distinct (map k rs) \<Longrightarrow> x \<in> set rs \<Longrightarrow> y \<in> set rs \<Longrightarrow> k x = k y \<Longrightarrow> x = y"
  by (simp add: distinct_map inj_on_def)

text \<open>
  C35: The shop sells each license once: however workers, retries and lost answers interleave, a payment has one fulfillment, no two
  payments share a license, the license of a fulfillment is the one the authority holds for that payment, and at most fifty fulfillments
  are early ones.
\<close>

theorem shop_sells_once:
  assumes "(shop_step cf)\<^sup>*\<^sup>* (empty_shop, empty_authority) (db, a)"
  shows "early_fulfillments db \<le> 50 \<and>
    (\<forall>f\<in>set (sh_fulfillments db). \<forall>g\<in>set (sh_fulfillments db). ff_payment_id f = ff_payment_id g \<or> ff_license_id f = ff_license_id g \<longrightarrow> f = g) \<and>
    (\<forall>f\<in>set (sh_fulfillments db). \<exists>e. find_entitlement ''whop'' (ff_source_id f) a = Some e \<and> ff_license_id f = Some (xe_license_id e))"
proof -
  note ok = shop_reachable(1,2) [OF assms]
  have rows: "distinct (map ff_payment_id (sh_fulfillments db))" "distinct (List.map_filter ff_license_id (sh_fulfillments db))"
    and early: "early_fulfillments db \<le> 50" using ok(1) by (simp_all add: shop_ok_def SHOP_EARLY_LIMIT_def)
  have held: "\<exists>l. ff_license_id f = Some l \<and> sold_by_shop a (ff_source_id f) l" if "f \<in> set (sh_fulfillments db)" for f
    using ok(2) that unfolding supplied_def by blast
  have "f = g" if "f \<in> set (sh_fulfillments db)" "g \<in> set (sh_fulfillments db)" "ff_payment_id f = ff_payment_id g \<or> ff_license_id f = ff_license_id g" for f g
    using that(3)
  proof
    assume "ff_license_id f = ff_license_id g"
    then show ?thesis using map_filter_inj [OF rows(2) that(1,2)] held [OF that(1)] by auto
  qed (rule row_inj [OF rows(1) that(1,2)])
  then show ?thesis using early held unfolding sold_by_shop_def by blast
qed

section \<open>Refunds\<close>

text \<open>A revoked fulfillment stays revoked, with its license and its order.\<close>

definition ended :: "string \<Rightarrow> string \<Rightarrow> shop_db \<Rightarrow> bool" where
  "ended order_id l db \<longleftrightarrow> (\<exists>f\<in>set (sh_fulfillments db). ff_order_id f = order_id \<and> ff_license_id f = Some l \<and> ff_state f = ''revoked'')"

lemma mark_granted_ended: "mark_granted env i m db = Inr db' \<Longrightarrow> ended order_id l db \<Longrightarrow> ended order_id l db'"
  by (force simp: mark_granted_def ended_def row_update_def Let_def split: if_splits)

lemma mark_revoked_ended:
  assumes "ended order_id l db"
  shows "ended order_id l (mark_revoked env i db)"
proof -
  let ?h = "\<lambda>f. if ff_payment_id f = i then f\<lparr>ff_state := ''revoked'', ff_revoked_at := Some (sx_clock env)\<rparr> else f"
  from assms obtain f where f: "f \<in> set (sh_fulfillments db)" "ff_order_id f = order_id" "ff_license_id f = Some l" "ff_state f = ''revoked''"
    by (auto simp: ended_def)
  have rows: "sh_fulfillments (mark_revoked env i db) = map ?h (sh_fulfillments db)" by (simp add: mark_revoked_def row_update_def)
  have "?h f \<in> set (sh_fulfillments (mark_revoked env i db))" unfolding rows set_map by (rule imageI [OF f(1)])
  moreover have "ff_order_id (?h f) = order_id" "ff_license_id (?h f) = Some l" "ff_state (?h f) = ''revoked''" using f by simp_all
  ultimately show ?thesis unfolding ended_def by blast
qed

lemma insert_ended: "insert_fulfillment f db = Inr db' \<Longrightarrow> ended order_id l db \<Longrightarrow> ended order_id l db'"
  by (auto simp: insert_fulfillment_def ended_def split: if_splits)

lemma process_ended: "shop_process cf env rm ev db s = (r, db', s') \<Longrightarrow> ended order_id l db \<Longrightarrow> ended order_id l db'"
  by (elim process_cases) (auto intro: mark_granted_ended mark_revoked_ended insert_ended)

lemma run_ended: "(shop_step cf)\<^sup>*\<^sup>* x y \<Longrightarrow> ended order_id l (fst x) \<Longrightarrow> ended order_id l (fst y)"
proof (induction rule: rtranclp_induct)
  case (step y z)
  from step(2) show ?case
  proof cases
    case (step_process env nw ev db a n r db' a' n')
    then show ?thesis using step by (auto dest: process_ended)
  qed (use step in \<open>auto simp: ended_def\<close>)
qed

lemma ended_entitlement:
  assumes "ended order_id l db" "shop_ok cf db"
  shows "shop_entitlement cf order_id code db = None"
proof (cases "row_get ff_order_id (sh_fulfillments db) order_id")
  case (Some g)
  obtain f where "f \<in> set (sh_fulfillments db)" "ff_order_id f = order_id" "ff_state f = ''revoked''" using assms(1) by (auto simp: ended_def)
  then have "ff_state g = ''revoked''"
    using row_inj [of ff_order_id "sh_fulfillments db" f g] row_get_Some [OF Some] assms(2) by (auto simp: shop_ok_def)
  then show ?thesis by (simp add: shop_entitlement_def Some)
qed (simp add: shop_entitlement_def)

text \<open>
  C34: A refund in the shop is final: once the worker has recorded it, the license is dead at the authority, so no device activates or gets
  a challenge for it, and its activation key is refused by the shop, whatever workers, buyers and other clients of the authority do
  afterwards.
\<close>

theorem shop_refund_is_final:
  assumes "(shop_step cf)\<^sup>*\<^sup>* (empty_shop, empty_authority) (db, a)" "f \<in> set (sh_fulfillments db)" "ff_state f = ''revoked''"
    "(shop_step cf)\<^sup>*\<^sup>* (db, a) (db', a')"
  shows "\<exists>l. ff_license_id f = Some l \<and> (\<forall>oe c key nonce prf. \<nexists>cert b. activate oe c l key nonce prf a' = Inr (cert, b)) \<and>
    (\<forall>oe key ttl. \<nexists>ch b. issue_activation_challenge oe l key ttl a' = Inr (ch, b)) \<and>
    (\<forall>code. shop_entitlement cf (ff_order_id f) code db' = None)"
proof -
  note ok = shop_reachable(1,2) [OF assms(1)]
  obtain l where l: "ff_license_id f = Some l" "revoked l a" using ok(2) assms(2,3) unfolding supplied_def by blast
  have later: "shop_ok cf db'" "authority_step\<^sup>*\<^sup>* a a'" using shop_run_keeps [OF assms(4)] ok by simp_all
  have "revoked l a'" using l(2) run_keeps(1) [OF later(2)] evolves_revoked by blast
  moreover have "ended (ff_order_id f) l db" using assms(2,3) l(1) by (auto simp: ended_def)
  then have "ended (ff_order_id f) l db'" using run_ended [OF assms(4)] by simp
  ultimately show ?thesis using l(1) revoked_refuses(1,2) ended_entitlement [OF _ later(1)] by blast
qed

section \<open>Activation keys\<close>

lemma sealed_decrypts:
  assumes "sealed cf f" "\<And>n m x. sw_decrypt cf n (sw_encrypt cf n m x) x = Some m"
  obtains code where "decrypt_code cf f = Inr code" "ff_recovery_hash f = sw_sha256 cf code"
  using assms unfolding sealed_def decrypt_code_def by auto

lemma show_licenses_all:
  assumes "\<And>f. f \<in> set fs \<Longrightarrow> \<exists>code. decrypt_code cf f = Inr code"
  shows "\<exists>ls. show_licenses cf fs = Inr ls \<and> list_all2 (\<lambda>f x. by_payment_id x = ff_payment_id f \<and>
     (\<exists>code. decrypt_code cf f = Inr code \<and> by_activation_key x = activation_key (ff_order_id f) code)) fs ls"
  using assms
proof (induction fs)
  case (Cons f fs)
  then obtain code ls where "decrypt_code cf f = Inr code" "show_licenses cf fs = Inr ls" "list_all2 (\<lambda>f x. by_payment_id x = ff_payment_id f \<and>
     (\<exists>code. decrypt_code cf f = Inr code \<and> by_activation_key x = activation_key (ff_order_id f) code)) fs ls" by force
  then show ?case by (auto simp: and_then_def)
qed simp

lemma key_entitles:
  assumes "shop_ok cf db" "f \<in> set (sh_fulfillments db)" "ff_state f = ''granted''" "ff_license_id f = Some l" "l \<noteq> []" "decrypt_code cf f = Inr code"
  shows "shop_entitlement cf (ff_order_id f) code db = Some l"
proof -
  have "row_get ff_order_id (sh_fulfillments db) (ff_order_id f) = Some f"
    using assms(1,2) by (simp add: shop_ok_def row_get_iff)
  moreover have "ff_recovery_hash f = sw_sha256 cf code" using assms(6) by (auto simp: decrypt_code_def split: option.splits if_splits)
  ultimately show ?thesis using assms(3-5) by (simp add: shop_entitlement_def truthy_def)
qed

text \<open>
  C36: What a buyer is shown works: in every reachable state, the list of a verified user has one activation key for each of the user's
  granted purchases and for nothing else, and the order and code in a key are accepted by the activation route for the license of that
  purchase. AES-GCM is assumed to decrypt what it encrypted.
\<close>

theorem buyer_keys_activate:
  assumes "(shop_step cf)\<^sup>*\<^sup>* (empty_shop, empty_authority) (db, a)" "user_id_ok user" "\<And>n m x. sw_decrypt cf n (sw_encrypt cf n m x) x = Some m"
  shows "\<exists>ls fs. list_for_verified_user cf user db = Inr ls \<and> mset fs = mset (filter (\<lambda>f. ff_user_id f = user \<and> ff_state f = ''granted'') (sh_fulfillments db)) \<and>
    list_all2 (\<lambda>f x. by_payment_id x = ff_payment_id f \<and> (\<exists>code. by_activation_key x = activation_key (ff_order_id f) code \<and>
      ff_license_id f \<noteq> None \<and> shop_entitlement cf (ff_order_id f) code db = ff_license_id f)) fs ls"
proof -
  note ok = shop_reachable(1,2) [OF assms(1)]
  let ?fs = "sort_key grant_time (filter (\<lambda>f. ff_user_id f = user \<and> ff_state f = ''granted'') (sh_fulfillments db))"
  have "\<exists>code. decrypt_code cf f = Inr code" if "f \<in> set ?fs" for f
    using sealed_decrypts [OF _ assms(3), of f] ok(1) that by (auto simp: shop_ok_def)
  then obtain ls where ls: "show_licenses cf ?fs = Inr ls" and keys: "list_all2 (\<lambda>f x. by_payment_id x = ff_payment_id f \<and>
     (\<exists>code. decrypt_code cf f = Inr code \<and> by_activation_key x = activation_key (ff_order_id f) code)) ?fs ls"
    using show_licenses_all [of ?fs cf] by blast
  have "\<exists>l. ff_license_id f = Some l \<and> l \<noteq> []" if "f \<in> set ?fs" for f using ok(2) that unfolding supplied_def by auto
  then have "list_all2 (\<lambda>f x. by_payment_id x = ff_payment_id f \<and> (\<exists>code. by_activation_key x = activation_key (ff_order_id f) code \<and>
      ff_license_id f \<noteq> None \<and> shop_entitlement cf (ff_order_id f) code db = ff_license_id f)) ?fs ls"
    using key_entitles [OF ok(1)] by (intro list.rel_mono_strong [OF keys]) fastforce
  moreover have "mset ?fs = mset (filter (\<lambda>f. ff_user_id f = user \<and> ff_state f = ''granted'') (sh_fulfillments db))" by simp
  moreover have "list_for_verified_user cf user db = Inr ls" using ls assms(2) by (simp add: list_for_verified_user_def)
  ultimately show ?thesis by blast
qed

section \<open>The worker\<close>

lemma process_events: "shop_process cf env rm ev db s = (r, db', s') \<Longrightarrow> sh_inbox db' = sh_inbox db \<and> sh_attempts db' = sh_attempts db"
  by (elim process_cases) (auto simp: mark_granted_def mark_revoked_def insert_fulfillment_def Let_def split: if_splits)

lemma finish_row_events: "finish_row row st db = Inr db' \<Longrightarrow> \<exists>i t. db' = db\<lparr>sh_inbox := i, sh_attempts := t\<rparr>"
  by (rule exI [of _ "sh_inbox db'"], rule exI [of _ "sh_attempts db'"]) (auto simp: finish_row_def set_status_def split: if_splits)

lemma failed_row_events: "failed_row cf env row e t db = (t', db') \<Longrightarrow> \<exists>i u. db' = db\<lparr>sh_inbox := i, sh_attempts := u\<rparr>"
  by (rule exI [of _ "sh_inbox db'"], rule exI [of _ "sh_attempts db'"])
    (auto simp: failed_row_def fail_row_def set_status_def Let_def split: if_splits shop_error.splits)

lemma events_step: "\<exists>i t. db' = db\<lparr>sh_inbox := i, sh_attempts := t\<rparr> \<Longrightarrow> shop_step cf (db, a) (db', a)"
  using step_events by blast

lemma handle_row_runs:
  assumes "handle_row cf env (remote_authority nw) row t db (a, n) = (x, db', (a', n'))" "recovery_code_ok (sx_token env)"
  shows "(shop_step cf)\<^sup>*\<^sup>* (db, a) (db', a')"
proof -
  have finish: "(shop_step cf)\<^sup>*\<^sup>* (db1, b) (db2, b)" if "finish_row row st db1 = Inr db2" for st db1 db2 b
    using events_step [OF finish_row_events [OF that]] by blast
  have fail: "(shop_step cf)\<^sup>*\<^sup>* (db1, b) (db2, b)" if "failed_row cf env row e t1 db1 = (t2, db2)" for e t1 t2 db1 db2 b
    using events_step [OF failed_row_events [OF that]] by blast
  show ?thesis
  proof (cases "bt_event_type row \<in> SUPPORTED")
    case False
    then show ?thesis using assms(1) by (auto simp: handle_row_def Let_def split: sum.splits intro: finish)
  next
    case True
    show ?thesis
    proof (cases "parse_event cf (bt_webhook_id row) (bt_event_type row) (bt_payload row) (bt_payload_sha256 row)")
      case (Inl e)
      then show ?thesis using assms(1) True by (auto simp: handle_row_def Let_def split: prod.splits intro: fail)
    next
      case (Inr ev)
      obtain r db1 b m where p: "shop_process cf env (remote_authority nw) ev db (a, n) = (r, db1, (b, m))" by (metis prod_cases3 surj_pair)
      have "(shop_step cf)\<^sup>*\<^sup>* (db, a) (db1, b)" using step_process [OF p assms(2)] by blast
      moreover have "(shop_step cf)\<^sup>*\<^sup>* (db1, b) (db', a')"
        using assms(1) True Inr p by (auto simp: handle_row_def Let_def split: prod.splits sum.splits intro: fail finish)
      ultimately show ?thesis by (rule rtranclp_trans)
    qed
  qed
qed

lemma handle_rows_runs:
  assumes "handle_rows cf env (remote_authority nw) k rows t db (a, n) = (x, db', (a', n'))" "\<And>j. recovery_code_ok (sx_token (env j))"
  shows "(shop_step cf)\<^sup>*\<^sup>* (db, a) (db', a')"
  using assms(1)
proof (induction rows arbitrary: k t db a n)
  case (Cons row rows)
  obtain y db1 b m where h: "handle_row cf (env k) (remote_authority nw) row t db (a, n) = (y, db1, (b, m))" by (metis prod_cases3 surj_pair)
  note run = handle_row_runs [OF h assms(2)]
  show ?case
  proof (cases y)
    case (Inl e)
    then show ?thesis using Cons.prems h run by simp
  next
    case (Inr t1)
    then have "(shop_step cf)\<^sup>*\<^sup>* (db1, b) (db', a')" using Cons.prems h by (intro Cons.IH) simp
    then show ?thesis by (rule rtranclp_trans [OF run])
  qed
qed simp

text \<open>Whatever a batch does over whatever network is a sequence of the steps above, so the guarantees hold between and after batches.\<close>

lemma run_once_runs:
  assumes "run_once cf env (remote_authority nw) limit db (a, n) = (x, db', (a', n'))" "\<And>j. recovery_code_ok (sx_token (env j))"
  shows "(shop_step cf)\<^sup>*\<^sup>* (db, a) (db', a')"
  using assms(1) handle_rows_runs [OF _ assms(2)] by (auto simp: run_once_def split: if_splits)

lemma set_status_settles:
  assumes "r \<in> set (sh_inbox db)" "still_pending row r"
  shows "\<exists>q\<in>set (sh_inbox (set_status row st db)). ib_webhook_id q = bt_webhook_id row \<and> ib_status q = st"
proof -
  have "sh_inbox (set_status row st db) = map (\<lambda>r. if still_pending row r then r\<lparr>ib_status := st\<rparr> else r) (sh_inbox db)" by (simp add: set_status_def)
  then have "r\<lparr>ib_status := st\<rparr> \<in> set (sh_inbox (set_status row st db))" using assms by (auto intro!: image_eqI [of _ _ r])
  then show ?thesis using assms(2) by (intro bexI [of _ "r\<lparr>ib_status := st\<rparr>"]) (simp_all add: still_pending_def)
qed

lemma one_pending:
  assumes "distinct (map ib_webhook_id (sh_inbox db))" "r \<in> set (sh_inbox db)" "still_pending row r"
  shows "length (filter (still_pending row) (sh_inbox db)) = 1"
proof -
  let ?qs = "filter (still_pending row) (sh_inbox db)"
  have "distinct (map ib_webhook_id ?qs)" using assms(1) by (rule distinct_map_filter)
  then have "length ?qs = card (ib_webhook_id ` set ?qs)" by (metis distinct_card length_map list.set_map)
  also have "ib_webhook_id ` set ?qs = {bt_webhook_id row}" using assms(2,3) by (auto simp: still_pending_def)
  finally show ?thesis by simp
qed

lemma fail_row_counts: "\<exists>c. get_attempt (fail_row cf env row e p db) (bt_webhook_id row) = Some c \<and> at_attempts c = bt_attempts row + 1"
  by (auto simp: fail_row_def get_attempt_def set_status_def Let_def row_get_append row_get_single row_get_update split: option.splits)

lemma failed_row_settles:
  assumes "failed_row cf env row e t db = (t', db')" "r \<in> set (sh_inbox db)" "still_pending row r"
  shows "(\<exists>r\<in>set (sh_inbox db'). ib_webhook_id r = bt_webhook_id row \<and> ib_status r \<in> {''processed'', ''rejected''}) \<or>
    (\<exists>c. get_attempt db' (bt_webhook_id row) = Some c \<and> at_attempts c = bt_attempts row + 1 \<and> at_attempts c < sw_max_attempts cf)"
proof -
  consider "db' = fail_row cf env row e True db" | "db' = fail_row cf env row e False db" "bt_attempts row + 1 < sw_max_attempts cf"
    using assms(1) by (auto simp: failed_row_def split: shop_error.splits if_splits)
  then show ?thesis
  proof cases
    case 1
    then obtain db1 where "db' = set_status row ''rejected'' db1" "sh_inbox db1 = sh_inbox db" by (auto simp: fail_row_def Let_def)
    then show ?thesis using set_status_settles [of r db1 row "''rejected''"] assms(2,3) by auto
  next
    case 2
    then show ?thesis using fail_row_counts [of cf env row e False db] by auto
  qed
qed

text \<open>
  C37: No event is retried forever: handling an event of a batch either settles it, as processed or rejected, or records one more failed
  attempt, and the attempts recorded for an event that stays pending are fewer than the limit.
\<close>

theorem shop_event_settles:
  assumes "distinct (map ib_webhook_id (sh_inbox db))" "row \<in> set (due_batch t limit db)" "handle_row cf env rm row ta db s = (x, db', s')"
  shows "(\<exists>r\<in>set (sh_inbox db'). ib_webhook_id r = bt_webhook_id row \<and> ib_status r \<in> {''processed'', ''rejected''}) \<or>
    (\<exists>c. get_attempt db' (bt_webhook_id row) = Some c \<and> at_attempts c = bt_attempts row + 1 \<and> at_attempts c < sw_max_attempts cf)"
proof -
  obtain r where r: "r \<in> set (sh_inbox db)" "still_pending row r"
    using assms(2) by (auto simp: due_batch_def still_pending_def due_now_def dest!: in_set_takeD)
  have "(\<exists>e t1 t2 db1. failed_row cf env row e t1 db1 = (t2, db') \<and> sh_inbox db1 = sh_inbox db) \<or>
      (\<exists>db1 st. finish_row row ''processed'' db1 = st \<and> sh_inbox db1 = sh_inbox db \<and> (st = Inr db' \<or> (\<exists>e. st = Inl e)))"
    using assms(3) by (auto simp: handle_row_def Let_def split: if_splits sum.splits prod.splits dest!: process_events)
  then show ?thesis
  proof (elim disjE exE conjE)
    fix e t1 t2 db1
    assume "failed_row cf env row e t1 db1 = (t2, db')" "sh_inbox db1 = sh_inbox db"
    then show ?thesis using failed_row_settles [of cf env row e t1 db1 t2 db' r] r by simp
  next
    fix db1 st
    assume db1: "finish_row row ''processed'' db1 = st" "sh_inbox db1 = sh_inbox db" and "st = Inr db'"
    then have "sh_inbox db' = sh_inbox (set_status row ''processed'' db1)" by (auto simp: finish_row_def split: if_splits)
    then show ?thesis using set_status_settles [of r db1 row "''processed''"] r db1(2) by auto
  next
    fix db1 st e
    assume "finish_row row ''processed'' db1 = st" "sh_inbox db1 = sh_inbox db" "st = Inl e"
    then show ?thesis using one_pending [OF assms(1) r] by (auto simp: finish_row_def split: if_splits)
  qed
qed

end
