(* ===== verification/Shop_Scenario.thy ===== *)
theory Shop_Scenario
  imports Shop_Guarantees
begin

text \<open>A purchase and its refund, over a network without losses and with concrete parameters; the guarantees are exercised on it.\<close>

section \<open>The run\<close>

definition shop_cf :: shop_config where
  "shop_cf = \<lparr>sw_sha256 = (\<lambda>_. replicate 64 CHR ''0''), sw_list_digest = (\<lambda>_. ''digest''), sw_loads = (\<lambda>_. Not_Json),
     sw_casefold = (\<lambda>s. s), sw_decimal = (\<lambda>_. None), sw_decimal_text = (\<lambda>_. ''10''), sw_parse_utc = (\<lambda>_. Some 0), sw_isoformat = (\<lambda>_. ''t''),
     sw_encrypt = (\<lambda>_ m _. m), sw_decrypt = (\<lambda>_ c _. Some c), sw_max_attempts = 8\<rparr>"

definition shop_world :: shop_env where
  "shop_world = \<lparr>sx_clock = 0, sx_uuid = ''order'', sx_token = replicate 32 CHR ''c'', sx_nonce = ''n''\<rparr>"

definition shop_net :: network where
  "shop_net = \<lparr>nw_outside = (\<lambda>_. sample_outside 0 CHR ''a''), nw_ceremony = (\<lambda>_. sample_ceremony), nw_fate = (\<lambda>_. Answered), nw_meanwhile = (\<lambda>_. quiet)\<rparr>"

definition pay_event :: shop_event where
  "pay_event = \<lparr>sv_webhook_id = ''evt1'', sv_event_type = ''payment.succeeded'', sv_payment_id = ''pay1'', sv_company_id = COMPANY_ID,
     sv_product_id = ''prod_PvObOc5wfatCY'', sv_plan_id = ''plan_rjuSiGxXCweMF'', sv_currency = ''USD'', sv_amount = (1000, -2), sv_status = ''succeeded'',
     sv_occurred_at = ''t'', sv_payload_sha256 = replicate 64 CHR ''0'', sv_user_id = Some ''buyer''\<rparr>"

definition refund_event :: shop_event where
  "refund_event = pay_event\<lparr>sv_webhook_id := ''evt2'', sv_event_type := ''refund.created'', sv_status := ''refunded'', sv_user_id := None\<rparr>"

definition work :: "shop_event \<Rightarrow> shop_db \<times> authority_db \<Rightarrow> string outcome \<times> shop_db \<times> far" where
  "work ev st = shop_process shop_cf shop_world (remote_authority shop_net) ev (fst st) (snd st, 0)"

definition left :: "'a \<times> shop_db \<times> far \<Rightarrow> shop_db \<times> authority_db" where
  "left r = (fst (snd r), fst (snd (snd r)))"

definition bought :: "shop_db \<times> authority_db" where
  "bought = left (work pay_event (empty_shop, pinned_authority))"

definition refunded :: "shop_db \<times> authority_db" where
  "refunded = left (work refund_event bought)"

lemma work_step: "shop_step shop_cf st (left (work ev st))"
proof -
  have "recovery_code_ok (sx_token shop_world)" by code_simp
  moreover obtain r db' a' n' where "work ev st = (r, db', a', n')" by (metis prod_cases4)
  ultimately show ?thesis using step_process [of shop_cf shop_world shop_net ev "fst st" "snd st" 0 r db' a' n'] by (simp add: work_def left_def)
qed

lemma start_reachable: "(shop_step cf)\<^sup>*\<^sup>* (empty_shop, empty_authority) (empty_shop, pinned_authority)"
  unfolding pinned_authority_def by (rule r_into_rtranclp, rule step_others, rule step_pins)

lemma bought_reachable: "(shop_step shop_cf)\<^sup>*\<^sup>* (empty_shop, empty_authority) bought"
  unfolding bought_def by (rule rtranclp.rtrancl_into_rtrancl [OF start_reachable work_step])

lemma refunded_reachable: "(shop_step shop_cf)\<^sup>*\<^sup>* (empty_shop, empty_authority) refunded"
  unfolding refunded_def by (rule rtranclp.rtrancl_into_rtrancl [OF bought_reachable work_step])

lemma demo_states:
  "map (\<lambda>f. (ff_state f, ff_tier f, ff_user_id f)) (sh_fulfillments (fst bought)) = [(''granted'', ''early'', ''buyer'')] \<and>
   map ff_state (sh_fulfillments (fst refunded)) = [''revoked'']"
  by code_simp

section \<open>Witnesses\<close>

theorem shop_sells_once_witness:
  "\<exists>f e. sh_fulfillments (fst bought) = [f] \<and> early_fulfillments (fst bought) \<le> 50 \<and> find_entitlement ''whop'' (ff_source_id f) (snd bought) = Some e \<and>
     ff_license_id f = Some (xe_license_id e)"
proof -
  obtain f where f: "sh_fulfillments (fst bought) = [f]" using demo_states by (auto simp: map_eq_Cons_conv)
  show ?thesis using shop_sells_once [of shop_cf "fst bought" "snd bought"] bought_reachable f by auto
qed

theorem shop_refund_is_final_witness:
  "\<exists>f l. f \<in> set (sh_fulfillments (fst refunded)) \<and> ff_license_id f = Some l \<and>
     (\<forall>oe c key nonce prf. \<nexists>cert b. activate oe c l key nonce prf (snd refunded) = Inr (cert, b)) \<and>
     (\<forall>code. shop_entitlement shop_cf (ff_order_id f) code (fst refunded) = None)"
proof -
  obtain f where f: "f \<in> set (sh_fulfillments (fst refunded))" "ff_state f = ''revoked''" using demo_states by (auto simp: map_eq_Cons_conv)
  show ?thesis
    using shop_refund_is_final [of shop_cf "fst refunded" "snd refunded" f "fst refunded" "snd refunded"] refunded_reachable f by auto
qed

theorem buyer_keys_activate_witness:
  "\<exists>x (f :: fulfillment) code. list_for_verified_user shop_cf ''buyer'' (fst bought) = Inr [x] \<and> by_activation_key x = activation_key (ff_order_id f) code \<and>
     ff_license_id f \<noteq> None \<and> shop_entitlement shop_cf (ff_order_id f) code (fst bought) = ff_license_id f"
proof -
  obtain f where f: "sh_fulfillments (fst bought) = [f]" "ff_state f = ''granted''" "ff_user_id f = ''buyer''" using demo_states by (auto simp: map_eq_Cons_conv)
  have user: "user_id_ok ''buyer''" by code_simp
  have "sw_decrypt shop_cf n (sw_encrypt shop_cf n m x) x = Some m" for n m x by (simp add: shop_cf_def)
  then obtain ls fs where ls: "list_for_verified_user shop_cf ''buyer'' (fst bought) = Inr ls" "mset fs = {#f#}"
    "list_all2 (\<lambda>f x. by_payment_id x = ff_payment_id f \<and> (\<exists>code. by_activation_key x = activation_key (ff_order_id f) code \<and>
      ff_license_id f \<noteq> None \<and> shop_entitlement shop_cf (ff_order_id f) code (fst bought) = ff_license_id f)) fs ls"
    using buyer_keys_activate [of shop_cf "fst bought" "snd bought" "''buyer''"] bought_reachable user f by auto
  then have "fs = [f]" by simp
  then obtain x code where "ls = [x]" "by_activation_key x = activation_key (ff_order_id f) code" "ff_license_id f \<noteq> None"
    "shop_entitlement shop_cf (ff_order_id f) code (fst bought) = ff_license_id f" using ls(3) by (auto simp: list_all2_Cons1)
  then show ?thesis using ls(1) by blast
qed

definition noise :: shop_db where
  "noise = empty_shop\<lparr>sh_inbox := [\<lparr>ib_webhook_id = ''evt'', ib_event_type = ''refund.created'', ib_payload_sha256 = replicate 64 CHR ''0'',
     ib_payload = ''?'', ib_status = ''verified_pending''\<rparr>]\<rparr>"

theorem shop_event_settles_witness:
  "\<exists>row db'. due_batch 0 25 noise = [row] \<and> db' = fst (snd (handle_row shop_cf shop_world (remote_authority shop_net) row no_tally noise (pinned_authority, 0))) \<and>
     ((\<exists>r\<in>set (sh_inbox db'). ib_webhook_id r = bt_webhook_id row \<and> ib_status r \<in> {''processed'', ''rejected''}) \<or>
      (\<exists>c. get_attempt db' (bt_webhook_id row) = Some c \<and> at_attempts c = bt_attempts row + 1 \<and> at_attempts c < 8))"
proof -
  have "length (due_batch 0 25 noise) = 1" by code_simp
  then obtain row where row: "due_batch 0 25 noise = [row]" by (auto simp: length_Suc_conv)
  obtain x db' s' where h: "handle_row shop_cf shop_world (remote_authority shop_net) row no_tally noise (pinned_authority, 0) = (x, db', s')"
    by (rule prod_cases3)
  have "distinct (map ib_webhook_id (sh_inbox noise))" by (simp add: noise_def)
  from shop_event_settles [OF this _ h, of 0 25] row show ?thesis by (simp add: h) (simp add: shop_cf_def)
qed

end
