(* ===== verification/Spec2Isabelle.thy ===== *)
theory Spec2Isabelle
  imports System Subtree_View Rate_Limit Markdown_Export Authority_Promises Desktop_Entitlement Payments_Settlement_Run Payments_Boundary Payments_Sidecar Shop_Scenario
begin

text \<open>
  \<^bold>\<open>A verification of the GrowthMap backend\<close>

  GrowthMap keeps projects as trees of ideas. The Python backend (\<open>src/src/backend\<close>) serves them over HTTP from a relational
  database, lets language models and external agents work on them under human control, and comes with a license authority for its
  desktop edition; a payments service (\<open>src/services/payments\<close>) sells the licenses. This development translates that code into HOL, handler by handler, and proves what clients rely on.

  \<^bold>\<open>Parts and theories.\<close>
  \<^item> \<open>Prelude\<close>: errors and results, JSON, the three-way value of a PATCH field, tables of rows (locale \<open>table\<close>).
  \<^item> \<open>Database\<close>, \<open>Integrity\<close>, \<open>Ownership\<close>: \<open>models/models.py\<close> and \<open>db/schema_contract.py\<close>. Rows are records, tables are lists of rows in one
    record \<open>db\<close>; statements check keys, references, \<open>ON DELETE\<close> actions and the one-mainline-child index.
  \<^item> \<open>Revisions\<close>: \<open>api/revisions.py\<close>, the compare-and-swap of a project (\<open>claim_project_revision\<close>) and the collector of touched rows; locales
    \<open>revisioned\<close> and \<open>cas_handler\<close> are the contracts every editing handler is an interpretation of.
  \<^item> \<open>Projects\<close>, \<open>Nodes\<close>, \<open>Maturity\<close>, \<open>Edges\<close>, \<open>Blocks\<close>, \<open>Governance\<close>, \<open>Branching\<close>, \<open>Branches\<close>, \<open>Subtree_Delete\<close>, \<open>Subtree_Owned\<close>,
    \<open>Subtree_View\<close>, \<open>Agents\<close>, \<open>Json_Transfer\<close>, \<open>Markdown_Export\<close>, \<open>Providers\<close>: the handlers of \<open>api/routes.py\<close> with their bodies in
    \<open>models/schemas.py\<close> and \<open>api/branching.py\<close>, under the names they have there.
  \<^item> \<open>Agent_Scope\<close>, \<open>Agent_Batch\<close>, \<open>Agent_Safety\<close>, \<open>Agent_Port\<close>, \<open>Agent_Control\<close>, \<open>Rate_Limit\<close>: the port for external agents
    (\<open>agent_port/service.py\<close>, \<open>agent_port/routes.py\<close>): scopes of grants, atomic batches, proposals, tokens.
  \<^item> \<open>Ai_Growth\<close>: \<open>ai/routes.py\<close>, \<open>ai/context.py\<close>, \<open>ai/providers\<close>.
  \<^item> \<open>System\<close>: all of these as one step relation (\<open>api_step\<close>).
  \<^item> \<open>Signer_Ceremony\<close>, \<open>License_Authority\<close>, \<open>Entitlement_Inbox\<close>, \<open>Authority_Seats\<close>, \<open>Authority_Promises\<close>: \<open>licensing/authority.py\<close>,
    \<open>licensing/signer_ceremony.py\<close>, \<open>licensing/gift_service.py\<close>: licenses, gifts, activation, purchases, rotation of the signing key;
    \<open>authority_step\<close> is its step relation.
  \<^item> \<open>Desktop_Entitlement\<close>: \<open>desktop/entitlements.py\<close>, what an installation may do with the files it has.
  \<^item> \<open>Payments_Ledger\<close>, \<open>Payments_Orders\<close>, \<open>Payments_Outbox\<close>, \<open>Payments_Whop\<close>: \<open>growthmap_payments/service.py\<close> over the tables and triggers of its
    migrations: orders and quotes, settlement of payments, delivery to the authority over an outbox with leases and fences, refunds and
    revocations, events of the shop, the audit chain and the checkpoint kept outside the database. \<open>Payments_Start\<close>: its start (\<open>_init\<close>), with the
    ledger of migrations and what each migration does to the rows. \<open>Payments_Safety\<close> and
    \<open>Payments_Promises\<close> carry the invariant through every statement and transaction, \<open>Payments_Guarantees\<close> states what follows for every run
    (\<open>pay_step\<close>, and \<open>service_step\<close> for a service that is stopped and started), \<open>Payments_Scenario\<close> evaluates a run.
  \<^item> \<open>Payments_Finality\<close>, \<open>Payments_Chain\<close>: \<open>finality.py\<close> and \<open>base_finality.py\<close>, the observer of the Base chain and the reconcilers that check its
    authenticated reports against an intent. \<open>Payments_Settlement\<close> states the contract of both reconcilers as the locale \<open>finality_envelope\<close>,
    interprets it for each, and follows a confirmed order back to the chain; \<open>Payments_Settlement_Run\<close> evaluates such a payment.
    \<open>Payments_Sidecar\<close>: \<open>sidecar_server.py\<close> and \<open>unix_transport.py\<close>, the private processes that hold the keys.
  \<^item> \<open>Payments_Facilitator\<close>, \<open>Payments_Ingress\<close>, \<open>Payments_Api\<close>: \<open>facilitator.py\<close>, \<open>whop.py\<close> and \<open>api.py\<close>, the boundary to the x402 facilitator, to
    the webhooks of the shop and to HTTP clients; \<open>Payments_Boundary\<close> has its promises.
  \<^item> \<open>Shop_Fulfillment\<close>: \<open>whop_fulfillment.py\<close> and \<open>whop_buyer_api.py\<close>, the worker that turns stored shop events into licenses and revocations and
    the store buyers read. \<open>Shop_Authority\<close> states what the worker needs of the authority as the locale \<open>entitlement_service\<close> and interprets
    it by \<open>Entitlement_Inbox\<close> behind a network that loses requests and answers; \<open>Shop_Guarantees\<close> has the joint runs (\<open>shop_step\<close>),
    \<open>Shop_Scenario\<close> a purchase with its refund.
  \<^item> \<open>Samples\<close>: the concrete database on which the witnesses evaluate.

  \<^bold>\<open>Correspondence.\<close> A handler is a function from an environment (clock, fresh identifiers, desktop mode), its arguments and the database
  to \<open>Inl error\<close> or \<open>Inr (response, database)\<close>. One call is one transaction: an error leaves the database as it was, as the code's rollback
  does; calls interleave as steps of \<open>System\<close>. An \<open>HTTPException\<close> carries status and detail; exceptions the code does not catch (\<open>TypeError\<close>,
  \<open>IntegrityError\<close>, several rows for \<open>scalar_one_or_none\<close>) are error values of their own. Loops over work lists are functions with a
  termination proof (the measure counts nodes not seen yet); \<open>get_mainline_path\<close> and the ancestors of an agent's context may run forever
  in the code and are partial functions into \<open>option\<close>. The recursion of \<open>get_branch_subtree\<close> takes fuel, and the number of nodes of the branch is
  proved to be enough on acyclic graphs. Python integers are \<open>int\<close>, floats are rationals, timestamps are microseconds.

  \<^bold>\<open>What is shown.\<close>
  \<^item> Type and invariants: no run of requests breaks keys, references, mainline or ownership; equal revisions mean equal graphs; a reparent
    keeps the tree; sessions follow their transition table; signers rotate one generation at a time.
  \<^item> Equivalence and refinement: subtree validation decides \<open>owned_tree\<close>, work lists compute the transitive closure, the pruned queues of the
    rate limit refine a sliding window.
  \<^item> Function: deep copies, block order, subtree deletion, merges, approval, tree views, exports, batches and their replay.
  \<^item> Round trips: export and import, the \<open>.env\<close> writer, provider secrets, repeated activations.
  \<^item> Safety of grants and licenses: agents stay in scope, revocation is final, seats are never oversold, a revoked license stays dead, a
    rotated key closes old challenges, the desktop application fails closed.
  \<^item> Money: at most fifty early prices, no delivered license of a refunded order without its revocation, no crossing after a refund, an
    audit chain that verifies; rows changed behind the service stop it for good, starts included, as long as the schema version is current. An order is confirmed by one final transfer that
    confirms no other, never by the word of the facilitator; guesses at the administrator's credentials are limited. In the shop: one license per payment, refunds that end
    the license at the authority, activation keys that work, events that are not retried forever.
  \<^item> Faults: \<open>move_node_accepts_itself\<close>, \<open>create_edge_can_hang_mainline_path\<close>, \<open>deleting_assigned_node_widens_session\<close>,
    \<open>settlement_revives_reversed_order\<close>, \<open>downgrade_accepts_changed_ledger\<close> (a start that migrates publishes a new checkpoint before the old one is
    verified) and lemmas named in the
    component theories (a merge can create a cycle, a null status passes the seat limit, an event key blocks an approval, a JSON array as
    license file is an unhandled exception).

  \<^bold>\<open>Parameters.\<close> Cryptography (scrypt, SHA-256, Ed25519, base64), random values, clocks, HTTP transport, language models and JSON parsing of
  their answers are arguments of the definitions that use them; what a theorem needs of them is a hypothesis of it.

  \<^bold>\<open>Not modelled.\<close> Processes, sockets and files: \<open>main.py\<close>, \<open>db/database.py\<close>, its migrations and backups, the desktop start-up and maintenance code,
  the HTTP shells of the authority (\<open>authority_api.py\<close>, \<open>authority_service.py\<close>, \<open>authority_composition.py\<close>, \<open>gift_api.py\<close>), \<open>pem_signer.py\<close>.
  Of the payments service: the password hash of the administrator, operator commands and backups, the gift bridge with its HTTP client of
  the authority, and process composition.
\<close>

section \<open>Properties of the whole application\<close>

text \<open>
  C1: Whatever requests are served, in whatever order, from an empty database: in each of the fifteen tables primary keys stay
  unique, and so do token prefixes and the idempotency keys of a grant; every foreign key points at a row (receipts, proposals, events and readbacks at
  their grant and project, suggestions at their project and node, and so on); at most one child of a node is on the mainline; and projects own their
  graph (edges join nodes of their own project, nodes lie on branches of their own project, root nodes belong to their project).
\<close>

theorem served_requests_keep_integrity:
  assumes "(api_step hash_secret dg)\<^sup>*\<^sup>* empty_db db"
  shows "schema_ok db \<and> ownership_ok db"
  using api_run_ok [OF assms ok_empty] by (simp add: db_ok_def)

text \<open>Three requests: a project, a grant for it, and an event the agent records.\<close>

definition first_project :: "(project \<times> db) result" where
  "first_project = create_project control_env \<lparr>cp_name = ''plan'', cp_description = [], cp_goal = [], cp_settings = JObj []\<rparr> empty_db"

definition first_grant :: "project \<Rightarrow> db \<Rightarrow> ((agent_grant \<times> string) \<times> db) result" where
  "first_grant p = create_grant control_env \<lparr>en_prefixes = [''abcdef''], en_secret = ''secret'', en_salt = ''salt''\<rparr> sample_hash
     \<lparr>gc_project_id = p_id p, gc_permission = ''propose'', gc_node_scope_id = None, gc_branch_root_id = None, gc_expires_at = 86400,
      gc_label = [], gc_agent_identity = ''agent''\<rparr>"

lemma case_run: "(case r of Inl _ \<Rightarrow> False | Inr (a, b) \<Rightarrow> P a b) \<Longrightarrow> \<exists>a b. r = Inr (a, b) \<and> P a b"
  by (simp split: sum.splits prod.splits)

theorem served_requests_keep_integrity_witness:
  "\<exists>db. (api_step sample_hash sample_digest)\<^sup>*\<^sup>* empty_db db \<and> length (projects db) = 1 \<and> length (agent_grants db) = 1 \<and>
     length (agent_events db) = 1 \<and> length (agent_receipts db) = 1 \<and> schema_ok db \<and> ownership_ok db"
proof -
  have "case first_project of Inl _ \<Rightarrow> False | Inr (p, db1) \<Rightarrow>
      (case first_grant p db1 of Inl _ \<Rightarrow> False | Inr (gt, db2) \<Rightarrow>
      (case event control_env sample_digest (fst gt) sample_event db2 of Inl _ \<Rightarrow> False | Inr (_, db) \<Rightarrow>
        length (projects db) = 1 \<and> length (agent_grants db) = 1 \<and> length (agent_events db) = 1 \<and> length (agent_receipts db) = 1))"
    by code_simp
  then obtain p db1 g token db2 answer db where runs: "first_project = Inr (p, db1)" "first_grant p db1 = Inr ((g, token), db2)"
      "event control_env sample_digest g sample_event db2 = Inr (answer, db)"
    and len: "length (projects db) = 1" "length (agent_grants db) = 1" "length (agent_events db) = 1" "length (agent_receipts db) = 1"
    by (auto dest!: case_run)
  have "api_step sample_hash sample_digest empty_db db1" "api_step sample_hash sample_digest db1 db2"
      "api_step sample_hash sample_digest db2 db"
    using runs unfolding first_project_def first_grant_def by (blast intro: api_step.intros project_set_step.intros port_step.intros)+
  then have "(api_step sample_hash sample_digest)\<^sup>*\<^sup>* empty_db db" by (blast intro: rtranclp.intros)
  then show ?thesis using served_requests_keep_integrity [of sample_hash sample_digest db] len by blast
qed

text \<open>
  C2: Revisions tell clients all they need: in any run of requests that creates and removes no project, revisions never go
  back, and if every project has the revision it had before, then its nodes, edges, blocks and branches and the project rows
  are exactly as they were.
\<close>

theorem equal_revisions_equal_graphs:
  assumes "(edit_step hash_secret dg)\<^sup>*\<^sup>* db db'" "db_ok db"
  shows "(\<forall>pid r. project_revision db pid = Some r \<longrightarrow> (\<exists>s \<ge> r. project_revision db' pid = Some s)) \<and>
    (project_revision db' = project_revision db \<longrightarrow> projects db' = projects db \<and> graph db' = graph db)"
  using edit_run_grows [OF assms] by (auto simp: grown_def revisions_le_def same_graph_def)

theorem equal_revisions_equal_graphs_witness:
  "\<exists>db'. edit_step (\<lambda>_ _. []) sample_digest sample_db db' \<and> db_ok sample_db \<and> project_revision db' = project_revision sample_db \<and>
     db' \<noteq> sample_db \<and> graph db' = graph sample_db"
proof -
  let ?data = "\<lparr>cv_name = ''p'', cv_provider_type = ''openai_compatible'', cv_endpoint = [], cv_secret_env_key = ''GROWTHMAP_LLM_KEY_MAIN'',
    cv_model_name = ''m'', cv_capabilities = [], cv_cost_level = ''low'', cv_enabled = True\<rparr>"
  have "case create_provider sample_env ?data sample_db of
      Inl _ \<Rightarrow> False | Inr (_, db) \<Rightarrow> length (provider_configs db) \<noteq> length (provider_configs sample_db)" by code_simp
  then obtain p db' where run: "create_provider sample_env ?data sample_db = Inr (p, db')" and new: "db' \<noteq> sample_db"
    by (auto split: sum.splits)
  have same: "same_graph sample_db db'" using run by (rule provider_same_graph)
  have step: "edit_step (\<lambda>_ _. []) sample_digest sample_db db'"
    using run same by (auto simp: edit_step_def same_graph_def intro: api_records record_step.intros)
  then have "(edit_step (\<lambda>_ _. []) sample_digest)\<^sup>*\<^sup>* sample_db db'" by (rule r_into_rtranclp)
  then show ?thesis
    using equal_revisions_equal_graphs [of "\<lambda>_ _. []" sample_digest sample_db db'] step new same_graph_revision [OF same] sample_ok by blast
qed

end
